(* ===== verification/Prelude.thy ===== *)
theory Prelude
  imports "HOL-Library.Word"
begin

text \<open>
  The shared ground of the development: the machine-integer types the sources use, the
  collections that carry the component proofs, and the generic facts on numbers and words
  that several components need.
\<close>

unbundle bit_operations_syntax

type_synonym u8 = "8 word"
type_synonym u32 = "32 word"
type_synonym u64 = "64 word"

text \<open>
  \<open>v2_defs\<close> collects the definitions of the accessors that every stencil goes through,
  \<open>v2_blind\<close> the rules for work outside the learning region.
\<close>

named_theorems v2_defs "accessors shared by the stencils"
named_theorems v2_blind "work that does not touch the learning region"

subsection \<open>Binary length of a natural number\<close>

fun nbits :: "nat \<Rightarrow> nat" where
  "nbits n = (if n = 0 then 0 else Suc (nbits (n div 2)))"

declare nbits.simps [simp del]

lemma nbits_0 [simp]: "nbits 0 = 0"
  by (simp add: nbits.simps)

lemma nbits_double: "0 < n \<Longrightarrow> nbits (2 * n) = Suc (nbits n)"
  by (subst nbits.simps) simp

lemma nbits_mult_pow: "0 < n \<Longrightarrow> nbits (n * 2 ^ k) = nbits n + k"
proof (induction k)
  case (Suc k)
  have "nbits (n * 2 ^ Suc k) = nbits (2 * (n * 2 ^ k))"
    by (simp add: algebra_simps)
  with Suc show ?case by (simp add: nbits_double)
qed simp

lemma nbits_le: "n < 2 ^ b \<Longrightarrow> nbits n \<le> b"
proof (induction n arbitrary: b rule: nbits.induct)
  case (1 n)
  show ?case
  proof (cases "n = 0")
    case False
    with "1.prems" obtain c where b: "b = Suc c" by (cases b) auto
    with "1.prems" have "n div 2 < 2 ^ c" by auto
    with "1.IH" False have "nbits (n div 2) \<le> c" by blast
    with False b show ?thesis by (simp add: nbits.simps [of n])
  qed simp
qed

lemma nbits_ge: "2 ^ b \<le> n \<Longrightarrow> b < nbits n"
proof (induction n arbitrary: b rule: nbits.induct)
  case (1 n)
  then have n: "n \<noteq> 0" by (metis not_numeral_le_zero le_zero_eq power_not_zero zero_neq_numeral)
  show ?case
  proof (cases b)
    case 0
    with n show ?thesis by (simp add: nbits.simps [of n])
  next
    case (Suc c)
    with "1.prems" have "2 ^ c \<le> n div 2" by auto
    with "1.IH" n have "c < nbits (n div 2)" by blast
    with Suc n show ?thesis by (simp add: nbits.simps [of n])
  qed
qed

lemma nbits_eq: "2 ^ b \<le> n \<Longrightarrow> n < 2 ^ Suc b \<Longrightarrow> nbits n = Suc b"
  using nbits_le [of n "Suc b"] nbits_ge [of b n] by simp

lemma nbits_lower: "0 < n \<Longrightarrow> 2 ^ (nbits n - 1) \<le> n"
proof (rule ccontr)
  assume "0 < n" and "\<not> 2 ^ (nbits n - 1) \<le> n"
  then have "nbits n \<le> nbits n - 1" by (intro nbits_le) simp
  moreover have "0 < nbits n" using \<open>0 < n\<close> by (simp add: nbits.simps [of n])
  ultimately show False by simp
qed

lemma nbits_upper: "n < 2 ^ nbits n"
  using nbits_ge [of "nbits n" n] by fastforce

subsection \<open>Words of 32 and 64 bits\<close>

lemma unat32_less: "unat (i :: u32) < 2 ^ 32"
  using unsigned_less [of i, where ?'a = nat] by simp

lemma unat64_less: "unat (i :: u64) < 2 ^ 64"
  using unsigned_less [of i, where ?'a = nat] by simp

lemma unat_ucast64 [simp]: "unat (ucast (i :: u32) :: u64) = unat i"
  using unat32_less [of i] by (simp add: unsigned_ucast_eq take_bit_nat_eq_self)

lemma unat_of_nat64: "n < 2 ^ 64 \<Longrightarrow> unat (word_of_nat n :: u64) = n"
  by (simp add: unat_of_nat)

lemma unat_of_nat32: "n < 2 ^ 32 \<Longrightarrow> unat (word_of_nat n :: u32) = n"
  by (simp add: unat_of_nat)

lemma of_nat32_inj: "m < 2 ^ 32 \<Longrightarrow> n < 2 ^ 32 \<Longrightarrow> (word_of_nat m :: u32) = word_of_nat n \<longleftrightarrow> m = n"
  by (metis unat_of_nat32)

lemma of_nat64_inj: "m < 2 ^ 64 \<Longrightarrow> n < 2 ^ 64 \<Longrightarrow> (word_of_nat m :: u64) = word_of_nat n \<longleftrightarrow> m = n"
  by (metis unat_of_nat64)

lemma unat_plus32: "unat i + unat j < 2 ^ 32 \<Longrightarrow> unat (i + j :: u32) = unat i + unat j"
  by (simp add: unat_word_ariths)

lemma unat_plus64: "unat i + unat j < 2 ^ 64 \<Longrightarrow> unat (i + j :: u64) = unat i + unat j"
  by (simp add: unat_word_ariths)

lemma unat_minus: "(j :: 'a::len word) \<le> i \<Longrightarrow> unat (i - j) = unat i - unat j"
  by (simp add: unat_sub)

end
