(* ===== verification/Ieee_Double.thy ===== *)
theory Ieee_Double
  imports Prelude
begin

text \<open>
  The C type \<open>double\<close> of the target (IEEE 754 binary64, round to nearest, ties to even), as
  the stencils use it: a value of type \<open>double\<close> is its 64-bit pattern, since the sources
  move it through \<open>memcpy\<close> and through a union with \<open>int64_t\<close>.
  A finite pattern stands for an integer multiple of \<open>2 ^ -1074\<close>, the smallest positive
  double; \<open>dbl_scaled\<close> is that integer. An infinity gets the next multiple in the same
  sequence, so that the order of the non-NaN doubles is the order of \<open>dbl_scaled\<close>.
  The pattern of a NaN produced by an operation is not fixed by C; here it is the quiet NaN
  \<open>dbl_nan\<close>.
\<close>

unbundle bit_operations_syntax

subsection \<open>Patterns, values, rounding\<close>

definition round_half_even :: "nat \<Rightarrow> nat \<Rightarrow> nat" where
  "round_half_even n d =
     (let q = n div d; r = n mod d in
      if 2 * r < d then q
      else if d < 2 * r then Suc q
      else if even q then q else Suc q)"

definition inf_mag :: nat where
  "inf_mag = 0x7ff0000000000000"

definition mag_val :: "nat \<Rightarrow> nat" where
  "mag_val m =
     (let e = m div 2 ^ 52; f = m mod 2 ^ 52 in
      if e = 0 then f else (2 ^ 52 + f) * 2 ^ (e - 1))"

definition round_mag :: "nat \<Rightarrow> nat \<Rightarrow> nat" where
  "round_mag n d =
     (let sh = nbits (n div d) - 53; k = round_half_even n (d * 2 ^ sh) in
      min (k + sh * 2 ^ 52) inf_mag)"

type_synonym dbl = "64 word"

definition dbl_neg :: "dbl \<Rightarrow> bool" where
  "dbl_neg x \<longleftrightarrow> 2 ^ 63 \<le> unat x"

definition dbl_mag :: "dbl \<Rightarrow> nat" where
  "dbl_mag x = unat x mod 2 ^ 63"

definition mk_dbl :: "bool \<Rightarrow> nat \<Rightarrow> dbl" where
  "mk_dbl s m = word_of_nat ((if s then 2 ^ 63 else 0) + m)"

definition dbl_isnan :: "dbl \<Rightarrow> bool" where
  "dbl_isnan x \<longleftrightarrow> inf_mag < dbl_mag x"

definition dbl_isinf :: "dbl \<Rightarrow> bool" where
  "dbl_isinf x \<longleftrightarrow> dbl_mag x = inf_mag"

definition dbl_finite :: "dbl \<Rightarrow> bool" where
  "dbl_finite x \<longleftrightarrow> dbl_mag x < inf_mag"

definition dbl_scaled :: "dbl \<Rightarrow> int" where
  "dbl_scaled x = (if dbl_neg x then - int (mag_val (dbl_mag x)) else int (mag_val (dbl_mag x)))"

definition dbl_nan :: dbl where
  "dbl_nan = 0x7ff8000000000000"

definition dbl_unit :: int where
  "dbl_unit = 2 ^ 1074"

definition dbl_lt :: "dbl \<Rightarrow> dbl \<Rightarrow> bool" where
  "dbl_lt x y \<longleftrightarrow> \<not> dbl_isnan x \<and> \<not> dbl_isnan y \<and> dbl_scaled x < dbl_scaled y"

definition dbl_le :: "dbl \<Rightarrow> dbl \<Rightarrow> bool" where
  "dbl_le x y \<longleftrightarrow> \<not> dbl_isnan x \<and> \<not> dbl_isnan y \<and> dbl_scaled x \<le> dbl_scaled y"

definition dbl_eq :: "dbl \<Rightarrow> dbl \<Rightarrow> bool" where
  "dbl_eq x y \<longleftrightarrow> \<not> dbl_isnan x \<and> \<not> dbl_isnan y \<and> dbl_scaled x = dbl_scaled y"

definition dbl_of_int :: "int \<Rightarrow> dbl" where
  "dbl_of_int i = mk_dbl (i < 0) (round_mag (nat \<bar>i\<bar> * 2 ^ 1074) 1)"

definition dbl_trunc :: "dbl \<Rightarrow> int" where
  "dbl_trunc x = sgn (dbl_scaled x) * (\<bar>dbl_scaled x\<bar> div dbl_unit)"

definition dbl_add :: "dbl \<Rightarrow> dbl \<Rightarrow> dbl" where
  "dbl_add x y =
     (if dbl_isnan x \<or> dbl_isnan y then dbl_nan
      else if dbl_isinf x then
        (if dbl_isinf y \<and> dbl_neg x \<noteq> dbl_neg y then dbl_nan else x)
      else if dbl_isinf y then y
      else let s = dbl_scaled x + dbl_scaled y in
        if s = 0 then mk_dbl (dbl_neg x \<and> dbl_neg y) 0
        else mk_dbl (s < 0) (round_mag (nat \<bar>s\<bar>) 1))"

definition dbl_uminus :: "dbl \<Rightarrow> dbl" where
  "dbl_uminus x = x XOR 0x8000000000000000"

definition dbl_sub :: "dbl \<Rightarrow> dbl \<Rightarrow> dbl" where
  "dbl_sub x y = (if dbl_isnan y then dbl_nan else dbl_add x (dbl_uminus y))"

definition dbl_mul :: "dbl \<Rightarrow> dbl \<Rightarrow> dbl" where
  "dbl_mul x y =
     (let s = (dbl_neg x \<noteq> dbl_neg y) in
      if dbl_isnan x \<or> dbl_isnan y then dbl_nan
      else if dbl_isinf x \<or> dbl_isinf y then
        (if dbl_mag x = 0 \<or> dbl_mag y = 0 then dbl_nan else mk_dbl s inf_mag)
      else mk_dbl s (round_mag (mag_val (dbl_mag x) * mag_val (dbl_mag y)) (2 ^ 1074)))"

definition dbl_div :: "dbl \<Rightarrow> dbl \<Rightarrow> dbl" where
  "dbl_div x y =
     (let s = (dbl_neg x \<noteq> dbl_neg y) in
      if dbl_isnan x \<or> dbl_isnan y then dbl_nan
      else if dbl_isinf x then (if dbl_isinf y then dbl_nan else mk_dbl s inf_mag)
      else if dbl_isinf y then mk_dbl s 0
      else if dbl_mag y = 0 then (if dbl_mag x = 0 then dbl_nan else mk_dbl s inf_mag)
      else mk_dbl s (round_mag (mag_val (dbl_mag x) * 2 ^ 1074) (mag_val (dbl_mag y))))"

subsection \<open>Exact rounding\<close>

lemma round_half_even_exact: "0 < d \<Longrightarrow> round_half_even (q * d) d = q"
  by (simp add: round_half_even_def)

lemma mag_val_small: "m < 2 ^ 53 \<Longrightarrow> mag_val m = m"
proof -
  assume m: "m < 2 ^ 53"
  then have "m div 2 ^ 52 < 2" by (simp add: div_less_iff_less_mult)
  then consider "m div 2 ^ 52 = 0" | "m div 2 ^ 52 = 1" by linarith
  then show ?thesis
  proof cases
    case 1
    with div_mult_mod_eq [of m "2 ^ 52"] show ?thesis by (simp add: mag_val_def)
  next
    case 2
    with div_mult_mod_eq [of m "2 ^ 52"] have "2 ^ 52 + m mod 2 ^ 52 = m" by (simp only: mult_1)
    with 2 show ?thesis by (simp only: mag_val_def Let_def) simp
  qed
qed

lemma mag_val_normal:
  assumes "2 ^ 52 \<le> k" and "k < 2 ^ 53"
  shows "mag_val (k + sh * 2 ^ 52) = k * 2 ^ sh"
proof -
  have d: "(k + sh * 2 ^ 52) div 2 ^ 52 = Suc sh"
    using assms by (simp add: div_add_self2 [symmetric] div_nat_eqI)
  have r: "(k + sh * 2 ^ 52) mod 2 ^ 52 = k - 2 ^ 52"
  proof -
    have "k mod 2 ^ 52 = (k - 2 ^ 52) mod 2 ^ 52"
      using assms(1) by (simp add: le_mod_geq)
    also have "\<dots> = k - 2 ^ 52" using assms by simp
    finally show ?thesis by simp
  qed
  have "2 ^ 52 + (k - 2 ^ 52) = k" using assms(1) by simp
  then show ?thesis by (simp only: mag_val_def Let_def d r) simp
qed

lemma mag_split:
  fixes m :: nat
  assumes "2 ^ 52 \<le> m"
  obtains k sh where "m = k + sh * 2 ^ 52" and "2 ^ 52 \<le> k" and "k < 2 ^ 53"
proof
  let ?sh = "m div 2 ^ 52 - 1" and ?k = "m mod 2 ^ 52 + 2 ^ 52"
  have "1 \<le> m div 2 ^ 52" using assms by (simp add: less_eq_div_iff_mult_less_eq)
  then have d: "m div 2 ^ 52 = Suc ?sh" by simp
  have "m = m div 2 ^ 52 * 2 ^ 52 + m mod 2 ^ 52" by (simp only: div_mult_mod_eq)
  also have "\<dots> = ?k + ?sh * 2 ^ 52" by (subst (1) d) (simp only: mult_Suc mult_Suc_right ac_simps)
  finally show "m = ?k + ?sh * 2 ^ 52" .
  show "2 ^ 52 \<le> ?k" by simp
  have "m mod 2 ^ 52 < 2 ^ 52" by simp
  then show "?k < 2 ^ 53" by simp
qed

lemma mag_val_Suc: "mag_val m < mag_val (Suc m)"
proof (cases "Suc m < 2 ^ 53")
  case True
  then show ?thesis by (simp add: mag_val_small)
next
  case False
  then have "2 ^ 52 \<le> m" by simp
  then obtain k sh where m: "m = k + sh * 2 ^ 52" and k: "2 ^ 52 \<le> k" "k < 2 ^ 53"
    by (rule mag_split)
  have v: "mag_val m = k * 2 ^ sh" using m k by (simp only: mag_val_normal)
  show ?thesis
  proof (cases "Suc k < 2 ^ 53")
    case True
    have "mag_val (Suc k + sh * 2 ^ 52) = Suc k * 2 ^ sh"
      by (rule mag_val_normal) (use k True in simp_all)
    with v m show ?thesis by simp
  next
    case False
    with k have "Suc k = 2 ^ 53" by simp
    then have s: "Suc m = 2 ^ 52 + Suc sh * 2 ^ 52" using m by simp
    have "mag_val (2 ^ 52 + Suc sh * 2 ^ 52) = 2 ^ 52 * 2 ^ Suc sh"
      by (rule mag_val_normal) simp_all
    then have "mag_val (Suc m) = 2 ^ 53 * 2 ^ sh" using s by simp
    with v k show ?thesis by simp
  qed
qed

lemma mag_val_mono: "m < m' \<Longrightarrow> mag_val m < mag_val m'"
  using lift_Suc_mono_less [of mag_val] mag_val_Suc by blast

lemma mag_val_less_iff: "mag_val m < mag_val m' \<longleftrightarrow> m < m'"
  using mag_val_mono by (metis linorder_neqE_nat order_less_asym)

lemma mag_val_eq_iff: "mag_val m = mag_val m' \<longleftrightarrow> m = m'"
  using mag_val_mono by (metis linorder_neqE_nat order_less_irrefl)

lemma mag_val_0 [simp]: "mag_val 0 = 0"
  by (simp add: mag_val_def)

text \<open>Rounding a magnitude that is representable gives back its own pattern.\<close>

lemma round_mag_mag_val: "m \<le> inf_mag \<Longrightarrow> round_mag (mag_val m) 1 = m"
proof (cases "m < 2 ^ 53")
  case True
  assume "m \<le> inf_mag"
  moreover have "nbits m \<le> 53" using True by (rule nbits_le)
  moreover have "round_half_even m 1 = m" using round_half_even_exact [of 1 m] by simp
  ultimately show ?thesis
    using True by (simp add: round_mag_def mag_val_small)
next
  case False
  assume le: "m \<le> inf_mag"
  from False have "2 ^ 52 \<le> m" by simp
  then obtain k sh where m: "m = k + sh * 2 ^ 52" and k: "2 ^ 52 \<le> k" "k < 2 ^ 53"
    by (rule mag_split)
  have v: "mag_val m = k * 2 ^ sh" using m k by (simp only: mag_val_normal)
  have "nbits k = 53" using nbits_eq [of 52 k] k by simp
  then have "nbits (k * 2 ^ sh) - 53 = sh" using k by (simp add: nbits_mult_pow)
  moreover have "round_half_even (k * 2 ^ sh) (2 ^ sh) = k" by (simp add: round_half_even_exact)
  ultimately show ?thesis using le m v by (simp add: round_mag_def)
qed

subsection \<open>Sign and magnitude\<close>

lemma dbl_mag_less: "dbl_mag x < 2 ^ 63"
  by (simp add: dbl_mag_def)

lemma unat_mk_dbl: "m < 2 ^ 63 \<Longrightarrow> unat (mk_dbl s m) = (if s then 2 ^ 63 else 0) + m"
  by (simp only: mk_dbl_def unat_of_nat) simp

lemma mk_dbl_neg [simp]: "m < 2 ^ 63 \<Longrightarrow> dbl_neg (mk_dbl s m) = s"
  by (simp add: dbl_neg_def unat_mk_dbl)

lemma mk_dbl_mag [simp]: "m < 2 ^ 63 \<Longrightarrow> dbl_mag (mk_dbl s m) = m"
  by (simp add: dbl_mag_def unat_mk_dbl)

lemma inf_mag_less [simp]: "inf_mag < 2 ^ 63"
  by (simp add: inf_mag_def)

lemma round_mag_le: "round_mag n d \<le> inf_mag"
  by (simp add: round_mag_def Let_def)

lemma round_mag_less: "round_mag n d < 2 ^ 63"
  using round_mag_le [of n d] inf_mag_less by (rule le_less_trans)

lemma dbl_scaled_mk: "m < 2 ^ 63 \<Longrightarrow> dbl_scaled (mk_dbl s m) = (if s then - int (mag_val m) else int (mag_val m))"
  by (simp add: dbl_scaled_def)

lemma dbl_scaled_0 [simp]: "dbl_scaled 0 = 0"
  by (simp add: dbl_scaled_def dbl_neg_def dbl_mag_def)

lemma dbl_isnan_0 [simp]: "\<not> dbl_isnan 0"
  by (simp add: dbl_isnan_def dbl_mag_def)

lemma abs_dbl_scaled: "\<bar>dbl_scaled x\<bar> = int (mag_val (dbl_mag x))"
  by (simp add: dbl_scaled_def)

lemma dbl_unit_pos [simp]: "0 < dbl_unit"
  by (simp add: dbl_unit_def)

subsection \<open>Conversions\<close>

lemma dbl_of_int_nan [simp]: "\<not> dbl_isnan (dbl_of_int i)"
  using round_mag_le round_mag_less by (simp add: dbl_of_int_def dbl_isnan_def not_less)

lemma dbl_of_int_exact:
  assumes "mag_val m = nat \<bar>i\<bar> * 2 ^ 1074" and "m \<le> inf_mag"
  shows "dbl_scaled (dbl_of_int i) = i * dbl_unit"
proof -
  have "round_mag (nat \<bar>i\<bar> * 2 ^ 1074) 1 = m"
    using round_mag_mag_val [OF assms(2)] assms(1) by simp
  moreover have "m < 2 ^ 63" using assms(2) inf_mag_less by (rule le_less_trans)
  ultimately show ?thesis
    using assms(1) by (simp add: dbl_of_int_def dbl_scaled_mk dbl_unit_def)
qed

lemma mag_of_small_nat:
  assumes "n \<le> 2 ^ 53"
  shows "\<exists>m \<le> inf_mag. mag_val m = n * 2 ^ 1074"
proof (cases "n = 0 \<or> n = 2 ^ 53")
  case True
  have "mag_val (2 ^ 52 + 1075 * 2 ^ 52) = 2 ^ 52 * 2 ^ 1075"
    by (rule mag_val_normal) simp_all
  then have "mag_val (2 ^ 52 + 1075 * 2 ^ 52) = 2 ^ 53 * 2 ^ 1074" by simp
  moreover have "2 ^ 52 + 1075 * 2 ^ 52 \<le> inf_mag" by (simp add: inf_mag_def)
  moreover have "mag_val 0 = 0 * 2 ^ 1074" and "(0::nat) \<le> inf_mag" by simp_all
  ultimately show ?thesis using True by blast
next
  case False
  with assms have n: "0 < n" "n < 2 ^ 53" by auto
  define b where "b = nbits n"
  have b: "0 < b" "b \<le> 53" using n nbits_le [of n 53] by (auto simp: b_def nbits.simps [of n])
  define k where "k = n * 2 ^ (53 - b)"
  have "nbits k = 53" using n b by (simp add: k_def nbits_mult_pow b_def)
  then have k: "2 ^ 52 \<le> k" "k < 2 ^ 53"
    using nbits_lower [of k] nbits_upper [of k] n by (auto simp: k_def)
  have "mag_val (k + (1021 + b) * 2 ^ 52) = k * 2 ^ (1021 + b)"
    using k by (rule mag_val_normal)
  also have "\<dots> = n * 2 ^ ((53 - b) + (1021 + b))"
    by (simp only: k_def power_add mult.assoc)
  also have "\<dots> = n * 2 ^ 1074" using b by simp
  finally have v: "mag_val (k + (1021 + b) * 2 ^ 52) = n * 2 ^ 1074" .
  have "(1021 + b) * 2 ^ 52 \<le> 1074 * (2 ^ 52 :: nat)" using b by (intro mult_le_mono1) simp
  then have "k + (1021 + b) * 2 ^ 52 \<le> inf_mag" using k by (simp add: inf_mag_def)
  with v show ?thesis by blast
qed

lemma dbl_of_int_small: "\<bar>i\<bar> \<le> 2 ^ 53 \<Longrightarrow> dbl_scaled (dbl_of_int i) = i * dbl_unit"
proof -
  assume "\<bar>i\<bar> \<le> 2 ^ 53"
  then have "nat \<bar>i\<bar> \<le> 2 ^ 53" by (simp add: nat_le_iff)
  then show ?thesis using mag_of_small_nat dbl_of_int_exact by blast
qed

text \<open>A finite double whose value is an integer converts there and back.\<close>

lemma dbl_of_int_integral:
  assumes "\<not> dbl_isnan x" and "dbl_scaled x = i * dbl_unit"
  shows "dbl_scaled (dbl_of_int i) = dbl_scaled x"
proof -
  have "int (mag_val (dbl_mag x)) = int (nat \<bar>i\<bar> * 2 ^ 1074)"
    using arg_cong [OF assms(2), of abs]
    by (simp add: abs_dbl_scaled abs_mult dbl_unit_def)
  then have "mag_val (dbl_mag x) = nat \<bar>i\<bar> * 2 ^ 1074" by (simp only: of_nat_eq_iff)
  moreover have "dbl_mag x \<le> inf_mag" using assms(1) by (simp add: dbl_isnan_def)
  ultimately show ?thesis using dbl_of_int_exact assms(2) by simp
qed

lemma dbl_scaled_less_2_63: "dbl_mag x < 1086 * 2 ^ 52 \<longleftrightarrow> \<bar>dbl_scaled x\<bar> < 2 ^ 63 * dbl_unit"
proof -
  have "mag_val (2 ^ 52 + 1085 * 2 ^ 52) = 2 ^ 52 * 2 ^ 1085"
    by (rule mag_val_normal) simp_all
  then have "int (mag_val (1086 * 2 ^ 52)) = 2 ^ 63 * dbl_unit"
    by (simp add: dbl_unit_def)
  then show ?thesis
    unfolding abs_dbl_scaled by (metis mag_val_less_iff of_nat_less_iff)
qed

lemma dbl_large_integral:
  assumes "1075 * 2 ^ 52 \<le> dbl_mag x"
  shows "dbl_unit dvd dbl_scaled x"
proof -
  have "2 ^ 52 \<le> dbl_mag x" using assms by simp
  then obtain k sh where m: "dbl_mag x = k + sh * 2 ^ 52" and k: "2 ^ 52 \<le> k" "k < 2 ^ 53"
    by (rule mag_split)
  have "1074 \<le> sh"
  proof (rule ccontr)
    assume "\<not> 1074 \<le> sh"
    then have "sh * 2 ^ 52 \<le> 1073 * (2 ^ 52 :: nat)" by (intro mult_le_mono1) simp
    with assms m k show False by simp
  qed
  then have "(2 ^ 1074 :: nat) dvd k * 2 ^ sh" by (intro dvd_mult le_imp_power_dvd)
  then have "dbl_unit dvd int (mag_val (dbl_mag x))"
    using mag_val_normal [OF k, of sh] m unfolding dbl_unit_def
    by (metis of_nat_dvd_iff of_nat_numeral of_nat_power)
  then show ?thesis by (simp add: dbl_scaled_def)
qed

lemma dbl_nonintegral_small:
  assumes "\<not> dbl_unit dvd dbl_scaled x"
  shows "\<bar>dbl_scaled x\<bar> < 2 ^ 52 * dbl_unit"
proof -
  have "dbl_mag x < 1075 * 2 ^ 52" using assms dbl_large_integral by force
  then have "mag_val (dbl_mag x) < mag_val (2 ^ 52 + 1074 * 2 ^ 52)"
    by (simp add: mag_val_less_iff)
  also have "mag_val (2 ^ 52 + 1074 * 2 ^ 52) = 2 ^ 52 * 2 ^ 1074"
    by (rule mag_val_normal) simp_all
  finally have "int (mag_val (dbl_mag x)) < int (2 ^ 52 * 2 ^ 1074)" by (simp only: of_nat_less_iff)
  then show ?thesis by (simp add: abs_dbl_scaled dbl_unit_def)
qed

subsection \<open>Dividing by the unit\<close>

lemma dbl_unit_nz [simp]: "dbl_unit \<noteq> 0"
  by (simp add: dbl_unit_def)

lemma dbl_unit_nonneg [simp]: "0 \<le> dbl_unit" "\<not> dbl_unit < 0"
  by (simp_all add: dbl_unit_def)

lemma dbl_unit_abs [simp]: "\<bar>dbl_unit\<bar> = dbl_unit"
  by (simp add: dbl_unit_def)

lemma unit_le_iff: "k * dbl_unit \<le> s \<longleftrightarrow> k \<le> s div dbl_unit"
proof
  assume "k * dbl_unit \<le> s"
  then have "k * dbl_unit div dbl_unit \<le> s div dbl_unit" by (intro zdiv_mono1) simp_all
  then show "k \<le> s div dbl_unit" by simp
next
  assume "k \<le> s div dbl_unit"
  then have "k * dbl_unit \<le> s div dbl_unit * dbl_unit" by (intro mult_right_mono) simp_all
  also have "\<dots> \<le> s" by (simp add: minus_mod_eq_div_mult [symmetric])
  finally show "k * dbl_unit \<le> s" .
qed

lemma unit_less_iff: "s < k * dbl_unit \<longleftrightarrow> s div dbl_unit < k"
  using unit_le_iff [of k s] by linarith

lemma unit_ceil_iff: "k * dbl_unit < s \<longleftrightarrow> k < - ((- s) div dbl_unit)"
  using unit_less_iff [of "- s" "- k"] by (simp add: less_minus_iff)

lemma unit_ceil_le_iff: "s \<le> k * dbl_unit \<longleftrightarrow> - ((- s) div dbl_unit) \<le> k"
  using unit_ceil_iff [of k s] by linarith

end
