(* ===== verification/Numeric.thy ===== *)
theory Numeric
  imports Ieee_Double "HOL-Library.Signed_Division"
begin

text \<open>
  The numeric leaf functions of \<open>opcode_v2_core_stencils.c\<close> (lines 117 to 376): conversions
  between \<open>int64_t\<close> and \<open>double\<close>, the mixed integer/float comparisons, wrap-around integer
  arithmetic, floor division and modulo, shifts, and the patched power function.
  An \<open>int64_t\<close> is a 64-bit word read with \<open>sint\<close>; a \<open>double\<close> is its bit pattern.
  A function that returns a success flag and writes through a pointer returns an option.
\<close>

unbundle bit_operations_syntax

subsection \<open>Conversions of the C language\<close>

text \<open>
  \<open>(double) i\<close> and \<open>(int64_t) x\<close>. The second is undefined in C when the truncated value does
  not fit; the x86 instruction then delivers the pattern below.
\<close>

definition c_double :: "u64 \<Rightarrow> dbl" where
  "c_double i = dbl_of_int (sint i)"

definition c_int64 :: "dbl \<Rightarrow> u64" where
  "c_int64 x =
     (if dbl_finite x \<and> - (2 ^ 63) \<le> dbl_trunc x \<and> dbl_trunc x < 2 ^ 63
      then word_of_int (dbl_trunc x) else 0x8000000000000000)"

definition c_sdiv :: "u64 \<Rightarrow> u64 \<Rightarrow> u64" where
  "c_sdiv m n = word_of_int (sint m sdiv sint n)"

definition c_smod :: "u64 \<Rightarrow> u64 \<Rightarrow> u64" where
  "c_smod m n = word_of_int (sint m smod sint n)"

subsection \<open>Floor, ceiling and conversion to an integer\<close>

definition v2_dbl_bits :: "u64 \<Rightarrow> dbl" where
  "v2_dbl_bits bits = bits"

definition v2_magnitude_at_least_2_63 :: "dbl \<Rightarrow> bool" where
  "v2_magnitude_at_least_2_63 x \<longleftrightarrow> 0x43e \<le> drop_bit 52 (x AND 0x7ff0000000000000)"

definition v2_floor :: "dbl \<Rightarrow> dbl" where
  "v2_floor x =
     (if v2_magnitude_at_least_2_63 x then x
      else let i = c_int64 x; t = c_double i in
        if dbl_lt x 0 \<and> \<not> dbl_eq t x then c_double (i - 1) else t)"

definition v2_ceil :: "dbl \<Rightarrow> dbl" where
  "v2_ceil x =
     (if v2_magnitude_at_least_2_63 x then x
      else let i = c_int64 x; t = c_double i in
        if dbl_lt 0 x \<and> \<not> dbl_eq t x then c_double (i + 1) else t)"

text \<open>Mode 0 is F2Ieq, 1 is F2Iceil, 2 is F2Ifloor.\<close>

definition v2_flt_to_int :: "dbl \<Rightarrow> nat \<Rightarrow> u64 option" where
  "v2_flt_to_int f mode =
     (if \<not> dbl_eq f f then None
      else let v = v2_floor f in
        if \<not> dbl_eq v f \<and> mode = 0 then None
        else let w = (if \<not> dbl_eq v f \<and> mode = 1 then v2_ceil f else v) in
          if v2_magnitude_at_least_2_63 w then None else Some (c_int64 w))"

definition v2_flt_to_int_eq :: "dbl \<Rightarrow> u64 option" where
  "v2_flt_to_int_eq f = v2_flt_to_int f 0"

definition v2_int_fits_float :: "u64 \<Rightarrow> bool" where
  "v2_int_fits_float i \<longleftrightarrow> - push_bit 52 1 \<le>s i \<and> i \<le>s push_bit 52 1"

subsection \<open>Mixed comparisons\<close>

definition v2_eq_int_float :: "u64 \<Rightarrow> dbl \<Rightarrow> bool" where
  "v2_eq_int_float i f =
     (case v2_flt_to_int f 0 of Some fi \<Rightarrow> i = fi | None \<Rightarrow> False)"

definition v2_lt_int_float :: "u64 \<Rightarrow> dbl \<Rightarrow> bool" where
  "v2_lt_int_float i f =
     (if v2_int_fits_float i then dbl_lt (c_double i) f
      else case v2_flt_to_int f 1 of Some fi \<Rightarrow> i <s fi | None \<Rightarrow> dbl_lt 0 f)"

definition v2_le_int_float :: "u64 \<Rightarrow> dbl \<Rightarrow> bool" where
  "v2_le_int_float i f =
     (if v2_int_fits_float i then dbl_le (c_double i) f
      else case v2_flt_to_int f 2 of Some fi \<Rightarrow> i \<le>s fi | None \<Rightarrow> dbl_lt 0 f)"

definition v2_lt_float_int :: "dbl \<Rightarrow> u64 \<Rightarrow> bool" where
  "v2_lt_float_int f i =
     (if v2_int_fits_float i then dbl_lt f (c_double i)
      else case v2_flt_to_int f 2 of Some fi \<Rightarrow> fi <s i | None \<Rightarrow> dbl_lt f 0)"

definition v2_le_float_int :: "dbl \<Rightarrow> u64 \<Rightarrow> bool" where
  "v2_le_float_int f i =
     (if v2_int_fits_float i then dbl_le f (c_double i)
      else case v2_flt_to_int f 1 of Some fi \<Rightarrow> fi \<le>s i | None \<Rightarrow> dbl_lt f 0)"

subsection \<open>Integer arithmetic\<close>

definition v2_int_add :: "u64 \<Rightarrow> u64 \<Rightarrow> u64" where
  "v2_int_add a b = a + b"

definition v2_int_sub :: "u64 \<Rightarrow> u64 \<Rightarrow> u64" where
  "v2_int_sub a b = a - b"

definition v2_int_mul :: "u64 \<Rightarrow> u64 \<Rightarrow> u64" where
  "v2_int_mul a b = a * b"

definition v2_int_band :: "u64 \<Rightarrow> u64 \<Rightarrow> u64" where
  "v2_int_band a b = a AND b"

definition v2_int_bor :: "u64 \<Rightarrow> u64 \<Rightarrow> u64" where
  "v2_int_bor a b = a OR b"

definition v2_int_bxor :: "u64 \<Rightarrow> u64 \<Rightarrow> u64" where
  "v2_int_bxor a b = a XOR b"

definition v2_int_unm :: "u64 \<Rightarrow> u64" where
  "v2_int_unm x = 0 - x"

definition v2_flt_unm :: "dbl \<Rightarrow> dbl" where
  "v2_flt_unm x = x XOR 0x8000000000000000"

definition v2_idiv :: "u64 \<Rightarrow> u64 \<Rightarrow> u64" where
  "v2_idiv m n =
     (if n + 1 \<le> 1 then v2_int_sub 0 m
      else let q = c_sdiv m n in
        if m XOR n <s 0 \<and> c_smod m n \<noteq> 0 then q - 1 else q)"

definition v2_mod :: "u64 \<Rightarrow> u64 \<Rightarrow> u64" where
  "v2_mod m n =
     (if n + 1 \<le> 1 then 0
      else let r = c_smod m n in
        if r \<noteq> 0 \<and> r XOR n <s 0 then r + n else r)"

definition v2_flt_idiv :: "dbl \<Rightarrow> dbl \<Rightarrow> dbl" where
  "v2_flt_idiv a b = v2_floor (dbl_div a b)"

definition v2_fmod :: "dbl \<Rightarrow> dbl \<Rightarrow> dbl" where
  "v2_fmod x y =
     (if dbl_eq y 0 then dbl_div 0 0
      else let q = dbl_div x y;
               r = (if v2_magnitude_at_least_2_63 q then x
                    else dbl_sub x (dbl_mul (c_double (c_int64 q)) y)) in
        if (if dbl_lt 0 r then dbl_lt y 0 else dbl_lt r 0 \<and> dbl_lt 0 y)
        then dbl_add r y else r)"

definition v2_shiftl :: "u64 \<Rightarrow> u64 \<Rightarrow> u64" where
  "v2_shiftl x y =
     (if y <s 0 then
        (if y \<le>s - 64 then 0 else drop_bit (unat (- y)) x)
      else
        (if 64 \<le>s y then 0 else push_bit (unat y) x))"

definition v2_pow_exponent_is_two :: "dbl \<Rightarrow> bool" where
  "v2_pow_exponent_is_two b \<longleftrightarrow> b = 0x4000000000000000"

text \<open>The power function itself is the libm routine whose address is patched in.\<close>

definition v2_pow :: "(dbl \<Rightarrow> dbl \<Rightarrow> dbl) \<Rightarrow> dbl \<Rightarrow> dbl \<Rightarrow> dbl" where
  "v2_pow pow_fn a b = (if v2_pow_exponent_is_two b then dbl_mul a a else pow_fn a b)"

subsection \<open>Reading machine integers\<close>

lemma sint_less_63: "sint (x :: u64) < 2 ^ 63"
  using sint_lt [of x] by simp

lemma sint_ge_63: "- (2 ^ 63) \<le> sint (x :: u64)"
  using sint_ge [of x] by simp

lemma sint_of_int_64: "- (2 ^ 63) \<le> i \<Longrightarrow> i < 2 ^ 63 \<Longrightarrow> sint (word_of_int i :: u64) = i"
  by (simp add: sint_sbintrunc' signed_take_bit_int_eq_self)

lemma magnitude_iff: "v2_magnitude_at_least_2_63 x \<longleftrightarrow> 1086 * 2 ^ 52 \<le> dbl_mag x"
proof -
  have k: "(drop_bit 52 0x7ff0000000000000 :: u64) = mask 11" by (simp add: mask_eq_exp_minus_1)
  have "drop_bit 52 (x AND 0x7ff0000000000000) = take_bit 11 (drop_bit 52 x)"
    by (simp only: drop_bit_and k take_bit_eq_mask)
  then have "unat (drop_bit 52 (x AND 0x7ff0000000000000)) = take_bit 11 (drop_bit 52 (unat x))"
    by (simp only: unsigned_take_bit_eq unat_drop_bit_eq)
  then have u: "unat (drop_bit 52 (x AND 0x7ff0000000000000)) = (unat x div 2 ^ 52) mod 2 ^ 11"
    by (simp only: take_bit_eq_mod [where 'a = nat] drop_bit_eq_div [where 'a = nat])
  have "(unat x div 2 ^ 52) mod 2 ^ 11 = unat x mod 2 ^ (52 + 11) div 2 ^ 52"
    by (rule div_exp_mod_exp_eq)
  then show ?thesis
    using u by (simp add: v2_magnitude_at_least_2_63_def word_le_nat_alt dbl_mag_def
        less_eq_div_iff_mult_less_eq)
qed

lemma small_iff: "\<not> v2_magnitude_at_least_2_63 x \<longleftrightarrow> \<bar>dbl_scaled x\<bar> < 2 ^ 63 * dbl_unit"
  by (simp only: magnitude_iff not_le dbl_scaled_less_2_63)

lemma small_not_nan: "\<not> v2_magnitude_at_least_2_63 x \<Longrightarrow> \<not> dbl_isnan x"
  by (simp add: magnitude_iff dbl_isnan_def inf_mag_def)

lemma small_finite: "\<not> v2_magnitude_at_least_2_63 x \<Longrightarrow> dbl_finite x"
  by (simp add: magnitude_iff dbl_finite_def inf_mag_def)

lemma small_trunc:
  assumes "\<not> v2_magnitude_at_least_2_63 x"
  shows "\<bar>dbl_trunc x\<bar> < 2 ^ 63"
proof -
  have "\<bar>dbl_scaled x\<bar> < 2 ^ 63 * dbl_unit" using assms small_iff by blast
  then have "\<bar>dbl_scaled x\<bar> div dbl_unit < 2 ^ 63"
    by (simp only: unit_less_iff)
  moreover have "0 \<le> \<bar>dbl_scaled x\<bar> div dbl_unit"
    by (simp add: pos_imp_zdiv_nonneg_iff)
  ultimately show ?thesis by (auto simp: dbl_trunc_def abs_mult sgn_if)
qed

lemma c_int64_small:
  assumes "\<not> v2_magnitude_at_least_2_63 x"
  shows "c_int64 x = word_of_int (dbl_trunc x)"
  using small_trunc [OF assms] small_finite [OF assms] by (auto simp: c_int64_def)

lemma trunc_integral: "dbl_scaled x = k * dbl_unit \<Longrightarrow> dbl_trunc x = k"
  by (auto simp: dbl_trunc_def abs_mult sgn_mult sgn_if zero_less_mult_iff)

lemma c_int64_integral:
  assumes "\<bar>k\<bar> < 2 ^ 63" and "dbl_scaled x = k * dbl_unit"
  shows "\<not> v2_magnitude_at_least_2_63 x" and "c_int64 x = word_of_int k"
proof -
  show s: "\<not> v2_magnitude_at_least_2_63 x"
    using assms by (simp add: small_iff abs_mult)
  show "c_int64 x = word_of_int k"
    using c_int64_small [OF s] trunc_integral [OF assms(2)] by simp
qed

lemma c_double_small: "\<bar>k\<bar> \<le> 2 ^ 53 \<Longrightarrow> dbl_scaled (c_double (word_of_int k)) = k * dbl_unit"
  by (simp add: c_double_def sint_of_int_64 dbl_of_int_small)

lemma c_double_nan [simp]: "\<not> dbl_isnan (c_double i)"
  by (simp add: c_double_def)

subsection \<open>Floor and ceiling\<close>

lemma trunc_nonintegral:
  assumes "\<not> dbl_unit dvd dbl_scaled x"
  shows "dbl_trunc x = (if dbl_scaled x < 0 then dbl_scaled x div dbl_unit + 1
                        else dbl_scaled x div dbl_unit)"
    and "\<bar>dbl_trunc x\<bar> < 2 ^ 52"
proof -
  have n: "\<bar>dbl_scaled x\<bar> < 2 ^ 52 * dbl_unit" using assms by (rule dbl_nonintegral_small)
  then have "\<bar>dbl_scaled x\<bar> div dbl_unit < 2 ^ 52"
    by (simp only: unit_less_iff)
  moreover have "0 \<le> \<bar>dbl_scaled x\<bar> div dbl_unit"
    by (simp add: pos_imp_zdiv_nonneg_iff)
  ultimately show "\<bar>dbl_trunc x\<bar> < 2 ^ 52" by (auto simp: dbl_trunc_def abs_mult sgn_if)
  have "dbl_scaled x mod dbl_unit \<noteq> 0" using assms by (simp add: dvd_eq_mod_eq_0)
  then show "dbl_trunc x = (if dbl_scaled x < 0 then dbl_scaled x div dbl_unit + 1
                        else dbl_scaled x div dbl_unit)"
    by (auto simp: dbl_trunc_def sgn_if zdiv_zminus1_eq_if)
qed

lemma v2_floor_scaled:
  assumes "\<not> v2_magnitude_at_least_2_63 x"
  shows "dbl_scaled (v2_floor x) = dbl_scaled x div dbl_unit * dbl_unit"
    and "\<not> dbl_isnan (v2_floor x)"
proof -
  let ?s = "dbl_scaled x"
  have i: "c_int64 x = word_of_int (dbl_trunc x)" using assms by (rule c_int64_small)
  have nn: "\<not> dbl_isnan x" using assms by (rule small_not_nan)
  show "\<not> dbl_isnan (v2_floor x)" using assms by (simp add: v2_floor_def Let_def)
  show "dbl_scaled (v2_floor x) = ?s div dbl_unit * dbl_unit"
  proof (cases "dbl_unit dvd ?s")
    case True
    then have s: "?s = (?s div dbl_unit) * dbl_unit" by simp
    then have t: "dbl_trunc x = ?s div dbl_unit" by (rule trunc_integral)
    have "dbl_scaled (c_double (c_int64 x)) = ?s"
      using dbl_of_int_integral [OF nn s] small_trunc [OF assms] t
      by (simp add: i c_double_def sint_of_int_64)
    then show ?thesis
      using assms nn s by (simp add: v2_floor_def Let_def dbl_eq_def)
  next
    case False
    note tr = trunc_nonintegral [OF False]
    have t: "dbl_scaled (c_double (c_int64 x)) = dbl_trunc x * dbl_unit"
      using tr(2) by (simp add: i c_double_small)
    then have ne: "\<not> dbl_eq (c_double (c_int64 x)) x"
      using False by (metis dbl_eq_def dvd_triv_right)
    have "c_int64 x - 1 = word_of_int (dbl_trunc x - 1)" by (simp add: i)
    then have t1: "dbl_scaled (c_double (c_int64 x - 1)) = (dbl_trunc x - 1) * dbl_unit"
      using tr(2) c_double_small [of "dbl_trunc x - 1"] by simp
    show ?thesis
      using assms nn ne t t1 tr(1) by (simp add: v2_floor_def Let_def dbl_lt_def)
  qed
qed

lemma v2_ceil_scaled:
  assumes "\<not> v2_magnitude_at_least_2_63 x"
  shows "dbl_scaled (v2_ceil x) = - ((- dbl_scaled x) div dbl_unit) * dbl_unit"
    and "\<not> dbl_isnan (v2_ceil x)"
proof -
  let ?s = "dbl_scaled x"
  have i: "c_int64 x = word_of_int (dbl_trunc x)" using assms by (rule c_int64_small)
  have nn: "\<not> dbl_isnan x" using assms by (rule small_not_nan)
  show "\<not> dbl_isnan (v2_ceil x)" using assms by (simp add: v2_ceil_def Let_def)
  show "dbl_scaled (v2_ceil x) = - ((- ?s) div dbl_unit) * dbl_unit"
  proof (cases "dbl_unit dvd ?s")
    case True
    then have s: "?s = (?s div dbl_unit) * dbl_unit" by simp
    then have t: "dbl_trunc x = ?s div dbl_unit" by (rule trunc_integral)
    have "dbl_scaled (c_double (c_int64 x)) = ?s"
      using dbl_of_int_integral [OF nn s] small_trunc [OF assms] t
      by (simp add: i c_double_def sint_of_int_64)
    then show ?thesis
      using assms nn True by (simp add: v2_ceil_def Let_def dbl_eq_def dvd_neg_div)
  next
    case False
    note tr = trunc_nonintegral [OF False]
    have t: "dbl_scaled (c_double (c_int64 x)) = dbl_trunc x * dbl_unit"
      using tr(2) by (simp add: i c_double_small)
    then have ne: "\<not> dbl_eq (c_double (c_int64 x)) x"
      using False by (metis dbl_eq_def dvd_triv_right)
    have "c_int64 x + 1 = word_of_int (dbl_trunc x + 1)" by (simp add: i)
    then have t1: "dbl_scaled (c_double (c_int64 x + 1)) = (dbl_trunc x + 1) * dbl_unit"
      using tr(2) c_double_small [of "dbl_trunc x + 1"] by simp
    have m: "?s mod dbl_unit \<noteq> 0" using False by (simp add: dvd_eq_mod_eq_0)
    then have "?s \<noteq> 0" by auto
    with m show ?thesis
      using assms nn ne t t1 tr(1)
      by (auto simp: v2_ceil_def Let_def dbl_lt_def zdiv_zminus1_eq_if)
  qed
qed

text \<open>
  \<open>v2_flt_to_int\<close> on a double below \<open>2 ^ 63\<close> in magnitude: an integral value converts
  exactly in every mode, a fractional one is refused, rounded up or rounded down.
\<close>

lemma v2_flt_to_int_small:
  assumes "\<not> v2_magnitude_at_least_2_63 f"
  shows "v2_flt_to_int f mode =
    (if dbl_unit dvd dbl_scaled f then Some (word_of_int (dbl_scaled f div dbl_unit))
     else if mode = 0 then None
     else if mode = 1 then Some (word_of_int (- ((- dbl_scaled f) div dbl_unit)))
     else Some (word_of_int (dbl_scaled f div dbl_unit)))"
proof -
  let ?s = "dbl_scaled f"
  have nn: "\<not> dbl_isnan f" using assms by (rule small_not_nan)
  note fl = v2_floor_scaled [OF assms] and ce = v2_ceil_scaled [OF assms]
  have b: "\<bar>?s\<bar> < 2 ^ 63 * dbl_unit" using assms small_iff by blast
  have ff: "dbl_eq f f" using nn by (simp add: dbl_eq_def)
  have eq: "dbl_eq (v2_floor f) f \<longleftrightarrow> dbl_unit dvd ?s"
    using nn fl by (metis dbl_eq_def dvd_div_mult_self dvd_triv_right)
  show ?thesis
  proof (cases "dbl_unit dvd ?s")
    case True
    then have s: "dbl_scaled (v2_floor f) = (?s div dbl_unit) * dbl_unit" using fl by simp
    have "\<bar>(?s div dbl_unit) * dbl_unit\<bar> < 2 ^ 63 * dbl_unit" using b True by simp
    then have "\<bar>?s div dbl_unit\<bar> < 2 ^ 63" by (simp add: abs_mult)
    from c_int64_integral [OF this s] show ?thesis
      using True ff eq by (simp add: v2_flt_to_int_def Let_def)
  next
    case False
    have n: "\<bar>?s\<bar> < 2 ^ 52 * dbl_unit" using False by (rule dbl_nonintegral_small)
    then have "?s < 2 ^ 52 * dbl_unit" "- ?s < 2 ^ 52 * dbl_unit"
      "- (2 ^ 52) * dbl_unit \<le> ?s" "- (2 ^ 52) * dbl_unit \<le> - ?s" by linarith+
    then have "?s div dbl_unit < 2 ^ 52" "(- ?s) div dbl_unit < 2 ^ 52"
      "- (2 ^ 52) \<le> ?s div dbl_unit" "- (2 ^ 52) \<le> (- ?s) div dbl_unit"
      by (simp_all only: unit_less_iff unit_le_iff)
    then have "\<bar>?s div dbl_unit\<bar> < 2 ^ 63" and "\<bar>- ((- ?s) div dbl_unit)\<bar> < 2 ^ 63"
      by simp_all
    from c_int64_integral [OF this(1) fl(1)] c_int64_integral [OF this(2) ce(1)]
    show ?thesis using False ff eq by (simp add: v2_flt_to_int_def Let_def)
  qed
qed

lemma v2_flt_to_int_large: "v2_magnitude_at_least_2_63 f \<Longrightarrow> v2_flt_to_int f mode = None"
  by (auto simp: v2_flt_to_int_def v2_floor_def Let_def)


subsection \<open>The mixed comparisons\<close>

lemma fits_float_iff: "v2_int_fits_float i \<longleftrightarrow> \<bar>sint i\<bar> \<le> 2 ^ 52"
  by (auto simp: v2_int_fits_float_def word_sle_eq)

lemma c_double_fits: "v2_int_fits_float i \<Longrightarrow> dbl_scaled (c_double i) = sint i * dbl_unit"
  by (simp add: fits_float_iff c_double_def dbl_of_int_small)

definition dbl_min_int :: dbl where
  "dbl_min_int = 0xc3e0000000000000"

lemma mk_dbl_eta: "mk_dbl (dbl_neg x) (dbl_mag x) = x"
proof (rule word_unat_eq_iff [THEN iffD2])
  have "unat x < 2 ^ 64" using unsigned_less [of x] by simp
  then have "unat x = (if 2 ^ 63 \<le> unat x then 2 ^ 63 else 0) + unat x mod 2 ^ 63"
    by (simp add: le_mod_geq)
  then show "unat (mk_dbl (dbl_neg x) (dbl_mag x)) = unat x"
    by (subst unat_mk_dbl [OF dbl_mag_less]) (simp only: dbl_neg_def dbl_mag_def)
qed

lemma dbl_scaled_inj:
  assumes "dbl_scaled x = dbl_scaled y" and "dbl_scaled x \<noteq> 0"
  shows "x = y"
proof -
  have "int (mag_val (dbl_mag x)) = int (mag_val (dbl_mag y))"
    using arg_cong [OF assms(1), of abs] by (simp only: abs_dbl_scaled)
  then have m: "dbl_mag x = dbl_mag y" by (simp add: mag_val_eq_iff)
  have "dbl_neg x = dbl_neg y" using assms by (auto simp: dbl_scaled_def split: if_splits)
  with m have "mk_dbl (dbl_neg x) (dbl_mag x) = mk_dbl (dbl_neg y) (dbl_mag y)" by simp
  then show ?thesis by (simp only: mk_dbl_eta)
qed

lemma dbl_min_int_scaled: "dbl_scaled dbl_min_int = - (2 ^ 63) * dbl_unit"
proof -
  have "unat dbl_min_int = 2 ^ 63 + (2 ^ 52 + 1085 * 2 ^ 52)" by (simp add: dbl_min_int_def)
  then have "dbl_neg dbl_min_int" and m: "dbl_mag dbl_min_int = 2 ^ 52 + 1085 * 2 ^ 52"
    by (simp_all add: dbl_neg_def dbl_mag_def)
  moreover have "mag_val (2 ^ 52 + 1085 * 2 ^ 52) = 2 ^ 52 * 2 ^ 1085"
    by (rule mag_val_normal) simp_all
  ultimately show ?thesis by (simp add: dbl_scaled_def dbl_unit_def)
qed

lemma dbl_min_int_iff: "dbl_scaled f = - (2 ^ 63) * dbl_unit \<longleftrightarrow> f = dbl_min_int"
  using dbl_scaled_inj [of f dbl_min_int] dbl_min_int_scaled by auto

text \<open>
  A double of magnitude at least \<open>2 ^ 63\<close> lies above every \<open>int64_t\<close>, or at or below the
  least one.
\<close>

lemma large_cases:
  assumes "v2_magnitude_at_least_2_63 f" and "\<not> dbl_isnan f"
  obtains (above) "0 < dbl_scaled f" and "\<And>i :: u64. sint i * dbl_unit < dbl_scaled f"
  | (below) "dbl_scaled f < 0" and "\<And>i :: u64. dbl_scaled f \<le> sint i * dbl_unit"
      and "f \<noteq> dbl_min_int \<Longrightarrow> (\<And>i :: u64. dbl_scaled f < sint i * dbl_unit)"
proof -
  have b: "2 ^ 63 * dbl_unit \<le> \<bar>dbl_scaled f\<bar>" using assms(1) small_iff [of f] by linarith
  have hi: "sint i * dbl_unit < 2 ^ 63 * dbl_unit" for i :: u64
    using sint_less_63 [of i] by (intro mult_strict_right_mono) simp_all
  have lo: "- (2 ^ 63) * dbl_unit \<le> sint i * dbl_unit" for i :: u64
    using sint_ge_63 [of i] by (intro mult_right_mono) simp_all
  show thesis
  proof (cases "0 < dbl_scaled f")
    case True
    then have "sint i * dbl_unit < dbl_scaled f" for i :: u64 using b hi [of i] by linarith
    with True show thesis by (rule above)
  next
    case False
    have u: "0 < 2 ^ 63 * dbl_unit" by simp
    have neg: "dbl_scaled f < 0" using False b u by linarith
    have le: "dbl_scaled f \<le> - (2 ^ 63) * dbl_unit" using neg b by linarith
    have "dbl_scaled f \<le> sint i * dbl_unit" for i :: u64 using le lo [of i] by linarith
    moreover have "dbl_scaled f < sint i * dbl_unit" if "f \<noteq> dbl_min_int" for i :: u64
    proof -
      have "dbl_scaled f \<noteq> - (2 ^ 63) * dbl_unit" using that dbl_min_int_iff by blast
      then show ?thesis using le lo [of i] by linarith
    qed
    ultimately show thesis by (rule below [OF neg])
  qed
qed

lemma small_div_range:
  assumes "\<not> v2_magnitude_at_least_2_63 f"
  shows "sint (word_of_int (dbl_scaled f div dbl_unit) :: u64) = dbl_scaled f div dbl_unit"
    and "\<not> dbl_unit dvd dbl_scaled f \<Longrightarrow>
      sint (word_of_int (- ((- dbl_scaled f) div dbl_unit)) :: u64) = - ((- dbl_scaled f) div dbl_unit)"
proof -
  have b: "\<bar>dbl_scaled f\<bar> < 2 ^ 63 * dbl_unit" using assms small_iff by blast
  then have "dbl_scaled f < 2 ^ 63 * dbl_unit" and "- (2 ^ 63) * dbl_unit \<le> dbl_scaled f"
    by linarith+
  then show "sint (word_of_int (dbl_scaled f div dbl_unit) :: u64) = dbl_scaled f div dbl_unit"
    by (intro sint_of_int_64) (simp_all only: unit_less_iff unit_le_iff)
  assume "\<not> dbl_unit dvd dbl_scaled f"
  then have "\<bar>dbl_scaled f\<bar> < 2 ^ 52 * dbl_unit" by (rule dbl_nonintegral_small)
  then have "- dbl_scaled f < 2 ^ 52 * dbl_unit" and "- (2 ^ 52) * dbl_unit \<le> - dbl_scaled f"
    by linarith+
  then have "(- dbl_scaled f) div dbl_unit < 2 ^ 52" and "- (2 ^ 52) \<le> (- dbl_scaled f) div dbl_unit"
    by (simp_all only: unit_less_iff unit_le_iff)
  then show "sint (word_of_int (- ((- dbl_scaled f) div dbl_unit)) :: u64)
      = - ((- dbl_scaled f) div dbl_unit)"
    by (intro sint_of_int_64) simp_all
qed

lemma dvd_ceil: "dbl_unit dvd s \<Longrightarrow> - ((- s) div dbl_unit) = s div dbl_unit"
  by (simp add: dvd_neg_div)

lemma v2_lt_int_float_exact:
  "v2_lt_int_float i f \<longleftrightarrow> \<not> dbl_isnan f \<and> sint i * dbl_unit < dbl_scaled f"
proof (cases "v2_int_fits_float i \<or> dbl_isnan f")
  case True
  then show ?thesis
    by (auto simp: v2_lt_int_float_def dbl_lt_def c_double_fits v2_flt_to_int_def dbl_eq_def)
next
  case False
  then have nf: "\<not> v2_int_fits_float i" and nn: "\<not> dbl_isnan f" by auto
  show ?thesis
  proof (cases "v2_magnitude_at_least_2_63 f")
    case True
    from large_cases [OF True nn] show ?thesis
      by (cases; use nf nn True in \<open>auto simp: v2_lt_int_float_def v2_flt_to_int_large dbl_lt_def
          not_less intro: less_imp_le\<close>)
  next
    case False
    then show ?thesis
      using nf nn small_div_range [OF False] dvd_ceil [of "dbl_scaled f"]
      by (auto simp: v2_lt_int_float_def v2_flt_to_int_small word_sless_alt unit_ceil_iff)
  qed
qed

lemma v2_le_float_int_exact:
  "v2_le_float_int f i \<longleftrightarrow> \<not> dbl_isnan f \<and> dbl_scaled f \<le> sint i * dbl_unit"
proof (cases "v2_int_fits_float i \<or> dbl_isnan f")
  case True
  then show ?thesis
    by (auto simp: v2_le_float_int_def dbl_le_def dbl_lt_def c_double_fits v2_flt_to_int_def dbl_eq_def)
next
  case False
  then have nf: "\<not> v2_int_fits_float i" and nn: "\<not> dbl_isnan f" by auto
  show ?thesis
  proof (cases "v2_magnitude_at_least_2_63 f")
    case True
    from large_cases [OF True nn] show ?thesis
      by (cases; use nf nn True in \<open>auto simp: v2_le_float_int_def v2_flt_to_int_large dbl_lt_def
          not_le [symmetric] dest: order_less_imp_le\<close>)
  next
    case False
    then show ?thesis
      using nf nn small_div_range [OF False] dvd_ceil [of "dbl_scaled f"]
      by (auto simp: v2_le_float_int_def v2_flt_to_int_small word_sle_eq unit_ceil_le_iff)
  qed
qed

text \<open>The other two orders and equality agree with the exact ones except at \<open>-2 ^ 63\<close>.\<close>

lemma v2_le_int_float_exact:
  assumes "f \<noteq> dbl_min_int"
  shows "v2_le_int_float i f \<longleftrightarrow> \<not> dbl_isnan f \<and> sint i * dbl_unit \<le> dbl_scaled f"
proof (cases "v2_int_fits_float i \<or> dbl_isnan f")
  case True
  then show ?thesis
    by (auto simp: v2_le_int_float_def dbl_le_def dbl_lt_def c_double_fits v2_flt_to_int_def dbl_eq_def)
next
  case False
  then have nf: "\<not> v2_int_fits_float i" and nn: "\<not> dbl_isnan f" by auto
  show ?thesis
  proof (cases "v2_magnitude_at_least_2_63 f")
    case True
    from large_cases [OF True nn] show ?thesis
      by (cases; use nf nn True assms in \<open>auto simp: v2_le_int_float_def v2_flt_to_int_large dbl_lt_def
          not_le dest: order_less_imp_le\<close>)
  next
    case False
    then show ?thesis
      using nf nn small_div_range [OF False]
      by (auto simp: v2_le_int_float_def v2_flt_to_int_small word_sle_eq unit_le_iff)
  qed
qed

lemma v2_lt_float_int_exact:
  assumes "f \<noteq> dbl_min_int"
  shows "v2_lt_float_int f i \<longleftrightarrow> \<not> dbl_isnan f \<and> dbl_scaled f < sint i * dbl_unit"
proof (cases "v2_int_fits_float i \<or> dbl_isnan f")
  case True
  then show ?thesis
    by (auto simp: v2_lt_float_int_def dbl_lt_def c_double_fits v2_flt_to_int_def dbl_eq_def)
next
  case False
  then have nf: "\<not> v2_int_fits_float i" and nn: "\<not> dbl_isnan f" by auto
  show ?thesis
  proof (cases "v2_magnitude_at_least_2_63 f")
    case True
    from large_cases [OF True nn] show ?thesis
      by (cases; use nf nn True assms in \<open>auto simp: v2_lt_float_int_def v2_flt_to_int_large dbl_lt_def
          dest: order_less_trans\<close>)
  next
    case False
    then show ?thesis
      using nf nn small_div_range [OF False]
      by (auto simp: v2_lt_float_int_def v2_flt_to_int_small word_sless_alt unit_less_iff)
  qed
qed

lemma v2_eq_int_float_exact:
  assumes "f \<noteq> dbl_min_int"
  shows "v2_eq_int_float i f \<longleftrightarrow> \<not> dbl_isnan f \<and> dbl_scaled f = sint i * dbl_unit"
proof (cases "v2_magnitude_at_least_2_63 f")
  case True
  show ?thesis
  proof (cases "dbl_isnan f")
    case False
    from large_cases [OF True False] have "dbl_scaled f \<noteq> sint i * dbl_unit"
      using assms by cases (metis order_less_irrefl)+
    then show ?thesis using True by (simp add: v2_eq_int_float_def v2_flt_to_int_large)
  qed (use True in \<open>simp add: v2_eq_int_float_def v2_flt_to_int_large\<close>)
next
  case False
  have e: "(i = word_of_int (dbl_scaled f div dbl_unit)) = (sint i = dbl_scaled f div dbl_unit)"
    using small_div_range(1) [OF False] by (metis signed_word_eqI)
  have d: "dbl_scaled f = sint i * dbl_unit \<longleftrightarrow> dbl_unit dvd dbl_scaled f \<and> sint i = dbl_scaled f div dbl_unit"
    by (metis dbl_unit_nz dvd_div_mult_self dvd_triv_right nonzero_mult_div_cancel_right)
  show ?thesis
    using small_not_nan [OF False] e d
    by (auto simp: v2_eq_int_float_def v2_flt_to_int_small [OF False])
qed

subsection \<open>Integer division, modulo and shifts\<close>

lemma divisor_guard: "(n :: u64) + 1 \<le> 1 \<longleftrightarrow> n = 0 \<or> n = - 1"
proof
  assume "n + 1 \<le> 1"
  then have "unat (n + 1) \<le> 1" by (simp add: word_le_nat_alt)
  then have "unat (n + 1) = 0 \<or> unat (n + 1) = unat (1 :: u64)" by auto
  then have "n + 1 = 0 \<or> n + 1 = 1" by (metis unsigned_eq_0_iff word_unat_eq_iff)
  then show "n = 0 \<or> n = - 1" by (auto simp: add_eq_0_iff2)
qed auto

lemma sint_neg_bit: "sint (a :: u64) < 0 \<longleftrightarrow> bit a 63"
  using bit_last_iff [of a] by simp

lemma xor_neg: "(a :: u64) XOR b <s 0 \<longleftrightarrow> (sint a < 0) \<noteq> (sint b < 0)"
  by (simp add: word_sless_alt sint_neg_bit bit_xor_iff)

lemma floor_of_sdiv:
  fixes k l :: int
  assumes "l \<noteq> 0"
  shows "k div l = (if (k < 0) \<noteq> (l < 0) \<and> k smod l \<noteq> 0 then k sdiv l - 1 else k sdiv l)"
    and "k mod l = (if k smod l \<noteq> 0 \<and> (k smod l < 0) \<noteq> (l < 0) then k smod l + l else k smod l)"
proof -
  have z: "k smod l = 0 \<longleftrightarrow> l dvd k"
    using assms by (auto simp: signed_modulo_int_def dvd_eq_mod_eq_0 [symmetric] sgn_if)
  have d: "\<bar>k\<bar> mod \<bar>l\<bar> = 0 \<longleftrightarrow> l dvd k" by (simp add: dvd_eq_mod_eq_0 [symmetric])
  have p: "0 \<le> \<bar>k\<bar> mod \<bar>l\<bar>" using assms by simp
  have n: "k smod l < 0 \<longleftrightarrow> k < 0 \<and> \<not> l dvd k"
    unfolding signed_modulo_int_def sgn_if d [symmetric] using p by auto
  show "k div l = (if (k < 0) \<noteq> (l < 0) \<and> k smod l \<noteq> 0 then k sdiv l - 1 else k sdiv l)"
    using assms z by (auto simp: divide_int_eq_signed_divide_int [of k l] sgn_if)
  show "k mod l = (if k smod l \<noteq> 0 \<and> (k smod l < 0) \<noteq> (l < 0) then k smod l + l else k smod l)"
    using assms z n by (auto simp: modulo_int_eq_signed_modulo_int [of k l] sgn_if)
qed

lemma sint_c_smod:
  assumes "n \<noteq> 0"
  shows "sint (c_smod m n) = sint m smod sint n"
proof -
  have "sint n \<noteq> 0" using assms by (metis signed_word_eqI signed_0)
  then have "\<bar>sint m\<bar> mod \<bar>sint n\<bar> < \<bar>sint n\<bar>" and "0 \<le> \<bar>sint m\<bar> mod \<bar>sint n\<bar>" by simp_all
  moreover have "\<bar>sint n\<bar> \<le> 2 ^ 63" using sint_less_63 [of n] sint_ge_63 [of n] by linarith
  ultimately have "\<bar>sint m smod sint n\<bar> < 2 ^ 63"
    by (auto simp: signed_modulo_int_def abs_mult sgn_if)
  then show ?thesis by (simp add: c_smod_def sint_of_int_64 abs_less_iff)
qed

lemma v2_idiv_floor:
  assumes "n \<noteq> 0"
  shows "v2_idiv m n = word_of_int (sint m div sint n)"
proof (cases "n = - 1")
  case True
  then show ?thesis by (simp add: v2_idiv_def v2_int_sub_def)
next
  case False
  have sn: "sint n \<noteq> 0" using assms by (metis signed_word_eqI signed_0)
  have r: "c_smod m n \<noteq> 0 \<longleftrightarrow> sint m smod sint n \<noteq> 0"
    using sint_c_smod [OF assms] by (metis signed_word_eqI signed_0)
  show ?thesis
    using assms False floor_of_sdiv(1) [OF sn, of "sint m"] r
    by (simp add: v2_idiv_def divisor_guard xor_neg c_sdiv_def)
qed

lemma v2_mod_floor:
  assumes "n \<noteq> 0"
  shows "v2_mod m n = word_of_int (sint m mod sint n)"
proof (cases "n = - 1")
  case True
  then show ?thesis by (simp add: v2_mod_def)
next
  case False
  have sn: "sint n \<noteq> 0" using assms by (metis signed_word_eqI signed_0)
  have r: "c_smod m n \<noteq> 0 \<longleftrightarrow> sint m smod sint n \<noteq> 0"
    using sint_c_smod [OF assms] by (metis signed_word_eqI signed_0)
  have w: "c_smod m n + n = word_of_int (sint m smod sint n + sint n)"
    by (simp add: c_smod_def)
  show ?thesis
    using assms False floor_of_sdiv(2) [OF sn, of "sint m"] r w sint_c_smod [OF assms, of m]
    by (simp add: v2_mod_def divisor_guard xor_neg c_smod_def)
qed

lemma v2_mod_range:
  assumes "n \<noteq> 0"
  shows "sint (v2_mod m n) = sint m mod sint n"
proof -
  have sn: "sint n \<noteq> 0" using assms by (metis signed_word_eqI signed_0)
  have "\<bar>sint m mod sint n\<bar> < \<bar>sint n\<bar>" using sn by (rule abs_mod_less)
  moreover have "\<bar>sint n\<bar> \<le> 2 ^ 63" using sint_less_63 [of n] sint_ge_63 [of n] by linarith
  ultimately have "\<bar>sint m mod sint n\<bar> < 2 ^ 63" by linarith
  then show ?thesis by (simp add: v2_mod_floor [OF assms] sint_of_int_64 abs_less_iff)
qed

lemma unat_of_int_64: "0 \<le> k \<Longrightarrow> k < 2 ^ 64 \<Longrightarrow> unat (word_of_int k :: u64) = nat k"
proof -
  assume "0 \<le> k" and "k < 2 ^ 64"
  then have "(word_of_int k :: u64) = word_of_nat (nat k)" by simp
  then have "unat (word_of_int k :: u64) = nat k mod 2 ^ 64" by (simp only: unat_of_nat) simp
  also have "\<dots> = nat k" using \<open>k < 2 ^ 64\<close> by (simp add: nat_less_iff)
  finally show ?thesis .
qed

lemma push_bit_64: "64 \<le> n \<Longrightarrow> push_bit n (x :: u64) = 0"
  by (rule bit_eqI) (simp add: bit_simps)

lemma drop_bit_64: "64 \<le> n \<Longrightarrow> drop_bit n (x :: u64) = 0"
  by (rule bit_eqI) (auto simp: bit_simps dest: bit_imp_le_length)

text \<open>A shift by any signed amount; amounts of 64 and more push every bit out.\<close>

lemma v2_shiftl_exact:
  "v2_shiftl x y = (if 0 \<le> sint y then push_bit (nat (sint y)) x else drop_bit (nat (- sint y)) x)"
proof (cases "0 \<le> sint y")
  case True
  have "unat y = nat (sint y)"
    using unat_of_int_64 [of "sint y"] True sint_less_63 [of y] by simp
  then show ?thesis
    using True push_bit_64 [of "nat (sint y)" x]
    by (simp add: v2_shiftl_def word_sless_alt word_sle_eq)
next
  case False
  have "- y = word_of_int (- sint y)" by simp
  then have "unat (- y) = nat (- sint y)"
    using unat_of_int_64 [of "- sint y"] False sint_ge_63 [of y] by simp
  then show ?thesis
    using False drop_bit_64 [of "nat (- sint y)" x]
    by (simp add: v2_shiftl_def word_sless_alt word_sle_eq)
qed

subsection \<open>Properties\<close>

text \<open>
  C17. The five mixed comparisons decide the exact order of the real values of an \<open>int64_t\<close> and
  a \<open>double\<close>, whatever the rounding of \<open>(double) i\<close> would do, and are all false on a NaN. The
  strict order from the left and the weak order from the right hold for every double, the
  other three for every double but \<open>-2 ^ 63\<close>.
\<close>

theorem mixed_comparisons_exact:
  "(v2_lt_int_float i f \<longleftrightarrow> \<not> dbl_isnan f \<and> sint i * dbl_unit < dbl_scaled f) \<and>
   (v2_le_float_int f i \<longleftrightarrow> \<not> dbl_isnan f \<and> dbl_scaled f \<le> sint i * dbl_unit) \<and>
   (f \<noteq> dbl_min_int \<longrightarrow>
      (v2_le_int_float i f \<longleftrightarrow> \<not> dbl_isnan f \<and> sint i * dbl_unit \<le> dbl_scaled f) \<and>
      (v2_lt_float_int f i \<longleftrightarrow> \<not> dbl_isnan f \<and> dbl_scaled f < sint i * dbl_unit) \<and>
      (v2_eq_int_float i f \<longleftrightarrow> \<not> dbl_isnan f \<and> dbl_scaled f = sint i * dbl_unit))"
  by (simp add: v2_lt_int_float_exact v2_le_float_int_exact v2_le_int_float_exact
      v2_lt_float_int_exact v2_eq_int_float_exact)

text \<open>
  The bound \<open>2 ^ 53 + 1\<close>, which no double holds, against the double \<open>2 ^ 53\<close>: the exact comparison
  tells them apart.
\<close>

theorem mixed_comparisons_exact_witness:
  "\<not> v2_le_int_float 0x20000000000001 0x4340000000000000 \<and>
   v2_lt_float_int 0x4340000000000000 0x20000000000001 \<and>
   \<not> v2_eq_int_float 0x20000000000001 0x4340000000000000"
proof -
  have n: "(0x4340000000000000 :: dbl) \<noteq> dbl_min_int" by (simp add: dbl_min_int_def)
  have m: "dbl_mag 0x4340000000000000 = 2 ^ 52 + 1075 * 2 ^ 52" "\<not> dbl_neg 0x4340000000000000"
    by (simp_all add: dbl_mag_def dbl_neg_def)
  moreover have "mag_val (2 ^ 52 + 1075 * 2 ^ 52) = 2 ^ 52 * 2 ^ 1075"
    by (rule mag_val_normal) simp_all
  ultimately have s: "dbl_scaled 0x4340000000000000 = 2 ^ 53 * dbl_unit"
    by (simp add: dbl_scaled_def dbl_unit_def)
  have i: "sint (0x20000000000001 :: u64) = 2 ^ 53 + 1" by simp
  have "\<not> dbl_isnan 0x4340000000000000" by (simp add: dbl_isnan_def m inf_mag_def)
  then show ?thesis
    using mixed_comparisons_exact [of "0x20000000000001" "0x4340000000000000"] n s i by simp
qed

text \<open>
  At the double \<open>-2 ^ 63\<close> the range test of \<open>v2_flt_to_int\<close> refuses a value that an
  \<open>int64_t\<close> holds: compared with the smallest integer, which is the same number, the equality
  and the weak order from the left are false and the strict order from the right is true.
\<close>

theorem min_integer_comparison:
  "dbl_scaled dbl_min_int = sint (0x8000000000000000 :: u64) * dbl_unit \<and>
   v2_flt_to_int_eq dbl_min_int = None \<and>
   \<not> v2_eq_int_float 0x8000000000000000 dbl_min_int \<and>
   \<not> v2_le_int_float 0x8000000000000000 dbl_min_int \<and>
   v2_lt_float_int dbl_min_int 0x8000000000000000"
proof -
  have i: "sint (0x8000000000000000 :: u64) = - (2 ^ 63)" by simp
  have big: "v2_magnitude_at_least_2_63 dbl_min_int"
    by (simp add: v2_magnitude_at_least_2_63_def dbl_min_int_def)
  have nf: "\<not> v2_int_fits_float 0x8000000000000000" by (simp add: fits_float_iff)
  have nn: "\<not> dbl_isnan dbl_min_int"
    by (simp add: dbl_isnan_def dbl_mag_def dbl_min_int_def inf_mag_def)
  have neg: "dbl_lt dbl_min_int 0" "\<not> dbl_lt 0 dbl_min_int"
    using nn dbl_min_int_scaled by (simp_all add: dbl_lt_def)
  have none: "v2_flt_to_int dbl_min_int mode = None" for mode
    by (rule v2_flt_to_int_large [OF big])
  show ?thesis
    using dbl_min_int_scaled i nf neg none
    by (simp add: v2_flt_to_int_eq_def v2_eq_int_float_def v2_le_int_float_def v2_lt_float_int_def)
qed

text \<open>
  C18. \<open>v2_idiv\<close> and \<open>v2_mod\<close> are Lua's floor division and modulo on every divisor but zero: the
  quotient rounds towards minus infinity (and wraps for the smallest integer divided by -1),
  the remainder has the sign of the divisor, is smaller than it in magnitude, and the two
  recompose the dividend modulo \<open>2 ^ 64\<close>.
\<close>

theorem floor_division:
  assumes "n \<noteq> 0"
  shows "v2_idiv m n = word_of_int (sint m div sint n) \<and>
    sint (v2_mod m n) = sint m mod sint n \<and>
    v2_int_add (v2_int_mul (v2_idiv m n) n) (v2_mod m n) = m"
proof (intro conjI)
  show "v2_idiv m n = word_of_int (sint m div sint n)" by (rule v2_idiv_floor [OF assms])
  show "sint (v2_mod m n) = sint m mod sint n" by (rule v2_mod_range [OF assms])
  have "word_of_int (sint m div sint n) * word_of_int (sint n) + word_of_int (sint m mod sint n)
      = (word_of_int (sint m div sint n * sint n + sint m mod sint n) :: u64)"
    by (simp only: wi_hom_mult wi_hom_add)
  also have "\<dots> = m" by (simp only: div_mult_mod_eq of_int_sint scast_id)
  finally show "v2_int_add (v2_int_mul (v2_idiv m n) n) (v2_mod m n) = m"
    by (simp only: v2_int_add_def v2_int_mul_def v2_idiv_floor [OF assms] v2_mod_floor [OF assms]
        of_int_sint scast_id)
qed

theorem floor_division_witness:
  "v2_idiv (- 7) 2 = - 4 \<and> sint (v2_mod (- 7) 2) = 1 \<and>
   v2_idiv 0x8000000000000000 (- 1) = 0x8000000000000000"
  using floor_division [of 2 "- 7"] floor_division [of "- 1" "0x8000000000000000"] by simp

text \<open>
  \<open>v2_shiftl\<close> is a logical shift by any signed amount: left for a positive count, right
  for a negative one, and zero once the count reaches 64 in either direction.
\<close>

theorem shift_by_signed_count:
  "v2_shiftl x y = (if 0 \<le> sint y then push_bit (nat (sint y)) x else drop_bit (nat (- sint y)) x)"
  by (rule v2_shiftl_exact)

end
