(* ===== verification/Machine.thy ===== *)
theory Machine
  imports Numeric "HOL-Library.Monad_Syntax"
begin

text \<open>
  The physical vocabulary of the native runner (\<open>opcode_value_tags.h\<close>,
  \<open>opcode_value_v2.h\<close>): value tags, object layouts, frames, the invocation with its boundary
  outcome, the patchable holes, and the exits of a stencil.

  Memory is a split heap: one partial map per C type, keyed by the 64-bit address. A guest
  value (a register, an array element, the value of a field, the closed value of an upvalue
  cell) always lives in \<open>vals\<close>, so every \<open>Lua55ValueV2 *\<close> of the sources, whatever it points
  into, is an address of that one map and aliasing between the pointers is kept. An access to
  an address that is not mapped is undefined behaviour in C and is the value \<open>None\<close>.
  Fields that no stencil reads or writes (the driver's bookkeeping in the invocation, padding)
  are left out. Pointer arithmetic is 64-bit word arithmetic with the sizes and offsets of the structs.
  The payload union of a value is its 64 bits.
\<close>

subsection \<open>Tags and kinds\<close>

abbreviation (input) LUA55_VALUE_NIL :: u32 where "LUA55_VALUE_NIL \<equiv> 0"
abbreviation (input) LUA55_VALUE_FALSE :: u32 where "LUA55_VALUE_FALSE \<equiv> 1"
abbreviation (input) LUA55_VALUE_TRUE :: u32 where "LUA55_VALUE_TRUE \<equiv> 2"
abbreviation (input) LUA55_VALUE_INTEGER :: u32 where "LUA55_VALUE_INTEGER \<equiv> 3"
abbreviation (input) LUA55_VALUE_FLOAT :: u32 where "LUA55_VALUE_FLOAT \<equiv> 4"
abbreviation (input) LUA55_VALUE_SHORT_STRING :: u32 where "LUA55_VALUE_SHORT_STRING \<equiv> 5"
abbreviation (input) LUA55_VALUE_LONG_STRING :: u32 where "LUA55_VALUE_LONG_STRING \<equiv> 6"
abbreviation (input) LUA55_VALUE_TABLE :: u32 where "LUA55_VALUE_TABLE \<equiv> 7"
abbreviation (input) LUA55_VALUE_CLOSURE :: u32 where "LUA55_VALUE_CLOSURE \<equiv> 8"

abbreviation (input) LUA55_UPVALUE_OPEN :: u32 where "LUA55_UPVALUE_OPEN \<equiv> 1"
abbreviation (input) LUA55_UPVALUE_CLOSED :: u32 where "LUA55_UPVALUE_CLOSED \<equiv> 2"

abbreviation (input) LUA55_OBJECT_SHORT_STRING :: u32 where "LUA55_OBJECT_SHORT_STRING \<equiv> 1"
abbreviation (input) LUA55_OBJECT_LONG_STRING :: u32 where "LUA55_OBJECT_LONG_STRING \<equiv> 2"
abbreviation (input) LUA55_OBJECT_TABLE :: u32 where "LUA55_OBJECT_TABLE \<equiv> 3"
abbreviation (input) LUA55_OBJECT_CLOSURE :: u32 where "LUA55_OBJECT_CLOSURE \<equiv> 4"
abbreviation (input) LUA55_OBJECT_BUILTIN :: u32 where "LUA55_OBJECT_BUILTIN \<equiv> 5"

abbreviation (input) LUA55_V2_OUTCOME_EXECUTING :: u32 where "LUA55_V2_OUTCOME_EXECUTING \<equiv> 0"
abbreviation (input) LUA55_V2_OUTCOME_RETURNED :: u32 where "LUA55_V2_OUTCOME_RETURNED \<equiv> 1"
abbreviation (input) LUA55_V2_OUTCOME_HOST_CALL :: u32 where "LUA55_V2_OUTCOME_HOST_CALL \<equiv> 2"
abbreviation (input) LUA55_V2_OUTCOME_HOST_TAIL_CALL :: u32 where "LUA55_V2_OUTCOME_HOST_TAIL_CALL \<equiv> 3"
abbreviation (input) LUA55_V2_OUTCOME_STACK_OVERFLOW :: u32 where "LUA55_V2_OUTCOME_STACK_OVERFLOW \<equiv> 4"
abbreviation (input) LUA55_V2_OUTCOME_VALUE_OVERFLOW :: u32 where "LUA55_V2_OUTCOME_VALUE_OVERFLOW \<equiv> 5"
abbreviation (input) LUA55_V2_OUTCOME_HEAP_OVERFLOW :: u32 where "LUA55_V2_OUTCOME_HEAP_OVERFLOW \<equiv> 6"
abbreviation (input) LUA55_V2_OUTCOME_GUEST_ERROR :: u32 where "LUA55_V2_OUTCOME_GUEST_ERROR \<equiv> 7"
abbreviation (input) LUA55_V2_OUTCOME_REJECTED :: u32 where "LUA55_V2_OUTCOME_REJECTED \<equiv> 8"

abbreviation (input) LUA55_V2_REJECT_UNSUPPORTED_OPCODE :: u32 where "LUA55_V2_REJECT_UNSUPPORTED_OPCODE \<equiv> 1"
abbreviation (input) LUA55_V2_REJECT_UNSUPPORTED_METAMETHOD :: u32 where
  "LUA55_V2_REJECT_UNSUPPORTED_METAMETHOD \<equiv> 2"
abbreviation (input) LUA55_V2_REJECT_INVALID_OBJECT :: u32 where "LUA55_V2_REJECT_INVALID_OBJECT \<equiv> 3"
abbreviation (input) LUA55_V2_REJECT_UNSUPPORTED_CALLEE :: u32 where "LUA55_V2_REJECT_UNSUPPORTED_CALLEE \<equiv> 7"
abbreviation (input) LUA55_V2_REJECT_STEP_ZERO :: u32 where "LUA55_V2_REJECT_STEP_ZERO \<equiv> 8"
abbreviation (input) LUA55_V2_REJECT_SPECIALIZATION_MISMATCH :: u32 where
  "LUA55_V2_REJECT_SPECIALIZATION_MISMATCH \<equiv> 9"

subsection \<open>Guest values and objects\<close>

record lua_value =
  tag :: u32
  reserved :: u32
  payload :: u64

definition SET_TAG :: "u32 \<Rightarrow> lua_value \<Rightarrow> lua_value" where
  "SET_TAG t v = v\<lparr>tag := t, reserved := 0\<rparr>"

definition mk_value :: "u32 \<Rightarrow> u64 \<Rightarrow> lua_value" where
  "mk_value t p = \<lparr>tag = t, reserved = 0, payload = p\<rparr>"

record guest_header =
  kind :: u32
  generation :: u32

record guest_string =
  str_length :: u32
  str_hash :: u32
  str_bytes :: u64

record guest_heap =
  heap_generation :: u32
  collection_epoch :: u32
  object_count :: u32
  barrier_epoch :: u32
  table_region :: u64
  table_region_end :: u64
  table_next :: u64

record guest_field =
  key_reference :: u64
  occupied :: u32
  field_reserved :: u32

record guest_table =
  storage_generation :: u32
  array_capacity :: u32
  field_capacity :: u32
  barrier_count :: u32
  metatable_reference :: u64
  array_values :: u64
  field_values :: u64
  table_heap :: u64
  site_id :: u32

record upvalue_cell =
  open_slot :: u64
  next_open :: u64
  cell_state :: u32
  cell_generation :: u32

record native_closure =
  proto_index :: u32
  upvalue_count :: u32

record function_descriptor =
  desc_entry :: u64
  maxstacksize :: u32
  numparams :: u32
  is_vararg :: u32
  desc_upvalue_count :: u32
  desc_tbc_capacity :: u32
  desc_value_capacity :: u32

text \<open>Sizes and field offsets of the structs under the 64-bit ABI.\<close>

abbreviation (input) SIZEOF_VALUE :: u64 where "SIZEOF_VALUE \<equiv> 16"
abbreviation (input) SIZEOF_FIELD :: u64 where "SIZEOF_FIELD \<equiv> 32"
abbreviation (input) SIZEOF_TABLE :: u64 where "SIZEOF_TABLE \<equiv> 64"
abbreviation (input) SIZEOF_STRING :: u64 where "SIZEOF_STRING \<equiv> 24"
abbreviation (input) SIZEOF_CELL :: u64 where "SIZEOF_CELL \<equiv> 40"
abbreviation (input) SIZEOF_CLOSURE :: u64 where "SIZEOF_CLOSURE \<equiv> 16"
abbreviation (input) SIZEOF_FRAME :: u64 where "SIZEOF_FRAME \<equiv> 120"
abbreviation (input) SIZEOF_TBC :: u64 where "SIZEOF_TBC \<equiv> 24"
abbreviation (input) OFFSET_FIELD_VALUE :: u64 where "OFFSET_FIELD_VALUE \<equiv> 8"
abbreviation (input) OFFSET_CELL_CLOSED :: u64 where "OFFSET_CELL_CLOSED \<equiv> 8"
abbreviation (input) OFFSET_FRAME_TOP :: u64 where "OFFSET_FRAME_TOP \<equiv> 104"

record result_sink =
  sink_values :: u64
  sink_top :: u64
  sink_base :: u32
  sink_count :: u32
  sink_capacity :: u32

record native_frame =
  caller :: u64
  return_entry :: u64
  return_subject :: u64
  frame_sink :: result_sink
  upvalues :: u64
  open_upvalues :: u64
  tbc_nodes :: u64
  frame_values :: u64
  value_count :: u32
  value_capacity :: u32
  vararg_count :: u32
  tbc_count :: u32
  tbc_capacity :: u32

record learn_slot =
  key_tag :: u32
  value_tag :: u32
  max_array_index :: u64
  max_field_count :: u32
  seen :: u32
  field_slot :: u32
  field_layout_capacity :: u32
  field_state :: u32
  field_site_id :: u32

text \<open>
  The boundary outcome. The members of the C union are kept apart; the driver reads the member
  that the discriminant names.
\<close>

record host_call_payload =
  hc_resume_entry :: u64
  hc_a :: u32
  hc_b :: u32
  hc_c :: u32
  hc_pc :: u32
  hc_host_id :: u32
  hc_reserved :: u32

record host_tail_payload =
  ht_tail_return_entry :: u64
  ht_a :: u32
  ht_b :: u32
  ht_pc :: u32
  ht_host_id :: u32

record overflow_payload =
  required :: u64
  available :: u64
  overflow_pc :: u32

record error_payload =
  error_kind :: u32
  error_pc :: u32
  error_value :: lua_value

record rejected_payload =
  rejection_kind :: u32
  rejected_opcode :: u32
  rejected_pc :: u32
  expected_tag :: u32
  observed_tag :: u32

record boundary_outcome =
  discriminant :: u32
  out_result_count :: u32
  host_call :: host_call_payload
  host_tail_call :: host_tail_payload
  overflow :: overflow_payload
  guest_error :: error_payload
  rejected :: rejected_payload

record mismatch_record =
  mm_pc :: u32
  mm_expected :: u32
  mm_observed :: u32

record prepared_call =
  pc_callee :: u64
  pc_entry :: u64
  pc_next_frame :: u64
  pc_nparams :: u32
  pc_nargs :: u32

record prepared_tail_call =
  pt_entry :: u64
  pt_upvalues :: u64
  pt_frame_end :: u64
  pt_nparams :: u32
  pt_nargs :: u32
  pt_vararg_count :: u32
  pt_maxstack :: u32
  pt_value_capacity :: u32
  pt_tbc_capacity :: u32

record prepared_concat =
  cc_total :: u64
  cc_string :: u64
  cc_out :: u64

record invocation =
  frame_next :: u64
  frame_end :: u64
  current_frame :: u64
  function_table :: "u32 \<rightharpoonup> function_descriptor"
  function_count :: u32
  heap_ptr :: u64
  learning :: u64
  learning_slots :: u32
  outcome :: boundary_outcome
  prep_call :: prepared_call
  prep_tail_call :: prepared_tail_call
  prep_concat :: prepared_concat
  specialization_mismatch :: mismatch_record

record v2_state =
  vals :: "u64 \<rightharpoonup> lua_value"
  tops :: "u64 \<rightharpoonup> u32"
  ptrs :: "u64 \<rightharpoonup> u64"
  bytes :: "u64 \<rightharpoonup> u8"
  headers :: "u64 \<rightharpoonup> guest_header"
  strings :: "u64 \<rightharpoonup> guest_string"
  tables :: "u64 \<rightharpoonup> guest_table"
  gfields :: "u64 \<rightharpoonup> guest_field"
  cells :: "u64 \<rightharpoonup> upvalue_cell"
  closures :: "u64 \<rightharpoonup> native_closure"
  frames :: "u64 \<rightharpoonup> native_frame"
  heaps :: "u64 \<rightharpoonup> guest_heap"
  slots :: "u32 \<rightharpoonup> learn_slot"
  inv :: invocation


subsection \<open>The patchable holes\<close>

text \<open>
  One field per hole of the vocabulary (\<open>V2_*_HOLE\<close>): the bank builder patches a concrete value
  into every site before the code runs, so a stencil is a function of these values. The
  displacement holes hold signed 32-bit byte displacements from \<open>frame->values\<close>.
  \<open>h_pow\<close> is the libm routine whose address is patched into \<open>V2_POW_ADDRESS\<close>,
  \<open>h_itoa\<close> and \<open>h_dtoa\<close> are the formatting routines patched into \<open>V2_ITOA_ADDR\<close> and \<open>V2_DTOA_ADDR\<close>: the
  bytes they leave in the buffer, of which they return the number.
\<close>

record holes =
  h_resume :: u32
  h_host_exit :: u64
  h_target :: u32
  h_source :: u32
  h_target_disp :: u32
  h_receiver_disp :: u32
  h_object_disp :: u32
  h_source_disp :: u32
  h_top_index :: u32
  h_base_disp :: u32
  h_array_disp :: u32
  h_key_disp :: u32
  h_left :: u32
  h_right :: u32
  h_left_disp :: u32
  h_right_disp :: u32
  h_upvalue :: u32
  h_integer_bits :: u64
  h_float_bits :: u64
  h_span :: u32
  h_const_tag :: u32
  h_const_int :: u64
  h_const_flt :: u64
  h_const_ref :: u64
  h_int_imm :: u64
  h_k :: u32
  h_link :: u64
  h_taken :: u64
  h_tail_return :: u64
  h_fall :: u64
  h_body :: u64
  h_skip :: u64
  h_a :: u32
  h_b :: u32
  h_c :: u32
  h_pc :: u32
  h_arg_count :: u32
  h_result_count :: u32
  h_continuation :: u64
  h_proto_index :: u32
  h_nupvals :: u32
  h_instack :: "nat \<Rightarrow> u32"
  h_idx :: "nat \<Rightarrow> u32"
  h_pow :: "dbl \<Rightarrow> dbl \<Rightarrow> dbl"
  h_itoa :: "u64 \<Rightarrow> u8 list"
  h_dtoa :: "dbl \<Rightarrow> u8 list"
  h_base_index :: u32
  h_receiver :: u32
  h_key_reg :: u32
  h_object_target :: u32
  h_int_key :: u32
  h_key_ref :: u64
  h_array_cap :: u32
  h_field_cap :: u32
  h_field_slot :: u32
  h_field_layout_cap :: u32
  h_occ_slot :: u32
  h_site_id :: u32
  h_need_grow_link :: u64
  h_need_create_link :: u64
  h_field_receiver :: u32
  h_source_key_ref :: u64
  h_resume_link :: u64
  h_mismatch_exit :: u64
  h_fragment_next :: u64
  h_accum_key2 :: u32
  h_setlist_base :: u32
  h_setlist_count :: u32
  h_setlist_key :: u32
  h_wanted :: u32

subsection \<open>How a stencil ends\<close>

text \<open>
  Every stencil ends in a tail call: to its patched successor (\<open>LUA55_RESIDUAL_NEXT\<close>), to an
  entry address with a subject frame, or to the host stub. \<open>None\<close> is undefined behaviour or
  a loop that never ends.
\<close>

datatype control = Next u64 | Jump u64 u64 | Host_exit u64 u64

type_synonym 'a v2 = "v2_state \<Rightarrow> ('a \<times> v2_state) option"
type_synonym stencil = "holes \<Rightarrow> u64 \<Rightarrow> v2_state \<Rightarrow> (control \<times> v2_state) option"

definition LUA55_RESIDUAL_NEXT :: "u64 \<Rightarrow> v2_state \<Rightarrow> (control \<times> v2_state) option" where
  "LUA55_RESIDUAL_NEXT f s = Some (Next f, s)"

definition LUA55_CPS_HOST_EXIT :: stencil where
  "LUA55_CPS_HOST_EXIT h f s = Some (Host_exit (h_host_exit h) f, s)"

subsection \<open>Accesses\<close>

definition rd_val :: "u64 \<Rightarrow> v2_state \<Rightarrow> lua_value option" where
  "rd_val a s = vals s a"

definition wr_val :: "u64 \<Rightarrow> lua_value \<Rightarrow> v2_state \<Rightarrow> v2_state option" where
  "wr_val a v s = (if vals s a = None then None else Some (s\<lparr>vals := (vals s)(a \<mapsto> v)\<rparr>))"

definition wr_tag :: "u64 \<Rightarrow> u32 \<Rightarrow> v2_state \<Rightarrow> v2_state option" where
  "wr_tag a t s = do {v \<leftarrow> rd_val a s; wr_val a (SET_TAG t v) s}"

definition wr_int :: "u64 \<Rightarrow> u64 \<Rightarrow> v2_state \<Rightarrow> v2_state option" where
  "wr_int a i s = wr_val a (mk_value LUA55_VALUE_INTEGER i) s"

definition wr_flt :: "u64 \<Rightarrow> dbl \<Rightarrow> v2_state \<Rightarrow> v2_state option" where
  "wr_flt a x s = wr_val a (mk_value LUA55_VALUE_FLOAT x) s"

definition wr_ref :: "u64 \<Rightarrow> u32 \<Rightarrow> u64 \<Rightarrow> v2_state \<Rightarrow> v2_state option" where
  "wr_ref a t r s = wr_val a (mk_value t r) s"

definition slot_addr :: "u64 \<Rightarrow> u32 \<Rightarrow> u64" where
  "slot_addr base i = base + SIZEOF_VALUE * ucast i"

definition V2_VALUE :: "u32 \<Rightarrow> u64 \<Rightarrow> v2_state \<Rightarrow> u64 option" where
  "V2_VALUE reg f s = do {fr \<leftarrow> frames s f; Some (slot_addr (frame_values fr) reg)}"

definition V2_VALUE_DISP :: "u32 \<Rightarrow> u64 \<Rightarrow> v2_state \<Rightarrow> u64 option" where
  "V2_VALUE_DISP disp f s = do {fr \<leftarrow> frames s f; Some (frame_values fr + scast disp)}"

definition V2_VALUE_BASE_DISP :: "u64 \<Rightarrow> u32 \<Rightarrow> u64" where
  "V2_VALUE_BASE_DISP base disp = base + scast disp"

definition rd_byte :: "u64 \<Rightarrow> v2_state \<Rightarrow> u8 option" where
  "rd_byte a s = bytes s a"

lemmas [v2_defs] = LUA55_RESIDUAL_NEXT_def LUA55_CPS_HOST_EXIT_def rd_val_def wr_val_def wr_tag_def
  wr_int_def wr_flt_def wr_ref_def V2_VALUE_def V2_VALUE_DISP_def V2_VALUE_BASE_DISP_def
  rd_byte_def SET_TAG_def mk_value_def

lemma slot_addr_nat: "slot_addr base i = base + word_of_nat (16 * unat i)"
  by (simp add: slot_addr_def)

lemma slot_addr_inj [simp]: "slot_addr base i = slot_addr base j \<longleftrightarrow> i = j"
proof
  assume "slot_addr base i = slot_addr base j"
  then have e: "(word_of_nat (16 * unat i) :: u64) = word_of_nat (16 * unat j)"
    by (simp only: slot_addr_nat add_left_cancel)
  have "16 * unat i < 2 ^ 64" "16 * unat j < 2 ^ 64"
    using unat32_less [of i] unat32_less [of j] by simp_all
  with e have "16 * unat i = 16 * unat j" by (metis unat_of_nat64)
  then show "i = j" by (simp add: word_unat_eq_iff)
qed simp

text \<open>\<open>(x + 15) & ~15\<close> is the next multiple of 16.\<close>

lemma align_up:
  assumes "unat nxt + 15 < 2 ^ 64"
  shows "unat ((nxt + 15) AND NOT (15 :: u64)) = (unat nxt + 15) div 16 * 16"
proof -
  have m: "(15 :: u64) = mask 4" by (simp add: mask_eq_exp_minus_1)
  have u: "unat (nxt + 15) = unat nxt + 15" using assms by (simp add: unat_plus64)
  have e: "(2 :: nat) ^ 4 = 16" by simp
  have d: "unat (drop_bit 4 (nxt + 15)) = (unat nxt + 15) div 16"
    by (simp only: unat_drop_bit_eq drop_bit_eq_div [where 'a = nat] u e)
  have "(unat nxt + 15) div 16 * 16 \<le> unat nxt + 15" by simp
  then have b: "unat (drop_bit 4 (nxt + 15)) * 2 ^ 4 < 2 ^ 64"
    unfolding d e using assms by (rule le_less_trans)
  have "(nxt + 15) AND NOT (15 :: u64) = push_bit 4 (drop_bit 4 (nxt + 15))"
    unfolding m by (rule bit_eqI) (auto simp: bit_simps)
  moreover have "unat (push_bit 4 (drop_bit 4 (nxt + 15))) = unat (drop_bit 4 (nxt + 15)) * 2 ^ 4"
    using b by (simp only: unsigned_push_bit_eq push_bit_eq_mult [where 'a = nat] take_bit_nat_eq_self_iff
        take_bit_nat_eq_self len_bit0 len_num1) simp
  ultimately show ?thesis using d e by simp
qed

subsection \<open>Blank states\<close>

text \<open>
  A frame, a set of holes and a state in which everything is zero or unmapped; concrete
  configurations are updates of these.
\<close>

definition blank_sink :: result_sink where
  "blank_sink = \<lparr>
     sink_values = 0, sink_top = 0, sink_base = 0, sink_count = 0, sink_capacity = 0\<rparr>"

definition blank_host_call :: host_call_payload where
  "blank_host_call = \<lparr>
     hc_resume_entry = 0, hc_a = 0, hc_b = 0, hc_c = 0, hc_pc = 0, hc_host_id = 0,
     hc_reserved = 0\<rparr>"

definition blank_host_tail :: host_tail_payload where
  "blank_host_tail = \<lparr>
     ht_tail_return_entry = 0, ht_a = 0, ht_b = 0, ht_pc = 0, ht_host_id = 0\<rparr>"

definition blank_overflow :: overflow_payload where
  "blank_overflow = \<lparr>
     required = 0, available = 0, overflow_pc = 0\<rparr>"

definition blank_error :: error_payload where
  "blank_error = \<lparr>
     error_kind = 0, error_pc = 0, error_value = mk_value 0 0\<rparr>"

definition blank_rejected :: rejected_payload where
  "blank_rejected = \<lparr>
     rejection_kind = 0, rejected_opcode = 0, rejected_pc = 0, expected_tag = 0,
     observed_tag = 0\<rparr>"

definition blank_outcome :: boundary_outcome where
  "blank_outcome = \<lparr>
     discriminant = 0, out_result_count = 0, host_call = blank_host_call,
     host_tail_call = blank_host_tail, overflow = blank_overflow, guest_error = blank_error,
     rejected = blank_rejected\<rparr>"

definition blank_mismatch :: mismatch_record where
  "blank_mismatch = \<lparr>
     mm_pc = 0, mm_expected = 0, mm_observed = 0\<rparr>"

definition blank_call :: prepared_call where
  "blank_call = \<lparr>
     pc_callee = 0, pc_entry = 0, pc_next_frame = 0, pc_nparams = 0, pc_nargs = 0\<rparr>"

definition blank_tail_call :: prepared_tail_call where
  "blank_tail_call = \<lparr>
     pt_entry = 0, pt_upvalues = 0, pt_frame_end = 0, pt_nparams = 0, pt_nargs = 0,
     pt_vararg_count = 0, pt_maxstack = 0, pt_value_capacity = 0, pt_tbc_capacity = 0\<rparr>"

definition blank_concat :: prepared_concat where
  "blank_concat = \<lparr>
     cc_total = 0, cc_string = 0, cc_out = 0\<rparr>"

definition blank_invocation :: invocation where
  "blank_invocation = \<lparr>
     frame_next = 0, frame_end = 0, current_frame = 0, function_table = Map.empty,
     function_count = 0, heap_ptr = 0, learning = 0, learning_slots = 0,
     outcome = blank_outcome, prep_call = blank_call, prep_tail_call = blank_tail_call,
     prep_concat = blank_concat, specialization_mismatch = blank_mismatch\<rparr>"

definition blank_frame :: native_frame where
  "blank_frame = \<lparr>
     caller = 0, return_entry = 0, return_subject = 0, frame_sink = blank_sink, upvalues = 0,
     open_upvalues = 0, tbc_nodes = 0, frame_values = 0, value_count = 0, value_capacity = 0,
     vararg_count = 0, tbc_count = 0, tbc_capacity = 0\<rparr>"

definition blank_holes :: holes where
  "blank_holes = \<lparr>
     h_resume = 0, h_host_exit = 0, h_target = 0, h_source = 0, h_target_disp = 0,
     h_receiver_disp = 0, h_object_disp = 0, h_source_disp = 0, h_top_index = 0,
     h_base_disp = 0, h_array_disp = 0, h_key_disp = 0, h_left = 0, h_right = 0,
     h_left_disp = 0, h_right_disp = 0, h_upvalue = 0, h_integer_bits = 0, h_float_bits = 0,
     h_span = 0, h_const_tag = 0, h_const_int = 0, h_const_flt = 0, h_const_ref = 0,
     h_int_imm = 0, h_k = 0, h_link = 0, h_taken = 0, h_tail_return = 0, h_fall = 0,
     h_body = 0, h_skip = 0, h_a = 0, h_b = 0, h_c = 0, h_pc = 0, h_arg_count = 0,
     h_result_count = 0, h_continuation = 0, h_proto_index = 0, h_nupvals = 0,
     h_instack = (\<lambda>_. 0), h_idx = (\<lambda>_. 0), h_pow = dbl_mul, h_itoa = (\<lambda>_. []),
     h_dtoa = (\<lambda>_. []), h_base_index = 0,
     h_receiver = 0, h_key_reg = 0, h_object_target = 0, h_int_key = 0, h_key_ref = 0,
     h_array_cap = 0, h_field_cap = 0, h_field_slot = 0, h_field_layout_cap = 0,
     h_occ_slot = 0, h_site_id = 0, h_need_grow_link = 0, h_need_create_link = 0,
     h_field_receiver = 0, h_source_key_ref = 0, h_resume_link = 0, h_mismatch_exit = 0,
     h_fragment_next = 0, h_accum_key2 = 0, h_setlist_base = 0, h_setlist_count = 0,
     h_setlist_key = 0, h_wanted = 0\<rparr>"

definition blank_state :: v2_state where
  "blank_state = \<lparr>
     vals = Map.empty, tops = Map.empty, ptrs = Map.empty, bytes = Map.empty,
     headers = Map.empty, strings = Map.empty, tables = Map.empty, gfields = Map.empty,
     cells = Map.empty, closures = Map.empty, frames = Map.empty, heaps = Map.empty,
     slots = Map.empty, inv = blank_invocation\<rparr>"

lemma blank_invocation_sel [simp]:
  "frame_next blank_invocation = 0" "frame_end blank_invocation = 0"
  "current_frame blank_invocation = 0" "function_table blank_invocation = Map.empty"
  "function_count blank_invocation = 0" "heap_ptr blank_invocation = 0"
  "learning blank_invocation = 0" "learning_slots blank_invocation = 0"
  "outcome blank_invocation = blank_outcome" "prep_call blank_invocation = blank_call"
  "prep_tail_call blank_invocation = blank_tail_call"
  "prep_concat blank_invocation = blank_concat"
  "specialization_mismatch blank_invocation = blank_mismatch"
  by (simp_all add: blank_invocation_def)

lemma blank_frame_sel [simp]:
  "caller blank_frame = 0" "return_entry blank_frame = 0" "return_subject blank_frame = 0"
  "frame_sink blank_frame = blank_sink" "upvalues blank_frame = 0"
  "open_upvalues blank_frame = 0" "tbc_nodes blank_frame = 0" "frame_values blank_frame = 0"
  "value_count blank_frame = 0" "value_capacity blank_frame = 0"
  "vararg_count blank_frame = 0" "tbc_count blank_frame = 0" "tbc_capacity blank_frame = 0"
  by (simp_all add: blank_frame_def)

lemma blank_holes_sel [simp]:
  "h_resume blank_holes = 0" "h_host_exit blank_holes = 0" "h_target blank_holes = 0"
  "h_source blank_holes = 0" "h_target_disp blank_holes = 0"
  "h_receiver_disp blank_holes = 0" "h_object_disp blank_holes = 0"
  "h_source_disp blank_holes = 0" "h_top_index blank_holes = 0"
  "h_base_disp blank_holes = 0" "h_array_disp blank_holes = 0" "h_key_disp blank_holes = 0"
  "h_left blank_holes = 0" "h_right blank_holes = 0" "h_left_disp blank_holes = 0"
  "h_right_disp blank_holes = 0" "h_upvalue blank_holes = 0"
  "h_integer_bits blank_holes = 0" "h_float_bits blank_holes = 0" "h_span blank_holes = 0"
  "h_const_tag blank_holes = 0" "h_const_int blank_holes = 0" "h_const_flt blank_holes = 0"
  "h_const_ref blank_holes = 0" "h_int_imm blank_holes = 0" "h_k blank_holes = 0"
  "h_link blank_holes = 0" "h_taken blank_holes = 0" "h_tail_return blank_holes = 0"
  "h_fall blank_holes = 0" "h_body blank_holes = 0" "h_skip blank_holes = 0"
  "h_a blank_holes = 0" "h_b blank_holes = 0" "h_c blank_holes = 0" "h_pc blank_holes = 0"
  "h_arg_count blank_holes = 0" "h_result_count blank_holes = 0"
  "h_continuation blank_holes = 0" "h_proto_index blank_holes = 0"
  "h_nupvals blank_holes = 0" "h_instack blank_holes = (\<lambda>_. 0)"
  "h_idx blank_holes = (\<lambda>_. 0)" "h_pow blank_holes = dbl_mul"
  "h_itoa blank_holes = (\<lambda>_. [])" "h_dtoa blank_holes = (\<lambda>_. [])"
  "h_base_index blank_holes = 0" "h_receiver blank_holes = 0" "h_key_reg blank_holes = 0"
  "h_object_target blank_holes = 0" "h_int_key blank_holes = 0" "h_key_ref blank_holes = 0"
  "h_array_cap blank_holes = 0" "h_field_cap blank_holes = 0" "h_field_slot blank_holes = 0"
  "h_field_layout_cap blank_holes = 0" "h_occ_slot blank_holes = 0"
  "h_site_id blank_holes = 0" "h_need_grow_link blank_holes = 0"
  "h_need_create_link blank_holes = 0" "h_field_receiver blank_holes = 0"
  "h_source_key_ref blank_holes = 0" "h_resume_link blank_holes = 0"
  "h_mismatch_exit blank_holes = 0" "h_fragment_next blank_holes = 0"
  "h_accum_key2 blank_holes = 0" "h_setlist_base blank_holes = 0"
  "h_setlist_count blank_holes = 0" "h_setlist_key blank_holes = 0"
  "h_wanted blank_holes = 0"
  by (simp_all add: blank_holes_def)

lemma blank_state_sel [simp]:
  "vals blank_state = Map.empty" "tops blank_state = Map.empty"
  "ptrs blank_state = Map.empty" "bytes blank_state = Map.empty"
  "headers blank_state = Map.empty" "strings blank_state = Map.empty"
  "tables blank_state = Map.empty" "gfields blank_state = Map.empty"
  "cells blank_state = Map.empty" "closures blank_state = Map.empty"
  "frames blank_state = Map.empty" "heaps blank_state = Map.empty"
  "slots blank_state = Map.empty" "inv blank_state = blank_invocation"
  by (simp_all add: blank_state_def)

end
