(* ===== verification/Spans.thy ===== *)
theory Spans
  imports Machine
begin

text \<open>
  Runs of consecutive guest values: the two loops that the stencils write over and over (set a
  run of registers to nil, copy one run of registers to another) and what they do to memory.
  An index is a \<open>uint32_t\<close>; an iteration advances it modulo \<open>2 ^ 32\<close>.
\<close>

subsection \<open>Single accesses\<close>

lemma wr_val_Some: "wr_val a v s = Some t \<longleftrightarrow> vals s a \<noteq> None \<and> t = s\<lparr>vals := (vals s)(a \<mapsto> v)\<rparr>"
  by (auto simp: wr_val_def)

lemma wr_val_defined: "vals s a \<noteq> None \<Longrightarrow> wr_val a v s = Some (s\<lparr>vals := (vals s)(a \<mapsto> v)\<rparr>)"
  by (simp add: wr_val_def)

lemma wr_tag_defined:
  "vals s a = Some v \<Longrightarrow> wr_tag a t s = Some (s\<lparr>vals := (vals s)(a \<mapsto> SET_TAG t v)\<rparr>)"
  by (simp add: wr_tag_def rd_val_def wr_val_def)

subsection \<open>The loops\<close>

text \<open>
  \<open>for (; n > 0; i++, n--) SET_TAG(&base[i], NIL)\<close>.
\<close>

primrec nil_span :: "u64 \<Rightarrow> u32 \<Rightarrow> nat \<Rightarrow> v2_state \<Rightarrow> v2_state option" where
  "nil_span base i 0 s = Some s"
| "nil_span base i (Suc n) s = do {
     s \<leftarrow> wr_tag (slot_addr base i) LUA55_VALUE_NIL s;
     nil_span base (i + 1) n s}"

text \<open>\<open>for (; n > 0; i++, j++, n--) dst[i] = src[j]\<close>.\<close>

primrec copy_span :: "u64 \<Rightarrow> u32 \<Rightarrow> u64 \<Rightarrow> u32 \<Rightarrow> nat \<Rightarrow> v2_state \<Rightarrow> v2_state option" where
  "copy_span dst i src j 0 s = Some s"
| "copy_span dst i src j (Suc n) s = do {
     v \<leftarrow> rd_val (slot_addr src j) s;
     s \<leftarrow> wr_val (slot_addr dst i) v s;
     copy_span dst (i + 1) src (j + 1) n s}"

subsection \<open>What they do\<close>

definition span :: "u64 \<Rightarrow> u32 \<Rightarrow> nat \<Rightarrow> u64 list" where
  "span base i n = map (\<lambda>k. slot_addr base (i + word_of_nat k)) [0..<n]"

definition mapped :: "u64 list \<Rightarrow> v2_state \<Rightarrow> bool" where
  "mapped as s \<longleftrightarrow> (\<forall>a\<in>set as. vals s a \<noteq> None)"

lemma length_span [simp]: "length (span base i n) = n"
  by (simp add: span_def)

lemma span_0 [simp]: "span base i 0 = []"
  by (simp add: span_def)

lemma span_Suc [simp]: "span base i (Suc n) = slot_addr base i # span base (i + 1) n"
proof -
  have "span base i (Suc n) = slot_addr base (i + word_of_nat 0) #
      map (\<lambda>k. slot_addr base (i + word_of_nat (Suc k))) [0..<n]"
    unfolding span_def by (simp only: upt_conv_Cons [OF zero_less_Suc] list.map map_Suc_upt [symmetric] map_map o_def)
  then show ?thesis by (simp add: span_def add.assoc)
qed

lemma span_nth [simp]: "k < n \<Longrightarrow> span base i n ! k = slot_addr base (i + word_of_nat k)"
  by (simp add: span_def)

lemma distinct_span: "n \<le> 2 ^ 32 \<Longrightarrow> distinct (span base i n)"
  unfolding span_def distinct_map
  by (auto simp: inj_on_def of_nat32_inj)

lemma mapped_upd [simp]: "mapped as s \<Longrightarrow> mapped as (s\<lparr>vals := (vals s)(a \<mapsto> v)\<rparr>)"
  by (simp add: mapped_def)

lemma mapped_Cons [simp]: "mapped (a # as) s \<longleftrightarrow> vals s a \<noteq> None \<and> mapped as s"
  by (auto simp: mapped_def)

lemma SET_TAG_idem [simp]: "SET_TAG t (SET_TAG u v) = SET_TAG t v"
  by (simp add: SET_TAG_def)

lemma nil_span_spec:
  "mapped (span base i n) s \<Longrightarrow> nil_span base i n s = Some (s\<lparr>vals := (\<lambda>a.
     if a \<in> set (span base i n) then map_option (SET_TAG LUA55_VALUE_NIL) (vals s a) else vals s a)\<rparr>)"
proof (induction n arbitrary: i s)
  case (Suc n)
  then obtain v where v: "vals s (slot_addr base i) = Some v" by auto
  let ?s = "s\<lparr>vals := (vals s)(slot_addr base i \<mapsto> SET_TAG LUA55_VALUE_NIL v)\<rparr>"
  have "mapped (span base (i + 1) n) ?s" using Suc.prems by simp
  from Suc.IH [OF this] show ?case
    using v by (auto simp: wr_tag_defined fun_eq_iff intro!: arg_cong [where f = "\<lambda>g. s\<lparr>vals := g\<rparr>"])
qed simp

text \<open>The source of a copy is read as it was before, if no target slot lies in it.\<close>

lemma copy_span_spec:
  assumes "mapped (span dst i n) s" and "mapped (span src j n) s"
    and "set (span dst i n) \<inter> set (span src j n) = {}"
    and "n \<le> 2 ^ 32"
  shows "\<exists>m. copy_span dst i src j n s = Some (s\<lparr>vals := m\<rparr>) \<and>
     (\<forall>k<n. m (slot_addr dst (i + word_of_nat k)) = vals s (slot_addr src (j + word_of_nat k))) \<and>
     (\<forall>a. a \<notin> set (span dst i n) \<longrightarrow> m a = vals s a)"
  using assms
proof (induction n arbitrary: i j s)
  case 0
  show ?case by (rule exI [of _ "vals s"]) simp
next
  case (Suc n)
  then obtain v where v: "vals s (slot_addr src j) = Some v" by auto
  let ?s = "s\<lparr>vals := (vals s)(slot_addr dst i \<mapsto> v)\<rparr>"
  have "mapped (span dst (i + 1) n) ?s" "mapped (span src (j + 1) n) ?s"
      "set (span dst (i + 1) n) \<inter> set (span src (j + 1) n) = {}" "n \<le> 2 ^ 32"
    using Suc.prems by auto
  from Suc.IH [OF this] obtain m where
    m: "copy_span dst (i + 1) src (j + 1) n ?s = Some (?s\<lparr>vals := m\<rparr>)"
      "\<forall>k<n. m (slot_addr dst (i + 1 + word_of_nat k)) = vals ?s (slot_addr src (j + 1 + word_of_nat k))"
      "\<forall>a. a \<notin> set (span dst (i + 1) n) \<longrightarrow> m a = vals ?s a" by blast
  have run: "copy_span dst i src j (Suc n) s = Some (s\<lparr>vals := m\<rparr>)"
    using Suc.prems(1) v m(1) by (simp add: rd_val_def wr_val_def)
  have d: "slot_addr dst i \<notin> set (span dst (i + 1) n)"
    using distinct_span [OF Suc.prems(4), of dst i] by simp
  have ne: "slot_addr src (j + 1 + word_of_nat k) \<noteq> slot_addr dst i" if "k < n" for k
    using Suc.prems(3) that nth_mem [of k "span src (j + 1) n"] by auto
  have "m (slot_addr dst (i + word_of_nat k)) = vals s (slot_addr src (j + word_of_nat k))"
    if "k < Suc n" for k
  proof (cases k)
    case 0
    then show ?thesis using m(3) d v by simp
  next
    case (Suc k')
    with that m(2) ne [of k'] show ?thesis by (simp add: add.assoc)
  qed
  moreover have "m a = vals s a" if "a \<notin> set (span dst i (Suc n))" for a
    using that m(3) by simp
  ultimately show ?case using run by blast
qed

end
