(* ===== verification/Movement.thy ===== *)
theory Movement
  imports Spans
begin

text \<open>
  Opcodes 0 to 10 of \<open>opcode_v2_core_stencils.c\<close> (moves, constants, upvalue access), the
  truth and string-tag tests, and the two boundary publications and the upvalue closing of
  \<open>opcode_value_v2.h\<close>.
\<close>

subsection \<open>Tests on tags\<close>

definition v2_truthy :: "u32 \<Rightarrow> bool" where
  "v2_truthy t \<longleftrightarrow> \<not> (t = LUA55_VALUE_NIL \<or> t = LUA55_VALUE_FALSE)"

definition v2_is_string_tag :: "u32 \<Rightarrow> bool" where
  "v2_is_string_tag t \<longleftrightarrow> t = LUA55_VALUE_SHORT_STRING \<or> t = LUA55_VALUE_LONG_STRING"

subsection \<open>Moves and constants\<close>

definition lua55_v2_move :: stencil where
  "lua55_v2_move h f s = do {
     target \<leftarrow> V2_VALUE_DISP (h_target_disp h) f s;
     source \<leftarrow> V2_VALUE_DISP (h_source_disp h) f s;
     v \<leftarrow> rd_val source s;
     s \<leftarrow> wr_val target v s;
     LUA55_RESIDUAL_NEXT f s}"

definition lua55_v2_loadi :: stencil where
  "lua55_v2_loadi h f s = do {
     target \<leftarrow> V2_VALUE_DISP (h_target_disp h) f s;
     s \<leftarrow> wr_int target (h_integer_bits h) s;
     LUA55_RESIDUAL_NEXT f s}"

definition lua55_v2_loadf :: stencil where
  "lua55_v2_loadf h f s = do {
     target \<leftarrow> V2_VALUE_DISP (h_target_disp h) f s;
     s \<leftarrow> wr_flt target (h_float_bits h) s;
     LUA55_RESIDUAL_NEXT f s}"

definition V2_LOADK_BODY :: stencil where
  "V2_LOADK_BODY h f s = do {
     target \<leftarrow> V2_VALUE_DISP (h_target_disp h) f s;
     let t = h_const_tag h;
     s \<leftarrow> (if t = LUA55_VALUE_INTEGER then wr_ref target t (h_const_int h) s
           else if t = LUA55_VALUE_FLOAT then wr_ref target t (h_const_flt h) s
           else wr_ref target t (h_const_ref h) s);
     LUA55_RESIDUAL_NEXT f s}"

definition lua55_v2_loadk :: stencil where
  "lua55_v2_loadk = V2_LOADK_BODY"

definition lua55_v2_loadkx :: stencil where
  "lua55_v2_loadkx = V2_LOADK_BODY"

definition load_tag :: "u32 \<Rightarrow> stencil" where
  "load_tag t h f s = do {
     target \<leftarrow> V2_VALUE_DISP (h_target_disp h) f s;
     s \<leftarrow> wr_tag target t s;
     LUA55_RESIDUAL_NEXT f s}"

definition lua55_v2_loadfalse :: stencil where
  "lua55_v2_loadfalse = load_tag LUA55_VALUE_FALSE"

definition lua55_v2_loadfalse_skip :: stencil where
  "lua55_v2_loadfalse_skip = load_tag LUA55_VALUE_FALSE"

definition lua55_v2_loadtrue :: stencil where
  "lua55_v2_loadtrue = load_tag LUA55_VALUE_TRUE"

definition lua55_v2_loadnil :: stencil where
  "lua55_v2_loadnil h f s = do {
     target \<leftarrow> V2_VALUE (h_target h) f s;
     s \<leftarrow> nil_span target 0 (unat (h_span h)) s;
     LUA55_RESIDUAL_NEXT f s}"

subsection \<open>Upvalues\<close>

definition rd_ptr_at :: "u64 \<Rightarrow> u32 \<Rightarrow> v2_state \<Rightarrow> u64 option" where
  "rd_ptr_at base i s = ptrs s (base + 8 * ucast i)"

definition cell_location :: "u64 \<Rightarrow> v2_state \<Rightarrow> u64 option" where
  "cell_location c s = do {
     cell \<leftarrow> cells s c;
     Some (if cell_state cell = LUA55_UPVALUE_OPEN then open_slot cell
           else c + OFFSET_CELL_CLOSED)}"

definition lua55_v2_getupval :: stencil where
  "lua55_v2_getupval h f s = do {
     target \<leftarrow> V2_VALUE_DISP (h_target_disp h) f s;
     fr \<leftarrow> frames s f;
     c \<leftarrow> rd_ptr_at (upvalues fr) (h_upvalue h) s;
     loc \<leftarrow> cell_location c s;
     v \<leftarrow> rd_val loc s;
     s \<leftarrow> wr_val target v s;
     LUA55_RESIDUAL_NEXT f s}"

definition lua55_v2_setupval :: stencil where
  "lua55_v2_setupval h f s = do {
     source \<leftarrow> V2_VALUE_DISP (h_source_disp h) f s;
     fr \<leftarrow> frames s f;
     c \<leftarrow> rd_ptr_at (upvalues fr) (h_upvalue h) s;
     loc \<leftarrow> cell_location c s;
     v \<leftarrow> rd_val source s;
     s \<leftarrow> wr_val loc v s;
     LUA55_RESIDUAL_NEXT f s}"

text \<open>
  \<open>lua55_cps_close_open_upvalues\<close>: the walk over the chain that starts at
  \<open>frame->open_upvalues\<close>. A chain that comes back to itself is walked for ever.
\<close>

definition close_cell :: "u64 \<Rightarrow> v2_state \<Rightarrow> v2_state option" where
  "close_cell c s = do {
     cell \<leftarrow> cells s c;
     v \<leftarrow> rd_val (open_slot cell) s;
     s \<leftarrow> wr_val (c + OFFSET_CELL_CLOSED) v s;
     Some (s\<lparr>cells := (cells s)(c \<mapsto> cell\<lparr>open_slot := 0, cell_state := LUA55_UPVALUE_CLOSED,
       cell_generation := cell_generation cell + 1, next_open := 0\<rparr>)\<rparr>)}"

partial_function (option) close_chain :: "u64 \<Rightarrow> v2_state \<Rightarrow> v2_state option" where
  "close_chain c s =
     (if c = 0 then Some s
      else do {
        cell \<leftarrow> cells s c;
        s \<leftarrow> close_cell c s;
        close_chain (next_open cell) s})"

definition upd_frame :: "u64 \<Rightarrow> (native_frame \<Rightarrow> native_frame) \<Rightarrow> v2_state \<Rightarrow> v2_state option" where
  "upd_frame f g s = do {
     fr \<leftarrow> frames s f;
     Some (s\<lparr>frames := (frames s)(f \<mapsto> g fr)\<rparr>)}"

definition lua55_cps_close_open_upvalues :: "u64 \<Rightarrow> v2_state \<Rightarrow> v2_state option" where
  "lua55_cps_close_open_upvalues f s = do {
     fr \<leftarrow> frames s f;
     s \<leftarrow> close_chain (open_upvalues fr) s;
     upd_frame f (\<lambda>fr. fr\<lparr>open_upvalues := 0\<rparr>) s}"

subsection \<open>Published outcomes\<close>

definition upd_inv :: "(invocation \<Rightarrow> invocation) \<Rightarrow> v2_state \<Rightarrow> v2_state" where
  "upd_inv g s = s\<lparr>inv := g (inv s)\<rparr>"

definition upd_outcome :: "(boundary_outcome \<Rightarrow> boundary_outcome) \<Rightarrow> v2_state \<Rightarrow> v2_state" where
  "upd_outcome g = upd_inv (\<lambda>i. i\<lparr>outcome := g (outcome i)\<rparr>)"

definition lua55_v2_publish_reject :: "u32 \<Rightarrow> u32 \<Rightarrow> v2_state \<Rightarrow> v2_state" where
  "lua55_v2_publish_reject k pc = upd_outcome (\<lambda>r. r\<lparr>
     discriminant := LUA55_V2_OUTCOME_REJECTED,
     rejected := (rejected r)\<lparr>rejection_kind := k, rejected_opcode := 0, rejected_pc := pc\<rparr>\<rparr>)"

definition V2_REJECT :: "u32 \<Rightarrow> holes \<Rightarrow> v2_state \<Rightarrow> v2_state" where
  "V2_REJECT k h = lua55_v2_publish_reject k (h_resume h)"

definition V2_PUBLISH_OVERFLOW :: "u32 \<Rightarrow> u64 \<Rightarrow> u64 \<Rightarrow> holes \<Rightarrow> v2_state \<Rightarrow> v2_state" where
  "V2_PUBLISH_OVERFLOW k need have_bytes h = upd_outcome (\<lambda>r. r\<lparr>
     discriminant := k,
     overflow := (overflow r)\<lparr>required := need, available := have_bytes,
       overflow_pc := h_resume h\<rparr>\<rparr>)"

text \<open>A rejected occurrence: publish the kind and leave through the host stub.\<close>

definition reject_exit :: "u32 \<Rightarrow> stencil" where
  "reject_exit k h f s = LUA55_CPS_HOST_EXIT h f (V2_REJECT k h s)"

lemmas [v2_defs] = upd_frame_def lua55_v2_publish_reject_def
  V2_REJECT_def V2_PUBLISH_OVERFLOW_def reject_exit_def rd_ptr_at_def

subsection \<open>Closing upvalues\<close>

text \<open>
  What a closure sees through an upvalue cell: the register while the cell is open, the
  cell's own copy afterwards.
\<close>

definition rd_upvalue :: "u64 \<Rightarrow> v2_state \<Rightarrow> lua_value option" where
  "rd_upvalue c s = do {loc \<leftarrow> cell_location c s; rd_val loc s}"

text \<open>
  The chain of open cells from \<open>c\<close>: its addresses, ending in the null pointer, each with its
  register and its own slot mapped.
\<close>

primrec open_chain :: "v2_state \<Rightarrow> u64 \<Rightarrow> u64 list \<Rightarrow> bool" where
  "open_chain s c [] \<longleftrightarrow> c = 0"
| "open_chain s c (x # xs) \<longleftrightarrow> c = x \<and> x \<noteq> 0 \<and>
     (case cells s x of None \<Rightarrow> False
      | Some cell \<Rightarrow> cell_state cell = LUA55_UPVALUE_OPEN \<and> vals s (open_slot cell) \<noteq> None \<and>
          vals s (x + OFFSET_CELL_CLOSED) \<noteq> None \<and> open_chain s (next_open cell) xs)"

text \<open>No register that a cell of the chain is open on is the closed slot of one.\<close>

definition slots_apart :: "v2_state \<Rightarrow> u64 list \<Rightarrow> bool" where
  "slots_apart s xs \<longleftrightarrow> (\<forall>x\<in>set xs. \<forall>y\<in>set xs.
     map_option open_slot (cells s x) \<noteq> Some (y + OFFSET_CELL_CLOSED))"

definition closed_cell :: "upvalue_cell \<Rightarrow> upvalue_cell" where
  "closed_cell cell = cell\<lparr>open_slot := 0, cell_state := LUA55_UPVALUE_CLOSED,
     cell_generation := cell_generation cell + 1, next_open := 0\<rparr>"

lemma open_chain_frame:
  "\<forall>x\<in>set xs. cells t x = cells s x \<Longrightarrow> \<forall>a. vals s a \<noteq> None \<longrightarrow> vals t a \<noteq> None \<Longrightarrow>
   open_chain s c xs \<Longrightarrow> open_chain t c xs"
  by (induction xs arbitrary: c) (auto split: option.splits)

lemma chain_open:
  "open_chain s c xs \<Longrightarrow> x \<in> set xs \<Longrightarrow> cells s x = Some cell \<Longrightarrow> cell_state cell = LUA55_UPVALUE_OPEN"
  by (induction xs arbitrary: c) (auto split: option.splits)

lemma close_chain_spec:
  assumes "open_chain s c xs" and "distinct xs" and "slots_apart s xs"
  shows "\<exists>m k. close_chain c s = Some (s\<lparr>vals := m, cells := k\<rparr>) \<and>
    (\<forall>x\<in>set xs. \<exists>cell. cells s x = Some cell \<and> k x = Some (closed_cell cell) \<and>
       m (x + OFFSET_CELL_CLOSED) = vals s (open_slot cell)) \<and>
    (\<forall>x. x \<notin> set xs \<longrightarrow> k x = cells s x) \<and>
    (\<forall>a. a \<notin> (\<lambda>x. x + OFFSET_CELL_CLOSED) ` set xs \<longrightarrow> m a = vals s a)"
  using assms
proof (induction xs arbitrary: c s)
  case Nil
  then have "close_chain c s = Some (s\<lparr>vals := vals s, cells := cells s\<rparr>)"
    by (simp add: close_chain.simps)
  then show ?case by (metis image_empty list.set(1) ball_empty)
next
  case (Cons x xs)
  then obtain cell v where x: "c = x" "x \<noteq> 0" "cells s x = Some cell"
      "vals s (open_slot cell) = Some v" "vals s (x + OFFSET_CELL_CLOSED) \<noteq> None"
      "open_chain s (next_open cell) xs"
    by (auto split: option.splits)
  let ?s = "s\<lparr>vals := (vals s)(x + OFFSET_CELL_CLOSED \<mapsto> v), cells := (cells s)(x \<mapsto> closed_cell cell)\<rparr>"
  have step: "close_cell x s = Some ?s"
    using x by (simp add: close_cell_def rd_val_def wr_val_def closed_cell_def)
  have fresh: "x \<notin> set xs" "distinct xs" using Cons.prems(2) by auto
  have chain: "open_chain ?s (next_open cell) xs"
    by (rule open_chain_frame [OF _ _ x(6)]) (use fresh in auto)
  have apart: "slots_apart ?s xs"
    using Cons.prems(3) fresh(1) by (auto simp: slots_apart_def)
  from Cons.IH [OF chain fresh(2) apart] obtain m k where
    mk: "close_chain (next_open cell) ?s = Some (?s\<lparr>vals := m, cells := k\<rparr>)"
      "\<forall>y\<in>set xs. \<exists>cell. cells ?s y = Some cell \<and> k y = Some (closed_cell cell) \<and>
         m (y + OFFSET_CELL_CLOSED) = vals ?s (open_slot cell)"
      "\<forall>y. y \<notin> set xs \<longrightarrow> k y = cells ?s y"
      "\<forall>a. a \<notin> (\<lambda>x. x + OFFSET_CELL_CLOSED) ` set xs \<longrightarrow> m a = vals ?s a" by blast
  have run: "close_chain c s = Some (s\<lparr>vals := m, cells := k\<rparr>)"
    using x step mk(1) by (subst close_chain.simps) simp
  have others: "\<exists>cell. cells s y = Some cell \<and> k y = Some (closed_cell cell) \<and>
      m (y + OFFSET_CELL_CLOSED) = vals s (open_slot cell)" if "y \<in> set xs" for y
  proof -
    from that fresh(1) have "y \<noteq> x" by blast
    with bspec [OF mk(2) that] obtain cy where cy: "cells s y = Some cy" "k y = Some (closed_cell cy)"
      "m (y + OFFSET_CELL_CLOSED) = vals ?s (open_slot cy)" by auto
    moreover have "open_slot cy \<noteq> x + OFFSET_CELL_CLOSED"
      using Cons.prems(3) that cy(1) by (force simp: slots_apart_def)
    ultimately show ?thesis by auto
  qed
  have "x + OFFSET_CELL_CLOSED \<notin> (\<lambda>x. x + OFFSET_CELL_CLOSED) ` set xs" using fresh(1) by auto
  then have first: "k x = Some (closed_cell cell)" "m (x + OFFSET_CELL_CLOSED) = vals s (open_slot cell)"
    using mk(3,4) fresh(1) x(4) by auto
  show ?case
  proof (intro exI conjI)
    show "close_chain c s = Some (s\<lparr>vals := m, cells := k\<rparr>)" by (rule run)
  qed (use others first x(3) mk(3,4) in auto)
qed

text \<open>
  C14. Closing the open upvalues of a frame. For a finite chain of open cells the walk ends;
  afterwards every cell of the chain is closed and unlinked, with its generation advanced, it
  reads the very value it read while it was open, the frame has no open cell left, and no
  other cell and no register changed.
\<close>

theorem close_open_upvalues_correct:
  assumes "frames s f = Some fr" and "open_chain s (open_upvalues fr) xs" and "distinct xs"
    and "slots_apart s xs"
  shows "\<exists>t. lua55_cps_close_open_upvalues f s = Some t \<and>
    (\<forall>x\<in>set xs. cells t x = map_option closed_cell (cells s x) \<and> rd_upvalue x t = rd_upvalue x s) \<and>
    (\<forall>x. x \<notin> set xs \<longrightarrow> cells t x = cells s x) \<and>
    (\<forall>a. a \<notin> (\<lambda>x. x + OFFSET_CELL_CLOSED) ` set xs \<longrightarrow> vals t a = vals s a) \<and>
    frames t = (frames s)(f \<mapsto> fr\<lparr>open_upvalues := 0\<rparr>)"
proof -
  from close_chain_spec [OF assms(2,3,4)] obtain m k where
    mk: "close_chain (open_upvalues fr) s = Some (s\<lparr>vals := m, cells := k\<rparr>)"
      "\<forall>x\<in>set xs. \<exists>cell. cells s x = Some cell \<and> k x = Some (closed_cell cell) \<and>
         m (x + OFFSET_CELL_CLOSED) = vals s (open_slot cell)"
      "\<forall>x. x \<notin> set xs \<longrightarrow> k x = cells s x"
      "\<forall>a. a \<notin> (\<lambda>x. x + OFFSET_CELL_CLOSED) ` set xs \<longrightarrow> m a = vals s a" by blast
  let ?t = "s\<lparr>vals := m, cells := k, frames := (frames s)(f \<mapsto> fr\<lparr>open_upvalues := 0\<rparr>)\<rparr>"
  have "cells ?t x = map_option closed_cell (cells s x) \<and> rd_upvalue x ?t = rd_upvalue x s"
    if "x \<in> set xs" for x
  proof -
    from bspec [OF mk(2) that] obtain cell where c: "cells s x = Some cell"
      "k x = Some (closed_cell cell)" "m (x + OFFSET_CELL_CLOSED) = vals s (open_slot cell)" by blast
    then show ?thesis
      using chain_open [OF assms(2) that c(1)]
      by (simp add: rd_upvalue_def cell_location_def rd_val_def closed_cell_def)
  qed
  moreover have "lua55_cps_close_open_upvalues f s = Some ?t"
    using assms(1) mk(1) by (simp add: lua55_cps_close_open_upvalues_def upd_frame_def)
  ultimately show ?thesis using mk(3,4) by (intro exI [of _ ?t]) simp
qed

text \<open>Two cells of one frame, open on its first two registers.\<close>

definition upvalue_example :: v2_state where
  "upvalue_example = blank_state\<lparr>
     vals := [0x1000 \<mapsto> mk_value 3 7, 0x1010 \<mapsto> mk_value 2 0,
              0x2008 \<mapsto> mk_value 0 0, 0x3008 \<mapsto> mk_value 0 0],
     ptrs := [0x500 \<mapsto> 0x2000, 0x508 \<mapsto> 0x3000],
     cells := [0x2000 \<mapsto> \<lparr>open_slot = 0x1000, next_open = 0x3000, cell_state = 1, cell_generation = 0\<rparr>,
               0x3000 \<mapsto> \<lparr>open_slot = 0x1010, next_open = 0, cell_state = 1, cell_generation = 4\<rparr>],
     frames := [0x100 \<mapsto> blank_frame\<lparr>open_upvalues := 0x2000, frame_values := 0x1000, upvalues := 0x500\<rparr>,
                0x200 \<mapsto> blank_frame\<lparr>frame_values := 0x1010, upvalues := 0x500\<rparr>]\<rparr>"

theorem close_open_upvalues_correct_witness:
  "\<exists>t. lua55_cps_close_open_upvalues 0x100 upvalue_example = Some t \<and>
     rd_upvalue 0x2000 t = Some (mk_value 3 7) \<and> rd_upvalue 0x3000 t = Some (mk_value 2 0)"
proof -
  have 1: "frames upvalue_example 0x100 =
      Some (blank_frame\<lparr>open_upvalues := 0x2000, frame_values := 0x1000, upvalues := 0x500\<rparr>)"
    by (simp add: upvalue_example_def)
  have 2: "open_chain upvalue_example 0x2000 [0x2000, 0x3000]"
    by (simp add: upvalue_example_def)
  have 3: "slots_apart upvalue_example [0x2000, 0x3000]"
    by (simp add: upvalue_example_def slots_apart_def)
  have 4: "rd_upvalue 0x2000 upvalue_example = Some (mk_value 3 7)"
      "rd_upvalue 0x3000 upvalue_example = Some (mk_value 2 0)"
    by (simp_all add: upvalue_example_def rd_upvalue_def cell_location_def rd_val_def)
  show ?thesis
    using close_open_upvalues_correct [OF 1, of "[0x2000, 0x3000]"] 2 3 4 by auto
qed

text \<open>
  Upvalue cells are shared: a value that one activation stores through a cell is the value
  any activation that holds the same cell then reads, whether the cell is still open on a
  register or already closed.
\<close>

theorem upvalue_shared:
  assumes "frames s f = Some fr" and "frames s g = Some gr"
    and "rd_ptr_at (upvalues fr) (h_upvalue h) s = Some c"
    and "rd_ptr_at (upvalues gr) (h_upvalue h') s = Some c"
    and "cell_location c s = Some loc" and "vals s loc \<noteq> None"
    and "vals s (frame_values fr + scast (h_source_disp h)) = Some v"
    and "vals s (frame_values gr + scast (h_target_disp h')) \<noteq> None"
  shows "\<exists>t u. lua55_v2_setupval h f s = Some (Next f, t) \<and> lua55_v2_getupval h' g t = Some (Next g, u) \<and>
    vals u (frame_values gr + scast (h_target_disp h')) = Some v"
proof -
  let ?t = "s\<lparr>vals := (vals s)(loc \<mapsto> v)\<rparr>"
  have "lua55_v2_setupval h f s = Some (Next f, ?t)"
    using assms by (simp add: lua55_v2_setupval_def v2_defs)
  moreover have "cell_location c ?t = Some loc" using assms(5) by (simp add: cell_location_def)
  ultimately show ?thesis
    using assms by (simp add: lua55_v2_getupval_def v2_defs)
qed

theorem upvalue_shared_witness:
  "\<exists>t u. lua55_v2_setupval (blank_holes\<lparr>h_source_disp := 16\<rparr>) 0x100 upvalue_example = Some (Next 0x100, t) \<and>
     lua55_v2_getupval blank_holes 0x200 t = Some (Next 0x200, u) \<and>
     vals u 0x1010 = Some (mk_value 2 0)"
  using upvalue_shared [where s = upvalue_example and f = "0x100" and g = "0x200" and c = "0x2000" and
      h = "blank_holes\<lparr>h_source_disp := 16\<rparr>" and h' = blank_holes and loc = "0x1000"
      and fr = "blank_frame\<lparr>open_upvalues := 0x2000, frame_values := 0x1000, upvalues := 0x500\<rparr>"
      and gr = "blank_frame\<lparr>frame_values := 0x1010, upvalues := 0x500\<rparr>" and v = "mk_value 2 0"]
  by (simp add: upvalue_example_def rd_ptr_at_def cell_location_def)

end
