(* ===== verification/Strings.thy ===== *)
theory Strings
  imports Movement
begin

text \<open>
  Guest strings: the byte-wise equality and order of \<open>opcode_v2_core_stencils.c\<close>, read against
  the list of bytes a string stands for.
\<close>

subsection \<open>The helpers\<close>

text \<open>\<open>for (i = 0; i < n; i++) if (a->bytes[i] != b->bytes[i]) return 0;\<close>\<close>

primrec bytes_eq :: "u64 \<Rightarrow> u64 \<Rightarrow> u32 \<Rightarrow> nat \<Rightarrow> v2_state \<Rightarrow> bool option" where
  "bytes_eq pa pb i 0 s = Some True"
| "bytes_eq pa pb i (Suc n) s = do {
     x \<leftarrow> rd_byte (pa + ucast i) s;
     y \<leftarrow> rd_byte (pb + ucast i) s;
     if x \<noteq> y then Some False else bytes_eq pa pb (i + 1) n s}"

definition v2_string_bytes_eq :: "u64 \<Rightarrow> u64 \<Rightarrow> v2_state \<Rightarrow> bool option" where
  "v2_string_bytes_eq ra rb s = do {
     a \<leftarrow> strings s ra;
     b \<leftarrow> strings s rb;
     if str_length b \<noteq> str_length a then Some False
     else bytes_eq (str_bytes a) (str_bytes b) 0 (unat (str_length a)) s}"

text \<open>The loop of \<open>v2_string_cmp\<close>: the sign at the first difference, 0 when there is none.\<close>

primrec bytes_cmp :: "u64 \<Rightarrow> u64 \<Rightarrow> u32 \<Rightarrow> nat \<Rightarrow> v2_state \<Rightarrow> int option" where
  "bytes_cmp pa pb i 0 s = Some 0"
| "bytes_cmp pa pb i (Suc n) s = do {
     x \<leftarrow> rd_byte (pa + ucast i) s;
     y \<leftarrow> rd_byte (pb + ucast i) s;
     if x \<noteq> y then Some (if x < y then - 1 else 1) else bytes_cmp pa pb (i + 1) n s}"

definition v2_string_cmp :: "u64 \<Rightarrow> u64 \<Rightarrow> v2_state \<Rightarrow> int option" where
  "v2_string_cmp ra rb s = do {
     a \<leftarrow> strings s ra;
     b \<leftarrow> strings s rb;
     let n = (if str_length a < str_length b then str_length a else str_length b);
     d \<leftarrow> bytes_cmp (str_bytes a) (str_bytes b) 0 (unat n) s;
     Some (if d \<noteq> 0 then d
           else if str_length a < str_length b then - 1
           else if str_length a > str_length b then 1 else 0)}"

subsection \<open>The bytes a string stands for\<close>

definition bytes_at :: "u64 \<Rightarrow> u32 \<Rightarrow> nat \<Rightarrow> v2_state \<Rightarrow> u8 list option" where
  "bytes_at p i n s = those (map (\<lambda>k. bytes s (p + ucast (i + word_of_nat k))) [0..<n])"

definition guest_bytes :: "u64 \<Rightarrow> v2_state \<Rightarrow> u8 list option" where
  "guest_bytes r s = do {
     a \<leftarrow> strings s r;
     bytes_at (str_bytes a) 0 (unat (str_length a)) s}"

lemma bytes_at_0 [simp]: "bytes_at p i 0 s = Some []"
  by (simp add: bytes_at_def)

lemma those_Cons: "those (x # xs) = do {y \<leftarrow> x; ys \<leftarrow> those xs; Some (y # ys)}"
  by (cases x; cases "those xs") auto

lemma bytes_at_Suc: "bytes_at p i (Suc n) s =
    do {x \<leftarrow> rd_byte (p + ucast i) s; xs \<leftarrow> bytes_at p (i + 1) n s; Some (x # xs)}"
proof -
  have "[0..<Suc n] = 0 # map Suc [0..<n]" by (simp only: upt_conv_Cons [OF zero_less_Suc] map_Suc_upt)
  then show ?thesis
    unfolding bytes_at_def by (simp only: list.map map_map o_def those_Cons)
      (simp add: rd_byte_def add.assoc)
qed

lemma bytes_at_length: "bytes_at p i n s = Some xs \<Longrightarrow> length xs = n"
  by (induction n arbitrary: i xs) (auto simp: bytes_at_Suc bind_eq_Some_conv)

lemma bytes_eq_lists:
  "bytes_at pa i n s = Some xs \<Longrightarrow> bytes_at pb i n s = Some ys \<Longrightarrow> bytes_eq pa pb i n s = Some (xs = ys)"
  by (induction n arbitrary: i xs ys) (auto simp: bytes_at_Suc bind_eq_Some_conv)

text \<open>Reading a shorter run gives a prefix.\<close>

lemma bytes_at_take:
  "bytes_at p i n s = Some xs \<Longrightarrow> m \<le> n \<Longrightarrow> bytes_at p i m s = Some (take m xs)"
proof (induction n arbitrary: i xs m)
  case (Suc n)
  then show ?case by (cases m) (auto simp: bytes_at_Suc bind_eq_Some_conv)
qed simp

lemma bytes_cmp_lists:
  "bytes_at pa i n s = Some xs \<Longrightarrow> bytes_at pb i n s = Some ys \<Longrightarrow>
   bytes_cmp pa pb i n s = Some (if xs = ys then 0 else if ord_class.lexordp xs ys then - 1 else 1)"
proof (induction n arbitrary: i xs ys)
  case (Suc n)
  then obtain x xs' y ys' where e: "xs = x # xs'" "ys = y # ys'"
      "rd_byte (pa + ucast i) s = Some x" "rd_byte (pb + ucast i) s = Some y"
      "bytes_at pa (i + 1) n s = Some xs'" "bytes_at pb (i + 1) n s = Some ys'"
    by (auto simp: bytes_at_Suc bind_eq_Some_conv)
  from Suc.IH [OF e(5,6)] e(1-4) show ?case by (cases "x = y") simp_all
qed simp

lemma lexordp_take:
  fixes xs ys :: "'a :: linorder list"
  assumes "n = min (length xs) (length ys)"
  shows "ord_class.lexordp xs ys \<longleftrightarrow> (if take n xs = take n ys then length xs < length ys
                            else ord_class.lexordp (take n xs) (take n ys))"
  using assms
proof (induction xs arbitrary: ys n)
  case Nil
  then show ?case by (cases ys) auto
next
  case (Cons x xs)
  then show ?case by (cases ys) auto
qed

lemma v2_string_bytes_eq_spec:
  assumes "guest_bytes ra s = Some xs" and "guest_bytes rb s = Some ys"
  shows "v2_string_bytes_eq ra rb s = Some (xs = ys)"
proof -
  from assms obtain a b where ab: "strings s ra = Some a" "strings s rb = Some b"
      "bytes_at (str_bytes a) 0 (unat (str_length a)) s = Some xs"
      "bytes_at (str_bytes b) 0 (unat (str_length b)) s = Some ys"
    by (auto simp: guest_bytes_def bind_eq_Some_conv)
  show ?thesis
  proof (cases "str_length a = str_length b")
    case True
    with ab show ?thesis by (simp add: v2_string_bytes_eq_def bytes_eq_lists)
  next
    case False
    then have "length xs \<noteq> length ys"
      using bytes_at_length [OF ab(3)] bytes_at_length [OF ab(4)] by (simp add: word_unat_eq_iff)
    with ab False show ?thesis by (auto simp: v2_string_bytes_eq_def)
  qed
qed

lemma v2_string_cmp_spec:
  assumes "guest_bytes ra s = Some xs" and "guest_bytes rb s = Some ys"
  shows "v2_string_cmp ra rb s = Some (if xs = ys then 0 else if ord_class.lexordp xs ys then - 1 else 1)"
proof -
  from assms obtain a b where ab: "strings s ra = Some a" "strings s rb = Some b"
      "bytes_at (str_bytes a) 0 (unat (str_length a)) s = Some xs"
      "bytes_at (str_bytes b) 0 (unat (str_length b)) s = Some ys"
    by (auto simp: guest_bytes_def bind_eq_Some_conv)
  note len = bytes_at_length [OF ab(3)] bytes_at_length [OF ab(4)]
  let ?n = "if str_length a < str_length b then str_length a else str_length b"
  have n: "unat ?n = min (length xs) (length ys)"
    using len by (auto simp: word_less_nat_alt)
  have "bytes_at (str_bytes a) 0 (unat ?n) s = Some (take (unat ?n) xs)"
    by (rule bytes_at_take [OF ab(3)]) (use n len in simp)
  moreover have "bytes_at (str_bytes b) 0 (unat ?n) s = Some (take (unat ?n) ys)"
    by (rule bytes_at_take [OF ab(4)]) (use n len in simp)
  ultimately have c: "bytes_cmp (str_bytes a) (str_bytes b) 0 (unat ?n) s =
      Some (if take (unat ?n) xs = take (unat ?n) ys then 0
            else if ord_class.lexordp (take (unat ?n) xs) (take (unat ?n) ys) then - 1 else 1)"
    by (rule bytes_cmp_lists)
  have l: "str_length a < str_length b \<longleftrightarrow> length xs < length ys"
      "str_length b < str_length a \<longleftrightarrow> length ys < length xs"
    using len by (simp_all add: word_less_nat_alt)
  have e: "xs = ys \<longleftrightarrow> take (unat ?n) xs = take (unat ?n) ys \<and> length xs = length ys"
    using n by (auto simp: min_def)
  show ?thesis
    using ab c l e lexordp_take [OF n] by (auto simp: v2_string_cmp_def Let_def)
qed

subsection \<open>Properties\<close>

text \<open>
  C36. On two guest strings whose bytes are in memory, the equality helper decides equality of
  the byte sequences and the comparison helper their lexicographic order, a proper prefix
  coming first.
\<close>

theorem string_order_correct:
  assumes "guest_bytes ra s = Some xs" and "guest_bytes rb s = Some ys"
  shows "v2_string_bytes_eq ra rb s = Some (xs = ys) \<and>
    v2_string_cmp ra rb s = Some (if xs = ys then 0 else if ord_class.lexordp xs ys then - 1 else 1)"
  using v2_string_bytes_eq_spec [OF assms] v2_string_cmp_spec [OF assms] by simp

text \<open>The strings \<open>ab\<close> and \<open>abc\<close>.\<close>

definition two_strings :: v2_state where
  "two_strings = blank_state\<lparr>
     strings := [0x10 \<mapsto> \<lparr>str_length = 2, str_hash = 0, str_bytes = 0x100\<rparr>,
                 0x20 \<mapsto> \<lparr>str_length = 3, str_hash = 0, str_bytes = 0x200\<rparr>],
     bytes := [0x100 \<mapsto> 97, 0x101 \<mapsto> 98, 0x200 \<mapsto> 97, 0x201 \<mapsto> 98, 0x202 \<mapsto> 99]\<rparr>"

theorem string_order_correct_witness:
  "v2_string_bytes_eq 0x10 0x20 two_strings = Some False \<and> v2_string_cmp 0x10 0x20 two_strings = Some (- 1)"
proof -
  have "guest_bytes 0x10 two_strings = Some [97, 98]" "guest_bytes 0x20 two_strings = Some [97, 98, 99]"
    by (simp_all add: guest_bytes_def bytes_at_def two_strings_def upt_rec)
  from string_order_correct [OF this] show ?thesis by simp
qed

end
