(* ===== verification/V1_Machine.thy ===== *)
theory V1_Machine
  imports Strings
begin

text \<open>
  The vocabulary of the first-generation stencils (\<open>opcode_value_v1.h\<close>): the learning frame with its
  recording slots, the upvalue cells held by value, the holes, and the ways a stencil ends.

  Guest values, strings, tables and the heap have the layout of the second generation, so they
  live in the same split memory, the field \<open>mem\<close>; the frames, the invocation and the learning
  slots of that memory belong to the second generation and no stencil here touches them.
  A learner executes the instruction and records a quote, the number of the residual that
  replays it; a residual guards the recorded shape.
\<close>

unbundle bit_operations_syntax

subsection \<open>Data\<close>

abbreviation (input) LUA55_EXECUTING :: u32 where "LUA55_EXECUTING \<equiv> 0"
abbreviation (input) LUA55_COMPLETED :: u32 where "LUA55_COMPLETED \<equiv> 1"
abbreviation (input) LUA55_GUARD_FAILED :: u32 where "LUA55_GUARD_FAILED \<equiv> 2"
abbreviation (input) LUA55_REJECTED :: u32 where "LUA55_REJECTED \<equiv> 3"

abbreviation (input) LUA55_QUOTE_REJECTED :: u32 where "LUA55_QUOTE_REJECTED \<equiv> 0"

definition LUA55_QUOTE :: "u32 \<Rightarrow> u32 \<Rightarrow> u32" where
  "LUA55_QUOTE opcode variant = push_bit 16 opcode OR variant"

record recording_slot =
  rs_quote :: u32
  rs_expected_tag :: u32
  rs_expected_state :: u32
  rs_expected_generation :: u32
  rs_key_bits :: u64

record table_recording =
  tr_storage_generation :: u32
  tr_collection_epoch :: u32
  tr_reference :: u64
  tr_slot_reference :: u64
  tr_metatable :: u64

text \<open>The closed value of a cell lies at offset 8, in the values.\<close>

record learn_cell =
  lc_open_slot :: u64
  lc_state :: u32
  lc_generation :: u32

text \<open>\<open>Lua55TableLearnFrameV1\<close> appends \<open>table_slots\<close> to the frame.\<close>

record learn_frame =
  l_values :: u64
  l_slots :: u64
  l_upvalues :: u64
  l_heap :: u64
  l_value_count :: u32
  l_slot_count :: u32
  l_slot_cursor :: u32
  l_resume_pc :: u32
  l_status :: u32
  l_upvalue_count :: u32
  l_vararg_count :: u32
  l_dest_frame :: u64
  l_dest_base :: u32
  l_dest_count :: u32
  l_top :: u32
  l_result_count :: u32
  l_function_table :: u64
  l_table_slots :: u64

record v1_state =
  mem :: v2_state
  lframes :: "u64 \<rightharpoonup> learn_frame"
  rslots :: "u64 \<rightharpoonup> recording_slot"
  tslots :: "u64 \<rightharpoonup> table_recording"
  lcells :: "u64 \<rightharpoonup> learn_cell"

abbreviation (input) SIZEOF_RECORDING :: u64 where "SIZEOF_RECORDING \<equiv> 24"
abbreviation (input) SIZEOF_TABLE_RECORDING :: u64 where "SIZEOF_TABLE_RECORDING \<equiv> 32"
abbreviation (input) SIZEOF_V1_CELL :: u64 where "SIZEOF_V1_CELL \<equiv> 32"

subsection \<open>Holes\<close>

text \<open>The values patched into the immediates of a stencil. Register indices are unsigned.\<close>

record v1_holes =
  q_target :: u32
  q_source :: u32
  q_left :: u32
  q_right :: u32
  q_upvalue :: u32
  q_base :: u32
  q_span :: u32
  q_resume_pc :: u32
  q_target_pc :: u32
  q_back_edge :: u32
  q_fallthrough :: u32
  q_quote_base :: u32
  q_integer_bits :: u64
  q_float_bits :: u64
  q_reference_bits :: u64
  q_int_imm :: u64
  q_const_tag :: u32
  q_const_int :: u64
  q_const_flt :: u64
  q_const_ref :: u64
  q_expected_generation :: u32
  q_k :: u32
  q_link :: u64
  q_taken :: u64
  q_body_link :: u64
  q_skip_link :: u64
  q_fall_link :: u64
  q_host_exit :: u64
  q_nfix :: u32
  q_wanted :: u32
  q_key_reg :: u32
  q_pow :: "dbl \<Rightarrow> dbl \<Rightarrow> dbl"

subsection \<open>How a stencil ends\<close>

text \<open>
  It tail-calls the next learner or the next residual, jumps to a patched entry, leaves through
  the host stub, or returns to its caller; then the frame says why.
\<close>

datatype v1_control = Learn_next u64 | Residual_next u64 | Link_to u64 u64 | Leave u64 u64 | Ret

type_synonym v1_stencil = "v1_holes \<Rightarrow> u64 \<Rightarrow> v1_state \<Rightarrow> (v1_control \<times> v1_state) option"

definition lua55_learn_next :: "u64 \<Rightarrow> v1_state \<Rightarrow> (v1_control \<times> v1_state) option" where
  "lua55_learn_next f s = Some (Learn_next f, s)"

definition lua55_residual_next :: "u64 \<Rightarrow> v1_state \<Rightarrow> (v1_control \<times> v1_state) option" where
  "lua55_residual_next f s = Some (Residual_next f, s)"

definition ret :: "v1_state \<Rightarrow> (v1_control \<times> v1_state) option" where
  "ret s = Some (Ret, s)"

definition v1_host_exit :: v1_stencil where
  "v1_host_exit h f s = Some (Leave (q_host_exit h) f, s)"

subsection \<open>Accesses\<close>

definition upd_lframe :: "u64 \<Rightarrow> (learn_frame \<Rightarrow> learn_frame) \<Rightarrow> v1_state \<Rightarrow> v1_state option" where
  "upd_lframe f g s = do {
     fr \<leftarrow> lframes s f;
     Some (s\<lparr>lframes := (lframes s)(f \<mapsto> g fr)\<rparr>)}"

definition on_mem :: "(v2_state \<Rightarrow> v2_state option) \<Rightarrow> v1_state \<Rightarrow> v1_state option" where
  "on_mem g s = do {m \<leftarrow> g (mem s); Some (s\<lparr>mem := m\<rparr>)}"

definition reg :: "u32 \<Rightarrow> u64 \<Rightarrow> v1_state \<Rightarrow> u64 option" where
  "reg i f s = do {fr \<leftarrow> lframes s f; Some (slot_addr (l_values fr) i)}"

definition rd :: "u64 \<Rightarrow> v1_state \<Rightarrow> lua_value option" where
  "rd a s = rd_val a (mem s)"

text \<open>The registers a stencil names, read through the frame.\<close>

definition rd_at_reg :: "u32 \<Rightarrow> u64 \<Rightarrow> v1_state \<Rightarrow> lua_value option" where
  "rd_at_reg i f s = do {a \<leftarrow> reg i f s; rd a s}"

definition wr_at_reg :: "u32 \<Rightarrow> lua_value \<Rightarrow> u64 \<Rightarrow> v1_state \<Rightarrow> v1_state option" where
  "wr_at_reg i v f s = do {a \<leftarrow> reg i f s; on_mem (wr_val a v) s}"

definition tag_at_reg :: "u32 \<Rightarrow> u32 \<Rightarrow> u64 \<Rightarrow> v1_state \<Rightarrow> v1_state option" where
  "tag_at_reg i t f s = do {a \<leftarrow> reg i f s; on_mem (wr_tag a t) s}"

definition upd_slot :: "u64 \<Rightarrow> (recording_slot \<Rightarrow> recording_slot) \<Rightarrow> v1_state \<Rightarrow> v1_state option" where
  "upd_slot a g s = do {
     r \<leftarrow> rslots s a;
     Some (s\<lparr>rslots := (rslots s)(a \<mapsto> g r)\<rparr>)}"

abbreviation set_quote :: "u64 \<Rightarrow> u32 \<Rightarrow> v1_state \<Rightarrow> v1_state option" where
  "set_quote a q \<equiv> upd_slot a (\<lambda>r. r\<lparr>rs_quote := q\<rparr>)"

definition next_slot :: "u64 \<Rightarrow> v1_state \<Rightarrow> (u64 \<times> v1_state) option" where
  "next_slot f s = do {
     fr \<leftarrow> lframes s f;
     s \<leftarrow> upd_lframe f (\<lambda>fr. fr\<lparr>l_slot_cursor := l_slot_cursor fr + 1\<rparr>) s;
     Some (l_slots fr + SIZEOF_RECORDING * ucast (l_slot_cursor fr), s)}"

definition RECORD_FIXED :: "u32 \<Rightarrow> u64 \<Rightarrow> v1_state \<Rightarrow> v1_state option" where
  "RECORD_FIXED q f s = do {
     (slot, s) \<leftarrow> next_slot f s;
     set_quote slot q s}"

subsection \<open>Leaving\<close>

text \<open>The same three exits are defined in every source file of the generation.\<close>

definition exit_with :: "u32 \<Rightarrow> u32 \<Rightarrow> u64 \<Rightarrow> v1_state \<Rightarrow> (v1_control \<times> v1_state) option" where
  "exit_with pc st f s = do {
     s \<leftarrow> upd_lframe f (\<lambda>fr. fr\<lparr>l_resume_pc := pc, l_status := st\<rparr>) s;
     ret s}"

definition GUARD_FAILED :: v1_stencil where
  "GUARD_FAILED h = exit_with (q_resume_pc h) LUA55_GUARD_FAILED"

definition REJECT :: v1_stencil where
  "REJECT h = exit_with (q_resume_pc h) LUA55_REJECTED"

definition ZERO_EXIT :: v1_stencil where
  "ZERO_EXIT h = exit_with (q_resume_pc h) LUA55_COMPLETED"

definition BRANCH_TAKEN :: v1_stencil where
  "BRANCH_TAKEN h = exit_with (q_target_pc h) LUA55_COMPLETED"

text \<open>A rejecting learner clears the quote, the self-selecting stencils leave through the host stub.\<close>

definition reject_quote :: "u64 \<Rightarrow> v1_stencil" where
  "reject_quote slot h f s = do {
     s \<leftarrow> set_quote slot LUA55_QUOTE_REJECTED s;
     REJECT h f s}"

definition reject_leave :: v1_stencil where
  "reject_leave h f s = do {
     s \<leftarrow> upd_lframe f (\<lambda>fr. fr\<lparr>l_resume_pc := q_resume_pc h, l_status := LUA55_REJECTED\<rparr>) s;
     v1_host_exit h f s}"

end
