(* ===== verification/V1_Replay.thy ===== *)
theory V1_Replay
  imports V1_Machine
begin

text \<open>
  The contract between a first-generation learner and the residual its quote selects, and the
  replay of a learned block: the residuals installed from the recorded quotes do what the
  learners did.

  A residual may leave other payload bits behind a nil or a boolean than its learner, and it
  does not record; states are compared up to both (\<open>alike\<close>).
\<close>

subsection \<open>What is observed\<close>

definition norm_value :: "lua_value \<Rightarrow> lua_value" where
  "norm_value v = mk_value (tag v) (if tag v \<le> LUA55_VALUE_TRUE then 0 else payload v)"

definition alike :: "v1_state \<Rightarrow> v1_state \<Rightarrow> bool" where
  "alike s t \<longleftrightarrow>
     (mem s)\<lparr>vals := Map.empty\<rparr> = (mem t)\<lparr>vals := Map.empty\<rparr> \<and>
     (\<forall>a. map_option norm_value (vals (mem s) a) = map_option norm_value (vals (mem t) a)) \<and>
     (\<forall>f. map_option (\<lambda>fr. fr\<lparr>l_slot_cursor := 0\<rparr>) (lframes s f) = map_option (\<lambda>fr. fr\<lparr>l_slot_cursor := 0\<rparr>) (lframes t f)) \<and>
     lcells s = lcells t"

lemma alike_refl [simp]: "alike s s"
  by (simp add: alike_def)

lemma alike_sym: "alike s t \<Longrightarrow> alike t s"
  by (simp add: alike_def)

lemma alike_trans: "alike s t \<Longrightarrow> alike t u \<Longrightarrow> alike s u"
  by (simp add: alike_def)

lemma norm_value_eq:
  "norm_value v = norm_value w \<longleftrightarrow> tag v = tag w \<and> (tag v \<le> LUA55_VALUE_TRUE \<or> payload v = payload w)"
  by (auto simp: norm_value_def mk_value_def)

lemma alike_frame:
  assumes "alike s t" and "lframes s f = Some fr"
  obtains k where "lframes t f = Some (fr\<lparr>l_slot_cursor := k\<rparr>)"
proof -
  from assms have "map_option (\<lambda>fr. fr\<lparr>l_slot_cursor := 0\<rparr>) (lframes t f) = Some (fr\<lparr>l_slot_cursor := 0\<rparr>)"
    unfolding alike_def by (metis option.simps(9))
  then obtain fr' where fr': "lframes t f = Some fr'" "fr'\<lparr>l_slot_cursor := 0\<rparr> = fr\<lparr>l_slot_cursor := 0\<rparr>" by auto
  then have "fr' = fr\<lparr>l_slot_cursor := l_slot_cursor fr'\<rparr>" by (cases fr, cases fr') simp
  with fr'(1) show thesis using that by metis
qed

lemma alike_rd:
  assumes "alike s t" and "rd a s = Some v"
  obtains w where "rd a t = Some w" "norm_value v = norm_value w"
proof -
  from assms have "map_option norm_value (rd a t) = Some (norm_value v)"
    unfolding alike_def rd_def rd_val_def by (metis option.simps(9))
  then show thesis using that by auto
qed

lemma alike_cells: "alike s t \<Longrightarrow> lcells s = lcells t"
  by (simp add: alike_def)

lemma alike_mem: "alike s t \<Longrightarrow> (mem s)\<lparr>vals := m\<rparr> = (mem t)\<lparr>vals := m\<rparr>"
proof -
  assume "alike s t"
  then have "(mem s)\<lparr>vals := Map.empty\<rparr>\<lparr>vals := m\<rparr> = (mem t)\<lparr>vals := Map.empty\<rparr>\<lparr>vals := m\<rparr>"
    by (simp only: alike_def)
  then show ?thesis by simp
qed

lemma alike_reg:
  assumes "alike s t" and "reg i f s = Some a"
  shows "reg i f t = Some a"
proof -
  from assms(2) obtain fr where fr: "lframes s f = Some fr" "a = slot_addr (l_values fr) i"
    by (auto simp: reg_def bind_eq_Some_conv)
  from alike_frame [OF assms(1) fr(1)] obtain k where "lframes t f = Some (fr\<lparr>l_slot_cursor := k\<rparr>)" .
  with fr(2) show ?thesis by (simp add: reg_def)
qed

lemma alike_put:
  assumes "alike s t" and "norm_value v = norm_value w" and "on_mem (wr_val a v) s = Some s'"
  obtains t' where "on_mem (wr_val a w) t = Some t'" "alike s' t'"
proof -
  from assms(3) have s: "vals (mem s) a \<noteq> None" "s' = s\<lparr>mem := (mem s)\<lparr>vals := (vals (mem s))(a \<mapsto> v)\<rparr>\<rparr>"
    by (auto simp: on_mem_def wr_val_def bind_eq_Some_conv split: if_splits)
  let ?t = "t\<lparr>mem := (mem t)\<lparr>vals := (vals (mem t))(a \<mapsto> w)\<rparr>\<rparr>"
  have "vals (mem t) a \<noteq> None"
    using s(1) assms(1) unfolding alike_def by (metis map_option_is_None)
  then have "on_mem (wr_val a w) t = Some ?t" by (simp add: on_mem_def wr_val_def)
  moreover have "alike s' ?t" using assms(1,2) by (auto simp: alike_def s(2))
  ultimately show thesis by (rule that)
qed

lemma alike_upd:
  assumes "alike s t" and "upd_lframe f g s = Some s'"
    and "\<And>fr k. (g (fr\<lparr>l_slot_cursor := k\<rparr>)) = (g fr)\<lparr>l_slot_cursor := k\<rparr>"
  obtains t' where "upd_lframe f g t = Some t'" "alike s' t'"
proof -
  from assms(2) obtain fr where fr: "lframes s f = Some fr" "s' = s\<lparr>lframes := (lframes s)(f \<mapsto> g fr)\<rparr>"
    by (auto simp: upd_lframe_def bind_eq_Some_conv)
  from alike_frame [OF assms(1) fr(1)] obtain k where k: "lframes t f = Some (fr\<lparr>l_slot_cursor := k\<rparr>)" .
  then have "upd_lframe f g t = Some (t\<lparr>lframes := (lframes t)(f \<mapsto> (g fr)\<lparr>l_slot_cursor := k\<rparr>)\<rparr>)"
    by (simp add: upd_lframe_def assms(3))
  moreover have "alike s' (t\<lparr>lframes := (lframes t)(f \<mapsto> (g fr)\<lparr>l_slot_cursor := k\<rparr>)\<rparr>)"
    using assms(1) by (auto simp: alike_def fr(2))
  ultimately show thesis by (rule that)
qed

text \<open>Recording is not observed.\<close>

lemma alike_recording:
  "upd_slot a g s = Some t \<Longrightarrow> alike t s" "next_slot f s = Some (a, u) \<Longrightarrow> alike u s"
  by (auto simp: upd_slot_def next_slot_def upd_lframe_def alike_def bind_eq_Some_conv)

subsection \<open>The contract\<close>

fun follow :: "v1_control \<Rightarrow> v1_control" where
  "follow (Learn_next f) = Residual_next f"
| "follow c = c"

text \<open>The \<open>i\<close>-th slot from the cursor.\<close>

definition slot_at :: "learn_frame \<Rightarrow> u32 \<Rightarrow> u64" where
  "slot_at fr i = l_slots fr + SIZEOF_RECORDING * ucast (l_slot_cursor fr + i)"

definition quote_at :: "u64 \<Rightarrow> v1_state \<Rightarrow> u32 option" where
  "quote_at a s = map_option rs_quote (rslots s a)"

text \<open>The host gives up a block that a learner rejected.\<close>

definition unrejected :: "u64 \<Rightarrow> v1_state \<Rightarrow> bool" where
  "unrejected f s \<longleftrightarrow> (\<forall>fr. lframes s f = Some fr \<longrightarrow> l_status fr \<noteq> LUA55_REJECTED)"

text \<open>
  The slot a learner wrote selects the residual, and what it recorded is patched into the holes
  of the residual; \<open>selects\<close> says that the slot has the residual's quote and the holes its records.
\<close>

locale replayed_leaf =
  fixes learn residual :: v1_stencil and selects :: "v1_holes \<Rightarrow> recording_slot \<Rightarrow> bool"
  assumes tidy: "lframes s f = Some fr \<Longrightarrow> learn h f s = Some (c, t) \<Longrightarrow>
      (\<exists>fr'. lframes t f = Some fr' \<and> l_slots fr' = l_slots fr \<and> l_slot_cursor fr' = l_slot_cursor fr + 1) \<and>
      (\<forall>a. a \<noteq> slot_at fr 0 \<longrightarrow> rslots t a = rslots s a)"
    and ends: "learn h f s = Some (c, t) \<Longrightarrow> c = Learn_next f \<or> c = Ret"
    and replay: "lframes s f = Some fr \<Longrightarrow> quote_at (slot_at fr 0) s = Some 0 \<Longrightarrow> learn h f s = Some (c, t) \<Longrightarrow>
      rslots t (slot_at fr 0) = Some r \<Longrightarrow> selects h r \<Longrightarrow> c = Learn_next f \<or> unrejected f t \<Longrightarrow> alike s s' \<Longrightarrow>
      \<exists>t'. residual h f s' = Some (follow c, t') \<and> alike t t'"

subsection \<open>Blocks\<close>

text \<open>
  The projection chains the stencils of a straight-line block: each learner goes on to the next
  one, each residual to the next one, and any other end leaves the block.
\<close>

fun learn_run :: "(v1_stencil \<times> v1_holes) list \<Rightarrow> u64 \<Rightarrow> v1_state \<Rightarrow> (v1_control \<times> v1_state) option" where
  "learn_run [] f s = Some (Learn_next f, s)"
| "learn_run ((l, h) # B) f s = do {
     (c, s) \<leftarrow> l h f s;
     if c = Learn_next f then learn_run B f s else Some (c, s)}"

fun residual_run :: "(v1_stencil \<times> v1_holes) list \<Rightarrow> u64 \<Rightarrow> v1_state \<Rightarrow> (v1_control \<times> v1_state) option" where
  "residual_run [] f s = Some (Residual_next f, s)"
| "residual_run ((r, h) # B) f s = do {
     (c, s) \<leftarrow> r h f s;
     if c = Residual_next f then residual_run B f s else Some (c, s)}"

text \<open>An occurrence with its learner, the residual installed for it and the slots that select it.\<close>

type_synonym v1_row = "v1_stencil \<times> v1_stencil \<times> (v1_holes \<Rightarrow> recording_slot \<Rightarrow> bool)"

fun learner_of :: "v1_row \<times> v1_holes \<Rightarrow> v1_stencil \<times> v1_holes" where
  "learner_of ((l, r, q), h) = (l, h)"

fun residual_of :: "v1_row \<times> v1_holes \<Rightarrow> v1_stencil \<times> v1_holes" where
  "residual_of ((l, r, q), h) = (r, h)"

abbreviation learners :: "(v1_row \<times> v1_holes) list \<Rightarrow> (v1_stencil \<times> v1_holes) list" where
  "learners \<equiv> map learner_of"

abbreviation residuals :: "(v1_row \<times> v1_holes) list \<Rightarrow> (v1_stencil \<times> v1_holes) list" where
  "residuals \<equiv> map residual_of"

lemma slot_at_inj: "slot_at fr i = slot_at fr j \<longleftrightarrow> i = j"
proof
  let ?u = "\<lambda>i. unat (l_slot_cursor fr + i)"
  assume "slot_at fr i = slot_at fr j"
  then have e: "(word_of_nat (24 * ?u i) :: u64) = word_of_nat (24 * ?u j)"
    by (simp add: slot_at_def)
  have "24 * ?u i < 2 ^ 64" "24 * ?u j < 2 ^ 64"
    using unat32_less [of "l_slot_cursor fr + i"] unat32_less [of "l_slot_cursor fr + j"] by simp_all
  with e have "24 * ?u i = 24 * ?u j" by (metis unat_of_nat64)
  then have "?u i = ?u j" by simp
  then show "i = j" by (simp add: word_unat_eq_iff [symmetric])
qed simp

lemma slot_at_later: "Suc i < 2 ^ 32 \<Longrightarrow> slot_at fr 0 \<noteq> slot_at fr (1 + word_of_nat i)"
proof -
  assume "Suc i < 2 ^ 32"
  then have "unat (word_of_nat (Suc i) :: u32) = Suc i" by (rule unat_of_nat32)
  then have "(1 + word_of_nat i :: u32) \<noteq> 0" by (metis nat.distinct(1) of_nat_Suc unat_0)
  then show ?thesis by (simp add: slot_at_inj)
qed

text \<open>
  How many slots a run has used, and that those of the block hold no quote yet when it starts.
\<close>

definition used :: "learn_frame \<Rightarrow> u64 \<Rightarrow> v1_state \<Rightarrow> nat" where
  "used fr f t = (case lframes t f of Some fr' \<Rightarrow> unat (l_slot_cursor fr' - l_slot_cursor fr) | None \<Rightarrow> 0)"

definition fresh_slots :: "learn_frame \<Rightarrow> nat \<Rightarrow> v1_state \<Rightarrow> bool" where
  "fresh_slots fr n s \<longleftrightarrow> (\<forall>i<n. quote_at (slot_at fr (word_of_nat i)) s = Some 0)"

definition replays :: "v1_row \<Rightarrow> bool" where
  "replays = (\<lambda>(l, r, q). replayed_leaf l r q)"

definition contracted :: "v1_row \<times> v1_holes \<Rightarrow> bool" where
  "contracted = (\<lambda>(row, h). replays row)"

lemma slot_at_next: "l_slots fr' = l_slots fr \<Longrightarrow> l_slot_cursor fr' = l_slot_cursor fr + 1 \<Longrightarrow> slot_at fr' i = slot_at fr (1 + i)"
  by (simp add: slot_at_def add.assoc)

text \<open>A run leaves the slots before its cursor alone and advances the cursor once per learner.\<close>

lemma learn_run_tidy:
  assumes "lframes s f = Some fr" and "list_all contracted B" and "learn_run (learners B) f s = Some (c, t)"
    and "length B < 2 ^ 32"
  shows "\<exists>fr' n. lframes t f = Some fr' \<and> l_slots fr' = l_slots fr \<and> n \<le> length B \<and>
    l_slot_cursor fr' = l_slot_cursor fr + word_of_nat n \<and>
    (\<forall>a. (\<forall>i<n. a \<noteq> slot_at fr (word_of_nat i)) \<longrightarrow> rslots t a = rslots s a)"
  using assms
proof (induction B arbitrary: s fr)
  case (Cons b B)
  obtain l r q h where b: "b = ((l, r, q), h)" by (metis prod.collapse)
  from Cons.prems(2) b have leaf: "replayed_leaf l r q" by (simp add: contracted_def replays_def)
  from Cons.prems(3) b obtain c1 s1 where s1: "l h f s = Some (c1, s1)"
      "(if c1 = Learn_next f then learn_run (learners B) f s1 else Some (c1, s1)) = Some (c, t)"
    by (auto simp: bind_eq_Some_conv)
  from replayed_leaf.tidy [OF leaf Cons.prems(1) s1(1)] obtain fr1 where
    fr1: "lframes s1 f = Some fr1" "l_slots fr1 = l_slots fr" "l_slot_cursor fr1 = l_slot_cursor fr + 1" and
    off: "\<And>a. a \<noteq> slot_at fr 0 \<Longrightarrow> rslots s1 a = rslots s a" by auto
  show ?case
  proof (cases "c1 = Learn_next f")
    case True
    with s1(2) have "learn_run (learners B) f s1 = Some (c, t)" by simp
    from Cons.IH [OF fr1(1) _ this] Cons.prems(2,4) obtain fr' n where
      t: "lframes t f = Some fr'" "l_slots fr' = l_slots fr1" "n \<le> length B" "l_slot_cursor fr' = l_slot_cursor fr1 + word_of_nat n"
        "\<And>a. \<forall>i<n. a \<noteq> slot_at fr1 (word_of_nat i) \<Longrightarrow> rslots t a = rslots s1 a" by auto
    have "rslots t a = rslots s a" if a: "\<forall>i<Suc n. a \<noteq> slot_at fr (word_of_nat i)" for a
    proof -
      have "a \<noteq> slot_at fr1 (word_of_nat i)" if "i < n" for i
        using a [rule_format, of "Suc i"] that by (simp add: slot_at_next [OF fr1(2,3)])
      moreover have "a \<noteq> slot_at fr 0" using a [rule_format, of 0] by simp
      ultimately show ?thesis using t(5) off by metis
    qed
    then show ?thesis
      using t(1-4) fr1(2,3) by (intro exI [of _ fr'] exI [of _ "Suc n"]) (auto simp: algebra_simps)
  next
    case False
    then show ?thesis using s1(2) fr1 off by (intro exI [of _ fr1] exI [of _ 1]) auto
  qed
qed (auto intro!: exI [of _ 0])

text \<open>The residuals that the recorded quotes select do what the learners did.\<close>

lemma block_replays:
  assumes "lframes s f = Some fr" and "list_all contracted B" and "learn_run (learners B) f s = Some (c, t)"
    and "length B < 2 ^ 32" and "fresh_slots fr (length B) s"
    and "\<And>i l r q h. i < used fr f t \<Longrightarrow> B ! i = ((l, r, q), h) \<Longrightarrow> \<exists>k. rslots t (slot_at fr (word_of_nat i)) = Some k \<and> q h k"
    and "c = Learn_next f \<or> unrejected f t" and "alike s s'"
  shows "\<exists>t'. residual_run (residuals B) f s' = Some (follow c, t') \<and> alike t t'"
  using assms
proof (induction B arbitrary: s fr s')
  case (Cons b B)
  obtain l r q h where b: "b = ((l, r, q), h)" by (metis prod.collapse)
  from Cons.prems(2) b have leaf: "replayed_leaf l r q" by (simp add: contracted_def replays_def)
  from Cons.prems(3) b obtain c1 s1 where s1: "l h f s = Some (c1, s1)"
      "(if c1 = Learn_next f then learn_run (learners B) f s1 else Some (c1, s1)) = Some (c, t)"
    by (auto simp: bind_eq_Some_conv)
  from replayed_leaf.tidy [OF leaf Cons.prems(1) s1(1)] obtain fr1 where
    fr1: "lframes s1 f = Some fr1" "l_slots fr1 = l_slots fr" "l_slot_cursor fr1 = l_slot_cursor fr + 1" and
    off: "\<And>a. a \<noteq> slot_at fr 0 \<Longrightarrow> rslots s1 a = rslots s a" by auto
  note nx = slot_at_next [OF fr1(2,3)]
  have q0: "quote_at (slot_at fr 0) s = Some 0" using Cons.prems(5) by (auto simp: fresh_slots_def)
  note rp = replayed_leaf.replay [OF leaf Cons.prems(1) q0 s1(1) _ _ _ Cons.prems(8)]
  show ?case
  proof (cases "c1 = Learn_next f")
    case True
    with s1(2) have run: "learn_run (learners B) f s1 = Some (c, t)" by simp
    have all: "list_all contracted B" "length B < 2 ^ 32" using Cons.prems(2,4) by auto
    from learn_run_tidy [OF fr1(1) all(1) run all(2)] obtain fr' n where
      t: "lframes t f = Some fr'" "n \<le> length B" "l_slot_cursor fr' = l_slot_cursor fr1 + word_of_nat n"
        "\<And>a. \<forall>i<n. a \<noteq> slot_at fr1 (word_of_nat i) \<Longrightarrow> rslots t a = rslots s1 a" by auto
    have u: "used fr1 f t = n" "used fr f t = Suc n"
    proof -
      have "unat (word_of_nat n :: u32) = n" "unat (word_of_nat (Suc n) :: u32) = Suc n"
        using t(2) Cons.prems(4) by (simp_all add: unat_of_nat32 del: of_nat_Suc)
      then show "used fr1 f t = n" "used fr f t = Suc n"
        using t(1,3) fr1(3) by (simp_all add: used_def)
    qed
    have "slot_at fr 0 \<noteq> slot_at fr1 (word_of_nat i)" if "i < n" for i
      unfolding nx using that t(2) Cons.prems(4) by (intro slot_at_later) simp
    then have "rslots s1 (slot_at fr 0) = rslots t (slot_at fr 0)" using t(4) by simp
    then obtain k where "rslots s1 (slot_at fr 0) = Some k" "q h k" using Cons.prems(6) [of 0] u b by auto
    from rp [OF this] True obtain s1' where r1: "r h f s' = Some (Residual_next f, s1')" "alike s1 s1'" by auto
    have "\<exists>t'. residual_run (residuals B) f s1' = Some (follow c, t') \<and> alike t t'"
    proof (rule Cons.IH [OF fr1(1) all(1) run all(2) _ _ Cons.prems(7) r1(2)])
      have "quote_at (slot_at fr (1 + word_of_nat i)) s1 = Some 0" if "i < length B" for i
      proof -
        have "slot_at fr (1 + word_of_nat i) \<noteq> slot_at fr 0"
          using slot_at_later [of i fr] that Cons.prems(4) by auto
        then show ?thesis
          using Cons.prems(5) [unfolded fresh_slots_def, rule_format, of "Suc i"] that off by (simp add: quote_at_def)
      qed
      then show "fresh_slots fr1 (length B) s1" by (simp add: fresh_slots_def nx)
      show "\<exists>k. rslots t (slot_at fr1 (word_of_nat i)) = Some k \<and> q h k" if "i < used fr1 f t" "B ! i = ((l, r, q), h)" for i l r q h
        using Cons.prems(6) [of "Suc i"] that u by (simp add: nx)
    qed
    with r1(1) show ?thesis by (simp add: b)
  next
    case False
    with s1(2) have ct: "c1 = c" "s1 = t" by simp_all
    then have "used fr f t = 1" using fr1 by (simp add: used_def)
    then obtain k where "rslots t (slot_at fr 0) = Some k" "q h k" using Cons.prems(6) [of 0] b by auto
    from rp [OF this [folded ct(2)]] Cons.prems(7) obtain t' where "r h f s' = Some (follow c, t')" "alike t t'" using ct by auto
    moreover have "c = Ret" using replayed_leaf.ends [OF leaf s1(1)] False ct by simp
    ultimately show ?thesis by (simp add: b)
  qed
qed auto

end
