(* ===== verification/V1_Effects.thy ===== *)
theory V1_Effects
  imports V1_Replay
begin

text \<open>
  Most first-generation stencils have one shape: the operands are read, a decision is taken on
  them, and a few writes follow before the stencil goes on or leaves. Here that shape is a
  function, \<open>noting\<close>, and the contract is proved once for it: it is enough that the residual performs the
  effect that the learner accepted.
\<close>

unbundle bit_operations_syntax

subsection \<open>Effects\<close>

text \<open>A whole value, a tag, a payload, or a copy of another location; then the next stencil or an exit.\<close>

datatype v1_write = Put u64 lua_value | Tag u64 u32 | Pay u64 u64 | Copy u64 u64

datatype v1_end = Next | Exit u32 u32

datatype v1_effect = Does "v1_write list" v1_end

abbreviation "Goes \<equiv> Does [] Next"
abbreviation "Puts a v \<equiv> Does [Put a v] Next"
abbreviation "Tags a t \<equiv> Does [Tag a t] Next"
abbreviation "Exits pc st \<equiv> Does [] (Exit pc st)"
abbreviation "Puts_exits a v pc st \<equiv> Does [Put a v] (Exit pc st)"

definition wr_pay :: "u64 \<Rightarrow> u64 \<Rightarrow> v2_state \<Rightarrow> v2_state option" where
  "wr_pay a p s = do {v \<leftarrow> rd_val a s; wr_val a (v\<lparr>payload := p\<rparr>) s}"

definition copy_val :: "u64 \<Rightarrow> u64 \<Rightarrow> v2_state \<Rightarrow> v2_state option" where
  "copy_val a b s = do {v \<leftarrow> rd_val b s; wr_val a v s}"

fun write1 :: "v1_write \<Rightarrow> v1_state \<Rightarrow> v1_state option" where
  "write1 (Put a v) = on_mem (wr_val a v)"
| "write1 (Tag a t) = on_mem (wr_tag a t)"
| "write1 (Pay a p) = on_mem (wr_pay a p)"
| "write1 (Copy a b) = on_mem (copy_val a b)"

fun writes :: "v1_write list \<Rightarrow> v1_state \<Rightarrow> v1_state option" where
  "writes [] s = Some s"
| "writes (w # ws) s = do {s \<leftarrow> write1 w s; writes ws s}"

fun perform :: "(u64 \<Rightarrow> v1_state \<Rightarrow> (v1_control \<times> v1_state) option) \<Rightarrow> v1_effect \<Rightarrow> u64 \<Rightarrow> v1_state \<Rightarrow>
    (v1_control \<times> v1_state) option" where
  "perform nxt (Does ws e) f s = do {
     s \<leftarrow> writes ws s;
     case e of Next \<Rightarrow> nxt f s | Exit pc st \<Rightarrow> exit_with pc st f s}"

text \<open>
  Effects that leave states alike. The payload behind a nil or a boolean is dead, so setting the
  tag alone is as good as storing the value.
\<close>

fun like_write :: "v1_write \<Rightarrow> v1_write \<Rightarrow> bool" where
  "like_write (Put a v) (Put b w) \<longleftrightarrow> a = b \<and> norm_value v = norm_value w"
| "like_write (Put a v) (Tag b t) \<longleftrightarrow> a = b \<and> tag v = t \<and> t \<le> LUA55_VALUE_TRUE"
| "like_write (Tag a t) (Tag b u) \<longleftrightarrow> a = b \<and> t = u \<and> t \<le> LUA55_VALUE_TRUE"
| "like_write (Pay a p) (Pay b q) \<longleftrightarrow> a = b \<and> p = q"
| "like_write (Copy a b) (Copy c d) \<longleftrightarrow> a = c \<and> b = d"
| "like_write _ _ \<longleftrightarrow> False"

fun like_effect :: "v1_effect \<Rightarrow> v1_effect \<Rightarrow> bool" where
  "like_effect (Does ws e) (Does ws' e') \<longleftrightarrow> list_all2 like_write ws ws' \<and> e = e'"

lemma alike_put_at:
  assumes "alike s t" and "\<And>v0 w0. rd a s = Some v0 \<Longrightarrow> rd a t = Some w0 \<Longrightarrow> norm_value v0 = norm_value w0 \<Longrightarrow> norm_value (g v0) = norm_value (g' w0)"
    and "on_mem (\<lambda>m. do {v \<leftarrow> rd_val a m; wr_val a (g v) m}) s = Some s'"
  obtains t' where "on_mem (\<lambda>m. do {v \<leftarrow> rd_val a m; wr_val a (g' v) m}) t = Some t'" "alike s' t'"
proof -
  from assms(3) obtain v where v: "rd a s = Some v" and s': "on_mem (wr_val a (g v)) s = Some s'"
    by (auto simp: on_mem_def rd_def bind_eq_Some_conv)
  from alike_rd [OF assms(1) v] obtain w where w: "rd a t = Some w" "norm_value v = norm_value w" .
  from alike_put [OF assms(1) assms(2) [OF v w] s'] obtain t' where "on_mem (wr_val a (g' w)) t = Some t'" "alike s' t'" .
  then show thesis using w(1) that by (simp add: on_mem_def rd_def)
qed

text \<open>Every write but a copy is an update of one location.\<close>

lemma write1_update:
  "write1 (Put a v) s = on_mem (\<lambda>m. do {_ \<leftarrow> rd_val a m; wr_val a v m}) s"
  "write1 (Tag a t) s = on_mem (\<lambda>m. do {v \<leftarrow> rd_val a m; wr_val a (SET_TAG t v) m}) s"
  "write1 (Pay a p) s = on_mem (\<lambda>m. do {v \<leftarrow> rd_val a m; wr_val a (v\<lparr>payload := p\<rparr>) m}) s"
  by (cases "vals (mem s) a"; simp add: on_mem_def wr_val_def rd_val_def wr_tag_def wr_pay_def)+

lemma write_like:
  assumes "like_write w w'" and "alike s t" and "write1 w s = Some s'"
  shows "\<exists>t'. write1 w' t = Some t' \<and> alike s' t'"
proof (cases "(w, w')" rule: like_write.cases)
  case (1 a v b v')
  then have "a = b" "norm_value v = norm_value v'" using assms(1) by simp_all
  with alike_put [OF assms(2) this(2), of a s'] show ?thesis using assms(3) 1 by auto
next
  case (2 a v b n)
  then have n: "b = a" "norm_value v = norm_value (SET_TAG n w0)" for w0
    using assms(1) by (simp_all add: norm_value_def SET_TAG_def)
  have "on_mem (\<lambda>m. do {_ \<leftarrow> rd_val a m; wr_val a v m}) s = Some s'" using assms(3) 2 by (simp only: write1_update prod.inject)
  then obtain t' where "on_mem (\<lambda>m. do {v \<leftarrow> rd_val a m; wr_val a (SET_TAG n v) m}) t = Some t'" "alike s' t'"
    using alike_put_at [OF assms(2), of a "\<lambda>_. v" "SET_TAG n" s'] n(2) by blast
  then show ?thesis using 2 n(1) by (simp only: write1_update prod.inject) blast
next
  case (3 a n b k)
  then have n: "b = a" "k = n" "norm_value (SET_TAG n v0) = norm_value (SET_TAG n w0)" for v0 w0
    using assms(1) by (auto simp: norm_value_def SET_TAG_def)
  obtain t' where "on_mem (\<lambda>m. do {v \<leftarrow> rd_val a m; wr_val a (SET_TAG n v) m}) t = Some t'" "alike s' t'"
    using alike_put_at [OF assms(2), of a "SET_TAG n" "SET_TAG n" s'] n(3) assms(3) 3 by (simp only: write1_update prod.inject) blast
  then show ?thesis using 3 n(1,2) by (simp only: write1_update prod.inject) blast
next
  case (4 a p b q)
  then have n: "b = a" "q = p" using assms(1) by simp_all
  have eq: "norm_value (v0\<lparr>payload := p\<rparr>) = norm_value (w0\<lparr>payload := p\<rparr>)"
    if "rd a s = Some v0" "rd a t = Some w0" "norm_value v0 = norm_value w0" for v0 w0
    using that(3) by (simp add: norm_value_eq)
  have "on_mem (\<lambda>m. do {v \<leftarrow> rd_val a m; wr_val a (v\<lparr>payload := p\<rparr>) m}) s = Some s'" using assms(3) 4 by (simp only: write1_update prod.inject)
  from alike_put_at [OF assms(2) eq this] obtain t' where
    "on_mem (\<lambda>m. do {v \<leftarrow> rd_val a m; wr_val a (v\<lparr>payload := p\<rparr>) m}) t = Some t'" "alike s' t'" .
  then show ?thesis using 4 n by (simp only: write1_update prod.inject) blast
next
  case (5 a b c d)
  then have w': "c = a" "d = b" using assms(1) by simp_all
  from assms(3) 5 obtain v where v: "rd b s = Some v" "on_mem (wr_val a v) s = Some s'"
    by (auto simp: on_mem_def copy_val_def rd_def bind_eq_Some_conv)
  from alike_rd [OF assms(2) v(1)] obtain v' where v': "rd b t = Some v'" "norm_value v = norm_value v'" .
  from alike_put [OF assms(2) v'(2) v(2)] obtain t' where "on_mem (wr_val a v') t = Some t'" "alike s' t'" .
  then show ?thesis using v'(1) 5 w' by (simp add: on_mem_def copy_val_def rd_def)
qed (use assms(1) in simp_all)

lemma writes_like:
  "list_all2 like_write ws ws' \<Longrightarrow> alike s t \<Longrightarrow> writes ws s = Some s' \<Longrightarrow> \<exists>t'. writes ws' t = Some t' \<and> alike s' t'"
proof (induction arbitrary: s t rule: list_all2_induct)
  case (Cons w ws w' ws')
  from Cons.prems(2) obtain u where u: "write1 w s = Some u" "writes ws u = Some s'" by (auto simp: bind_eq_Some_conv)
  from write_like [OF Cons.hyps(1) Cons.prems(1) u(1)] obtain u' where "write1 w' t = Some u'" "alike u u'" by blast
  with Cons.IH [OF this(2) u(2)] show ?case by simp
qed simp

lemma alike_exit:
  assumes "alike s t" and "exit_with pc st f s = Some (c, s')"
  obtains t' where "exit_with pc st f t = Some (Ret, t')" "alike s' t'" "c = Ret"
proof -
  from assms(2) have c: "c = Ret" and u: "upd_lframe f (\<lambda>fr. fr\<lparr>l_resume_pc := pc, l_status := st\<rparr>) s = Some s'"
    by (auto simp: exit_with_def ret_def bind_eq_Some_conv)
  obtain t' where "upd_lframe f (\<lambda>fr. fr\<lparr>l_resume_pc := pc, l_status := st\<rparr>) t = Some t'" "alike s' t'"
    by (rule alike_upd [OF assms(1) u]) simp_all
  then show thesis using c that by (simp add: exit_with_def ret_def)
qed

lemma perform_like:
  assumes "like_effect e e'" and "alike s t" and "perform lua55_learn_next e f s = Some (c, s')"
  shows "\<exists>t'. perform lua55_residual_next e' f t = Some (follow c, t') \<and> alike s' t'"
proof -
  obtain ws x ws' where e: "e = Does ws x" "e' = Does ws' x" "list_all2 like_write ws ws'"
    using assms(1) by (cases e; cases e') auto
  with assms(3) obtain u where u: "writes ws s = Some u"
      "(case x of Next \<Rightarrow> lua55_learn_next f u | Exit pc st \<Rightarrow> exit_with pc st f u) = Some (c, s')"
    by (auto simp: bind_eq_Some_conv)
  from writes_like [OF e(3) assms(2) u(1)] obtain u' where u': "writes ws' t = Some u'" "alike u u'" by blast
  show ?thesis
  proof (cases x)
    case Next
    then show ?thesis using u(2) u' e(2) by (auto simp: lua55_learn_next_def lua55_residual_next_def)
  next
    case (Exit pc st)
    with u(2) have "exit_with pc st f u = Some (c, s')" by simp
    from alike_exit [OF u'(2) this] obtain t' where "exit_with pc st f u' = Some (Ret, t')" "alike s' t'" "c = Ret" .
    then show ?thesis using u'(1) e(2) Exit by simp
  qed
qed

lemma on_mem_keeps: "on_mem g s = Some t \<Longrightarrow> rslots t = rslots s \<and> lframes t = lframes s"
  by (auto simp: on_mem_def bind_eq_Some_conv)

lemma writes_keep: "writes ws s = Some t \<Longrightarrow> rslots t = rslots s \<and> lframes t = lframes s"
proof (induction ws arbitrary: s)
  case (Cons w ws)
  then obtain u where "write1 w s = Some u" "writes ws u = Some t" by (auto simp: bind_eq_Some_conv)
  with Cons.IH on_mem_keeps show ?case by (cases w) fastforce+
qed simp

lemma exit_keeps:
  assumes "exit_with pc st f s = Some (c, t)"
  shows "c = Ret \<and> rslots t = rslots s \<and> (\<exists>fr. lframes s f = Some fr \<and> lframes t f = Some (fr\<lparr>l_resume_pc := pc, l_status := st\<rparr>))"
  using assms by (auto simp: exit_with_def ret_def upd_lframe_def bind_eq_Some_conv)

lemma perform_tidy:
  assumes "perform lua55_learn_next e f s = Some (c, t)"
  shows "rslots t = rslots s \<and> (c = Learn_next f \<or> c = Ret) \<and>
    (\<forall>fr. lframes s f = Some fr \<longrightarrow>
      (\<exists>fr'. lframes t f = Some fr' \<and> l_slots fr' = l_slots fr \<and> l_slot_cursor fr' = l_slot_cursor fr))"
proof -
  obtain ws x where e: "e = Does ws x" by (cases e)
  with assms obtain u where u: "writes ws s = Some u"
      "(case x of Next \<Rightarrow> lua55_learn_next f u | Exit pc st \<Rightarrow> exit_with pc st f u) = Some (c, t)"
    by (auto simp: bind_eq_Some_conv)
  show ?thesis
  proof (cases x)
    case Next
    then show ?thesis using u(2) writes_keep [OF u(1)] by (auto simp: lua55_learn_next_def)
  next
    case (Exit pc st)
    then show ?thesis using u(2) writes_keep [OF u(1)] exit_keeps [of pc st f u c t] by fastforce
  qed
qed

subsection \<open>The shape of a learner\<close>

text \<open>
  A learner refuses, accepts with a quote, or, once, leaves without a quote. Some note more in
  their slot before they decide.
\<close>

datatype v1_pick = Refuse | Accept v1_effect u32 | Unquoted v1_effect

definition noting :: "(v1_holes \<Rightarrow> u64 \<Rightarrow> v1_state \<Rightarrow> 'x option) \<Rightarrow> (v1_holes \<Rightarrow> 'x \<Rightarrow> (recording_slot \<Rightarrow> recording_slot) option) \<Rightarrow>
    (v1_holes \<Rightarrow> 'x \<Rightarrow> v1_state \<Rightarrow> v1_pick option) \<Rightarrow> v1_stencil" where
  "noting rds note pick h f s = do {
     (slot, u) \<leftarrow> next_slot f s;
     x \<leftarrow> rds h f s;
     u \<leftarrow> (case note h x of None \<Rightarrow> Some u | Some g \<Rightarrow> upd_slot slot g u);
     d \<leftarrow> pick h x s;
     case d of
       Refuse \<Rightarrow> reject_quote slot h f u
     | Accept e q \<Rightarrow> do {u \<leftarrow> set_quote slot q u; perform lua55_learn_next e f u}
     | Unquoted e \<Rightarrow> perform lua55_learn_next e f u}"

abbreviation no_note :: "v1_holes \<Rightarrow> 'x \<Rightarrow> (recording_slot \<Rightarrow> recording_slot) option" where
  "no_note \<equiv> \<lambda>_ _. None"

abbreviation picking :: "(v1_holes \<Rightarrow> u64 \<Rightarrow> v1_state \<Rightarrow> 'x option) \<Rightarrow> (v1_holes \<Rightarrow> 'x \<Rightarrow> v1_state \<Rightarrow> v1_pick option) \<Rightarrow> v1_stencil" where
  "picking rds \<equiv> noting rds no_note"

definition noted :: "(recording_slot \<Rightarrow> recording_slot) option \<Rightarrow> recording_slot \<Rightarrow> recording_slot" where
  "noted g r = (case g of None \<Rightarrow> r | Some g \<Rightarrow> g r)"

lemma next_slot_frame:
  assumes "lframes s f = Some fr" and "next_slot f s = Some (slot, u)"
  shows "slot = slot_at fr 0" "lframes u f = Some (fr\<lparr>l_slot_cursor := l_slot_cursor fr + 1\<rparr>)" "rslots u = rslots s"
  using assms by (auto simp: next_slot_def upd_lframe_def slot_at_def bind_eq_Some_conv)

lemma upd_slot_keeps:
  assumes "upd_slot a g s = Some t"
  shows "lframes t = lframes s" "\<And>b. b \<noteq> a \<Longrightarrow> rslots t b = rslots s b" "alike t s"
    "\<exists>r. rslots s a = Some r \<and> rslots t a = Some (g r)"
  using assms alike_recording(1) [OF assms] by (auto simp: upd_slot_def bind_eq_Some_conv)

lemma note_step:
  assumes "(case g of None \<Rightarrow> Some s | Some g \<Rightarrow> upd_slot a g s) = Some t"
  shows "lframes t = lframes s" "\<And>b. b \<noteq> a \<Longrightarrow> rslots t b = rslots s b" "alike t s" "rslots t a = map_option (noted g) (rslots s a)"
proof -
  have "lframes t = lframes s \<and> (\<forall>b. b \<noteq> a \<longrightarrow> rslots t b = rslots s b) \<and> alike t s \<and> rslots t a = map_option (noted g) (rslots s a)"
  proof (cases g)
    case None
    then have "noted g = (\<lambda>r. r)" by (simp add: fun_eq_iff noted_def)
    then show ?thesis using None assms by (simp add: option.map_ident)
  next
    case (Some k)
    then have "upd_slot a k s = Some t" "noted g = k" using assms by (simp_all add: fun_eq_iff noted_def)
    from upd_slot_keeps [OF this(1)] this(2) show ?thesis by auto
  qed
  then show "lframes t = lframes s" "\<And>b. b \<noteq> a \<Longrightarrow> rslots t b = rslots s b" "alike t s" "rslots t a = map_option (noted g) (rslots s a)"
    by blast+
qed

lemma noting_ends:
  assumes "noting rds note pick h f s = Some (c, t)" and "lframes s f = Some fr"
  obtains (refused) u where "lframes u f = Some (fr\<lparr>l_slot_cursor := l_slot_cursor fr + 1\<rparr>)"
      "\<forall>b. b \<noteq> slot_at fr 0 \<longrightarrow> rslots u b = rslots s b" "exit_with (q_resume_pc h) LUA55_REJECTED f u = Some (c, t)"
      "quote_at (slot_at fr 0) u = Some 0"
  | (accepted) u x e q r where "lframes u f = Some (fr\<lparr>l_slot_cursor := l_slot_cursor fr + 1\<rparr>)" "alike u s"
      "\<forall>b. b \<noteq> slot_at fr 0 \<longrightarrow> rslots u b = rslots s b" "rds h f s = Some x" "pick h x s = Some (Accept e q)"
      "rslots s (slot_at fr 0) = Some r" "rslots u (slot_at fr 0) = Some ((noted (note h x) r)\<lparr>rs_quote := q\<rparr>)"
      "perform lua55_learn_next e f u = Some (c, t)"
  | (unquoted) u x e where "lframes u f = Some (fr\<lparr>l_slot_cursor := l_slot_cursor fr + 1\<rparr>)"
      "\<forall>b. b \<noteq> slot_at fr 0 \<longrightarrow> rslots u b = rslots s b" "pick h x s = Some (Unquoted e)"
      "rslots u (slot_at fr 0) = map_option (noted (note h x)) (rslots s (slot_at fr 0))"
      "perform lua55_learn_next e f u = Some (c, t)"
proof -
  from assms(1) obtain slot u0 x u d where u: "next_slot f s = Some (slot, u0)" "rds h f s = Some x" "pick h x s = Some d" and
    n: "(case note h x of None \<Rightarrow> Some u0 | Some g \<Rightarrow> upd_slot slot g u0) = Some u" and
    d: "(case d of Refuse \<Rightarrow> reject_quote slot h f u
      | Accept e q \<Rightarrow> do {u \<leftarrow> set_quote slot q u; perform lua55_learn_next e f u}
      | Unquoted e \<Rightarrow> perform lua55_learn_next e f u) = Some (c, t)"
    unfolding noting_def bind_eq_Some_conv by (auto simp: bind_eq_Some_conv)
  note k = next_slot_frame [OF assms(2) u(1)]
  note u2 = note_step [OF n]
  have al: "alike u s" using u2(3) alike_recording(2) [OF u(1)] by (rule alike_trans)
  show thesis
  proof (cases d)
    case Refuse
    then obtain w where w: "set_quote slot 0 u = Some w" "exit_with (q_resume_pc h) LUA55_REJECTED f w = Some (c, t)"
      using d by (auto simp: reject_quote_def REJECT_def bind_eq_Some_conv)
    show thesis using refused [of w] w(2) k u2 upd_slot_keeps [OF w(1)] by (auto simp: quote_at_def)
  next
    case (Accept e q)
    then obtain w where w: "set_quote slot q u = Some w" "perform lua55_learn_next e f w = Some (c, t)"
      using d by (auto simp: bind_eq_Some_conv)
    have "alike w s" using upd_slot_keeps(3) [OF w(1)] al by (rule alike_trans)
    moreover obtain r where "rslots s slot = Some r" "rslots w slot = Some ((noted (note h x) r)\<lparr>rs_quote := q\<rparr>)"
      using upd_slot_keeps(4) [OF w(1)] u2(4) k(3) by auto
    ultimately show thesis using accepted [of w x e q] w(2) k u2 upd_slot_keeps [OF w(1)] u(2,3) Accept by simp
  next
    case (Unquoted e)
    then show thesis using unquoted [of u x e] d k u2 u(3) by simp
  qed
qed

subsection \<open>The contract for the shape\<close>

text \<open>An effect that rejects, as TFORPREP and ERRNNIL do after they have recorded a quote.\<close>

definition rejecting :: "v1_effect \<Rightarrow> bool" where
  "rejecting e = (case e of Does ws Next \<Rightarrow> False | Does ws (Exit pc st) \<Rightarrow> st = LUA55_REJECTED)"

lemma rejecting_ends:
  assumes "perform lua55_learn_next e f s = Some (c, t)" and "rejecting e"
  shows "c = Ret \<and> \<not> unrejected f t"
proof -
  obtain ws pc where "e = Does ws (Exit pc LUA55_REJECTED)" using assms(2) by (auto simp: rejecting_def split: v1_effect.splits v1_end.splits)
  then show ?thesis using assms(1) exit_keeps by (fastforce simp: unrejected_def bind_eq_Some_conv)
qed

lemma noting_replays:
  assumes agree: "\<And>h f s s' x e q r. alike s s' \<Longrightarrow> \<not> rejecting e \<Longrightarrow> rds h f s = Some x \<Longrightarrow> pick h x s = Some (Accept e q) \<Longrightarrow>
      selects h ((noted (note h x) r)\<lparr>rs_quote := q\<rparr>) \<Longrightarrow>
      \<exists>e'. residual h f s' = perform lua55_residual_next e' f s' \<and> like_effect e e'"
    and quoted: "\<And>h r. selects h r \<Longrightarrow> rs_quote r \<noteq> 0"
    and keeps: "\<And>h x s e r. pick h x s = Some (Unquoted e) \<Longrightarrow> rs_quote (noted (note h x) r) = rs_quote r"
  shows "replayed_leaf (noting rds note pick) residual selects"
proof
  fix h f s c t fr
  assume fr: "lframes s f = Some fr" and run: "noting rds note pick h f s = Some (c, t)"
  from noting_ends [OF run fr]
  show "(\<exists>fr'. lframes t f = Some fr' \<and> l_slots fr' = l_slots fr \<and> l_slot_cursor fr' = l_slot_cursor fr + 1) \<and>
      (\<forall>a. a \<noteq> slot_at fr 0 \<longrightarrow> rslots t a = rslots s a)"
    by cases (fastforce dest: exit_keeps perform_tidy)+
next
  fix h f s c t
  assume run: "noting rds note pick h f s = Some (c, t)"
  then obtain fr where "lframes s f = Some fr" by (auto simp: noting_def next_slot_def bind_eq_Some_conv)
  from noting_ends [OF run this] show "c = Learn_next f \<or> c = Ret"
    by cases (auto dest: exit_keeps perform_tidy)
next
  fix h f s c t fr r s'
  assume fr: "lframes s f = Some fr" and q0: "quote_at (slot_at fr 0) s = Some 0"
    and run: "noting rds note pick h f s = Some (c, t)" and r: "rslots t (slot_at fr 0) = Some r" and sel: "selects h r"
    and ok: "c = Learn_next f \<or> unrejected f t" and al: "alike s s'"
  show "\<exists>t'. residual h f s' = Some (follow c, t') \<and> alike t t'"
  proof (cases rule: noting_ends [OF run fr, case_names refused accepted unquoted])
    case (refused u)
    then have "rs_quote r = 0" using r exit_keeps by (fastforce simp: quote_at_def)
    then show ?thesis using quoted [OF sel] by simp
  next
    case (accepted u x e k r0)
    then have "r = (noted (note h x) r0)\<lparr>rs_quote := k\<rparr>" using r perform_tidy [OF accepted(8)] by auto
    then obtain e' where e': "residual h f s' = perform lua55_residual_next e' f s'" "like_effect e e'"
      using agree [OF al _ accepted(4,5)] sel rejecting_ends [OF accepted(8)] ok by blast
    have "alike u s'" using accepted(2) al by (rule alike_trans)
    from perform_like [OF e'(2) this accepted(8)] show ?thesis using e'(1) by simp
  next
    case (unquoted u x e)
    then have "rs_quote r = 0" using r q0 perform_tidy [OF unquoted(5)] keeps [OF unquoted(3)] by (auto simp: quote_at_def)
    then show ?thesis using quoted [OF sel] by simp
  qed
qed

text \<open>One run of a learner that goes on: what it recorded, and the residual for what it accepted.\<close>

lemma accepted_replays:
  assumes run: "picking rds pick h f s = Some (Learn_next f, t)" and fr: "lframes s f = Some fr"
    and unq: "\<And>x e. pick h x s \<noteq> Some (Unquoted e)"
    and acc: "\<And>x e q. rds h f s = Some x \<Longrightarrow> pick h x s = Some (Accept e q) \<Longrightarrow>
      q = n \<and> (W \<longrightarrow> residual h f s = perform lua55_residual_next e f s \<and> like_effect e e)"
  shows "quote_at (slot_at fr 0) t = Some n \<and> (W \<longrightarrow> (\<exists>t'. residual h f s = Some (Residual_next f, t') \<and> alike t t'))"
proof (cases rule: noting_ends [OF run fr, case_names refused accepted unquoted])
  case (refused u)
  then show ?thesis using exit_keeps by fastforce
next
  case (accepted u x e q r)
  note a = acc [OF accepted(4,5)]
  have "quote_at (slot_at fr 0) t = Some n" using a accepted(7) perform_tidy [OF accepted(8)] by (simp add: quote_at_def)
  moreover have "\<exists>t'. residual h f s = Some (Residual_next f, t') \<and> alike t t'" if W
    using a that perform_like [OF _ accepted(2,8)] by auto
  ultimately show ?thesis by blast
next
  case (unquoted u x e)
  then show ?thesis using unq by blast
qed

text \<open>
  The base patched into a learner is the opcode in the upper half of the quote; \<open>coded n\<close> is the \<open>n\<close>-th
  quote of the opcode, \<open>fixed q\<close> a quote that is built into the learner.
\<close>

definition based :: "v1_holes \<Rightarrow> bool" where
  "based h \<longleftrightarrow> q_quote_base h AND 0xFFFF = 0"

definition coded :: "u32 \<Rightarrow> v1_holes \<Rightarrow> recording_slot \<Rightarrow> bool" where
  "coded n h r \<longleftrightarrow> based h \<and> rs_quote r = q_quote_base h OR n"

definition fixed :: "u32 \<Rightarrow> v1_holes \<Rightarrow> recording_slot \<Rightarrow> bool" where
  "fixed q h r \<longleftrightarrow> rs_quote r = q"

lemma based_eq:
  assumes "based h" and "a AND 0xFFFF = a" and "b AND 0xFFFF = b"
  shows "q_quote_base h OR a = q_quote_base h OR b \<longleftrightarrow> a = b"
proof
  assume "q_quote_base h OR a = q_quote_base h OR b"
  then have "(q_quote_base h OR a) AND 0xFFFF = (q_quote_base h OR b) AND 0xFFFF" by simp
  then show "a = b" using assms by (simp add: based_def bit.conj_disj_distrib2)
qed simp

lemma based_nonzero:
  assumes "based h" and "a AND 0xFFFF = a" and "a \<noteq> 0"
  shows "q_quote_base h OR a \<noteq> 0"
  using assms by (metis and_zero_eq or_eq_0_iff)

text \<open>A quote that selects the residual only where the holes have a property.\<close>

definition coded_if :: "(v1_holes \<Rightarrow> bool) \<Rightarrow> u32 \<Rightarrow> v1_holes \<Rightarrow> recording_slot \<Rightarrow> bool" where
  "coded_if P n h r \<longleftrightarrow> P h \<and> coded n h r"

lemma coded_if_True: "coded_if (\<lambda>_. True) n = coded n"
  by (simp add: fun_eq_iff coded_if_def)

lemma picking_replays_if:
  assumes agree: "\<And>h f s s' x e. P h \<Longrightarrow> based h \<Longrightarrow> alike s s' \<Longrightarrow> \<not> rejecting e \<Longrightarrow> rds h f s = Some x \<Longrightarrow>
      pick h x s = Some (Accept e (q_quote_base h OR n)) \<Longrightarrow>
      \<exists>e'. residual h f s' = perform lua55_residual_next e' f s' \<and> like_effect e e'"
    and "n AND 0xFFFF = n" and "n \<noteq> 0"
  shows "replayed_leaf (picking rds pick) residual (coded_if P n)"
  by (rule noting_replays) (use agree based_nonzero assms(2,3) in \<open>auto simp: coded_if_def coded_def noted_def\<close>)

lemma picking_replays:
  assumes "\<And>h f s s' x e. based h \<Longrightarrow> alike s s' \<Longrightarrow> \<not> rejecting e \<Longrightarrow> rds h f s = Some x \<Longrightarrow> pick h x s = Some (Accept e (q_quote_base h OR n)) \<Longrightarrow>
      \<exists>e'. residual h f s' = perform lua55_residual_next e' f s' \<and> like_effect e e'"
    and "n AND 0xFFFF = n" and "n \<noteq> 0"
  shows "replayed_leaf (picking rds pick) residual (coded n)"
  using picking_replays_if [where P = "\<lambda>_. True", OF assms] by (simp add: coded_if_True)

lemma fixed_replays:
  assumes "\<And>h f s s' x e. alike s s' \<Longrightarrow> \<not> rejecting e \<Longrightarrow> rds h f s = Some x \<Longrightarrow> pick h x s = Some (Accept e q) \<Longrightarrow>
      \<exists>e'. residual h f s' = perform lua55_residual_next e' f s' \<and> like_effect e e'"
    and "q \<noteq> 0" and "\<And>h x s e r. pick h x s = Some (Unquoted e) \<Longrightarrow> rs_quote (noted (note h x) r) = rs_quote r"
  shows "replayed_leaf (noting rds note pick) residual (fixed q)"
  by (rule noting_replays) (use assms in \<open>auto simp: fixed_def\<close>)

lemma mk_value_fields: "tag (mk_value t p) = t" "payload (mk_value t p) = p"
  by (simp_all add: mk_value_def)

lemma stencil_eqI:
  assumes "\<And>h f s fr. lframes s f = Some fr \<Longrightarrow> L h f s = R h f s" and "\<And>h f s. lframes s f = None \<Longrightarrow> L h f s = R h f s"
  shows "L = (R :: v1_stencil)"
proof (intro ext)
  show "L h f s = R h f s" for h f s using assms by (cases "lframes s f") simp_all
qed

end
