(* ===== verification/V1_Numeric.thy ===== *)
theory V1_Numeric
  imports V1_Machine
begin

text \<open>
  The numeric helpers of the first generation (\<open>opcode_arith_stencils.c\<close>, \<open>opcode_compare_stencils.c\<close>,
  \<open>opcode_unary_stencils.c\<close>, \<open>opcode_pow_stencils.c\<close>), and that they compute what the helpers of the second
  generation compute, so that what is proved of those holds of these.
\<close>

unbundle bit_operations_syntax

definition magnitude_at_least_2_63 :: "dbl \<Rightarrow> bool" where
  "magnitude_at_least_2_63 x \<longleftrightarrow> 0x43e \<le> drop_bit 52 (x AND 0x7ff0000000000000)"

definition lua55_floor :: "dbl \<Rightarrow> dbl" where
  "lua55_floor x =
     (if magnitude_at_least_2_63 x then x
      else let i = c_int64 x; t = c_double i in
        if dbl_lt x 0 \<and> \<not> dbl_eq t x then c_double (i - 1) else t)"

definition lua55_ceil :: "dbl \<Rightarrow> dbl" where
  "lua55_ceil x =
     (if magnitude_at_least_2_63 x then x
      else let i = c_int64 x; t = c_double i in
        if dbl_lt 0 x \<and> \<not> dbl_eq t x then c_double (i + 1) else t)"

definition flt_to_int_eq :: "dbl \<Rightarrow> u64 option" where
  "flt_to_int_eq f =
     (if \<not> dbl_eq f f then None
      else if magnitude_at_least_2_63 f then None
      else let i = c_int64 f in
        if \<not> dbl_eq (c_double i) f then None else Some i)"

definition int_add :: "u64 \<Rightarrow> u64 \<Rightarrow> u64" where
  "int_add a b = a + b"

definition int_sub :: "u64 \<Rightarrow> u64 \<Rightarrow> u64" where
  "int_sub a b = a - b"

definition int_mul :: "u64 \<Rightarrow> u64 \<Rightarrow> u64" where
  "int_mul a b = a * b"

definition int_band :: "u64 \<Rightarrow> u64 \<Rightarrow> u64" where
  "int_band a b = a AND b"

definition int_bor :: "u64 \<Rightarrow> u64 \<Rightarrow> u64" where
  "int_bor a b = a OR b"

definition int_bxor :: "u64 \<Rightarrow> u64 \<Rightarrow> u64" where
  "int_bxor a b = a XOR b"

definition lua55_idiv :: "u64 \<Rightarrow> u64 \<Rightarrow> u64" where
  "lua55_idiv m n =
     (if n + 1 \<le> 1 then int_sub 0 m
      else let q = c_sdiv m n in
        if m XOR n <s 0 \<and> c_smod m n \<noteq> 0 then q - 1 else q)"

definition lua55_mod :: "u64 \<Rightarrow> u64 \<Rightarrow> u64" where
  "lua55_mod m n =
     (if n + 1 \<le> 1 then 0
      else let r = c_smod m n in
        if r \<noteq> 0 \<and> r XOR n <s 0 then r + n else r)"

definition lua55_flt_idiv :: "dbl \<Rightarrow> dbl \<Rightarrow> dbl" where
  "lua55_flt_idiv a b = lua55_floor (dbl_div a b)"

definition lua55_fmod :: "dbl \<Rightarrow> dbl \<Rightarrow> dbl" where
  "lua55_fmod x y =
     (if dbl_eq y 0 then dbl_div 0 0
      else let q = dbl_div x y;
               r = (if magnitude_at_least_2_63 q then x
                    else dbl_sub x (dbl_mul (c_double (c_int64 q)) y)) in
        if (if dbl_lt 0 r then dbl_lt y 0 else dbl_lt r 0 \<and> dbl_lt 0 y)
        then dbl_add r y else r)"

definition magnitude_at_least_2_53 :: "dbl \<Rightarrow> bool" where
  "magnitude_at_least_2_53 x \<longleftrightarrow> 0x434 \<le> drop_bit 52 (x AND 0x7ff0000000000000)"

definition flt_divmod_huge :: "dbl \<Rightarrow> dbl \<Rightarrow> bool" where
  "flt_divmod_huge a b \<longleftrightarrow>
     (let q = dbl_div a b in
        if \<not> dbl_eq (dbl_mul q 0) 0 then False else magnitude_at_least_2_53 q)"

definition lua55_shiftl :: "u64 \<Rightarrow> u64 \<Rightarrow> u64" where
  "lua55_shiftl x y =
     (if y <s 0 then
        (if y \<le>s - 64 then 0 else drop_bit (unat (- y)) x)
      else
        (if 64 \<le>s y then 0 else push_bit (unat y) x))"

definition int_unm :: "u64 \<Rightarrow> u64" where
  "int_unm x = 0 - x"

definition flt_unm :: "dbl \<Rightarrow> dbl" where
  "flt_unm x = x XOR 0x8000000000000000"

definition pow_exponent_is_two :: "dbl \<Rightarrow> bool" where
  "pow_exponent_is_two b \<longleftrightarrow> b = 0x4000000000000000"

definition lua55_pow :: "(dbl \<Rightarrow> dbl \<Rightarrow> dbl) \<Rightarrow> dbl \<Rightarrow> dbl \<Rightarrow> dbl" where
  "lua55_pow fn a b = (if pow_exponent_is_two b then dbl_mul a a else fn a b)"

subsection \<open>Mixed comparisons\<close>

definition flt_to_int :: "dbl \<Rightarrow> nat \<Rightarrow> u64 option" where
  "flt_to_int f mode =
     (if \<not> dbl_eq f f then None
      else let v = lua55_floor f in
        if \<not> dbl_eq v f \<and> mode = 0 then None
        else let w = (if \<not> dbl_eq v f \<and> mode = 1 then lua55_ceil f else v) in
          if magnitude_at_least_2_63 w then None else Some (c_int64 w))"

definition int_fits_float :: "u64 \<Rightarrow> bool" where
  "int_fits_float i \<longleftrightarrow> - push_bit 52 1 \<le>s i \<and> i \<le>s push_bit 52 1"

definition eq_int_float :: "u64 \<Rightarrow> dbl \<Rightarrow> bool" where
  "eq_int_float i f =
     (case flt_to_int f 0 of Some fi \<Rightarrow> i = fi | None \<Rightarrow> False)"

definition lt_int_float :: "u64 \<Rightarrow> dbl \<Rightarrow> bool" where
  "lt_int_float i f =
     (if int_fits_float i then dbl_lt (c_double i) f
      else case flt_to_int f 1 of Some fi \<Rightarrow> i <s fi | None \<Rightarrow> dbl_lt 0 f)"

definition le_int_float :: "u64 \<Rightarrow> dbl \<Rightarrow> bool" where
  "le_int_float i f =
     (if int_fits_float i then dbl_le (c_double i) f
      else case flt_to_int f 2 of Some fi \<Rightarrow> i \<le>s fi | None \<Rightarrow> dbl_lt 0 f)"

definition lt_float_int :: "dbl \<Rightarrow> u64 \<Rightarrow> bool" where
  "lt_float_int f i =
     (if int_fits_float i then dbl_lt f (c_double i)
      else case flt_to_int f 2 of Some fi \<Rightarrow> fi <s i | None \<Rightarrow> dbl_lt f 0)"

definition le_float_int :: "dbl \<Rightarrow> u64 \<Rightarrow> bool" where
  "le_float_int f i =
     (if int_fits_float i then dbl_le f (c_double i)
      else case flt_to_int f 1 of Some fi \<Rightarrow> fi \<le>s i | None \<Rightarrow> dbl_lt f 0)"

subsection \<open>Strings\<close>

primrec same_bytes :: "u64 \<Rightarrow> u64 \<Rightarrow> u32 \<Rightarrow> nat \<Rightarrow> v2_state \<Rightarrow> bool option" where
  "same_bytes pa pb i 0 s = Some True"
| "same_bytes pa pb i (Suc n) s = do {
     x \<leftarrow> rd_byte (pa + ucast i) s;
     y \<leftarrow> rd_byte (pb + ucast i) s;
     if x \<noteq> y then Some False else same_bytes pa pb (i + 1) n s}"

definition string_bytes_eq :: "u64 \<Rightarrow> u64 \<Rightarrow> v2_state \<Rightarrow> bool option" where
  "string_bytes_eq ra rb s = do {
     a \<leftarrow> strings s ra;
     b \<leftarrow> strings s rb;
     let n = str_length a;
     if str_length b \<noteq> n then Some False
     else same_bytes (str_bytes a) (str_bytes b) 0 (unat n) s}"

primrec first_difference :: "u64 \<Rightarrow> u64 \<Rightarrow> u32 \<Rightarrow> nat \<Rightarrow> v2_state \<Rightarrow> int option" where
  "first_difference pa pb i 0 s = Some 0"
| "first_difference pa pb i (Suc n) s = do {
     x \<leftarrow> rd_byte (pa + ucast i) s;
     y \<leftarrow> rd_byte (pb + ucast i) s;
     if x \<noteq> y then Some (if x < y then - 1 else 1) else first_difference pa pb (i + 1) n s}"

definition string_cmp :: "u64 \<Rightarrow> u64 \<Rightarrow> v2_state \<Rightarrow> int option" where
  "string_cmp ra rb s = do {
     a \<leftarrow> strings s ra;
     b \<leftarrow> strings s rb;
     let n = (if str_length a < str_length b then str_length a else str_length b);
     d \<leftarrow> first_difference (str_bytes a) (str_bytes b) 0 (unat n) s;
     Some (if d \<noteq> 0 then d
           else if str_length a < str_length b then - 1
           else if str_length a > str_length b then 1 else 0)}"

definition is_string_tag :: "u32 \<Rightarrow> bool" where
  "is_string_tag t \<longleftrightarrow> t = LUA55_VALUE_SHORT_STRING \<or> t = LUA55_VALUE_LONG_STRING"

definition truthy :: "u32 \<Rightarrow> bool" where
  "truthy t \<longleftrightarrow> \<not> (t = LUA55_VALUE_NIL \<or> t = LUA55_VALUE_FALSE)"

subsection \<open>The same functions in both generations\<close>

lemma v1_helpers:
  "magnitude_at_least_2_63 = v2_magnitude_at_least_2_63" "lua55_floor = v2_floor" "lua55_ceil = v2_ceil"
  "int_add = v2_int_add" "int_sub = v2_int_sub" "int_mul = v2_int_mul"
  "int_band = v2_int_band" "int_bor = v2_int_bor" "int_bxor = v2_int_bxor"
  "lua55_idiv = v2_idiv" "lua55_mod = v2_mod" "lua55_flt_idiv = v2_flt_idiv" "lua55_fmod = v2_fmod"
  "lua55_shiftl = v2_shiftl" "int_unm = v2_int_unm" "flt_unm = v2_flt_unm" "lua55_pow = v2_pow"
proof -
  show m: "magnitude_at_least_2_63 = v2_magnitude_at_least_2_63"
    by (simp add: fun_eq_iff magnitude_at_least_2_63_def v2_magnitude_at_least_2_63_def)
  show f: "lua55_floor = v2_floor" "lua55_ceil = v2_ceil"
    by (simp_all add: fun_eq_iff lua55_floor_def v2_floor_def lua55_ceil_def v2_ceil_def m)
  show i: "int_add = v2_int_add" "int_sub = v2_int_sub" "int_mul = v2_int_mul" "int_band = v2_int_band" "int_bor = v2_int_bor"
      "int_bxor = v2_int_bxor"
    by (simp_all add: fun_eq_iff int_add_def v2_int_add_def int_sub_def v2_int_sub_def int_mul_def v2_int_mul_def
        int_band_def v2_int_band_def int_bor_def v2_int_bor_def int_bxor_def v2_int_bxor_def)
  show "lua55_idiv = v2_idiv" "lua55_mod = v2_mod" "lua55_flt_idiv = v2_flt_idiv" "lua55_fmod = v2_fmod"
    by (simp_all add: fun_eq_iff lua55_idiv_def v2_idiv_def lua55_mod_def v2_mod_def lua55_flt_idiv_def v2_flt_idiv_def
        lua55_fmod_def v2_fmod_def m f i)
  show "lua55_shiftl = v2_shiftl" "int_unm = v2_int_unm" "flt_unm = v2_flt_unm" "lua55_pow = v2_pow"
    by (simp_all add: fun_eq_iff lua55_shiftl_def v2_shiftl_def int_unm_def v2_int_unm_def flt_unm_def v2_flt_unm_def
        lua55_pow_def v2_pow_def pow_exponent_is_two_def v2_pow_exponent_is_two_def)
qed

text \<open>
  The first generation converts by truncation and compares back; the second takes the floor. They
  accept the same doubles with the same result.
\<close>

lemma truncated_back:
  assumes "\<not> v2_magnitude_at_least_2_63 f"
  shows "dbl_eq (c_double (c_int64 f)) f \<longleftrightarrow> dbl_unit dvd dbl_scaled f"
proof -
  have i: "c_int64 f = word_of_int (dbl_trunc f)" using assms by (rule c_int64_small)
  have nn: "\<not> dbl_isnan f" using assms by (rule small_not_nan)
  show ?thesis
  proof (cases "dbl_unit dvd dbl_scaled f")
    case True
    then have s: "dbl_scaled f = (dbl_scaled f div dbl_unit) * dbl_unit" by simp
    have "dbl_scaled (c_double (c_int64 f)) = dbl_scaled f"
      using dbl_of_int_integral [OF nn s] small_trunc [OF assms] trunc_integral [OF s]
      by (simp add: i c_double_def sint_of_int_64)
    then show ?thesis using True nn by (simp add: dbl_eq_def)
  next
    case False
    have "dbl_scaled (c_double (c_int64 f)) = dbl_trunc f * dbl_unit"
      using trunc_nonintegral(2) [OF False] by (simp add: i c_double_small)
    then show ?thesis using False by (metis dbl_eq_def dvd_triv_right)
  qed
qed

lemma v1_flt_to_int_eq: "flt_to_int_eq = v2_flt_to_int_eq"
proof
  fix f
  show "flt_to_int_eq f = v2_flt_to_int_eq f"
  proof (cases "v2_magnitude_at_least_2_63 f")
    case True
    then show ?thesis by (simp add: flt_to_int_eq_def v2_flt_to_int_eq_def v2_flt_to_int_large v1_helpers)
  next
    case False
    have "c_int64 f = word_of_int (dbl_scaled f div dbl_unit)" if "dbl_unit dvd dbl_scaled f"
      using c_int64_small [OF False] trunc_integral [of f "dbl_scaled f div dbl_unit"] that by simp
    then show ?thesis
      using False small_not_nan [OF False] truncated_back [OF False]
      by (simp add: flt_to_int_eq_def v2_flt_to_int_eq_def v2_flt_to_int_small v1_helpers dbl_eq_def)
  qed
qed

lemma v1_mixed:
  "flt_to_int = v2_flt_to_int" "eq_int_float = v2_eq_int_float"
  "lt_int_float = v2_lt_int_float" "le_int_float = v2_le_int_float"
  "lt_float_int = v2_lt_float_int" "le_float_int = v2_le_float_int"
proof -
  show f: "flt_to_int = v2_flt_to_int"
    by (simp add: fun_eq_iff flt_to_int_def v2_flt_to_int_def v1_helpers Let_def)
  have g: "int_fits_float = v2_int_fits_float"
    by (simp add: fun_eq_iff int_fits_float_def v2_int_fits_float_def)
  show "eq_int_float = v2_eq_int_float" "lt_int_float = v2_lt_int_float" "le_int_float = v2_le_int_float"
      "lt_float_int = v2_lt_float_int" "le_float_int = v2_le_float_int"
    by (simp_all add: fun_eq_iff eq_int_float_def v2_eq_int_float_def lt_int_float_def v2_lt_int_float_def le_int_float_def
        v2_le_int_float_def lt_float_int_def v2_lt_float_int_def le_float_int_def v2_le_float_int_def f g)
qed

lemma v1_strings: "string_bytes_eq = v2_string_bytes_eq" "string_cmp = v2_string_cmp"
proof -
  have "same_bytes pa pb i n s = bytes_eq pa pb i n s" for pa pb i n s
    by (induction n arbitrary: i) (simp_all cong: if_cong)
  moreover have "first_difference pa pb i n s = bytes_cmp pa pb i n s" for pa pb i n s
    by (induction n arbitrary: i) (simp_all cong: if_cong)
  ultimately show "string_bytes_eq = v2_string_bytes_eq" "string_cmp = v2_string_cmp"
    by (simp_all add: fun_eq_iff string_bytes_eq_def v2_string_bytes_eq_def string_cmp_def v2_string_cmp_def Let_def cong: if_cong)
qed

end
