(* ===== verification/V1_Arithmetic.thy ===== *)
theory V1_Arithmetic
  imports V1_Effects V1_Numeric
begin

text \<open>
  Arithmetic, bitwise and shift opcodes of the first generation (\<open>opcode_arith_stencils.c\<close>) and the power
  (\<open>opcode_pow_stencils.c\<close>): one learner per opcode, one residual per recorded leaf, and one
  self-selecting stencil per opcode.
\<close>

unbundle bit_operations_syntax

subsection \<open>Dispatch on two tags\<close>

text \<open>The chain of tag tests that the macros of this family share.\<close>

definition dispatch :: "u32 \<Rightarrow> u32 \<Rightarrow> 'a \<Rightarrow> 'a \<Rightarrow> 'a \<Rightarrow> 'a \<Rightarrow> 'a \<Rightarrow> 'a" where
  "dispatch lt rt ii mix fi ff other =
     (if lt = LUA55_VALUE_INTEGER \<and> rt = LUA55_VALUE_INTEGER then ii
      else if lt = LUA55_VALUE_INTEGER \<and> rt = LUA55_VALUE_FLOAT then mix
      else if lt = LUA55_VALUE_FLOAT \<and> rt = LUA55_VALUE_INTEGER then fi
      else if lt = LUA55_VALUE_FLOAT \<and> rt = LUA55_VALUE_FLOAT then ff
      else other)"

abbreviation int_val :: "u64 \<Rightarrow> lua_value" where "int_val \<equiv> mk_value LUA55_VALUE_INTEGER"
abbreviation flt_val :: "dbl \<Rightarrow> lua_value" where "flt_val \<equiv> mk_value LUA55_VALUE_FLOAT"

text \<open>The target is written, then the quote, then the next learner runs.\<close>

definition learn_store :: "u64 \<Rightarrow> u64 \<Rightarrow> lua_value \<Rightarrow> u32 \<Rightarrow> u64 \<Rightarrow> v1_state \<Rightarrow> (v1_control \<times> v1_state) option" where
  "learn_store slot target v q f s = do {
     s \<leftarrow> on_mem (wr_val target v) s;
     s \<leftarrow> set_quote slot q s;
     lua55_learn_next f s}"

definition residual_store :: "u64 \<Rightarrow> lua_value \<Rightarrow> u64 \<Rightarrow> v1_state \<Rightarrow> (v1_control \<times> v1_state) option" where
  "residual_store target v f s = do {
     s \<leftarrow> on_mem (wr_val target v) s;
     lua55_residual_next f s}"

text \<open>F2Ieq of an operand: an integer as it is, a float when it is integral.\<close>

definition to_int :: "lua_value \<Rightarrow> u64 option" where
  "to_int v =
     (if tag v = LUA55_VALUE_INTEGER then Some (payload v)
      else if tag v = LUA55_VALUE_FLOAT then flt_to_int_eq (payload v) else None)"

subsection \<open>Learners of two registers\<close>

definition LEARN_BINARY :: "(u64 \<Rightarrow> u64 \<Rightarrow> u64) \<Rightarrow> (dbl \<Rightarrow> dbl \<Rightarrow> dbl) \<Rightarrow> (dbl \<Rightarrow> dbl \<Rightarrow> dbl) \<Rightarrow> (dbl \<Rightarrow> dbl \<Rightarrow> dbl) \<Rightarrow> v1_stencil" where
  "LEARN_BINARY intfn flt_left flt_right flt_both h f s = do {
     target \<leftarrow> reg (q_target h) f s;
     left \<leftarrow> reg (q_left h) f s;
     right \<leftarrow> reg (q_right h) f s;
     (slot, s) \<leftarrow> next_slot f s;
     let base = q_quote_base h;
     l \<leftarrow> rd left s;
     r \<leftarrow> rd right s;
     dispatch (tag l) (tag r)
       (learn_store slot target (int_val (intfn (payload l) (payload r))) (base OR 1) f s)
       (learn_store slot target (flt_val (flt_left (c_double (payload l)) (payload r))) (base OR 2) f s)
       (learn_store slot target (flt_val (flt_right (payload l) (c_double (payload r)))) (base OR 3) f s)
       (learn_store slot target (flt_val (flt_both (payload l) (payload r))) (base OR 4) f s)
       (reject_quote slot h f s)}"

definition lua55_learn_add :: v1_stencil where
  "lua55_learn_add = LEARN_BINARY int_add dbl_add dbl_add dbl_add"

definition lua55_learn_sub :: v1_stencil where
  "lua55_learn_sub = LEARN_BINARY int_sub dbl_sub dbl_sub dbl_sub"

definition lua55_learn_mul :: v1_stencil where
  "lua55_learn_mul = LEARN_BINARY int_mul dbl_mul dbl_mul dbl_mul"

definition lua55_learn_div :: v1_stencil where
  "lua55_learn_div h f s = do {
     target \<leftarrow> reg (q_target h) f s;
     left \<leftarrow> reg (q_left h) f s;
     right \<leftarrow> reg (q_right h) f s;
     (slot, s) \<leftarrow> next_slot f s;
     let base = q_quote_base h;
     l \<leftarrow> rd left s;
     r \<leftarrow> rd right s;
     dispatch (tag l) (tag r)
       (learn_store slot target (flt_val (dbl_div (c_double (payload l)) (c_double (payload r)))) (base OR 1) f s)
       (learn_store slot target (flt_val (dbl_div (c_double (payload l)) (payload r))) (base OR 2) f s)
       (learn_store slot target (flt_val (dbl_div (payload l) (c_double (payload r)))) (base OR 3) f s)
       (learn_store slot target (flt_val (dbl_div (payload l) (payload r))) (base OR 4) f s)
       (reject_quote slot h f s)}"

text \<open>A float quotient of \<open>2 ^ 53\<close> or more is refused.\<close>

definition learn_flt_divmod :: "bool \<Rightarrow> u64 \<Rightarrow> u64 \<Rightarrow> dbl \<Rightarrow> dbl \<Rightarrow> u32 \<Rightarrow> v1_stencil" where
  "learn_flt_divmod zero_check slot target a b q h f s =
     (if flt_divmod_huge a b then reject_quote slot h f s
      else learn_store slot target (flt_val (if zero_check then lua55_fmod a b else lua55_flt_idiv a b)) q f s)"

definition LEARN_DIVMOD :: "(u64 \<Rightarrow> u64 \<Rightarrow> u64) \<Rightarrow> bool \<Rightarrow> v1_stencil" where
  "LEARN_DIVMOD intfn zero_check h f s = do {
     target \<leftarrow> reg (q_target h) f s;
     left \<leftarrow> reg (q_left h) f s;
     right \<leftarrow> reg (q_right h) f s;
     (slot, s) \<leftarrow> next_slot f s;
     let base = q_quote_base h;
     l \<leftarrow> rd left s;
     r \<leftarrow> rd right s;
     dispatch (tag l) (tag r)
       (if payload r = 0 then do {s \<leftarrow> set_quote slot (base OR 1) s; ZERO_EXIT h f s}
        else learn_store slot target (int_val (intfn (payload l) (payload r))) (base OR 1) f s)
       (learn_flt_divmod zero_check slot target (c_double (payload l)) (payload r) (base OR 2) h f s)
       (learn_flt_divmod zero_check slot target (payload l) (c_double (payload r)) (base OR 3) h f s)
       (learn_flt_divmod zero_check slot target (payload l) (payload r) (base OR 4) h f s)
       (reject_quote slot h f s)}"

definition lua55_learn_idiv :: v1_stencil where
  "lua55_learn_idiv = LEARN_DIVMOD lua55_idiv False"

definition lua55_learn_mod :: v1_stencil where
  "lua55_learn_mod = LEARN_DIVMOD lua55_mod True"

text \<open>The leaf of two coerced operands: 1 for two integers, plus 2 for a float on the left, plus 1 on the right.\<close>

definition coerced_leaf :: "lua_value \<Rightarrow> lua_value \<Rightarrow> u32" where
  "coerced_leaf l r = (if tag l = LUA55_VALUE_FLOAT then 2 else 0) + (if tag r = LUA55_VALUE_FLOAT then 1 else 0) + 1"

definition LEARN_BITWISE :: "(u64 \<Rightarrow> u64 \<Rightarrow> u64) \<Rightarrow> v1_stencil" where
  "LEARN_BITWISE intfn h f s = do {
     target \<leftarrow> reg (q_target h) f s;
     left \<leftarrow> reg (q_left h) f s;
     right \<leftarrow> reg (q_right h) f s;
     (slot, s) \<leftarrow> next_slot f s;
     let base = q_quote_base h;
     l \<leftarrow> rd left s;
     case to_int l of None \<Rightarrow> reject_quote slot h f s
     | Some i1 \<Rightarrow> do {
         r \<leftarrow> rd right s;
         case to_int r of None \<Rightarrow> reject_quote slot h f s
         | Some i2 \<Rightarrow> learn_store slot target (int_val (intfn i1 i2)) (base OR coerced_leaf l r) f s}}"

definition lua55_learn_band :: v1_stencil where
  "lua55_learn_band = LEARN_BITWISE int_band"

definition lua55_learn_bor :: v1_stencil where
  "lua55_learn_bor = LEARN_BITWISE int_bor"

definition lua55_learn_bxor :: v1_stencil where
  "lua55_learn_bxor = LEARN_BITWISE int_bxor"

text \<open>
  A right shift negates its count; the negation wraps here at the least integer, where C leaves
  the signed overflow undefined.
\<close>

definition LEARN_SHIFT :: "bool \<Rightarrow> v1_stencil" where
  "LEARN_SHIFT flip h f s = do {
     target \<leftarrow> reg (q_target h) f s;
     left \<leftarrow> reg (q_left h) f s;
     right \<leftarrow> reg (q_right h) f s;
     (slot, s) \<leftarrow> next_slot f s;
     let base = q_quote_base h;
     l \<leftarrow> rd left s;
     case to_int l of None \<Rightarrow> reject_quote slot h f s
     | Some i1 \<Rightarrow> do {
         r \<leftarrow> rd right s;
         case to_int r of None \<Rightarrow> reject_quote slot h f s
         | Some i2 \<Rightarrow> learn_store slot target
             (int_val (if flip then lua55_shiftl i1 (- i2) else lua55_shiftl i1 i2)) (base OR coerced_leaf l r) f s}}"

definition lua55_learn_shl :: v1_stencil where
  "lua55_learn_shl = LEARN_SHIFT False"

definition lua55_learn_shr :: v1_stencil where
  "lua55_learn_shr = LEARN_SHIFT True"

subsection \<open>Residuals of two registers\<close>

definition RESIDUAL_BINARY :: "u32 \<Rightarrow> u32 \<Rightarrow> (u64 \<Rightarrow> u64 \<Rightarrow> u64) \<Rightarrow> (dbl \<Rightarrow> dbl \<Rightarrow> dbl) \<Rightarrow> (dbl \<Rightarrow> dbl \<Rightarrow> dbl) \<Rightarrow> (dbl \<Rightarrow> dbl \<Rightarrow> dbl) \<Rightarrow>
    bool \<Rightarrow> bool \<Rightarrow> v1_stencil" where
  "RESIDUAL_BINARY lt rt intfn flt_left flt_right flt_both zero always_float h f s = do {
     target \<leftarrow> reg (q_target h) f s;
     left \<leftarrow> reg (q_left h) f s;
     right \<leftarrow> reg (q_right h) f s;
     l \<leftarrow> rd left s;
     r \<leftarrow> rd right s;
     if tag l \<noteq> lt \<or> tag r \<noteq> rt then GUARD_FAILED h f s
     else if zero \<and> rt = LUA55_VALUE_INTEGER \<and> payload r = 0 then ZERO_EXIT h f s
     else if \<not> always_float \<and> lt = LUA55_VALUE_INTEGER \<and> rt = LUA55_VALUE_INTEGER
     then residual_store target (int_val (intfn (payload l) (payload r))) f s
     else residual_store target (flt_val
       (if lt = LUA55_VALUE_INTEGER \<and> rt = LUA55_VALUE_INTEGER then flt_left (c_double (payload l)) (c_double (payload r))
        else if lt = LUA55_VALUE_INTEGER then flt_left (c_double (payload l)) (payload r)
        else if rt = LUA55_VALUE_INTEGER then flt_right (payload l) (c_double (payload r))
        else flt_both (payload l) (payload r))) f s}"

definition lua55_residual_add_ii :: v1_stencil where
  "lua55_residual_add_ii = RESIDUAL_BINARY LUA55_VALUE_INTEGER LUA55_VALUE_INTEGER int_add dbl_add dbl_add dbl_add False False"

definition lua55_residual_add_if :: v1_stencil where
  "lua55_residual_add_if = RESIDUAL_BINARY LUA55_VALUE_INTEGER LUA55_VALUE_FLOAT int_add dbl_add dbl_add dbl_add False False"

definition lua55_residual_add_fi :: v1_stencil where
  "lua55_residual_add_fi = RESIDUAL_BINARY LUA55_VALUE_FLOAT LUA55_VALUE_INTEGER int_add dbl_add dbl_add dbl_add False False"

definition lua55_residual_add_ff :: v1_stencil where
  "lua55_residual_add_ff = RESIDUAL_BINARY LUA55_VALUE_FLOAT LUA55_VALUE_FLOAT int_add dbl_add dbl_add dbl_add False False"

definition lua55_residual_sub_ii :: v1_stencil where
  "lua55_residual_sub_ii = RESIDUAL_BINARY LUA55_VALUE_INTEGER LUA55_VALUE_INTEGER int_sub dbl_sub dbl_sub dbl_sub False False"

definition lua55_residual_sub_if :: v1_stencil where
  "lua55_residual_sub_if = RESIDUAL_BINARY LUA55_VALUE_INTEGER LUA55_VALUE_FLOAT int_sub dbl_sub dbl_sub dbl_sub False False"

definition lua55_residual_sub_fi :: v1_stencil where
  "lua55_residual_sub_fi = RESIDUAL_BINARY LUA55_VALUE_FLOAT LUA55_VALUE_INTEGER int_sub dbl_sub dbl_sub dbl_sub False False"

definition lua55_residual_sub_ff :: v1_stencil where
  "lua55_residual_sub_ff = RESIDUAL_BINARY LUA55_VALUE_FLOAT LUA55_VALUE_FLOAT int_sub dbl_sub dbl_sub dbl_sub False False"

definition lua55_residual_mul_ii :: v1_stencil where
  "lua55_residual_mul_ii = RESIDUAL_BINARY LUA55_VALUE_INTEGER LUA55_VALUE_INTEGER int_mul dbl_mul dbl_mul dbl_mul False False"

definition lua55_residual_mul_if :: v1_stencil where
  "lua55_residual_mul_if = RESIDUAL_BINARY LUA55_VALUE_INTEGER LUA55_VALUE_FLOAT int_mul dbl_mul dbl_mul dbl_mul False False"

definition lua55_residual_mul_fi :: v1_stencil where
  "lua55_residual_mul_fi = RESIDUAL_BINARY LUA55_VALUE_FLOAT LUA55_VALUE_INTEGER int_mul dbl_mul dbl_mul dbl_mul False False"

definition lua55_residual_mul_ff :: v1_stencil where
  "lua55_residual_mul_ff = RESIDUAL_BINARY LUA55_VALUE_FLOAT LUA55_VALUE_FLOAT int_mul dbl_mul dbl_mul dbl_mul False False"

definition lua55_residual_div_ii :: v1_stencil where
  "lua55_residual_div_ii = RESIDUAL_BINARY LUA55_VALUE_INTEGER LUA55_VALUE_INTEGER int_add dbl_div dbl_div dbl_div False True"

definition lua55_residual_div_if :: v1_stencil where
  "lua55_residual_div_if = RESIDUAL_BINARY LUA55_VALUE_INTEGER LUA55_VALUE_FLOAT int_add dbl_div dbl_div dbl_div False True"

definition lua55_residual_div_fi :: v1_stencil where
  "lua55_residual_div_fi = RESIDUAL_BINARY LUA55_VALUE_FLOAT LUA55_VALUE_INTEGER int_add dbl_div dbl_div dbl_div False True"

definition lua55_residual_div_ff :: v1_stencil where
  "lua55_residual_div_ff = RESIDUAL_BINARY LUA55_VALUE_FLOAT LUA55_VALUE_FLOAT int_add dbl_div dbl_div dbl_div False True"

definition lua55_residual_idiv_ii :: v1_stencil where
  "lua55_residual_idiv_ii = RESIDUAL_BINARY LUA55_VALUE_INTEGER LUA55_VALUE_INTEGER lua55_idiv lua55_flt_idiv lua55_flt_idiv lua55_flt_idiv True False"

definition lua55_residual_idiv_if :: v1_stencil where
  "lua55_residual_idiv_if = RESIDUAL_BINARY LUA55_VALUE_INTEGER LUA55_VALUE_FLOAT lua55_idiv lua55_flt_idiv lua55_flt_idiv lua55_flt_idiv False False"

definition lua55_residual_idiv_fi :: v1_stencil where
  "lua55_residual_idiv_fi = RESIDUAL_BINARY LUA55_VALUE_FLOAT LUA55_VALUE_INTEGER lua55_idiv lua55_flt_idiv lua55_flt_idiv lua55_flt_idiv False False"

definition lua55_residual_idiv_ff :: v1_stencil where
  "lua55_residual_idiv_ff = RESIDUAL_BINARY LUA55_VALUE_FLOAT LUA55_VALUE_FLOAT lua55_idiv lua55_flt_idiv lua55_flt_idiv lua55_flt_idiv False False"

definition lua55_residual_mod_ii :: v1_stencil where
  "lua55_residual_mod_ii = RESIDUAL_BINARY LUA55_VALUE_INTEGER LUA55_VALUE_INTEGER lua55_mod lua55_fmod lua55_fmod lua55_fmod True False"

definition lua55_residual_mod_if :: v1_stencil where
  "lua55_residual_mod_if = RESIDUAL_BINARY LUA55_VALUE_INTEGER LUA55_VALUE_FLOAT lua55_mod lua55_fmod lua55_fmod lua55_fmod False False"

definition lua55_residual_mod_fi :: v1_stencil where
  "lua55_residual_mod_fi = RESIDUAL_BINARY LUA55_VALUE_FLOAT LUA55_VALUE_INTEGER lua55_mod lua55_fmod lua55_fmod lua55_fmod False False"

definition lua55_residual_mod_ff :: v1_stencil where
  "lua55_residual_mod_ff = RESIDUAL_BINARY LUA55_VALUE_FLOAT LUA55_VALUE_FLOAT lua55_mod lua55_fmod lua55_fmod lua55_fmod False False"

text \<open>The coerced operand of a residual that has guarded its tag.\<close>

definition guarded_int :: "u32 \<Rightarrow> lua_value \<Rightarrow> u64 option" where
  "guarded_int t v =
     (if t = LUA55_VALUE_FLOAT then flt_to_int_eq (payload v)
      else Some (if t = LUA55_VALUE_INTEGER then payload v else 0))"

definition RESIDUAL_BITWISE :: "u32 \<Rightarrow> u32 \<Rightarrow> (u64 \<Rightarrow> u64 \<Rightarrow> u64) \<Rightarrow> v1_stencil" where
  "RESIDUAL_BITWISE lt rt intfn h f s = do {
     target \<leftarrow> reg (q_target h) f s;
     left \<leftarrow> reg (q_left h) f s;
     right \<leftarrow> reg (q_right h) f s;
     l \<leftarrow> rd left s;
     r \<leftarrow> rd right s;
     if tag l \<noteq> lt \<or> tag r \<noteq> rt then GUARD_FAILED h f s
     else case guarded_int lt l of None \<Rightarrow> GUARD_FAILED h f s
     | Some i1 \<Rightarrow> (case guarded_int rt r of None \<Rightarrow> GUARD_FAILED h f s
         | Some i2 \<Rightarrow> residual_store target (int_val (intfn i1 i2)) f s)}"

definition lua55_residual_band_ii :: v1_stencil where
  "lua55_residual_band_ii = RESIDUAL_BITWISE LUA55_VALUE_INTEGER LUA55_VALUE_INTEGER int_band"

definition lua55_residual_band_if :: v1_stencil where
  "lua55_residual_band_if = RESIDUAL_BITWISE LUA55_VALUE_INTEGER LUA55_VALUE_FLOAT int_band"

definition lua55_residual_band_fi :: v1_stencil where
  "lua55_residual_band_fi = RESIDUAL_BITWISE LUA55_VALUE_FLOAT LUA55_VALUE_INTEGER int_band"

definition lua55_residual_band_ff :: v1_stencil where
  "lua55_residual_band_ff = RESIDUAL_BITWISE LUA55_VALUE_FLOAT LUA55_VALUE_FLOAT int_band"

definition lua55_residual_bor_ii :: v1_stencil where
  "lua55_residual_bor_ii = RESIDUAL_BITWISE LUA55_VALUE_INTEGER LUA55_VALUE_INTEGER int_bor"

definition lua55_residual_bor_if :: v1_stencil where
  "lua55_residual_bor_if = RESIDUAL_BITWISE LUA55_VALUE_INTEGER LUA55_VALUE_FLOAT int_bor"

definition lua55_residual_bor_fi :: v1_stencil where
  "lua55_residual_bor_fi = RESIDUAL_BITWISE LUA55_VALUE_FLOAT LUA55_VALUE_INTEGER int_bor"

definition lua55_residual_bor_ff :: v1_stencil where
  "lua55_residual_bor_ff = RESIDUAL_BITWISE LUA55_VALUE_FLOAT LUA55_VALUE_FLOAT int_bor"

definition lua55_residual_bxor_ii :: v1_stencil where
  "lua55_residual_bxor_ii = RESIDUAL_BITWISE LUA55_VALUE_INTEGER LUA55_VALUE_INTEGER int_bxor"

definition lua55_residual_bxor_if :: v1_stencil where
  "lua55_residual_bxor_if = RESIDUAL_BITWISE LUA55_VALUE_INTEGER LUA55_VALUE_FLOAT int_bxor"

definition lua55_residual_bxor_fi :: v1_stencil where
  "lua55_residual_bxor_fi = RESIDUAL_BITWISE LUA55_VALUE_FLOAT LUA55_VALUE_INTEGER int_bxor"

definition lua55_residual_bxor_ff :: v1_stencil where
  "lua55_residual_bxor_ff = RESIDUAL_BITWISE LUA55_VALUE_FLOAT LUA55_VALUE_FLOAT int_bxor"

definition RESIDUAL_SHIFT :: "u32 \<Rightarrow> u32 \<Rightarrow> bool \<Rightarrow> v1_stencil" where
  "RESIDUAL_SHIFT lt rt flip h f s = do {
     target \<leftarrow> reg (q_target h) f s;
     left \<leftarrow> reg (q_left h) f s;
     right \<leftarrow> reg (q_right h) f s;
     l \<leftarrow> rd left s;
     r \<leftarrow> rd right s;
     if tag l \<noteq> lt \<or> tag r \<noteq> rt then GUARD_FAILED h f s
     else case guarded_int lt l of None \<Rightarrow> GUARD_FAILED h f s
     | Some i1 \<Rightarrow> (case guarded_int rt r of None \<Rightarrow> GUARD_FAILED h f s
         | Some i2 \<Rightarrow> residual_store target (int_val (if flip then lua55_shiftl i1 (- i2) else lua55_shiftl i1 i2)) f s)}"

definition lua55_residual_shl_ii :: v1_stencil where
  "lua55_residual_shl_ii = RESIDUAL_SHIFT LUA55_VALUE_INTEGER LUA55_VALUE_INTEGER False"

definition lua55_residual_shl_if :: v1_stencil where
  "lua55_residual_shl_if = RESIDUAL_SHIFT LUA55_VALUE_INTEGER LUA55_VALUE_FLOAT False"

definition lua55_residual_shl_fi :: v1_stencil where
  "lua55_residual_shl_fi = RESIDUAL_SHIFT LUA55_VALUE_FLOAT LUA55_VALUE_INTEGER False"

definition lua55_residual_shl_ff :: v1_stencil where
  "lua55_residual_shl_ff = RESIDUAL_SHIFT LUA55_VALUE_FLOAT LUA55_VALUE_FLOAT False"

definition lua55_residual_shr_ii :: v1_stencil where
  "lua55_residual_shr_ii = RESIDUAL_SHIFT LUA55_VALUE_INTEGER LUA55_VALUE_INTEGER True"

definition lua55_residual_shr_if :: v1_stencil where
  "lua55_residual_shr_if = RESIDUAL_SHIFT LUA55_VALUE_INTEGER LUA55_VALUE_FLOAT True"

definition lua55_residual_shr_fi :: v1_stencil where
  "lua55_residual_shr_fi = RESIDUAL_SHIFT LUA55_VALUE_FLOAT LUA55_VALUE_INTEGER True"

definition lua55_residual_shr_ff :: v1_stencil where
  "lua55_residual_shr_ff = RESIDUAL_SHIFT LUA55_VALUE_FLOAT LUA55_VALUE_FLOAT True"

subsection \<open>A register and an immediate\<close>

definition LEARN_REG_IMM_ARITH :: "(u64 \<Rightarrow> u64 \<Rightarrow> u64) \<Rightarrow> (dbl \<Rightarrow> dbl \<Rightarrow> dbl) \<Rightarrow> v1_stencil" where
  "LEARN_REG_IMM_ARITH intfn fltfn h f s = do {
     target \<leftarrow> reg (q_target h) f s;
     left \<leftarrow> reg (q_left h) f s;
     (slot, s) \<leftarrow> next_slot f s;
     let base = q_quote_base h;
     let im = q_int_imm h;
     l \<leftarrow> rd left s;
     if tag l = LUA55_VALUE_INTEGER then learn_store slot target (int_val (intfn (payload l) im)) (base OR 1) f s
     else if tag l = LUA55_VALUE_FLOAT then learn_store slot target (flt_val (fltfn (payload l) (c_double im))) (base OR 2) f s
     else reject_quote slot h f s}"

definition lua55_learn_addi :: v1_stencil where
  "lua55_learn_addi = LEARN_REG_IMM_ARITH int_add dbl_add"

definition lua55_learn_shli :: v1_stencil where
  "lua55_learn_shli h f s = do {
     target \<leftarrow> reg (q_target h) f s;
     left \<leftarrow> reg (q_left h) f s;
     (slot, s) \<leftarrow> next_slot f s;
     let base = q_quote_base h;
     let im = q_int_imm h;
     l \<leftarrow> rd left s;
     case to_int l of None \<Rightarrow> reject_quote slot h f s
     | Some count \<Rightarrow> learn_store slot target (int_val (lua55_shiftl im count))
         (base OR (if tag l = LUA55_VALUE_INTEGER then 1 else 2)) f s}"

definition lua55_learn_shri :: v1_stencil where
  "lua55_learn_shri h f s = do {
     target \<leftarrow> reg (q_target h) f s;
     left \<leftarrow> reg (q_left h) f s;
     (slot, s) \<leftarrow> next_slot f s;
     let base = q_quote_base h;
     let im = q_int_imm h;
     l \<leftarrow> rd left s;
     case to_int l of None \<Rightarrow> reject_quote slot h f s
     | Some value \<Rightarrow> learn_store slot target (int_val (lua55_shiftl value (- im)))
         (base OR (if tag l = LUA55_VALUE_INTEGER then 1 else 2)) f s}"

definition RESIDUAL_REG_IMM_ARITH :: "u32 \<Rightarrow> (u64 \<Rightarrow> u64 \<Rightarrow> u64) \<Rightarrow> (dbl \<Rightarrow> dbl \<Rightarrow> dbl) \<Rightarrow> v1_stencil" where
  "RESIDUAL_REG_IMM_ARITH lt intfn fltfn h f s = do {
     target \<leftarrow> reg (q_target h) f s;
     left \<leftarrow> reg (q_left h) f s;
     l \<leftarrow> rd left s;
     if tag l \<noteq> lt then GUARD_FAILED h f s
     else let im = q_int_imm h in
       if lt = LUA55_VALUE_INTEGER then residual_store target (int_val (intfn (payload l) im)) f s
       else residual_store target (flt_val (fltfn (payload l) (c_double im))) f s}"

definition lua55_residual_addi_int :: v1_stencil where
  "lua55_residual_addi_int = RESIDUAL_REG_IMM_ARITH LUA55_VALUE_INTEGER int_add dbl_add"

definition lua55_residual_addi_flt :: v1_stencil where
  "lua55_residual_addi_flt = RESIDUAL_REG_IMM_ARITH LUA55_VALUE_FLOAT int_add dbl_add"

definition RESIDUAL_REG_IMM_SHIFT :: "u32 \<Rightarrow> (u64 \<Rightarrow> u64 \<Rightarrow> u64) \<Rightarrow> v1_stencil" where
  "RESIDUAL_REG_IMM_SHIFT lt shift_expr h f s = do {
     target \<leftarrow> reg (q_target h) f s;
     left \<leftarrow> reg (q_left h) f s;
     l \<leftarrow> rd left s;
     if tag l \<noteq> lt then GUARD_FAILED h f s
     else let im = q_int_imm h in
       case guarded_int lt l of None \<Rightarrow> GUARD_FAILED h f s
       | Some v \<Rightarrow> residual_store target (int_val (shift_expr im v)) f s}"

definition lua55_residual_shli_int :: v1_stencil where
  "lua55_residual_shli_int = RESIDUAL_REG_IMM_SHIFT LUA55_VALUE_INTEGER (\<lambda>im v. lua55_shiftl im v)"

definition lua55_residual_shli_flt :: v1_stencil where
  "lua55_residual_shli_flt = RESIDUAL_REG_IMM_SHIFT LUA55_VALUE_FLOAT (\<lambda>im v. lua55_shiftl im v)"

definition lua55_residual_shri_int :: v1_stencil where
  "lua55_residual_shri_int = RESIDUAL_REG_IMM_SHIFT LUA55_VALUE_INTEGER (\<lambda>im v. lua55_shiftl v (- im))"

definition lua55_residual_shri_flt :: v1_stencil where
  "lua55_residual_shri_flt = RESIDUAL_REG_IMM_SHIFT LUA55_VALUE_FLOAT (\<lambda>im v. lua55_shiftl v (- im))"

subsection \<open>A register and a constant\<close>

definition LEARN_CONST_ARITH :: "(u64 \<Rightarrow> u64 \<Rightarrow> u64) \<Rightarrow> (dbl \<Rightarrow> dbl \<Rightarrow> dbl) \<Rightarrow> v1_stencil" where
  "LEARN_CONST_ARITH intfn fltfn h f s = do {
     target \<leftarrow> reg (q_target h) f s;
     left \<leftarrow> reg (q_left h) f s;
     (slot, s) \<leftarrow> next_slot f s;
     let base = q_quote_base h;
     let cint = q_const_int h;
     let cflt = q_const_flt h;
     l \<leftarrow> rd left s;
     dispatch (tag l) (q_const_tag h)
       (learn_store slot target (int_val (intfn (payload l) cint)) (base OR 1) f s)
       (learn_store slot target (flt_val (fltfn (c_double (payload l)) cflt)) (base OR 2) f s)
       (learn_store slot target (flt_val (fltfn (payload l) (c_double cint))) (base OR 3) f s)
       (learn_store slot target (flt_val (fltfn (payload l) cflt)) (base OR 4) f s)
       (reject_quote slot h f s)}"

definition lua55_learn_addk :: v1_stencil where
  "lua55_learn_addk = LEARN_CONST_ARITH int_add dbl_add"

definition lua55_learn_subk :: v1_stencil where
  "lua55_learn_subk = LEARN_CONST_ARITH int_sub dbl_sub"

definition lua55_learn_mulk :: v1_stencil where
  "lua55_learn_mulk = LEARN_CONST_ARITH int_mul dbl_mul"

definition lua55_learn_divk :: v1_stencil where
  "lua55_learn_divk = LEARN_CONST_ARITH int_add dbl_div"

text \<open>With an integer constant 0 the slot keeps the quote it had.\<close>

definition LEARN_CONST_DIVMOD :: "(u64 \<Rightarrow> u64 \<Rightarrow> u64) \<Rightarrow> bool \<Rightarrow> v1_stencil" where
  "LEARN_CONST_DIVMOD intfn zero_check h f s = do {
     target \<leftarrow> reg (q_target h) f s;
     left \<leftarrow> reg (q_left h) f s;
     (slot, s) \<leftarrow> next_slot f s;
     let base = q_quote_base h;
     let cint = q_const_int h;
     let cflt = q_const_flt h;
     l \<leftarrow> rd left s;
     dispatch (tag l) (q_const_tag h)
       (if cint = 0 then ZERO_EXIT h f s
        else learn_store slot target (int_val (intfn (payload l) cint)) (base OR 1) f s)
       (learn_flt_divmod zero_check slot target (c_double (payload l)) cflt (base OR 2) h f s)
       (learn_flt_divmod zero_check slot target (payload l) (c_double cint) (base OR 3) h f s)
       (learn_flt_divmod zero_check slot target (payload l) cflt (base OR 4) h f s)
       (reject_quote slot h f s)}"

definition lua55_learn_idivk :: v1_stencil where
  "lua55_learn_idivk = LEARN_CONST_DIVMOD lua55_idiv False"

definition lua55_learn_modk :: v1_stencil where
  "lua55_learn_modk = LEARN_CONST_DIVMOD lua55_mod True"

text \<open>
  The quote is chosen from the tag of the left register after the target has been written: in
  place, that tag is the integer just stored.
\<close>

definition LEARN_CONST_BITWISE :: "(u64 \<Rightarrow> u64 \<Rightarrow> u64) \<Rightarrow> v1_stencil" where
  "LEARN_CONST_BITWISE intfn h f s = do {
     target \<leftarrow> reg (q_target h) f s;
     left \<leftarrow> reg (q_left h) f s;
     (slot, s) \<leftarrow> next_slot f s;
     let base = q_quote_base h;
     let cint = q_const_int h;
     l \<leftarrow> rd left s;
     case to_int l of None \<Rightarrow> reject_quote slot h f s
     | Some i1 \<Rightarrow> do {
         s \<leftarrow> on_mem (wr_val target (int_val (intfn i1 cint))) s;
         l \<leftarrow> rd left s;
         s \<leftarrow> set_quote slot (base OR (if tag l = LUA55_VALUE_FLOAT then 2 else 1)) s;
         lua55_learn_next f s}}"

definition lua55_learn_bandk :: v1_stencil where
  "lua55_learn_bandk = LEARN_CONST_BITWISE int_band"

definition lua55_learn_bork :: v1_stencil where
  "lua55_learn_bork = LEARN_CONST_BITWISE int_bor"

definition lua55_learn_bxork :: v1_stencil where
  "lua55_learn_bxork = LEARN_CONST_BITWISE int_bxor"

definition RESIDUAL_CONST_ARITH :: "u32 \<Rightarrow> u32 \<Rightarrow> (u64 \<Rightarrow> u64 \<Rightarrow> u64) \<Rightarrow> (dbl \<Rightarrow> dbl \<Rightarrow> dbl) \<Rightarrow> bool \<Rightarrow> v1_stencil" where
  "RESIDUAL_CONST_ARITH lt ctag_expect intfn fltfn zero h f s = do {
     target \<leftarrow> reg (q_target h) f s;
     left \<leftarrow> reg (q_left h) f s;
     l \<leftarrow> rd left s;
     if tag l \<noteq> lt then GUARD_FAILED h f s
     else let cint = q_const_int h; cflt = q_const_flt h in
       if zero \<and> ctag_expect = LUA55_VALUE_INTEGER \<and> cint = 0 then ZERO_EXIT h f s
       else if lt = LUA55_VALUE_INTEGER \<and> ctag_expect = LUA55_VALUE_INTEGER
       then residual_store target (int_val (intfn (payload l) cint)) f s
       else residual_store target (flt_val
         (if lt = LUA55_VALUE_INTEGER then fltfn (c_double (payload l)) cflt
          else if ctag_expect = LUA55_VALUE_INTEGER then fltfn (payload l) (c_double cint)
          else fltfn (payload l) cflt)) f s}"

definition lua55_residual_addk_ii :: v1_stencil where
  "lua55_residual_addk_ii = RESIDUAL_CONST_ARITH LUA55_VALUE_INTEGER LUA55_VALUE_INTEGER int_add dbl_add False"

definition lua55_residual_addk_if :: v1_stencil where
  "lua55_residual_addk_if = RESIDUAL_CONST_ARITH LUA55_VALUE_INTEGER LUA55_VALUE_FLOAT int_add dbl_add False"

definition lua55_residual_addk_fi :: v1_stencil where
  "lua55_residual_addk_fi = RESIDUAL_CONST_ARITH LUA55_VALUE_FLOAT LUA55_VALUE_INTEGER int_add dbl_add False"

definition lua55_residual_addk_ff :: v1_stencil where
  "lua55_residual_addk_ff = RESIDUAL_CONST_ARITH LUA55_VALUE_FLOAT LUA55_VALUE_FLOAT int_add dbl_add False"

definition lua55_residual_subk_ii :: v1_stencil where
  "lua55_residual_subk_ii = RESIDUAL_CONST_ARITH LUA55_VALUE_INTEGER LUA55_VALUE_INTEGER int_sub dbl_sub False"

definition lua55_residual_subk_if :: v1_stencil where
  "lua55_residual_subk_if = RESIDUAL_CONST_ARITH LUA55_VALUE_INTEGER LUA55_VALUE_FLOAT int_sub dbl_sub False"

definition lua55_residual_subk_fi :: v1_stencil where
  "lua55_residual_subk_fi = RESIDUAL_CONST_ARITH LUA55_VALUE_FLOAT LUA55_VALUE_INTEGER int_sub dbl_sub False"

definition lua55_residual_subk_ff :: v1_stencil where
  "lua55_residual_subk_ff = RESIDUAL_CONST_ARITH LUA55_VALUE_FLOAT LUA55_VALUE_FLOAT int_sub dbl_sub False"

definition lua55_residual_mulk_ii :: v1_stencil where
  "lua55_residual_mulk_ii = RESIDUAL_CONST_ARITH LUA55_VALUE_INTEGER LUA55_VALUE_INTEGER int_mul dbl_mul False"

definition lua55_residual_mulk_if :: v1_stencil where
  "lua55_residual_mulk_if = RESIDUAL_CONST_ARITH LUA55_VALUE_INTEGER LUA55_VALUE_FLOAT int_mul dbl_mul False"

definition lua55_residual_mulk_fi :: v1_stencil where
  "lua55_residual_mulk_fi = RESIDUAL_CONST_ARITH LUA55_VALUE_FLOAT LUA55_VALUE_INTEGER int_mul dbl_mul False"

definition lua55_residual_mulk_ff :: v1_stencil where
  "lua55_residual_mulk_ff = RESIDUAL_CONST_ARITH LUA55_VALUE_FLOAT LUA55_VALUE_FLOAT int_mul dbl_mul False"

definition lua55_residual_divk_ii :: v1_stencil where
  "lua55_residual_divk_ii = RESIDUAL_CONST_ARITH LUA55_VALUE_INTEGER LUA55_VALUE_INTEGER int_add dbl_div False"

definition lua55_residual_divk_if :: v1_stencil where
  "lua55_residual_divk_if = RESIDUAL_CONST_ARITH LUA55_VALUE_INTEGER LUA55_VALUE_FLOAT int_add dbl_div False"

definition lua55_residual_divk_fi :: v1_stencil where
  "lua55_residual_divk_fi = RESIDUAL_CONST_ARITH LUA55_VALUE_FLOAT LUA55_VALUE_INTEGER int_add dbl_div False"

definition lua55_residual_divk_ff :: v1_stencil where
  "lua55_residual_divk_ff = RESIDUAL_CONST_ARITH LUA55_VALUE_FLOAT LUA55_VALUE_FLOAT int_add dbl_div False"

definition lua55_residual_idivk_ii :: v1_stencil where
  "lua55_residual_idivk_ii = RESIDUAL_CONST_ARITH LUA55_VALUE_INTEGER LUA55_VALUE_INTEGER lua55_idiv lua55_flt_idiv True"

definition lua55_residual_idivk_if :: v1_stencil where
  "lua55_residual_idivk_if = RESIDUAL_CONST_ARITH LUA55_VALUE_INTEGER LUA55_VALUE_FLOAT lua55_idiv lua55_flt_idiv False"

definition lua55_residual_idivk_fi :: v1_stencil where
  "lua55_residual_idivk_fi = RESIDUAL_CONST_ARITH LUA55_VALUE_FLOAT LUA55_VALUE_INTEGER lua55_idiv lua55_flt_idiv False"

definition lua55_residual_idivk_ff :: v1_stencil where
  "lua55_residual_idivk_ff = RESIDUAL_CONST_ARITH LUA55_VALUE_FLOAT LUA55_VALUE_FLOAT lua55_idiv lua55_flt_idiv False"

definition lua55_residual_modk_ii :: v1_stencil where
  "lua55_residual_modk_ii = RESIDUAL_CONST_ARITH LUA55_VALUE_INTEGER LUA55_VALUE_INTEGER lua55_mod lua55_fmod True"

definition lua55_residual_modk_if :: v1_stencil where
  "lua55_residual_modk_if = RESIDUAL_CONST_ARITH LUA55_VALUE_INTEGER LUA55_VALUE_FLOAT lua55_mod lua55_fmod False"

definition lua55_residual_modk_fi :: v1_stencil where
  "lua55_residual_modk_fi = RESIDUAL_CONST_ARITH LUA55_VALUE_FLOAT LUA55_VALUE_INTEGER lua55_mod lua55_fmod False"

definition lua55_residual_modk_ff :: v1_stencil where
  "lua55_residual_modk_ff = RESIDUAL_CONST_ARITH LUA55_VALUE_FLOAT LUA55_VALUE_FLOAT lua55_mod lua55_fmod False"

definition RESIDUAL_CONST_BITWISE :: "u32 \<Rightarrow> (u64 \<Rightarrow> u64 \<Rightarrow> u64) \<Rightarrow> v1_stencil" where
  "RESIDUAL_CONST_BITWISE lt intfn h f s = do {
     target \<leftarrow> reg (q_target h) f s;
     left \<leftarrow> reg (q_left h) f s;
     l \<leftarrow> rd left s;
     if tag l \<noteq> lt then GUARD_FAILED h f s
     else let cint = q_const_int h in
       case guarded_int lt l of None \<Rightarrow> GUARD_FAILED h f s
       | Some i1 \<Rightarrow> residual_store target (int_val (intfn i1 cint)) f s}"

definition lua55_residual_bandk_i :: v1_stencil where
  "lua55_residual_bandk_i = RESIDUAL_CONST_BITWISE LUA55_VALUE_INTEGER int_band"

definition lua55_residual_bandk_f :: v1_stencil where
  "lua55_residual_bandk_f = RESIDUAL_CONST_BITWISE LUA55_VALUE_FLOAT int_band"

definition lua55_residual_bork_i :: v1_stencil where
  "lua55_residual_bork_i = RESIDUAL_CONST_BITWISE LUA55_VALUE_INTEGER int_bor"

definition lua55_residual_bork_f :: v1_stencil where
  "lua55_residual_bork_f = RESIDUAL_CONST_BITWISE LUA55_VALUE_FLOAT int_bor"

definition lua55_residual_bxork_i :: v1_stencil where
  "lua55_residual_bxork_i = RESIDUAL_CONST_BITWISE LUA55_VALUE_INTEGER int_bxor"

definition lua55_residual_bxork_f :: v1_stencil where
  "lua55_residual_bxork_f = RESIDUAL_CONST_BITWISE LUA55_VALUE_FLOAT int_bxor"

subsection \<open>Power\<close>

text \<open>\<open>POW\<close> has the shape of \<open>DIV\<close>, with the patched routine of the holes.\<close>

definition lua55_learn_pow :: v1_stencil where
  "lua55_learn_pow h f s = do {
     target \<leftarrow> reg (q_target h) f s;
     left \<leftarrow> reg (q_left h) f s;
     right \<leftarrow> reg (q_right h) f s;
     (slot, s) \<leftarrow> next_slot f s;
     let base = q_quote_base h;
     let pow = lua55_pow (q_pow h);
     l \<leftarrow> rd left s;
     r \<leftarrow> rd right s;
     dispatch (tag l) (tag r)
       (learn_store slot target (flt_val (pow (c_double (payload l)) (c_double (payload r)))) (base OR 1) f s)
       (learn_store slot target (flt_val (pow (c_double (payload l)) (payload r))) (base OR 2) f s)
       (learn_store slot target (flt_val (pow (payload l) (c_double (payload r)))) (base OR 3) f s)
       (learn_store slot target (flt_val (pow (payload l) (payload r))) (base OR 4) f s)
       (reject_quote slot h f s)}"

definition lua55_learn_powk :: v1_stencil where
  "lua55_learn_powk h f s = do {
     target \<leftarrow> reg (q_target h) f s;
     left \<leftarrow> reg (q_left h) f s;
     (slot, s) \<leftarrow> next_slot f s;
     let base = q_quote_base h;
     let pow = lua55_pow (q_pow h);
     let cint = q_const_int h;
     let cflt = q_const_flt h;
     l \<leftarrow> rd left s;
     dispatch (tag l) (q_const_tag h)
       (learn_store slot target (flt_val (pow (c_double (payload l)) (c_double cint))) (base OR 1) f s)
       (learn_store slot target (flt_val (pow (c_double (payload l)) cflt)) (base OR 2) f s)
       (learn_store slot target (flt_val (pow (payload l) (c_double cint))) (base OR 3) f s)
       (learn_store slot target (flt_val (pow (payload l) cflt)) (base OR 4) f s)
       (reject_quote slot h f s)}"

definition RESIDUAL_POW :: "u32 \<Rightarrow> u32 \<Rightarrow> v1_stencil" where
  "RESIDUAL_POW lt rt h f s = do {
     target \<leftarrow> reg (q_target h) f s;
     left \<leftarrow> reg (q_left h) f s;
     right \<leftarrow> reg (q_right h) f s;
     l \<leftarrow> rd left s;
     r \<leftarrow> rd right s;
     if tag l \<noteq> lt \<or> tag r \<noteq> rt then GUARD_FAILED h f s
     else let pow = lua55_pow (q_pow h) in
       residual_store target (flt_val
         (if lt = LUA55_VALUE_INTEGER \<and> rt = LUA55_VALUE_INTEGER then pow (c_double (payload l)) (c_double (payload r))
          else if lt = LUA55_VALUE_INTEGER then pow (c_double (payload l)) (payload r)
          else if rt = LUA55_VALUE_INTEGER then pow (payload l) (c_double (payload r))
          else pow (payload l) (payload r))) f s}"

definition RESIDUAL_POWK :: "u32 \<Rightarrow> u32 \<Rightarrow> v1_stencil" where
  "RESIDUAL_POWK lt ctag_expect h f s = do {
     target \<leftarrow> reg (q_target h) f s;
     left \<leftarrow> reg (q_left h) f s;
     l \<leftarrow> rd left s;
     if tag l \<noteq> lt then GUARD_FAILED h f s
     else let pow = lua55_pow (q_pow h); cint = q_const_int h; cflt = q_const_flt h in
       residual_store target (flt_val
         (if lt = LUA55_VALUE_INTEGER \<and> ctag_expect = LUA55_VALUE_INTEGER then pow (c_double (payload l)) (c_double cint)
          else if lt = LUA55_VALUE_INTEGER then pow (c_double (payload l)) cflt
          else if ctag_expect = LUA55_VALUE_INTEGER then pow (payload l) (c_double cint)
          else pow (payload l) cflt)) f s}"

definition lua55_residual_pow_ii :: v1_stencil where
  "lua55_residual_pow_ii = RESIDUAL_POW LUA55_VALUE_INTEGER LUA55_VALUE_INTEGER"

definition lua55_residual_pow_if :: v1_stencil where
  "lua55_residual_pow_if = RESIDUAL_POW LUA55_VALUE_INTEGER LUA55_VALUE_FLOAT"

definition lua55_residual_pow_fi :: v1_stencil where
  "lua55_residual_pow_fi = RESIDUAL_POW LUA55_VALUE_FLOAT LUA55_VALUE_INTEGER"

definition lua55_residual_pow_ff :: v1_stencil where
  "lua55_residual_pow_ff = RESIDUAL_POW LUA55_VALUE_FLOAT LUA55_VALUE_FLOAT"

definition lua55_residual_powk_ii :: v1_stencil where
  "lua55_residual_powk_ii = RESIDUAL_POWK LUA55_VALUE_INTEGER LUA55_VALUE_INTEGER"

definition lua55_residual_powk_if :: v1_stencil where
  "lua55_residual_powk_if = RESIDUAL_POWK LUA55_VALUE_INTEGER LUA55_VALUE_FLOAT"

definition lua55_residual_powk_fi :: v1_stencil where
  "lua55_residual_powk_fi = RESIDUAL_POWK LUA55_VALUE_FLOAT LUA55_VALUE_INTEGER"

definition lua55_residual_powk_ff :: v1_stencil where
  "lua55_residual_powk_ff = RESIDUAL_POWK LUA55_VALUE_FLOAT LUA55_VALUE_FLOAT"

subsection \<open>Self-selecting stencils\<close>

text \<open>Where the right operand comes from; a constant fills the member of the union its tag names.\<close>

definition REG_RIGHT :: "v1_holes \<Rightarrow> u64 \<Rightarrow> v1_state \<Rightarrow> lua_value option" where
  "REG_RIGHT h f s = do {right \<leftarrow> reg (q_right h) f s; rd right s}"

definition IMM_RIGHT :: "v1_holes \<Rightarrow> u64 \<Rightarrow> v1_state \<Rightarrow> lua_value option" where
  "IMM_RIGHT h f s = Some (int_val (q_int_imm h))"

definition CONST_RIGHT :: "v1_holes \<Rightarrow> u64 \<Rightarrow> v1_state \<Rightarrow> lua_value option" where
  "CONST_RIGHT h f s = Some (mk_value (q_const_tag h)
     (if q_const_tag h = LUA55_VALUE_INTEGER then q_const_int h else q_const_flt h))"

type_synonym v1_right = "v1_holes \<Rightarrow> u64 \<Rightarrow> v1_state \<Rightarrow> lua_value option"

definition POLY_BIN :: "(u64 \<Rightarrow> u64 \<Rightarrow> u64) \<Rightarrow> (dbl \<Rightarrow> dbl \<Rightarrow> dbl) \<Rightarrow> (dbl \<Rightarrow> dbl \<Rightarrow> dbl) \<Rightarrow> (dbl \<Rightarrow> dbl \<Rightarrow> dbl) \<Rightarrow> v1_right \<Rightarrow> v1_stencil" where
  "POLY_BIN intfn flt_left flt_right flt_both right_init h f s = do {
     target \<leftarrow> reg (q_target h) f s;
     left \<leftarrow> reg (q_left h) f s;
     l \<leftarrow> rd left s;
     r \<leftarrow> right_init h f s;
     dispatch (tag l) (tag r)
       (residual_store target (int_val (intfn (payload l) (payload r))) f s)
       (residual_store target (flt_val (flt_left (c_double (payload l)) (payload r))) f s)
       (residual_store target (flt_val (flt_right (payload l) (c_double (payload r)))) f s)
       (residual_store target (flt_val (flt_both (payload l) (payload r))) f s)
       (reject_leave h f s)}"

definition POLY_DIVMOD :: "(u64 \<Rightarrow> u64 \<Rightarrow> u64) \<Rightarrow> (dbl \<Rightarrow> dbl \<Rightarrow> dbl) \<Rightarrow> v1_right \<Rightarrow> v1_stencil" where
  "POLY_DIVMOD intfn fltfn right_init h f s = do {
     target \<leftarrow> reg (q_target h) f s;
     left \<leftarrow> reg (q_left h) f s;
     l \<leftarrow> rd left s;
     r \<leftarrow> right_init h f s;
     dispatch (tag l) (tag r)
       (if payload r = 0 then reject_leave h f s
        else residual_store target (int_val (intfn (payload l) (payload r))) f s)
       (residual_store target (flt_val (fltfn (c_double (payload l)) (payload r))) f s)
       (residual_store target (flt_val (fltfn (payload l) (c_double (payload r)))) f s)
       (residual_store target (flt_val (fltfn (payload l) (payload r))) f s)
       (reject_leave h f s)}"

definition POLY_BITWISE :: "(u64 \<Rightarrow> u64 \<Rightarrow> u64) \<Rightarrow> v1_right \<Rightarrow> v1_stencil" where
  "POLY_BITWISE intfn right_init h f s = do {
     target \<leftarrow> reg (q_target h) f s;
     left \<leftarrow> reg (q_left h) f s;
     l \<leftarrow> rd left s;
     r \<leftarrow> right_init h f s;
     case to_int l of None \<Rightarrow> reject_leave h f s
     | Some i1 \<Rightarrow> (case to_int r of None \<Rightarrow> reject_leave h f s
         | Some i2 \<Rightarrow> residual_store target (int_val (intfn i1 i2)) f s)}"

definition POLY_SHIFT :: "bool \<Rightarrow> v1_right \<Rightarrow> v1_stencil" where
  "POLY_SHIFT flip right_init h f s = do {
     target \<leftarrow> reg (q_target h) f s;
     left \<leftarrow> reg (q_left h) f s;
     l \<leftarrow> rd left s;
     r \<leftarrow> right_init h f s;
     case to_int l of None \<Rightarrow> reject_leave h f s
     | Some i1 \<Rightarrow> (case to_int r of None \<Rightarrow> reject_leave h f s
         | Some i2 \<Rightarrow> residual_store target (int_val (if flip then lua55_shiftl i2 i1 else lua55_shiftl i1 i2)) f s)}"

definition POLY_DIV_BODY :: "v1_right \<Rightarrow> v1_stencil" where
  "POLY_DIV_BODY right_init h f s = do {
     target \<leftarrow> reg (q_target h) f s;
     left \<leftarrow> reg (q_left h) f s;
     l \<leftarrow> rd left s;
     r \<leftarrow> right_init h f s;
     dispatch (tag l) (tag r)
       (if payload r = 0 then reject_leave h f s
        else residual_store target (flt_val (dbl_div (c_double (payload l)) (c_double (payload r)))) f s)
       (residual_store target (flt_val (dbl_div (c_double (payload l)) (payload r))) f s)
       (residual_store target (flt_val (dbl_div (payload l) (c_double (payload r)))) f s)
       (residual_store target (flt_val (dbl_div (payload l) (payload r))) f s)
       (reject_leave h f s)}"

definition POLY_POW_BODY :: "v1_right \<Rightarrow> v1_stencil" where
  "POLY_POW_BODY right_init h f s = do {
     target \<leftarrow> reg (q_target h) f s;
     left \<leftarrow> reg (q_left h) f s;
     l \<leftarrow> rd left s;
     r \<leftarrow> right_init h f s;
     let pow = lua55_pow (q_pow h);
     dispatch (tag l) (tag r)
       (residual_store target (flt_val (pow (c_double (payload l)) (c_double (payload r)))) f s)
       (residual_store target (flt_val (pow (c_double (payload l)) (payload r))) f s)
       (residual_store target (flt_val (pow (payload l) (c_double (payload r)))) f s)
       (residual_store target (flt_val (pow (payload l) (payload r))) f s)
       (reject_leave h f s)}"

definition lua55_poly_add :: v1_stencil where
  "lua55_poly_add = POLY_BIN int_add dbl_add dbl_add dbl_add REG_RIGHT"

definition lua55_poly_sub :: v1_stencil where
  "lua55_poly_sub = POLY_BIN int_sub dbl_sub dbl_sub dbl_sub REG_RIGHT"

definition lua55_poly_mul :: v1_stencil where
  "lua55_poly_mul = POLY_BIN int_mul dbl_mul dbl_mul dbl_mul REG_RIGHT"

definition lua55_poly_addi :: v1_stencil where
  "lua55_poly_addi = POLY_BIN int_add dbl_add dbl_add dbl_add IMM_RIGHT"

definition lua55_poly_addk :: v1_stencil where
  "lua55_poly_addk = POLY_BIN int_add dbl_add dbl_add dbl_add CONST_RIGHT"

definition lua55_poly_subk :: v1_stencil where
  "lua55_poly_subk = POLY_BIN int_sub dbl_sub dbl_sub dbl_sub CONST_RIGHT"

definition lua55_poly_mulk :: v1_stencil where
  "lua55_poly_mulk = POLY_BIN int_mul dbl_mul dbl_mul dbl_mul CONST_RIGHT"

definition lua55_poly_div :: v1_stencil where
  "lua55_poly_div = POLY_DIV_BODY REG_RIGHT"

definition lua55_poly_divk :: v1_stencil where
  "lua55_poly_divk = POLY_DIV_BODY CONST_RIGHT"

definition lua55_poly_idiv :: v1_stencil where
  "lua55_poly_idiv = POLY_DIVMOD lua55_idiv lua55_flt_idiv REG_RIGHT"

definition lua55_poly_idivk :: v1_stencil where
  "lua55_poly_idivk = POLY_DIVMOD lua55_idiv lua55_flt_idiv CONST_RIGHT"

definition lua55_poly_mod :: v1_stencil where
  "lua55_poly_mod = POLY_DIVMOD lua55_mod lua55_fmod REG_RIGHT"

definition lua55_poly_modk :: v1_stencil where
  "lua55_poly_modk = POLY_DIVMOD lua55_mod lua55_fmod CONST_RIGHT"

definition lua55_poly_band :: v1_stencil where
  "lua55_poly_band = POLY_BITWISE int_band REG_RIGHT"

definition lua55_poly_bandk :: v1_stencil where
  "lua55_poly_bandk = POLY_BITWISE int_band CONST_RIGHT"

definition lua55_poly_bor :: v1_stencil where
  "lua55_poly_bor = POLY_BITWISE int_bor REG_RIGHT"

definition lua55_poly_bork :: v1_stencil where
  "lua55_poly_bork = POLY_BITWISE int_bor CONST_RIGHT"

definition lua55_poly_bxor :: v1_stencil where
  "lua55_poly_bxor = POLY_BITWISE int_bxor REG_RIGHT"

definition lua55_poly_bxork :: v1_stencil where
  "lua55_poly_bxork = POLY_BITWISE int_bxor CONST_RIGHT"

definition lua55_poly_shl :: v1_stencil where
  "lua55_poly_shl = POLY_SHIFT False REG_RIGHT"

definition lua55_poly_shr :: v1_stencil where
  "lua55_poly_shr = POLY_SHIFT False REG_RIGHT"

definition lua55_poly_shli :: v1_stencil where
  "lua55_poly_shli = POLY_SHIFT False IMM_RIGHT"

definition lua55_poly_shri :: v1_stencil where
  "lua55_poly_shri = POLY_SHIFT False IMM_RIGHT"

definition lua55_poly_pow :: v1_stencil where
  "lua55_poly_pow = POLY_POW_BODY REG_RIGHT"

text \<open>
  The argument that \<open>lua55_poly_powk\<close> passes declares a second \<open>right\<close> in a block of its own, so the
  pointer of the body still names the register.
\<close>

definition lua55_poly_powk :: v1_stencil where
  "lua55_poly_powk = POLY_POW_BODY REG_RIGHT"

end
