(* ===== verification/V1_Arith_Replay.thy ===== *)
theory V1_Arith_Replay
  imports V1_Arithmetic
begin

text \<open>
  The arithmetic residuals of the first generation replay their learners.
\<close>

unbundle bit_operations_syntax

subsection \<open>Quotes\<close>

text \<open>The number of a leaf: two integers, mixed, two floats.\<close>

definition leaf :: "u32 \<Rightarrow> u32 \<Rightarrow> u32" where
  "leaf lt rt = dispatch lt rt 1 2 3 4 0"

text \<open>With one register only its tag counts.\<close>

definition leaf1 :: "u32 \<Rightarrow> u32 \<Rightarrow> u32" where
  "leaf1 lt rt = (if lt = LUA55_VALUE_FLOAT then 2 else 1)"

definition numeric :: "u32 \<Rightarrow> bool" where
  "numeric t \<longleftrightarrow> t = LUA55_VALUE_INTEGER \<or> t = LUA55_VALUE_FLOAT"

lemma leaf_simps [simp]:
  "numeric lt \<Longrightarrow> numeric rt \<Longrightarrow> leaf lt rt \<noteq> 0" "leaf lt rt AND 0xFFFF = leaf lt rt"
  "leaf1 lt rt \<noteq> 0" "leaf1 lt rt AND 0xFFFF = leaf1 lt rt"
  by (auto simp: leaf_def leaf1_def dispatch_def numeric_def)

lemma leaf_inj: "numeric lt \<Longrightarrow> numeric rt \<Longrightarrow> numeric lt' \<Longrightarrow> numeric rt' \<Longrightarrow> leaf lt rt = leaf lt' rt' \<longleftrightarrow> lt = lt' \<and> rt = rt'"
  by (auto simp: leaf_def dispatch_def numeric_def)

lemma leaf_coerced: "numeric (tag l) \<Longrightarrow> numeric (tag r) \<Longrightarrow> coerced_leaf l r = leaf (tag l) (tag r)"
  by (auto simp: leaf_def dispatch_def numeric_def coerced_leaf_def)

lemma norm_numeric: "numeric (tag v) \<Longrightarrow> norm_value v = norm_value w \<longleftrightarrow> tag w = tag v \<and> payload w = payload v"
  by (auto simp: norm_value_eq numeric_def)

subsection \<open>Operands\<close>

text \<open>The target, the left operand, and the register of the right one when there is one.\<close>

definition rd_two :: "v1_holes \<Rightarrow> u64 \<Rightarrow> v1_state \<Rightarrow> (u64 \<times> lua_value \<times> u64) option" where
  "rd_two h f s = do {
     target \<leftarrow> reg (q_target h) f s;
     left \<leftarrow> reg (q_left h) f s;
     right \<leftarrow> reg (q_right h) f s;
     l \<leftarrow> rd left s;
     Some (target, l, right)}"

definition rd_one :: "v1_holes \<Rightarrow> u64 \<Rightarrow> v1_state \<Rightarrow> (u64 \<times> lua_value \<times> u64) option" where
  "rd_one h f s = do {
     target \<leftarrow> reg (q_target h) f s;
     left \<leftarrow> reg (q_left h) f s;
     l \<leftarrow> rd left s;
     Some (target, l, 0)}"

definition from_reg :: "v1_holes \<Rightarrow> u64 \<Rightarrow> v1_state \<Rightarrow> lua_value option" where
  "from_reg h ra s = rd ra s"

lemma rd_two_alike:
  assumes "alike s s'" and "rd_two h f s = Some (t, l, ra)"
  obtains l' where "rd_two h f s' = Some (t, l', ra)" "norm_value l = norm_value l'"
proof -
  from assms(2) obtain a where a: "reg (q_target h) f s = Some t" "reg (q_left h) f s = Some a" "reg (q_right h) f s = Some ra" "rd a s = Some l"
    by (auto simp: rd_two_def bind_eq_Some_conv)
  from alike_rd [OF assms(1) a(4)] obtain l' where "rd a s' = Some l'" "norm_value l = norm_value l'" .
  then show thesis using that alike_reg [OF assms(1)] a(1-3) by (simp add: rd_two_def)
qed

lemma rd_one_alike:
  assumes "alike s s'" and "rd_one h f s = Some (t, l, ra)"
  obtains l' where "rd_one h f s' = Some (t, l', ra)" "norm_value l = norm_value l'"
proof -
  from assms(2) obtain a where a: "reg (q_target h) f s = Some t" "reg (q_left h) f s = Some a" "rd a s = Some l" "ra = 0"
    by (auto simp: rd_one_def bind_eq_Some_conv)
  from alike_rd [OF assms(1) a(3)] obtain l' where "rd a s' = Some l'" "norm_value l = norm_value l'" .
  then show thesis using that alike_reg [OF assms(1)] a by (simp add: rd_one_def)
qed

lemma right_alike:
  assumes "alike s s'"
  shows "from_reg h ra s = Some r \<Longrightarrow> \<exists>r'. from_reg h ra s' = Some r' \<and> norm_value r = norm_value r'"
    "IMM_RIGHT h ra s = Some r \<Longrightarrow> \<exists>r'. IMM_RIGHT h ra s' = Some r' \<and> norm_value r = norm_value r'"
    "CONST_RIGHT h ra s = Some r \<Longrightarrow> \<exists>r'. CONST_RIGHT h ra s' = Some r' \<and> norm_value r = norm_value r'"
  using alike_rd [OF assms] by (auto simp: from_reg_def IMM_RIGHT_def CONST_RIGHT_def) metis

subsection \<open>The shape\<close>

lemma store_quote:
  "learn_store slot target v q f u = do {u \<leftarrow> set_quote slot q u; perform lua55_learn_next (Puts target v) f u}"
  by (cases "vals (mem u) target"; cases "rslots u slot")
    (simp_all add: learn_store_def on_mem_def wr_val_def upd_slot_def lua55_learn_next_def)

text \<open>A choice by two numeric operands, and one by two operands coerced to integers.\<close>

definition numeric_pick :: "(u32 \<Rightarrow> u32 \<Rightarrow> u32) \<Rightarrow> (v1_holes \<Rightarrow> u64 \<Rightarrow> lua_value \<Rightarrow> lua_value \<Rightarrow> u32 \<Rightarrow> v1_pick) \<Rightarrow> v1_right \<Rightarrow>
    v1_holes \<Rightarrow> u64 \<times> lua_value \<times> u64 \<Rightarrow> v1_state \<Rightarrow> v1_pick option" where
  "numeric_pick num out right h = (\<lambda>(t, l, ra) s. do {
     r \<leftarrow> right h ra s;
     Some (if numeric (tag l) \<and> numeric (tag r) then out h t l r (q_quote_base h OR num (tag l) (tag r)) else Refuse)})"

definition coerced_pick :: "(u32 \<Rightarrow> u32 \<Rightarrow> u32) \<Rightarrow> (v1_holes \<Rightarrow> u64 \<Rightarrow> u64 \<Rightarrow> u64) \<Rightarrow> v1_right \<Rightarrow> v1_holes \<Rightarrow> u64 \<times> lua_value \<times> u64 \<Rightarrow> v1_state \<Rightarrow> v1_pick option" where
  "coerced_pick num fn right h = (\<lambda>(t, l, ra) s. case to_int l of None \<Rightarrow> Some Refuse
     | Some i1 \<Rightarrow> do {
         r \<leftarrow> right h ra s;
         case to_int r of None \<Rightarrow> Some Refuse
         | Some i2 \<Rightarrow> Some (Accept (Puts t (int_val (fn h i1 i2))) (q_quote_base h OR num (tag l) (tag r)))})"

lemma numeric_replays:
  assumes reads: "\<And>h f s s' t l ra. alike s s' \<Longrightarrow> rds h f s = Some (t, l, ra) \<Longrightarrow> \<exists>l'. rds h f s' = Some (t, l', ra) \<and> norm_value l = norm_value l'"
    and right: "\<And>h ra s s' r. alike s s' \<Longrightarrow> right h ra s = Some r \<Longrightarrow> \<exists>r'. right h ra s' = Some r' \<and> norm_value r = norm_value r'"
    and out: "\<And>h t l r q e q'. tag l = lt \<Longrightarrow> tag r = rt \<Longrightarrow> out h t l r q = Accept e q' \<Longrightarrow> q' = q \<and> e = eff h t (payload l) (payload r)"
    and out_q: "\<And>h t l r q e q'. numeric (tag l) \<Longrightarrow> numeric (tag r) \<Longrightarrow> out h t l r q = Accept e q' \<Longrightarrow> q' = q"
    and res: "\<And>h f s t l ra r. rds h f s = Some (t, l, ra) \<Longrightarrow> right h ra s = Some r \<Longrightarrow> tag l = lt \<Longrightarrow> tag r = rt \<Longrightarrow>
      residual h f s = perform lua55_residual_next (eff h t (payload l) (payload r)) f s"
    and tags: "numeric lt" "numeric rt"
    and sel: "\<And>h ra s a r. right h ra s = Some r \<Longrightarrow> numeric a \<Longrightarrow> numeric (tag r) \<Longrightarrow> num a (tag r) = num lt rt \<Longrightarrow>
      a = lt \<and> tag r = rt"
    and num: "\<And>a b. num a b AND 0xFFFF = num a b" "num lt rt \<noteq> 0"
    and like: "\<And>h t a b. like_effect (eff h t a b) (eff h t a b)"
  shows "replayed_leaf (picking rds (numeric_pick num out right)) residual (coded (num lt rt))"
proof (rule picking_replays)
  fix h f s s' x e
  assume h: "based h" and al: "alike s s'" and x: "rds h f s = Some x"
    and pick: "numeric_pick num out right h x s = Some (Accept e (q_quote_base h OR num lt rt))"
  obtain t l ra where xx: "x = (t, l, ra)" by (cases x)
  from pick obtain r where r: "right h ra s = Some r" "numeric (tag l)" "numeric (tag r)"
      "out h t l r (q_quote_base h OR num (tag l) (tag r)) = Accept e (q_quote_base h OR num lt rt)"
    by (auto simp: numeric_pick_def xx bind_eq_Some_conv split: if_splits)
  from out_q [OF r(2-4)] have lr: "tag l = lt" "tag r = rt"
    using h r(2,3) sel [OF r(1), of "tag l"] by (simp_all add: based_eq num)
  with out r(4) have e: "e = eff h t (payload l) (payload r)" by blast
  from reads [OF al x [unfolded xx]] obtain l' where l': "rds h f s' = Some (t, l', ra)" "norm_value l = norm_value l'" by blast
  from right [OF al r(1)] obtain r' where r': "right h ra s' = Some r'" "norm_value r = norm_value r'" by blast
  have "residual h f s' = perform lua55_residual_next (eff h t (payload l') (payload r')) f s'"
    using res [OF l'(1) r'(1)] lr l'(2) r'(2) tags by (simp add: norm_numeric)
  then show "\<exists>e'. residual h f s' = perform lua55_residual_next e' f s' \<and> like_effect e e'"
    using e l'(2) r'(2) lr tags like by (auto simp: norm_numeric)
qed (use num in simp_all)

lemma to_int_numeric: "to_int v = Some i \<Longrightarrow> numeric (tag v)"
  by (auto simp: to_int_def numeric_def split: if_splits)

lemma to_int_guarded: "numeric (tag v) \<Longrightarrow> tag w = tag v \<Longrightarrow> payload w = payload v \<Longrightarrow> guarded_int (tag v) w = to_int v"
  by (auto simp: to_int_def guarded_int_def numeric_def)

lemma coerced_replays:
  assumes reads: "\<And>h f s s' t l ra. alike s s' \<Longrightarrow> rds h f s = Some (t, l, ra) \<Longrightarrow> \<exists>l'. rds h f s' = Some (t, l', ra) \<and> norm_value l = norm_value l'"
    and right: "\<And>h ra s s' r. alike s s' \<Longrightarrow> right h ra s = Some r \<Longrightarrow> \<exists>r'. right h ra s' = Some r' \<and> norm_value r = norm_value r'"
    and res: "\<And>h f s t l ra r i1 i2. rds h f s = Some (t, l, ra) \<Longrightarrow> right h ra s = Some r \<Longrightarrow> tag l = lt \<Longrightarrow> tag r = rt \<Longrightarrow>
      guarded_int lt l = Some i1 \<Longrightarrow> guarded_int rt r = Some i2 \<Longrightarrow> residual h f s = residual_store t (int_val (fn h i1 i2)) f s"
    and tags: "numeric lt" "numeric rt"
    and sel: "\<And>h ra s a r. right h ra s = Some r \<Longrightarrow> numeric a \<Longrightarrow> numeric (tag r) \<Longrightarrow> num a (tag r) = num lt rt \<Longrightarrow>
      a = lt \<and> tag r = rt"
    and num: "\<And>a b. num a b AND 0xFFFF = num a b" "num lt rt \<noteq> 0"
  shows "replayed_leaf (picking rds (coerced_pick num fn right)) residual (coded (num lt rt))"
proof (rule picking_replays)
  fix h f s s' x e
  assume h: "based h" and al: "alike s s'" and x: "rds h f s = Some x"
    and pick: "coerced_pick num fn right h x s = Some (Accept e (q_quote_base h OR num lt rt))"
  obtain t l ra where xx: "x = (t, l, ra)" by (cases x)
  from pick obtain r i1 i2 where r: "right h ra s = Some r" "to_int l = Some i1" "to_int r = Some i2"
      "q_quote_base h OR num (tag l) (tag r) = q_quote_base h OR num lt rt" and e: "e = Puts t (int_val (fn h i1 i2))"
    by (auto simp: coerced_pick_def xx bind_eq_Some_conv split: option.splits)
  note n = to_int_numeric [OF r(2)] to_int_numeric [OF r(3)]
  with r(4) h tags have lr: "tag l = lt" "tag r = rt" using sel [OF r(1), of "tag l"] by (simp_all add: based_eq num)
  from reads [OF al x [unfolded xx]] obtain l' where l': "rds h f s' = Some (t, l', ra)" "norm_value l = norm_value l'" by blast
  from right [OF al r(1)] obtain r' where r': "right h ra s' = Some r'" "norm_value r = norm_value r'" by blast
  have "guarded_int lt l' = Some i1" "guarded_int rt r' = Some i2" "tag l' = lt" "tag r' = rt"
    using lr l'(2) r'(2) n r(2,3) to_int_guarded [of l l'] to_int_guarded [of r r'] by (simp_all add: norm_numeric)
  with res [OF l'(1) r'(1)] show "\<exists>e'. residual h f s' = perform lua55_residual_next e' f s' \<and> like_effect e e'"
    using e by (auto simp: residual_store_def intro!: exI [of _ "Puts t (int_val (fn h i1 i2))"])
qed (use num in simp_all)

subsection \<open>The learners have the shape\<close>

text \<open>What each family accepts, by the macro that defines it.\<close>

definition arith_out :: "(u64 \<Rightarrow> u64 \<Rightarrow> u64) \<Rightarrow> (dbl \<Rightarrow> dbl \<Rightarrow> dbl) \<Rightarrow> v1_holes \<Rightarrow> u64 \<Rightarrow> lua_value \<Rightarrow> lua_value \<Rightarrow> u32 \<Rightarrow> v1_pick" where
  "arith_out intfn fltfn h t l r q = Accept (Puts t (dispatch (tag l) (tag r)
     (int_val (intfn (payload l) (payload r))) (flt_val (fltfn (c_double (payload l)) (payload r)))
     (flt_val (fltfn (payload l) (c_double (payload r)))) (flt_val (fltfn (payload l) (payload r))) (SET_TAG 0 l))) q"

definition float_out :: "(v1_holes \<Rightarrow> dbl \<Rightarrow> dbl \<Rightarrow> dbl) \<Rightarrow> v1_holes \<Rightarrow> u64 \<Rightarrow> lua_value \<Rightarrow> lua_value \<Rightarrow> u32 \<Rightarrow> v1_pick" where
  "float_out fltfn h t l r q = Accept (Puts t (flt_val (fltfn h
     (if tag l = LUA55_VALUE_INTEGER then c_double (payload l) else payload l)
     (if tag r = LUA55_VALUE_INTEGER then c_double (payload r) else payload r)))) q"

definition divmod_out :: "v1_pick \<Rightarrow> (u64 \<Rightarrow> u64 \<Rightarrow> u64) \<Rightarrow> (dbl \<Rightarrow> dbl \<Rightarrow> dbl) \<Rightarrow> v1_holes \<Rightarrow> u64 \<Rightarrow> lua_value \<Rightarrow> lua_value \<Rightarrow> u32 \<Rightarrow> v1_pick" where
  "divmod_out zero intfn fltfn h t l r q =
     (let a = (if tag l = LUA55_VALUE_INTEGER then c_double (payload l) else payload l);
          b = (if tag r = LUA55_VALUE_INTEGER then c_double (payload r) else payload r)
      in if tag l = LUA55_VALUE_INTEGER \<and> tag r = LUA55_VALUE_INTEGER
         then if payload r = 0 then zero else Accept (Puts t (int_val (intfn (payload l) (payload r)))) q
         else if flt_divmod_huge a b then Refuse else Accept (Puts t (flt_val (fltfn a b))) q)"

lemmas shape = mk_value_fields noting_def rd_two_def rd_one_def from_reg_def IMM_RIGHT_def CONST_RIGHT_def numeric_pick_def coerced_pick_def
  reg_def next_slot_def upd_lframe_def rd_def store_quote dispatch_def leaf_def leaf1_def numeric_def arith_out_def float_out_def divmod_out_def

lemma LEARN_BINARY_shape: "LEARN_BINARY i g g g = picking rd_two (numeric_pick leaf (arith_out i g) from_reg)"
  by (rule stencil_eqI) (auto simp: LEARN_BINARY_def shape Let_def intro!: Option.bind_cong [OF refl])

lemma learn_div_shape: "lua55_learn_div = picking rd_two (numeric_pick leaf (float_out (\<lambda>h. dbl_div)) from_reg)"
  by (rule stencil_eqI) (auto simp: lua55_learn_div_def shape Let_def intro!: Option.bind_cong [OF refl])

lemma learn_pow_shape: "lua55_learn_pow = picking rd_two (numeric_pick leaf (float_out (\<lambda>h. lua55_pow (q_pow h))) from_reg)"
  by (rule stencil_eqI) (auto simp: lua55_learn_pow_def shape Let_def intro!: Option.bind_cong [OF refl])

lemma LEARN_BITWISE_shape: "LEARN_BITWISE i = picking rd_two (coerced_pick leaf (\<lambda>h. i) from_reg)"
  by (rule stencil_eqI) (auto simp: LEARN_BITWISE_def shape to_int_def coerced_leaf_def Let_def intro!: Option.bind_cong [OF refl] split: option.splits)

lemma LEARN_SHIFT_bitwise: "LEARN_SHIFT flip = LEARN_BITWISE (\<lambda>a b. if flip then lua55_shiftl a (- b) else lua55_shiftl a b)"
  by (intro ext) (simp add: LEARN_SHIFT_def LEARN_BITWISE_def)

lemma LEARN_REG_IMM_shape: "LEARN_REG_IMM_ARITH i g = picking rd_one (numeric_pick leaf1 (arith_out i g) IMM_RIGHT)"
  by (rule stencil_eqI) (auto simp: LEARN_REG_IMM_ARITH_def shape Let_def intro!: Option.bind_cong [OF refl])

lemma learn_shli_shape: "lua55_learn_shli = picking rd_one (coerced_pick leaf1 (\<lambda>h a b. lua55_shiftl b a) IMM_RIGHT)"
  by (rule stencil_eqI) (auto simp: lua55_learn_shli_def shape to_int_def Let_def intro!: Option.bind_cong [OF refl] split: option.splits)

lemma learn_shri_shape: "lua55_learn_shri = picking rd_one (coerced_pick leaf1 (\<lambda>h a b. lua55_shiftl a (- b)) IMM_RIGHT)"
  by (rule stencil_eqI) (auto simp: lua55_learn_shri_def shape to_int_def Let_def intro!: Option.bind_cong [OF refl] split: option.splits)

lemma LEARN_CONST_shape: "LEARN_CONST_ARITH i g = picking rd_one (numeric_pick leaf (arith_out i g) CONST_RIGHT)"
  by (rule stencil_eqI) (auto simp: LEARN_CONST_ARITH_def shape Let_def intro!: Option.bind_cong [OF refl])

lemma learn_powk_shape: "lua55_learn_powk = picking rd_one (numeric_pick leaf (float_out (\<lambda>h. lua55_pow (q_pow h))) CONST_RIGHT)"
  by (rule stencil_eqI) (auto simp: lua55_learn_powk_def shape Let_def intro!: Option.bind_cong [OF refl])

lemma LEARN_DIVMOD_shape:
  "LEARN_DIVMOD i zc = picking rd_two (numeric_pick leaf (\<lambda>h t l r q. divmod_out (Accept (Exits (q_resume_pc h) LUA55_COMPLETED) q) i
     (if zc then lua55_fmod else lua55_flt_idiv) h t l r q) from_reg)"
  by (rule stencil_eqI; cases zc) (auto simp: LEARN_DIVMOD_def shape learn_flt_divmod_def ZERO_EXIT_def Let_def intro!: Option.bind_cong [OF refl])

lemma LEARN_CONST_DIVMOD_shape:
  "LEARN_CONST_DIVMOD i zc = picking rd_one (numeric_pick leaf (\<lambda>h. divmod_out (Unquoted (Exits (q_resume_pc h) LUA55_COMPLETED)) i
     (if zc then lua55_fmod else lua55_flt_idiv) h) CONST_RIGHT)"
  by (rule stencil_eqI; cases zc) (auto simp: LEARN_CONST_DIVMOD_def shape learn_flt_divmod_def ZERO_EXIT_def Let_def intro!: Option.bind_cong [OF refl])

text \<open>
  The constant of a bitwise opcode is an integer; its tag is not read. The second quote is only
  recorded when the target is not the left register.
\<close>

definition const_bitwise_pick :: "(u64 \<Rightarrow> u64 \<Rightarrow> u64) \<Rightarrow> v1_holes \<Rightarrow> u64 \<times> lua_value \<times> u64 \<Rightarrow> v1_state \<Rightarrow> v1_pick option" where
  "const_bitwise_pick fn h = (\<lambda>(t, l, ra) s. Some (case to_int l of None \<Rightarrow> Refuse
     | Some i1 \<Rightarrow> Accept (Puts t (int_val (fn i1 (q_const_int h))))
         (q_quote_base h OR (if q_target h \<noteq> q_left h \<and> tag l = LUA55_VALUE_FLOAT then 2 else 1))))"

lemma LEARN_CONST_BITWISE_shape: "LEARN_CONST_BITWISE i = picking rd_one (const_bitwise_pick i)"
proof (rule stencil_eqI)
  fix h :: v1_holes and s :: v1_state and f fr
  assume fr: "lframes s f = Some fr"
  let ?t = "slot_addr (l_values fr) (q_target h)" and ?l = "slot_addr (l_values fr) (q_left h)"
  show "LEARN_CONST_BITWISE i h f s = picking rd_one (const_bitwise_pick i) h f s"
  proof (cases "vals (mem s) ?l")
    case (Some l)
    then show ?thesis
      using fr by (cases "vals (mem s) ?t"; cases "rslots s (slot_at fr 0)")
        (auto simp: LEARN_CONST_BITWISE_def const_bitwise_pick_def noting_def rd_one_def reg_def next_slot_def upd_lframe_def rd_def rd_val_def
          on_mem_def wr_val_def upd_slot_def slot_at_def lua55_learn_next_def mk_value_fields Let_def split: option.splits)
  qed (use fr in \<open>auto simp: LEARN_CONST_BITWISE_def noting_def rd_one_def reg_def next_slot_def upd_lframe_def rd_def rd_val_def\<close>)
qed (auto simp: LEARN_CONST_BITWISE_def noting_def reg_def next_slot_def)

subsection \<open>The residuals replay\<close>

lemma operands_alike:
  assumes "alike s s'"
  shows "rd_two h f s = Some (t, l, ra) \<Longrightarrow> \<exists>l'. rd_two h f s' = Some (t, l', ra) \<and> norm_value l = norm_value l'"
    "rd_one h f s = Some (t, l, ra) \<Longrightarrow> \<exists>l'. rd_one h f s' = Some (t, l', ra) \<and> norm_value l = norm_value l'"
  using rd_two_alike [OF assms] rd_one_alike [OF assms] by metis+

lemmas operands = operands_alike right_alike

text \<open>Two registers, or a register and a constant whose tag is part of the leaf.\<close>

lemmas two_numeric = numeric_replays [where num = leaf and rds = rd_two and right = from_reg, OF operands(1,3)]
lemmas one_const = numeric_replays [where num = leaf and rds = rd_one and right = CONST_RIGHT, OF operands(2,5)]
lemmas one_imm = numeric_replays [where num = leaf1 and rds = rd_one and right = IMM_RIGHT, OF operands(2,4)]
lemmas two_coerced = coerced_replays [where num = leaf and rds = rd_two and right = from_reg, OF operands(1,3)]
lemmas one_imm_coerced = coerced_replays [where num = leaf1 and rds = rd_one and right = IMM_RIGHT, OF operands(2,4)]

lemma rd_two_Some: "rd_two h f s = Some (t, l, ra) \<longleftrightarrow>
    (\<exists>a. reg (q_target h) f s = Some t \<and> reg (q_left h) f s = Some a \<and> reg (q_right h) f s = Some ra \<and> rd a s = Some l)"
  by (auto simp: rd_two_def bind_eq_Some_conv)

lemma rd_one_Some: "rd_one h f s = Some (t, l, ra) \<longleftrightarrow>
    (\<exists>a. reg (q_target h) f s = Some t \<and> reg (q_left h) f s = Some a \<and> rd a s = Some l \<and> ra = 0)"
  by (auto simp: rd_one_def bind_eq_Some_conv)

lemmas reads = rd_two_Some rd_one_Some from_reg_def IMM_RIGHT_def CONST_RIGHT_def mk_value_fields residual_store_def

lemma one_tag: "numeric a \<Longrightarrow> numeric lt \<Longrightarrow> leaf1 a b = leaf1 lt c \<longleftrightarrow> a = lt"
  by (auto simp: leaf1_def numeric_def)

lemma binary_replays:
  assumes "numeric lt" "numeric rt"
  shows "replayed_leaf (LEARN_BINARY i g g g) (RESIDUAL_BINARY lt rt i g g g False False) (coded (leaf lt rt))"
  unfolding LEARN_BINARY_shape
proof (rule two_numeric [where eff = "\<lambda>h t a b. Puts t (dispatch lt rt (int_val (i a b)) (flt_val (g (c_double a) b))
    (flt_val (g a (c_double b))) (flt_val (g a b)) (mk_value 0 a))"])
  show "RESIDUAL_BINARY lt rt i g g g False False h f s = perform lua55_residual_next (Puts t (dispatch lt rt (int_val (i (payload l) (payload r)))
      (flt_val (g (c_double (payload l)) (payload r))) (flt_val (g (payload l) (c_double (payload r)))) (flt_val (g (payload l) (payload r)))
      (mk_value 0 (payload l)))) f s"
    if "rd_two h f s = Some (t, l, ra)" "from_reg h ra s = Some r" "tag l = lt" "tag r = rt" for h f s t l ra r
    using that assms by (auto simp: RESIDUAL_BINARY_def reads numeric_def dispatch_def)
qed (use assms in \<open>auto simp: arith_out_def numeric_def dispatch_def leaf_def split: if_splits\<close>)

text \<open>An operand of an arithmetic opcode as a float.\<close>

definition operand_double :: "u32 \<Rightarrow> u64 \<Rightarrow> dbl" where
  "operand_double t a = (if t = LUA55_VALUE_INTEGER then c_double a else a)"

lemma div_replays:
  assumes "numeric lt" "numeric rt"
  shows "replayed_leaf lua55_learn_div (RESIDUAL_BINARY lt rt i dbl_div dbl_div dbl_div False True) (coded (leaf lt rt))"
  unfolding learn_div_shape
proof (rule two_numeric [where eff = "\<lambda>h t a b. Puts t (flt_val (dbl_div (operand_double lt a) (operand_double rt b)))"])
  show "RESIDUAL_BINARY lt rt i dbl_div dbl_div dbl_div False True h f s =
      perform lua55_residual_next (Puts t (flt_val (dbl_div (operand_double lt (payload l)) (operand_double rt (payload r))))) f s"
    if "rd_two h f s = Some (t, l, ra)" "from_reg h ra s = Some r" "tag l = lt" "tag r = rt" for h f s t l ra r
    using that assms by (auto simp: RESIDUAL_BINARY_def reads numeric_def operand_double_def)
qed (use assms in \<open>auto simp: float_out_def operand_double_def numeric_def dispatch_def leaf_def split: if_splits\<close>)

lemma pow_replays:
  assumes "numeric lt" "numeric rt"
  shows "replayed_leaf lua55_learn_pow (RESIDUAL_POW lt rt) (coded (leaf lt rt))"
  unfolding learn_pow_shape
proof (rule two_numeric [where eff = "\<lambda>h t a b. Puts t (flt_val (lua55_pow (q_pow h) (operand_double lt a) (operand_double rt b)))"])
  show "RESIDUAL_POW lt rt h f s =
      perform lua55_residual_next (Puts t (flt_val (lua55_pow (q_pow h) (operand_double lt (payload l)) (operand_double rt (payload r))))) f s"
    if "rd_two h f s = Some (t, l, ra)" "from_reg h ra s = Some r" "tag l = lt" "tag r = rt" for h f s t l ra r
    using that assms by (auto simp: RESIDUAL_POW_def reads numeric_def operand_double_def)
qed (use assms in \<open>auto simp: float_out_def operand_double_def numeric_def dispatch_def leaf_def split: if_splits\<close>)

lemma powk_replays:
  assumes "numeric lt" "numeric rt"
  shows "replayed_leaf lua55_learn_powk (RESIDUAL_POWK lt rt) (coded (leaf lt rt))"
  unfolding learn_powk_shape
proof (rule one_const [where eff = "\<lambda>h t a b. Puts t (flt_val (lua55_pow (q_pow h) (operand_double lt a) (operand_double rt b)))"])
  show "RESIDUAL_POWK lt rt h f s =
      perform lua55_residual_next (Puts t (flt_val (lua55_pow (q_pow h) (operand_double lt (payload l)) (operand_double rt (payload r))))) f s"
    if "rd_one h f s = Some (t, l, ra)" "CONST_RIGHT h ra s = Some r" "tag l = lt" "tag r = rt" for h f s t l ra r
    using that assms by (auto simp: RESIDUAL_POWK_def reads numeric_def operand_double_def)
qed (use assms in \<open>auto simp: float_out_def operand_double_def numeric_def dispatch_def leaf_def split: if_splits\<close>)

lemma divmod_replays:
  assumes "numeric lt" "numeric rt" and "zero \<longleftrightarrow> lt = LUA55_VALUE_INTEGER \<and> rt = LUA55_VALUE_INTEGER"
    and "g = (if zc then lua55_fmod else lua55_flt_idiv)"
  shows "replayed_leaf (LEARN_DIVMOD i zc) (RESIDUAL_BINARY lt rt i g g g zero False) (coded (leaf lt rt))"
  unfolding LEARN_DIVMOD_shape
proof (rule two_numeric [where eff = "\<lambda>h t a b. if zero then (if b = 0 then Exits (q_resume_pc h) LUA55_COMPLETED else Puts t (int_val (i a b)))
    else Puts t (flt_val (g (operand_double lt a) (operand_double rt b)))"])
  show "RESIDUAL_BINARY lt rt i g g g zero False h f s =
      perform lua55_residual_next (if zero then (if payload r = 0 then Exits (q_resume_pc h) LUA55_COMPLETED else Puts t (int_val (i (payload l) (payload r))))
        else Puts t (flt_val (g (operand_double lt (payload l)) (operand_double rt (payload r))))) f s"
    if "rd_two h f s = Some (t, l, ra)" "from_reg h ra s = Some r" "tag l = lt" "tag r = rt" for h f s t l ra r
    using that assms by (auto simp: RESIDUAL_BINARY_def reads numeric_def operand_double_def ZERO_EXIT_def)
qed (use assms in \<open>auto simp: divmod_out_def operand_double_def numeric_def dispatch_def leaf_def Let_def split: if_splits\<close>)

lemma divmodk_replays:
  assumes "numeric lt" "numeric rt" and "zero \<longleftrightarrow> lt = LUA55_VALUE_INTEGER \<and> rt = LUA55_VALUE_INTEGER"
    and "g = (if zc then lua55_fmod else lua55_flt_idiv)"
  shows "replayed_leaf (LEARN_CONST_DIVMOD i zc) (RESIDUAL_CONST_ARITH lt rt i g zero) (coded (leaf lt rt))"
  unfolding LEARN_CONST_DIVMOD_shape
proof (rule one_const [where eff = "\<lambda>h t a b. if zero then (if b = 0 then Exits (q_resume_pc h) LUA55_COMPLETED else Puts t (int_val (i a b)))
    else Puts t (flt_val (g (operand_double lt a) (operand_double rt b)))"])
  show "RESIDUAL_CONST_ARITH lt rt i g zero h f s =
      perform lua55_residual_next (if zero then (if payload r = 0 then Exits (q_resume_pc h) LUA55_COMPLETED else Puts t (int_val (i (payload l) (payload r))))
        else Puts t (flt_val (g (operand_double lt (payload l)) (operand_double rt (payload r))))) f s"
    if "rd_one h f s = Some (t, l, ra)" "CONST_RIGHT h ra s = Some r" "tag l = lt" "tag r = rt" for h f s t l ra r
    using that assms by (auto simp: RESIDUAL_CONST_ARITH_def reads numeric_def operand_double_def ZERO_EXIT_def)
qed (use assms in \<open>auto simp: divmod_out_def operand_double_def numeric_def dispatch_def leaf_def Let_def split: if_splits\<close>)

lemma const_replays:
  assumes "numeric lt" "numeric rt"
  shows "replayed_leaf (LEARN_CONST_ARITH i g) (RESIDUAL_CONST_ARITH lt rt i g False) (coded (leaf lt rt))"
  unfolding LEARN_CONST_shape
proof (rule one_const [where eff = "\<lambda>h t a b. Puts t (dispatch lt rt (int_val (i a b)) (flt_val (g (c_double a) b))
    (flt_val (g a (c_double b))) (flt_val (g a b)) (mk_value 0 a))"])
  show "RESIDUAL_CONST_ARITH lt rt i g False h f s = perform lua55_residual_next (Puts t (dispatch lt rt (int_val (i (payload l) (payload r)))
      (flt_val (g (c_double (payload l)) (payload r))) (flt_val (g (payload l) (c_double (payload r)))) (flt_val (g (payload l) (payload r)))
      (mk_value 0 (payload l)))) f s"
    if "rd_one h f s = Some (t, l, ra)" "CONST_RIGHT h ra s = Some r" "tag l = lt" "tag r = rt" for h f s t l ra r
    using that assms by (auto simp: RESIDUAL_CONST_ARITH_def reads numeric_def dispatch_def)
qed (use assms in \<open>auto simp: arith_out_def numeric_def dispatch_def leaf_def split: if_splits\<close>)

lemma imm_replays:
  assumes "numeric lt"
  shows "replayed_leaf (LEARN_REG_IMM_ARITH i g) (RESIDUAL_REG_IMM_ARITH lt i g) (coded (leaf1 lt LUA55_VALUE_INTEGER))"
  unfolding LEARN_REG_IMM_shape
proof (rule one_imm [where eff = "\<lambda>h t a b. Puts t (if lt = LUA55_VALUE_INTEGER then int_val (i a b) else flt_val (g a (c_double b)))"])
  show "RESIDUAL_REG_IMM_ARITH lt i g h f s = perform lua55_residual_next
      (Puts t (if lt = LUA55_VALUE_INTEGER then int_val (i (payload l) (payload r)) else flt_val (g (payload l) (c_double (payload r))))) f s"
    if "rd_one h f s = Some (t, l, ra)" "IMM_RIGHT h ra s = Some r" "tag l = lt" "tag r = LUA55_VALUE_INTEGER" for h f s t l ra r
    using that assms by (auto simp: RESIDUAL_REG_IMM_ARITH_def reads)
qed (use assms in \<open>auto simp: arith_out_def numeric_def dispatch_def leaf1_def IMM_RIGHT_def mk_value_fields split: if_splits\<close>)

lemma bitwise_replays:
  assumes "numeric lt" "numeric rt"
  shows "replayed_leaf (LEARN_BITWISE i) (RESIDUAL_BITWISE lt rt i) (coded (leaf lt rt))"
  unfolding LEARN_BITWISE_shape
  by (rule two_coerced)
    (use assms in \<open>auto simp: RESIDUAL_BITWISE_def reads numeric_def leaf_def dispatch_def split: if_splits\<close>)

lemma shift_replays:
  assumes "numeric lt" "numeric rt"
  shows "replayed_leaf (LEARN_SHIFT flip) (RESIDUAL_SHIFT lt rt flip) (coded (leaf lt rt))"
proof -
  have "RESIDUAL_SHIFT lt rt flip = RESIDUAL_BITWISE lt rt (\<lambda>a b. if flip then lua55_shiftl a (- b) else lua55_shiftl a b)"
    by (intro ext) (simp add: RESIDUAL_SHIFT_def RESIDUAL_BITWISE_def)
  then show ?thesis using bitwise_replays [OF assms] by (simp add: LEARN_SHIFT_bitwise)
qed

lemma shift_imm_replays:
  assumes "numeric lt"
  shows "replayed_leaf lua55_learn_shli (RESIDUAL_REG_IMM_SHIFT lt (\<lambda>im v. lua55_shiftl im v)) (coded (leaf1 lt LUA55_VALUE_INTEGER))"
    and "replayed_leaf lua55_learn_shri (RESIDUAL_REG_IMM_SHIFT lt (\<lambda>im v. lua55_shiftl v (- im))) (coded (leaf1 lt LUA55_VALUE_INTEGER))"
  unfolding learn_shli_shape learn_shri_shape
  by (rule one_imm_coerced;
    use assms in \<open>auto simp: RESIDUAL_REG_IMM_SHIFT_def reads numeric_def leaf1_def guarded_int_def split: if_splits\<close>)+

text \<open>
  A bitwise opcode with a constant replays an integer when it does not work in place, and a float
  always.
\<close>

definition apart :: "v1_holes \<Rightarrow> bool" where
  "apart h \<longleftrightarrow> q_target h \<noteq> q_left h"

lemma bitwisek_replays:
  assumes "numeric lt" and "lt = LUA55_VALUE_INTEGER \<Longrightarrow> (\<And>h. P h \<Longrightarrow> apart h)"
  shows "replayed_leaf (LEARN_CONST_BITWISE i) (RESIDUAL_CONST_BITWISE lt i) (coded_if P (leaf1 lt LUA55_VALUE_INTEGER))"
  unfolding LEARN_CONST_BITWISE_shape
proof (rule picking_replays_if)
  fix h f s s' x e
  assume h: "P h" "based h" and al: "alike s s'" and x: "rd_one h f s = Some x"
    and pick: "const_bitwise_pick i h x s = Some (Accept e (q_quote_base h OR leaf1 lt LUA55_VALUE_INTEGER))"
  obtain t l ra where xx: "x = (t, l, ra)" by (cases x)
  from rd_one_alike [OF al x [unfolded xx]] obtain l' where l': "rd_one h f s' = Some (t, l', ra)" "norm_value l = norm_value l'" .
  from pick obtain i1 where i1: "to_int l = Some i1" and e: "e = Puts t (int_val (i i1 (q_const_int h)))"
    and q: "q_quote_base h OR (if apart h \<and> tag l = LUA55_VALUE_FLOAT then 2 else 1) = q_quote_base h OR leaf1 lt LUA55_VALUE_INTEGER"
    by (auto simp: const_bitwise_pick_def xx apart_def split: option.splits)
  note n = to_int_numeric [OF i1]
  have "(if apart h \<and> tag l = LUA55_VALUE_FLOAT then 2 else 1) = leaf1 lt LUA55_VALUE_INTEGER"
    using q h(2) by (simp add: based_eq split: if_splits)
  then have lt: "tag l = lt" using n assms h(1) by (auto simp: leaf1_def numeric_def split: if_splits)
  then have "guarded_int lt l' = Some i1" using i1 n l'(2) by (metis norm_numeric to_int_guarded)
  then have "RESIDUAL_CONST_BITWISE lt i h f s' = perform lua55_residual_next e f s'"
    using l' lt n e by (auto simp: RESIDUAL_CONST_BITWISE_def reads norm_numeric)
  then show "\<exists>e'. RESIDUAL_CONST_BITWISE lt i h f s' = perform lua55_residual_next e' f s' \<and> like_effect e e'" using e by (intro exI [of _ e]) simp
qed simp_all

subsection \<open>The bank\<close>

text \<open>
  The residuals by the quote that selects them, as \<open>build_opcode_arith_bank.lua\<close> and
  \<open>build_opcode_pow_bank.lua\<close> number them.
\<close>

definition two_register_rows :: "v1_row list" where
  "two_register_rows =
    [(lua55_learn_add, lua55_residual_add_ii, coded 1),
     (lua55_learn_add, lua55_residual_add_if, coded 2),
     (lua55_learn_add, lua55_residual_add_fi, coded 3),
     (lua55_learn_add, lua55_residual_add_ff, coded 4),
     (lua55_learn_sub, lua55_residual_sub_ii, coded 1),
     (lua55_learn_sub, lua55_residual_sub_if, coded 2),
     (lua55_learn_sub, lua55_residual_sub_fi, coded 3),
     (lua55_learn_sub, lua55_residual_sub_ff, coded 4),
     (lua55_learn_mul, lua55_residual_mul_ii, coded 1),
     (lua55_learn_mul, lua55_residual_mul_if, coded 2),
     (lua55_learn_mul, lua55_residual_mul_fi, coded 3),
     (lua55_learn_mul, lua55_residual_mul_ff, coded 4),
     (lua55_learn_mod, lua55_residual_mod_ii, coded 1),
     (lua55_learn_mod, lua55_residual_mod_if, coded 2),
     (lua55_learn_mod, lua55_residual_mod_fi, coded 3),
     (lua55_learn_mod, lua55_residual_mod_ff, coded 4),
     (lua55_learn_div, lua55_residual_div_ii, coded 1),
     (lua55_learn_div, lua55_residual_div_if, coded 2),
     (lua55_learn_div, lua55_residual_div_fi, coded 3),
     (lua55_learn_div, lua55_residual_div_ff, coded 4),
     (lua55_learn_idiv, lua55_residual_idiv_ii, coded 1),
     (lua55_learn_idiv, lua55_residual_idiv_if, coded 2),
     (lua55_learn_idiv, lua55_residual_idiv_fi, coded 3),
     (lua55_learn_idiv, lua55_residual_idiv_ff, coded 4),
     (lua55_learn_band, lua55_residual_band_ii, coded 1),
     (lua55_learn_band, lua55_residual_band_if, coded 2),
     (lua55_learn_band, lua55_residual_band_fi, coded 3),
     (lua55_learn_band, lua55_residual_band_ff, coded 4),
     (lua55_learn_bor, lua55_residual_bor_ii, coded 1),
     (lua55_learn_bor, lua55_residual_bor_if, coded 2),
     (lua55_learn_bor, lua55_residual_bor_fi, coded 3),
     (lua55_learn_bor, lua55_residual_bor_ff, coded 4),
     (lua55_learn_bxor, lua55_residual_bxor_ii, coded 1),
     (lua55_learn_bxor, lua55_residual_bxor_if, coded 2),
     (lua55_learn_bxor, lua55_residual_bxor_fi, coded 3),
     (lua55_learn_bxor, lua55_residual_bxor_ff, coded 4),
     (lua55_learn_shl, lua55_residual_shl_ii, coded 1),
     (lua55_learn_shl, lua55_residual_shl_if, coded 2),
     (lua55_learn_shl, lua55_residual_shl_fi, coded 3),
     (lua55_learn_shl, lua55_residual_shl_ff, coded 4),
     (lua55_learn_shr, lua55_residual_shr_ii, coded 1),
     (lua55_learn_shr, lua55_residual_shr_if, coded 2),
     (lua55_learn_shr, lua55_residual_shr_fi, coded 3),
     (lua55_learn_shr, lua55_residual_shr_ff, coded 4),
     (lua55_learn_pow, lua55_residual_pow_ii, coded 1),
     (lua55_learn_pow, lua55_residual_pow_if, coded 2),
     (lua55_learn_pow, lua55_residual_pow_fi, coded 3),
     (lua55_learn_pow, lua55_residual_pow_ff, coded 4)]"

definition constant_rows :: "v1_row list" where
  "constant_rows =
    [(lua55_learn_addk, lua55_residual_addk_ii, coded 1),
     (lua55_learn_addk, lua55_residual_addk_if, coded 2),
     (lua55_learn_addk, lua55_residual_addk_fi, coded 3),
     (lua55_learn_addk, lua55_residual_addk_ff, coded 4),
     (lua55_learn_subk, lua55_residual_subk_ii, coded 1),
     (lua55_learn_subk, lua55_residual_subk_if, coded 2),
     (lua55_learn_subk, lua55_residual_subk_fi, coded 3),
     (lua55_learn_subk, lua55_residual_subk_ff, coded 4),
     (lua55_learn_mulk, lua55_residual_mulk_ii, coded 1),
     (lua55_learn_mulk, lua55_residual_mulk_if, coded 2),
     (lua55_learn_mulk, lua55_residual_mulk_fi, coded 3),
     (lua55_learn_mulk, lua55_residual_mulk_ff, coded 4),
     (lua55_learn_modk, lua55_residual_modk_ii, coded 1),
     (lua55_learn_modk, lua55_residual_modk_if, coded 2),
     (lua55_learn_modk, lua55_residual_modk_fi, coded 3),
     (lua55_learn_modk, lua55_residual_modk_ff, coded 4),
     (lua55_learn_divk, lua55_residual_divk_ii, coded 1),
     (lua55_learn_divk, lua55_residual_divk_if, coded 2),
     (lua55_learn_divk, lua55_residual_divk_fi, coded 3),
     (lua55_learn_divk, lua55_residual_divk_ff, coded 4),
     (lua55_learn_idivk, lua55_residual_idivk_ii, coded 1),
     (lua55_learn_idivk, lua55_residual_idivk_if, coded 2),
     (lua55_learn_idivk, lua55_residual_idivk_fi, coded 3),
     (lua55_learn_idivk, lua55_residual_idivk_ff, coded 4),
     (lua55_learn_powk, lua55_residual_powk_ii, coded 1),
     (lua55_learn_powk, lua55_residual_powk_if, coded 2),
     (lua55_learn_powk, lua55_residual_powk_fi, coded 3),
     (lua55_learn_powk, lua55_residual_powk_ff, coded 4)]"

definition immediate_rows :: "v1_row list" where
  "immediate_rows =
    [(lua55_learn_addi, lua55_residual_addi_int, coded 1),
     (lua55_learn_addi, lua55_residual_addi_flt, coded 2),
     (lua55_learn_shli, lua55_residual_shli_int, coded 1),
     (lua55_learn_shli, lua55_residual_shli_flt, coded 2),
     (lua55_learn_shri, lua55_residual_shri_int, coded 1),
     (lua55_learn_shri, lua55_residual_shri_flt, coded 2)]"

definition constant_bitwise_rows :: "v1_row list" where
  "constant_bitwise_rows =
    [(lua55_learn_bandk, lua55_residual_bandk_i, coded_if apart 1),
     (lua55_learn_bandk, lua55_residual_bandk_f, coded 2),
     (lua55_learn_bork, lua55_residual_bork_i, coded_if apart 1),
     (lua55_learn_bork, lua55_residual_bork_f, coded 2),
     (lua55_learn_bxork, lua55_residual_bxork_i, coded_if apart 1),
     (lua55_learn_bxork, lua55_residual_bxork_f, coded 2)]"

definition v1_arith_bank :: "v1_row list" where
  "v1_arith_bank = two_register_rows @ constant_rows @ immediate_rows @ constant_bitwise_rows"

lemma leaf_numbers:
  "leaf LUA55_VALUE_INTEGER LUA55_VALUE_INTEGER = 1" "leaf LUA55_VALUE_INTEGER LUA55_VALUE_FLOAT = 2"
  "leaf LUA55_VALUE_FLOAT LUA55_VALUE_INTEGER = 3" "leaf LUA55_VALUE_FLOAT LUA55_VALUE_FLOAT = 4"
  "leaf1 LUA55_VALUE_INTEGER LUA55_VALUE_INTEGER = 1" "leaf1 LUA55_VALUE_FLOAT LUA55_VALUE_INTEGER = 2"
  "numeric LUA55_VALUE_INTEGER" "numeric LUA55_VALUE_FLOAT"
  by (simp_all add: leaf_def leaf1_def dispatch_def numeric_def)


text \<open>Each family with the tags of its leaves filled in.\<close>

lemmas binary_four =
  binary_replays [OF leaf_numbers(7) leaf_numbers(7), unfolded leaf_numbers]
  binary_replays [OF leaf_numbers(7) leaf_numbers(8), unfolded leaf_numbers]
  binary_replays [OF leaf_numbers(8) leaf_numbers(7), unfolded leaf_numbers]
  binary_replays [OF leaf_numbers(8) leaf_numbers(8), unfolded leaf_numbers]

lemmas div_four =
  div_replays [OF leaf_numbers(7) leaf_numbers(7), unfolded leaf_numbers]
  div_replays [OF leaf_numbers(7) leaf_numbers(8), unfolded leaf_numbers]
  div_replays [OF leaf_numbers(8) leaf_numbers(7), unfolded leaf_numbers]
  div_replays [OF leaf_numbers(8) leaf_numbers(8), unfolded leaf_numbers]

lemmas pow_four =
  pow_replays [OF leaf_numbers(7) leaf_numbers(7), unfolded leaf_numbers]
  pow_replays [OF leaf_numbers(7) leaf_numbers(8), unfolded leaf_numbers]
  pow_replays [OF leaf_numbers(8) leaf_numbers(7), unfolded leaf_numbers]
  pow_replays [OF leaf_numbers(8) leaf_numbers(8), unfolded leaf_numbers]

lemmas powk_four =
  powk_replays [OF leaf_numbers(7) leaf_numbers(7), unfolded leaf_numbers]
  powk_replays [OF leaf_numbers(7) leaf_numbers(8), unfolded leaf_numbers]
  powk_replays [OF leaf_numbers(8) leaf_numbers(7), unfolded leaf_numbers]
  powk_replays [OF leaf_numbers(8) leaf_numbers(8), unfolded leaf_numbers]

lemmas const_four =
  const_replays [OF leaf_numbers(7) leaf_numbers(7), unfolded leaf_numbers]
  const_replays [OF leaf_numbers(7) leaf_numbers(8), unfolded leaf_numbers]
  const_replays [OF leaf_numbers(8) leaf_numbers(7), unfolded leaf_numbers]
  const_replays [OF leaf_numbers(8) leaf_numbers(8), unfolded leaf_numbers]

lemmas bitwise_four =
  bitwise_replays [OF leaf_numbers(7) leaf_numbers(7), unfolded leaf_numbers]
  bitwise_replays [OF leaf_numbers(7) leaf_numbers(8), unfolded leaf_numbers]
  bitwise_replays [OF leaf_numbers(8) leaf_numbers(7), unfolded leaf_numbers]
  bitwise_replays [OF leaf_numbers(8) leaf_numbers(8), unfolded leaf_numbers]

lemmas shift_four =
  shift_replays [OF leaf_numbers(7) leaf_numbers(7), unfolded leaf_numbers]
  shift_replays [OF leaf_numbers(7) leaf_numbers(8), unfolded leaf_numbers]
  shift_replays [OF leaf_numbers(8) leaf_numbers(7), unfolded leaf_numbers]
  shift_replays [OF leaf_numbers(8) leaf_numbers(8), unfolded leaf_numbers]

lemmas one_two =
  imm_replays [OF leaf_numbers(7), unfolded leaf_numbers]
  imm_replays [OF leaf_numbers(8), unfolded leaf_numbers]
  shift_imm_replays(1) [OF leaf_numbers(7), unfolded leaf_numbers]
  shift_imm_replays(1) [OF leaf_numbers(8), unfolded leaf_numbers]
  shift_imm_replays(2) [OF leaf_numbers(7), unfolded leaf_numbers]
  shift_imm_replays(2) [OF leaf_numbers(8), unfolded leaf_numbers]

lemma divmod_four:
  assumes "g = (if zc then lua55_fmod else lua55_flt_idiv)"
  shows "replayed_leaf (LEARN_DIVMOD i zc) (RESIDUAL_BINARY LUA55_VALUE_INTEGER LUA55_VALUE_INTEGER i g g g True False) (coded 1)"
    "replayed_leaf (LEARN_DIVMOD i zc) (RESIDUAL_BINARY LUA55_VALUE_INTEGER LUA55_VALUE_FLOAT i g g g False False) (coded 2)"
    "replayed_leaf (LEARN_DIVMOD i zc) (RESIDUAL_BINARY LUA55_VALUE_FLOAT LUA55_VALUE_INTEGER i g g g False False) (coded 3)"
    "replayed_leaf (LEARN_DIVMOD i zc) (RESIDUAL_BINARY LUA55_VALUE_FLOAT LUA55_VALUE_FLOAT i g g g False False) (coded 4)"
  using divmod_replays [OF leaf_numbers(7) leaf_numbers(7) _ assms, of True i]
    divmod_replays [OF leaf_numbers(7) leaf_numbers(8) _ assms, of False i]
    divmod_replays [OF leaf_numbers(8) leaf_numbers(7) _ assms, of False i]
    divmod_replays [OF leaf_numbers(8) leaf_numbers(8) _ assms, of False i]
  by (simp_all add: leaf_numbers)

lemma divmodk_four:
  assumes "g = (if zc then lua55_fmod else lua55_flt_idiv)"
  shows "replayed_leaf (LEARN_CONST_DIVMOD i zc) (RESIDUAL_CONST_ARITH LUA55_VALUE_INTEGER LUA55_VALUE_INTEGER i g True) (coded 1)"
    "replayed_leaf (LEARN_CONST_DIVMOD i zc) (RESIDUAL_CONST_ARITH LUA55_VALUE_INTEGER LUA55_VALUE_FLOAT i g False) (coded 2)"
    "replayed_leaf (LEARN_CONST_DIVMOD i zc) (RESIDUAL_CONST_ARITH LUA55_VALUE_FLOAT LUA55_VALUE_INTEGER i g False) (coded 3)"
    "replayed_leaf (LEARN_CONST_DIVMOD i zc) (RESIDUAL_CONST_ARITH LUA55_VALUE_FLOAT LUA55_VALUE_FLOAT i g False) (coded 4)"
  using divmodk_replays [OF leaf_numbers(7) leaf_numbers(7) _ assms, of True i]
    divmodk_replays [OF leaf_numbers(7) leaf_numbers(8) _ assms, of False i]
    divmodk_replays [OF leaf_numbers(8) leaf_numbers(7) _ assms, of False i]
    divmodk_replays [OF leaf_numbers(8) leaf_numbers(8) _ assms, of False i]
  by (simp_all add: leaf_numbers)

lemma two_register_rows: "list_all replays two_register_rows"
  by (simp add: two_register_rows_def replays_def binary_four div_four pow_four bitwise_four shift_four divmod_four
    lua55_learn_add_def lua55_learn_sub_def lua55_learn_mul_def lua55_learn_mod_def lua55_learn_idiv_def lua55_learn_band_def lua55_learn_bor_def lua55_learn_bxor_def lua55_learn_shl_def lua55_learn_shr_def
    lua55_residual_add_ii_def lua55_residual_add_if_def lua55_residual_add_fi_def lua55_residual_add_ff_def lua55_residual_sub_ii_def lua55_residual_sub_if_def lua55_residual_sub_fi_def lua55_residual_sub_ff_def lua55_residual_mul_ii_def lua55_residual_mul_if_def lua55_residual_mul_fi_def lua55_residual_mul_ff_def lua55_residual_mod_ii_def lua55_residual_mod_if_def lua55_residual_mod_fi_def lua55_residual_mod_ff_def lua55_residual_div_ii_def lua55_residual_div_if_def lua55_residual_div_fi_def lua55_residual_div_ff_def lua55_residual_idiv_ii_def lua55_residual_idiv_if_def lua55_residual_idiv_fi_def lua55_residual_idiv_ff_def lua55_residual_band_ii_def lua55_residual_band_if_def lua55_residual_band_fi_def lua55_residual_band_ff_def lua55_residual_bor_ii_def lua55_residual_bor_if_def lua55_residual_bor_fi_def lua55_residual_bor_ff_def lua55_residual_bxor_ii_def lua55_residual_bxor_if_def lua55_residual_bxor_fi_def lua55_residual_bxor_ff_def lua55_residual_shl_ii_def lua55_residual_shl_if_def lua55_residual_shl_fi_def lua55_residual_shl_ff_def lua55_residual_shr_ii_def lua55_residual_shr_if_def lua55_residual_shr_fi_def lua55_residual_shr_ff_def lua55_residual_pow_ii_def lua55_residual_pow_if_def lua55_residual_pow_fi_def lua55_residual_pow_ff_def)

lemma constant_rows: "list_all replays constant_rows"
  by (simp add: constant_rows_def replays_def const_four powk_four divmodk_four
    lua55_learn_addk_def lua55_learn_subk_def lua55_learn_mulk_def lua55_learn_modk_def lua55_learn_divk_def lua55_learn_idivk_def
    lua55_residual_addk_ii_def lua55_residual_addk_if_def lua55_residual_addk_fi_def lua55_residual_addk_ff_def lua55_residual_subk_ii_def lua55_residual_subk_if_def lua55_residual_subk_fi_def lua55_residual_subk_ff_def lua55_residual_mulk_ii_def lua55_residual_mulk_if_def lua55_residual_mulk_fi_def lua55_residual_mulk_ff_def lua55_residual_modk_ii_def lua55_residual_modk_if_def lua55_residual_modk_fi_def lua55_residual_modk_ff_def lua55_residual_divk_ii_def lua55_residual_divk_if_def lua55_residual_divk_fi_def lua55_residual_divk_ff_def lua55_residual_idivk_ii_def lua55_residual_idivk_if_def lua55_residual_idivk_fi_def lua55_residual_idivk_ff_def lua55_residual_powk_ii_def lua55_residual_powk_if_def lua55_residual_powk_fi_def lua55_residual_powk_ff_def)

lemma bitwisek_two:
  "replayed_leaf (LEARN_CONST_BITWISE i) (RESIDUAL_CONST_BITWISE LUA55_VALUE_INTEGER i) (coded_if apart 1)"
  "replayed_leaf (LEARN_CONST_BITWISE i) (RESIDUAL_CONST_BITWISE LUA55_VALUE_FLOAT i) (coded 2)"
  using bitwisek_replays [OF leaf_numbers(7), of apart i] bitwisek_replays [OF leaf_numbers(8), of "\<lambda>_. True" i]
  by (simp_all add: leaf_numbers coded_if_True)

lemma immediate_rows: "list_all replays immediate_rows" "list_all replays constant_bitwise_rows"
  by (simp_all add: immediate_rows_def constant_bitwise_rows_def replays_def one_two bitwisek_two
    lua55_learn_addi_def lua55_learn_bandk_def lua55_learn_bork_def lua55_learn_bxork_def
    lua55_residual_addi_int_def lua55_residual_addi_flt_def lua55_residual_shli_int_def lua55_residual_shli_flt_def lua55_residual_shri_int_def lua55_residual_shri_flt_def
    lua55_residual_bandk_i_def lua55_residual_bandk_f_def lua55_residual_bork_i_def lua55_residual_bork_f_def lua55_residual_bxork_i_def lua55_residual_bxork_f_def)

lemma arith_bank_replays: "list_all replays v1_arith_bank"
  by (simp add: v1_arith_bank_def two_register_rows constant_rows immediate_rows)

end
