(* ===== verification/V1_Comparison.thy ===== *)
theory V1_Comparison
  imports V1_Arith_Replay
begin

text \<open>
  Comparisons and tests of the first generation (\<open>opcode_compare_stencils.c\<close>): one learner per opcode and
  accept bit, one residual per recorded leaf and accept bit, one self-selecting stencil per opcode.
  The quote of a learner is the number of the leaf, shifted, with the accept bit.
\<close>

unbundle bit_operations_syntax

subsection \<open>Learners\<close>

text \<open>
  A leaf with the outcome of the comparison, or no leaf when the pair of tags is not supported.
  Comparing two strings reads the guest heap.
\<close>

type_synonym v1_decision = "lua_value \<Rightarrow> lua_value \<Rightarrow> v2_state \<Rightarrow> (u32 \<times> bool) option option"

abbreviation decided :: "u32 \<Rightarrow> bool \<Rightarrow> (u32 \<times> bool) option option" where
  "decided lf cond \<equiv> Some (Some (lf, cond))"

definition string_leaf :: "u32 \<Rightarrow> u32 \<Rightarrow> u32" where
  "string_leaf lt rt = 5 + (if lt = LUA55_VALUE_LONG_STRING then 1 else 0) + (if rt = LUA55_VALUE_LONG_STRING then 2 else 0)"

definition quote_k :: "u32 \<Rightarrow> bool \<Rightarrow> u32" where
  "quote_k lf k = push_bit 1 lf OR of_bool k"

definition learn_branch :: "u64 \<Rightarrow> bool \<Rightarrow> (u32 \<times> bool) option \<Rightarrow> v1_stencil" where
  "learn_branch slot k d h f s =
     (case d of None \<Rightarrow> reject_quote slot h f s
      | Some (lf, cond) \<Rightarrow> do {
          s \<leftarrow> set_quote slot (q_quote_base h OR quote_k lf k) s;
          if cond = k then BRANCH_TAKEN h f s else lua55_learn_next f s})"

definition learn_two :: "v1_decision \<Rightarrow> bool \<Rightarrow> v1_stencil" where
  "learn_two decide k h f s = do {
     left \<leftarrow> reg (q_target h) f s;
     right \<leftarrow> reg (q_source h) f s;
     (slot, s) \<leftarrow> next_slot f s;
     l \<leftarrow> rd left s;
     r \<leftarrow> rd right s;
     d \<leftarrow> decide l r (mem s);
     learn_branch slot k d h f s}"

definition learn_one :: "(v1_holes \<Rightarrow> lua_value \<Rightarrow> v2_state \<Rightarrow> (u32 \<times> bool) option option) \<Rightarrow> bool \<Rightarrow> v1_stencil" where
  "learn_one decide k h f s = do {
     left \<leftarrow> reg (q_target h) f s;
     (slot, s) \<leftarrow> next_slot f s;
     l \<leftarrow> rd left s;
     d \<leftarrow> decide h l (mem s);
     learn_branch slot k d h f s}"

definition lt_decision :: v1_decision where
  "lt_decision l r m =
    (if tag l = LUA55_VALUE_INTEGER \<and> tag r = LUA55_VALUE_INTEGER then decided 1 (payload l <s payload r)
     else if tag l = LUA55_VALUE_INTEGER \<and> tag r = LUA55_VALUE_FLOAT then decided 2 (lt_int_float (payload l) (payload r))
     else if tag l = LUA55_VALUE_FLOAT \<and> tag r = LUA55_VALUE_INTEGER then decided 3 (lt_float_int (payload l) (payload r))
     else if tag l = LUA55_VALUE_FLOAT \<and> tag r = LUA55_VALUE_FLOAT then decided 4 (dbl_lt (payload l) (payload r))
     else if is_string_tag (tag l) \<and> is_string_tag (tag r)
     then do {c \<leftarrow> string_cmp (payload l) (payload r) m; decided (string_leaf (tag l) (tag r)) (c < 0)}
     else Some None)"

definition LEARN_REGRES :: "bool \<Rightarrow> v1_stencil" where
  "LEARN_REGRES = learn_two lt_decision"

definition eq_decision :: v1_decision where
  "eq_decision l r m =
    (if tag l = LUA55_VALUE_INTEGER \<and> tag r = LUA55_VALUE_INTEGER then decided 1 (payload l = payload r)
     else if tag l = LUA55_VALUE_INTEGER \<and> tag r = LUA55_VALUE_FLOAT then decided 2 (eq_int_float (payload l) (payload r))
     else if tag l = LUA55_VALUE_FLOAT \<and> tag r = LUA55_VALUE_INTEGER then decided 3 (eq_int_float (payload r) (payload l))
     else if tag l = LUA55_VALUE_FLOAT \<and> tag r = LUA55_VALUE_FLOAT then decided 4 (dbl_eq (payload l) (payload r))
     else if is_string_tag (tag l) \<and> is_string_tag (tag r)
     then do {c \<leftarrow> string_bytes_eq (payload l) (payload r) m; decided (string_leaf (tag l) (tag r)) c}
     else if tag l = LUA55_VALUE_NIL \<and> tag r = LUA55_VALUE_NIL then decided 9 True
     else if tag l = LUA55_VALUE_FALSE \<and> tag r = LUA55_VALUE_FALSE then decided 10 True
     else if tag l = LUA55_VALUE_TRUE \<and> tag r = LUA55_VALUE_TRUE then decided 11 True
     else if tag l \<le> LUA55_VALUE_LONG_STRING \<and> tag r \<le> LUA55_VALUE_LONG_STRING then decided 12 False
     else Some None)"

definition LEARN_EQ_K :: "bool \<Rightarrow> v1_stencil" where
  "LEARN_EQ_K = learn_two eq_decision"

definition le_decision :: v1_decision where
  "le_decision l r m =
    (if tag l = LUA55_VALUE_INTEGER \<and> tag r = LUA55_VALUE_INTEGER then decided 1 (payload l \<le>s payload r)
     else if tag l = LUA55_VALUE_INTEGER \<and> tag r = LUA55_VALUE_FLOAT then decided 2 (le_int_float (payload l) (payload r))
     else if tag l = LUA55_VALUE_FLOAT \<and> tag r = LUA55_VALUE_INTEGER then decided 3 (le_float_int (payload l) (payload r))
     else if tag l = LUA55_VALUE_FLOAT \<and> tag r = LUA55_VALUE_FLOAT then decided 4 (dbl_le (payload l) (payload r))
     else if is_string_tag (tag l) \<and> is_string_tag (tag r)
     then do {c \<leftarrow> string_cmp (payload l) (payload r) m; decided (string_leaf (tag l) (tag r)) (c \<le> 0)}
     else Some None)"

definition LEARN_LE_K :: "bool \<Rightarrow> v1_stencil" where
  "LEARN_LE_K = learn_two le_decision"

text \<open>A register and an immediate, which is converted when the register holds a float.\<close>

definition imm_decision :: "(u64 \<Rightarrow> u64 \<Rightarrow> bool) \<Rightarrow> (dbl \<Rightarrow> dbl \<Rightarrow> bool) \<Rightarrow> v1_holes \<Rightarrow> lua_value \<Rightarrow> v2_state \<Rightarrow> (u32 \<times> bool) option option" where
  "imm_decision int_op flt_op h l m =
    (if tag l = LUA55_VALUE_INTEGER then decided 1 (int_op (payload l) (q_int_imm h))
     else if tag l = LUA55_VALUE_FLOAT then decided 2 (flt_op (payload l) (c_double (q_int_imm h)))
     else Some None)"

definition LEARN_REG_IMM_OP :: "(u64 \<Rightarrow> u64 \<Rightarrow> bool) \<Rightarrow> (dbl \<Rightarrow> dbl \<Rightarrow> bool) \<Rightarrow> bool \<Rightarrow> v1_stencil" where
  "LEARN_REG_IMM_OP int_op flt_op = learn_one (imm_decision int_op flt_op)"

definition LEARN_REG_IMM :: "bool \<Rightarrow> v1_stencil" where
  "LEARN_REG_IMM = learn_one (imm_decision (\<lambda>a b. a <s b) dbl_lt)"

definition eqk_decision :: "v1_holes \<Rightarrow> lua_value \<Rightarrow> v2_state \<Rightarrow> (u32 \<times> bool) option option" where
  "eqk_decision h l m = (let ctag = q_const_tag h in
     if tag l = LUA55_VALUE_INTEGER \<and> ctag = LUA55_VALUE_INTEGER then decided 1 (payload l = q_const_int h)
     else if tag l = LUA55_VALUE_FLOAT \<and> ctag = LUA55_VALUE_FLOAT then decided 2 (dbl_eq (payload l) (q_const_flt h))
     else if tag l = LUA55_VALUE_INTEGER \<and> ctag = LUA55_VALUE_FLOAT then decided 3 (eq_int_float (payload l) (q_const_flt h))
     else if tag l = LUA55_VALUE_FLOAT \<and> ctag = LUA55_VALUE_INTEGER then decided 4 (eq_int_float (q_const_int h) (payload l))
     else if is_string_tag (tag l) \<and> is_string_tag ctag
     then do {c \<leftarrow> string_bytes_eq (payload l) (q_const_ref h) m; decided (string_leaf (tag l) ctag) c}
     else if tag l = ctag \<and> ctag \<le> LUA55_VALUE_TRUE then decided (9 + ctag) True
     else Some None)"

definition LEARN_EQK_K :: "bool \<Rightarrow> v1_stencil" where
  "LEARN_EQK_K = learn_one eqk_decision"

definition LEARN_TRUTHY :: "bool \<Rightarrow> v1_stencil" where
  "LEARN_TRUTHY = learn_one (\<lambda>h l m. decided 1 (truthy (tag l)))"

definition LEARN_TESTSET_K :: "bool \<Rightarrow> v1_stencil" where
  "LEARN_TESTSET_K k h f s = do {
     left \<leftarrow> reg (q_target h) f s;
     right \<leftarrow> reg (q_source h) f s;
     (slot, s) \<leftarrow> next_slot f s;
     r \<leftarrow> rd right s;
     s \<leftarrow> set_quote slot (q_quote_base h OR quote_k 1 k) s;
     if truthy (tag r) = k then do {s \<leftarrow> on_mem (wr_val left r) s; BRANCH_TAKEN h f s}
     else lua55_learn_next f s}"

definition lua55_learn_eq_k0 :: v1_stencil where
  "lua55_learn_eq_k0 = LEARN_EQ_K False"

definition lua55_learn_eq_k1 :: v1_stencil where
  "lua55_learn_eq_k1 = LEARN_EQ_K True"

definition lua55_learn_lt_k0 :: v1_stencil where
  "lua55_learn_lt_k0 = LEARN_REGRES False"

definition lua55_learn_lt_k1 :: v1_stencil where
  "lua55_learn_lt_k1 = LEARN_REGRES True"

definition lua55_learn_le_k0 :: v1_stencil where
  "lua55_learn_le_k0 = LEARN_LE_K False"

definition lua55_learn_le_k1 :: v1_stencil where
  "lua55_learn_le_k1 = LEARN_LE_K True"

definition lua55_learn_lti_k0 :: v1_stencil where
  "lua55_learn_lti_k0 = LEARN_REG_IMM False"

definition lua55_learn_lti_k1 :: v1_stencil where
  "lua55_learn_lti_k1 = LEARN_REG_IMM True"

definition lua55_learn_eqi_k0 :: v1_stencil where
  "lua55_learn_eqi_k0 = LEARN_REG_IMM_OP (=) dbl_eq False"

definition lua55_learn_eqi_k1 :: v1_stencil where
  "lua55_learn_eqi_k1 = LEARN_REG_IMM_OP (=) dbl_eq True"

definition lua55_learn_lei_k0 :: v1_stencil where
  "lua55_learn_lei_k0 = LEARN_REG_IMM_OP (\<lambda>a b. a \<le>s b) dbl_le False"

definition lua55_learn_lei_k1 :: v1_stencil where
  "lua55_learn_lei_k1 = LEARN_REG_IMM_OP (\<lambda>a b. a \<le>s b) dbl_le True"

definition lua55_learn_gti_k0 :: v1_stencil where
  "lua55_learn_gti_k0 = LEARN_REG_IMM_OP (\<lambda>a b. b <s a) (\<lambda>a b. dbl_lt b a) False"

definition lua55_learn_gti_k1 :: v1_stencil where
  "lua55_learn_gti_k1 = LEARN_REG_IMM_OP (\<lambda>a b. b <s a) (\<lambda>a b. dbl_lt b a) True"

definition lua55_learn_gei_k0 :: v1_stencil where
  "lua55_learn_gei_k0 = LEARN_REG_IMM_OP (\<lambda>a b. b \<le>s a) (\<lambda>a b. dbl_le b a) False"

definition lua55_learn_gei_k1 :: v1_stencil where
  "lua55_learn_gei_k1 = LEARN_REG_IMM_OP (\<lambda>a b. b \<le>s a) (\<lambda>a b. dbl_le b a) True"

definition lua55_learn_eqk_k0 :: v1_stencil where
  "lua55_learn_eqk_k0 = LEARN_EQK_K False"

definition lua55_learn_eqk_k1 :: v1_stencil where
  "lua55_learn_eqk_k1 = LEARN_EQK_K True"

definition lua55_learn_test_k0 :: v1_stencil where
  "lua55_learn_test_k0 = LEARN_TRUTHY False"

definition lua55_learn_test_k1 :: v1_stencil where
  "lua55_learn_test_k1 = LEARN_TRUTHY True"

definition lua55_learn_teskset_k0 :: v1_stencil where
  "lua55_learn_teskset_k0 = LEARN_TESTSET_K False"

definition lua55_learn_teskset_k1 :: v1_stencil where
  "lua55_learn_teskset_k1 = LEARN_TESTSET_K True"

subsection \<open>Residuals\<close>

definition residual_branch :: "bool \<Rightarrow> bool \<Rightarrow> v1_stencil" where
  "residual_branch k cond h f s = (if (if k then cond else \<not> cond) then BRANCH_TAKEN h f s else lua55_residual_next f s)"

definition RESIDUAL_K :: "bool \<Rightarrow> (lua_value \<Rightarrow> lua_value \<Rightarrow> bool) \<Rightarrow> (lua_value \<Rightarrow> lua_value \<Rightarrow> v2_state \<Rightarrow> bool option) \<Rightarrow> v1_stencil" where
  "RESIDUAL_K k guard cond_expr h f s = do {
     left \<leftarrow> reg (q_target h) f s;
     right \<leftarrow> reg (q_source h) f s;
     l \<leftarrow> rd left s;
     r \<leftarrow> rd right s;
     if \<not> guard l r then GUARD_FAILED h f s
     else do {
       cond \<leftarrow> cond_expr l r (mem s);
       residual_branch k cond h f s}}"

definition TAG_PAIR_LT :: "u32 \<Rightarrow> u32 \<Rightarrow> lua_value \<Rightarrow> lua_value \<Rightarrow> bool" where
  "TAG_PAIR_LT lt rt l r \<longleftrightarrow> tag l = lt \<and> tag r = rt"

definition STRING_PAIR :: "lua_value \<Rightarrow> lua_value \<Rightarrow> bool" where
  "STRING_PAIR l r \<longleftrightarrow> is_string_tag (tag l) \<and> is_string_tag (tag r)"

definition LEFT_LONG :: "lua_value \<Rightarrow> lua_value \<Rightarrow> bool" where
  "LEFT_LONG l r \<longleftrightarrow> tag l = LUA55_VALUE_LONG_STRING"

definition RIGHT_LONG :: "lua_value \<Rightarrow> lua_value \<Rightarrow> bool" where
  "RIGHT_LONG l r \<longleftrightarrow> tag r = LUA55_VALUE_LONG_STRING"

definition lua55_residual_lt_ii_k0 :: v1_stencil where
  "lua55_residual_lt_ii_k0 = RESIDUAL_K False (TAG_PAIR_LT LUA55_VALUE_INTEGER LUA55_VALUE_INTEGER) (\<lambda>l r m. Some (payload l <s payload r))"

definition lua55_residual_lt_ii_k1 :: v1_stencil where
  "lua55_residual_lt_ii_k1 = RESIDUAL_K True (TAG_PAIR_LT LUA55_VALUE_INTEGER LUA55_VALUE_INTEGER) (\<lambda>l r m. Some (payload l <s payload r))"

definition lua55_residual_lt_if_k0 :: v1_stencil where
  "lua55_residual_lt_if_k0 = RESIDUAL_K False (TAG_PAIR_LT LUA55_VALUE_INTEGER LUA55_VALUE_FLOAT) (\<lambda>l r m. Some (lt_int_float (payload l) (payload r)))"

definition lua55_residual_lt_if_k1 :: v1_stencil where
  "lua55_residual_lt_if_k1 = RESIDUAL_K True (TAG_PAIR_LT LUA55_VALUE_INTEGER LUA55_VALUE_FLOAT) (\<lambda>l r m. Some (lt_int_float (payload l) (payload r)))"

definition lua55_residual_lt_fi_k0 :: v1_stencil where
  "lua55_residual_lt_fi_k0 = RESIDUAL_K False (TAG_PAIR_LT LUA55_VALUE_FLOAT LUA55_VALUE_INTEGER) (\<lambda>l r m. Some (lt_float_int (payload l) (payload r)))"

definition lua55_residual_lt_fi_k1 :: v1_stencil where
  "lua55_residual_lt_fi_k1 = RESIDUAL_K True (TAG_PAIR_LT LUA55_VALUE_FLOAT LUA55_VALUE_INTEGER) (\<lambda>l r m. Some (lt_float_int (payload l) (payload r)))"

definition lua55_residual_lt_ff_k0 :: v1_stencil where
  "lua55_residual_lt_ff_k0 = RESIDUAL_K False (TAG_PAIR_LT LUA55_VALUE_FLOAT LUA55_VALUE_FLOAT) (\<lambda>l r m. Some (dbl_lt (payload l) (payload r)))"

definition lua55_residual_lt_ff_k1 :: v1_stencil where
  "lua55_residual_lt_ff_k1 = RESIDUAL_K True (TAG_PAIR_LT LUA55_VALUE_FLOAT LUA55_VALUE_FLOAT) (\<lambda>l r m. Some (dbl_lt (payload l) (payload r)))"

definition lua55_residual_lt_ss_k0 :: v1_stencil where
  "lua55_residual_lt_ss_k0 = RESIDUAL_K False (\<lambda>l r. STRING_PAIR l r \<and> \<not> LEFT_LONG l r \<and> \<not> RIGHT_LONG l r) (\<lambda>l r m. map_option (\<lambda>c. c < 0) (string_cmp (payload l) (payload r) m))"

definition lua55_residual_lt_ss_k1 :: v1_stencil where
  "lua55_residual_lt_ss_k1 = RESIDUAL_K True (\<lambda>l r. STRING_PAIR l r \<and> \<not> LEFT_LONG l r \<and> \<not> RIGHT_LONG l r) (\<lambda>l r m. map_option (\<lambda>c. c < 0) (string_cmp (payload l) (payload r) m))"

definition lua55_residual_lt_sl_k0 :: v1_stencil where
  "lua55_residual_lt_sl_k0 = RESIDUAL_K False (\<lambda>l r. STRING_PAIR l r \<and> \<not> LEFT_LONG l r \<and> RIGHT_LONG l r) (\<lambda>l r m. map_option (\<lambda>c. c < 0) (string_cmp (payload l) (payload r) m))"

definition lua55_residual_lt_sl_k1 :: v1_stencil where
  "lua55_residual_lt_sl_k1 = RESIDUAL_K True (\<lambda>l r. STRING_PAIR l r \<and> \<not> LEFT_LONG l r \<and> RIGHT_LONG l r) (\<lambda>l r m. map_option (\<lambda>c. c < 0) (string_cmp (payload l) (payload r) m))"

definition lua55_residual_lt_ls_k0 :: v1_stencil where
  "lua55_residual_lt_ls_k0 = RESIDUAL_K False (\<lambda>l r. STRING_PAIR l r \<and> LEFT_LONG l r \<and> \<not> RIGHT_LONG l r) (\<lambda>l r m. map_option (\<lambda>c. c < 0) (string_cmp (payload l) (payload r) m))"

definition lua55_residual_lt_ls_k1 :: v1_stencil where
  "lua55_residual_lt_ls_k1 = RESIDUAL_K True (\<lambda>l r. STRING_PAIR l r \<and> LEFT_LONG l r \<and> \<not> RIGHT_LONG l r) (\<lambda>l r m. map_option (\<lambda>c. c < 0) (string_cmp (payload l) (payload r) m))"

definition lua55_residual_lt_ll_k0 :: v1_stencil where
  "lua55_residual_lt_ll_k0 = RESIDUAL_K False (\<lambda>l r. STRING_PAIR l r \<and> LEFT_LONG l r \<and> RIGHT_LONG l r) (\<lambda>l r m. map_option (\<lambda>c. c < 0) (string_cmp (payload l) (payload r) m))"

definition lua55_residual_lt_ll_k1 :: v1_stencil where
  "lua55_residual_lt_ll_k1 = RESIDUAL_K True (\<lambda>l r. STRING_PAIR l r \<and> LEFT_LONG l r \<and> RIGHT_LONG l r) (\<lambda>l r m. map_option (\<lambda>c. c < 0) (string_cmp (payload l) (payload r) m))"

definition lua55_residual_le_ii_k0 :: v1_stencil where
  "lua55_residual_le_ii_k0 = RESIDUAL_K False (TAG_PAIR_LT LUA55_VALUE_INTEGER LUA55_VALUE_INTEGER) (\<lambda>l r m. Some (payload l \<le>s payload r))"

definition lua55_residual_le_ii_k1 :: v1_stencil where
  "lua55_residual_le_ii_k1 = RESIDUAL_K True (TAG_PAIR_LT LUA55_VALUE_INTEGER LUA55_VALUE_INTEGER) (\<lambda>l r m. Some (payload l \<le>s payload r))"

definition lua55_residual_le_if_k0 :: v1_stencil where
  "lua55_residual_le_if_k0 = RESIDUAL_K False (TAG_PAIR_LT LUA55_VALUE_INTEGER LUA55_VALUE_FLOAT) (\<lambda>l r m. Some (le_int_float (payload l) (payload r)))"

definition lua55_residual_le_if_k1 :: v1_stencil where
  "lua55_residual_le_if_k1 = RESIDUAL_K True (TAG_PAIR_LT LUA55_VALUE_INTEGER LUA55_VALUE_FLOAT) (\<lambda>l r m. Some (le_int_float (payload l) (payload r)))"

definition lua55_residual_le_fi_k0 :: v1_stencil where
  "lua55_residual_le_fi_k0 = RESIDUAL_K False (TAG_PAIR_LT LUA55_VALUE_FLOAT LUA55_VALUE_INTEGER) (\<lambda>l r m. Some (le_float_int (payload l) (payload r)))"

definition lua55_residual_le_fi_k1 :: v1_stencil where
  "lua55_residual_le_fi_k1 = RESIDUAL_K True (TAG_PAIR_LT LUA55_VALUE_FLOAT LUA55_VALUE_INTEGER) (\<lambda>l r m. Some (le_float_int (payload l) (payload r)))"

definition lua55_residual_le_ff_k0 :: v1_stencil where
  "lua55_residual_le_ff_k0 = RESIDUAL_K False (TAG_PAIR_LT LUA55_VALUE_FLOAT LUA55_VALUE_FLOAT) (\<lambda>l r m. Some (dbl_le (payload l) (payload r)))"

definition lua55_residual_le_ff_k1 :: v1_stencil where
  "lua55_residual_le_ff_k1 = RESIDUAL_K True (TAG_PAIR_LT LUA55_VALUE_FLOAT LUA55_VALUE_FLOAT) (\<lambda>l r m. Some (dbl_le (payload l) (payload r)))"

definition lua55_residual_le_ss_k0 :: v1_stencil where
  "lua55_residual_le_ss_k0 = RESIDUAL_K False (\<lambda>l r. STRING_PAIR l r \<and> \<not> LEFT_LONG l r \<and> \<not> RIGHT_LONG l r) (\<lambda>l r m. map_option (\<lambda>c. c \<le> 0) (string_cmp (payload l) (payload r) m))"

definition lua55_residual_le_ss_k1 :: v1_stencil where
  "lua55_residual_le_ss_k1 = RESIDUAL_K True (\<lambda>l r. STRING_PAIR l r \<and> \<not> LEFT_LONG l r \<and> \<not> RIGHT_LONG l r) (\<lambda>l r m. map_option (\<lambda>c. c \<le> 0) (string_cmp (payload l) (payload r) m))"

definition lua55_residual_le_sl_k0 :: v1_stencil where
  "lua55_residual_le_sl_k0 = RESIDUAL_K False (\<lambda>l r. STRING_PAIR l r \<and> \<not> LEFT_LONG l r \<and> RIGHT_LONG l r) (\<lambda>l r m. map_option (\<lambda>c. c \<le> 0) (string_cmp (payload l) (payload r) m))"

definition lua55_residual_le_sl_k1 :: v1_stencil where
  "lua55_residual_le_sl_k1 = RESIDUAL_K True (\<lambda>l r. STRING_PAIR l r \<and> \<not> LEFT_LONG l r \<and> RIGHT_LONG l r) (\<lambda>l r m. map_option (\<lambda>c. c \<le> 0) (string_cmp (payload l) (payload r) m))"

definition lua55_residual_le_ls_k0 :: v1_stencil where
  "lua55_residual_le_ls_k0 = RESIDUAL_K False (\<lambda>l r. STRING_PAIR l r \<and> LEFT_LONG l r \<and> \<not> RIGHT_LONG l r) (\<lambda>l r m. map_option (\<lambda>c. c \<le> 0) (string_cmp (payload l) (payload r) m))"

definition lua55_residual_le_ls_k1 :: v1_stencil where
  "lua55_residual_le_ls_k1 = RESIDUAL_K True (\<lambda>l r. STRING_PAIR l r \<and> LEFT_LONG l r \<and> \<not> RIGHT_LONG l r) (\<lambda>l r m. map_option (\<lambda>c. c \<le> 0) (string_cmp (payload l) (payload r) m))"

definition lua55_residual_le_ll_k0 :: v1_stencil where
  "lua55_residual_le_ll_k0 = RESIDUAL_K False (\<lambda>l r. STRING_PAIR l r \<and> LEFT_LONG l r \<and> RIGHT_LONG l r) (\<lambda>l r m. map_option (\<lambda>c. c \<le> 0) (string_cmp (payload l) (payload r) m))"

definition lua55_residual_le_ll_k1 :: v1_stencil where
  "lua55_residual_le_ll_k1 = RESIDUAL_K True (\<lambda>l r. STRING_PAIR l r \<and> LEFT_LONG l r \<and> RIGHT_LONG l r) (\<lambda>l r m. map_option (\<lambda>c. c \<le> 0) (string_cmp (payload l) (payload r) m))"

definition lua55_residual_eq_ii_k0 :: v1_stencil where
  "lua55_residual_eq_ii_k0 = RESIDUAL_K False (TAG_PAIR_LT LUA55_VALUE_INTEGER LUA55_VALUE_INTEGER) (\<lambda>l r m. Some (payload l = payload r))"

definition lua55_residual_eq_ii_k1 :: v1_stencil where
  "lua55_residual_eq_ii_k1 = RESIDUAL_K True (TAG_PAIR_LT LUA55_VALUE_INTEGER LUA55_VALUE_INTEGER) (\<lambda>l r m. Some (payload l = payload r))"

definition lua55_residual_eq_if_k0 :: v1_stencil where
  "lua55_residual_eq_if_k0 = RESIDUAL_K False (TAG_PAIR_LT LUA55_VALUE_INTEGER LUA55_VALUE_FLOAT) (\<lambda>l r m. Some (eq_int_float (payload l) (payload r)))"

definition lua55_residual_eq_if_k1 :: v1_stencil where
  "lua55_residual_eq_if_k1 = RESIDUAL_K True (TAG_PAIR_LT LUA55_VALUE_INTEGER LUA55_VALUE_FLOAT) (\<lambda>l r m. Some (eq_int_float (payload l) (payload r)))"

definition lua55_residual_eq_fi_k0 :: v1_stencil where
  "lua55_residual_eq_fi_k0 = RESIDUAL_K False (TAG_PAIR_LT LUA55_VALUE_FLOAT LUA55_VALUE_INTEGER) (\<lambda>l r m. Some (eq_int_float (payload r) (payload l)))"

definition lua55_residual_eq_fi_k1 :: v1_stencil where
  "lua55_residual_eq_fi_k1 = RESIDUAL_K True (TAG_PAIR_LT LUA55_VALUE_FLOAT LUA55_VALUE_INTEGER) (\<lambda>l r m. Some (eq_int_float (payload r) (payload l)))"

definition lua55_residual_eq_ff_k0 :: v1_stencil where
  "lua55_residual_eq_ff_k0 = RESIDUAL_K False (TAG_PAIR_LT LUA55_VALUE_FLOAT LUA55_VALUE_FLOAT) (\<lambda>l r m. Some (dbl_eq (payload l) (payload r)))"

definition lua55_residual_eq_ff_k1 :: v1_stencil where
  "lua55_residual_eq_ff_k1 = RESIDUAL_K True (TAG_PAIR_LT LUA55_VALUE_FLOAT LUA55_VALUE_FLOAT) (\<lambda>l r m. Some (dbl_eq (payload l) (payload r)))"

definition lua55_residual_eq_ss_k0 :: v1_stencil where
  "lua55_residual_eq_ss_k0 = RESIDUAL_K False (\<lambda>l r. STRING_PAIR l r \<and> \<not> LEFT_LONG l r \<and> \<not> RIGHT_LONG l r) (\<lambda>l r m. string_bytes_eq (payload l) (payload r) m)"

definition lua55_residual_eq_ss_k1 :: v1_stencil where
  "lua55_residual_eq_ss_k1 = RESIDUAL_K True (\<lambda>l r. STRING_PAIR l r \<and> \<not> LEFT_LONG l r \<and> \<not> RIGHT_LONG l r) (\<lambda>l r m. string_bytes_eq (payload l) (payload r) m)"

definition lua55_residual_eq_sl_k0 :: v1_stencil where
  "lua55_residual_eq_sl_k0 = RESIDUAL_K False (\<lambda>l r. STRING_PAIR l r \<and> \<not> LEFT_LONG l r \<and> RIGHT_LONG l r) (\<lambda>l r m. string_bytes_eq (payload l) (payload r) m)"

definition lua55_residual_eq_sl_k1 :: v1_stencil where
  "lua55_residual_eq_sl_k1 = RESIDUAL_K True (\<lambda>l r. STRING_PAIR l r \<and> \<not> LEFT_LONG l r \<and> RIGHT_LONG l r) (\<lambda>l r m. string_bytes_eq (payload l) (payload r) m)"

definition lua55_residual_eq_ls_k0 :: v1_stencil where
  "lua55_residual_eq_ls_k0 = RESIDUAL_K False (\<lambda>l r. STRING_PAIR l r \<and> LEFT_LONG l r \<and> \<not> RIGHT_LONG l r) (\<lambda>l r m. string_bytes_eq (payload l) (payload r) m)"

definition lua55_residual_eq_ls_k1 :: v1_stencil where
  "lua55_residual_eq_ls_k1 = RESIDUAL_K True (\<lambda>l r. STRING_PAIR l r \<and> LEFT_LONG l r \<and> \<not> RIGHT_LONG l r) (\<lambda>l r m. string_bytes_eq (payload l) (payload r) m)"

definition lua55_residual_eq_ll_k0 :: v1_stencil where
  "lua55_residual_eq_ll_k0 = RESIDUAL_K False (\<lambda>l r. STRING_PAIR l r \<and> LEFT_LONG l r \<and> RIGHT_LONG l r) (\<lambda>l r m. string_bytes_eq (payload l) (payload r) m)"

definition lua55_residual_eq_ll_k1 :: v1_stencil where
  "lua55_residual_eq_ll_k1 = RESIDUAL_K True (\<lambda>l r. STRING_PAIR l r \<and> LEFT_LONG l r \<and> RIGHT_LONG l r) (\<lambda>l r m. string_bytes_eq (payload l) (payload r) m)"

definition lua55_residual_eq_nn_k0 :: v1_stencil where
  "lua55_residual_eq_nn_k0 = RESIDUAL_K False (TAG_PAIR_LT LUA55_VALUE_NIL LUA55_VALUE_NIL) (\<lambda>l r m. Some True)"

definition lua55_residual_eq_nn_k1 :: v1_stencil where
  "lua55_residual_eq_nn_k1 = RESIDUAL_K True (TAG_PAIR_LT LUA55_VALUE_NIL LUA55_VALUE_NIL) (\<lambda>l r m. Some True)"

definition lua55_residual_eq_bb_k0 :: v1_stencil where
  "lua55_residual_eq_bb_k0 = RESIDUAL_K False (TAG_PAIR_LT LUA55_VALUE_FALSE LUA55_VALUE_FALSE) (\<lambda>l r m. Some True)"

definition lua55_residual_eq_bb_k1 :: v1_stencil where
  "lua55_residual_eq_bb_k1 = RESIDUAL_K True (TAG_PAIR_LT LUA55_VALUE_FALSE LUA55_VALUE_FALSE) (\<lambda>l r m. Some True)"

definition lua55_residual_eq_tt_k0 :: v1_stencil where
  "lua55_residual_eq_tt_k0 = RESIDUAL_K False (TAG_PAIR_LT LUA55_VALUE_TRUE LUA55_VALUE_TRUE) (\<lambda>l r m. Some True)"

definition lua55_residual_eq_tt_k1 :: v1_stencil where
  "lua55_residual_eq_tt_k1 = RESIDUAL_K True (TAG_PAIR_LT LUA55_VALUE_TRUE LUA55_VALUE_TRUE) (\<lambda>l r m. Some True)"

definition lua55_residual_eq_neq_k0 :: v1_stencil where
  "lua55_residual_eq_neq_k0 = RESIDUAL_K False (\<lambda>l r. tag l \<le> LUA55_VALUE_LONG_STRING \<and> tag r \<le> LUA55_VALUE_LONG_STRING \<and> tag l \<noteq> tag r) (\<lambda>l r m. Some False)"

definition lua55_residual_eq_neq_k1 :: v1_stencil where
  "lua55_residual_eq_neq_k1 = RESIDUAL_K True (\<lambda>l r. tag l \<le> LUA55_VALUE_LONG_STRING \<and> tag r \<le> LUA55_VALUE_LONG_STRING \<and> tag l \<noteq> tag r) (\<lambda>l r m. Some False)"

text \<open>A register and an immediate.\<close>

definition RESIDUAL_REG_IMM :: "bool \<Rightarrow> u32 \<Rightarrow> (u64 \<Rightarrow> u64 \<Rightarrow> bool) \<Rightarrow> v1_stencil" where
  "RESIDUAL_REG_IMM k want cond_expr h f s = do {
     left \<leftarrow> reg (q_target h) f s;
     l \<leftarrow> rd left s;
     if tag l \<noteq> want then GUARD_FAILED h f s
     else residual_branch k (cond_expr (payload l) (q_int_imm h)) h f s}"

definition lua55_residual_eqi_int_k0 :: v1_stencil where
  "lua55_residual_eqi_int_k0 = RESIDUAL_REG_IMM False LUA55_VALUE_INTEGER (=)"

definition lua55_residual_eqi_int_k1 :: v1_stencil where
  "lua55_residual_eqi_int_k1 = RESIDUAL_REG_IMM True LUA55_VALUE_INTEGER (=)"

definition lua55_residual_eqi_flt_k0 :: v1_stencil where
  "lua55_residual_eqi_flt_k0 = RESIDUAL_REG_IMM False LUA55_VALUE_FLOAT (\<lambda>a b. dbl_eq a (c_double b))"

definition lua55_residual_eqi_flt_k1 :: v1_stencil where
  "lua55_residual_eqi_flt_k1 = RESIDUAL_REG_IMM True LUA55_VALUE_FLOAT (\<lambda>a b. dbl_eq a (c_double b))"

definition lua55_residual_lti_int_k0 :: v1_stencil where
  "lua55_residual_lti_int_k0 = RESIDUAL_REG_IMM False LUA55_VALUE_INTEGER (\<lambda>a b. a <s b)"

definition lua55_residual_lti_int_k1 :: v1_stencil where
  "lua55_residual_lti_int_k1 = RESIDUAL_REG_IMM True LUA55_VALUE_INTEGER (\<lambda>a b. a <s b)"

definition lua55_residual_lti_flt_k0 :: v1_stencil where
  "lua55_residual_lti_flt_k0 = RESIDUAL_REG_IMM False LUA55_VALUE_FLOAT (\<lambda>a b. dbl_lt a (c_double b))"

definition lua55_residual_lti_flt_k1 :: v1_stencil where
  "lua55_residual_lti_flt_k1 = RESIDUAL_REG_IMM True LUA55_VALUE_FLOAT (\<lambda>a b. dbl_lt a (c_double b))"

definition lua55_residual_lei_int_k0 :: v1_stencil where
  "lua55_residual_lei_int_k0 = RESIDUAL_REG_IMM False LUA55_VALUE_INTEGER (\<lambda>a b. a \<le>s b)"

definition lua55_residual_lei_int_k1 :: v1_stencil where
  "lua55_residual_lei_int_k1 = RESIDUAL_REG_IMM True LUA55_VALUE_INTEGER (\<lambda>a b. a \<le>s b)"

definition lua55_residual_lei_flt_k0 :: v1_stencil where
  "lua55_residual_lei_flt_k0 = RESIDUAL_REG_IMM False LUA55_VALUE_FLOAT (\<lambda>a b. dbl_le a (c_double b))"

definition lua55_residual_lei_flt_k1 :: v1_stencil where
  "lua55_residual_lei_flt_k1 = RESIDUAL_REG_IMM True LUA55_VALUE_FLOAT (\<lambda>a b. dbl_le a (c_double b))"

definition lua55_residual_gti_int_k0 :: v1_stencil where
  "lua55_residual_gti_int_k0 = RESIDUAL_REG_IMM False LUA55_VALUE_INTEGER (\<lambda>a b. b <s a)"

definition lua55_residual_gti_int_k1 :: v1_stencil where
  "lua55_residual_gti_int_k1 = RESIDUAL_REG_IMM True LUA55_VALUE_INTEGER (\<lambda>a b. b <s a)"

definition lua55_residual_gti_flt_k0 :: v1_stencil where
  "lua55_residual_gti_flt_k0 = RESIDUAL_REG_IMM False LUA55_VALUE_FLOAT (\<lambda>a b. dbl_lt (c_double b) a)"

definition lua55_residual_gti_flt_k1 :: v1_stencil where
  "lua55_residual_gti_flt_k1 = RESIDUAL_REG_IMM True LUA55_VALUE_FLOAT (\<lambda>a b. dbl_lt (c_double b) a)"

definition lua55_residual_gei_int_k0 :: v1_stencil where
  "lua55_residual_gei_int_k0 = RESIDUAL_REG_IMM False LUA55_VALUE_INTEGER (\<lambda>a b. b \<le>s a)"

definition lua55_residual_gei_int_k1 :: v1_stencil where
  "lua55_residual_gei_int_k1 = RESIDUAL_REG_IMM True LUA55_VALUE_INTEGER (\<lambda>a b. b \<le>s a)"

definition lua55_residual_gei_flt_k0 :: v1_stencil where
  "lua55_residual_gei_flt_k0 = RESIDUAL_REG_IMM False LUA55_VALUE_FLOAT (\<lambda>a b. dbl_le (c_double b) a)"

definition lua55_residual_gei_flt_k1 :: v1_stencil where
  "lua55_residual_gei_flt_k1 = RESIDUAL_REG_IMM True LUA55_VALUE_FLOAT (\<lambda>a b. dbl_le (c_double b) a)"

text \<open>A register and a constant; the tag of the constant was fixed when the leaf was chosen.\<close>

definition RESIDUAL_EQK :: "bool \<Rightarrow> (u32 \<Rightarrow> bool) \<Rightarrow> (v1_holes \<Rightarrow> u64 \<Rightarrow> v2_state \<Rightarrow> bool option) \<Rightarrow> v1_stencil" where
  "RESIDUAL_EQK k guard cond_expr h f s = do {
     left \<leftarrow> reg (q_target h) f s;
     l \<leftarrow> rd left s;
     if \<not> guard (tag l) then GUARD_FAILED h f s
     else do {
       cond \<leftarrow> cond_expr h (payload l) (mem s);
       residual_branch k cond h f s}}"

definition lua55_residual_eqk_ii_k0 :: v1_stencil where
  "lua55_residual_eqk_ii_k0 = RESIDUAL_EQK False (\<lambda>t. t = LUA55_VALUE_INTEGER) (\<lambda>h a m. Some (a = q_const_int h))"

definition lua55_residual_eqk_ii_k1 :: v1_stencil where
  "lua55_residual_eqk_ii_k1 = RESIDUAL_EQK True (\<lambda>t. t = LUA55_VALUE_INTEGER) (\<lambda>h a m. Some (a = q_const_int h))"

definition lua55_residual_eqk_ff_k0 :: v1_stencil where
  "lua55_residual_eqk_ff_k0 = RESIDUAL_EQK False (\<lambda>t. t = LUA55_VALUE_FLOAT) (\<lambda>h a m. Some (dbl_eq a (q_const_flt h)))"

definition lua55_residual_eqk_ff_k1 :: v1_stencil where
  "lua55_residual_eqk_ff_k1 = RESIDUAL_EQK True (\<lambda>t. t = LUA55_VALUE_FLOAT) (\<lambda>h a m. Some (dbl_eq a (q_const_flt h)))"

definition lua55_residual_eqk_if_k0 :: v1_stencil where
  "lua55_residual_eqk_if_k0 = RESIDUAL_EQK False (\<lambda>t. t = LUA55_VALUE_INTEGER) (\<lambda>h a m. Some (eq_int_float a (q_const_flt h)))"

definition lua55_residual_eqk_if_k1 :: v1_stencil where
  "lua55_residual_eqk_if_k1 = RESIDUAL_EQK True (\<lambda>t. t = LUA55_VALUE_INTEGER) (\<lambda>h a m. Some (eq_int_float a (q_const_flt h)))"

definition lua55_residual_eqk_fi_k0 :: v1_stencil where
  "lua55_residual_eqk_fi_k0 = RESIDUAL_EQK False (\<lambda>t. t = LUA55_VALUE_FLOAT) (\<lambda>h a m. Some (eq_int_float (q_const_int h) a))"

definition lua55_residual_eqk_fi_k1 :: v1_stencil where
  "lua55_residual_eqk_fi_k1 = RESIDUAL_EQK True (\<lambda>t. t = LUA55_VALUE_FLOAT) (\<lambda>h a m. Some (eq_int_float (q_const_int h) a))"

definition lua55_residual_eqk_ss_k0 :: v1_stencil where
  "lua55_residual_eqk_ss_k0 = RESIDUAL_EQK False is_string_tag (\<lambda>h a m. string_bytes_eq a (q_const_ref h) m)"

definition lua55_residual_eqk_ss_k1 :: v1_stencil where
  "lua55_residual_eqk_ss_k1 = RESIDUAL_EQK True is_string_tag (\<lambda>h a m. string_bytes_eq a (q_const_ref h) m)"

definition lua55_residual_eqk_ls_k0 :: v1_stencil where
  "lua55_residual_eqk_ls_k0 = RESIDUAL_EQK False is_string_tag (\<lambda>h a m. string_bytes_eq a (q_const_ref h) m)"

definition lua55_residual_eqk_ls_k1 :: v1_stencil where
  "lua55_residual_eqk_ls_k1 = RESIDUAL_EQK True is_string_tag (\<lambda>h a m. string_bytes_eq a (q_const_ref h) m)"

definition lua55_residual_eqk_sl_k0 :: v1_stencil where
  "lua55_residual_eqk_sl_k0 = RESIDUAL_EQK False is_string_tag (\<lambda>h a m. string_bytes_eq a (q_const_ref h) m)"

definition lua55_residual_eqk_sl_k1 :: v1_stencil where
  "lua55_residual_eqk_sl_k1 = RESIDUAL_EQK True is_string_tag (\<lambda>h a m. string_bytes_eq a (q_const_ref h) m)"

definition lua55_residual_eqk_ll_k0 :: v1_stencil where
  "lua55_residual_eqk_ll_k0 = RESIDUAL_EQK False is_string_tag (\<lambda>h a m. string_bytes_eq a (q_const_ref h) m)"

definition lua55_residual_eqk_ll_k1 :: v1_stencil where
  "lua55_residual_eqk_ll_k1 = RESIDUAL_EQK True is_string_tag (\<lambda>h a m. string_bytes_eq a (q_const_ref h) m)"

definition lua55_residual_eqk_nn_k0 :: v1_stencil where
  "lua55_residual_eqk_nn_k0 = RESIDUAL_EQK False (\<lambda>t. t = LUA55_VALUE_NIL) (\<lambda>h a m. Some True)"

definition lua55_residual_eqk_nn_k1 :: v1_stencil where
  "lua55_residual_eqk_nn_k1 = RESIDUAL_EQK True (\<lambda>t. t = LUA55_VALUE_NIL) (\<lambda>h a m. Some True)"

definition lua55_residual_eqk_bb_k0 :: v1_stencil where
  "lua55_residual_eqk_bb_k0 = RESIDUAL_EQK False (\<lambda>t. t = LUA55_VALUE_FALSE) (\<lambda>h a m. Some True)"

definition lua55_residual_eqk_bb_k1 :: v1_stencil where
  "lua55_residual_eqk_bb_k1 = RESIDUAL_EQK True (\<lambda>t. t = LUA55_VALUE_FALSE) (\<lambda>h a m. Some True)"

definition lua55_residual_eqk_tt_k0 :: v1_stencil where
  "lua55_residual_eqk_tt_k0 = RESIDUAL_EQK False (\<lambda>t. t = LUA55_VALUE_TRUE) (\<lambda>h a m. Some True)"

definition lua55_residual_eqk_tt_k1 :: v1_stencil where
  "lua55_residual_eqk_tt_k1 = RESIDUAL_EQK True (\<lambda>t. t = LUA55_VALUE_TRUE) (\<lambda>h a m. Some True)"

definition RESIDUAL_TEST :: "bool \<Rightarrow> v1_stencil" where
  "RESIDUAL_TEST k h f s = do {
     left \<leftarrow> reg (q_target h) f s;
     l \<leftarrow> rd left s;
     residual_branch k (truthy (tag l)) h f s}"

definition RESIDUAL_TESTSET :: "bool \<Rightarrow> v1_stencil" where
  "RESIDUAL_TESTSET k h f s = do {
     left \<leftarrow> reg (q_target h) f s;
     right \<leftarrow> reg (q_source h) f s;
     r \<leftarrow> rd right s;
     if (if k then truthy (tag r) else \<not> truthy (tag r)) then do {s \<leftarrow> on_mem (wr_val left r) s; BRANCH_TAKEN h f s}
     else lua55_residual_next f s}"

definition lua55_residual_test_k0 :: v1_stencil where
  "lua55_residual_test_k0 = RESIDUAL_TEST False"

definition lua55_residual_test_k1 :: v1_stencil where
  "lua55_residual_test_k1 = RESIDUAL_TEST True"

definition lua55_residual_teskset_k0 :: v1_stencil where
  "lua55_residual_teskset_k0 = RESIDUAL_TESTSET False"

definition lua55_residual_teskset_k1 :: v1_stencil where
  "lua55_residual_teskset_k1 = RESIDUAL_TESTSET True"

subsection \<open>Self-selecting stencils\<close>

text \<open>The accept bit is a hole, and the taken branch jumps to a patched entry.\<close>

definition POLY_BRANCH_TAKEN :: v1_stencil where
  "POLY_BRANCH_TAKEN h f s = Some (Link_to (q_taken h) f, s)"

definition poly_branch :: "bool \<Rightarrow> v1_stencil" where
  "poly_branch cond h f s = (if (if q_k h \<noteq> 0 then cond else \<not> cond) then POLY_BRANCH_TAKEN h f s else lua55_residual_next f s)"

definition CMP_REG_RIGHT :: v1_right where
  "CMP_REG_RIGHT h f s = do {right \<leftarrow> reg (q_source h) f s; rd right s}"

definition CMP_IMM_RIGHT :: v1_right where
  "CMP_IMM_RIGHT h f s = Some (int_val (q_int_imm h))"

definition CMP_CONST_RIGHT :: v1_right where
  "CMP_CONST_RIGHT h f s = Some (mk_value (q_const_tag h)
     (if q_const_tag h = LUA55_VALUE_INTEGER then q_const_int h
      else if q_const_tag h = LUA55_VALUE_FLOAT then q_const_flt h else q_const_ref h))"

definition POLY_EQ :: "v1_right \<Rightarrow> v1_stencil" where
  "POLY_EQ right_init h f s = do {
     left \<leftarrow> reg (q_target h) f s;
     l \<leftarrow> rd left s;
     r \<leftarrow> right_init h f s;
     cond \<leftarrow>
       (if tag l = LUA55_VALUE_INTEGER \<and> tag r = LUA55_VALUE_INTEGER then Some (payload l = payload r)
        else if tag l = LUA55_VALUE_INTEGER \<and> tag r = LUA55_VALUE_FLOAT then Some (eq_int_float (payload l) (payload r))
        else if tag l = LUA55_VALUE_FLOAT \<and> tag r = LUA55_VALUE_INTEGER then Some (eq_int_float (payload r) (payload l))
        else if tag l = LUA55_VALUE_FLOAT \<and> tag r = LUA55_VALUE_FLOAT then Some (dbl_eq (payload l) (payload r))
        else if is_string_tag (tag l) \<and> is_string_tag (tag r) then string_bytes_eq (payload l) (payload r) (mem s)
        else if tag l = tag r
        then Some (if tag l = LUA55_VALUE_TABLE \<or> tag l = LUA55_VALUE_CLOSURE then payload l = payload r else True)
        else Some False);
     poly_branch cond h f s}"

text \<open>The mixed comparisons convert the integer to a double, which rounds it.\<close>

definition POLY_ORD :: "v1_right \<Rightarrow> v1_stencil" where
  "POLY_ORD right_init h f s = do {
     left \<leftarrow> reg (q_target h) f s;
     l \<leftarrow> rd left s;
     r \<leftarrow> right_init h f s;
     if tag l = LUA55_VALUE_INTEGER \<and> tag r = LUA55_VALUE_INTEGER then poly_branch (payload l <s payload r) h f s
     else if tag l = LUA55_VALUE_INTEGER \<and> tag r = LUA55_VALUE_FLOAT then poly_branch (dbl_lt (c_double (payload l)) (payload r)) h f s
     else if tag l = LUA55_VALUE_FLOAT \<and> tag r = LUA55_VALUE_INTEGER then poly_branch (dbl_lt (payload l) (c_double (payload r))) h f s
     else if tag l = LUA55_VALUE_FLOAT \<and> tag r = LUA55_VALUE_FLOAT then poly_branch (dbl_lt (payload l) (payload r)) h f s
     else if is_string_tag (tag l) \<and> is_string_tag (tag r)
     then do {c \<leftarrow> string_cmp (payload l) (payload r) (mem s); poly_branch (c < 0) h f s}
     else reject_leave h f s}"

definition POLY_LE :: "v1_right \<Rightarrow> v1_stencil" where
  "POLY_LE right_init h f s = do {
     left \<leftarrow> reg (q_target h) f s;
     l \<leftarrow> rd left s;
     r \<leftarrow> right_init h f s;
     if tag l = LUA55_VALUE_INTEGER \<and> tag r = LUA55_VALUE_INTEGER then poly_branch (payload l \<le>s payload r) h f s
     else if tag l = LUA55_VALUE_INTEGER \<and> tag r = LUA55_VALUE_FLOAT then poly_branch (dbl_le (c_double (payload l)) (payload r)) h f s
     else if tag l = LUA55_VALUE_FLOAT \<and> tag r = LUA55_VALUE_INTEGER then poly_branch (dbl_le (payload l) (c_double (payload r))) h f s
     else if tag l = LUA55_VALUE_FLOAT \<and> tag r = LUA55_VALUE_FLOAT then poly_branch (dbl_le (payload l) (payload r)) h f s
     else if is_string_tag (tag l) \<and> is_string_tag (tag r)
     then do {c \<leftarrow> string_cmp (payload l) (payload r) (mem s); poly_branch (c \<le> 0) h f s}
     else reject_leave h f s}"

definition lua55_poly_eq :: v1_stencil where
  "lua55_poly_eq = POLY_EQ CMP_REG_RIGHT"

definition lua55_poly_eqk :: v1_stencil where
  "lua55_poly_eqk = POLY_EQ CMP_CONST_RIGHT"

definition lua55_poly_eqi :: v1_stencil where
  "lua55_poly_eqi = POLY_EQ CMP_IMM_RIGHT"

definition lua55_poly_lt :: v1_stencil where
  "lua55_poly_lt = POLY_ORD CMP_REG_RIGHT"

definition lua55_poly_lti :: v1_stencil where
  "lua55_poly_lti = POLY_ORD CMP_IMM_RIGHT"

definition lua55_poly_le :: v1_stencil where
  "lua55_poly_le = POLY_LE CMP_REG_RIGHT"

definition lua55_poly_lei :: v1_stencil where
  "lua55_poly_lei = POLY_LE CMP_IMM_RIGHT"

definition lua55_poly_gti :: v1_stencil where
  "lua55_poly_gti = POLY_ORD CMP_IMM_RIGHT"

definition lua55_poly_gei :: v1_stencil where
  "lua55_poly_gei = POLY_LE CMP_IMM_RIGHT"

text \<open>Both indices are the same hole: the register is tested and, when \<open>store\<close>, copied onto itself.\<close>

definition POLY_TEST :: "bool \<Rightarrow> v1_stencil" where
  "POLY_TEST store h f s = do {
     left \<leftarrow> reg (q_target h) f s;
     target \<leftarrow> reg (q_target h) f s;
     l \<leftarrow> rd left s;
     s \<leftarrow> (if store then on_mem (wr_val target l) s else Some s);
     poly_branch (truthy (tag l)) h f s}"

definition lua55_poly_test :: v1_stencil where
  "lua55_poly_test = POLY_TEST False"

definition lua55_poly_testset :: v1_stencil where
  "lua55_poly_testset = POLY_TEST True"

end
