(* ===== verification/V1_Compare_Replay.thy ===== *)
theory V1_Compare_Replay
  imports V1_Comparison
begin

text \<open>
  The comparison residuals of the first generation replay their learners, but for the two leaves of a
  short and a long string, whose numbers the bank exchanges.
\<close>

unbundle bit_operations_syntax

subsection \<open>Quotes and memory\<close>

definition leaves :: "u32 list" where
  "leaves = [1, 2, 3, 4, 5, 6, 7, 8, 9, 10, 11, 12]"

lemma quote_k_low: "lf \<in> set leaves \<Longrightarrow> quote_k lf k AND 0xFFFF = quote_k lf k"
  by (cases k) (auto simp: leaves_def quote_k_def)

lemma quote_k_nonzero: "lf \<in> set leaves \<Longrightarrow> quote_k lf k \<noteq> 0"
  by (cases k) (auto simp: leaves_def quote_k_def)

lemma quote_k_eq: "lf \<in> set leaves \<Longrightarrow> lf' \<in> set leaves \<Longrightarrow> quote_k lf k = quote_k lf' k \<longleftrightarrow> lf = lf'"
  by (cases k) (auto simp: leaves_def quote_k_def)

lemma bytes_vals [simp]:
  "same_bytes pa pb i n (m\<lparr>vals := x\<rparr>) = same_bytes pa pb i n m" "first_difference pa pb i n (m\<lparr>vals := x\<rparr>) = first_difference pa pb i n m"
  by (induction n arbitrary: i) (simp_all add: rd_byte_def cong: if_cong)

text \<open>Comparing strings does not read registers.\<close>

lemma strings_vals:
  assumes "m\<lparr>vals := Map.empty\<rparr> = m'\<lparr>vals := Map.empty\<rparr>"
  shows "string_bytes_eq a b m' = string_bytes_eq a b m" "string_cmp a b m' = string_cmp a b m"
proof -
  have "string_bytes_eq a b (m\<lparr>vals := Map.empty\<rparr>) = string_bytes_eq a b m" "string_cmp a b (m\<lparr>vals := Map.empty\<rparr>) = string_cmp a b m" for m
    by (simp_all add: string_bytes_eq_def string_cmp_def Let_def cong: if_cong)
  then show "string_bytes_eq a b m' = string_bytes_eq a b m" "string_cmp a b m' = string_cmp a b m"
    using assms by metis+
qed

subsection \<open>The shape\<close>

definition rd_pair :: "v1_holes \<Rightarrow> u64 \<Rightarrow> v1_state \<Rightarrow> (lua_value \<times> lua_value) option" where
  "rd_pair h f s = do {
     left \<leftarrow> reg (q_target h) f s;
     right \<leftarrow> reg (q_source h) f s;
     l \<leftarrow> rd left s;
     r \<leftarrow> rd right s;
     Some (l, r)}"

definition rd_left :: "v1_holes \<Rightarrow> u64 \<Rightarrow> v1_state \<Rightarrow> lua_value option" where
  "rd_left h f s = do {left \<leftarrow> reg (q_target h) f s; rd left s}"

definition rd_into :: "v1_holes \<Rightarrow> u64 \<Rightarrow> v1_state \<Rightarrow> (u64 \<times> lua_value) option" where
  "rd_into h f s = do {
     left \<leftarrow> reg (q_target h) f s;
     right \<leftarrow> reg (q_source h) f s;
     r \<leftarrow> rd right s;
     Some (left, r)}"

definition branch_pick :: "bool \<Rightarrow> v1_holes \<Rightarrow> (u32 \<times> bool) option \<Rightarrow> v1_pick" where
  "branch_pick k h d = (case d of None \<Rightarrow> Refuse
     | Some (lf, c) \<Rightarrow> Accept (if c = k then Exits (q_target_pc h) LUA55_COMPLETED else Goes) (q_quote_base h OR quote_k lf k))"

lemmas compare_shape = noting_def rd_pair_def rd_left_def rd_into_def branch_pick_def learn_branch_def reg_def next_slot_def upd_lframe_def
  rd_def BRANCH_TAKEN_def

lemma learn_two_shape: "learn_two decide k = picking rd_pair (\<lambda>h (l, r) s. do {d \<leftarrow> decide l r (mem s); Some (branch_pick k h d)})"
  by (rule stencil_eqI) (auto simp: learn_two_def compare_shape intro!: Option.bind_cong [OF refl] split: option.splits)

lemma learn_one_shape: "learn_one decide k = picking rd_left (\<lambda>h l s. do {d \<leftarrow> decide h l (mem s); Some (branch_pick k h d)})"
  by (rule stencil_eqI) (auto simp: learn_one_def compare_shape intro!: Option.bind_cong [OF refl] split: option.splits)

lemma LEARN_TESTSET_shape: "LEARN_TESTSET_K k = picking rd_into (\<lambda>h (t, r) s.
    Some (Accept (if truthy (tag r) = k then Puts_exits t r (q_target_pc h) LUA55_COMPLETED else Goes) (q_quote_base h OR quote_k 1 k)))"
  by (rule stencil_eqI) (auto simp: LEARN_TESTSET_K_def compare_shape intro!: Option.bind_cong [OF refl])

lemma rd_pair_alike:
  assumes "alike s s'" and "rd_pair h f s = Some (l, r)"
  obtains l' r' a b where "reg (q_target h) f s' = Some a" "reg (q_source h) f s' = Some b" "rd a s' = Some l'" "rd b s' = Some r'"
    "norm_value l = norm_value l'" "norm_value r = norm_value r'"
proof -
  from assms(2) obtain a b where a: "reg (q_target h) f s = Some a" "reg (q_source h) f s = Some b" "rd a s = Some l" "rd b s = Some r"
    by (auto simp: rd_pair_def bind_eq_Some_conv)
  from alike_rd [OF assms(1) a(3)] obtain l' where l': "rd a s' = Some l'" "norm_value l = norm_value l'" .
  from alike_rd [OF assms(1) a(4)] obtain r' where r': "rd b s' = Some r'" "norm_value r = norm_value r'" .
  show thesis using that l' r' alike_reg [OF assms(1)] a(1,2) by blast
qed

lemma rd_left_alike:
  assumes "alike s s'" and "rd_left h f s = Some l"
  obtains l' a where "reg (q_target h) f s' = Some a" "rd a s' = Some l'" "norm_value l = norm_value l'"
proof -
  from assms(2) obtain a where a: "reg (q_target h) f s = Some a" "rd a s = Some l" by (auto simp: rd_left_def bind_eq_Some_conv)
  from alike_rd [OF assms(1) a(2)] obtain l' where "rd a s' = Some l'" "norm_value l = norm_value l'" .
  then show thesis using that alike_reg [OF assms(1) a(1)] by blast
qed

lemma branch_effect:
  "residual_branch k c h f s = perform lua55_residual_next (if c = k then Exits (q_target_pc h) LUA55_COMPLETED else Goes) f s"
  by (auto simp: residual_branch_def BRANCH_TAKEN_def)

lemma two_replays:
  assumes hit: "\<And>l r l' r' m m' c. decide l r m = Some (Some (lf, c)) \<Longrightarrow> norm_value l = norm_value l' \<Longrightarrow> norm_value r = norm_value r' \<Longrightarrow>
      (\<And>a b. string_bytes_eq a b m' = string_bytes_eq a b m) \<Longrightarrow> (\<And>a b. string_cmp a b m' = string_cmp a b m) \<Longrightarrow> guard l' r' \<and> cond l' r' m' = Some c"
    and small: "\<And>l r m lf' c. decide l r m = Some (Some (lf', c)) \<Longrightarrow> lf' \<in> set leaves" "lf \<in> set leaves"
  shows "replayed_leaf (learn_two decide k) (RESIDUAL_K k guard cond) (coded (quote_k lf k))"
  unfolding learn_two_shape
proof (rule picking_replays)
  fix h f s s' x e
  assume h: "based h" and al: "alike s s'" and x: "rd_pair h f s = Some x"
    and pick: "(case x of (l, r) \<Rightarrow> \<lambda>s. do {d \<leftarrow> decide l r (mem s); Some (branch_pick k h d)}) s = Some (Accept e (q_quote_base h OR quote_k lf k))"
  obtain l r where xx: "x = (l, r)" by (cases x)
  from pick obtain lf' c where d: "decide l r (mem s) = Some (Some (lf', c))" and
      e: "e = (if c = k then Exits (q_target_pc h) LUA55_COMPLETED else Goes)" and q: "q_quote_base h OR quote_k lf' k = q_quote_base h OR quote_k lf k"
    by (auto simp: xx branch_pick_def bind_eq_Some_conv split: option.splits)
  have "lf' = lf" using q h small(1) [OF d] small(2) by (simp add: based_eq quote_k_low quote_k_eq)
  moreover obtain l' r' a b where v: "reg (q_target h) f s' = Some a" "reg (q_source h) f s' = Some b" "rd a s' = Some l'" "rd b s' = Some r'"
      "norm_value l = norm_value l'" "norm_value r = norm_value r'" using rd_pair_alike [OF al x [unfolded xx]] .
  ultimately have "guard l' r'" "cond l' r' (mem s') = Some c" using hit [of l r "mem s" c l' r' "mem s'"] d strings_vals [OF alike_mem [OF al]] by simp_all
  then have "RESIDUAL_K k guard cond h f s' = perform lua55_residual_next e f s'"
    using v(1-4) by (simp add: RESIDUAL_K_def branch_effect e)
  then show "\<exists>e'. RESIDUAL_K k guard cond h f s' = perform lua55_residual_next e' f s' \<and> like_effect e e'"
    using e by (intro exI [of _ e]) simp
qed (use small(2) in \<open>simp_all add: quote_k_low quote_k_nonzero\<close>)

lemma one_replays:
  assumes hit: "\<And>h f m s' l l' a c. decide h l m = Some (Some (lf, c)) \<Longrightarrow> norm_value l = norm_value l' \<Longrightarrow>
      (\<And>a b. string_bytes_eq a b (mem s') = string_bytes_eq a b m) \<Longrightarrow> reg (q_target h) f s' = Some a \<Longrightarrow> rd a s' = Some l' \<Longrightarrow>
      residual h f s' = residual_branch k c h f s'"
    and small: "\<And>h l m lf' c. decide h l m = Some (Some (lf', c)) \<Longrightarrow> lf' \<in> set leaves" "lf \<in> set leaves"
  shows "replayed_leaf (learn_one decide k) residual (coded (quote_k lf k))"
  unfolding learn_one_shape
proof (rule picking_replays)
  fix h f s s' l e
  assume h: "based h" and al: "alike s s'" and x: "rd_left h f s = Some l"
    and pick: "do {d \<leftarrow> decide h l (mem s); Some (branch_pick k h d)} = Some (Accept e (q_quote_base h OR quote_k lf k))"
  from pick obtain lf' c where d: "decide h l (mem s) = Some (Some (lf', c))" and
      e: "e = (if c = k then Exits (q_target_pc h) LUA55_COMPLETED else Goes)" and q: "q_quote_base h OR quote_k lf' k = q_quote_base h OR quote_k lf k"
    by (auto simp: branch_pick_def bind_eq_Some_conv split: option.splits)
  have "lf' = lf" using q h small(1) [OF d] small(2) by (simp add: based_eq quote_k_low quote_k_eq)
  moreover obtain l' a where v: "reg (q_target h) f s' = Some a" "rd a s' = Some l'" "norm_value l = norm_value l'" using rd_left_alike [OF al x] .
  ultimately have "residual h f s' = perform lua55_residual_next e f s'"
    using hit [of h l "mem s" c l' s' f a] d strings_vals [OF alike_mem [OF al]] by (simp add: branch_effect e)
  then show "\<exists>e'. residual h f s' = perform lua55_residual_next e' f s' \<and> like_effect e e'"
    using e by (intro exI [of _ e]) simp
qed (use small(2) in \<open>simp_all add: quote_k_low quote_k_nonzero\<close>)

lemma testset_replays: "replayed_leaf (LEARN_TESTSET_K k) (RESIDUAL_TESTSET k) (coded (quote_k 1 k))"
  unfolding LEARN_TESTSET_shape
proof (rule picking_replays)
  fix h f s s' x e
  assume al: "alike s s'" and x: "rd_into h f s = Some x"
    and pick: "(case x of (t, r) \<Rightarrow> \<lambda>s. Some (Accept (if truthy (tag r) = k then Puts_exits t r (q_target_pc h) LUA55_COMPLETED else Goes)
      (q_quote_base h OR quote_k 1 k))) s = Some (Accept e (q_quote_base h OR quote_k 1 k))"
  from x obtain t b r where v: "x = (t, r)" "reg (q_target h) f s = Some t" "reg (q_source h) f s = Some b" "rd b s = Some r"
    by (auto simp: rd_into_def bind_eq_Some_conv)
  from alike_rd [OF al v(4)] obtain r' where r': "rd b s' = Some r'" "norm_value r = norm_value r'" .
  have "RESIDUAL_TESTSET k h f s' = perform lua55_residual_next
      (if truthy (tag r) = k then Puts_exits t r' (q_target_pc h) LUA55_COMPLETED else Goes) f s'"
    using alike_reg [OF al v(2)] alike_reg [OF al v(3)] r' by (auto simp: RESIDUAL_TESTSET_def norm_value_eq BRANCH_TAKEN_def)
  then show "\<exists>e'. RESIDUAL_TESTSET k h f s' = perform lua55_residual_next e' f s' \<and> like_effect e e'"
    using pick v(1) r'(2)
    by (intro exI [of _ "if truthy (tag r) = k then Puts_exits t r' (q_target_pc h) LUA55_COMPLETED else Goes"]) (auto split: if_splits)
qed (simp_all add: quote_k_low quote_k_nonzero leaves_def)

subsection \<open>The families\<close>

lemma decisions_small:
  "lt_decision l r m = Some (Some (lf, c)) \<Longrightarrow> lf \<in> set leaves" "le_decision l r m = Some (Some (lf, c)) \<Longrightarrow> lf \<in> set leaves"
  "eq_decision l r m = Some (Some (lf, c)) \<Longrightarrow> lf \<in> set leaves" "imm_decision i g h l m = Some (Some (lf, c)) \<Longrightarrow> lf \<in> set leaves"
  by (auto simp: lt_decision_def le_decision_def eq_decision_def imm_decision_def string_leaf_def leaves_def bind_eq_Some_conv split: if_splits)

lemma low_tags: "(t :: u32) \<le> 2 \<longleftrightarrow> t = 0 \<or> t = 1 \<or> t = 2"
proof
  assume "t \<le> 2"
  then have "unat t \<le> 2" by (simp add: word_le_nat_alt)
  then have "unat t = 0 \<or> unat t = 1 \<or> unat t = 2" by arith
  then show "t = 0 \<or> t = 1 \<or> t = 2" by (simp add: word_unat_eq_iff)
qed auto

lemma supported_tag: "(t :: u32) \<le> 6 \<longleftrightarrow> t \<in> {0, 1, 2, 3, 4, 5, 6}"
proof
  assume "t \<le> 6"
  then have "unat t \<le> 6" by (simp add: word_le_nat_alt)
  then have "unat t \<in> {0, 1, 2, 3, 4, 5, 6}" by auto
  then show "t \<in> {0, 1, 2, 3, 4, 5, 6}" by (simp add: word_unat_eq_iff)
qed auto

lemma eqk_small:
  assumes "eqk_decision h l m = Some (Some (lf, c))"
  shows "lf \<in> set leaves"
proof (cases "tag l = q_const_tag h \<and> q_const_tag h \<le> LUA55_VALUE_TRUE")
  case True
  then have "q_const_tag h = 0 \<or> q_const_tag h = 1 \<or> q_const_tag h = 2" by (simp add: low_tags)
  then show ?thesis using assms True by (elim disjE) (simp_all add: eqk_decision_def is_string_tag_def leaves_def)
next
  case False
  have "string_leaf t u \<in> set leaves" for t u by (simp add: string_leaf_def leaves_def)
  moreover have "1 \<in> set leaves" "2 \<in> set leaves" "3 \<in> set leaves" "4 \<in> set leaves" by (simp_all add: leaves_def)
  ultimately show ?thesis
    using assms unfolding eqk_decision_def Let_def if_not_P [OF False] by (simp only: bind_eq_Some_conv split: if_split_asm) blast+
qed

lemmas compare_hits = TAG_PAIR_LT_def STRING_PAIR_def LEFT_LONG_def RIGHT_LONG_def is_string_tag_def norm_value_eq string_leaf_def

lemma lt_replays:
  "replayed_leaf (LEARN_REGRES k) (RESIDUAL_K k (TAG_PAIR_LT LUA55_VALUE_INTEGER LUA55_VALUE_INTEGER) (\<lambda>l r m. Some (payload l <s payload r)))
     (coded (quote_k 1 k))"
  "replayed_leaf (LEARN_REGRES k) (RESIDUAL_K k (TAG_PAIR_LT LUA55_VALUE_INTEGER LUA55_VALUE_FLOAT) (\<lambda>l r m. Some (lt_int_float (payload l) (payload r))))
     (coded (quote_k 2 k))"
  "replayed_leaf (LEARN_REGRES k) (RESIDUAL_K k (TAG_PAIR_LT LUA55_VALUE_FLOAT LUA55_VALUE_INTEGER) (\<lambda>l r m. Some (lt_float_int (payload l) (payload r))))
     (coded (quote_k 3 k))"
  "replayed_leaf (LEARN_REGRES k) (RESIDUAL_K k (TAG_PAIR_LT LUA55_VALUE_FLOAT LUA55_VALUE_FLOAT) (\<lambda>l r m. Some (dbl_lt (payload l) (payload r))))
     (coded (quote_k 4 k))"
  "replayed_leaf (LEARN_REGRES k) (RESIDUAL_K k (\<lambda>l r. STRING_PAIR l r \<and> \<not> LEFT_LONG l r \<and> \<not> RIGHT_LONG l r)
     (\<lambda>l r m. map_option (\<lambda>c. c < 0) (string_cmp (payload l) (payload r) m))) (coded (quote_k 5 k))"
  "replayed_leaf (LEARN_REGRES k) (RESIDUAL_K k (\<lambda>l r. STRING_PAIR l r \<and> LEFT_LONG l r \<and> RIGHT_LONG l r)
     (\<lambda>l r m. map_option (\<lambda>c. c < 0) (string_cmp (payload l) (payload r) m))) (coded (quote_k 8 k))"
  unfolding LEARN_REGRES_def
  by (rule two_replays [OF _ decisions_small(1)]; auto simp: lt_decision_def compare_hits leaves_def bind_eq_Some_conv split: if_splits)+

lemma le_replays:
  "replayed_leaf (LEARN_LE_K k) (RESIDUAL_K k (TAG_PAIR_LT LUA55_VALUE_INTEGER LUA55_VALUE_INTEGER) (\<lambda>l r m. Some (payload l \<le>s payload r)))
     (coded (quote_k 1 k))"
  "replayed_leaf (LEARN_LE_K k) (RESIDUAL_K k (TAG_PAIR_LT LUA55_VALUE_INTEGER LUA55_VALUE_FLOAT) (\<lambda>l r m. Some (le_int_float (payload l) (payload r))))
     (coded (quote_k 2 k))"
  "replayed_leaf (LEARN_LE_K k) (RESIDUAL_K k (TAG_PAIR_LT LUA55_VALUE_FLOAT LUA55_VALUE_INTEGER) (\<lambda>l r m. Some (le_float_int (payload l) (payload r))))
     (coded (quote_k 3 k))"
  "replayed_leaf (LEARN_LE_K k) (RESIDUAL_K k (TAG_PAIR_LT LUA55_VALUE_FLOAT LUA55_VALUE_FLOAT) (\<lambda>l r m. Some (dbl_le (payload l) (payload r))))
     (coded (quote_k 4 k))"
  "replayed_leaf (LEARN_LE_K k) (RESIDUAL_K k (\<lambda>l r. STRING_PAIR l r \<and> \<not> LEFT_LONG l r \<and> \<not> RIGHT_LONG l r)
     (\<lambda>l r m. map_option (\<lambda>c. c \<le> 0) (string_cmp (payload l) (payload r) m))) (coded (quote_k 5 k))"
  "replayed_leaf (LEARN_LE_K k) (RESIDUAL_K k (\<lambda>l r. STRING_PAIR l r \<and> LEFT_LONG l r \<and> RIGHT_LONG l r)
     (\<lambda>l r m. map_option (\<lambda>c. c \<le> 0) (string_cmp (payload l) (payload r) m))) (coded (quote_k 8 k))"
  unfolding LEARN_LE_K_def
  by (rule two_replays [OF _ decisions_small(2)]; auto simp: le_decision_def compare_hits leaves_def bind_eq_Some_conv split: if_splits)+

lemma eq_replays:
  "replayed_leaf (LEARN_EQ_K k) (RESIDUAL_K k (TAG_PAIR_LT LUA55_VALUE_INTEGER LUA55_VALUE_INTEGER) (\<lambda>l r m. Some (payload l = payload r)))
     (coded (quote_k 1 k))"
  "replayed_leaf (LEARN_EQ_K k) (RESIDUAL_K k (TAG_PAIR_LT LUA55_VALUE_INTEGER LUA55_VALUE_FLOAT) (\<lambda>l r m. Some (eq_int_float (payload l) (payload r))))
     (coded (quote_k 2 k))"
  "replayed_leaf (LEARN_EQ_K k) (RESIDUAL_K k (TAG_PAIR_LT LUA55_VALUE_FLOAT LUA55_VALUE_INTEGER) (\<lambda>l r m. Some (eq_int_float (payload r) (payload l))))
     (coded (quote_k 3 k))"
  "replayed_leaf (LEARN_EQ_K k) (RESIDUAL_K k (TAG_PAIR_LT LUA55_VALUE_FLOAT LUA55_VALUE_FLOAT) (\<lambda>l r m. Some (dbl_eq (payload l) (payload r))))
     (coded (quote_k 4 k))"
  "replayed_leaf (LEARN_EQ_K k) (RESIDUAL_K k (\<lambda>l r. STRING_PAIR l r \<and> \<not> LEFT_LONG l r \<and> \<not> RIGHT_LONG l r)
     (\<lambda>l r m. string_bytes_eq (payload l) (payload r) m)) (coded (quote_k 5 k))"
  "replayed_leaf (LEARN_EQ_K k) (RESIDUAL_K k (\<lambda>l r. STRING_PAIR l r \<and> LEFT_LONG l r \<and> RIGHT_LONG l r)
     (\<lambda>l r m. string_bytes_eq (payload l) (payload r) m)) (coded (quote_k 8 k))"
  "replayed_leaf (LEARN_EQ_K k) (RESIDUAL_K k (TAG_PAIR_LT LUA55_VALUE_NIL LUA55_VALUE_NIL) (\<lambda>l r m. Some True)) (coded (quote_k 9 k))"
  "replayed_leaf (LEARN_EQ_K k) (RESIDUAL_K k (TAG_PAIR_LT LUA55_VALUE_FALSE LUA55_VALUE_FALSE) (\<lambda>l r m. Some True)) (coded (quote_k 10 k))"
  "replayed_leaf (LEARN_EQ_K k) (RESIDUAL_K k (TAG_PAIR_LT LUA55_VALUE_TRUE LUA55_VALUE_TRUE) (\<lambda>l r m. Some True)) (coded (quote_k 11 k))"
  unfolding LEARN_EQ_K_def
  by (rule two_replays [OF _ decisions_small(3)]; auto simp: eq_decision_def compare_hits leaves_def bind_eq_Some_conv split: if_splits)+

lemma string_leaf_range: "string_leaf a b = 5 \<or> string_leaf a b = 6 \<or> string_leaf a b = 7 \<or> string_leaf a b = 8"
  by (simp add: string_leaf_def)

lemma neq_hit:
  assumes "eq_decision l r m = Some (Some (12, c))"
  shows "tag l \<noteq> tag r" "tag l \<le> LUA55_VALUE_LONG_STRING" "tag r \<le> LUA55_VALUE_LONG_STRING" "\<not> c"
proof -
  have d1: "\<not> (is_string_tag (tag l) \<and> is_string_tag (tag r))"
    using assms string_leaf_range [of "tag l" "tag r"] by (auto simp: eq_decision_def is_string_tag_def bind_eq_Some_conv)
  have ne: "(1 :: u32) \<noteq> 12" "(2 :: u32) \<noteq> 12" "(3 :: u32) \<noteq> 12" "(4 :: u32) \<noteq> 12" "(9 :: u32) \<noteq> 12" "(10 :: u32) \<noteq> 12" "(11 :: u32) \<noteq> 12"
    by simp_all
  have d2: "tag l \<le> LUA55_VALUE_LONG_STRING \<and> tag r \<le> LUA55_VALUE_LONG_STRING \<and> \<not> c"
    using assms unfolding eq_decision_def if_not_P [OF d1] by (simp only: ne option.inject prod.inject simp_thms option.distinct split: if_split_asm)
  note d = d1 d2
  moreover have False if "tag l = tag r"
  proof -
    have "tag r \<in> {0, 1, 2, 3, 4, 5, 6}" using d(2) supported_tag [of "tag r"] by simp
    then show False using assms that d(1) by (auto simp: eq_decision_def is_string_tag_def)
  qed
  ultimately show "tag l \<noteq> tag r" "tag l \<le> LUA55_VALUE_LONG_STRING" "tag r \<le> LUA55_VALUE_LONG_STRING" "\<not> c" by blast+
qed

lemma neq_replays:
  "replayed_leaf (LEARN_EQ_K k) (RESIDUAL_K k (\<lambda>l r. tag l \<le> LUA55_VALUE_LONG_STRING \<and> tag r \<le> LUA55_VALUE_LONG_STRING \<and> tag l \<noteq> tag r)
     (\<lambda>l r m. Some False)) (coded (quote_k 12 k))"
  unfolding LEARN_EQ_K_def
proof (rule two_replays [OF _ decisions_small(3)])
  fix l r l' r' m m' c
  assume d: "eq_decision l r m = Some (Some (12, c))" and n: "norm_value l = norm_value l'" "norm_value r = norm_value r'"
  from neq_hit [OF d] show "(tag l' \<le> LUA55_VALUE_LONG_STRING \<and> tag r' \<le> LUA55_VALUE_LONG_STRING \<and> tag l' \<noteq> tag r') \<and> Some False = Some c"
    using n by (simp add: norm_value_eq)
qed (simp_all add: leaves_def)

lemma imm_cmp_replays:
  "replayed_leaf (LEARN_REG_IMM_OP i g k) (RESIDUAL_REG_IMM k LUA55_VALUE_INTEGER i) (coded (quote_k 1 k))"
  "replayed_leaf (LEARN_REG_IMM_OP i g k) (RESIDUAL_REG_IMM k LUA55_VALUE_FLOAT (\<lambda>a b. g a (c_double b))) (coded (quote_k 2 k))"
  unfolding LEARN_REG_IMM_OP_def
  by (rule one_replays [OF _ decisions_small(4)];
    auto simp: imm_decision_def RESIDUAL_REG_IMM_def norm_value_eq leaves_def split: if_splits)+

lemma test_replays: "replayed_leaf (LEARN_TRUTHY k) (RESIDUAL_TEST k) (coded (quote_k 1 k))"
  unfolding LEARN_TRUTHY_def
  by (rule one_replays) (auto simp: RESIDUAL_TEST_def norm_value_eq leaves_def)

text \<open>What a recorded leaf of EQK says of the register.\<close>

lemma eqk_hit:
  assumes "eqk_decision h l m = Some (Some (lf, c))"
  shows "(lf = 1 \<longrightarrow> tag l = LUA55_VALUE_INTEGER \<and> c = (payload l = q_const_int h)) \<and>
    (lf = 2 \<longrightarrow> tag l = LUA55_VALUE_FLOAT \<and> c = dbl_eq (payload l) (q_const_flt h)) \<and>
    (lf = 3 \<longrightarrow> tag l = LUA55_VALUE_INTEGER \<and> c = eq_int_float (payload l) (q_const_flt h)) \<and>
    (lf = 4 \<longrightarrow> tag l = LUA55_VALUE_FLOAT \<and> c = eq_int_float (q_const_int h) (payload l)) \<and>
    (lf \<in> {5, 6, 7, 8} \<longrightarrow> is_string_tag (tag l) \<and> string_bytes_eq (payload l) (q_const_ref h) m = Some c) \<and>
    (lf = 9 \<longrightarrow> tag l = LUA55_VALUE_NIL \<and> c) \<and> (lf = 10 \<longrightarrow> tag l = LUA55_VALUE_FALSE \<and> c) \<and> (lf = 11 \<longrightarrow> tag l = LUA55_VALUE_TRUE \<and> c)"
proof (cases "tag l = q_const_tag h \<and> q_const_tag h \<le> LUA55_VALUE_TRUE")
  case True
  then have "q_const_tag h = 0 \<or> q_const_tag h = 1 \<or> q_const_tag h = 2" by (simp add: low_tags)
  then show ?thesis using assms True by (elim disjE) (auto simp: eqk_decision_def is_string_tag_def)
next
  case False
  let ?t = "tag l" and ?ct = "q_const_tag h"
  consider "?t = LUA55_VALUE_INTEGER" "?ct = LUA55_VALUE_INTEGER" | "?t = LUA55_VALUE_FLOAT" "?ct = LUA55_VALUE_FLOAT"
    | "?t = LUA55_VALUE_INTEGER" "?ct = LUA55_VALUE_FLOAT" | "?t = LUA55_VALUE_FLOAT" "?ct = LUA55_VALUE_INTEGER"
    | "is_string_tag ?t" "is_string_tag ?ct"
    using assms unfolding eqk_decision_def Let_def if_not_P [OF False] by (simp only: split: if_split_asm) blast+
  then show ?thesis
  proof cases
    case 5
    then have "lf = string_leaf ?t ?ct" "string_bytes_eq (payload l) (q_const_ref h) m = Some c"
      using assms by (auto simp: eqk_decision_def is_string_tag_def bind_eq_Some_conv)
    then show ?thesis using string_leaf_range [of ?t ?ct] 5 by auto
  qed (use assms in \<open>auto simp: eqk_decision_def\<close>)
qed

lemma eqk_one:
  assumes "lf \<in> set leaves" and "\<And>h l m c. eqk_decision h l m = Some (Some (lf, c)) \<Longrightarrow> tag l = t \<and> c = cond h (payload l)"
    and "t \<le> LUA55_VALUE_TRUE \<Longrightarrow> \<forall>h a b. cond h a = cond h b"
  shows "replayed_leaf (LEARN_EQK_K k) (RESIDUAL_EQK k (\<lambda>u. u = t) (\<lambda>h a m. Some (cond h a))) (coded (quote_k lf k))"
  unfolding LEARN_EQK_K_def
proof (rule one_replays [OF _ eqk_small assms(1)])
  fix h f m s' l l' a c
  assume d: "eqk_decision h l m = Some (Some (lf, c))" and n: "norm_value l = norm_value l'"
    and a: "reg (q_target h) f s' = Some a" "rd a s' = Some l'"
  from assms(2) [OF d] n have "tag l' = t" "c = cond h (payload l')" using assms(3) unfolding norm_value_eq by metis+
  then show "RESIDUAL_EQK k (\<lambda>u. u = t) (\<lambda>h a m. Some (cond h a)) h f s' = residual_branch k c h f s'"
    using a by (simp add: RESIDUAL_EQK_def)
qed

lemma eqk_replays:
  "replayed_leaf (LEARN_EQK_K k) (RESIDUAL_EQK k (\<lambda>t. t = LUA55_VALUE_INTEGER) (\<lambda>h a m. Some (a = q_const_int h))) (coded (quote_k 1 k))"
  "replayed_leaf (LEARN_EQK_K k) (RESIDUAL_EQK k (\<lambda>t. t = LUA55_VALUE_FLOAT) (\<lambda>h a m. Some (dbl_eq a (q_const_flt h)))) (coded (quote_k 2 k))"
  "replayed_leaf (LEARN_EQK_K k) (RESIDUAL_EQK k (\<lambda>t. t = LUA55_VALUE_INTEGER) (\<lambda>h a m. Some (eq_int_float a (q_const_flt h)))) (coded (quote_k 3 k))"
  "replayed_leaf (LEARN_EQK_K k) (RESIDUAL_EQK k (\<lambda>t. t = LUA55_VALUE_FLOAT) (\<lambda>h a m. Some (eq_int_float (q_const_int h) a))) (coded (quote_k 4 k))"
  "replayed_leaf (LEARN_EQK_K k) (RESIDUAL_EQK k (\<lambda>t. t = LUA55_VALUE_NIL) (\<lambda>h a m. Some True)) (coded (quote_k 9 k))"
  "replayed_leaf (LEARN_EQK_K k) (RESIDUAL_EQK k (\<lambda>t. t = LUA55_VALUE_FALSE) (\<lambda>h a m. Some True)) (coded (quote_k 10 k))"
  "replayed_leaf (LEARN_EQK_K k) (RESIDUAL_EQK k (\<lambda>t. t = LUA55_VALUE_TRUE) (\<lambda>h a m. Some True)) (coded (quote_k 11 k))"
  by (rule eqk_one; (drule eqk_hit)?; simp add: leaves_def)+

lemma eqk_string_replays:
  assumes "lf \<in> {5, 6, 7, 8}"
  shows "replayed_leaf (LEARN_EQK_K k) (RESIDUAL_EQK k is_string_tag (\<lambda>h a m. string_bytes_eq a (q_const_ref h) m)) (coded (quote_k lf k))"
  unfolding LEARN_EQK_K_def
proof (rule one_replays [OF _ eqk_small])
  fix h f m s' l l' a c
  assume d: "eqk_decision h l m = Some (Some (lf, c))" and n: "norm_value l = norm_value l'"
    and m: "\<And>a b. string_bytes_eq a b (mem s') = string_bytes_eq a b m" and a: "reg (q_target h) f s' = Some a" "rd a s' = Some l'"
  from eqk_hit [OF d] assms have "is_string_tag (tag l)" "string_bytes_eq (payload l) (q_const_ref h) m = Some c" by blast+
  then show "RESIDUAL_EQK k is_string_tag (\<lambda>h a m. string_bytes_eq a (q_const_ref h) m) h f s' = residual_branch k c h f s'"
    using n a by (auto simp: RESIDUAL_EQK_def norm_value_eq is_string_tag_def m)
qed (use assms in \<open>auto simp: leaves_def\<close>)

subsection \<open>The bank\<close>

text \<open>
  The residuals by the quote that selects them, as \<open>build_opcode_compare_bank.lua\<close> numbers them, without the
  leaves 6 and 7 of EQ, LT and LE.
\<close>

definition compare_rows :: "v1_row list" where
  "compare_rows =
    [(lua55_learn_eq_k0, lua55_residual_eq_ii_k0, coded 2),
     (lua55_learn_eq_k1, lua55_residual_eq_ii_k1, coded 3),
     (lua55_learn_eq_k0, lua55_residual_eq_if_k0, coded 4),
     (lua55_learn_eq_k1, lua55_residual_eq_if_k1, coded 5),
     (lua55_learn_eq_k0, lua55_residual_eq_fi_k0, coded 6),
     (lua55_learn_eq_k1, lua55_residual_eq_fi_k1, coded 7),
     (lua55_learn_eq_k0, lua55_residual_eq_ff_k0, coded 8),
     (lua55_learn_eq_k1, lua55_residual_eq_ff_k1, coded 9),
     (lua55_learn_eq_k0, lua55_residual_eq_ss_k0, coded 10),
     (lua55_learn_eq_k1, lua55_residual_eq_ss_k1, coded 11),
     (lua55_learn_eq_k0, lua55_residual_eq_ll_k0, coded 16),
     (lua55_learn_eq_k1, lua55_residual_eq_ll_k1, coded 17),
     (lua55_learn_eq_k0, lua55_residual_eq_nn_k0, coded 18),
     (lua55_learn_eq_k1, lua55_residual_eq_nn_k1, coded 19),
     (lua55_learn_eq_k0, lua55_residual_eq_bb_k0, coded 20),
     (lua55_learn_eq_k1, lua55_residual_eq_bb_k1, coded 21),
     (lua55_learn_eq_k0, lua55_residual_eq_tt_k0, coded 22),
     (lua55_learn_eq_k1, lua55_residual_eq_tt_k1, coded 23),
     (lua55_learn_eq_k0, lua55_residual_eq_neq_k0, coded 24),
     (lua55_learn_eq_k1, lua55_residual_eq_neq_k1, coded 25),
     (lua55_learn_lt_k0, lua55_residual_lt_ii_k0, coded 2),
     (lua55_learn_lt_k1, lua55_residual_lt_ii_k1, coded 3),
     (lua55_learn_lt_k0, lua55_residual_lt_if_k0, coded 4),
     (lua55_learn_lt_k1, lua55_residual_lt_if_k1, coded 5),
     (lua55_learn_lt_k0, lua55_residual_lt_fi_k0, coded 6),
     (lua55_learn_lt_k1, lua55_residual_lt_fi_k1, coded 7),
     (lua55_learn_lt_k0, lua55_residual_lt_ff_k0, coded 8),
     (lua55_learn_lt_k1, lua55_residual_lt_ff_k1, coded 9),
     (lua55_learn_lt_k0, lua55_residual_lt_ss_k0, coded 10),
     (lua55_learn_lt_k1, lua55_residual_lt_ss_k1, coded 11),
     (lua55_learn_lt_k0, lua55_residual_lt_ll_k0, coded 16),
     (lua55_learn_lt_k1, lua55_residual_lt_ll_k1, coded 17),
     (lua55_learn_le_k0, lua55_residual_le_ii_k0, coded 2),
     (lua55_learn_le_k1, lua55_residual_le_ii_k1, coded 3),
     (lua55_learn_le_k0, lua55_residual_le_if_k0, coded 4),
     (lua55_learn_le_k1, lua55_residual_le_if_k1, coded 5),
     (lua55_learn_le_k0, lua55_residual_le_fi_k0, coded 6),
     (lua55_learn_le_k1, lua55_residual_le_fi_k1, coded 7),
     (lua55_learn_le_k0, lua55_residual_le_ff_k0, coded 8),
     (lua55_learn_le_k1, lua55_residual_le_ff_k1, coded 9),
     (lua55_learn_le_k0, lua55_residual_le_ss_k0, coded 10),
     (lua55_learn_le_k1, lua55_residual_le_ss_k1, coded 11),
     (lua55_learn_le_k0, lua55_residual_le_ll_k0, coded 16),
     (lua55_learn_le_k1, lua55_residual_le_ll_k1, coded 17)]"

definition compare_constant_rows :: "v1_row list" where
  "compare_constant_rows =
    [(lua55_learn_eqk_k0, lua55_residual_eqk_ii_k0, coded 2),
     (lua55_learn_eqk_k1, lua55_residual_eqk_ii_k1, coded 3),
     (lua55_learn_eqk_k0, lua55_residual_eqk_ff_k0, coded 4),
     (lua55_learn_eqk_k1, lua55_residual_eqk_ff_k1, coded 5),
     (lua55_learn_eqk_k0, lua55_residual_eqk_if_k0, coded 6),
     (lua55_learn_eqk_k1, lua55_residual_eqk_if_k1, coded 7),
     (lua55_learn_eqk_k0, lua55_residual_eqk_fi_k0, coded 8),
     (lua55_learn_eqk_k1, lua55_residual_eqk_fi_k1, coded 9),
     (lua55_learn_eqk_k0, lua55_residual_eqk_ss_k0, coded 10),
     (lua55_learn_eqk_k1, lua55_residual_eqk_ss_k1, coded 11),
     (lua55_learn_eqk_k0, lua55_residual_eqk_ls_k0, coded 12),
     (lua55_learn_eqk_k1, lua55_residual_eqk_ls_k1, coded 13),
     (lua55_learn_eqk_k0, lua55_residual_eqk_sl_k0, coded 14),
     (lua55_learn_eqk_k1, lua55_residual_eqk_sl_k1, coded 15),
     (lua55_learn_eqk_k0, lua55_residual_eqk_ll_k0, coded 16),
     (lua55_learn_eqk_k1, lua55_residual_eqk_ll_k1, coded 17),
     (lua55_learn_eqk_k0, lua55_residual_eqk_nn_k0, coded 18),
     (lua55_learn_eqk_k1, lua55_residual_eqk_nn_k1, coded 19),
     (lua55_learn_eqk_k0, lua55_residual_eqk_bb_k0, coded 20),
     (lua55_learn_eqk_k1, lua55_residual_eqk_bb_k1, coded 21),
     (lua55_learn_eqk_k0, lua55_residual_eqk_tt_k0, coded 22),
     (lua55_learn_eqk_k1, lua55_residual_eqk_tt_k1, coded 23)]"

definition compare_other_rows :: "v1_row list" where
  "compare_other_rows =
    [(lua55_learn_eqi_k0, lua55_residual_eqi_int_k0, coded 2),
     (lua55_learn_eqi_k1, lua55_residual_eqi_int_k1, coded 3),
     (lua55_learn_eqi_k0, lua55_residual_eqi_flt_k0, coded 4),
     (lua55_learn_eqi_k1, lua55_residual_eqi_flt_k1, coded 5),
     (lua55_learn_lti_k0, lua55_residual_lti_int_k0, coded 2),
     (lua55_learn_lti_k1, lua55_residual_lti_int_k1, coded 3),
     (lua55_learn_lti_k0, lua55_residual_lti_flt_k0, coded 4),
     (lua55_learn_lti_k1, lua55_residual_lti_flt_k1, coded 5),
     (lua55_learn_lei_k0, lua55_residual_lei_int_k0, coded 2),
     (lua55_learn_lei_k1, lua55_residual_lei_int_k1, coded 3),
     (lua55_learn_lei_k0, lua55_residual_lei_flt_k0, coded 4),
     (lua55_learn_lei_k1, lua55_residual_lei_flt_k1, coded 5),
     (lua55_learn_gti_k0, lua55_residual_gti_int_k0, coded 2),
     (lua55_learn_gti_k1, lua55_residual_gti_int_k1, coded 3),
     (lua55_learn_gti_k0, lua55_residual_gti_flt_k0, coded 4),
     (lua55_learn_gti_k1, lua55_residual_gti_flt_k1, coded 5),
     (lua55_learn_gei_k0, lua55_residual_gei_int_k0, coded 2),
     (lua55_learn_gei_k1, lua55_residual_gei_int_k1, coded 3),
     (lua55_learn_gei_k0, lua55_residual_gei_flt_k0, coded 4),
     (lua55_learn_gei_k1, lua55_residual_gei_flt_k1, coded 5),
     (lua55_learn_test_k0, lua55_residual_test_k0, coded 2),
     (lua55_learn_test_k1, lua55_residual_test_k1, coded 3),
     (lua55_learn_teskset_k0, lua55_residual_teskset_k0, coded 2),
     (lua55_learn_teskset_k1, lua55_residual_teskset_k1, coded 3)]"

definition v1_compare_bank :: "v1_row list" where
  "v1_compare_bank = compare_rows @ compare_constant_rows @ compare_other_rows"

lemma quote_numbers:
  "quote_k 1 False = 2"
  "quote_k 1 True = 3"
  "quote_k 2 False = 4"
  "quote_k 2 True = 5"
  "quote_k 3 False = 6"
  "quote_k 3 True = 7"
  "quote_k 4 False = 8"
  "quote_k 4 True = 9"
  "quote_k 5 False = 10"
  "quote_k 5 True = 11"
  "quote_k 6 False = 12"
  "quote_k 6 True = 13"
  "quote_k 7 False = 14"
  "quote_k 7 True = 15"
  "quote_k 8 False = 16"
  "quote_k 8 True = 17"
  "quote_k 9 False = 18"
  "quote_k 9 True = 19"
  "quote_k 10 False = 20"
  "quote_k 10 True = 21"
  "quote_k 11 False = 22"
  "quote_k 11 True = 23"
  "quote_k 12 False = 24"
  "quote_k 12 True = 25"
  by (simp_all add: quote_k_def)

lemmas two_register_leaves =
  lt_replays [where k = False, unfolded quote_numbers]
  lt_replays [where k = True, unfolded quote_numbers]
  le_replays [where k = False, unfolded quote_numbers]
  le_replays [where k = True, unfolded quote_numbers]
  eq_replays [where k = False, unfolded quote_numbers]
  eq_replays [where k = True, unfolded quote_numbers]
  neq_replays [where k = False, unfolded quote_numbers]
  neq_replays [where k = True, unfolded quote_numbers]

lemmas constant_leaves =
  eqk_replays [where k = False, unfolded quote_numbers]
  eqk_replays [where k = True, unfolded quote_numbers]
  eqk_string_replays [where k = False and lf = 5, simplified quote_numbers insert_iff]
  eqk_string_replays [where k = True and lf = 5, simplified quote_numbers insert_iff]
  eqk_string_replays [where k = False and lf = 6, simplified quote_numbers insert_iff]
  eqk_string_replays [where k = True and lf = 6, simplified quote_numbers insert_iff]
  eqk_string_replays [where k = False and lf = 7, simplified quote_numbers insert_iff]
  eqk_string_replays [where k = True and lf = 7, simplified quote_numbers insert_iff]
  eqk_string_replays [where k = False and lf = 8, simplified quote_numbers insert_iff]
  eqk_string_replays [where k = True and lf = 8, simplified quote_numbers insert_iff]

lemmas other_leaves =
  imm_cmp_replays(2) [where k = False and g = "\<lambda>a b. dbl_lt b a", unfolded quote_numbers]
  imm_cmp_replays(2) [where k = True and g = "\<lambda>a b. dbl_lt b a", unfolded quote_numbers]
  imm_cmp_replays(2) [where k = False and g = "\<lambda>a b. dbl_le b a", unfolded quote_numbers]
  imm_cmp_replays(2) [where k = True and g = "\<lambda>a b. dbl_le b a", unfolded quote_numbers]
  imm_cmp_replays [where k = False, unfolded quote_numbers]
  imm_cmp_replays [where k = True, unfolded quote_numbers]
  test_replays [where k = False, unfolded quote_numbers]
  test_replays [where k = True, unfolded quote_numbers]
  testset_replays [where k = False, unfolded quote_numbers]
  testset_replays [where k = True, unfolded quote_numbers]

lemma LEARN_REG_IMM_lt: "LEARN_REG_IMM k = LEARN_REG_IMM_OP (\<lambda>a b. a <s b) dbl_lt k"
  by (simp add: LEARN_REG_IMM_def LEARN_REG_IMM_OP_def)

lemma compare_rows: "list_all replays compare_rows"
  by (simp add: compare_rows_def replays_def two_register_leaves
    lua55_learn_eq_k0_def lua55_learn_eq_k1_def lua55_learn_le_k0_def lua55_learn_le_k1_def lua55_learn_lt_k0_def
    lua55_learn_lt_k1_def lua55_residual_eq_bb_k0_def lua55_residual_eq_bb_k1_def lua55_residual_eq_ff_k0_def lua55_residual_eq_ff_k1_def
    lua55_residual_eq_fi_k0_def lua55_residual_eq_fi_k1_def lua55_residual_eq_if_k0_def lua55_residual_eq_if_k1_def lua55_residual_eq_ii_k0_def
    lua55_residual_eq_ii_k1_def lua55_residual_eq_ll_k0_def lua55_residual_eq_ll_k1_def lua55_residual_eq_neq_k0_def lua55_residual_eq_neq_k1_def
    lua55_residual_eq_nn_k0_def lua55_residual_eq_nn_k1_def lua55_residual_eq_ss_k0_def lua55_residual_eq_ss_k1_def lua55_residual_eq_tt_k0_def
    lua55_residual_eq_tt_k1_def lua55_residual_le_ff_k0_def lua55_residual_le_ff_k1_def lua55_residual_le_fi_k0_def lua55_residual_le_fi_k1_def
    lua55_residual_le_if_k0_def lua55_residual_le_if_k1_def lua55_residual_le_ii_k0_def lua55_residual_le_ii_k1_def lua55_residual_le_ll_k0_def
    lua55_residual_le_ll_k1_def lua55_residual_le_ss_k0_def lua55_residual_le_ss_k1_def lua55_residual_lt_ff_k0_def lua55_residual_lt_ff_k1_def
    lua55_residual_lt_fi_k0_def lua55_residual_lt_fi_k1_def lua55_residual_lt_if_k0_def lua55_residual_lt_if_k1_def lua55_residual_lt_ii_k0_def
    lua55_residual_lt_ii_k1_def lua55_residual_lt_ll_k0_def lua55_residual_lt_ll_k1_def lua55_residual_lt_ss_k0_def lua55_residual_lt_ss_k1_def)

lemma compare_constant_rows: "list_all replays compare_constant_rows"
  by (simp add: compare_constant_rows_def replays_def constant_leaves
    lua55_learn_eqk_k0_def lua55_learn_eqk_k1_def lua55_residual_eqk_bb_k0_def lua55_residual_eqk_bb_k1_def lua55_residual_eqk_ff_k0_def
    lua55_residual_eqk_ff_k1_def lua55_residual_eqk_fi_k0_def lua55_residual_eqk_fi_k1_def lua55_residual_eqk_if_k0_def lua55_residual_eqk_if_k1_def
    lua55_residual_eqk_ii_k0_def lua55_residual_eqk_ii_k1_def lua55_residual_eqk_ll_k0_def lua55_residual_eqk_ll_k1_def lua55_residual_eqk_ls_k0_def
    lua55_residual_eqk_ls_k1_def lua55_residual_eqk_nn_k0_def lua55_residual_eqk_nn_k1_def lua55_residual_eqk_sl_k0_def lua55_residual_eqk_sl_k1_def
    lua55_residual_eqk_ss_k0_def lua55_residual_eqk_ss_k1_def lua55_residual_eqk_tt_k0_def lua55_residual_eqk_tt_k1_def)

lemma compare_other_rows: "list_all replays compare_other_rows"
  by (simp add: compare_other_rows_def replays_def other_leaves LEARN_REG_IMM_lt
    lua55_learn_eqi_k0_def lua55_learn_eqi_k1_def lua55_learn_gei_k0_def lua55_learn_gei_k1_def lua55_learn_gti_k0_def
    lua55_learn_gti_k1_def lua55_learn_lei_k0_def lua55_learn_lei_k1_def lua55_learn_lti_k0_def lua55_learn_lti_k1_def
    lua55_learn_teskset_k0_def lua55_learn_teskset_k1_def lua55_learn_test_k0_def lua55_learn_test_k1_def lua55_residual_eqi_flt_k0_def
    lua55_residual_eqi_flt_k1_def lua55_residual_eqi_int_k0_def lua55_residual_eqi_int_k1_def lua55_residual_gei_flt_k0_def lua55_residual_gei_flt_k1_def
    lua55_residual_gei_int_k0_def lua55_residual_gei_int_k1_def lua55_residual_gti_flt_k0_def lua55_residual_gti_flt_k1_def lua55_residual_gti_int_k0_def
    lua55_residual_gti_int_k1_def lua55_residual_lei_flt_k0_def lua55_residual_lei_flt_k1_def lua55_residual_lei_int_k0_def lua55_residual_lei_int_k1_def
    lua55_residual_lti_flt_k0_def lua55_residual_lti_flt_k1_def lua55_residual_lti_int_k0_def lua55_residual_lti_int_k1_def lua55_residual_teskset_k0_def
    lua55_residual_teskset_k1_def lua55_residual_test_k0_def lua55_residual_test_k1_def)

lemma compare_bank_replays: "list_all replays v1_compare_bank"
  by (simp add: v1_compare_bank_def compare_rows compare_constant_rows compare_other_rows)

end
