(* ===== verification/V1_Movement.thy ===== *)
theory V1_Movement
  imports V1_Effects
begin

text \<open>
  Moves, constants, upvalues, jumps, CLOSE, ERRNNIL, varargs and the generic-for bookkeeping of the
  first generation (\<open>opcode_00_08_stencils.c\<close>, \<open>opcode_09_10_stencils.c\<close>, \<open>opcode_string_stencils.c\<close>,
  \<open>opcode_jmp_stencils.c\<close>, \<open>opcode_close_stencils.c\<close>, \<open>opcode_vararg_stencils.c\<close>, \<open>opcode_tfor_stencils.c\<close>).
\<close>

unbundle bit_operations_syntax

subsection \<open>Quotes\<close>

abbreviation (input) LUA55_QUOTE_MOVE_NIL :: u32 where "LUA55_QUOTE_MOVE_NIL \<equiv> LUA55_QUOTE 0 1"
abbreviation (input) LUA55_QUOTE_MOVE_FALSE :: u32 where "LUA55_QUOTE_MOVE_FALSE \<equiv> LUA55_QUOTE 0 2"
abbreviation (input) LUA55_QUOTE_MOVE_TRUE :: u32 where "LUA55_QUOTE_MOVE_TRUE \<equiv> LUA55_QUOTE 0 3"
abbreviation (input) LUA55_QUOTE_MOVE_INTEGER :: u32 where "LUA55_QUOTE_MOVE_INTEGER \<equiv> LUA55_QUOTE 0 4"
abbreviation (input) LUA55_QUOTE_MOVE_FLOAT :: u32 where "LUA55_QUOTE_MOVE_FLOAT \<equiv> LUA55_QUOTE 0 5"
abbreviation (input) LUA55_QUOTE_MOVE_SHORT_STRING :: u32 where "LUA55_QUOTE_MOVE_SHORT_STRING \<equiv> LUA55_QUOTE 0 6"
abbreviation (input) LUA55_QUOTE_MOVE_LONG_STRING :: u32 where "LUA55_QUOTE_MOVE_LONG_STRING \<equiv> LUA55_QUOTE 0 7"
abbreviation (input) LUA55_QUOTE_LOADI :: u32 where "LUA55_QUOTE_LOADI \<equiv> LUA55_QUOTE 1 1"
abbreviation (input) LUA55_QUOTE_LOADF :: u32 where "LUA55_QUOTE_LOADF \<equiv> LUA55_QUOTE 2 1"
abbreviation (input) LUA55_QUOTE_LOADK_NIL :: u32 where "LUA55_QUOTE_LOADK_NIL \<equiv> LUA55_QUOTE 3 1"
abbreviation (input) LUA55_QUOTE_LOADK_FALSE :: u32 where "LUA55_QUOTE_LOADK_FALSE \<equiv> LUA55_QUOTE 3 2"
abbreviation (input) LUA55_QUOTE_LOADK_TRUE :: u32 where "LUA55_QUOTE_LOADK_TRUE \<equiv> LUA55_QUOTE 3 3"
abbreviation (input) LUA55_QUOTE_LOADK_INTEGER :: u32 where "LUA55_QUOTE_LOADK_INTEGER \<equiv> LUA55_QUOTE 3 4"
abbreviation (input) LUA55_QUOTE_LOADK_FLOAT :: u32 where "LUA55_QUOTE_LOADK_FLOAT \<equiv> LUA55_QUOTE 3 5"
abbreviation (input) LUA55_QUOTE_LOADK_SHORT_STRING :: u32 where "LUA55_QUOTE_LOADK_SHORT_STRING \<equiv> LUA55_QUOTE 3 6"
abbreviation (input) LUA55_QUOTE_LOADK_LONG_STRING :: u32 where "LUA55_QUOTE_LOADK_LONG_STRING \<equiv> LUA55_QUOTE 3 7"
abbreviation (input) LUA55_QUOTE_LOADKX_NIL :: u32 where "LUA55_QUOTE_LOADKX_NIL \<equiv> LUA55_QUOTE 4 1"
abbreviation (input) LUA55_QUOTE_LOADKX_FALSE :: u32 where "LUA55_QUOTE_LOADKX_FALSE \<equiv> LUA55_QUOTE 4 2"
abbreviation (input) LUA55_QUOTE_LOADKX_TRUE :: u32 where "LUA55_QUOTE_LOADKX_TRUE \<equiv> LUA55_QUOTE 4 3"
abbreviation (input) LUA55_QUOTE_LOADKX_INTEGER :: u32 where "LUA55_QUOTE_LOADKX_INTEGER \<equiv> LUA55_QUOTE 4 4"
abbreviation (input) LUA55_QUOTE_LOADKX_FLOAT :: u32 where "LUA55_QUOTE_LOADKX_FLOAT \<equiv> LUA55_QUOTE 4 5"
abbreviation (input) LUA55_QUOTE_LOADKX_SHORT_STRING :: u32 where "LUA55_QUOTE_LOADKX_SHORT_STRING \<equiv> LUA55_QUOTE 4 6"
abbreviation (input) LUA55_QUOTE_LOADKX_LONG_STRING :: u32 where "LUA55_QUOTE_LOADKX_LONG_STRING \<equiv> LUA55_QUOTE 4 7"
abbreviation (input) LUA55_QUOTE_LOADFALSE :: u32 where "LUA55_QUOTE_LOADFALSE \<equiv> LUA55_QUOTE 5 1"
abbreviation (input) LUA55_QUOTE_LFALSESKIP :: u32 where "LUA55_QUOTE_LFALSESKIP \<equiv> LUA55_QUOTE 6 1"
abbreviation (input) LUA55_QUOTE_LOADTRUE :: u32 where "LUA55_QUOTE_LOADTRUE \<equiv> LUA55_QUOTE 7 1"
abbreviation (input) LUA55_QUOTE_LOADNIL_SPAN :: u32 where "LUA55_QUOTE_LOADNIL_SPAN \<equiv> LUA55_QUOTE 8 1"
abbreviation (input) LUA55_QUOTE_GETUPVAL_OPEN_NIL :: u32 where "LUA55_QUOTE_GETUPVAL_OPEN_NIL \<equiv> LUA55_QUOTE 9 1"
abbreviation (input) LUA55_QUOTE_GETUPVAL_OPEN_FALSE :: u32 where "LUA55_QUOTE_GETUPVAL_OPEN_FALSE \<equiv> LUA55_QUOTE 9 2"
abbreviation (input) LUA55_QUOTE_GETUPVAL_OPEN_TRUE :: u32 where "LUA55_QUOTE_GETUPVAL_OPEN_TRUE \<equiv> LUA55_QUOTE 9 3"
abbreviation (input) LUA55_QUOTE_GETUPVAL_OPEN_INTEGER :: u32 where "LUA55_QUOTE_GETUPVAL_OPEN_INTEGER \<equiv> LUA55_QUOTE 9 4"
abbreviation (input) LUA55_QUOTE_GETUPVAL_OPEN_FLOAT :: u32 where "LUA55_QUOTE_GETUPVAL_OPEN_FLOAT \<equiv> LUA55_QUOTE 9 5"
abbreviation (input) LUA55_QUOTE_GETUPVAL_CLOSED_NIL :: u32 where "LUA55_QUOTE_GETUPVAL_CLOSED_NIL \<equiv> LUA55_QUOTE 9 6"
abbreviation (input) LUA55_QUOTE_GETUPVAL_CLOSED_FALSE :: u32 where "LUA55_QUOTE_GETUPVAL_CLOSED_FALSE \<equiv> LUA55_QUOTE 9 7"
abbreviation (input) LUA55_QUOTE_GETUPVAL_CLOSED_TRUE :: u32 where "LUA55_QUOTE_GETUPVAL_CLOSED_TRUE \<equiv> LUA55_QUOTE 9 8"
abbreviation (input) LUA55_QUOTE_GETUPVAL_CLOSED_INTEGER :: u32 where "LUA55_QUOTE_GETUPVAL_CLOSED_INTEGER \<equiv> LUA55_QUOTE 9 9"
abbreviation (input) LUA55_QUOTE_GETUPVAL_CLOSED_FLOAT :: u32 where "LUA55_QUOTE_GETUPVAL_CLOSED_FLOAT \<equiv> LUA55_QUOTE 9 10"
abbreviation (input) LUA55_QUOTE_GETUPVAL_OPEN_CLOSURE :: u32 where "LUA55_QUOTE_GETUPVAL_OPEN_CLOSURE \<equiv> LUA55_QUOTE 9 11"
abbreviation (input) LUA55_QUOTE_GETUPVAL_CLOSED_CLOSURE :: u32 where "LUA55_QUOTE_GETUPVAL_CLOSED_CLOSURE \<equiv> LUA55_QUOTE 9 12"
abbreviation (input) LUA55_QUOTE_SETUPVAL_OPEN_NIL :: u32 where "LUA55_QUOTE_SETUPVAL_OPEN_NIL \<equiv> LUA55_QUOTE 10 1"
abbreviation (input) LUA55_QUOTE_SETUPVAL_OPEN_FALSE :: u32 where "LUA55_QUOTE_SETUPVAL_OPEN_FALSE \<equiv> LUA55_QUOTE 10 2"
abbreviation (input) LUA55_QUOTE_SETUPVAL_OPEN_TRUE :: u32 where "LUA55_QUOTE_SETUPVAL_OPEN_TRUE \<equiv> LUA55_QUOTE 10 3"
abbreviation (input) LUA55_QUOTE_SETUPVAL_OPEN_INTEGER :: u32 where "LUA55_QUOTE_SETUPVAL_OPEN_INTEGER \<equiv> LUA55_QUOTE 10 4"
abbreviation (input) LUA55_QUOTE_SETUPVAL_OPEN_FLOAT :: u32 where "LUA55_QUOTE_SETUPVAL_OPEN_FLOAT \<equiv> LUA55_QUOTE 10 5"
abbreviation (input) LUA55_QUOTE_SETUPVAL_CLOSED_NIL :: u32 where "LUA55_QUOTE_SETUPVAL_CLOSED_NIL \<equiv> LUA55_QUOTE 10 6"
abbreviation (input) LUA55_QUOTE_SETUPVAL_CLOSED_FALSE :: u32 where "LUA55_QUOTE_SETUPVAL_CLOSED_FALSE \<equiv> LUA55_QUOTE 10 7"
abbreviation (input) LUA55_QUOTE_SETUPVAL_CLOSED_TRUE :: u32 where "LUA55_QUOTE_SETUPVAL_CLOSED_TRUE \<equiv> LUA55_QUOTE 10 8"
abbreviation (input) LUA55_QUOTE_SETUPVAL_CLOSED_INTEGER :: u32 where "LUA55_QUOTE_SETUPVAL_CLOSED_INTEGER \<equiv> LUA55_QUOTE 10 9"
abbreviation (input) LUA55_QUOTE_SETUPVAL_CLOSED_FLOAT :: u32 where "LUA55_QUOTE_SETUPVAL_CLOSED_FLOAT \<equiv> LUA55_QUOTE 10 10"

subsection \<open>Moves and constants: learners\<close>

text \<open>Nil to long string, tables and closures.\<close>

definition lua55_learn_move :: v1_stencil where
  "lua55_learn_move h f s = do {
     source \<leftarrow> reg (q_source h) f s;
     (slot, s) \<leftarrow> next_slot f s;
     v \<leftarrow> rd source s;
     s \<leftarrow> upd_slot slot (\<lambda>r. r\<lparr>rs_expected_tag := tag v\<rparr>) s;
     if tag v \<le> LUA55_VALUE_LONG_STRING \<or> tag v = LUA55_VALUE_TABLE \<or> tag v = LUA55_VALUE_CLOSURE
     then do {
       s \<leftarrow> set_quote slot (tag v + LUA55_QUOTE_MOVE_NIL) s;
       s \<leftarrow> wr_at_reg (q_target h) v f s;
       lua55_learn_next f s}
     else reject_quote slot h f s}"

definition LEARN_TAGGED :: "u32 \<Rightarrow> u32 \<Rightarrow> v1_stencil" where
  "LEARN_TAGGED quote_id vtag h f s = do {
     s \<leftarrow> RECORD_FIXED quote_id f s;
     s \<leftarrow> tag_at_reg (q_target h) vtag f s;
     lua55_learn_next f s}"

definition LEARN_INTEGER :: "u32 \<Rightarrow> v1_stencil" where
  "LEARN_INTEGER quote_id h f s = do {
     s \<leftarrow> RECORD_FIXED quote_id f s;
     s \<leftarrow> wr_at_reg (q_target h) (mk_value LUA55_VALUE_INTEGER (q_integer_bits h)) f s;
     lua55_learn_next f s}"

definition LEARN_FLOAT :: "u32 \<Rightarrow> v1_stencil" where
  "LEARN_FLOAT quote_id h f s = do {
     s \<leftarrow> RECORD_FIXED quote_id f s;
     s \<leftarrow> wr_at_reg (q_target h) (mk_value LUA55_VALUE_FLOAT (q_float_bits h)) f s;
     lua55_learn_next f s}"

definition LEARN_STRING :: "u32 \<Rightarrow> u32 \<Rightarrow> v1_stencil" where
  "LEARN_STRING quote_id vtag h f s = do {
     s \<leftarrow> RECORD_FIXED quote_id f s;
     s \<leftarrow> wr_at_reg (q_target h) (mk_value vtag (q_reference_bits h)) f s;
     lua55_learn_next f s}"

definition lua55_learn_loadi :: v1_stencil where
  "lua55_learn_loadi = LEARN_INTEGER LUA55_QUOTE_LOADI"

definition lua55_learn_loadf :: v1_stencil where
  "lua55_learn_loadf = LEARN_FLOAT LUA55_QUOTE_LOADF"

definition lua55_learn_loadk_nil :: v1_stencil where
  "lua55_learn_loadk_nil = LEARN_TAGGED LUA55_QUOTE_LOADK_NIL LUA55_VALUE_NIL"

definition lua55_learn_loadk_false :: v1_stencil where
  "lua55_learn_loadk_false = LEARN_TAGGED LUA55_QUOTE_LOADK_FALSE LUA55_VALUE_FALSE"

definition lua55_learn_loadk_true :: v1_stencil where
  "lua55_learn_loadk_true = LEARN_TAGGED LUA55_QUOTE_LOADK_TRUE LUA55_VALUE_TRUE"

definition lua55_learn_loadk_integer :: v1_stencil where
  "lua55_learn_loadk_integer = LEARN_INTEGER LUA55_QUOTE_LOADK_INTEGER"

definition lua55_learn_loadk_float :: v1_stencil where
  "lua55_learn_loadk_float = LEARN_FLOAT LUA55_QUOTE_LOADK_FLOAT"

definition lua55_learn_loadk_short_string :: v1_stencil where
  "lua55_learn_loadk_short_string = LEARN_STRING LUA55_QUOTE_LOADK_SHORT_STRING LUA55_VALUE_SHORT_STRING"

definition lua55_learn_loadk_long_string :: v1_stencil where
  "lua55_learn_loadk_long_string = LEARN_STRING LUA55_QUOTE_LOADK_LONG_STRING LUA55_VALUE_LONG_STRING"

definition lua55_learn_loadkx_nil :: v1_stencil where
  "lua55_learn_loadkx_nil = LEARN_TAGGED LUA55_QUOTE_LOADKX_NIL LUA55_VALUE_NIL"

definition lua55_learn_loadkx_false :: v1_stencil where
  "lua55_learn_loadkx_false = LEARN_TAGGED LUA55_QUOTE_LOADKX_FALSE LUA55_VALUE_FALSE"

definition lua55_learn_loadkx_true :: v1_stencil where
  "lua55_learn_loadkx_true = LEARN_TAGGED LUA55_QUOTE_LOADKX_TRUE LUA55_VALUE_TRUE"

definition lua55_learn_loadkx_integer :: v1_stencil where
  "lua55_learn_loadkx_integer = LEARN_INTEGER LUA55_QUOTE_LOADKX_INTEGER"

definition lua55_learn_loadkx_float :: v1_stencil where
  "lua55_learn_loadkx_float = LEARN_FLOAT LUA55_QUOTE_LOADKX_FLOAT"

definition lua55_learn_loadkx_short_string :: v1_stencil where
  "lua55_learn_loadkx_short_string = LEARN_STRING LUA55_QUOTE_LOADKX_SHORT_STRING LUA55_VALUE_SHORT_STRING"

definition lua55_learn_loadkx_long_string :: v1_stencil where
  "lua55_learn_loadkx_long_string = LEARN_STRING LUA55_QUOTE_LOADKX_LONG_STRING LUA55_VALUE_LONG_STRING"

definition lua55_learn_loadfalse :: v1_stencil where
  "lua55_learn_loadfalse = LEARN_TAGGED LUA55_QUOTE_LOADFALSE LUA55_VALUE_FALSE"

definition lua55_learn_lfalseskip :: v1_stencil where
  "lua55_learn_lfalseskip = LEARN_TAGGED LUA55_QUOTE_LFALSESKIP LUA55_VALUE_FALSE"

definition lua55_learn_loadtrue :: v1_stencil where
  "lua55_learn_loadtrue = LEARN_TAGGED LUA55_QUOTE_LOADTRUE LUA55_VALUE_TRUE"

text \<open>LOADNIL clears a span of registers; \<open>index\<close> counts up to it.\<close>

primrec clear_span :: "u32 \<Rightarrow> u32 \<Rightarrow> nat \<Rightarrow> u64 \<Rightarrow> v1_state \<Rightarrow> v1_state option" where
  "clear_span target index 0 f s = Some s"
| "clear_span target index (Suc n) f s = do {
     s \<leftarrow> tag_at_reg (target + index) LUA55_VALUE_NIL f s;
     clear_span target (index + 1) n f s}"

definition lua55_learn_loadnil :: v1_stencil where
  "lua55_learn_loadnil h f s = do {
     s \<leftarrow> RECORD_FIXED LUA55_QUOTE_LOADNIL_SPAN f s;
     s \<leftarrow> clear_span (q_target h) 0 (unat (q_span h)) f s;
     lua55_learn_next f s}"

subsection \<open>Moves and constants: residuals\<close>

definition MOVE_RESIDUAL :: "u32 \<Rightarrow> bool \<Rightarrow> v1_stencil" where
  "MOVE_RESIDUAL expected copy_payload h f s = do {
     source \<leftarrow> reg (q_source h) f s;
     v \<leftarrow> rd source s;
     if tag v \<noteq> expected then GUARD_FAILED h f s
     else do {
       s \<leftarrow> (if copy_payload then wr_at_reg (q_target h) (mk_value expected (payload v)) f s
            else tag_at_reg (q_target h) expected f s);
       lua55_residual_next f s}}"

definition MOVE_STRING :: "u32 \<Rightarrow> v1_stencil" where
  "MOVE_STRING want h f s = do {
     source \<leftarrow> reg (q_source h) f s;
     v \<leftarrow> rd source s;
     if tag v \<noteq> want then GUARD_FAILED h f s
     else do {
       s \<leftarrow> wr_at_reg (q_target h) (mk_value want (payload v)) f s;
       lua55_residual_next f s}}"

definition lua55_residual_move_nil :: v1_stencil where
  "lua55_residual_move_nil = MOVE_RESIDUAL LUA55_VALUE_NIL False"

definition lua55_residual_move_false :: v1_stencil where
  "lua55_residual_move_false = MOVE_RESIDUAL LUA55_VALUE_FALSE False"

definition lua55_residual_move_true :: v1_stencil where
  "lua55_residual_move_true = MOVE_RESIDUAL LUA55_VALUE_TRUE False"

definition lua55_residual_move_integer :: v1_stencil where
  "lua55_residual_move_integer = MOVE_RESIDUAL LUA55_VALUE_INTEGER True"

definition lua55_residual_move_float :: v1_stencil where
  "lua55_residual_move_float = MOVE_RESIDUAL LUA55_VALUE_FLOAT True"

definition lua55_residual_move_table :: v1_stencil where
  "lua55_residual_move_table = MOVE_RESIDUAL LUA55_VALUE_TABLE True"

definition lua55_residual_move_closure :: v1_stencil where
  "lua55_residual_move_closure = MOVE_RESIDUAL LUA55_VALUE_CLOSURE True"

definition lua55_residual_move_short_string :: v1_stencil where
  "lua55_residual_move_short_string = MOVE_STRING LUA55_VALUE_SHORT_STRING"

definition lua55_residual_move_long_string :: v1_stencil where
  "lua55_residual_move_long_string = MOVE_STRING LUA55_VALUE_LONG_STRING"

definition RESIDUAL_TAGGED :: "u32 \<Rightarrow> v1_stencil" where
  "RESIDUAL_TAGGED vtag h f s = do {
     s \<leftarrow> tag_at_reg (q_target h) vtag f s;
     lua55_residual_next f s}"

definition RESIDUAL_INTEGER :: v1_stencil where
  "RESIDUAL_INTEGER h f s = do {
     s \<leftarrow> wr_at_reg (q_target h) (mk_value LUA55_VALUE_INTEGER (q_integer_bits h)) f s;
     lua55_residual_next f s}"

definition RESIDUAL_FLOAT :: v1_stencil where
  "RESIDUAL_FLOAT h f s = do {
     s \<leftarrow> wr_at_reg (q_target h) (mk_value LUA55_VALUE_FLOAT (q_float_bits h)) f s;
     lua55_residual_next f s}"

definition RESIDUAL_STRING :: "u32 \<Rightarrow> v1_stencil" where
  "RESIDUAL_STRING vtag h f s = do {
     s \<leftarrow> wr_at_reg (q_target h) (mk_value vtag (q_reference_bits h)) f s;
     lua55_residual_next f s}"

definition lua55_residual_loadi :: v1_stencil where
  "lua55_residual_loadi = RESIDUAL_INTEGER"

definition lua55_residual_loadf :: v1_stencil where
  "lua55_residual_loadf = RESIDUAL_FLOAT"

definition lua55_residual_loadk_nil :: v1_stencil where
  "lua55_residual_loadk_nil = RESIDUAL_TAGGED LUA55_VALUE_NIL"

definition lua55_residual_loadk_false :: v1_stencil where
  "lua55_residual_loadk_false = RESIDUAL_TAGGED LUA55_VALUE_FALSE"

definition lua55_residual_loadk_true :: v1_stencil where
  "lua55_residual_loadk_true = RESIDUAL_TAGGED LUA55_VALUE_TRUE"

definition lua55_residual_loadk_integer :: v1_stencil where
  "lua55_residual_loadk_integer = RESIDUAL_INTEGER"

definition lua55_residual_loadk_float :: v1_stencil where
  "lua55_residual_loadk_float = RESIDUAL_FLOAT"

definition lua55_residual_loadk_short_string :: v1_stencil where
  "lua55_residual_loadk_short_string = RESIDUAL_STRING LUA55_VALUE_SHORT_STRING"

definition lua55_residual_loadk_long_string :: v1_stencil where
  "lua55_residual_loadk_long_string = RESIDUAL_STRING LUA55_VALUE_LONG_STRING"

definition lua55_residual_loadkx_nil :: v1_stencil where
  "lua55_residual_loadkx_nil = RESIDUAL_TAGGED LUA55_VALUE_NIL"

definition lua55_residual_loadkx_false :: v1_stencil where
  "lua55_residual_loadkx_false = RESIDUAL_TAGGED LUA55_VALUE_FALSE"

definition lua55_residual_loadkx_true :: v1_stencil where
  "lua55_residual_loadkx_true = RESIDUAL_TAGGED LUA55_VALUE_TRUE"

definition lua55_residual_loadkx_integer :: v1_stencil where
  "lua55_residual_loadkx_integer = RESIDUAL_INTEGER"

definition lua55_residual_loadkx_float :: v1_stencil where
  "lua55_residual_loadkx_float = RESIDUAL_FLOAT"

definition lua55_residual_loadkx_short_string :: v1_stencil where
  "lua55_residual_loadkx_short_string = RESIDUAL_STRING LUA55_VALUE_SHORT_STRING"

definition lua55_residual_loadkx_long_string :: v1_stencil where
  "lua55_residual_loadkx_long_string = RESIDUAL_STRING LUA55_VALUE_LONG_STRING"

definition lua55_residual_loadfalse :: v1_stencil where
  "lua55_residual_loadfalse = RESIDUAL_TAGGED LUA55_VALUE_FALSE"

definition lua55_residual_lfalseskip :: v1_stencil where
  "lua55_residual_lfalseskip = RESIDUAL_TAGGED LUA55_VALUE_FALSE"

definition lua55_residual_loadtrue :: v1_stencil where
  "lua55_residual_loadtrue = RESIDUAL_TAGGED LUA55_VALUE_TRUE"

definition lua55_residual_loadnil_one :: v1_stencil where
  "lua55_residual_loadnil_one = RESIDUAL_TAGGED LUA55_VALUE_NIL"

definition lua55_opcode_finish :: v1_stencil where
  "lua55_opcode_finish h = exit_with (q_resume_pc h) LUA55_COMPLETED"

subsection \<open>Moves and constants: self-selecting stencils\<close>

definition lua55_poly_move :: v1_stencil where
  "lua55_poly_move h f s = do {
     source \<leftarrow> reg (q_source h) f s;
     v \<leftarrow> rd source s;
     s \<leftarrow> wr_at_reg (q_target h) v f s;
     lua55_residual_next f s}"

definition lua55_poly_loadi :: v1_stencil where
  "lua55_poly_loadi = RESIDUAL_INTEGER"

definition lua55_poly_loadf :: v1_stencil where
  "lua55_poly_loadf = RESIDUAL_FLOAT"

definition lua55_poly_loadk :: v1_stencil where
  "lua55_poly_loadk h f s = do {
     let t = q_const_tag h;
     s \<leftarrow> wr_at_reg (q_target h) (mk_value t
       (if t = LUA55_VALUE_INTEGER then q_const_int h else if t = LUA55_VALUE_FLOAT then q_const_flt h else q_const_ref h)) f s;
     lua55_residual_next f s}"

definition lua55_poly_loadkx :: v1_stencil where
  "lua55_poly_loadkx = lua55_poly_loadk"

definition lua55_poly_loadfalse :: v1_stencil where
  "lua55_poly_loadfalse = RESIDUAL_TAGGED LUA55_VALUE_FALSE"

definition lua55_poly_loadfalse_skip :: v1_stencil where
  "lua55_poly_loadfalse_skip = RESIDUAL_TAGGED LUA55_VALUE_FALSE"

definition lua55_poly_loadtrue :: v1_stencil where
  "lua55_poly_loadtrue = RESIDUAL_TAGGED LUA55_VALUE_TRUE"

text \<open>The span is indexed from the address of the target, so it does not wrap with the register number.\<close>

primrec clear_from :: "u64 \<Rightarrow> u32 \<Rightarrow> nat \<Rightarrow> v1_state \<Rightarrow> v1_state option" where
  "clear_from target i 0 s = Some s"
| "clear_from target i (Suc n) s = do {
     s \<leftarrow> on_mem (wr_tag (slot_addr target i) LUA55_VALUE_NIL) s;
     clear_from target (i + 1) n s}"

definition lua55_poly_loadnil :: v1_stencil where
  "lua55_poly_loadnil h f s = do {
     target \<leftarrow> reg (q_target h) f s;
     s \<leftarrow> clear_from target 0 (unat (q_span h)) s;
     lua55_residual_next f s}"

subsection \<open>Upvalues\<close>

definition upcell :: "u32 \<Rightarrow> u64 \<Rightarrow> v1_state \<Rightarrow> u64 option" where
  "upcell i f s = do {fr \<leftarrow> lframes s f; Some (l_upvalues fr + SIZEOF_V1_CELL * ucast i)}"

definition cell_value :: "u64 \<Rightarrow> learn_cell \<Rightarrow> u64" where
  "cell_value cell c = (if lc_state c = LUA55_UPVALUE_OPEN then lc_open_slot c else cell + 8)"

definition lua55_learn_getupval :: v1_stencil where
  "lua55_learn_getupval h f s = do {
     cell \<leftarrow> upcell (q_upvalue h) f s;
     (slot, s) \<leftarrow> next_slot f s;
     c \<leftarrow> lcells s cell;
     if lc_state c \<noteq> LUA55_UPVALUE_OPEN \<and> lc_state c \<noteq> LUA55_UPVALUE_CLOSED then reject_quote slot h f s
     else do {
       v \<leftarrow> rd (cell_value cell c) s;
       s \<leftarrow> upd_slot slot (\<lambda>r. r\<lparr>rs_expected_tag := tag v, rs_expected_state := lc_state c, rs_expected_generation := lc_generation c\<rparr>) s;
       if tag v = LUA55_VALUE_CLOSURE then do {
         s \<leftarrow> set_quote slot (if lc_state c = LUA55_UPVALUE_OPEN then LUA55_QUOTE_GETUPVAL_OPEN_CLOSURE else LUA55_QUOTE_GETUPVAL_CLOSED_CLOSURE) s;
         s \<leftarrow> wr_at_reg (q_target h) v f s;
         lua55_learn_next f s}
       else if tag v > LUA55_VALUE_FLOAT then reject_quote slot h f s
       else do {
         s \<leftarrow> set_quote slot ((if lc_state c = LUA55_UPVALUE_OPEN then LUA55_QUOTE_GETUPVAL_OPEN_NIL else LUA55_QUOTE_GETUPVAL_CLOSED_NIL) + tag v) s;
         s \<leftarrow> wr_at_reg (q_target h) v f s;
         lua55_learn_next f s}}}"

definition lua55_learn_setupval :: v1_stencil where
  "lua55_learn_setupval h f s = do {
     cell \<leftarrow> upcell (q_upvalue h) f s;
     (slot, s) \<leftarrow> next_slot f s;
     source \<leftarrow> reg (q_source h) f s;
     v \<leftarrow> rd source s;
     c \<leftarrow> lcells s cell;
     s \<leftarrow> upd_slot slot (\<lambda>r. r\<lparr>rs_expected_tag := tag v, rs_expected_state := lc_state c, rs_expected_generation := lc_generation c\<rparr>) s;
     if (lc_state c \<noteq> LUA55_UPVALUE_OPEN \<and> lc_state c \<noteq> LUA55_UPVALUE_CLOSED) \<or> tag v > LUA55_VALUE_FLOAT then reject_quote slot h f s
     else do {
       s \<leftarrow> set_quote slot ((if lc_state c = LUA55_UPVALUE_OPEN then LUA55_QUOTE_SETUPVAL_OPEN_NIL else LUA55_QUOTE_SETUPVAL_CLOSED_NIL) + tag v) s;
       s \<leftarrow> on_mem (wr_val (cell_value cell c) v) s;
       lua55_learn_next f s}}"

text \<open>The generation that the residual expects was recorded by the learner.\<close>

definition CHECK_CELL :: "learn_cell \<Rightarrow> u32 \<Rightarrow> v1_holes \<Rightarrow> bool" where
  "CHECK_CELL c want h \<longleftrightarrow> lc_state c = want \<and> lc_generation c = q_expected_generation h"

definition GET_RESIDUAL :: "u32 \<Rightarrow> u32 \<Rightarrow> bool \<Rightarrow> v1_stencil" where
  "GET_RESIDUAL want_state want copy_payload h f s = do {
     cell \<leftarrow> upcell (q_upvalue h) f s;
     c \<leftarrow> lcells s cell;
     if \<not> CHECK_CELL c want_state h then GUARD_FAILED h f s
     else do {
       v \<leftarrow> rd (if want_state = LUA55_UPVALUE_OPEN then lc_open_slot c else cell + 8) s;
       if tag v \<noteq> want then GUARD_FAILED h f s
       else do {
         s \<leftarrow> (if copy_payload then wr_at_reg (q_target h) (mk_value want (payload v)) f s else tag_at_reg (q_target h) want f s);
         lua55_residual_next f s}}}"

definition SET_RESIDUAL :: "u32 \<Rightarrow> u32 \<Rightarrow> bool \<Rightarrow> v1_stencil" where
  "SET_RESIDUAL want_state want copy_payload h f s = do {
     cell \<leftarrow> upcell (q_upvalue h) f s;
     source \<leftarrow> reg (q_source h) f s;
     c \<leftarrow> lcells s cell;
     if \<not> CHECK_CELL c want_state h then GUARD_FAILED h f s
     else do {
       v \<leftarrow> rd source s;
       if tag v \<noteq> want then GUARD_FAILED h f s
       else do {
         let target = (if want_state = LUA55_UPVALUE_OPEN then lc_open_slot c else cell + 8);
         s \<leftarrow> on_mem (if copy_payload then wr_val target (mk_value want (payload v)) else wr_tag target want) s;
         lua55_residual_next f s}}}"

definition lua55_residual_getupval_open_nil :: v1_stencil where
  "lua55_residual_getupval_open_nil = GET_RESIDUAL LUA55_UPVALUE_OPEN LUA55_VALUE_NIL False"

definition lua55_residual_getupval_open_false :: v1_stencil where
  "lua55_residual_getupval_open_false = GET_RESIDUAL LUA55_UPVALUE_OPEN LUA55_VALUE_FALSE False"

definition lua55_residual_getupval_open_true :: v1_stencil where
  "lua55_residual_getupval_open_true = GET_RESIDUAL LUA55_UPVALUE_OPEN LUA55_VALUE_TRUE False"

definition lua55_residual_getupval_open_integer :: v1_stencil where
  "lua55_residual_getupval_open_integer = GET_RESIDUAL LUA55_UPVALUE_OPEN LUA55_VALUE_INTEGER True"

definition lua55_residual_getupval_open_float :: v1_stencil where
  "lua55_residual_getupval_open_float = GET_RESIDUAL LUA55_UPVALUE_OPEN LUA55_VALUE_FLOAT True"

definition lua55_residual_getupval_open_closure :: v1_stencil where
  "lua55_residual_getupval_open_closure = GET_RESIDUAL LUA55_UPVALUE_OPEN LUA55_VALUE_CLOSURE True"

definition lua55_residual_getupval_closed_nil :: v1_stencil where
  "lua55_residual_getupval_closed_nil = GET_RESIDUAL LUA55_UPVALUE_CLOSED LUA55_VALUE_NIL False"

definition lua55_residual_getupval_closed_false :: v1_stencil where
  "lua55_residual_getupval_closed_false = GET_RESIDUAL LUA55_UPVALUE_CLOSED LUA55_VALUE_FALSE False"

definition lua55_residual_getupval_closed_true :: v1_stencil where
  "lua55_residual_getupval_closed_true = GET_RESIDUAL LUA55_UPVALUE_CLOSED LUA55_VALUE_TRUE False"

definition lua55_residual_getupval_closed_integer :: v1_stencil where
  "lua55_residual_getupval_closed_integer = GET_RESIDUAL LUA55_UPVALUE_CLOSED LUA55_VALUE_INTEGER True"

definition lua55_residual_getupval_closed_float :: v1_stencil where
  "lua55_residual_getupval_closed_float = GET_RESIDUAL LUA55_UPVALUE_CLOSED LUA55_VALUE_FLOAT True"

definition lua55_residual_getupval_closed_closure :: v1_stencil where
  "lua55_residual_getupval_closed_closure = GET_RESIDUAL LUA55_UPVALUE_CLOSED LUA55_VALUE_CLOSURE True"

definition lua55_residual_setupval_open_nil :: v1_stencil where
  "lua55_residual_setupval_open_nil = SET_RESIDUAL LUA55_UPVALUE_OPEN LUA55_VALUE_NIL False"

definition lua55_residual_setupval_open_false :: v1_stencil where
  "lua55_residual_setupval_open_false = SET_RESIDUAL LUA55_UPVALUE_OPEN LUA55_VALUE_FALSE False"

definition lua55_residual_setupval_open_true :: v1_stencil where
  "lua55_residual_setupval_open_true = SET_RESIDUAL LUA55_UPVALUE_OPEN LUA55_VALUE_TRUE False"

definition lua55_residual_setupval_open_integer :: v1_stencil where
  "lua55_residual_setupval_open_integer = SET_RESIDUAL LUA55_UPVALUE_OPEN LUA55_VALUE_INTEGER True"

definition lua55_residual_setupval_open_float :: v1_stencil where
  "lua55_residual_setupval_open_float = SET_RESIDUAL LUA55_UPVALUE_OPEN LUA55_VALUE_FLOAT True"

definition lua55_residual_setupval_closed_nil :: v1_stencil where
  "lua55_residual_setupval_closed_nil = SET_RESIDUAL LUA55_UPVALUE_CLOSED LUA55_VALUE_NIL False"

definition lua55_residual_setupval_closed_false :: v1_stencil where
  "lua55_residual_setupval_closed_false = SET_RESIDUAL LUA55_UPVALUE_CLOSED LUA55_VALUE_FALSE False"

definition lua55_residual_setupval_closed_true :: v1_stencil where
  "lua55_residual_setupval_closed_true = SET_RESIDUAL LUA55_UPVALUE_CLOSED LUA55_VALUE_TRUE False"

definition lua55_residual_setupval_closed_integer :: v1_stencil where
  "lua55_residual_setupval_closed_integer = SET_RESIDUAL LUA55_UPVALUE_CLOSED LUA55_VALUE_INTEGER True"

definition lua55_residual_setupval_closed_float :: v1_stencil where
  "lua55_residual_setupval_closed_float = SET_RESIDUAL LUA55_UPVALUE_CLOSED LUA55_VALUE_FLOAT True"

definition lua55_poly_getupval :: v1_stencil where
  "lua55_poly_getupval h f s = do {
     cell \<leftarrow> upcell (q_upvalue h) f s;
     c \<leftarrow> lcells s cell;
     v \<leftarrow> rd (cell_value cell c) s;
     s \<leftarrow> wr_at_reg (q_target h) v f s;
     lua55_residual_next f s}"

definition lua55_poly_setupval :: v1_stencil where
  "lua55_poly_setupval h f s = do {
     cell \<leftarrow> upcell (q_upvalue h) f s;
     source \<leftarrow> reg (q_source h) f s;
     c \<leftarrow> lcells s cell;
     v \<leftarrow> rd source s;
     s \<leftarrow> on_mem (wr_val (cell_value cell c) v) s;
     lua55_residual_next f s}"

subsection \<open>Jumps, CLOSE, TBC and ERRNNIL\<close>

definition RECORD_BASE :: "v1_holes \<Rightarrow> u64 \<Rightarrow> v1_state \<Rightarrow> v1_state option" where
  "RECORD_BASE h f s = do {
     (slot, s) \<leftarrow> next_slot f s;
     set_quote slot (q_quote_base h OR 1) s}"

definition lua55_learn_jmp :: v1_stencil where
  "lua55_learn_jmp h f s = do {
     s \<leftarrow> RECORD_BASE h f s;
     exit_with (q_target_pc h) LUA55_COMPLETED f s}"

definition lua55_residual_jmp :: v1_stencil where
  "lua55_residual_jmp h f s = exit_with (q_target_pc h) LUA55_COMPLETED f s"

text \<open>The linked jump reports the same resume point and stays in native code.\<close>

definition jump_link :: "u32 \<Rightarrow> v1_stencil" where
  "jump_link pc h f s = do {
     s \<leftarrow> upd_lframe f (\<lambda>fr. fr\<lparr>l_resume_pc := pc, l_status := LUA55_COMPLETED\<rparr>) s;
     Some (Link_to (q_link h) f, s)}"

definition lua55_residual_jmp_link :: v1_stencil where
  "lua55_residual_jmp_link h = jump_link (q_target_pc h) h"

definition lua55_poly_jmp :: v1_stencil where
  "lua55_poly_jmp h = jump_link (q_target_pc h) h"

definition lua55_learn_close :: v1_stencil where
  "lua55_learn_close h f s = do {
     s \<leftarrow> RECORD_BASE h f s;
     lua55_learn_next f s}"

definition lua55_residual_close :: v1_stencil where
  "lua55_residual_close h f s = lua55_residual_next f s"

definition lua55_learn_tbc :: v1_stencil where
  "lua55_learn_tbc = REJECT"

definition lua55_learn_errnnil :: v1_stencil where
  "lua55_learn_errnnil h f s = do {
     target \<leftarrow> reg (q_target h) f s;
     s \<leftarrow> RECORD_BASE h f s;
     v \<leftarrow> rd target s;
     if tag v \<noteq> LUA55_VALUE_NIL then REJECT h f s else lua55_learn_next f s}"

definition lua55_residual_errnnil :: v1_stencil where
  "lua55_residual_errnnil h f s = do {
     target \<leftarrow> reg (q_target h) f s;
     v \<leftarrow> rd target s;
     if tag v \<noteq> LUA55_VALUE_NIL then GUARD_FAILED h f s else lua55_residual_next f s}"

subsection \<open>Varargs\<close>

text \<open>The extra arguments lie above the fixed ones; they are copied from the last to the first.\<close>

primrec copy_down :: "u32 \<Rightarrow> u32 \<Rightarrow> nat \<Rightarrow> u64 \<Rightarrow> v1_state \<Rightarrow> v1_state option" where
  "copy_down target nfix 0 f s = Some s"
| "copy_down target nfix (Suc i) f s = do {
     v \<leftarrow> rd_at_reg (nfix + word_of_nat i) f s;
     s \<leftarrow> wr_at_reg (target + word_of_nat i) v f s;
     copy_down target nfix i f s}"

definition touse :: "u32 \<Rightarrow> u32 \<Rightarrow> u32" where
  "touse wanted nargs = (if wanted = 0xFFFFFFFF then nargs else if nargs > wanted then wanted else nargs)"

definition lua55_learn_vararg :: v1_stencil where
  "lua55_learn_vararg h f s = do {
     s \<leftarrow> RECORD_BASE h f s;
     fr \<leftarrow> lframes s f;
     s \<leftarrow> copy_down (q_base h) (q_nfix h) (unat (touse (q_wanted h) (l_vararg_count fr))) f s;
     lua55_learn_next f s}"

definition lua55_residual_vararg :: v1_stencil where
  "lua55_residual_vararg h f s = do {
     fr \<leftarrow> lframes s f;
     s \<leftarrow> copy_down (q_base h) (q_nfix h) (unat (touse (q_wanted h) (l_vararg_count fr))) f s;
     lua55_residual_next f s}"

text \<open>The argument at an integer key, their count for the key \<open>n\<close>, and nil otherwise.\<close>

definition vararg_at :: "v1_holes \<Rightarrow> lua_value \<Rightarrow> u64 \<Rightarrow> v1_state \<Rightarrow> lua_value option" where
  "vararg_at h key f s = do {
     fr \<leftarrow> lframes s f;
     let nargs = l_vararg_count fr;
     let nil_value = mk_value LUA55_VALUE_NIL 0;
     if tag key = LUA55_VALUE_INTEGER then
       (let n = payload key in
        if 1 \<le>s n \<and> n \<le> ucast nargs then rd_at_reg (q_nfix h + ucast n - 1) f s else Some nil_value)
     else if tag key = LUA55_VALUE_SHORT_STRING \<or> tag key = LUA55_VALUE_LONG_STRING then
       (if payload key = 0 then Some nil_value
        else do {
          str \<leftarrow> strings (mem s) (payload key);
          if str_length str \<noteq> 1 then Some nil_value
          else do {
            b \<leftarrow> rd_byte (str_bytes str) (mem s);
            Some (if b = 110 then mk_value LUA55_VALUE_INTEGER (ucast nargs) else nil_value)}})
     else Some nil_value}"

definition lua55_learn_getvarg :: v1_stencil where
  "lua55_learn_getvarg h f s = do {
     s \<leftarrow> RECORD_BASE h f s;
     key \<leftarrow> rd_at_reg (q_key_reg h) f s;
     v \<leftarrow> vararg_at h key f s;
     s \<leftarrow> wr_at_reg (q_target h) v f s;
     lua55_learn_next f s}"

definition lua55_residual_getvarg :: v1_stencil where
  "lua55_residual_getvarg h f s = do {
     key \<leftarrow> rd_at_reg (q_key_reg h) f s;
     v \<leftarrow> vararg_at h key f s;
     s \<leftarrow> wr_at_reg (q_target h) v f s;
     lua55_residual_next f s}"

subsection \<open>Generic for\<close>

text \<open>TFORPREP swaps the closing value and the control variable before it looks at the former.\<close>

definition swap_closing :: "v1_holes \<Rightarrow> u64 \<Rightarrow> v1_state \<Rightarrow> (lua_value \<times> v1_state) option" where
  "swap_closing h f s = do {
     closing \<leftarrow> reg (q_base h + 2) f s;
     control \<leftarrow> reg (q_base h + 3) f s;
     temp \<leftarrow> rd closing s;
     v \<leftarrow> rd control s;
     s \<leftarrow> on_mem (wr_val closing v) s;
     s \<leftarrow> on_mem (wr_val control temp) s;
     Some (v, s)}"

definition lua55_learn_tforprep :: v1_stencil where
  "lua55_learn_tforprep h f s = do {
     s \<leftarrow> RECORD_BASE h f s;
     (closing, s) \<leftarrow> swap_closing h f s;
     if tag closing \<noteq> LUA55_VALUE_NIL then REJECT h f s
     else exit_with (q_target_pc h) LUA55_COMPLETED f s}"

definition lua55_residual_tforprep :: v1_stencil where
  "lua55_residual_tforprep h f s = do {
     (closing, s) \<leftarrow> swap_closing h f s;
     if tag closing \<noteq> LUA55_VALUE_NIL then GUARD_FAILED h f s
     else exit_with (q_target_pc h) LUA55_COMPLETED f s}"

definition lua55_learn_tforloop :: v1_stencil where
  "lua55_learn_tforloop h f s = do {
     s \<leftarrow> RECORD_BASE h f s;
     control \<leftarrow> rd_at_reg (q_base h + 3) f s;
     if tag control \<noteq> LUA55_VALUE_NIL then exit_with (q_target_pc h) LUA55_COMPLETED f s
     else lua55_learn_next f s}"

definition lua55_residual_tforloop :: v1_stencil where
  "lua55_residual_tforloop h f s = do {
     control \<leftarrow> rd_at_reg (q_base h + 3) f s;
     if tag control \<noteq> LUA55_VALUE_NIL then exit_with (q_target_pc h) LUA55_COMPLETED f s
     else lua55_residual_next f s}"

end
