(* ===== verification/V1_Move_Replay.thy ===== *)
theory V1_Move_Replay
  imports V1_Movement
begin

text \<open>
  The residuals for moves, constants, upvalues, jumps, varargs and the generic for replay their
  learners. The residual of an upvalue is patched with the generation that its learner recorded.
\<close>

unbundle bit_operations_syntax

subsection \<open>Constants\<close>

definition rd_target :: "v1_holes \<Rightarrow> u64 \<Rightarrow> v1_state \<Rightarrow> u64 option" where
  "rd_target h f s = reg (q_target h) f s"

lemmas move_shape = noting_def rd_target_def reg_def next_slot_def upd_lframe_def rd_def wr_at_reg_def tag_at_reg_def rd_at_reg_def
  RECORD_FIXED_def RECORD_BASE_def upd_slot_def

lemma constant_shapes:
  "LEARN_TAGGED q t = picking rd_target (\<lambda>h a s. Some (Accept (Tags a t) q))"
  "LEARN_INTEGER q = picking rd_target (\<lambda>h a s. Some (Accept (Puts a (mk_value LUA55_VALUE_INTEGER (q_integer_bits h))) q))"
  "LEARN_FLOAT q = picking rd_target (\<lambda>h a s. Some (Accept (Puts a (mk_value LUA55_VALUE_FLOAT (q_float_bits h))) q))"
  "LEARN_STRING q t = picking rd_target (\<lambda>h a s. Some (Accept (Puts a (mk_value t (q_reference_bits h))) q))"
  by (rule stencil_eqI;
    auto simp: LEARN_TAGGED_def LEARN_INTEGER_def LEARN_FLOAT_def LEARN_STRING_def move_shape intro!: Option.bind_cong [OF refl])+

text \<open>Where the residual repeats the very effect.\<close>

lemma same_effect: "r = perform nxt e f s \<Longrightarrow> like_effect e e \<Longrightarrow> \<exists>e'. r = perform nxt e' f s \<and> like_effect e e'"
  by blast

lemma constant_replays:
  assumes "q \<noteq> 0"
  shows "t \<le> LUA55_VALUE_TRUE \<Longrightarrow> replayed_leaf (LEARN_TAGGED q t) (RESIDUAL_TAGGED t) (fixed q)"
    "replayed_leaf (LEARN_INTEGER q) RESIDUAL_INTEGER (fixed q)"
    "replayed_leaf (LEARN_FLOAT q) RESIDUAL_FLOAT (fixed q)"
    "replayed_leaf (LEARN_STRING q t) (RESIDUAL_STRING t) (fixed q)"
  unfolding constant_shapes
  by (rule fixed_replays, rule same_effect; use assms in \<open>auto simp: rd_target_def RESIDUAL_TAGGED_def RESIDUAL_INTEGER_def RESIDUAL_FLOAT_def
    RESIDUAL_STRING_def wr_at_reg_def tag_at_reg_def dest!: alike_reg\<close>)+

subsection \<open>Moves\<close>

definition rd_move :: "v1_holes \<Rightarrow> u64 \<Rightarrow> v1_state \<Rightarrow> (u64 \<times> lua_value) option" where
  "rd_move h f s = do {
     v \<leftarrow> rd_at_reg (q_source h) f s;
     target \<leftarrow> reg (q_target h) f s;
     Some (target, v)}"

definition move_pick :: "v1_holes \<Rightarrow> u64 \<times> lua_value \<Rightarrow> v1_state \<Rightarrow> v1_pick option" where
  "move_pick h = (\<lambda>(t, v) s. Some (if tag v \<le> LUA55_VALUE_LONG_STRING \<or> tag v = LUA55_VALUE_TABLE \<or> tag v = LUA55_VALUE_CLOSURE
     then Accept (Puts t v) (tag v + LUA55_QUOTE_MOVE_NIL) else Refuse))"

lemma learn_move_shape: "lua55_learn_move = noting rd_move (\<lambda>h (t, v). Some (\<lambda>r. r\<lparr>rs_expected_tag := tag v\<rparr>)) move_pick"
  by (rule stencil_eqI) (auto simp: lua55_learn_move_def move_shape rd_move_def move_pick_def intro!: Option.bind_cong [OF refl])

text \<open>A payload has to be copied when the tag alone does not determine the value.\<close>

lemma copied_effect:
  assumes "norm_value v = norm_value w" and "copy \<or> tag v \<le> LUA55_VALUE_TRUE" and "tag w = t"
  shows "like_effect (Puts a v) (if copy then Puts a (mk_value t (payload w)) else Tags a t)"
  using assms by (auto simp: norm_value_eq mk_value_def)

lemma move_replays:
  assumes "copy \<or> t \<le> LUA55_VALUE_TRUE" and "t + LUA55_QUOTE_MOVE_NIL \<noteq> 0"
  shows "replayed_leaf lua55_learn_move (MOVE_RESIDUAL t copy) (fixed (t + LUA55_QUOTE_MOVE_NIL))"
  unfolding learn_move_shape
proof (rule fixed_replays)
  fix h f s s' x e
  assume al: "alike s s'" and x: "rd_move h f s = Some x" and pick: "move_pick h x s = Some (Accept e (t + LUA55_QUOTE_MOVE_NIL))"
  from x obtain a b v where v: "x = (a, v)" "reg (q_source h) f s = Some b" "rd b s = Some v" "reg (q_target h) f s = Some a"
    by (auto simp: rd_move_def rd_at_reg_def bind_eq_Some_conv)
  from alike_rd [OF al v(3)] obtain w where w: "rd b s' = Some w" "norm_value v = norm_value w" .
  from pick v(1) have e: "e = Puts a v" "tag v = t" by (auto simp: move_pick_def split: if_splits)
  have "MOVE_RESIDUAL t copy h f s' = perform lua55_residual_next (if copy then Puts a (mk_value t (payload w)) else Tags a t) f s'"
    using alike_reg [OF al v(2)] alike_reg [OF al v(4)] w e(2)
    by (auto simp: MOVE_RESIDUAL_def wr_at_reg_def tag_at_reg_def norm_value_eq)
  then show "\<exists>e'. MOVE_RESIDUAL t copy h f s' = perform lua55_residual_next e' f s' \<and> like_effect e e'"
    using copied_effect [OF w(2), of copy t a] assms(1) e w(2) unfolding norm_value_eq by metis
qed (use assms(2) in \<open>auto simp: move_pick_def split: if_splits\<close>)

lemma MOVE_STRING_residual: "MOVE_STRING t = MOVE_RESIDUAL t True"
  by (intro ext) (simp add: MOVE_STRING_def MOVE_RESIDUAL_def cong: if_cong)

subsection \<open>Upvalues\<close>

lemma alike_upcell:
  assumes "alike s s'" and "upcell i f s = Some a"
  shows "upcell i f s' = Some a"
proof -
  from assms(2) obtain fr where fr: "lframes s f = Some fr" "a = l_upvalues fr + SIZEOF_V1_CELL * ucast i"
    by (auto simp: upcell_def bind_eq_Some_conv)
  from alike_frame [OF assms(1) fr(1)] obtain k where "lframes s' f = Some (fr\<lparr>l_slot_cursor := k\<rparr>)" .
  with fr(2) show ?thesis by (simp add: upcell_def)
qed

text \<open>The residual of a slot, patched with the generation the slot recorded.\<close>

definition recalled :: "u32 \<Rightarrow> v1_holes \<Rightarrow> recording_slot \<Rightarrow> bool" where
  "recalled q h r \<longleftrightarrow> rs_quote r = q \<and> rs_expected_generation r = q_expected_generation h"

definition live_cell :: "learn_cell \<Rightarrow> bool" where
  "live_cell c \<longleftrightarrow> lc_state c = LUA55_UPVALUE_OPEN \<or> lc_state c = LUA55_UPVALUE_CLOSED"

definition note_cell :: "learn_cell \<Rightarrow> u32 \<Rightarrow> recording_slot \<Rightarrow> recording_slot" where
  "note_cell c t r = r\<lparr>rs_expected_tag := t, rs_expected_state := lc_state c, rs_expected_generation := lc_generation c\<rparr>"

definition rd_get :: "v1_holes \<Rightarrow> u64 \<Rightarrow> v1_state \<Rightarrow> (u64 \<times> learn_cell \<times> lua_value option) option" where
  "rd_get h f s = do {
     cell \<leftarrow> upcell (q_upvalue h) f s;
     c \<leftarrow> lcells s cell;
     v \<leftarrow> (if live_cell c then do {v \<leftarrow> rd (cell_value cell c) s; Some (Some v)} else Some None);
     target \<leftarrow> reg (q_target h) f s;
     Some (target, c, v)}"

definition get_quote :: "u32 \<Rightarrow> u32 \<Rightarrow> u32" where
  "get_quote st t =
     (if t = LUA55_VALUE_CLOSURE
      then (if st = LUA55_UPVALUE_OPEN then LUA55_QUOTE_GETUPVAL_OPEN_CLOSURE else LUA55_QUOTE_GETUPVAL_CLOSED_CLOSURE)
      else (if st = LUA55_UPVALUE_OPEN then LUA55_QUOTE_GETUPVAL_OPEN_NIL else LUA55_QUOTE_GETUPVAL_CLOSED_NIL) + t)"

definition gettable_tag :: "u32 \<Rightarrow> bool" where
  "gettable_tag t \<longleftrightarrow> t = LUA55_VALUE_CLOSURE \<or> \<not> LUA55_VALUE_FLOAT < t"

definition get_pick :: "v1_holes \<Rightarrow> u64 \<times> learn_cell \<times> lua_value option \<Rightarrow> v1_state \<Rightarrow> v1_pick option" where
  "get_pick h = (\<lambda>(t, c, v) s. Some (case v of None \<Rightarrow> Refuse
     | Some v \<Rightarrow> if gettable_tag (tag v) then Accept (Puts t v) (get_quote (lc_state c) (tag v)) else Refuse))"

lemma learn_getupval_shape:
  "lua55_learn_getupval = noting rd_get (\<lambda>h (t, c, v). case v of None \<Rightarrow> None | Some v \<Rightarrow> Some (note_cell c (tag v))) get_pick"
  by (rule stencil_eqI)
    (auto simp: lua55_learn_getupval_def move_shape rd_get_def get_pick_def get_quote_def gettable_tag_def live_cell_def upcell_def note_cell_def
      intro!: Option.bind_cong [OF refl])

lemma small_tags: "\<not> (4 :: u32) < t \<longleftrightarrow> t \<in> {0, 1, 2, 3, 4}"
proof
  assume "\<not> 4 < t"
  then have "unat t \<le> 4" by (simp add: word_less_nat_alt)
  then have "unat t \<in> {0, 1, 2, 3, 4}" by auto
  then show "t \<in> {0, 1, 2, 3, 4}" by (simp add: word_unat_eq_iff)
qed auto

lemma get_quote_eq:
  assumes "gettable_tag t" and "gettable_tag t'" and "st \<in> {LUA55_UPVALUE_OPEN, LUA55_UPVALUE_CLOSED}" and "st' \<in> {LUA55_UPVALUE_OPEN, LUA55_UPVALUE_CLOSED}"
  shows "get_quote st t = get_quote st' t' \<longleftrightarrow> st = st' \<and> t = t'"
proof -
  have t: "t \<in> {8, 0, 1, 2, 3, 4}" "t' \<in> {8, 0, 1, 2, 3, 4}" using assms(1,2) by (auto simp: gettable_tag_def small_tags)
  show ?thesis using assms(3,4) t by (elim insertE emptyE) (simp_all add: get_quote_def LUA55_QUOTE_def)
qed

lemma getupval_replays:
  assumes "copy \<or> t \<le> LUA55_VALUE_TRUE" and "gettable_tag t" and "st \<in> {LUA55_UPVALUE_OPEN, LUA55_UPVALUE_CLOSED}" and "get_quote st t \<noteq> 0"
  shows "replayed_leaf lua55_learn_getupval (GET_RESIDUAL st t copy) (recalled (get_quote st t))"
  unfolding learn_getupval_shape
proof (rule noting_replays)
  fix h f s s' e q r and x :: "u64 \<times> learn_cell \<times> lua_value option"
  let ?note = "case x of (t, c, v) \<Rightarrow> case v of None \<Rightarrow> None | Some v \<Rightarrow> Some (note_cell c (tag v))"
  assume al: "alike s s'" and x: "rd_get h f s = Some x" and pick: "get_pick h x s = Some (Accept e q)"
    and sel: "recalled (get_quote st t) h ((noted ?note r)\<lparr>rs_quote := q\<rparr>)"
  from x pick obtain cell c v a where v: "x = (a, c, Some v)" "upcell (q_upvalue h) f s = Some cell" "lcells s cell = Some c"
      "live_cell c" "rd (cell_value cell c) s = Some v" "reg (q_target h) f s = Some a"
    by (auto simp: rd_get_def get_pick_def bind_eq_Some_conv split: if_splits)
  with pick have e: "e = Puts a v" "q = get_quote (lc_state c) (tag v)" "gettable_tag (tag v)"
    by (auto simp: get_pick_def split: if_splits)
  have g: "lc_generation c = q_expected_generation h" "get_quote (lc_state c) (tag v) = get_quote st t"
    using sel v(1) e(2) by (simp_all add: recalled_def noted_def note_cell_def)
  have c: "lc_state c = st" "tag v = t"
    using g(2) get_quote_eq [OF e(3) assms(2) _ assms(3)] v(4) by (auto simp: live_cell_def)
  from alike_rd [OF al v(5)] obtain w where w: "rd (cell_value cell c) s' = Some w" "norm_value v = norm_value w" .
  have "GET_RESIDUAL st t copy h f s' = perform lua55_residual_next (if copy then Puts a (mk_value t (payload w)) else Tags a t) f s'"
    using alike_upcell [OF al v(2)] alike_reg [OF al v(6)] alike_cells [OF al] v(3) w c g(1)
    by (auto simp: GET_RESIDUAL_def CHECK_CELL_def cell_value_def wr_at_reg_def tag_at_reg_def norm_value_eq)
  then show "\<exists>e'. GET_RESIDUAL st t copy h f s' = perform lua55_residual_next e' f s' \<and> like_effect e e'"
    using copied_effect [OF w(2), of copy t a] assms(1) e(1) c(2) w(2) unfolding norm_value_eq by metis
qed (use assms(4) in \<open>auto simp: recalled_def get_pick_def split: if_splits option.splits\<close>)

definition rd_set :: "v1_holes \<Rightarrow> u64 \<Rightarrow> v1_state \<Rightarrow> (u64 \<times> learn_cell \<times> lua_value) option" where
  "rd_set h f s = do {
     cell \<leftarrow> upcell (q_upvalue h) f s;
     v \<leftarrow> rd_at_reg (q_source h) f s;
     c \<leftarrow> lcells s cell;
     Some (cell_value cell c, c, v)}"

definition set_upquote :: "u32 \<Rightarrow> u32 \<Rightarrow> u32" where
  "set_upquote st t = (if st = LUA55_UPVALUE_OPEN then LUA55_QUOTE_SETUPVAL_OPEN_NIL else LUA55_QUOTE_SETUPVAL_CLOSED_NIL) + t"

definition set_pick :: "v1_holes \<Rightarrow> u64 \<times> learn_cell \<times> lua_value \<Rightarrow> v1_state \<Rightarrow> v1_pick option" where
  "set_pick h = (\<lambda>(t, c, v) s. Some (if \<not> live_cell c \<or> LUA55_VALUE_FLOAT < tag v then Refuse
     else Accept (Puts t v) (set_upquote (lc_state c) (tag v))))"

lemma learn_setupval_shape: "lua55_learn_setupval = noting rd_set (\<lambda>h (t, c, v). Some (note_cell c (tag v))) set_pick"
  by (rule stencil_eqI)
    (auto simp: lua55_learn_setupval_def move_shape rd_set_def set_pick_def set_upquote_def live_cell_def upcell_def note_cell_def
      intro!: Option.bind_cong [OF refl])

lemma set_upquote_eq:
  assumes "\<not> LUA55_VALUE_FLOAT < t" and "\<not> LUA55_VALUE_FLOAT < t'" and "st \<in> {LUA55_UPVALUE_OPEN, LUA55_UPVALUE_CLOSED}"
    and "st' \<in> {LUA55_UPVALUE_OPEN, LUA55_UPVALUE_CLOSED}"
  shows "set_upquote st t = set_upquote st' t' \<longleftrightarrow> st = st' \<and> t = t'"
  using assms unfolding small_tags by (elim insertE emptyE) (simp_all add: set_upquote_def LUA55_QUOTE_def)

lemma setupval_replays:
  assumes "copy \<or> t \<le> LUA55_VALUE_TRUE" and "\<not> LUA55_VALUE_FLOAT < t" and "st \<in> {LUA55_UPVALUE_OPEN, LUA55_UPVALUE_CLOSED}" and "set_upquote st t \<noteq> 0"
  shows "replayed_leaf lua55_learn_setupval (SET_RESIDUAL st t copy) (recalled (set_upquote st t))"
  unfolding learn_setupval_shape
proof (rule noting_replays)
  fix h f s s' e q r and x :: "u64 \<times> learn_cell \<times> lua_value"
  let ?note = "case x of (t, c, v) \<Rightarrow> Some (note_cell c (tag v))"
  assume al: "alike s s'" and x: "rd_set h f s = Some x" and pick: "set_pick h x s = Some (Accept e q)"
    and sel: "recalled (set_upquote st t) h ((noted ?note r)\<lparr>rs_quote := q\<rparr>)"
  from x obtain cell c v b where v: "x = (cell_value cell c, c, v)" "upcell (q_upvalue h) f s = Some cell" "lcells s cell = Some c"
      "reg (q_source h) f s = Some b" "rd b s = Some v"
    by (auto simp: rd_set_def rd_at_reg_def bind_eq_Some_conv)
  with pick have e: "e = Puts (cell_value cell c) v" "q = set_upquote (lc_state c) (tag v)" "live_cell c" "\<not> LUA55_VALUE_FLOAT < tag v"
    by (auto simp: set_pick_def split: if_splits)
  have g: "lc_generation c = q_expected_generation h" "set_upquote (lc_state c) (tag v) = set_upquote st t"
    using sel v(1) e(2) by (simp_all add: recalled_def noted_def note_cell_def)
  have c: "lc_state c = st" "tag v = t"
    using g(2) set_upquote_eq [OF e(4) assms(2) _ assms(3)] e(3) by (auto simp: live_cell_def)
  from alike_rd [OF al v(5)] obtain w where w: "rd b s' = Some w" "norm_value v = norm_value w" .
  let ?a = "cell_value cell c"
  have "SET_RESIDUAL st t copy h f s' = perform lua55_residual_next (if copy then Puts ?a (mk_value t (payload w)) else Tags ?a t) f s'"
    using alike_upcell [OF al v(2)] alike_reg [OF al v(4)] alike_cells [OF al] v(3) w c g(1)
    by (auto simp: SET_RESIDUAL_def CHECK_CELL_def cell_value_def norm_value_eq)
  then show "\<exists>e'. SET_RESIDUAL st t copy h f s' = perform lua55_residual_next e' f s' \<and> like_effect e e'"
    using copied_effect [OF w(2), of copy t ?a] assms(1) e(1) c(2) w(2) unfolding norm_value_eq by metis
qed (use assms(4) in \<open>auto simp: recalled_def set_pick_def split: if_splits\<close>)

subsection \<open>Jumps, varargs and the generic for\<close>

lemma jump_shapes:
  "lua55_learn_jmp = picking (\<lambda>h f s. Some ()) (\<lambda>h x s. Some (Accept (Exits (q_target_pc h) LUA55_COMPLETED) (q_quote_base h OR 1)))"
  "lua55_learn_close = picking (\<lambda>h f s. Some ()) (\<lambda>h x s. Some (Accept Goes (q_quote_base h OR 1)))"
  by (rule stencil_eqI; auto simp: lua55_learn_jmp_def lua55_learn_close_def move_shape)+

lemma jump_replays:
  "replayed_leaf lua55_learn_jmp lua55_residual_jmp (coded 1)" "replayed_leaf lua55_learn_close lua55_residual_close (coded 1)"
  unfolding jump_shapes
  by (rule picking_replays, rule same_effect; auto simp: lua55_residual_jmp_def lua55_residual_close_def)+

lemma errnnil_shape: "lua55_learn_errnnil = picking (\<lambda>h f s. rd_at_reg (q_target h) f s) (\<lambda>h v s.
    Some (Accept (if tag v \<noteq> LUA55_VALUE_NIL then Exits (q_resume_pc h) LUA55_REJECTED else Goes) (q_quote_base h OR 1)))"
  by (rule stencil_eqI) (auto simp: lua55_learn_errnnil_def move_shape REJECT_def bind_eq_Some_conv split: Option.bind_splits)

lemma rd_at_reg_alike:
  assumes "alike s s'" and "rd_at_reg i f s = Some v"
  obtains w where "rd_at_reg i f s' = Some w" "norm_value v = norm_value w"
proof -
  from assms(2) obtain a where a: "reg i f s = Some a" "rd a s = Some v" by (auto simp: rd_at_reg_def bind_eq_Some_conv)
  from alike_rd [OF assms(1) a(2)] alike_reg [OF assms(1) a(1)] that show thesis by (auto simp: rd_at_reg_def)
qed

lemma errnnil_replays: "replayed_leaf lua55_learn_errnnil lua55_residual_errnnil (coded 1)"
  unfolding errnnil_shape
proof (rule picking_replays)
  fix h :: v1_holes and f s s' v e
  assume al: "alike s s'" and nr: "\<not> rejecting e" and v: "rd_at_reg (q_target h) f s = Some v"
    and pick: "Some (Accept (if tag v \<noteq> LUA55_VALUE_NIL then Exits (q_resume_pc h) LUA55_REJECTED else Goes) (q_quote_base h OR 1)) =
      Some (Accept e (q_quote_base h OR 1))"
  from rd_at_reg_alike [OF al v] obtain w where w: "rd_at_reg (q_target h) f s' = Some w" "norm_value v = norm_value w" .
  have "tag v = LUA55_VALUE_NIL" "e = Goes" using pick nr by (auto simp: rejecting_def split: if_splits)
  then show "\<exists>e'. lua55_residual_errnnil h f s' = perform lua55_residual_next e' f s' \<and> like_effect e e'"
    using w by (intro exI [of _ Goes]) (auto simp: lua55_residual_errnnil_def rd_at_reg_def norm_value_eq bind_eq_Some_conv)
qed simp_all

text \<open>The copies of VARARG, from the last register down.\<close>

definition copies :: "u64 \<Rightarrow> u32 \<Rightarrow> u32 \<Rightarrow> nat \<Rightarrow> v1_write list" where
  "copies base target nfix n = map (\<lambda>i. Copy (slot_addr base (target + word_of_nat i)) (slot_addr base (nfix + word_of_nat i))) (rev [0..<n])"

lemma write1_keeps: "write1 w s = Some t \<Longrightarrow> lframes t = lframes s"
  by (cases w) (auto dest: on_mem_keeps)

lemma copy_down_writes:
  "lframes s f = Some fr \<Longrightarrow> copy_down target nfix n f s = writes (copies (l_values fr) target nfix n) s"
proof (induction n arbitrary: s)
  case (Suc n)
  let ?a = "slot_addr (l_values fr) (nfix + word_of_nat n)" and ?t = "slot_addr (l_values fr) (target + word_of_nat n)"
  have one: "do {v \<leftarrow> rd_at_reg (nfix + word_of_nat n) f s; wr_at_reg (target + word_of_nat n) v f s} = write1 (Copy ?t ?a) s"
    using Suc.prems by (cases "vals (mem s) ?a") (simp_all add: rd_at_reg_def wr_at_reg_def reg_def rd_def on_mem_def copy_val_def rd_val_def)
  have "copy_down target nfix (Suc n) f s = do {u \<leftarrow> write1 (Copy ?t ?a) s; copy_down target nfix n f u}"
    unfolding one [symmetric] by (simp del: write1.simps)
  also have "\<dots> = do {u \<leftarrow> write1 (Copy ?t ?a) s; writes (copies (l_values fr) target nfix n) u}"
    using Suc.IH Suc.prems write1_keeps [of "Copy ?t ?a" s] by (intro Option.bind_cong [OF refl]) (simp del: write1.simps)
  finally show ?case by (simp add: copies_def)
qed (simp add: copies_def)

definition rd_varargs :: "v1_holes \<Rightarrow> u64 \<Rightarrow> v1_state \<Rightarrow> (u64 \<times> u32) option" where
  "rd_varargs h f s = do {fr \<leftarrow> lframes s f; Some (l_values fr, l_vararg_count fr)}"

lemma vararg_shape: "lua55_learn_vararg = picking rd_varargs (\<lambda>h (b, n) s.
    Some (Accept (Does (copies b (q_base h) (q_nfix h) (unat (touse (q_wanted h) n))) Next) (q_quote_base h OR 1)))"
  by (rule stencil_eqI) (auto simp: lua55_learn_vararg_def move_shape rd_varargs_def copy_down_writes intro!: Option.bind_cong [OF refl])

lemma vararg_replays: "replayed_leaf lua55_learn_vararg lua55_residual_vararg (coded 1)"
  unfolding vararg_shape
proof (rule picking_replays, rule same_effect)
  fix h :: v1_holes and f s s' x e
  assume al: "alike s s'" and x: "rd_varargs h f s = Some x"
    and pick: "(case x of (b, n) \<Rightarrow> \<lambda>s. Some (Accept (Does (copies b (q_base h) (q_nfix h) (unat (touse (q_wanted h) n))) Next) (q_quote_base h OR 1))) s =
      Some (Accept e (q_quote_base h OR 1))"
  from x obtain fr where fr: "lframes s f = Some fr" "x = (l_values fr, l_vararg_count fr)" by (auto simp: rd_varargs_def bind_eq_Some_conv)
  from alike_frame [OF al fr(1)] obtain k where "lframes s' f = Some (fr\<lparr>l_slot_cursor := k\<rparr>)" .
  then show "lua55_residual_vararg h f s' = perform lua55_residual_next e f s'"
    using pick fr(2) by (auto simp: lua55_residual_vararg_def copy_down_writes)
  show "like_effect e e" using pick fr(2) by (auto simp: copies_def list_all2_map1 list_all2_map2 list.rel_refl)
qed simp_all

lemma vararg_at_alike:
  assumes "alike s s'" and "norm_value key = norm_value key'" and "vararg_at h key f s = Some v"
  obtains w where "vararg_at h key' f s' = Some w" "norm_value v = norm_value w"
proof -
  from assms(3) obtain fr where fr: "lframes s f = Some fr" by (auto simp: vararg_at_def bind_eq_Some_conv)
  from alike_frame [OF assms(1) fr] obtain k where fr': "lframes s' f = Some (fr\<lparr>l_slot_cursor := k\<rparr>)" .
  have m: "strings (mem s') = strings (mem s)" "bytes (mem s') = bytes (mem s)"
  proof -
    note e = alike_mem [OF assms(1), of Map.empty]
    show "strings (mem s') = strings (mem s)" "bytes (mem s') = bytes (mem s)"
      using arg_cong [OF e, of strings] arg_cong [OF e, of bytes] by simp_all
  qed
  show thesis
  proof (cases "tag key = LUA55_VALUE_INTEGER \<and> 1 \<le>s payload key \<and> payload key \<le> ucast (l_vararg_count fr)")
    case True
    with assms(3) fr have "rd_at_reg (q_nfix h + ucast (payload key) - 1) f s = Some v" by (simp add: vararg_at_def)
    from rd_at_reg_alike [OF assms(1) this] that show thesis using True fr' assms(2) by (auto simp: vararg_at_def norm_value_eq)
  next
    case False
    have k: "tag key' = tag key" "tag key \<le> LUA55_VALUE_TRUE \<or> payload key' = payload key" using assms(2) by (auto simp: norm_value_eq)
    have "vararg_at h key' f s' = vararg_at h key f s"
    proof (cases "tag key \<le> LUA55_VALUE_TRUE")
      case True
      then have "tag key \<noteq> 3" "tag key \<noteq> 5" "tag key \<noteq> 6" by auto
      then show ?thesis using fr fr' k(1) by (simp add: vararg_at_def)
    next
      case dead: False
      then have p: "payload key' = payload key" using k(2) by simp
      show ?thesis using fr fr' m k(1) p False by (auto simp: vararg_at_def rd_byte_def Let_def cong: if_cong)
    qed
    with that [of v] assms(3) show thesis by simp
  qed
qed

definition rd_getvarg :: "v1_holes \<Rightarrow> u64 \<Rightarrow> v1_state \<Rightarrow> (u64 \<times> lua_value) option" where
  "rd_getvarg h f s = do {
     key \<leftarrow> rd_at_reg (q_key_reg h) f s;
     v \<leftarrow> vararg_at h key f s;
     target \<leftarrow> reg (q_target h) f s;
     Some (target, v)}"

lemma getvarg_shape: "lua55_learn_getvarg = picking rd_getvarg (\<lambda>h (t, v) s. Some (Accept (Puts t v) (q_quote_base h OR 1)))"
  by (rule stencil_eqI)
    (auto simp: lua55_learn_getvarg_def move_shape rd_getvarg_def vararg_at_def Let_def bind_assoc intro!: Option.bind_cong [OF refl]
      cong: if_cong split: Option.bind_splits)

lemma getvarg_replays: "replayed_leaf lua55_learn_getvarg lua55_residual_getvarg (coded 1)"
  unfolding getvarg_shape
proof (rule picking_replays)
  fix h :: v1_holes and f s s' x e
  assume al: "alike s s'" and x: "rd_getvarg h f s = Some x"
    and pick: "(case x of (t, v) \<Rightarrow> \<lambda>s. Some (Accept (Puts t v) (q_quote_base h OR 1))) s = Some (Accept e (q_quote_base h OR 1))"
  from x obtain key v a where v: "x = (a, v)" "rd_at_reg (q_key_reg h) f s = Some key" "vararg_at h key f s = Some v" "reg (q_target h) f s = Some a"
    by (auto simp: rd_getvarg_def bind_eq_Some_conv)
  from rd_at_reg_alike [OF al v(2)] obtain key' where k: "rd_at_reg (q_key_reg h) f s' = Some key'" "norm_value key = norm_value key'" .
  from vararg_at_alike [OF al k(2) v(3)] obtain w where w: "vararg_at h key' f s' = Some w" "norm_value v = norm_value w" .
  show "\<exists>e'. lua55_residual_getvarg h f s' = perform lua55_residual_next e' f s' \<and> like_effect e e'"
    using k(1) w alike_reg [OF al v(4)] pick v(1)
    by (intro exI [of _ "Puts a w"]) (auto simp: lua55_residual_getvarg_def wr_at_reg_def)
qed simp_all

definition rd_swap :: "v1_holes \<Rightarrow> u64 \<Rightarrow> v1_state \<Rightarrow> (u64 \<times> u64 \<times> lua_value \<times> lua_value) option" where
  "rd_swap h f s = do {
     closing \<leftarrow> reg (q_base h + 2) f s;
     control \<leftarrow> reg (q_base h + 3) f s;
     temp \<leftarrow> rd closing s;
     v \<leftarrow> rd control s;
     Some (closing, control, temp, v)}"

lemma tforprep_shape: "lua55_learn_tforprep = picking rd_swap (\<lambda>h (a, b, temp, v) s. Some (Accept (Does [Put a v, Put b temp]
    (if tag v \<noteq> LUA55_VALUE_NIL then Exit (q_resume_pc h) LUA55_REJECTED else Exit (q_target_pc h) LUA55_COMPLETED)) (q_quote_base h OR 1)))"
  by (rule stencil_eqI)
    (auto simp: lua55_learn_tforprep_def swap_closing_def move_shape rd_swap_def REJECT_def bind_assoc intro!: Option.bind_cong [OF refl] split: Option.bind_splits)

lemma tforprep_replays: "replayed_leaf lua55_learn_tforprep lua55_residual_tforprep (coded 1)"
  unfolding tforprep_shape
proof (rule picking_replays)
  fix h :: v1_holes and f s s' x e
  assume al: "alike s s'" and x: "rd_swap h f s = Some x" and nr: "\<not> rejecting e"
    and pick: "(case x of (a, b, temp, v) \<Rightarrow> \<lambda>s. Some (Accept (Does [Put a v, Put b temp]
      (if tag v \<noteq> LUA55_VALUE_NIL then Exit (q_resume_pc h) LUA55_REJECTED else Exit (q_target_pc h) LUA55_COMPLETED)) (q_quote_base h OR 1))) s =
      Some (Accept e (q_quote_base h OR 1))"
  from x obtain a b temp v where v: "x = (a, b, temp, v)" "reg (q_base h + 2) f s = Some a" "reg (q_base h + 3) f s = Some b" "rd a s = Some temp" "rd b s = Some v"
    by (auto simp: rd_swap_def bind_eq_Some_conv)
  from alike_rd [OF al v(4)] obtain t' where t': "rd a s' = Some t'" "norm_value temp = norm_value t'" .
  from alike_rd [OF al v(5)] obtain v' where v': "rd b s' = Some v'" "norm_value v = norm_value v'" .
  have e: "e = Does [Put a v, Put b temp] (Exit (q_target_pc h) LUA55_COMPLETED)" "tag v = LUA55_VALUE_NIL"
    using pick v(1) nr by (auto simp: rejecting_def split: if_splits)
  then show "\<exists>e'. lua55_residual_tforprep h f s' = perform lua55_residual_next e' f s' \<and> like_effect e e'"
    using alike_reg [OF al v(2)] alike_reg [OF al v(3)] t' v'
    by (intro exI [of _ "Does [Put a v', Put b t'] (Exit (q_target_pc h) LUA55_COMPLETED)"])
      (auto simp: lua55_residual_tforprep_def swap_closing_def norm_value_eq)
qed simp_all

lemma tforloop_shape: "lua55_learn_tforloop = picking (\<lambda>h f s. rd_at_reg (q_base h + 3) f s) (\<lambda>h v s.
    Some (Accept (if tag v \<noteq> LUA55_VALUE_NIL then Exits (q_target_pc h) LUA55_COMPLETED else Goes) (q_quote_base h OR 1)))"
  by (rule stencil_eqI) (auto simp: lua55_learn_tforloop_def move_shape bind_eq_Some_conv split: Option.bind_splits)

lemma tforloop_replays: "replayed_leaf lua55_learn_tforloop lua55_residual_tforloop (coded 1)"
  unfolding tforloop_shape
proof (rule picking_replays)
  fix h :: v1_holes and f s s' v e
  assume al: "alike s s'" and v: "rd_at_reg (q_base h + 3) f s = Some v"
    and pick: "Some (Accept (if tag v \<noteq> LUA55_VALUE_NIL then Exits (q_target_pc h) LUA55_COMPLETED else Goes) (q_quote_base h OR 1)) =
      Some (Accept e (q_quote_base h OR 1))"
  from rd_at_reg_alike [OF al v] obtain w where w: "rd_at_reg (q_base h + 3) f s' = Some w" "norm_value v = norm_value w" .
  then show "\<exists>e'. lua55_residual_tforloop h f s' = perform lua55_residual_next e' f s' \<and> like_effect e e'"
    using pick by (intro exI [of _ e]) (auto simp: lua55_residual_tforloop_def norm_value_eq)
qed simp_all

subsection \<open>The bank\<close>

text \<open>The residuals by the quote that selects them, as the builders of the banks number them.\<close>

definition move_rows :: "v1_row list" where
  "move_rows =
    [(lua55_learn_move, lua55_residual_move_nil, fixed (LUA55_QUOTE 0 1)),
     (lua55_learn_move, lua55_residual_move_false, fixed (LUA55_QUOTE 0 2)),
     (lua55_learn_move, lua55_residual_move_true, fixed (LUA55_QUOTE 0 3)),
     (lua55_learn_move, lua55_residual_move_integer, fixed (LUA55_QUOTE 0 4)),
     (lua55_learn_move, lua55_residual_move_float, fixed (LUA55_QUOTE 0 5)),
     (lua55_learn_move, lua55_residual_move_short_string, fixed (LUA55_QUOTE 0 6)),
     (lua55_learn_move, lua55_residual_move_long_string, fixed (LUA55_QUOTE 0 7)),
     (lua55_learn_move, lua55_residual_move_table, fixed (LUA55_QUOTE 0 8)),
     (lua55_learn_move, lua55_residual_move_closure, fixed (LUA55_QUOTE 0 9)),
     (lua55_learn_loadi, lua55_residual_loadi, fixed (LUA55_QUOTE 1 1)),
     (lua55_learn_loadf, lua55_residual_loadf, fixed (LUA55_QUOTE 2 1)),
     (lua55_learn_loadk_nil, lua55_residual_loadk_nil, fixed (LUA55_QUOTE 3 1)),
     (lua55_learn_loadk_false, lua55_residual_loadk_false, fixed (LUA55_QUOTE 3 2)),
     (lua55_learn_loadk_true, lua55_residual_loadk_true, fixed (LUA55_QUOTE 3 3)),
     (lua55_learn_loadk_integer, lua55_residual_loadk_integer, fixed (LUA55_QUOTE 3 4)),
     (lua55_learn_loadk_float, lua55_residual_loadk_float, fixed (LUA55_QUOTE 3 5)),
     (lua55_learn_loadk_short_string, lua55_residual_loadk_short_string, fixed (LUA55_QUOTE 3 6)),
     (lua55_learn_loadk_long_string, lua55_residual_loadk_long_string, fixed (LUA55_QUOTE 3 7)),
     (lua55_learn_loadkx_nil, lua55_residual_loadkx_nil, fixed (LUA55_QUOTE 4 1)),
     (lua55_learn_loadkx_false, lua55_residual_loadkx_false, fixed (LUA55_QUOTE 4 2)),
     (lua55_learn_loadkx_true, lua55_residual_loadkx_true, fixed (LUA55_QUOTE 4 3)),
     (lua55_learn_loadkx_integer, lua55_residual_loadkx_integer, fixed (LUA55_QUOTE 4 4)),
     (lua55_learn_loadkx_float, lua55_residual_loadkx_float, fixed (LUA55_QUOTE 4 5)),
     (lua55_learn_loadkx_short_string, lua55_residual_loadkx_short_string, fixed (LUA55_QUOTE 4 6)),
     (lua55_learn_loadkx_long_string, lua55_residual_loadkx_long_string, fixed (LUA55_QUOTE 4 7)),
     (lua55_learn_loadfalse, lua55_residual_loadfalse, fixed (LUA55_QUOTE 5 1)),
     (lua55_learn_lfalseskip, lua55_residual_lfalseskip, fixed (LUA55_QUOTE 6 1)),
     (lua55_learn_loadtrue, lua55_residual_loadtrue, fixed (LUA55_QUOTE 7 1))]"

definition upvalue_rows :: "v1_row list" where
  "upvalue_rows =
    [(lua55_learn_getupval, lua55_residual_getupval_open_nil, recalled (LUA55_QUOTE 9 1)),
     (lua55_learn_getupval, lua55_residual_getupval_open_false, recalled (LUA55_QUOTE 9 2)),
     (lua55_learn_getupval, lua55_residual_getupval_open_true, recalled (LUA55_QUOTE 9 3)),
     (lua55_learn_getupval, lua55_residual_getupval_open_integer, recalled (LUA55_QUOTE 9 4)),
     (lua55_learn_getupval, lua55_residual_getupval_open_float, recalled (LUA55_QUOTE 9 5)),
     (lua55_learn_getupval, lua55_residual_getupval_closed_nil, recalled (LUA55_QUOTE 9 6)),
     (lua55_learn_getupval, lua55_residual_getupval_closed_false, recalled (LUA55_QUOTE 9 7)),
     (lua55_learn_getupval, lua55_residual_getupval_closed_true, recalled (LUA55_QUOTE 9 8)),
     (lua55_learn_getupval, lua55_residual_getupval_closed_integer, recalled (LUA55_QUOTE 9 9)),
     (lua55_learn_getupval, lua55_residual_getupval_closed_float, recalled (LUA55_QUOTE 9 10)),
     (lua55_learn_getupval, lua55_residual_getupval_open_closure, recalled (LUA55_QUOTE 9 11)),
     (lua55_learn_getupval, lua55_residual_getupval_closed_closure, recalled (LUA55_QUOTE 9 12)),
     (lua55_learn_setupval, lua55_residual_setupval_open_nil, recalled (LUA55_QUOTE 10 1)),
     (lua55_learn_setupval, lua55_residual_setupval_open_false, recalled (LUA55_QUOTE 10 2)),
     (lua55_learn_setupval, lua55_residual_setupval_open_true, recalled (LUA55_QUOTE 10 3)),
     (lua55_learn_setupval, lua55_residual_setupval_open_integer, recalled (LUA55_QUOTE 10 4)),
     (lua55_learn_setupval, lua55_residual_setupval_open_float, recalled (LUA55_QUOTE 10 5)),
     (lua55_learn_setupval, lua55_residual_setupval_closed_nil, recalled (LUA55_QUOTE 10 6)),
     (lua55_learn_setupval, lua55_residual_setupval_closed_false, recalled (LUA55_QUOTE 10 7)),
     (lua55_learn_setupval, lua55_residual_setupval_closed_true, recalled (LUA55_QUOTE 10 8)),
     (lua55_learn_setupval, lua55_residual_setupval_closed_integer, recalled (LUA55_QUOTE 10 9)),
     (lua55_learn_setupval, lua55_residual_setupval_closed_float, recalled (LUA55_QUOTE 10 10))]"

definition control_rows :: "v1_row list" where
  "control_rows =
    [(lua55_learn_jmp, lua55_residual_jmp, coded 1),
     (lua55_learn_close, lua55_residual_close, coded 1),
     (lua55_learn_errnnil, lua55_residual_errnnil, coded 1),
     (lua55_learn_vararg, lua55_residual_vararg, coded 1),
     (lua55_learn_getvarg, lua55_residual_getvarg, coded 1),
     (lua55_learn_tforprep, lua55_residual_tforprep, coded 1),
     (lua55_learn_tforloop, lua55_residual_tforloop, coded 1)]"

definition v1_move_bank :: "v1_row list" where
  "v1_move_bank = move_rows @ upvalue_rows @ control_rows"

lemmas move_leaves =
  move_replays [of False 0, simplified LUA55_QUOTE_def, simplified]
  move_replays [of False 1, simplified LUA55_QUOTE_def, simplified]
  move_replays [of False 2, simplified LUA55_QUOTE_def, simplified]
  move_replays [of True 3, simplified LUA55_QUOTE_def, simplified]
  move_replays [of True 4, simplified LUA55_QUOTE_def, simplified]
  move_replays [of True 5, simplified LUA55_QUOTE_def, simplified]
  move_replays [of True 6, simplified LUA55_QUOTE_def, simplified]
  move_replays [of True 7, simplified LUA55_QUOTE_def, simplified]
  move_replays [of True 8, simplified LUA55_QUOTE_def, simplified]

lemmas upvalue_leaves =
  getupval_replays [of False 0 LUA55_UPVALUE_OPEN, simplified get_quote_def gettable_tag_def LUA55_QUOTE_def, simplified]
  getupval_replays [of False 1 LUA55_UPVALUE_OPEN, simplified get_quote_def gettable_tag_def LUA55_QUOTE_def, simplified]
  getupval_replays [of False 2 LUA55_UPVALUE_OPEN, simplified get_quote_def gettable_tag_def LUA55_QUOTE_def, simplified]
  getupval_replays [of True 3 LUA55_UPVALUE_OPEN, simplified get_quote_def gettable_tag_def LUA55_QUOTE_def, simplified]
  getupval_replays [of True 4 LUA55_UPVALUE_OPEN, simplified get_quote_def gettable_tag_def LUA55_QUOTE_def, simplified]
  getupval_replays [of True 8 LUA55_UPVALUE_OPEN, simplified get_quote_def gettable_tag_def LUA55_QUOTE_def, simplified]
  getupval_replays [of False 0 LUA55_UPVALUE_CLOSED, simplified get_quote_def gettable_tag_def LUA55_QUOTE_def, simplified]
  getupval_replays [of False 1 LUA55_UPVALUE_CLOSED, simplified get_quote_def gettable_tag_def LUA55_QUOTE_def, simplified]
  getupval_replays [of False 2 LUA55_UPVALUE_CLOSED, simplified get_quote_def gettable_tag_def LUA55_QUOTE_def, simplified]
  getupval_replays [of True 3 LUA55_UPVALUE_CLOSED, simplified get_quote_def gettable_tag_def LUA55_QUOTE_def, simplified]
  getupval_replays [of True 4 LUA55_UPVALUE_CLOSED, simplified get_quote_def gettable_tag_def LUA55_QUOTE_def, simplified]
  getupval_replays [of True 8 LUA55_UPVALUE_CLOSED, simplified get_quote_def gettable_tag_def LUA55_QUOTE_def, simplified]
  setupval_replays [of False 0 LUA55_UPVALUE_OPEN, simplified set_upquote_def LUA55_QUOTE_def, simplified]
  setupval_replays [of False 1 LUA55_UPVALUE_OPEN, simplified set_upquote_def LUA55_QUOTE_def, simplified]
  setupval_replays [of False 2 LUA55_UPVALUE_OPEN, simplified set_upquote_def LUA55_QUOTE_def, simplified]
  setupval_replays [of True 3 LUA55_UPVALUE_OPEN, simplified set_upquote_def LUA55_QUOTE_def, simplified]
  setupval_replays [of True 4 LUA55_UPVALUE_OPEN, simplified set_upquote_def LUA55_QUOTE_def, simplified]
  setupval_replays [of False 0 LUA55_UPVALUE_CLOSED, simplified set_upquote_def LUA55_QUOTE_def, simplified]
  setupval_replays [of False 1 LUA55_UPVALUE_CLOSED, simplified set_upquote_def LUA55_QUOTE_def, simplified]
  setupval_replays [of False 2 LUA55_UPVALUE_CLOSED, simplified set_upquote_def LUA55_QUOTE_def, simplified]
  setupval_replays [of True 3 LUA55_UPVALUE_CLOSED, simplified set_upquote_def LUA55_QUOTE_def, simplified]
  setupval_replays [of True 4 LUA55_UPVALUE_CLOSED, simplified set_upquote_def LUA55_QUOTE_def, simplified]

lemma move_rows: "list_all replays move_rows"
  by (simp add: move_rows_def replays_def move_leaves MOVE_STRING_residual constant_replays LUA55_QUOTE_def
    lua55_residual_move_nil_def lua55_residual_move_false_def lua55_residual_move_true_def lua55_residual_move_integer_def
    lua55_residual_move_float_def lua55_residual_move_short_string_def lua55_residual_move_long_string_def lua55_residual_move_table_def
    lua55_residual_move_closure_def lua55_learn_loadi_def lua55_residual_loadi_def lua55_learn_loadf_def
    lua55_residual_loadf_def lua55_learn_loadk_nil_def lua55_residual_loadk_nil_def lua55_learn_loadk_false_def
    lua55_residual_loadk_false_def lua55_learn_loadk_true_def lua55_residual_loadk_true_def lua55_learn_loadk_integer_def
    lua55_residual_loadk_integer_def lua55_learn_loadk_float_def lua55_residual_loadk_float_def lua55_learn_loadk_short_string_def
    lua55_residual_loadk_short_string_def lua55_learn_loadk_long_string_def lua55_residual_loadk_long_string_def lua55_learn_loadkx_nil_def
    lua55_residual_loadkx_nil_def lua55_learn_loadkx_false_def lua55_residual_loadkx_false_def lua55_learn_loadkx_true_def
    lua55_residual_loadkx_true_def lua55_learn_loadkx_integer_def lua55_residual_loadkx_integer_def lua55_learn_loadkx_float_def
    lua55_residual_loadkx_float_def lua55_learn_loadkx_short_string_def lua55_residual_loadkx_short_string_def lua55_learn_loadkx_long_string_def
    lua55_residual_loadkx_long_string_def lua55_learn_loadfalse_def lua55_residual_loadfalse_def lua55_learn_lfalseskip_def
    lua55_residual_lfalseskip_def lua55_learn_loadtrue_def lua55_residual_loadtrue_def)

lemma upvalue_rows: "list_all replays upvalue_rows"
  by (simp add: upvalue_rows_def replays_def upvalue_leaves LUA55_QUOTE_def
    lua55_residual_getupval_open_nil_def lua55_residual_getupval_open_false_def lua55_residual_getupval_open_true_def lua55_residual_getupval_open_integer_def
    lua55_residual_getupval_open_float_def lua55_residual_getupval_closed_nil_def lua55_residual_getupval_closed_false_def lua55_residual_getupval_closed_true_def
    lua55_residual_getupval_closed_integer_def lua55_residual_getupval_closed_float_def lua55_residual_getupval_open_closure_def lua55_residual_getupval_closed_closure_def
    lua55_residual_setupval_open_nil_def lua55_residual_setupval_open_false_def lua55_residual_setupval_open_true_def lua55_residual_setupval_open_integer_def
    lua55_residual_setupval_open_float_def lua55_residual_setupval_closed_nil_def lua55_residual_setupval_closed_false_def lua55_residual_setupval_closed_true_def
    lua55_residual_setupval_closed_integer_def lua55_residual_setupval_closed_float_def)

lemma move_bank_replays: "list_all replays v1_move_bank"
  by (simp add: v1_move_bank_def move_rows upvalue_rows control_rows_def)
    (simp add: replays_def jump_replays errnnil_replays vararg_replays getvarg_replays tforprep_replays tforloop_replays)

end
