(* ===== verification/Learning.thy ===== *)
theory Learning
  imports Movement
begin

text \<open>
  The learning products of the first invocation and the typed mismatch exit of the retained
  image (\<open>opcode_v2_core_stencils.c\<close>, "exact-shape guards and family-specific learning").

  A learner updates the slot of its occurrence; each update is written as a function on the
  slot, and \<open>learn_at\<close> is the guard and the access around it. The locale \<open>observation_slot\<close>
  is the contract the staging step relies on: after any run of observations the slot tells
  whether they were all the same, and which one it was.
\<close>

subsection \<open>Mismatch exits\<close>

definition V2_SPEC_MISMATCH :: "u32 \<Rightarrow> u32 \<Rightarrow> holes \<Rightarrow> v2_state \<Rightarrow> v2_state" where
  "V2_SPEC_MISMATCH expected observed h = upd_inv (\<lambda>i. i\<lparr>specialization_mismatch :=
     \<lparr>mm_pc = h_resume h, mm_expected = expected, mm_observed = observed\<rparr>\<rparr>)"

definition V2_SPECIALIZATION_MISMATCH_EXIT :: stencil where
  "V2_SPECIALIZATION_MISMATCH_EXIT h f s = Some (Jump (h_mismatch_exit h) f, s)"

definition mismatch :: "u32 \<Rightarrow> u32 \<Rightarrow> stencil" where
  "mismatch expected observed h f s =
     V2_SPECIALIZATION_MISMATCH_EXIT h f (V2_SPEC_MISMATCH expected observed h s)"

definition lua55_cps_host_exit :: "u64 \<Rightarrow> v2_state \<Rightarrow> v2_state" where
  "lua55_cps_host_exit f s = s"

definition lua55_cps_specialization_mismatch :: stencil where
  "lua55_cps_specialization_mismatch h f s =
     (let m = specialization_mismatch (inv s) in
      LUA55_CPS_HOST_EXIT h f (upd_outcome (\<lambda>r. r\<lparr>
        discriminant := LUA55_V2_OUTCOME_REJECTED,
        rejected := \<lparr>rejection_kind = LUA55_V2_REJECT_SPECIALIZATION_MISMATCH,
          rejected_opcode = 0, rejected_pc = mm_pc m,
          expected_tag = mm_expected m, observed_tag = mm_observed m\<rparr>\<rparr>) s))"

lemmas [v2_defs] = V2_SPEC_MISMATCH_def V2_SPECIALIZATION_MISMATCH_EXIT_def mismatch_def

subsection \<open>Access to a learning slot\<close>

definition learn_at :: "u32 \<Rightarrow> (learn_slot \<Rightarrow> learn_slot) \<Rightarrow> v2_state \<Rightarrow> v2_state option" where
  "learn_at i g s =
     (if learning (inv s) = 0 \<or> learning_slots (inv s) \<le> i then Some s
      else do {sl \<leftarrow> slots s i; Some (s\<lparr>slots := (slots s)(i \<mapsto> g sl)\<rparr>)})"

abbreviation (input) CONFLICT :: u32 where "CONFLICT \<equiv> 0xFFFFFFFF"

subsection \<open>The learners\<close>

definition observe_pair :: "u32 \<times> u32 \<Rightarrow> learn_slot \<Rightarrow> learn_slot" where
  "observe_pair p sl = (case p of (ta, tb) \<Rightarrow>
     if seen sl = 0 then sl\<lparr>key_tag := ta, value_tag := tb, seen := 1\<rparr>
     else if key_tag sl \<noteq> ta \<or> value_tag sl \<noteq> tb then sl\<lparr>key_tag := CONFLICT\<rparr> else sl)"

definition v2_learn_pair :: "u32 \<Rightarrow> u32 \<Rightarrow> u32 \<Rightarrow> v2_state \<Rightarrow> v2_state option" where
  "v2_learn_pair slot ta tb = learn_at slot (observe_pair (ta, tb))"

definition v2_learn_callee :: "u32 \<Rightarrow> u32 \<Rightarrow> u32 \<Rightarrow> v2_state \<Rightarrow> v2_state option" where
  "v2_learn_callee slot klass vararg = learn_at slot (observe_pair (klass, vararg))"

text \<open>Four words observed together; \<open>v2_learn_concat\<close> and \<open>v2_learn_super_for_addi\<close> pack into it.\<close>

definition observe_quad :: "u32 \<times> u32 \<times> u64 \<times> u32 \<Rightarrow> learn_slot \<Rightarrow> learn_slot" where
  "observe_quad q sl = (case q of (a, b, packed, c) \<Rightarrow>
     if seen sl = 0
     then sl\<lparr>key_tag := a, value_tag := b, max_array_index := packed, max_field_count := c, seen := 1\<rparr>
     else if key_tag sl \<noteq> a \<or> value_tag sl \<noteq> b \<or> max_array_index sl \<noteq> packed \<or> max_field_count sl \<noteq> c
     then sl\<lparr>key_tag := CONFLICT\<rparr> else sl)"

definition pack_halves :: "u32 \<Rightarrow> u32 \<Rightarrow> u64" where
  "pack_halves lo hi = ucast lo OR push_bit 32 (ucast hi)"

definition concat_shape :: "u32 \<Rightarrow> u32 \<Rightarrow> u32 \<Rightarrow> u32 \<Rightarrow> u32 \<Rightarrow> u32 \<Rightarrow> u32 \<times> u32 \<times> u64 \<times> u32" where
  "concat_shape count t0 t1 t2 t3 t4 =
     (let n = (\<lambda>t. if v2_is_string_tag t then LUA55_VALUE_SHORT_STRING else t);
          e0 = (if 1 \<le> count then n t0 else 0);
          e1 = (if 2 \<le> count then n t1 else 0);
          e2 = (if 3 \<le> count then n t2 else 0);
          e3 = (if 4 \<le> count then n t3 else 0);
          e4 = (if 5 \<le> count then n t4 else 0)
      in (e0, e1, pack_halves e2 e3, e4))"

definition v2_learn_concat ::
    "u32 \<Rightarrow> u32 \<Rightarrow> u32 \<Rightarrow> u32 \<Rightarrow> u32 \<Rightarrow> u32 \<Rightarrow> u32 \<Rightarrow> v2_state \<Rightarrow> v2_state option" where
  "v2_learn_concat slot count t0 t1 t2 t3 t4 =
     learn_at slot (observe_quad (concat_shape count t0 t1 t2 t3 t4))"

definition v2_learn_super_for_addi ::
    "u32 \<Rightarrow> u32 \<Rightarrow> u32 \<Rightarrow> u32 \<Rightarrow> u32 \<Rightarrow> u32 \<Rightarrow> v2_state \<Rightarrow> v2_state option" where
  "v2_learn_super_for_addi slot init_tag limit_tag step_tag accumulator_tag sign =
     learn_at slot (observe_quad (init_tag, limit_tag, pack_halves step_tag accumulator_tag, sign))"

definition observe_tag :: "u32 \<Rightarrow> learn_slot \<Rightarrow> learn_slot" where
  "observe_tag t sl =
     sl\<lparr>key_tag := (if key_tag sl = 0 \<or> key_tag sl = t then t else CONFLICT), seen := 1\<rparr>"

definition v2_learn_key_tag :: "u32 \<Rightarrow> u32 \<Rightarrow> v2_state \<Rightarrow> v2_state option" where
  "v2_learn_key_tag slot t = learn_at slot (observe_tag t)"

definition observe_site :: "bool \<Rightarrow> u64 \<Rightarrow> learn_slot \<Rightarrow> learn_slot" where
  "observe_site array_key k sl =
     (if array_key
      then sl\<lparr>max_array_index := (if max_array_index sl < k then k else max_array_index sl), seen := 1\<rparr>
      else sl\<lparr>max_field_count :=
        (if ucast (max_field_count sl) < k then ucast k else max_field_count sl), seen := 1\<rparr>)"

definition v2_learn_write_site :: "u64 \<Rightarrow> bool \<Rightarrow> u64 \<Rightarrow> v2_state \<Rightarrow> v2_state option" where
  "v2_learn_write_site table array_key k s =
     (if learning (inv s) = 0 then Some s
      else do {
        tb \<leftarrow> tables s table;
        if site_id tb = 0 then Some s else learn_at (site_id tb) (observe_site array_key k) s})"

subsection \<open>The learning region\<close>

text \<open>
  \<open>forget s\<close> is \<open>s\<close> without the learning region, the way the retained image runs
  (\<open>inv->learning = 0\<close>): two states with the same \<open>forget\<close> agree on every register, object,
  frame and outcome. \<open>learning_ok\<close> says that the slots the driver announces are mapped.
\<close>

definition forget :: "v2_state \<Rightarrow> v2_state" where
  "forget s = s\<lparr>slots := Map.empty, inv := (inv s)\<lparr>learning := 0, learning_slots := 0\<rparr>\<rparr>"

definition learning_ok :: "v2_state \<Rightarrow> bool" where
  "learning_ok s \<longleftrightarrow> learning (inv s) = 0 \<or> (\<forall>i < learning_slots (inv s). slots s i \<noteq> None)"

lemma forget_idem [simp]: "forget (forget s) = forget s"
  by (simp add: forget_def)

lemma learning_ok_forget [simp]: "learning_ok (forget s)"
  by (simp add: forget_def learning_ok_def)

lemma forget_sel [simp]:
  "vals (forget s) = vals s" "tops (forget s) = tops s" "ptrs (forget s) = ptrs s"
  "bytes (forget s) = bytes s" "headers (forget s) = headers s" "strings (forget s) = strings s"
  "tables (forget s) = tables s" "gfields (forget s) = gfields s" "cells (forget s) = cells s"
  "closures (forget s) = closures s" "frames (forget s) = frames s" "heaps (forget s) = heaps s"
  by (simp_all add: forget_def)

lemma forget_upd [simp]:
  "forget (s\<lparr>vals := v\<rparr>) = (forget s)\<lparr>vals := v\<rparr>"
  "forget (s\<lparr>slots := m\<rparr>) = forget s"
  by (simp_all add: forget_def)

lemma learning_ok_upd [simp]:
  "learning_ok (s\<lparr>vals := v\<rparr>) = learning_ok s"
  by (simp add: learning_ok_def)

lemma learn_at_cases:
  assumes "learning_ok s"
  obtains m where "learn_at i g s = Some (s\<lparr>slots := m\<rparr>)" and "learning_ok (s\<lparr>slots := m\<rparr>)"
proof (cases "learning (inv s) = 0 \<or> learning_slots (inv s) \<le> i")
  case True
  then have "learn_at i g s = Some (s\<lparr>slots := slots s\<rparr>)" by (simp add: learn_at_def)
  then show ?thesis using that [of "slots s"] assms by simp
next
  case False
  with assms obtain sl where sl: "slots s i = Some sl"
    by (auto simp: learning_ok_def not_le)
  with False show ?thesis
    using that [of "(slots s)(i \<mapsto> g sl)"] assms by (simp add: learn_at_def learning_ok_def)
qed

lemmas learner_defs = v2_learn_pair_def v2_learn_callee_def v2_learn_concat_def
  v2_learn_super_for_addi_def v2_learn_key_tag_def

lemma forget_outcome [simp]: "forget (upd_outcome g s) = upd_outcome g (forget s)"
  by (simp add: forget_def upd_outcome_def upd_inv_def)

lemma learning_ok_outcome [simp]: "learning_ok (upd_outcome g s) = learning_ok s"
  by (simp add: learning_ok_def upd_outcome_def upd_inv_def)

subsection \<open>What a slot records of a run of observations\<close>

locale observation_slot =
  fixes observe :: "'o \<Rightarrow> 'slot \<Rightarrow> 'slot"
    and fresh :: "'slot \<Rightarrow> bool"
    and records :: "'slot \<Rightarrow> 'o \<Rightarrow> bool"
    and conflicted :: "'slot \<Rightarrow> bool"
    and ok :: "'o \<Rightarrow> bool"
  assumes first_observation: "fresh sl \<Longrightarrow> ok x \<Longrightarrow> records (observe x sl) x"
    and same_observation: "records sl x \<Longrightarrow> ok x \<Longrightarrow> records (observe x sl) x"
    and other_observation:
      "records sl x \<Longrightarrow> ok x \<Longrightarrow> ok y \<Longrightarrow> x \<noteq> y \<Longrightarrow> conflicted (observe y sl)"
    and conflict_stays: "conflicted sl \<Longrightarrow> ok x \<Longrightarrow> conflicted (observe x sl)"
    and conflict_no_record: "conflicted sl \<Longrightarrow> ok x \<Longrightarrow> \<not> records sl x"
begin

lemma conflict_fold: "conflicted sl \<Longrightarrow> \<forall>x\<in>set xs. ok x \<Longrightarrow> conflicted (fold observe xs sl)"
  by (induction xs arbitrary: sl) (auto intro: conflict_stays)

lemma record_fold:
  assumes "records sl x" and "ok x" and "\<forall>y\<in>set xs. ok y"
  shows "if \<forall>y\<in>set xs. y = x then records (fold observe xs sl) x else conflicted (fold observe xs sl)"
  using assms
proof (induction xs arbitrary: sl)
  case (Cons y ys)
  show ?case
  proof (cases "y = x")
    case True
    with Cons.prems have "records (observe y sl) x" by (auto intro: same_observation)
    from Cons.IH [OF this] Cons.prems True show ?thesis
      by (cases "\<forall>y\<in>set ys. y = x") auto
  next
    case False
    with Cons.prems have "conflicted (observe y sl)" by (auto intro: other_observation)
    then have "conflicted (fold observe ys (observe y sl))"
      using Cons.prems(3) by (auto intro: conflict_fold)
    with False show ?thesis by auto
  qed
qed simp

lemma fold_spec:
  assumes "fresh sl" and "ok x" and "\<forall>y\<in>set xs. ok y"
  shows "if \<forall>y\<in>set xs. y = x then records (fold observe (x # xs) sl) x
         else conflicted (fold observe (x # xs) sl)"
  using record_fold [OF first_observation [OF assms(1,2)] assms(2,3)] by simp

lemma records_iff:
  assumes "fresh sl" and "ok x" and "\<forall>y\<in>set xs. ok y"
  shows "records (fold observe (x # xs) sl) x \<longleftrightarrow> (\<forall>y\<in>set xs. y = x)"
  using fold_spec [OF assms] conflict_no_record [OF _ assms(2)] by (auto split: if_splits)

end

text \<open>The slot after a pair (operand tags of an occurrence, class and arity of a callee).\<close>

definition pair_recorded :: "learn_slot \<Rightarrow> u32 \<times> u32 \<Rightarrow> bool" where
  "pair_recorded sl p \<longleftrightarrow> seen sl \<noteq> 0 \<and> (key_tag sl, value_tag sl) = p"

definition slot_conflicted :: "learn_slot \<Rightarrow> bool" where
  "slot_conflicted sl \<longleftrightarrow> seen sl \<noteq> 0 \<and> key_tag sl = CONFLICT"

definition quad_recorded :: "learn_slot \<Rightarrow> u32 \<times> u32 \<times> u64 \<times> u32 \<Rightarrow> bool" where
  "quad_recorded sl q \<longleftrightarrow>
     seen sl \<noteq> 0 \<and> (key_tag sl, value_tag sl, max_array_index sl, max_field_count sl) = q"

definition tag_recorded :: "learn_slot \<Rightarrow> u32 \<Rightarrow> bool" where
  "tag_recorded sl t \<longleftrightarrow> seen sl \<noteq> 0 \<and> key_tag sl = t"

interpretation pair_slot: observation_slot observe_pair "\<lambda>sl. seen sl = 0" pair_recorded
    slot_conflicted "\<lambda>p. fst p \<noteq> CONFLICT"
  by unfold_locales (auto simp: observe_pair_def pair_recorded_def slot_conflicted_def split: prod.splits)

interpretation quad_slot: observation_slot observe_quad "\<lambda>sl. seen sl = 0" quad_recorded
    slot_conflicted "\<lambda>q. fst q \<noteq> CONFLICT"
  by unfold_locales (auto simp: observe_quad_def quad_recorded_def slot_conflicted_def split: prod.splits)

interpretation tag_slot: observation_slot observe_tag "\<lambda>sl. key_tag sl = 0" tag_recorded
    slot_conflicted "\<lambda>t. t \<noteq> CONFLICT \<and> t \<noteq> LUA55_VALUE_NIL"
  by unfold_locales (auto simp: observe_tag_def tag_recorded_def slot_conflicted_def)

end
