(* ===== verification/Specialization.thy ===== *)
theory Specialization
  imports Learning
begin

text \<open>
  The contract between the learning image and the retained image. An occurrence is first run
  by its learner; staging then selects a residual leaf from what the learner recorded.
  \<open>residual_leaf\<close> states what makes that replacement right: the leaf, run in the state without the
  learning region, either leaves through the mismatch exit after publishing the mismatch and
  nothing else, or does exactly what the learner does. The lemma \<open>run_refines\<close> carries it to
  every execution of a whole code image, loops and calls included.
\<close>

text \<open>What a mismatch exit looks like from outside.\<close>

definition mismatch_exit :: "holes \<Rightarrow> u64 \<Rightarrow> v2_state \<Rightarrow> control \<times> v2_state \<Rightarrow> bool" where
  "mismatch_exit h f s r \<longleftrightarrow> (\<exists>e ob. Some r = mismatch e ob h f s)"

text \<open>
  \<open>product h f s\<close> says that the operands of the occurrence have the shape the leaf was selected
  for, \<open>patched h\<close> that the constant holes carry the constant of that shape.
\<close>

locale residual_leaf =
  fixes learner :: stencil
    and leaf :: stencil
    and product :: "holes \<Rightarrow> u64 \<Rightarrow> v2_state \<Rightarrow> bool"
    and patched :: "holes \<Rightarrow> bool"
  assumes refines: "patched h \<Longrightarrow> learning_ok s \<Longrightarrow> leaf h f (forget s) = Some r \<Longrightarrow>
      \<not> mismatch_exit h f (forget s) r \<Longrightarrow>
      \<exists>c u. learner h f s = Some (c, u) \<and> r = (c, forget u) \<and> learning_ok u"
    and defined: "patched h \<Longrightarrow> learner h f s \<noteq> None \<Longrightarrow> leaf h f (forget s) \<noteq> None"
    and accepts: "patched h \<Longrightarrow> product h f s \<Longrightarrow> leaf h f (forget s) = Some r \<Longrightarrow>
      \<not> mismatch_exit h f (forget s) r"
    and rejects: "patched h \<Longrightarrow> \<not> product h f s \<Longrightarrow> leaf h f (forget s) = Some r \<Longrightarrow>
      mismatch_exit h f (forget s) r"
begin

text \<open>On its product a leaf is its learner, up to the learning region.\<close>

lemma on_product:
  assumes "patched h" and "learning_ok s" and "product h f s" and "learner h f s = Some (c, u)"
  shows "leaf h f (forget s) = Some (c, forget u)" and "learning_ok u"
proof -
  obtain r where r: "leaf h f (forget s) = Some r"
    using defined [OF assms(1)] assms(4) by fastforce
  then have "\<not> mismatch_exit h f (forget s) r" by (rule accepts [OF assms(1,3)])
  from refines [OF assms(1,2) r this] assms(4) r
  show "leaf h f (forget s) = Some (c, forget u)" and "learning_ok u" by auto
qed

text \<open>Off its product a leaf publishes the mismatch and leaves everything else alone.\<close>

lemma off_product:
  assumes "patched h" and "\<not> product h f s" and "learner h f s \<noteq> None"
  shows "\<exists>e ob. leaf h f (forget s) = mismatch e ob h f (forget s)"
proof -
  obtain r where r: "leaf h f (forget s) = Some r"
    using defined [OF assms(1,3)] by blast
  from rejects [OF assms(1,2) r] r show ?thesis by (auto simp: mismatch_exit_def)
qed

end

subsection \<open>Work that does not touch the learning region\<close>

text \<open>
  A stencil that neither reads nor writes the learning region behaves the same with and
  without it.
\<close>

definition forgetful :: "(v2_state \<Rightarrow> ('a \<times> v2_state) option) \<Rightarrow> bool" where
  "forgetful st \<longleftrightarrow> (\<forall>s. st (forget s) = map_option (map_prod id forget) (st s) \<and>
     (\<forall>c u. st s = Some (c, u) \<longrightarrow> learning_ok s \<longrightarrow> learning_ok u))"

lemma forgetful_run:
  assumes "forgetful st" and "st (forget s) = Some r" and "learning_ok s"
  obtains c u where "st s = Some (c, u)" and "r = (c, forget u)" and "learning_ok u"
  using assms unfolding forgetful_def by (cases "st s") fastforce+

lemma forgetful_None: "forgetful st \<Longrightarrow> st (forget s) = None \<longleftrightarrow> st s = None"
  by (simp add: forgetful_def)

lemma forgetful_reject [simp, intro]: "forgetful (reject_exit k h f)"
  by (simp add: forgetful_def v2_defs)

text \<open>
  The same for a state transformer, and the rules that build larger blind pieces from smaller
  ones: \<open>v2_blind\<close> is the collection a component proof applies.
\<close>

definition blind :: "(v2_state \<Rightarrow> v2_state option) \<Rightarrow> bool" where
  "blind g \<longleftrightarrow> (\<forall>s. g (forget s) = map_option forget (g s) \<and>
     (\<forall>u. g s = Some u \<longrightarrow> learning_ok s \<longrightarrow> learning_ok u))"

lemma blind_wr_val [v2_blind]: "blind (wr_val a v)"
  by (simp add: blind_def wr_val_def)

lemma blind_Some [v2_blind]: "blind Some"
  by (simp add: blind_def)

lemma forgetful_bind [v2_blind]:
  assumes "forgetful g" and "\<And>x. forgetful (k x)"
  shows "forgetful (\<lambda>s. g s \<bind> (\<lambda>(x, s). k x s))"
  unfolding forgetful_def
proof (intro allI conjI impI)
  fix s
  show "g (forget s) \<bind> (\<lambda>(x, s). k x s) = map_option (map_prod id forget) (g s \<bind> (\<lambda>(x, s). k x s))"
    using assms unfolding forgetful_def by (cases "g s") auto
  fix c u
  assume "g s \<bind> (\<lambda>(x, s). k x s) = Some (c, u)" "learning_ok s"
  with assms show "learning_ok u" unfolding forgetful_def by (cases "g s") auto
qed

lemma forgetful_seq [v2_blind]:
  assumes "blind g" and "forgetful k"
  shows "forgetful (\<lambda>s. g s \<bind> k)"
  unfolding forgetful_def
proof (intro allI conjI impI)
  fix s
  show "g (forget s) \<bind> k = map_option (map_prod id forget) (g s \<bind> k)"
    using assms unfolding forgetful_def blind_def by (cases "g s") auto
  fix c u
  assume "g s \<bind> k = Some (c, u)" "learning_ok s"
  with assms show "learning_ok u" unfolding forgetful_def blind_def by (cases "g s") auto
qed

lemma forgetful_read:
  assumes "\<And>s. r (forget s) = r s" and "\<And>x. forgetful (k x)"
  shows "forgetful (\<lambda>s. r s \<bind> (\<lambda>x. k x s))"
  unfolding forgetful_def
proof (intro allI conjI impI)
  fix s
  show "r (forget s) \<bind> (\<lambda>x. k x (forget s)) = map_option (map_prod id forget) (r s \<bind> (\<lambda>x. k x s))"
    using assms unfolding forgetful_def by (cases "r s") auto
  fix c u
  assume "r s \<bind> (\<lambda>x. k x s) = Some (c, u)" "learning_ok s"
  with assms(2) show "learning_ok u" unfolding forgetful_def by (cases "r s") auto
qed

lemma blind_seq [v2_blind]:
  assumes "blind g" and "blind k"
  shows "blind (\<lambda>s. g s \<bind> k)"
  unfolding blind_def
proof (intro allI conjI impI)
  fix s
  show "g (forget s) \<bind> k = map_option forget (g s \<bind> k)"
    using assms unfolding blind_def by (cases "g s") auto
  fix u
  assume "g s \<bind> k = Some u" "learning_ok s"
  with assms show "learning_ok u" unfolding blind_def by (cases "g s") auto
qed

lemma blind_read:
  assumes "\<And>s. r (forget s) = r s" and "\<And>x. blind (k x)"
  shows "blind (\<lambda>s. r s \<bind> (\<lambda>x. k x s))"
  unfolding blind_def
proof (intro allI conjI impI)
  fix s
  show "r (forget s) \<bind> (\<lambda>x. k x (forget s)) = map_option forget (r s \<bind> (\<lambda>x. k x s))"
    using assms unfolding blind_def by (cases "r s") auto
  fix u
  assume "r s \<bind> (\<lambda>x. k x s) = Some u" "learning_ok s"
  with assms(2) show "learning_ok u" unfolding blind_def by (cases "r s") auto
qed

lemma forgetful_if [v2_blind]:
  "(c \<Longrightarrow> forgetful a) \<Longrightarrow> (\<not> c \<Longrightarrow> forgetful b) \<Longrightarrow> forgetful (\<lambda>s. if c then a s else b s)"
  by (cases c) simp_all

lemma blind_if [v2_blind]:
  "(c \<Longrightarrow> blind a) \<Longrightarrow> (\<not> c \<Longrightarrow> blind b) \<Longrightarrow> blind (\<lambda>s. if c then a s else b s)"
  by (cases c) simp_all

lemma forgetful_done [v2_blind]: "forgetful (\<lambda>s. Some (x, s))"
  by (simp add: forgetful_def)

lemma forgetful_next [v2_blind]: "forgetful (LUA55_RESIDUAL_NEXT f)"
  by (simp add: forgetful_def LUA55_RESIDUAL_NEXT_def)

lemmas [v2_blind] = forgetful_reject

lemma blind_wr [v2_blind]: "blind (wr_int a i)" "blind (wr_flt a x)" "blind (wr_ref a t r)" "blind (wr_tag a t)"
  by (simp_all add: blind_def v2_defs split: Option.bind_splits)

lemma disp_forget [simp]: "V2_VALUE_DISP d f (forget s) = V2_VALUE_DISP d f s"
  by (simp add: v2_defs)

lemma mismatch_is_exit: "mismatch e ob h f s = Some r \<Longrightarrow> mismatch_exit h f s r"
  unfolding mismatch_exit_def by metis

lemma refused: "\<exists>e ob. mismatch a b h f s = mismatch e ob h f s"
  by blast

text \<open>
  The usual way a leaf meets its contract: the learner reads its operands, records them and
  works on them; the leaf reads the same operands, refuses the ones it was not selected for and
  does the same work on the others.
\<close>

definition accepted :: "(holes \<Rightarrow> u64 \<Rightarrow> v2_state \<Rightarrow> 'a option) \<Rightarrow> (holes \<Rightarrow> 'a \<Rightarrow> bool) \<Rightarrow>
    holes \<Rightarrow> u64 \<Rightarrow> v2_state \<Rightarrow> bool" where
  "accepted ops ok h f s = (case ops h f s of None \<Rightarrow> False | Some x \<Rightarrow> ok h x)"

lemma learn_at_forget: "learn_at i g s = Some u \<Longrightarrow> forget u = forget s"
  by (auto simp: learn_at_def bind_eq_Some_conv split: if_splits)

lemma observed_refines_ok:
  assumes learner: "\<And>h f s x. patched h \<Longrightarrow> ops h f s = Some x \<Longrightarrow> ok h x \<Longrightarrow>
      learner h f s = do {s \<leftarrow> learn_at (slot h) (obs x) s; lbody x h f s}"
    and unread: "\<And>h f s. ops h f s = None \<Longrightarrow> learner h f s = None"
    and operands: "\<And>h f s. ops h f (forget s) = ops h f s"
    and works: "\<And>h f s x. patched h \<Longrightarrow> ops h f s = Some x \<Longrightarrow> ok h x \<Longrightarrow> leaf h f s = lbody x h f s"
    and refuses: "\<And>h f s x. patched h \<Longrightarrow> ops h f s = Some x \<Longrightarrow> \<not> ok h x \<Longrightarrow>
      \<exists>e ob. leaf h f s = mismatch e ob h f s"
    and undefined: "\<And>h f s r. patched h \<Longrightarrow> ops h f s = None \<Longrightarrow> leaf h f s = Some r \<Longrightarrow>
      mismatch_exit h f s r"
    and free: "\<And>h f x. patched h \<Longrightarrow> ok h x \<Longrightarrow> forgetful (lbody x h f)"
    and stays: "\<And>h f s x r. patched h \<Longrightarrow> ok h x \<Longrightarrow> lbody x h f s = Some r \<Longrightarrow> \<not> mismatch_exit h f s r"
  shows "residual_leaf learner leaf (accepted ops ok) patched"
proof
  fix h f s r
  assume p: "patched h" and lok: "learning_ok s" and leaf: "leaf h f (forget s) = Some r"
    and nm: "\<not> mismatch_exit h f (forget s) r"
  obtain x where x: "ops h f s = Some x"
    using undefined [OF p _ leaf] nm operands [of h f s] by (cases "ops h f s") auto
  then have x': "ops h f (forget s) = Some x" by (simp add: operands)
  have ok: "ok h x"
    using refuses [OF p x'] leaf nm by (metis mismatch_is_exit)
  obtain m where m: "learn_at (slot h) (obs x) s = Some (s\<lparr>slots := m\<rparr>)" "learning_ok (s\<lparr>slots := m\<rparr>)"
    using learn_at_cases [OF lok] by blast
  have "lbody x h f (forget (s\<lparr>slots := m\<rparr>)) = Some r"
    using works [OF p x' ok] leaf by simp
  then obtain c u where "lbody x h f (s\<lparr>slots := m\<rparr>) = Some (c, u)" "r = (c, forget u)" "learning_ok u"
    using forgetful_run [OF free [OF p ok] _ m(2)] by blast
  then show "\<exists>c u. learner h f s = Some (c, u) \<and> r = (c, forget u) \<and> learning_ok u"
    using learner [OF p x ok] m(1) by simp
next
  fix h f s
  assume p: "patched h" and d: "learner h f s \<noteq> None"
  then obtain x where x: "ops h f s = Some x" using unread [of h f s] by (cases "ops h f s") auto
  then have x': "ops h f (forget s) = Some x" by (simp add: operands)
  show "leaf h f (forget s) \<noteq> None"
  proof (cases "ok h x")
    case True
    from d learner [OF p x True] obtain u where u: "learn_at (slot h) (obs x) s = Some u" "lbody x h f u \<noteq> None"
      by (auto simp: bind_eq_Some_conv)
    then show ?thesis
      using works [OF p x' True] forgetful_None [OF free [OF p True]] learn_at_forget by metis
  next
    case False
    from refuses [OF p x' False] show ?thesis by (auto simp: v2_defs)
  qed
next
  fix h f s r
  assume p: "patched h" and a: "accepted ops ok h f s" and leaf: "leaf h f (forget s) = Some r"
  then obtain x where "ops h f (forget s) = Some x" "ok h x"
    by (auto simp: accepted_def operands split: option.splits)
  then show "\<not> mismatch_exit h f (forget s) r" using works stays p leaf by metis
next
  fix h f s r
  assume p: "patched h" and a: "\<not> accepted ops ok h f s" and leaf: "leaf h f (forget s) = Some r"
  show "mismatch_exit h f (forget s) r"
  proof (cases "ops h f s")
    case None
    then show ?thesis using undefined [OF p _ leaf] operands by simp
  next
    case (Some x)
    then have "\<not> ok h x" "ops h f (forget s) = Some x" using a by (auto simp: accepted_def operands)
    then show ?thesis using refuses [OF p] leaf by (metis mismatch_is_exit)
  qed
qed

lemma observed_refines:
  assumes "\<And>h f s. learner h f s =
      do {x \<leftarrow> ops h f s; s \<leftarrow> learn_at (slot h) (obs x) s; lbody x h f s}"
    and "\<And>h f s. ops h f (forget s) = ops h f s"
    and "\<And>h f s x. patched h \<Longrightarrow> ops h f s = Some x \<Longrightarrow> ok h x \<Longrightarrow> leaf h f s = lbody x h f s"
    and "\<And>h f s x. patched h \<Longrightarrow> ops h f s = Some x \<Longrightarrow> \<not> ok h x \<Longrightarrow>
      \<exists>e ob. leaf h f s = mismatch e ob h f s"
    and "\<And>h f s r. patched h \<Longrightarrow> ops h f s = None \<Longrightarrow> leaf h f s = Some r \<Longrightarrow> mismatch_exit h f s r"
    and "\<And>h f x. patched h \<Longrightarrow> ok h x \<Longrightarrow> forgetful (lbody x h f)"
    and "\<And>h f s x r. patched h \<Longrightarrow> ok h x \<Longrightarrow> lbody x h f s = Some r \<Longrightarrow> \<not> mismatch_exit h f s r"
  shows "residual_leaf learner leaf (accepted ops ok) patched"
  by (rule observed_refines_ok [where slot = slot and obs = obs and lbody = lbody]) (use assms in auto)

subsection \<open>Code images\<close>

text \<open>
  A code image maps an entry address to the stencil copied there, its patched holes and the
  entry of its successor. A configuration is the entry about to run with its subject frame,
  or the return to the host. \<open>image_step\<close> is one transfer of control.
\<close>

type_synonym image = "u64 \<rightharpoonup> stencil \<times> holes \<times> u64"

datatype config = At u64 u64 v2_state | Halted u64 v2_state

fun image_step :: "image \<Rightarrow> config \<Rightarrow> config option" where
  "image_step img (Halted f s) = None"
| "image_step img (At pc f s) = (case img pc of
     None \<Rightarrow> None
   | Some (st, h, succ) \<Rightarrow> (case st h f s of
       None \<Rightarrow> None
     | Some (Next f', t) \<Rightarrow> Some (At succ f' t)
     | Some (Jump e f', t) \<Rightarrow> Some (At e f' t)
     | Some (Host_exit e f', t) \<Rightarrow> Some (Halted f' t)))"

inductive image_run :: "image \<Rightarrow> config \<Rightarrow> config \<Rightarrow> bool" for img where
  run_refl: "image_run img C C"
| run_step: "image_run img C D \<Longrightarrow> image_step img D = Some E \<Longrightarrow> image_run img C E"

text \<open>
  A program: at every entry the learner of the occurrence, the leaf selected for it, the
  holes and the successor. The first invocation runs the learners, the later ones the leaves.
\<close>

type_synonym program = "u64 \<rightharpoonup> (stencil \<times> stencil) \<times> holes \<times> u64"

definition learning_image :: "program \<Rightarrow> image" where
  "learning_image P pc = map_option (\<lambda>((l, r), h, succ). (l, h, succ)) (P pc)"

definition retained_image :: "program \<Rightarrow> image" where
  "retained_image P pc = map_option (\<lambda>((l, r), h, succ). (r, h, succ)) (P pc)"

text \<open>
  \<open>shapes pc f s\<close> says that at entry \<open>pc\<close> the operands have the shape recorded for it. A program
  is specialized for \<open>shapes\<close> when every leaf meets its contract for the recorded shape.
\<close>

type_synonym shapes = "u64 \<Rightarrow> u64 \<Rightarrow> v2_state \<Rightarrow> bool"

definition specialized :: "program \<Rightarrow> shapes \<Rightarrow> bool" where
  "specialized P shapes \<longleftrightarrow> (\<forall>pc l r h succ. P pc = Some ((l, r), h, succ) \<longrightarrow>
     (\<exists>product patched. residual_leaf l r product patched \<and> patched h \<and> shapes pc = product h))"

fun forget_config :: "config \<Rightarrow> config" where
  "forget_config (At pc f s) = At pc f (forget s)"
| "forget_config (Halted f s) = Halted f (forget s)"

fun config_ok :: "config \<Rightarrow> bool" where
  "config_ok (At pc f s) = learning_ok s"
| "config_ok (Halted f s) = learning_ok s"

text \<open>The leaf at the entry of \<open>C\<close>, run without the learning region, takes its mismatch exit.\<close>

fun leaf_mismatches :: "program \<Rightarrow> config \<Rightarrow> bool" where
  "leaf_mismatches P (At pc f s) = (case P pc of
     None \<Rightarrow> False
   | Some ((l, r), h, succ) \<Rightarrow>
       (case r h f (forget s) of None \<Rightarrow> False | Some res \<Rightarrow> mismatch_exit h f (forget s) res))"
| "leaf_mismatches P (Halted f s) = False"

lemma step_refines:
  assumes sp: "specialized P shapes" and ok: "config_ok D"
    and st: "image_step (retained_image P) (forget_config D) = Some E"
    and nm: "\<not> leaf_mismatches P D"
  shows "\<exists>D'. image_step (learning_image P) D = Some D' \<and> E = forget_config D' \<and> config_ok D'"
proof (cases D)
  case (At pc f s)
  with st obtain l r h succ where P: "P pc = Some ((l, r), h, succ)"
    by (cases "P pc") (auto simp: retained_image_def)
  with st At obtain res where leaf: "r h f (forget s) = Some res"
    by (cases "r h f (forget s)") (auto simp: retained_image_def)
  from sp P obtain q p where p: "residual_leaf l r q p" "p h"
    unfolding specialized_def by blast
  from nm At P leaf have "\<not> mismatch_exit h f (forget s) res" by simp
  from residual_leaf.refines [OF p(1) p(2) _ leaf this] ok At
  obtain c u where u: "l h f s = Some (c, u)" "res = (c, forget u)" "learning_ok u" by auto
  show ?thesis
    using st At P leaf u by (cases c) (auto simp: retained_image_def learning_image_def)
qed (use st in auto)

lemma run_refines:
  assumes "image_run (retained_image P) (forget_config C) E" and "specialized P shapes" and "config_ok C"
  shows "(\<exists>D. image_run (learning_image P) C D \<and> E = forget_config D \<and> config_ok D) \<or>
         (\<exists>D. image_run (learning_image P) C D \<and> leaf_mismatches P D)"
  using assms
proof (induction "forget_config C" E rule: image_run.induct)
  case run_refl
  then show ?case by (blast intro: image_run.run_refl)
next
  case (run_step E E')
  from run_step.hyps(2) [OF run_step.prems]
  consider (sim) D where "image_run (learning_image P) C D" "E = forget_config D" "config_ok D"
    | (mis) "\<exists>D. image_run (learning_image P) C D \<and> leaf_mismatches P D" by blast
  then show ?case
  proof cases
    case sim
    show ?thesis
    proof (cases "leaf_mismatches P D")
      case False
      from step_refines [OF run_step.prems(1) sim(3) _ False] run_step.hyps(3) sim(2)
      obtain D' where "image_step (learning_image P) D = Some D'" "E' = forget_config D'" "config_ok D'"
        by auto
      with sim(1) show ?thesis by (blast intro: image_run.run_step)
    qed (use sim in blast)
  qed blast
qed

text \<open>
  If every configuration the learning image reaches has the recorded shapes, no leaf
  mismatches: the two images go through the same configurations.
\<close>

fun shaped :: "shapes \<Rightarrow> config \<Rightarrow> bool" where
  "shaped shapes (At pc f s) = shapes pc f s"
| "shaped shapes (Halted f s) = True"

lemma shaped_no_mismatch:
  assumes "specialized P shapes" and "shaped shapes D"
  shows "\<not> leaf_mismatches P D"
proof (cases D)
  case (At pc f s)
  show ?thesis
  proof (cases "P pc")
    case (Some x)
    obtain l r h succ where x: "x = ((l, r), h, succ)" by (metis surj_pair)
    with assms(1) Some obtain q p where "residual_leaf l r q p" "p h" "shapes pc = q h"
      unfolding specialized_def by blast
    then show ?thesis
      using assms(2) At Some x residual_leaf.accepts by (fastforce split: option.splits)
  qed (simp add: At)
qed simp

lemma run_exact:
  assumes "specialized P shapes" and "config_ok C"
    and "\<And>D. image_run (learning_image P) C D \<Longrightarrow> shaped shapes D"
    and "image_run (retained_image P) (forget_config C) E"
  shows "\<exists>D. image_run (learning_image P) C D \<and> E = forget_config D"
  using run_refines [OF assms(4,1,2)] assms(1,3) shaped_no_mismatch by blast

text \<open>
  The retained image gets stuck nowhere the learning image does not: specialization
  introduces no undefined behaviour.
\<close>

lemma step_defined:
  assumes "specialized P shapes" and "image_step (learning_image P) D \<noteq> None"
  shows "image_step (retained_image P) (forget_config D) \<noteq> None"
proof (cases D)
  case (At pc f s)
  with assms(2) obtain l r h succ where P: "P pc = Some ((l, r), h, succ)"
    by (cases "P pc") (auto simp: learning_image_def)
  with assms(2) At have "l h f s \<noteq> None"
    by (cases "l h f s") (auto simp: learning_image_def)
  moreover from assms(1) P obtain q p where "residual_leaf l r q p" "p h"
    unfolding specialized_def by blast
  ultimately obtain c t where "r h f (forget s) = Some (c, t)"
    using residual_leaf.defined by fastforce
  then show ?thesis using At P by (cases c) (auto simp: retained_image_def)
qed (use assms(2) in auto)

end
