(* ===== verification/Arithmetic.thy ===== *)
theory Arithmetic
  imports Specialization
begin

text \<open>
  Arithmetic, bitwise and shift opcodes (21 to 45): the learners \<open>lua55_v2l_*\<close>, which decide on
  the tags at run time and record them, and the residual leaves \<open>lua55_v2r_*\<close>, each of which
  is selected for one product of operand tags and guards it. A macro of the sources is a
  definition over its function and operand arguments, an instantiation is its application.

  The locale \<open>residual_leaf\<close> is the contract between a learner and a leaf: on the selected
  product the leaf computes what the learner computes, and on any other it publishes exactly
  the expected and the observed tag and changes nothing else. The macros are interpreted once
  and for all, and the table \<open>arith_bank\<close> lists the instances.
\<close>

subsection \<open>Operands\<close>

type_synonym operand = "holes \<Rightarrow> u64 \<Rightarrow> v2_state \<Rightarrow> lua_value option"

definition V2_PRO_RR :: operand where
  "V2_PRO_RR h f s = do {right \<leftarrow> V2_VALUE_DISP (h_right_disp h) f s; rd_val right s}"

definition V2_PRO_RI :: operand where
  "V2_PRO_RI h f s = Some (mk_value LUA55_VALUE_INTEGER (h_int_imm h))"

definition V2_PRO_RK :: operand where
  "V2_PRO_RK h f s = Some (mk_value (h_const_tag h)
     (if h_const_tag h = LUA55_VALUE_INTEGER then h_const_int h else h_const_flt h))"

definition V2_PRO_RK_INT :: operand where
  "V2_PRO_RK_INT h f s = Some (mk_value LUA55_VALUE_INTEGER (h_const_int h))"

definition V2_PRO_RK_FLT :: operand where
  "V2_PRO_RK_FLT h f s = Some (mk_value LUA55_VALUE_FLOAT (h_const_flt h))"

subsection \<open>Learners\<close>

text \<open>The prologue of every binary learner: addresses, operands, the observed pair.\<close>

definition learn_operands ::
    "operand \<Rightarrow> (u64 \<Rightarrow> lua_value \<Rightarrow> lua_value \<Rightarrow> stencil) \<Rightarrow> stencil" where
  "learn_operands right body h f s = do {
     target \<leftarrow> V2_VALUE_DISP (h_target_disp h) f s;
     left \<leftarrow> V2_VALUE_DISP (h_left_disp h) f s;
     lv \<leftarrow> rd_val left s;
     rv \<leftarrow> right h f s;
     s \<leftarrow> v2_learn_pair (h_occ_slot h) (tag lv) (tag rv) s;
     body target lv rv h f s}"

definition put_int :: "u64 \<Rightarrow> u64 \<Rightarrow> stencil" where
  "put_int target i h f s = do {s \<leftarrow> wr_int target i s; LUA55_RESIDUAL_NEXT f s}"

definition put_flt :: "u64 \<Rightarrow> dbl \<Rightarrow> stencil" where
  "put_flt target x h f s = do {s \<leftarrow> wr_flt target x s; LUA55_RESIDUAL_NEXT f s}"

definition V2_BIN :: "(u64 \<Rightarrow> u64 \<Rightarrow> u64) \<Rightarrow> (dbl \<Rightarrow> dbl \<Rightarrow> dbl) \<Rightarrow> (dbl \<Rightarrow> dbl \<Rightarrow> dbl) \<Rightarrow>
    (dbl \<Rightarrow> dbl \<Rightarrow> dbl) \<Rightarrow> operand \<Rightarrow> stencil" where
  "V2_BIN intfn flt_left flt_right flt_both right = learn_operands right (\<lambda>target lv rv.
     if tag lv = LUA55_VALUE_INTEGER \<and> tag rv = LUA55_VALUE_INTEGER
     then put_int target (intfn (payload lv) (payload rv))
     else if tag lv = LUA55_VALUE_INTEGER \<and> tag rv = LUA55_VALUE_FLOAT
     then put_flt target (flt_left (c_double (payload lv)) (payload rv))
     else if tag lv = LUA55_VALUE_FLOAT \<and> tag rv = LUA55_VALUE_INTEGER
     then put_flt target (flt_right (payload lv) (c_double (payload rv)))
     else if tag lv = LUA55_VALUE_FLOAT \<and> tag rv = LUA55_VALUE_FLOAT
     then put_flt target (flt_both (payload lv) (payload rv))
     else reject_exit LUA55_V2_REJECT_UNSUPPORTED_METAMETHOD)"

definition V2_DIVMOD :: "(u64 \<Rightarrow> u64 \<Rightarrow> u64) \<Rightarrow> (dbl \<Rightarrow> dbl \<Rightarrow> dbl) \<Rightarrow> operand \<Rightarrow> stencil" where
  "V2_DIVMOD intfn fltfn right = learn_operands right (\<lambda>target lv rv.
     if tag lv = LUA55_VALUE_INTEGER \<and> tag rv = LUA55_VALUE_INTEGER
     then if payload rv = 0 then reject_exit LUA55_V2_REJECT_UNSUPPORTED_METAMETHOD
          else put_int target (intfn (payload lv) (payload rv))
     else if tag lv = LUA55_VALUE_INTEGER \<and> tag rv = LUA55_VALUE_FLOAT
     then put_flt target (fltfn (c_double (payload lv)) (payload rv))
     else if tag lv = LUA55_VALUE_FLOAT \<and> tag rv = LUA55_VALUE_INTEGER
     then put_flt target (fltfn (payload lv) (c_double (payload rv)))
     else if tag lv = LUA55_VALUE_FLOAT \<and> tag rv = LUA55_VALUE_FLOAT
     then put_flt target (fltfn (payload lv) (payload rv))
     else reject_exit LUA55_V2_REJECT_UNSUPPORTED_METAMETHOD)"

text \<open>
  The conversion of one operand of a bitwise opcode: an integer as it is, a float when it
  has an exact integer value. \<open>None\<close> is the reject branch.
\<close>

definition bit_operand :: "lua_value \<Rightarrow> u64 option" where
  "bit_operand v =
     (if tag v = LUA55_VALUE_INTEGER then Some (payload v)
      else if tag v = LUA55_VALUE_FLOAT then v2_flt_to_int_eq (payload v)
      else None)"

definition V2_BITWISE :: "(u64 \<Rightarrow> u64 \<Rightarrow> u64) \<Rightarrow> operand \<Rightarrow> stencil" where
  "V2_BITWISE intfn right = learn_operands right (\<lambda>target lv rv.
     case bit_operand lv of
       None \<Rightarrow> reject_exit LUA55_V2_REJECT_UNSUPPORTED_METAMETHOD
     | Some i1 \<Rightarrow> (case bit_operand rv of
         None \<Rightarrow> reject_exit LUA55_V2_REJECT_UNSUPPORTED_METAMETHOD
       | Some i2 \<Rightarrow> put_int target (intfn i1 i2)))"

definition V2_SHIFT :: "(u64 \<Rightarrow> u64 \<Rightarrow> u64) \<Rightarrow> operand \<Rightarrow> stencil" where
  "V2_SHIFT shiftexpr right = learn_operands right (\<lambda>target lv rv.
     case bit_operand lv of
       None \<Rightarrow> reject_exit LUA55_V2_REJECT_UNSUPPORTED_METAMETHOD
     | Some i1 \<Rightarrow> (case bit_operand rv of
         None \<Rightarrow> reject_exit LUA55_V2_REJECT_UNSUPPORTED_METAMETHOD
       | Some i2 \<Rightarrow> put_int target (shiftexpr i1 i2)))"

definition V2_DIV_BODY :: "operand \<Rightarrow> stencil" where
  "V2_DIV_BODY right = learn_operands right (\<lambda>target lv rv.
     if tag lv = LUA55_VALUE_INTEGER \<and> tag rv = LUA55_VALUE_INTEGER
     then if payload rv = 0 then reject_exit LUA55_V2_REJECT_UNSUPPORTED_METAMETHOD
          else put_flt target (dbl_div (c_double (payload lv)) (c_double (payload rv)))
     else if tag lv = LUA55_VALUE_INTEGER \<and> tag rv = LUA55_VALUE_FLOAT
     then put_flt target (dbl_div (c_double (payload lv)) (payload rv))
     else if tag lv = LUA55_VALUE_FLOAT \<and> tag rv = LUA55_VALUE_INTEGER
     then put_flt target (dbl_div (payload lv) (c_double (payload rv)))
     else if tag lv = LUA55_VALUE_FLOAT \<and> tag rv = LUA55_VALUE_FLOAT
     then put_flt target (dbl_div (payload lv) (payload rv))
     else reject_exit LUA55_V2_REJECT_UNSUPPORTED_METAMETHOD)"

definition V2_POW_BODY :: "operand \<Rightarrow> stencil" where
  "V2_POW_BODY right = learn_operands right (\<lambda>target lv rv h.
     if tag lv = LUA55_VALUE_INTEGER \<and> tag rv = LUA55_VALUE_INTEGER
     then put_flt target (v2_pow (h_pow h) (c_double (payload lv)) (c_double (payload rv))) h
     else if tag lv = LUA55_VALUE_INTEGER \<and> tag rv = LUA55_VALUE_FLOAT
     then put_flt target (v2_pow (h_pow h) (c_double (payload lv)) (payload rv)) h
     else if tag lv = LUA55_VALUE_FLOAT \<and> tag rv = LUA55_VALUE_INTEGER
     then put_flt target (v2_pow (h_pow h) (payload lv) (c_double (payload rv))) h
     else if tag lv = LUA55_VALUE_FLOAT \<and> tag rv = LUA55_VALUE_FLOAT
     then put_flt target (v2_pow (h_pow h) (payload lv) (payload rv)) h
     else reject_exit LUA55_V2_REJECT_UNSUPPORTED_METAMETHOD h)"

definition lua55_v2l_add :: stencil where
  "lua55_v2l_add = V2_BIN v2_int_add dbl_add dbl_add dbl_add V2_PRO_RR"

definition lua55_v2l_sub :: stencil where
  "lua55_v2l_sub = V2_BIN v2_int_sub dbl_sub dbl_sub dbl_sub V2_PRO_RR"

definition lua55_v2l_mul :: stencil where
  "lua55_v2l_mul = V2_BIN v2_int_mul dbl_mul dbl_mul dbl_mul V2_PRO_RR"

definition lua55_v2l_addi :: stencil where
  "lua55_v2l_addi = V2_BIN v2_int_add dbl_add dbl_add dbl_add V2_PRO_RI"

definition lua55_v2l_addk :: stencil where
  "lua55_v2l_addk = V2_BIN v2_int_add dbl_add dbl_add dbl_add V2_PRO_RK"

definition lua55_v2l_subk :: stencil where
  "lua55_v2l_subk = V2_BIN v2_int_sub dbl_sub dbl_sub dbl_sub V2_PRO_RK"

definition lua55_v2l_mulk :: stencil where
  "lua55_v2l_mulk = V2_BIN v2_int_mul dbl_mul dbl_mul dbl_mul V2_PRO_RK"

definition lua55_v2l_idiv :: stencil where
  "lua55_v2l_idiv = V2_DIVMOD v2_idiv v2_flt_idiv V2_PRO_RR"

definition lua55_v2l_mod :: stencil where
  "lua55_v2l_mod = V2_DIVMOD v2_mod v2_fmod V2_PRO_RR"

definition lua55_v2l_idivk :: stencil where
  "lua55_v2l_idivk = V2_DIVMOD v2_idiv v2_flt_idiv V2_PRO_RK"

definition lua55_v2l_modk :: stencil where
  "lua55_v2l_modk = V2_DIVMOD v2_mod v2_fmod V2_PRO_RK"

definition lua55_v2l_band :: stencil where
  "lua55_v2l_band = V2_BITWISE v2_int_band V2_PRO_RR"

definition lua55_v2l_bor :: stencil where
  "lua55_v2l_bor = V2_BITWISE v2_int_bor V2_PRO_RR"

definition lua55_v2l_bxor :: stencil where
  "lua55_v2l_bxor = V2_BITWISE v2_int_bxor V2_PRO_RR"

definition lua55_v2l_bandk :: stencil where
  "lua55_v2l_bandk = V2_BITWISE v2_int_band V2_PRO_RK"

definition lua55_v2l_bork :: stencil where
  "lua55_v2l_bork = V2_BITWISE v2_int_bor V2_PRO_RK"

definition lua55_v2l_bxork :: stencil where
  "lua55_v2l_bxork = V2_BITWISE v2_int_bxor V2_PRO_RK"

definition lua55_v2l_shl :: stencil where
  "lua55_v2l_shl = V2_SHIFT (\<lambda>i1 i2. v2_shiftl i1 i2) V2_PRO_RR"

definition lua55_v2l_shr :: stencil where
  "lua55_v2l_shr = V2_SHIFT (\<lambda>i1 i2. v2_shiftl i1 (- i2)) V2_PRO_RR"

definition lua55_v2l_shli :: stencil where
  "lua55_v2l_shli = V2_SHIFT (\<lambda>i1 i2. v2_shiftl i2 i1) V2_PRO_RI"

definition lua55_v2l_shri :: stencil where
  "lua55_v2l_shri = V2_SHIFT (\<lambda>i1 i2. v2_shiftl i1 (- i2)) V2_PRO_RI"

definition lua55_v2l_div :: stencil where
  "lua55_v2l_div = V2_DIV_BODY V2_PRO_RR"

definition lua55_v2l_divk :: stencil where
  "lua55_v2l_divk = V2_DIV_BODY V2_PRO_RK"

definition lua55_v2l_pow :: stencil where
  "lua55_v2l_pow = V2_POW_BODY V2_PRO_RR"

definition lua55_v2l_powk :: stencil where
  "lua55_v2l_powk = V2_POW_BODY V2_PRO_RK"

subsection \<open>Residual leaves\<close>

definition V2_LEAF_GUARD :: "lua_value \<Rightarrow> u32 \<Rightarrow> stencil \<Rightarrow> stencil" where
  "V2_LEAF_GUARD v expected k h f s =
     (if tag v \<noteq> expected then mismatch expected (tag v) h f s else k h f s)"

definition V2_LEAF_GUARD_STR :: "lua_value \<Rightarrow> stencil \<Rightarrow> stencil" where
  "V2_LEAF_GUARD_STR v k h f s =
     (if \<not> v2_is_string_tag (tag v) then mismatch LUA55_VALUE_SHORT_STRING (tag v) h f s
      else k h f s)"

text \<open>The common shape of a binary leaf: the guards of the left and of the right operand, then the work.\<close>

definition guarded_operands ::
    "u32 \<Rightarrow> u32 \<Rightarrow> operand \<Rightarrow> (u64 \<Rightarrow> u64 \<Rightarrow> u64 \<Rightarrow> stencil) \<Rightarrow> stencil" where
  "guarded_operands gl gr right body h f s = do {
     target \<leftarrow> V2_VALUE_DISP (h_target_disp h) f s;
     left \<leftarrow> V2_VALUE_DISP (h_left_disp h) f s;
     lv \<leftarrow> rd_val left s;
     V2_LEAF_GUARD lv gl (\<lambda>h f s. do {
       rv \<leftarrow> right h f s;
       V2_LEAF_GUARD rv gr (body target (payload lv) (payload rv)) h f s}) h f s}"

definition V2_ARITH_II :: "(u64 \<Rightarrow> u64 \<Rightarrow> u64) \<Rightarrow> operand \<Rightarrow> stencil" where
  "V2_ARITH_II intfn right = guarded_operands LUA55_VALUE_INTEGER LUA55_VALUE_INTEGER right
     (\<lambda>target a b. put_int target (intfn a b))"

definition V2_ARITH_II_Z :: "(u64 \<Rightarrow> u64 \<Rightarrow> u64) \<Rightarrow> operand \<Rightarrow> stencil" where
  "V2_ARITH_II_Z intfn right = guarded_operands LUA55_VALUE_INTEGER LUA55_VALUE_INTEGER right
     (\<lambda>target a b. if b = 0 then reject_exit LUA55_V2_REJECT_UNSUPPORTED_METAMETHOD
                   else put_int target (intfn a b))"

definition V2_ARITH_IF :: "(dbl \<Rightarrow> dbl \<Rightarrow> dbl) \<Rightarrow> operand \<Rightarrow> stencil" where
  "V2_ARITH_IF fltfn right = guarded_operands LUA55_VALUE_INTEGER LUA55_VALUE_FLOAT right
     (\<lambda>target a b. put_flt target (fltfn (c_double a) b))"

definition V2_ARITH_FI :: "(dbl \<Rightarrow> dbl \<Rightarrow> dbl) \<Rightarrow> operand \<Rightarrow> stencil" where
  "V2_ARITH_FI fltfn right = guarded_operands LUA55_VALUE_FLOAT LUA55_VALUE_INTEGER right
     (\<lambda>target a b. put_flt target (fltfn a (c_double b)))"

definition V2_ARITH_FF :: "(dbl \<Rightarrow> dbl \<Rightarrow> dbl) \<Rightarrow> operand \<Rightarrow> stencil" where
  "V2_ARITH_FF fltfn right = guarded_operands LUA55_VALUE_FLOAT LUA55_VALUE_FLOAT right
     (\<lambda>target a b. put_flt target (fltfn a b))"

definition V2_ARITH_IF_C :: "(u64 \<Rightarrow> u64 \<Rightarrow> u64) \<Rightarrow> operand \<Rightarrow> stencil" where
  "V2_ARITH_IF_C intfn right = guarded_operands LUA55_VALUE_INTEGER LUA55_VALUE_FLOAT right
     (\<lambda>target a b. case v2_flt_to_int_eq b of
        None \<Rightarrow> reject_exit LUA55_V2_REJECT_UNSUPPORTED_METAMETHOD
      | Some i2 \<Rightarrow> put_int target (intfn a i2))"

definition V2_ARITH_FI_C :: "(u64 \<Rightarrow> u64 \<Rightarrow> u64) \<Rightarrow> operand \<Rightarrow> stencil" where
  "V2_ARITH_FI_C intfn right = guarded_operands LUA55_VALUE_FLOAT LUA55_VALUE_INTEGER right
     (\<lambda>target a b. case v2_flt_to_int_eq a of
        None \<Rightarrow> reject_exit LUA55_V2_REJECT_UNSUPPORTED_METAMETHOD
      | Some i1 \<Rightarrow> put_int target (intfn i1 b))"

definition V2_ARITH_FF_C :: "(u64 \<Rightarrow> u64 \<Rightarrow> u64) \<Rightarrow> operand \<Rightarrow> stencil" where
  "V2_ARITH_FF_C intfn right = guarded_operands LUA55_VALUE_FLOAT LUA55_VALUE_FLOAT right
     (\<lambda>target a b. case v2_flt_to_int_eq a of
        None \<Rightarrow> reject_exit LUA55_V2_REJECT_UNSUPPORTED_METAMETHOD
      | Some i1 \<Rightarrow> (case v2_flt_to_int_eq b of
          None \<Rightarrow> reject_exit LUA55_V2_REJECT_UNSUPPORTED_METAMETHOD
        | Some i2 \<Rightarrow> put_int target (intfn i1 i2)))"

definition V2_SHIFT_II :: "(u64 \<Rightarrow> u64 \<Rightarrow> u64) \<Rightarrow> operand \<Rightarrow> stencil" where
  "V2_SHIFT_II shiftexpr right = guarded_operands LUA55_VALUE_INTEGER LUA55_VALUE_INTEGER right
     (\<lambda>target a b. put_int target (shiftexpr a b))"

text \<open>\<open>lua55_v2r_div_ii\<close> and \<open>lua55_v2r_divk_ii\<close> are written out in the sources with this body.\<close>

definition div_ii :: "operand \<Rightarrow> stencil" where
  "div_ii right = guarded_operands LUA55_VALUE_INTEGER LUA55_VALUE_INTEGER right
     (\<lambda>target a b. if b = 0 then reject_exit LUA55_V2_REJECT_UNSUPPORTED_METAMETHOD
                   else put_flt target (dbl_div (c_double a) (c_double b)))"

definition lua55_v2r_div_ii :: stencil where
  "lua55_v2r_div_ii = div_ii V2_PRO_RR"

definition lua55_v2r_divk_ii :: stencil where
  "lua55_v2r_divk_ii = div_ii V2_PRO_RK_INT"

definition lua55_v2r_shl_if :: stencil where
  "lua55_v2r_shl_if = V2_ARITH_IF_C (\<lambda>i1 i2. v2_shiftl i1 i2) V2_PRO_RR"

definition lua55_v2r_shl_fi :: stencil where
  "lua55_v2r_shl_fi = V2_ARITH_FI_C (\<lambda>i1 i2. v2_shiftl i1 i2) V2_PRO_RR"

definition lua55_v2r_shl_ff :: stencil where
  "lua55_v2r_shl_ff = V2_ARITH_FF_C (\<lambda>i1 i2. v2_shiftl i1 i2) V2_PRO_RR"

definition lua55_v2r_shr_if :: stencil where
  "lua55_v2r_shr_if = V2_ARITH_IF_C (\<lambda>i1 i2. v2_shiftl i1 (- i2)) V2_PRO_RR"

definition lua55_v2r_shr_fi :: stencil where
  "lua55_v2r_shr_fi = V2_ARITH_FI_C (\<lambda>i1 i2. v2_shiftl i1 (- i2)) V2_PRO_RR"

definition lua55_v2r_shr_ff :: stencil where
  "lua55_v2r_shr_ff = V2_ARITH_FF_C (\<lambda>i1 i2. v2_shiftl i1 (- i2)) V2_PRO_RR"

definition lua55_v2r_shri_fi :: stencil where
  "lua55_v2r_shri_fi = V2_ARITH_FI_C (\<lambda>i1 i2. v2_shiftl i1 (- i2)) V2_PRO_RI"

definition lua55_v2r_shli_fi :: stencil where
  "lua55_v2r_shli_fi = V2_ARITH_FI_C (\<lambda>i1 i2. v2_shiftl i2 i1) V2_PRO_RI"

definition lua55_v2r_add_ii :: stencil where
  "lua55_v2r_add_ii = V2_ARITH_II v2_int_add V2_PRO_RR"

definition lua55_v2r_add_if :: stencil where
  "lua55_v2r_add_if = V2_ARITH_IF dbl_add V2_PRO_RR"

definition lua55_v2r_add_fi :: stencil where
  "lua55_v2r_add_fi = V2_ARITH_FI dbl_add V2_PRO_RR"

definition lua55_v2r_add_ff :: stencil where
  "lua55_v2r_add_ff = V2_ARITH_FF dbl_add V2_PRO_RR"

definition lua55_v2r_sub_ii :: stencil where
  "lua55_v2r_sub_ii = V2_ARITH_II v2_int_sub V2_PRO_RR"

definition lua55_v2r_sub_if :: stencil where
  "lua55_v2r_sub_if = V2_ARITH_IF dbl_sub V2_PRO_RR"

definition lua55_v2r_sub_fi :: stencil where
  "lua55_v2r_sub_fi = V2_ARITH_FI dbl_sub V2_PRO_RR"

definition lua55_v2r_sub_ff :: stencil where
  "lua55_v2r_sub_ff = V2_ARITH_FF dbl_sub V2_PRO_RR"

definition lua55_v2r_mul_ii :: stencil where
  "lua55_v2r_mul_ii = V2_ARITH_II v2_int_mul V2_PRO_RR"

definition lua55_v2r_mul_if :: stencil where
  "lua55_v2r_mul_if = V2_ARITH_IF dbl_mul V2_PRO_RR"

definition lua55_v2r_mul_fi :: stencil where
  "lua55_v2r_mul_fi = V2_ARITH_FI dbl_mul V2_PRO_RR"

definition lua55_v2r_mul_ff :: stencil where
  "lua55_v2r_mul_ff = V2_ARITH_FF dbl_mul V2_PRO_RR"

definition lua55_v2r_addi_ii :: stencil where
  "lua55_v2r_addi_ii = V2_ARITH_II v2_int_add V2_PRO_RI"

definition lua55_v2r_addi_fi :: stencil where
  "lua55_v2r_addi_fi = V2_ARITH_FI dbl_add V2_PRO_RI"

definition lua55_v2r_addk_ii :: stencil where
  "lua55_v2r_addk_ii = V2_ARITH_II v2_int_add V2_PRO_RK_INT"

definition lua55_v2r_addk_if :: stencil where
  "lua55_v2r_addk_if = V2_ARITH_IF dbl_add V2_PRO_RK_FLT"

definition lua55_v2r_addk_fi :: stencil where
  "lua55_v2r_addk_fi = V2_ARITH_FI dbl_add V2_PRO_RK_INT"

definition lua55_v2r_addk_ff :: stencil where
  "lua55_v2r_addk_ff = V2_ARITH_FF dbl_add V2_PRO_RK_FLT"

definition lua55_v2r_subk_ii :: stencil where
  "lua55_v2r_subk_ii = V2_ARITH_II v2_int_sub V2_PRO_RK_INT"

definition lua55_v2r_subk_if :: stencil where
  "lua55_v2r_subk_if = V2_ARITH_IF dbl_sub V2_PRO_RK_FLT"

definition lua55_v2r_subk_fi :: stencil where
  "lua55_v2r_subk_fi = V2_ARITH_FI dbl_sub V2_PRO_RK_INT"

definition lua55_v2r_subk_ff :: stencil where
  "lua55_v2r_subk_ff = V2_ARITH_FF dbl_sub V2_PRO_RK_FLT"

definition lua55_v2r_mulk_ii :: stencil where
  "lua55_v2r_mulk_ii = V2_ARITH_II v2_int_mul V2_PRO_RK_INT"

definition lua55_v2r_mulk_if :: stencil where
  "lua55_v2r_mulk_if = V2_ARITH_IF dbl_mul V2_PRO_RK_FLT"

definition lua55_v2r_mulk_fi :: stencil where
  "lua55_v2r_mulk_fi = V2_ARITH_FI dbl_mul V2_PRO_RK_INT"

definition lua55_v2r_mulk_ff :: stencil where
  "lua55_v2r_mulk_ff = V2_ARITH_FF dbl_mul V2_PRO_RK_FLT"

definition lua55_v2r_mod_ii :: stencil where
  "lua55_v2r_mod_ii = V2_ARITH_II_Z v2_mod V2_PRO_RR"

definition lua55_v2r_mod_if :: stencil where
  "lua55_v2r_mod_if = V2_ARITH_IF v2_fmod V2_PRO_RR"

definition lua55_v2r_mod_fi :: stencil where
  "lua55_v2r_mod_fi = V2_ARITH_FI v2_fmod V2_PRO_RR"

definition lua55_v2r_mod_ff :: stencil where
  "lua55_v2r_mod_ff = V2_ARITH_FF v2_fmod V2_PRO_RR"

definition lua55_v2r_idiv_ii :: stencil where
  "lua55_v2r_idiv_ii = V2_ARITH_II_Z v2_idiv V2_PRO_RR"

definition lua55_v2r_idiv_if :: stencil where
  "lua55_v2r_idiv_if = V2_ARITH_IF v2_flt_idiv V2_PRO_RR"

definition lua55_v2r_idiv_fi :: stencil where
  "lua55_v2r_idiv_fi = V2_ARITH_FI v2_flt_idiv V2_PRO_RR"

definition lua55_v2r_idiv_ff :: stencil where
  "lua55_v2r_idiv_ff = V2_ARITH_FF v2_flt_idiv V2_PRO_RR"

definition lua55_v2r_modk_ii :: stencil where
  "lua55_v2r_modk_ii = V2_ARITH_II_Z v2_mod V2_PRO_RK_INT"

definition lua55_v2r_modk_if :: stencil where
  "lua55_v2r_modk_if = V2_ARITH_IF v2_fmod V2_PRO_RK_FLT"

definition lua55_v2r_modk_fi :: stencil where
  "lua55_v2r_modk_fi = V2_ARITH_FI v2_fmod V2_PRO_RK_INT"

definition lua55_v2r_modk_ff :: stencil where
  "lua55_v2r_modk_ff = V2_ARITH_FF v2_fmod V2_PRO_RK_FLT"

definition lua55_v2r_idivk_ii :: stencil where
  "lua55_v2r_idivk_ii = V2_ARITH_II_Z v2_idiv V2_PRO_RK_INT"

definition lua55_v2r_idivk_if :: stencil where
  "lua55_v2r_idivk_if = V2_ARITH_IF v2_flt_idiv V2_PRO_RK_FLT"

definition lua55_v2r_idivk_fi :: stencil where
  "lua55_v2r_idivk_fi = V2_ARITH_FI v2_flt_idiv V2_PRO_RK_INT"

definition lua55_v2r_idivk_ff :: stencil where
  "lua55_v2r_idivk_ff = V2_ARITH_FF v2_flt_idiv V2_PRO_RK_FLT"

definition lua55_v2r_div_if :: stencil where
  "lua55_v2r_div_if = V2_ARITH_IF dbl_div V2_PRO_RR"

definition lua55_v2r_div_fi :: stencil where
  "lua55_v2r_div_fi = V2_ARITH_FI dbl_div V2_PRO_RR"

definition lua55_v2r_div_ff :: stencil where
  "lua55_v2r_div_ff = V2_ARITH_FF dbl_div V2_PRO_RR"

definition lua55_v2r_divk_if :: stencil where
  "lua55_v2r_divk_if = V2_ARITH_IF dbl_div V2_PRO_RK_FLT"

definition lua55_v2r_divk_fi :: stencil where
  "lua55_v2r_divk_fi = V2_ARITH_FI dbl_div V2_PRO_RK_INT"

definition lua55_v2r_divk_ff :: stencil where
  "lua55_v2r_divk_ff = V2_ARITH_FF dbl_div V2_PRO_RK_FLT"

definition lua55_v2r_pow_ii :: stencil where
  "lua55_v2r_pow_ii h = V2_ARITH_II (\<lambda>a b. c_int64 (v2_pow (h_pow h) (c_double a) (c_double b))) V2_PRO_RR h"

definition lua55_v2r_pow_if :: stencil where
  "lua55_v2r_pow_if h = V2_ARITH_IF (v2_pow (h_pow h)) V2_PRO_RR h"

definition lua55_v2r_pow_fi :: stencil where
  "lua55_v2r_pow_fi h = V2_ARITH_FI (v2_pow (h_pow h)) V2_PRO_RR h"

definition lua55_v2r_pow_ff :: stencil where
  "lua55_v2r_pow_ff h = V2_ARITH_FF (v2_pow (h_pow h)) V2_PRO_RR h"

definition lua55_v2r_powk_ii :: stencil where
  "lua55_v2r_powk_ii h = V2_ARITH_II (\<lambda>a b. c_int64 (v2_pow (h_pow h) (c_double a) (c_double b))) V2_PRO_RK_INT h"

definition lua55_v2r_powk_if :: stencil where
  "lua55_v2r_powk_if h = V2_ARITH_IF (v2_pow (h_pow h)) V2_PRO_RK_FLT h"

definition lua55_v2r_powk_fi :: stencil where
  "lua55_v2r_powk_fi h = V2_ARITH_FI (v2_pow (h_pow h)) V2_PRO_RK_INT h"

definition lua55_v2r_powk_ff :: stencil where
  "lua55_v2r_powk_ff h = V2_ARITH_FF (v2_pow (h_pow h)) V2_PRO_RK_FLT h"

definition lua55_v2r_band_ii :: stencil where
  "lua55_v2r_band_ii = V2_ARITH_II v2_int_band V2_PRO_RR"

definition lua55_v2r_band_if :: stencil where
  "lua55_v2r_band_if = V2_ARITH_IF_C v2_int_band V2_PRO_RR"

definition lua55_v2r_band_fi :: stencil where
  "lua55_v2r_band_fi = V2_ARITH_FI_C v2_int_band V2_PRO_RR"

definition lua55_v2r_band_ff :: stencil where
  "lua55_v2r_band_ff = V2_ARITH_FF_C v2_int_band V2_PRO_RR"

definition lua55_v2r_bor_ii :: stencil where
  "lua55_v2r_bor_ii = V2_ARITH_II v2_int_bor V2_PRO_RR"

definition lua55_v2r_bor_if :: stencil where
  "lua55_v2r_bor_if = V2_ARITH_IF_C v2_int_bor V2_PRO_RR"

definition lua55_v2r_bor_fi :: stencil where
  "lua55_v2r_bor_fi = V2_ARITH_FI_C v2_int_bor V2_PRO_RR"

definition lua55_v2r_bor_ff :: stencil where
  "lua55_v2r_bor_ff = V2_ARITH_FF_C v2_int_bor V2_PRO_RR"

definition lua55_v2r_bxor_ii :: stencil where
  "lua55_v2r_bxor_ii = V2_ARITH_II v2_int_bxor V2_PRO_RR"

definition lua55_v2r_bxor_if :: stencil where
  "lua55_v2r_bxor_if = V2_ARITH_IF_C v2_int_bxor V2_PRO_RR"

definition lua55_v2r_bxor_fi :: stencil where
  "lua55_v2r_bxor_fi = V2_ARITH_FI_C v2_int_bxor V2_PRO_RR"

definition lua55_v2r_bxor_ff :: stencil where
  "lua55_v2r_bxor_ff = V2_ARITH_FF_C v2_int_bxor V2_PRO_RR"

definition lua55_v2r_bandk_ii :: stencil where
  "lua55_v2r_bandk_ii = V2_ARITH_II v2_int_band V2_PRO_RK_INT"

definition lua55_v2r_bandk_if :: stencil where
  "lua55_v2r_bandk_if = V2_ARITH_IF_C v2_int_band V2_PRO_RK_FLT"

definition lua55_v2r_bandk_fi :: stencil where
  "lua55_v2r_bandk_fi = V2_ARITH_FI_C v2_int_band V2_PRO_RK_INT"

definition lua55_v2r_bandk_ff :: stencil where
  "lua55_v2r_bandk_ff = V2_ARITH_FF_C v2_int_band V2_PRO_RK_FLT"

definition lua55_v2r_bork_ii :: stencil where
  "lua55_v2r_bork_ii = V2_ARITH_II v2_int_bor V2_PRO_RK_INT"

definition lua55_v2r_bork_if :: stencil where
  "lua55_v2r_bork_if = V2_ARITH_IF_C v2_int_bor V2_PRO_RK_FLT"

definition lua55_v2r_bork_fi :: stencil where
  "lua55_v2r_bork_fi = V2_ARITH_FI_C v2_int_bor V2_PRO_RK_INT"

definition lua55_v2r_bork_ff :: stencil where
  "lua55_v2r_bork_ff = V2_ARITH_FF_C v2_int_bor V2_PRO_RK_FLT"

definition lua55_v2r_bxork_ii :: stencil where
  "lua55_v2r_bxork_ii = V2_ARITH_II v2_int_bxor V2_PRO_RK_INT"

definition lua55_v2r_bxork_if :: stencil where
  "lua55_v2r_bxork_if = V2_ARITH_IF_C v2_int_bxor V2_PRO_RK_FLT"

definition lua55_v2r_bxork_fi :: stencil where
  "lua55_v2r_bxork_fi = V2_ARITH_FI_C v2_int_bxor V2_PRO_RK_INT"

definition lua55_v2r_bxork_ff :: stencil where
  "lua55_v2r_bxork_ff = V2_ARITH_FF_C v2_int_bxor V2_PRO_RK_FLT"

definition lua55_v2r_shl_ii :: stencil where
  "lua55_v2r_shl_ii = V2_SHIFT_II (\<lambda>a b. v2_shiftl a b) V2_PRO_RR"

definition lua55_v2r_shr_ii :: stencil where
  "lua55_v2r_shr_ii = V2_SHIFT_II (\<lambda>a b. v2_shiftl a (- b)) V2_PRO_RR"

definition lua55_v2r_shri_ii :: stencil where
  "lua55_v2r_shri_ii = V2_SHIFT_II (\<lambda>a b. v2_shiftl a (- b)) V2_PRO_RI"

definition lua55_v2r_shli_ii :: stencil where
  "lua55_v2r_shli_ii = V2_SHIFT_II (\<lambda>a b. v2_shiftl b a) V2_PRO_RI"

subsection \<open>Leaves refine learners\<close>

lemma forgetful_put [simp, intro]:
  "forgetful (put_int target i h f)" "forgetful (put_flt target x h f)"
  by (auto simp: forgetful_def put_int_def put_flt_def v2_defs)

lemma no_mismatch_put [simp]:
  "put_int target i h f s = Some r \<Longrightarrow> \<not> mismatch_exit h f s r"
  "put_flt target x h f s = Some r \<Longrightarrow> \<not> mismatch_exit h f s r"
  "reject_exit k h f s = Some r \<Longrightarrow> \<not> mismatch_exit h f s r"
  by (auto simp: put_int_def put_flt_def mismatch_exit_def v2_defs split: if_splits)

definition V2_LEFT :: operand where
  "V2_LEFT h f s = do {left \<leftarrow> V2_VALUE_DISP (h_left_disp h) f s; rd_val left s}"

lemma guarded_eq:
  "guarded_operands gl gr right body h f s = do {
     target \<leftarrow> V2_VALUE_DISP (h_target_disp h) f s;
     lv \<leftarrow> V2_LEFT h f s;
     if tag lv \<noteq> gl then mismatch gl (tag lv) h f s
     else do {
       rv \<leftarrow> right h f s;
       if tag rv \<noteq> gr then mismatch gr (tag rv) h f s
       else body target (payload lv) (payload rv) h f s}}"
  by (simp add: guarded_operands_def V2_LEAF_GUARD_def V2_LEFT_def)

lemma learn_eq:
  "learn_operands right body h f s = do {
     target \<leftarrow> V2_VALUE_DISP (h_target_disp h) f s;
     lv \<leftarrow> V2_LEFT h f s;
     rv \<leftarrow> right h f s;
     s \<leftarrow> v2_learn_pair (h_occ_slot h) (tag lv) (tag rv) s;
     body target lv rv h f s}"
  by (simp add: learn_operands_def V2_LEFT_def)

lemma left_forget [simp]: "V2_LEFT h f (forget s) = V2_LEFT h f s"
  by (simp add: V2_LEFT_def v2_defs)

text \<open>The operands of a binary occurrence carry the tags \<open>gl\<close> and \<open>gr\<close>.\<close>

definition operand_tags :: "u32 \<Rightarrow> u32 \<Rightarrow> operand \<Rightarrow> holes \<Rightarrow> u64 \<Rightarrow> v2_state \<Rightarrow> bool" where
  "operand_tags gl gr right h f s =
     (map_option tag (V2_LEFT h f s) = Some gl \<and> map_option tag (right h f s) = Some gr)"

definition bin_ops :: "operand \<Rightarrow> holes \<Rightarrow> u64 \<Rightarrow> v2_state \<Rightarrow> (u64 \<times> lua_value \<times> lua_value) option" where
  "bin_ops right h f s = do {
     target \<leftarrow> V2_VALUE_DISP (h_target_disp h) f s; lv \<leftarrow> V2_LEFT h f s; rv \<leftarrow> right h f s; Some (target, lv, rv)}"

lemma bin_shape: "operand_tags gl gr right = accepted (bin_ops right) (\<lambda>h (target, lv, rv). tag lv = gl \<and> tag rv = gr)"
  by (intro ext) (auto simp: operand_tags_def accepted_def bin_ops_def V2_LEFT_def V2_VALUE_DISP_def split: option.splits Option.bind_splits)

lemma guarded_refines:
  assumes operand: "\<And>h f s. right h f (forget s) = right h f s" and alike: "\<And>h f s. patched h \<Longrightarrow> right' h f s = right h f s"
    and work: "\<And>target lv rv h f. patched h \<Longrightarrow> tag lv = gl \<Longrightarrow> tag rv = gr \<Longrightarrow>
       lbody target lv rv h f = body target (payload lv) (payload rv) h f \<and>
       forgetful (body target (payload lv) (payload rv) h f)"
    and stays: "\<And>target a b h f s r. body target a b h f s = Some r \<Longrightarrow> \<not> mismatch_exit h f s r"
  shows "residual_leaf (learn_operands right lbody) (guarded_operands gl gr right' body)
    (operand_tags gl gr right) patched"
  unfolding bin_shape
proof (rule observed_refines [where slot = h_occ_slot and obs = "\<lambda>(target, lv, rv). observe_pair (tag lv, tag rv)"
      and lbody = "\<lambda>(target, lv, rv). lbody target lv rv"])
  show "learn_operands right lbody h f s = do {x \<leftarrow> bin_ops right h f s;
      s \<leftarrow> learn_at (h_occ_slot h) (case x of (target, lv, rv) \<Rightarrow> observe_pair (tag lv, tag rv)) s;
      (case x of (target, lv, rv) \<Rightarrow> lbody target lv rv) h f s}" for h f s
    by (simp add: learn_eq bin_ops_def v2_learn_pair_def)
  show "bin_ops right h f (forget s) = bin_ops right h f s" for h f s by (simp add: bin_ops_def operand)
next
  fix h f s x
  assume "patched h" "bin_ops right h f s = Some x" "case x of (target, lv, rv) \<Rightarrow> tag lv = gl \<and> tag rv = gr"
  then show "guarded_operands gl gr right' body h f s = (case x of (target, lv, rv) \<Rightarrow> lbody target lv rv) h f s"
    by (auto simp: guarded_eq alike bin_ops_def bind_eq_Some_conv work)
next
  fix h f s x
  assume p: "patched h" and x: "bin_ops right h f s = Some x" "\<not> (case x of (target, lv, rv) \<Rightarrow> tag lv = gl \<and> tag rv = gr)"
  then obtain target lv rv where "V2_VALUE_DISP (h_target_disp h) f s = Some target" "V2_LEFT h f s = Some lv"
      "right h f s = Some rv" "\<not> (tag lv = gl \<and> tag rv = gr)" by (auto simp: bin_ops_def bind_eq_Some_conv)
  then show "\<exists>e ob. guarded_operands gl gr right' body h f s = mismatch e ob h f s"
    using alike [OF p] by (cases "tag lv = gl") (auto simp: guarded_eq)
next
  fix h f s r
  assume "patched h" "bin_ops right h f s = None" "guarded_operands gl gr right' body h f s = Some r"
  then show "mismatch_exit h f s r"
    by (auto simp: guarded_eq alike bin_ops_def bind_eq_Some_conv dest: mismatch_is_exit split: if_splits)
qed (use work stays in auto)

lemma operand_forget:
  "V2_PRO_RR h f (forget s) = V2_PRO_RR h f s"
  "V2_PRO_RI h f (forget s) = V2_PRO_RI h f s"
  "V2_PRO_RK h f (forget s) = V2_PRO_RK h f s"
  "h_const_tag h = LUA55_VALUE_INTEGER \<Longrightarrow> V2_PRO_RK_INT h f s = V2_PRO_RK h f s"
  "h_const_tag h = LUA55_VALUE_FLOAT \<Longrightarrow> V2_PRO_RK_FLT h f s = V2_PRO_RK h f s"
  by (simp_all add: V2_PRO_RR_def V2_PRO_RI_def V2_PRO_RK_INT_def V2_PRO_RK_FLT_def V2_PRO_RK_def v2_defs)

text \<open>The macros, over any operand that the leaf and the learner read alike.\<close>

definition same_operand :: "operand \<Rightarrow> operand \<Rightarrow> (holes \<Rightarrow> bool) \<Rightarrow> bool" where
  "same_operand right right' patched \<longleftrightarrow>
     (\<forall>h f s. right h f (forget s) = right h f s) \<and> (\<forall>h f s. patched h \<longrightarrow> right' h f s = right h f s)"

abbreviation any_holes :: "holes \<Rightarrow> bool" where "any_holes h \<equiv> True"
abbreviation const_int :: "holes \<Rightarrow> bool" where "const_int h \<equiv> h_const_tag h = LUA55_VALUE_INTEGER"
abbreviation const_flt :: "holes \<Rightarrow> bool" where "const_flt h \<equiv> h_const_tag h = LUA55_VALUE_FLOAT"

lemma same_operands [intro]:
  "same_operand V2_PRO_RR V2_PRO_RR any_holes"
  "same_operand V2_PRO_RI V2_PRO_RI any_holes"
  "same_operand V2_PRO_RK V2_PRO_RK_INT const_int"
  "same_operand V2_PRO_RK V2_PRO_RK_FLT const_flt"
  by (simp_all add: same_operand_def operand_forget)

lemma bin_leaves:
  assumes "same_operand right right' p"
  shows "residual_leaf (V2_BIN i l r b right) (V2_ARITH_II i right')
      (operand_tags LUA55_VALUE_INTEGER LUA55_VALUE_INTEGER right) p"
    and "residual_leaf (V2_BIN i l r b right) (V2_ARITH_IF l right')
      (operand_tags LUA55_VALUE_INTEGER LUA55_VALUE_FLOAT right) p"
    and "residual_leaf (V2_BIN i l r b right) (V2_ARITH_FI r right')
      (operand_tags LUA55_VALUE_FLOAT LUA55_VALUE_INTEGER right) p"
    and "residual_leaf (V2_BIN i l r b right) (V2_ARITH_FF b right')
      (operand_tags LUA55_VALUE_FLOAT LUA55_VALUE_FLOAT right) p"
  using assms unfolding same_operand_def V2_BIN_def V2_ARITH_FF_def V2_ARITH_FI_def V2_ARITH_IF_def V2_ARITH_II_def
  by (intro guarded_refines; auto simp: bit_operand_def split: option.splits if_splits)+

lemma divmod_leaves:
  assumes "same_operand right right' p"
  shows "residual_leaf (V2_DIVMOD i x right) (V2_ARITH_II_Z i right')
      (operand_tags LUA55_VALUE_INTEGER LUA55_VALUE_INTEGER right) p"
    and "residual_leaf (V2_DIVMOD i x right) (V2_ARITH_IF x right')
      (operand_tags LUA55_VALUE_INTEGER LUA55_VALUE_FLOAT right) p"
    and "residual_leaf (V2_DIVMOD i x right) (V2_ARITH_FI x right')
      (operand_tags LUA55_VALUE_FLOAT LUA55_VALUE_INTEGER right) p"
    and "residual_leaf (V2_DIVMOD i x right) (V2_ARITH_FF x right')
      (operand_tags LUA55_VALUE_FLOAT LUA55_VALUE_FLOAT right) p"
  using assms unfolding same_operand_def V2_DIVMOD_def V2_ARITH_FF_def V2_ARITH_FI_def V2_ARITH_IF_def V2_ARITH_II_Z_def
  by (intro guarded_refines; auto simp: bit_operand_def split: option.splits if_splits)+

lemma bitwise_leaves:
  assumes "same_operand right right' p"
  shows "residual_leaf (V2_BITWISE i right) (V2_ARITH_II i right')
      (operand_tags LUA55_VALUE_INTEGER LUA55_VALUE_INTEGER right) p"
    and "residual_leaf (V2_BITWISE i right) (V2_ARITH_IF_C i right')
      (operand_tags LUA55_VALUE_INTEGER LUA55_VALUE_FLOAT right) p"
    and "residual_leaf (V2_BITWISE i right) (V2_ARITH_FI_C i right')
      (operand_tags LUA55_VALUE_FLOAT LUA55_VALUE_INTEGER right) p"
    and "residual_leaf (V2_BITWISE i right) (V2_ARITH_FF_C i right')
      (operand_tags LUA55_VALUE_FLOAT LUA55_VALUE_FLOAT right) p"
  using assms unfolding same_operand_def V2_BITWISE_def V2_ARITH_FF_C_def V2_ARITH_FI_C_def V2_ARITH_IF_C_def V2_ARITH_II_def
  by (intro guarded_refines; auto simp: bit_operand_def split: option.splits if_splits)+

lemma shift_leaves:
  assumes "same_operand right right' p"
  shows "residual_leaf (V2_SHIFT i right) (V2_SHIFT_II i right')
      (operand_tags LUA55_VALUE_INTEGER LUA55_VALUE_INTEGER right) p"
    and "residual_leaf (V2_SHIFT i right) (V2_ARITH_IF_C i right')
      (operand_tags LUA55_VALUE_INTEGER LUA55_VALUE_FLOAT right) p"
    and "residual_leaf (V2_SHIFT i right) (V2_ARITH_FI_C i right')
      (operand_tags LUA55_VALUE_FLOAT LUA55_VALUE_INTEGER right) p"
    and "residual_leaf (V2_SHIFT i right) (V2_ARITH_FF_C i right')
      (operand_tags LUA55_VALUE_FLOAT LUA55_VALUE_FLOAT right) p"
  using assms unfolding same_operand_def V2_SHIFT_def V2_ARITH_FF_C_def V2_ARITH_FI_C_def V2_ARITH_IF_C_def V2_SHIFT_II_def
  by (intro guarded_refines; auto simp: bit_operand_def split: option.splits if_splits)+

lemma div_leaves:
  assumes "same_operand right right' p"
  shows "residual_leaf (V2_DIV_BODY right) (div_ii right')
      (operand_tags LUA55_VALUE_INTEGER LUA55_VALUE_INTEGER right) p"
    and "residual_leaf (V2_DIV_BODY right) (V2_ARITH_IF dbl_div right')
      (operand_tags LUA55_VALUE_INTEGER LUA55_VALUE_FLOAT right) p"
    and "residual_leaf (V2_DIV_BODY right) (V2_ARITH_FI dbl_div right')
      (operand_tags LUA55_VALUE_FLOAT LUA55_VALUE_INTEGER right) p"
    and "residual_leaf (V2_DIV_BODY right) (V2_ARITH_FF dbl_div right')
      (operand_tags LUA55_VALUE_FLOAT LUA55_VALUE_FLOAT right) p"
  using assms unfolding same_operand_def V2_DIV_BODY_def V2_ARITH_FF_def V2_ARITH_FI_def V2_ARITH_IF_def div_ii_def
  by (intro guarded_refines; auto simp: bit_operand_def split: option.splits if_splits)+

lemma pow_leaf_eq:
  "V2_ARITH_IF (v2_pow (h_pow h)) right h = guarded_operands LUA55_VALUE_INTEGER LUA55_VALUE_FLOAT right
     (\<lambda>target a b h. put_flt target (v2_pow (h_pow h) (c_double a) b) h) h"
  "V2_ARITH_FI (v2_pow (h_pow h)) right h = guarded_operands LUA55_VALUE_FLOAT LUA55_VALUE_INTEGER right
     (\<lambda>target a b h. put_flt target (v2_pow (h_pow h) a (c_double b)) h) h"
  "V2_ARITH_FF (v2_pow (h_pow h)) right h = guarded_operands LUA55_VALUE_FLOAT LUA55_VALUE_FLOAT right
     (\<lambda>target a b h. put_flt target (v2_pow (h_pow h) a b) h) h"
  by (rule ext; rule ext; simp add: guarded_eq V2_ARITH_IF_def V2_ARITH_FI_def V2_ARITH_FF_def)+

lemma pow_leaves:
  assumes "same_operand right right' p"
  shows "residual_leaf (V2_POW_BODY right) (\<lambda>h. V2_ARITH_IF (v2_pow (h_pow h)) right' h)
      (operand_tags LUA55_VALUE_INTEGER LUA55_VALUE_FLOAT right) p"
    and "residual_leaf (V2_POW_BODY right) (\<lambda>h. V2_ARITH_FI (v2_pow (h_pow h)) right' h)
      (operand_tags LUA55_VALUE_FLOAT LUA55_VALUE_INTEGER right) p"
    and "residual_leaf (V2_POW_BODY right) (\<lambda>h. V2_ARITH_FF (v2_pow (h_pow h)) right' h)
      (operand_tags LUA55_VALUE_FLOAT LUA55_VALUE_FLOAT right) p"
  using assms unfolding same_operand_def V2_POW_BODY_def pow_leaf_eq
  by (intro guarded_refines; auto)+

text \<open>
  Every leaf with its learner and the constant it is patched with, but for the power leaves of two
  integers (\<open>pow_ii\<close>, \<open>powk_ii\<close>), which do not do what their learner does.
\<close>

definition arith_bank :: "((stencil \<times> stencil) \<times> (holes \<Rightarrow> u64 \<Rightarrow> v2_state \<Rightarrow> bool) \<times> (holes \<Rightarrow> bool)) list" where
  "arith_bank = [
     ((lua55_v2l_add, lua55_v2r_add_ii), (operand_tags LUA55_VALUE_INTEGER LUA55_VALUE_INTEGER V2_PRO_RR), any_holes),
     ((lua55_v2l_add, lua55_v2r_add_if), (operand_tags LUA55_VALUE_INTEGER LUA55_VALUE_FLOAT V2_PRO_RR), any_holes),
     ((lua55_v2l_add, lua55_v2r_add_fi), (operand_tags LUA55_VALUE_FLOAT LUA55_VALUE_INTEGER V2_PRO_RR), any_holes),
     ((lua55_v2l_add, lua55_v2r_add_ff), (operand_tags LUA55_VALUE_FLOAT LUA55_VALUE_FLOAT V2_PRO_RR), any_holes),
     ((lua55_v2l_sub, lua55_v2r_sub_ii), (operand_tags LUA55_VALUE_INTEGER LUA55_VALUE_INTEGER V2_PRO_RR), any_holes),
     ((lua55_v2l_sub, lua55_v2r_sub_if), (operand_tags LUA55_VALUE_INTEGER LUA55_VALUE_FLOAT V2_PRO_RR), any_holes),
     ((lua55_v2l_sub, lua55_v2r_sub_fi), (operand_tags LUA55_VALUE_FLOAT LUA55_VALUE_INTEGER V2_PRO_RR), any_holes),
     ((lua55_v2l_sub, lua55_v2r_sub_ff), (operand_tags LUA55_VALUE_FLOAT LUA55_VALUE_FLOAT V2_PRO_RR), any_holes),
     ((lua55_v2l_mul, lua55_v2r_mul_ii), (operand_tags LUA55_VALUE_INTEGER LUA55_VALUE_INTEGER V2_PRO_RR), any_holes),
     ((lua55_v2l_mul, lua55_v2r_mul_if), (operand_tags LUA55_VALUE_INTEGER LUA55_VALUE_FLOAT V2_PRO_RR), any_holes),
     ((lua55_v2l_mul, lua55_v2r_mul_fi), (operand_tags LUA55_VALUE_FLOAT LUA55_VALUE_INTEGER V2_PRO_RR), any_holes),
     ((lua55_v2l_mul, lua55_v2r_mul_ff), (operand_tags LUA55_VALUE_FLOAT LUA55_VALUE_FLOAT V2_PRO_RR), any_holes),
     ((lua55_v2l_addi, lua55_v2r_addi_ii), (operand_tags LUA55_VALUE_INTEGER LUA55_VALUE_INTEGER V2_PRO_RI), any_holes),
     ((lua55_v2l_addi, lua55_v2r_addi_fi), (operand_tags LUA55_VALUE_FLOAT LUA55_VALUE_INTEGER V2_PRO_RI), any_holes),
     ((lua55_v2l_addk, lua55_v2r_addk_ii), (operand_tags LUA55_VALUE_INTEGER LUA55_VALUE_INTEGER V2_PRO_RK), const_int),
     ((lua55_v2l_addk, lua55_v2r_addk_if), (operand_tags LUA55_VALUE_INTEGER LUA55_VALUE_FLOAT V2_PRO_RK), const_flt),
     ((lua55_v2l_addk, lua55_v2r_addk_fi), (operand_tags LUA55_VALUE_FLOAT LUA55_VALUE_INTEGER V2_PRO_RK), const_int),
     ((lua55_v2l_addk, lua55_v2r_addk_ff), (operand_tags LUA55_VALUE_FLOAT LUA55_VALUE_FLOAT V2_PRO_RK), const_flt),
     ((lua55_v2l_subk, lua55_v2r_subk_ii), (operand_tags LUA55_VALUE_INTEGER LUA55_VALUE_INTEGER V2_PRO_RK), const_int),
     ((lua55_v2l_subk, lua55_v2r_subk_if), (operand_tags LUA55_VALUE_INTEGER LUA55_VALUE_FLOAT V2_PRO_RK), const_flt),
     ((lua55_v2l_subk, lua55_v2r_subk_fi), (operand_tags LUA55_VALUE_FLOAT LUA55_VALUE_INTEGER V2_PRO_RK), const_int),
     ((lua55_v2l_subk, lua55_v2r_subk_ff), (operand_tags LUA55_VALUE_FLOAT LUA55_VALUE_FLOAT V2_PRO_RK), const_flt),
     ((lua55_v2l_mulk, lua55_v2r_mulk_ii), (operand_tags LUA55_VALUE_INTEGER LUA55_VALUE_INTEGER V2_PRO_RK), const_int),
     ((lua55_v2l_mulk, lua55_v2r_mulk_if), (operand_tags LUA55_VALUE_INTEGER LUA55_VALUE_FLOAT V2_PRO_RK), const_flt),
     ((lua55_v2l_mulk, lua55_v2r_mulk_fi), (operand_tags LUA55_VALUE_FLOAT LUA55_VALUE_INTEGER V2_PRO_RK), const_int),
     ((lua55_v2l_mulk, lua55_v2r_mulk_ff), (operand_tags LUA55_VALUE_FLOAT LUA55_VALUE_FLOAT V2_PRO_RK), const_flt),
     ((lua55_v2l_mod, lua55_v2r_mod_ii), (operand_tags LUA55_VALUE_INTEGER LUA55_VALUE_INTEGER V2_PRO_RR), any_holes),
     ((lua55_v2l_mod, lua55_v2r_mod_if), (operand_tags LUA55_VALUE_INTEGER LUA55_VALUE_FLOAT V2_PRO_RR), any_holes),
     ((lua55_v2l_mod, lua55_v2r_mod_fi), (operand_tags LUA55_VALUE_FLOAT LUA55_VALUE_INTEGER V2_PRO_RR), any_holes),
     ((lua55_v2l_mod, lua55_v2r_mod_ff), (operand_tags LUA55_VALUE_FLOAT LUA55_VALUE_FLOAT V2_PRO_RR), any_holes),
     ((lua55_v2l_idiv, lua55_v2r_idiv_ii), (operand_tags LUA55_VALUE_INTEGER LUA55_VALUE_INTEGER V2_PRO_RR), any_holes),
     ((lua55_v2l_idiv, lua55_v2r_idiv_if), (operand_tags LUA55_VALUE_INTEGER LUA55_VALUE_FLOAT V2_PRO_RR), any_holes),
     ((lua55_v2l_idiv, lua55_v2r_idiv_fi), (operand_tags LUA55_VALUE_FLOAT LUA55_VALUE_INTEGER V2_PRO_RR), any_holes),
     ((lua55_v2l_idiv, lua55_v2r_idiv_ff), (operand_tags LUA55_VALUE_FLOAT LUA55_VALUE_FLOAT V2_PRO_RR), any_holes),
     ((lua55_v2l_modk, lua55_v2r_modk_ii), (operand_tags LUA55_VALUE_INTEGER LUA55_VALUE_INTEGER V2_PRO_RK), const_int),
     ((lua55_v2l_modk, lua55_v2r_modk_if), (operand_tags LUA55_VALUE_INTEGER LUA55_VALUE_FLOAT V2_PRO_RK), const_flt),
     ((lua55_v2l_modk, lua55_v2r_modk_fi), (operand_tags LUA55_VALUE_FLOAT LUA55_VALUE_INTEGER V2_PRO_RK), const_int),
     ((lua55_v2l_modk, lua55_v2r_modk_ff), (operand_tags LUA55_VALUE_FLOAT LUA55_VALUE_FLOAT V2_PRO_RK), const_flt),
     ((lua55_v2l_idivk, lua55_v2r_idivk_ii), (operand_tags LUA55_VALUE_INTEGER LUA55_VALUE_INTEGER V2_PRO_RK), const_int),
     ((lua55_v2l_idivk, lua55_v2r_idivk_if), (operand_tags LUA55_VALUE_INTEGER LUA55_VALUE_FLOAT V2_PRO_RK), const_flt),
     ((lua55_v2l_idivk, lua55_v2r_idivk_fi), (operand_tags LUA55_VALUE_FLOAT LUA55_VALUE_INTEGER V2_PRO_RK), const_int),
     ((lua55_v2l_idivk, lua55_v2r_idivk_ff), (operand_tags LUA55_VALUE_FLOAT LUA55_VALUE_FLOAT V2_PRO_RK), const_flt),
     ((lua55_v2l_div, lua55_v2r_div_if), (operand_tags LUA55_VALUE_INTEGER LUA55_VALUE_FLOAT V2_PRO_RR), any_holes),
     ((lua55_v2l_div, lua55_v2r_div_fi), (operand_tags LUA55_VALUE_FLOAT LUA55_VALUE_INTEGER V2_PRO_RR), any_holes),
     ((lua55_v2l_div, lua55_v2r_div_ff), (operand_tags LUA55_VALUE_FLOAT LUA55_VALUE_FLOAT V2_PRO_RR), any_holes),
     ((lua55_v2l_div, lua55_v2r_div_ii), (operand_tags LUA55_VALUE_INTEGER LUA55_VALUE_INTEGER V2_PRO_RR), any_holes),
     ((lua55_v2l_divk, lua55_v2r_divk_if), (operand_tags LUA55_VALUE_INTEGER LUA55_VALUE_FLOAT V2_PRO_RK), const_flt),
     ((lua55_v2l_divk, lua55_v2r_divk_fi), (operand_tags LUA55_VALUE_FLOAT LUA55_VALUE_INTEGER V2_PRO_RK), const_int),
     ((lua55_v2l_divk, lua55_v2r_divk_ff), (operand_tags LUA55_VALUE_FLOAT LUA55_VALUE_FLOAT V2_PRO_RK), const_flt),
     ((lua55_v2l_divk, lua55_v2r_divk_ii), (operand_tags LUA55_VALUE_INTEGER LUA55_VALUE_INTEGER V2_PRO_RK), const_int),
     ((lua55_v2l_pow, lua55_v2r_pow_if), (operand_tags LUA55_VALUE_INTEGER LUA55_VALUE_FLOAT V2_PRO_RR), any_holes),
     ((lua55_v2l_pow, lua55_v2r_pow_fi), (operand_tags LUA55_VALUE_FLOAT LUA55_VALUE_INTEGER V2_PRO_RR), any_holes),
     ((lua55_v2l_pow, lua55_v2r_pow_ff), (operand_tags LUA55_VALUE_FLOAT LUA55_VALUE_FLOAT V2_PRO_RR), any_holes),
     ((lua55_v2l_powk, lua55_v2r_powk_if), (operand_tags LUA55_VALUE_INTEGER LUA55_VALUE_FLOAT V2_PRO_RK), const_flt),
     ((lua55_v2l_powk, lua55_v2r_powk_fi), (operand_tags LUA55_VALUE_FLOAT LUA55_VALUE_INTEGER V2_PRO_RK), const_int),
     ((lua55_v2l_powk, lua55_v2r_powk_ff), (operand_tags LUA55_VALUE_FLOAT LUA55_VALUE_FLOAT V2_PRO_RK), const_flt),
     ((lua55_v2l_band, lua55_v2r_band_ii), (operand_tags LUA55_VALUE_INTEGER LUA55_VALUE_INTEGER V2_PRO_RR), any_holes),
     ((lua55_v2l_band, lua55_v2r_band_if), (operand_tags LUA55_VALUE_INTEGER LUA55_VALUE_FLOAT V2_PRO_RR), any_holes),
     ((lua55_v2l_band, lua55_v2r_band_fi), (operand_tags LUA55_VALUE_FLOAT LUA55_VALUE_INTEGER V2_PRO_RR), any_holes),
     ((lua55_v2l_band, lua55_v2r_band_ff), (operand_tags LUA55_VALUE_FLOAT LUA55_VALUE_FLOAT V2_PRO_RR), any_holes),
     ((lua55_v2l_bor, lua55_v2r_bor_ii), (operand_tags LUA55_VALUE_INTEGER LUA55_VALUE_INTEGER V2_PRO_RR), any_holes),
     ((lua55_v2l_bor, lua55_v2r_bor_if), (operand_tags LUA55_VALUE_INTEGER LUA55_VALUE_FLOAT V2_PRO_RR), any_holes),
     ((lua55_v2l_bor, lua55_v2r_bor_fi), (operand_tags LUA55_VALUE_FLOAT LUA55_VALUE_INTEGER V2_PRO_RR), any_holes),
     ((lua55_v2l_bor, lua55_v2r_bor_ff), (operand_tags LUA55_VALUE_FLOAT LUA55_VALUE_FLOAT V2_PRO_RR), any_holes),
     ((lua55_v2l_bxor, lua55_v2r_bxor_ii), (operand_tags LUA55_VALUE_INTEGER LUA55_VALUE_INTEGER V2_PRO_RR), any_holes),
     ((lua55_v2l_bxor, lua55_v2r_bxor_if), (operand_tags LUA55_VALUE_INTEGER LUA55_VALUE_FLOAT V2_PRO_RR), any_holes),
     ((lua55_v2l_bxor, lua55_v2r_bxor_fi), (operand_tags LUA55_VALUE_FLOAT LUA55_VALUE_INTEGER V2_PRO_RR), any_holes),
     ((lua55_v2l_bxor, lua55_v2r_bxor_ff), (operand_tags LUA55_VALUE_FLOAT LUA55_VALUE_FLOAT V2_PRO_RR), any_holes),
     ((lua55_v2l_bandk, lua55_v2r_bandk_ii), (operand_tags LUA55_VALUE_INTEGER LUA55_VALUE_INTEGER V2_PRO_RK), const_int),
     ((lua55_v2l_bandk, lua55_v2r_bandk_if), (operand_tags LUA55_VALUE_INTEGER LUA55_VALUE_FLOAT V2_PRO_RK), const_flt),
     ((lua55_v2l_bandk, lua55_v2r_bandk_fi), (operand_tags LUA55_VALUE_FLOAT LUA55_VALUE_INTEGER V2_PRO_RK), const_int),
     ((lua55_v2l_bandk, lua55_v2r_bandk_ff), (operand_tags LUA55_VALUE_FLOAT LUA55_VALUE_FLOAT V2_PRO_RK), const_flt),
     ((lua55_v2l_bork, lua55_v2r_bork_ii), (operand_tags LUA55_VALUE_INTEGER LUA55_VALUE_INTEGER V2_PRO_RK), const_int),
     ((lua55_v2l_bork, lua55_v2r_bork_if), (operand_tags LUA55_VALUE_INTEGER LUA55_VALUE_FLOAT V2_PRO_RK), const_flt),
     ((lua55_v2l_bork, lua55_v2r_bork_fi), (operand_tags LUA55_VALUE_FLOAT LUA55_VALUE_INTEGER V2_PRO_RK), const_int),
     ((lua55_v2l_bork, lua55_v2r_bork_ff), (operand_tags LUA55_VALUE_FLOAT LUA55_VALUE_FLOAT V2_PRO_RK), const_flt),
     ((lua55_v2l_bxork, lua55_v2r_bxork_ii), (operand_tags LUA55_VALUE_INTEGER LUA55_VALUE_INTEGER V2_PRO_RK), const_int),
     ((lua55_v2l_bxork, lua55_v2r_bxork_if), (operand_tags LUA55_VALUE_INTEGER LUA55_VALUE_FLOAT V2_PRO_RK), const_flt),
     ((lua55_v2l_bxork, lua55_v2r_bxork_fi), (operand_tags LUA55_VALUE_FLOAT LUA55_VALUE_INTEGER V2_PRO_RK), const_int),
     ((lua55_v2l_bxork, lua55_v2r_bxork_ff), (operand_tags LUA55_VALUE_FLOAT LUA55_VALUE_FLOAT V2_PRO_RK), const_flt),
     ((lua55_v2l_shl, lua55_v2r_shl_ii), (operand_tags LUA55_VALUE_INTEGER LUA55_VALUE_INTEGER V2_PRO_RR), any_holes),
     ((lua55_v2l_shl, lua55_v2r_shl_if), (operand_tags LUA55_VALUE_INTEGER LUA55_VALUE_FLOAT V2_PRO_RR), any_holes),
     ((lua55_v2l_shl, lua55_v2r_shl_fi), (operand_tags LUA55_VALUE_FLOAT LUA55_VALUE_INTEGER V2_PRO_RR), any_holes),
     ((lua55_v2l_shl, lua55_v2r_shl_ff), (operand_tags LUA55_VALUE_FLOAT LUA55_VALUE_FLOAT V2_PRO_RR), any_holes),
     ((lua55_v2l_shr, lua55_v2r_shr_ii), (operand_tags LUA55_VALUE_INTEGER LUA55_VALUE_INTEGER V2_PRO_RR), any_holes),
     ((lua55_v2l_shr, lua55_v2r_shr_if), (operand_tags LUA55_VALUE_INTEGER LUA55_VALUE_FLOAT V2_PRO_RR), any_holes),
     ((lua55_v2l_shr, lua55_v2r_shr_fi), (operand_tags LUA55_VALUE_FLOAT LUA55_VALUE_INTEGER V2_PRO_RR), any_holes),
     ((lua55_v2l_shr, lua55_v2r_shr_ff), (operand_tags LUA55_VALUE_FLOAT LUA55_VALUE_FLOAT V2_PRO_RR), any_holes),
     ((lua55_v2l_shri, lua55_v2r_shri_ii), (operand_tags LUA55_VALUE_INTEGER LUA55_VALUE_INTEGER V2_PRO_RI), any_holes),
     ((lua55_v2l_shri, lua55_v2r_shri_fi), (operand_tags LUA55_VALUE_FLOAT LUA55_VALUE_INTEGER V2_PRO_RI), any_holes),
     ((lua55_v2l_shli, lua55_v2r_shli_ii), (operand_tags LUA55_VALUE_INTEGER LUA55_VALUE_INTEGER V2_PRO_RI), any_holes),
     ((lua55_v2l_shli, lua55_v2r_shli_fi), (operand_tags LUA55_VALUE_FLOAT LUA55_VALUE_INTEGER V2_PRO_RI), any_holes)]"

lemma add_refines:
  "residual_leaf lua55_v2l_add lua55_v2r_add_ii (operand_tags LUA55_VALUE_INTEGER LUA55_VALUE_INTEGER V2_PRO_RR) any_holes"
  "residual_leaf lua55_v2l_add lua55_v2r_add_if (operand_tags LUA55_VALUE_INTEGER LUA55_VALUE_FLOAT V2_PRO_RR) any_holes"
  "residual_leaf lua55_v2l_add lua55_v2r_add_fi (operand_tags LUA55_VALUE_FLOAT LUA55_VALUE_INTEGER V2_PRO_RR) any_holes"
  "residual_leaf lua55_v2l_add lua55_v2r_add_ff (operand_tags LUA55_VALUE_FLOAT LUA55_VALUE_FLOAT V2_PRO_RR) any_holes"
  unfolding lua55_v2l_add_def lua55_v2r_add_ii_def lua55_v2r_add_if_def lua55_v2r_add_fi_def lua55_v2r_add_ff_def
  by (intro bin_leaves same_operands)+

lemma sub_refines:
  "residual_leaf lua55_v2l_sub lua55_v2r_sub_ii (operand_tags LUA55_VALUE_INTEGER LUA55_VALUE_INTEGER V2_PRO_RR) any_holes"
  "residual_leaf lua55_v2l_sub lua55_v2r_sub_if (operand_tags LUA55_VALUE_INTEGER LUA55_VALUE_FLOAT V2_PRO_RR) any_holes"
  "residual_leaf lua55_v2l_sub lua55_v2r_sub_fi (operand_tags LUA55_VALUE_FLOAT LUA55_VALUE_INTEGER V2_PRO_RR) any_holes"
  "residual_leaf lua55_v2l_sub lua55_v2r_sub_ff (operand_tags LUA55_VALUE_FLOAT LUA55_VALUE_FLOAT V2_PRO_RR) any_holes"
  unfolding lua55_v2l_sub_def lua55_v2r_sub_ii_def lua55_v2r_sub_if_def lua55_v2r_sub_fi_def lua55_v2r_sub_ff_def
  by (intro bin_leaves same_operands)+

lemma mul_refines:
  "residual_leaf lua55_v2l_mul lua55_v2r_mul_ii (operand_tags LUA55_VALUE_INTEGER LUA55_VALUE_INTEGER V2_PRO_RR) any_holes"
  "residual_leaf lua55_v2l_mul lua55_v2r_mul_if (operand_tags LUA55_VALUE_INTEGER LUA55_VALUE_FLOAT V2_PRO_RR) any_holes"
  "residual_leaf lua55_v2l_mul lua55_v2r_mul_fi (operand_tags LUA55_VALUE_FLOAT LUA55_VALUE_INTEGER V2_PRO_RR) any_holes"
  "residual_leaf lua55_v2l_mul lua55_v2r_mul_ff (operand_tags LUA55_VALUE_FLOAT LUA55_VALUE_FLOAT V2_PRO_RR) any_holes"
  unfolding lua55_v2l_mul_def lua55_v2r_mul_ii_def lua55_v2r_mul_if_def lua55_v2r_mul_fi_def lua55_v2r_mul_ff_def
  by (intro bin_leaves same_operands)+

lemma addi_refines:
  "residual_leaf lua55_v2l_addi lua55_v2r_addi_ii (operand_tags LUA55_VALUE_INTEGER LUA55_VALUE_INTEGER V2_PRO_RI) any_holes"
  "residual_leaf lua55_v2l_addi lua55_v2r_addi_fi (operand_tags LUA55_VALUE_FLOAT LUA55_VALUE_INTEGER V2_PRO_RI) any_holes"
  unfolding lua55_v2l_addi_def lua55_v2r_addi_ii_def lua55_v2r_addi_fi_def
  by (intro bin_leaves same_operands)+

lemma addk_refines:
  "residual_leaf lua55_v2l_addk lua55_v2r_addk_ii (operand_tags LUA55_VALUE_INTEGER LUA55_VALUE_INTEGER V2_PRO_RK) const_int"
  "residual_leaf lua55_v2l_addk lua55_v2r_addk_if (operand_tags LUA55_VALUE_INTEGER LUA55_VALUE_FLOAT V2_PRO_RK) const_flt"
  "residual_leaf lua55_v2l_addk lua55_v2r_addk_fi (operand_tags LUA55_VALUE_FLOAT LUA55_VALUE_INTEGER V2_PRO_RK) const_int"
  "residual_leaf lua55_v2l_addk lua55_v2r_addk_ff (operand_tags LUA55_VALUE_FLOAT LUA55_VALUE_FLOAT V2_PRO_RK) const_flt"
  unfolding lua55_v2l_addk_def lua55_v2r_addk_ii_def lua55_v2r_addk_if_def lua55_v2r_addk_fi_def lua55_v2r_addk_ff_def
  by (intro bin_leaves same_operands)+

lemma subk_refines:
  "residual_leaf lua55_v2l_subk lua55_v2r_subk_ii (operand_tags LUA55_VALUE_INTEGER LUA55_VALUE_INTEGER V2_PRO_RK) const_int"
  "residual_leaf lua55_v2l_subk lua55_v2r_subk_if (operand_tags LUA55_VALUE_INTEGER LUA55_VALUE_FLOAT V2_PRO_RK) const_flt"
  "residual_leaf lua55_v2l_subk lua55_v2r_subk_fi (operand_tags LUA55_VALUE_FLOAT LUA55_VALUE_INTEGER V2_PRO_RK) const_int"
  "residual_leaf lua55_v2l_subk lua55_v2r_subk_ff (operand_tags LUA55_VALUE_FLOAT LUA55_VALUE_FLOAT V2_PRO_RK) const_flt"
  unfolding lua55_v2l_subk_def lua55_v2r_subk_ii_def lua55_v2r_subk_if_def lua55_v2r_subk_fi_def lua55_v2r_subk_ff_def
  by (intro bin_leaves same_operands)+

lemma mulk_refines:
  "residual_leaf lua55_v2l_mulk lua55_v2r_mulk_ii (operand_tags LUA55_VALUE_INTEGER LUA55_VALUE_INTEGER V2_PRO_RK) const_int"
  "residual_leaf lua55_v2l_mulk lua55_v2r_mulk_if (operand_tags LUA55_VALUE_INTEGER LUA55_VALUE_FLOAT V2_PRO_RK) const_flt"
  "residual_leaf lua55_v2l_mulk lua55_v2r_mulk_fi (operand_tags LUA55_VALUE_FLOAT LUA55_VALUE_INTEGER V2_PRO_RK) const_int"
  "residual_leaf lua55_v2l_mulk lua55_v2r_mulk_ff (operand_tags LUA55_VALUE_FLOAT LUA55_VALUE_FLOAT V2_PRO_RK) const_flt"
  unfolding lua55_v2l_mulk_def lua55_v2r_mulk_ii_def lua55_v2r_mulk_if_def lua55_v2r_mulk_fi_def lua55_v2r_mulk_ff_def
  by (intro bin_leaves same_operands)+

lemma mod_refines:
  "residual_leaf lua55_v2l_mod lua55_v2r_mod_ii (operand_tags LUA55_VALUE_INTEGER LUA55_VALUE_INTEGER V2_PRO_RR) any_holes"
  "residual_leaf lua55_v2l_mod lua55_v2r_mod_if (operand_tags LUA55_VALUE_INTEGER LUA55_VALUE_FLOAT V2_PRO_RR) any_holes"
  "residual_leaf lua55_v2l_mod lua55_v2r_mod_fi (operand_tags LUA55_VALUE_FLOAT LUA55_VALUE_INTEGER V2_PRO_RR) any_holes"
  "residual_leaf lua55_v2l_mod lua55_v2r_mod_ff (operand_tags LUA55_VALUE_FLOAT LUA55_VALUE_FLOAT V2_PRO_RR) any_holes"
  unfolding lua55_v2l_mod_def lua55_v2r_mod_ii_def lua55_v2r_mod_if_def lua55_v2r_mod_fi_def lua55_v2r_mod_ff_def
  by (intro divmod_leaves same_operands)+

lemma idiv_refines:
  "residual_leaf lua55_v2l_idiv lua55_v2r_idiv_ii (operand_tags LUA55_VALUE_INTEGER LUA55_VALUE_INTEGER V2_PRO_RR) any_holes"
  "residual_leaf lua55_v2l_idiv lua55_v2r_idiv_if (operand_tags LUA55_VALUE_INTEGER LUA55_VALUE_FLOAT V2_PRO_RR) any_holes"
  "residual_leaf lua55_v2l_idiv lua55_v2r_idiv_fi (operand_tags LUA55_VALUE_FLOAT LUA55_VALUE_INTEGER V2_PRO_RR) any_holes"
  "residual_leaf lua55_v2l_idiv lua55_v2r_idiv_ff (operand_tags LUA55_VALUE_FLOAT LUA55_VALUE_FLOAT V2_PRO_RR) any_holes"
  unfolding lua55_v2l_idiv_def lua55_v2r_idiv_ii_def lua55_v2r_idiv_if_def lua55_v2r_idiv_fi_def lua55_v2r_idiv_ff_def
  by (intro divmod_leaves same_operands)+

lemma modk_refines:
  "residual_leaf lua55_v2l_modk lua55_v2r_modk_ii (operand_tags LUA55_VALUE_INTEGER LUA55_VALUE_INTEGER V2_PRO_RK) const_int"
  "residual_leaf lua55_v2l_modk lua55_v2r_modk_if (operand_tags LUA55_VALUE_INTEGER LUA55_VALUE_FLOAT V2_PRO_RK) const_flt"
  "residual_leaf lua55_v2l_modk lua55_v2r_modk_fi (operand_tags LUA55_VALUE_FLOAT LUA55_VALUE_INTEGER V2_PRO_RK) const_int"
  "residual_leaf lua55_v2l_modk lua55_v2r_modk_ff (operand_tags LUA55_VALUE_FLOAT LUA55_VALUE_FLOAT V2_PRO_RK) const_flt"
  unfolding lua55_v2l_modk_def lua55_v2r_modk_ii_def lua55_v2r_modk_if_def lua55_v2r_modk_fi_def lua55_v2r_modk_ff_def
  by (intro divmod_leaves same_operands)+

lemma idivk_refines:
  "residual_leaf lua55_v2l_idivk lua55_v2r_idivk_ii (operand_tags LUA55_VALUE_INTEGER LUA55_VALUE_INTEGER V2_PRO_RK) const_int"
  "residual_leaf lua55_v2l_idivk lua55_v2r_idivk_if (operand_tags LUA55_VALUE_INTEGER LUA55_VALUE_FLOAT V2_PRO_RK) const_flt"
  "residual_leaf lua55_v2l_idivk lua55_v2r_idivk_fi (operand_tags LUA55_VALUE_FLOAT LUA55_VALUE_INTEGER V2_PRO_RK) const_int"
  "residual_leaf lua55_v2l_idivk lua55_v2r_idivk_ff (operand_tags LUA55_VALUE_FLOAT LUA55_VALUE_FLOAT V2_PRO_RK) const_flt"
  unfolding lua55_v2l_idivk_def lua55_v2r_idivk_ii_def lua55_v2r_idivk_if_def lua55_v2r_idivk_fi_def lua55_v2r_idivk_ff_def
  by (intro divmod_leaves same_operands)+

lemma div_refines:
  "residual_leaf lua55_v2l_div lua55_v2r_div_if (operand_tags LUA55_VALUE_INTEGER LUA55_VALUE_FLOAT V2_PRO_RR) any_holes"
  "residual_leaf lua55_v2l_div lua55_v2r_div_fi (operand_tags LUA55_VALUE_FLOAT LUA55_VALUE_INTEGER V2_PRO_RR) any_holes"
  "residual_leaf lua55_v2l_div lua55_v2r_div_ff (operand_tags LUA55_VALUE_FLOAT LUA55_VALUE_FLOAT V2_PRO_RR) any_holes"
  "residual_leaf lua55_v2l_div lua55_v2r_div_ii (operand_tags LUA55_VALUE_INTEGER LUA55_VALUE_INTEGER V2_PRO_RR) any_holes"
  unfolding lua55_v2l_div_def lua55_v2r_div_if_def lua55_v2r_div_fi_def lua55_v2r_div_ff_def lua55_v2r_div_ii_def
  by (intro div_leaves same_operands)+

lemma divk_refines:
  "residual_leaf lua55_v2l_divk lua55_v2r_divk_if (operand_tags LUA55_VALUE_INTEGER LUA55_VALUE_FLOAT V2_PRO_RK) const_flt"
  "residual_leaf lua55_v2l_divk lua55_v2r_divk_fi (operand_tags LUA55_VALUE_FLOAT LUA55_VALUE_INTEGER V2_PRO_RK) const_int"
  "residual_leaf lua55_v2l_divk lua55_v2r_divk_ff (operand_tags LUA55_VALUE_FLOAT LUA55_VALUE_FLOAT V2_PRO_RK) const_flt"
  "residual_leaf lua55_v2l_divk lua55_v2r_divk_ii (operand_tags LUA55_VALUE_INTEGER LUA55_VALUE_INTEGER V2_PRO_RK) const_int"
  unfolding lua55_v2l_divk_def lua55_v2r_divk_if_def lua55_v2r_divk_fi_def lua55_v2r_divk_ff_def lua55_v2r_divk_ii_def
  by (intro div_leaves same_operands)+

lemma pow_refines:
  "residual_leaf lua55_v2l_pow lua55_v2r_pow_if (operand_tags LUA55_VALUE_INTEGER LUA55_VALUE_FLOAT V2_PRO_RR) any_holes"
  "residual_leaf lua55_v2l_pow lua55_v2r_pow_fi (operand_tags LUA55_VALUE_FLOAT LUA55_VALUE_INTEGER V2_PRO_RR) any_holes"
  "residual_leaf lua55_v2l_pow lua55_v2r_pow_ff (operand_tags LUA55_VALUE_FLOAT LUA55_VALUE_FLOAT V2_PRO_RR) any_holes"
  unfolding lua55_v2l_pow_def lua55_v2r_pow_if_def [abs_def] lua55_v2r_pow_fi_def [abs_def] lua55_v2r_pow_ff_def [abs_def]
  by (intro pow_leaves same_operands)+

lemma powk_refines:
  "residual_leaf lua55_v2l_powk lua55_v2r_powk_if (operand_tags LUA55_VALUE_INTEGER LUA55_VALUE_FLOAT V2_PRO_RK) const_flt"
  "residual_leaf lua55_v2l_powk lua55_v2r_powk_fi (operand_tags LUA55_VALUE_FLOAT LUA55_VALUE_INTEGER V2_PRO_RK) const_int"
  "residual_leaf lua55_v2l_powk lua55_v2r_powk_ff (operand_tags LUA55_VALUE_FLOAT LUA55_VALUE_FLOAT V2_PRO_RK) const_flt"
  unfolding lua55_v2l_powk_def lua55_v2r_powk_if_def [abs_def] lua55_v2r_powk_fi_def [abs_def] lua55_v2r_powk_ff_def [abs_def]
  by (intro pow_leaves same_operands)+

lemma band_refines:
  "residual_leaf lua55_v2l_band lua55_v2r_band_ii (operand_tags LUA55_VALUE_INTEGER LUA55_VALUE_INTEGER V2_PRO_RR) any_holes"
  "residual_leaf lua55_v2l_band lua55_v2r_band_if (operand_tags LUA55_VALUE_INTEGER LUA55_VALUE_FLOAT V2_PRO_RR) any_holes"
  "residual_leaf lua55_v2l_band lua55_v2r_band_fi (operand_tags LUA55_VALUE_FLOAT LUA55_VALUE_INTEGER V2_PRO_RR) any_holes"
  "residual_leaf lua55_v2l_band lua55_v2r_band_ff (operand_tags LUA55_VALUE_FLOAT LUA55_VALUE_FLOAT V2_PRO_RR) any_holes"
  unfolding lua55_v2l_band_def lua55_v2r_band_ii_def lua55_v2r_band_if_def lua55_v2r_band_fi_def lua55_v2r_band_ff_def
  by (intro bitwise_leaves same_operands)+

lemma bor_refines:
  "residual_leaf lua55_v2l_bor lua55_v2r_bor_ii (operand_tags LUA55_VALUE_INTEGER LUA55_VALUE_INTEGER V2_PRO_RR) any_holes"
  "residual_leaf lua55_v2l_bor lua55_v2r_bor_if (operand_tags LUA55_VALUE_INTEGER LUA55_VALUE_FLOAT V2_PRO_RR) any_holes"
  "residual_leaf lua55_v2l_bor lua55_v2r_bor_fi (operand_tags LUA55_VALUE_FLOAT LUA55_VALUE_INTEGER V2_PRO_RR) any_holes"
  "residual_leaf lua55_v2l_bor lua55_v2r_bor_ff (operand_tags LUA55_VALUE_FLOAT LUA55_VALUE_FLOAT V2_PRO_RR) any_holes"
  unfolding lua55_v2l_bor_def lua55_v2r_bor_ii_def lua55_v2r_bor_if_def lua55_v2r_bor_fi_def lua55_v2r_bor_ff_def
  by (intro bitwise_leaves same_operands)+

lemma bxor_refines:
  "residual_leaf lua55_v2l_bxor lua55_v2r_bxor_ii (operand_tags LUA55_VALUE_INTEGER LUA55_VALUE_INTEGER V2_PRO_RR) any_holes"
  "residual_leaf lua55_v2l_bxor lua55_v2r_bxor_if (operand_tags LUA55_VALUE_INTEGER LUA55_VALUE_FLOAT V2_PRO_RR) any_holes"
  "residual_leaf lua55_v2l_bxor lua55_v2r_bxor_fi (operand_tags LUA55_VALUE_FLOAT LUA55_VALUE_INTEGER V2_PRO_RR) any_holes"
  "residual_leaf lua55_v2l_bxor lua55_v2r_bxor_ff (operand_tags LUA55_VALUE_FLOAT LUA55_VALUE_FLOAT V2_PRO_RR) any_holes"
  unfolding lua55_v2l_bxor_def lua55_v2r_bxor_ii_def lua55_v2r_bxor_if_def lua55_v2r_bxor_fi_def lua55_v2r_bxor_ff_def
  by (intro bitwise_leaves same_operands)+

lemma bandk_refines:
  "residual_leaf lua55_v2l_bandk lua55_v2r_bandk_ii (operand_tags LUA55_VALUE_INTEGER LUA55_VALUE_INTEGER V2_PRO_RK) const_int"
  "residual_leaf lua55_v2l_bandk lua55_v2r_bandk_if (operand_tags LUA55_VALUE_INTEGER LUA55_VALUE_FLOAT V2_PRO_RK) const_flt"
  "residual_leaf lua55_v2l_bandk lua55_v2r_bandk_fi (operand_tags LUA55_VALUE_FLOAT LUA55_VALUE_INTEGER V2_PRO_RK) const_int"
  "residual_leaf lua55_v2l_bandk lua55_v2r_bandk_ff (operand_tags LUA55_VALUE_FLOAT LUA55_VALUE_FLOAT V2_PRO_RK) const_flt"
  unfolding lua55_v2l_bandk_def lua55_v2r_bandk_ii_def lua55_v2r_bandk_if_def lua55_v2r_bandk_fi_def lua55_v2r_bandk_ff_def
  by (intro bitwise_leaves same_operands)+

lemma bork_refines:
  "residual_leaf lua55_v2l_bork lua55_v2r_bork_ii (operand_tags LUA55_VALUE_INTEGER LUA55_VALUE_INTEGER V2_PRO_RK) const_int"
  "residual_leaf lua55_v2l_bork lua55_v2r_bork_if (operand_tags LUA55_VALUE_INTEGER LUA55_VALUE_FLOAT V2_PRO_RK) const_flt"
  "residual_leaf lua55_v2l_bork lua55_v2r_bork_fi (operand_tags LUA55_VALUE_FLOAT LUA55_VALUE_INTEGER V2_PRO_RK) const_int"
  "residual_leaf lua55_v2l_bork lua55_v2r_bork_ff (operand_tags LUA55_VALUE_FLOAT LUA55_VALUE_FLOAT V2_PRO_RK) const_flt"
  unfolding lua55_v2l_bork_def lua55_v2r_bork_ii_def lua55_v2r_bork_if_def lua55_v2r_bork_fi_def lua55_v2r_bork_ff_def
  by (intro bitwise_leaves same_operands)+

lemma bxork_refines:
  "residual_leaf lua55_v2l_bxork lua55_v2r_bxork_ii (operand_tags LUA55_VALUE_INTEGER LUA55_VALUE_INTEGER V2_PRO_RK) const_int"
  "residual_leaf lua55_v2l_bxork lua55_v2r_bxork_if (operand_tags LUA55_VALUE_INTEGER LUA55_VALUE_FLOAT V2_PRO_RK) const_flt"
  "residual_leaf lua55_v2l_bxork lua55_v2r_bxork_fi (operand_tags LUA55_VALUE_FLOAT LUA55_VALUE_INTEGER V2_PRO_RK) const_int"
  "residual_leaf lua55_v2l_bxork lua55_v2r_bxork_ff (operand_tags LUA55_VALUE_FLOAT LUA55_VALUE_FLOAT V2_PRO_RK) const_flt"
  unfolding lua55_v2l_bxork_def lua55_v2r_bxork_ii_def lua55_v2r_bxork_if_def lua55_v2r_bxork_fi_def lua55_v2r_bxork_ff_def
  by (intro bitwise_leaves same_operands)+

lemma shl_refines:
  "residual_leaf lua55_v2l_shl lua55_v2r_shl_ii (operand_tags LUA55_VALUE_INTEGER LUA55_VALUE_INTEGER V2_PRO_RR) any_holes"
  "residual_leaf lua55_v2l_shl lua55_v2r_shl_if (operand_tags LUA55_VALUE_INTEGER LUA55_VALUE_FLOAT V2_PRO_RR) any_holes"
  "residual_leaf lua55_v2l_shl lua55_v2r_shl_fi (operand_tags LUA55_VALUE_FLOAT LUA55_VALUE_INTEGER V2_PRO_RR) any_holes"
  "residual_leaf lua55_v2l_shl lua55_v2r_shl_ff (operand_tags LUA55_VALUE_FLOAT LUA55_VALUE_FLOAT V2_PRO_RR) any_holes"
  unfolding lua55_v2l_shl_def lua55_v2r_shl_ii_def lua55_v2r_shl_if_def lua55_v2r_shl_fi_def lua55_v2r_shl_ff_def
  by (intro shift_leaves same_operands)+

lemma shr_refines:
  "residual_leaf lua55_v2l_shr lua55_v2r_shr_ii (operand_tags LUA55_VALUE_INTEGER LUA55_VALUE_INTEGER V2_PRO_RR) any_holes"
  "residual_leaf lua55_v2l_shr lua55_v2r_shr_if (operand_tags LUA55_VALUE_INTEGER LUA55_VALUE_FLOAT V2_PRO_RR) any_holes"
  "residual_leaf lua55_v2l_shr lua55_v2r_shr_fi (operand_tags LUA55_VALUE_FLOAT LUA55_VALUE_INTEGER V2_PRO_RR) any_holes"
  "residual_leaf lua55_v2l_shr lua55_v2r_shr_ff (operand_tags LUA55_VALUE_FLOAT LUA55_VALUE_FLOAT V2_PRO_RR) any_holes"
  unfolding lua55_v2l_shr_def lua55_v2r_shr_ii_def lua55_v2r_shr_if_def lua55_v2r_shr_fi_def lua55_v2r_shr_ff_def
  by (intro shift_leaves same_operands)+

lemma shri_refines:
  "residual_leaf lua55_v2l_shri lua55_v2r_shri_ii (operand_tags LUA55_VALUE_INTEGER LUA55_VALUE_INTEGER V2_PRO_RI) any_holes"
  "residual_leaf lua55_v2l_shri lua55_v2r_shri_fi (operand_tags LUA55_VALUE_FLOAT LUA55_VALUE_INTEGER V2_PRO_RI) any_holes"
  unfolding lua55_v2l_shri_def lua55_v2r_shri_ii_def lua55_v2r_shri_fi_def
  by (intro shift_leaves same_operands)+

lemma shli_refines:
  "residual_leaf lua55_v2l_shli lua55_v2r_shli_ii (operand_tags LUA55_VALUE_INTEGER LUA55_VALUE_INTEGER V2_PRO_RI) any_holes"
  "residual_leaf lua55_v2l_shli lua55_v2r_shli_fi (operand_tags LUA55_VALUE_FLOAT LUA55_VALUE_INTEGER V2_PRO_RI) any_holes"
  unfolding lua55_v2l_shli_def lua55_v2r_shli_ii_def lua55_v2r_shli_fi_def
  by (intro shift_leaves same_operands)+

lemmas arith_refines =
  add_refines sub_refines mul_refines addi_refines addk_refines subk_refines
  mulk_refines mod_refines idiv_refines modk_refines idivk_refines div_refines
  divk_refines pow_refines powk_refines band_refines bor_refines bxor_refines
  bandk_refines bork_refines bxork_refines shl_refines shr_refines shri_refines
  shli_refines

lemma arith_bank_refines: "((l, r), q, p) \<in> set arith_bank \<Longrightarrow> residual_leaf l r q p"
  unfolding arith_bank_def using arith_refines by (auto simp del: fun_eq_iff)

text \<open>Two interpretations by name, for the opcodes that the examples use.\<close>

interpretation add_ii: residual_leaf lua55_v2l_add lua55_v2r_add_ii
    "operand_tags LUA55_VALUE_INTEGER LUA55_VALUE_INTEGER V2_PRO_RR" any_holes
  by (rule add_refines)

interpretation shri_fi: residual_leaf lua55_v2l_shri lua55_v2r_shri_fi
    "operand_tags LUA55_VALUE_FLOAT LUA55_VALUE_INTEGER V2_PRO_RI" any_holes
  by (rule shri_refines)

subsection \<open>Properties\<close>

text \<open>
  C2. Every arithmetic leaf of the bank, that is every one but the two power leaves for two
  integers, is right for the product it was selected for: whatever the learner
  does with operands of that product (the result, the reject of a zero divisor or of a float
  without an integer value), the leaf does the same to the state without the learning region.
\<close>

theorem arith_leaf_sound:
  assumes "((l, r), q, p) \<in> set arith_bank" and "p h" and "learning_ok s" and "q h f s"
    and "l h f s = Some (c, u)"
  shows "r h f (forget s) = Some (c, forget u)"
  by (rule residual_leaf.on_product [OF arith_bank_refines [OF assms(1)] assms(2-5)])

text \<open>A frame whose first two registers hold 7 and 5.\<close>

definition two_ints :: v2_state where
  "two_ints = blank_state\<lparr>vals := [0x1000 \<mapsto> mk_value 3 7, 0x1010 \<mapsto> mk_value 3 5],
     frames := [0x100 \<mapsto> blank_frame\<lparr>frame_values := 0x1000\<rparr>]\<rparr>"

definition second_right :: holes where
  "second_right = blank_holes\<lparr>h_right_disp := 16\<rparr>"

lemma two_ints_run:
  "lua55_v2l_add second_right 0x100 two_ints = Some (Next 0x100,
     two_ints\<lparr>vals := (vals two_ints)(0x1000 \<mapsto> mk_value 3 12)\<rparr>)"
  "operand_tags LUA55_VALUE_INTEGER LUA55_VALUE_INTEGER V2_PRO_RR second_right 0x100 two_ints"
  "learning_ok two_ints"
  by (simp_all add: lua55_v2l_add_def V2_BIN_def learn_operands_def V2_PRO_RR_def v2_learn_pair_def
      learn_at_def put_int_def v2_defs two_ints_def second_right_def v2_int_add_def operand_tags_def V2_LEFT_def learning_ok_def)

theorem arith_leaf_sound_witness:
  "lua55_v2r_add_ii second_right 0x100 (forget two_ints) = Some (Next 0x100,
     forget (two_ints\<lparr>vals := (vals two_ints)(0x1000 \<mapsto> mk_value 3 12)\<rparr>))"
  using two_ints_run
  by (intro arith_leaf_sound [where l = lua55_v2l_add and p = any_holes and
      q = "operand_tags LUA55_VALUE_INTEGER LUA55_VALUE_INTEGER V2_PRO_RR"]) (simp_all add: arith_bank_def)

text \<open>
  C3. Off its product an arithmetic leaf computes nothing: it publishes an expected and an
  observed tag for its occurrence, leaves through the mismatch exit, and the registers, the
  objects and the outcome are as before.
\<close>

theorem arith_leaf_guard:
  assumes "((l, r), q, p) \<in> set arith_bank" and "p h" and "\<not> q h f s" and "l h f s \<noteq> None"
  shows "\<exists>e ob. r h f (forget s) = Some (Jump (h_mismatch_exit h) f,
    (forget s)\<lparr>inv := (inv (forget s))\<lparr>specialization_mismatch :=
       \<lparr>mm_pc = h_resume h, mm_expected = e, mm_observed = ob\<rparr>\<rparr>\<rparr>)"
  using residual_leaf.off_product [OF arith_bank_refines [OF assms(1)] assms(2-4)]
  by (simp add: v2_defs upd_inv_def)

theorem arith_leaf_guard_witness:
  "\<exists>e ob. lua55_v2r_add_ff second_right 0x100 (forget two_ints) = Some (Jump 0 0x100,
    (forget two_ints)\<lparr>inv := (inv (forget two_ints))\<lparr>specialization_mismatch :=
       \<lparr>mm_pc = 0, mm_expected = e, mm_observed = ob\<rparr>\<rparr>\<rparr>)"
  using arith_leaf_guard [of lua55_v2l_add lua55_v2r_add_ff
      "operand_tags LUA55_VALUE_FLOAT LUA55_VALUE_FLOAT V2_PRO_RR" any_holes second_right "0x100" two_ints]
    two_ints_run
  by (auto simp: arith_bank_def operand_tags_def second_right_def)

text \<open>
  C19. The two power leaves for integer operands are not specializations of their learner: the
  learner stores the float result of the power function, the leaf stores that result
  truncated to an integer, under the integer tag.
\<close>

theorem pow_ii_stores_integer:
  assumes "frames s f = Some fr"
    and "vals s (frame_values fr + scast (h_left_disp h)) = Some lv" and "tag lv = LUA55_VALUE_INTEGER"
    and "vals s (frame_values fr + scast (h_right_disp h)) = Some rv" and "tag rv = LUA55_VALUE_INTEGER"
    and "vals s (frame_values fr + scast (h_target_disp h)) \<noteq> None" and "learning (inv s) = 0"
    and "x = v2_pow (h_pow h) (c_double (payload lv)) (c_double (payload rv))"
  shows "lua55_v2l_pow h f s = Some (Next f,
      s\<lparr>vals := (vals s)(frame_values fr + scast (h_target_disp h) \<mapsto> mk_value LUA55_VALUE_FLOAT x)\<rparr>) \<and>
    lua55_v2r_pow_ii h f s = Some (Next f,
      s\<lparr>vals := (vals s)(frame_values fr + scast (h_target_disp h) \<mapsto> mk_value LUA55_VALUE_INTEGER (c_int64 x))\<rparr>)"
  using assms
  by (simp add: lua55_v2l_pow_def V2_POW_BODY_def learn_eq lua55_v2r_pow_ii_def V2_ARITH_II_def
      guarded_eq V2_LEFT_def V2_PRO_RR_def v2_learn_pair_def learn_at_def put_flt_def put_int_def v2_defs)

theorem pow_ii_stores_integer_witness:
  "map_option (\<lambda>(c, t). map_option tag (vals t 0x1000)) (lua55_v2l_pow second_right 0x100 two_ints) = Some (Some 4) \<and>
   map_option (\<lambda>(c, t). map_option tag (vals t 0x1000)) (lua55_v2r_pow_ii second_right 0x100 two_ints) = Some (Some 3)"
  using pow_ii_stores_integer [of two_ints "0x100" "blank_frame\<lparr>frame_values := 0x1000\<rparr>" second_right
      "mk_value 3 7" "mk_value 3 5"]
  by (simp add: two_ints_def second_right_def mk_value_def)

end
