(* ===== verification/Unary.thy ===== *)
theory Unary
  imports Arithmetic Strings
begin

text \<open>
  The unary opcodes (49 to 52): negation, bitwise and logical not, length, with the leading-run
  length of a table, and their residual leaves.
\<close>

subsection \<open>Length of a table\<close>

text \<open>\<open>for (; index < capacity; index++) if (array[index].tag == NIL) break;\<close>\<close>

primrec leading_run :: "u64 \<Rightarrow> u32 \<Rightarrow> nat \<Rightarrow> v2_state \<Rightarrow> u32 option" where
  "leading_run array index 0 s = Some index"
| "leading_run array index (Suc n) s = do {
     v \<leftarrow> rd_val (slot_addr array index) s;
     if tag v = LUA55_VALUE_NIL then Some index else leading_run array (index + 1) n s}"

definition v2_table_len :: "u64 \<Rightarrow> v2_state \<Rightarrow> u64 option" where
  "v2_table_len table s = do {
     tb \<leftarrow> tables s table;
     if array_capacity tb = 0 \<or> array_values tb = 0 then Some 0
     else do {
       index \<leftarrow> leading_run (array_values tb) 0 (unat (array_capacity tb)) s;
       Some (ucast index)}}"

text \<open>The null pointer for a value that is not a primitive table of this heap.\<close>

definition v2_primitive_len_table :: "lua_value \<Rightarrow> v2_state \<Rightarrow> u64 option" where
  "v2_primitive_len_table source s =
     (let table = payload source in
      if tag source \<noteq> LUA55_VALUE_TABLE \<or> heap_ptr (inv s) = 0 \<or> table = 0 then Some 0
      else do {
        hd \<leftarrow> headers s table;
        if kind hd \<noteq> LUA55_OBJECT_TABLE then Some 0
        else do {
          tb \<leftarrow> tables s table;
          Some (if table_heap tb \<noteq> heap_ptr (inv s) \<or> metatable_reference tb \<noteq> 0 then 0 else table)}})"

subsection \<open>Learners\<close>

definition V2_UNARY_PROLOGUE :: "holes \<Rightarrow> u64 \<Rightarrow> v2_state \<Rightarrow> (u64 \<times> lua_value) option" where
  "V2_UNARY_PROLOGUE h f s = do {
     target \<leftarrow> V2_VALUE_DISP (h_target_disp h) f s;
     source \<leftarrow> V2_VALUE_DISP (h_source_disp h) f s;
     v \<leftarrow> rd_val source s;
     Some (target, v)}"

definition learn_unary :: "(u64 \<Rightarrow> lua_value \<Rightarrow> stencil) \<Rightarrow> stencil" where
  "learn_unary body h f s = do {
     (target, v) \<leftarrow> V2_UNARY_PROLOGUE h f s;
     s \<leftarrow> v2_learn_key_tag (h_occ_slot h) (tag v) s;
     body target v h f s}"

definition lua55_v2l_unm :: stencil where
  "lua55_v2l_unm = learn_unary (\<lambda>target v.
     if tag v = LUA55_VALUE_INTEGER then put_int target (v2_int_unm (payload v))
     else if tag v = LUA55_VALUE_FLOAT then put_flt target (v2_flt_unm (payload v))
     else reject_exit LUA55_V2_REJECT_UNSUPPORTED_METAMETHOD)"

definition lua55_v2l_bnot :: stencil where
  "lua55_v2l_bnot = learn_unary (\<lambda>target v.
     case bit_operand v of
       None \<Rightarrow> reject_exit LUA55_V2_REJECT_UNSUPPORTED_METAMETHOD
     | Some i \<Rightarrow> put_int target (NOT i))"

definition lua55_v2_not :: stencil where
  "lua55_v2_not h f s = do {
     (target, v) \<leftarrow> V2_UNARY_PROLOGUE h f s;
     s \<leftarrow> wr_tag target (if tag v = LUA55_VALUE_NIL \<or> tag v = LUA55_VALUE_FALSE
                         then LUA55_VALUE_TRUE else LUA55_VALUE_FALSE) s;
     LUA55_RESIDUAL_NEXT f s}"

definition str_len :: "u64 \<Rightarrow> v2_state \<Rightarrow> u64 option" where
  "str_len r s = (if r \<noteq> 0 then map_option (\<lambda>a. ucast (str_length a)) (strings s r) else Some 0)"

text \<open>LEN sets the tag of its target before it scans the table.\<close>

definition lua55_v2l_len :: stencil where
  "lua55_v2l_len = learn_unary (\<lambda>target v h f s.
     if v2_is_string_tag (tag v) then do {
       n \<leftarrow> str_len (payload v) s;
       put_int target n h f s}
     else do {
       table \<leftarrow> v2_primitive_len_table v s;
       if table \<noteq> 0 then do {
         s \<leftarrow> wr_tag target LUA55_VALUE_INTEGER s;
         n \<leftarrow> v2_table_len (payload v) s;
         put_int target n h f s}
       else reject_exit LUA55_V2_REJECT_UNSUPPORTED_METAMETHOD h f s})"

subsection \<open>Leaves\<close>

definition unary_leaf :: "u32 \<Rightarrow> (u64 \<Rightarrow> u64 \<Rightarrow> stencil) \<Rightarrow> stencil" where
  "unary_leaf g body h f s = do {
     (target, v) \<leftarrow> V2_UNARY_PROLOGUE h f s;
     V2_LEAF_GUARD v g (body target (payload v)) h f s}"

definition lua55_v2r_unm_int :: stencil where
  "lua55_v2r_unm_int = unary_leaf LUA55_VALUE_INTEGER (\<lambda>target a. put_int target (v2_int_unm a))"

definition lua55_v2r_unm_flt :: stencil where
  "lua55_v2r_unm_flt = unary_leaf LUA55_VALUE_FLOAT (\<lambda>target a. put_flt target (v2_flt_unm a))"

definition lua55_v2r_bnot_int :: stencil where
  "lua55_v2r_bnot_int = unary_leaf LUA55_VALUE_INTEGER (\<lambda>target a. put_int target (NOT a))"

definition lua55_v2r_bnot_flt :: stencil where
  "lua55_v2r_bnot_flt = unary_leaf LUA55_VALUE_FLOAT (\<lambda>target a.
     case v2_flt_to_int_eq a of
       None \<Rightarrow> reject_exit LUA55_V2_REJECT_UNSUPPORTED_METAMETHOD
     | Some i \<Rightarrow> put_int target (NOT i))"

definition lua55_v2r_len_str :: stencil where
  "lua55_v2r_len_str h f s = do {
     (target, v) \<leftarrow> V2_UNARY_PROLOGUE h f s;
     V2_LEAF_GUARD_STR v (\<lambda>h f s. do {
       n \<leftarrow> str_len (payload v) s;
       put_int target n h f s}) h f s}"

definition lua55_v2r_len_table :: stencil where
  "lua55_v2r_len_table h f s = do {
     (target, v) \<leftarrow> V2_UNARY_PROLOGUE h f s;
     table \<leftarrow> v2_primitive_len_table v s;
     if table = 0 then reject_exit LUA55_V2_REJECT_INVALID_OBJECT h f s
     else do {
       s \<leftarrow> wr_tag target LUA55_VALUE_INTEGER s;
       n \<leftarrow> v2_table_len table s;
       put_int target n h f s}}"

subsection \<open>Leaves refine learners\<close>

definition source_tag :: "(u32 \<Rightarrow> bool) \<Rightarrow> holes \<Rightarrow> u64 \<Rightarrow> v2_state \<Rightarrow> bool" where
  "source_tag g = accepted V2_UNARY_PROLOGUE (\<lambda>h (target, v). g (tag v))"

lemma unary_forget: "V2_UNARY_PROLOGUE h f (forget s) = V2_UNARY_PROLOGUE h f s"
  by (simp add: V2_UNARY_PROLOGUE_def v2_defs)

lemma learn_unary_eq:
  "learn_unary body h f s = do {x \<leftarrow> V2_UNARY_PROLOGUE h f s;
     s \<leftarrow> learn_at (h_occ_slot h) (observe_tag (tag (snd x))) s; body (fst x) (snd x) h f s}"
  by (cases "V2_UNARY_PROLOGUE h f s") (auto simp: learn_unary_def v2_learn_key_tag_def)

lemma unary_leaf_refines:
  assumes "\<And>target v h f. tag v = g \<Longrightarrow> lbody target v h f = body target (payload v) h f"
    and "\<And>target a h f. forgetful (body target a h f)"
    and "\<And>target a h f s r. body target a h f s = Some r \<Longrightarrow> \<not> mismatch_exit h f s r"
  shows "residual_leaf (learn_unary lbody) (unary_leaf g body) (source_tag ((=) g)) any_holes"
  unfolding source_tag_def
  by (rule observed_refines [OF learn_unary_eq unary_forget])
    (use assms in \<open>auto simp: unary_leaf_def V2_LEAF_GUARD_def split: prod.splits\<close>)

lemma str_len_forget [simp]: "str_len r (forget s) = str_len r s"
  by (simp add: str_len_def)

lemma forgetful_str_len: "forgetful (\<lambda>s. do {n \<leftarrow> str_len r s; put_int target n h f s})"
proof -
  have "do {n \<leftarrow> str_len r (forget s); put_int target n h f (forget s)} =
      map_option (map_prod id forget) (do {n \<leftarrow> str_len r s; put_int target n h f s})" for s
    by (cases "str_len r s") (auto simp: put_int_def v2_defs)
  then show ?thesis
    by (auto simp: forgetful_def bind_eq_Some_conv put_int_def v2_defs split: if_splits)
qed

lemma len_str_refines:
  "residual_leaf lua55_v2l_len lua55_v2r_len_str (source_tag v2_is_string_tag) any_holes"
  unfolding source_tag_def lua55_v2l_len_def
  by (rule observed_refines [OF learn_unary_eq unary_forget])
    (auto simp: lua55_v2r_len_str_def V2_LEAF_GUARD_STR_def forgetful_str_len bind_eq_Some_conv
      split: prod.splits)

definition unary_bank :: "((stencil \<times> stencil) \<times> (holes \<Rightarrow> u64 \<Rightarrow> v2_state \<Rightarrow> bool) \<times> (holes \<Rightarrow> bool)) list" where
  "unary_bank = [
     ((lua55_v2l_unm, lua55_v2r_unm_int), source_tag ((=) LUA55_VALUE_INTEGER), any_holes),
     ((lua55_v2l_unm, lua55_v2r_unm_flt), source_tag ((=) LUA55_VALUE_FLOAT), any_holes),
     ((lua55_v2l_bnot, lua55_v2r_bnot_int), source_tag ((=) LUA55_VALUE_INTEGER), any_holes),
     ((lua55_v2l_bnot, lua55_v2r_bnot_flt), source_tag ((=) LUA55_VALUE_FLOAT), any_holes),
     ((lua55_v2l_len, lua55_v2r_len_str), source_tag v2_is_string_tag, any_holes)]"

lemma unary_refines:
  "residual_leaf lua55_v2l_unm lua55_v2r_unm_int (source_tag ((=) LUA55_VALUE_INTEGER)) any_holes"
  "residual_leaf lua55_v2l_unm lua55_v2r_unm_flt (source_tag ((=) LUA55_VALUE_FLOAT)) any_holes"
  "residual_leaf lua55_v2l_bnot lua55_v2r_bnot_int (source_tag ((=) LUA55_VALUE_INTEGER)) any_holes"
  "residual_leaf lua55_v2l_bnot lua55_v2r_bnot_flt (source_tag ((=) LUA55_VALUE_FLOAT)) any_holes"
  unfolding lua55_v2l_unm_def lua55_v2l_bnot_def lua55_v2r_unm_int_def lua55_v2r_unm_flt_def
    lua55_v2r_bnot_int_def lua55_v2r_bnot_flt_def
  by (rule unary_leaf_refines; auto simp: bit_operand_def split: option.splits)+

lemma unary_bank_refines: "((l, r), q, p) \<in> set unary_bank \<Longrightarrow> residual_leaf l r q p"
  unfolding unary_bank_def using unary_refines len_str_refines by (auto simp del: fun_eq_iff)

subsection \<open>Length of a table is a border\<close>

lemma leading_run_border:
  assumes "mapped (span array i n) s" and "n \<le> 2 ^ 32"
  shows "\<exists>k\<le>n. leading_run array i n s = Some (i + word_of_nat k) \<and>
    (\<forall>j<k. \<exists>v. vals s (slot_addr array (i + word_of_nat j)) = Some v \<and> tag v \<noteq> LUA55_VALUE_NIL) \<and>
    (k < n \<longrightarrow> (\<exists>v. vals s (slot_addr array (i + word_of_nat k)) = Some v \<and> tag v = LUA55_VALUE_NIL))"
  using assms
proof (induction n arbitrary: i)
  case (Suc n)
  then obtain v where v: "vals s (slot_addr array i) = Some v" by auto
  show ?case
  proof (cases "tag v = LUA55_VALUE_NIL")
    case True
    with v show ?thesis by (intro exI [of _ 0]) (simp add: rd_val_def)
  next
    case False
    from Suc obtain k where k: "k \<le> n" "leading_run array (i + 1) n s = Some (i + 1 + word_of_nat k)"
      "\<forall>j<k. \<exists>v. vals s (slot_addr array (i + 1 + word_of_nat j)) = Some v \<and> tag v \<noteq> LUA55_VALUE_NIL"
      "k < n \<longrightarrow> (\<exists>v. vals s (slot_addr array (i + 1 + word_of_nat k)) = Some v \<and> tag v = LUA55_VALUE_NIL)"
      by (metis Suc_leD mapped_Cons span_Suc)
    have "\<exists>v. vals s (slot_addr array (i + word_of_nat j)) = Some v \<and> tag v \<noteq> LUA55_VALUE_NIL"
      if "j < Suc k" for j
      using that k(3) v False by (cases j) (auto simp: add.assoc)
    then show ?thesis
      using k v False by (intro exI [of _ "Suc k"]) (auto simp: rd_val_def add.assoc)
  qed
qed simp

text \<open>
  C35. The length of a table with its array part in memory is a border of it, Lua's contract for
  the \<open>#\<close> operator: every array element before it is non-nil, and the element at it is nil or it
  is the capacity. It is the first such index.
\<close>

theorem table_len_border:
  assumes "tables s table = Some tb" and "array_values tb \<noteq> 0"
    and "mapped (span (array_values tb) 0 (unat (array_capacity tb))) s"
  shows "\<exists>n. v2_table_len table s = Some (word_of_nat n) \<and> n \<le> unat (array_capacity tb) \<and>
    (\<forall>j<n. \<exists>v. vals s (slot_addr (array_values tb) (word_of_nat j)) = Some v \<and> tag v \<noteq> LUA55_VALUE_NIL) \<and>
    (n < unat (array_capacity tb) \<longrightarrow>
      (\<exists>v. vals s (slot_addr (array_values tb) (word_of_nat n)) = Some v \<and> tag v = LUA55_VALUE_NIL))"
proof (cases "array_capacity tb = 0")
  case True
  with assms show ?thesis by (intro exI [of _ 0]) (simp add: v2_table_len_def)
next
  case False
  have "unat (array_capacity tb) \<le> 2 ^ 32" using unat32_less [of "array_capacity tb"] by simp
  from leading_run_border [OF assms(3) this] obtain k where
    k: "k \<le> unat (array_capacity tb)" "leading_run (array_values tb) 0 (unat (array_capacity tb)) s = Some (word_of_nat k)"
      "\<forall>j<k. \<exists>v. vals s (slot_addr (array_values tb) (word_of_nat j)) = Some v \<and> tag v \<noteq> LUA55_VALUE_NIL"
      "k < unat (array_capacity tb) \<longrightarrow>
         (\<exists>v. vals s (slot_addr (array_values tb) (word_of_nat k)) = Some v \<and> tag v = LUA55_VALUE_NIL)"
    by auto
  have "k < 2 ^ 32" using k(1) unat32_less [of "array_capacity tb"] by simp
  then have "(ucast (word_of_nat k :: u32) :: u64) = word_of_nat k"
    by (simp add: unat_of_nat32 word_unat_eq_iff unat_of_nat64)
  with k assms False show ?thesis by (intro exI [of _ k]) (simp add: v2_table_len_def)
qed

text \<open>A table of capacity three with the elements true, nil, true.\<close>

definition holed_table :: v2_state where
  "holed_table = blank_state\<lparr>
     vals := [0x100 \<mapsto> mk_value 2 0, 0x110 \<mapsto> mk_value 0 0, 0x120 \<mapsto> mk_value 2 0],
     tables := [0x10 \<mapsto> \<lparr>storage_generation = 1, array_capacity = 3, field_capacity = 0, barrier_count = 0,
       metatable_reference = 0, array_values = 0x100, field_values = 0, table_heap = 0, site_id = 0\<rparr>]\<rparr>"

theorem table_len_border_witness:
  "\<exists>n. v2_table_len 0x10 holed_table = Some (word_of_nat n) \<and> n \<le> 3"
proof -
  have "mapped (span 0x100 0 3) holed_table"
    by (simp add: holed_table_def mapped_def span_def slot_addr_def upt_rec)
  then show ?thesis
    using table_len_border [where s = holed_table and table = "0x10"] by (auto simp: holed_table_def)
qed

end
