(* ===== verification/V1_Unary.thy ===== *)
theory V1_Unary
  imports V1_Arith_Replay Unary
begin

text \<open>
  The unary opcodes of the first generation (\<open>opcode_unary_stencils.c\<close>): learners, residuals and
  self-selecting stencils of UNM, BNOT, NOT and LEN, and that the residuals replay the learners.
\<close>

unbundle bit_operations_syntax

subsection \<open>Lengths\<close>

primrec scan_nil :: "u64 \<Rightarrow> u32 \<Rightarrow> nat \<Rightarrow> v2_state \<Rightarrow> u32 option" where
  "scan_nil array index 0 m = Some index"
| "scan_nil array index (Suc n) m = do {
     v \<leftarrow> rd_val (slot_addr array index) m;
     if tag v = LUA55_VALUE_NIL then Some index else scan_nil array (index + 1) n m}"

definition table_len :: "u64 \<Rightarrow> v2_state \<Rightarrow> u64 option" where
  "table_len table m = do {
     tb \<leftarrow> tables m table;
     if array_capacity tb = 0 \<or> array_values tb = 0 then Some 0
     else do {
       index \<leftarrow> scan_nil (array_values tb) 0 (unat (array_capacity tb)) m;
       Some (ucast index)}}"

text \<open>Whether a value is a table of the frame's heap without a metatable.\<close>

definition learn_len_table :: "u64 \<Rightarrow> lua_value \<Rightarrow> v2_state \<Rightarrow> bool option" where
  "learn_len_table heap source m =
     (let table = payload source in
      if tag source \<noteq> LUA55_VALUE_TABLE \<or> heap = 0 \<or> table = 0 then Some False
      else do {
        hd \<leftarrow> headers m table;
        if kind hd \<noteq> LUA55_OBJECT_TABLE then Some False
        else do {
          tb \<leftarrow> tables m table;
          Some (table_heap tb = heap \<and> metatable_reference tb = 0)}})"

definition string_len :: "u64 \<Rightarrow> v2_state \<Rightarrow> u64 option" where
  "string_len r m = (if r \<noteq> 0 then do {str \<leftarrow> strings m r; Some (ucast (str_length str))} else Some 0)"

subsection \<open>Learners\<close>

definition lua55_learn_unm :: v1_stencil where
  "lua55_learn_unm h f s = do {
     target \<leftarrow> reg (q_target h) f s;
     source \<leftarrow> reg (q_source h) f s;
     (slot, s) \<leftarrow> next_slot f s;
     let base = q_quote_base h;
     v \<leftarrow> rd source s;
     if tag v = LUA55_VALUE_INTEGER then learn_store slot target (int_val (int_unm (payload v))) (base OR 1) f s
     else if tag v = LUA55_VALUE_FLOAT then learn_store slot target (flt_val (flt_unm (payload v))) (base OR 2) f s
     else reject_quote slot h f s}"

definition lua55_learn_bnot :: v1_stencil where
  "lua55_learn_bnot h f s = do {
     target \<leftarrow> reg (q_target h) f s;
     source \<leftarrow> reg (q_source h) f s;
     (slot, s) \<leftarrow> next_slot f s;
     let base = q_quote_base h;
     v \<leftarrow> rd source s;
     case to_int v of None \<Rightarrow> reject_quote slot h f s
     | Some value \<Rightarrow> learn_store slot target (int_val (NOT value)) (base OR (if tag v = LUA55_VALUE_INTEGER then 1 else 2)) f s}"

definition falsy :: "u32 \<Rightarrow> bool" where
  "falsy t \<longleftrightarrow> t = LUA55_VALUE_NIL \<or> t = LUA55_VALUE_FALSE"

definition lua55_learn_not :: v1_stencil where
  "lua55_learn_not h f s = do {
     target \<leftarrow> reg (q_target h) f s;
     source \<leftarrow> reg (q_source h) f s;
     (slot, s) \<leftarrow> next_slot f s;
     let base = q_quote_base h;
     v \<leftarrow> rd source s;
     s \<leftarrow> on_mem (wr_tag target (if falsy (tag v) then LUA55_VALUE_TRUE else LUA55_VALUE_FALSE)) s;
     s \<leftarrow> set_quote slot (base OR (if falsy (tag v) then 1 else 2)) s;
     lua55_learn_next f s}"

text \<open>
  LEN sets the tag of its target before it scans the table, and picks the quote of a string from
  the source's tag after the store: in place, that tag is the integer just stored.
\<close>

definition put_table_len :: "u64 \<Rightarrow> u64 \<Rightarrow> v1_state \<Rightarrow> v1_state option" where
  "put_table_len target table s = do {
     s \<leftarrow> on_mem (wr_tag target LUA55_VALUE_INTEGER) s;
     n \<leftarrow> table_len table (mem s);
     on_mem (wr_val target (int_val n)) s}"

definition lua55_learn_len :: v1_stencil where
  "lua55_learn_len h f s = do {
     fr \<leftarrow> lframes s f;
     target \<leftarrow> reg (q_target h) f s;
     source \<leftarrow> reg (q_source h) f s;
     (slot, s) \<leftarrow> next_slot f s;
     let base = q_quote_base h;
     v \<leftarrow> rd source s;
     if tag v = LUA55_VALUE_SHORT_STRING \<or> tag v = LUA55_VALUE_LONG_STRING then do {
       n \<leftarrow> string_len (payload v) (mem s);
       s \<leftarrow> on_mem (wr_val target (int_val n)) s;
       v \<leftarrow> rd source s;
       s \<leftarrow> set_quote slot (base OR (if tag v = LUA55_VALUE_SHORT_STRING then 1 else 2)) s;
       lua55_learn_next f s}
     else do {
       ok \<leftarrow> learn_len_table (l_heap fr) v (mem s);
       if ok then do {
         s \<leftarrow> put_table_len target (payload v) s;
         s \<leftarrow> set_quote slot (base OR 3) s;
         lua55_learn_next f s}
       else reject_quote slot h f s}}"

subsection \<open>Residuals\<close>

definition RESIDUAL_UNM :: "u32 \<Rightarrow> v1_stencil" where
  "RESIDUAL_UNM want h f s = do {
     target \<leftarrow> reg (q_target h) f s;
     source \<leftarrow> reg (q_source h) f s;
     v \<leftarrow> rd source s;
     if tag v \<noteq> want then GUARD_FAILED h f s
     else residual_store target (if want = LUA55_VALUE_INTEGER then int_val (int_unm (payload v)) else flt_val (flt_unm (payload v))) f s}"

definition lua55_residual_unm_int :: v1_stencil where
  "lua55_residual_unm_int = RESIDUAL_UNM LUA55_VALUE_INTEGER"

definition lua55_residual_unm_flt :: v1_stencil where
  "lua55_residual_unm_flt = RESIDUAL_UNM LUA55_VALUE_FLOAT"

definition RESIDUAL_BNOT :: "u32 \<Rightarrow> v1_stencil" where
  "RESIDUAL_BNOT want h f s = do {
     target \<leftarrow> reg (q_target h) f s;
     source \<leftarrow> reg (q_source h) f s;
     v \<leftarrow> rd source s;
     if tag v \<noteq> want then GUARD_FAILED h f s
     else case guarded_int want v of None \<Rightarrow> GUARD_FAILED h f s
     | Some value \<Rightarrow> residual_store target (int_val (NOT value)) f s}"

definition lua55_residual_bnot_int :: v1_stencil where
  "lua55_residual_bnot_int = RESIDUAL_BNOT LUA55_VALUE_INTEGER"

definition lua55_residual_bnot_flt :: v1_stencil where
  "lua55_residual_bnot_flt = RESIDUAL_BNOT LUA55_VALUE_FLOAT"

definition RESIDUAL_NOT :: "bool \<Rightarrow> v1_stencil" where
  "RESIDUAL_NOT want_falsy h f s = do {
     target \<leftarrow> reg (q_target h) f s;
     source \<leftarrow> reg (q_source h) f s;
     v \<leftarrow> rd source s;
     if (if want_falsy then tag v \<noteq> LUA55_VALUE_NIL \<and> tag v \<noteq> LUA55_VALUE_FALSE else tag v = LUA55_VALUE_NIL \<or> tag v = LUA55_VALUE_FALSE)
     then GUARD_FAILED h f s
     else do {
       s \<leftarrow> on_mem (wr_tag target (if want_falsy then LUA55_VALUE_TRUE else LUA55_VALUE_FALSE)) s;
       lua55_residual_next f s}}"

definition lua55_residual_not_falsy :: v1_stencil where
  "lua55_residual_not_falsy = RESIDUAL_NOT True"

definition lua55_residual_not_truthy :: v1_stencil where
  "lua55_residual_not_truthy = RESIDUAL_NOT False"

definition RESIDUAL_LEN_STRING :: "u32 \<Rightarrow> v1_stencil" where
  "RESIDUAL_LEN_STRING want h f s = do {
     target \<leftarrow> reg (q_target h) f s;
     source \<leftarrow> reg (q_source h) f s;
     v \<leftarrow> rd source s;
     if tag v \<noteq> want then GUARD_FAILED h f s
     else do {
       n \<leftarrow> string_len (payload v) (mem s);
       residual_store target (int_val n) f s}}"

definition lua55_residual_len_shrt :: v1_stencil where
  "lua55_residual_len_shrt = RESIDUAL_LEN_STRING LUA55_VALUE_SHORT_STRING"

definition lua55_residual_len_lng :: v1_stencil where
  "lua55_residual_len_lng = RESIDUAL_LEN_STRING LUA55_VALUE_LONG_STRING"

definition lua55_residual_len_table :: v1_stencil where
  "lua55_residual_len_table h f s = do {
     fr \<leftarrow> lframes s f;
     target \<leftarrow> reg (q_target h) f s;
     source \<leftarrow> reg (q_source h) f s;
     v \<leftarrow> rd source s;
     ok \<leftarrow> learn_len_table (l_heap fr) v (mem s);
     if \<not> ok then GUARD_FAILED h f s
     else do {
       s \<leftarrow> put_table_len target (payload v) s;
       lua55_residual_next f s}}"

subsection \<open>Self-selecting stencils\<close>

definition lua55_poly_unm :: v1_stencil where
  "lua55_poly_unm h f s = do {
     target \<leftarrow> reg (q_target h) f s;
     source \<leftarrow> reg (q_source h) f s;
     v \<leftarrow> rd source s;
     if tag v = LUA55_VALUE_INTEGER then residual_store target (int_val (int_unm (payload v))) f s
     else if tag v = LUA55_VALUE_FLOAT then residual_store target (flt_val (flt_unm (payload v))) f s
     else reject_leave h f s}"

definition lua55_poly_bnot :: v1_stencil where
  "lua55_poly_bnot h f s = do {
     target \<leftarrow> reg (q_target h) f s;
     source \<leftarrow> reg (q_source h) f s;
     v \<leftarrow> rd source s;
     case to_int v of None \<Rightarrow> reject_leave h f s
     | Some value \<Rightarrow> residual_store target (int_val (NOT value)) f s}"

definition lua55_poly_not :: v1_stencil where
  "lua55_poly_not h f s = do {
     target \<leftarrow> reg (q_target h) f s;
     source \<leftarrow> reg (q_source h) f s;
     v \<leftarrow> rd source s;
     s \<leftarrow> on_mem (wr_tag target (if falsy (tag v) then LUA55_VALUE_TRUE else LUA55_VALUE_FALSE)) s;
     lua55_residual_next f s}"

definition lua55_poly_len :: v1_stencil where
  "lua55_poly_len h f s = do {
     fr \<leftarrow> lframes s f;
     target \<leftarrow> reg (q_target h) f s;
     source \<leftarrow> reg (q_source h) f s;
     v \<leftarrow> rd source s;
     if tag v = LUA55_VALUE_SHORT_STRING \<or> tag v = LUA55_VALUE_LONG_STRING then do {
       n \<leftarrow> string_len (payload v) (mem s);
       residual_store target (int_val n) f s}
     else do {
       ok \<leftarrow> learn_len_table (l_heap fr) v (mem s);
       if ok then do {
         s \<leftarrow> put_table_len target (payload v) s;
         lua55_residual_next f s}
       else reject_leave h f s}}"

subsection \<open>The same lengths in both generations\<close>

lemma v1_table_len: "table_len = v2_table_len"
proof -
  have "scan_nil a i n m = leading_run a i n m" for a i n m by (induction n arbitrary: i) (simp_all cong: if_cong)
  then show ?thesis by (simp add: fun_eq_iff table_len_def v2_table_len_def cong: if_cong)
qed

subsection \<open>Replay\<close>

lemma alike_objects:
  assumes "alike s s'"
  shows "strings (mem s') = strings (mem s)" "tables (mem s') = tables (mem s)" "headers (mem s') = headers (mem s)"
proof -
  note e = alike_mem [OF assms, of Map.empty]
  show "strings (mem s') = strings (mem s)" "tables (mem s') = tables (mem s)" "headers (mem s') = headers (mem s)"
    using arg_cong [OF e, of strings] arg_cong [OF e, of tables] arg_cong [OF e, of headers] by simp_all
qed

text \<open>A scan reads only tags, and alike states have the same.\<close>

definition tags_of :: "v2_state \<Rightarrow> u64 \<Rightarrow> u32 option" where
  "tags_of m a = map_option tag (vals m a)"

lemma alike_tags: "alike s s' \<Longrightarrow> tags_of (mem s') = tags_of (mem s)"
proof
  fix a
  assume "alike s s'"
  then have "map_option norm_value (vals (mem s) a) = map_option norm_value (vals (mem s') a)" by (simp add: alike_def)
  then show "tags_of (mem s') a = tags_of (mem s) a"
    by (cases "vals (mem s) a"; cases "vals (mem s') a") (simp_all add: tags_of_def norm_value_eq)
qed

lemma scan_tags: "tags_of m = tags_of m' \<Longrightarrow> scan_nil a i n m = scan_nil a i n m'"
proof (induction n arbitrary: i)
  case (Suc n)
  have "tags_of m (slot_addr a i) = tags_of m' (slot_addr a i)" using Suc.prems by simp
  with Suc.IH [OF Suc.prems] show ?case
    by (cases "vals m (slot_addr a i)"; cases "vals m' (slot_addr a i)") (simp_all add: tags_of_def rd_val_def)
qed simp

lemma table_len_tags: "tags_of m = tags_of m' \<Longrightarrow> tables m = tables m' \<Longrightarrow> table_len t m = table_len t m'"
  using scan_tags [of m m'] by (simp add: table_len_def cong: if_cong)

lemma lengths_alike:
  assumes "alike s s'"
  shows "string_len t (mem s') = string_len t (mem s)"
    "norm_value v = norm_value w \<Longrightarrow> learn_len_table hp w (mem s') = learn_len_table hp v (mem s)"
  using alike_objects [OF assms]
  by (auto simp: string_len_def learn_len_table_def norm_value_eq bind_eq_Some_conv Let_def split: if_splits cong: if_cong)

text \<open>Setting the target's tag first is the same as storing the length found then.\<close>

definition len_after :: "u64 \<Rightarrow> u64 \<Rightarrow> v2_state \<Rightarrow> u64 option" where
  "len_after target table m = do {m \<leftarrow> wr_tag target LUA55_VALUE_INTEGER m; table_len table m}"

lemma put_table_len_store:
  "put_table_len target table s = do {n \<leftarrow> len_after target table (mem s); on_mem (wr_val target (int_val n)) s}"
  by (cases "vals (mem s) target")
    (auto simp: put_table_len_def len_after_def on_mem_def wr_tag_def rd_val_def wr_val_def bind_assoc intro!: Option.bind_cong [OF refl])

lemma len_after_alike:
  assumes "alike s s'"
  shows "len_after target table (mem s') = len_after target table (mem s)"
proof -
  have "tags_of (mem s') target = tags_of (mem s) target" by (simp add: alike_tags [OF assms])
  moreover have "table_len table ((mem s')\<lparr>vals := (vals (mem s'))(target \<mapsto> v)\<rparr>) = table_len table ((mem s)\<lparr>vals := (vals (mem s))(target \<mapsto> w)\<rparr>)"
    if "tag v = tag w" for v w
    using alike_tags [OF assms] alike_objects(2) [OF assms] that by (intro table_len_tags) (auto simp: fun_eq_iff tags_of_def)
  ultimately show ?thesis
    by (cases "vals (mem s) target"; cases "vals (mem s') target")
      (auto simp: len_after_def wr_tag_def rd_val_def wr_val_def tags_of_def SET_TAG_def)
qed

definition rd_unary :: "v1_holes \<Rightarrow> u64 \<Rightarrow> v1_state \<Rightarrow> (u64 \<times> lua_value \<times> u64) option" where
  "rd_unary h f s = do {
     fr \<leftarrow> lframes s f;
     target \<leftarrow> reg (q_target h) f s;
     source \<leftarrow> reg (q_source h) f s;
     v \<leftarrow> rd source s;
     Some (target, v, l_heap fr)}"

lemma rd_unary_alike:
  assumes "alike s s'" and "rd_unary h f s = Some (t, v, hp)"
  obtains w where "rd_unary h f s' = Some (t, w, hp)" "norm_value v = norm_value w"
proof -
  from assms(2) obtain fr b where a: "lframes s f = Some fr" "l_heap fr = hp" "reg (q_target h) f s = Some t" "reg (q_source h) f s = Some b" "rd b s = Some v"
    by (auto simp: rd_unary_def bind_eq_Some_conv)
  from alike_frame [OF assms(1) a(1)] obtain k where "lframes s' f = Some (fr\<lparr>l_slot_cursor := k\<rparr>)" .
  moreover from alike_rd [OF assms(1) a(5)] obtain w where "rd b s' = Some w" "norm_value v = norm_value w" .
  ultimately show thesis using that alike_reg [OF assms(1)] a by (simp add: rd_unary_def)
qed

lemma unary_replays_if:
  assumes "\<And>h f s s' t v w hp e. P h \<Longrightarrow> based h \<Longrightarrow> alike s s' \<Longrightarrow> norm_value v = norm_value w \<Longrightarrow> rd_unary h f s' = Some (t, w, hp) \<Longrightarrow>
      pick h (t, v, hp) s = Some (Accept e (q_quote_base h OR n)) \<Longrightarrow>
      residual h f s' = perform lua55_residual_next e f s' \<and> like_effect e e"
    and "n AND 0xFFFF = n" and "n \<noteq> 0"
  shows "replayed_leaf (picking rd_unary pick) residual (coded_if P n)"
proof (rule picking_replays_if [OF _ assms(2,3)])
  fix h f s s' x e
  assume h: "P h" "based h" and al: "alike s s'" and x: "rd_unary h f s = Some x" and pick: "pick h x s = Some (Accept e (q_quote_base h OR n))"
  obtain t v hp where xx: "x = (t, v, hp)" by (cases x)
  from rd_unary_alike [OF al x [unfolded xx]] obtain w where "rd_unary h f s' = Some (t, w, hp)" "norm_value v = norm_value w" .
  with assms(1) [OF h al] pick xx show "\<exists>e'. residual h f s' = perform lua55_residual_next e' f s' \<and> like_effect e e'" by blast
qed

lemmas unary_replays = unary_replays_if [where P = "\<lambda>_. True", unfolded coded_if_True]

subsection \<open>The shape\<close>

definition unm_pick :: "v1_holes \<Rightarrow> u64 \<times> lua_value \<times> u64 \<Rightarrow> v1_state \<Rightarrow> v1_pick option" where
  "unm_pick h = (\<lambda>(t, v, hp) s. Some (
     if tag v = LUA55_VALUE_INTEGER then Accept (Puts t (int_val (int_unm (payload v)))) (q_quote_base h OR 1)
     else if tag v = LUA55_VALUE_FLOAT then Accept (Puts t (flt_val (flt_unm (payload v)))) (q_quote_base h OR 2)
     else Refuse))"

definition bnot_pick :: "v1_holes \<Rightarrow> u64 \<times> lua_value \<times> u64 \<Rightarrow> v1_state \<Rightarrow> v1_pick option" where
  "bnot_pick h = (\<lambda>(t, v, hp) s. Some (case to_int v of None \<Rightarrow> Refuse
     | Some value \<Rightarrow> Accept (Puts t (int_val (NOT value))) (q_quote_base h OR (if tag v = LUA55_VALUE_INTEGER then 1 else 2))))"

definition not_pick :: "v1_holes \<Rightarrow> u64 \<times> lua_value \<times> u64 \<Rightarrow> v1_state \<Rightarrow> v1_pick option" where
  "not_pick h = (\<lambda>(t, v, hp) s. Some (Accept (Tags t (if falsy (tag v) then LUA55_VALUE_TRUE else LUA55_VALUE_FALSE))
     (q_quote_base h OR (if falsy (tag v) then 1 else 2))))"

definition len_pick :: "v1_holes \<Rightarrow> u64 \<times> lua_value \<times> u64 \<Rightarrow> v1_state \<Rightarrow> v1_pick option" where
  "len_pick h = (\<lambda>(t, v, hp) s.
     if tag v = LUA55_VALUE_SHORT_STRING \<or> tag v = LUA55_VALUE_LONG_STRING then do {
       n \<leftarrow> string_len (payload v) (mem s);
       Some (Accept (Puts t (int_val n)) (q_quote_base h OR (if q_target h \<noteq> q_source h \<and> tag v = LUA55_VALUE_SHORT_STRING then 1 else 2)))}
     else do {
       ok \<leftarrow> learn_len_table hp v (mem s);
       if ok then do {
         n \<leftarrow> len_after t (payload v) (mem s);
         Some (Accept (Puts t (int_val n)) (q_quote_base h OR 3))}
       else Some Refuse})"

lemmas unary_shape = noting_def rd_unary_def reg_def next_slot_def upd_lframe_def rd_def store_quote

lemma learn_unm_shape: "lua55_learn_unm = picking rd_unary unm_pick"
  by (rule stencil_eqI) (auto simp: lua55_learn_unm_def unm_pick_def unary_shape Let_def intro!: Option.bind_cong [OF refl])

lemma learn_bnot_shape: "lua55_learn_bnot = picking rd_unary bnot_pick"
  by (rule stencil_eqI) (auto simp: lua55_learn_bnot_def bnot_pick_def unary_shape Let_def intro!: Option.bind_cong [OF refl] split: option.splits)

lemma tag_quote:
  "do {u \<leftarrow> on_mem (wr_tag a t) u; u \<leftarrow> set_quote slot q u; lua55_learn_next f u} =
   do {u \<leftarrow> set_quote slot q u; perform lua55_learn_next (Tags a t) f u}"
  by (cases "vals (mem u) a"; cases "rslots u slot")
    (simp_all add: on_mem_def wr_tag_def rd_val_def wr_val_def upd_slot_def lua55_learn_next_def)

lemma learn_not_shape: "lua55_learn_not = picking rd_unary not_pick"
  by (rule stencil_eqI) (auto simp: lua55_learn_not_def not_pick_def unary_shape tag_quote Let_def intro!: Option.bind_cong [OF refl])

lemma len_quote:
  "do {u \<leftarrow> put_table_len t table u; u \<leftarrow> set_quote slot q u; lua55_learn_next f u} =
   do {n \<leftarrow> len_after t table (mem u); u \<leftarrow> set_quote slot q u; perform lua55_learn_next (Puts t (int_val n)) f u}"
  by (simp add: put_table_len_store bind_assoc store_quote [unfolded learn_store_def] cong: Option.bind_cong)

lemma string_len_quote:
  assumes "b = slot_addr base i" "t = slot_addr base j" and "rd b u = Some v"
  shows "do {u \<leftarrow> on_mem (wr_val t (int_val n)) u; v \<leftarrow> rd b u;
      u \<leftarrow> set_quote slot (q OR (if tag v = LUA55_VALUE_SHORT_STRING then 1 else 2)) u; lua55_learn_next f u} =
    do {u \<leftarrow> set_quote slot (q OR (if j \<noteq> i \<and> tag v = LUA55_VALUE_SHORT_STRING then 1 else 2)) u; perform lua55_learn_next (Puts t (int_val n)) f u}"
  using assms by (cases "vals (mem u) t"; cases "rslots u slot")
    (auto simp: on_mem_def wr_val_def rd_def rd_val_def upd_slot_def lua55_learn_next_def mk_value_fields)

lemma learn_len_shape: "lua55_learn_len = picking rd_unary len_pick"
proof (rule stencil_eqI)
  fix h :: v1_holes and s :: v1_state and f fr
  assume fr: "lframes s f = Some fr"
  let ?b = "slot_addr (l_values fr) (q_source h)"
  show "lua55_learn_len h f s = picking rd_unary len_pick h f s"
  proof (cases "rd ?b s")
    case (Some v)
    then have "rd ?b (s\<lparr>lframes := m\<rparr>) = Some v" for m by (simp add: rd_def)
    note q = string_len_quote [OF refl refl this]
    show ?thesis
      using fr Some q [simplified] by (auto simp: lua55_learn_len_def len_pick_def unary_shape len_quote Let_def bind_assoc
          if_distrib [of "\<lambda>x. Option.bind x _"] intro!: Option.bind_cong [OF refl] cong: if_cong)
  qed (use fr in \<open>simp add: lua55_learn_len_def unary_shape Let_def\<close>)
qed (simp add: lua55_learn_len_def unary_shape)

subsection \<open>The bank\<close>

lemma rd_unary_Some: "rd_unary h f s = Some (t, v, hp) \<longleftrightarrow>
    (\<exists>fr a. lframes s f = Some fr \<and> reg (q_target h) f s = Some t \<and> reg (q_source h) f s = Some a \<and> rd a s = Some v \<and> l_heap fr = hp)"
  by (auto simp: rd_unary_def bind_eq_Some_conv)

lemma unm_replays:
  "replayed_leaf lua55_learn_unm lua55_residual_unm_int (coded 1)" "replayed_leaf lua55_learn_unm lua55_residual_unm_flt (coded 2)"
  unfolding learn_unm_shape lua55_residual_unm_int_def lua55_residual_unm_flt_def
  by (rule unary_replays; force simp: unm_pick_def RESIDUAL_UNM_def rd_unary_Some norm_value_eq residual_store_def based_eq split: if_splits)+

lemma bnot_replays:
  "replayed_leaf lua55_learn_bnot lua55_residual_bnot_int (coded 1)" "replayed_leaf lua55_learn_bnot lua55_residual_bnot_flt (coded 2)"
  unfolding learn_bnot_shape lua55_residual_bnot_int_def lua55_residual_bnot_flt_def
  by (rule unary_replays; force simp: bnot_pick_def RESIDUAL_BNOT_def to_int_def guarded_int_def rd_unary_Some norm_value_eq residual_store_def based_eq split: if_splits option.splits)+

lemma not_replays:
  "replayed_leaf lua55_learn_not lua55_residual_not_falsy (coded 1)" "replayed_leaf lua55_learn_not lua55_residual_not_truthy (coded 2)"
  unfolding learn_not_shape lua55_residual_not_falsy_def lua55_residual_not_truthy_def
  by (rule unary_replays; force simp: not_pick_def RESIDUAL_NOT_def falsy_def rd_unary_Some norm_value_eq based_eq split: if_splits)+

text \<open>The length of a long string is replayed when LEN does not work in place.\<close>

definition len_apart :: "v1_holes \<Rightarrow> bool" where
  "len_apart h \<longleftrightarrow> q_target h \<noteq> q_source h"

lemma len_short_replays: "replayed_leaf lua55_learn_len lua55_residual_len_shrt (coded 1)"
  unfolding learn_len_shape lua55_residual_len_shrt_def
  by (rule unary_replays; force simp: len_pick_def RESIDUAL_LEN_STRING_def rd_unary_Some norm_value_eq lengths_alike(1)
      residual_store_def based_eq bind_eq_Some_conv split: if_splits)

lemma len_long_replays: "replayed_leaf lua55_learn_len lua55_residual_len_lng (coded_if len_apart 2)"
  unfolding learn_len_shape lua55_residual_len_lng_def
  by (rule unary_replays_if; force simp: len_pick_def len_apart_def RESIDUAL_LEN_STRING_def rd_unary_Some norm_value_eq lengths_alike(1)
      residual_store_def based_eq bind_eq_Some_conv split: if_splits)

lemma len_table_replays: "replayed_leaf lua55_learn_len lua55_residual_len_table (coded 3)"
  unfolding learn_len_shape
proof (rule unary_replays)
  fix h f s s' t v w hp e
  assume h: "based h" and al: "alike s s'" and vw: "norm_value v = norm_value w" and w: "rd_unary h f s' = Some (t, w, hp)"
    and pick: "len_pick h (t, v, hp) s = Some (Accept e (q_quote_base h OR 3))"
  from pick h obtain n where ok: "learn_len_table hp v (mem s) = Some True" "len_after t (payload v) (mem s) = Some n" and e: "e = Puts t (int_val n)"
    by (auto simp: len_pick_def based_eq bind_eq_Some_conv split: if_splits)
  from ok(1) have "tag v = LUA55_VALUE_TABLE" by (auto simp: learn_len_table_def Let_def split: if_splits)
  then have "payload w = payload v" using vw by (simp add: norm_value_eq)
  then show "lua55_residual_len_table h f s' = perform lua55_residual_next e f s' \<and> like_effect e e"
    using w e ok lengths_alike(2) [OF al vw, of hp]
    by (auto simp: lua55_residual_len_table_def rd_unary_Some put_table_len_store len_after_alike [OF al])
qed simp_all

definition v1_unary_bank :: "v1_row list" where
  "v1_unary_bank =
    [(lua55_learn_unm, lua55_residual_unm_int, coded 1),
     (lua55_learn_unm, lua55_residual_unm_flt, coded 2),
     (lua55_learn_bnot, lua55_residual_bnot_int, coded 1),
     (lua55_learn_bnot, lua55_residual_bnot_flt, coded 2),
     (lua55_learn_not, lua55_residual_not_falsy, coded 1),
     (lua55_learn_not, lua55_residual_not_truthy, coded 2),
     (lua55_learn_len, lua55_residual_len_shrt, coded 1),
     (lua55_learn_len, lua55_residual_len_lng, coded_if len_apart 2),
     (lua55_learn_len, lua55_residual_len_table, coded 3)]"

lemma unary_bank_replays: "list_all replays v1_unary_bank"
  by (simp add: v1_unary_bank_def replays_def unm_replays bnot_replays not_replays len_short_replays len_long_replays len_table_replays)

end
