(* ===== verification/Loops.thy ===== *)
theory Loops
  imports Arithmetic
begin

text \<open>
  Numeric \<open>for\<close> (opcodes 73 and 74): the learners, the residual leaves for the integer and the
  float protocol and each sign of the step, and how often a loop runs.

  The three control cells \<open>base[0..2]\<close> hold init, limit and step before \<open>FORPREP\<close>, and count (or
  limit), step and index after it. The learners, and the \<open>FORLOOP\<close> leaves after their tag guard,
  are modelled as reading the three cells together.
\<close>

subsection \<open>Preparation and iteration: learners\<close>

definition jump_to :: "u64 \<Rightarrow> u64 \<Rightarrow> v2_state \<Rightarrow> (control \<times> v2_state) option" where
  "jump_to e f s = Some (Jump e f, s)"

definition wr_payload :: "u64 \<Rightarrow> u64 \<Rightarrow> v2_state \<Rightarrow> v2_state option" where
  "wr_payload a p s = do {v \<leftarrow> rd_val a s; wr_val a (v\<lparr>payload := p\<rparr>) s}"

definition for_control :: "u64 \<Rightarrow> v2_state \<Rightarrow> (lua_value \<times> lua_value \<times> lua_value) option" where
  "for_control base s = do {
     init \<leftarrow> rd_val base s;
     limit \<leftarrow> rd_val (base + 16) s;
     step \<leftarrow> rd_val (base + 32) s;
     Some (init, limit, step)}"

definition for_ops :: "holes \<Rightarrow> u64 \<Rightarrow> v2_state \<Rightarrow> (u64 \<times> lua_value \<times> lua_value \<times> lua_value) option" where
  "for_ops h f s = do {
     base \<leftarrow> V2_VALUE_DISP (h_base_disp h) f s;
     (x, y, z) \<leftarrow> for_control base s;
     Some (base, x, y, z)}"

definition is_number :: "lua_value \<Rightarrow> bool" where
  "is_number v \<longleftrightarrow> tag v = LUA55_VALUE_INTEGER \<or> tag v = LUA55_VALUE_FLOAT"

definition all_int :: "lua_value \<Rightarrow> lua_value \<Rightarrow> lua_value \<Rightarrow> bool" where
  "all_int init limit step \<longleftrightarrow> tag init = LUA55_VALUE_INTEGER \<and> tag limit = LUA55_VALUE_INTEGER \<and>
     tag step = LUA55_VALUE_INTEGER"

definition as_double :: "lua_value \<Rightarrow> dbl" where
  "as_double v = (if tag v = LUA55_VALUE_INTEGER then c_double (payload v) else payload v)"

definition step_sign :: "lua_value \<Rightarrow> u32" where
  "step_sign step =
     (if tag step = LUA55_VALUE_INTEGER then (if 0 <s payload step then 0 else 1)
      else if tag step = LUA55_VALUE_FLOAT then (if dbl_lt 0 (payload step) then 0 else 1)
      else 0)"

definition put_control :: "(u64 \<Rightarrow> u64 \<Rightarrow> v2_state \<Rightarrow> v2_state option) \<Rightarrow> u64 \<Rightarrow> u64 \<Rightarrow> u64 \<Rightarrow> u64 \<Rightarrow> v2_state \<Rightarrow> v2_state option" where
  "put_control wr base x y z s = do {
     s \<leftarrow> wr base x s;
     s \<leftarrow> wr (base + 16) y s;
     wr (base + 32) z s}"

definition for_skips :: "bool \<Rightarrow> u64 \<Rightarrow> u64 \<Rightarrow> bool" where
  "for_skips pos iv lv \<longleftrightarrow> (if pos then lv <s iv else iv <s lv)"

definition for_count :: "bool \<Rightarrow> u64 \<Rightarrow> u64 \<Rightarrow> u64 \<Rightarrow> u64" where
  "for_count pos iv lv sv =
     (let distance = (if pos then lv - iv else iv - lv); stride = (if pos then sv else 0 - sv)
      in distance div stride)"

definition forprep_int :: "u64 \<Rightarrow> u64 \<Rightarrow> u64 \<Rightarrow> u64 \<Rightarrow> stencil" where
  "forprep_int base iv lv sv h f s =
     (if sv = 0 then reject_exit LUA55_V2_REJECT_STEP_ZERO h f s
      else if (0 <s sv \<and> lv <s iv) \<or> (sv <s 0 \<and> iv <s lv) then jump_to (h_skip h) f s
      else do {
        s \<leftarrow> put_control wr_int base (for_count (0 <s sv) iv lv sv) sv iv s;
        jump_to (h_body h) f s})"

definition forprep_flt :: "u64 \<Rightarrow> dbl \<Rightarrow> dbl \<Rightarrow> dbl \<Rightarrow> stencil" where
  "forprep_flt base iv lv sv h f s =
     (if dbl_eq sv 0 then reject_exit LUA55_V2_REJECT_STEP_ZERO h f s
      else if (dbl_lt 0 sv \<and> dbl_lt lv iv) \<or> (dbl_lt sv 0 \<and> dbl_lt iv lv) then jump_to (h_skip h) f s
      else do {
        s \<leftarrow> put_control wr_flt base lv sv iv s;
        jump_to (h_body h) f s})"

text \<open>What the learners record, and the work they do on the cells they read.\<close>

definition forprep_shape :: "u64 \<times> lua_value \<times> lua_value \<times> lua_value \<Rightarrow> u32 \<times> u32" where
  "forprep_shape x = (case x of (base, init, limit, step) \<Rightarrow>
     (if all_int init limit step then LUA55_VALUE_INTEGER else LUA55_VALUE_FLOAT, step_sign step))"

definition forprep_work :: "u64 \<times> lua_value \<times> lua_value \<times> lua_value \<Rightarrow> stencil" where
  "forprep_work x h f s = (case x of (base, init, limit, step) \<Rightarrow>
     if all_int init limit step then forprep_int base (payload init) (payload limit) (payload step) h f s
     else if is_number init \<and> is_number limit \<and> is_number step
     then forprep_flt base (as_double init) (as_double limit) (as_double step) h f s
     else reject_exit LUA55_V2_REJECT_UNSUPPORTED_OPCODE h f s)"

definition lua55_v2l_forprep :: stencil where
  "lua55_v2l_forprep h f s = do {
     x \<leftarrow> for_ops h f s;
     s \<leftarrow> v2_learn_pair (h_occ_slot h) (fst (forprep_shape x)) (snd (forprep_shape x)) s;
     forprep_work x h f s}"

definition forloop_int :: "u64 \<Rightarrow> u64 \<Rightarrow> u64 \<Rightarrow> u64 \<Rightarrow> stencil" where
  "forloop_int base count sv idx h f s =
     (if 0 <s count then do {
        s \<leftarrow> wr_payload base (count - 1) s;
        s \<leftarrow> wr_payload (base + 32) (v2_int_add idx sv) s;
        jump_to (h_link h) f s}
      else jump_to (h_fall h) f s)"

definition forloop_flt :: "(dbl \<Rightarrow> dbl \<Rightarrow> bool) \<Rightarrow> u64 \<Rightarrow> dbl \<Rightarrow> dbl \<Rightarrow> dbl \<Rightarrow> stencil" where
  "forloop_flt goes_on base lv sv i h f s =
     (let idx = dbl_add i sv in
      if goes_on idx lv then do {
        s \<leftarrow> wr_payload (base + 32) idx s;
        jump_to (h_link h) f s}
      else jump_to (h_fall h) f s)"

definition flt_goes_on :: "dbl \<Rightarrow> dbl \<Rightarrow> dbl \<Rightarrow> bool" where
  "flt_goes_on sv idx lv \<longleftrightarrow> (dbl_lt 0 sv \<and> dbl_le idx lv) \<or> (dbl_lt sv 0 \<and> dbl_le lv idx)"

definition forloop_shape :: "u64 \<times> lua_value \<times> lua_value \<times> lua_value \<Rightarrow> u32 \<times> u32" where
  "forloop_shape x = (case x of (base, count, step, idx) \<Rightarrow> (tag step, step_sign step))"

definition forloop_work :: "u64 \<times> lua_value \<times> lua_value \<times> lua_value \<Rightarrow> stencil" where
  "forloop_work x h f s = (case x of (base, count, step, idx) \<Rightarrow>
     if tag step = LUA55_VALUE_INTEGER then forloop_int base (payload count) (payload step) (payload idx) h f s
     else forloop_flt (flt_goes_on (payload step)) base (payload count) (payload step) (payload idx) h f s)"

definition lua55_v2l_forloop :: stencil where
  "lua55_v2l_forloop h f s = do {
     x \<leftarrow> for_ops h f s;
     s \<leftarrow> v2_learn_pair (h_occ_slot h) (fst (forloop_shape x)) (snd (forloop_shape x)) s;
     forloop_work x h f s}"

subsection \<open>Preparation and iteration: leaves\<close>

definition V2_FORPREP_INT :: "bool \<Rightarrow> stencil" where
  "V2_FORPREP_INT pos h f s = do {
     base \<leftarrow> V2_VALUE_DISP (h_base_disp h) f s;
     init \<leftarrow> rd_val base s;
     V2_LEAF_GUARD init LUA55_VALUE_INTEGER (\<lambda>h f s. do {
     limit \<leftarrow> rd_val (base + 16) s;
     V2_LEAF_GUARD limit LUA55_VALUE_INTEGER (\<lambda>h f s. do {
     step \<leftarrow> rd_val (base + 32) s;
     V2_LEAF_GUARD step LUA55_VALUE_INTEGER (\<lambda>h f s.
       let iv = payload init; lv = payload limit; sv = payload step in
       if (if pos then sv \<le>s 0 else 0 \<le>s sv) then mismatch LUA55_VALUE_INTEGER 0 h f s
       else if sv = 0 then reject_exit LUA55_V2_REJECT_STEP_ZERO h f s
       else if for_skips pos iv lv then jump_to (h_skip h) f s
       else do {
         s \<leftarrow> put_control wr_int base (for_count pos iv lv sv) sv iv s;
         jump_to (h_body h) f s}) h f s}) h f s}) h f s}"

definition lua55_v2r_forprep_int_pos :: stencil where
  "lua55_v2r_forprep_int_pos = V2_FORPREP_INT True"

definition lua55_v2r_forprep_int_neg :: stencil where
  "lua55_v2r_forprep_int_neg = V2_FORPREP_INT False"

definition number_guard :: "lua_value \<Rightarrow> stencil \<Rightarrow> stencil" where
  "number_guard v k h f s = (if \<not> is_number v then mismatch LUA55_VALUE_FLOAT (tag v) h f s else k h f s)"

definition V2_FORPREP_FLT :: "bool \<Rightarrow> stencil" where
  "V2_FORPREP_FLT pos h f s = do {
     base \<leftarrow> V2_VALUE_DISP (h_base_disp h) f s;
     init \<leftarrow> rd_val base s;
     number_guard init (\<lambda>h f s. do {
     limit \<leftarrow> rd_val (base + 16) s;
     number_guard limit (\<lambda>h f s. do {
     step \<leftarrow> rd_val (base + 32) s;
     number_guard step (\<lambda>h f s.
       if all_int init limit step then mismatch LUA55_VALUE_FLOAT LUA55_VALUE_INTEGER h f s
       else let iv = as_double init; lv = as_double limit; sv = as_double step in
       if (if pos then dbl_le sv 0 else dbl_le 0 sv) then mismatch LUA55_VALUE_FLOAT 0 h f s
       else if dbl_eq sv 0 then reject_exit LUA55_V2_REJECT_STEP_ZERO h f s
       else if (if pos then dbl_lt lv iv else dbl_lt iv lv) then jump_to (h_skip h) f s
       else do {
         s \<leftarrow> put_control wr_flt base lv sv iv s;
         jump_to (h_body h) f s}) h f s}) h f s}) h f s}"

definition lua55_v2r_forprep_flt_pos :: stencil where
  "lua55_v2r_forprep_flt_pos = V2_FORPREP_FLT True"

definition lua55_v2r_forprep_flt_neg :: stencil where
  "lua55_v2r_forprep_flt_neg = V2_FORPREP_FLT False"

definition lua55_v2r_forloop_int :: stencil where
  "lua55_v2r_forloop_int h f s = do {
     base \<leftarrow> V2_VALUE_DISP (h_base_disp h) f s;
     step \<leftarrow> rd_val (base + 16) s;
     V2_LEAF_GUARD step LUA55_VALUE_INTEGER (\<lambda>h f s. do {
       (count, step, idx) \<leftarrow> for_control base s;
       forloop_int base (payload count) (payload step) (payload idx) h f s}) h f s}"

definition V2_FORLOOP_FLT :: "bool \<Rightarrow> stencil" where
  "V2_FORLOOP_FLT pos h f s = do {
     base \<leftarrow> V2_VALUE_DISP (h_base_disp h) f s;
     step \<leftarrow> rd_val (base + 16) s;
     V2_LEAF_GUARD step LUA55_VALUE_FLOAT (\<lambda>h f s. do {
       (limit, step, idx) \<leftarrow> for_control base s;
       let sv = payload step;
       if (if pos then dbl_le sv 0 else dbl_le 0 sv) then mismatch LUA55_VALUE_FLOAT 0 h f s
       else forloop_flt (\<lambda>idx lv. if pos then dbl_le idx lv else dbl_le lv idx)
         base (payload limit) sv (payload idx) h f s}) h f s}"

definition lua55_v2r_forloop_flt_pos :: stencil where
  "lua55_v2r_forloop_flt_pos = V2_FORLOOP_FLT True"

definition lua55_v2r_forloop_flt_neg :: stencil where
  "lua55_v2r_forloop_flt_neg = V2_FORLOOP_FLT False"

subsection \<open>The leaves meet their contract\<close>

definition prep_linked :: "holes \<Rightarrow> bool" where
  "prep_linked h \<longleftrightarrow> h_skip h \<noteq> h_mismatch_exit h \<and> h_body h \<noteq> h_mismatch_exit h"

definition loop_linked :: "holes \<Rightarrow> bool" where
  "loop_linked h \<longleftrightarrow> h_link h \<noteq> h_mismatch_exit h \<and> h_fall h \<noteq> h_mismatch_exit h"

definition int_step :: "bool \<Rightarrow> holes \<Rightarrow> u64 \<times> lua_value \<times> lua_value \<times> lua_value \<Rightarrow> bool" where
  "int_step pos h x = (case x of (base, init, limit, step) \<Rightarrow>
     all_int init limit step \<and> (if pos then 0 <s payload step else payload step <s 0))"

definition loop_int :: "holes \<Rightarrow> u64 \<times> lua_value \<times> lua_value \<times> lua_value \<Rightarrow> bool" where
  "loop_int h x = (case x of (base, count, step, idx) \<Rightarrow> tag step = LUA55_VALUE_INTEGER)"

definition loop_flt :: "bool \<Rightarrow> holes \<Rightarrow> u64 \<times> lua_value \<times> lua_value \<times> lua_value \<Rightarrow> bool" where
  "loop_flt pos h x = (case x of (base, limit, step, idx) \<Rightarrow>
     tag step = LUA55_VALUE_FLOAT \<and> \<not> (if pos then dbl_le (payload step) 0 else dbl_le 0 (payload step)))"

lemma for_ops_forget: "for_ops h f (forget s) = for_ops h f s"
  by (simp add: for_ops_def for_control_def rd_val_def)

lemma forgetful_jump [v2_blind]: "forgetful (jump_to e f)"
  by (simp add: forgetful_def jump_to_def)

lemma blind_payload [v2_blind]: "blind (wr_payload a p)"
  by (simp add: blind_def wr_payload_def wr_val_def rd_val_def split: Option.bind_splits)

lemma blind_control [v2_blind]:
  "blind (put_control wr_int base x y z)" "blind (put_control wr_flt base x y z)"
  unfolding put_control_def [abs_def] by (intro v2_blind)+

lemma forprep_int_forgetful: "forgetful (forprep_int base iv lv sv h f)"
  unfolding forprep_int_def [abs_def] by (intro v2_blind)

lemma forloop_forgetful:
  "forgetful (forloop_int base count sv idx h f)" "forgetful (forloop_flt g base lv fsv i h f)"
  unfolding forloop_int_def [abs_def] forloop_flt_def [abs_def] Let_def by (intro v2_blind)+

lemma jump_not_mismatch: "e \<noteq> h_mismatch_exit h \<Longrightarrow> jump_to e f s = Some r \<Longrightarrow> \<not> mismatch_exit h f s' r"
  by (auto simp: jump_to_def mismatch_exit_def v2_defs)

lemma reject_not_mismatch: "reject_exit k h f s = Some r \<Longrightarrow> \<not> mismatch_exit h f s' r"
  by (auto simp: mismatch_exit_def v2_defs)

lemma sless_zero: "sv <s (0 :: u64) \<longleftrightarrow> sv \<noteq> 0 \<and> \<not> 0 <s sv"
  by (simp add: word_sless_alt) (metis linorder_neqE_linordered_idom order_less_asym signed_0 signed_word_eqI)

lemma sle_zero: "(0 :: u64) \<le>s sv \<longleftrightarrow> \<not> sv <s 0" "sv \<le>s (0 :: u64) \<longleftrightarrow> \<not> 0 <s sv"
  by (auto simp: word_sle_eq word_sless_alt)

lemma control_read:
  "for_ops h f s = Some (base, x, y, z) \<longleftrightarrow> V2_VALUE_DISP (h_base_disp h) f s = Some base \<and>
     vals s base = Some x \<and> vals s (base + 16) = Some y \<and> vals s (base + 32) = Some z"
  by (auto simp: for_ops_def for_control_def rd_val_def bind_eq_Some_conv)

lemma forprep_int_refines:
  "residual_leaf lua55_v2l_forprep (V2_FORPREP_INT pos) (accepted for_ops (int_step pos)) prep_linked"
proof (rule observed_refines [where slot = h_occ_slot and obs = "\<lambda>x. observe_pair (forprep_shape x)"
      and lbody = forprep_work])
  fix h f s r and x :: "u64 \<times> lua_value \<times> lua_value \<times> lua_value"
  show "lua55_v2l_forprep h f s = do {x \<leftarrow> for_ops h f s;
      s \<leftarrow> learn_at (h_occ_slot h) (observe_pair (forprep_shape x)) s; forprep_work x h f s}"
    by (simp add: lua55_v2l_forprep_def v2_learn_pair_def)
  show "for_ops h f (forget s) = for_ops h f s" by (rule for_ops_forget)
  obtain base i l st where x: "x = (base, i, l, st)" by (cases x)
  assume p: "prep_linked h"
  show "V2_FORPREP_INT pos h f s = forprep_work x h f s" if "for_ops h f s = Some x" "int_step pos h x"
    using that x
    by (auto simp: control_read int_step_def all_int_def forprep_work_def V2_FORPREP_INT_def rd_val_def
        V2_LEAF_GUARD_def forprep_int_def sle_zero sless_zero for_skips_def Let_def split: if_splits)
  show "\<exists>e ob. V2_FORPREP_INT pos h f s = mismatch e ob h f s" if "for_ops h f s = Some x" "\<not> int_step pos h x"
    using that x
    by (auto simp: control_read int_step_def all_int_def V2_FORPREP_INT_def rd_val_def
        V2_LEAF_GUARD_def sle_zero Let_def split: if_splits)
  show "mismatch_exit h f s r" if "for_ops h f s = None" "V2_FORPREP_INT pos h f s = Some r"
    using that
    by (auto simp: for_ops_def for_control_def V2_FORPREP_INT_def V2_LEAF_GUARD_def bind_eq_None_conv
        bind_eq_Some_conv split: if_splits intro: mismatch_is_exit)
  show "forgetful (forprep_work x h f)" if "int_step pos h x"
    using that x forprep_int_forgetful [of base "payload i" "payload l" "payload st" h f]
    by (simp add: forprep_work_def [abs_def] int_step_def)
  show "\<not> mismatch_exit h f s r" if "int_step pos h x" "forprep_work x h f s = Some r"
    using that x p
    by (auto simp: forprep_work_def int_step_def forprep_int_def prep_linked_def bind_eq_Some_conv
        dest: jump_not_mismatch reject_not_mismatch split: if_splits)
qed

lemma nan_not_ordered [simp]: "dbl_isnan x \<Longrightarrow> \<not> dbl_le x y" "dbl_isnan y \<Longrightarrow> \<not> dbl_le x y"
  by (simp_all add: dbl_le_def)

lemma dbl_add_nan [simp]: "dbl_isnan y \<Longrightarrow> dbl_isnan (dbl_add x y)"
  by (simp add: dbl_add_def dbl_nan_def dbl_isnan_def dbl_mag_def inf_mag_def)

lemma signed_step:
  assumes "\<not> (if pos then dbl_le sv 0 else dbl_le 0 sv)"
  shows "flt_goes_on sv (dbl_add i sv) lv \<longleftrightarrow> (if pos then dbl_le (dbl_add i sv) lv else dbl_le lv (dbl_add i sv))"
proof (cases "dbl_isnan sv")
  case True
  then show ?thesis by (simp add: flt_goes_on_def dbl_lt_def)
next
  case False
  with assms show ?thesis by (auto simp: flt_goes_on_def dbl_lt_def dbl_le_def split: if_splits)
qed

lemma forloop_stays:
  assumes "loop_linked h" and "forloop_work x h f s = Some r"
  shows "\<not> mismatch_exit h f s r"
  using assms
  by (auto simp: forloop_work_def forloop_int_def forloop_flt_def loop_linked_def bind_eq_Some_conv Let_def
      dest: jump_not_mismatch split: if_splits prod.splits)

lemma forloop_work_forgetful: "forgetful (forloop_work x h f)"
  by (cases x) (simp add: forloop_work_def [abs_def] forloop_forgetful forgetful_if)

lemma forloop_leaf_refines:
  assumes works: "\<And>h f s x. for_ops h f s = Some x \<Longrightarrow> ok h x \<Longrightarrow> leaf h f s = forloop_work x h f s"
    and refuses: "\<And>h f s x. for_ops h f s = Some x \<Longrightarrow> \<not> ok h x \<Longrightarrow> \<exists>e ob. leaf h f s = mismatch e ob h f s"
    and undefined: "\<And>h f s r. for_ops h f s = None \<Longrightarrow> leaf h f s = Some r \<Longrightarrow> mismatch_exit h f s r"
  shows "residual_leaf lua55_v2l_forloop leaf (accepted for_ops ok) loop_linked"
  by (rule observed_refines [where slot = h_occ_slot and obs = "\<lambda>x. observe_pair (forloop_shape x)"
        and lbody = forloop_work])
    (simp_all add: lua55_v2l_forloop_def v2_learn_pair_def for_ops_forget works refuses undefined
      forloop_work_forgetful forloop_stays)

lemma forloop_int_refines: "residual_leaf lua55_v2l_forloop lua55_v2r_forloop_int (accepted for_ops loop_int) loop_linked"
proof (rule forloop_leaf_refines)
  fix h f s r and x :: "u64 \<times> lua_value \<times> lua_value \<times> lua_value"
  obtain base i l st where x: "x = (base, i, l, st)" by (cases x)
  show "lua55_v2r_forloop_int h f s = forloop_work x h f s" if "for_ops h f s = Some x" "loop_int h x"
    using that x
    by (auto simp: control_read loop_int_def forloop_work_def lua55_v2r_forloop_int_def for_control_def rd_val_def
        V2_LEAF_GUARD_def)
  show "\<exists>e ob. lua55_v2r_forloop_int h f s = mismatch e ob h f s" if "for_ops h f s = Some x" "\<not> loop_int h x"
    using that x by (auto simp: control_read loop_int_def lua55_v2r_forloop_int_def rd_val_def V2_LEAF_GUARD_def)
  show "mismatch_exit h f s r" if "for_ops h f s = None" "lua55_v2r_forloop_int h f s = Some r"
    using that
    by (auto simp: for_ops_def for_control_def lua55_v2r_forloop_int_def V2_LEAF_GUARD_def bind_eq_None_conv
        bind_eq_Some_conv split: if_splits intro: mismatch_is_exit)
qed

lemma forloop_flt_refines:
  "residual_leaf lua55_v2l_forloop (V2_FORLOOP_FLT pos) (accepted for_ops (loop_flt pos)) loop_linked"
proof (rule forloop_leaf_refines)
  fix h f s r and x :: "u64 \<times> lua_value \<times> lua_value \<times> lua_value"
  obtain base i l st where x: "x = (base, i, l, st)" by (cases x)
  show "V2_FORLOOP_FLT pos h f s = forloop_work x h f s" if "for_ops h f s = Some x" "loop_flt pos h x"
    using that x signed_step [of pos "payload l" "payload st" "payload i"]
    by (auto simp: control_read loop_flt_def forloop_work_def V2_FORLOOP_FLT_def for_control_def rd_val_def
        V2_LEAF_GUARD_def forloop_flt_def Let_def split del: if_split)
  show "\<exists>e ob. V2_FORLOOP_FLT pos h f s = mismatch e ob h f s" if "for_ops h f s = Some x" "\<not> loop_flt pos h x"
    using that x
    by (auto simp: control_read loop_flt_def V2_FORLOOP_FLT_def for_control_def rd_val_def V2_LEAF_GUARD_def
        Let_def split: if_splits)
  show "mismatch_exit h f s r" if "for_ops h f s = None" "V2_FORLOOP_FLT pos h f s = Some r"
    using that
    by (auto simp: for_ops_def for_control_def V2_FORLOOP_FLT_def V2_LEAF_GUARD_def bind_eq_None_conv
        bind_eq_Some_conv split: if_splits intro: mismatch_is_exit)
qed

definition loop_bank :: "((stencil \<times> stencil) \<times> (holes \<Rightarrow> u64 \<Rightarrow> v2_state \<Rightarrow> bool) \<times> (holes \<Rightarrow> bool)) list" where
  "loop_bank = [
     ((lua55_v2l_forprep, lua55_v2r_forprep_int_pos), accepted for_ops (int_step True), prep_linked),
     ((lua55_v2l_forprep, lua55_v2r_forprep_int_neg), accepted for_ops (int_step False), prep_linked),
     ((lua55_v2l_forloop, lua55_v2r_forloop_int), accepted for_ops loop_int, loop_linked),
     ((lua55_v2l_forloop, lua55_v2r_forloop_flt_pos), accepted for_ops (loop_flt True), loop_linked),
     ((lua55_v2l_forloop, lua55_v2r_forloop_flt_neg), accepted for_ops (loop_flt False), loop_linked)]"

lemma loop_bank_refines: "((l, r), q, p) \<in> set loop_bank \<Longrightarrow> residual_leaf l r q p"
  using forprep_int_refines forloop_int_refines forloop_flt_refines
  by (auto simp: loop_bank_def lua55_v2r_forprep_int_pos_def lua55_v2r_forprep_int_neg_def
      lua55_v2r_forloop_flt_pos_def lua55_v2r_forloop_flt_neg_def)

subsection \<open>How often an integer loop runs\<close>

text \<open>The number of iterations after the first, over the integers.\<close>

definition for_trips :: "int \<Rightarrow> int \<Rightarrow> int \<Rightarrow> nat" where
  "for_trips iv lv sv = (if 0 < sv then nat ((lv - iv) div sv) else nat ((iv - lv) div (- sv)))"

lemma unat_diff_sint:
  assumes "sint (a :: u64) \<le> sint b"
  shows "unat (b - a) = nat (sint b - sint a)"
proof -
  have "b - a = word_of_int (sint b - sint a)" by simp
  then have "uint (b - a) = (sint b - sint a) mod 2 ^ 64" by (simp only: uint_word_of_int) simp
  moreover have "0 \<le> sint b - sint a" "sint b - sint a < 2 ^ 64"
    using assms sint_less_63 [of b] sint_ge_63 [of a] by simp_all
  ultimately have "uint (b - a) = sint b - sint a" by simp
  then show ?thesis by (metis unat_eq_nat_uint)
qed

lemma unat_pos: "0 \<le> sint (a :: u64) \<Longrightarrow> unat a = nat (sint a)"
  using unat_diff_sint [of 0 a] by simp

lemma unat_neg: "sint (a :: u64) \<le> 0 \<Longrightarrow> unat (0 - a) = nat (- sint a)"
  using unat_diff_sint [of a 0] by simp

lemma for_count_trips:
  assumes "if pos then 0 < sint sv else sint sv < 0" and "\<not> for_skips pos iv lv"
  shows "unat (for_count pos iv lv sv) = for_trips (sint iv) (sint lv) (sint sv)"
proof (cases pos)
  case True
  with assms have "sint iv \<le> sint lv" "0 < sint sv" by (auto simp: for_skips_def word_sless_alt)
  then show ?thesis
    using True by (simp add: for_count_def for_trips_def unat_div unat_diff_sint unat_pos nat_div_distrib)
next
  case False
  with assms have "sint lv \<le> sint iv" "sint sv < 0" by (auto simp: for_skips_def word_sless_alt)
  then show ?thesis
    using False unat_neg [of sv] by (simp add: for_count_def for_trips_def unat_div unat_diff_sint nat_div_distrib)
qed

text \<open>The values the index goes through stay within the limit, and the next one passes it.\<close>

lemma for_trips_up:
  assumes "0 < sv" and "iv \<le> lv"
  shows "k \<le> for_trips iv lv sv \<longleftrightarrow> iv + int k * sv \<le> lv"
proof -
  have "k \<le> for_trips iv lv sv \<longleftrightarrow> int k \<le> (lv - iv) div sv"
    using assms by (simp add: for_trips_def le_nat_iff pos_imp_zdiv_nonneg_iff)
  also have "\<dots> \<longleftrightarrow> int k * sv \<le> lv - iv"
  proof
    assume "int k \<le> (lv - iv) div sv"
    then have "int k * sv \<le> (lv - iv) div sv * sv" using assms(1) by (simp add: mult_right_mono)
    also have "\<dots> \<le> lv - iv"
      using assms(1) by (metis diff_ge_0_iff_ge minus_div_mult_eq_mod pos_mod_sign)
    finally show "int k * sv \<le> lv - iv" .
  next
    assume "int k * sv \<le> lv - iv"
    from zdiv_mono1 [OF this assms(1)] show "int k \<le> (lv - iv) div sv" using assms(1) by simp
  qed
  finally show ?thesis by linarith
qed

lemma for_trips_down:
  assumes "sv < 0" and "lv \<le> iv"
  shows "k \<le> for_trips iv lv sv \<longleftrightarrow> lv \<le> iv + int k * sv"
proof -
  have "for_trips iv lv sv = for_trips (- iv) (- lv) (- sv)" using assms(1) by (simp add: for_trips_def)
  then show ?thesis using for_trips_up [of "- sv" "- iv" "- lv" k] assms by auto
qed

subsection \<open>Running a loop\<close>

text \<open>
  The cycle of a loop: the body at index \<open>idx\<close>, then \<open>FORLOOP\<close>, back to the body while it links. The
  result is the list of indices the body ran with; \<open>None\<close> when the bound is reached first.
\<close>

fun for_run :: "stencil \<Rightarrow> (v2_state \<Rightarrow> v2_state option) \<Rightarrow> holes \<Rightarrow> u64 \<Rightarrow> u64 \<Rightarrow> nat \<Rightarrow> v2_state \<Rightarrow>
    (u64 list \<times> v2_state) option" where
  "for_run loop body h f base 0 s = None"
| "for_run loop body h f base (Suc n) s = do {
     idx \<leftarrow> rd_val (base + 32) s;
     s \<leftarrow> body s;
     (c, s) \<leftarrow> loop h f s;
     if c = Jump (h_link h) f then do {(is, s) \<leftarrow> for_run loop body h f base n s; Some (payload idx # is, s)}
     else if c = Jump (h_fall h) f then Some ([payload idx], s)
     else None}"

text \<open>A body that always ends and leaves the frame and the control cells alone.\<close>

definition loop_body :: "(v2_state \<Rightarrow> bool) \<Rightarrow> (v2_state \<Rightarrow> v2_state option) \<Rightarrow> u64 \<Rightarrow> u64 \<Rightarrow> bool" where
  "loop_body P body f base \<longleftrightarrow>
     (\<forall>s. P s \<longrightarrow> (\<exists>t. body s = Some t \<and> P t \<and> frames t f = frames s f \<and>
       (\<forall>c\<in>{base, base + 16, base + 32}. vals t c = vals s c))) \<and>
     (\<forall>s x y z. P s \<longrightarrow> P (s\<lparr>vals := (vals s)(base \<mapsto> x, base + 16 \<mapsto> y, base + 32 \<mapsto> z)\<rparr>))"

definition in_control :: "holes \<Rightarrow> u64 \<Rightarrow> u64 \<Rightarrow> lua_value \<Rightarrow> lua_value \<Rightarrow> lua_value \<Rightarrow> v2_state \<Rightarrow> bool" where
  "in_control h f base x y z s \<longleftrightarrow> V2_VALUE_DISP (h_base_disp h) f s = Some base \<and>
     vals s base = Some x \<and> vals s (base + 16) = Some y \<and> vals s (base + 32) = Some z"

lemma loop_body_step:
  assumes "loop_body P body f base" and "P s" and "in_control h f base x y z s"
  obtains t where "body s = Some t" "P t" "in_control h f base x y z t"
  using assms unfolding loop_body_def in_control_def V2_VALUE_DISP_def by fastforce

text \<open>One pass through \<open>FORLOOP\<close> with an integer step.\<close>

lemma forloop_step:
  assumes "in_control h f base x y z s" and "tag y = LUA55_VALUE_INTEGER"
  shows "lua55_v2r_forloop_int h f s =
    (if 0 <s payload x then Some (Jump (h_link h) f, s\<lparr>vals := (vals s)(
        base \<mapsto> x\<lparr>payload := payload x - 1\<rparr>, base + 16 \<mapsto> y, base + 32 \<mapsto> z\<lparr>payload := payload z + payload y\<rparr>)\<rparr>)
     else Some (Jump (h_fall h) f, s))"
proof -
  have "(vals s)(base \<mapsto> x', base + 16 \<mapsto> y, base + 32 \<mapsto> z') = (vals s)(base \<mapsto> x', base + 32 \<mapsto> z')" for x' z'
    using assms(1) by (auto simp: in_control_def fun_eq_iff)
  then show ?thesis
    using assms
    by (simp add: in_control_def lua55_v2r_forloop_int_def V2_LEAF_GUARD_def for_control_def
        forloop_int_def wr_payload_def jump_to_def v2_int_add_def v2_defs)
qed

lemma positive_count: "unat c < 2 ^ 63 \<Longrightarrow> 0 <s c \<longleftrightarrow> 0 < unat (c :: u64)"
proof -
  assume "unat c < 2 ^ 63"
  then have "int (unat c) < 2 ^ 63" by (metis of_nat_less_iff of_nat_numeral of_nat_power)
  then have "uint c < 2 ^ 63" by simp
  moreover have "- (2 ^ 63) \<le> uint c" by (rule order_trans [OF _ uint_ge_0]) simp
  ultimately have "sint c = int (unat c)" using sint_of_int_64 [of "uint c"] by simp
  then show ?thesis by (simp only: word_sless_alt signed_0 of_nat_0_less_iff)
qed

lemma negative_count: "2 ^ 63 \<le> unat c \<Longrightarrow> \<not> 0 <s (c :: u64)"
  using unat_pos [of c] sint_less_63 [of c] by (force simp: word_sless_alt)

lemma for_run_int:
  assumes "loop_body P body f base" and "P s" and "in_control h f base x y z s"
    and "tag y = LUA55_VALUE_INTEGER" and "h_link h \<noteq> h_fall h" and "unat (payload x) = n" and "n < 2 ^ 63"
  shows "\<exists>t. for_run lua55_v2r_forloop_int body h f base (Suc n) s =
      Some (map (\<lambda>k. payload z + word_of_nat k * payload y) [0..<Suc n], t) \<and> P t"
  using assms(2,3,6,7)
proof (induction n arbitrary: s x z)
  case 0
  obtain t where t: "body s = Some t" "P t" "in_control h f base x y z t"
    using loop_body_step [OF assms(1) 0(1,2)] by blast
  have "\<not> 0 <s payload x" using 0(3) positive_count [of "payload x"] by simp
  then show ?case
    using t 0(2) forloop_step [OF t(3) assms(4)] assms(5) by (simp add: in_control_def rd_val_def)
next
  case (Suc n)
  obtain t where t: "body s = Some t" "P t" "in_control h f base x y z t"
    using loop_body_step [OF assms(1) Suc.prems(1,2)] by blast
  let ?x = "x\<lparr>payload := payload x - 1\<rparr>" and ?z = "z\<lparr>payload := payload z + payload y\<rparr>"
  let ?t = "t\<lparr>vals := (vals t)(base \<mapsto> ?x, base + 16 \<mapsto> y, base + 32 \<mapsto> ?z)\<rparr>"
  have "0 <s payload x" using Suc.prems(3,4) positive_count [of "payload x"] by simp
  then have step: "lua55_v2r_forloop_int h f t = Some (Jump (h_link h) f, ?t)"
    using forloop_step [OF t(3) assms(4)] by simp
  have "P ?t" using assms(1) t(2) by (simp add: loop_body_def)
  moreover have "in_control h f base ?x y ?z ?t" using t(3) by (simp add: in_control_def V2_VALUE_DISP_def)
  moreover have "unat (payload ?x) = n" 
    using Suc.prems(3) unat_minus [of 1 "payload x"] by (simp add: word_le_nat_alt)
  ultimately obtain u where u: "for_run lua55_v2r_forloop_int body h f base (Suc n) ?t =
      Some (map (\<lambda>k. payload ?z + word_of_nat k * payload y) [0..<Suc n], u)" "P u"
    using Suc.IH Suc.prems(4) by (metis Suc_lessD)
  have shift: "payload ?z + word_of_nat k * payload y = payload z + word_of_nat (Suc k) * payload y" for k
    by (simp add: algebra_simps)
  have "for_run lua55_v2r_forloop_int body h f base (Suc (Suc n)) s =
      Some (payload z # map (\<lambda>k. payload ?z + word_of_nat k * payload y) [0..<Suc n], u)"
    using t(1) Suc.prems(2) step u(1)
    by (subst for_run.simps) (simp add: in_control_def rd_val_def del: upt_Suc for_run.simps)
  also have "payload z # map (\<lambda>k. payload ?z + word_of_nat k * payload y) [0..<Suc n] =
      map (\<lambda>k. payload z + word_of_nat k * payload y) [0..<Suc (Suc n)]"
    unfolding shift by (subst upt_conv_Cons) (simp_all del: upt_Suc add: map_Suc_upt [symmetric] o_def)
  finally show ?case using u(2) by blast
qed

lemma forprep_enters:
  assumes "in_control h f base init limit step s" and "all_int init limit step"
    and "if pos then 0 <s payload step else payload step <s 0" and "\<not> for_skips pos (payload init) (payload limit)"
  shows "V2_FORPREP_INT pos h f s = Some (Jump (h_body h) f, s\<lparr>vals := (vals s)(
    base \<mapsto> mk_value LUA55_VALUE_INTEGER (for_count pos (payload init) (payload limit) (payload step)),
    base + 16 \<mapsto> mk_value LUA55_VALUE_INTEGER (payload step),
    base + 32 \<mapsto> mk_value LUA55_VALUE_INTEGER (payload init))\<rparr>)"
  using assms
  by (auto simp: in_control_def all_int_def V2_FORPREP_INT_def V2_LEAF_GUARD_def rd_val_def sle_zero sless_zero
      put_control_def wr_int_def wr_val_def jump_to_def Let_def split: if_splits)

lemma progression_sint:
  assumes "- (2 ^ 63) \<le> sint a + int k * sint b" and "sint a + int k * sint b < 2 ^ 63"
  shows "sint (a + word_of_nat k * b :: u64) = sint a + int k * sint b"
proof -
  have "a + word_of_nat k * b = word_of_int (sint a + int k * sint b)" by simp
  then show ?thesis using sint_of_int_64 [OF assms] by simp
qed

text \<open>
  C4. An integer loop runs its body with the right indices. Take integer control cells with a
  step of the leaf's sign and a first index that does not pass the limit. \<open>FORPREP\<close> enters the body
  and, for any body that ends and leaves the control cells alone, \<open>FORLOOP\<close> brings the control
  back until the body has run with exactly the values \<open>init + k * step\<close> that do not pass
  the limit, in order and without wrapping, and then falls through; provided these are at most
  \<open>2 ^ 63\<close>.
\<close>

theorem integer_for_visits:
  assumes "in_control h f base init limit step s" and "all_int init limit step"
    and "if pos then 0 <s payload step else payload step <s 0" and "\<not> for_skips pos (payload init) (payload limit)"
    and "h_link h \<noteq> h_fall h" and "loop_body P body f base" and "P s"
    and "for_trips (sint (payload init)) (sint (payload limit)) (sint (payload step)) < 2 ^ 63"
  shows "\<exists>n s1 is t. V2_FORPREP_INT pos h f s = Some (Jump (h_body h) f, s1) \<and>
    for_run lua55_v2r_forloop_int body h f base (Suc n) s1 = Some (is, t) \<and> P t \<and>
    map sint is = map (\<lambda>k. sint (payload init) + int k * sint (payload step)) [0..<Suc n] \<and>
    (\<forall>k. k \<le> n \<longleftrightarrow> (if pos then sint (payload init) + int k * sint (payload step) \<le> sint (payload limit)
                      else sint (payload limit) \<le> sint (payload init) + int k * sint (payload step)))"
proof -
  let ?i = "payload init" and ?l = "payload limit" and ?s = "payload step"
  let ?n = "for_trips (sint ?i) (sint ?l) (sint ?s)"
  let ?s1 = "s\<lparr>vals := (vals s)(base \<mapsto> mk_value LUA55_VALUE_INTEGER (for_count pos ?i ?l ?s),
    base + 16 \<mapsto> mk_value LUA55_VALUE_INTEGER ?s, base + 32 \<mapsto> mk_value LUA55_VALUE_INTEGER ?i)\<rparr>"
  have sign: "if pos then 0 < sint ?s else sint ?s < 0" using assms(3) by (auto simp: word_sless_alt)
  have order: "if pos then sint ?i \<le> sint ?l else sint ?l \<le> sint ?i"
    using assms(4) by (auto simp: for_skips_def word_sless_alt)
  have range: "k \<le> ?n \<longleftrightarrow> (if pos then sint ?i + int k * sint ?s \<le> sint ?l
      else sint ?l \<le> sint ?i + int k * sint ?s)" for k
    using for_trips_up for_trips_down sign order by (auto split: if_splits)
  have "P ?s1" using assms(6,7) by (simp add: loop_body_def)
  moreover have "in_control h f base (mk_value 3 (for_count pos ?i ?l ?s)) (mk_value 3 ?s) (mk_value 3 ?i) ?s1"
    using assms(1) by (simp add: in_control_def V2_VALUE_DISP_def)
  moreover have "unat (for_count pos ?i ?l ?s) = ?n" using for_count_trips [OF sign assms(4)] .
  ultimately obtain t where t: "for_run lua55_v2r_forloop_int body h f base (Suc ?n) ?s1 =
      Some (map (\<lambda>k. ?i + word_of_nat k * ?s) [0..<Suc ?n], t)" "P t"
    using for_run_int [OF assms(6) _ _ _ assms(5), of ?s1 "mk_value 3 (for_count pos ?i ?l ?s)" "mk_value 3 ?s"
        "mk_value 3 ?i" ?n] assms(8) by (auto simp: mk_value_def)
  have "sint (?i + word_of_nat k * ?s) = sint ?i + int k * sint ?s" if "k \<le> ?n" for k
  proof (rule progression_sint)
    have "if pos then 0 \<le> int k * sint ?s else int k * sint ?s \<le> 0"
      using sign by (auto simp: mult_nonneg_nonpos)
    then have "min (sint ?i) (sint ?l) \<le> sint ?i + int k * sint ?s \<and> sint ?i + int k * sint ?s \<le> max (sint ?i) (sint ?l)"
      using that range [of k] order by (auto split: if_splits simp: min_def max_def)
    then show "- (2 ^ 63) \<le> sint ?i + int k * sint ?s" "sint ?i + int k * sint ?s < 2 ^ 63"
      using sint_less_63 [of ?i] sint_less_63 [of ?l] sint_ge_63 [of ?i] sint_ge_63 [of ?l] by (auto simp: min_def max_def split: if_splits)
  qed
  then have "map sint (map (\<lambda>k. ?i + word_of_nat k * ?s) [0..<Suc ?n]) = map (\<lambda>k. sint ?i + int k * sint ?s) [0..<Suc ?n]"
    by (auto simp del: upt_Suc)
  then show ?thesis using t range forprep_enters [OF assms(1-4)] by blast
qed

text \<open>The loop \<open>for i = 1, 10, 4\<close> with an empty body: it runs with 1, 5 and 9.\<close>

definition for_example :: v2_state where
  "for_example = blank_state\<lparr>frames := [0x100 \<mapsto> blank_frame\<lparr>frame_values := 0x1000\<rparr>],
     vals := [0x1000 \<mapsto> mk_value 3 1, 0x1010 \<mapsto> mk_value 3 10, 0x1020 \<mapsto> mk_value 3 4]\<rparr>"

definition for_example_holes :: holes where
  "for_example_holes = blank_holes\<lparr>h_link := 0x40, h_fall := 0x50\<rparr>"

lemma for_example_trips: "for_trips 1 10 4 = 2"
  by (simp add: for_trips_def)

theorem integer_for_visits_witness:
  "\<exists>n s1 is t. lua55_v2r_forprep_int_pos for_example_holes 0x100 for_example = Some (Jump 0 0x100, s1) \<and>
    for_run lua55_v2r_forloop_int Some for_example_holes 0x100 0x1000 (Suc n) s1 = Some (is, t) \<and>
    map sint is = map (\<lambda>k. 1 + int k * 4) [0..<Suc n]"
proof -
  have "in_control for_example_holes 0x100 0x1000 (mk_value 3 1) (mk_value 3 10) (mk_value 3 4) for_example"
    by (simp add: in_control_def for_example_def for_example_holes_def V2_VALUE_DISP_def)
  moreover have "loop_body (\<lambda>_. True) Some 0x100 0x1000" by (simp add: loop_body_def)
  ultimately show ?thesis
    using integer_for_visits [where h = for_example_holes and f = "0x100" and base = "0x1000" and s = for_example
        and init = "mk_value 3 1" and limit = "mk_value 3 10" and step = "mk_value 3 4" and pos = True
        and P = "\<lambda>_. True" and body = Some]
    by (auto simp: all_int_def mk_value_def for_skips_def word_sless_alt for_example_trips
        for_example_holes_def lua55_v2r_forprep_int_pos_def)
qed

text \<open>
  C12. A loop of more than \<open>2 ^ 63\<close> iterations runs once: the count of \<open>FORPREP\<close> is an unsigned
  number, \<open>FORLOOP\<close> tests it as a signed one and falls through the first time.
\<close>

theorem long_for_runs_once:
  assumes "in_control h f base init limit step s" and "all_int init limit step"
    and "if pos then 0 <s payload step else payload step <s 0" and "\<not> for_skips pos (payload init) (payload limit)"
    and "2 ^ 63 \<le> for_trips (sint (payload init)) (sint (payload limit)) (sint (payload step))"
  shows "\<exists>s1. V2_FORPREP_INT pos h f s = Some (Jump (h_body h) f, s1) \<and>
    lua55_v2r_forloop_int h f s1 = Some (Jump (h_fall h) f, s1)"
proof -
  let ?i = "payload init" and ?l = "payload limit" and ?s = "payload step"
  let ?s1 = "s\<lparr>vals := (vals s)(base \<mapsto> mk_value LUA55_VALUE_INTEGER (for_count pos ?i ?l ?s),
    base + 16 \<mapsto> mk_value LUA55_VALUE_INTEGER ?s, base + 32 \<mapsto> mk_value LUA55_VALUE_INTEGER ?i)\<rparr>"
  have sign: "if pos then 0 < sint ?s else sint ?s < 0" using assms(3) by (auto simp: word_sless_alt)
  have "\<not> 0 <s for_count pos ?i ?l ?s"
    using negative_count for_count_trips [OF sign assms(4)] assms(5) by simp
  moreover have "in_control h f base (mk_value 3 (for_count pos ?i ?l ?s)) (mk_value 3 ?s) (mk_value 3 ?i) ?s1"
    using assms(1) by (simp add: in_control_def V2_VALUE_DISP_def)
  ultimately have "lua55_v2r_forloop_int h f ?s1 = Some (Jump (h_fall h) f, ?s1)"
    using forloop_step [of h f base _ "mk_value 3 ?s" _ ?s1] by (simp add: mk_value_def)
  then show ?thesis using forprep_enters [OF assms(1-4)] by blast
qed

text \<open>The loop \<open>for i = math.mininteger, math.maxinteger\<close>.\<close>

definition long_for_example :: v2_state where
  "long_for_example = for_example\<lparr>vals := [0x1000 \<mapsto> mk_value 3 0x8000000000000000,
     0x1010 \<mapsto> mk_value 3 0x7FFFFFFFFFFFFFFF, 0x1020 \<mapsto> mk_value 3 1]\<rparr>"

theorem long_for_runs_once_witness:
  "\<exists>s1. lua55_v2r_forprep_int_pos for_example_holes 0x100 long_for_example = Some (Jump 0 0x100, s1) \<and>
    lua55_v2r_forloop_int for_example_holes 0x100 s1 = Some (Jump 0x50 0x100, s1)"
proof -
  have "in_control for_example_holes 0x100 0x1000 (mk_value 3 0x8000000000000000)
      (mk_value 3 0x7FFFFFFFFFFFFFFF) (mk_value 3 1) long_for_example"
    by (simp add: in_control_def long_for_example_def for_example_def for_example_holes_def V2_VALUE_DISP_def)
  moreover have "for_trips (sint (0x8000000000000000 :: u64)) (sint (0x7FFFFFFFFFFFFFFF :: u64)) (sint (1 :: u64)) = 2 ^ 64 - 1"
    by (simp add: for_trips_def)
  ultimately show ?thesis
    using long_for_runs_once [where h = for_example_holes and f = "0x100" and base = "0x1000" and s = long_for_example
        and init = "mk_value 3 0x8000000000000000" and limit = "mk_value 3 0x7FFFFFFFFFFFFFFF"
        and step = "mk_value 3 1" and pos = True]
    by (auto simp: all_int_def mk_value_def for_skips_def word_sless_alt for_example_holes_def
        lua55_v2r_forprep_int_pos_def)
qed

text \<open>
  The float leaves of \<open>FORPREP\<close> do what the learner does for every number as the step but a
  NaN: with a NaN step, which the learner records as a step of negative sign, the learner
  enters the body and the leaf selected for that sign skips the loop when init is below limit.
\<close>

theorem forprep_float_leaf:
  "(for_ops h f s = Some (base, init, limit, step) \<and> \<not> all_int init limit step \<and>
     is_number init \<and> is_number limit \<and> is_number step \<and> \<not> dbl_isnan (as_double step) \<and>
     (if pos then dbl_lt 0 (as_double step) else dbl_lt (as_double step) 0) \<longrightarrow>
     V2_FORPREP_FLT pos h f s = forprep_work (base, init, limit, step) h f s) \<and>
   (for_ops h f s = Some (base, init, limit, step) \<and> is_number init \<and> is_number limit \<and>
     tag step = LUA55_VALUE_FLOAT \<and> dbl_isnan (payload step) \<and> dbl_lt (as_double init) (as_double limit) \<longrightarrow>
     forprep_shape (base, init, limit, step) = (LUA55_VALUE_FLOAT, 1) \<and>
     lua55_v2r_forprep_flt_neg h f s = Some (Jump (h_skip h) f, s) \<and>
     (\<exists>t. forprep_work (base, init, limit, step) h f s = Some (Jump (h_body h) f, t)))"
proof -
  have "V2_FORPREP_FLT pos h f s = forprep_work (base, init, limit, step) h f s"
    if "for_ops h f s = Some (base, init, limit, step)" "\<not> all_int init limit step"
      "is_number init" "is_number limit" "is_number step" "\<not> dbl_isnan (as_double step)"
      "if pos then dbl_lt 0 (as_double step) else dbl_lt (as_double step) 0"
    using that
    by (auto simp: control_read V2_FORPREP_FLT_def number_guard_def forprep_work_def forprep_flt_def rd_val_def
        Let_def dbl_lt_def dbl_le_def dbl_eq_def split: if_splits)
  moreover have "forprep_shape (base, init, limit, step) = (LUA55_VALUE_FLOAT, 1) \<and>
      lua55_v2r_forprep_flt_neg h f s = Some (Jump (h_skip h) f, s) \<and>
      (\<exists>t. forprep_work (base, init, limit, step) h f s = Some (Jump (h_body h) f, t))"
    if "for_ops h f s = Some (base, init, limit, step)" "is_number init" "is_number limit"
      "tag step = LUA55_VALUE_FLOAT" "dbl_isnan (payload step)" "dbl_lt (as_double init) (as_double limit)"
    using that
    by (auto simp: control_read V2_FORPREP_FLT_def number_guard_def forprep_work_def forprep_flt_def rd_val_def
        lua55_v2r_forprep_flt_neg_def forprep_shape_def all_int_def is_number_def as_double_def step_sign_def
        put_control_def wr_flt_def wr_val_def jump_to_def Let_def dbl_lt_def dbl_le_def dbl_eq_def)
  ultimately show ?thesis by blast
qed

text \<open>The loop \<open>for i = 1, 10, 0/0\<close>.\<close>

definition nan_for_example :: v2_state where
  "nan_for_example = for_example\<lparr>vals := [0x1000 \<mapsto> mk_value 3 1,
     0x1010 \<mapsto> mk_value 3 10, 0x1020 \<mapsto> mk_value 4 0x7FF8000000000000]\<rparr>"

theorem forprep_float_leaf_witness:
  "lua55_v2r_forprep_flt_neg (blank_holes\<lparr>h_skip := 0x60, h_body := 0x70\<rparr>) 0x100 nan_for_example =
     Some (Jump 0x60 0x100, nan_for_example) \<and>
   (\<exists>t. forprep_work (0x1000, mk_value 3 1, mk_value 3 10, mk_value 4 0x7FF8000000000000)
     (blank_holes\<lparr>h_skip := 0x60, h_body := 0x70\<rparr>) 0x100 nan_for_example = Some (Jump 0x70 0x100, t))"
proof -
  have "dbl_isnan 0x7FF8000000000000" by (simp add: dbl_isnan_def dbl_mag_def inf_mag_def)
  moreover have "for_ops (blank_holes\<lparr>h_skip := 0x60, h_body := 0x70\<rparr>) 0x100 nan_for_example =
      Some (0x1000, mk_value 3 1, mk_value 3 10, mk_value 4 0x7FF8000000000000)"
    by (simp add: control_read nan_for_example_def for_example_def V2_VALUE_DISP_def)
  moreover have "dbl_lt (c_double 1) (c_double 10)"
    by (simp add: dbl_lt_def c_double_def dbl_of_int_small)
  ultimately show ?thesis
    using forprep_float_leaf [where h = "blank_holes\<lparr>h_skip := 0x60, h_body := 0x70\<rparr>" and f = "0x100"
        and s = nan_for_example and base = "0x1000" and init = "mk_value 3 1" and limit = "mk_value 3 10"
        and step = "mk_value 4 0x7FF8000000000000"]
    by (simp add: is_number_def as_double_def mk_value_def)
qed

end
