(* ===== verification/V1_Loops.thy ===== *)
theory V1_Loops
  imports V1_Movement Loops
begin

text \<open>
  Numeric \<open>for\<close> of the first generation (\<open>opcode_for_stencils.c\<close>, \<open>opcode_link_stencils.c\<close>): the learner and the
  residuals of FORLOOP, the self-selecting FORPREP and FORLOOP, and that both generations do the
  same to the three control cells.

  The three cells are read together before a stencil decides.
\<close>

unbundle bit_operations_syntax

subsection \<open>Iteration\<close>

definition for_cells :: "v1_holes \<Rightarrow> u64 \<Rightarrow> v1_state \<Rightarrow> ((u64 \<times> lua_value) \<times> (u64 \<times> lua_value) \<times> (u64 \<times> lua_value)) option" where
  "for_cells h f s = do {
     a \<leftarrow> reg (q_base h) f s;
     b \<leftarrow> reg (q_base h + 1) f s;
     c \<leftarrow> reg (q_base h + 2) f s;
     x \<leftarrow> rd a s;
     y \<leftarrow> rd b s;
     z \<leftarrow> rd c s;
     Some ((a, x), (b, y), (c, z))}"

text \<open>The work on the cells, and whether the loop goes round again.\<close>

definition forloop_turn :: "v1_holes \<Rightarrow> u64 \<Rightarrow> v1_state \<Rightarrow> (bool \<times> v1_state) option" where
  "forloop_turn h f s = do {
     ((count_cell, count), (step_cell, step), (idx_cell, idx)) \<leftarrow> for_cells h f s;
     if tag step = LUA55_VALUE_INTEGER then
       (if 0 <s payload count then do {
          s \<leftarrow> on_mem (wr_pay count_cell (payload count - 1)) s;
          s \<leftarrow> on_mem (wr_pay idx_cell (payload idx + payload step)) s;
          Some (True, s)}
        else Some (False, s))
     else let i = dbl_add (payload idx) (payload step); sv = payload step; lv = payload count in
       if (dbl_lt 0 sv \<and> dbl_le i lv) \<or> (dbl_lt sv 0 \<and> dbl_le lv i) then do {
         s \<leftarrow> on_mem (wr_pay idx_cell i) s;
         Some (True, s)}
       else Some (False, s)}"

definition lua55_learn_forloop :: v1_stencil where
  "lua55_learn_forloop h f s = do {
     (slot, s) \<leftarrow> next_slot f s;
     s \<leftarrow> set_quote slot (q_quote_base h OR 1) s;
     (again, s) \<leftarrow> forloop_turn h f s;
     exit_with (if again then q_back_edge h else q_fallthrough h) LUA55_COMPLETED f s}"

definition lua55_residual_forloop :: v1_stencil where
  "lua55_residual_forloop h f s = do {
     (again, s) \<leftarrow> forloop_turn h f s;
     exit_with (if again then q_back_edge h else q_fallthrough h) LUA55_COMPLETED f s}"

text \<open>The back edge stays in native code.\<close>

definition lua55_residual_forloop_link :: v1_stencil where
  "lua55_residual_forloop_link h f s = do {
     (again, s) \<leftarrow> forloop_turn h f s;
     if again then jump_link (q_back_edge h) h f s
     else exit_with (q_fallthrough h) LUA55_COMPLETED f s}"

definition lua55_poly_forloop :: v1_stencil where
  "lua55_poly_forloop h f s = do {
     (again, s) \<leftarrow> forloop_turn h f s;
     Some (Link_to (if again then q_link h else q_fall_link h) f, s)}"

subsection \<open>Preparation\<close>

definition forprep_reject :: v1_stencil where
  "forprep_reject h f s = do {
     s \<leftarrow> upd_lframe f (\<lambda>fr. fr\<lparr>l_status := LUA55_REJECTED\<rparr>) s;
     v1_host_exit h f s}"

definition lua55_poly_forprep :: v1_stencil where
  "lua55_poly_forprep h f s = do {
     ((a, init), (b, limit), (c, step)) \<leftarrow> for_cells h f s;
     if tag init = LUA55_VALUE_INTEGER \<and> tag limit = LUA55_VALUE_INTEGER \<and> tag step = LUA55_VALUE_INTEGER then
       let iv = payload init; lv = payload limit; sv = payload step in
       if sv = 0 then forprep_reject h f s
       else if (0 <s sv \<and> lv <s iv) \<or> (sv <s 0 \<and> iv <s lv) then Some (Link_to (q_skip_link h) f, s)
       else let distance = (if 0 <s sv then lv - iv else iv - lv); stride = (if 0 <s sv then sv else 0 - sv) in do {
         s \<leftarrow> on_mem (wr_int a (distance div stride)) s;
         s \<leftarrow> on_mem (wr_int b sv) s;
         s \<leftarrow> on_mem (wr_int c iv) s;
         Some (Link_to (q_body_link h) f, s)}
     else if (tag init = LUA55_VALUE_INTEGER \<or> tag init = LUA55_VALUE_FLOAT) \<and>
         (tag limit = LUA55_VALUE_INTEGER \<or> tag limit = LUA55_VALUE_FLOAT) \<and>
         (tag step = LUA55_VALUE_INTEGER \<or> tag step = LUA55_VALUE_FLOAT) then
       let iv = (if tag init = LUA55_VALUE_INTEGER then c_double (payload init) else payload init);
           lv = (if tag limit = LUA55_VALUE_INTEGER then c_double (payload limit) else payload limit);
           sv = (if tag step = LUA55_VALUE_INTEGER then c_double (payload step) else payload step) in
       if dbl_eq sv 0 then forprep_reject h f s
       else if (dbl_lt 0 sv \<and> dbl_lt lv iv) \<or> (dbl_lt sv 0 \<and> dbl_lt iv lv) then Some (Link_to (q_skip_link h) f, s)
       else do {
         s \<leftarrow> on_mem (wr_flt a lv) s;
         s \<leftarrow> on_mem (wr_flt b sv) s;
         s \<leftarrow> on_mem (wr_flt c iv) s;
         Some (Link_to (q_body_link h) f, s)}
     else forprep_reject h f s}"

subsection \<open>The forms of one loop\<close>

text \<open>The residual does to an alike state what the learner did, on control cells that FORPREP prepared.\<close>

definition prepared :: "v1_holes \<Rightarrow> u64 \<Rightarrow> v1_state \<Rightarrow> bool" where
  "prepared h f s = (case for_cells h f s of
     Some ((a, x), (b, y), (c, z)) \<Rightarrow> is_number x \<and> is_number y \<and> is_number z | None \<Rightarrow> False)"

lemma for_cells_alike:
  assumes "alike s t" and "prepared h f s" and "for_cells h f s = Some ((a, x), (b, y), (c, z))"
  obtains x' y' z' where "for_cells h f t = Some ((a, x'), (b, y'), (c, z'))"
    "payload x' = payload x" "payload y' = payload y" "tag y' = tag y" "payload z' = payload z"
proof -
  from assms(3) have r: "reg (q_base h) f s = Some a" "reg (q_base h + 1) f s = Some b" "reg (q_base h + 2) f s = Some c"
    and v: "rd a s = Some x" "rd b s = Some y" "rd c s = Some z"
    by (auto simp: for_cells_def bind_eq_Some_conv)
  from alike_rd [OF assms(1) v(1)] obtain x' where x: "rd a t = Some x'" "norm_value x = norm_value x'" .
  from alike_rd [OF assms(1) v(2)] obtain y' where y: "rd b t = Some y'" "norm_value y = norm_value y'" .
  from alike_rd [OF assms(1) v(3)] obtain z' where z: "rd c t = Some z'" "norm_value z = norm_value z'" .
  have "for_cells h f t = Some ((a, x'), (b, y'), (c, z'))"
    using alike_reg [OF assms(1) r(1)] alike_reg [OF assms(1) r(2)] alike_reg [OF assms(1) r(3)] x(1) y(1) z(1) by (simp add: for_cells_def)
  then show thesis using that [of x' y' z'] x(2) y(2) z(2) assms(2,3) by (auto simp: norm_value_eq prepared_def is_number_def)
qed

lemma wr_pay_alike:
  assumes "alike s t" and "on_mem (wr_pay a p) s = Some s'"
  obtains t' where "on_mem (wr_pay a p) t = Some t'" "alike s' t'"
proof -
  have "norm_value (v\<lparr>payload := p\<rparr>) = norm_value (w\<lparr>payload := p\<rparr>)" if "norm_value v = norm_value w" for v w :: lua_value
    using that by (auto simp: norm_value_eq)
  moreover have "wr_pay a p = (\<lambda>m. do {v \<leftarrow> rd_val a m; wr_val a (v\<lparr>payload := p\<rparr>) m})"
    by (simp add: fun_eq_iff wr_pay_def)
  ultimately show thesis
    using alike_put_at [OF assms(1), of a "\<lambda>v. v\<lparr>payload := p\<rparr>" "\<lambda>v. v\<lparr>payload := p\<rparr>" s'] assms(2) that by (metis (no_types, lifting))
qed

lemma forloop_turn_alike:
  assumes al: "alike s t" and prep: "prepared h f s" and turn: "forloop_turn h f s = Some (again, s')"
  obtains t' where "forloop_turn h f t = Some (again, t')" "alike s' t'"
proof -
  from prep obtain a x b y c z where cs: "for_cells h f s = Some ((a, x), (b, y), (c, z))"
    by (auto simp: prepared_def split: option.splits)
  from for_cells_alike [OF al prep cs] obtain x' y' z' where ct: "for_cells h f t = Some ((a, x'), (b, y'), (c, z'))"
    and e: "payload x' = payload x" "payload y' = payload y" "tag y' = tag y" "payload z' = payload z" .
  have two: "\<exists>t'. do {t \<leftarrow> on_mem (wr_pay a p) t; on_mem (wr_pay c q) t} = Some t' \<and> alike s' t'"
    if "on_mem (wr_pay a p) s = Some u" "on_mem (wr_pay c q) u = Some s'" for p q u
    using wr_pay_alike [OF al that(1)] wr_pay_alike [OF _ that(2)] by (metis bind.bind_lunit)
  have one: "\<exists>t'. on_mem (wr_pay c q) t = Some t' \<and> alike s' t'" if "on_mem (wr_pay c q) s = Some s'" for q
    using wr_pay_alike [OF al that] by metis
  have "\<exists>t'. forloop_turn h f t = Some (again, t') \<and> alike s' t'"
    using turn al by (auto simp: forloop_turn_def cs ct e Let_def bind_eq_Some_conv split: if_splits) (use two one in \<open>fastforce simp: bind_eq_Some_conv\<close>)+
  then show thesis using that by blast
qed

lemma exit_alike:
  assumes "alike s t" and "exit_with pc st f s = Some (c, s')"
  obtains t' where "exit_with pc st f t = Some (c, t')" "alike s' t'"
  using alike_exit [OF assms] by metis

lemma forloop_replays:
  assumes "prepared h f s" and "alike s s'" and "lua55_learn_forloop h f s = Some (c, t)"
  shows "\<exists>t'. lua55_residual_forloop h f s' = Some (c, t') \<and> alike t t'"
proof -
  from assms(3) obtain slot u w again v where u: "next_slot f s = Some (slot, u)" "set_quote slot (q_quote_base h OR 1) u = Some w"
      "forloop_turn h f w = Some (again, v)" "exit_with (if again then q_back_edge h else q_fallthrough h) LUA55_COMPLETED f v = Some (c, t)"
    unfolding lua55_learn_forloop_def bind_eq_Some_conv by (auto simp: bind_eq_Some_conv)
  have sw: "alike s w" using alike_recording(2) [OF u(1)] alike_recording(1) [OF u(2)] by (blast intro: alike_trans alike_sym)
  from u(1) obtain fr where fr: "lframes s f = Some fr" by (auto simp: next_slot_def bind_eq_Some_conv)
  have "mem w = mem s" using u(1,2) by (auto simp: next_slot_def upd_lframe_def upd_slot_def bind_eq_Some_conv)
  moreover have "lframes w f = Some (fr\<lparr>l_slot_cursor := l_slot_cursor fr + 1\<rparr>)"
    using next_slot_frame(2) [OF fr u(1)] upd_slot_keeps(1) [OF u(2)] by simp
  ultimately have "for_cells h f w = for_cells h f s" by (simp add: for_cells_def reg_def rd_def fr)
  with assms(1) have "prepared h f w" by (simp add: prepared_def)
  from forloop_turn_alike [OF alike_trans [OF alike_sym [OF sw] assms(2)] this u(3)]
  obtain v' where v': "forloop_turn h f s' = Some (again, v')" "alike v v'" .
  from exit_alike [OF v'(2) u(4)] obtain t' where
    "exit_with (if again then q_back_edge h else q_fallthrough h) LUA55_COMPLETED f v' = Some (c, t')" "alike t t'" .
  with v'(1) show ?thesis by (simp add: lua55_residual_forloop_def)
qed

text \<open>The linked and the self-selecting FORLOOP leave the residual's memory and differ in how they go on.\<close>

lemma forloop_forms:
  "lua55_residual_forloop_link h f s =
     map_option (\<lambda>(c, t). (case forloop_turn h f s of Some (True, _) \<Rightarrow> Link_to (q_link h) f | _ \<Rightarrow> Ret, t)) (lua55_residual_forloop h f s)"
  by (auto simp: lua55_residual_forloop_link_def lua55_residual_forloop_def jump_link_def exit_with_def ret_def
      split: option.splits bool.splits Option.bind_splits)

subsection \<open>Both generations\<close>

lemma for_cells_control:
  assumes "reg (q_base h) f s = Some base" and "unat (q_base h) + 2 < 2 ^ 32" and "for_control base (mem s) = Some (x, y, z)"
  shows "for_cells h f s = Some ((base, x), (base + 16, y), (base + 32, z))"
proof -
  have "unat (q_base h + 1) = unat (q_base h) + 1" "unat (q_base h + 2) = unat (q_base h) + 2"
    using assms(2) by (simp_all add: unat_word_ariths)
  then have "(ucast (q_base h + 1) :: u64) = ucast (q_base h) + 1" "(ucast (q_base h + 2) :: u64) = ucast (q_base h) + 2"
    by (simp_all add: unsigned_ucast_eq word_unat_eq_iff unat_word_ariths)
  then show ?thesis
    using assms(1,3) by (auto simp: for_cells_def for_control_def reg_def rd_def slot_addr_def bind_eq_Some_conv algebra_simps)
qed

text \<open>
  On the same cells FORPREP writes the same control values, skips and refuses in the same cases,
  and FORLOOP turns in the same way.
\<close>

lemma put_on_mem:
  "do {s \<leftarrow> on_mem (wr_int a x) s; s \<leftarrow> on_mem (wr_int (a + 16) y) s; s \<leftarrow> on_mem (wr_int (a + 32) z) s; k s} =
   do {m \<leftarrow> put_control wr_int a x y z (mem s); k (s\<lparr>mem := m\<rparr>)}"
  "do {s \<leftarrow> on_mem (wr_flt a x) s; s \<leftarrow> on_mem (wr_flt (a + 16) y) s; s \<leftarrow> on_mem (wr_flt (a + 32) z) s; k s} =
   do {m \<leftarrow> put_control wr_flt a x y z (mem s); k (s\<lparr>mem := m\<rparr>)}"
  by (simp_all add: on_mem_def put_control_def)

text \<open>The preparation as a choice between the two protocols of the second generation.\<close>

lemma forprep_choice:
  assumes "for_cells h f s = Some ((base, x), (base + 16, y), (base + 32, z))"
  shows "lua55_poly_forprep h f s =
    (if all_int x y z then
       (let iv = payload x; lv = payload y; sv = payload z in
        if sv = 0 then forprep_reject h f s
        else if (0 <s sv \<and> lv <s iv) \<or> (sv <s 0 \<and> iv <s lv) then Some (Link_to (q_skip_link h) f, s)
        else do {m \<leftarrow> put_control wr_int base (for_count (0 <s sv) iv lv sv) sv iv (mem s); Some (Link_to (q_body_link h) f, s\<lparr>mem := m\<rparr>)})
     else if is_number x \<and> is_number y \<and> is_number z then
       (let iv = as_double x; lv = as_double y; sv = as_double z in
        if dbl_eq sv 0 then forprep_reject h f s
        else if (dbl_lt 0 sv \<and> dbl_lt lv iv) \<or> (dbl_lt sv 0 \<and> dbl_lt iv lv) then Some (Link_to (q_skip_link h) f, s)
        else do {m \<leftarrow> put_control wr_flt base lv sv iv (mem s); Some (Link_to (q_body_link h) f, s\<lparr>mem := m\<rparr>)})
     else forprep_reject h f s)"
  unfolding lua55_poly_forprep_def assms put_on_mem bind.bind_lunit prod.case all_int_def is_number_def as_double_def for_count_def
  by (simp only: Let_def)

lemma forprep_generations:
  assumes "reg (q_base h) f s = Some base" and "unat (q_base h) + 2 < 2 ^ 32" and "for_control base (mem s) = Some (x, y, z)"
    and "h_body h2 = q_body_link h" "h_skip h2 = q_skip_link h"
  shows "lua55_poly_forprep h f s =
    (case forprep_work (base, x, y, z) h2 g (mem s) of None \<Rightarrow> None
     | Some (Jump e k, m) \<Rightarrow> Some (Link_to e f, s\<lparr>mem := m\<rparr>)
     | Some (_, m) \<Rightarrow> forprep_reject h f s)"
  unfolding forprep_choice [OF for_cells_control [OF assms(1-3)]]
  by (simp add: forprep_work_def forprep_int_def forprep_flt_def jump_to_def reject_exit_def LUA55_CPS_HOST_EXIT_def assms Let_def split: Option.bind_splits)

lemma forloop_generations:
  assumes "reg (q_base h) f s = Some base" and "unat (q_base h) + 2 < 2 ^ 32" and "for_control base (mem s) = Some (x, y, z)"
    and "h_link h2 = q_link h" "h_fall h2 = q_fall_link h"
  shows "lua55_poly_forloop h f s = map_option (\<lambda>(c, m). (case c of Jump e g \<Rightarrow> Link_to e f | _ \<Rightarrow> Ret, s\<lparr>mem := m\<rparr>)) (forloop_work (base, x, y, z) h2 f2 (mem s))"
  using assms(3-) for_cells_control [OF assms(1-3)]
  by (auto simp: lua55_poly_forloop_def forloop_turn_def forloop_work_def forloop_int_def forloop_flt_def flt_goes_on_def on_mem_def wr_pay_def wr_payload_def
      jump_to_def v2_int_add_def Let_def split: if_splits Option.bind_splits)

end
