(* ===== verification/V1_Bank.thy ===== *)
theory V1_Bank
  imports V1_Compare_Replay V1_Move_Replay V1_Unary V1_Loops
begin

text \<open>
  The residual bank of the first generation as a whole: what a block of learners did, the
  residuals that its recorded quotes select do again, and where the bank and the learners disagree.
\<close>

unbundle bit_operations_syntax

subsection \<open>The bank\<close>

definition v1_bank :: "v1_row list" where
  "v1_bank = v1_arith_bank @ v1_compare_bank @ v1_move_bank @ v1_unary_bank"

lemma v1_bank_replays: "list_all replays v1_bank"
  by (simp add: v1_bank_def arith_bank_replays compare_bank_replays move_bank_replays unary_bank_replays)

text \<open>The occurrences that ran have recorded the slots that select their residuals.\<close>

definition selected :: "(v1_row \<times> v1_holes) list \<Rightarrow> learn_frame \<Rightarrow> u64 \<Rightarrow> v1_state \<Rightarrow> bool" where
  "selected B fr f t \<longleftrightarrow> (\<forall>i<used fr f t. case B ! i of ((l, r, q), h) \<Rightarrow>
     (case rslots t (slot_at fr (word_of_nat i)) of Some k \<Rightarrow> q h k | None \<Rightarrow> False))"

text \<open>
  C13. A block of first-generation learners that ran through, or left without rejecting, recorded
  in its slots which residuals replay it: from any state alike, the residuals that the quotes
  select end in the same way and leave an alike state. The rows for an integer of BANDK, BORK and
  BXORK, and the one for a long string of LEN, select only where the target is not the operand.
\<close>

theorem learned_block_replays:
  assumes "lframes s f = Some fr" and "set (map fst B) \<subseteq> set v1_bank" and "length B < 2 ^ 32" and "fresh_slots fr (length B) s"
    and "learn_run (learners B) f s = Some (c, t)" and "selected B fr f t" and "c = Learn_next f \<or> unrejected f t" and "alike s s'"
  shows "\<exists>t'. residual_run (residuals B) f s' = Some (follow c, t') \<and> alike t t'"
proof (rule block_replays [OF assms(1) _ assms(5,3,4) _ assms(7,8)])
  have "replays (fst b)" if "b \<in> set B" for b
    using that assms(2) v1_bank_replays by (auto simp: list_all_iff)
  then show "list_all contracted B" by (auto simp: list_all_iff contracted_def)
  show "\<exists>k. rslots t (slot_at fr (word_of_nat i)) = Some k \<and> q h k" if "i < used fr f t" "B ! i = ((l, r, q), h)" for i l r q h
    using assms(6) that by (fastforce simp: selected_def split: option.splits)
qed

text \<open>A block that adds two integers and negates the sum.\<close>

definition blank_recording :: recording_slot where
  "blank_recording = \<lparr>rs_quote = 0, rs_expected_tag = 0, rs_expected_state = 0, rs_expected_generation = 0, rs_key_bits = 0\<rparr>"

definition block_frame :: learn_frame where
  "block_frame = \<lparr>l_values = 0x1000, l_slots = 0x5000, l_upvalues = 0, l_heap = 0, l_value_count = 3, l_slot_count = 2, l_slot_cursor = 0,
     l_resume_pc = 0, l_status = 0, l_upvalue_count = 0, l_vararg_count = 0, l_dest_frame = 0, l_dest_base = 0, l_dest_count = 0, l_top = 0,
     l_result_count = 0, l_function_table = 0, l_table_slots = 0\<rparr>"

definition block_example :: v1_state where
  "block_example = \<lparr>mem = blank_state\<lparr>vals := [0x1000 \<mapsto> mk_value 3 7, 0x1010 \<mapsto> mk_value 3 5, 0x1020 \<mapsto> mk_value 0 0]\<rparr>,
     lframes = [0x100 \<mapsto> block_frame], rslots = [0x5000 \<mapsto> blank_recording, 0x5018 \<mapsto> blank_recording],
     tslots = Map.empty, lcells = Map.empty\<rparr>"

definition blank_v1_holes :: v1_holes where
  "blank_v1_holes = \<lparr>q_target = 0, q_source = 0, q_left = 0, q_right = 0, q_upvalue = 0, q_base = 0, q_span = 0, q_resume_pc = 0, q_target_pc = 0,
     q_back_edge = 0, q_fallthrough = 0, q_quote_base = 0, q_integer_bits = 0, q_float_bits = 0, q_reference_bits = 0, q_int_imm = 0, q_const_tag = 0,
     q_const_int = 0, q_const_flt = 0, q_const_ref = 0, q_expected_generation = 0, q_k = 0, q_link = 0, q_taken = 0, q_body_link = 0, q_skip_link = 0,
     q_fall_link = 0, q_host_exit = 0, q_nfix = 0, q_wanted = 0, q_key_reg = 0, q_pow = (\<lambda>a b. 0)\<rparr>"

definition block_rows :: "(v1_row \<times> v1_holes) list" where
  "block_rows =
    [((lua55_learn_add, lua55_residual_add_ii, coded 1), blank_v1_holes\<lparr>q_target := 2, q_left := 0, q_right := 1, q_quote_base := 0x220000\<rparr>),
     ((lua55_learn_unm, lua55_residual_unm_int, coded 1), blank_v1_holes\<lparr>q_target := 0, q_source := 2, q_quote_base := 0x310000\<rparr>)]"

definition block_after :: v1_state where
  "block_after = \<lparr>mem = blank_state\<lparr>vals := [0x1000 \<mapsto> mk_value 3 (- 12), 0x1010 \<mapsto> mk_value 3 5, 0x1020 \<mapsto> mk_value 3 12]\<rparr>,
     lframes = [0x100 \<mapsto> block_frame\<lparr>l_slot_cursor := 2\<rparr>],
     rslots = [0x5000 \<mapsto> blank_recording\<lparr>rs_quote := 0x220001\<rparr>, 0x5018 \<mapsto> blank_recording\<lparr>rs_quote := 0x310001\<rparr>],
     tslots = Map.empty, lcells = Map.empty\<rparr>"

lemmas block_run = block_example_def block_after_def block_frame_def blank_recording_def blank_v1_holes_def block_rows_def
  lua55_learn_add_def lua55_learn_unm_def LEARN_BINARY_def reg_def rd_def rd_val_def slot_addr_def next_slot_def upd_lframe_def dispatch_def
  learn_store_def on_mem_def wr_val_def upd_slot_def lua55_learn_next_def int_add_def int_unm_def mk_value_def fun_upd_twist

lemma block_learns: "learn_run (learners block_rows) 0x100 block_example = Some (Learn_next 0x100, block_after)"
  by (simp add: block_run Let_def)

lemma block_ready:
  "lframes block_example 0x100 = Some block_frame" "set (map fst block_rows) \<subseteq> set v1_bank" "fresh_slots block_frame (length block_rows) block_example"
  "used block_frame 0x100 block_after = 2" "selected block_rows block_frame 0x100 block_after"
proof -
  show "lframes block_example 0x100 = Some block_frame" by (simp add: block_example_def)
  show "set (map fst block_rows) \<subseteq> set v1_bank"
    by (simp add: block_rows_def v1_bank_def v1_arith_bank_def two_register_rows_def v1_unary_bank_def)
  show "fresh_slots block_frame (length block_rows) block_example"
    by (auto simp: fresh_slots_def block_rows_def less_Suc_eq quote_at_def slot_at_def block_example_def block_frame_def blank_recording_def)
  show u: "used block_frame 0x100 block_after = 2" by (simp add: used_def block_after_def block_frame_def)
  have "(\<forall>i<2. P i) \<longleftrightarrow> P 0 \<and> P (1 :: nat)" for P by (auto simp: numeral_2_eq_2 less_Suc_eq)
  then show "selected block_rows block_frame 0x100 block_after" unfolding selected_def u
    by (simp add: block_rows_def slot_at_def block_after_def block_frame_def coded_def based_def blank_recording_def blank_v1_holes_def)
qed

theorem learned_block_replays_witness:
  "\<exists>t'. residual_run (residuals block_rows) 0x100 block_example = Some (follow (Learn_next 0x100), t') \<and> alike block_after t'"
proof -
  have "length block_rows < 2 ^ 32" by (simp add: block_rows_def)
  from learned_block_replays [OF block_ready(1,2) this block_ready(3) block_learns block_ready(5) _ alike_refl] show ?thesis by simp
qed

subsection \<open>Where the bank and the learners disagree\<close>

text \<open>
  The learners of EQ, LT and LE number a long left and a short right string 6; the bank files the
  residual that wants a short left and a long right string under 6.
\<close>

definition slot_six :: "bool \<Rightarrow> v1_stencil \<times> v1_stencil \<Rightarrow> bool" where
  "slot_six k row \<longleftrightarrow> row \<in> (if k
     then {(lua55_learn_eq_k1, lua55_residual_eq_sl_k1), (lua55_learn_lt_k1, lua55_residual_lt_sl_k1), (lua55_learn_le_k1, lua55_residual_le_sl_k1)}
     else {(lua55_learn_eq_k0, lua55_residual_eq_sl_k0), (lua55_learn_lt_k0, lua55_residual_lt_sl_k0), (lua55_learn_le_k0, lua55_residual_le_sl_k0)})"

lemma six_learns:
  assumes "decide l r (mem s) = decided 6 cond" and "lframes s f = Some fr" and "rd_at_reg (q_target h) f s = Some l" "rd_at_reg (q_source h) f s = Some r"
    and "learn_two decide k h f s = Some (c, t)"
  shows "quote_at (slot_at fr 0) t = Some (q_quote_base h OR quote_k 6 k)"
  using assms by (auto simp: learn_two_def learn_branch_def rd_at_reg_def next_slot_def upd_lframe_def reg_def rd_def upd_slot_def quote_at_def slot_at_def
      BRANCH_TAKEN_def exit_with_def ret_def lua55_learn_next_def bind_eq_Some_conv split: if_splits)

text \<open>
  C37. When EQ, LT or LE learns a long left and a short right string, the residual that the bank
  holds for the recorded quote fails its guard on the very operands it was learned from.
\<close>

theorem string_leaf_exchanged:
  assumes "slot_six k (learn, residual)" and "lframes s f = Some fr"
    and "rd_at_reg (q_target h) f s = Some l" "tag l = LUA55_VALUE_LONG_STRING" and "rd_at_reg (q_source h) f s = Some r" "tag r = LUA55_VALUE_SHORT_STRING"
    and "learn h f s = Some (c, t)"
  shows "quote_at (slot_at fr 0) t = Some (q_quote_base h OR quote_k 6 k) \<and> residual h f s = GUARD_FAILED h f s"
proof
  have dec: "eq_decision l r m = map_option (\<lambda>c. Some (6, c)) (string_bytes_eq (payload l) (payload r) m)"
    "lt_decision l r m = map_option (\<lambda>c. Some (6, c < 0)) (string_cmp (payload l) (payload r) m)"
    "le_decision l r m = map_option (\<lambda>c. Some (6, c \<le> 0)) (string_cmp (payload l) (payload r) m)" for m
    using assms(4,6) by (simp_all add: eq_decision_def lt_decision_def le_decision_def is_string_tag_def string_leaf_def map_conv_bind_option comp_def)
  from assms(1) obtain d where learn: "learn = learn_two d k" and d: "d = eq_decision \<or> d = lt_decision \<or> d = le_decision"
    by (auto simp: slot_six_def lua55_learn_eq_k0_def lua55_learn_eq_k1_def lua55_learn_lt_k0_def lua55_learn_lt_k1_def lua55_learn_le_k0_def
        lua55_learn_le_k1_def LEARN_EQ_K_def LEARN_REGRES_def LEARN_LE_K_def split: if_splits)
  from assms(3,5,7) learn have "d l r (mem s) \<noteq> None"
    by (auto simp: learn_two_def rd_at_reg_def next_slot_def upd_lframe_def reg_def rd_def bind_eq_Some_conv)
  then obtain cond where "d l r (mem s) = decided 6 cond" using d dec by auto
  from six_learns [OF this assms(2,3,5) assms(7) [unfolded learn]] show "quote_at (slot_at fr 0) t = Some (q_quote_base h OR quote_k 6 k)" .
  show "residual h f s = GUARD_FAILED h f s"
    using assms(1,3-6) by (auto simp: slot_six_def RESIDUAL_K_def rd_at_reg_def LEFT_LONG_def lua55_residual_eq_sl_k0_def lua55_residual_eq_sl_k1_def
        lua55_residual_lt_sl_k0_def lua55_residual_lt_sl_k1_def lua55_residual_le_sl_k0_def lua55_residual_le_sl_k1_def bind_eq_Some_conv split: if_splits)
qed

text \<open>A long and a short string of different lengths in the first two registers.\<close>

definition strings_example :: v1_state where
  "strings_example = block_example\<lparr>mem := blank_state\<lparr>
     vals := [0x1000 \<mapsto> mk_value LUA55_VALUE_LONG_STRING 0x2000, 0x1010 \<mapsto> mk_value LUA55_VALUE_SHORT_STRING 0x3000],
     strings := [0x2000 \<mapsto> \<lparr>str_length = 41, str_hash = 0, str_bytes = 0x2100\<rparr>, 0x3000 \<mapsto> \<lparr>str_length = 1, str_hash = 0, str_bytes = 0x3100\<rparr>]\<rparr>\<rparr>"

lemma strings_learn:
  "lua55_learn_eq_k1 (blank_v1_holes\<lparr>q_source := 1\<rparr>) 0x100 strings_example = Some (Learn_next 0x100,
     strings_example\<lparr>lframes := [0x100 \<mapsto> block_frame\<lparr>l_slot_cursor := 1\<rparr>],
       rslots := [0x5000 \<mapsto> blank_recording\<lparr>rs_quote := 13\<rparr>, 0x5018 \<mapsto> blank_recording]\<rparr>)"
  by (simp add: lua55_learn_eq_k1_def LEARN_EQ_K_def learn_two_def eq_decision_def string_bytes_eq_def is_string_tag_def string_leaf_def quote_k_def
      learn_branch_def strings_example_def block_run)

theorem string_leaf_exchanged_witness:
  "lua55_residual_eq_sl_k1 (blank_v1_holes\<lparr>q_source := 1\<rparr>) 0x100 strings_example = GUARD_FAILED (blank_v1_holes\<lparr>q_source := 1\<rparr>) 0x100 strings_example"
proof -
  have "slot_six True (lua55_learn_eq_k1, lua55_residual_eq_sl_k1)" by (simp add: slot_six_def)
  from string_leaf_exchanged [OF this _ _ _ _ _ strings_learn, of block_frame "mk_value LUA55_VALUE_LONG_STRING 0x2000" "mk_value LUA55_VALUE_SHORT_STRING 0x3000"]
  show ?thesis by (simp add: strings_example_def block_run rd_at_reg_def)
qed

text \<open>
  The learners that choose their quote from the operand after they have written the target: the
  residual that an occurrence working in place records, the hole of its operand, the tag that the
  residual wants and the number of the quote.
\<close>

definition in_place_rows :: "(v1_stencil \<times> v1_stencil \<times> (v1_holes \<Rightarrow> u32) \<times> u32 \<times> u32) list" where
  "in_place_rows =
    [(lua55_learn_bandk, lua55_residual_bandk_i, q_left, LUA55_VALUE_INTEGER, 1),
     (lua55_learn_bork, lua55_residual_bork_i, q_left, LUA55_VALUE_INTEGER, 1),
     (lua55_learn_bxork, lua55_residual_bxork_i, q_left, LUA55_VALUE_INTEGER, 1),
     (lua55_learn_len, lua55_residual_len_lng, q_source, LUA55_VALUE_LONG_STRING, 2)]"

lemma bitwise_in_place:
  assumes "q_target h = q_left h" and "lframes s f = Some fr" and "rd_at_reg (q_left h) f s = Some v"
    and "LEARN_CONST_BITWISE i h f s = Some (Learn_next f, t)"
  shows "quote_at (slot_at fr 0) t = Some (q_quote_base h OR 1) \<and>
    (tag v = LUA55_VALUE_INTEGER \<longrightarrow> (\<exists>t'. RESIDUAL_CONST_BITWISE LUA55_VALUE_INTEGER i h f s = Some (Residual_next f, t') \<and> alike t t'))"
proof (rule accepted_replays [OF assms(4) [unfolded LEARN_CONST_BITWISE_shape] assms(2)])
  show "const_bitwise_pick i h x s \<noteq> Some (Unquoted e)" for x e by (auto simp: const_bitwise_pick_def split: prod.splits option.splits)
  fix x e q
  assume x: "rd_one h f s = Some x" and pick: "const_bitwise_pick i h x s = Some (Accept e q)"
  obtain t l ra where xx: "x = (t, l, ra)" by (cases x)
  then have l: "l = v" using x assms(3) by (auto simp: rd_one_Some rd_at_reg_def)
  from pick obtain i1 where i1: "to_int v = Some i1" "e = Puts t (int_val (i i1 (q_const_int h)))" and q: "q = q_quote_base h OR 1"
    using assms(1) by (auto simp: const_bitwise_pick_def xx l split: option.splits)
  have "RESIDUAL_CONST_BITWISE LUA55_VALUE_INTEGER i h f s = perform lua55_residual_next e f s" if "tag v = LUA55_VALUE_INTEGER"
    using that i1 x by (auto simp: RESIDUAL_CONST_BITWISE_def reads xx l to_int_def guarded_int_def)
  then show "q = q_quote_base h OR 1 \<and> (tag v = LUA55_VALUE_INTEGER \<longrightarrow>
      RESIDUAL_CONST_BITWISE LUA55_VALUE_INTEGER i h f s = perform lua55_residual_next e f s \<and> like_effect e e)"
    using q i1(2) by simp
qed

lemma len_in_place:
  assumes "q_target h = q_source h" and "lframes s f = Some fr" and "rd_at_reg (q_source h) f s = Some v" and "tag v \<noteq> LUA55_VALUE_TABLE"
    and "lua55_learn_len h f s = Some (Learn_next f, t)"
  shows "quote_at (slot_at fr 0) t = Some (q_quote_base h OR 2) \<and>
    (tag v = LUA55_VALUE_LONG_STRING \<longrightarrow> (\<exists>t'. lua55_residual_len_lng h f s = Some (Residual_next f, t') \<and> alike t t'))"
proof (rule accepted_replays [OF assms(5) [unfolded learn_len_shape] assms(2)])
  show "len_pick h x s \<noteq> Some (Unquoted e)" for x e by (auto simp: len_pick_def bind_eq_Some_conv split: prod.splits if_splits)
  fix x e q
  assume x: "rd_unary h f s = Some x" and pick: "len_pick h x s = Some (Accept e q)"
  obtain t w hp where xx: "x = (t, w, hp)" by (cases x)
  then have w: "w = v" using x assms(3) by (auto simp: rd_unary_Some rd_at_reg_def)
  have "learn_len_table hp v (mem s) = Some False" using assms(4) by (simp add: learn_len_table_def)
  with pick obtain n where n: "string_len (payload v) (mem s) = Some n" "e = Puts t (int_val n)" and q: "q = q_quote_base h OR 2"
    using assms(1) by (auto simp: len_pick_def xx w bind_eq_Some_conv split: if_splits)
  have "lua55_residual_len_lng h f s = perform lua55_residual_next e f s" if "tag v = LUA55_VALUE_LONG_STRING"
    using that n x by (auto simp: lua55_residual_len_lng_def RESIDUAL_LEN_STRING_def rd_unary_Some xx w residual_store_def)
  then show "q = q_quote_base h OR 2 \<and> (tag v = LUA55_VALUE_LONG_STRING \<longrightarrow>
      lua55_residual_len_lng h f s = perform lua55_residual_next e f s \<and> like_effect e e)"
    using q n(2) by simp
qed

text \<open>
  C40. A bitwise opcode with a constant, or LEN on a string, that works in place (its target is its
  operand) records one quote whatever the operand was. The residual for it repeats the run when
  the operand was an integer, or for LEN a long string; when it was a float, or a short string,
  the residual fails its guard on the very state it was learned from.
\<close>

theorem in_place_quote:
  assumes "(learn, residual, operand, want, n) \<in> set in_place_rows" and "q_target h = operand h" and "lframes s f = Some fr"
    and "rd_at_reg (operand h) f s = Some v" and "tag v \<noteq> LUA55_VALUE_TABLE" and "learn h f s = Some (Learn_next f, t)"
  shows "quote_at (slot_at fr 0) t = Some (q_quote_base h OR n) \<and>
    (if tag v = want then \<exists>t'. residual h f s = Some (Residual_next f, t') \<and> alike t t' else residual h f s = GUARD_FAILED h f s)"
proof -
  from assms(1) consider i where "learn = LEARN_CONST_BITWISE i" "residual = RESIDUAL_CONST_BITWISE LUA55_VALUE_INTEGER i"
      "operand = q_left" "want = LUA55_VALUE_INTEGER" "n = 1"
    | "learn = lua55_learn_len" "residual = lua55_residual_len_lng" "operand = q_source" "want = LUA55_VALUE_LONG_STRING" "n = 2"
    unfolding in_place_rows_def lua55_learn_bandk_def lua55_learn_bork_def lua55_learn_bxork_def lua55_residual_bandk_i_def
      lua55_residual_bork_i_def lua55_residual_bxork_i_def by force
  then show ?thesis
  proof cases
    case (1 i)
    then have "tag v \<noteq> want \<Longrightarrow> residual h f s = GUARD_FAILED h f s"
      using assms(2-4) by (auto simp: RESIDUAL_CONST_BITWISE_def rd_at_reg_def reg_def bind_eq_Some_conv)
    then show ?thesis using bitwise_in_place [of h s f fr v i t] 1 assms by simp
  next
    case 2
    then have "tag v \<noteq> want \<Longrightarrow> residual h f s = GUARD_FAILED h f s"
      using assms(2-4) by (auto simp: lua55_residual_len_lng_def RESIDUAL_LEN_STRING_def rd_at_reg_def reg_def bind_eq_Some_conv)
    then show ?thesis using len_in_place [of h s f fr v t] 2 assms by simp
  qed
qed

text \<open>\<open>s = #s\<close> with a short string of one byte in the second register, and \<open>x = x & 4\<close> with 7 in the first.\<close>

abbreviation len_holes :: v1_holes where
  "len_holes \<equiv> blank_v1_holes\<lparr>q_target := 1, q_source := 1\<rparr>"

lemma len_learns:
  "lua55_learn_len len_holes 0x100 strings_example = Some (Learn_next 0x100,
     strings_example\<lparr>mem := (mem strings_example)\<lparr>vals := (vals (mem strings_example))(0x1010 \<mapsto> mk_value 3 1)\<rparr>,
       lframes := [0x100 \<mapsto> block_frame\<lparr>l_slot_cursor := 1\<rparr>],
       rslots := [0x5000 \<mapsto> blank_recording\<lparr>rs_quote := 2\<rparr>, 0x5018 \<mapsto> blank_recording]\<rparr>)"
  by (simp add: lua55_learn_len_def string_len_def strings_example_def block_run)

lemma bandk_learns:
  "lua55_learn_bandk (blank_v1_holes\<lparr>q_const_int := 4\<rparr>) 0x100 block_example = Some (Learn_next 0x100,
     block_example\<lparr>mem := (mem block_example)\<lparr>vals := (vals (mem block_example))(0x1000 \<mapsto> mk_value 3 4)\<rparr>,
       lframes := [0x100 \<mapsto> block_frame\<lparr>l_slot_cursor := 1\<rparr>],
       rslots := [0x5000 \<mapsto> blank_recording\<lparr>rs_quote := 1\<rparr>, 0x5018 \<mapsto> blank_recording]\<rparr>)"
  by (simp add: lua55_learn_bandk_def LEARN_CONST_BITWISE_def to_int_def int_band_def block_run)

theorem in_place_quote_witness:
  "lua55_residual_len_lng len_holes 0x100 strings_example = GUARD_FAILED len_holes 0x100 strings_example \<and>
   (\<exists>t t'. lua55_learn_bandk (blank_v1_holes\<lparr>q_const_int := 4\<rparr>) 0x100 block_example = Some (Learn_next 0x100, t) \<and>
     lua55_residual_bandk_i (blank_v1_holes\<lparr>q_const_int := 4\<rparr>) 0x100 block_example = Some (Residual_next 0x100, t') \<and> alike t t')"
proof
  have "(lua55_learn_len, lua55_residual_len_lng, q_source, LUA55_VALUE_LONG_STRING, 2) \<in> set in_place_rows" by (simp add: in_place_rows_def)
  from in_place_quote [OF this _ _ _ _ len_learns, of block_frame "mk_value LUA55_VALUE_SHORT_STRING 0x3000"]
  show "lua55_residual_len_lng len_holes 0x100 strings_example = GUARD_FAILED len_holes 0x100 strings_example"
    by (simp add: strings_example_def block_run rd_at_reg_def)
  have "(lua55_learn_bandk, lua55_residual_bandk_i, q_left, LUA55_VALUE_INTEGER, 1) \<in> set in_place_rows" by (simp add: in_place_rows_def)
  from in_place_quote [OF this _ _ _ _ bandk_learns, of block_frame "mk_value LUA55_VALUE_INTEGER 7"] bandk_learns
  show "\<exists>t t'. lua55_learn_bandk (blank_v1_holes\<lparr>q_const_int := 4\<rparr>) 0x100 block_example = Some (Learn_next 0x100, t) \<and>
     lua55_residual_bandk_i (blank_v1_holes\<lparr>q_const_int := 4\<rparr>) 0x100 block_example = Some (Residual_next 0x100, t') \<and> alike t t'"
    by (fastforce simp: block_example_def block_frame_def blank_v1_holes_def reg_def rd_def rd_val_def slot_addr_def rd_at_reg_def mk_value_def)
qed

text \<open>The leaf of DIVK for two integers is built from the addition of integers.\<close>

interpretation v1_divk: replayed_leaf lua55_learn_divk lua55_residual_divk_ii "coded 1"
  by (simp add: lua55_learn_divk_def lua55_residual_divk_ii_def const_four)

text \<open>
  C38. Dividing an integer register by an integer constant learns what ADDK learns, the sum as an
  integer with the first quote, and the residual for that quote, ADDK's own, stores the sum again.
\<close>

theorem divk_two_integers_adds:
  assumes "lframes s f = Some fr" and "rd_at_reg (q_left h) f s = Some (mk_value LUA55_VALUE_INTEGER a)" and "q_const_tag h = LUA55_VALUE_INTEGER"
    and "based h" and "quote_at (slot_at fr 0) s = Some 0" and "lua55_learn_divk h f s = Some (c, t)" and "alike s s'"
  shows "lua55_learn_divk h f s = lua55_learn_addk h f s \<and>
    rd_at_reg (q_target h) f t = Some (mk_value LUA55_VALUE_INTEGER (a + q_const_int h)) \<and>
    lua55_residual_divk_ii = lua55_residual_addk_ii \<and>
    (\<exists>t'. lua55_residual_divk_ii h f s' = Some (Residual_next f, t') \<and> alike t t')"
proof (intro conjI)
  show "lua55_learn_divk h f s = lua55_learn_addk h f s"
    using assms(1-3) by (simp add: lua55_learn_divk_def lua55_learn_addk_def LEARN_CONST_ARITH_def rd_at_reg_def reg_def rd_def next_slot_def upd_lframe_def
        dispatch_def mk_value_def)
  show "lua55_residual_divk_ii = lua55_residual_addk_ii"
    by (intro ext) (simp add: lua55_residual_divk_ii_def lua55_residual_addk_ii_def RESIDUAL_CONST_ARITH_def cong: if_cong)
  have run: "c = Learn_next f \<and> rd_at_reg (q_target h) f t = Some (mk_value LUA55_VALUE_INTEGER (a + q_const_int h)) \<and>
      (\<exists>k. rslots t (slot_at fr 0) = Some k \<and> rs_quote k = q_quote_base h OR 1)"
    using assms(1-3,6) by (auto simp: lua55_learn_divk_def LEARN_CONST_ARITH_def rd_at_reg_def reg_def rd_def rd_val_def next_slot_def upd_lframe_def dispatch_def mk_value_def
        learn_store_def on_mem_def wr_val_def upd_slot_def slot_at_def lua55_learn_next_def int_add_def bind_eq_Some_conv split: if_splits)
  then show "rd_at_reg (q_target h) f t = Some (mk_value LUA55_VALUE_INTEGER (a + q_const_int h))" by blast
  from run obtain k where k: "rslots t (slot_at fr 0) = Some k" "coded 1 h k" using assms(4) by (auto simp: coded_def)
  from v1_divk.replay [OF assms(1,5,6) k _ assms(7)] run show "\<exists>t'. lua55_residual_divk_ii h f s' = Some (Residual_next f, t') \<and> alike t t'" by simp
qed

text \<open>The integer 7 divided by the constant 5.\<close>

definition divk_holes :: v1_holes where
  "divk_holes = blank_v1_holes\<lparr>q_target := 2, q_const_tag := LUA55_VALUE_INTEGER, q_const_int := 5\<rparr>"

lemma divk_learns:
  "lua55_learn_divk divk_holes 0x100 block_example = Some (Learn_next 0x100,
     block_example\<lparr>mem := (mem block_example)\<lparr>vals := (vals (mem block_example))(0x1020 \<mapsto> mk_value 3 12)\<rparr>,
       lframes := [0x100 \<mapsto> block_frame\<lparr>l_slot_cursor := 1\<rparr>],
       rslots := [0x5000 \<mapsto> blank_recording\<lparr>rs_quote := 1\<rparr>, 0x5018 \<mapsto> blank_recording]\<rparr>)"
  by (simp add: lua55_learn_divk_def LEARN_CONST_ARITH_def divk_holes_def block_run)

theorem divk_two_integers_adds_witness:
  "\<exists>t'. lua55_residual_divk_ii divk_holes 0x100 block_example = Some (Residual_next 0x100, t') \<and> 
     lua55_learn_divk divk_holes 0x100 block_example = lua55_learn_addk divk_holes 0x100 block_example"
proof -
  have "lframes block_example 0x100 = Some block_frame" "rd_at_reg (q_left divk_holes) 0x100 block_example = Some (mk_value LUA55_VALUE_INTEGER 7)"
    "q_const_tag divk_holes = LUA55_VALUE_INTEGER" "based divk_holes" "quote_at (slot_at block_frame 0) block_example = Some 0"
    by (simp_all add: divk_holes_def blank_v1_holes_def block_example_def block_frame_def rd_at_reg_def reg_def rd_def rd_val_def slot_addr_def based_def
        quote_at_def slot_at_def blank_recording_def)
  from divk_two_integers_adds [OF this divk_learns alike_refl] show ?thesis by blast
qed

subsection \<open>Numeric loops in both generations\<close>

text \<open>
  C11. On the same three control cells the self-selecting FORPREP and FORLOOP of the first
  generation enter, skip, turn and leave a loop when the learners of the second generation do,
  and write the same cells.
\<close>

theorem for_generations_agree:
  assumes "reg (q_base h) f s = Some base" and "unat (q_base h) + 2 < 2 ^ 32" and "for_control base (mem s) = Some (x, y, z)"
    and "h_body h2 = q_body_link h" "h_skip h2 = q_skip_link h" "h_link h2 = q_link h" "h_fall h2 = q_fall_link h"
  shows "lua55_poly_forprep h f s = (case forprep_work (base, x, y, z) h2 g (mem s) of None \<Rightarrow> None
      | Some (Jump e k, m) \<Rightarrow> Some (Link_to e f, s\<lparr>mem := m\<rparr>)
      | Some (_, m) \<Rightarrow> forprep_reject h f s) \<and>
    lua55_poly_forloop h f s = map_option (\<lambda>(c, m). (case c of Jump e k \<Rightarrow> Link_to e f | _ \<Rightarrow> Ret, s\<lparr>mem := m\<rparr>)) (forloop_work (base, x, y, z) h2 g (mem s))"
  using forprep_generations [OF assms(1-3) assms(4,5)] forloop_generations [OF assms(1-3) assms(6,7)] by simp_all

theorem for_generations_agree_witness:
  "lua55_poly_forprep (blank_v1_holes\<lparr>q_body_link := 0x60\<rparr>) 0x100 (block_example\<lparr>mem := for_example\<rparr>) =
     Some (Link_to 0x60 0x100, block_example\<lparr>mem := for_example\<lparr>vals := [0x1000 \<mapsto> mk_value 3 2, 0x1010 \<mapsto> mk_value 3 4, 0x1020 \<mapsto> mk_value 3 1]\<rparr>\<rparr>)"
proof -
  let ?h = "blank_v1_holes\<lparr>q_body_link := 0x60\<rparr>" and ?g = "blank_holes\<lparr>h_body := 0x60\<rparr>" and ?s = "block_example\<lparr>mem := for_example\<rparr>"
  let ?x = "mk_value 3 1" and ?y = "mk_value 3 10" and ?z = "mk_value 3 4"
  have "reg (q_base ?h) 0x100 ?s = Some 0x1000" "unat (q_base ?h) + 2 < 2 ^ 32" "for_control 0x1000 (mem ?s) = Some (?x, ?y, ?z)"
    "h_body ?g = q_body_link ?h" "h_skip ?g = q_skip_link ?h" "h_link ?g = q_link ?h" "h_fall ?g = q_fall_link ?h"
    by (simp_all add: block_example_def block_frame_def reg_def slot_addr_def for_control_def for_example_def rd_val_def blank_v1_holes_def)
  note agree = conjunct1 [OF for_generations_agree [OF this]]
  have "(0 :: u64) <s 4" "\<not> (10 :: u64) <s 1" "\<not> (4 :: u64) <s 0" by (simp_all add: word_sless_alt)
  then show ?thesis
    unfolding agree [of 0]
    by (simp add: forprep_work_def forprep_int_def put_control_def wr_int_def wr_val_def for_example_def all_int_def mk_value_def for_count_def jump_to_def fun_upd_twist)
qed

end
