(* ===== verification/Comparison.thy ===== *)
theory Comparison
  imports Unary
begin

text \<open>
  Jump, comparisons and tests (opcodes 56 to 67): the learners of equality and order over
  every pair of tags, the residual leaves for each product of tags and each polarity of the
  branch, and the test leaves.
\<close>

subsection \<open>Branches\<close>

definition lua55_v2_jmp :: stencil where
  "lua55_v2_jmp h f s = Some (Jump (h_link h) f, s)"

definition V2_BRANCH_TAKEN :: stencil where
  "V2_BRANCH_TAKEN h f s = Some (Jump (h_taken h) f, s)"

text \<open>\<open>if (k ? cond : !cond) V2_BRANCH_TAKEN(frame); LUA55_RESIDUAL_NEXT(frame);\<close>\<close>

definition branch :: "bool \<Rightarrow> stencil" where
  "branch cond h f s =
     (if (if h_k h \<noteq> 0 then cond else \<not> cond) then V2_BRANCH_TAKEN h f s else LUA55_RESIDUAL_NEXT f s)"

definition V2_CMP_TAKE_K0 :: "bool \<Rightarrow> stencil" where
  "V2_CMP_TAKE_K0 cond h f s = (if \<not> cond then V2_BRANCH_TAKEN h f s else LUA55_RESIDUAL_NEXT f s)"

definition V2_CMP_TAKE_K1 :: "bool \<Rightarrow> stencil" where
  "V2_CMP_TAKE_K1 cond h f s = (if cond then V2_BRANCH_TAKEN h f s else LUA55_RESIDUAL_NEXT f s)"

subsection \<open>Learners\<close>

definition V2_CMP_RK :: operand where
  "V2_CMP_RK h f s = Some (mk_value (h_const_tag h)
     (if h_const_tag h = LUA55_VALUE_INTEGER then h_const_int h
      else if h_const_tag h = LUA55_VALUE_FLOAT then h_const_flt h
      else h_const_ref h))"

definition learn_cmp :: "operand \<Rightarrow> (lua_value \<Rightarrow> lua_value \<Rightarrow> stencil) \<Rightarrow> stencil" where
  "learn_cmp right body h f s = do {
     lv \<leftarrow> V2_LEFT h f s;
     rv \<leftarrow> right h f s;
     s \<leftarrow> v2_learn_pair (h_occ_slot h) (tag lv) (tag rv) s;
     body lv rv h f s}"

definition eq_cond :: "lua_value \<Rightarrow> lua_value \<Rightarrow> v2_state \<Rightarrow> bool option" where
  "eq_cond lv rv s =
     (if tag lv = LUA55_VALUE_INTEGER \<and> tag rv = LUA55_VALUE_INTEGER then Some (payload lv = payload rv)
      else if tag lv = LUA55_VALUE_INTEGER \<and> tag rv = LUA55_VALUE_FLOAT
      then Some (v2_eq_int_float (payload lv) (payload rv))
      else if tag lv = LUA55_VALUE_FLOAT \<and> tag rv = LUA55_VALUE_INTEGER
      then Some (v2_eq_int_float (payload rv) (payload lv))
      else if tag lv = LUA55_VALUE_FLOAT \<and> tag rv = LUA55_VALUE_FLOAT
      then Some (dbl_eq (payload lv) (payload rv))
      else if v2_is_string_tag (tag lv) \<and> v2_is_string_tag (tag rv)
      then v2_string_bytes_eq (payload lv) (payload rv) s
      else if tag lv = tag rv
      then Some (if tag lv = LUA55_VALUE_TABLE \<or> tag lv = LUA55_VALUE_CLOSURE
                 then payload lv = payload rv else True)
      else Some False)"

definition V2_EQ :: "operand \<Rightarrow> stencil" where
  "V2_EQ right = learn_cmp right (\<lambda>lv rv h f s. do {
     cond \<leftarrow> eq_cond lv rv s;
     branch cond h f s})"

definition V2_ORD :: "operand \<Rightarrow> bool \<Rightarrow> stencil" where
  "V2_ORD right flip = learn_cmp right (\<lambda>lv rv h f s.
     let a = payload lv; b = payload rv in
     if tag lv = LUA55_VALUE_INTEGER \<and> tag rv = LUA55_VALUE_INTEGER
     then branch (if flip then b <s a else a <s b) h f s
     else if tag lv = LUA55_VALUE_INTEGER \<and> tag rv = LUA55_VALUE_FLOAT
     then branch (if flip then dbl_lt b (c_double a) else dbl_lt (c_double a) b) h f s
     else if tag lv = LUA55_VALUE_FLOAT \<and> tag rv = LUA55_VALUE_INTEGER
     then branch (if flip then dbl_lt (c_double b) a else dbl_lt a (c_double b)) h f s
     else if tag lv = LUA55_VALUE_FLOAT \<and> tag rv = LUA55_VALUE_FLOAT
     then branch (if flip then dbl_lt b a else dbl_lt a b) h f s
     else if v2_is_string_tag (tag lv) \<and> v2_is_string_tag (tag rv)
     then do {c \<leftarrow> v2_string_cmp a b s; branch (if flip then c > 0 else c < 0) h f s}
     else reject_exit LUA55_V2_REJECT_UNSUPPORTED_METAMETHOD h f s)"

definition V2_LE :: "operand \<Rightarrow> bool \<Rightarrow> stencil" where
  "V2_LE right flip = learn_cmp right (\<lambda>lv rv h f s.
     let a = payload lv; b = payload rv in
     if tag lv = LUA55_VALUE_INTEGER \<and> tag rv = LUA55_VALUE_INTEGER
     then branch (if flip then b \<le>s a else a \<le>s b) h f s
     else if tag lv = LUA55_VALUE_INTEGER \<and> tag rv = LUA55_VALUE_FLOAT
     then branch (if flip then dbl_le b (c_double a) else dbl_le (c_double a) b) h f s
     else if tag lv = LUA55_VALUE_FLOAT \<and> tag rv = LUA55_VALUE_INTEGER
     then branch (if flip then dbl_le (c_double b) a else dbl_le a (c_double b)) h f s
     else if tag lv = LUA55_VALUE_FLOAT \<and> tag rv = LUA55_VALUE_FLOAT
     then branch (if flip then dbl_le b a else dbl_le a b) h f s
     else if v2_is_string_tag (tag lv) \<and> v2_is_string_tag (tag rv)
     then do {c \<leftarrow> v2_string_cmp a b s; branch (if flip then c \<ge> 0 else c \<le> 0) h f s}
     else reject_exit LUA55_V2_REJECT_UNSUPPORTED_METAMETHOD h f s)"

definition lua55_v2l_eq :: stencil where
  "lua55_v2l_eq = V2_EQ V2_PRO_RR"

definition lua55_v2l_eqk :: stencil where
  "lua55_v2l_eqk = V2_EQ V2_CMP_RK"

definition lua55_v2l_eqi :: stencil where
  "lua55_v2l_eqi = V2_EQ V2_PRO_RI"

definition lua55_v2l_lt :: stencil where
  "lua55_v2l_lt = V2_ORD V2_PRO_RR False"

definition lua55_v2l_lti :: stencil where
  "lua55_v2l_lti = V2_ORD V2_PRO_RI False"

definition lua55_v2l_le :: stencil where
  "lua55_v2l_le = V2_LE V2_PRO_RR False"

definition lua55_v2l_lei :: stencil where
  "lua55_v2l_lei = V2_LE V2_PRO_RI False"

definition lua55_v2l_gti :: stencil where
  "lua55_v2l_gti = V2_ORD V2_PRO_RI True"

definition lua55_v2l_gei :: stencil where
  "lua55_v2l_gei = V2_LE V2_PRO_RI True"

subsection \<open>Tests\<close>

definition V2_TEST_LEAF :: "(bool \<Rightarrow> stencil) \<Rightarrow> stencil" where
  "V2_TEST_LEAF taken h f s = do {
     lv \<leftarrow> V2_LEFT h f s;
     taken (v2_truthy (tag lv)) h f s}"

definition V2_TESTSET_LEAF :: "(bool \<Rightarrow> stencil) \<Rightarrow> stencil" where
  "V2_TESTSET_LEAF taken h f s = do {
     lv \<leftarrow> V2_LEFT h f s;
     target \<leftarrow> V2_VALUE_DISP (h_target_disp h) f s;
     s \<leftarrow> wr_val target lv s;
     taken (v2_truthy (tag lv)) h f s}"

definition lua55_v2r_test_k0 :: stencil where
  "lua55_v2r_test_k0 = V2_TEST_LEAF V2_CMP_TAKE_K0"

definition lua55_v2r_test_k1 :: stencil where
  "lua55_v2r_test_k1 = V2_TEST_LEAF V2_CMP_TAKE_K1"

definition lua55_v2r_testset_k0 :: stencil where
  "lua55_v2r_testset_k0 = V2_TESTSET_LEAF V2_CMP_TAKE_K0"

definition lua55_v2r_testset_k1 :: stencil where
  "lua55_v2r_testset_k1 = V2_TESTSET_LEAF V2_CMP_TAKE_K1"

subsection \<open>Leaves\<close>

definition V2_CMP_LEAF_ONE :: "u32 \<Rightarrow> u32 \<Rightarrow> (u64 \<Rightarrow> u64 \<Rightarrow> bool) \<Rightarrow> (bool \<Rightarrow> stencil) \<Rightarrow> stencil" where
  "V2_CMP_LEAF_ONE gl gr cond taken h f s = do {
     lv \<leftarrow> V2_LEFT h f s;
     V2_LEAF_GUARD lv gl (\<lambda>h f s. do {
       rv \<leftarrow> V2_PRO_RR h f s;
       V2_LEAF_GUARD rv gr (taken (cond (payload lv) (payload rv))) h f s}) h f s}"

definition V2_CMP_SS_LEAF_ONE ::
    "(u64 \<Rightarrow> u64 \<Rightarrow> v2_state \<Rightarrow> bool option) \<Rightarrow> (bool \<Rightarrow> stencil) \<Rightarrow> stencil" where
  "V2_CMP_SS_LEAF_ONE cond taken h f s = do {
     lv \<leftarrow> V2_LEFT h f s;
     V2_LEAF_GUARD_STR lv (\<lambda>h f s. do {
       rv \<leftarrow> V2_PRO_RR h f s;
       V2_LEAF_GUARD_STR rv (\<lambda>h f s. do {
         c \<leftarrow> cond (payload lv) (payload rv) s;
         taken c h f s}) h f s}) h f s}"

definition V2_CMP_I_LEAF_ONE :: "u32 \<Rightarrow> (u64 \<Rightarrow> u64 \<Rightarrow> bool) \<Rightarrow> (bool \<Rightarrow> stencil) \<Rightarrow> stencil" where
  "V2_CMP_I_LEAF_ONE gl cond taken h f s = do {
     lv \<leftarrow> V2_LEFT h f s;
     rv \<leftarrow> V2_PRO_RI h f s;
     V2_LEAF_GUARD lv gl (taken (cond (payload lv) (payload rv))) h f s}"

definition V2_EQ_RR_LEAF :: "(bool \<Rightarrow> stencil) \<Rightarrow> stencil" where
  "V2_EQ_RR_LEAF taken h f s = do {
     lv \<leftarrow> V2_LEFT h f s;
     rv \<leftarrow> V2_PRO_RR h f s;
     if tag lv \<noteq> tag rv \<or> (tag lv \<noteq> LUA55_VALUE_TABLE \<and> tag lv \<noteq> LUA55_VALUE_CLOSURE)
     then mismatch (tag lv) (tag rv) h f s
     else taken (payload lv = payload rv) h f s}"

definition V2_EQ_SP_LEAF :: "(bool \<Rightarrow> stencil) \<Rightarrow> stencil" where
  "V2_EQ_SP_LEAF taken h f s = do {
     lv \<leftarrow> V2_LEFT h f s;
     rv \<leftarrow> V2_PRO_RR h f s;
     if tag lv \<noteq> tag rv \<or> tag lv > LUA55_VALUE_TRUE then mismatch (tag lv) (tag rv) h f s
     else taken True h f s}"

definition number_tag :: "u32 \<Rightarrow> bool" where
  "number_tag t \<longleftrightarrow> t = LUA55_VALUE_INTEGER \<or> t = LUA55_VALUE_FLOAT"

definition V2_EQ_MX_LEAF :: "(bool \<Rightarrow> stencil) \<Rightarrow> stencil" where
  "V2_EQ_MX_LEAF taken h f s = do {
     lv \<leftarrow> V2_LEFT h f s;
     rv \<leftarrow> V2_PRO_RR h f s;
     if tag lv = tag rv \<or> (number_tag (tag lv) \<and> number_tag (tag rv))
     then mismatch (tag lv) (tag rv) h f s
     else taken False h f s}"

definition V2_EQI_MX_LEAF :: "(bool \<Rightarrow> stencil) \<Rightarrow> stencil" where
  "V2_EQI_MX_LEAF taken h f s = do {
     lv \<leftarrow> V2_LEFT h f s;
     if number_tag (tag lv) then mismatch LUA55_VALUE_NIL (tag lv) h f s
     else taken False h f s}"

definition V2_EQK_GUARDED_LEAF_ONE ::
    "operand \<Rightarrow> u32 \<Rightarrow> (u64 \<Rightarrow> u64 \<Rightarrow> bool) \<Rightarrow> (bool \<Rightarrow> stencil) \<Rightarrow> stencil" where
  "V2_EQK_GUARDED_LEAF_ONE right gl cond taken h f s = do {
     lv \<leftarrow> V2_LEFT h f s;
     rv \<leftarrow> right h f s;
     V2_LEAF_GUARD lv gl (taken (cond (payload lv) (payload rv))) h f s}"

text \<open>The string instance of the same macro compares with the patched constant reference.\<close>

definition eqk_str_leaf :: "(bool \<Rightarrow> stencil) \<Rightarrow> stencil" where
  "eqk_str_leaf taken h f s = do {
     lv \<leftarrow> V2_LEFT h f s;
     V2_LEAF_GUARD_STR lv (\<lambda>h f s. do {
       c \<leftarrow> v2_string_bytes_eq (payload lv) (h_const_ref h) s;
       taken c h f s}) h f s}"

definition V2_EQK_MX_LEAF :: "(u32 \<Rightarrow> bool) \<Rightarrow> (bool \<Rightarrow> stencil) \<Rightarrow> stencil" where
  "V2_EQK_MX_LEAF reject_tag taken h f s = do {
     lv \<leftarrow> V2_LEFT h f s;
     if reject_tag (tag lv) then mismatch LUA55_VALUE_NIL (tag lv) h f s
     else taken False h f s}"

definition V2_EQK_TAG_LEAF :: "u32 \<Rightarrow> (bool \<Rightarrow> stencil) \<Rightarrow> stencil" where
  "V2_EQK_TAG_LEAF expected taken h f s = do {
     lv \<leftarrow> V2_LEFT h f s;
     taken (tag lv = expected) h f s}"

definition lua55_v2r_lt_ii_k0 :: stencil where
  "lua55_v2r_lt_ii_k0 = V2_CMP_LEAF_ONE LUA55_VALUE_INTEGER LUA55_VALUE_INTEGER (\<lambda>a b. a <s b) V2_CMP_TAKE_K0"

definition lua55_v2r_lt_ii_k1 :: stencil where
  "lua55_v2r_lt_ii_k1 = V2_CMP_LEAF_ONE LUA55_VALUE_INTEGER LUA55_VALUE_INTEGER (\<lambda>a b. a <s b) V2_CMP_TAKE_K1"

definition lua55_v2r_lt_if_k0 :: stencil where
  "lua55_v2r_lt_if_k0 = V2_CMP_LEAF_ONE LUA55_VALUE_INTEGER LUA55_VALUE_FLOAT (\<lambda>a b. dbl_lt (c_double a) b) V2_CMP_TAKE_K0"

definition lua55_v2r_lt_if_k1 :: stencil where
  "lua55_v2r_lt_if_k1 = V2_CMP_LEAF_ONE LUA55_VALUE_INTEGER LUA55_VALUE_FLOAT (\<lambda>a b. dbl_lt (c_double a) b) V2_CMP_TAKE_K1"

definition lua55_v2r_lt_fi_k0 :: stencil where
  "lua55_v2r_lt_fi_k0 = V2_CMP_LEAF_ONE LUA55_VALUE_FLOAT LUA55_VALUE_INTEGER (\<lambda>a b. dbl_lt a (c_double b)) V2_CMP_TAKE_K0"

definition lua55_v2r_lt_fi_k1 :: stencil where
  "lua55_v2r_lt_fi_k1 = V2_CMP_LEAF_ONE LUA55_VALUE_FLOAT LUA55_VALUE_INTEGER (\<lambda>a b. dbl_lt a (c_double b)) V2_CMP_TAKE_K1"

definition lua55_v2r_lt_ff_k0 :: stencil where
  "lua55_v2r_lt_ff_k0 = V2_CMP_LEAF_ONE LUA55_VALUE_FLOAT LUA55_VALUE_FLOAT (\<lambda>a b. dbl_lt a b) V2_CMP_TAKE_K0"

definition lua55_v2r_lt_ff_k1 :: stencil where
  "lua55_v2r_lt_ff_k1 = V2_CMP_LEAF_ONE LUA55_VALUE_FLOAT LUA55_VALUE_FLOAT (\<lambda>a b. dbl_lt a b) V2_CMP_TAKE_K1"

definition lua55_v2r_le_ii_k0 :: stencil where
  "lua55_v2r_le_ii_k0 = V2_CMP_LEAF_ONE LUA55_VALUE_INTEGER LUA55_VALUE_INTEGER (\<lambda>a b. a \<le>s b) V2_CMP_TAKE_K0"

definition lua55_v2r_le_ii_k1 :: stencil where
  "lua55_v2r_le_ii_k1 = V2_CMP_LEAF_ONE LUA55_VALUE_INTEGER LUA55_VALUE_INTEGER (\<lambda>a b. a \<le>s b) V2_CMP_TAKE_K1"

definition lua55_v2r_le_if_k0 :: stencil where
  "lua55_v2r_le_if_k0 = V2_CMP_LEAF_ONE LUA55_VALUE_INTEGER LUA55_VALUE_FLOAT (\<lambda>a b. dbl_le (c_double a) b) V2_CMP_TAKE_K0"

definition lua55_v2r_le_if_k1 :: stencil where
  "lua55_v2r_le_if_k1 = V2_CMP_LEAF_ONE LUA55_VALUE_INTEGER LUA55_VALUE_FLOAT (\<lambda>a b. dbl_le (c_double a) b) V2_CMP_TAKE_K1"

definition lua55_v2r_le_fi_k0 :: stencil where
  "lua55_v2r_le_fi_k0 = V2_CMP_LEAF_ONE LUA55_VALUE_FLOAT LUA55_VALUE_INTEGER (\<lambda>a b. dbl_le a (c_double b)) V2_CMP_TAKE_K0"

definition lua55_v2r_le_fi_k1 :: stencil where
  "lua55_v2r_le_fi_k1 = V2_CMP_LEAF_ONE LUA55_VALUE_FLOAT LUA55_VALUE_INTEGER (\<lambda>a b. dbl_le a (c_double b)) V2_CMP_TAKE_K1"

definition lua55_v2r_le_ff_k0 :: stencil where
  "lua55_v2r_le_ff_k0 = V2_CMP_LEAF_ONE LUA55_VALUE_FLOAT LUA55_VALUE_FLOAT (\<lambda>a b. dbl_le a b) V2_CMP_TAKE_K0"

definition lua55_v2r_le_ff_k1 :: stencil where
  "lua55_v2r_le_ff_k1 = V2_CMP_LEAF_ONE LUA55_VALUE_FLOAT LUA55_VALUE_FLOAT (\<lambda>a b. dbl_le a b) V2_CMP_TAKE_K1"

definition lua55_v2r_eq_ii_k0 :: stencil where
  "lua55_v2r_eq_ii_k0 = V2_CMP_LEAF_ONE LUA55_VALUE_INTEGER LUA55_VALUE_INTEGER (\<lambda>a b. a = b) V2_CMP_TAKE_K0"

definition lua55_v2r_eq_ii_k1 :: stencil where
  "lua55_v2r_eq_ii_k1 = V2_CMP_LEAF_ONE LUA55_VALUE_INTEGER LUA55_VALUE_INTEGER (\<lambda>a b. a = b) V2_CMP_TAKE_K1"

definition lua55_v2r_eq_if_k0 :: stencil where
  "lua55_v2r_eq_if_k0 = V2_CMP_LEAF_ONE LUA55_VALUE_INTEGER LUA55_VALUE_FLOAT (\<lambda>a b. v2_eq_int_float a b) V2_CMP_TAKE_K0"

definition lua55_v2r_eq_if_k1 :: stencil where
  "lua55_v2r_eq_if_k1 = V2_CMP_LEAF_ONE LUA55_VALUE_INTEGER LUA55_VALUE_FLOAT (\<lambda>a b. v2_eq_int_float a b) V2_CMP_TAKE_K1"

definition lua55_v2r_eq_fi_k0 :: stencil where
  "lua55_v2r_eq_fi_k0 = V2_CMP_LEAF_ONE LUA55_VALUE_FLOAT LUA55_VALUE_INTEGER (\<lambda>a b. v2_eq_int_float b a) V2_CMP_TAKE_K0"

definition lua55_v2r_eq_fi_k1 :: stencil where
  "lua55_v2r_eq_fi_k1 = V2_CMP_LEAF_ONE LUA55_VALUE_FLOAT LUA55_VALUE_INTEGER (\<lambda>a b. v2_eq_int_float b a) V2_CMP_TAKE_K1"

definition lua55_v2r_eq_ff_k0 :: stencil where
  "lua55_v2r_eq_ff_k0 = V2_CMP_LEAF_ONE LUA55_VALUE_FLOAT LUA55_VALUE_FLOAT (\<lambda>a b. dbl_eq a b) V2_CMP_TAKE_K0"

definition lua55_v2r_eq_ff_k1 :: stencil where
  "lua55_v2r_eq_ff_k1 = V2_CMP_LEAF_ONE LUA55_VALUE_FLOAT LUA55_VALUE_FLOAT (\<lambda>a b. dbl_eq a b) V2_CMP_TAKE_K1"

definition lua55_v2r_lt_ss_k0 :: stencil where
  "lua55_v2r_lt_ss_k0 = V2_CMP_SS_LEAF_ONE (\<lambda>a b s. map_option (\<lambda>c. c < 0) (v2_string_cmp a b s)) V2_CMP_TAKE_K0"

definition lua55_v2r_lt_ss_k1 :: stencil where
  "lua55_v2r_lt_ss_k1 = V2_CMP_SS_LEAF_ONE (\<lambda>a b s. map_option (\<lambda>c. c < 0) (v2_string_cmp a b s)) V2_CMP_TAKE_K1"

definition lua55_v2r_le_ss_k0 :: stencil where
  "lua55_v2r_le_ss_k0 = V2_CMP_SS_LEAF_ONE (\<lambda>a b s. map_option (\<lambda>c. c \<le> 0) (v2_string_cmp a b s)) V2_CMP_TAKE_K0"

definition lua55_v2r_le_ss_k1 :: stencil where
  "lua55_v2r_le_ss_k1 = V2_CMP_SS_LEAF_ONE (\<lambda>a b s. map_option (\<lambda>c. c \<le> 0) (v2_string_cmp a b s)) V2_CMP_TAKE_K1"

definition lua55_v2r_eq_ss_k0 :: stencil where
  "lua55_v2r_eq_ss_k0 = V2_CMP_SS_LEAF_ONE (v2_string_bytes_eq) V2_CMP_TAKE_K0"

definition lua55_v2r_eq_ss_k1 :: stencil where
  "lua55_v2r_eq_ss_k1 = V2_CMP_SS_LEAF_ONE (v2_string_bytes_eq) V2_CMP_TAKE_K1"

definition lua55_v2r_lti_ii_k0 :: stencil where
  "lua55_v2r_lti_ii_k0 = V2_CMP_I_LEAF_ONE LUA55_VALUE_INTEGER (\<lambda>a b. a <s b) V2_CMP_TAKE_K0"

definition lua55_v2r_lti_ii_k1 :: stencil where
  "lua55_v2r_lti_ii_k1 = V2_CMP_I_LEAF_ONE LUA55_VALUE_INTEGER (\<lambda>a b. a <s b) V2_CMP_TAKE_K1"

definition lua55_v2r_lti_fi_k0 :: stencil where
  "lua55_v2r_lti_fi_k0 = V2_CMP_I_LEAF_ONE LUA55_VALUE_FLOAT (\<lambda>a b. dbl_lt a (c_double b)) V2_CMP_TAKE_K0"

definition lua55_v2r_lti_fi_k1 :: stencil where
  "lua55_v2r_lti_fi_k1 = V2_CMP_I_LEAF_ONE LUA55_VALUE_FLOAT (\<lambda>a b. dbl_lt a (c_double b)) V2_CMP_TAKE_K1"

definition lua55_v2r_lei_ii_k0 :: stencil where
  "lua55_v2r_lei_ii_k0 = V2_CMP_I_LEAF_ONE LUA55_VALUE_INTEGER (\<lambda>a b. a \<le>s b) V2_CMP_TAKE_K0"

definition lua55_v2r_lei_ii_k1 :: stencil where
  "lua55_v2r_lei_ii_k1 = V2_CMP_I_LEAF_ONE LUA55_VALUE_INTEGER (\<lambda>a b. a \<le>s b) V2_CMP_TAKE_K1"

definition lua55_v2r_lei_fi_k0 :: stencil where
  "lua55_v2r_lei_fi_k0 = V2_CMP_I_LEAF_ONE LUA55_VALUE_FLOAT (\<lambda>a b. dbl_le a (c_double b)) V2_CMP_TAKE_K0"

definition lua55_v2r_lei_fi_k1 :: stencil where
  "lua55_v2r_lei_fi_k1 = V2_CMP_I_LEAF_ONE LUA55_VALUE_FLOAT (\<lambda>a b. dbl_le a (c_double b)) V2_CMP_TAKE_K1"

definition lua55_v2r_gti_ii_k0 :: stencil where
  "lua55_v2r_gti_ii_k0 = V2_CMP_I_LEAF_ONE LUA55_VALUE_INTEGER (\<lambda>a b. b <s a) V2_CMP_TAKE_K0"

definition lua55_v2r_gti_ii_k1 :: stencil where
  "lua55_v2r_gti_ii_k1 = V2_CMP_I_LEAF_ONE LUA55_VALUE_INTEGER (\<lambda>a b. b <s a) V2_CMP_TAKE_K1"

definition lua55_v2r_gti_fi_k0 :: stencil where
  "lua55_v2r_gti_fi_k0 = V2_CMP_I_LEAF_ONE LUA55_VALUE_FLOAT (\<lambda>a b. dbl_lt (c_double b) a) V2_CMP_TAKE_K0"

definition lua55_v2r_gti_fi_k1 :: stencil where
  "lua55_v2r_gti_fi_k1 = V2_CMP_I_LEAF_ONE LUA55_VALUE_FLOAT (\<lambda>a b. dbl_lt (c_double b) a) V2_CMP_TAKE_K1"

definition lua55_v2r_gei_ii_k0 :: stencil where
  "lua55_v2r_gei_ii_k0 = V2_CMP_I_LEAF_ONE LUA55_VALUE_INTEGER (\<lambda>a b. b \<le>s a) V2_CMP_TAKE_K0"

definition lua55_v2r_gei_ii_k1 :: stencil where
  "lua55_v2r_gei_ii_k1 = V2_CMP_I_LEAF_ONE LUA55_VALUE_INTEGER (\<lambda>a b. b \<le>s a) V2_CMP_TAKE_K1"

definition lua55_v2r_gei_fi_k0 :: stencil where
  "lua55_v2r_gei_fi_k0 = V2_CMP_I_LEAF_ONE LUA55_VALUE_FLOAT (\<lambda>a b. dbl_le (c_double b) a) V2_CMP_TAKE_K0"

definition lua55_v2r_gei_fi_k1 :: stencil where
  "lua55_v2r_gei_fi_k1 = V2_CMP_I_LEAF_ONE LUA55_VALUE_FLOAT (\<lambda>a b. dbl_le (c_double b) a) V2_CMP_TAKE_K1"

definition lua55_v2r_eqi_ii_k0 :: stencil where
  "lua55_v2r_eqi_ii_k0 = V2_CMP_I_LEAF_ONE LUA55_VALUE_INTEGER (\<lambda>a b. a = b) V2_CMP_TAKE_K0"

definition lua55_v2r_eqi_ii_k1 :: stencil where
  "lua55_v2r_eqi_ii_k1 = V2_CMP_I_LEAF_ONE LUA55_VALUE_INTEGER (\<lambda>a b. a = b) V2_CMP_TAKE_K1"

definition lua55_v2r_eqi_fi_k0 :: stencil where
  "lua55_v2r_eqi_fi_k0 = V2_CMP_I_LEAF_ONE LUA55_VALUE_FLOAT (\<lambda>a b. v2_eq_int_float b a) V2_CMP_TAKE_K0"

definition lua55_v2r_eqi_fi_k1 :: stencil where
  "lua55_v2r_eqi_fi_k1 = V2_CMP_I_LEAF_ONE LUA55_VALUE_FLOAT (\<lambda>a b. v2_eq_int_float b a) V2_CMP_TAKE_K1"

definition lua55_v2r_eq_rr_k0 :: stencil where
  "lua55_v2r_eq_rr_k0 = V2_EQ_RR_LEAF V2_CMP_TAKE_K0"

definition lua55_v2r_eq_rr_k1 :: stencil where
  "lua55_v2r_eq_rr_k1 = V2_EQ_RR_LEAF V2_CMP_TAKE_K1"

definition lua55_v2r_eq_sp_k0 :: stencil where
  "lua55_v2r_eq_sp_k0 = V2_EQ_SP_LEAF V2_CMP_TAKE_K0"

definition lua55_v2r_eq_sp_k1 :: stencil where
  "lua55_v2r_eq_sp_k1 = V2_EQ_SP_LEAF V2_CMP_TAKE_K1"

definition lua55_v2r_eq_mx_k0 :: stencil where
  "lua55_v2r_eq_mx_k0 = V2_EQ_MX_LEAF V2_CMP_TAKE_K0"

definition lua55_v2r_eq_mx_k1 :: stencil where
  "lua55_v2r_eq_mx_k1 = V2_EQ_MX_LEAF V2_CMP_TAKE_K1"

definition lua55_v2r_eqi_mx_k0 :: stencil where
  "lua55_v2r_eqi_mx_k0 = V2_EQI_MX_LEAF V2_CMP_TAKE_K0"

definition lua55_v2r_eqi_mx_k1 :: stencil where
  "lua55_v2r_eqi_mx_k1 = V2_EQI_MX_LEAF V2_CMP_TAKE_K1"

definition lua55_v2r_eqk_int_ii_k0 :: stencil where
  "lua55_v2r_eqk_int_ii_k0 = V2_EQK_GUARDED_LEAF_ONE V2_PRO_RK_INT LUA55_VALUE_INTEGER (\<lambda>a b. a = b) V2_CMP_TAKE_K0"

definition lua55_v2r_eqk_int_ii_k1 :: stencil where
  "lua55_v2r_eqk_int_ii_k1 = V2_EQK_GUARDED_LEAF_ONE V2_PRO_RK_INT LUA55_VALUE_INTEGER (\<lambda>a b. a = b) V2_CMP_TAKE_K1"

definition lua55_v2r_eqk_int_fi_k0 :: stencil where
  "lua55_v2r_eqk_int_fi_k0 = V2_EQK_GUARDED_LEAF_ONE V2_PRO_RK_INT LUA55_VALUE_FLOAT (\<lambda>a b. v2_eq_int_float b a) V2_CMP_TAKE_K0"

definition lua55_v2r_eqk_int_fi_k1 :: stencil where
  "lua55_v2r_eqk_int_fi_k1 = V2_EQK_GUARDED_LEAF_ONE V2_PRO_RK_INT LUA55_VALUE_FLOAT (\<lambda>a b. v2_eq_int_float b a) V2_CMP_TAKE_K1"

definition lua55_v2r_eqk_flt_if_k0 :: stencil where
  "lua55_v2r_eqk_flt_if_k0 = V2_EQK_GUARDED_LEAF_ONE V2_PRO_RK_FLT LUA55_VALUE_INTEGER (\<lambda>a b. v2_eq_int_float a b) V2_CMP_TAKE_K0"

definition lua55_v2r_eqk_flt_if_k1 :: stencil where
  "lua55_v2r_eqk_flt_if_k1 = V2_EQK_GUARDED_LEAF_ONE V2_PRO_RK_FLT LUA55_VALUE_INTEGER (\<lambda>a b. v2_eq_int_float a b) V2_CMP_TAKE_K1"

definition lua55_v2r_eqk_flt_ff_k0 :: stencil where
  "lua55_v2r_eqk_flt_ff_k0 = V2_EQK_GUARDED_LEAF_ONE V2_PRO_RK_FLT LUA55_VALUE_FLOAT (\<lambda>a b. dbl_eq a b) V2_CMP_TAKE_K0"

definition lua55_v2r_eqk_flt_ff_k1 :: stencil where
  "lua55_v2r_eqk_flt_ff_k1 = V2_EQK_GUARDED_LEAF_ONE V2_PRO_RK_FLT LUA55_VALUE_FLOAT (\<lambda>a b. dbl_eq a b) V2_CMP_TAKE_K1"

definition lua55_v2r_eqk_str_ss_k0 :: stencil where
  "lua55_v2r_eqk_str_ss_k0 = eqk_str_leaf V2_CMP_TAKE_K0"

definition lua55_v2r_eqk_str_ss_k1 :: stencil where
  "lua55_v2r_eqk_str_ss_k1 = eqk_str_leaf V2_CMP_TAKE_K1"

definition lua55_v2r_eqk_int_mx_k0 :: stencil where
  "lua55_v2r_eqk_int_mx_k0 = V2_EQK_MX_LEAF number_tag V2_CMP_TAKE_K0"

definition lua55_v2r_eqk_int_mx_k1 :: stencil where
  "lua55_v2r_eqk_int_mx_k1 = V2_EQK_MX_LEAF number_tag V2_CMP_TAKE_K1"

definition lua55_v2r_eqk_flt_mx_k0 :: stencil where
  "lua55_v2r_eqk_flt_mx_k0 = V2_EQK_MX_LEAF number_tag V2_CMP_TAKE_K0"

definition lua55_v2r_eqk_flt_mx_k1 :: stencil where
  "lua55_v2r_eqk_flt_mx_k1 = V2_EQK_MX_LEAF number_tag V2_CMP_TAKE_K1"

definition lua55_v2r_eqk_str_mx_k0 :: stencil where
  "lua55_v2r_eqk_str_mx_k0 = V2_EQK_MX_LEAF v2_is_string_tag V2_CMP_TAKE_K0"

definition lua55_v2r_eqk_str_mx_k1 :: stencil where
  "lua55_v2r_eqk_str_mx_k1 = V2_EQK_MX_LEAF v2_is_string_tag V2_CMP_TAKE_K1"

definition lua55_v2r_eqk_nil_k0 :: stencil where
  "lua55_v2r_eqk_nil_k0 = V2_EQK_TAG_LEAF LUA55_VALUE_NIL V2_CMP_TAKE_K0"

definition lua55_v2r_eqk_nil_k1 :: stencil where
  "lua55_v2r_eqk_nil_k1 = V2_EQK_TAG_LEAF LUA55_VALUE_NIL V2_CMP_TAKE_K1"

definition lua55_v2r_eqk_false_k0 :: stencil where
  "lua55_v2r_eqk_false_k0 = V2_EQK_TAG_LEAF LUA55_VALUE_FALSE V2_CMP_TAKE_K0"

definition lua55_v2r_eqk_false_k1 :: stencil where
  "lua55_v2r_eqk_false_k1 = V2_EQK_TAG_LEAF LUA55_VALUE_FALSE V2_CMP_TAKE_K1"

definition lua55_v2r_eqk_true_k0 :: stencil where
  "lua55_v2r_eqk_true_k0 = V2_EQK_TAG_LEAF LUA55_VALUE_TRUE V2_CMP_TAKE_K0"

definition lua55_v2r_eqk_true_k1 :: stencil where
  "lua55_v2r_eqk_true_k1 = V2_EQK_TAG_LEAF LUA55_VALUE_TRUE V2_CMP_TAKE_K1"

subsection \<open>Leaves refine learners\<close>

definition cmp_ops :: "operand \<Rightarrow> holes \<Rightarrow> u64 \<Rightarrow> v2_state \<Rightarrow> (lua_value \<times> lua_value) option" where
  "cmp_ops right h f s = do {lv \<leftarrow> V2_LEFT h f s; rv \<leftarrow> right h f s; Some (lv, rv)}"

definition cmp_shape :: "operand \<Rightarrow> (u32 \<Rightarrow> u32 \<Rightarrow> bool) \<Rightarrow> holes \<Rightarrow> u64 \<Rightarrow> v2_state \<Rightarrow> bool" where
  "cmp_shape right ok = accepted (cmp_ops right) (\<lambda>h (lv, rv). ok (tag lv) (tag rv))"

definition tags_are :: "u32 \<Rightarrow> u32 \<Rightarrow> u32 \<Rightarrow> u32 \<Rightarrow> bool" where
  "tags_are gl gr l r \<longleftrightarrow> l = gl \<and> r = gr"

definition both_strings :: "u32 \<Rightarrow> u32 \<Rightarrow> bool" where
  "both_strings l r \<longleftrightarrow> v2_is_string_tag l \<and> v2_is_string_tag r"

definition number_mismatch :: "u32 \<Rightarrow> u32 \<Rightarrow> bool" where
  "number_mismatch l r \<longleftrightarrow> \<not> number_tag l \<and> number_tag r"

definition string_mismatch :: "u32 \<Rightarrow> u32 \<Rightarrow> bool" where
  "string_mismatch l r \<longleftrightarrow> \<not> v2_is_string_tag l \<and> v2_is_string_tag r"

definition same_reference :: "u32 \<Rightarrow> u32 \<Rightarrow> bool" where
  "same_reference l r \<longleftrightarrow> l = r \<and> (l = LUA55_VALUE_TABLE \<or> l = LUA55_VALUE_CLOSURE)"

definition same_primitive :: "u32 \<Rightarrow> u32 \<Rightarrow> bool" where
  "same_primitive l r \<longleftrightarrow> l = r \<and> l \<le> LUA55_VALUE_TRUE"

definition right_is :: "u32 \<Rightarrow> u32 \<Rightarrow> u32 \<Rightarrow> bool" where
  "right_is t l r \<longleftrightarrow> r = t"

lemmas shape_defs = tags_are_def both_strings_def number_mismatch_def string_mismatch_def
  same_reference_def same_primitive_def right_is_def number_tag_def

text \<open>
  The polarity the leaf is built for is the one of its occurrence, and the branch target is not
  the mismatch exit.
\<close>

definition takes_false :: "holes \<Rightarrow> bool" where
  "takes_false h \<longleftrightarrow> h_k h = 0 \<and> h_taken h \<noteq> h_mismatch_exit h"

definition takes_true :: "holes \<Rightarrow> bool" where
  "takes_true h \<longleftrightarrow> h_k h \<noteq> 0 \<and> h_taken h \<noteq> h_mismatch_exit h"

abbreviation const_str :: "holes \<Rightarrow> bool" where "const_str h \<equiv> v2_is_string_tag (h_const_tag h)"
abbreviation const_nil :: "holes \<Rightarrow> bool" where "const_nil h \<equiv> h_const_tag h = LUA55_VALUE_NIL"
abbreviation const_false :: "holes \<Rightarrow> bool" where "const_false h \<equiv> h_const_tag h = LUA55_VALUE_FALSE"
abbreviation const_true :: "holes \<Rightarrow> bool" where "const_true h \<equiv> h_const_tag h = LUA55_VALUE_TRUE"

definition polarity :: "(bool \<Rightarrow> stencil) \<Rightarrow> (holes \<Rightarrow> bool) \<Rightarrow> bool" where
  "polarity taken p \<longleftrightarrow> (\<forall>h. p h \<longrightarrow> h_taken h \<noteq> h_mismatch_exit h \<and> (\<forall>c. taken c h = branch c h))"

lemma polarities [intro]: "polarity V2_CMP_TAKE_K0 takes_false" "polarity V2_CMP_TAKE_K1 takes_true"
  by (auto simp: polarity_def takes_false_def takes_true_def V2_CMP_TAKE_K0_def V2_CMP_TAKE_K1_def
      branch_def fun_eq_iff)

lemma polarity_and: "polarity taken p \<Longrightarrow> polarity taken (\<lambda>h. q h \<and> p h)"
  by (simp add: polarity_def)

lemma learn_cmp_eq:
  "learn_cmp right body h f s = do {x \<leftarrow> cmp_ops right h f s;
     s \<leftarrow> learn_at (h_occ_slot h) (observe_pair (tag (fst x), tag (snd x))) s;
     body (fst x) (snd x) h f s}"
  by (cases "V2_LEFT h f s"; cases "right h f s") (auto simp: learn_cmp_def cmp_ops_def v2_learn_pair_def)

lemma branch_exits [simp]:
  "h_taken h \<noteq> h_mismatch_exit h \<Longrightarrow> branch c h f s = Some r \<Longrightarrow> \<not> mismatch_exit h f s r"
  by (auto simp: branch_def V2_BRANCH_TAKEN_def mismatch_exit_def v2_defs split: if_splits)

lemma forgetful_branch: "forgetful (branch c h f)"
  by (auto simp: forgetful_def branch_def V2_BRANCH_TAKEN_def v2_defs)

lemma forgetful_cond_branch:
  assumes "\<And>s. cond (forget s) = cond s"
  shows "forgetful (\<lambda>s. do {c \<leftarrow> cond s; branch (g c) h f s})"
  unfolding forgetful_def
proof (intro allI conjI impI)
  fix s
  show "do {c \<leftarrow> cond (forget s); branch (g c) h f (forget s)} =
      map_option (map_prod id forget) (do {c \<leftarrow> cond s; branch (g c) h f s})"
    using forgetful_branch [of _ h f] unfolding assms forgetful_def by (cases "cond s") auto
next
  fix s c u
  assume "do {c \<leftarrow> cond s; branch (g c) h f s} = Some (c, u)" and "learning_ok s"
  then show "learning_ok u"
    using forgetful_branch [of _ h f] unfolding forgetful_def by (auto simp: bind_eq_Some_conv)
qed

lemma bytes_forget [simp]:
  "bytes_eq pa pb i n (forget s) = bytes_eq pa pb i n s"
  "bytes_cmp pa pb i n (forget s) = bytes_cmp pa pb i n s"
  by (induction n arbitrary: i) (simp_all add: rd_byte_def cong: if_cong)

lemma string_forget [simp]:
  "v2_string_bytes_eq a b (forget s) = v2_string_bytes_eq a b s"
  "v2_string_cmp a b (forget s) = v2_string_cmp a b s"
  by (simp_all add: v2_string_bytes_eq_def v2_string_cmp_def cong: if_cong)

lemma eq_cond_forget: "eq_cond lv rv (forget s) = eq_cond lv rv s"
  by (simp add: eq_cond_def)

text \<open>
  A comparison leaf: it looks at tags only to refuse, and on the tags it accepts the learner's
  work comes down to a condition and the branch on it.
\<close>

lemma cmp_refines:
  assumes pol: "polarity taken p"
    and operand: "\<And>h f s. right h f (forget s) = right h f s"
    and work: "\<And>h f s lv rv. p h \<Longrightarrow> cmp_ops right h f s = Some (lv, rv) \<Longrightarrow> ok (tag lv) (tag rv) \<Longrightarrow>
      leaf h f s = do {c \<leftarrow> cond lv rv s; taken (g c) h f s} \<and>
      lbody lv rv h f s = do {c \<leftarrow> cond lv rv s; branch (g c) h f s}"
    and body: "\<And>h f s lv rv. p h \<Longrightarrow> ok (tag lv) (tag rv) \<Longrightarrow>
      lbody lv rv h f s = do {c \<leftarrow> cond lv rv s; branch (g c) h f s}"
    and refuse: "\<And>h f s lv rv. p h \<Longrightarrow> cmp_ops right h f s = Some (lv, rv) \<Longrightarrow> \<not> ok (tag lv) (tag rv) \<Longrightarrow>
      \<exists>e ob. leaf h f s = mismatch e ob h f s"
    and undef: "\<And>h f s r. p h \<Longrightarrow> cmp_ops right h f s = None \<Longrightarrow> leaf h f s = Some r \<Longrightarrow> mismatch_exit h f s r"
    and frees: "\<And>lv rv s. cond lv rv (forget s) = cond lv rv s"
  shows "residual_leaf (learn_cmp right lbody) leaf (cmp_shape right ok) p"
  unfolding cmp_shape_def
proof (rule observed_refines [OF learn_cmp_eq])
  fix h f s
  show "cmp_ops right h f (forget s) = cmp_ops right h f s"
    by (simp add: cmp_ops_def operand)
next
  fix h f s and x :: "lua_value \<times> lua_value"
  assume "p h" and "cmp_ops right h f s = Some x" and "case x of (lv, rv) \<Rightarrow> ok (tag lv) (tag rv)"
  then show "leaf h f s = lbody (fst x) (snd x) h f s"
    using work [of h f s "fst x" "snd x"] pol by (auto simp: polarity_def split: prod.splits)
next
  fix h f s and x :: "lua_value \<times> lua_value"
  assume "p h" and "cmp_ops right h f s = Some x" and "\<not> (case x of (lv, rv) \<Rightarrow> ok (tag lv) (tag rv))"
  then show "\<exists>e ob. leaf h f s = mismatch e ob h f s"
    using refuse [of h f s "fst x" "snd x"] by (auto split: prod.splits)
next
  fix h f s r
  assume "p h" and "cmp_ops right h f s = None" and "leaf h f s = Some r"
  then show "mismatch_exit h f s r" by (rule undef)
next
  fix h f and x :: "lua_value \<times> lua_value"
  assume "p h" and "case x of (lv, rv) \<Rightarrow> ok (tag lv) (tag rv)"
  then have "lbody (fst x) (snd x) h f = (\<lambda>s. do {c \<leftarrow> cond (fst x) (snd x) s; branch (g c) h f s})"
    using body [of h "fst x" "snd x" f] by (auto split: prod.splits)
  then show "forgetful (lbody (fst x) (snd x) h f)"
    using forgetful_cond_branch [of "cond (fst x) (snd x)" g h f] frees by simp
next
  fix h f s r and x :: "lua_value \<times> lua_value"
  assume p: "p h" and "case x of (lv, rv) \<Rightarrow> ok (tag lv) (tag rv)" and "lbody (fst x) (snd x) h f s = Some r"
  then have "do {c \<leftarrow> cond (fst x) (snd x) s; branch (g c) h f s} = Some r"
    using body [of h "fst x" "snd x" f s] by (auto split: prod.splits)
  then show "\<not> mismatch_exit h f s r"
    using pol p by (auto simp: polarity_def bind_eq_Some_conv)
qed

lemma operand_forgets [simp]:
  "V2_PRO_RR h f (forget s) = V2_PRO_RR h f s" "V2_PRO_RI h f (forget s) = V2_PRO_RI h f s"
  "V2_CMP_RK h f (forget s) = V2_CMP_RK h f s"
  by (simp_all add: V2_PRO_RR_def V2_PRO_RI_def V2_CMP_RK_def v2_defs)

lemmas cmp_leaf_defs = cmp_ops_def V2_LEAF_GUARD_def V2_LEAF_GUARD_STR_def bind_eq_Some_conv
  V2_CMP_LEAF_ONE_def V2_CMP_SS_LEAF_ONE_def V2_CMP_I_LEAF_ONE_def V2_EQ_RR_LEAF_def V2_EQ_SP_LEAF_def
  V2_EQI_MX_LEAF_def V2_EQK_GUARDED_LEAF_ONE_def eqk_str_leaf_def V2_EQK_MX_LEAF_def V2_EQK_TAG_LEAF_def

text \<open>Register leaves: an exact pair of tags, or two strings.\<close>

lemma pair_leaf_refines:
  assumes "polarity taken p"
    and "\<And>h f s lv rv. tags_are gl gr (tag lv) (tag rv) \<Longrightarrow>
      lbody lv rv h f s = branch (cond (payload lv) (payload rv)) h f s"
  shows "residual_leaf (learn_cmp V2_PRO_RR lbody) (V2_CMP_LEAF_ONE gl gr cond taken)
    (cmp_shape V2_PRO_RR (tags_are gl gr)) p"
  using assms
  by (intro cmp_refines [where taken = taken and g = id and cond = "\<lambda>lv rv s. Some (cond (payload lv) (payload rv))"])
    (auto simp: cmp_leaf_defs tags_are_def bind_eq_None_conv dest: mismatch_is_exit split: if_splits)

lemma string_leaf_refines:
  assumes "polarity taken p"
    and "\<And>h f s lv rv. both_strings (tag lv) (tag rv) \<Longrightarrow>
      lbody lv rv h f s = do {c \<leftarrow> cond (payload lv) (payload rv) s; branch c h f s}"
    and "\<And>a b s. cond a b (forget s) = cond a b s"
  shows "residual_leaf (learn_cmp V2_PRO_RR lbody) (V2_CMP_SS_LEAF_ONE cond taken)
    (cmp_shape V2_PRO_RR both_strings) p"
  using assms
  by (intro cmp_refines [where taken = taken and g = id and cond = "\<lambda>lv rv s. cond (payload lv) (payload rv) s"])
    (auto simp: cmp_leaf_defs both_strings_def bind_eq_None_conv dest: mismatch_is_exit split: if_splits)

text \<open>Leaves whose right operand is known without reading memory.\<close>

lemma left_leaf_refines:
  assumes "polarity taken p"
    and "\<And>h f s. right h f (forget s) = right h f s"
    and "\<And>h f s. p h \<Longrightarrow> right h f s = Some (rval h)"
    and "\<And>h f s lv. p h \<Longrightarrow> V2_LEFT h f s = Some lv \<Longrightarrow> leaf h f s =
      (if ok (tag lv) (tag (rval h)) then do {c \<leftarrow> cond lv (rval h) s; taken c h f s}
       else mismatch (e lv) (tag lv) h f s)"
    and "\<And>h f s. p h \<Longrightarrow> V2_LEFT h f s = None \<Longrightarrow> leaf h f s = None"
    and "\<And>h f s lv rv. p h \<Longrightarrow> ok (tag lv) (tag rv) \<Longrightarrow>
      lbody lv rv h f s = do {c \<leftarrow> cond lv rv s; branch c h f s}"
    and "\<And>lv rv s. cond lv rv (forget s) = cond lv rv s"
  shows "residual_leaf (learn_cmp right lbody) leaf (cmp_shape right ok) p"
proof (rule cmp_refines [where taken = taken and g = id and cond = cond])
  fix h f s r
  assume "p h" and "cmp_ops right h f s = None" and "leaf h f s = Some r"
  then show "mismatch_exit h f s r"
    using assms(3,5) by (auto simp: cmp_ops_def bind_eq_None_conv)
qed (use assms in \<open>auto simp: cmp_ops_def bind_eq_Some_conv\<close>)

lemma imm_leaf_refines:
  assumes "polarity taken p"
    and "\<And>h f s lv rv. tags_are gl LUA55_VALUE_INTEGER (tag lv) (tag rv) \<Longrightarrow>
      lbody lv rv h f s = branch (cond (payload lv) (payload rv)) h f s"
  shows "residual_leaf (learn_cmp V2_PRO_RI lbody) (V2_CMP_I_LEAF_ONE gl cond taken)
    (cmp_shape V2_PRO_RI (tags_are gl LUA55_VALUE_INTEGER)) p"
  by (rule left_leaf_refines [OF assms(1), where e = "\<lambda>_. gl" and
        rval = "\<lambda>h. mk_value LUA55_VALUE_INTEGER (h_int_imm h)" and
        cond = "\<lambda>lv rv s. Some (cond (payload lv) (payload rv))"])
    (use assms(2) in \<open>auto simp: V2_PRO_RI_def V2_CMP_I_LEAF_ONE_def V2_LEAF_GUARD_def tags_are_def mk_value_def\<close>)

lemma const_leaf_refines:
  assumes "polarity taken p"
    and "\<And>h f s lv rv. tags_are gl gr (tag lv) (tag rv) \<Longrightarrow>
      lbody lv rv h f s = branch (cond (payload lv) (payload rv)) h f s"
    and "\<And>h f s. p h \<Longrightarrow> right h f s = V2_CMP_RK h f s \<and> h_const_tag h = gr"
  shows "residual_leaf (learn_cmp V2_CMP_RK lbody) (V2_EQK_GUARDED_LEAF_ONE right gl cond taken)
    (cmp_shape V2_CMP_RK (tags_are gl gr)) p"
  by (rule left_leaf_refines [OF assms(1), where e = "\<lambda>_. gl" and
        rval = "\<lambda>h. mk_value (h_const_tag h) (if h_const_tag h = LUA55_VALUE_INTEGER then h_const_int h
          else if h_const_tag h = LUA55_VALUE_FLOAT then h_const_flt h else h_const_ref h)" and
        cond = "\<lambda>lv rv s. Some (cond (payload lv) (payload rv))"])
    (use assms(2,3) in \<open>auto simp: V2_EQK_GUARDED_LEAF_ONE_def V2_LEAF_GUARD_def tags_are_def mk_value_def V2_CMP_RK_def\<close>)

text \<open>Leaves of the equality learner that know the answer from the tags.\<close>

lemma eq_learner: "V2_EQ right = learn_cmp right (\<lambda>lv rv h f s. do {cond \<leftarrow> eq_cond lv rv s; branch cond h f s})"
  by (simp add: V2_EQ_def)

lemma eq_rr_refines:
  "polarity taken p \<Longrightarrow> residual_leaf (V2_EQ V2_PRO_RR) (V2_EQ_RR_LEAF taken) (cmp_shape V2_PRO_RR same_reference) p"
  unfolding eq_learner
  by (rule cmp_refines [where taken = taken and g = id and cond = "\<lambda>lv rv s. Some (payload lv = payload rv)"])
    (auto simp: cmp_leaf_defs shape_defs eq_cond_def v2_is_string_tag_def bind_eq_None_conv)

lemma eq_sp_refines:
  "polarity taken p \<Longrightarrow> residual_leaf (V2_EQ V2_PRO_RR) (V2_EQ_SP_LEAF taken) (cmp_shape V2_PRO_RR same_primitive) p"
  unfolding eq_learner
  by (rule cmp_refines [where taken = taken and g = id and cond = "\<lambda>lv rv s. Some True"])
    (auto simp: cmp_leaf_defs shape_defs eq_cond_def v2_is_string_tag_def bind_eq_None_conv not_less)

lemma eqi_mx_refines:
  "polarity taken p \<Longrightarrow> residual_leaf (V2_EQ V2_PRO_RI) (V2_EQI_MX_LEAF taken) (cmp_shape V2_PRO_RI number_mismatch) p"
  unfolding eq_learner
  by (rule left_leaf_refines [where taken = taken and e = "\<lambda>_. LUA55_VALUE_NIL" and
        rval = "\<lambda>h. mk_value LUA55_VALUE_INTEGER (h_int_imm h)" and cond = "\<lambda>lv rv s. Some False"])
    (auto simp: V2_PRO_RI_def V2_EQI_MX_LEAF_def shape_defs mk_value_def eq_cond_def v2_is_string_tag_def)

definition const_value :: "holes \<Rightarrow> lua_value" where
  "const_value h = mk_value (h_const_tag h) (if h_const_tag h = LUA55_VALUE_INTEGER then h_const_int h
     else if h_const_tag h = LUA55_VALUE_FLOAT then h_const_flt h else h_const_ref h)"

lemma const_value [simp]: "V2_CMP_RK h f s = Some (const_value h)" "tag (const_value h) = h_const_tag h"
  by (simp_all add: V2_CMP_RK_def const_value_def mk_value_def)

lemma const_value_ref [simp]: "v2_is_string_tag (h_const_tag h) \<Longrightarrow> payload (const_value h) = h_const_ref h"
  by (auto simp: const_value_def mk_value_def v2_is_string_tag_def)

lemma eqk_str_refines:
  assumes "polarity taken p" and "\<And>h. p h \<Longrightarrow> const_str h"
  shows "residual_leaf (V2_EQ V2_CMP_RK) (eqk_str_leaf taken) (cmp_shape V2_CMP_RK both_strings) p"
  unfolding eq_learner
  by (rule left_leaf_refines [OF assms(1), where e = "\<lambda>_. LUA55_VALUE_SHORT_STRING" and rval = const_value and
        cond = "\<lambda>lv rv s. v2_string_bytes_eq (payload lv) (payload rv) s"])
    (use assms(2) in \<open>auto simp: eqk_str_leaf_def V2_LEAF_GUARD_STR_def both_strings_def eq_cond_def
      v2_is_string_tag_def\<close>)

lemma eqk_mx_refines:
  assumes "polarity taken p"
    and "(\<forall>h. p h \<longrightarrow> number_tag (h_const_tag h)) \<and> bad = number_tag \<and> ok = number_mismatch \<or>
         (\<forall>h. p h \<longrightarrow> const_str h) \<and> bad = v2_is_string_tag \<and> ok = string_mismatch"
  shows "residual_leaf (V2_EQ V2_CMP_RK) (V2_EQK_MX_LEAF bad taken) (cmp_shape V2_CMP_RK ok) p"
  unfolding eq_learner
  by (rule left_leaf_refines [OF assms(1), where e = "\<lambda>_. LUA55_VALUE_NIL" and rval = const_value and
        cond = "\<lambda>lv rv s. Some False"])
    (use assms(2) in \<open>auto simp: V2_EQK_MX_LEAF_def shape_defs eq_cond_def v2_is_string_tag_def\<close>)

lemma eqk_tag_refines:
  assumes "polarity taken p" and "\<And>h. p h \<Longrightarrow> h_const_tag h = t" and "t \<le> LUA55_VALUE_TRUE"
  shows "residual_leaf (V2_EQ V2_CMP_RK) (V2_EQK_TAG_LEAF t taken) (cmp_shape V2_CMP_RK (right_is t)) p"
  unfolding eq_learner
  by (rule left_leaf_refines [OF assms(1), where e = "\<lambda>_. 0" and rval = const_value and
        cond = "\<lambda>lv rv s. Some (tag lv = t)"])
    (use assms(2,3) in \<open>auto simp: V2_EQK_TAG_LEAF_def right_is_def eq_cond_def v2_is_string_tag_def\<close>)

lemma lt_ii_leaf:
  "residual_leaf lua55_v2l_lt lua55_v2r_lt_ii_k0 (cmp_shape V2_PRO_RR (tags_are LUA55_VALUE_INTEGER LUA55_VALUE_INTEGER)) takes_false"
  "residual_leaf lua55_v2l_lt lua55_v2r_lt_ii_k1 (cmp_shape V2_PRO_RR (tags_are LUA55_VALUE_INTEGER LUA55_VALUE_INTEGER)) takes_true"
  unfolding lua55_v2l_lt_def lua55_v2r_lt_ii_k0_def lua55_v2r_lt_ii_k1_def V2_ORD_def
  by (rule pair_leaf_refines, rule polarities, simp add: tags_are_def eq_cond_def Let_def)+

lemma lt_if_leaf:
  "residual_leaf lua55_v2l_lt lua55_v2r_lt_if_k0 (cmp_shape V2_PRO_RR (tags_are LUA55_VALUE_INTEGER LUA55_VALUE_FLOAT)) takes_false"
  "residual_leaf lua55_v2l_lt lua55_v2r_lt_if_k1 (cmp_shape V2_PRO_RR (tags_are LUA55_VALUE_INTEGER LUA55_VALUE_FLOAT)) takes_true"
  unfolding lua55_v2l_lt_def lua55_v2r_lt_if_k0_def lua55_v2r_lt_if_k1_def V2_ORD_def
  by (rule pair_leaf_refines, rule polarities, simp add: tags_are_def eq_cond_def Let_def)+

lemma lt_fi_leaf:
  "residual_leaf lua55_v2l_lt lua55_v2r_lt_fi_k0 (cmp_shape V2_PRO_RR (tags_are LUA55_VALUE_FLOAT LUA55_VALUE_INTEGER)) takes_false"
  "residual_leaf lua55_v2l_lt lua55_v2r_lt_fi_k1 (cmp_shape V2_PRO_RR (tags_are LUA55_VALUE_FLOAT LUA55_VALUE_INTEGER)) takes_true"
  unfolding lua55_v2l_lt_def lua55_v2r_lt_fi_k0_def lua55_v2r_lt_fi_k1_def V2_ORD_def
  by (rule pair_leaf_refines, rule polarities, simp add: tags_are_def eq_cond_def Let_def)+

lemma lt_ff_leaf:
  "residual_leaf lua55_v2l_lt lua55_v2r_lt_ff_k0 (cmp_shape V2_PRO_RR (tags_are LUA55_VALUE_FLOAT LUA55_VALUE_FLOAT)) takes_false"
  "residual_leaf lua55_v2l_lt lua55_v2r_lt_ff_k1 (cmp_shape V2_PRO_RR (tags_are LUA55_VALUE_FLOAT LUA55_VALUE_FLOAT)) takes_true"
  unfolding lua55_v2l_lt_def lua55_v2r_lt_ff_k0_def lua55_v2r_lt_ff_k1_def V2_ORD_def
  by (rule pair_leaf_refines, rule polarities, simp add: tags_are_def eq_cond_def Let_def)+

lemma le_ii_leaf:
  "residual_leaf lua55_v2l_le lua55_v2r_le_ii_k0 (cmp_shape V2_PRO_RR (tags_are LUA55_VALUE_INTEGER LUA55_VALUE_INTEGER)) takes_false"
  "residual_leaf lua55_v2l_le lua55_v2r_le_ii_k1 (cmp_shape V2_PRO_RR (tags_are LUA55_VALUE_INTEGER LUA55_VALUE_INTEGER)) takes_true"
  unfolding lua55_v2l_le_def lua55_v2r_le_ii_k0_def lua55_v2r_le_ii_k1_def V2_LE_def
  by (rule pair_leaf_refines, rule polarities, simp add: tags_are_def eq_cond_def Let_def)+

lemma le_if_leaf:
  "residual_leaf lua55_v2l_le lua55_v2r_le_if_k0 (cmp_shape V2_PRO_RR (tags_are LUA55_VALUE_INTEGER LUA55_VALUE_FLOAT)) takes_false"
  "residual_leaf lua55_v2l_le lua55_v2r_le_if_k1 (cmp_shape V2_PRO_RR (tags_are LUA55_VALUE_INTEGER LUA55_VALUE_FLOAT)) takes_true"
  unfolding lua55_v2l_le_def lua55_v2r_le_if_k0_def lua55_v2r_le_if_k1_def V2_LE_def
  by (rule pair_leaf_refines, rule polarities, simp add: tags_are_def eq_cond_def Let_def)+

lemma le_fi_leaf:
  "residual_leaf lua55_v2l_le lua55_v2r_le_fi_k0 (cmp_shape V2_PRO_RR (tags_are LUA55_VALUE_FLOAT LUA55_VALUE_INTEGER)) takes_false"
  "residual_leaf lua55_v2l_le lua55_v2r_le_fi_k1 (cmp_shape V2_PRO_RR (tags_are LUA55_VALUE_FLOAT LUA55_VALUE_INTEGER)) takes_true"
  unfolding lua55_v2l_le_def lua55_v2r_le_fi_k0_def lua55_v2r_le_fi_k1_def V2_LE_def
  by (rule pair_leaf_refines, rule polarities, simp add: tags_are_def eq_cond_def Let_def)+

lemma le_ff_leaf:
  "residual_leaf lua55_v2l_le lua55_v2r_le_ff_k0 (cmp_shape V2_PRO_RR (tags_are LUA55_VALUE_FLOAT LUA55_VALUE_FLOAT)) takes_false"
  "residual_leaf lua55_v2l_le lua55_v2r_le_ff_k1 (cmp_shape V2_PRO_RR (tags_are LUA55_VALUE_FLOAT LUA55_VALUE_FLOAT)) takes_true"
  unfolding lua55_v2l_le_def lua55_v2r_le_ff_k0_def lua55_v2r_le_ff_k1_def V2_LE_def
  by (rule pair_leaf_refines, rule polarities, simp add: tags_are_def eq_cond_def Let_def)+

lemma eq_ii_leaf:
  "residual_leaf lua55_v2l_eq lua55_v2r_eq_ii_k0 (cmp_shape V2_PRO_RR (tags_are LUA55_VALUE_INTEGER LUA55_VALUE_INTEGER)) takes_false"
  "residual_leaf lua55_v2l_eq lua55_v2r_eq_ii_k1 (cmp_shape V2_PRO_RR (tags_are LUA55_VALUE_INTEGER LUA55_VALUE_INTEGER)) takes_true"
  unfolding lua55_v2l_eq_def lua55_v2r_eq_ii_k0_def lua55_v2r_eq_ii_k1_def V2_EQ_def
  by (rule pair_leaf_refines, rule polarities, simp add: tags_are_def eq_cond_def Let_def)+

lemma eq_if_leaf:
  "residual_leaf lua55_v2l_eq lua55_v2r_eq_if_k0 (cmp_shape V2_PRO_RR (tags_are LUA55_VALUE_INTEGER LUA55_VALUE_FLOAT)) takes_false"
  "residual_leaf lua55_v2l_eq lua55_v2r_eq_if_k1 (cmp_shape V2_PRO_RR (tags_are LUA55_VALUE_INTEGER LUA55_VALUE_FLOAT)) takes_true"
  unfolding lua55_v2l_eq_def lua55_v2r_eq_if_k0_def lua55_v2r_eq_if_k1_def V2_EQ_def
  by (rule pair_leaf_refines, rule polarities, simp add: tags_are_def eq_cond_def Let_def)+

lemma eq_fi_leaf:
  "residual_leaf lua55_v2l_eq lua55_v2r_eq_fi_k0 (cmp_shape V2_PRO_RR (tags_are LUA55_VALUE_FLOAT LUA55_VALUE_INTEGER)) takes_false"
  "residual_leaf lua55_v2l_eq lua55_v2r_eq_fi_k1 (cmp_shape V2_PRO_RR (tags_are LUA55_VALUE_FLOAT LUA55_VALUE_INTEGER)) takes_true"
  unfolding lua55_v2l_eq_def lua55_v2r_eq_fi_k0_def lua55_v2r_eq_fi_k1_def V2_EQ_def
  by (rule pair_leaf_refines, rule polarities, simp add: tags_are_def eq_cond_def Let_def)+

lemma eq_ff_leaf:
  "residual_leaf lua55_v2l_eq lua55_v2r_eq_ff_k0 (cmp_shape V2_PRO_RR (tags_are LUA55_VALUE_FLOAT LUA55_VALUE_FLOAT)) takes_false"
  "residual_leaf lua55_v2l_eq lua55_v2r_eq_ff_k1 (cmp_shape V2_PRO_RR (tags_are LUA55_VALUE_FLOAT LUA55_VALUE_FLOAT)) takes_true"
  unfolding lua55_v2l_eq_def lua55_v2r_eq_ff_k0_def lua55_v2r_eq_ff_k1_def V2_EQ_def
  by (rule pair_leaf_refines, rule polarities, simp add: tags_are_def eq_cond_def Let_def)+

lemma lt_ss_leaf:
  "residual_leaf lua55_v2l_lt lua55_v2r_lt_ss_k0 (cmp_shape V2_PRO_RR both_strings) takes_false"
  "residual_leaf lua55_v2l_lt lua55_v2r_lt_ss_k1 (cmp_shape V2_PRO_RR both_strings) takes_true"
  unfolding lua55_v2l_lt_def lua55_v2r_lt_ss_k0_def lua55_v2r_lt_ss_k1_def V2_ORD_def
  by (rule string_leaf_refines, rule polarities, auto simp: both_strings_def v2_is_string_tag_def eq_cond_def Let_def map_option_case split: option.splits)+

lemma le_ss_leaf:
  "residual_leaf lua55_v2l_le lua55_v2r_le_ss_k0 (cmp_shape V2_PRO_RR both_strings) takes_false"
  "residual_leaf lua55_v2l_le lua55_v2r_le_ss_k1 (cmp_shape V2_PRO_RR both_strings) takes_true"
  unfolding lua55_v2l_le_def lua55_v2r_le_ss_k0_def lua55_v2r_le_ss_k1_def V2_LE_def
  by (rule string_leaf_refines, rule polarities, auto simp: both_strings_def v2_is_string_tag_def eq_cond_def Let_def map_option_case split: option.splits)+

lemma eq_ss_leaf:
  "residual_leaf lua55_v2l_eq lua55_v2r_eq_ss_k0 (cmp_shape V2_PRO_RR both_strings) takes_false"
  "residual_leaf lua55_v2l_eq lua55_v2r_eq_ss_k1 (cmp_shape V2_PRO_RR both_strings) takes_true"
  unfolding lua55_v2l_eq_def lua55_v2r_eq_ss_k0_def lua55_v2r_eq_ss_k1_def V2_EQ_def
  by (rule string_leaf_refines, rule polarities, auto simp: both_strings_def v2_is_string_tag_def eq_cond_def Let_def map_option_case split: option.splits)+

lemma lti_ii_leaf:
  "residual_leaf lua55_v2l_lti lua55_v2r_lti_ii_k0 (cmp_shape V2_PRO_RI (tags_are LUA55_VALUE_INTEGER LUA55_VALUE_INTEGER)) takes_false"
  "residual_leaf lua55_v2l_lti lua55_v2r_lti_ii_k1 (cmp_shape V2_PRO_RI (tags_are LUA55_VALUE_INTEGER LUA55_VALUE_INTEGER)) takes_true"
  unfolding lua55_v2l_lti_def lua55_v2r_lti_ii_k0_def lua55_v2r_lti_ii_k1_def V2_ORD_def
  by (rule imm_leaf_refines, rule polarities, simp add: tags_are_def eq_cond_def Let_def)+

lemma lti_fi_leaf:
  "residual_leaf lua55_v2l_lti lua55_v2r_lti_fi_k0 (cmp_shape V2_PRO_RI (tags_are LUA55_VALUE_FLOAT LUA55_VALUE_INTEGER)) takes_false"
  "residual_leaf lua55_v2l_lti lua55_v2r_lti_fi_k1 (cmp_shape V2_PRO_RI (tags_are LUA55_VALUE_FLOAT LUA55_VALUE_INTEGER)) takes_true"
  unfolding lua55_v2l_lti_def lua55_v2r_lti_fi_k0_def lua55_v2r_lti_fi_k1_def V2_ORD_def
  by (rule imm_leaf_refines, rule polarities, simp add: tags_are_def eq_cond_def Let_def)+

lemma lei_ii_leaf:
  "residual_leaf lua55_v2l_lei lua55_v2r_lei_ii_k0 (cmp_shape V2_PRO_RI (tags_are LUA55_VALUE_INTEGER LUA55_VALUE_INTEGER)) takes_false"
  "residual_leaf lua55_v2l_lei lua55_v2r_lei_ii_k1 (cmp_shape V2_PRO_RI (tags_are LUA55_VALUE_INTEGER LUA55_VALUE_INTEGER)) takes_true"
  unfolding lua55_v2l_lei_def lua55_v2r_lei_ii_k0_def lua55_v2r_lei_ii_k1_def V2_LE_def
  by (rule imm_leaf_refines, rule polarities, simp add: tags_are_def eq_cond_def Let_def)+

lemma lei_fi_leaf:
  "residual_leaf lua55_v2l_lei lua55_v2r_lei_fi_k0 (cmp_shape V2_PRO_RI (tags_are LUA55_VALUE_FLOAT LUA55_VALUE_INTEGER)) takes_false"
  "residual_leaf lua55_v2l_lei lua55_v2r_lei_fi_k1 (cmp_shape V2_PRO_RI (tags_are LUA55_VALUE_FLOAT LUA55_VALUE_INTEGER)) takes_true"
  unfolding lua55_v2l_lei_def lua55_v2r_lei_fi_k0_def lua55_v2r_lei_fi_k1_def V2_LE_def
  by (rule imm_leaf_refines, rule polarities, simp add: tags_are_def eq_cond_def Let_def)+

lemma gti_ii_leaf:
  "residual_leaf lua55_v2l_gti lua55_v2r_gti_ii_k0 (cmp_shape V2_PRO_RI (tags_are LUA55_VALUE_INTEGER LUA55_VALUE_INTEGER)) takes_false"
  "residual_leaf lua55_v2l_gti lua55_v2r_gti_ii_k1 (cmp_shape V2_PRO_RI (tags_are LUA55_VALUE_INTEGER LUA55_VALUE_INTEGER)) takes_true"
  unfolding lua55_v2l_gti_def lua55_v2r_gti_ii_k0_def lua55_v2r_gti_ii_k1_def V2_ORD_def
  by (rule imm_leaf_refines, rule polarities, simp add: tags_are_def eq_cond_def Let_def)+

lemma gti_fi_leaf:
  "residual_leaf lua55_v2l_gti lua55_v2r_gti_fi_k0 (cmp_shape V2_PRO_RI (tags_are LUA55_VALUE_FLOAT LUA55_VALUE_INTEGER)) takes_false"
  "residual_leaf lua55_v2l_gti lua55_v2r_gti_fi_k1 (cmp_shape V2_PRO_RI (tags_are LUA55_VALUE_FLOAT LUA55_VALUE_INTEGER)) takes_true"
  unfolding lua55_v2l_gti_def lua55_v2r_gti_fi_k0_def lua55_v2r_gti_fi_k1_def V2_ORD_def
  by (rule imm_leaf_refines, rule polarities, simp add: tags_are_def eq_cond_def Let_def)+

lemma gei_ii_leaf:
  "residual_leaf lua55_v2l_gei lua55_v2r_gei_ii_k0 (cmp_shape V2_PRO_RI (tags_are LUA55_VALUE_INTEGER LUA55_VALUE_INTEGER)) takes_false"
  "residual_leaf lua55_v2l_gei lua55_v2r_gei_ii_k1 (cmp_shape V2_PRO_RI (tags_are LUA55_VALUE_INTEGER LUA55_VALUE_INTEGER)) takes_true"
  unfolding lua55_v2l_gei_def lua55_v2r_gei_ii_k0_def lua55_v2r_gei_ii_k1_def V2_LE_def
  by (rule imm_leaf_refines, rule polarities, simp add: tags_are_def eq_cond_def Let_def)+

lemma gei_fi_leaf:
  "residual_leaf lua55_v2l_gei lua55_v2r_gei_fi_k0 (cmp_shape V2_PRO_RI (tags_are LUA55_VALUE_FLOAT LUA55_VALUE_INTEGER)) takes_false"
  "residual_leaf lua55_v2l_gei lua55_v2r_gei_fi_k1 (cmp_shape V2_PRO_RI (tags_are LUA55_VALUE_FLOAT LUA55_VALUE_INTEGER)) takes_true"
  unfolding lua55_v2l_gei_def lua55_v2r_gei_fi_k0_def lua55_v2r_gei_fi_k1_def V2_LE_def
  by (rule imm_leaf_refines, rule polarities, simp add: tags_are_def eq_cond_def Let_def)+

lemma eqi_ii_leaf:
  "residual_leaf lua55_v2l_eqi lua55_v2r_eqi_ii_k0 (cmp_shape V2_PRO_RI (tags_are LUA55_VALUE_INTEGER LUA55_VALUE_INTEGER)) takes_false"
  "residual_leaf lua55_v2l_eqi lua55_v2r_eqi_ii_k1 (cmp_shape V2_PRO_RI (tags_are LUA55_VALUE_INTEGER LUA55_VALUE_INTEGER)) takes_true"
  unfolding lua55_v2l_eqi_def lua55_v2r_eqi_ii_k0_def lua55_v2r_eqi_ii_k1_def V2_EQ_def
  by (rule imm_leaf_refines, rule polarities, simp add: tags_are_def eq_cond_def Let_def)+

lemma eqi_fi_leaf:
  "residual_leaf lua55_v2l_eqi lua55_v2r_eqi_fi_k0 (cmp_shape V2_PRO_RI (tags_are LUA55_VALUE_FLOAT LUA55_VALUE_INTEGER)) takes_false"
  "residual_leaf lua55_v2l_eqi lua55_v2r_eqi_fi_k1 (cmp_shape V2_PRO_RI (tags_are LUA55_VALUE_FLOAT LUA55_VALUE_INTEGER)) takes_true"
  unfolding lua55_v2l_eqi_def lua55_v2r_eqi_fi_k0_def lua55_v2r_eqi_fi_k1_def V2_EQ_def
  by (rule imm_leaf_refines, rule polarities, simp add: tags_are_def eq_cond_def Let_def)+

lemma eq_rr_leaf:
  "residual_leaf lua55_v2l_eq lua55_v2r_eq_rr_k0 (cmp_shape V2_PRO_RR same_reference) takes_false"
  "residual_leaf lua55_v2l_eq lua55_v2r_eq_rr_k1 (cmp_shape V2_PRO_RR same_reference) takes_true"
  unfolding lua55_v2l_eq_def lua55_v2r_eq_rr_k0_def lua55_v2r_eq_rr_k1_def
  by (rule eq_rr_refines, rule polarities)+

lemma eq_sp_leaf:
  "residual_leaf lua55_v2l_eq lua55_v2r_eq_sp_k0 (cmp_shape V2_PRO_RR same_primitive) takes_false"
  "residual_leaf lua55_v2l_eq lua55_v2r_eq_sp_k1 (cmp_shape V2_PRO_RR same_primitive) takes_true"
  unfolding lua55_v2l_eq_def lua55_v2r_eq_sp_k0_def lua55_v2r_eq_sp_k1_def
  by (rule eq_sp_refines, rule polarities)+

lemma eqi_mx_leaf:
  "residual_leaf lua55_v2l_eqi lua55_v2r_eqi_mx_k0 (cmp_shape V2_PRO_RI number_mismatch) takes_false"
  "residual_leaf lua55_v2l_eqi lua55_v2r_eqi_mx_k1 (cmp_shape V2_PRO_RI number_mismatch) takes_true"
  unfolding lua55_v2l_eqi_def lua55_v2r_eqi_mx_k0_def lua55_v2r_eqi_mx_k1_def
  by (rule eqi_mx_refines, rule polarities)+

lemma eqk_int_ii_leaf:
  "residual_leaf lua55_v2l_eqk lua55_v2r_eqk_int_ii_k0 (cmp_shape V2_CMP_RK (tags_are LUA55_VALUE_INTEGER LUA55_VALUE_INTEGER)) (\<lambda>h. const_int h \<and> takes_false h)"
  "residual_leaf lua55_v2l_eqk lua55_v2r_eqk_int_ii_k1 (cmp_shape V2_CMP_RK (tags_are LUA55_VALUE_INTEGER LUA55_VALUE_INTEGER)) (\<lambda>h. const_int h \<and> takes_true h)"
  unfolding lua55_v2l_eqk_def lua55_v2r_eqk_int_ii_k0_def lua55_v2r_eqk_int_ii_k1_def V2_EQ_def
  by (rule const_leaf_refines, rule polarity_and, rule polarities,
      simp add: tags_are_def eq_cond_def Let_def, simp add: V2_PRO_RK_INT_def V2_PRO_RK_FLT_def const_value_def)+

lemma eqk_int_fi_leaf:
  "residual_leaf lua55_v2l_eqk lua55_v2r_eqk_int_fi_k0 (cmp_shape V2_CMP_RK (tags_are LUA55_VALUE_FLOAT LUA55_VALUE_INTEGER)) (\<lambda>h. const_int h \<and> takes_false h)"
  "residual_leaf lua55_v2l_eqk lua55_v2r_eqk_int_fi_k1 (cmp_shape V2_CMP_RK (tags_are LUA55_VALUE_FLOAT LUA55_VALUE_INTEGER)) (\<lambda>h. const_int h \<and> takes_true h)"
  unfolding lua55_v2l_eqk_def lua55_v2r_eqk_int_fi_k0_def lua55_v2r_eqk_int_fi_k1_def V2_EQ_def
  by (rule const_leaf_refines, rule polarity_and, rule polarities,
      simp add: tags_are_def eq_cond_def Let_def, simp add: V2_PRO_RK_INT_def V2_PRO_RK_FLT_def const_value_def)+

lemma eqk_flt_if_leaf:
  "residual_leaf lua55_v2l_eqk lua55_v2r_eqk_flt_if_k0 (cmp_shape V2_CMP_RK (tags_are LUA55_VALUE_INTEGER LUA55_VALUE_FLOAT)) (\<lambda>h. const_flt h \<and> takes_false h)"
  "residual_leaf lua55_v2l_eqk lua55_v2r_eqk_flt_if_k1 (cmp_shape V2_CMP_RK (tags_are LUA55_VALUE_INTEGER LUA55_VALUE_FLOAT)) (\<lambda>h. const_flt h \<and> takes_true h)"
  unfolding lua55_v2l_eqk_def lua55_v2r_eqk_flt_if_k0_def lua55_v2r_eqk_flt_if_k1_def V2_EQ_def
  by (rule const_leaf_refines, rule polarity_and, rule polarities,
      simp add: tags_are_def eq_cond_def Let_def, simp add: V2_PRO_RK_INT_def V2_PRO_RK_FLT_def const_value_def)+

lemma eqk_flt_ff_leaf:
  "residual_leaf lua55_v2l_eqk lua55_v2r_eqk_flt_ff_k0 (cmp_shape V2_CMP_RK (tags_are LUA55_VALUE_FLOAT LUA55_VALUE_FLOAT)) (\<lambda>h. const_flt h \<and> takes_false h)"
  "residual_leaf lua55_v2l_eqk lua55_v2r_eqk_flt_ff_k1 (cmp_shape V2_CMP_RK (tags_are LUA55_VALUE_FLOAT LUA55_VALUE_FLOAT)) (\<lambda>h. const_flt h \<and> takes_true h)"
  unfolding lua55_v2l_eqk_def lua55_v2r_eqk_flt_ff_k0_def lua55_v2r_eqk_flt_ff_k1_def V2_EQ_def
  by (rule const_leaf_refines, rule polarity_and, rule polarities,
      simp add: tags_are_def eq_cond_def Let_def, simp add: V2_PRO_RK_INT_def V2_PRO_RK_FLT_def const_value_def)+

lemma eqk_str_ss_leaf:
  "residual_leaf lua55_v2l_eqk lua55_v2r_eqk_str_ss_k0 (cmp_shape V2_CMP_RK both_strings) (\<lambda>h. const_str h \<and> takes_false h)"
  "residual_leaf lua55_v2l_eqk lua55_v2r_eqk_str_ss_k1 (cmp_shape V2_CMP_RK both_strings) (\<lambda>h. const_str h \<and> takes_true h)"
  unfolding lua55_v2l_eqk_def lua55_v2r_eqk_str_ss_k0_def lua55_v2r_eqk_str_ss_k1_def
  by (rule eqk_str_refines, rule polarity_and, rule polarities, simp)+

lemma eqk_int_mx_leaf:
  "residual_leaf lua55_v2l_eqk lua55_v2r_eqk_int_mx_k0 (cmp_shape V2_CMP_RK number_mismatch) (\<lambda>h. const_int h \<and> takes_false h)"
  "residual_leaf lua55_v2l_eqk lua55_v2r_eqk_int_mx_k1 (cmp_shape V2_CMP_RK number_mismatch) (\<lambda>h. const_int h \<and> takes_true h)"
  unfolding lua55_v2l_eqk_def lua55_v2r_eqk_int_mx_k0_def lua55_v2r_eqk_int_mx_k1_def
  by (rule eqk_mx_refines, rule polarity_and, rule polarities, simp add: number_tag_def)+

lemma eqk_flt_mx_leaf:
  "residual_leaf lua55_v2l_eqk lua55_v2r_eqk_flt_mx_k0 (cmp_shape V2_CMP_RK number_mismatch) (\<lambda>h. const_flt h \<and> takes_false h)"
  "residual_leaf lua55_v2l_eqk lua55_v2r_eqk_flt_mx_k1 (cmp_shape V2_CMP_RK number_mismatch) (\<lambda>h. const_flt h \<and> takes_true h)"
  unfolding lua55_v2l_eqk_def lua55_v2r_eqk_flt_mx_k0_def lua55_v2r_eqk_flt_mx_k1_def
  by (rule eqk_mx_refines, rule polarity_and, rule polarities, simp add: number_tag_def)+

lemma eqk_str_mx_leaf:
  "residual_leaf lua55_v2l_eqk lua55_v2r_eqk_str_mx_k0 (cmp_shape V2_CMP_RK string_mismatch) (\<lambda>h. const_str h \<and> takes_false h)"
  "residual_leaf lua55_v2l_eqk lua55_v2r_eqk_str_mx_k1 (cmp_shape V2_CMP_RK string_mismatch) (\<lambda>h. const_str h \<and> takes_true h)"
  unfolding lua55_v2l_eqk_def lua55_v2r_eqk_str_mx_k0_def lua55_v2r_eqk_str_mx_k1_def
  by (rule eqk_mx_refines, rule polarity_and, rule polarities, simp add: number_tag_def)+

lemma eqk_nil_leaf:
  "residual_leaf lua55_v2l_eqk lua55_v2r_eqk_nil_k0 (cmp_shape V2_CMP_RK (right_is LUA55_VALUE_NIL)) (\<lambda>h. const_nil h \<and> takes_false h)"
  "residual_leaf lua55_v2l_eqk lua55_v2r_eqk_nil_k1 (cmp_shape V2_CMP_RK (right_is LUA55_VALUE_NIL)) (\<lambda>h. const_nil h \<and> takes_true h)"
  unfolding lua55_v2l_eqk_def lua55_v2r_eqk_nil_k0_def lua55_v2r_eqk_nil_k1_def
  by (rule eqk_tag_refines, rule polarity_and, rule polarities, simp, simp)+

lemma eqk_false_leaf:
  "residual_leaf lua55_v2l_eqk lua55_v2r_eqk_false_k0 (cmp_shape V2_CMP_RK (right_is LUA55_VALUE_FALSE)) (\<lambda>h. const_false h \<and> takes_false h)"
  "residual_leaf lua55_v2l_eqk lua55_v2r_eqk_false_k1 (cmp_shape V2_CMP_RK (right_is LUA55_VALUE_FALSE)) (\<lambda>h. const_false h \<and> takes_true h)"
  unfolding lua55_v2l_eqk_def lua55_v2r_eqk_false_k0_def lua55_v2r_eqk_false_k1_def
  by (rule eqk_tag_refines, rule polarity_and, rule polarities, simp, simp)+

lemma eqk_true_leaf:
  "residual_leaf lua55_v2l_eqk lua55_v2r_eqk_true_k0 (cmp_shape V2_CMP_RK (right_is LUA55_VALUE_TRUE)) (\<lambda>h. const_true h \<and> takes_false h)"
  "residual_leaf lua55_v2l_eqk lua55_v2r_eqk_true_k1 (cmp_shape V2_CMP_RK (right_is LUA55_VALUE_TRUE)) (\<lambda>h. const_true h \<and> takes_true h)"
  unfolding lua55_v2l_eqk_def lua55_v2r_eqk_true_k0_def lua55_v2r_eqk_true_k1_def
  by (rule eqk_tag_refines, rule polarity_and, rule polarities, simp, simp)+

definition cmp_bank :: "((stencil \<times> stencil) \<times> (holes \<Rightarrow> u64 \<Rightarrow> v2_state \<Rightarrow> bool) \<times> (holes \<Rightarrow> bool)) list" where
  "cmp_bank = [
     ((lua55_v2l_lt, lua55_v2r_lt_ii_k0),
      cmp_shape V2_PRO_RR (tags_are LUA55_VALUE_INTEGER LUA55_VALUE_INTEGER), takes_false),
     ((lua55_v2l_lt, lua55_v2r_lt_ii_k1),
      cmp_shape V2_PRO_RR (tags_are LUA55_VALUE_INTEGER LUA55_VALUE_INTEGER), takes_true),
     ((lua55_v2l_lt, lua55_v2r_lt_if_k0),
      cmp_shape V2_PRO_RR (tags_are LUA55_VALUE_INTEGER LUA55_VALUE_FLOAT), takes_false),
     ((lua55_v2l_lt, lua55_v2r_lt_if_k1),
      cmp_shape V2_PRO_RR (tags_are LUA55_VALUE_INTEGER LUA55_VALUE_FLOAT), takes_true),
     ((lua55_v2l_lt, lua55_v2r_lt_fi_k0),
      cmp_shape V2_PRO_RR (tags_are LUA55_VALUE_FLOAT LUA55_VALUE_INTEGER), takes_false),
     ((lua55_v2l_lt, lua55_v2r_lt_fi_k1),
      cmp_shape V2_PRO_RR (tags_are LUA55_VALUE_FLOAT LUA55_VALUE_INTEGER), takes_true),
     ((lua55_v2l_lt, lua55_v2r_lt_ff_k0),
      cmp_shape V2_PRO_RR (tags_are LUA55_VALUE_FLOAT LUA55_VALUE_FLOAT), takes_false),
     ((lua55_v2l_lt, lua55_v2r_lt_ff_k1),
      cmp_shape V2_PRO_RR (tags_are LUA55_VALUE_FLOAT LUA55_VALUE_FLOAT), takes_true),
     ((lua55_v2l_le, lua55_v2r_le_ii_k0),
      cmp_shape V2_PRO_RR (tags_are LUA55_VALUE_INTEGER LUA55_VALUE_INTEGER), takes_false),
     ((lua55_v2l_le, lua55_v2r_le_ii_k1),
      cmp_shape V2_PRO_RR (tags_are LUA55_VALUE_INTEGER LUA55_VALUE_INTEGER), takes_true),
     ((lua55_v2l_le, lua55_v2r_le_if_k0),
      cmp_shape V2_PRO_RR (tags_are LUA55_VALUE_INTEGER LUA55_VALUE_FLOAT), takes_false),
     ((lua55_v2l_le, lua55_v2r_le_if_k1),
      cmp_shape V2_PRO_RR (tags_are LUA55_VALUE_INTEGER LUA55_VALUE_FLOAT), takes_true),
     ((lua55_v2l_le, lua55_v2r_le_fi_k0),
      cmp_shape V2_PRO_RR (tags_are LUA55_VALUE_FLOAT LUA55_VALUE_INTEGER), takes_false),
     ((lua55_v2l_le, lua55_v2r_le_fi_k1),
      cmp_shape V2_PRO_RR (tags_are LUA55_VALUE_FLOAT LUA55_VALUE_INTEGER), takes_true),
     ((lua55_v2l_le, lua55_v2r_le_ff_k0),
      cmp_shape V2_PRO_RR (tags_are LUA55_VALUE_FLOAT LUA55_VALUE_FLOAT), takes_false),
     ((lua55_v2l_le, lua55_v2r_le_ff_k1),
      cmp_shape V2_PRO_RR (tags_are LUA55_VALUE_FLOAT LUA55_VALUE_FLOAT), takes_true),
     ((lua55_v2l_eq, lua55_v2r_eq_ii_k0),
      cmp_shape V2_PRO_RR (tags_are LUA55_VALUE_INTEGER LUA55_VALUE_INTEGER), takes_false),
     ((lua55_v2l_eq, lua55_v2r_eq_ii_k1),
      cmp_shape V2_PRO_RR (tags_are LUA55_VALUE_INTEGER LUA55_VALUE_INTEGER), takes_true),
     ((lua55_v2l_eq, lua55_v2r_eq_if_k0),
      cmp_shape V2_PRO_RR (tags_are LUA55_VALUE_INTEGER LUA55_VALUE_FLOAT), takes_false),
     ((lua55_v2l_eq, lua55_v2r_eq_if_k1),
      cmp_shape V2_PRO_RR (tags_are LUA55_VALUE_INTEGER LUA55_VALUE_FLOAT), takes_true),
     ((lua55_v2l_eq, lua55_v2r_eq_fi_k0),
      cmp_shape V2_PRO_RR (tags_are LUA55_VALUE_FLOAT LUA55_VALUE_INTEGER), takes_false),
     ((lua55_v2l_eq, lua55_v2r_eq_fi_k1),
      cmp_shape V2_PRO_RR (tags_are LUA55_VALUE_FLOAT LUA55_VALUE_INTEGER), takes_true),
     ((lua55_v2l_eq, lua55_v2r_eq_ff_k0),
      cmp_shape V2_PRO_RR (tags_are LUA55_VALUE_FLOAT LUA55_VALUE_FLOAT), takes_false),
     ((lua55_v2l_eq, lua55_v2r_eq_ff_k1),
      cmp_shape V2_PRO_RR (tags_are LUA55_VALUE_FLOAT LUA55_VALUE_FLOAT), takes_true),
     ((lua55_v2l_lt, lua55_v2r_lt_ss_k0),
      cmp_shape V2_PRO_RR both_strings, takes_false),
     ((lua55_v2l_lt, lua55_v2r_lt_ss_k1),
      cmp_shape V2_PRO_RR both_strings, takes_true),
     ((lua55_v2l_le, lua55_v2r_le_ss_k0),
      cmp_shape V2_PRO_RR both_strings, takes_false),
     ((lua55_v2l_le, lua55_v2r_le_ss_k1),
      cmp_shape V2_PRO_RR both_strings, takes_true),
     ((lua55_v2l_eq, lua55_v2r_eq_ss_k0),
      cmp_shape V2_PRO_RR both_strings, takes_false),
     ((lua55_v2l_eq, lua55_v2r_eq_ss_k1),
      cmp_shape V2_PRO_RR both_strings, takes_true),
     ((lua55_v2l_lti, lua55_v2r_lti_ii_k0),
      cmp_shape V2_PRO_RI (tags_are LUA55_VALUE_INTEGER LUA55_VALUE_INTEGER), takes_false),
     ((lua55_v2l_lti, lua55_v2r_lti_ii_k1),
      cmp_shape V2_PRO_RI (tags_are LUA55_VALUE_INTEGER LUA55_VALUE_INTEGER), takes_true),
     ((lua55_v2l_lti, lua55_v2r_lti_fi_k0),
      cmp_shape V2_PRO_RI (tags_are LUA55_VALUE_FLOAT LUA55_VALUE_INTEGER), takes_false),
     ((lua55_v2l_lti, lua55_v2r_lti_fi_k1),
      cmp_shape V2_PRO_RI (tags_are LUA55_VALUE_FLOAT LUA55_VALUE_INTEGER), takes_true),
     ((lua55_v2l_lei, lua55_v2r_lei_ii_k0),
      cmp_shape V2_PRO_RI (tags_are LUA55_VALUE_INTEGER LUA55_VALUE_INTEGER), takes_false),
     ((lua55_v2l_lei, lua55_v2r_lei_ii_k1),
      cmp_shape V2_PRO_RI (tags_are LUA55_VALUE_INTEGER LUA55_VALUE_INTEGER), takes_true),
     ((lua55_v2l_lei, lua55_v2r_lei_fi_k0),
      cmp_shape V2_PRO_RI (tags_are LUA55_VALUE_FLOAT LUA55_VALUE_INTEGER), takes_false),
     ((lua55_v2l_lei, lua55_v2r_lei_fi_k1),
      cmp_shape V2_PRO_RI (tags_are LUA55_VALUE_FLOAT LUA55_VALUE_INTEGER), takes_true),
     ((lua55_v2l_gti, lua55_v2r_gti_ii_k0),
      cmp_shape V2_PRO_RI (tags_are LUA55_VALUE_INTEGER LUA55_VALUE_INTEGER), takes_false),
     ((lua55_v2l_gti, lua55_v2r_gti_ii_k1),
      cmp_shape V2_PRO_RI (tags_are LUA55_VALUE_INTEGER LUA55_VALUE_INTEGER), takes_true),
     ((lua55_v2l_gti, lua55_v2r_gti_fi_k0),
      cmp_shape V2_PRO_RI (tags_are LUA55_VALUE_FLOAT LUA55_VALUE_INTEGER), takes_false),
     ((lua55_v2l_gti, lua55_v2r_gti_fi_k1),
      cmp_shape V2_PRO_RI (tags_are LUA55_VALUE_FLOAT LUA55_VALUE_INTEGER), takes_true),
     ((lua55_v2l_gei, lua55_v2r_gei_ii_k0),
      cmp_shape V2_PRO_RI (tags_are LUA55_VALUE_INTEGER LUA55_VALUE_INTEGER), takes_false),
     ((lua55_v2l_gei, lua55_v2r_gei_ii_k1),
      cmp_shape V2_PRO_RI (tags_are LUA55_VALUE_INTEGER LUA55_VALUE_INTEGER), takes_true),
     ((lua55_v2l_gei, lua55_v2r_gei_fi_k0),
      cmp_shape V2_PRO_RI (tags_are LUA55_VALUE_FLOAT LUA55_VALUE_INTEGER), takes_false),
     ((lua55_v2l_gei, lua55_v2r_gei_fi_k1),
      cmp_shape V2_PRO_RI (tags_are LUA55_VALUE_FLOAT LUA55_VALUE_INTEGER), takes_true),
     ((lua55_v2l_eqi, lua55_v2r_eqi_ii_k0),
      cmp_shape V2_PRO_RI (tags_are LUA55_VALUE_INTEGER LUA55_VALUE_INTEGER), takes_false),
     ((lua55_v2l_eqi, lua55_v2r_eqi_ii_k1),
      cmp_shape V2_PRO_RI (tags_are LUA55_VALUE_INTEGER LUA55_VALUE_INTEGER), takes_true),
     ((lua55_v2l_eqi, lua55_v2r_eqi_fi_k0),
      cmp_shape V2_PRO_RI (tags_are LUA55_VALUE_FLOAT LUA55_VALUE_INTEGER), takes_false),
     ((lua55_v2l_eqi, lua55_v2r_eqi_fi_k1),
      cmp_shape V2_PRO_RI (tags_are LUA55_VALUE_FLOAT LUA55_VALUE_INTEGER), takes_true),
     ((lua55_v2l_eq, lua55_v2r_eq_rr_k0),
      cmp_shape V2_PRO_RR same_reference, takes_false),
     ((lua55_v2l_eq, lua55_v2r_eq_rr_k1),
      cmp_shape V2_PRO_RR same_reference, takes_true),
     ((lua55_v2l_eq, lua55_v2r_eq_sp_k0),
      cmp_shape V2_PRO_RR same_primitive, takes_false),
     ((lua55_v2l_eq, lua55_v2r_eq_sp_k1),
      cmp_shape V2_PRO_RR same_primitive, takes_true),
     ((lua55_v2l_eqi, lua55_v2r_eqi_mx_k0),
      cmp_shape V2_PRO_RI number_mismatch, takes_false),
     ((lua55_v2l_eqi, lua55_v2r_eqi_mx_k1),
      cmp_shape V2_PRO_RI number_mismatch, takes_true),
     ((lua55_v2l_eqk, lua55_v2r_eqk_int_ii_k0),
      cmp_shape V2_CMP_RK (tags_are LUA55_VALUE_INTEGER LUA55_VALUE_INTEGER), (\<lambda>h. const_int h \<and> takes_false h)),
     ((lua55_v2l_eqk, lua55_v2r_eqk_int_ii_k1),
      cmp_shape V2_CMP_RK (tags_are LUA55_VALUE_INTEGER LUA55_VALUE_INTEGER), (\<lambda>h. const_int h \<and> takes_true h)),
     ((lua55_v2l_eqk, lua55_v2r_eqk_int_fi_k0),
      cmp_shape V2_CMP_RK (tags_are LUA55_VALUE_FLOAT LUA55_VALUE_INTEGER), (\<lambda>h. const_int h \<and> takes_false h)),
     ((lua55_v2l_eqk, lua55_v2r_eqk_int_fi_k1),
      cmp_shape V2_CMP_RK (tags_are LUA55_VALUE_FLOAT LUA55_VALUE_INTEGER), (\<lambda>h. const_int h \<and> takes_true h)),
     ((lua55_v2l_eqk, lua55_v2r_eqk_flt_if_k0),
      cmp_shape V2_CMP_RK (tags_are LUA55_VALUE_INTEGER LUA55_VALUE_FLOAT), (\<lambda>h. const_flt h \<and> takes_false h)),
     ((lua55_v2l_eqk, lua55_v2r_eqk_flt_if_k1),
      cmp_shape V2_CMP_RK (tags_are LUA55_VALUE_INTEGER LUA55_VALUE_FLOAT), (\<lambda>h. const_flt h \<and> takes_true h)),
     ((lua55_v2l_eqk, lua55_v2r_eqk_flt_ff_k0),
      cmp_shape V2_CMP_RK (tags_are LUA55_VALUE_FLOAT LUA55_VALUE_FLOAT), (\<lambda>h. const_flt h \<and> takes_false h)),
     ((lua55_v2l_eqk, lua55_v2r_eqk_flt_ff_k1),
      cmp_shape V2_CMP_RK (tags_are LUA55_VALUE_FLOAT LUA55_VALUE_FLOAT), (\<lambda>h. const_flt h \<and> takes_true h)),
     ((lua55_v2l_eqk, lua55_v2r_eqk_str_ss_k0),
      cmp_shape V2_CMP_RK both_strings, (\<lambda>h. const_str h \<and> takes_false h)),
     ((lua55_v2l_eqk, lua55_v2r_eqk_str_ss_k1),
      cmp_shape V2_CMP_RK both_strings, (\<lambda>h. const_str h \<and> takes_true h)),
     ((lua55_v2l_eqk, lua55_v2r_eqk_int_mx_k0),
      cmp_shape V2_CMP_RK number_mismatch, (\<lambda>h. const_int h \<and> takes_false h)),
     ((lua55_v2l_eqk, lua55_v2r_eqk_int_mx_k1),
      cmp_shape V2_CMP_RK number_mismatch, (\<lambda>h. const_int h \<and> takes_true h)),
     ((lua55_v2l_eqk, lua55_v2r_eqk_flt_mx_k0),
      cmp_shape V2_CMP_RK number_mismatch, (\<lambda>h. const_flt h \<and> takes_false h)),
     ((lua55_v2l_eqk, lua55_v2r_eqk_flt_mx_k1),
      cmp_shape V2_CMP_RK number_mismatch, (\<lambda>h. const_flt h \<and> takes_true h)),
     ((lua55_v2l_eqk, lua55_v2r_eqk_str_mx_k0),
      cmp_shape V2_CMP_RK string_mismatch, (\<lambda>h. const_str h \<and> takes_false h)),
     ((lua55_v2l_eqk, lua55_v2r_eqk_str_mx_k1),
      cmp_shape V2_CMP_RK string_mismatch, (\<lambda>h. const_str h \<and> takes_true h)),
     ((lua55_v2l_eqk, lua55_v2r_eqk_nil_k0),
      cmp_shape V2_CMP_RK (right_is LUA55_VALUE_NIL), (\<lambda>h. const_nil h \<and> takes_false h)),
     ((lua55_v2l_eqk, lua55_v2r_eqk_nil_k1),
      cmp_shape V2_CMP_RK (right_is LUA55_VALUE_NIL), (\<lambda>h. const_nil h \<and> takes_true h)),
     ((lua55_v2l_eqk, lua55_v2r_eqk_false_k0),
      cmp_shape V2_CMP_RK (right_is LUA55_VALUE_FALSE), (\<lambda>h. const_false h \<and> takes_false h)),
     ((lua55_v2l_eqk, lua55_v2r_eqk_false_k1),
      cmp_shape V2_CMP_RK (right_is LUA55_VALUE_FALSE), (\<lambda>h. const_false h \<and> takes_true h)),
     ((lua55_v2l_eqk, lua55_v2r_eqk_true_k0),
      cmp_shape V2_CMP_RK (right_is LUA55_VALUE_TRUE), (\<lambda>h. const_true h \<and> takes_false h)),
     ((lua55_v2l_eqk, lua55_v2r_eqk_true_k1),
      cmp_shape V2_CMP_RK (right_is LUA55_VALUE_TRUE), (\<lambda>h. const_true h \<and> takes_true h))]"

lemmas cmp_refines_all =
  lt_ii_leaf lt_if_leaf lt_fi_leaf lt_ff_leaf le_ii_leaf
  le_if_leaf le_fi_leaf le_ff_leaf eq_ii_leaf eq_if_leaf
  eq_fi_leaf eq_ff_leaf lt_ss_leaf le_ss_leaf eq_ss_leaf
  lti_ii_leaf lti_fi_leaf lei_ii_leaf lei_fi_leaf gti_ii_leaf
  gti_fi_leaf gei_ii_leaf gei_fi_leaf eqi_ii_leaf eqi_fi_leaf
  eq_rr_leaf eq_sp_leaf eqi_mx_leaf eqk_int_ii_leaf eqk_int_fi_leaf
  eqk_flt_if_leaf eqk_flt_ff_leaf eqk_str_ss_leaf eqk_int_mx_leaf eqk_flt_mx_leaf
  eqk_str_mx_leaf eqk_nil_leaf eqk_false_leaf eqk_true_leaf

lemma cmp_bank_refines: "((l, r), q, p) \<in> set cmp_bank \<Longrightarrow> residual_leaf l r q p"
  unfolding cmp_bank_def using cmp_refines_all by (auto simp del: fun_eq_iff)

text \<open>Interpretations by name for two leaves of different macros.\<close>

interpretation eq_ss: residual_leaf lua55_v2l_eq lua55_v2r_eq_ss_k1 "cmp_shape V2_PRO_RR both_strings" takes_true
  by (rule eq_ss_leaf)

interpretation lti_fi: residual_leaf lua55_v2l_lti lua55_v2r_lti_fi_k0
    "cmp_shape V2_PRO_RI (tags_are LUA55_VALUE_FLOAT LUA55_VALUE_INTEGER)" takes_false
  by (rule lti_fi_leaf)

subsection \<open>Order of mixed numbers\<close>

lemma half_way:
  assumes "0 < m"
  shows "(2 ^ 53 + 1) * m div (2 * m) = (2 ^ 52 :: nat)" and "(2 ^ 53 + 1) * m mod (2 * m) = m"
proof -
  have "(2 ^ 53 + 1) * m = m + 2 ^ 52 * (2 * m)" by simp
  then show "(2 ^ 53 + 1) * m div (2 * m) = (2 ^ 52 :: nat)" "(2 ^ 53 + 1) * m mod (2 * m) = m"
    using assms by (simp_all only: div_mult_self1 mod_mult_self1) simp_all
qed

text \<open>The integer \<open>2 ^ 53 + 1\<close> lies half way between two doubles and is rounded to the even one.\<close>

lemma c_double_tie: "c_double 0x20000000000001 = 0x4340000000000000"
proof -
  have n: "nbits ((2 ^ 53 + 1) * 2 ^ 1074) = 1128"
  proof -
    have "nbits (2 ^ 53 + 1) = 54" by (rule nbits_eq [of 53, simplified]) simp_all
    then show ?thesis using nbits_mult_pow [of "2 ^ 53 + 1" 1074] by simp
  qed
  have "(1075 :: nat) = Suc 1074" by simp
  then have e: "(2 ^ 1075 :: nat) = 2 * 2 ^ 1074" by (simp only: power_Suc)
  have q: "(2 ^ 53 + 1) * 2 ^ 1074 div (2 ^ 1075 :: nat) = 2 ^ 52"
      "(2 ^ 53 + 1) * 2 ^ 1074 mod (2 ^ 1075 :: nat) = 2 ^ 1074"
    unfolding e by (rule half_way, rule zero_less_power, simp)+
  have k: "round_half_even ((2 ^ 53 + 1) * 2 ^ 1074) (1 * 2 ^ 1075) = 2 ^ 52"
    unfolding round_half_even_def mult_1 q Let_def by simp
  have "round_mag ((2 ^ 53 + 1) * 2 ^ 1074) 1 = 0x4340000000000000"
  proof -
    have "(1128 - 53 :: nat) = 1075" by simp
    then show ?thesis unfolding round_mag_def div_by_1 n Let_def by (simp only: k) (simp add: inf_mag_def)
  qed
  then show ?thesis by (simp add: c_double_def dbl_of_int_def mk_dbl_def)
qed

text \<open>A frame with \<open>2 ^ 53 + 1\<close> in the first register and the double \<open>2 ^ 53\<close> in the second.\<close>

definition tie_state :: v2_state where
  "tie_state = blank_state\<lparr>
     vals := [0x1000 \<mapsto> mk_value LUA55_VALUE_INTEGER 0x20000000000001,
              0x1010 \<mapsto> mk_value LUA55_VALUE_FLOAT 0x4340000000000000],
     frames := [0x100 \<mapsto> blank_frame\<lparr>frame_values := 0x1000\<rparr>]\<rparr>"

definition tie_holes :: holes where
  "tie_holes = blank_holes\<lparr>h_right_disp := 16, h_k := 1, h_taken := 0x77\<rparr>"

text \<open>
  The order stencils, learner and leaf alike, convert the integer operand to a double
  before they compare: they take the branch for \<open>2 ^ 53 + 1 <= 2 ^ 53\<close>, where the exact
  comparison of the same bank says it is false.
\<close>

theorem order_rounds_the_integer:
  "lua55_v2l_le tie_holes 0x100 tie_state = Some (Jump 0x77 0x100, tie_state) \<and>
   lua55_v2r_le_if_k1 tie_holes 0x100 tie_state = Some (Jump 0x77 0x100, tie_state) \<and>
   \<not> v2_le_int_float 0x20000000000001 0x4340000000000000"
proof -
  have nn: "\<not> dbl_isnan 0x4340000000000000"
    by (simp add: dbl_isnan_def dbl_mag_def inf_mag_def)
  then have le: "dbl_le (c_double 0x20000000000001) 0x4340000000000000"
    by (simp add: dbl_le_def c_double_tie)
  have m: "dbl_mag 0x4340000000000000 = 2 ^ 52 + 1075 * 2 ^ 52" "\<not> dbl_neg 0x4340000000000000"
    by (simp_all add: dbl_mag_def dbl_neg_def)
  moreover have "mag_val (2 ^ 52 + 1075 * 2 ^ 52) = 2 ^ 52 * 2 ^ 1075"
    by (rule mag_val_normal) simp_all
  ultimately have "dbl_scaled 0x4340000000000000 = 2 ^ 53 * dbl_unit"
    by (simp add: dbl_scaled_def dbl_unit_def)
  moreover have "(0x4340000000000000 :: dbl) \<noteq> dbl_min_int" by (simp add: dbl_min_int_def)
  ultimately have "\<not> v2_le_int_float 0x20000000000001 0x4340000000000000"
    by (simp add: v2_le_int_float_exact)
  with le show ?thesis
    by (simp add: lua55_v2l_le_def V2_LE_def learn_cmp_def lua55_v2r_le_if_k1_def V2_CMP_LEAF_ONE_def
        V2_LEAF_GUARD_def V2_LEFT_def V2_PRO_RR_def tie_state_def tie_holes_def v2_learn_pair_def learn_at_def
        branch_def V2_BRANCH_TAKEN_def V2_CMP_TAKE_K1_def v2_defs)
qed

text \<open>
  The \<open>TESTSET\<close> leaves copy the tested register before they test it: when the test fails and
  control falls through, where Lua leaves the target alone, the target has been overwritten.
\<close>

theorem testset_copies_always:
  assumes "frames s f = Some fr"
    and "vals s (frame_values fr + scast (h_left_disp h)) = Some lv" and "\<not> v2_truthy (tag lv)"
    and "vals s (frame_values fr + scast (h_target_disp h)) \<noteq> None"
  shows "lua55_v2r_testset_k1 h f s = Some (Next f,
    s\<lparr>vals := (vals s)(frame_values fr + scast (h_target_disp h) \<mapsto> lv)\<rparr>)"
  using assms
  by (simp add: lua55_v2r_testset_k1_def V2_TESTSET_LEAF_def V2_LEFT_def V2_CMP_TAKE_K1_def v2_defs)

theorem testset_copies_always_witness:
  "lua55_v2r_testset_k1 (blank_holes\<lparr>h_left_disp := 16\<rparr>) 0x100
     (tie_state\<lparr>vals := [0x1000 \<mapsto> mk_value 2 0, 0x1010 \<mapsto> mk_value 0 0]\<rparr>) =
   Some (Next 0x100, tie_state\<lparr>vals := [0x1000 \<mapsto> mk_value 0 0, 0x1010 \<mapsto> mk_value 0 0]\<rparr>)"
  using testset_copies_always [where f = "0x100" and fr = "blank_frame\<lparr>frame_values := 0x1000\<rparr>"
      and h = "blank_holes\<lparr>h_left_disp := 16\<rparr>" and lv = "mk_value 0 0"
      and s = "tie_state\<lparr>vals := [0x1000 \<mapsto> mk_value 2 0, 0x1010 \<mapsto> mk_value 0 0]\<rparr>"]
  by (simp add: tie_state_def v2_truthy_def mk_value_def fun_upd_twist)

end
