(* ===== verification/Value_Types.thy ===== *)
theory Value_Types
  imports Arithmetic
begin

text \<open>
  The types of arithmetic. Every arithmetic, bitwise and shift learner that goes on to its successor
  has two numbers for operands, writes its target register only, and the tag of what it writes
  depends on the tags of the operands alone.
\<close>

datatype result_kind = Of_operands | Always_float | Always_integer

fun result_tag :: "result_kind \<Rightarrow> u32 \<Rightarrow> u32 \<Rightarrow> u32" where
  "result_tag Of_operands ta tb =
     (if ta = LUA55_VALUE_INTEGER \<and> tb = LUA55_VALUE_INTEGER then LUA55_VALUE_INTEGER else LUA55_VALUE_FLOAT)"
| "result_tag Always_float ta tb = LUA55_VALUE_FLOAT"
| "result_tag Always_integer ta tb = LUA55_VALUE_INTEGER"

definition numeric_value :: "lua_value \<Rightarrow> bool" where
  "numeric_value v \<longleftrightarrow> tag v = LUA55_VALUE_INTEGER \<or> tag v = LUA55_VALUE_FLOAT"

text \<open>What a learner of kind \<open>k\<close> with the right operand \<open>right\<close> does when it goes on.\<close>

definition typed :: "result_kind \<Rightarrow> operand \<Rightarrow> stencil \<Rightarrow> bool" where
  "typed k right l \<longleftrightarrow> (\<forall>h f s g t. l h f s = Some (Next g, t) \<longrightarrow> g = f \<and>
     (\<exists>target left lv rv p m. V2_VALUE_DISP (h_target_disp h) f s = Some target \<and>
        V2_VALUE_DISP (h_left_disp h) f s = Some left \<and> rd_val left s = Some lv \<and> right h f s = Some rv \<and>
        numeric_value lv \<and> numeric_value rv \<and>
        t = s\<lparr>slots := m, vals := (vals s)(target \<mapsto> mk_value (result_tag k (tag lv) (tag rv)) p)\<rparr>))"

text \<open>A body that only writes a number of the right tag, or leaves for the host.\<close>

definition typed_body :: "result_kind \<Rightarrow> (u64 \<Rightarrow> lua_value \<Rightarrow> lua_value \<Rightarrow> stencil) \<Rightarrow> bool" where
  "typed_body k body \<longleftrightarrow> (\<forall>target lv rv h f s g t. body target lv rv h f s = Some (Next g, t) \<longrightarrow>
     g = f \<and> numeric_value lv \<and> numeric_value rv \<and>
     (\<exists>p. t = s\<lparr>vals := (vals s)(target \<mapsto> mk_value (result_tag k (tag lv) (tag rv)) p)\<rparr>))"

lemma put_next:
  "put_int target i h f s = Some (Next g, t) \<longleftrightarrow> g = f \<and> vals s target \<noteq> None \<and>
     t = s\<lparr>vals := (vals s)(target \<mapsto> mk_value LUA55_VALUE_INTEGER i)\<rparr>"
  "put_flt target x h f s = Some (Next g, t) \<longleftrightarrow> g = f \<and> vals s target \<noteq> None \<and>
     t = s\<lparr>vals := (vals s)(target \<mapsto> mk_value LUA55_VALUE_FLOAT x)\<rparr>"
  by (auto simp: put_int_def put_flt_def wr_int_def wr_flt_def wr_val_def LUA55_RESIDUAL_NEXT_def split: if_splits)

lemma reject_not_next: "reject_exit k h f s \<noteq> Some (Next g, t)"
  by (simp add: reject_exit_def LUA55_CPS_HOST_EXIT_def)

lemma learn_operands_typed:
  assumes "typed_body k body"
  shows "typed k right (learn_operands right body)"
  unfolding typed_def
proof (intro allI impI)
  fix h f s g t
  assume "learn_operands right body h f s = Some (Next g, t)"
  then obtain target left lv rv u where o: "V2_VALUE_DISP (h_target_disp h) f s = Some target"
      "V2_VALUE_DISP (h_left_disp h) f s = Some left" "rd_val left s = Some lv" "right h f s = Some rv"
      "v2_learn_pair (h_occ_slot h) (tag lv) (tag rv) s = Some u" "body target lv rv h f u = Some (Next g, t)"
    by (auto simp: learn_operands_def bind_eq_Some_conv)
  from o(5) obtain m where "u = s\<lparr>slots := m\<rparr>"
    by (auto simp: v2_learn_pair_def learn_at_def bind_eq_Some_conv intro: that [of "slots s"] split: if_splits)
  with o assms show "g = f \<and> (\<exists>target left lv rv p m. V2_VALUE_DISP (h_target_disp h) f s = Some target \<and>
        V2_VALUE_DISP (h_left_disp h) f s = Some left \<and> rd_val left s = Some lv \<and> right h f s = Some rv \<and>
        numeric_value lv \<and> numeric_value rv \<and>
        t = s\<lparr>slots := m, vals := (vals s)(target \<mapsto> mk_value (result_tag k (tag lv) (tag rv)) p)\<rparr>)"
    unfolding typed_body_def by fastforce
qed

lemma bit_operand_numeric: "bit_operand v = Some i \<Longrightarrow> numeric_value v"
  by (auto simp: bit_operand_def numeric_value_def split: if_splits)

lemma family_types:
  "typed Of_operands right (V2_BIN a b c d right)"
  "typed Of_operands right (V2_DIVMOD a b right)"
  "typed Always_integer right (V2_BITWISE a right)"
  "typed Always_integer right (V2_SHIFT a right)"
  "typed Always_float right (V2_DIV_BODY right)"
  "typed Always_float right (V2_POW_BODY right)"
  unfolding V2_BIN_def V2_DIVMOD_def V2_BITWISE_def V2_SHIFT_def V2_DIV_BODY_def V2_POW_BODY_def
  by (rule learn_operands_typed; auto simp: typed_body_def put_next reject_not_next numeric_value_def
      dest!: bit_operand_numeric split: if_splits option.splits)+

text \<open>The learners of the arithmetic opcodes with their kinds.\<close>

definition arith_kinds :: "(stencil \<times> result_kind \<times> operand) list" where
  "arith_kinds =
    [(lua55_v2l_add, Of_operands, V2_PRO_RR), (lua55_v2l_sub, Of_operands, V2_PRO_RR), (lua55_v2l_mul, Of_operands, V2_PRO_RR),
     (lua55_v2l_addi, Of_operands, V2_PRO_RI), (lua55_v2l_addk, Of_operands, V2_PRO_RK), (lua55_v2l_subk, Of_operands, V2_PRO_RK),
     (lua55_v2l_mulk, Of_operands, V2_PRO_RK), (lua55_v2l_idiv, Of_operands, V2_PRO_RR), (lua55_v2l_mod, Of_operands, V2_PRO_RR),
     (lua55_v2l_idivk, Of_operands, V2_PRO_RK), (lua55_v2l_modk, Of_operands, V2_PRO_RK),
     (lua55_v2l_band, Always_integer, V2_PRO_RR), (lua55_v2l_bor, Always_integer, V2_PRO_RR), (lua55_v2l_bxor, Always_integer, V2_PRO_RR),
     (lua55_v2l_bandk, Always_integer, V2_PRO_RK), (lua55_v2l_bork, Always_integer, V2_PRO_RK), (lua55_v2l_bxork, Always_integer, V2_PRO_RK),
     (lua55_v2l_shl, Always_integer, V2_PRO_RR), (lua55_v2l_shr, Always_integer, V2_PRO_RR),
     (lua55_v2l_shli, Always_integer, V2_PRO_RI), (lua55_v2l_shri, Always_integer, V2_PRO_RI),
     (lua55_v2l_div, Always_float, V2_PRO_RR), (lua55_v2l_divk, Always_float, V2_PRO_RK),
     (lua55_v2l_pow, Always_float, V2_PRO_RR), (lua55_v2l_powk, Always_float, V2_PRO_RK)]"

lemma kinds_typed: "(l, k, right) \<in> set arith_kinds \<Longrightarrow> typed k right l"
  unfolding arith_kinds_def
  by (auto simp: lua55_v2l_add_def lua55_v2l_sub_def lua55_v2l_mul_def lua55_v2l_addi_def lua55_v2l_addk_def lua55_v2l_subk_def
      lua55_v2l_mulk_def lua55_v2l_idiv_def lua55_v2l_mod_def lua55_v2l_idivk_def lua55_v2l_modk_def lua55_v2l_band_def lua55_v2l_bor_def
      lua55_v2l_bxor_def lua55_v2l_bandk_def lua55_v2l_bork_def lua55_v2l_bxork_def lua55_v2l_shl_def lua55_v2l_shr_def lua55_v2l_shli_def
      lua55_v2l_shri_def lua55_v2l_div_def lua55_v2l_divk_def lua55_v2l_pow_def lua55_v2l_powk_def family_types)

text \<open>
  C30. The types of arithmetic. A learner of an arithmetic, bitwise or shift opcode that goes on has read two
  numbers, and the state it leaves differs in its target register and the learning slots only:
  the register holds an integer for two integers and a float otherwise; always a float
  for division and power, always an integer for the bitwise and shift opcodes.
\<close>

theorem arith_result_type:
  assumes "(l, k, right) \<in> set arith_kinds" and "l h f s = Some (Next g, t)"
  shows "g = f \<and> (\<exists>target left lv rv p m. V2_VALUE_DISP (h_target_disp h) f s = Some target \<and>
    V2_VALUE_DISP (h_left_disp h) f s = Some left \<and> rd_val left s = Some lv \<and> right h f s = Some rv \<and>
    numeric_value lv \<and> numeric_value rv \<and>
    t = s\<lparr>slots := m, vals := (vals s)(target \<mapsto> mk_value (result_tag k (tag lv) (tag rv)) p)\<rparr>)"
  using kinds_typed [OF assms(1)] assms(2) unfolding typed_def by blast

theorem arith_result_type_witness:
  "\<exists>t target left lv rv p m. lua55_v2l_add second_right 0x100 two_ints = Some (Next 0x100, t) \<and>
     V2_VALUE_DISP (h_target_disp second_right) 0x100 two_ints = Some target \<and>
     V2_VALUE_DISP (h_left_disp second_right) 0x100 two_ints = Some left \<and> rd_val left two_ints = Some lv \<and>
     V2_PRO_RR second_right 0x100 two_ints = Some rv \<and> lv = mk_value 3 7 \<and> rv = mk_value 3 5 \<and>
     t = two_ints\<lparr>slots := m, vals := (vals two_ints)(target \<mapsto> mk_value LUA55_VALUE_INTEGER p)\<rparr>"
proof -
  have "(lua55_v2l_add, Of_operands, V2_PRO_RR) \<in> set arith_kinds" by (simp add: arith_kinds_def)
  from arith_result_type [OF this two_ints_run(1)] obtain target left lv rv p m where
    r: "V2_VALUE_DISP (h_target_disp second_right) 0x100 two_ints = Some target"
      "V2_VALUE_DISP (h_left_disp second_right) 0x100 two_ints = Some left" "rd_val left two_ints = Some lv"
      "V2_PRO_RR second_right 0x100 two_ints = Some rv"
      "two_ints\<lparr>vals := (vals two_ints)(0x1000 \<mapsto> mk_value 3 12)\<rparr> =
        two_ints\<lparr>slots := m, vals := (vals two_ints)(target \<mapsto> mk_value (result_tag Of_operands (tag lv) (tag rv)) p)\<rparr>" by blast
  have "lv = mk_value 3 7" "rv = mk_value 3 5"
    using r(2-4) by (auto simp: second_right_def two_ints_def V2_VALUE_DISP_def V2_PRO_RR_def rd_val_def)
  then show ?thesis using r two_ints_run(1) by (auto simp: mk_value_def)
qed

end
