(* ===== verification/Closures.thy ===== *)
theory Closures
  imports Specialization
begin

text \<open>
  The bump allocator of the guest heap and the \<open>CLOSURE\<close> leaves (opcode 79): shared upvalue
  cells, captured from registers of the running frame or from its own upvalues.
  A function that returns a null pointer on failure returns the address 0.
\<close>

subsection \<open>The bump allocator\<close>

definition v2_heap_bump :: "u64 \<Rightarrow> u64 \<Rightarrow> v2_state \<Rightarrow> (u64 \<times> v2_state) option" where
  "v2_heap_bump heap nbytes s =
     (if heap = 0 then Some (0, s)
      else do {
        hp \<leftarrow> heaps s heap;
        if table_region hp = 0 then Some (0, s)
        else
          let aligned = (table_next hp + 15) AND NOT 15 in
          if aligned + nbytes > table_region_end hp then Some (0, s)
          else Some (aligned, s\<lparr>heaps := (heaps s)(heap \<mapsto> hp\<lparr>table_next := aligned + nbytes\<rparr>)\<rparr>)})"

definition v2_new_cell :: "u64 \<Rightarrow> v2_state \<Rightarrow> (u64 \<times> v2_state) option" where
  "v2_new_cell heap s = do {
     (at, s) \<leftarrow> v2_heap_bump heap SIZEOF_CELL s;
     if at = 0 then Some (0, s)
     else Some (at, s\<lparr>vals := (vals s)(at + OFFSET_CELL_CLOSED \<mapsto> mk_value 0 0),
       cells := (cells s)(at \<mapsto> \<lparr>open_slot = 0, next_open = 0, cell_state = 0, cell_generation = 1\<rparr>)\<rparr>)}"

definition v2_new_closure :: "u64 \<Rightarrow> u32 \<Rightarrow> u32 \<Rightarrow> v2_state \<Rightarrow> (u64 \<times> v2_state) option" where
  "v2_new_closure heap proto nupvals s = do {
     (at, s) \<leftarrow> v2_heap_bump heap (SIZEOF_CLOSURE + 8 * ucast nupvals) s;
     if at = 0 then Some (0, s)
     else do {
       hp \<leftarrow> heaps s heap;
       Some (at, s\<lparr>
         headers := (headers s)(at \<mapsto> \<lparr>kind = LUA55_OBJECT_CLOSURE, generation = object_count hp + 1\<rparr>),
         closures := (closures s)(at \<mapsto> \<lparr>proto_index = proto, upvalue_count = nupvals\<rparr>),
         heaps := (heaps s)(heap \<mapsto> hp\<lparr>object_count := object_count hp + 1\<rparr>)\<rparr>)}}"

subsection \<open>Capturing\<close>

text \<open>The search loop over the chain of open cells; 0 when no cell is open on \<open>slot\<close>.\<close>

partial_function (option) find_open :: "u64 \<Rightarrow> u64 \<Rightarrow> v2_state \<Rightarrow> u64 option" where
  "find_open c slot s =
     (if c = 0 then Some 0
      else do {
        cell \<leftarrow> cells s c;
        if open_slot cell = slot then Some c else find_open (next_open cell) slot s})"

definition wr_cell_ptr :: "u64 \<Rightarrow> u32 \<Rightarrow> u64 \<Rightarrow> v2_state \<Rightarrow> v2_state" where
  "wr_cell_ptr closure i c s = s\<lparr>ptrs := (ptrs s)(closure + SIZEOF_CLOSURE + 8 * ucast i \<mapsto> c)\<rparr>"

definition v2_set_cell :: "u64 \<Rightarrow> u64 \<Rightarrow> u32 \<Rightarrow> u32 \<Rightarrow> u32 \<Rightarrow> v2_state \<Rightarrow> (bool \<times> v2_state) option" where
  "v2_set_cell f closure i isinstack idx s = do {
     fr \<leftarrow> frames s f;
     if isinstack \<noteq> 0 then do {
       let slot = slot_addr (frame_values fr) idx;
       c \<leftarrow> find_open (open_upvalues fr) slot s;
       if c \<noteq> 0 then Some (True, wr_cell_ptr closure i c s)
       else do {
         (c, s) \<leftarrow> v2_new_cell (heap_ptr (inv s)) s;
         if c = 0 then Some (False, s)
         else do {
           cell \<leftarrow> cells s c;
           s \<leftarrow> Some (s\<lparr>cells := (cells s)(c \<mapsto> cell\<lparr>open_slot := slot, cell_state := LUA55_UPVALUE_OPEN,
             cell_generation := 1, next_open := open_upvalues fr\<rparr>)\<rparr>);
           s \<leftarrow> upd_frame f (\<lambda>fr. fr\<lparr>open_upvalues := c\<rparr>) s;
           Some (True, wr_cell_ptr closure i c s)}}}
     else do {
       c \<leftarrow> rd_ptr_at (upvalues fr) idx s;
       Some (True, wr_cell_ptr closure i c s)}}"

text \<open>The captures \<open>k, k + 1, ...\<close> of a leaf, tried in order until one fails.\<close>

fun set_cells :: "holes \<Rightarrow> u64 \<Rightarrow> u64 \<Rightarrow> nat list \<Rightarrow> v2_state \<Rightarrow> (bool \<times> v2_state) option" where
  "set_cells h f closure [] s = Some (True, s)"
| "set_cells h f closure (k # ks) s = do {
     (ok, s) \<leftarrow> v2_set_cell f closure (word_of_nat k) (h_instack h k) (h_idx h k) s;
     if ok then set_cells h f closure ks s else Some (False, s)}"

definition overflow_exit :: "u32 \<Rightarrow> u64 \<Rightarrow> u64 \<Rightarrow> stencil" where
  "overflow_exit k need have_bytes h f s =
     LUA55_CPS_HOST_EXIT h f (V2_PUBLISH_OVERFLOW k need have_bytes h s)"

definition V2_CLOSURE_BODY :: "nat \<Rightarrow> stencil" where
  "V2_CLOSURE_BODY n h f s = do {
     target \<leftarrow> V2_VALUE_DISP (h_target_disp h) f s;
     (closure, s) \<leftarrow> v2_new_closure (heap_ptr (inv s)) (h_proto_index h) (word_of_nat n) s;
     if closure = 0 then overflow_exit LUA55_V2_OUTCOME_HEAP_OVERFLOW 0 0 h f s
     else do {
       (ok, s) \<leftarrow> set_cells h f closure [0..<n] s;
       if \<not> ok then overflow_exit LUA55_V2_OUTCOME_HEAP_OVERFLOW 0 0 h f s
       else do {
         s \<leftarrow> wr_ref target LUA55_VALUE_CLOSURE closure s;
         LUA55_RESIDUAL_NEXT f s}}}"

definition lua55_v2r_closure_0 :: stencil where
  "lua55_v2r_closure_0 = V2_CLOSURE_BODY 0"

definition lua55_v2r_closure_1 :: stencil where
  "lua55_v2r_closure_1 = V2_CLOSURE_BODY 1"

definition lua55_v2r_closure_2 :: stencil where
  "lua55_v2r_closure_2 = V2_CLOSURE_BODY 2"

definition lua55_v2r_closure_3 :: stencil where
  "lua55_v2r_closure_3 = V2_CLOSURE_BODY 3"

definition lua55_v2r_closure_4 :: stencil where
  "lua55_v2r_closure_4 = V2_CLOSURE_BODY 4"

subsection \<open>Allocation\<close>

text \<open>The region of a heap, and room for the arithmetic of the allocator in 64 bits.\<close>

definition heap_room :: "guest_heap \<Rightarrow> u64 \<Rightarrow> bool" where
  "heap_room hp nbytes \<longleftrightarrow> table_region hp \<noteq> 0 \<and> unat (table_region hp) \<le> unat (table_next hp) \<and>
     unat (table_next hp) + 15 + unat nbytes < 2 ^ 64"

lemma heap_bump_spec:
  assumes "heap \<noteq> 0" and "heaps s heap = Some hp" and "heap_room hp nbytes"
  defines "a \<equiv> (unat (table_next hp) + 15) div 16 * 16"
  shows "v2_heap_bump heap nbytes s =
    (if a + unat nbytes \<le> unat (table_region_end hp)
     then Some (word_of_nat a, s\<lparr>heaps := (heaps s)(heap \<mapsto> hp\<lparr>table_next := word_of_nat (a + unat nbytes)\<rparr>)\<rparr>)
     else Some (0, s))"
proof -
  let ?al = "(table_next hp + 15) AND NOT (15 :: u64)"
  have ua: "unat ?al = a" using align_up assms(3) by (simp add: a_def heap_room_def)
  have "a \<le> unat (table_next hp) + 15" by (simp add: a_def)
  then have "a + unat nbytes < 2 ^ 64" using assms(3) by (simp add: heap_room_def)
  then have us: "unat (?al + nbytes) = a + unat nbytes" using ua by (simp add: unat_plus64)
  have w: "?al = word_of_nat a" "?al + nbytes = word_of_nat (a + unat nbytes)"
    using ua us by (metis of_nat_unat ucast_id)+
  have le: "?al + nbytes > table_region_end hp \<longleftrightarrow> \<not> a + unat nbytes \<le> unat (table_region_end hp)"
    using us by (simp add: word_less_nat_alt not_le)
  show ?thesis
    using assms(1,2,3) le w unfolding v2_heap_bump_def Let_def heap_room_def by simp
qed

lemma bump_cases:
  assumes "heap \<noteq> 0" and "heaps s heap = Some hp" and "heap_room hp nbytes"
  shows "\<exists>at t. v2_heap_bump heap nbytes s = Some (at, t) \<and>
    (if at = 0 then t = s \<and> unat (table_region_end hp) < unat (table_next hp) + 15 + unat nbytes
     else 16 dvd unat at \<and> unat (table_next hp) \<le> unat at \<and> unat at < unat (table_next hp) + 16 \<and>
       unat at + unat nbytes \<le> unat (table_region_end hp) \<and>
       t = s\<lparr>heaps := (heaps s)(heap \<mapsto> hp\<lparr>table_next := at + nbytes\<rparr>)\<rparr>)"
proof -
  define a where "a = (unat (table_next hp) + 15) div 16 * 16"
  have a: "unat (table_next hp) \<le> a" "a < unat (table_next hp) + 16" "16 dvd a"
    unfolding a_def by linarith+ simp
  have r: "0 < unat (table_region hp)" "unat (table_region hp) \<le> unat (table_next hp)"
    "a + unat nbytes < 2 ^ 64"
    using assms(3) a by (auto simp: heap_room_def unat_gt_0)
  then have u: "unat (word_of_nat a :: u64) = a" by (simp add: unat_of_nat64)
  have n: "word_of_nat (a + unat nbytes) = (word_of_nat a + nbytes :: u64)" by simp
  note bump = heap_bump_spec [OF assms, folded a_def]
  show ?thesis
  proof (cases "a + unat nbytes \<le> unat (table_region_end hp)")
    case True
    have "0 < unat (word_of_nat a :: u64)" using u r a by linarith
    then have "(word_of_nat a :: u64) \<noteq> 0" by auto
    then show ?thesis
      using True a u n bump by auto
  next
    case False
    then show ?thesis using a bump by auto
  qed
qed

lemma heap_bump_correct':
  assumes "heap \<noteq> 0" and "heaps s heap = Some hp" and "heap_room hp nbytes"
  obtains at u where "v2_heap_bump heap nbytes s = Some (at, u)"
    and "at \<noteq> 0 \<Longrightarrow> unat (table_next hp) \<le> unat at" and "\<exists>hs. u = s\<lparr>heaps := hs\<rparr>"
proof -
  from bump_cases [OF assms] obtain at u where "v2_heap_bump heap nbytes s = Some (at, u)"
    "at \<noteq> 0 \<Longrightarrow> unat (table_next hp) \<le> unat at" "u = s \<or> (\<exists>hs. u = s\<lparr>heaps := hs\<rparr>)"
    by (auto split: if_splits)
  moreover have "s = s\<lparr>heaps := heaps s\<rparr>" by simp
  ultimately show thesis using that by metis
qed

text \<open>
  C33. The bump allocator. With room for its arithmetic, a request either does not fit and
  changes nothing, or gets a block that is aligned to 16, starts at or after everything
  allocated before, wastes less than 16 bytes, and ends inside the region; the next request
  starts at its end.
\<close>

theorem heap_bump_correct:
  assumes "heap \<noteq> 0" and "heaps s heap = Some hp" and "heap_room hp nbytes"
  shows "\<exists>at t. v2_heap_bump heap nbytes s = Some (at, t) \<and>
    (if at = 0 then t = s \<and> unat (table_region_end hp) < unat (table_next hp) + 15 + unat nbytes
     else 16 dvd unat at \<and> unat (table_next hp) \<le> unat at \<and> unat at < unat (table_next hp) + 16 \<and>
       unat at + unat nbytes \<le> unat (table_region_end hp) \<and>
       t = s\<lparr>heaps := (heaps s)(heap \<mapsto> hp\<lparr>table_next := at + nbytes\<rparr>)\<rparr>)"
  by (rule bump_cases [OF assms])

definition heap_example :: v2_state where
  "heap_example = blank_state\<lparr>heaps := [0x40 \<mapsto> \<lparr>heap_generation = 0, collection_epoch = 0,
     object_count = 0, barrier_epoch = 0, table_region = 0x1000, table_region_end = 0x1100,
     table_next = 0x1008\<rparr>]\<rparr>"

theorem heap_bump_correct_witness:
  "\<exists>at t. v2_heap_bump 0x40 0x20 heap_example = Some (at, t) \<and> (at \<noteq> 0 \<longrightarrow> 16 dvd unat at)"
  using heap_bump_correct [where s = heap_example and heap = "0x40" and nbytes = "0x20"]
  by (auto simp: heap_example_def heap_room_def)

subsection \<open>Captures\<close>

text \<open>The cell of the chain that is open on a register, or 0.\<close>

definition cell_on :: "v2_state \<Rightarrow> u64 \<Rightarrow> u64 \<Rightarrow> bool" where
  "cell_on s slot x \<longleftrightarrow> map_option open_slot (cells s x) = Some slot"

lemma find_open_chain:
  "open_chain s c xs \<Longrightarrow> find_open c slot s =
     Some (case find (cell_on s slot) xs of None \<Rightarrow> 0 | Some x \<Rightarrow> x)"
proof (induction xs arbitrary: c)
  case Nil
  then show ?case by (simp add: find_open.simps)
next
  case (Cons x xs)
  then obtain cell where "c = x" "x \<noteq> 0" "cells s x = Some cell" "open_chain s (next_open cell) xs"
    by (auto split: option.splits)
  moreover from this have "cell_on s slot x \<longleftrightarrow> open_slot cell = slot" by (simp add: cell_on_def)
  ultimately show ?case using Cons.IH by (subst find_open.simps) simp
qed

text \<open>
  What the captures of a frame rely on: a chain of distinct open cells, at most one per
  register, and a heap whose next block lies above every cell.
\<close>

definition capture_ok :: "u64 \<Rightarrow> u64 list \<Rightarrow> v2_state \<Rightarrow> bool" where
  "capture_ok f xs s \<longleftrightarrow> (\<exists>fr hp. frames s f = Some fr \<and> open_chain s (open_upvalues fr) xs \<and> distinct xs \<and>
     inj_on (\<lambda>x. map_option open_slot (cells s x)) (set xs) \<and>
     heap_ptr (inv s) \<noteq> 0 \<and> heaps s (heap_ptr (inv s)) = Some hp \<and> heap_room hp SIZEOF_CELL \<and>
     (\<forall>c. cells s c \<noteq> None \<longrightarrow> unat c < unat (table_next hp)))"

lemma find_cell_None:
  "find (cell_on s slot) xs = None \<Longrightarrow> x \<in> set xs \<Longrightarrow> map_option open_slot (cells s x) \<noteq> Some slot"
  by (auto simp: find_None_iff cell_on_def)

lemma chain_nonzero: "open_chain s c xs \<Longrightarrow> x \<in> set xs \<Longrightarrow> x \<noteq> 0 \<and> cells s x \<noteq> None"
  by (induction xs arbitrary: c) (auto split: option.splits)

text \<open>The two successful outcomes of a capture from the stack.\<close>

lemma set_cell_cases:
  assumes ok: "capture_ok f xs s" and fr: "frames s f = Some fr" and k: "k \<noteq> 0"
    and slot: "slot = slot_addr (frame_values fr) idx" and m: "vals s slot \<noteq> None"
    and run: "v2_set_cell f closure i k idx s = Some (True, t)"
  obtains (old) c where "c \<in> set xs" "cell_on s slot c" "t = wr_cell_ptr closure i c s"
  | (new) c u where "c \<noteq> 0" "c \<notin> set xs" "cells s c = None" "find (cell_on s slot) xs = None"
      "t = wr_cell_ptr closure i c u" "frames u = (frames s)(f \<mapsto> fr\<lparr>open_upvalues := c\<rparr>)"
      "vals u = (vals s)(c + OFFSET_CELL_CLOSED \<mapsto> mk_value 0 0)"
      "cells u = (cells s)(c \<mapsto> \<lparr>open_slot = slot, next_open = open_upvalues fr,
         cell_state = LUA55_UPVALUE_OPEN, cell_generation = 1\<rparr>)" "ptrs u = ptrs s"
proof -
  from ok fr obtain hp where inv: "open_chain s (open_upvalues fr) xs" "distinct xs" "heap_ptr (inv s) \<noteq> 0"
      "heaps s (heap_ptr (inv s)) = Some hp" "heap_room hp SIZEOF_CELL"
      "\<forall>c. cells s c \<noteq> None \<longrightarrow> unat c < unat (table_next hp)"
    by (auto simp: capture_ok_def)
  show thesis
  proof (cases "find (cell_on s slot) xs")
    case (Some c)
    then have c: "c \<in> set xs" "cell_on s slot c" by (auto simp: find_Some_iff)
    then have "c \<noteq> 0" using chain_nonzero [OF inv(1)] by blast
    then have "t = wr_cell_ptr closure i c s"
      using run fr k slot Some find_open_chain [OF inv(1), of slot] by (simp add: v2_set_cell_def)
    with c show thesis by (rule old)
  next
    case None
    let ?hp = "heap_ptr (inv s)"
    from heap_bump_correct' [OF inv(3,4,5)] obtain at u where
      b: "v2_heap_bump ?hp SIZEOF_CELL s = Some (at, u)" "at \<noteq> 0 \<Longrightarrow> unat (table_next hp) \<le> unat at"
        "\<exists>hs. u = s\<lparr>heaps := hs\<rparr>" by blast
    have "at \<noteq> 0"
      using run fr k slot None find_open_chain [OF inv(1), of slot] b(1)
      by (auto simp: v2_set_cell_def v2_new_cell_def)
    then have free: "cells s at = None" using inv(6) b(2) by (meson not_le)
    then have "at \<notin> set xs" using chain_nonzero [OF inv(1)] by blast
    from b(3) obtain hs where u: "u = s\<lparr>heaps := hs\<rparr>" by blast
    let ?u = "u\<lparr>vals := (vals s)(at + OFFSET_CELL_CLOSED \<mapsto> mk_value 0 0),
        cells := (cells s)(at \<mapsto> \<lparr>open_slot = slot, next_open = open_upvalues fr,
          cell_state = LUA55_UPVALUE_OPEN, cell_generation = 1\<rparr>),
        frames := (frames s)(f \<mapsto> fr\<lparr>open_upvalues := at\<rparr>)\<rparr>"
    have "t = wr_cell_ptr closure i at ?u"
      using run fr k slot None find_open_chain [OF inv(1), of slot] b(1) \<open>at \<noteq> 0\<close> u
      by (simp add: v2_set_cell_def v2_new_cell_def upd_frame_def)
    then show thesis
      by (rule new [OF \<open>at \<noteq> 0\<close> \<open>at \<notin> set xs\<close> free None]) (simp_all add: u)
  qed
qed

lemma recapture:
  assumes fr: "frames t f = Some fr" and ch: "open_chain t (open_upvalues fr) ys"
    and inj: "inj_on (\<lambda>x. map_option open_slot (cells t x)) (set ys)"
    and c: "c \<in> set ys" "cell_on t (slot_addr (frame_values fr) idx) c" and k: "k \<noteq> 0"
  shows "v2_set_cell f closure j k idx t = Some (True, wr_cell_ptr closure j c t)"
proof -
  let ?slot = "slot_addr (frame_values fr) idx"
  from c obtain d where d: "find (cell_on t ?slot) ys = Some d" by (metis find_None_iff not_None_eq)
  then have "d \<in> set ys" "cell_on t ?slot d" by (auto simp: find_Some_iff)
  with inj c have "d = c" by (auto simp: cell_on_def inj_on_def)
  moreover have "c \<noteq> 0" using chain_nonzero ch c(1) by blast
  ultimately show ?thesis using fr k d find_open_chain [OF ch, of ?slot] by (simp add: v2_set_cell_def)
qed

text \<open>
  C34. Captured registers are shared. A successful capture of a register by a closure leaves
  the invariant in place and stores in the closure a cell that is open on that register and
  belongs to the chain of the frame; any later capture of the same register, by whichever
  closure, stores that same cell and allocates nothing.
\<close>

theorem capture_shares_cell:
  assumes "capture_ok f xs s" and "frames s f = Some fr" and "k \<noteq> 0" and "k' \<noteq> 0"
    and "vals s (slot_addr (frame_values fr) idx) \<noteq> None"
    and "v2_set_cell f closure i k idx s = Some (True, t)"
  shows "\<exists>c ys fr'. frames t f = Some fr' \<and> open_chain t (open_upvalues fr') ys \<and> distinct ys \<and>
    c \<in> set ys \<and> set xs \<subseteq> set ys \<and>
    inj_on (\<lambda>x. map_option open_slot (cells t x)) (set ys) \<and>
    map_option open_slot (cells t c) = Some (slot_addr (frame_values fr) idx) \<and>
    ptrs t (closure + SIZEOF_CLOSURE + 8 * ucast i) = Some c \<and>
    v2_set_cell f closure' j k' idx t = Some (True, wr_cell_ptr closure' j c t)"
proof -
  let ?slot = "slot_addr (frame_values fr) idx"
  from assms(1,2) have inv: "open_chain s (open_upvalues fr) xs" "distinct xs"
      "inj_on (\<lambda>x. map_option open_slot (cells s x)) (set xs)"
    by (auto simp: capture_ok_def)
  note again = recapture [where closure = closure' and j = j and idx = idx, OF _ _ _ _ _ assms(4)]
  show ?thesis
  proof (cases rule: set_cell_cases [OF assms(1-3) refl assms(5,6), case_names old new])
    case (old c)
    then have "frames t f = Some fr" "open_chain t (open_upvalues fr) xs" "cells t = cells s"
      using assms(2) inv(1) open_chain_frame [of xs t s] by (auto simp: wr_cell_ptr_def)
    moreover have "ptrs t (closure + SIZEOF_CLOSURE + 8 * ucast i) = Some c" using old by (simp add: wr_cell_ptr_def)
    ultimately show ?thesis
      using old inv again [of t f fr xs c] by (intro exI [of _ c] exI [of _ xs] exI [of _ fr]) (auto simp: cell_on_def)
  next
    case (new c u)
    let ?fr = "fr\<lparr>open_upvalues := c\<rparr>"
    have sel: "frames t f = Some ?fr" "cells t = (cells s)(c \<mapsto> \<lparr>open_slot = ?slot, next_open = open_upvalues fr,
         cell_state = LUA55_UPVALUE_OPEN, cell_generation = 1\<rparr>)" "vals t = (vals s)(c + OFFSET_CELL_CLOSED \<mapsto> mk_value 0 0)"
      using new by (simp_all add: wr_cell_ptr_def)
    have "open_chain t (open_upvalues fr) xs"
      by (rule open_chain_frame [OF _ _ inv(1)]) (use new(2) sel in auto)
    then have ch: "open_chain t (open_upvalues ?fr) (c # xs)" using new(1) sel assms(5) by simp
    have same: "map_option open_slot (cells t x) = map_option open_slot (cells s x)" if "x \<in> set xs" for x
      using that new(2) sel(2) by auto
    have "inj_on (\<lambda>x. map_option open_slot (cells t x)) (set xs)"
      using inv(3) same by (simp cong: inj_on_cong)
    moreover have "map_option open_slot (cells t c) = Some ?slot" using sel(2) by simp
    then have "map_option open_slot (cells t c) \<noteq> map_option open_slot (cells t x)" if "x \<in> set xs" for x
      using same [OF that] find_cell_None [OF new(4) that] by argo
    ultimately have inj: "inj_on (\<lambda>x. map_option open_slot (cells t x)) (set (c # xs))"
      using new(2) by (auto simp: inj_on_insert)
    have "ptrs t (closure + SIZEOF_CLOSURE + 8 * ucast i) = Some c" using new by (simp add: wr_cell_ptr_def)
    then show ?thesis
      using sel ch inj inv(2) new(2) again [OF sel(1) ch inj, of c]
      by (intro exI [of _ c] exI [of _ "c # xs"] exI [of _ ?fr]) (auto simp: cell_on_def)
  qed
qed

text \<open>A frame with one register, no open cell, and room in the heap.\<close>

definition capture_example :: v2_state where
  "capture_example = heap_example\<lparr>vals := [0x500 \<mapsto> mk_value 3 7],
     frames := [0x100 \<mapsto> blank_frame\<lparr>frame_values := 0x500\<rparr>],
     inv := blank_invocation\<lparr>heap_ptr := 0x40\<rparr>\<rparr>"

theorem capture_shares_cell_witness:
  "\<exists>t c. v2_set_cell 0x100 0x2000 0 1 0 capture_example = Some (True, t) \<and>
     v2_set_cell 0x100 0x3000 0 1 0 t = Some (True, wr_cell_ptr 0x3000 0 c t)"
proof -
  have "capture_ok 0x100 [] capture_example"
    by (simp add: capture_ok_def capture_example_def heap_example_def heap_room_def)
  moreover obtain t where t: "v2_set_cell 0x100 0x2000 0 1 0 capture_example = Some (True, t)"
    by (simp add: v2_set_cell_def find_open.simps v2_new_cell_def v2_heap_bump_def capture_example_def
        heap_example_def upd_frame_def)
  ultimately show ?thesis
    using capture_shares_cell [of "0x100" "[]" capture_example "blank_frame\<lparr>frame_values := 0x500\<rparr>" 1 1 0
        "0x2000" 0 t "0x3000" 0]
    by (auto simp: capture_example_def slot_addr_def)
qed

end
