(* ===== verification/Tables.thy ===== *)
theory Tables
  imports Closures Unary
begin

text \<open>
  Guest tables (opcodes 11 to 20 and 78): an array part indexed from 1 and a field vector
  searched by key reference, both grown by taking a fresh slice from the guest heap. The
  learners and the generic stencils; the residual leaves are in the theory \<open>Table_Leaves\<close>.

  Memory that the allocator hands out is mapped by the loops that initialise it. The one
  field that \<open>v2_new_table\<close> leaves alone, \<open>site_id\<close>, keeps what the memory held.
\<close>

subsection \<open>Fields\<close>

definition v2_learn_table :: "lua_value \<Rightarrow> v2_state \<Rightarrow> u64 option" where
  "v2_learn_table receiver s =
     (let table = payload receiver in
      if tag receiver \<noteq> LUA55_VALUE_TABLE \<or> heap_ptr (inv s) = 0 \<or> table = 0 then Some 0
      else do {
        hd \<leftarrow> headers s table;
        if kind hd \<noteq> LUA55_OBJECT_TABLE then Some 0
        else do {
          tb \<leftarrow> tables s table;
          Some (if table_heap tb \<noteq> heap_ptr (inv s) \<or> metatable_reference tb \<noteq> 0 then 0 else table)}})"

definition field_addr :: "u64 \<Rightarrow> u32 \<Rightarrow> u64" where
  "field_addr base i = base + SIZEOF_FIELD * ucast i"

text \<open>
  One pass over the field vector: the field that holds the key (0 if none) and the first
  vacant field met before it (0 if none).
\<close>

primrec scan_fields :: "u64 \<Rightarrow> u64 \<Rightarrow> u32 \<Rightarrow> nat \<Rightarrow> u64 \<Rightarrow> v2_state \<Rightarrow> (u64 \<times> u64) option" where
  "scan_fields fv key index 0 vacant s = Some (0, vacant)"
| "scan_fields fv key index (Suc n) vacant s = do {
     let field = field_addr fv index;
     fd \<leftarrow> gfields s field;
     if occupied fd \<noteq> 0 \<and> key_reference fd = key then Some (field, vacant)
     else scan_fields fv key (index + 1) n (if occupied fd = 0 \<and> vacant = 0 then field else vacant) s}"

definition upd_table :: "u64 \<Rightarrow> (guest_table \<Rightarrow> guest_table) \<Rightarrow> v2_state \<Rightarrow> v2_state option" where
  "upd_table table g s = do {
     tb \<leftarrow> tables s table;
     Some (s\<lparr>tables := (tables s)(table \<mapsto> g tb)\<rparr>)}"

definition claim_field :: "u64 \<Rightarrow> u64 \<Rightarrow> u64 \<Rightarrow> v2_state \<Rightarrow> v2_state option" where
  "claim_field table vacant key s = do {
     s \<leftarrow> wr_val (vacant + OFFSET_FIELD_VALUE) (mk_value LUA55_VALUE_NIL 0) s;
     s \<leftarrow> Some (s\<lparr>gfields := (gfields s)(vacant \<mapsto> \<lparr>key_reference = key, occupied = 1, field_reserved = 0\<rparr>)\<rparr>);
     upd_table table (\<lambda>tb. tb\<lparr>storage_generation := storage_generation tb + 1\<rparr>) s}"

primrec copy_fields :: "u64 \<Rightarrow> u64 \<Rightarrow> u32 \<Rightarrow> nat \<Rightarrow> v2_state \<Rightarrow> v2_state option" where
  "copy_fields dst fv index 0 s = Some s"
| "copy_fields dst fv index (Suc n) s = do {
     fd \<leftarrow> gfields s (field_addr fv index);
     v \<leftarrow> vals s (field_addr fv index + OFFSET_FIELD_VALUE);
     copy_fields dst fv (index + 1) n (s\<lparr>
       gfields := (gfields s)(field_addr dst index \<mapsto> fd),
       vals := (vals s)(field_addr dst index + OFFSET_FIELD_VALUE \<mapsto> v)\<rparr>)}"

primrec blank_fields :: "u64 \<Rightarrow> u32 \<Rightarrow> nat \<Rightarrow> v2_state \<Rightarrow> v2_state" where
  "blank_fields dst index 0 s = s"
| "blank_fields dst index (Suc n) s = blank_fields dst (index + 1) n (s\<lparr>
     gfields := (gfields s)(field_addr dst index \<mapsto> \<lparr>key_reference = 0, occupied = 0, field_reserved = 0\<rparr>),
     vals := (vals s)(field_addr dst index + OFFSET_FIELD_VALUE \<mapsto> mk_value 0 0)\<rparr>)"

text \<open>Growing the field part; the flag is false when the heap has no room.\<close>

definition grow_fields :: "u64 \<Rightarrow> v2_state \<Rightarrow> (bool \<times> v2_state) option" where
  "grow_fields table s = do {
     tb \<leftarrow> tables s table;
     let cap = field_capacity tb;
     let new_cap = (if cap > 0 then cap else 1) * 2;
     (at, s) \<leftarrow> v2_heap_bump (table_heap tb) (SIZEOF_FIELD * ucast new_cap) s;
     if at = 0 then Some (False, s)
     else do {
       s \<leftarrow> copy_fields at (field_values tb) 0 (unat cap) s;
       s \<leftarrow> Some (blank_fields at cap (unat new_cap - unat cap) s);
       s \<leftarrow> upd_table table (\<lambda>tb. tb\<lparr>field_values := at, field_capacity := new_cap,
         storage_generation := storage_generation tb + 1\<rparr>) s;
       Some (True, s)}}"

partial_function (option) v2_find_field :: "u64 \<Rightarrow> u64 \<Rightarrow> bool \<Rightarrow> v2_state \<Rightarrow> (u64 \<times> v2_state) option" where
  "v2_find_field table key create s = do {
     tb \<leftarrow> tables s table;
     (found, vacant) \<leftarrow> scan_fields (field_values tb) key 0 (unat (field_capacity tb)) 0 s;
     if found \<noteq> 0 then Some (found + OFFSET_FIELD_VALUE, s)
     else if \<not> create then Some (0, s)
     else if vacant \<noteq> 0 then do {
       s \<leftarrow> claim_field table vacant key s;
       Some (vacant + OFFSET_FIELD_VALUE, s)}
     else do {
       (ok, s) \<leftarrow> grow_fields table s;
       if ok then v2_find_field table key create s else Some (0, s)}}"

definition observe_location :: "u64 \<Rightarrow> guest_table \<Rightarrow> learn_slot \<Rightarrow> learn_slot" where
  "observe_location cell tb loc =
     (let st = (if cell \<noteq> 0 then 1 else 2);
          slot = (if cell \<noteq> 0 then ucast ((cell - OFFSET_FIELD_VALUE - field_values tb) div SIZEOF_FIELD)
                  else 0xFFFFFFFF) in
      if field_state loc = 0
      then loc\<lparr>field_state := st, field_slot := slot, field_layout_capacity := field_capacity tb,
        field_site_id := site_id tb\<rparr>
      else if field_state loc \<noteq> st \<or> field_slot loc \<noteq> slot \<or> field_site_id loc \<noteq> site_id tb
      then loc\<lparr>field_state := 3\<rparr>
      else if field_capacity tb > field_layout_capacity loc
      then loc\<lparr>field_layout_capacity := field_capacity tb\<rparr> else loc)"

definition v2_learn_field_location :: "u32 \<Rightarrow> u64 \<Rightarrow> u64 \<Rightarrow> v2_state \<Rightarrow> v2_state option" where
  "v2_learn_field_location occ_slot table cell s = do {
     tb \<leftarrow> tables s table;
     learn_at occ_slot (observe_location cell tb) s}"

subsection \<open>The array part\<close>

definition v2_array_slot :: "u64 \<Rightarrow> u64 \<Rightarrow> v2_state \<Rightarrow> u64 option" where
  "v2_array_slot table k s = do {
     tb \<leftarrow> tables s table;
     Some (if k <s 1 \<or> k > ucast (array_capacity tb) then 0
           else array_values tb + SIZEOF_VALUE * (k - 1))}"

partial_function (option) double_capacity :: "u32 \<Rightarrow> u64 \<Rightarrow> u32 option" where
  "double_capacity new_capacity needed =
     (if ucast new_capacity < needed then double_capacity (new_capacity * 2) needed
      else Some new_capacity)"

primrec copy_array :: "u64 \<Rightarrow> u64 \<Rightarrow> u32 \<Rightarrow> nat \<Rightarrow> v2_state \<Rightarrow> v2_state option" where
  "copy_array dst src i 0 s = Some s"
| "copy_array dst src i (Suc n) s = do {
     v \<leftarrow> rd_val (slot_addr src i) s;
     copy_array dst src (i + 1) n (s\<lparr>vals := (vals s)(slot_addr dst i \<mapsto> v)\<rparr>)}"

primrec blank_array :: "u64 \<Rightarrow> u32 \<Rightarrow> nat \<Rightarrow> v2_state \<Rightarrow> v2_state" where
  "blank_array dst i 0 s = s"
| "blank_array dst i (Suc n) s =
     blank_array dst (i + 1) n (s\<lparr>vals := (vals s)(slot_addr dst i \<mapsto> mk_value 0 0)\<rparr>)"

definition v2_grow_array :: "u64 \<Rightarrow> u64 \<Rightarrow> v2_state \<Rightarrow> (bool \<times> v2_state) option" where
  "v2_grow_array table needed s = do {
     tb \<leftarrow> tables s table;
     let cap = array_capacity tb;
     new_cap \<leftarrow> double_capacity (if cap > 0 then cap else 1) needed;
     (at, s) \<leftarrow> v2_heap_bump (heap_ptr (inv s)) (SIZEOF_VALUE * ucast new_cap) s;
     if at = 0 then Some (False, s)
     else do {
       s \<leftarrow> copy_array at (array_values tb) 0 (unat cap) s;
       s \<leftarrow> Some (blank_array at cap (unat new_cap - unat cap) s);
       s \<leftarrow> upd_table table (\<lambda>tb. tb\<lparr>array_values := at, array_capacity := new_cap,
         storage_generation := storage_generation tb + 1\<rparr>) s;
       Some (True, s)}}"

definition v2_table_set :: "u64 \<Rightarrow> u64 \<Rightarrow> lua_value \<Rightarrow> v2_state \<Rightarrow> v2_state option" where
  "v2_table_set table cell v s = do {
     s \<leftarrow> wr_val cell v s;
     if tag v \<ge> LUA55_VALUE_SHORT_STRING then do {
       tb \<leftarrow> tables s table;
       s \<leftarrow> upd_table table (\<lambda>tb. tb\<lparr>barrier_count := barrier_count tb + 1\<rparr>) s;
       if table_heap tb \<noteq> 0 then do {
         hp \<leftarrow> heaps s (table_heap tb);
         Some (s\<lparr>heaps := (heaps s)(table_heap tb \<mapsto> hp\<lparr>barrier_epoch := barrier_epoch hp + 1\<rparr>)\<rparr>)}
       else Some s}
     else Some s}"

definition v2_new_table :: "u32 \<Rightarrow> u32 \<Rightarrow> v2_state \<Rightarrow> (u64 \<times> v2_state) option" where
  "v2_new_table array_cap field_cap s = do {
     let heap = heap_ptr (inv s);
     let acap = (if array_cap > 0 then array_cap else 1);
     let fcap = (if field_cap > 0 then field_cap else 1);
     let array_size = SIZEOF_VALUE * ucast acap;
     let field_size = SIZEOF_FIELD * ucast fcap;
     (at, s) \<leftarrow> v2_heap_bump heap (SIZEOF_TABLE + array_size + field_size) s;
     if at = 0 then Some (0, s)
     else do {
       hp \<leftarrow> heaps s heap;
       let arrays = at + SIZEOF_TABLE;
       let fields = at + SIZEOF_TABLE + array_size;
       let tb = \<lparr>storage_generation = 1, array_capacity = acap, field_capacity = fcap, barrier_count = 0,
         metatable_reference = 0, array_values = arrays, field_values = fields, table_heap = heap,
         site_id = (case tables s at of None \<Rightarrow> 0 | Some old \<Rightarrow> site_id old)\<rparr>;
       s \<leftarrow> Some (s\<lparr>headers := (headers s)(at \<mapsto> \<lparr>kind = LUA55_OBJECT_TABLE, generation = object_count hp + 1\<rparr>),
         tables := (tables s)(at \<mapsto> tb)\<rparr>);
       s \<leftarrow> Some (blank_array arrays 0 (unat acap) s);
       s \<leftarrow> Some (blank_fields fields 0 (unat fcap) s);
       Some (at, s\<lparr>heaps := (heaps s)(heap \<mapsto> hp\<lparr>object_count := object_count hp + 1\<rparr>)\<rparr>)}}"

subsection \<open>Reads\<close>

definition with_table :: "lua_value \<Rightarrow> (u64 \<Rightarrow> stencil) \<Rightarrow> stencil" where
  "with_table receiver k h f s = do {
     table \<leftarrow> v2_learn_table receiver s;
     if table = 0 then reject_exit LUA55_V2_REJECT_INVALID_OBJECT h f s else k table h f s}"

definition rd_reg :: "u32 \<Rightarrow> u64 \<Rightarrow> v2_state \<Rightarrow> lua_value option" where
  "rd_reg disp f s = do {a \<leftarrow> V2_VALUE_DISP disp f s; rd_val a s}"

text \<open>Copy the cell to the target, or nil when there is none.\<close>

definition load_cell :: "u64 \<Rightarrow> u64 \<Rightarrow> stencil" where
  "load_cell target cell h f s = do {
     s \<leftarrow> (if cell = 0 then wr_val target (mk_value LUA55_VALUE_NIL 0) s
           else do {v \<leftarrow> rd_val cell s; wr_val target v s});
     LUA55_RESIDUAL_NEXT f s}"

definition lua55_v2_geti :: stencil where
  "lua55_v2_geti h f s = do {
     target \<leftarrow> V2_VALUE_DISP (h_target_disp h) f s;
     receiver \<leftarrow> rd_reg (h_receiver_disp h) f s;
     with_table receiver (\<lambda>table h f s. do {
       cell \<leftarrow> v2_array_slot table (ucast (h_int_key h)) s;
       load_cell target cell h f s}) h f s}"

text \<open>The field read shared by \<open>GETFIELD\<close>, \<open>GETTABUP\<close> and \<open>SELF\<close>.\<close>

definition load_field :: "u64 \<Rightarrow> u64 \<Rightarrow> stencil" where
  "load_field target table h f s = do {
     (cell, s) \<leftarrow> v2_find_field table (h_key_ref h) False s;
     s \<leftarrow> v2_learn_field_location (h_occ_slot h) table cell s;
     load_cell target cell h f s}"

definition lua55_v2_getfield :: stencil where
  "lua55_v2_getfield h f s = do {
     target \<leftarrow> V2_VALUE_DISP (h_target_disp h) f s;
     receiver \<leftarrow> rd_reg (h_receiver_disp h) f s;
     with_table receiver (load_field target) h f s}"

text \<open>The value an upvalue index stands for.\<close>

definition rd_upval_at :: "u32 \<Rightarrow> u64 \<Rightarrow> v2_state \<Rightarrow> lua_value option" where
  "rd_upval_at i f s = do {
     fr \<leftarrow> frames s f;
     c \<leftarrow> rd_ptr_at (upvalues fr) i s;
     loc \<leftarrow> cell_location c s;
     rd_val loc s}"

definition lua55_v2_gettabup :: stencil where
  "lua55_v2_gettabup h f s = do {
     target \<leftarrow> V2_VALUE_DISP (h_target_disp h) f s;
     v \<leftarrow> rd_upval_at (h_upvalue h) f s;
     with_table v (load_field target) h f s}"

definition lua55_v2l_gettable :: stencil where
  "lua55_v2l_gettable h f s = do {
     target \<leftarrow> V2_VALUE_DISP (h_target_disp h) f s;
     receiver \<leftarrow> rd_reg (h_receiver_disp h) f s;
     with_table receiver (\<lambda>table h f s. do {
       key \<leftarrow> rd_reg (h_key_disp h) f s;
       s \<leftarrow> v2_learn_key_tag (h_occ_slot h) (tag key) s;
       if tag key = LUA55_VALUE_INTEGER then do {
         cell \<leftarrow> v2_array_slot table (payload key) s;
         load_cell target cell h f s}
       else if v2_is_string_tag (tag key) then do {
         (cell, s) \<leftarrow> v2_find_field table (payload key) False s;
         load_cell target cell h f s}
       else reject_exit LUA55_V2_REJECT_UNSUPPORTED_METAMETHOD h f s}) h f s}"

definition lua55_v2_self :: stencil where
  "lua55_v2_self h f s = do {
     target \<leftarrow> V2_VALUE_DISP (h_target_disp h) f s;
     object \<leftarrow> V2_VALUE_DISP (h_object_disp h) f s;
     receiver \<leftarrow> rd_reg (h_receiver_disp h) f s;
     with_table receiver (\<lambda>table h f s. do {
       s \<leftarrow> wr_val object receiver s;
       load_field target table h f s}) h f s}"

subsection \<open>Writes\<close>

definition store_cell :: "u64 \<Rightarrow> u64 \<Rightarrow> lua_value \<Rightarrow> stencil" where
  "store_cell table cell v h f s = do {
     s \<leftarrow> v2_table_set table cell v s;
     LUA55_RESIDUAL_NEXT f s}"

definition V2_VALUE_CONST_CELL :: "holes \<Rightarrow> lua_value" where
  "V2_VALUE_CONST_CELL h = mk_value (h_const_tag h)
     (if h_const_tag h = LUA55_VALUE_INTEGER then h_const_int h
      else if h_const_tag h = LUA55_VALUE_FLOAT then h_const_flt h
      else h_const_ref h)"

text \<open>
  The array write of \<open>SETI\<close>: a key outside the array part grows it, and is refused when it is
  below 1 or the heap is full. The value is read by \<open>rv\<close> after the growth, as the store does.
\<close>

definition seti_body :: "(holes \<Rightarrow> u64 \<Rightarrow> v2_state \<Rightarrow> lua_value option) \<Rightarrow> u64 \<Rightarrow> stencil" where
  "seti_body rv table h f s = do {
     let key = ucast (h_int_key h);
     s \<leftarrow> v2_learn_write_site table True key s;
     cell \<leftarrow> v2_array_slot table key s;
     if cell \<noteq> 0 then do {v \<leftarrow> rv h f s; store_cell table cell v h f s}
     else if 1 \<le>s key then do {
       (ok, s) \<leftarrow> v2_grow_array table key s;
       if ok then do {
         cell \<leftarrow> v2_array_slot table key s;
         v \<leftarrow> rv h f s;
         store_cell table cell v h f s}
       else reject_exit LUA55_V2_REJECT_INVALID_OBJECT h f s}
     else reject_exit LUA55_V2_REJECT_INVALID_OBJECT h f s}"

text \<open>The field write of \<open>SETFIELD\<close> and \<open>SETTABUP\<close>.\<close>

definition setfield_body :: "(holes \<Rightarrow> u64 \<Rightarrow> v2_state \<Rightarrow> lua_value option) \<Rightarrow> u64 \<Rightarrow> stencil" where
  "setfield_body rv table h f s = do {
     (cell, s) \<leftarrow> v2_find_field table (h_key_ref h) True s;
     if cell = 0 then reject_exit LUA55_V2_REJECT_INVALID_OBJECT h f s
     else do {
       s \<leftarrow> v2_learn_field_location (h_occ_slot h) table cell s;
       tb \<leftarrow> tables s table;
       s \<leftarrow> v2_learn_write_site table False (ucast (field_capacity tb)) s;
       v \<leftarrow> rv h f s;
       store_cell table cell v h f s}}"

text \<open>The write of \<open>SETTABLE\<close>, by the tag of the key.\<close>

definition settable_body :: "(holes \<Rightarrow> u64 \<Rightarrow> v2_state \<Rightarrow> lua_value option) \<Rightarrow> u64 \<Rightarrow> stencil" where
  "settable_body rv table h f s = do {
     key \<leftarrow> rd_reg (h_key_disp h) f s;
     s \<leftarrow> v2_learn_key_tag (h_occ_slot h) (tag key) s;
     if tag key = LUA55_VALUE_INTEGER then do {
       let k = payload key;
       cell \<leftarrow> v2_array_slot table k s;
       (cell, s) \<leftarrow> (if cell = 0 \<and> 1 \<le>s k then do {
           (ok, s) \<leftarrow> v2_grow_array table k s;
           if ok then do {cell \<leftarrow> v2_array_slot table k s; Some (cell, s)} else Some (0, s)}
         else Some (cell, s));
       s \<leftarrow> v2_learn_write_site table True k s;
       if cell = 0 then reject_exit LUA55_V2_REJECT_INVALID_OBJECT h f s
       else do {v \<leftarrow> rv h f s; store_cell table cell v h f s}}
     else if v2_is_string_tag (tag key) then do {
       (cell, s) \<leftarrow> v2_find_field table (payload key) True s;
       tb \<leftarrow> tables s table;
       s \<leftarrow> v2_learn_write_site table False (ucast (field_capacity tb)) s;
       if cell = 0 then reject_exit LUA55_V2_REJECT_INVALID_OBJECT h f s
       else do {v \<leftarrow> rv h f s; store_cell table cell v h f s}}
     else reject_exit LUA55_V2_REJECT_UNSUPPORTED_METAMETHOD h f s}"

definition V2_TABLE_WRITE :: "(u64 \<Rightarrow> stencil) \<Rightarrow> stencil" where
  "V2_TABLE_WRITE k h f s = do {
     receiver \<leftarrow> rd_reg (h_receiver_disp h) f s;
     with_table receiver k h f s}"

abbreviation reg_source :: "holes \<Rightarrow> u64 \<Rightarrow> v2_state \<Rightarrow> lua_value option" where
  "reg_source h \<equiv> rd_reg (h_source_disp h)"

abbreviation const_source :: "holes \<Rightarrow> u64 \<Rightarrow> v2_state \<Rightarrow> lua_value option" where
  "const_source h f s \<equiv> Some (V2_VALUE_CONST_CELL h)"

definition lua55_v2l_seti :: stencil where
  "lua55_v2l_seti = V2_TABLE_WRITE (seti_body reg_source)"

definition lua55_v2l_seti_const :: stencil where
  "lua55_v2l_seti_const = V2_TABLE_WRITE (seti_body const_source)"

definition lua55_v2l_setfield :: stencil where
  "lua55_v2l_setfield = V2_TABLE_WRITE (setfield_body reg_source)"

definition lua55_v2l_setfield_const :: stencil where
  "lua55_v2l_setfield_const = V2_TABLE_WRITE (setfield_body const_source)"

definition lua55_v2l_settable :: stencil where
  "lua55_v2l_settable = V2_TABLE_WRITE (settable_body reg_source)"

definition lua55_v2l_settable_const :: stencil where
  "lua55_v2l_settable_const = V2_TABLE_WRITE (settable_body const_source)"

definition lua55_v2_settabup :: stencil where
  "lua55_v2_settabup h f s = do {
     upv \<leftarrow> rd_upval_at (h_upvalue h) f s;
     with_table upv (\<lambda>table h f s. do {
       src \<leftarrow> V2_VALUE (h_source h) f s;
       (cell, s) \<leftarrow> v2_find_field table (h_key_ref h) True s;
       if cell = 0 then reject_exit LUA55_V2_REJECT_INVALID_OBJECT h f s
       else do {v \<leftarrow> rd_val src s; store_cell table cell v h f s}}) h f s}"

definition lua55_v2l_settabup :: stencil where
  "lua55_v2l_settabup h f s = do {
     upv \<leftarrow> rd_upval_at (h_upvalue h) f s;
     with_table upv (setfield_body reg_source) h f s}"

definition lua55_v2l_settabup_const :: stencil where
  "lua55_v2l_settabup_const h f s = do {
     upv \<leftarrow> rd_upval_at (h_upvalue h) f s;
     with_table upv (setfield_body const_source) h f s}"

subsection \<open>Construction\<close>

definition lua55_v2l_newtable :: stencil where
  "lua55_v2l_newtable h f s = do {
     target \<leftarrow> V2_VALUE_DISP (h_target_disp h) f s;
     (table, s) \<leftarrow> v2_new_table (h_array_cap h) (h_field_cap h) s;
     if table = 0 then overflow_exit LUA55_V2_OUTCOME_HEAP_OVERFLOW 0 0 h f s
     else do {
       s \<leftarrow> upd_table table (\<lambda>tb. tb\<lparr>site_id := h_site_id h\<rparr>) s;
       s \<leftarrow> wr_ref target LUA55_VALUE_TABLE table s;
       LUA55_RESIDUAL_NEXT f s}}"

definition lua55_v2r_newtable :: stencil where
  "lua55_v2r_newtable h f s = do {
     target \<leftarrow> V2_VALUE_DISP (h_target_disp h) f s;
     (table, s) \<leftarrow> v2_new_table (h_array_cap h) (h_field_cap h) s;
     if table = 0 then overflow_exit LUA55_V2_OUTCOME_HEAP_OVERFLOW 0 0 h f s
     else do {
       s \<leftarrow> wr_ref target LUA55_VALUE_TABLE table s;
       LUA55_RESIDUAL_NEXT f s}}"

text \<open>
  \<open>for (i = 1; i <= count; i++) v2_table_set(table, &table->array_values[key_base + i - 1],
  &frame->values[base_reg + i])\<close>: the \<open>n\<close> iterations from \<open>i\<close> on. With \<open>count = UINT32_MAX\<close> the
  counter wraps before it exceeds the bound, and the loop does not end.
\<close>

primrec setlist_loop :: "u64 \<Rightarrow> u64 \<Rightarrow> u64 \<Rightarrow> u32 \<Rightarrow> u32 \<Rightarrow> nat \<Rightarrow> v2_state \<Rightarrow> v2_state option" where
  "setlist_loop table f key_base base_reg i 0 s = Some s"
| "setlist_loop table f key_base base_reg i (Suc n) s = do {
     fr \<leftarrow> frames s f;
     tb \<leftarrow> tables s table;
     v \<leftarrow> rd_val (slot_addr (frame_values fr) (base_reg + i)) s;
     s \<leftarrow> v2_table_set table (array_values tb + SIZEOF_VALUE * (key_base + ucast i - 1)) v s;
     setlist_loop table f key_base base_reg (i + 1) n s}"

text \<open>The two \<open>SETLIST\<close> stencils differ in what follows the stores.\<close>

definition setlist_body :: "(u64 \<Rightarrow> u64 \<Rightarrow> v2_state \<Rightarrow> v2_state option) \<Rightarrow> stencil" where
  "setlist_body after h f s = do {
     let count = h_setlist_count h;
     let key_base = ucast (h_setlist_key h);
     a \<leftarrow> V2_VALUE (h_setlist_base h) f s;
     receiver \<leftarrow> rd_val a s;
     with_table receiver (\<lambda>table h f s.
       if count = 0 then reject_exit LUA55_V2_REJECT_INVALID_OBJECT h f s
       else do {
         tb \<leftarrow> tables s table;
         let needed = key_base + ucast count;
         (ok, s) \<leftarrow> (if needed > ucast (array_capacity tb) then v2_grow_array table needed s
                    else Some (True, s));
         if \<not> ok then overflow_exit LUA55_V2_OUTCOME_HEAP_OVERFLOW 0 0 h f s
         else do {
           s \<leftarrow> (if count = 0xFFFFFFFF then None
             else setlist_loop table f key_base (h_setlist_base h) 1 (unat count) s);
           s \<leftarrow> after table needed s;
           LUA55_RESIDUAL_NEXT f s}}) h f s}"

definition lua55_v2_setlist :: stencil where
  "lua55_v2_setlist = setlist_body (\<lambda>table needed s. Some s)"

definition lua55_v2l_setlist :: stencil where
  "lua55_v2l_setlist = setlist_body (\<lambda>table needed s. v2_learn_write_site table True needed s)"

end
