(* ===== verification/Table_Map.thy ===== *)
theory Table_Map
  imports Tables
begin

text \<open>
  A guest table as a map. Both parts of a table (fields keyed by string reference, array keyed
  by positive integers) implement the locale \<open>keyed_store\<close>: a store that has room makes exactly
  one key read a new value, and growing moves the storage without changing what any key reads.
  A store fails only where the store is full for its key, and then changes nothing. An absent key
  reads as nil, as the read stencils do.
\<close>

subsection \<open>The interface\<close>

text \<open>Store a list of bindings in order, until one does not fit.\<close>

fun store_all :: "('k \<Rightarrow> 'v \<Rightarrow> 's \<Rightarrow> (bool \<times> 's) option) \<Rightarrow> ('k \<times> 'v) list \<Rightarrow> 's \<Rightarrow> (nat \<times> 's) option" where
  "store_all st [] s = Some (0, s)"
| "store_all st ((k, v) # kvs) s = do {
     (stored, s) \<leftarrow> st k v s;
     if stored then do {(n, s) \<leftarrow> store_all st kvs s; Some (Suc n, s)} else Some (0, s)}"

definition upd_binding :: "'k \<times> 'v \<Rightarrow> ('k \<Rightarrow> 'v) \<Rightarrow> 'k \<Rightarrow> 'v" where
  "upd_binding b m = m(fst b := snd b)"

lemma upd_binding_pair [simp]: "upd_binding (k, v) m = m(k := v)"
  by (simp add: upd_binding_def)

locale keyed_store =
  fixes lookup :: "'s \<Rightarrow> 'k \<Rightarrow> 'v"
    and store :: "'k \<Rightarrow> 'v \<Rightarrow> 's \<Rightarrow> (bool \<times> 's) option"
    and ok :: "'s \<Rightarrow> bool"
    and key :: "'k \<Rightarrow> bool"
    and full :: "'k \<Rightarrow> 's \<Rightarrow> bool"
  assumes store_returns: "ok s \<Longrightarrow> key k \<Longrightarrow> \<exists>b t. store k v s = Some (b, t) \<and> ok t"
    and store_stored: "ok s \<Longrightarrow> key k \<Longrightarrow> store k v s = Some (True, t) \<Longrightarrow> lookup t = (lookup s)(k := v)"
    and store_full: "ok s \<Longrightarrow> key k \<Longrightarrow> store k v s = Some (False, t) \<Longrightarrow> t = s \<and> full k s"
begin

lemma store_all_spec:
  assumes "ok s" and "\<forall>(k, v)\<in>set kvs. key k"
  shows "\<exists>n t. store_all store kvs s = Some (n, t) \<and> n \<le> length kvs \<and> ok t \<and>
    lookup t = fold upd_binding (take n kvs) (lookup s) \<and> (n < length kvs \<longrightarrow> full (fst (kvs ! n)) t)"
  using assms
proof (induction kvs arbitrary: s)
  case (Cons kv kvs)
  obtain k v where kv: "kv = (k, v)" by (cases kv)
  with Cons.prems have k: "key k" and ks: "\<forall>(k, v)\<in>set kvs. key k" by auto
  obtain b t where t: "store k v s = Some (b, t)" "ok t"
    using store_returns [OF Cons.prems(1) k] by blast
  show ?case
  proof (cases b)
    case True
    from Cons.IH [OF t(2) ks] obtain n u where "store_all store kvs t = Some (n, u)" "n \<le> length kvs" "ok u"
        "lookup u = fold upd_binding (take n kvs) (lookup t)" "n < length kvs \<longrightarrow> full (fst (kvs ! n)) u" by blast
    then show ?thesis
      using True t kv store_stored [OF Cons.prems(1) k, of v t] 
      by (intro exI [of _ "Suc n"] exI [of _ u]) simp
  next
    case False
    then show ?thesis
      using t kv store_full [OF Cons.prems(1) k, of v t] by (intro exI [of _ 0] exI [of _ t]) simp
  qed
qed simp

lemma store_all_none:
  assumes "ok s" and "\<forall>(k, v)\<in>set kvs. key k" and "store_all store kvs s = Some (0, t)"
  shows "t = s"
proof (cases kvs)
  case (Cons kv ks)
  obtain k v where kv: "kv = (k, v)" by (cases kv)
  then have "key k" using assms(2) Cons by simp
  moreover have "store k v s = Some (False, t)" using assms(3) Cons kv by (auto simp: bind_eq_Some_conv split: if_splits)
  ultimately show ?thesis using store_full assms(1) by blast
qed (use assms(3) in simp)

lemma store_then_lookup:
  "ok s \<Longrightarrow> key k \<Longrightarrow> store k v s = Some (True, t) \<Longrightarrow> lookup t k = v"
  by (simp add: store_stored)

lemma store_other:
  "ok s \<Longrightarrow> key k \<Longrightarrow> store k v s = Some (b, t) \<Longrightarrow> k' \<noteq> k \<Longrightarrow> lookup t k' = lookup s k'"
  using store_full [of s k v t] by (cases b) (auto simp: store_stored)

end

subsection \<open>Heaps with room for address arithmetic\<close>

text \<open>
  The region of a heap is below \<open>2 ^ 63\<close> and smaller than 64 GiB, so no address computed by
  the growth routines wraps and no capacity reaches \<open>2 ^ 31\<close> fields.
\<close>

definition heap_fine :: "guest_heap \<Rightarrow> bool" where
  "heap_fine hp \<longleftrightarrow> table_region hp \<noteq> 0 \<and> unat (table_region hp) \<le> unat (table_next hp) \<and>
     unat (table_next hp) \<le> unat (table_region_end hp) \<and> unat (table_region_end hp) < 2 ^ 63 \<and>
     unat (table_region_end hp) - unat (table_region hp) < 2 ^ 36"

text \<open>The block \<open>[a, a + n)\<close> lies outside what the allocator may still hand out.\<close>

definition settled :: "guest_heap \<Rightarrow> u64 \<Rightarrow> nat \<Rightarrow> bool" where
  "settled hp a n \<longleftrightarrow> unat a + n \<le> unat (table_next hp) \<or> unat (table_region_end hp) \<le> unat a"

lemma heap_fine_bump:
  assumes "heap_fine hp" and "heap \<noteq> 0" and "heaps s heap = Some hp" and "unat nbytes \<le> 2 ^ 40"
  obtains (full) "v2_heap_bump heap nbytes s = Some (0, s)"
      "unat (table_region_end hp) < unat (table_next hp) + 15 + unat nbytes"
  | (block) at hp' where "at \<noteq> 0"
      "v2_heap_bump heap nbytes s = Some (at, s\<lparr>heaps := (heaps s)(heap \<mapsto> hp')\<rparr>)"
      "hp' = hp\<lparr>table_next := at + nbytes\<rparr>" "heap_fine hp'" "unat (at + nbytes) = unat at + unat nbytes"
      "unat (table_next hp) \<le> unat at" "unat at + unat nbytes \<le> unat (table_region_end hp)"
proof -
  have "heap_room hp nbytes" using assms(1,4) by (simp add: heap_fine_def heap_room_def)
  from bump_cases [OF assms(2,3) this] obtain at t where
    b: "v2_heap_bump heap nbytes s = Some (at, t)"
      "if at = 0 then t = s \<and> unat (table_region_end hp) < unat (table_next hp) + 15 + unat nbytes
       else 16 dvd unat at \<and> unat (table_next hp) \<le> unat at \<and> unat at < unat (table_next hp) + 16 \<and>
         unat at + unat nbytes \<le> unat (table_region_end hp) \<and>
         t = s\<lparr>heaps := (heaps s)(heap \<mapsto> hp\<lparr>table_next := at + nbytes\<rparr>)\<rparr>" by blast
  show thesis
  proof (cases "at = 0")
    case True
    with b full show thesis by simp
  next
    case False
    with b have le: "unat (table_next hp) \<le> unat at" "unat at + unat nbytes \<le> unat (table_region_end hp)"
      by simp_all
    then have u: "unat (at + nbytes) = unat at + unat nbytes"
      using assms(1) by (intro unat_plus64) (simp add: heap_fine_def)
    have "heap_fine (hp\<lparr>table_next := at + nbytes\<rparr>)"
      using assms(1) le u by (simp add: heap_fine_def)
    with False b le u show thesis by (intro block [of at "hp\<lparr>table_next := at + nbytes\<rparr>"]) simp_all
  qed
qed

subsection \<open>The field vector\<close>

definition fa :: "u64 \<Rightarrow> nat \<Rightarrow> u64" where
  "fa fv i = fv + word_of_nat (32 * i)"

definition holds_key :: "u64 \<Rightarrow> u64 \<Rightarrow> v2_state \<Rightarrow> nat \<Rightarrow> bool" where
  "holds_key fv key s i = (case gfields s (fa fv i) of
     None \<Rightarrow> False | Some fd \<Rightarrow> occupied fd \<noteq> 0 \<and> key_reference fd = key)"

definition vacant_at :: "u64 \<Rightarrow> v2_state \<Rightarrow> nat \<Rightarrow> bool" where
  "vacant_at fv s i = (case gfields s (fa fv i) of None \<Rightarrow> False | Some fd \<Rightarrow> occupied fd = 0)"

text \<open>Storage for \<open>n\<close> fields at \<open>fv\<close>.\<close>

definition fields_mapped :: "u64 \<Rightarrow> nat \<Rightarrow> v2_state \<Rightarrow> bool" where
  "fields_mapped fv n s \<longleftrightarrow> fv \<noteq> 0 \<and> n < 2 ^ 32 \<and> unat fv + 32 * n < 2 ^ 64 \<and>
     (\<forall>i<n. gfields s (fa fv i) \<noteq> None \<and> vals s (fa fv i + OFFSET_FIELD_VALUE) \<noteq> None)"

lemma field_addr_fa: "i < 2 ^ 32 \<Longrightarrow> field_addr fv (word_of_nat i) = fa fv i"
  by (simp add: field_addr_def fa_def unsigned_of_nat take_bit_nat_eq_self)

lemma unat_fa: "unat fv + 32 * i < 2 ^ 64 \<Longrightarrow> unat (fa fv i) = unat fv + 32 * i"
  unfolding fa_def using unat_of_nat64 [of "32 * i"] unat_plus64 [of fv "word_of_nat (32 * i)"]
  by (simp del: of_nat_mult)

lemma unat_fa_value:
  "unat fv + 32 * i + 8 < 2 ^ 64 \<Longrightarrow> unat (fa fv i + OFFSET_FIELD_VALUE) = unat fv + 32 * i + 8"
  by (subst unat_plus64) (simp_all add: unat_fa)

lemma fa_nonzero: "fv \<noteq> 0 \<Longrightarrow> unat fv + 32 * i < 2 ^ 64 \<Longrightarrow> fa fv i \<noteq> 0"
  using unat_fa [of fv i] by (metis add_is_0 unat_0 unat_eq_zero)

lemma fa_inj: "unat fv + 32 * i < 2 ^ 64 \<Longrightarrow> unat fv + 32 * j < 2 ^ 64 \<Longrightarrow> fa fv i = fa fv j \<longleftrightarrow> i = j"
  by (metis unat_fa add_left_cancel mult_cancel1 zero_neq_numeral)

text \<open>
  A pass over the vector: the first field that holds the key, or the vacancy that was passed
  on, or the first vacant field.
\<close>

lemma scan_fields_spec:
  assumes "fields_mapped fv N s" and "i + n = N"
  shows "\<exists>found vac. scan_fields fv key (word_of_nat i) n vacant s = Some (found, vac) \<and>
    (case find (holds_key fv key s) [i..<N] of
       Some j \<Rightarrow> found = fa fv j
     | None \<Rightarrow> found = 0 \<and> vac = (if vacant \<noteq> 0 then vacant
         else case find (vacant_at fv s) [i..<N] of None \<Rightarrow> 0 | Some j \<Rightarrow> fa fv j))"
  using assms(2)
proof (induction n arbitrary: i vacant)
  case (Suc n)
  then have i: "i < N" "i < 2 ^ 32" "unat fv + 32 * i < 2 ^ 64" "fv \<noteq> 0"
    using assms(1) by (auto simp: fields_mapped_def)
  with assms(1) obtain fd where fd: "gfields s (fa fv i) = Some fd" by (auto simp: fields_mapped_def)
  have a: "field_addr fv (word_of_nat i) = fa fv i" using i(2) by (rule field_addr_fa)
  have upt: "[i..<N] = i # [Suc i..<N]" using i(1) by (rule upt_conv_Cons)
  have w: "word_of_nat i + 1 = (word_of_nat (Suc i) :: u32)" by simp
  have nz: "fa fv i \<noteq> 0" using i(3,4) by (intro fa_nonzero)
  show ?case
  proof (cases "holds_key fv key s i")
    case True
    then show ?thesis using a fd upt by (simp add: holds_key_def)
  next
    case False
    let ?v = "if occupied fd = 0 \<and> vacant = 0 then fa fv i else vacant"
    have e: "scan_fields fv key (word_of_nat i) (Suc n) vacant s = scan_fields fv key (word_of_nat (Suc i)) n ?v s"
      using False a fd w by (auto simp: holds_key_def add.commute)
    have v: "occupied fd = 0 \<longleftrightarrow> vacant_at fv s i" using fd by (simp add: vacant_at_def)
    from Suc.IH [of "Suc i" ?v] Suc.prems obtain found vac where
      r: "scan_fields fv key (word_of_nat (Suc i)) n ?v s = Some (found, vac)"
        "case find (holds_key fv key s) [Suc i..<N] of
           Some j \<Rightarrow> found = fa fv j
         | None \<Rightarrow> found = 0 \<and> vac = (if ?v \<noteq> 0 then ?v
             else case find (vacant_at fv s) [Suc i..<N] of None \<Rightarrow> 0 | Some j \<Rightarrow> fa fv j)" by auto
    show ?thesis
      unfolding e r(1) upt using r(2) False nz v
      by (intro exI [of _ found] exI [of _ vac]) (auto split: option.splits if_splits)
  qed
qed simp

text \<open>Two field vectors that share no field.\<close>

definition vectors_apart :: "u64 \<Rightarrow> u64 \<Rightarrow> nat \<Rightarrow> bool" where
  "vectors_apart dst fv n \<longleftrightarrow> unat dst + 32 * n \<le> unat fv \<or> unat fv + 32 * n \<le> unat dst"

lemma vectors_apart_fa:
  assumes "vectors_apart dst fv N" and "unat dst + 32 * N < 2 ^ 64" and "unat fv + 32 * N < 2 ^ 64"
    and "i < N" and "j < N"
  shows "fa dst i \<noteq> fa fv j"
proof
  assume e: "fa dst i = fa fv j"
  have "unat (fa dst i) = unat dst + 32 * i" "unat (fa fv j) = unat fv + 32 * j"
    using assms by (auto intro!: unat_fa)
  with e assms(1,4,5) show False unfolding vectors_apart_def by auto
qed

lemma copy_fields_spec:
  assumes "unat dst + 32 * N < 2 ^ 64" and "vectors_apart dst fv N"
    and "fields_mapped fv N s" and "i + n = N"
  shows "\<exists>g m. copy_fields dst fv (word_of_nat i) n s = Some (s\<lparr>gfields := g, vals := m\<rparr>) \<and>
    (\<forall>j. i \<le> j \<longrightarrow> j < N \<longrightarrow> g (fa dst j) = gfields s (fa fv j) \<and>
       m (fa dst j + OFFSET_FIELD_VALUE) = vals s (fa fv j + OFFSET_FIELD_VALUE)) \<and>
    (\<forall>a. (\<forall>j<N. i \<le> j \<longrightarrow> a \<noteq> fa dst j) \<longrightarrow> g a = gfields s a \<and> m (a + OFFSET_FIELD_VALUE) = vals s (a + OFFSET_FIELD_VALUE))"
  using assms(3,4)
proof (induction n arbitrary: i s)
  case 0
  show ?case by (rule exI [of _ "gfields s"], rule exI [of _ "vals s"]) (use 0 in auto)
next
  case (Suc n)
  note fm = Suc.prems(1) [unfolded fields_mapped_def]
  have i: "i < N" "i < 2 ^ 32" using Suc.prems(2) fm by auto
  then obtain fd v where v: "gfields s (fa fv i) = Some fd" "vals s (fa fv i + OFFSET_FIELD_VALUE) = Some v"
    using fm by blast
  let ?s = "s\<lparr>gfields := (gfields s)(fa dst i \<mapsto> fd), vals := (vals s)(fa dst i + OFFSET_FIELD_VALUE \<mapsto> v)\<rparr>"
  have "fields_mapped fv N ?s" using Suc.prems(1) by (simp add: fields_mapped_def)
  from Suc.IH [OF this, of "Suc i"] Suc.prems(2) obtain g m where
    gm: "copy_fields dst fv (word_of_nat (Suc i)) n ?s = Some (?s\<lparr>gfields := g, vals := m\<rparr>)"
      "\<And>j. Suc i \<le> j \<Longrightarrow> j < N \<Longrightarrow> g (fa dst j) = gfields ?s (fa fv j) \<and>
         m (fa dst j + OFFSET_FIELD_VALUE) = vals ?s (fa fv j + OFFSET_FIELD_VALUE)"
      "\<And>a. (\<forall>j<N. Suc i \<le> j \<longrightarrow> a \<noteq> fa dst j) \<Longrightarrow>
         g a = gfields ?s a \<and> m (a + OFFSET_FIELD_VALUE) = vals ?s (a + OFFSET_FIELD_VALUE)" by auto
  have run: "copy_fields dst fv (word_of_nat i) (Suc n) s = Some (s\<lparr>gfields := g, vals := m\<rparr>)"
    using v gm(1) i(2) by (simp add: field_addr_fa add.commute)
  have ap: "fa dst i \<noteq> fa fv j" if "j < N" for j
    using vectors_apart_fa [OF assms(2,1)] fm i(1) that by blast
  have inj: "fa dst i \<noteq> fa dst j" if "Suc i \<le> j" "j < N" for j
    using fa_inj [of dst i j] assms(1) that i(1) by auto
  have own: "g (fa dst i) = Some fd \<and> m (fa dst i + OFFSET_FIELD_VALUE) = Some v"
    using gm(3) [of "fa dst i"] inj by auto
  have "g (fa dst j) = gfields s (fa fv j) \<and> m (fa dst j + OFFSET_FIELD_VALUE) = vals s (fa fv j + OFFSET_FIELD_VALUE)"
    if "i \<le> j" "j < N" for j
    using that own v gm(2) [of j] ap [of j] by (cases "i = j") auto
  moreover have "g a = gfields s a \<and> m (a + OFFSET_FIELD_VALUE) = vals s (a + OFFSET_FIELD_VALUE)"
    if "\<forall>j<N. i \<le> j \<longrightarrow> a \<noteq> fa dst j" for a
    using that gm(3) [of a] i(1) by auto
  ultimately show ?case using run by blast
qed

lemma blank_fields_spec:
  assumes "unat dst + 32 * N < 2 ^ 64" and "N < 2 ^ 32" and "i + n = N"
  shows "\<exists>g m. blank_fields dst (word_of_nat i) n s = s\<lparr>gfields := g, vals := m\<rparr> \<and>
    (\<forall>j. i \<le> j \<longrightarrow> j < N \<longrightarrow> g (fa dst j) = Some \<lparr>key_reference = 0, occupied = 0, field_reserved = 0\<rparr> \<and>
       m (fa dst j + OFFSET_FIELD_VALUE) = Some (mk_value 0 0)) \<and>
    (\<forall>a. (\<forall>j<N. i \<le> j \<longrightarrow> a \<noteq> fa dst j) \<longrightarrow> g a = gfields s a \<and> m (a + OFFSET_FIELD_VALUE) = vals s (a + OFFSET_FIELD_VALUE))"
  using assms(3)
proof (induction n arbitrary: i s)
  case 0
  show ?case by (rule exI [of _ "gfields s"], rule exI [of _ "vals s"]) (use 0 in auto)
next
  case (Suc n)
  have i: "i < N" "i < 2 ^ 32" using Suc.prems assms(2) by auto
  let ?fd = "\<lparr>key_reference = 0, occupied = 0, field_reserved = 0\<rparr>"
  let ?s = "s\<lparr>gfields := (gfields s)(fa dst i \<mapsto> ?fd), vals := (vals s)(fa dst i + OFFSET_FIELD_VALUE \<mapsto> mk_value 0 0)\<rparr>"
  from Suc.IH [of "Suc i" ?s] Suc.prems obtain g m where
    gm: "blank_fields dst (word_of_nat (Suc i)) n ?s = ?s\<lparr>gfields := g, vals := m\<rparr>"
      "\<And>j. Suc i \<le> j \<Longrightarrow> j < N \<Longrightarrow> g (fa dst j) = Some ?fd \<and> m (fa dst j + OFFSET_FIELD_VALUE) = Some (mk_value 0 0)"
      "\<And>a. (\<forall>j<N. Suc i \<le> j \<longrightarrow> a \<noteq> fa dst j) \<Longrightarrow>
         g a = gfields ?s a \<and> m (a + OFFSET_FIELD_VALUE) = vals ?s (a + OFFSET_FIELD_VALUE)" by auto
  have run: "blank_fields dst (word_of_nat i) (Suc n) s = s\<lparr>gfields := g, vals := m\<rparr>"
    using gm(1) i(2) by (simp add: field_addr_fa add.commute)
  have inj: "fa dst i \<noteq> fa dst j" if "Suc i \<le> j" "j < N" for j
    using fa_inj [of dst i j] assms(1) that i(1) by auto
  have own: "g (fa dst i) = Some ?fd \<and> m (fa dst i + OFFSET_FIELD_VALUE) = Some (mk_value 0 0)"
    using gm(3) [of "fa dst i"] inj by auto
  have "g (fa dst j) = Some ?fd \<and> m (fa dst j + OFFSET_FIELD_VALUE) = Some (mk_value 0 0)"
    if "i \<le> j" "j < N" for j
    using that own gm(2) [of j] by (cases "i = j") auto
  moreover have "g a = gfields s a \<and> m (a + OFFSET_FIELD_VALUE) = vals s (a + OFFSET_FIELD_VALUE)"
    if "\<forall>j<N. i \<le> j \<longrightarrow> a \<noteq> fa dst j" for a
    using that gm(3) [of a] i(1) by auto
  ultimately show ?case using run by blast
qed

subsection \<open>Lookup and creation\<close>

definition fields_ok :: "u64 \<Rightarrow> v2_state \<Rightarrow> bool" where
  "fields_ok table s \<longleftrightarrow> (\<exists>tb hp. tables s table = Some tb \<and> table_heap tb \<noteq> 0 \<and>
     heaps s (table_heap tb) = Some hp \<and> heap_fine hp \<and> unat (field_capacity tb) < 2 ^ 31 \<and>
     fields_mapped (field_values tb) (unat (field_capacity tb)) s \<and>
     settled hp (field_values tb) (32 * unat (field_capacity tb)))"

text \<open>The address of the value of a key, 0 when the key is absent.\<close>

definition field_cell :: "u64 \<Rightarrow> u64 \<Rightarrow> v2_state \<Rightarrow> u64" where
  "field_cell table key s = (case tables s table of
     None \<Rightarrow> 0
   | Some tb \<Rightarrow> (case find (holds_key (field_values tb) key s) [0..<unat (field_capacity tb)] of
       None \<Rightarrow> 0 | Some i \<Rightarrow> fa (field_values tb) i + OFFSET_FIELD_VALUE))"

definition field_map :: "u64 \<Rightarrow> v2_state \<Rightarrow> u64 \<Rightarrow> lua_value" where
  "field_map table s key = (if field_cell table key s = 0 then mk_value LUA55_VALUE_NIL 0
     else case vals s (field_cell table key s) of None \<Rightarrow> mk_value LUA55_VALUE_NIL 0 | Some v \<Rightarrow> v)"

lemma find_upt: "find P [0..<n] = Some i \<longleftrightarrow> i < n \<and> P i \<and> (\<forall>j<i. \<not> P j)"
  by (auto simp: find_Some_iff nth_upt intro: exI [of _ i])

lemma find_upt_None: "find P [0..<n] = None \<longleftrightarrow> (\<forall>i<n. \<not> P i)"
  by (auto simp: find_None_iff)

lemma value_cell:
  assumes "fields_mapped fv n s" and "i < n"
  shows "fa fv i + OFFSET_FIELD_VALUE \<noteq> 0" "unat (fa fv i + OFFSET_FIELD_VALUE) = unat fv + 32 * i + 8"
    "fa fv i \<noteq> 0" "unat fv + 32 * i < 2 ^ 64"
    "vals s (fa fv i + OFFSET_FIELD_VALUE) \<noteq> None" "gfields s (fa fv i) \<noteq> None"
proof -
  note fm = assms(1) [unfolded fields_mapped_def]
  have "unat fv + 32 * i + 8 < 2 ^ 64" using fm assms(2) by auto
  then show u: "unat (fa fv i + OFFSET_FIELD_VALUE) = unat fv + 32 * i + 8" by (rule unat_fa_value)
  show "fa fv i + OFFSET_FIELD_VALUE \<noteq> 0" using u by (metis add_is_0 unat_0 zero_neq_numeral)
  show b: "unat fv + 32 * i < 2 ^ 64" using \<open>unat fv + 32 * i + 8 < 2 ^ 64\<close> by simp
  show "fa fv i \<noteq> 0" using fm b by (intro fa_nonzero) auto
  show "vals s (fa fv i + OFFSET_FIELD_VALUE) \<noteq> None" "gfields s (fa fv i) \<noteq> None" using fm assms(2) by auto
qed

lemma find_field_cases:
  assumes "tables s table = Some tb" and "fields_mapped (field_values tb) (unat (field_capacity tb)) s"
  shows "v2_find_field table key create s =
    (if field_cell table key s \<noteq> 0 then Some (field_cell table key s, s)
     else if \<not> create then Some (0, s)
     else case find (vacant_at (field_values tb) s) [0..<unat (field_capacity tb)] of
       Some j \<Rightarrow> do {
         s \<leftarrow> claim_field table (fa (field_values tb) j) key s;
         Some (fa (field_values tb) j + OFFSET_FIELD_VALUE, s)}
     | None \<Rightarrow> do {
         (ok, s) \<leftarrow> grow_fields table s;
         if ok then v2_find_field table key create s else Some (0, s)})"
proof -
  let ?fv = "field_values tb" and ?n = "unat (field_capacity tb)"
  from scan_fields_spec [OF assms(2), of 0 ?n key 0] obtain found vac where
    sc: "scan_fields ?fv key 0 ?n 0 s = Some (found, vac)"
      "case find (holds_key ?fv key s) [0..<?n] of
       Some j \<Rightarrow> found = fa ?fv j
     | None \<Rightarrow> found = 0 \<and> vac = (case find (vacant_at ?fv s) [0..<?n] of None \<Rightarrow> 0 | Some j \<Rightarrow> fa ?fv j)"
    by (auto split: option.splits)
  show ?thesis
  proof (cases "find (holds_key ?fv key s) [0..<?n]")
    case (Some i)
    then have i: "i < ?n" by (simp add: find_upt)
    show ?thesis
      using sc Some value_cell [OF assms(2) i] assms(1)
      by (subst v2_find_field.simps) (simp add: field_cell_def)
  next
    case None
    show ?thesis
    proof (cases "find (vacant_at ?fv s) [0..<?n]")
      case (Some j)
      then have "fa ?fv j \<noteq> 0" using value_cell(3) [OF assms(2)] by (simp add: find_upt)
      then show ?thesis
        using sc assms(1) None Some by (subst v2_find_field.simps) (simp add: field_cell_def)
    qed (use sc assms(1) None in \<open>subst v2_find_field.simps, simp add: field_cell_def\<close>)
  qed
qed

text \<open>What a field search that may create leaves alone.\<close>

definition field_frame :: "u64 \<Rightarrow> guest_heap \<Rightarrow> v2_state \<Rightarrow> v2_state \<Rightarrow> u64 set \<Rightarrow> bool" where
  "field_frame table hp s t W \<longleftrightarrow> inv t = inv s \<and> frames t = frames s \<and> headers t = headers s \<and>
     slots t = slots s \<and> cells t = cells s \<and> closures t = closures s \<and> strings t = strings s \<and>
     bytes t = bytes s \<and> ptrs t = ptrs s \<and> tops t = tops s \<and>
     (\<forall>o'. o' \<noteq> table \<longrightarrow> tables t o' = tables s o') \<and>
     (\<forall>a. settled hp a 1 \<longrightarrow> a \<notin> W \<longrightarrow> vals t a = vals s a)"

text \<open>An address that no field operation on the table writes: not a field value, not free memory.\<close>

definition off_fields :: "u64 \<Rightarrow> v2_state \<Rightarrow> u64 \<Rightarrow> bool" where
  "off_fields table s a \<longleftrightarrow> (\<exists>tb hp. tables s table = Some tb \<and> heaps s (table_heap tb) = Some hp \<and>
     settled hp a 1 \<and> (\<forall>i<unat (field_capacity tb). a \<noteq> fa (field_values tb) i + OFFSET_FIELD_VALUE))"

text \<open>
  Growing the fields: the old fields are read at the same indices of the new vector, the rest
  of the new vector is vacant. First the new vector on its own.
\<close>

lemma copy_blank_fields:
  assumes at64: "unat at + 32 * N < 2 ^ 64" and N: "n \<le> N" "N < 2 ^ 32"
    and apart: "vectors_apart at fv n" and src: "fields_mapped fv n s"
  obtains g m where "copy_fields at fv 0 n s \<bind> (\<lambda>s. Some (blank_fields at (word_of_nat n) (N - n) s)) = Some (s\<lparr>gfields := g, vals := m\<rparr>)"
    "\<And>j. j < n \<Longrightarrow> g (fa at j) = gfields s (fa fv j) \<and> m (fa at j + OFFSET_FIELD_VALUE) = vals s (fa fv j + OFFSET_FIELD_VALUE)"
    "\<And>j. n \<le> j \<Longrightarrow> j < N \<Longrightarrow> g (fa at j) = Some \<lparr>key_reference = 0, occupied = 0, field_reserved = 0\<rparr>"
    "\<And>j. j < N \<Longrightarrow> g (fa at j) \<noteq> None \<and> m (fa at j + OFFSET_FIELD_VALUE) \<noteq> None"
    "\<And>a. (\<forall>j<N. a \<noteq> fa at j + OFFSET_FIELD_VALUE) \<Longrightarrow> m a = vals s a"
proof -
  from copy_fields_spec [OF _ apart src, of 0 n] at64 N(1) obtain g m where
    c: "copy_fields at fv 0 n s = Some (s\<lparr>gfields := g, vals := m\<rparr>)"
      "\<And>j. j < n \<Longrightarrow> g (fa at j) = gfields s (fa fv j) \<and> m (fa at j + OFFSET_FIELD_VALUE) = vals s (fa fv j + OFFSET_FIELD_VALUE)"
      "\<And>a. (\<forall>j<n. a \<noteq> fa at j) \<Longrightarrow> g a = gfields s a \<and> m (a + OFFSET_FIELD_VALUE) = vals s (a + OFFSET_FIELD_VALUE)"
    by auto
  from blank_fields_spec [OF at64 N(2), of n "N - n" "s\<lparr>gfields := g, vals := m\<rparr>"] N(1) obtain g' m' where
    d: "blank_fields at (word_of_nat n) (N - n) (s\<lparr>gfields := g, vals := m\<rparr>) = s\<lparr>gfields := g', vals := m'\<rparr>"
      "\<And>j. n \<le> j \<Longrightarrow> j < N \<Longrightarrow> g' (fa at j) = Some \<lparr>key_reference = 0, occupied = 0, field_reserved = 0\<rparr> \<and>
         m' (fa at j + OFFSET_FIELD_VALUE) = Some (mk_value 0 0)"
      "\<And>a. (\<forall>j<N. n \<le> j \<longrightarrow> a \<noteq> fa at j) \<Longrightarrow> g' a = g a \<and> m' (a + OFFSET_FIELD_VALUE) = m (a + OFFSET_FIELD_VALUE)"
    by auto
  have old: "g' (fa at j) = gfields s (fa fv j) \<and>
      m' (fa at j + OFFSET_FIELD_VALUE) = vals s (fa fv j + OFFSET_FIELD_VALUE)" if "j < n" for j
  proof -
    have "\<forall>i<N. n \<le> i \<longrightarrow> fa at j \<noteq> fa at i" using fa_inj [of at] at64 N(1) that by auto
    from d(3) [OF this] c(2) [OF that] show ?thesis by simp
  qed
  have "g' (fa at j) \<noteq> None \<and> m' (fa at j + OFFSET_FIELD_VALUE) \<noteq> None" if "j < N" for j
    using old [of j] d(2) [of j] value_cell(5,6) [OF src, of j] that by (cases "j < n") auto
  moreover have "m' a = vals s a" if "\<forall>j<N. a \<noteq> fa at j + OFFSET_FIELD_VALUE" for a
  proof -
    from that have "a - 8 \<noteq> fa at j" if "j < N" for j using that by (metis diff_add_cancel)
    then show ?thesis using d(3) [of "a - 8"] c(3) [of "a - 8"] N(1) by simp
  qed
  ultimately show thesis using that [of m' g'] c(1) d(1,2) old by simp
qed

lemma doubled_fields:
  assumes "unat c < 2 ^ 31" and "new = (if c > 0 then c else 1) * (2 :: u32)"
  shows "unat new = 2 * max 1 (unat c)" "unat (SIZEOF_FIELD * ucast new :: u64) = 64 * max 1 (unat c)"
proof -
  show new: "unat new = 2 * max 1 (unat c)"
  proof (cases "c > 0")
    case True
    then have "unat c > 0" by (simp add: unat_gt_0 word_gt_0)
    with True assms show ?thesis by (simp add: unat_word_ariths)
  next
    case False
    then have "unat c = 0" by (simp add: word_gt_0)
    with False assms(2) show ?thesis by simp
  qed
  show "unat (SIZEOF_FIELD * ucast new :: u64) = 64 * max 1 (unat c)"
    using new assms(1) by (simp add: unat_word_ariths unsigned_ucast_eq)
qed

lemma grow_fields_spec:
  assumes ok: "fields_ok table s" and tb: "tables s table = Some tb" and hp: "heaps s (table_heap tb) = Some hp"
  defines "n \<equiv> unat (field_capacity tb)"
  obtains (full) "grow_fields table s = Some (False, s)"
      "unat (table_region_end hp) < unat (table_next hp) + 15 + 64 * max 1 n"
  | (grown) t tb' where "grow_fields table s = Some (True, t)" "tables t table = Some tb'" "fields_ok table t"
      "field_frame table hp s t {}" "unat (field_capacity tb') = 2 * max 1 n"
      "\<And>j. j < n \<Longrightarrow> gfields t (fa (field_values tb') j) = gfields s (fa (field_values tb) j) \<and>
         vals t (fa (field_values tb') j + OFFSET_FIELD_VALUE) = vals s (fa (field_values tb) j + OFFSET_FIELD_VALUE)"
      "\<And>j. n \<le> j \<Longrightarrow> j < 2 * max 1 n \<Longrightarrow> vacant_at (field_values tb') t j"
      "\<And>a. off_fields table s a \<Longrightarrow> off_fields table t a"
proof -
  let ?fv = "field_values tb" and ?N = "2 * max 1 n" and ?heap = "table_heap tb"
  from ok tb hp have inv: "?heap \<noteq> 0" "heap_fine hp" "n < 2 ^ 31" "fields_mapped ?fv n s" "settled hp ?fv (32 * n)"
    by (auto simp: fields_ok_def n_def)
  define new where "new = (if field_capacity tb > 0 then field_capacity tb else 1) * 2"
  note new = doubled_fields [OF inv(3) [unfolded n_def] new_def, folded n_def]
  have small: "unat (SIZEOF_FIELD * ucast new :: u64) \<le> 2 ^ 40" using new(2) inv(3) by auto
  show thesis
  proof (cases rule: heap_fine_bump [OF inv(2,1) hp small, case_names f b])
    case f
    then have "grow_fields table s = Some (False, s)"
      using tb unfolding grow_fields_def by (simp add: new_def [symmetric])
    with full f(2) new(2) show thesis by simp
  next
    case (b at hp')
    let ?s = "s\<lparr>heaps := (heaps s)(?heap \<mapsto> hp')\<rparr>"
    have at: "unat at + 32 * ?N \<le> unat (table_region_end hp)" using b(7) new(2) by simp
    then have at64: "unat at + 32 * ?N < 2 ^ 64" "32 * ?N < 2 ^ 36"
      using b(6) inv(2) by (auto simp: heap_fine_def)
    have N: "n \<le> ?N" "?N < 2 ^ 32" using inv(3) by auto
    have apart: "vectors_apart at ?fv n"
      using inv(5) b(6) at N(1) unfolding vectors_apart_def settled_def by auto
    have src: "fields_mapped ?fv n ?s" using inv(4) by (simp add: fields_mapped_def)
    obtain g m where
      mv: "copy_fields at ?fv 0 n ?s \<bind> (\<lambda>s. Some (blank_fields at (word_of_nat n) (?N - n) s)) = Some (?s\<lparr>gfields := g, vals := m\<rparr>)"
        "\<And>j. j < n \<Longrightarrow> g (fa at j) = gfields ?s (fa ?fv j) \<and> m (fa at j + OFFSET_FIELD_VALUE) = vals ?s (fa ?fv j + OFFSET_FIELD_VALUE)"
        "\<And>j. n \<le> j \<Longrightarrow> j < ?N \<Longrightarrow> g (fa at j) = Some \<lparr>key_reference = 0, occupied = 0, field_reserved = 0\<rparr>"
        "\<And>j. j < ?N \<Longrightarrow> g (fa at j) \<noteq> None \<and> m (fa at j + OFFSET_FIELD_VALUE) \<noteq> None"
        "\<And>a. (\<forall>j<?N. a \<noteq> fa at j + OFFSET_FIELD_VALUE) \<Longrightarrow> m a = vals ?s a"
      by (rule copy_blank_fields [OF at64(1) N apart src]) (rule that)
    let ?tb = "tb\<lparr>field_values := at, field_capacity := new, storage_generation := storage_generation tb + 1\<rparr>"
    let ?t = "s\<lparr>heaps := (heaps s)(?heap \<mapsto> hp'), gfields := g, vals := m, tables := (tables s)(table \<mapsto> ?tb)\<rparr>"
    have run: "grow_fields table s = Some (True, ?t)"
      using tb b(1,2) mv(1) new(1) unfolding n_def grow_fields_def
      by (auto simp: new_def [symmetric] upd_table_def Let_def bind_eq_Some_conv)
    have mapped: "fields_mapped at ?N ?t" using b(1) N(2) at64 mv(4) by (simp add: fields_mapped_def)
    have "heap_fine hp'" "settled hp' at (32 * ?N)" using b(3,4,5) new(2) by (auto simp: settled_def)
    then have ok': "fields_ok table ?t"
      using mapped new(1) inv(1) at64(2) by (simp add: fields_ok_def)
    have out: "a \<noteq> fa at j + OFFSET_FIELD_VALUE" if "j < ?N" "settled hp a 1" for a j
      using value_cell(2) [OF mapped that(1)] that at b(6) unfolding settled_def by auto
    then have fr: "field_frame table hp s ?t {}" using mv(5) by (simp add: field_frame_def)
    have off: "off_fields table ?t a" if "off_fields table s a" for a
    proof -
      from that tb hp have "settled hp a 1" by (auto simp: off_fields_def)
      then have "settled hp' a 1" using b(3,5,6) by (auto simp: settled_def)
      with out \<open>settled hp a 1\<close> new(1) show ?thesis by (auto simp: off_fields_def)
    qed
    show thesis
      by (rule grown [of ?t ?tb, OF run _ ok' fr]) (use new(1) mv(2,3) off in \<open>simp_all add: vacant_at_def\<close>)
  qed
qed

lemma find_upt_cong:
  assumes "\<And>i. i < n \<Longrightarrow> P i \<longleftrightarrow> Q i" and "\<And>i. n \<le> i \<Longrightarrow> i < N \<Longrightarrow> \<not> P i" and "n \<le> N"
  shows "find P [0..<N] = find Q [0..<n]"
proof (cases "find Q [0..<n]")
  case None
  with assms show ?thesis by (metis find_upt_None not_le)
next
  case (Some i)
  then have "i < n" "Q i" "\<forall>j<i. \<not> Q j" by (auto simp: find_upt)
  with assms have "find P [0..<N] = Some i" by (auto simp: find_upt)
  with Some show ?thesis by simp
qed

lemma vacant_not_held: "vacant_at fv s i \<Longrightarrow> \<not> holds_key fv key s i"
  by (auto simp: vacant_at_def holds_key_def split: option.splits)

text \<open>Growing changes no binding, and makes room for one more.\<close>

lemma grow_fields_map:
  assumes "tables s table = Some tb" and "tables t table = Some tb'"
    and mapped: "fields_mapped (field_values tb) (unat (field_capacity tb)) s"
    and mapped': "fields_mapped (field_values tb') (unat (field_capacity tb')) t"
    and le: "unat (field_capacity tb) \<le> unat (field_capacity tb')"
    and old: "\<And>j. j < unat (field_capacity tb) \<Longrightarrow>
         gfields t (fa (field_values tb') j) = gfields s (fa (field_values tb) j) \<and>
         vals t (fa (field_values tb') j + OFFSET_FIELD_VALUE) = vals s (fa (field_values tb) j + OFFSET_FIELD_VALUE)"
    and new: "\<And>j. unat (field_capacity tb) \<le> j \<Longrightarrow> j < unat (field_capacity tb') \<Longrightarrow> vacant_at (field_values tb') t j"
  shows "field_map table t = field_map table s" and "field_cell table key t = 0 \<longleftrightarrow> field_cell table key s = 0"
proof -
  let ?n = "unat (field_capacity tb)" and ?n' = "unat (field_capacity tb')"
  have f: "find (holds_key (field_values tb') k t) [0..<?n'] = find (holds_key (field_values tb) k s) [0..<?n]" for k
    using old new vacant_not_held le by (intro find_upt_cong) (simp_all add: holds_key_def)
  have c: "(find (holds_key (field_values tb) k s) [0..<?n] = None \<and> field_cell table k t = 0 \<and> field_cell table k s = 0) \<or>
     (field_cell table k t \<noteq> 0 \<and> field_cell table k s \<noteq> 0 \<and> vals t (field_cell table k t) = vals s (field_cell table k s))" for k
  proof (cases "find (holds_key (field_values tb) k s) [0..<?n]")
    case None
    then show ?thesis using f assms(1,2) by (simp add: field_cell_def)
  next
    case (Some i)
    then have "i < ?n" "i < ?n'" using le by (auto simp: find_upt)
    then show ?thesis
      using Some f assms(1,2) old value_cell(1) [OF mapped] value_cell(1) [OF mapped'] by (simp add: field_cell_def)
  qed
  show "field_map table t = field_map table s"
    using c by (intro ext) (metis field_map_def)
  show "field_cell table key t = 0 \<longleftrightarrow> field_cell table key s = 0" using c by blast
qed

text \<open>Claiming the first vacant field binds the key to nil there.\<close>

lemma claim_field_spec:
  assumes ok: "fields_ok table s" and tb: "tables s table = Some tb" and hp: "heaps s (table_heap tb) = Some hp"
    and absent: "field_cell table key s = 0"
    and vac: "find (vacant_at (field_values tb) s) [0..<unat (field_capacity tb)] = Some j"
  shows "\<exists>t. claim_field table (fa (field_values tb) j) key s = Some t \<and> fields_ok table t \<and>
    field_cell table key t = fa (field_values tb) j + OFFSET_FIELD_VALUE \<and> field_map table t = field_map table s \<and>
    vals t = (vals s)(fa (field_values tb) j + OFFSET_FIELD_VALUE \<mapsto> mk_value LUA55_VALUE_NIL 0) \<and>
    (\<forall>a. off_fields table t a \<longleftrightarrow> off_fields table s a) \<and>
    field_frame table hp s t {fa (field_values tb) j + OFFSET_FIELD_VALUE}"
proof -
  let ?fv = "field_values tb" and ?n = "unat (field_capacity tb)"
  let ?c = "fa ?fv j + OFFSET_FIELD_VALUE"
  from ok tb have m: "fields_mapped ?fv ?n s" by (auto simp: fields_ok_def)
  from vac have j: "j < ?n" "vacant_at ?fv s j" by (auto simp: find_upt)
  note vc = value_cell [OF m j(1)]
  from absent tb have none: "\<not> holds_key ?fv key s i" if "i < ?n" for i
    using that value_cell(1) [OF m] by (auto simp: field_cell_def find_upt find_upt_None split: option.splits)
  let ?tb = "tb\<lparr>storage_generation := storage_generation tb + 1\<rparr>"
  let ?t = "s\<lparr>vals := (vals s)(?c \<mapsto> mk_value LUA55_VALUE_NIL 0),
     gfields := (gfields s)(fa ?fv j \<mapsto> \<lparr>key_reference = key, occupied = 1, field_reserved = 0\<rparr>),
     tables := (tables s)(table \<mapsto> ?tb)\<rparr>"
  have run: "claim_field table (fa ?fv j) key s = Some ?t"
    using vc tb by (simp add: claim_field_def upd_table_def wr_val_defined)
  have m': "fields_mapped ?fv ?n ?t" using m by (simp add: fields_mapped_def)
  have ok': "fields_ok table ?t" using ok tb m' by (auto simp: fields_ok_def)
  have same: "fa ?fv i \<noteq> fa ?fv j" if "i < ?n" "i \<noteq> j" for i
    using fa_inj [of ?fv i j] that value_cell(4) [OF m] j(1) by blast
  have h: "holds_key ?fv k ?t i \<longleftrightarrow> (if i = j then k = key else holds_key ?fv k s i)" if "i < ?n" for k i
    using same [OF that] by (auto simp: holds_key_def)
  have "find (holds_key ?fv key ?t) [0..<?n] = Some j"
    using j(1) none h by (auto simp: find_upt)
  then have cell: "field_cell table key ?t = ?c" by (simp add: field_cell_def)
  have other: "field_cell table k ?t = field_cell table k s" if "k \<noteq> key" for k
  proof -
    have "find (holds_key ?fv k ?t) [0..<?n] = find (holds_key ?fv k s) [0..<?n]"
      using h that vacant_not_held [OF j(2)] by (intro find_upt_cong) auto
    then show ?thesis using tb by (simp add: field_cell_def split: option.splits)
  qed
  have "field_map table ?t k = field_map table s k" for k
  proof (cases "k = key")
    case True
    then show ?thesis using cell absent vc(1) by (simp add: field_map_def)
  next
    case False
    have "field_cell table k s \<noteq> ?c"
    proof
      assume e: "field_cell table k s = ?c"
      then obtain i where "i < ?n" "holds_key ?fv k s i" "fa ?fv i = fa ?fv j"
        using tb vc(1) by (auto simp: field_cell_def find_upt split: option.splits)
      with same vacant_not_held [OF j(2)] show False by metis
    qed
    then show ?thesis using other [OF False] by (simp add: field_map_def)
  qed
  moreover have "field_frame table hp s ?t {?c}" by (simp add: field_frame_def)
  moreover have "off_fields table ?t a \<longleftrightarrow> off_fields table s a" for a using tb by (simp add: off_fields_def)
  ultimately show ?thesis using run ok' cell by (intro exI [of _ ?t]) auto
qed

lemma field_cell_mapped:
  assumes "tables s table = Some tb" and "fields_mapped (field_values tb) (unat (field_capacity tb)) s"
    and "field_cell table key s \<noteq> 0"
  shows "vals s (field_cell table key s) \<noteq> None"
proof -
  from assms(1,3) obtain i where "i < unat (field_capacity tb)"
      "field_cell table key s = fa (field_values tb) i + OFFSET_FIELD_VALUE"
    by (auto simp: field_cell_def find_upt split: option.splits)
  with value_cell(5) [OF assms(2)] show ?thesis by metis
qed

lemma find_field_claims:
  assumes ok: "fields_ok table s" and tb: "tables s table = Some tb" and hp: "heaps s (table_heap tb) = Some hp"
    and absent: "field_cell table key s = 0"
    and vac: "find (vacant_at (field_values tb) s) [0..<unat (field_capacity tb)] = Some j"
    and c: "c = fa (field_values tb) j + OFFSET_FIELD_VALUE"
  obtains t where "v2_find_field table key True s = Some (c, t)" "c \<noteq> 0" "fields_ok table t"
      "field_cell table key t = c" "field_map table t = field_map table s" "vals t c = Some (field_map table s key)"
      "field_frame table hp s t {c}" "\<And>a. a \<noteq> c \<Longrightarrow> vals t a = vals s a" "\<And>a. off_fields table s a \<Longrightarrow> a \<noteq> c \<and> off_fields table t a"
proof -
  from ok tb have m: "fields_mapped (field_values tb) (unat (field_capacity tb)) s" by (auto simp: fields_ok_def)
  from claim_field_spec [OF ok tb hp absent vac] obtain t where
    t: "claim_field table (fa (field_values tb) j) key s = Some t" "fields_ok table t"
      "field_cell table key t = c" "field_map table t = field_map table s"
      "vals t = (vals s)(c \<mapsto> mk_value LUA55_VALUE_NIL 0)"
      "\<And>a. off_fields table t a \<longleftrightarrow> off_fields table s a" "field_frame table hp s t {c}"
    unfolding c by blast
  have j: "j < unat (field_capacity tb)" using vac by (simp add: find_upt)
  then have "a \<noteq> c" if "off_fields table s a" for a using that tb c by (auto simp: off_fields_def)
  then show thesis
    using t find_field_cases [OF tb m, of key True] absent vac value_cell(1) [OF m j] c
    by (intro that [of t]) (simp_all add: field_map_def)
qed

lemma find_field_grows:
  assumes ok: "fields_ok table s" and tb: "tables s table = Some tb" and hp: "heaps s (table_heap tb) = Some hp"
    and absent: "field_cell table key s = 0"
    and novac: "find (vacant_at (field_values tb) s) [0..<unat (field_capacity tb)] = None"
  obtains (full) "v2_find_field table key True s = Some (0, s)"
      "unat (table_region_end hp) < unat (table_next hp) + 15 + 64 * max 1 (unat (field_capacity tb))"
  | (grown) t tb' hp' j where "v2_find_field table key True s = v2_find_field table key True t" "fields_ok table t"
      "tables t table = Some tb'" "heaps t (table_heap tb') = Some hp'" "field_cell table key t = 0"
      "find (vacant_at (field_values tb') t) [0..<unat (field_capacity tb')] = Some j"
      "field_map table t = field_map table s" "field_frame table hp s t {}" "\<And>a. off_fields table s a \<Longrightarrow> off_fields table t a"
proof -
  let ?fv = "field_values tb" and ?n = "unat (field_capacity tb)"
  from ok tb have m: "fields_mapped ?fv ?n s" by (auto simp: fields_ok_def)
  note step = find_field_cases [OF tb m, of key True]
  show thesis
  proof (cases rule: grow_fields_spec [OF ok tb hp, case_names f g])
    case f
    then show thesis using that(1) step absent novac by simp
  next
    case (g t tb')
    let ?fv' = "field_values tb'" and ?n' = "unat (field_capacity tb')"
    from g(2,3) obtain hp' where hp': "heaps t (table_heap tb') = Some hp'" "fields_mapped ?fv' ?n' t"
      by (auto simp: fields_ok_def)
    have le: "?n \<le> ?n'" "?n < ?n'" using g(5) by auto
    note gm = grow_fields_map [OF tb g(2) m hp'(2) le(1) g(6) g(7) [folded g(5)]]
    have nv: "\<not> vacant_at ?fv' t i" if "i < ?n" for i
      using novac g(6) [OF that] that by (auto simp: find_upt_None vacant_at_def)
    then have vac: "find (vacant_at ?fv' t) [0..<?n'] = Some ?n"
      using g(7) g(5) le by (auto simp: find_upt)
    have "v2_find_field table key True s = v2_find_field table key True t"
      using step absent novac g(1) by simp
    from that(2) [OF this g(3,2) hp'(1) _ vac gm(1) g(4,8)] gm(2) absent show thesis by simp
  qed
qed

lemma find_field_create:
  assumes ok: "fields_ok table s" and tb: "tables s table = Some tb" and hp: "heaps s (table_heap tb) = Some hp"
  obtains (full) "v2_find_field table key True s = Some (0, s)"
      "unat (table_region_end hp) < unat (table_next hp) + 15 + 64 * max 1 (unat (field_capacity tb))"
  | (cell) c t where "v2_find_field table key True s = Some (c, t)" "c \<noteq> 0" "fields_ok table t"
      "field_cell table key t = c" "field_map table t = field_map table s" "vals t c = Some (field_map table s key)"
      "field_frame table hp s t {c}" "\<And>a. off_fields table s a \<Longrightarrow> a \<noteq> c \<and> off_fields table t a"
proof -
  let ?fv = "field_values tb" and ?n = "unat (field_capacity tb)"
  from ok tb hp have m: "fields_mapped ?fv ?n s" by (auto simp: fields_ok_def)
  show thesis
  proof (cases "field_cell table key s = 0")
    case False
    then obtain i where i: "i < ?n" "field_cell table key s = fa ?fv i + OFFSET_FIELD_VALUE"
      using tb by (auto simp: field_cell_def find_upt split: option.splits)
    have "vals s (field_cell table key s) = Some (field_map table s key)"
      using False field_cell_mapped [OF tb m False] by (auto simp: field_map_def)
    then show thesis
      by (intro cell [of "field_cell table key s" s])
        (use False find_field_cases [OF tb m, of key True] ok i tb in \<open>auto simp: field_frame_def off_fields_def\<close>)
  next
    case absent: True
    show thesis
    proof (cases "find (vacant_at ?fv s) [0..<?n]")
      case (Some j)
      show thesis by (rule find_field_claims [OF ok tb hp absent Some refl]) (rule cell)
    next
      case None
      show thesis
      proof (cases rule: find_field_grows [OF ok tb hp absent None, case_names f g])
        case f
        then show thesis by (rule full)
      next
        case (g t tb' hp' j)
        obtain u where u: "v2_find_field table key True t = Some (fa (field_values tb') j + OFFSET_FIELD_VALUE, u)"
            "fa (field_values tb') j + OFFSET_FIELD_VALUE \<noteq> 0" "fields_ok table u"
            "field_cell table key u = fa (field_values tb') j + OFFSET_FIELD_VALUE" "field_map table u = field_map table t"
            "vals u (fa (field_values tb') j + OFFSET_FIELD_VALUE) = Some (field_map table t key)"
            "field_frame table hp' t u {fa (field_values tb') j + OFFSET_FIELD_VALUE}"
            "\<And>a. a \<noteq> fa (field_values tb') j + OFFSET_FIELD_VALUE \<Longrightarrow> vals u a = vals t a"
            "\<And>a. off_fields table t a \<Longrightarrow> a \<noteq> fa (field_values tb') j + OFFSET_FIELD_VALUE \<and> off_fields table u a"
          by (rule find_field_claims [OF g(2-6) refl]) (rule that)
        have "field_frame table hp s u {fa (field_values tb') j + OFFSET_FIELD_VALUE}"
          using u(7,8) g(8) by (simp add: field_frame_def)
        with u(1-6) g(1,7) u(9) [OF g(9)] show thesis by (intro cell [of _ u]) (simp_all, blast)
      qed
    qed
  qed
qed

subsection \<open>The field part is a keyed store\<close>

text \<open>The field write of the stencils: find or create the field, then set it.\<close>

definition field_store :: "u64 \<Rightarrow> u64 \<Rightarrow> lua_value \<Rightarrow> v2_state \<Rightarrow> (bool \<times> v2_state) option" where
  "field_store table key v s = do {
     (cell, s) \<leftarrow> v2_find_field table key True s;
     if cell = 0 then Some (False, s)
     else do {s \<leftarrow> v2_table_set table cell v s; Some (True, s)}}"

text \<open>A table write changes the cell, and counts a barrier on the table and its heap.\<close>

lemma table_set_spec:
  assumes "tables s table = Some tb" and "heaps s (table_heap tb) = Some hp" and "table_heap tb \<noteq> 0"
    and "vals s c \<noteq> None"
  obtains t b e where "v2_table_set table c v s = Some t" "vals t = (vals s)(c \<mapsto> v)" "gfields t = gfields s"
    "tables t = (tables s)(table \<mapsto> tb\<lparr>barrier_count := b\<rparr>)"
    "heaps t = (heaps s)(table_heap tb \<mapsto> hp\<lparr>barrier_epoch := e\<rparr>)" "field_frame table hp s t {c}"
proof (cases "tag v \<ge> LUA55_VALUE_SHORT_STRING")
  case True
  show thesis
    by (rule that [of "s\<lparr>vals := (vals s)(c \<mapsto> v), tables := (tables s)(table \<mapsto> tb\<lparr>barrier_count := barrier_count tb + 1\<rparr>),
          heaps := (heaps s)(table_heap tb \<mapsto> hp\<lparr>barrier_epoch := barrier_epoch hp + 1\<rparr>)\<rparr>"])
      (use True assms in \<open>auto simp: v2_table_set_def upd_table_def wr_val_defined field_frame_def\<close>)
next
  case False
  show thesis
    by (rule that [of "s\<lparr>vals := (vals s)(c \<mapsto> v)\<rparr>" "barrier_count tb" "barrier_epoch hp"])
      (use False assms in \<open>auto simp: v2_table_set_def wr_val_defined field_frame_def\<close>)
qed

lemma field_frame_trans:
  "field_frame table hp s t W \<Longrightarrow> (\<And>a. a \<notin> W \<Longrightarrow> vals u a = vals t a) \<Longrightarrow> field_frame table hp' t u W \<Longrightarrow>
   field_frame table hp s u W"
  by (simp add: field_frame_def)

text \<open>Setting the cell of a key binds that key and no other.\<close>

lemma field_map_set:
  assumes ok: "fields_ok table s" and c: "field_cell table key s = c" "c \<noteq> 0"
    and tb: "tables s table = Some tb" and t: "vals t = (vals s)(c \<mapsto> v)" "gfields t = gfields s"
      "tables t table = Some (tb\<lparr>barrier_count := b\<rparr>)"
  shows "field_map table t = (field_map table s)(key := v)"
proof -
  let ?fv = "field_values tb" and ?n = "unat (field_capacity tb)"
  from ok tb have m: "fields_mapped ?fv ?n s" by (auto simp: fields_ok_def)
  have cell: "field_cell table k t = field_cell table k s" for k
    using t tb by (simp add: field_cell_def holds_key_def [abs_def] split: option.splits)
  have ne: "field_cell table k s \<noteq> c" if k: "k \<noteq> key" for k
  proof
    assume e: "field_cell table k s = c"
    with c tb obtain i j where ij: "i < ?n" "holds_key ?fv k s i" "j < ?n" "holds_key ?fv key s j"
        "fa ?fv i + OFFSET_FIELD_VALUE = c" "fa ?fv j + OFFSET_FIELD_VALUE = c"
      by (auto simp: field_cell_def find_upt split: option.splits)
    then have "fa ?fv i = fa ?fv j" by (metis add_right_cancel)
    then have "i = j" using fa_inj value_cell(4) [OF m] ij(1,3) by blast
    with ij k show False by (auto simp: holds_key_def split: option.splits)
  qed
  show ?thesis
    using cell ne c t(1) by (intro ext) (simp add: field_map_def)
qed

lemma field_store_spec:
  assumes ok: "fields_ok table s" and tb: "tables s table = Some tb" and hp: "heaps s (table_heap tb) = Some hp"
  obtains (full) "field_store table key v s = Some (False, s)"
      "unat (table_region_end hp) < unat (table_next hp) + 15 + 64 * max 1 (unat (field_capacity tb))"
  | (stored) t c where "field_store table key v s = Some (True, t)" "fields_ok table t"
      "field_map table t = (field_map table s)(key := v)" "field_frame table hp s t {c}" "c = field_cell table key t"
proof (cases rule: find_field_create [OF ok tb hp, of key, case_names f c])
  case f
  then show thesis using full by (simp add: field_store_def)
next
  case (c c t)
  from c(3) obtain tb' hp' where t: "tables t table = Some tb'" "heaps t (table_heap tb') = Some hp'"
      "table_heap tb' \<noteq> 0" by (auto simp: fields_ok_def)
  obtain u b e where u: "v2_table_set table c v t = Some u" "vals u = (vals t)(c \<mapsto> v)" "gfields u = gfields t"
      "tables u = (tables t)(table \<mapsto> tb'\<lparr>barrier_count := b\<rparr>)"
      "heaps u = (heaps t)(table_heap tb' \<mapsto> hp'\<lparr>barrier_epoch := e\<rparr>)" "field_frame table hp' t u {c}"
    using table_set_spec [OF t(1,2,3), of c v] c(6) by (metis option.distinct(1))
  have "field_map table u = (field_map table t)(key := v)"
    using field_map_set [OF c(3,4,2) t(1) u(2,3)] u(4) by simp
  moreover have "fields_ok table u"
    using c(3) t u by (auto simp: fields_ok_def fields_mapped_def heap_fine_def settled_def)
  moreover have "field_frame table hp s u {c}"
    by (rule field_frame_trans [OF c(7) _ u(6)]) (simp add: u(2))
  moreover have "field_cell table key u = c"
    using c(4) t(1) u(3,4) by (simp add: field_cell_def holds_key_def [abs_def] split: option.splits)
  moreover have "field_store table key v s = Some (True, u)"
    using c(1,2) u(1) by (simp add: field_store_def)
  ultimately show thesis using stored c(5) by metis
qed

text \<open>The heap has no room for a larger field vector.\<close>

definition fields_full :: "u64 \<Rightarrow> v2_state \<Rightarrow> bool" where
  "fields_full table s \<longleftrightarrow> (\<exists>tb hp. tables s table = Some tb \<and> heaps s (table_heap tb) = Some hp \<and>
     unat (table_region_end hp) < unat (table_next hp) + 15 + 64 * max 1 (unat (field_capacity tb)))"

interpretation fields: keyed_store "field_map table" "field_store table" "fields_ok table" "\<lambda>_. True" "\<lambda>_. fields_full table" for table
proof
  fix s k v
  assume ok: "fields_ok table s"
  then obtain tb hp where th: "tables s table = Some tb" "heaps s (table_heap tb) = Some hp"
    by (auto simp: fields_ok_def)
  show "\<exists>b t. field_store table k v s = Some (b, t) \<and> fields_ok table t"
    by (cases rule: field_store_spec [OF ok th, of k v]) (use ok in auto)
  show "field_map table t = (field_map table s)(k := v)" if "field_store table k v s = Some (True, t)" for t
    using that by (cases rule: field_store_spec [OF ok th, of k v]) auto
  show "t = s \<and> fields_full table s" if "field_store table k v s = Some (False, t)" for t
    using that by (cases rule: field_store_spec [OF ok th, of k v]) (use th in \<open>auto simp: fields_full_def\<close>)
qed

subsection \<open>The field stencils\<close>

lemma field_view_cong:
  assumes "tables t = tables s" and "gfields t = gfields s" and "vals t = vals s"
  shows "field_cell table key t = field_cell table key s" "field_map table t = field_map table s"
proof -
  have "holds_key fv k t = holds_key fv k s" for fv k using assms(2) by (simp add: holds_key_def [abs_def])
  then show c: "field_cell table key t = field_cell table key s" for key
    using assms(1) by (cases "tables s table") (simp_all add: field_cell_def)
  show "field_map table t = field_map table s" using c assms(3) by (intro ext) (simp add: field_map_def cong: if_cong)
qed

lemma fields_slots [simp]:
  "fields_ok table (s\<lparr>slots := m\<rparr>) = fields_ok table s"
  "field_cell table key (s\<lparr>slots := m\<rparr>) = field_cell table key s"
  "field_map table (s\<lparr>slots := m\<rparr>) = field_map table s"
  "rd_reg d f (s\<lparr>slots := m\<rparr>) = rd_reg d f s"
  by (simp_all add: fields_ok_def fields_mapped_def field_view_cong [of "s\<lparr>slots := m\<rparr>" s] rd_reg_def
      V2_VALUE_DISP_def rd_val_def)

lemma learn_location_total:
  assumes "learning_ok s" and "tables s table = Some tb"
  obtains m where "v2_learn_field_location i table c s = Some (s\<lparr>slots := m\<rparr>)" "learning_ok (s\<lparr>slots := m\<rparr>)"
  using learn_at_cases [OF assms(1), of i "observe_location c tb"] assms(2)
  by (auto simp: v2_learn_field_location_def)

lemma learn_site_total:
  assumes "learning_ok s" and "tables s table = Some tb"
  obtains m where "v2_learn_write_site table b k s = Some (s\<lparr>slots := m\<rparr>)" "learning_ok (s\<lparr>slots := m\<rparr>)"
proof (cases "learning (inv s) = 0 \<or> site_id tb = 0")
  case True
  with assms that [of "slots s"] show thesis by (auto simp: v2_learn_write_site_def)
next
  case False
  with assms(2) learn_at_cases [OF assms(1), of "site_id tb" "observe_site b k"] that show thesis
    by (auto simp: v2_learn_write_site_def)
qed

text \<open>
  C31. \<open>GETFIELD\<close>. On a receiver the runtime accepts, the stencil ends, writes the value bound to
  the key (nil if none) into its target, and changes nothing else but the learning slot.
\<close>

theorem getfield_reads_binding:
  assumes "learning_ok s" and "rd_reg (h_receiver_disp h) f s = Some r"
    and "v2_learn_table r s = Some table" and "table \<noteq> 0" and "fields_ok table s"
    and "V2_VALUE_DISP (h_target_disp h) f s = Some a" and "vals s a \<noteq> None"
  shows "\<exists>m. lua55_v2_getfield h f s =
    Some (Next f, s\<lparr>slots := m, vals := (vals s)(a \<mapsto> field_map table s (h_key_ref h))\<rparr>)"
proof -
  let ?c = "field_cell table (h_key_ref h) s"
  from assms(5) obtain tb where tb: "tables s table = Some tb"
      "fields_mapped (field_values tb) (unat (field_capacity tb)) s" by (auto simp: fields_ok_def)
  have find: "v2_find_field table (h_key_ref h) False s = Some (?c, s)"
    using find_field_cases [OF tb, of "h_key_ref h" False] by simp
  obtain m where m: "v2_learn_field_location (h_occ_slot h) table ?c s = Some (s\<lparr>slots := m\<rparr>)"
    using learn_location_total [OF assms(1) tb(1)] by blast
  have "vals s ?c \<noteq> None" if "?c \<noteq> 0"
    using that by (rule field_cell_mapped [OF tb])
  then have "load_cell a ?c h f (s\<lparr>slots := m\<rparr>) =
      Some (Next f, s\<lparr>slots := m, vals := (vals s)(a \<mapsto> field_map table s (h_key_ref h))\<rparr>)"
    using assms(7) by (auto simp: load_cell_def field_map_def v2_defs)
  then show ?thesis
    using assms(2-4,6) find m by (auto simp: lua55_v2_getfield_def with_table_def load_field_def)
qed

text \<open>
  C20. \<open>SETFIELD\<close>. The stencil ends. Either it goes on, and the key now reads the value of the
  source register while every other key reads what it read before, whether or not the field
  had to be created and the vector to be moved; or the heap is full, the write is rejected and
  no binding changes.
\<close>

theorem setfield_binds_key:
  assumes "learning_ok s" and "rd_reg (h_receiver_disp h) f s = Some r"
    and "v2_learn_table r s = Some table" and "table \<noteq> 0" and "fields_ok table s"
    and "V2_VALUE_DISP (h_source_disp h) f s = Some a" and "off_fields table s a" and "vals s a = Some v"
  shows "(\<exists>t. lua55_v2l_setfield h f s = Some (Next f, t) \<and> fields_ok table t \<and>
      field_map table t = (field_map table s)(h_key_ref h := v)) \<or>
    (\<exists>t. lua55_v2l_setfield h f s = Some (Host_exit (h_host_exit h) f, t) \<and> fields_full table s \<and>
      discriminant (outcome (inv t)) = LUA55_V2_OUTCOME_REJECTED \<and> field_map table t = field_map table s)"
proof -
  from assms(5) obtain tb hp where th: "tables s table = Some tb" "heaps s (table_heap tb) = Some hp"
    by (auto simp: fields_ok_def)
  have body: "lua55_v2l_setfield h f s = setfield_body reg_source table h f s"
    using assms(2-4) by (simp add: lua55_v2l_setfield_def V2_TABLE_WRITE_def with_table_def)
  show ?thesis
  proof (cases rule: find_field_create [OF assms(5) th, of "h_key_ref h", case_names full cell])
    case full
    then have "lua55_v2l_setfield h f s = reject_exit LUA55_V2_REJECT_INVALID_OBJECT h f s"
      unfolding body by (simp add: setfield_body_def)
    moreover have "fields_full table s" using full(2) th by (auto simp: fields_full_def)
    ultimately show ?thesis
      by (intro disjI2) (auto simp: v2_defs upd_outcome_def upd_inv_def intro!: field_view_cong(2))
  next
    case (cell c t)
    have t: "vals t a = Some v" "frames t = frames s" "learning_ok t"
      using cell(7,8) assms(1,7,8) by (auto simp: field_frame_def off_fields_def learning_ok_def th)
    from cell(3) obtain tb' hp' where tb': "tables t table = Some tb'" "heaps t (table_heap tb') = Some hp'"
        "table_heap tb' \<noteq> 0" by (auto simp: fields_ok_def)
    obtain m where m: "v2_learn_field_location (h_occ_slot h) table c t = Some (t\<lparr>slots := m\<rparr>)"
        "learning_ok (t\<lparr>slots := m\<rparr>)"
      using learn_location_total [OF t(3) tb'(1)] by blast
    have "tables (t\<lparr>slots := m\<rparr>) table = Some tb'" using tb'(1) by simp
    from learn_site_total [OF m(2) this, of False "ucast (field_capacity tb')"] obtain m' where
      m': "v2_learn_write_site table False (ucast (field_capacity tb')) (t\<lparr>slots := m\<rparr>) = Some (t\<lparr>slots := m'\<rparr>)"
      by auto
    let ?t = "t\<lparr>slots := m'\<rparr>"
    have rd: "rd_reg (h_source_disp h) f t = Some v"
      using t(1,2) assms(6) by (simp add: rd_reg_def V2_VALUE_DISP_def rd_val_def)
    have pre: "tables ?t table = Some tb'" "heaps ?t (table_heap tb') = Some hp'" "vals ?t c \<noteq> None"
      using tb' cell(6) by simp_all
    obtain u b e where u: "v2_table_set table c v ?t = Some u" "vals u = (vals ?t)(c \<mapsto> v)" "gfields u = gfields ?t"
        "tables u = (tables ?t)(table \<mapsto> tb'\<lparr>barrier_count := b\<rparr>)"
        "heaps u = (heaps ?t)(table_heap tb' \<mapsto> hp'\<lparr>barrier_epoch := e\<rparr>)"
      by (rule table_set_spec [OF pre(1,2) tb'(3) pre(3)])
    have "field_map table u = (field_map table ?t)(h_key_ref h := v)"
      using field_map_set [of table ?t "h_key_ref h" c tb' u v b] cell(2,3,4) tb'(1) u by simp
    then have "field_map table u = (field_map table s)(h_key_ref h := v)" using cell(5) by simp
    moreover have "fields_ok table u"
      using cell(3) tb' u by (auto simp: fields_ok_def fields_mapped_def heap_fine_def settled_def)
    moreover have "lua55_v2l_setfield h f s = Some (Next f, u)"
      unfolding body using cell(1,2) m(1) m' rd u(1) tb'(1)
      by (simp add: setfield_body_def store_cell_def LUA55_RESIDUAL_NEXT_def)
    ultimately show ?thesis by blast
  qed
qed

text \<open>
  A table whose only field is taken by another key, in register 0; register 1 holds 7. Storing
  under a new key has to move the vector.
\<close>

definition field_example :: v2_state where
  "field_example = heap_example\<lparr>
     vals := [0x500 \<mapsto> mk_value 7 0x800, 0x510 \<mapsto> mk_value 3 7, 0x908 \<mapsto> mk_value 3 1],
     frames := [0x100 \<mapsto> blank_frame\<lparr>frame_values := 0x500\<rparr>],
     headers := [0x800 \<mapsto> \<lparr>kind = LUA55_OBJECT_TABLE, generation = 1\<rparr>],
     tables := [0x800 \<mapsto> \<lparr>storage_generation = 1, array_capacity = 1, field_capacity = 1, barrier_count = 0,
       metatable_reference = 0, array_values = 0x840, field_values = 0x900, table_heap = 0x40, site_id = 0\<rparr>],
     gfields := [0x900 \<mapsto> \<lparr>key_reference = 0x66, occupied = 1, field_reserved = 0\<rparr>],
     inv := blank_invocation\<lparr>heap_ptr := 0x40\<rparr>\<rparr>"

abbreviation field_example_holes :: holes where
  "field_example_holes \<equiv> blank_holes\<lparr>h_key_ref := 0x77, h_source_disp := 0x10, h_target_disp := 0x10\<rparr>"

lemma field_example_facts:
  "learning_ok field_example" "fields_ok 0x800 field_example" "off_fields 0x800 field_example 0x510"
  "rd_reg 0 0x100 field_example = Some (mk_value 7 0x800)" "v2_learn_table (mk_value 7 0x800) field_example = Some 0x800"
  "V2_VALUE_DISP 0x10 0x100 field_example = Some 0x510" "vals field_example 0x510 = Some (mk_value 3 7)"
  "\<not> fields_full 0x800 field_example"
  by (simp_all add: field_example_def heap_example_def learning_ok_def fields_ok_def off_fields_def fields_mapped_def
      fa_def heap_fine_def settled_def rd_reg_def V2_VALUE_DISP_def rd_val_def v2_learn_table_def mk_value_def
      fields_full_def)

theorem getfield_reads_binding_witness:
  "\<exists>m. lua55_v2_getfield field_example_holes 0x100 field_example =
    Some (Next 0x100, field_example\<lparr>slots := m,
      vals := (vals field_example)(0x510 \<mapsto> field_map 0x800 field_example 0x77)\<rparr>)"
  using getfield_reads_binding [of field_example field_example_holes "0x100" "mk_value 7 0x800" "0x800" "0x510"]
  by (simp add: field_example_facts)

theorem setfield_binds_key_witness:
  "\<exists>t. lua55_v2l_setfield field_example_holes 0x100 field_example = Some (Next 0x100, t) \<and>
     field_map 0x800 t = (field_map 0x800 field_example)(0x77 := mk_value 3 7)"
  using setfield_binds_key [of field_example field_example_holes "0x100" "mk_value 7 0x800" "0x800" "0x510" "mk_value 3 7"]
  by (auto simp: field_example_facts)

text \<open>
  C32. The field part of a table refines a map. Storing any list of bindings one after another
  ends, keeps the table well-formed, and leaves the table reading as the map to which the
  bindings that fitted were added in order; when one did not fit, the heap is full.
\<close>

theorem field_stores_refine_map:
  assumes "fields_ok table s"
  shows "\<exists>n t. store_all (field_store table) kvs s = Some (n, t) \<and> n \<le> length kvs \<and> fields_ok table t \<and>
    field_map table t = fold upd_binding (take n kvs) (field_map table s) \<and>
    (n < length kvs \<longrightarrow> fields_full table t)"
  by (rule fields.store_all_spec) (use assms in auto)

theorem field_stores_refine_map_witness:
  "\<exists>n t. store_all (field_store 0x800) [(0x77, mk_value 3 5), (0x66, mk_value 3 6)] field_example = Some (n, t) \<and>
    field_map 0x800 t = fold upd_binding (take n [(0x77, mk_value 3 5), (0x66, mk_value 3 6)]) (field_map 0x800 field_example)"
  using field_stores_refine_map [of "0x800" field_example "[(0x77, mk_value 3 5), (0x66, mk_value 3 6)]"]
  by (auto simp: field_example_facts)

end
