(* ===== verification/Array_Part.thy ===== *)
theory Array_Part
  imports Table_Map
begin

text \<open>
  The array part of a guest table as a keyed store: growth by doubling (and when that loop ends),
  the move to a larger block, and the integer-keyed stencils.
\<close>

subsection \<open>The doubling loop\<close>

lemma double_capacity_ends:
  assumes "0 < unat c" and "unat needed \<le> 2 ^ 31"
  shows "\<exists>d. double_capacity c needed = Some d \<and> unat needed \<le> unat d \<and>
    (\<exists>k. unat d = unat c * 2 ^ k) \<and> (d = c \<or> unat d < 2 * unat needed)"
  using assms(1)
proof (induction "unat needed - unat c" arbitrary: c rule: less_induct)
  case less
  show ?case
  proof (cases "unat c < unat needed")
    case True
    then have u: "unat (c * 2) = 2 * unat c" using assms(2) by (simp add: unat_word_ariths)
    have "double_capacity c needed = double_capacity (c * 2) needed"
      using True by (subst double_capacity.simps) (simp add: word_less_nat_alt)
    moreover have "\<exists>d. double_capacity (c * 2) needed = Some d \<and> unat needed \<le> unat d \<and>
        (\<exists>k. unat d = unat (c * 2) * 2 ^ k) \<and> (d = c * 2 \<or> unat d < 2 * unat needed)"
      by (rule less.hyps) (use less.prems True u in auto)
    then obtain d k where "double_capacity (c * 2) needed = Some d" "unat needed \<le> unat d"
        "unat d = unat (c * 2) * 2 ^ k" and d: "d = c * 2 \<or> unat d < 2 * unat needed" by blast
    moreover have "unat d < 2 * unat needed" using d True u by auto
    moreover have "unat (c * 2) * 2 ^ k = unat c * 2 ^ Suc k" for k using u by simp
    ultimately show ?thesis
      by (intro exI [of _ d] conjI exI [of _ "Suc k"]) simp_all
  next
    case False
    then have "double_capacity c needed = Some c"
      by (subst double_capacity.simps) (simp add: word_less_nat_alt)
    with False show ?thesis by (intro exI [of _ c]) (auto intro: exI [of _ 0])
  qed
qed

lemma double_capacity_diverges:
  assumes "2 ^ 32 \<le> unat needed"
  shows "double_capacity c needed = None"
proof -
  have small: "(ucast d :: u64) < needed" for d :: u32
    using assms unat32_less [of d] by (simp add: word_less_nat_alt)
  have "n \<noteq> needed" if r: "double_capacity c n = Some d" for n d
  proof (rule double_capacity.raw_induct [where P = "\<lambda>_ n _. n \<noteq> needed", OF _ r])
    fix rec and c d :: u32 and n :: u64
    assume "\<And>c n d. rec c n = Some d \<Longrightarrow> n \<noteq> needed"
      and "(if ucast c < n then rec (c * 2) n else Some c) = Some d"
    with small show "n \<noteq> needed" by (auto split: if_splits)
  qed
  then show ?thesis by (cases "double_capacity c needed") auto
qed

text \<open>
  C6. The doubling loop of \<open>v2_grow_array\<close>. From a positive capacity it ends for every request of
  at most \<open>2 ^ 31\<close> elements, with the first multiple of the capacity by a power of two that
  holds the request; for a request beyond \<open>2 ^ 32 - 1\<close>, which the 32-bit capacity never
  reaches, it does not end.
\<close>

theorem array_growth_terminates:
  "(0 < unat c \<and> unat needed \<le> 2 ^ 31 \<longrightarrow>
     (\<exists>d. double_capacity c needed = Some d \<and> unat needed \<le> unat d \<and>
       (\<exists>k. unat d = unat c * 2 ^ k) \<and> (d = c \<or> unat d < 2 * unat needed))) \<and>
   (2 ^ 32 \<le> unat needed \<longrightarrow> double_capacity c needed = None)"
  using double_capacity_ends double_capacity_diverges by blast

theorem array_growth_terminates_witness:
  "(\<exists>d. double_capacity 3 20 = Some d \<and> 20 \<le> unat d) \<and> double_capacity 4 0x100000000 = None"
  using array_growth_terminates [of 3 20] array_growth_terminates [of 4 "0x100000000"] by auto

subsection \<open>The array block\<close>

definition aa :: "u64 \<Rightarrow> nat \<Rightarrow> u64" where
  "aa av i = av + word_of_nat (16 * i)"

definition array_mapped :: "u64 \<Rightarrow> nat \<Rightarrow> v2_state \<Rightarrow> bool" where
  "array_mapped av n s \<longleftrightarrow> av \<noteq> 0 \<and> unat av + 16 * n < 2 ^ 64 \<and> (\<forall>i<n. vals s (aa av i) \<noteq> None)"

lemma slot_addr_aa: "i < 2 ^ 32 \<Longrightarrow> slot_addr av (word_of_nat i) = aa av i"
  by (simp add: slot_addr_def aa_def unsigned_of_nat take_bit_nat_eq_self)

lemma unat_aa: "unat av + 16 * i < 2 ^ 64 \<Longrightarrow> unat (aa av i) = unat av + 16 * i"
  unfolding aa_def using unat_of_nat64 [of "16 * i"] unat_plus64 [of av "word_of_nat (16 * i)"]
  by (simp del: of_nat_mult)

lemma aa_inj: "unat av + 16 * i < 2 ^ 64 \<Longrightarrow> unat av + 16 * j < 2 ^ 64 \<Longrightarrow> aa av i = aa av j \<longleftrightarrow> i = j"
  by (metis unat_aa add_left_cancel mult_cancel1 zero_neq_numeral)

lemma element:
  assumes "array_mapped av n s" and "i < n"
  shows "unat (aa av i) = unat av + 16 * i" "aa av i \<noteq> 0" "vals s (aa av i) \<noteq> None"
proof -
  from assms have b: "unat av + 16 * i < 2 ^ 64" and nz: "av \<noteq> 0" by (auto simp: array_mapped_def)
  from b show u: "unat (aa av i) = unat av + 16 * i" by (rule unat_aa)
  from nz have "unat av \<noteq> 0" by (simp add: unat_eq_zero)
  with u show "aa av i \<noteq> 0" by (metis add_is_0 unat_0)
  from assms show "vals s (aa av i) \<noteq> None" by (auto simp: array_mapped_def)
qed

lemma copy_array_spec:
  assumes "unat dst + 16 * N < 2 ^ 64" and "unat dst + 16 * N \<le> unat src \<or> unat src + 16 * N \<le> unat dst"
    and "array_mapped src N s" and "N < 2 ^ 32" and "i + n = N"
  shows "\<exists>m. copy_array dst src (word_of_nat i) n s = Some (s\<lparr>vals := m\<rparr>) \<and>
    (\<forall>j. i \<le> j \<longrightarrow> j < N \<longrightarrow> m (aa dst j) = vals s (aa src j)) \<and>
    (\<forall>a. (\<forall>j<N. i \<le> j \<longrightarrow> a \<noteq> aa dst j) \<longrightarrow> m a = vals s a)"
  using assms(3,5)
proof (induction n arbitrary: i s)
  case 0
  show ?case by (rule exI [of _ "vals s"]) (use 0 in auto)
next
  case (Suc n)
  have i: "i < N" "i < 2 ^ 32" using Suc.prems(2) assms(4) by auto
  then obtain v where v: "vals s (aa src i) = Some v" using element(3) [OF Suc.prems(1)] by blast
  let ?s = "s\<lparr>vals := (vals s)(aa dst i \<mapsto> v)\<rparr>"
  have "array_mapped src N ?s" using Suc.prems(1) by (simp add: array_mapped_def)
  from Suc.IH [OF this, of "Suc i"] Suc.prems(2) obtain m where
    m: "copy_array dst src (word_of_nat (Suc i)) n ?s = Some (?s\<lparr>vals := m\<rparr>)"
      "\<And>j. Suc i \<le> j \<Longrightarrow> j < N \<Longrightarrow> m (aa dst j) = vals ?s (aa src j)"
      "\<And>a. (\<forall>j<N. Suc i \<le> j \<longrightarrow> a \<noteq> aa dst j) \<Longrightarrow> m a = vals ?s a" by auto
  have run: "copy_array dst src (word_of_nat i) (Suc n) s = Some (s\<lparr>vals := m\<rparr>)"
    using v m(1) i(2) by (simp add: slot_addr_aa rd_val_def add.commute)
  have ap: "aa dst i \<noteq> aa src j" if "j < N" for j
    using unat_aa [of dst i] element(1) [OF Suc.prems(1) that] assms(1,2) i(1) that by auto
  have inj: "aa dst i \<noteq> aa dst j" if "Suc i \<le> j" "j < N" for j
    using aa_inj [of dst i j] assms(1) that i(1) by auto
  have own: "m (aa dst i) = Some v" using m(3) [of "aa dst i"] inj by auto
  have "m (aa dst j) = vals s (aa src j)" if "i \<le> j" "j < N" for j
    using that own v m(2) [of j] ap [of j] by (cases "i = j") auto
  moreover have "m a = vals s a" if "\<forall>j<N. i \<le> j \<longrightarrow> a \<noteq> aa dst j" for a
    using that m(3) [of a] i(1) by auto
  ultimately show ?case using run by blast
qed

lemma blank_array_spec:
  assumes "unat dst + 16 * N < 2 ^ 64" and "N < 2 ^ 32" and "i + n = N"
  shows "\<exists>m. blank_array dst (word_of_nat i) n s = s\<lparr>vals := m\<rparr> \<and>
    (\<forall>j. i \<le> j \<longrightarrow> j < N \<longrightarrow> m (aa dst j) = Some (mk_value 0 0)) \<and>
    (\<forall>a. (\<forall>j<N. i \<le> j \<longrightarrow> a \<noteq> aa dst j) \<longrightarrow> m a = vals s a)"
  using assms(3)
proof (induction n arbitrary: i s)
  case 0
  show ?case by (rule exI [of _ "vals s"]) (use 0 in auto)
next
  case (Suc n)
  have i: "i < N" "i < 2 ^ 32" using Suc.prems assms(2) by auto
  let ?s = "s\<lparr>vals := (vals s)(aa dst i \<mapsto> mk_value 0 0)\<rparr>"
  from Suc.IH [of "Suc i" ?s] Suc.prems obtain m where
    m: "blank_array dst (word_of_nat (Suc i)) n ?s = ?s\<lparr>vals := m\<rparr>"
      "\<And>j. Suc i \<le> j \<Longrightarrow> j < N \<Longrightarrow> m (aa dst j) = Some (mk_value 0 0)"
      "\<And>a. (\<forall>j<N. Suc i \<le> j \<longrightarrow> a \<noteq> aa dst j) \<Longrightarrow> m a = vals ?s a" by auto
  have run: "blank_array dst (word_of_nat i) (Suc n) s = s\<lparr>vals := m\<rparr>"
    using m(1) i(2) by (simp add: slot_addr_aa add.commute)
  have inj: "aa dst i \<noteq> aa dst j" if "Suc i \<le> j" "j < N" for j
    using aa_inj [of dst i j] assms(1) that i(1) by auto
  have own: "m (aa dst i) = Some (mk_value 0 0)" using m(3) [of "aa dst i"] inj by auto
  have "m (aa dst j) = Some (mk_value 0 0)" if "i \<le> j" "j < N" for j
    using that own m(2) [of j] by (cases "i = j") auto
  moreover have "m a = vals s a" if "\<forall>j<N. i \<le> j \<longrightarrow> a \<noteq> aa dst j" for a
    using that m(3) [of a] i(1) by auto
  ultimately show ?case using run by blast
qed

subsection \<open>Reading and growing\<close>

definition array_ok :: "u64 \<Rightarrow> v2_state \<Rightarrow> bool" where
  "array_ok table s \<longleftrightarrow> (\<exists>tb hp. tables s table = Some tb \<and> heap_ptr (inv s) \<noteq> 0 \<and> table_heap tb = heap_ptr (inv s) \<and>
     heaps s (heap_ptr (inv s)) = Some hp \<and> heap_fine hp \<and>
     array_mapped (array_values tb) (unat (array_capacity tb)) s \<and>
     settled hp (array_values tb) (16 * unat (array_capacity tb)))"

definition array_map :: "u64 \<Rightarrow> v2_state \<Rightarrow> u64 \<Rightarrow> lua_value" where
  "array_map table s k = (case v2_array_slot table k s of
     None \<Rightarrow> mk_value LUA55_VALUE_NIL 0
   | Some c \<Rightarrow> if c = 0 then mk_value LUA55_VALUE_NIL 0
       else case vals s c of None \<Rightarrow> mk_value LUA55_VALUE_NIL 0 | Some v \<Rightarrow> v)"

text \<open>The keys a write may use: those for which the doubling loop ends.\<close>

definition array_key :: "u64 \<Rightarrow> bool" where
  "array_key k \<longleftrightarrow> 1 \<le> unat k \<and> unat k \<le> 2 ^ 31"

text \<open>Memory the array part does not use and the allocator will not hand out.\<close>

definition off_array :: "u64 \<Rightarrow> v2_state \<Rightarrow> u64 \<Rightarrow> bool" where
  "off_array table s a \<longleftrightarrow> (\<exists>tb hp. tables s table = Some tb \<and> heaps s (table_heap tb) = Some hp \<and>
     settled hp a 1 \<and> (\<forall>i<unat (array_capacity tb). a \<noteq> aa (array_values tb) i))"

lemma in_capacity:
  "unat (k :: u64) \<le> unat (cap :: u32) \<Longrightarrow> 1 \<le> unat k \<Longrightarrow> \<not> k <s 1 \<and> \<not> k > ucast cap"
proof
  assume a: "unat k \<le> unat cap" "1 \<le> unat k"
  have "unat k < 2 ^ 63" using a(1) unat32_less [of cap] by simp
  then have "int (unat k) < 2 ^ 63" by (metis of_nat_less_iff of_nat_numeral of_nat_power)
  then have "uint k < 2 ^ 63" by simp
  moreover have "- (2 ^ 63) \<le> uint k" by (rule order_trans [OF _ uint_ge_0]) simp
  ultimately have "sint k = int (unat k)"
    using sint_of_int_64 [of "uint k"] by (simp add: ucast_id)
  moreover have "1 \<le> int (unat k)" using a(2) by linarith
  ultimately show "\<not> k <s 1" by (simp add: word_sless_alt)
  show "\<not> k > ucast cap" using a(1) by (simp add: word_less_nat_alt)
qed

lemma slot_in:
  assumes "tables s table = Some tb" and "1 \<le> unat k" and "unat k \<le> unat (array_capacity tb)"
  shows "v2_array_slot table k s = Some (aa (array_values tb) (unat k - 1))"
proof -
  have "k - 1 = word_of_nat (unat k - 1)" using assms(2) by (simp add: of_nat_diff)
  then have "16 * (k - 1) = word_of_nat (16 * (unat k - 1))" by simp
  then show ?thesis
    using assms in_capacity [OF assms(3,2)] by (simp add: v2_array_slot_def aa_def)
qed

lemma slot_out:
  assumes "tables s table = Some tb" and "\<not> (1 \<le> unat k \<and> unat k \<le> unat (array_capacity tb))"
  shows "v2_array_slot table k s = Some 0"
proof -
  have "k <s 1 \<or> k > ucast (array_capacity tb)"
  proof (cases "unat k = 0")
    case True
    then show ?thesis by (simp add: unat_eq_zero word_sless_alt)
  next
    case False
    with assms(2) show ?thesis by (simp add: word_less_nat_alt)
  qed
  with assms(1) show ?thesis by (simp add: v2_array_slot_def)
qed

lemma array_map_in:
  assumes "tables s table = Some tb" and "array_mapped (array_values tb) (unat (array_capacity tb)) s"
    and "1 \<le> unat k" and "unat k \<le> unat (array_capacity tb)"
  shows "vals s (aa (array_values tb) (unat k - 1)) = Some (array_map table s k)"
proof -
  have "unat k - 1 < unat (array_capacity tb)" using assms(3,4) by simp
  from element [OF assms(2) this] show ?thesis
    using slot_in [OF assms(1,3,4)] by (auto simp: array_map_def)
qed

lemma array_map_out:
  assumes "tables s table = Some tb" and "\<not> (1 \<le> unat k \<and> unat k \<le> unat (array_capacity tb))"
  shows "array_map table s k = mk_value LUA55_VALUE_NIL 0"
  using slot_out [OF assms] by (simp add: array_map_def)

text \<open>
  Growing the array part to hold a key: no element changes, the new ones are nil. First the new
  vector on its own: the old elements in front, nil behind them, nothing else touched.
\<close>

lemma copy_blank_array:
  assumes at64: "unat at + 16 * N < 2 ^ 64" and N: "n < N" "N < 2 ^ 32"
    and apart: "unat at + 16 * n \<le> unat av \<or> unat av + 16 * n \<le> unat at" and src: "array_mapped av n s"
  obtains m where "copy_array at av 0 n s \<bind> (\<lambda>s. Some (blank_array at (word_of_nat n) (N - n) s)) = Some (s\<lparr>vals := m\<rparr>)"
    "\<And>j. j < n \<Longrightarrow> m (aa at j) = vals s (aa av j)" "\<And>j. n \<le> j \<Longrightarrow> j < N \<Longrightarrow> m (aa at j) = Some (mk_value 0 0)"
    "\<And>j. j < N \<Longrightarrow> m (aa at j) \<noteq> None" "\<And>a. (\<forall>j<N. a \<noteq> aa at j) \<Longrightarrow> m a = vals s a"
proof -
  from copy_array_spec [OF _ apart src, of 0 n] at64 N obtain m where
    cp: "copy_array at av 0 n s = Some (s\<lparr>vals := m\<rparr>)"
      "\<And>j. j < n \<Longrightarrow> m (aa at j) = vals s (aa av j)" "\<And>a. (\<forall>j<n. a \<noteq> aa at j) \<Longrightarrow> m a = vals s a"
    by auto
  from blank_array_spec [OF at64 N(2), of n "N - n" "s\<lparr>vals := m\<rparr>"] N(1) obtain m' where
    bl: "blank_array at (word_of_nat n) (N - n) (s\<lparr>vals := m\<rparr>) = s\<lparr>vals := m'\<rparr>"
      "\<And>j. n \<le> j \<Longrightarrow> j < N \<Longrightarrow> m' (aa at j) = Some (mk_value 0 0)"
      "\<And>a. (\<forall>j<N. n \<le> j \<longrightarrow> a \<noteq> aa at j) \<Longrightarrow> m' a = m a"
    by auto
  have old: "m' (aa at j) = vals s (aa av j)" if "j < n" for j
  proof -
    have "\<forall>i<N. n \<le> i \<longrightarrow> aa at j \<noteq> aa at i" using aa_inj [of at] at64 N(1) that by auto
    from bl(3) [OF this] cp(2) [OF that] show ?thesis by simp
  qed
  have "m' (aa at j) \<noteq> None" if "j < N" for j
    using old [of j] bl(2) [of j] element(3) [OF src, of j] that by (cases "j < n") auto
  with that [of m'] cp(1,3) bl old N(1) show thesis by simp
qed

lemma array_map_moved:
  assumes tb: "tables s table = Some tb" "array_mapped (array_values tb) (unat (array_capacity tb)) s"
    and tb': "tables t table = Some tb'" "array_mapped (array_values tb') (unat (array_capacity tb')) t"
    and le: "unat (array_capacity tb) \<le> unat (array_capacity tb')"
    and old: "\<And>j. j < unat (array_capacity tb) \<Longrightarrow> vals t (aa (array_values tb') j) = vals s (aa (array_values tb) j)"
    and new: "\<And>j. unat (array_capacity tb) \<le> j \<Longrightarrow> j < unat (array_capacity tb') \<Longrightarrow>
      vals t (aa (array_values tb') j) = Some (mk_value 0 0)"
  shows "array_map table t = array_map table s"
proof
  fix k :: u64
  consider (old) "1 \<le> unat k" "unat k \<le> unat (array_capacity tb)" "unat k \<le> unat (array_capacity tb')"
    | (new) "\<not> (1 \<le> unat k \<and> unat k \<le> unat (array_capacity tb))" "1 \<le> unat k" "unat k \<le> unat (array_capacity tb')"
    | (out) "\<not> (1 \<le> unat k \<and> unat k \<le> unat (array_capacity tb))" "\<not> (1 \<le> unat k \<and> unat k \<le> unat (array_capacity tb'))"
    using le by linarith
  then show "array_map table t k = array_map table s k"
  proof cases
    case old
    then have "unat k - 1 < unat (array_capacity tb)" by linarith
    with old show ?thesis
      using array_map_in [OF tb, of k] array_map_in [OF tb', of k] assms(6) [of "unat k - 1"] by simp
  next
    case new
    then have "unat (array_capacity tb) \<le> unat k - 1" "unat k - 1 < unat (array_capacity tb')" by linarith+
    with new show ?thesis
      using array_map_out [OF tb(1), of k] array_map_in [OF tb', of k] assms(7) [of "unat k - 1"] by simp
  next
    case out
    then show ?thesis using array_map_out [OF tb(1), of k] array_map_out [OF tb'(1), of k] by simp
  qed
qed

lemma doubled_capacity:
  assumes k: "array_key k" and out: "unat n < unat k"
  obtains d where "double_capacity (if n > 0 then n else 1) k = Some d" "unat k \<le> unat d"
    "unat d \<le> 2 * max (unat n) (unat k)" "unat (SIZEOF_VALUE * ucast d :: u64) = 16 * unat d"
proof -
  let ?c = "if n > 0 then n else 1"
  have c: "0 < unat ?c" by (auto simp: unat_gt_0 word_gt_0)
  have "unat k \<le> 2 ^ 31" using k by (simp add: array_key_def)
  from double_capacity_ends [OF c this] obtain d where
    d: "double_capacity ?c k = Some d" "unat k \<le> unat d" "d = ?c \<or> unat d < 2 * unat k"
    by blast
  moreover have "unat d \<le> 2 * max (unat n) (unat k)"
    using d(2,3) k out by (auto simp: array_key_def split: if_splits)
  moreover have "unat (SIZEOF_VALUE * ucast d :: u64) = 16 * unat d"
    using unat32_less [of d] by (simp add: unat_word_ariths unsigned_ucast_eq)
  ultimately show thesis using that by blast
qed

lemma grow_array_spec:
  assumes ok: "array_ok table s" and tb: "tables s table = Some tb" and hp: "heaps s (heap_ptr (inv s)) = Some hp"
    and k: "array_key k" and out: "unat (array_capacity tb) < unat k"
  obtains (full) "v2_grow_array table k s = Some (False, s)"
      "unat (table_region_end hp) < unat (table_next hp) + 15 + 32 * max (unat (array_capacity tb)) (unat k)"
  | (grown) t tb' where "v2_grow_array table k s = Some (True, t)" "tables t table = Some tb'" "array_ok table t"
      "unat k \<le> unat (array_capacity tb')" "array_map table t = array_map table s" "field_frame table hp s t {}"
      "gfields t = gfields s" "\<And>a. off_array table s a \<Longrightarrow> off_array table t a"
proof -
  let ?av = "array_values tb" and ?heap = "heap_ptr (inv s)" and ?n = "unat (array_capacity tb)"
  from ok tb hp have inv: "?heap \<noteq> 0" "heap_fine hp" "array_mapped ?av ?n s" "settled hp ?av (16 * ?n)"
      "table_heap tb = ?heap" by (auto simp: array_ok_def)
  obtain d where d: "double_capacity (if array_capacity tb > 0 then array_capacity tb else 1) k = Some d" "unat k \<le> unat d"
      "unat d \<le> 2 * max ?n (unat k)" "unat (SIZEOF_VALUE * ucast d :: u64) = 16 * unat d"
    by (rule doubled_capacity [OF k out])
  let ?N = "unat d"
  have N: "?n < ?N" "?N < 2 ^ 32" using d(2) out unat32_less [of d] by auto
  then have small: "unat (SIZEOF_VALUE * ucast d :: u64) \<le> 2 ^ 40" using d(4) by simp
  show thesis
  proof (cases rule: heap_fine_bump [OF inv(2,1) hp small, case_names f b])
    case f
    then have "v2_grow_array table k s = Some (False, s)"
      using tb d(1) unfolding v2_grow_array_def by simp
    with full f(2) d(3,4) show thesis by simp
  next
    case (b at hp')
    let ?s = "s\<lparr>heaps := (heaps s)(?heap \<mapsto> hp')\<rparr>"
    have at: "unat at + 16 * ?N \<le> unat (table_region_end hp)" using b(7) d(4) by simp
    then have at64: "unat at + 16 * ?N < 2 ^ 64" using inv(2) by (simp add: heap_fine_def)
    have apart: "unat at + 16 * ?n \<le> unat ?av \<or> unat ?av + 16 * ?n \<le> unat at"
      using inv(4) b(6) at N(1) unfolding settled_def by auto
    have "array_mapped ?av ?n ?s" using inv(3) by (simp add: array_mapped_def)
    from copy_blank_array [OF at64 N apart this] obtain m where
      mv: "copy_array at ?av 0 ?n ?s \<bind> (\<lambda>s. Some (blank_array at (word_of_nat ?n) (?N - ?n) s)) = Some (?s\<lparr>vals := m\<rparr>)"
        "\<And>j. j < ?n \<Longrightarrow> m (aa at j) = vals s (aa ?av j)" "\<And>j. ?n \<le> j \<Longrightarrow> j < ?N \<Longrightarrow> m (aa at j) = Some (mk_value 0 0)"
        "\<And>j. j < ?N \<Longrightarrow> m (aa at j) \<noteq> None" "\<And>a. (\<forall>j<?N. a \<noteq> aa at j) \<Longrightarrow> m a = vals s a"
      by auto
    let ?tb = "tb\<lparr>array_values := at, array_capacity := d, storage_generation := storage_generation tb + 1\<rparr>"
    let ?t = "s\<lparr>heaps := (heaps s)(?heap \<mapsto> hp'), vals := m, tables := (tables s)(table \<mapsto> ?tb)\<rparr>"
    have run: "v2_grow_array table k s = Some (True, ?t)"
      using tb b(1,2) mv(1) d(1) unfolding v2_grow_array_def
      by (auto simp: upd_table_def Let_def bind_eq_Some_conv)
    have mapped: "array_mapped at ?N ?t" using b(1) at64 mv(4) by (simp add: array_mapped_def)
    have "settled hp' at (16 * ?N)" using b(3,5) d(4) by (auto simp: settled_def)
    then have ok': "array_ok table ?t" using mapped inv(1,5) b(4) by (simp add: array_ok_def)
    have outb: "a \<noteq> aa at j" if "j < ?N" "settled hp a 1" for a j
      using element(1) [OF mapped that(1)] that at b(6) unfolding settled_def by auto
    have am: "array_map table ?t = array_map table s"
      by (rule array_map_moved [OF tb inv(3), of ?t ?tb]) (use mapped mv(2,3) N(1) in simp_all)
    have fr: "field_frame table hp s ?t {}" using mv(5) outb by (simp add: field_frame_def)
    have off: "off_array table ?t a" if "off_array table s a" for a
    proof -
      from that tb hp inv(5) have st: "settled hp a 1" by (auto simp: off_array_def)
      then have "settled hp' a 1" using b(3,5,6) by (auto simp: settled_def)
      with outb st inv(5) show ?thesis by (auto simp: off_array_def)
    qed
    show thesis
      by (rule grown [of ?t ?tb, OF run _ ok' _ am fr]) (use d(2) off in simp_all)
  qed
qed

subsection \<open>The array part is a keyed store\<close>

text \<open>The integer-keyed write of the stencils.\<close>

definition array_store :: "u64 \<Rightarrow> u64 \<Rightarrow> lua_value \<Rightarrow> v2_state \<Rightarrow> (bool \<times> v2_state) option" where
  "array_store table k v s = do {
     cell \<leftarrow> v2_array_slot table k s;
     (cell, s) \<leftarrow> (if cell = 0 \<and> 1 \<le>s k then do {
         (ok, s) \<leftarrow> v2_grow_array table k s;
         if ok then do {cell \<leftarrow> v2_array_slot table k s; Some (cell, s)} else Some (0, s)}
       else Some (cell, s));
     if cell = 0 then Some (False, s)
     else do {s \<leftarrow> v2_table_set table cell v s; Some (True, s)}}"

lemma array_key_signed: "array_key k \<Longrightarrow> 1 \<le>s k"
proof -
  assume "array_key k"
  then have "unat k \<le> unat (0x80000000 :: u32)" "1 \<le> unat k" by (simp_all add: array_key_def)
  from in_capacity [OF this] show ?thesis by (simp add: word_sle_eq word_sless_alt not_less)
qed

text \<open>After making room for a key, its cell is the element of the array.\<close>

lemma array_room:
  assumes ok: "array_ok table s" and tb: "tables s table = Some tb" and hp: "heaps s (heap_ptr (inv s)) = Some hp"
    and k: "array_key k"
  obtains (full) "v2_array_slot table k s = Some 0" "v2_grow_array table k s = Some (False, s)"
      "unat (array_capacity tb) < unat k" "unat (table_region_end hp) < unat (table_next hp) + 15 + 32 * unat k"
  | (inside) c where "v2_array_slot table k s = Some c" "c \<noteq> 0" "unat k \<le> unat (array_capacity tb)"
  | (moved) t c where "v2_array_slot table k s = Some 0" "v2_grow_array table k s = Some (True, t)" "c \<noteq> 0"
      "v2_array_slot table k t = Some c" "array_ok table t" "array_map table t = array_map table s"
      "field_frame table hp s t {}" "gfields t = gfields s" "\<And>a. off_array table s a \<Longrightarrow> off_array table t a"
proof (cases "unat k \<le> unat (array_capacity tb)")
  case True
  from ok tb have m: "array_mapped (array_values tb) (unat (array_capacity tb)) s" by (auto simp: array_ok_def)
  have "1 \<le> unat k" using k by (simp add: array_key_def)
  moreover have "unat k - 1 < unat (array_capacity tb)" using True calculation by linarith
  ultimately show thesis
    using inside slot_in [OF tb _ True] element(2) [OF m] True by blast
next
  case False
  then have out: "v2_array_slot table k s = Some 0" using slot_out [OF tb] by blast
  from False have lt: "unat (array_capacity tb) < unat k" by simp
  show thesis
  proof (cases rule: grow_array_spec [OF ok tb hp k lt, case_names f g])
    case f
    with out full lt show thesis by (simp add: max_def)
  next
    case (g t tb')
    from g(2,3) have m: "array_mapped (array_values tb') (unat (array_capacity tb')) t" by (auto simp: array_ok_def)
    have k1: "1 \<le> unat k" using k by (simp add: array_key_def)
    then have "unat k - 1 < unat (array_capacity tb')" using g(4) by linarith
    then show thesis
      using moved [OF out g(1) _ slot_in [OF g(2) k1 g(4)] g(3,5,6,7,8)] element(2) [OF m] by blast
  qed
qed

text \<open>Setting the cell of an index changes that index and no other.\<close>

lemma array_map_set:
  assumes ok: "array_ok table s" and c: "v2_array_slot table k s = Some c" "c \<noteq> 0"
    and tb: "tables s table = Some tb" and t: "vals t = (vals s)(c \<mapsto> v)"
      "tables t table = Some (tb\<lparr>barrier_count := b\<rparr>)"
  shows "array_map table t = (array_map table s)(k := v)"
proof
  fix k'
  let ?av = "array_values tb" and ?n = "unat (array_capacity tb)"
  from ok tb have m: "array_mapped ?av ?n s" by (auto simp: array_ok_def)
  from c tb have k: "1 \<le> unat k" "unat k \<le> ?n" using slot_out by fastforce+
  have ce: "c = aa ?av (unat k - 1)" using slot_in [OF tb k] c(1) by simp
  show "array_map table t k' = ((array_map table s)(k := v)) k'"
  proof (cases "1 \<le> unat k' \<and> unat k' \<le> ?n")
    case True
    have "array_mapped ?av ?n t" using m t(1) by (simp add: array_mapped_def)
    then have rd: "vals t (aa ?av (unat k' - 1)) = Some (array_map table t k')"
      using array_map_in [of t table "tb\<lparr>barrier_count := b\<rparr>" k'] t(2) True by simp
    have "aa ?av (unat k' - 1) = c \<longleftrightarrow> k' = k"
    proof -
      have "unat ?av + 16 * (unat k' - 1) < 2 ^ 64" "unat ?av + 16 * (unat k - 1) < 2 ^ 64"
        using m True k by (auto simp: array_mapped_def)
      then have "aa ?av (unat k' - 1) = c \<longleftrightarrow> unat k' - 1 = unat k - 1" unfolding ce by (rule aa_inj)
      then show ?thesis using True k(1) by (metis le_add_diff_inverse word_unat_eq_iff)
    qed
    then show ?thesis
      using rd t(1) array_map_in [OF tb m, of k'] True by (auto split: if_splits)
  next
    case False
    with k have "k' \<noteq> k" by auto
    with False show ?thesis
      using array_map_out [of t table "tb\<lparr>barrier_count := b\<rparr>" k'] array_map_out [OF tb, of k'] t(2) by simp
  qed
qed

text \<open>A table write at a cell of the array.\<close>

lemma array_set_cell:
  assumes ok: "array_ok table s" and c: "v2_array_slot table k s = Some c" "c \<noteq> 0" and tb: "tables s table = Some tb"
    and hp: "heaps s (heap_ptr (inv s)) = Some hp"
  obtains u where "v2_table_set table c v s = Some u" "array_ok table u"
    "array_map table u = (array_map table s)(k := v)"
proof -
  from ok tb have i: "table_heap tb = heap_ptr (inv s)" "heap_ptr (inv s) \<noteq> 0"
      "array_mapped (array_values tb) (unat (array_capacity tb)) s" by (auto simp: array_ok_def)
  from c tb have k: "1 \<le> unat k" "unat k \<le> unat (array_capacity tb)" using slot_out by fastforce+
  then have "unat k - 1 < unat (array_capacity tb)" by linarith
  then have cv: "vals s c \<noteq> None" using element(3) [OF i(3)] slot_in [OF tb k] c(1) by auto
  have hp': "heaps s (table_heap tb) = Some hp" "table_heap tb \<noteq> 0" using i hp by simp_all
  obtain u b e where u: "v2_table_set table c v s = Some u" "vals u = (vals s)(c \<mapsto> v)" "gfields u = gfields s"
      "tables u = (tables s)(table \<mapsto> tb\<lparr>barrier_count := b\<rparr>)"
      "heaps u = (heaps s)(table_heap tb \<mapsto> hp\<lparr>barrier_epoch := e\<rparr>)" "field_frame table hp s u {c}"
    by (rule table_set_spec [OF tb hp' cv])
  have "array_map table u = (array_map table s)(k := v)"
    by (rule array_map_set [OF ok c tb u(2)]) (simp add: u(4))
  moreover have "array_ok table u"
    using ok tb hp i u by (auto simp: array_ok_def array_mapped_def heap_fine_def settled_def field_frame_def)
  ultimately show thesis using that u(1) by blast
qed

text \<open>
  The key is outside the array and the heap has no room for an array of twice the key, which bounds
  what doubling asks for.
\<close>

definition array_full :: "u64 \<Rightarrow> u64 \<Rightarrow> v2_state \<Rightarrow> bool" where
  "array_full table k s \<longleftrightarrow> (\<exists>tb hp. tables s table = Some tb \<and> heaps s (heap_ptr (inv s)) = Some hp \<and>
     unat (array_capacity tb) < unat k \<and> unat (table_region_end hp) < unat (table_next hp) + 15 + 32 * unat k)"

text \<open>A write into the array leaves every location outside it.\<close>

lemma array_set_keeps:
  assumes ok: "array_ok table s" and c: "v2_array_slot table k s = Some c" "c \<noteq> 0" and u: "v2_table_set table c v s = Some u"
    and x: "off_array table s x"
  shows "off_array table u x \<and> vals u x = vals s x"
proof -
  from ok obtain tb hp where th: "tables s table = Some tb" "heaps s (table_heap tb) = Some hp" "table_heap tb \<noteq> 0"
      "array_mapped (array_values tb) (unat (array_capacity tb)) s" by (auto simp: array_ok_def)
  from c th(1) have k: "1 \<le> unat k" "unat k \<le> unat (array_capacity tb)" using slot_out by fastforce+
  then have i: "unat k - 1 < unat (array_capacity tb)" by linarith
  have ce: "c = aa (array_values tb) (unat k - 1)" using slot_in [OF th(1) k] c(1) by simp
  then have cv: "vals s c \<noteq> None" using element(3) [OF th(4) i] by simp
  obtain w b e where w: "v2_table_set table c v s = Some w" "vals w = (vals s)(c \<mapsto> v)" "gfields w = gfields s"
      "tables w = (tables s)(table \<mapsto> tb\<lparr>barrier_count := b\<rparr>)"
      "heaps w = (heaps s)(table_heap tb \<mapsto> hp\<lparr>barrier_epoch := e\<rparr>)" "field_frame table hp s w {c}"
    by (rule table_set_spec [OF th(1-3) cv])
  then have "w = u" using u by simp
  moreover have "settled hp x 1" "\<forall>j<unat (array_capacity tb). x \<noteq> aa (array_values tb) j" using x th(1,2) by (auto simp: off_array_def)
  ultimately show ?thesis using w(2,4,5) i ce by (auto simp: off_array_def settled_def)
qed

lemma array_store_spec:
  assumes ok: "array_ok table s" and tb: "tables s table = Some tb" and hp: "heaps s (heap_ptr (inv s)) = Some hp"
    and k: "array_key k"
  obtains (full) "array_store table k v s = Some (False, s)" "array_full table k s"
  | (stored) u where "array_store table k v s = Some (True, u)" "array_ok table u"
      "array_map table u = (array_map table s)(k := v)"
proof (cases rule: array_room [OF ok tb hp k, case_names f i m])
  case f
  then show thesis using full array_key_signed [OF k] tb hp by (simp add: array_store_def array_full_def)
next
  case (i c)
  obtain u where "v2_table_set table c v s = Some u" "array_ok table u" "array_map table u = (array_map table s)(k := v)"
    by (rule array_set_cell [OF ok i(1,2) tb hp])
  then show thesis using stored i(1,2) by (simp add: array_store_def)
next
  case (m t c)
  from m(5) obtain tb' hp' where t: "tables t table = Some tb'" "heaps t (heap_ptr (inv t)) = Some hp'"
    by (auto simp: array_ok_def)
  obtain u where "v2_table_set table c v t = Some u" "array_ok table u" "array_map table u = (array_map table t)(k := v)"
    by (rule array_set_cell [OF m(5,4,3) t])
  then show thesis using stored m(1-4,6) array_key_signed [OF k] by (simp add: array_store_def)
qed

interpretation array: keyed_store "array_map table" "array_store table" "array_ok table" array_key "array_full table" for table
proof
  fix s k v
  assume ok: "array_ok table s" and k: "array_key k"
  then obtain tb hp where th: "tables s table = Some tb" "heaps s (heap_ptr (inv s)) = Some hp"
    by (auto simp: array_ok_def)
  show "\<exists>b t. array_store table k v s = Some (b, t) \<and> array_ok table t"
    by (cases rule: array_store_spec [OF ok th k, of v]) (use ok in auto)
  show "array_map table t = (array_map table s)(k := v)" if "array_store table k v s = Some (True, t)" for t
    using that by (cases rule: array_store_spec [OF ok th k, of v]) auto
  show "t = s \<and> array_full table k s" if "array_store table k v s = Some (False, t)" for t
    using that by (cases rule: array_store_spec [OF ok th k, of v]) auto
qed

lemma array_store_keeps:
  assumes ok: "array_ok table s" and k: "array_key k" and t: "array_store table k v s = Some (b, t)" and x: "off_array table s x"
  shows "off_array table t x \<and> vals t x = vals s x"
proof -
  from ok obtain tb hp where th: "tables s table = Some tb" "heaps s (heap_ptr (inv s)) = Some hp" "table_heap tb = heap_ptr (inv s)"
    by (auto simp: array_ok_def)
  show ?thesis
  proof (cases rule: array_room [OF ok th(1,2) k, case_names f i m])
    case f
    then show ?thesis using t x array_key_signed [OF k] by (simp add: array_store_def)
  next
    case (i c)
    then have "v2_table_set table c v s = Some t" using t by (auto simp: array_store_def bind_eq_Some_conv)
    from array_set_keeps [OF ok i(1,2) this x] show ?thesis .
  next
    case (m u c)
    then have "v2_table_set table c v u = Some t" using t array_key_signed [OF k] by (auto simp: array_store_def bind_eq_Some_conv)
    from array_set_keeps [OF m(5,4,3) this m(9) [OF x]] have "off_array table t x \<and> vals t x = vals u x" .
    moreover have "settled hp x 1" using x th by (auto simp: off_array_def)
    then have "vals u x = vals s x" using m(7) by (simp add: field_frame_def)
    ultimately show ?thesis by simp
  qed
qed

lemma array_map_off:
  assumes "off_array table s x"
  shows "array_map table (s\<lparr>vals := (vals s)(x \<mapsto> v)\<rparr>) = array_map table s"
proof
  fix k
  let ?t = "s\<lparr>vals := (vals s)(x \<mapsto> v)\<rparr>"
  from assms obtain tb where tb: "tables s table = Some tb" and x: "\<And>i. i < unat (array_capacity tb) \<Longrightarrow> x \<noteq> aa (array_values tb) i"
    by (auto simp: off_array_def)
  have tb': "tables ?t table = Some tb" using tb by simp
  show "array_map table ?t k = array_map table s k"
  proof (cases "1 \<le> unat k \<and> unat k \<le> unat (array_capacity tb)")
    case True
    then have "unat k - 1 < unat (array_capacity tb)" by linarith
    then show ?thesis using slot_in [OF tb, of k] slot_in [OF tb', of k] True x by (auto simp: array_map_def)
  next
    case False
    then show ?thesis using array_map_out [OF tb False] array_map_out [OF tb' False] by simp
  qed
qed

lemma off_array_vals [simp]: "off_array table (s\<lparr>vals := m\<rparr>) x = off_array table s x"
  by (simp add: off_array_def)

lemma store_all_keeps:
  assumes "array_ok table s" and "\<forall>(k, v)\<in>set kvs. array_key k" and "store_all (array_store table) kvs s = Some (n, t)"
    and "off_array table s x"
  shows "off_array table t x \<and> vals t x = vals s x"
  using assms
proof (induction kvs arbitrary: s n)
  case (Cons kv kvs)
  obtain k v where kv: "kv = (k, v)" by (cases kv)
  then have k: "array_key k" and ks: "\<forall>(k, v)\<in>set kvs. array_key k" using Cons.prems(2) by auto
  obtain b u where u: "array_store table k v s = Some (b, u)" "array_ok table u" using array.store_returns [OF Cons.prems(1) k] by blast
  note keep = array_store_keeps [OF Cons.prems(1) k u(1) Cons.prems(4)]
  show ?case
  proof (cases b)
    case True
    then obtain n' where "store_all (array_store table) kvs u = Some (n', t)"
      using Cons.prems(3) u(1) kv by (auto simp: bind_eq_Some_conv)
    from Cons.IH [OF u(2) ks this] keep show ?thesis by simp
  next
    case False
    then show ?thesis using Cons.prems(3) u(1) kv keep by simp
  qed
qed simp

subsection \<open>The integer-keyed stencils\<close>

lemma array_map_cong:
  assumes "tables t = tables s" and "vals t = vals s"
  shows "array_map table t = array_map table s"
proof
  fix k :: u64
  have "v2_array_slot table k t = v2_array_slot table k s" using assms(1) by (simp add: v2_array_slot_def)
  then show "array_map table t k = array_map table s k"
    using assms(2) by (cases "v2_array_slot table k s") (simp_all add: array_map_def)
qed

lemma array_slots [simp]:
  "v2_array_slot table k (s\<lparr>slots := m\<rparr>) = v2_array_slot table k s"
  "array_ok table (s\<lparr>slots := m\<rparr>) = array_ok table s"
  "array_map table (s\<lparr>slots := m\<rparr>) = array_map table s"
  "off_array table (s\<lparr>slots := m\<rparr>) = off_array table s"
  by (simp_all add: v2_array_slot_def array_ok_def array_mapped_def array_map_cong [of "s\<lparr>slots := m\<rparr>" s]
      off_array_def fun_eq_iff)

lemma geti_reads:
  assumes "rd_reg (h_receiver_disp h) f s = Some r" and "v2_learn_table r s = Some table" and "table \<noteq> 0"
    and "array_ok table s" and "V2_VALUE_DISP (h_target_disp h) f s = Some d" and "vals s d \<noteq> None"
  shows "lua55_v2_geti h f s = Some (Next f, s\<lparr>vals := (vals s)(d \<mapsto> array_map table s (ucast (h_int_key h)))\<rparr>)"
proof -
  let ?k = "ucast (h_int_key h) :: u64"
  from assms(4) obtain tb where th: "tables s table = Some tb" and m: "array_mapped (array_values tb) (unat (array_capacity tb)) s"
    by (auto simp: array_ok_def)
  show ?thesis
  proof (cases "1 \<le> unat ?k \<and> unat ?k \<le> unat (array_capacity tb)")
    case True
    then have i: "unat ?k - 1 < unat (array_capacity tb)" by linarith
    show ?thesis
      using assms(1-3,5,6) slot_in [OF th, of ?k] True element(2) [OF m i] array_map_in [OF th m, of ?k]
      by (auto simp: lua55_v2_geti_def with_table_def load_cell_def v2_defs)
  next
    case False
    show ?thesis
      using assms(1-3,5,6) slot_out [OF th False] array_map_out [OF th False]
      by (auto simp: lua55_v2_geti_def with_table_def load_cell_def v2_defs)
  qed
qed

lemma seti_stores:
  assumes "learning_ok s" and "rd_reg (h_receiver_disp h) f s = Some r" and "v2_learn_table r s = Some table" and "table \<noteq> 0"
    and "array_ok table s" and "array_key (ucast (h_int_key h))" and "V2_VALUE_DISP (h_source_disp h) f s = Some a"
    and "off_array table s a" and "vals s a = Some v"
  obtains (stored) t where "lua55_v2l_seti h f s = Some (Next f, t)" "array_ok table t"
      "array_map table t = (array_map table s)(ucast (h_int_key h) := v)"
  | (rejected) t where "lua55_v2l_seti h f s = Some (Host_exit (h_host_exit h) f, t)" "array_full table (ucast (h_int_key h)) s"
      "discriminant (outcome (inv t)) = LUA55_V2_OUTCOME_REJECTED" "array_map table t = array_map table s"
proof -
  let ?k = "ucast (h_int_key h) :: u64"
  from assms(5) obtain tb hp where th: "tables s table = Some tb" "heaps s (heap_ptr (inv s)) = Some hp" "table_heap tb = heap_ptr (inv s)"
    by (auto simp: array_ok_def)
  obtain n where n: "v2_learn_write_site table True ?k s = Some (s\<lparr>slots := n\<rparr>)"
    using learn_site_total [OF assms(1) th(1)] by blast
  let ?s = "s\<lparr>slots := n\<rparr>"
  have ths: "array_ok table ?s" "tables ?s table = Some tb" "heaps ?s (heap_ptr (inv ?s)) = Some hp"
    using assms(5) th by simp_all
  have rd: "rd_reg (h_source_disp h) f ?s = Some v" using assms(7,9) by (simp add: rd_reg_def V2_VALUE_DISP_def rd_val_def)
  have body: "lua55_v2l_seti h f s = seti_body reg_source table h f s"
    using assms(2-4) by (simp add: lua55_v2l_seti_def V2_TABLE_WRITE_def with_table_def)
  note pos = array_key_signed [OF assms(6)]
  show thesis
  proof (cases rule: array_room [OF ths assms(6), case_names f i m])
    case f
    then have "lua55_v2l_seti h f s = reject_exit LUA55_V2_REJECT_INVALID_OBJECT h f ?s"
      unfolding body using n pos by (simp add: seti_body_def)
    then have "\<exists>t. lua55_v2l_seti h f s = Some (Host_exit (h_host_exit h) f, t) \<and>
        discriminant (outcome (inv t)) = LUA55_V2_OUTCOME_REJECTED \<and> array_map table t = array_map table s"
      by (auto simp: v2_defs upd_outcome_def upd_inv_def intro!: array_map_cong)
    moreover have "array_full table ?k s" using f(3,4) th by (auto simp: array_full_def)
    ultimately show thesis using rejected by blast
  next
    case (i c)
    obtain u where "v2_table_set table c v ?s = Some u" "array_ok table u"
        "array_map table u = (array_map table ?s)(?k := v)"
      by (rule array_set_cell [OF ths(1) i(1,2) ths(2,3)])
    then show thesis
      using stored n i(1,2) rd unfolding body by (simp add: seti_body_def store_cell_def LUA55_RESIDUAL_NEXT_def)
  next
    case (m t c)
    from m(5) obtain tb' hp' where t: "tables t table = Some tb'" "heaps t (heap_ptr (inv t)) = Some hp'"
      by (auto simp: array_ok_def)
    have "settled hp a 1" using assms(8) th by (auto simp: off_array_def)
    then have "vals t a = Some v" "frames t = frames s" using m(7) assms(9) by (auto simp: field_frame_def)
    then have rdt: "rd_reg (h_source_disp h) f t = Some v"
      using assms(7) by (simp add: rd_reg_def V2_VALUE_DISP_def rd_val_def)
    obtain u where "v2_table_set table c v t = Some u" "array_ok table u" "array_map table u = (array_map table t)(?k := v)"
      by (rule array_set_cell [OF m(5,4,3) t])
    then show thesis
      using stored n m(1-4,6) rdt pos unfolding body by (simp add: seti_body_def store_cell_def LUA55_RESIDUAL_NEXT_def)
  qed
qed

lemma seti_zero:
  assumes "learning_ok s" and "rd_reg (h_receiver_disp h) f s = Some r" and "v2_learn_table r s = Some table" and "table \<noteq> 0"
    and "array_ok table s" and "h_int_key h = 0"
  shows "\<exists>t. lua55_v2l_seti h f s = Some (Host_exit (h_host_exit h) f, t) \<and>
    discriminant (outcome (inv t)) = LUA55_V2_OUTCOME_REJECTED \<and> array_map table t = array_map table s"
proof -
  from assms(5) obtain tb where tb: "tables s table = Some tb" by (auto simp: array_ok_def)
  obtain n where n: "v2_learn_write_site table True 0 s = Some (s\<lparr>slots := n\<rparr>)"
    using learn_site_total [OF assms(1) tb] by blast
  have "v2_array_slot table 0 s = Some 0" by (rule slot_out [OF tb]) simp
  moreover have "\<not> (1 :: u64) \<le>s 0" by (simp add: word_sle_eq)
  ultimately have "lua55_v2l_seti h f s = reject_exit LUA55_V2_REJECT_INVALID_OBJECT h f (s\<lparr>slots := n\<rparr>)"
    using assms(2-4,6) n by (simp add: lua55_v2l_seti_def V2_TABLE_WRITE_def with_table_def seti_body_def)
  then show ?thesis by (auto simp: v2_defs upd_outcome_def upd_inv_def intro!: array_map_cong)
qed

text \<open>
  C10. \<open>GETI\<close> of any index ends, writes the element of its index (nil outside the array part)
  into its target and changes nothing else. \<open>SETI\<close> with an index from 1 to \<open>2 ^ 31\<close> ends: it goes
  on, and that index reads the value of the source register while every other index reads what it
  read, whether or not the array had to be moved; or the index is outside the array, the heap is
  full, the write is rejected and no element changes. With the index 0 it is rejected and no
  element changes.
\<close>

theorem seti_geti_array:
  assumes "learning_ok s" and "rd_reg (h_receiver_disp h) f s = Some r"
    and "v2_learn_table r s = Some table" and "table \<noteq> 0" and "array_ok table s"
    and "V2_VALUE_DISP (h_source_disp h) f s = Some a" and "off_array table s a" and "vals s a = Some v"
    and "V2_VALUE_DISP (h_target_disp h) f s = Some d" and "vals s d \<noteq> None"
  shows "lua55_v2_geti h f s =
      Some (Next f, s\<lparr>vals := (vals s)(d \<mapsto> array_map table s (ucast (h_int_key h)))\<rparr>) \<and>
    (1 \<le> unat (h_int_key h) \<and> unat (h_int_key h) \<le> 2 ^ 31 \<longrightarrow>
      (\<exists>t. lua55_v2l_seti h f s = Some (Next f, t) \<and> array_ok table t \<and>
        array_map table t = (array_map table s)(ucast (h_int_key h) := v)) \<or>
      (\<exists>t. lua55_v2l_seti h f s = Some (Host_exit (h_host_exit h) f, t) \<and>
        array_full table (ucast (h_int_key h)) s \<and>
        discriminant (outcome (inv t)) = LUA55_V2_OUTCOME_REJECTED \<and> array_map table t = array_map table s)) \<and>
    (h_int_key h = 0 \<longrightarrow>
      (\<exists>t. lua55_v2l_seti h f s = Some (Host_exit (h_host_exit h) f, t) \<and>
        discriminant (outcome (inv t)) = LUA55_V2_OUTCOME_REJECTED \<and> array_map table t = array_map table s))"
proof (intro conjI impI)
  show "lua55_v2_geti h f s = Some (Next f, s\<lparr>vals := (vals s)(d \<mapsto> array_map table s (ucast (h_int_key h)))\<rparr>)"
    by (rule geti_reads [OF assms(2-5,9,10)])
  assume "1 \<le> unat (h_int_key h) \<and> unat (h_int_key h) \<le> 2 ^ 31"
  then have "array_key (ucast (h_int_key h))" by (simp add: array_key_def)
  then show "(\<exists>t. lua55_v2l_seti h f s = Some (Next f, t) \<and> array_ok table t \<and>
        array_map table t = (array_map table s)(ucast (h_int_key h) := v)) \<or>
      (\<exists>t. lua55_v2l_seti h f s = Some (Host_exit (h_host_exit h) f, t) \<and>
        array_full table (ucast (h_int_key h)) s \<and>
        discriminant (outcome (inv t)) = LUA55_V2_OUTCOME_REJECTED \<and> array_map table t = array_map table s)"
    by (cases rule: seti_stores [OF assms(1-5) _ assms(6-8)]) simp_all
qed (rule seti_zero [OF assms(1-5)])

text \<open>A table with one array element in register 0; register 1 holds 7; the index is 3.\<close>

definition array_example :: v2_state where
  "array_example = field_example\<lparr>vals := (vals field_example)(0x840 \<mapsto> mk_value 3 1)\<rparr>"

abbreviation array_example_holes :: holes where
  "array_example_holes \<equiv> blank_holes\<lparr>h_int_key := 3, h_source_disp := 0x10, h_target_disp := 0x10\<rparr>"

lemma array_example_facts:
  "learning_ok array_example" "array_ok 0x800 array_example" "off_array 0x800 array_example 0x510"
  "rd_reg 0 0x100 array_example = Some (mk_value 7 0x800)" "v2_learn_table (mk_value 7 0x800) array_example = Some 0x800"
  "V2_VALUE_DISP 0x10 0x100 array_example = Some 0x510" "vals array_example 0x510 = Some (mk_value 3 7)"
  "array_key 3" "\<not> array_full 0x800 3 array_example"
  by (simp_all add: array_example_def field_example_def heap_example_def learning_ok_def array_ok_def off_array_def
      array_mapped_def aa_def heap_fine_def settled_def rd_reg_def V2_VALUE_DISP_def rd_val_def v2_learn_table_def
      mk_value_def array_key_def array_full_def)

theorem seti_geti_array_witness:
  "lua55_v2_geti array_example_holes 0x100 array_example =
     Some (Next 0x100, array_example\<lparr>vals := (vals array_example)(0x510 \<mapsto> array_map 0x800 array_example 3)\<rparr>) \<and>
   (\<exists>t. lua55_v2l_seti array_example_holes 0x100 array_example = Some (Next 0x100, t) \<and>
     array_map 0x800 t = (array_map 0x800 array_example)(3 := mk_value 3 7)) \<and>
   (\<exists>t. lua55_v2l_seti (array_example_holes\<lparr>h_int_key := 0\<rparr>) 0x100 array_example = Some (Host_exit 0 0x100, t) \<and>
     array_map 0x800 t = array_map 0x800 array_example)"
  using seti_geti_array [of array_example array_example_holes "0x100" "mk_value 7 0x800" "0x800" "0x510" "mk_value 3 7" "0x510"]
    seti_geti_array [of array_example "array_example_holes\<lparr>h_int_key := 0\<rparr>" "0x100" "mk_value 7 0x800" "0x800" "0x510" "mk_value 3 7" "0x510"]
  by (auto simp: array_example_facts)

text \<open>
  C9. The array part of a table refines a map from indices. Storing any list of elements at
  indices from 1 to \<open>2 ^ 31\<close> ends, keeps the table well-formed, and leaves it reading as the map
  to which the first \<open>n\<close> elements were added in order; when these are not all of them, the next
  index is outside the array and the heap is full (\<open>array_full\<close>).
\<close>

theorem array_stores_refine_map:
  assumes "array_ok table s" and "\<forall>(k, v)\<in>set kvs. 1 \<le> unat k \<and> unat k \<le> 2 ^ 31"
  shows "\<exists>n t. store_all (array_store table) kvs s = Some (n, t) \<and> n \<le> length kvs \<and> array_ok table t \<and>
    array_map table t = fold upd_binding (take n kvs) (array_map table s) \<and>
    (n < length kvs \<longrightarrow> array_full table (fst (kvs ! n)) t)"
  by (rule array.store_all_spec [OF assms(1)]) (use assms(2) in \<open>simp add: array_key_def\<close>)

theorem array_stores_refine_map_witness:
  "\<exists>t. store_all (array_store 0x800) [(3, mk_value 3 5), (1, mk_value 3 6)] array_example = Some (2, t) \<and>
    array_map 0x800 t = (array_map 0x800 array_example)(3 := mk_value 3 5, 1 := mk_value 3 6)"
proof -
  let ?kvs = "[(3, mk_value 3 5), (1, mk_value 3 6)] :: (u64 \<times> lua_value) list"
  from array_stores_refine_map [of "0x800" array_example ?kvs] obtain n t where
    n: "store_all (array_store 0x800) ?kvs array_example = Some (n, t)" "n \<le> 2" "array_ok 0x800 t"
      "array_map 0x800 t = fold upd_binding (take n ?kvs) (array_map 0x800 array_example)"
      "n < 2 \<longrightarrow> array_full 0x800 (fst (?kvs ! n)) t"
    by (auto simp: array_example_facts)
  have "n \<noteq> 0"
  proof
    assume "n = 0"
    with n(1) have "t = array_example"
      by (intro array.store_all_none [of "0x800" array_example ?kvs]) (simp_all add: array_example_facts array_key_def)
    with n(5) \<open>n = 0\<close> show False by (simp add: array_example_facts)
  qed
  moreover have "n \<noteq> 1"
  proof
    assume one: "n = 1"
    with n(4) have "array_map 0x800 t 3 = mk_value 3 5" by simp
    moreover from n(5) one obtain tb where "tables t 0x800 = Some tb" "unat (array_capacity tb) < 1" by (auto simp: array_full_def)
    ultimately show False using array_map_out [of t "0x800" tb 3] by (simp add: mk_value_def)
  qed
  ultimately have "n = 2" using n(2) by simp
  then show ?thesis using n(1,4) by auto
qed

end
