(* ===== verification/Table_Leaves.thy ===== *)
theory Table_Leaves
  imports Array_Part
begin

text \<open>
  The residual leaves of the table opcodes. A read leaf is selected for a field slot or for the
  tag of the key. A write comes as a pair: the hot leaf stores into a cell that exists and hands
  over to the cold leaf through the grow or create link, and the cold leaf, having made the cell,
  goes on at the resume link. What is stored is a constant of a known tag or a register.
\<close>

subsection \<open>Stores\<close>

text \<open>A store takes the table, the cell, and the occurrence.\<close>

type_synonym store = "u64 \<Rightarrow> u64 \<Rightarrow> holes \<Rightarrow> u64 \<Rightarrow> v2_state \<Rightarrow> v2_state option"

definition V2_STORE_NIL :: store where
  "V2_STORE_NIL table cell h f = wr_val cell (mk_value LUA55_VALUE_NIL 0)"

definition V2_STORE_FALSE :: store where
  "V2_STORE_FALSE table cell h f = wr_val cell (mk_value LUA55_VALUE_FALSE 0)"

definition V2_STORE_TRUE :: store where
  "V2_STORE_TRUE table cell h f = wr_val cell (mk_value LUA55_VALUE_TRUE 0)"

definition V2_STORE_INT :: store where
  "V2_STORE_INT table cell h f = wr_val cell (mk_value LUA55_VALUE_INTEGER (h_const_int h))"

definition V2_STORE_FLT :: store where
  "V2_STORE_FLT table cell h f = wr_val cell (mk_value LUA55_VALUE_FLOAT (h_const_flt h))"

definition V2_STORE_STR :: store where
  "V2_STORE_STR table cell h f = wr_val cell (mk_value (h_const_tag h) (h_const_ref h))"

definition V2_STORE_REG :: store where
  "V2_STORE_REG table cell h f s = do {
     v \<leftarrow> rd_reg (h_source_disp h) f s;
     v2_table_set table cell v s}"

text \<open>A constant store into a register: the table is not used.\<close>

definition V2_LOADK_LEAF :: "store \<Rightarrow> stencil" where
  "V2_LOADK_LEAF store h f s = do {
     target \<leftarrow> V2_VALUE_DISP (h_target_disp h) f s;
     s \<leftarrow> store 0 target h f s;
     LUA55_RESIDUAL_NEXT f s}"

definition lua55_v2r_loadk_nil :: stencil where
  "lua55_v2r_loadk_nil = V2_LOADK_LEAF V2_STORE_NIL"

definition lua55_v2r_loadk_false :: stencil where
  "lua55_v2r_loadk_false = V2_LOADK_LEAF V2_STORE_FALSE"

definition lua55_v2r_loadk_true :: stencil where
  "lua55_v2r_loadk_true = V2_LOADK_LEAF V2_STORE_TRUE"

definition lua55_v2r_loadk_int :: stencil where
  "lua55_v2r_loadk_int = V2_LOADK_LEAF V2_STORE_INT"

definition lua55_v2r_loadk_flt :: stencil where
  "lua55_v2r_loadk_flt = V2_LOADK_LEAF V2_STORE_FLT"

definition lua55_v2r_loadk_str :: stencil where
  "lua55_v2r_loadk_str = V2_LOADK_LEAF V2_STORE_STR"

subsection \<open>Field slots\<close>

definition V2_TABLE_RECEIVER :: "(u64 \<Rightarrow> stencil) \<Rightarrow> stencil" where
  "V2_TABLE_RECEIVER k h f s = do {
     receiver \<leftarrow> rd_reg (h_receiver_disp h) f s;
     with_table receiver k h f s}"

definition V2_FIELD_CAPACITY_GUARD :: "u64 \<Rightarrow> (guest_table \<Rightarrow> stencil) \<Rightarrow> stencil" where
  "V2_FIELD_CAPACITY_GUARD table k h f s = do {
     tb \<leftarrow> tables s table;
     if field_capacity tb \<noteq> h_field_layout_cap h
     then mismatch (h_field_layout_cap h) (field_capacity tb) h f s
     else k tb h f s}"

definition V2_FIELD_SLOT_LOCATION :: "u64 \<Rightarrow> (u64 \<Rightarrow> guest_field \<Rightarrow> stencil) \<Rightarrow> stencil" where
  "V2_FIELD_SLOT_LOCATION table k = V2_FIELD_CAPACITY_GUARD table (\<lambda>tb h f s.
     if field_capacity tb \<le> h_field_slot h then mismatch (h_field_slot h) (field_capacity tb) h f s
     else do {
       let field = field_addr (field_values tb) (h_field_slot h);
       fd \<leftarrow> gfields s field;
       if occupied fd \<noteq> 0 \<and> key_reference fd \<noteq> h_key_ref h
       then mismatch LUA55_VALUE_SHORT_STRING LUA55_VALUE_NIL h f s
       else k field fd h f s})"

text \<open>
  The two leaves of a field read. \<open>receiver_setup\<close> gives the receiver, \<open>object_copy\<close> stores it where
  \<open>SELF\<close> wants it.
\<close>

definition V2_FIELD_READ_SLOT ::
    "(holes \<Rightarrow> u64 \<Rightarrow> v2_state \<Rightarrow> lua_value option) \<Rightarrow>
     (lua_value \<Rightarrow> holes \<Rightarrow> u64 \<Rightarrow> v2_state \<Rightarrow> v2_state option) \<Rightarrow> stencil" where
  "V2_FIELD_READ_SLOT receiver_setup object_copy h f s = do {
     target \<leftarrow> V2_VALUE_DISP (h_target_disp h) f s;
     receiver \<leftarrow> receiver_setup h f s;
     with_table receiver (\<lambda>table h f s. do {
       s \<leftarrow> object_copy receiver h f s;
       V2_FIELD_SLOT_LOCATION table (\<lambda>field fd h f s.
         load_cell target (if occupied fd = 0 then 0 else field + OFFSET_FIELD_VALUE) h f s) h f s}) h f s}"

definition V2_FIELD_READ_MISSING ::
    "(holes \<Rightarrow> u64 \<Rightarrow> v2_state \<Rightarrow> lua_value option) \<Rightarrow>
     (lua_value \<Rightarrow> holes \<Rightarrow> u64 \<Rightarrow> v2_state \<Rightarrow> v2_state option) \<Rightarrow> stencil" where
  "V2_FIELD_READ_MISSING receiver_setup object_copy h f s = do {
     target \<leftarrow> V2_VALUE_DISP (h_target_disp h) f s;
     receiver \<leftarrow> receiver_setup h f s;
     with_table receiver (\<lambda>table h f s. do {
       s \<leftarrow> object_copy receiver h f s;
       V2_FIELD_CAPACITY_GUARD table (\<lambda>tb h f s. do {
         (cell, s) \<leftarrow> v2_find_field table (h_key_ref h) False s;
         load_cell target cell h f s}) h f s}) h f s}"

definition V2_FIELD_RECEIVER_SETUP :: "holes \<Rightarrow> u64 \<Rightarrow> v2_state \<Rightarrow> lua_value option" where
  "V2_FIELD_RECEIVER_SETUP h = rd_reg (h_receiver_disp h)"

definition V2_FIELD_NO_OBJECT :: "lua_value \<Rightarrow> holes \<Rightarrow> u64 \<Rightarrow> v2_state \<Rightarrow> v2_state option" where
  "V2_FIELD_NO_OBJECT receiver h f s = Some s"

definition lua55_v2r_getfield_slot :: stencil where
  "lua55_v2r_getfield_slot = V2_FIELD_READ_SLOT V2_FIELD_RECEIVER_SETUP V2_FIELD_NO_OBJECT"

definition lua55_v2r_getfield_missing :: stencil where
  "lua55_v2r_getfield_missing = V2_FIELD_READ_MISSING V2_FIELD_RECEIVER_SETUP V2_FIELD_NO_OBJECT"

definition V2_FIELD_SELF_SETUP :: "holes \<Rightarrow> u64 \<Rightarrow> v2_state \<Rightarrow> lua_value option" where
  "V2_FIELD_SELF_SETUP h = rd_reg (h_receiver_disp h)"

definition V2_FIELD_SELF_COPY :: "lua_value \<Rightarrow> holes \<Rightarrow> u64 \<Rightarrow> v2_state \<Rightarrow> v2_state option" where
  "V2_FIELD_SELF_COPY receiver h f s = do {
     object \<leftarrow> V2_VALUE_DISP (h_object_disp h) f s;
     wr_val object receiver s}"

definition lua55_v2r_self_slot :: stencil where
  "lua55_v2r_self_slot = V2_FIELD_READ_SLOT V2_FIELD_SELF_SETUP V2_FIELD_SELF_COPY"

definition lua55_v2r_self_missing :: stencil where
  "lua55_v2r_self_missing = V2_FIELD_READ_MISSING V2_FIELD_SELF_SETUP V2_FIELD_SELF_COPY"

definition V2_GETTABUP_SETUP :: "holes \<Rightarrow> u64 \<Rightarrow> v2_state \<Rightarrow> lua_value option" where
  "V2_GETTABUP_SETUP h = rd_upval_at (h_upvalue h)"

definition V2_GETTABUP_NO_OBJECT :: "lua_value \<Rightarrow> holes \<Rightarrow> u64 \<Rightarrow> v2_state \<Rightarrow> v2_state option" where
  "V2_GETTABUP_NO_OBJECT receiver h f s = Some s"

definition lua55_v2r_gettabup_slot :: stencil where
  "lua55_v2r_gettabup_slot = V2_FIELD_READ_SLOT V2_GETTABUP_SETUP V2_GETTABUP_NO_OBJECT"

definition lua55_v2r_gettabup_missing :: stencil where
  "lua55_v2r_gettabup_missing = V2_FIELD_READ_MISSING V2_GETTABUP_SETUP V2_GETTABUP_NO_OBJECT"

subsection \<open>Reads by key\<close>

definition lua55_v2r_gettable_int :: stencil where
  "lua55_v2r_gettable_int h f s = do {
     target \<leftarrow> V2_VALUE_DISP (h_target_disp h) f s;
     receiver \<leftarrow> rd_reg (h_receiver_disp h) f s;
     key \<leftarrow> rd_reg (h_key_disp h) f s;
     if tag key \<noteq> LUA55_VALUE_INTEGER then mismatch LUA55_VALUE_INTEGER (tag key) h f s
     else with_table receiver (\<lambda>table h f s. do {
       cell \<leftarrow> v2_array_slot table (payload key) s;
       load_cell target cell h f s}) h f s}"

definition lua55_v2r_gettable_str :: stencil where
  "lua55_v2r_gettable_str h f s = do {
     target \<leftarrow> V2_VALUE_DISP (h_target_disp h) f s;
     receiver \<leftarrow> rd_reg (h_receiver_disp h) f s;
     key \<leftarrow> rd_reg (h_key_disp h) f s;
     if \<not> v2_is_string_tag (tag key) then mismatch LUA55_VALUE_SHORT_STRING (tag key) h f s
     else with_table receiver (\<lambda>table h f s. do {
       (cell, s) \<leftarrow> v2_find_field table (payload key) False s;
       load_cell target cell h f s}) h f s}"

subsection \<open>Writes by key\<close>

text \<open>Storing and going on, at the successor or at the resume link.\<close>

definition store_next :: "store \<Rightarrow> u64 \<Rightarrow> u64 \<Rightarrow> stencil" where
  "store_next store table cell h f s = do {
     s \<leftarrow> store table cell h f s;
     LUA55_RESIDUAL_NEXT f s}"

definition store_resume :: "store \<Rightarrow> u64 \<Rightarrow> u64 \<Rightarrow> stencil" where
  "store_resume store table cell h f s = do {
     s \<leftarrow> store table cell h f s;
     Some (Jump (h_resume_link h) f, s)}"

text \<open>The array store of the hot and of the cold leaf of an integer key.\<close>

definition hot_array :: "store \<Rightarrow> u64 \<Rightarrow> u64 \<Rightarrow> stencil" where
  "hot_array store table key h f s = do {
     cell \<leftarrow> v2_array_slot table key s;
     if cell \<noteq> 0 then store_next store table cell h f s
     else Some (Jump (h_need_grow_link h) f, s)}"

definition cold_array :: "store \<Rightarrow> u64 \<Rightarrow> u64 \<Rightarrow> stencil" where
  "cold_array store table key h f s =
     (if 1 \<le>s key then do {
        (ok, s) \<leftarrow> v2_grow_array table key s;
        if ok then do {
          cell \<leftarrow> v2_array_slot table key s;
          if cell \<noteq> 0 then store_resume store table cell h f s
          else reject_exit LUA55_V2_REJECT_INVALID_OBJECT h f s}
        else reject_exit LUA55_V2_REJECT_INVALID_OBJECT h f s}
      else reject_exit LUA55_V2_REJECT_INVALID_OBJECT h f s)"

text \<open>The key of \<open>SETTABLE\<close>, refused when its tag is not the one the leaf was selected for.\<close>

definition int_key :: "(u64 \<Rightarrow> stencil) \<Rightarrow> stencil" where
  "int_key k h f s = do {
     key \<leftarrow> rd_reg (h_key_disp h) f s;
     if tag key \<noteq> LUA55_VALUE_INTEGER then mismatch LUA55_VALUE_INTEGER (tag key) h f s
     else k (payload key) h f s}"

definition str_key :: "(u64 \<Rightarrow> stencil) \<Rightarrow> stencil" where
  "str_key k h f s = do {
     key \<leftarrow> rd_reg (h_key_disp h) f s;
     if \<not> v2_is_string_tag (tag key) then mismatch LUA55_VALUE_SHORT_STRING (tag key) h f s
     else k (payload key) h f s}"

definition V2_SETTABLE_INT_HOT :: "store \<Rightarrow> stencil" where
  "V2_SETTABLE_INT_HOT store = V2_TABLE_RECEIVER (\<lambda>table. int_key (hot_array store table))"

definition V2_SETTABLE_INT_COLD :: "store \<Rightarrow> stencil" where
  "V2_SETTABLE_INT_COLD store = V2_TABLE_RECEIVER (\<lambda>table. int_key (cold_array store table))"

definition V2_SETTABLE_STR_HOT :: "store \<Rightarrow> stencil" where
  "V2_SETTABLE_STR_HOT store = V2_TABLE_RECEIVER (\<lambda>table. str_key (\<lambda>key h f s. do {
     (cell, s) \<leftarrow> v2_find_field table key False s;
     if cell \<noteq> 0 then store_next store table cell h f s
     else Some (Jump (h_need_create_link h) f, s)}))"

definition V2_SETTABLE_STR_COLD :: "store \<Rightarrow> stencil" where
  "V2_SETTABLE_STR_COLD store = V2_TABLE_RECEIVER (\<lambda>table. str_key (\<lambda>key h f s. do {
     (cell, s) \<leftarrow> v2_find_field table key True s;
     if cell \<noteq> 0 then store_resume store table cell h f s
     else reject_exit LUA55_V2_REJECT_INVALID_OBJECT h f s}))"

definition V2_SETI_HOT :: "store \<Rightarrow> stencil" where
  "V2_SETI_HOT store = V2_TABLE_RECEIVER (\<lambda>table h. hot_array store table (ucast (h_int_key h)) h)"

definition V2_SETI_COLD :: "store \<Rightarrow> stencil" where
  "V2_SETI_COLD store = V2_TABLE_RECEIVER (\<lambda>table h. cold_array store table (ucast (h_int_key h)) h)"

text \<open>
  The cold leaf of a field store refuses when the field was not made in the recorded slot; the
  vector may have moved by then.
\<close>

definition hot_field :: "store \<Rightarrow> u64 \<Rightarrow> stencil" where
  "hot_field store table = V2_FIELD_SLOT_LOCATION table (\<lambda>field fd h f s.
     if occupied fd \<noteq> 0 then store_next store table (field + OFFSET_FIELD_VALUE) h f s
     else Some (Jump (h_need_create_link h) f, s))"

definition cold_field :: "store \<Rightarrow> u64 \<Rightarrow> stencil" where
  "cold_field store table = V2_FIELD_SLOT_LOCATION table (\<lambda>field fd h f s. do {
     (cell, s) \<leftarrow> (if occupied fd \<noteq> 0 then Some (field + OFFSET_FIELD_VALUE, s)
       else v2_find_field table (h_key_ref h) True s);
     if cell = field + OFFSET_FIELD_VALUE then store_resume store table cell h f s
     else do {
       tb \<leftarrow> tables s table;
       mismatch (h_field_slot h) (field_capacity tb) h f s}})"

definition V2_SETFIELD_HOT :: "store \<Rightarrow> stencil" where
  "V2_SETFIELD_HOT store = V2_TABLE_RECEIVER (hot_field store)"

definition V2_SETFIELD_COLD :: "store \<Rightarrow> stencil" where
  "V2_SETFIELD_COLD store = V2_TABLE_RECEIVER (cold_field store)"

definition lua55_v2r_settable_int_const_nil_inbounds :: stencil where
  "lua55_v2r_settable_int_const_nil_inbounds = V2_SETTABLE_INT_HOT V2_STORE_NIL"

definition lua55_v2r_settable_int_const_nil_grow :: stencil where
  "lua55_v2r_settable_int_const_nil_grow = V2_SETTABLE_INT_COLD V2_STORE_NIL"

definition lua55_v2r_settable_int_const_false_inbounds :: stencil where
  "lua55_v2r_settable_int_const_false_inbounds = V2_SETTABLE_INT_HOT V2_STORE_FALSE"

definition lua55_v2r_settable_int_const_false_grow :: stencil where
  "lua55_v2r_settable_int_const_false_grow = V2_SETTABLE_INT_COLD V2_STORE_FALSE"

definition lua55_v2r_settable_int_const_true_inbounds :: stencil where
  "lua55_v2r_settable_int_const_true_inbounds = V2_SETTABLE_INT_HOT V2_STORE_TRUE"

definition lua55_v2r_settable_int_const_true_grow :: stencil where
  "lua55_v2r_settable_int_const_true_grow = V2_SETTABLE_INT_COLD V2_STORE_TRUE"

definition lua55_v2r_settable_int_const_int_inbounds :: stencil where
  "lua55_v2r_settable_int_const_int_inbounds = V2_SETTABLE_INT_HOT V2_STORE_INT"

definition lua55_v2r_settable_int_const_int_grow :: stencil where
  "lua55_v2r_settable_int_const_int_grow = V2_SETTABLE_INT_COLD V2_STORE_INT"

definition lua55_v2r_settable_int_const_flt_inbounds :: stencil where
  "lua55_v2r_settable_int_const_flt_inbounds = V2_SETTABLE_INT_HOT V2_STORE_FLT"

definition lua55_v2r_settable_int_const_flt_grow :: stencil where
  "lua55_v2r_settable_int_const_flt_grow = V2_SETTABLE_INT_COLD V2_STORE_FLT"

definition lua55_v2r_settable_int_const_str_inbounds :: stencil where
  "lua55_v2r_settable_int_const_str_inbounds = V2_SETTABLE_INT_HOT V2_STORE_STR"

definition lua55_v2r_settable_int_const_str_grow :: stencil where
  "lua55_v2r_settable_int_const_str_grow = V2_SETTABLE_INT_COLD V2_STORE_STR"

definition lua55_v2r_settable_int_reg_inbounds :: stencil where
  "lua55_v2r_settable_int_reg_inbounds = V2_SETTABLE_INT_HOT V2_STORE_REG"

definition lua55_v2r_settable_int_reg_grow :: stencil where
  "lua55_v2r_settable_int_reg_grow = V2_SETTABLE_INT_COLD V2_STORE_REG"

definition lua55_v2r_settable_str_const_nil_existing :: stencil where
  "lua55_v2r_settable_str_const_nil_existing = V2_SETTABLE_STR_HOT V2_STORE_NIL"

definition lua55_v2r_settable_str_const_nil_create :: stencil where
  "lua55_v2r_settable_str_const_nil_create = V2_SETTABLE_STR_COLD V2_STORE_NIL"

definition lua55_v2r_settable_str_const_false_existing :: stencil where
  "lua55_v2r_settable_str_const_false_existing = V2_SETTABLE_STR_HOT V2_STORE_FALSE"

definition lua55_v2r_settable_str_const_false_create :: stencil where
  "lua55_v2r_settable_str_const_false_create = V2_SETTABLE_STR_COLD V2_STORE_FALSE"

definition lua55_v2r_settable_str_const_true_existing :: stencil where
  "lua55_v2r_settable_str_const_true_existing = V2_SETTABLE_STR_HOT V2_STORE_TRUE"

definition lua55_v2r_settable_str_const_true_create :: stencil where
  "lua55_v2r_settable_str_const_true_create = V2_SETTABLE_STR_COLD V2_STORE_TRUE"

definition lua55_v2r_settable_str_const_int_existing :: stencil where
  "lua55_v2r_settable_str_const_int_existing = V2_SETTABLE_STR_HOT V2_STORE_INT"

definition lua55_v2r_settable_str_const_int_create :: stencil where
  "lua55_v2r_settable_str_const_int_create = V2_SETTABLE_STR_COLD V2_STORE_INT"

definition lua55_v2r_settable_str_const_flt_existing :: stencil where
  "lua55_v2r_settable_str_const_flt_existing = V2_SETTABLE_STR_HOT V2_STORE_FLT"

definition lua55_v2r_settable_str_const_flt_create :: stencil where
  "lua55_v2r_settable_str_const_flt_create = V2_SETTABLE_STR_COLD V2_STORE_FLT"

definition lua55_v2r_settable_str_const_str_existing :: stencil where
  "lua55_v2r_settable_str_const_str_existing = V2_SETTABLE_STR_HOT V2_STORE_STR"

definition lua55_v2r_settable_str_const_str_create :: stencil where
  "lua55_v2r_settable_str_const_str_create = V2_SETTABLE_STR_COLD V2_STORE_STR"

definition lua55_v2r_settable_str_reg_existing :: stencil where
  "lua55_v2r_settable_str_reg_existing = V2_SETTABLE_STR_HOT V2_STORE_REG"

definition lua55_v2r_settable_str_reg_create :: stencil where
  "lua55_v2r_settable_str_reg_create = V2_SETTABLE_STR_COLD V2_STORE_REG"

definition lua55_v2r_seti_const_nil_inbounds :: stencil where
  "lua55_v2r_seti_const_nil_inbounds = V2_SETI_HOT V2_STORE_NIL"

definition lua55_v2r_seti_const_nil_grow :: stencil where
  "lua55_v2r_seti_const_nil_grow = V2_SETI_COLD V2_STORE_NIL"

definition lua55_v2r_seti_const_false_inbounds :: stencil where
  "lua55_v2r_seti_const_false_inbounds = V2_SETI_HOT V2_STORE_FALSE"

definition lua55_v2r_seti_const_false_grow :: stencil where
  "lua55_v2r_seti_const_false_grow = V2_SETI_COLD V2_STORE_FALSE"

definition lua55_v2r_seti_const_true_inbounds :: stencil where
  "lua55_v2r_seti_const_true_inbounds = V2_SETI_HOT V2_STORE_TRUE"

definition lua55_v2r_seti_const_true_grow :: stencil where
  "lua55_v2r_seti_const_true_grow = V2_SETI_COLD V2_STORE_TRUE"

definition lua55_v2r_seti_const_int_inbounds :: stencil where
  "lua55_v2r_seti_const_int_inbounds = V2_SETI_HOT V2_STORE_INT"

definition lua55_v2r_seti_const_int_grow :: stencil where
  "lua55_v2r_seti_const_int_grow = V2_SETI_COLD V2_STORE_INT"

definition lua55_v2r_seti_const_flt_inbounds :: stencil where
  "lua55_v2r_seti_const_flt_inbounds = V2_SETI_HOT V2_STORE_FLT"

definition lua55_v2r_seti_const_flt_grow :: stencil where
  "lua55_v2r_seti_const_flt_grow = V2_SETI_COLD V2_STORE_FLT"

definition lua55_v2r_seti_const_str_inbounds :: stencil where
  "lua55_v2r_seti_const_str_inbounds = V2_SETI_HOT V2_STORE_STR"

definition lua55_v2r_seti_const_str_grow :: stencil where
  "lua55_v2r_seti_const_str_grow = V2_SETI_COLD V2_STORE_STR"

definition lua55_v2r_seti_reg_inbounds :: stencil where
  "lua55_v2r_seti_reg_inbounds = V2_SETI_HOT V2_STORE_REG"

definition lua55_v2r_seti_reg_grow :: stencil where
  "lua55_v2r_seti_reg_grow = V2_SETI_COLD V2_STORE_REG"

definition lua55_v2r_setfield_const_nil_existing :: stencil where
  "lua55_v2r_setfield_const_nil_existing = V2_SETFIELD_HOT V2_STORE_NIL"

definition lua55_v2r_setfield_const_nil_create :: stencil where
  "lua55_v2r_setfield_const_nil_create = V2_SETFIELD_COLD V2_STORE_NIL"

definition lua55_v2r_setfield_const_false_existing :: stencil where
  "lua55_v2r_setfield_const_false_existing = V2_SETFIELD_HOT V2_STORE_FALSE"

definition lua55_v2r_setfield_const_false_create :: stencil where
  "lua55_v2r_setfield_const_false_create = V2_SETFIELD_COLD V2_STORE_FALSE"

definition lua55_v2r_setfield_const_true_existing :: stencil where
  "lua55_v2r_setfield_const_true_existing = V2_SETFIELD_HOT V2_STORE_TRUE"

definition lua55_v2r_setfield_const_true_create :: stencil where
  "lua55_v2r_setfield_const_true_create = V2_SETFIELD_COLD V2_STORE_TRUE"

definition lua55_v2r_setfield_const_int_existing :: stencil where
  "lua55_v2r_setfield_const_int_existing = V2_SETFIELD_HOT V2_STORE_INT"

definition lua55_v2r_setfield_const_int_create :: stencil where
  "lua55_v2r_setfield_const_int_create = V2_SETFIELD_COLD V2_STORE_INT"

definition lua55_v2r_setfield_const_flt_existing :: stencil where
  "lua55_v2r_setfield_const_flt_existing = V2_SETFIELD_HOT V2_STORE_FLT"

definition lua55_v2r_setfield_const_flt_create :: stencil where
  "lua55_v2r_setfield_const_flt_create = V2_SETFIELD_COLD V2_STORE_FLT"

definition lua55_v2r_setfield_const_str_existing :: stencil where
  "lua55_v2r_setfield_const_str_existing = V2_SETFIELD_HOT V2_STORE_STR"

definition lua55_v2r_setfield_const_str_create :: stencil where
  "lua55_v2r_setfield_const_str_create = V2_SETFIELD_COLD V2_STORE_STR"

definition lua55_v2r_setfield_reg_existing :: stencil where
  "lua55_v2r_setfield_reg_existing = V2_SETFIELD_HOT V2_STORE_REG"

definition lua55_v2r_setfield_reg_create :: stencil where
  "lua55_v2r_setfield_reg_create = V2_SETFIELD_COLD V2_STORE_REG"

subsection \<open>SETTABUP\<close>

definition settabup_receiver :: "(u64 \<Rightarrow> stencil) \<Rightarrow> stencil" where
  "settabup_receiver k h f s = do {
     v \<leftarrow> rd_upval_at (h_upvalue h) f s;
     with_table v k h f s}"

definition lua55_v2r_settabup_existing :: stencil where
  "lua55_v2r_settabup_existing = settabup_receiver (hot_field V2_STORE_REG)"

definition lua55_v2r_settabup_create :: stencil where
  "lua55_v2r_settabup_create = settabup_receiver (cold_field V2_STORE_REG)"

text \<open>The two leaves of a constant.\<close>

definition V2_SETTABUP_CONST_LEAF :: "(store \<Rightarrow> u64 \<Rightarrow> stencil) \<Rightarrow> store \<Rightarrow> stencil" where
  "V2_SETTABUP_CONST_LEAF part store = settabup_receiver (part store)"

definition lua55_v2r_settabup_const_nil_existing :: stencil where
  "lua55_v2r_settabup_const_nil_existing = V2_SETTABUP_CONST_LEAF hot_field V2_STORE_NIL"

definition lua55_v2r_settabup_const_nil_create :: stencil where
  "lua55_v2r_settabup_const_nil_create = V2_SETTABUP_CONST_LEAF cold_field V2_STORE_NIL"

definition lua55_v2r_settabup_const_false_existing :: stencil where
  "lua55_v2r_settabup_const_false_existing = V2_SETTABUP_CONST_LEAF hot_field V2_STORE_FALSE"

definition lua55_v2r_settabup_const_false_create :: stencil where
  "lua55_v2r_settabup_const_false_create = V2_SETTABUP_CONST_LEAF cold_field V2_STORE_FALSE"

definition lua55_v2r_settabup_const_true_existing :: stencil where
  "lua55_v2r_settabup_const_true_existing = V2_SETTABUP_CONST_LEAF hot_field V2_STORE_TRUE"

definition lua55_v2r_settabup_const_true_create :: stencil where
  "lua55_v2r_settabup_const_true_create = V2_SETTABUP_CONST_LEAF cold_field V2_STORE_TRUE"

definition lua55_v2r_settabup_const_int_existing :: stencil where
  "lua55_v2r_settabup_const_int_existing = V2_SETTABUP_CONST_LEAF hot_field V2_STORE_INT"

definition lua55_v2r_settabup_const_int_create :: stencil where
  "lua55_v2r_settabup_const_int_create = V2_SETTABUP_CONST_LEAF cold_field V2_STORE_INT"

definition lua55_v2r_settabup_const_flt_existing :: stencil where
  "lua55_v2r_settabup_const_flt_existing = V2_SETTABUP_CONST_LEAF hot_field V2_STORE_FLT"

definition lua55_v2r_settabup_const_flt_create :: stencil where
  "lua55_v2r_settabup_const_flt_create = V2_SETTABUP_CONST_LEAF cold_field V2_STORE_FLT"

definition lua55_v2r_settabup_const_str_existing :: stencil where
  "lua55_v2r_settabup_const_str_existing = V2_SETTABUP_CONST_LEAF hot_field V2_STORE_STR"

definition lua55_v2r_settabup_const_str_create :: stencil where
  "lua55_v2r_settabup_const_str_create = V2_SETTABUP_CONST_LEAF cold_field V2_STORE_STR"

subsection \<open>SETLIST\<close>

text \<open>
  The capacity check, which hands over to the growing leaf, and one fragment per element behind it.
  A fragment takes the table from its register without looking at the tag.
\<close>

definition setlist_receiver :: "(u64 \<Rightarrow> u64 \<Rightarrow> stencil) \<Rightarrow> stencil" where
  "setlist_receiver k h f s = do {
     base \<leftarrow> V2_VALUE_DISP (h_base_disp h) f s;
     receiver \<leftarrow> rd_val base s;
     with_table receiver (\<lambda>table h f s.
       if h_setlist_count h = 0 then reject_exit LUA55_V2_REJECT_INVALID_OBJECT h f s
       else k table (ucast (h_setlist_key h) + ucast (h_setlist_count h)) h f s) h f s}"

definition lua55_v2r_setlist_inbounds :: stencil where
  "lua55_v2r_setlist_inbounds = setlist_receiver (\<lambda>table needed h f s. do {
     tb \<leftarrow> tables s table;
     if needed > ucast (array_capacity tb) then Some (Jump (h_need_grow_link h) f, s)
     else LUA55_RESIDUAL_NEXT f s})"

definition lua55_v2r_setlist_grow :: stencil where
  "lua55_v2r_setlist_grow = setlist_receiver (\<lambda>table needed h f s. do {
     (ok, s) \<leftarrow> v2_grow_array table needed s;
     if \<not> ok then overflow_exit LUA55_V2_OUTCOME_HEAP_OVERFLOW 0 0 h f s
     else Some (Jump (h_resume_link h) f, s)})"

definition lua55_v2r_setlist_slot :: stencil where
  "lua55_v2r_setlist_slot h f s = do {
     base \<leftarrow> rd_reg (h_base_disp h) f s;
     let table = payload base;
     tb \<leftarrow> tables s table;
     v \<leftarrow> rd_reg (h_source_disp h) f s;
     s \<leftarrow> v2_table_set table (V2_VALUE_BASE_DISP (array_values tb) (h_array_disp h)) v s;
     LUA55_RESIDUAL_NEXT f s}"

end
