(* ===== verification/Table_Residuals.thy ===== *)
theory Table_Residuals
  imports Table_Leaves
begin

text \<open>
  What the residual leaves of the table opcodes do. A write pair (hot leaf, cold leaf behind its
  grow or create link) meets the contract of a residual leaf for the learner; the field-slot
  leaves are the learner when the recorded slot holds the key, and read nil when the slot is
  vacant and the key lives elsewhere.
\<close>

subsection \<open>Learning in the middle of the work\<close>

text \<open>
  The write learners record while they work. \<open>sheds l r s\<close>: from \<open>s\<close>, \<open>r\<close> without the learning region
  does what \<open>l\<close> does with it.
\<close>

definition sheds :: "(v2_state \<Rightarrow> ('a \<times> v2_state) option) \<Rightarrow> (v2_state \<Rightarrow> ('a \<times> v2_state) option) \<Rightarrow>
    v2_state \<Rightarrow> bool" where
  "sheds l r s \<longleftrightarrow>
     (\<forall>c u. l s = Some (c, u) \<longrightarrow> r (forget s) = Some (c, forget u)) \<and>
     (learning_ok s \<longrightarrow> (\<forall>x. r (forget s) = Some x \<longrightarrow>
       (\<exists>c u. l s = Some (c, u) \<and> x = (c, forget u) \<and> learning_ok u)))"

lemma sheds_forgetful: "forgetful g \<Longrightarrow> sheds g g s"
  unfolding forgetful_def sheds_def by fastforce

lemma sheds_bind:
  assumes "sheds g g' s" and "\<And>x u. g s = Some (x, u) \<Longrightarrow> sheds (k x) (k' x) u"
  shows "sheds (\<lambda>s. g s \<bind> (\<lambda>(x, s). k x s)) (\<lambda>s. g' s \<bind> (\<lambda>(x, s). k' x s)) s"
proof (cases "g s")
  case None
  with assms(1) show ?thesis by (auto simp: sheds_def bind_eq_Some_conv)
next
  case (Some r)
  obtain x u where r: "r = (x, u)" by (cases r)
  note e = assms(1) [unfolded sheds_def]
  have d: "g' (forget s) = Some (x, forget u)" using conjunct1 [OF e] Some r by blast
  have "learning_ok u" if "learning_ok s" using conjunct2 [OF e] that d Some r by fastforce
  with d assms(2) [of x u] Some r show ?thesis unfolding sheds_def by simp
qed

lemma sheds_read:
  assumes "r (forget s) = r s" and "\<And>x. r s = Some x \<Longrightarrow> sheds (k x) (k' x) s"
  shows "sheds (\<lambda>s. r s \<bind> (\<lambda>x. k x s)) (\<lambda>s. r s \<bind> (\<lambda>x. k' x s)) s"
  using assms unfolding sheds_def by (cases "r s") auto

lemma sheds_if:
  "(c \<Longrightarrow> sheds a a' s) \<Longrightarrow> (\<not> c \<Longrightarrow> sheds b b' s) \<Longrightarrow>
    sheds (\<lambda>s. if c then a s else b s) (\<lambda>s. if c then a' s else b' s) s"
  by (cases c) simp_all

text \<open>A recording step that the retained image leaves out.\<close>

definition records_only :: "(v2_state \<Rightarrow> v2_state option) \<Rightarrow> v2_state \<Rightarrow> bool" where
  "records_only g s \<longleftrightarrow> (\<forall>u. g s = Some u \<longrightarrow> forget u = forget s) \<and>
     (learning_ok s \<longrightarrow> (\<exists>u. g s = Some u \<and> learning_ok u))"

lemma sheds_record:
  assumes "records_only g s" and "\<And>u. g s = Some u \<Longrightarrow> sheds k k' u"
  shows "sheds (\<lambda>s. g s \<bind> k) k' s"
proof (cases "g s")
  case None
  with assms(1) show ?thesis by (simp add: sheds_def records_only_def)
next
  case (Some u)
  with assms(1) have "forget u = forget s" "learning_ok s \<Longrightarrow> learning_ok u" by (auto simp: records_only_def)
  with assms(2) [OF Some] Some show ?thesis by (simp add: sheds_def)
qed

lemma records_learn_at: "records_only (learn_at i g) s"
  unfolding records_only_def using learn_at_forget learn_at_cases by metis

lemma records_key_tag: "records_only (v2_learn_key_tag i t) s"
  by (simp add: v2_learn_key_tag_def records_learn_at)

lemma records_location: "tables s table \<noteq> None \<Longrightarrow> records_only (v2_learn_field_location i table c) s"
  using records_learn_at by (auto simp: v2_learn_field_location_def records_only_def)

lemma records_site:
  assumes "tables s table \<noteq> None"
  shows "records_only (v2_learn_write_site table b k) s"
proof -
  from assms obtain tb where "tables s table = Some tb" by blast
  then show ?thesis
    using records_learn_at [of "site_id tb" "observe_site b k" s]
    by (simp add: v2_learn_write_site_def records_only_def)
qed

subsection \<open>Table helpers without the learning region\<close>

lemma forget_inv [simp]:
  "heap_ptr (inv (forget s)) = heap_ptr (inv s)" "function_count (inv (forget s)) = function_count (inv s)"
  by (simp_all add: forget_def)

lemma learn_table_forget [simp]: "v2_learn_table r (forget s) = v2_learn_table r s"
  by (simp add: v2_learn_table_def Let_def cong: if_cong)

lemma array_slot_forget [simp]: "v2_array_slot table k (forget s) = v2_array_slot table k s"
  by (simp add: v2_array_slot_def)

lemma rd_reg_forget [simp]: "rd_reg d f (forget s) = rd_reg d f s"
  by (simp add: rd_reg_def rd_val_def)

lemma rd_upval_forget [simp]: "rd_upval_at i f (forget s) = rd_upval_at i f s"
  by (simp add: rd_upval_at_def rd_ptr_at_def cell_location_def rd_val_def)

lemma scan_fields_forget [simp]: "scan_fields fv key i n vac (forget s) = scan_fields fv key i n vac s"
  by (induction n arbitrary: i vac) (simp_all add: Let_def cong: if_cong)

lemma forget_field_upd [simp]:
  "forget (s\<lparr>tables := t\<rparr>) = (forget s)\<lparr>tables := t\<rparr>" "forget (s\<lparr>heaps := hs\<rparr>) = (forget s)\<lparr>heaps := hs\<rparr>"
  "forget (s\<lparr>gfields := g\<rparr>) = (forget s)\<lparr>gfields := g\<rparr>"
  by (simp_all add: forget_def)

lemma learning_ok_field_upd [simp]:
  "learning_ok (s\<lparr>tables := t\<rparr>) = learning_ok s" "learning_ok (s\<lparr>heaps := hs\<rparr>) = learning_ok s"
  "learning_ok (s\<lparr>gfields := g\<rparr>) = learning_ok s"
  by (simp_all add: learning_ok_def)

lemma upd_table_blind [v2_blind]: "blind (upd_table table g)"
  by (simp add: blind_def upd_table_def split: Option.bind_splits)

lemma heap_bump_forgetful [v2_blind]: "forgetful (v2_heap_bump heap n)"
  by (simp add: forgetful_def v2_heap_bump_def Let_def split: Option.bind_splits)

lemma copy_array_blind [v2_blind]: "blind (copy_array dst src i n)"
proof (induction n arbitrary: i)
  case (Suc n)
  then show ?case
    by (simp add: blind_def rd_val_def split: Option.bind_splits) (metis forget_sel(1) forget_upd(1) learning_ok_upd)
qed (simp add: blind_def)

lemma blank_array_forget [simp]:
  "blank_array dst i n (forget s) = forget (blank_array dst i n s)"
  "learning_ok (blank_array dst i n s) = learning_ok s"
  by (induction n arbitrary: i s) (simp_all flip: forget_upd)

lemma copy_fields_blind [v2_blind]: "blind (copy_fields dst fv i n)"
proof (induction n arbitrary: i)
  case (Suc n)
  have "blind (\<lambda>s. gfields s (field_addr fv i) \<bind> (\<lambda>fd. vals s (field_addr fv i + OFFSET_FIELD_VALUE) \<bind> (\<lambda>v.
      copy_fields dst fv (i + 1) n (s\<lparr>gfields := (gfields s)(field_addr dst i \<mapsto> fd),
        vals := (vals s)(field_addr dst i + OFFSET_FIELD_VALUE \<mapsto> v)\<rparr>))))"
    using Suc [of "i + 1"] unfolding blind_def
    by (auto split: Option.bind_splits simp flip: forget_upd forget_field_upd)
  then show ?case by (simp add: blind_def)
qed (simp add: blind_def)

lemma blank_fields_forget [simp]:
  "blank_fields dst i n (forget s) = forget (blank_fields dst i n s)"
  "learning_ok (blank_fields dst i n s) = learning_ok s"
  by (induction n arbitrary: i s) (simp_all flip: forget_upd forget_field_upd)

lemma blind_pure [v2_blind]:
  "blind (\<lambda>s. Some (blank_array dst i n s))" "blind (\<lambda>s. Some (blank_fields dst i n s))"
  by (simp_all add: blind_def)

lemma forgetful_view:
  assumes "\<And>s. r (forget s) = r s" and "\<And>x. forgetful (g x)"
  shows "forgetful (\<lambda>s. g (r s) s)"
  using assms by (auto simp: forgetful_def)

lemma forgetful_given: "(\<And>x. forgetful (k x)) \<Longrightarrow> forgetful (\<lambda>s. r \<bind> (\<lambda>x. k x s))"
  by (cases r) (simp_all add: forgetful_def)

lemma grow_array_forgetful [v2_blind]: "forgetful (v2_grow_array table k)"
proof -
  have "forgetful (\<lambda>s. v2_heap_bump hp n s \<bind> (\<lambda>(at, s). if at = 0 then Some (False, s)
      else do {
        s \<leftarrow> copy_array at src 0 c s;
        s \<leftarrow> Some (blank_array at cap m s);
        s \<leftarrow> upd_table table (g at) s;
        Some (True, s)}))" for hp n src c cap m g
    by (intro v2_blind)
  note b = forgetful_view [where r = "\<lambda>s. heap_ptr (inv s)", OF forget_inv(1) this]
  show ?thesis
    unfolding v2_grow_array_def Let_def 
    by (rule forgetful_read [where r = "\<lambda>s. tables s table"], simp, rule forgetful_given, rule b)
qed

lemma claim_field_blind [v2_blind]: "blind (claim_field table vac key)"
proof -
  have "blind (\<lambda>s. Some (s\<lparr>gfields := (gfields s)(a \<mapsto> d)\<rparr>))" for a d by (simp add: blind_def)
  then show ?thesis unfolding claim_field_def by (intro v2_blind)
qed

lemma grow_fields_forgetful [v2_blind]: "forgetful (grow_fields table)"
  unfolding grow_fields_def Let_def by (intro v2_blind forgetful_read) simp_all

lemma table_set_blind [v2_blind]: "blind (v2_table_set table cell v)"
proof -
  have e: "blind (\<lambda>s. heaps s hp \<bind> (\<lambda>x. Some (s\<lparr>heaps := (heaps s)(hp \<mapsto> g x)\<rparr>)))" for hp g
    by (simp add: blind_def split: Option.bind_splits)
  show ?thesis
    unfolding v2_table_set_def by (intro v2_blind blind_read e) simp_all
qed

text \<open>The field search, which may grow the vector any number of times.\<close>

lemma find_field_down:
  assumes "v2_find_field table key create s = Some r"
  shows "v2_find_field table key create (forget s) = Some (fst r, forget (snd r)) \<and>
    (learning_ok s \<longrightarrow> learning_ok (snd r))"
  using assms
proof (induction rule: v2_find_field.raw_induct [rotated 1, consumes 1])
  case (1 g table key create s r)
  note c = claim_field_blind [unfolded blind_def, rule_format] and w = grow_fields_forgetful [unfolded forgetful_def, rule_format]
  from 1(2) obtain tb found vac where t: "tables s table = Some tb"
      "scan_fields (field_values tb) key 0 (unat (field_capacity tb)) 0 s = Some (found, vac)"
    by (auto simp: bind_eq_Some_conv)
  consider "found \<noteq> 0 \<or> \<not> create" | "found = 0" "create" "vac \<noteq> 0" | "found = 0" "create" "vac = 0" by blast
  then show ?case
  proof cases
    case 1
    with \<open>_ = Some r\<close> t show ?thesis by (subst v2_find_field.simps) auto
  next
    case 2
    with \<open>_ = Some r\<close> t obtain u where "claim_field table vac key s = Some u" "r = (vac + OFFSET_FIELD_VALUE, u)"
      by (auto simp: bind_eq_Some_conv)
    with 2 t c [of table vac key s] show ?thesis by (subst v2_find_field.simps) auto
  next
    case 3
    with \<open>_ = Some r\<close> t obtain ok u where u: "grow_fields table s = Some (ok, u)"
        "(if ok then g table key create u else Some (0, u)) = Some r"
      by (auto simp: bind_eq_Some_conv)
    have l: "learning_ok s \<Longrightarrow> learning_ok u" using u(1) w [of table s] by auto
    show ?thesis
    proof (cases ok)
      case True
      with u(2) have "g table key create u = Some r" by simp
      from \<open>\<And>table key create s r. g table key create s = Some r \<Longrightarrow> _\<close> [OF this] True u w [of table s] 3 t l
      show ?thesis by (subst v2_find_field.simps) auto
    next
      case False
      with u w [of table s] 3 t l show ?thesis by (subst v2_find_field.simps) auto
    qed
  qed
qed

lemma find_field_up:
  assumes "v2_find_field table key create t = Some r"
  shows "\<forall>s. t = forget s \<longrightarrow> (\<exists>u. v2_find_field table key create s = Some (fst r, u) \<and> snd r = forget u)"
  using assms
proof (induction rule: v2_find_field.raw_induct [rotated 1, consumes 1])
  case (1 g table key create t r)
  note c = claim_field_blind [unfolded blind_def, rule_format] and w = grow_fields_forgetful [unfolded forgetful_def, rule_format]
  show ?case
  proof (intro allI impI)
    fix s
    assume ts: "t = forget s"
    with 1(2) obtain tb found vac where t: "tables s table = Some tb"
        "scan_fields (field_values tb) key 0 (unat (field_capacity tb)) 0 s = Some (found, vac)"
      by (auto simp: bind_eq_Some_conv)
    consider "found \<noteq> 0 \<or> \<not> create" | "found = 0" "create" "vac \<noteq> 0" | "found = 0" "create" "vac = 0" by blast
    then show "\<exists>u. v2_find_field table key create s = Some (fst r, u) \<and> snd r = forget u"
    proof cases
      case 1
      with \<open>_ = Some r\<close> t ts show ?thesis by (subst v2_find_field.simps) auto
    next
      case 2
      with \<open>_ = Some r\<close> t ts c [of table vac key s] show ?thesis
        by (subst v2_find_field.simps) (auto simp: bind_eq_Some_conv)
    next
      case 3
      with \<open>_ = Some r\<close> t ts w [of table s] obtain ok u where u: "grow_fields table s = Some (ok, u)"
          "(if ok then g table key create (forget u) else Some (0, forget u)) = Some r"
        by (auto simp: bind_eq_Some_conv)
      show ?thesis
      proof (cases ok)
        case True
        with u(2) have "g table key create (forget u) = Some r" by simp
        from \<open>\<And>table key create s r. g table key create s = Some r \<Longrightarrow> _\<close> [OF this] True u 3 t
        show ?thesis by (subst v2_find_field.simps) auto
      qed (use u 3 t in \<open>subst v2_find_field.simps, auto\<close>)
    qed
  qed
qed

lemma find_field_forgetful [v2_blind]: "forgetful (v2_find_field table key create)"
  unfolding forgetful_def
proof (intro allI conjI impI)
  fix s
  show "v2_find_field table key create (forget s) = map_option (map_prod id forget) (v2_find_field table key create s)"
  proof (cases "v2_find_field table key create s")
    case None
    then show ?thesis using find_field_up [of table key create "forget s"]
      by (cases "v2_find_field table key create (forget s)") auto
  next
    case (Some r)
    then show ?thesis using find_field_down [OF Some] by (cases r) simp
  qed
  fix x u
  assume "v2_find_field table key create s = Some (x, u)" "learning_ok s"
  then show "learning_ok u" using find_field_down by fastforce
qed

text \<open>A table that exists goes on existing.\<close>

lemma copy_array_tables: "copy_array dst src i n s = Some u \<Longrightarrow> tables u = tables s"
  by (induction n arbitrary: i s) (auto simp: bind_eq_Some_conv)

lemma copy_fields_tables: "copy_fields dst fv i n s = Some u \<Longrightarrow> tables u = tables s"
  by (induction n arbitrary: i s) (auto simp: bind_eq_Some_conv)

lemma blank_tables [simp]: "tables (blank_array dst i n s) = tables s" "tables (blank_fields dst i n s) = tables s"
  by (induction n arbitrary: i s) simp_all

lemma bump_tables: "v2_heap_bump heap n s = Some (a, u) \<Longrightarrow> tables u = tables s"
  by (cases "heaps s heap") (auto simp: v2_heap_bump_def Let_def split: if_split_asm)

lemma grow_array_tables: "v2_grow_array table k s = Some (ok, u) \<Longrightarrow> tables u table \<noteq> None"
  by (fastforce simp: v2_grow_array_def Let_def bind_eq_Some_conv upd_table_def
      dest!: bump_tables copy_array_tables split: if_splits)

lemma grow_fields_tables: "grow_fields table s = Some (ok, u) \<Longrightarrow> tables u table \<noteq> None"
  by (fastforce simp: grow_fields_def Let_def bind_eq_Some_conv upd_table_def
      dest!: bump_tables copy_fields_tables split: if_splits)

lemma claim_field_tables: "claim_field table vac key s = Some u \<Longrightarrow> tables u table \<noteq> None"
  by (auto simp: claim_field_def bind_eq_Some_conv upd_table_def)

lemma find_field_tables:
  assumes "v2_find_field table key create s = Some r"
  shows "tables (snd r) table \<noteq> None"
  using assms
  by (induction rule: v2_find_field.raw_induct [rotated 1, consumes 1])
    (auto simp: bind_eq_Some_conv dest!: claim_field_tables grow_fields_tables split: if_splits)

subsection \<open>Write pairs\<close>

text \<open>
  A hot leaf with its cold leaf behind it: a jump through \<open>link\<close> runs the cold leaf, whose resume
  link is the successor of the occurrence.
\<close>

definition run_pair :: "(holes \<Rightarrow> u64) \<Rightarrow> stencil \<Rightarrow> stencil \<Rightarrow> stencil" where
  "run_pair link hot cold h f s = (case hot h f s of
     Some (Jump e g, t) \<Rightarrow>
       if e \<noteq> link h then Some (Jump e g, t)
       else (case cold h g t of
         Some (Jump e' g', u) \<Rightarrow> Some (if e' = h_resume_link h then Next g' else Jump e' g', u)
       | r \<Rightarrow> r)
   | r \<Rightarrow> r)"

definition links_apart :: "(holes \<Rightarrow> u64) \<Rightarrow> holes \<Rightarrow> bool" where
  "links_apart link h \<longleftrightarrow> link h \<noteq> h_mismatch_exit h \<and> h_resume_link h \<noteq> h_mismatch_exit h"

text \<open>What a pair does as a whole.\<close>

definition array_write :: "store \<Rightarrow> u64 \<Rightarrow> u64 \<Rightarrow> stencil" where
  "array_write store table k h f s = do {
     cell \<leftarrow> v2_array_slot table k s;
     (cell, s) \<leftarrow> (if cell = 0 \<and> 1 \<le>s k then do {
         (ok, s) \<leftarrow> v2_grow_array table k s;
         if ok then do {cell \<leftarrow> v2_array_slot table k s; Some (cell, s)} else Some (0, s)}
       else Some (cell, s));
     if cell = 0 then reject_exit LUA55_V2_REJECT_INVALID_OBJECT h f s
     else store_next store table cell h f s}"

definition field_write :: "store \<Rightarrow> u64 \<Rightarrow> u64 \<Rightarrow> stencil" where
  "field_write store table k h f s = do {
     (cell, s) \<leftarrow> v2_find_field table k True s;
     if cell = 0 then reject_exit LUA55_V2_REJECT_INVALID_OBJECT h f s
     else store_next store table cell h f s}"

lemma mismatch_jumps: "mismatch a b h f s = Some (Jump (h_mismatch_exit h) f, V2_SPEC_MISMATCH a b h s)"
  by (simp add: mismatch_def V2_SPECIALIZATION_MISMATCH_EXIT_def)

lemma reject_halts: "reject_exit k h f s = Some (Host_exit (h_host_exit h) f, V2_REJECT k h s)"
  by (simp add: reject_exit_def LUA55_CPS_HOST_EXIT_def)

lemma store_next_Some: "store_next store table cell h f s = Some r \<Longrightarrow> \<exists>u. r = (Next f, u)"
  by (auto simp: store_next_def LUA55_RESIDUAL_NEXT_def bind_eq_Some_conv)

lemma store_resume_next:
  "store_resume store table cell h f s = map_option (\<lambda>(c, u). (Jump (h_resume_link h) f, u)) (store_next store table cell h f s)"
  by (cases "store table cell h f s") (simp_all add: store_resume_def store_next_def LUA55_RESIDUAL_NEXT_def)

lemma run_pair_store:
  "run_pair link (\<lambda>h f. store_next store table cell h f) cold h f s = store_next store table cell h f s"
  using store_next_Some [of store table cell h f s]
  by (cases "store_next store table cell h f s") (auto simp: run_pair_def)

lemma array_pair:
  assumes "links_apart h_need_grow_link h"
  shows "run_pair h_need_grow_link (hot_array store table k) (cold_array store table k) h f s = array_write store table k h f s"
proof (cases "v2_array_slot table k s")
  case (Some c)
  show ?thesis
  proof (cases "c = 0")
    case c: True
    show ?thesis
    proof (cases "1 \<le>s k")
      case True
      show ?thesis
      proof (cases "v2_grow_array table k s")
        case g: (Some r)
        obtain ok u where r: "r = (ok, u)" by (cases r)
        show ?thesis
          using Some c True g r store_next_Some [of store table _ h f u]
          by (cases ok; cases "v2_array_slot table k u")
            (auto simp: run_pair_def hot_array_def cold_array_def array_write_def reject_halts store_resume_next
              split: option.splits)
      qed (use Some c True in \<open>simp add: run_pair_def hot_array_def cold_array_def array_write_def\<close>)
    qed (use Some c in \<open>simp add: run_pair_def hot_array_def cold_array_def array_write_def reject_halts\<close>)
  next
    case False
    with Some run_pair_store [of h_need_grow_link store table c _ h f s] show ?thesis
      by (simp add: run_pair_def hot_array_def array_write_def)
  qed
qed (simp add: run_pair_def hot_array_def array_write_def)

text \<open>A search that may not create finds what one that may create finds.\<close>

lemma find_field_peek:
  assumes "v2_find_field table key False s = Some (c, u)"
  shows "u = s" and "c \<noteq> 0 \<Longrightarrow> v2_find_field table key True s = Some (c, s)"
  using assms unfolding v2_find_field.simps [of table key False s] v2_find_field.simps [of table key True s]
  by (auto simp: bind_eq_Some_conv split: if_splits)

lemma find_field_peek_None: "v2_find_field table key False s = None \<Longrightarrow> v2_find_field table key True s = None"
  unfolding v2_find_field.simps [of table key False s] v2_find_field.simps [of table key True s]
  by (auto split: Option.bind_split_asm prod.splits if_splits)

lemma field_pair:
  assumes "links_apart h_need_create_link h"
  shows "run_pair h_need_create_link
      (\<lambda>h f s. do {
        (cell, s) \<leftarrow> v2_find_field table k False s;
        if cell \<noteq> 0 then store_next store table cell h f s else Some (Jump (h_need_create_link h) f, s)})
      (\<lambda>h f s. do {
        (cell, s) \<leftarrow> v2_find_field table k True s;
        if cell \<noteq> 0 then store_resume store table cell h f s else reject_exit LUA55_V2_REJECT_INVALID_OBJECT h f s})
      h f s = field_write store table k h f s"
proof (cases "v2_find_field table k False s")
  case None
  then show ?thesis using find_field_peek_None [OF None] by (simp add: run_pair_def field_write_def)
next
  case (Some r)
  obtain c where r: "r = (c, s)" using find_field_peek(1) [of table k s "fst r" "snd r"] Some by (cases r) auto
  show ?thesis
  proof (cases "c = 0")
    case False
    then show ?thesis
      using Some r find_field_peek(2) run_pair_store [of h_need_create_link store table c _ h f s]
      by (simp add: run_pair_def field_write_def)
  next
    case True
    show ?thesis
    proof (cases "v2_find_field table k True s")
      case t: (Some x)
      obtain d u where x: "x = (d, u)" by (cases x)
      show ?thesis
        using Some r True t x store_next_Some [of store table d h f u]
        by (cases "d = 0") (auto simp: run_pair_def field_write_def reject_halts store_resume_next split: option.splits)
    qed (use Some r True in \<open>simp add: run_pair_def field_write_def\<close>)
  qed
qed

text \<open>The pair behind the receiver and key guards.\<close>

lemma guarded_pair:
  assumes "links_apart link h"
    and pair: "\<And>table k. run_pair link (hot table k) (cold table k) h f s = whole table k h f s"
    and stays: "\<And>table k g t. hot table k h f s = Some (Jump (link h) g, t) \<Longrightarrow> g = f \<and> t = s"
    and key: "key = int_key \<or> key = str_key"
  shows "run_pair link (V2_TABLE_RECEIVER (\<lambda>table. key (hot table))) (V2_TABLE_RECEIVER (\<lambda>table. key (cold table))) h f s =
    V2_TABLE_RECEIVER (\<lambda>table. key (whole table)) h f s"
proof (cases "rd_reg (h_receiver_disp h) f s")
  case (Some r)
  show ?thesis
  proof (cases "v2_learn_table r s")
    case t: (Some table)
    show ?thesis
    proof (cases "table = 0 \<or> rd_reg (h_key_disp h) f s = None")
      case False
      then obtain kv where kv: "rd_reg (h_key_disp h) f s = Some kv" "table \<noteq> 0" by blast
      let ?k = "payload kv"
      show ?thesis
      proof (cases "(key = int_key \<longrightarrow> tag kv = LUA55_VALUE_INTEGER) \<and> (key = str_key \<longrightarrow> v2_is_string_tag (tag kv))")
        case True
        then have eq: "V2_TABLE_RECEIVER (\<lambda>table. key (w table)) h f s = w table ?k h f s" for w
          using Some t kv key by (auto simp: V2_TABLE_RECEIVER_def with_table_def int_key_def str_key_def)
        have "run_pair link (V2_TABLE_RECEIVER (\<lambda>table. key (hot table))) (V2_TABLE_RECEIVER (\<lambda>table. key (cold table))) h f s =
            run_pair link (hot table ?k) (cold table ?k) h f s"
          using stays [of table ?k]
          by (auto simp: run_pair_def eq split: option.split prod.split control.split)
        then show ?thesis by (simp add: pair eq)
      next
        case False
        with key obtain a b where "V2_TABLE_RECEIVER (\<lambda>table. key (w table)) h f s = mismatch a b h f s" for w
          using Some t kv by (auto simp: V2_TABLE_RECEIVER_def with_table_def int_key_def str_key_def)
        then show ?thesis using assms(1) by (auto simp: run_pair_def mismatch_jumps links_apart_def)
      qed
    qed (use Some t key in \<open>auto simp: run_pair_def V2_TABLE_RECEIVER_def with_table_def int_key_def str_key_def reject_halts\<close>)
  qed (use Some in \<open>simp add: run_pair_def V2_TABLE_RECEIVER_def with_table_def\<close>)
qed (simp add: run_pair_def V2_TABLE_RECEIVER_def)

lemma settable_int_pair:
  "links_apart h_need_grow_link h \<Longrightarrow> run_pair h_need_grow_link (V2_SETTABLE_INT_HOT store) (V2_SETTABLE_INT_COLD store) h f s =
    V2_TABLE_RECEIVER (\<lambda>table. int_key (array_write store table)) h f s"
  unfolding V2_SETTABLE_INT_HOT_def V2_SETTABLE_INT_COLD_def
  by (rule guarded_pair [where key = int_key and hot = "hot_array store" and cold = "cold_array store"])
    (auto simp: array_pair hot_array_def bind_eq_Some_conv dest: store_next_Some split: if_splits)

lemma settable_str_pair:
  "links_apart h_need_create_link h \<Longrightarrow> run_pair h_need_create_link (V2_SETTABLE_STR_HOT store) (V2_SETTABLE_STR_COLD store) h f s =
    V2_TABLE_RECEIVER (\<lambda>table. str_key (field_write store table)) h f s"
  unfolding V2_SETTABLE_STR_HOT_def V2_SETTABLE_STR_COLD_def
  by (rule guarded_pair [where key = str_key and whole = "field_write store" and
        hot = "\<lambda>table key h f s. do {
          (cell, s) \<leftarrow> v2_find_field table key False s;
          if cell \<noteq> 0 then store_next store table cell h f s else Some (Jump (h_need_create_link h) f, s)}"])
    (auto simp: field_pair bind_eq_Some_conv dest: store_next_Some find_field_peek(1) split: if_splits)

subsection \<open>The contract of the write pairs\<close>

text \<open>The store of a leaf is the store of its learner.\<close>

definition store_agrees :: "(holes \<Rightarrow> u64 \<Rightarrow> v2_state \<Rightarrow> lua_value option) \<Rightarrow> store \<Rightarrow> holes \<Rightarrow> bool" where
  "store_agrees rv store h \<longleftrightarrow> (\<forall>table cell f s. store_next store table cell h f s =
     do {v \<leftarrow> rv h f s; store_cell table cell v h f s})"

lemma reg_store_agrees: "store_agrees reg_source V2_STORE_REG h"
  by (simp add: store_agrees_def store_next_def V2_STORE_REG_def store_cell_def)

lemma const_store_agrees:
  "h_const_tag h = LUA55_VALUE_NIL \<Longrightarrow> h_const_ref h = 0 \<Longrightarrow> store_agrees const_source V2_STORE_NIL h"
  "h_const_tag h = LUA55_VALUE_FALSE \<Longrightarrow> h_const_ref h = 0 \<Longrightarrow> store_agrees const_source V2_STORE_FALSE h"
  "h_const_tag h = LUA55_VALUE_TRUE \<Longrightarrow> h_const_ref h = 0 \<Longrightarrow> store_agrees const_source V2_STORE_TRUE h"
  "h_const_tag h = LUA55_VALUE_INTEGER \<Longrightarrow> store_agrees const_source V2_STORE_INT h"
  "h_const_tag h = LUA55_VALUE_FLOAT \<Longrightarrow> store_agrees const_source V2_STORE_FLT h"
  by (simp_all add: store_agrees_def store_next_def store_cell_def v2_table_set_def V2_VALUE_CONST_CELL_def mk_value_def
      word_le_nat_alt V2_STORE_NIL_def V2_STORE_FALSE_def V2_STORE_TRUE_def V2_STORE_INT_def V2_STORE_FLT_def)

text \<open>
  The shape of a \<open>SETTABLE\<close> occurrence: the tag of the key, when the receiver is a table the runtime
  accepts.
\<close>

definition write_shape :: "(u32 \<Rightarrow> bool) \<Rightarrow> holes \<Rightarrow> u64 \<Rightarrow> v2_state \<Rightarrow> bool" where
  "write_shape ok h f s \<longleftrightarrow> (\<forall>r table key. rd_reg (h_receiver_disp h) f s = Some r \<longrightarrow> v2_learn_table r s = Some table \<longrightarrow>
     table \<noteq> 0 \<longrightarrow> rd_reg (h_key_disp h) f s = Some key \<longrightarrow> ok (tag key))"

lemma not_mismatch: "fst r \<noteq> Jump (h_mismatch_exit h) f \<Longrightarrow> \<not> mismatch_exit h f s r"
  by (auto simp: mismatch_exit_def mismatch_jumps)

lemma leaf_by_shape:
  assumes "\<And>h f s. patched h \<Longrightarrow> q h f s \<Longrightarrow> sheds (learner h f) (leaf h f) s"
    and "\<And>h f s. patched h \<Longrightarrow> \<not> q h f s \<Longrightarrow> \<exists>e ob. leaf h f (forget s) = mismatch e ob h f (forget s)"
    and "\<And>h f s r. patched h \<Longrightarrow> q h f s \<Longrightarrow> leaf h f (forget s) = Some r \<Longrightarrow> fst r \<noteq> Jump (h_mismatch_exit h) f"
  shows "residual_leaf learner leaf q patched"
proof
  fix h f s r
  assume p: "patched h" and lok: "learning_ok s" and leaf: "leaf h f (forget s) = Some r"
    and nm: "\<not> mismatch_exit h f (forget s) r"
  then have "q h f s" using assms(2) [OF p] mismatch_is_exit by metis
  from assms(1) [OF p this] lok leaf show "\<exists>c u. learner h f s = Some (c, u) \<and> r = (c, forget u) \<and> learning_ok u"
    unfolding sheds_def by blast
next
  fix h f s
  assume p: "patched h" and d: "learner h f s \<noteq> None"
  then obtain c u where "learner h f s = Some (c, u)" by fastforce
  with assms(1) [OF p, of f s] assms(2) [OF p, of f s] show "leaf h f (forget s) \<noteq> None"
    unfolding sheds_def by (metis mismatch_jumps option.distinct(1))
next
  fix h f s r
  assume "patched h" "q h f s" "leaf h f (forget s) = Some r"
  then show "\<not> mismatch_exit h f (forget s) r" using assms(3) not_mismatch by blast
next
  fix h f s r
  assume "patched h" "\<not> q h f s" "leaf h f (forget s) = Some r"
  then show "mismatch_exit h f (forget s) r" using assms(2) mismatch_is_exit by metis
qed

lemma reject_sheds: "sheds (reject_exit k h f) (reject_exit k h f) s"
  by (rule sheds_forgetful) (rule forgetful_reject)

lemma store_sheds:
  assumes "store_agrees rv store h" and "\<And>s. rv h f (forget s) = rv h f s"
  shows "sheds (\<lambda>s. do {v \<leftarrow> rv h f s; store_cell table cell v h f s}) (store_next store table cell h f) s"
proof -
  have "forgetful (store_cell table cell v h f)" for v
    unfolding store_cell_def by (intro v2_blind)
  then have "forgetful (\<lambda>s. do {v \<leftarrow> rv h f s; store_cell table cell v h f s})"
    using assms(2) by (intro forgetful_read) auto
  moreover have "store_next store table cell h f = (\<lambda>s. do {v \<leftarrow> rv h f s; store_cell table cell v h f s})"
    using assms(1) by (auto simp: store_agrees_def)
  ultimately show ?thesis by (simp add: sheds_forgetful)
qed

lemma learn_table_tables: "v2_learn_table r s = Some table \<Longrightarrow> table \<noteq> 0 \<Longrightarrow> tables s table \<noteq> None"
  by (auto simp: v2_learn_table_def Let_def bind_eq_Some_conv split: if_splits)

lemma receiver_sheds:
  assumes "\<And>r table. rd_reg (h_receiver_disp h) f s = Some r \<Longrightarrow> v2_learn_table r s = Some table \<Longrightarrow> table \<noteq> 0 \<Longrightarrow>
      tables s table \<noteq> None \<Longrightarrow> sheds (l table h f) (w table h f) s"
  shows "sheds (V2_TABLE_WRITE l h f) (V2_TABLE_RECEIVER w h f) s"
  unfolding V2_TABLE_WRITE_def V2_TABLE_RECEIVER_def with_table_def
  by (intro sheds_read sheds_if reject_sheds assms learn_table_tables) simp_all

lemma array_write_sheds:
  assumes st: "store_agrees rv store h" "\<And>s. rv h f (forget s) = rv h f s" and tb: "tables s table \<noteq> None"
  shows "sheds (\<lambda>s. do {
      cell \<leftarrow> v2_array_slot table k s;
      (cell, s) \<leftarrow> (if cell = 0 \<and> 1 \<le>s k then do {
          (ok, s) \<leftarrow> v2_grow_array table k s;
          if ok then do {cell \<leftarrow> v2_array_slot table k s; Some (cell, s)} else Some (0, s)}
        else Some (cell, s));
      s \<leftarrow> v2_learn_write_site table True k s;
      if cell = 0 then reject_exit LUA55_V2_REJECT_INVALID_OBJECT h f s
      else do {v \<leftarrow> rv h f s; store_cell table cell v h f s}}) (array_write store table k h f) s"
proof -
  have g: "forgetful (\<lambda>s. if cell = 0 \<and> 1 \<le>s k then do {
          (ok, s) \<leftarrow> v2_grow_array table k s;
          if ok then do {cell \<leftarrow> v2_array_slot table k s; Some (cell, s)} else Some (0, s)}
        else Some (cell, s))" for cell
    by (intro v2_blind forgetful_read) simp_all
  have "tables u table \<noteq> None" if "(if cell = 0 \<and> 1 \<le>s k then do {
          (ok, s) \<leftarrow> v2_grow_array table k s;
          if ok then do {cell \<leftarrow> v2_array_slot table k s; Some (cell, s)} else Some (0, s)}
        else Some (cell, s)) = Some (c, u)" for cell c u
    using that tb grow_array_tables [of table k s] by (auto simp: bind_eq_Some_conv split: if_splits)
  then show ?thesis
    unfolding array_write_def
    by (intro sheds_read sheds_bind [OF sheds_forgetful [OF g]] sheds_record records_site sheds_if reject_sheds
        store_sheds [OF st]) simp_all
qed

lemma field_write_sheds:
  assumes st: "store_agrees rv store h" "\<And>s. rv h f (forget s) = rv h f s"
  shows "sheds (\<lambda>s. do {
      (cell, s) \<leftarrow> v2_find_field table k True s;
      tb \<leftarrow> tables s table;
      s \<leftarrow> v2_learn_write_site table False (ucast (field_capacity tb)) s;
      if cell = 0 then reject_exit LUA55_V2_REJECT_INVALID_OBJECT h f s
      else do {v \<leftarrow> rv h f s; store_cell table cell v h f s}}) (field_write store table k h f) s"
  unfolding field_write_def
proof (rule sheds_bind [OF sheds_forgetful [OF find_field_forgetful]])
  fix c u
  assume "v2_find_field table k True s = Some (c, u)"
  then obtain tb where tb: "tables u table = Some tb" using find_field_tables by fastforce
  have "sheds (\<lambda>s. do {
      s \<leftarrow> v2_learn_write_site table False (ucast (field_capacity tb)) s;
      if c = 0 then reject_exit LUA55_V2_REJECT_INVALID_OBJECT h f s
      else do {v \<leftarrow> rv h f s; store_cell table c v h f s}})
    (\<lambda>s. if c = 0 then reject_exit LUA55_V2_REJECT_INVALID_OBJECT h f s else store_next store table c h f s) u"
    using tb by (intro sheds_record records_site sheds_if reject_sheds store_sheds [OF st]) simp_all
  then show "sheds (\<lambda>s. do {
      tb \<leftarrow> tables s table;
      s \<leftarrow> v2_learn_write_site table False (ucast (field_capacity tb)) s;
      if c = 0 then reject_exit LUA55_V2_REJECT_INVALID_OBJECT h f s
      else do {v \<leftarrow> rv h f s; store_cell table c v h f s}})
    (\<lambda>s. if c = 0 then reject_exit LUA55_V2_REJECT_INVALID_OBJECT h f s else store_next store table c h f s) u"
    using tb by (simp add: sheds_def)
qed

lemma string_not_int [simp]: "v2_is_string_tag t \<Longrightarrow> t \<noteq> LUA55_VALUE_INTEGER"
  by (auto simp: v2_is_string_tag_def)

lemma sheds_cong: "l s = l' s \<Longrightarrow> r (forget s) = r' (forget s) \<Longrightarrow> sheds l' r' s \<Longrightarrow> sheds l r s"
  by (simp add: sheds_def)

lemma key_tag_tables: "v2_learn_key_tag i t s = Some u \<Longrightarrow> tables u = tables s"
  by (auto simp: v2_learn_key_tag_def learn_at_def bind_eq_Some_conv split: if_splits)

lemma settable_int_sheds:
  assumes st: "store_agrees rv store h" "\<And>s. rv h f (forget s) = rv h f s"
    and sh: "write_shape (\<lambda>t. t = LUA55_VALUE_INTEGER) h f s"
  shows "sheds (V2_TABLE_WRITE (settable_body rv) h f) (V2_TABLE_RECEIVER (\<lambda>table. int_key (array_write store table)) h f) s"
proof (rule receiver_sheds)
  fix r table
  assume r: "rd_reg (h_receiver_disp h) f s = Some r" "v2_learn_table r s = Some table" "table \<noteq> 0"
    and tb: "tables s table \<noteq> None"
  show "sheds (settable_body rv table h f) (int_key (array_write store table) h f) s"
  proof (cases "rd_reg (h_key_disp h) f s")
    case (Some key)
    with sh r have i: "tag key = LUA55_VALUE_INTEGER" unfolding write_shape_def by blast
    show ?thesis
      by (rule sheds_cong [OF _ _ sheds_record [OF records_key_tag [of "h_occ_slot h" "tag key"]
          array_write_sheds [OF st, where k = "payload key" and table = table]]])
        (use Some i tb in \<open>auto simp: settable_body_def int_key_def Let_def dest: key_tag_tables\<close>)
  qed (simp add: sheds_def settable_body_def int_key_def)
qed

lemma settable_str_sheds:
  assumes st: "store_agrees rv store h" "\<And>s. rv h f (forget s) = rv h f s"
    and sh: "write_shape v2_is_string_tag h f s"
  shows "sheds (V2_TABLE_WRITE (settable_body rv) h f) (V2_TABLE_RECEIVER (\<lambda>table. str_key (field_write store table)) h f) s"
proof (rule receiver_sheds)
  fix r table
  assume r: "rd_reg (h_receiver_disp h) f s = Some r" "v2_learn_table r s = Some table" "table \<noteq> 0"
    and tb: "tables s table \<noteq> None"
  show "sheds (settable_body rv table h f) (str_key (field_write store table) h f) s"
  proof (cases "rd_reg (h_key_disp h) f s")
    case (Some key)
    with sh r have i: "v2_is_string_tag (tag key)" unfolding write_shape_def by blast
    show ?thesis
      by (rule sheds_cong [OF _ _ sheds_record [OF records_key_tag [of "h_occ_slot h" "tag key"]
          field_write_sheds [OF st, where k = "payload key" and table = table]]])
        (use Some i in \<open>auto simp: settable_body_def str_key_def\<close>)
  qed (simp add: sheds_def settable_body_def str_key_def)
qed

text \<open>Off the shape, both pairs refuse; on it, they never take the mismatch exit.\<close>

lemma key_guard_refuses:
  assumes "\<not> write_shape ok h f s" and "key = int_key \<and> ok = (\<lambda>t. t = LUA55_VALUE_INTEGER) \<or> key = str_key \<and> ok = v2_is_string_tag"
  shows "\<exists>e ob. V2_TABLE_RECEIVER (\<lambda>table. key (w table)) h f (forget s) = mismatch e ob h f (forget s)"
  using assms by (auto simp: write_shape_def V2_TABLE_RECEIVER_def with_table_def int_key_def str_key_def intro!: refused)

lemma key_guard_stays:
  assumes "write_shape ok h f s" and "key = int_key \<and> ok = (\<lambda>t. t = LUA55_VALUE_INTEGER) \<or> key = str_key \<and> ok = v2_is_string_tag"
    and "V2_TABLE_RECEIVER (\<lambda>table. key (w table)) h f (forget s) = Some r"
    and "\<And>table k x. w table k h f (forget s) = Some x \<Longrightarrow> fst x \<noteq> Jump (h_mismatch_exit h) f"
  shows "fst r \<noteq> Jump (h_mismatch_exit h) f"
proof -
  from assms(1-3) consider u where "r = (Host_exit (h_host_exit h) f, u)" | table k where "w table k h f (forget s) = Some r"
    by (auto simp: write_shape_def V2_TABLE_RECEIVER_def with_table_def int_key_def str_key_def reject_halts
      bind_eq_Some_conv split: if_splits)
  then show ?thesis using assms(4) by cases auto
qed

lemma writes_stay:
  "array_write store table k h f s = Some x \<Longrightarrow> fst x \<noteq> Jump e f"
  "field_write store table k h f s = Some x \<Longrightarrow> fst x \<noteq> Jump e f"
  by (auto simp: array_write_def field_write_def reject_halts bind_eq_Some_conv dest!: store_next_Some split: if_splits prod.splits)

lemma settable_int_leaf:
  assumes "\<And>h. patched h \<Longrightarrow> store_agrees rv store h \<and> links_apart h_need_grow_link h" and "\<And>h f s. rv h f (forget s) = rv h f s"
  shows "residual_leaf (V2_TABLE_WRITE (settable_body rv))
    (run_pair h_need_grow_link (V2_SETTABLE_INT_HOT store) (V2_SETTABLE_INT_COLD store))
    (write_shape (\<lambda>t. t = LUA55_VALUE_INTEGER)) patched"
    (is "residual_leaf _ ?leaf ?shape patched")
proof (rule leaf_by_shape)
  fix h f s
  assume p: "patched h"
  note e = settable_int_pair [OF conjunct2 [OF assms(1) [OF p]], abs_def]
  show "sheds (V2_TABLE_WRITE (settable_body rv) h f) (?leaf h f) s" if "?shape h f s"
    unfolding e by (rule settable_int_sheds) (use assms(1) [OF p] assms(2) that in auto)
  show "\<exists>e ob. ?leaf h f (forget s) = mismatch e ob h f (forget s)" if "\<not> ?shape h f s"
    unfolding e by (rule key_guard_refuses [OF that]) simp
  fix r
  show "fst r \<noteq> Jump (h_mismatch_exit h) f" if "?shape h f s" "?leaf h f (forget s) = Some r"
    by (rule key_guard_stays [OF that(1), where key = int_key and w = "array_write store"])
      (use that(2) writes_stay in \<open>auto simp: e\<close>)
qed

lemma settable_str_leaf:
  assumes "\<And>h. patched h \<Longrightarrow> store_agrees rv store h \<and> links_apart h_need_create_link h" and "\<And>h f s. rv h f (forget s) = rv h f s"
  shows "residual_leaf (V2_TABLE_WRITE (settable_body rv))
    (run_pair h_need_create_link (V2_SETTABLE_STR_HOT store) (V2_SETTABLE_STR_COLD store))
    (write_shape v2_is_string_tag) patched"
    (is "residual_leaf _ ?leaf ?shape patched")
proof (rule leaf_by_shape)
  fix h f s
  assume p: "patched h"
  note e = settable_str_pair [OF conjunct2 [OF assms(1) [OF p]], abs_def]
  show "sheds (V2_TABLE_WRITE (settable_body rv) h f) (?leaf h f) s" if "?shape h f s"
    unfolding e by (rule settable_str_sheds) (use assms(1) [OF p] assms(2) that in auto)
  show "\<exists>e ob. ?leaf h f (forget s) = mismatch e ob h f (forget s)" if "\<not> ?shape h f s"
    unfolding e by (rule key_guard_refuses [OF that]) simp
  fix r
  show "fst r \<noteq> Jump (h_mismatch_exit h) f" if "?shape h f s" "?leaf h f (forget s) = Some r"
    by (rule key_guard_stays [OF that(1), where key = str_key and w = "field_write store"])
      (use that(2) writes_stay in \<open>auto simp: e\<close>)
qed

subsection \<open>The write pairs of the bank\<close>

text \<open>
  What the constant holes carry. The constant leaves of a nil or a boolean write a zero payload,
  the learner writes the reference hole, which is zero for them.
\<close>

definition const_hole :: "u32 \<Rightarrow> bool \<Rightarrow> holes \<Rightarrow> bool" where
  "const_hole t no_payload h \<longleftrightarrow> h_const_tag h = t \<and> (no_payload \<longrightarrow> h_const_ref h = 0)"

definition table_bank :: "((stencil \<times> stencil) \<times> (holes \<Rightarrow> u64 \<Rightarrow> v2_state \<Rightarrow> bool) \<times> (holes \<Rightarrow> bool)) list" where
  "table_bank = [
     ((lua55_v2l_settable, run_pair h_need_grow_link lua55_v2r_settable_int_reg_inbounds lua55_v2r_settable_int_reg_grow),
       write_shape (\<lambda>t. t = LUA55_VALUE_INTEGER), links_apart h_need_grow_link),
     ((lua55_v2l_settable_const, run_pair h_need_grow_link lua55_v2r_settable_int_const_nil_inbounds lua55_v2r_settable_int_const_nil_grow),
       write_shape (\<lambda>t. t = LUA55_VALUE_INTEGER), (\<lambda>h. links_apart h_need_grow_link h \<and> const_hole LUA55_VALUE_NIL True h)),
     ((lua55_v2l_settable_const, run_pair h_need_grow_link lua55_v2r_settable_int_const_false_inbounds lua55_v2r_settable_int_const_false_grow),
       write_shape (\<lambda>t. t = LUA55_VALUE_INTEGER), (\<lambda>h. links_apart h_need_grow_link h \<and> const_hole LUA55_VALUE_FALSE True h)),
     ((lua55_v2l_settable_const, run_pair h_need_grow_link lua55_v2r_settable_int_const_true_inbounds lua55_v2r_settable_int_const_true_grow),
       write_shape (\<lambda>t. t = LUA55_VALUE_INTEGER), (\<lambda>h. links_apart h_need_grow_link h \<and> const_hole LUA55_VALUE_TRUE True h)),
     ((lua55_v2l_settable_const, run_pair h_need_grow_link lua55_v2r_settable_int_const_int_inbounds lua55_v2r_settable_int_const_int_grow),
       write_shape (\<lambda>t. t = LUA55_VALUE_INTEGER), (\<lambda>h. links_apart h_need_grow_link h \<and> const_hole LUA55_VALUE_INTEGER False h)),
     ((lua55_v2l_settable_const, run_pair h_need_grow_link lua55_v2r_settable_int_const_flt_inbounds lua55_v2r_settable_int_const_flt_grow),
       write_shape (\<lambda>t. t = LUA55_VALUE_INTEGER), (\<lambda>h. links_apart h_need_grow_link h \<and> const_hole LUA55_VALUE_FLOAT False h)),
     ((lua55_v2l_settable, run_pair h_need_create_link lua55_v2r_settable_str_reg_existing lua55_v2r_settable_str_reg_create),
       write_shape v2_is_string_tag, links_apart h_need_create_link),
     ((lua55_v2l_settable_const, run_pair h_need_create_link lua55_v2r_settable_str_const_nil_existing lua55_v2r_settable_str_const_nil_create),
       write_shape v2_is_string_tag, (\<lambda>h. links_apart h_need_create_link h \<and> const_hole LUA55_VALUE_NIL True h)),
     ((lua55_v2l_settable_const, run_pair h_need_create_link lua55_v2r_settable_str_const_false_existing lua55_v2r_settable_str_const_false_create),
       write_shape v2_is_string_tag, (\<lambda>h. links_apart h_need_create_link h \<and> const_hole LUA55_VALUE_FALSE True h)),
     ((lua55_v2l_settable_const, run_pair h_need_create_link lua55_v2r_settable_str_const_true_existing lua55_v2r_settable_str_const_true_create),
       write_shape v2_is_string_tag, (\<lambda>h. links_apart h_need_create_link h \<and> const_hole LUA55_VALUE_TRUE True h)),
     ((lua55_v2l_settable_const, run_pair h_need_create_link lua55_v2r_settable_str_const_int_existing lua55_v2r_settable_str_const_int_create),
       write_shape v2_is_string_tag, (\<lambda>h. links_apart h_need_create_link h \<and> const_hole LUA55_VALUE_INTEGER False h)),
     ((lua55_v2l_settable_const, run_pair h_need_create_link lua55_v2r_settable_str_const_flt_existing lua55_v2r_settable_str_const_flt_create),
       write_shape v2_is_string_tag, (\<lambda>h. links_apart h_need_create_link h \<and> const_hole LUA55_VALUE_FLOAT False h))]"

lemmas write_leaf_defs = lua55_v2r_settable_int_reg_inbounds_def lua55_v2r_settable_int_reg_grow_def
  lua55_v2r_settable_int_const_nil_inbounds_def lua55_v2r_settable_int_const_nil_grow_def
  lua55_v2r_settable_int_const_false_inbounds_def lua55_v2r_settable_int_const_false_grow_def
  lua55_v2r_settable_int_const_true_inbounds_def lua55_v2r_settable_int_const_true_grow_def
  lua55_v2r_settable_int_const_int_inbounds_def lua55_v2r_settable_int_const_int_grow_def
  lua55_v2r_settable_int_const_flt_inbounds_def lua55_v2r_settable_int_const_flt_grow_def
  lua55_v2r_settable_str_reg_existing_def lua55_v2r_settable_str_reg_create_def
  lua55_v2r_settable_str_const_nil_existing_def lua55_v2r_settable_str_const_nil_create_def
  lua55_v2r_settable_str_const_false_existing_def lua55_v2r_settable_str_const_false_create_def
  lua55_v2r_settable_str_const_true_existing_def lua55_v2r_settable_str_const_true_create_def
  lua55_v2r_settable_str_const_int_existing_def lua55_v2r_settable_str_const_int_create_def
  lua55_v2r_settable_str_const_flt_existing_def lua55_v2r_settable_str_const_flt_create_def

lemma table_bank_refines:
  assumes "((l, r), q, p) \<in> set table_bank"
  shows "residual_leaf l r q p"
  using assms unfolding table_bank_def
  by (auto simp: lua55_v2l_settable_def lua55_v2l_settable_const_def write_leaf_defs const_hole_def
      intro!: settable_int_leaf settable_str_leaf reg_store_agrees const_store_agrees)

text \<open>
  C15. \<open>SETTABLE\<close>. A pair of leaves selected for an integer or a string key, storing a register or a
  constant that is not a string, does exactly what the learner does when the key has that tag,
  growth and rejects included; otherwise it publishes the mismatch and leaves. The pairs that store a
  string constant are outside the bank: they skip the barrier.
\<close>

theorem table_write_leaf_sound:
  assumes "((learner, leaf), shape, holes_ok) \<in> set table_bank" and "holes_ok h" and "learning_ok s"
    and "learner h f s = Some (c, u)"
  shows "if shape h f s then leaf h f (forget s) = Some (c, forget u)
    else \<exists>e ob. leaf h f (forget s) = mismatch e ob h f (forget s)"
  using residual_leaf.on_product(1) [OF table_bank_refines [OF assms(1)] assms(2,3) _ assms(4)]
    residual_leaf.off_product [OF table_bank_refines [OF assms(1)] assms(2)] assms(4)
  by simp

text \<open>A table with an array of one element, all in range of the holes below.\<close>

definition write_example :: v2_state where
  "write_example = field_example\<lparr>
     vals := [0x500 \<mapsto> mk_value 7 0x800, 0x510 \<mapsto> mk_value 3 7, 0x520 \<mapsto> mk_value 3 1, 0x840 \<mapsto> mk_value 0 0]\<rparr>"

abbreviation write_example_holes :: holes where
  "write_example_holes \<equiv> blank_holes\<lparr>h_source_disp := 0x10, h_key_disp := 0x20, h_need_grow_link := 1,
     h_resume_link := 2, h_const_tag := 5, h_const_ref := 0x66\<rparr>"

lemma write_example_facts:
  "rd_reg 0 0x100 write_example = Some (mk_value 7 0x800)" "rd_reg 0x10 0x100 write_example = Some (mk_value 3 7)"
  "rd_reg 0x20 0x100 write_example = Some (mk_value 3 1)" "v2_learn_table (mk_value 7 0x800) write_example = Some 0x800"
  "v2_array_slot 0x800 1 write_example = Some 0x840" "learning (inv write_example) = 0" "vals write_example 0x840 = Some (mk_value 0 0)"
  "learning_ok write_example"
  by (simp_all add: write_example_def field_example_def heap_example_def rd_reg_def V2_VALUE_DISP_def rd_val_def
      v2_learn_table_def mk_value_def v2_array_slot_def word_sless_alt blank_invocation_def learning_ok_def)

theorem table_write_leaf_sound_witness:
  "run_pair h_need_grow_link lua55_v2r_settable_int_reg_inbounds lua55_v2r_settable_int_reg_grow
      write_example_holes 0x100 (forget write_example) =
    Some (Next 0x100, forget (write_example\<lparr>vals := (vals write_example)(0x840 \<mapsto> mk_value 3 7)\<rparr>))"
proof -
  have "lua55_v2l_settable write_example_holes 0x100 write_example =
      Some (Next 0x100, write_example\<lparr>vals := (vals write_example)(0x840 \<mapsto> mk_value 3 7)\<rparr>)"
    by (simp add: lua55_v2l_settable_def V2_TABLE_WRITE_def with_table_def settable_body_def
        write_example_facts [unfolded mk_value_def] v2_learn_key_tag_def learn_at_def v2_learn_write_site_def store_cell_def v2_table_set_def wr_val_def
        LUA55_RESIDUAL_NEXT_def mk_value_def word_le_nat_alt)
  moreover have "write_shape (\<lambda>t. t = LUA55_VALUE_INTEGER) write_example_holes 0x100 write_example"
    by (simp add: write_shape_def write_example_facts mk_value_def)
  ultimately show ?thesis
    using table_write_leaf_sound [where learner = lua55_v2l_settable and h = write_example_holes and f = "0x100" and
        s = write_example and shape = "write_shape (\<lambda>t. t = LUA55_VALUE_INTEGER)" and holes_ok = "links_apart h_need_grow_link" and
        leaf = "run_pair h_need_grow_link lua55_v2r_settable_int_reg_inbounds lua55_v2r_settable_int_reg_grow"]
      write_example_facts(8)
    by (simp add: table_bank_def links_apart_def)
qed

subsection \<open>Field slots\<close>

text \<open>A field read in the recorded slot, on a vector of the recorded capacity.\<close>

lemma slot_leaf_run:
  assumes "rd_reg (h_receiver_disp h) f s = Some r" and "v2_learn_table r s = Some table" and "table \<noteq> 0"
    and "tables s table = Some tb" and "field_capacity tb = h_field_layout_cap h" and "h_field_slot h < field_capacity tb"
    and "gfields s (field_addr (field_values tb) (h_field_slot h)) = Some fd" and "occupied fd = 0 \<or> key_reference fd = h_key_ref h"
    and "V2_VALUE_DISP (h_target_disp h) f s = Some a"
  shows "lua55_v2r_getfield_slot h f s = load_cell a (if occupied fd = 0 then 0
    else field_addr (field_values tb) (h_field_slot h) + OFFSET_FIELD_VALUE) h f s"
  using assms by (auto simp: lua55_v2r_getfield_slot_def V2_FIELD_READ_SLOT_def V2_FIELD_RECEIVER_SETUP_def V2_FIELD_NO_OBJECT_def
      with_table_def V2_FIELD_SLOT_LOCATION_def V2_FIELD_CAPACITY_GUARD_def)

lemma field_cell_slot:
  assumes "tables s table = Some tb" and "fields_mapped (field_values tb) (unat (field_capacity tb)) s"
    and "unat slot < unat (field_capacity tb)" and "field_cell table key s = field_addr (field_values tb) slot + OFFSET_FIELD_VALUE"
  shows "holds_key (field_values tb) key s (unat slot)"
proof -
  let ?fv = "field_values tb" and ?n = "unat (field_capacity tb)"
  have e: "field_addr ?fv slot = fa ?fv (unat slot)" using field_addr_fa [of "unat slot" ?fv] unat32_less [of slot] by simp
  note b = value_cell [OF assms(2,3)]
  from b(1) e assms(1,4) obtain i where i: "find (holds_key ?fv key s) [0..<?n] = Some i"
      "field_cell table key s = fa ?fv i + OFFSET_FIELD_VALUE"
    by (auto simp: field_cell_def split: option.splits)
  then have "i < ?n" "holds_key ?fv key s i" by (auto simp: find_upt)
  with i(2) assms(4) e fa_inj [OF value_cell(4) [OF assms(2) \<open>i < ?n\<close>] b(4)] show ?thesis by simp
qed

text \<open>
  C16. The slot leaf of \<open>GETFIELD\<close>, on a vector of the recorded capacity: when the recorded slot is where
  the key is bound, the leaf writes the value of the key and changes nothing else; when the
  slot is vacant, it writes nil, whatever the key is bound to.
\<close>

theorem getfield_slot_leaf:
  assumes "rd_reg (h_receiver_disp h) f s = Some r" and "v2_learn_table r s = Some table" and "table \<noteq> 0"
    and "fields_ok table s" and "tables s table = Some tb" and "field_capacity tb = h_field_layout_cap h"
    and "h_field_slot h < field_capacity tb" and "V2_VALUE_DISP (h_target_disp h) f s = Some a" and "vals s a \<noteq> None"
  shows "(field_cell table (h_key_ref h) s = field_addr (field_values tb) (h_field_slot h) + OFFSET_FIELD_VALUE \<longrightarrow>
      lua55_v2r_getfield_slot h f s = Some (Next f, s\<lparr>vals := (vals s)(a \<mapsto> field_map table s (h_key_ref h))\<rparr>)) \<and>
    (vacant_at (field_values tb) s (unat (h_field_slot h)) \<longrightarrow>
      lua55_v2r_getfield_slot h f s = Some (Next f, s\<lparr>vals := (vals s)(a \<mapsto> mk_value LUA55_VALUE_NIL 0)\<rparr>))"
proof (intro conjI impI)
  let ?slot = "h_field_slot h" and ?fv = "field_values tb"
  from assms(4,5) have fm: "fields_mapped ?fv (unat (field_capacity tb)) s" by (auto simp: fields_ok_def)
  have lt: "unat ?slot < unat (field_capacity tb)" using assms(7) by (simp add: word_less_nat_alt)
  have e: "field_addr ?fv ?slot = fa ?fv (unat ?slot)" using field_addr_fa [of "unat ?slot" ?fv] unat32_less [of ?slot] by simp
  note run = slot_leaf_run [OF assms(1-3,5,6,7) _ _ assms(8)]
  {
    assume c: "field_cell table (h_key_ref h) s = field_addr ?fv ?slot + OFFSET_FIELD_VALUE"
    from field_cell_slot [OF assms(5) fm lt c] obtain fd where "gfields s (fa ?fv (unat ?slot)) = Some fd"
        "occupied fd \<noteq> 0" "key_reference fd = h_key_ref h"
      by (auto simp: holds_key_def split: option.splits)
    with run [of fd] e have "lua55_v2r_getfield_slot h f s = load_cell a (field_cell table (h_key_ref h) s) h f s"
      using c by simp
    moreover have "field_cell table (h_key_ref h) s \<noteq> 0" "vals s (field_cell table (h_key_ref h) s) \<noteq> None"
      using value_cell(1,5) [OF fm lt] c e by simp_all
    ultimately show "lua55_v2r_getfield_slot h f s = Some (Next f, s\<lparr>vals := (vals s)(a \<mapsto> field_map table s (h_key_ref h))\<rparr>)"
      using assms(9) by (auto simp: load_cell_def field_map_def v2_defs)
  }
  assume "vacant_at ?fv s (unat ?slot)"
  then obtain fd where "gfields s (fa ?fv (unat ?slot)) = Some fd" "occupied fd = 0"
    by (auto simp: vacant_at_def split: option.splits)
  with run [of fd] e assms(9)
  show "lua55_v2r_getfield_slot h f s = Some (Next f, s\<lparr>vals := (vals s)(a \<mapsto> mk_value LUA55_VALUE_NIL 0)\<rparr>)"
    by (auto simp: load_cell_def v2_defs)
qed

text \<open>
  Two fields, the key 0x77 bound to 1 in the first, the second vacant, and an occurrence for
  which the second slot was recorded.
\<close>

definition slot_example :: v2_state where
  "slot_example = field_example\<lparr>
     vals := [0x500 \<mapsto> mk_value 7 0x800, 0x510 \<mapsto> mk_value 3 7, 0x908 \<mapsto> mk_value 3 1, 0x928 \<mapsto> mk_value 0 0],
     tables := [0x800 \<mapsto> the (tables field_example 0x800)\<lparr>field_capacity := 2\<rparr>],
     gfields := [0x900 \<mapsto> \<lparr>key_reference = 0x77, occupied = 1, field_reserved = 0\<rparr>,
       0x920 \<mapsto> \<lparr>key_reference = 0, occupied = 0, field_reserved = 0\<rparr>]\<rparr>"

abbreviation slot_example_holes :: holes where
  "slot_example_holes \<equiv> field_example_holes\<lparr>h_field_slot := 1, h_field_layout_cap := 2\<rparr>"

lemma slot_example_facts:
  "rd_reg 0 0x100 slot_example = Some (mk_value 7 0x800)" "v2_learn_table (mk_value 7 0x800) slot_example = Some 0x800"
  "fields_ok 0x800 slot_example" "tables slot_example 0x800 = Some (the (tables field_example 0x800)\<lparr>field_capacity := 2\<rparr>)"
  "V2_VALUE_DISP 0x10 0x100 slot_example = Some 0x510" "vals slot_example 0x510 = Some (mk_value 3 7)"
  "vacant_at 0x900 slot_example 1" "field_values (the (tables field_example 0x800)) = 0x900"
  by (auto simp: slot_example_def field_example_def heap_example_def fields_ok_def fields_mapped_def
      fa_def heap_fine_def settled_def rd_reg_def V2_VALUE_DISP_def rd_val_def v2_learn_table_def mk_value_def
      vacant_at_def less_2_cases_iff)

theorem getfield_slot_leaf_witness:
  "lua55_v2r_getfield_slot slot_example_holes 0x100 slot_example =
    Some (Next 0x100, slot_example\<lparr>vals := (vals slot_example)(0x510 \<mapsto> mk_value LUA55_VALUE_NIL 0)\<rparr>)"
  using getfield_slot_leaf [of slot_example_holes "0x100" slot_example "mk_value 7 0x800" "0x800"
      "the (tables field_example 0x800)\<lparr>field_capacity := 2\<rparr>" "0x510"] slot_example_facts
  by simp

subsection \<open>Barriers\<close>

text \<open>
  The leaf that stores a string constant skips the write barrier: it writes the value its
  learner writes, and does not count the store, which the learner does.
\<close>

theorem const_string_skips_barrier:
  assumes "rd_reg (h_receiver_disp h) f s = Some r" and "v2_learn_table r s = Some table" and "table \<noteq> 0"
    and "rd_reg (h_key_disp h) f s = Some key" and "tag key = LUA55_VALUE_INTEGER"
    and "v2_array_slot table (payload key) s = Some cell" and "cell \<noteq> 0"
    and "LUA55_VALUE_SHORT_STRING \<le> h_const_tag h" and "tables s table = Some tb" and "learning (inv s) = 0"
    and "lua55_v2l_settable_const h f s = Some (c, u)"
  shows "\<exists>t. lua55_v2r_settable_int_const_str_inbounds h f s = Some (c, t) \<and> vals t = vals u \<and>
    tables t table = Some tb \<and> tables u table = Some (tb\<lparr>barrier_count := barrier_count tb + 1\<rparr>)"
proof -
  have n: "h_const_tag h \<noteq> LUA55_VALUE_INTEGER" "h_const_tag h \<noteq> LUA55_VALUE_FLOAT"
    using assms(8) by (auto simp: word_le_nat_alt)
  have v: "V2_VALUE_CONST_CELL h = mk_value (h_const_tag h) (h_const_ref h)" using n by (simp add: V2_VALUE_CONST_CELL_def)
  have st: "store_cell table cell (mk_value (h_const_tag h) (h_const_ref h)) h f s = Some (c, u)"
    using assms v by (simp add: lua55_v2l_settable_const_def V2_TABLE_WRITE_def with_table_def settable_body_def
        v2_learn_key_tag_def learn_at_def v2_learn_write_site_def)
  then have m: "vals s cell \<noteq> None" by (cases "vals s cell = None") (simp_all add: store_cell_def v2_table_set_def wr_val_def)
  have "lua55_v2r_settable_int_const_str_inbounds h f s =
      Some (Next f, s\<lparr>vals := (vals s)(cell \<mapsto> mk_value (h_const_tag h) (h_const_ref h))\<rparr>)"
    using assms m by (simp add: lua55_v2r_settable_int_const_str_inbounds_def V2_SETTABLE_INT_HOT_def V2_TABLE_RECEIVER_def
        with_table_def int_key_def hot_array_def store_next_def V2_STORE_STR_def wr_val_def LUA55_RESIDUAL_NEXT_def)
  with st m assms(8,9) show ?thesis
    by (auto simp: store_cell_def v2_table_set_def wr_val_def LUA55_RESIDUAL_NEXT_def upd_table_def mk_value_def
        bind_eq_Some_conv split: if_splits)
qed

theorem const_string_skips_barrier_witness:
  "\<exists>t u. lua55_v2r_settable_int_const_str_inbounds write_example_holes 0x100 write_example = Some (Next 0x100, t) \<and>
    barrier_count (the (tables t 0x800)) = 0 \<and>
    lua55_v2l_settable_const write_example_holes 0x100 write_example = Some (Next 0x100, u) \<and>
    barrier_count (the (tables u 0x800)) = 1"
proof -
  let ?v = "mk_value 5 0x66"
  have t: "tables write_example 0x800 = tables field_example 0x800" "barrier_count (the (tables field_example 0x800)) = 0"
    "tables field_example 0x800 \<noteq> None" "table_heap (the (tables field_example 0x800)) = 0x40" "heaps write_example 0x40 \<noteq> None"
    by (simp_all add: write_example_def field_example_def heap_example_def)
  then obtain tb hp where tb: "tables field_example 0x800 = Some tb" "barrier_count tb = 0" "table_heap tb = 0x40"
      "heaps write_example 0x40 = Some hp"
    by auto
  have "\<exists>u. lua55_v2l_settable_const write_example_holes 0x100 write_example = Some (Next 0x100, u)"
    using t(1) tb
    by (simp add: lua55_v2l_settable_const_def V2_TABLE_WRITE_def with_table_def settable_body_def
        write_example_facts [unfolded mk_value_def] v2_learn_key_tag_def learn_at_def v2_learn_write_site_def
        store_cell_def v2_table_set_def wr_val_def LUA55_RESIDUAL_NEXT_def mk_value_def V2_VALUE_CONST_CELL_def upd_table_def)
  then obtain u where u: "lua55_v2l_settable_const write_example_holes 0x100 write_example = Some (Next 0x100, u)" by blast
  then show ?thesis
    using const_string_skips_barrier [where h = write_example_holes and f = "0x100" and s = write_example and
        r = "mk_value 7 0x800" and table = "0x800" and key = "mk_value 3 1" and cell = "0x840" and tb = tb and
        c = "Next 0x100" and u = u] write_example_facts t(1) tb
    by (auto simp: mk_value_def)
qed

end
