(* ===== verification/Fused_Loops.thy ===== *)
theory Fused_Loops
  imports Loops
begin

text \<open>
  The fused numeric-for cycles \<open>super_for_addi\<close> and \<open>super_for_add\<close>: a whole loop whose body adds a
  constant, or the index, to an accumulator, in one stencil that leaves past the loop.

  The loops keep their variables in locals. The learner of \<open>super_for_addi\<close> also stores the index
  on every iteration; only the first and the last of these stores are modelled, the others are
  overwritten before anything reads them. A float loop that never ends is \<open>None\<close>.
\<close>

subsection \<open>Cells\<close>

record fused =
  at_init :: u64
  at_limit :: u64
  at_step :: u64
  at_acc :: u64
  v_init :: lua_value
  v_limit :: lua_value
  v_step :: lua_value
  v_acc :: lua_value

definition fused_ops :: "holes \<Rightarrow> u64 \<Rightarrow> v2_state \<Rightarrow> fused option" where
  "fused_ops h f s = do {
     a \<leftarrow> V2_VALUE (h_base_index h) f s;
     b \<leftarrow> V2_VALUE (h_base_index h + 1) f s;
     c \<leftarrow> V2_VALUE (h_base_index h + 2) f s;
     d \<leftarrow> V2_VALUE (h_target h) f s;
     init \<leftarrow> rd_val a s;
     limit \<leftarrow> rd_val b s;
     step \<leftarrow> rd_val c s;
     acc \<leftarrow> rd_val d s;
     Some \<lparr>at_init = a, at_limit = b, at_step = c, at_acc = d,
       v_init = init, v_limit = limit, v_step = step, v_acc = acc\<rparr>}"

subsection \<open>The loops\<close>

text \<open>
  \<open>for (;;) { av = g(av, iv); if (count <= 0) break; count--; iv += sv; }\<close> with \<open>n\<close> iterations after
  the first: the accumulator and the last index.
\<close>

primrec int_cycle :: "(u64 \<Rightarrow> u64 \<Rightarrow> u64) \<Rightarrow> u64 \<Rightarrow> nat \<Rightarrow> u64 \<Rightarrow> u64 \<Rightarrow> u64 \<times> u64" where
  "int_cycle g sv 0 av iv = (g av iv, iv)"
| "int_cycle g sv (Suc n) av iv = int_cycle g sv n (g av iv) (v2_int_add iv sv)"

definition more_trips :: "u64 \<Rightarrow> nat" where
  "more_trips count = (if 0 <s count then unat count else 0)"

definition last_count :: "u64 \<Rightarrow> u64" where
  "last_count count = (if 0 <s count then 0 else count)"

text \<open>\<open>for (;;) { av = g(av, iv); next = iv + sv; if (!goes(next)) break; iv = next; }\<close>.\<close>

partial_function (option) flt_cycle :: "(u64 \<Rightarrow> dbl \<Rightarrow> u64) \<Rightarrow> (dbl \<Rightarrow> bool) \<Rightarrow> dbl \<Rightarrow> u64 \<Rightarrow> dbl \<Rightarrow> (u64 \<times> dbl) option" where
  "flt_cycle g goes sv av iv =
     (let av = g av iv; nxt = dbl_add iv sv in
      if goes nxt then flt_cycle g goes sv av nxt else Some (av, iv))"

definition addi_step :: "u32 \<Rightarrow> u64 \<Rightarrow> u64 \<Rightarrow> u64 \<Rightarrow> u64" where
  "addi_step acc_tag imm av iv =
     (if acc_tag = LUA55_VALUE_INTEGER then v2_int_add av imm else dbl_add av (c_double imm))"

definition add_step :: "u32 \<Rightarrow> u64 \<Rightarrow> u64 \<Rightarrow> u64" where
  "add_step acc_tag av iv = (if acc_tag = LUA55_VALUE_INTEGER then v2_int_add av iv else dbl_add av (c_double iv))"

subsection \<open>Learners\<close>

definition flt_skips :: "dbl \<Rightarrow> dbl \<Rightarrow> dbl \<Rightarrow> bool" where
  "flt_skips iv lv sv \<longleftrightarrow> (dbl_lt 0 sv \<and> dbl_lt lv iv) \<or> (dbl_lt sv 0 \<and> dbl_lt iv lv)"

definition int_skips :: "u64 \<Rightarrow> u64 \<Rightarrow> u64 \<Rightarrow> bool" where
  "int_skips iv lv sv \<longleftrightarrow> (0 <s sv \<and> lv <s iv) \<or> (sv <s 0 \<and> iv <s lv)"

definition addi_work :: "fused \<Rightarrow> stencil" where
  "addi_work x h f s =
     (if all_int (v_init x) (v_limit x) (v_step x) then
        let iv = payload (v_init x); lv = payload (v_limit x); sv = payload (v_step x) in
        if sv = 0 then reject_exit LUA55_V2_REJECT_STEP_ZERO h f s
        else if int_skips iv lv sv then jump_to (h_skip h) f s
        else do {
          let count = for_count (0 <s sv) iv lv sv;
          s \<leftarrow> wr_tag (at_init x) LUA55_VALUE_INTEGER s;
          s \<leftarrow> wr_tag (at_limit x) LUA55_VALUE_INTEGER s;
          s \<leftarrow> wr_tag (at_step x) LUA55_VALUE_INTEGER s;
          s \<leftarrow> wr_payload (at_limit x) sv s;
          s \<leftarrow> wr_payload (at_step x) iv s;
          acc \<leftarrow> rd_val (at_acc x) s;
          let (av, iv) = int_cycle (addi_step (tag acc) (h_int_imm h)) sv (more_trips count) (payload acc) iv;
          s \<leftarrow> wr_payload (at_step x) iv s;
          s \<leftarrow> wr_payload (at_acc x) av s;
          s \<leftarrow> wr_payload (at_init x) (last_count count) s;
          jump_to (h_skip h) f s}
      else
        let iv = as_double (v_init x); lv = as_double (v_limit x); sv = as_double (v_step x) in
        if dbl_eq sv 0 then reject_exit LUA55_V2_REJECT_STEP_ZERO h f s
        else if flt_skips iv lv sv then jump_to (h_skip h) f s
        else do {
          s \<leftarrow> wr_flt (at_init x) lv s;
          s \<leftarrow> wr_flt (at_limit x) sv s;
          s \<leftarrow> wr_flt (at_step x) iv s;
          acc \<leftarrow> rd_val (at_acc x) s;
          (av, iv) \<leftarrow> flt_cycle (addi_step (tag acc) (h_int_imm h)) (\<lambda>nxt. flt_goes_on sv nxt lv) sv (payload acc) iv;
          s \<leftarrow> wr_payload (at_step x) iv s;
          s \<leftarrow> wr_payload (at_acc x) av s;
          jump_to (h_skip h) f s})"

definition fused_numbers :: "fused \<Rightarrow> bool" where
  "fused_numbers x \<longleftrightarrow> is_number (v_init x) \<and> is_number (v_limit x) \<and> is_number (v_step x) \<and> is_number (v_acc x)"

definition fused_sign :: "fused \<Rightarrow> u32" where
  "fused_sign x = (if tag (v_step x) = LUA55_VALUE_INTEGER then (if 0 <s payload (v_step x) then 0 else 1)
     else if dbl_lt 0 (payload (v_step x)) then 0 else 1)"

definition fused_learner :: "(fused \<Rightarrow> stencil) \<Rightarrow> stencil" where
  "fused_learner work h f s = do {
     x \<leftarrow> fused_ops h f s;
     if \<not> fused_numbers x then reject_exit LUA55_V2_REJECT_UNSUPPORTED_METAMETHOD h f s
     else do {
       s \<leftarrow> v2_learn_super_for_addi (h_occ_slot h) (tag (v_init x)) (tag (v_limit x)) (tag (v_step x))
         (tag (v_acc x)) (fused_sign x) s;
       work x h f s}}"

definition lua55_v2l_super_for_addi :: stencil where
  "lua55_v2l_super_for_addi = fused_learner addi_work"

definition add_work :: "fused \<Rightarrow> stencil" where
  "add_work x h f s =
     (if all_int (v_init x) (v_limit x) (v_step x) then
        let iv = payload (v_init x); lv = payload (v_limit x); sv = payload (v_step x) in
        if sv = 0 then reject_exit LUA55_V2_REJECT_STEP_ZERO h f s
        else if int_skips iv lv sv then jump_to (h_skip h) f s
        else do {
          let count = for_count (0 <s sv) iv lv sv;
          let (av, iv) = int_cycle (add_step (tag (v_acc x))) sv (more_trips count) (payload (v_acc x)) iv;
          s \<leftarrow> wr_payload (at_acc x) av s;
          s \<leftarrow> wr_int (at_init x) (last_count count) s;
          s \<leftarrow> wr_int (at_limit x) sv s;
          s \<leftarrow> wr_int (at_step x) iv s;
          jump_to (h_skip h) f s}
      else
        let iv = as_double (v_init x); lv = as_double (v_limit x); sv = as_double (v_step x) in
        if dbl_eq sv 0 then reject_exit LUA55_V2_REJECT_STEP_ZERO h f s
        else if flt_skips iv lv sv then jump_to (h_skip h) f s
        else do {
          (av, iv) \<leftarrow> flt_cycle dbl_add (\<lambda>nxt. flt_goes_on sv nxt lv) sv (as_double (v_acc x)) iv;
          s \<leftarrow> wr_flt (at_acc x) av s;
          s \<leftarrow> wr_flt (at_init x) lv s;
          s \<leftarrow> wr_flt (at_limit x) sv s;
          s \<leftarrow> wr_flt (at_step x) iv s;
          jump_to (h_skip h) f s})"

definition lua55_v2l_super_for_add :: stencil where
  "lua55_v2l_super_for_add = fused_learner add_work"

subsection \<open>Leaves\<close>

definition fused_guard :: "u32 \<Rightarrow> u32 \<Rightarrow> u32 \<Rightarrow> u32 \<Rightarrow> (fused \<Rightarrow> stencil) \<Rightarrow> stencil" where
  "fused_guard gi gl gs ga k h f s = do {
     a \<leftarrow> V2_VALUE (h_base_index h) f s;
     b \<leftarrow> V2_VALUE (h_base_index h + 1) f s;
     c \<leftarrow> V2_VALUE (h_base_index h + 2) f s;
     d \<leftarrow> V2_VALUE (h_target h) f s;
     init \<leftarrow> rd_val a s;
     V2_LEAF_GUARD init gi (\<lambda>h f s. do {
     limit \<leftarrow> rd_val b s;
     V2_LEAF_GUARD limit gl (\<lambda>h f s. do {
     step \<leftarrow> rd_val c s;
     V2_LEAF_GUARD step gs (\<lambda>h f s. do {
     acc \<leftarrow> rd_val d s;
     V2_LEAF_GUARD acc ga (k \<lparr>at_init = a, at_limit = b, at_step = c, at_acc = d,
       v_init = init, v_limit = limit, v_step = step, v_acc = acc\<rparr>) h f s}) h f s}) h f s}) h f s}"

definition sign_code :: "bool \<Rightarrow> u32" where
  "sign_code b = (if b then 1 else 0)"

definition V2_SUPER_FOR_ADDI :: "u32 \<Rightarrow> u32 \<Rightarrow> u32 \<Rightarrow> u32 \<Rightarrow> bool \<Rightarrow> bool \<Rightarrow> stencil" where
  "V2_SUPER_FOR_ADDI gi gl gs ga pos int_proto = fused_guard gi gl gs ga (\<lambda>x h f s.
     let g = addi_step ga (h_int_imm h) in
     if int_proto then
       let iv = payload (v_init x); lv = payload (v_limit x); sv = payload (v_step x) in
       if (if pos then sv \<le>s 0 else 0 \<le>s sv) then mismatch (sign_code pos) (sign_code (0 <s sv)) h f s
       else if sv = 0 then reject_exit LUA55_V2_REJECT_STEP_ZERO h f s
       else if for_skips pos iv lv then jump_to (h_skip h) f s
       else do {
         let count = for_count pos iv lv sv;
         let (av, iv) = int_cycle g sv (more_trips count) (payload (v_acc x)) iv;
         s \<leftarrow> wr_int (at_init x) (last_count count) s;
         s \<leftarrow> wr_int (at_limit x) sv s;
         s \<leftarrow> wr_int (at_step x) iv s;
         s \<leftarrow> wr_payload (at_acc x) av s;
         jump_to (h_skip h) f s}
     else
       let iv = as_double (v_init x); lv = as_double (v_limit x); sv = as_double (v_step x) in
       if (if pos then dbl_le sv 0 else dbl_le 0 sv) then mismatch (sign_code pos) (sign_code (dbl_lt 0 sv)) h f s
       else if dbl_eq sv 0 then reject_exit LUA55_V2_REJECT_STEP_ZERO h f s
       else if (if pos then dbl_lt lv iv else dbl_lt iv lv) then jump_to (h_skip h) f s
       else do {
         (av, iv) \<leftarrow> flt_cycle g (\<lambda>nxt. if pos then dbl_le nxt lv else dbl_le lv nxt) sv (payload (v_acc x)) iv;
         s \<leftarrow> wr_flt (at_init x) lv s;
         s \<leftarrow> wr_flt (at_limit x) sv s;
         s \<leftarrow> wr_flt (at_step x) iv s;
         s \<leftarrow> wr_payload (at_acc x) av s;
         jump_to (h_skip h) f s})"

definition V2_SUPER_FOR_ADD :: "u32 \<Rightarrow> u32 \<Rightarrow> u32 \<Rightarrow> u32 \<Rightarrow> bool \<Rightarrow> bool \<Rightarrow> stencil" where
  "V2_SUPER_FOR_ADD gi gl gs ga pos int_proto = fused_guard gi gl gs ga (\<lambda>x h f s.
     if int_proto then
       let iv = payload (v_init x); lv = payload (v_limit x); sv = payload (v_step x) in
       if (if pos then sv \<le>s 0 else 0 \<le>s sv) then mismatch (sign_code pos) (sign_code (0 <s sv)) h f s
       else if sv = 0 then reject_exit LUA55_V2_REJECT_STEP_ZERO h f s
       else if for_skips pos iv lv then jump_to (h_skip h) f s
       else do {
         let count = for_count pos iv lv sv;
         let (av, iv) = int_cycle (add_step ga) sv (more_trips count) (payload (v_acc x)) iv;
         s \<leftarrow> wr_int (at_init x) (last_count count) s;
         s \<leftarrow> wr_int (at_limit x) sv s;
         s \<leftarrow> wr_int (at_step x) iv s;
         s \<leftarrow> wr_payload (at_acc x) av s;
         jump_to (h_skip h) f s}
     else
       let iv = as_double (v_init x); lv = as_double (v_limit x); sv = as_double (v_step x) in
       if (if pos then dbl_le sv 0 else dbl_le 0 sv) then mismatch (sign_code pos) (sign_code (dbl_lt 0 sv)) h f s
       else if dbl_eq sv 0 then reject_exit LUA55_V2_REJECT_STEP_ZERO h f s
       else if (if pos then dbl_lt lv iv else dbl_lt iv lv) then jump_to (h_skip h) f s
       else do {
         (av, iv) \<leftarrow> flt_cycle dbl_add (\<lambda>nxt. if pos then dbl_le nxt lv else dbl_le lv nxt) sv
           (as_double (v_acc x)) iv;
         s \<leftarrow> wr_flt (at_acc x) av s;
         s \<leftarrow> wr_flt (at_init x) lv s;
         s \<leftarrow> wr_flt (at_limit x) sv s;
         s \<leftarrow> wr_flt (at_step x) iv s;
         jump_to (h_skip h) f s})"

text \<open>The instances: tags of init, limit and step, tag of the accumulator, sign of the step.\<close>

definition lua55_v2r_super_for_addi_iii_i_pos :: stencil where
  "lua55_v2r_super_for_addi_iii_i_pos = V2_SUPER_FOR_ADDI LUA55_VALUE_INTEGER LUA55_VALUE_INTEGER LUA55_VALUE_INTEGER
     LUA55_VALUE_INTEGER True True"

definition lua55_v2r_super_for_addi_iii_i_neg :: stencil where
  "lua55_v2r_super_for_addi_iii_i_neg = V2_SUPER_FOR_ADDI LUA55_VALUE_INTEGER LUA55_VALUE_INTEGER LUA55_VALUE_INTEGER
     LUA55_VALUE_INTEGER False True"

definition lua55_v2r_super_for_addi_iii_f_pos :: stencil where
  "lua55_v2r_super_for_addi_iii_f_pos = V2_SUPER_FOR_ADDI LUA55_VALUE_INTEGER LUA55_VALUE_INTEGER LUA55_VALUE_INTEGER
     LUA55_VALUE_FLOAT True True"

definition lua55_v2r_super_for_addi_iii_f_neg :: stencil where
  "lua55_v2r_super_for_addi_iii_f_neg = V2_SUPER_FOR_ADDI LUA55_VALUE_INTEGER LUA55_VALUE_INTEGER LUA55_VALUE_INTEGER
     LUA55_VALUE_FLOAT False True"

definition lua55_v2r_super_for_addi_iif_i_pos :: stencil where
  "lua55_v2r_super_for_addi_iif_i_pos = V2_SUPER_FOR_ADDI LUA55_VALUE_INTEGER LUA55_VALUE_INTEGER LUA55_VALUE_FLOAT
     LUA55_VALUE_INTEGER True False"

definition lua55_v2r_super_for_addi_iif_i_neg :: stencil where
  "lua55_v2r_super_for_addi_iif_i_neg = V2_SUPER_FOR_ADDI LUA55_VALUE_INTEGER LUA55_VALUE_INTEGER LUA55_VALUE_FLOAT
     LUA55_VALUE_INTEGER False False"

definition lua55_v2r_super_for_addi_iif_f_pos :: stencil where
  "lua55_v2r_super_for_addi_iif_f_pos = V2_SUPER_FOR_ADDI LUA55_VALUE_INTEGER LUA55_VALUE_INTEGER LUA55_VALUE_FLOAT
     LUA55_VALUE_FLOAT True False"

definition lua55_v2r_super_for_addi_iif_f_neg :: stencil where
  "lua55_v2r_super_for_addi_iif_f_neg = V2_SUPER_FOR_ADDI LUA55_VALUE_INTEGER LUA55_VALUE_INTEGER LUA55_VALUE_FLOAT
     LUA55_VALUE_FLOAT False False"

definition lua55_v2r_super_for_addi_ifi_i_pos :: stencil where
  "lua55_v2r_super_for_addi_ifi_i_pos = V2_SUPER_FOR_ADDI LUA55_VALUE_INTEGER LUA55_VALUE_FLOAT LUA55_VALUE_INTEGER
     LUA55_VALUE_INTEGER True False"

definition lua55_v2r_super_for_addi_ifi_i_neg :: stencil where
  "lua55_v2r_super_for_addi_ifi_i_neg = V2_SUPER_FOR_ADDI LUA55_VALUE_INTEGER LUA55_VALUE_FLOAT LUA55_VALUE_INTEGER
     LUA55_VALUE_INTEGER False False"

definition lua55_v2r_super_for_addi_ifi_f_pos :: stencil where
  "lua55_v2r_super_for_addi_ifi_f_pos = V2_SUPER_FOR_ADDI LUA55_VALUE_INTEGER LUA55_VALUE_FLOAT LUA55_VALUE_INTEGER
     LUA55_VALUE_FLOAT True False"

definition lua55_v2r_super_for_addi_ifi_f_neg :: stencil where
  "lua55_v2r_super_for_addi_ifi_f_neg = V2_SUPER_FOR_ADDI LUA55_VALUE_INTEGER LUA55_VALUE_FLOAT LUA55_VALUE_INTEGER
     LUA55_VALUE_FLOAT False False"

definition lua55_v2r_super_for_addi_iff_i_pos :: stencil where
  "lua55_v2r_super_for_addi_iff_i_pos = V2_SUPER_FOR_ADDI LUA55_VALUE_INTEGER LUA55_VALUE_FLOAT LUA55_VALUE_FLOAT
     LUA55_VALUE_INTEGER True False"

definition lua55_v2r_super_for_addi_iff_i_neg :: stencil where
  "lua55_v2r_super_for_addi_iff_i_neg = V2_SUPER_FOR_ADDI LUA55_VALUE_INTEGER LUA55_VALUE_FLOAT LUA55_VALUE_FLOAT
     LUA55_VALUE_INTEGER False False"

definition lua55_v2r_super_for_addi_iff_f_pos :: stencil where
  "lua55_v2r_super_for_addi_iff_f_pos = V2_SUPER_FOR_ADDI LUA55_VALUE_INTEGER LUA55_VALUE_FLOAT LUA55_VALUE_FLOAT
     LUA55_VALUE_FLOAT True False"

definition lua55_v2r_super_for_addi_iff_f_neg :: stencil where
  "lua55_v2r_super_for_addi_iff_f_neg = V2_SUPER_FOR_ADDI LUA55_VALUE_INTEGER LUA55_VALUE_FLOAT LUA55_VALUE_FLOAT
     LUA55_VALUE_FLOAT False False"

definition lua55_v2r_super_for_addi_fii_i_pos :: stencil where
  "lua55_v2r_super_for_addi_fii_i_pos = V2_SUPER_FOR_ADDI LUA55_VALUE_FLOAT LUA55_VALUE_INTEGER LUA55_VALUE_INTEGER
     LUA55_VALUE_INTEGER True False"

definition lua55_v2r_super_for_addi_fii_i_neg :: stencil where
  "lua55_v2r_super_for_addi_fii_i_neg = V2_SUPER_FOR_ADDI LUA55_VALUE_FLOAT LUA55_VALUE_INTEGER LUA55_VALUE_INTEGER
     LUA55_VALUE_INTEGER False False"

definition lua55_v2r_super_for_addi_fii_f_pos :: stencil where
  "lua55_v2r_super_for_addi_fii_f_pos = V2_SUPER_FOR_ADDI LUA55_VALUE_FLOAT LUA55_VALUE_INTEGER LUA55_VALUE_INTEGER
     LUA55_VALUE_FLOAT True False"

definition lua55_v2r_super_for_addi_fii_f_neg :: stencil where
  "lua55_v2r_super_for_addi_fii_f_neg = V2_SUPER_FOR_ADDI LUA55_VALUE_FLOAT LUA55_VALUE_INTEGER LUA55_VALUE_INTEGER
     LUA55_VALUE_FLOAT False False"

definition lua55_v2r_super_for_addi_fif_i_pos :: stencil where
  "lua55_v2r_super_for_addi_fif_i_pos = V2_SUPER_FOR_ADDI LUA55_VALUE_FLOAT LUA55_VALUE_INTEGER LUA55_VALUE_FLOAT
     LUA55_VALUE_INTEGER True False"

definition lua55_v2r_super_for_addi_fif_i_neg :: stencil where
  "lua55_v2r_super_for_addi_fif_i_neg = V2_SUPER_FOR_ADDI LUA55_VALUE_FLOAT LUA55_VALUE_INTEGER LUA55_VALUE_FLOAT
     LUA55_VALUE_INTEGER False False"

definition lua55_v2r_super_for_addi_fif_f_pos :: stencil where
  "lua55_v2r_super_for_addi_fif_f_pos = V2_SUPER_FOR_ADDI LUA55_VALUE_FLOAT LUA55_VALUE_INTEGER LUA55_VALUE_FLOAT
     LUA55_VALUE_FLOAT True False"

definition lua55_v2r_super_for_addi_fif_f_neg :: stencil where
  "lua55_v2r_super_for_addi_fif_f_neg = V2_SUPER_FOR_ADDI LUA55_VALUE_FLOAT LUA55_VALUE_INTEGER LUA55_VALUE_FLOAT
     LUA55_VALUE_FLOAT False False"

definition lua55_v2r_super_for_addi_ffi_i_pos :: stencil where
  "lua55_v2r_super_for_addi_ffi_i_pos = V2_SUPER_FOR_ADDI LUA55_VALUE_FLOAT LUA55_VALUE_FLOAT LUA55_VALUE_INTEGER
     LUA55_VALUE_INTEGER True False"

definition lua55_v2r_super_for_addi_ffi_i_neg :: stencil where
  "lua55_v2r_super_for_addi_ffi_i_neg = V2_SUPER_FOR_ADDI LUA55_VALUE_FLOAT LUA55_VALUE_FLOAT LUA55_VALUE_INTEGER
     LUA55_VALUE_INTEGER False False"

definition lua55_v2r_super_for_addi_ffi_f_pos :: stencil where
  "lua55_v2r_super_for_addi_ffi_f_pos = V2_SUPER_FOR_ADDI LUA55_VALUE_FLOAT LUA55_VALUE_FLOAT LUA55_VALUE_INTEGER
     LUA55_VALUE_FLOAT True False"

definition lua55_v2r_super_for_addi_ffi_f_neg :: stencil where
  "lua55_v2r_super_for_addi_ffi_f_neg = V2_SUPER_FOR_ADDI LUA55_VALUE_FLOAT LUA55_VALUE_FLOAT LUA55_VALUE_INTEGER
     LUA55_VALUE_FLOAT False False"

definition lua55_v2r_super_for_addi_fff_i_pos :: stencil where
  "lua55_v2r_super_for_addi_fff_i_pos = V2_SUPER_FOR_ADDI LUA55_VALUE_FLOAT LUA55_VALUE_FLOAT LUA55_VALUE_FLOAT
     LUA55_VALUE_INTEGER True False"

definition lua55_v2r_super_for_addi_fff_i_neg :: stencil where
  "lua55_v2r_super_for_addi_fff_i_neg = V2_SUPER_FOR_ADDI LUA55_VALUE_FLOAT LUA55_VALUE_FLOAT LUA55_VALUE_FLOAT
     LUA55_VALUE_INTEGER False False"

definition lua55_v2r_super_for_addi_fff_f_pos :: stencil where
  "lua55_v2r_super_for_addi_fff_f_pos = V2_SUPER_FOR_ADDI LUA55_VALUE_FLOAT LUA55_VALUE_FLOAT LUA55_VALUE_FLOAT
     LUA55_VALUE_FLOAT True False"

definition lua55_v2r_super_for_addi_fff_f_neg :: stencil where
  "lua55_v2r_super_for_addi_fff_f_neg = V2_SUPER_FOR_ADDI LUA55_VALUE_FLOAT LUA55_VALUE_FLOAT LUA55_VALUE_FLOAT
     LUA55_VALUE_FLOAT False False"

definition lua55_v2r_super_for_add_iii_i_pos :: stencil where
  "lua55_v2r_super_for_add_iii_i_pos = V2_SUPER_FOR_ADD LUA55_VALUE_INTEGER LUA55_VALUE_INTEGER LUA55_VALUE_INTEGER
     LUA55_VALUE_INTEGER True True"

definition lua55_v2r_super_for_add_iii_i_neg :: stencil where
  "lua55_v2r_super_for_add_iii_i_neg = V2_SUPER_FOR_ADD LUA55_VALUE_INTEGER LUA55_VALUE_INTEGER LUA55_VALUE_INTEGER
     LUA55_VALUE_INTEGER False True"

definition lua55_v2r_super_for_add_iii_f_pos :: stencil where
  "lua55_v2r_super_for_add_iii_f_pos = V2_SUPER_FOR_ADD LUA55_VALUE_INTEGER LUA55_VALUE_INTEGER LUA55_VALUE_INTEGER
     LUA55_VALUE_FLOAT True True"

definition lua55_v2r_super_for_add_iii_f_neg :: stencil where
  "lua55_v2r_super_for_add_iii_f_neg = V2_SUPER_FOR_ADD LUA55_VALUE_INTEGER LUA55_VALUE_INTEGER LUA55_VALUE_INTEGER
     LUA55_VALUE_FLOAT False True"

definition lua55_v2r_super_for_add_iif_i_pos :: stencil where
  "lua55_v2r_super_for_add_iif_i_pos = V2_SUPER_FOR_ADD LUA55_VALUE_INTEGER LUA55_VALUE_INTEGER LUA55_VALUE_FLOAT
     LUA55_VALUE_INTEGER True False"

definition lua55_v2r_super_for_add_iif_i_neg :: stencil where
  "lua55_v2r_super_for_add_iif_i_neg = V2_SUPER_FOR_ADD LUA55_VALUE_INTEGER LUA55_VALUE_INTEGER LUA55_VALUE_FLOAT
     LUA55_VALUE_INTEGER False False"

definition lua55_v2r_super_for_add_iif_f_pos :: stencil where
  "lua55_v2r_super_for_add_iif_f_pos = V2_SUPER_FOR_ADD LUA55_VALUE_INTEGER LUA55_VALUE_INTEGER LUA55_VALUE_FLOAT
     LUA55_VALUE_FLOAT True False"

definition lua55_v2r_super_for_add_iif_f_neg :: stencil where
  "lua55_v2r_super_for_add_iif_f_neg = V2_SUPER_FOR_ADD LUA55_VALUE_INTEGER LUA55_VALUE_INTEGER LUA55_VALUE_FLOAT
     LUA55_VALUE_FLOAT False False"

definition lua55_v2r_super_for_add_ifi_i_pos :: stencil where
  "lua55_v2r_super_for_add_ifi_i_pos = V2_SUPER_FOR_ADD LUA55_VALUE_INTEGER LUA55_VALUE_FLOAT LUA55_VALUE_INTEGER
     LUA55_VALUE_INTEGER True False"

definition lua55_v2r_super_for_add_ifi_i_neg :: stencil where
  "lua55_v2r_super_for_add_ifi_i_neg = V2_SUPER_FOR_ADD LUA55_VALUE_INTEGER LUA55_VALUE_FLOAT LUA55_VALUE_INTEGER
     LUA55_VALUE_INTEGER False False"

definition lua55_v2r_super_for_add_ifi_f_pos :: stencil where
  "lua55_v2r_super_for_add_ifi_f_pos = V2_SUPER_FOR_ADD LUA55_VALUE_INTEGER LUA55_VALUE_FLOAT LUA55_VALUE_INTEGER
     LUA55_VALUE_FLOAT True False"

definition lua55_v2r_super_for_add_ifi_f_neg :: stencil where
  "lua55_v2r_super_for_add_ifi_f_neg = V2_SUPER_FOR_ADD LUA55_VALUE_INTEGER LUA55_VALUE_FLOAT LUA55_VALUE_INTEGER
     LUA55_VALUE_FLOAT False False"

definition lua55_v2r_super_for_add_iff_i_pos :: stencil where
  "lua55_v2r_super_for_add_iff_i_pos = V2_SUPER_FOR_ADD LUA55_VALUE_INTEGER LUA55_VALUE_FLOAT LUA55_VALUE_FLOAT
     LUA55_VALUE_INTEGER True False"

definition lua55_v2r_super_for_add_iff_i_neg :: stencil where
  "lua55_v2r_super_for_add_iff_i_neg = V2_SUPER_FOR_ADD LUA55_VALUE_INTEGER LUA55_VALUE_FLOAT LUA55_VALUE_FLOAT
     LUA55_VALUE_INTEGER False False"

definition lua55_v2r_super_for_add_iff_f_pos :: stencil where
  "lua55_v2r_super_for_add_iff_f_pos = V2_SUPER_FOR_ADD LUA55_VALUE_INTEGER LUA55_VALUE_FLOAT LUA55_VALUE_FLOAT
     LUA55_VALUE_FLOAT True False"

definition lua55_v2r_super_for_add_iff_f_neg :: stencil where
  "lua55_v2r_super_for_add_iff_f_neg = V2_SUPER_FOR_ADD LUA55_VALUE_INTEGER LUA55_VALUE_FLOAT LUA55_VALUE_FLOAT
     LUA55_VALUE_FLOAT False False"

definition lua55_v2r_super_for_add_fii_i_pos :: stencil where
  "lua55_v2r_super_for_add_fii_i_pos = V2_SUPER_FOR_ADD LUA55_VALUE_FLOAT LUA55_VALUE_INTEGER LUA55_VALUE_INTEGER
     LUA55_VALUE_INTEGER True False"

definition lua55_v2r_super_for_add_fii_i_neg :: stencil where
  "lua55_v2r_super_for_add_fii_i_neg = V2_SUPER_FOR_ADD LUA55_VALUE_FLOAT LUA55_VALUE_INTEGER LUA55_VALUE_INTEGER
     LUA55_VALUE_INTEGER False False"

definition lua55_v2r_super_for_add_fii_f_pos :: stencil where
  "lua55_v2r_super_for_add_fii_f_pos = V2_SUPER_FOR_ADD LUA55_VALUE_FLOAT LUA55_VALUE_INTEGER LUA55_VALUE_INTEGER
     LUA55_VALUE_FLOAT True False"

definition lua55_v2r_super_for_add_fii_f_neg :: stencil where
  "lua55_v2r_super_for_add_fii_f_neg = V2_SUPER_FOR_ADD LUA55_VALUE_FLOAT LUA55_VALUE_INTEGER LUA55_VALUE_INTEGER
     LUA55_VALUE_FLOAT False False"

definition lua55_v2r_super_for_add_fif_i_pos :: stencil where
  "lua55_v2r_super_for_add_fif_i_pos = V2_SUPER_FOR_ADD LUA55_VALUE_FLOAT LUA55_VALUE_INTEGER LUA55_VALUE_FLOAT
     LUA55_VALUE_INTEGER True False"

definition lua55_v2r_super_for_add_fif_i_neg :: stencil where
  "lua55_v2r_super_for_add_fif_i_neg = V2_SUPER_FOR_ADD LUA55_VALUE_FLOAT LUA55_VALUE_INTEGER LUA55_VALUE_FLOAT
     LUA55_VALUE_INTEGER False False"

definition lua55_v2r_super_for_add_fif_f_pos :: stencil where
  "lua55_v2r_super_for_add_fif_f_pos = V2_SUPER_FOR_ADD LUA55_VALUE_FLOAT LUA55_VALUE_INTEGER LUA55_VALUE_FLOAT
     LUA55_VALUE_FLOAT True False"

definition lua55_v2r_super_for_add_fif_f_neg :: stencil where
  "lua55_v2r_super_for_add_fif_f_neg = V2_SUPER_FOR_ADD LUA55_VALUE_FLOAT LUA55_VALUE_INTEGER LUA55_VALUE_FLOAT
     LUA55_VALUE_FLOAT False False"

definition lua55_v2r_super_for_add_ffi_i_pos :: stencil where
  "lua55_v2r_super_for_add_ffi_i_pos = V2_SUPER_FOR_ADD LUA55_VALUE_FLOAT LUA55_VALUE_FLOAT LUA55_VALUE_INTEGER
     LUA55_VALUE_INTEGER True False"

definition lua55_v2r_super_for_add_ffi_i_neg :: stencil where
  "lua55_v2r_super_for_add_ffi_i_neg = V2_SUPER_FOR_ADD LUA55_VALUE_FLOAT LUA55_VALUE_FLOAT LUA55_VALUE_INTEGER
     LUA55_VALUE_INTEGER False False"

definition lua55_v2r_super_for_add_ffi_f_pos :: stencil where
  "lua55_v2r_super_for_add_ffi_f_pos = V2_SUPER_FOR_ADD LUA55_VALUE_FLOAT LUA55_VALUE_FLOAT LUA55_VALUE_INTEGER
     LUA55_VALUE_FLOAT True False"

definition lua55_v2r_super_for_add_ffi_f_neg :: stencil where
  "lua55_v2r_super_for_add_ffi_f_neg = V2_SUPER_FOR_ADD LUA55_VALUE_FLOAT LUA55_VALUE_FLOAT LUA55_VALUE_INTEGER
     LUA55_VALUE_FLOAT False False"

definition lua55_v2r_super_for_add_fff_i_pos :: stencil where
  "lua55_v2r_super_for_add_fff_i_pos = V2_SUPER_FOR_ADD LUA55_VALUE_FLOAT LUA55_VALUE_FLOAT LUA55_VALUE_FLOAT
     LUA55_VALUE_INTEGER True False"

definition lua55_v2r_super_for_add_fff_i_neg :: stencil where
  "lua55_v2r_super_for_add_fff_i_neg = V2_SUPER_FOR_ADD LUA55_VALUE_FLOAT LUA55_VALUE_FLOAT LUA55_VALUE_FLOAT
     LUA55_VALUE_INTEGER False False"

definition lua55_v2r_super_for_add_fff_f_pos :: stencil where
  "lua55_v2r_super_for_add_fff_f_pos = V2_SUPER_FOR_ADD LUA55_VALUE_FLOAT LUA55_VALUE_FLOAT LUA55_VALUE_FLOAT
     LUA55_VALUE_FLOAT True False"

definition lua55_v2r_super_for_add_fff_f_neg :: stencil where
  "lua55_v2r_super_for_add_fff_f_neg = V2_SUPER_FOR_ADD LUA55_VALUE_FLOAT LUA55_VALUE_FLOAT LUA55_VALUE_FLOAT
     LUA55_VALUE_FLOAT False False"

subsection \<open>The leaves with an integer step meet their contract\<close>

text \<open>
  The accumulator is none of the control registers, and the exit past the loop is not the mismatch
  exit. A float step is left out: a NaN passes the sign test of the leaf, as in \<open>FORPREP\<close>.
\<close>

definition fused_linked :: "holes \<Rightarrow> bool" where
  "fused_linked h \<longleftrightarrow> h_skip h \<noteq> h_mismatch_exit h \<and>
     h_target h \<noteq> h_base_index h \<and> h_target h \<noteq> h_base_index h + 1 \<and> h_target h \<noteq> h_base_index h + 2"

definition fused_shape :: "u32 \<Rightarrow> u32 \<Rightarrow> u32 \<Rightarrow> u32 \<Rightarrow> bool \<Rightarrow> holes \<Rightarrow> fused \<Rightarrow> bool" where
  "fused_shape gi gl gs ga pos h x \<longleftrightarrow> tag (v_init x) = gi \<and> tag (v_limit x) = gl \<and> tag (v_step x) = gs \<and>
     tag (v_acc x) = ga \<and>
     (if all_int (v_init x) (v_limit x) (v_step x)
      then (if pos then 0 <s payload (v_step x) else payload (v_step x) <s 0)
      else (if pos then dbl_lt 0 (as_double (v_step x)) else dbl_lt (as_double (v_step x)) 0)) \<and>
     distinct [at_init x, at_limit x, at_step x, at_acc x]"

lemma fused_ops_forget: "fused_ops h f (forget s) = fused_ops h f s"
  by (simp add: fused_ops_def V2_VALUE_def rd_val_def)

lemma fused_ops_apart:
  assumes "fused_ops h f s = Some x" and "fused_linked h"
  shows "distinct [at_init x, at_limit x, at_step x, at_acc x]"
  using assms by (auto simp: fused_ops_def V2_VALUE_def fused_linked_def bind_eq_Some_conv)

lemma fused_ops_read:
  assumes "fused_ops h f s = Some x"
  shows "vals s (at_init x) = Some (v_init x)" "vals s (at_limit x) = Some (v_limit x)"
    "vals s (at_step x) = Some (v_step x)" "vals s (at_acc x) = Some (v_acc x)"
  using assms by (auto simp: fused_ops_def rd_val_def bind_eq_Some_conv)

lemma fused_guard_eq:
  assumes "fused_ops h f s = Some x"
  shows "fused_guard gi gl gs ga k h f s =
    (if tag (v_init x) \<noteq> gi then mismatch gi (tag (v_init x)) h f s
     else if tag (v_limit x) \<noteq> gl then mismatch gl (tag (v_limit x)) h f s
     else if tag (v_step x) \<noteq> gs then mismatch gs (tag (v_step x)) h f s
     else if tag (v_acc x) \<noteq> ga then mismatch ga (tag (v_acc x)) h f s
     else k x h f s)"
  using assms by (auto simp: fused_ops_def fused_guard_def V2_LEAF_GUARD_def bind_eq_Some_conv)

lemma fused_guard_undefined:
  "fused_ops h f s = None \<Longrightarrow> fused_guard gi gl gs ga k h f s = Some r \<Longrightarrow> mismatch_exit h f s r"
  by (auto simp: fused_ops_def fused_guard_def V2_LEAF_GUARD_def bind_eq_None_conv bind_eq_Some_conv
      split: if_splits intro: mismatch_is_exit)

lemma int_step_number [simp]: "tag v = LUA55_VALUE_INTEGER \<Longrightarrow> \<not> dbl_isnan (as_double v)"
  by (simp add: as_double_def c_double_def)

lemma addi_work_forgetful: "forgetful (addi_work x h f)"
  unfolding addi_work_def [abs_def] Let_def case_prod_unfold
  by (intro v2_blind forgetful_read) (simp_all add: rd_val_def)

lemma add_work_forgetful: "forgetful (add_work x h f)"
  unfolding add_work_def [abs_def] Let_def case_prod_unfold
  by (intro v2_blind forgetful_read) simp_all

lemma value_overwritten: "(v :: lua_value)\<lparr>tag := t, reserved := r, payload := p\<rparr> = \<lparr>tag = t, reserved = r, payload = p\<rparr>"
  by (cases v) simp

text \<open>The stores of the learner, cell by cell, and those of the leaf leave the same cells.\<close>

lemma learner_stores:
  assumes "vals s a = Some va" "vals s b = Some vb" "vals s c = Some vc" "vals s d = Some vd" and ne: "distinct [a, b, c, d]"
  shows "do {s \<leftarrow> wr_tag a 3 s; s \<leftarrow> wr_tag b 3 s; s \<leftarrow> wr_tag c 3 s; s \<leftarrow> wr_payload b y s; s \<leftarrow> wr_payload c z0 s;
       acc \<leftarrow> rd_val d s;
       s \<leftarrow> wr_payload c (z acc) s; s \<leftarrow> wr_payload d (w acc) s; s \<leftarrow> wr_payload a x s; jump_to e f s} =
     do {s \<leftarrow> wr_int a x s; s \<leftarrow> wr_int b y s; s \<leftarrow> wr_int c (z vd) s; s \<leftarrow> wr_payload d (w vd) s; jump_to e f s}"
proof -
  have "(vals s)(a \<mapsto> va', b \<mapsto> vb', c \<mapsto> vc', b \<mapsto> vb2, c \<mapsto> vc3, c \<mapsto> vc2, d \<mapsto> vd', a \<mapsto> va2) =
      (vals s)(a \<mapsto> va2, b \<mapsto> vb2, c \<mapsto> vc2, d \<mapsto> vd')" for va' vb' vc' vb2 vc2 vc3 vd' va2
    using ne by (auto simp: fun_eq_iff)
  moreover have "a \<noteq> b" "b \<noteq> a" "a \<noteq> c" "c \<noteq> a" "a \<noteq> d" "d \<noteq> a" "b \<noteq> c" "c \<noteq> b" "b \<noteq> d" "d \<noteq> b" "c \<noteq> d" "d \<noteq> c"
    using ne by auto
  ultimately show ?thesis
    using assms(1-4) by (simp add: value_overwritten wr_tag_def wr_payload_def wr_int_def wr_val_def rd_val_def SET_TAG_def mk_value_def jump_to_def)
qed

lemma learner_flt_stores:
  assumes "vals s a = Some va" "vals s b = Some vb" "vals s c = Some vc" "vals s d = Some vd" and ne: "distinct [a, b, c, d]"
  shows "do {s \<leftarrow> wr_flt a x s; s \<leftarrow> wr_flt b y s; s \<leftarrow> wr_flt c z s; acc \<leftarrow> rd_val d s; p \<leftarrow> cyc acc;
       s \<leftarrow> wr_payload c (snd p) s; s \<leftarrow> wr_payload d (fst p) s; jump_to e f s} =
     do {p \<leftarrow> cyc vd; s \<leftarrow> wr_flt a x s; s \<leftarrow> wr_flt b y s; s \<leftarrow> wr_flt c (snd p) s; s \<leftarrow> wr_payload d (fst p) s;
       jump_to e f s}"
proof -
  have "a \<noteq> b" "b \<noteq> a" "a \<noteq> c" "c \<noteq> a" "a \<noteq> d" "d \<noteq> a" "b \<noteq> c" "c \<noteq> b" "b \<noteq> d" "d \<noteq> b" "c \<noteq> d" "d \<noteq> c"
    using ne by auto
  then show ?thesis
    using assms(1-4)
    by (cases "cyc vd") (simp_all add: wr_payload_def wr_flt_def wr_val_def rd_val_def mk_value_def jump_to_def)
qed

lemma acc_first:
  assumes "vals s a = Some va" "vals s b = Some vb" "vals s c = Some vc" "vals s d = Some vd" and ne: "distinct [a, b, c, d]"
  shows "do {s \<leftarrow> wr_payload d w s; s \<leftarrow> wr_int a x s; s \<leftarrow> wr_int b y s; s \<leftarrow> wr_int c z s; jump_to e f s} =
     do {s \<leftarrow> wr_int a x s; s \<leftarrow> wr_int b y s; s \<leftarrow> wr_int c z s; s \<leftarrow> wr_payload d w s; jump_to e f s}"
proof -
  have "(vals s)(d \<mapsto> vd', a \<mapsto> va2, b \<mapsto> vb2, c \<mapsto> vc2) = (vals s)(a \<mapsto> va2, b \<mapsto> vb2, c \<mapsto> vc2, d \<mapsto> vd')" for vb2 vc2 vd' va2
    using ne by (auto simp: fun_eq_iff)
  moreover have "a \<noteq> b" "b \<noteq> a" "a \<noteq> c" "c \<noteq> a" "a \<noteq> d" "d \<noteq> a" "b \<noteq> c" "c \<noteq> b" "b \<noteq> d" "d \<noteq> b" "c \<noteq> d" "d \<noteq> c"
    using ne by auto
  ultimately show ?thesis
    using assms(1-4) by (simp add: value_overwritten wr_payload_def wr_int_def wr_val_def rd_val_def mk_value_def jump_to_def)
qed

lemma sign_facts:
  assumes "if pos then 0 <s (sv :: u64) else sv <s 0"
  shows "sv \<noteq> 0" "(0 <s sv) = pos" "int_skips iv lv sv = for_skips pos iv lv" "\<not> (if pos then sv \<le>s 0 else 0 \<le>s sv)"
  using assms by (auto simp: sle_zero sless_zero int_skips_def for_skips_def split: if_splits)

lemma flt_sign_facts:
  assumes "if pos then dbl_lt 0 sv else dbl_lt sv 0"
  shows "\<not> dbl_eq sv 0" "flt_skips iv lv sv = (if pos then dbl_lt lv iv else dbl_lt iv lv)"
    "(\<lambda>nxt. flt_goes_on sv nxt lv) = (\<lambda>nxt. if pos then dbl_le nxt lv else dbl_le lv nxt)"
    "\<not> (if pos then dbl_le sv 0 else dbl_le 0 sv)"
  using assms by (auto simp: dbl_lt_def dbl_le_def dbl_eq_def flt_skips_def flt_goes_on_def fun_eq_iff split: if_splits)

abbreviation all_int_tags :: "u32 \<Rightarrow> u32 \<Rightarrow> u32 \<Rightarrow> bool" where
  "all_int_tags gi gl gs \<equiv> gi = LUA55_VALUE_INTEGER \<and> gl = LUA55_VALUE_INTEGER \<and> gs = LUA55_VALUE_INTEGER"

lemma addi_leaf_works:
  assumes ops: "fused_ops h f s = Some x" and shape: "fused_shape gi gl gs ga pos h x"
  shows "V2_SUPER_FOR_ADDI gi gl gs ga pos (all_int_tags gi gl gs) h f s = addi_work x h f s"
proof (cases "all_int (v_init x) (v_limit x) (v_step x)")
  case True
  then have sg: "if pos then 0 <s payload (v_step x) else payload (v_step x) <s 0"
    and d: "distinct [at_init x, at_limit x, at_step x, at_acc x]"
    and t: "tag (v_init x) = gi" "tag (v_limit x) = gl" "tag (v_step x) = gs" "tag (v_acc x) = ga"
    using shape by (simp_all add: fused_shape_def)
  have i: "all_int_tags gi gl gs = True" using True t by (auto simp: all_int_def)
  note stores = learner_stores [OF fused_ops_read [OF ops] d]
  show ?thesis
    unfolding V2_SUPER_FOR_ADDI_def fused_guard_eq [OF ops] addi_work_def Let_def case_prod_unfold
    by (simp only: t i True sign_facts [OF sg] stores simp_thms if_True if_False)
next
  case False
  then have sg: "if pos then dbl_lt 0 (as_double (v_step x)) else dbl_lt (as_double (v_step x)) 0"
    and d: "distinct [at_init x, at_limit x, at_step x, at_acc x]"
    and t: "tag (v_init x) = gi" "tag (v_limit x) = gl" "tag (v_step x) = gs" "tag (v_acc x) = ga"
    using shape by (simp_all add: fused_shape_def)
  note stores = learner_flt_stores [OF fused_ops_read [OF ops] d]
  have i: "all_int_tags gi gl gs = False" using False t by (auto simp: all_int_def)
  show ?thesis
    unfolding V2_SUPER_FOR_ADDI_def fused_guard_eq [OF ops] addi_work_def Let_def case_prod_unfold
    by (simp only: t i False flt_sign_facts [OF sg] stores simp_thms if_True if_False)
qed

lemma add_leaf_works:
  assumes ops: "fused_ops h f s = Some x" and shape: "fused_shape gi gl gs ga pos h x"
  shows "V2_SUPER_FOR_ADD gi gl gs ga pos (all_int_tags gi gl gs) h f s = add_work x h f s"
proof (cases "all_int (v_init x) (v_limit x) (v_step x)")
  case True
  then have sg: "if pos then 0 <s payload (v_step x) else payload (v_step x) <s 0"
    and d: "distinct [at_init x, at_limit x, at_step x, at_acc x]"
    and t: "tag (v_init x) = gi" "tag (v_limit x) = gl" "tag (v_step x) = gs" "tag (v_acc x) = ga"
    using shape by (simp_all add: fused_shape_def)
  have i: "all_int_tags gi gl gs = True" using True t by (auto simp: all_int_def)
  note stores = acc_first [OF fused_ops_read [OF ops] d]
  show ?thesis
    unfolding V2_SUPER_FOR_ADD_def fused_guard_eq [OF ops] add_work_def Let_def case_prod_unfold
    by (simp only: t i True sign_facts [OF sg] stores simp_thms if_True if_False)
next
  case False
  then have sg: "if pos then dbl_lt 0 (as_double (v_step x)) else dbl_lt (as_double (v_step x)) 0"
    and t: "tag (v_init x) = gi" "tag (v_limit x) = gl" "tag (v_step x) = gs" "tag (v_acc x) = ga"
    using shape by (simp_all add: fused_shape_def)
  have i: "all_int_tags gi gl gs = False" using False t by (auto simp: all_int_def)
  show ?thesis
    unfolding V2_SUPER_FOR_ADD_def fused_guard_eq [OF ops] add_work_def Let_def case_prod_unfold
    by (simp only: t i False flt_sign_facts [OF sg] simp_thms if_True if_False)
qed

definition numeric_tag :: "u32 \<Rightarrow> bool" where
  "numeric_tag t \<longleftrightarrow> t = LUA55_VALUE_INTEGER \<or> t = LUA55_VALUE_FLOAT"

lemma addi_work_stays:
  assumes "fused_linked h" and "addi_work x h f s = Some r"
  shows "\<not> mismatch_exit h f s r"
  using assms
  by (auto simp: addi_work_def fused_linked_def bind_eq_Some_conv Let_def case_prod_unfold
      dest: jump_not_mismatch reject_not_mismatch split: if_splits)

lemma add_work_stays:
  assumes "fused_linked h" and "add_work x h f s = Some r"
  shows "\<not> mismatch_exit h f s r"
  using assms
  by (auto simp: add_work_def fused_linked_def bind_eq_Some_conv Let_def
      dest: jump_not_mismatch reject_not_mismatch split: if_splits prod.splits)

lemma wrong_sign:
  "\<not> (if pos then 0 <s sv else sv <s 0) \<Longrightarrow> (if pos then sv \<le>s 0 else 0 \<le>s (sv :: u64))"
  by (auto simp: sle_zero sless_zero split: if_splits)

lemma wrong_flt_sign:
  "\<not> (if pos then dbl_lt 0 sv else dbl_lt sv 0) \<Longrightarrow> \<not> dbl_isnan sv \<Longrightarrow> (if pos then dbl_le sv 0 else dbl_le 0 sv)"
  by (auto simp: dbl_lt_def dbl_le_def split: if_splits)

lemma fused_refuses:
  assumes ops: "fused_ops h f s = Some x" and "fused_linked h" and "\<not> fused_shape gi gl 3 ga pos h x"
    and "\<And>x. all_int_tags gi gl 3 \<Longrightarrow> (if pos then payload (v_step x) \<le>s 0 else 0 \<le>s payload (v_step x)) \<Longrightarrow>
      \<exists>e ob. k x h f s = mismatch e ob h f s"
    and "\<And>x. \<not> all_int_tags gi gl 3 \<Longrightarrow>
      (if pos then dbl_le (as_double (v_step x)) 0 else dbl_le 0 (as_double (v_step x))) \<Longrightarrow>
      \<exists>e ob. k x h f s = mismatch e ob h f s"
  shows "\<exists>e ob. fused_guard gi gl 3 ga k h f s = mismatch e ob h f s"
proof (cases "tag (v_init x) = gi \<and> tag (v_limit x) = gl \<and> tag (v_step x) = 3 \<and> tag (v_acc x) = ga")
  case True
  then have g: "fused_guard gi gl 3 ga k h f s = k x h f s" by (simp add: fused_guard_eq [OF ops])
  show ?thesis
  proof (cases "all_int (v_init x) (v_limit x) (v_step x)")
    case True
    then have "\<not> (if pos then 0 <s payload (v_step x) else payload (v_step x) <s 0)"
      using assms(3) \<open>tag (v_init x) = gi \<and> _\<close> fused_ops_apart [OF ops assms(2)] by (simp add: fused_shape_def)
    from assms(4) [OF _ wrong_sign [OF this]] True show ?thesis
      using \<open>tag (v_init x) = gi \<and> _\<close> g by (auto simp: all_int_def)
  next
    case False
    then have "\<not> (if pos then dbl_lt 0 (as_double (v_step x)) else dbl_lt (as_double (v_step x)) 0)"
      using assms(3) \<open>tag (v_init x) = gi \<and> _\<close> fused_ops_apart [OF ops assms(2)] by (simp add: fused_shape_def)
    from assms(5) [OF _ wrong_flt_sign [OF this]] False show ?thesis
      using \<open>tag (v_init x) = gi \<and> _\<close> g by (auto simp: all_int_def)
  qed
next
  case False
  then show ?thesis by (auto simp: fused_guard_eq [OF ops])
qed

lemma fused_learner_learns:
  assumes "fused_ops h f s = Some x" and "fused_shape gi gl gs ga pos h x"
    and "numeric_tag gi" "numeric_tag gl" "numeric_tag gs" "numeric_tag ga"
  shows "fused_learner work h f s = do {
    s \<leftarrow> learn_at (h_occ_slot h) (observe_quad (tag (v_init x), tag (v_limit x),
      pack_halves (tag (v_step x)) (tag (v_acc x)), fused_sign x)) s;
    work x h f s}"
  using assms
  by (auto simp: fused_learner_def fused_shape_def numeric_tag_def fused_numbers_def is_number_def v2_learn_super_for_addi_def)

lemma fused_leaf_refines:
  assumes works: "\<And>h f s x. fused_ops h f s = Some x \<Longrightarrow> fused_shape gi gl 3 ga pos h x \<Longrightarrow> leaf h f s = work x h f s"
    and refuses: "\<And>h f s x. fused_linked h \<Longrightarrow> fused_ops h f s = Some x \<Longrightarrow> \<not> fused_shape gi gl 3 ga pos h x \<Longrightarrow>
      \<exists>e ob. leaf h f s = mismatch e ob h f s"
    and undefined: "\<And>h f s r. fused_ops h f s = None \<Longrightarrow> leaf h f s = Some r \<Longrightarrow> mismatch_exit h f s r"
    and free: "\<And>h f x. forgetful (work x h f)"
    and stays: "\<And>h f s x r. fused_linked h \<Longrightarrow> work x h f s = Some r \<Longrightarrow> \<not> mismatch_exit h f s r"
    and n: "numeric_tag gi" "numeric_tag gl" "numeric_tag ga"
  shows "residual_leaf (fused_learner work) leaf (accepted fused_ops (fused_shape gi gl 3 ga pos)) fused_linked"
proof (rule observed_refines_ok [where slot = h_occ_slot and lbody = work
      and obs = "\<lambda>x. observe_quad (tag (v_init x), tag (v_limit x), pack_halves (tag (v_step x)) (tag (v_acc x)), fused_sign x)"])
  fix h f s x
  show "fused_learner work h f s = do {
      s \<leftarrow> learn_at (h_occ_slot h) (observe_quad (tag (v_init x), tag (v_limit x),
        pack_halves (tag (v_step x)) (tag (v_acc x)), fused_sign x)) s;
      work x h f s}" if "fused_ops h f s = Some x" "fused_shape gi gl 3 ga pos h x"
    using fused_learner_learns [OF that] n by (simp add: numeric_tag_def)
  show "fused_learner work h f s = None" if "fused_ops h f s = None"
    using that by (simp add: fused_learner_def)
qed (use assms in \<open>simp_all add: fused_ops_forget\<close>)

lemma addi_leaf_refines:
  assumes "numeric_tag gi" "numeric_tag gl" "numeric_tag ga" and ip: "int_proto = all_int_tags gi gl 3"
  shows "residual_leaf lua55_v2l_super_for_addi (V2_SUPER_FOR_ADDI gi gl 3 ga pos int_proto)
    (accepted fused_ops (fused_shape gi gl 3 ga pos)) fused_linked"
  unfolding lua55_v2l_super_for_addi_def
proof (rule fused_leaf_refines)
  fix h f s x r
  show "V2_SUPER_FOR_ADDI gi gl 3 ga pos int_proto h f s = addi_work x h f s"
    if "fused_ops h f s = Some x" "fused_shape gi gl 3 ga pos h x"
    using addi_leaf_works [OF that] ip by simp
  show "\<exists>e ob. V2_SUPER_FOR_ADDI gi gl 3 ga pos int_proto h f s = mismatch e ob h f s"
    if "fused_linked h" "fused_ops h f s = Some x" "\<not> fused_shape gi gl 3 ga pos h x"
    unfolding V2_SUPER_FOR_ADDI_def ip
    by (rule fused_refuses [OF that(2,1,3)]) (cases pos; simp only: Let_def simp_thms if_True if_False refused)+
  show "mismatch_exit h f s r" if "fused_ops h f s = None" "V2_SUPER_FOR_ADDI gi gl 3 ga pos int_proto h f s = Some r"
    using that fused_guard_undefined by (simp add: V2_SUPER_FOR_ADDI_def)
qed (use assms in \<open>simp_all add: addi_work_forgetful addi_work_stays\<close>)

lemma add_leaf_refines:
  assumes "numeric_tag gi" "numeric_tag gl" "numeric_tag ga" and ip: "int_proto = all_int_tags gi gl 3"
  shows "residual_leaf lua55_v2l_super_for_add (V2_SUPER_FOR_ADD gi gl 3 ga pos int_proto)
    (accepted fused_ops (fused_shape gi gl 3 ga pos)) fused_linked"
  unfolding lua55_v2l_super_for_add_def
proof (rule fused_leaf_refines)
  fix h f s x r
  show "V2_SUPER_FOR_ADD gi gl 3 ga pos int_proto h f s = add_work x h f s"
    if "fused_ops h f s = Some x" "fused_shape gi gl 3 ga pos h x"
    using add_leaf_works [OF that] ip by simp
  show "\<exists>e ob. V2_SUPER_FOR_ADD gi gl 3 ga pos int_proto h f s = mismatch e ob h f s"
    if "fused_linked h" "fused_ops h f s = Some x" "\<not> fused_shape gi gl 3 ga pos h x"
    unfolding V2_SUPER_FOR_ADD_def ip
    by (rule fused_refuses [OF that(2,1,3)]) (cases pos; simp only: Let_def simp_thms if_True if_False refused)+
  show "mismatch_exit h f s r" if "fused_ops h f s = None" "V2_SUPER_FOR_ADD gi gl 3 ga pos int_proto h f s = Some r"
    using that fused_guard_undefined by (simp add: V2_SUPER_FOR_ADD_def)
qed (use assms in \<open>simp_all add: add_work_forgetful add_work_stays\<close>)

definition fused_bank :: "((stencil \<times> stencil) \<times> (holes \<Rightarrow> u64 \<Rightarrow> v2_state \<Rightarrow> bool) \<times> (holes \<Rightarrow> bool)) list" where
  "fused_bank = [
     ((lua55_v2l_super_for_addi, lua55_v2r_super_for_addi_iii_i_pos),
      accepted fused_ops (fused_shape LUA55_VALUE_INTEGER LUA55_VALUE_INTEGER LUA55_VALUE_INTEGER LUA55_VALUE_INTEGER True), fused_linked),
     ((lua55_v2l_super_for_addi, lua55_v2r_super_for_addi_iii_i_neg),
      accepted fused_ops (fused_shape LUA55_VALUE_INTEGER LUA55_VALUE_INTEGER LUA55_VALUE_INTEGER LUA55_VALUE_INTEGER False), fused_linked),
     ((lua55_v2l_super_for_addi, lua55_v2r_super_for_addi_iii_f_pos),
      accepted fused_ops (fused_shape LUA55_VALUE_INTEGER LUA55_VALUE_INTEGER LUA55_VALUE_INTEGER LUA55_VALUE_FLOAT True), fused_linked),
     ((lua55_v2l_super_for_addi, lua55_v2r_super_for_addi_iii_f_neg),
      accepted fused_ops (fused_shape LUA55_VALUE_INTEGER LUA55_VALUE_INTEGER LUA55_VALUE_INTEGER LUA55_VALUE_FLOAT False), fused_linked),
     ((lua55_v2l_super_for_addi, lua55_v2r_super_for_addi_ifi_i_pos),
      accepted fused_ops (fused_shape LUA55_VALUE_INTEGER LUA55_VALUE_FLOAT LUA55_VALUE_INTEGER LUA55_VALUE_INTEGER True), fused_linked),
     ((lua55_v2l_super_for_addi, lua55_v2r_super_for_addi_ifi_i_neg),
      accepted fused_ops (fused_shape LUA55_VALUE_INTEGER LUA55_VALUE_FLOAT LUA55_VALUE_INTEGER LUA55_VALUE_INTEGER False), fused_linked),
     ((lua55_v2l_super_for_addi, lua55_v2r_super_for_addi_ifi_f_pos),
      accepted fused_ops (fused_shape LUA55_VALUE_INTEGER LUA55_VALUE_FLOAT LUA55_VALUE_INTEGER LUA55_VALUE_FLOAT True), fused_linked),
     ((lua55_v2l_super_for_addi, lua55_v2r_super_for_addi_ifi_f_neg),
      accepted fused_ops (fused_shape LUA55_VALUE_INTEGER LUA55_VALUE_FLOAT LUA55_VALUE_INTEGER LUA55_VALUE_FLOAT False), fused_linked),
     ((lua55_v2l_super_for_addi, lua55_v2r_super_for_addi_fii_i_pos),
      accepted fused_ops (fused_shape LUA55_VALUE_FLOAT LUA55_VALUE_INTEGER LUA55_VALUE_INTEGER LUA55_VALUE_INTEGER True), fused_linked),
     ((lua55_v2l_super_for_addi, lua55_v2r_super_for_addi_fii_i_neg),
      accepted fused_ops (fused_shape LUA55_VALUE_FLOAT LUA55_VALUE_INTEGER LUA55_VALUE_INTEGER LUA55_VALUE_INTEGER False), fused_linked),
     ((lua55_v2l_super_for_addi, lua55_v2r_super_for_addi_fii_f_pos),
      accepted fused_ops (fused_shape LUA55_VALUE_FLOAT LUA55_VALUE_INTEGER LUA55_VALUE_INTEGER LUA55_VALUE_FLOAT True), fused_linked),
     ((lua55_v2l_super_for_addi, lua55_v2r_super_for_addi_fii_f_neg),
      accepted fused_ops (fused_shape LUA55_VALUE_FLOAT LUA55_VALUE_INTEGER LUA55_VALUE_INTEGER LUA55_VALUE_FLOAT False), fused_linked),
     ((lua55_v2l_super_for_addi, lua55_v2r_super_for_addi_ffi_i_pos),
      accepted fused_ops (fused_shape LUA55_VALUE_FLOAT LUA55_VALUE_FLOAT LUA55_VALUE_INTEGER LUA55_VALUE_INTEGER True), fused_linked),
     ((lua55_v2l_super_for_addi, lua55_v2r_super_for_addi_ffi_i_neg),
      accepted fused_ops (fused_shape LUA55_VALUE_FLOAT LUA55_VALUE_FLOAT LUA55_VALUE_INTEGER LUA55_VALUE_INTEGER False), fused_linked),
     ((lua55_v2l_super_for_addi, lua55_v2r_super_for_addi_ffi_f_pos),
      accepted fused_ops (fused_shape LUA55_VALUE_FLOAT LUA55_VALUE_FLOAT LUA55_VALUE_INTEGER LUA55_VALUE_FLOAT True), fused_linked),
     ((lua55_v2l_super_for_addi, lua55_v2r_super_for_addi_ffi_f_neg),
      accepted fused_ops (fused_shape LUA55_VALUE_FLOAT LUA55_VALUE_FLOAT LUA55_VALUE_INTEGER LUA55_VALUE_FLOAT False), fused_linked),
     ((lua55_v2l_super_for_add, lua55_v2r_super_for_add_iii_i_pos),
      accepted fused_ops (fused_shape LUA55_VALUE_INTEGER LUA55_VALUE_INTEGER LUA55_VALUE_INTEGER LUA55_VALUE_INTEGER True), fused_linked),
     ((lua55_v2l_super_for_add, lua55_v2r_super_for_add_iii_i_neg),
      accepted fused_ops (fused_shape LUA55_VALUE_INTEGER LUA55_VALUE_INTEGER LUA55_VALUE_INTEGER LUA55_VALUE_INTEGER False), fused_linked),
     ((lua55_v2l_super_for_add, lua55_v2r_super_for_add_iii_f_pos),
      accepted fused_ops (fused_shape LUA55_VALUE_INTEGER LUA55_VALUE_INTEGER LUA55_VALUE_INTEGER LUA55_VALUE_FLOAT True), fused_linked),
     ((lua55_v2l_super_for_add, lua55_v2r_super_for_add_iii_f_neg),
      accepted fused_ops (fused_shape LUA55_VALUE_INTEGER LUA55_VALUE_INTEGER LUA55_VALUE_INTEGER LUA55_VALUE_FLOAT False), fused_linked),
     ((lua55_v2l_super_for_add, lua55_v2r_super_for_add_ifi_i_pos),
      accepted fused_ops (fused_shape LUA55_VALUE_INTEGER LUA55_VALUE_FLOAT LUA55_VALUE_INTEGER LUA55_VALUE_INTEGER True), fused_linked),
     ((lua55_v2l_super_for_add, lua55_v2r_super_for_add_ifi_i_neg),
      accepted fused_ops (fused_shape LUA55_VALUE_INTEGER LUA55_VALUE_FLOAT LUA55_VALUE_INTEGER LUA55_VALUE_INTEGER False), fused_linked),
     ((lua55_v2l_super_for_add, lua55_v2r_super_for_add_ifi_f_pos),
      accepted fused_ops (fused_shape LUA55_VALUE_INTEGER LUA55_VALUE_FLOAT LUA55_VALUE_INTEGER LUA55_VALUE_FLOAT True), fused_linked),
     ((lua55_v2l_super_for_add, lua55_v2r_super_for_add_ifi_f_neg),
      accepted fused_ops (fused_shape LUA55_VALUE_INTEGER LUA55_VALUE_FLOAT LUA55_VALUE_INTEGER LUA55_VALUE_FLOAT False), fused_linked),
     ((lua55_v2l_super_for_add, lua55_v2r_super_for_add_fii_i_pos),
      accepted fused_ops (fused_shape LUA55_VALUE_FLOAT LUA55_VALUE_INTEGER LUA55_VALUE_INTEGER LUA55_VALUE_INTEGER True), fused_linked),
     ((lua55_v2l_super_for_add, lua55_v2r_super_for_add_fii_i_neg),
      accepted fused_ops (fused_shape LUA55_VALUE_FLOAT LUA55_VALUE_INTEGER LUA55_VALUE_INTEGER LUA55_VALUE_INTEGER False), fused_linked),
     ((lua55_v2l_super_for_add, lua55_v2r_super_for_add_fii_f_pos),
      accepted fused_ops (fused_shape LUA55_VALUE_FLOAT LUA55_VALUE_INTEGER LUA55_VALUE_INTEGER LUA55_VALUE_FLOAT True), fused_linked),
     ((lua55_v2l_super_for_add, lua55_v2r_super_for_add_fii_f_neg),
      accepted fused_ops (fused_shape LUA55_VALUE_FLOAT LUA55_VALUE_INTEGER LUA55_VALUE_INTEGER LUA55_VALUE_FLOAT False), fused_linked),
     ((lua55_v2l_super_for_add, lua55_v2r_super_for_add_ffi_i_pos),
      accepted fused_ops (fused_shape LUA55_VALUE_FLOAT LUA55_VALUE_FLOAT LUA55_VALUE_INTEGER LUA55_VALUE_INTEGER True), fused_linked),
     ((lua55_v2l_super_for_add, lua55_v2r_super_for_add_ffi_i_neg),
      accepted fused_ops (fused_shape LUA55_VALUE_FLOAT LUA55_VALUE_FLOAT LUA55_VALUE_INTEGER LUA55_VALUE_INTEGER False), fused_linked),
     ((lua55_v2l_super_for_add, lua55_v2r_super_for_add_ffi_f_pos),
      accepted fused_ops (fused_shape LUA55_VALUE_FLOAT LUA55_VALUE_FLOAT LUA55_VALUE_INTEGER LUA55_VALUE_FLOAT True), fused_linked),
     ((lua55_v2l_super_for_add, lua55_v2r_super_for_add_ffi_f_neg),
      accepted fused_ops (fused_shape LUA55_VALUE_FLOAT LUA55_VALUE_FLOAT LUA55_VALUE_INTEGER LUA55_VALUE_FLOAT False), fused_linked)]"

lemmas fused_leaf_defs =
  lua55_v2r_super_for_addi_iii_i_pos_def lua55_v2r_super_for_addi_iii_i_neg_def
  lua55_v2r_super_for_addi_iii_f_pos_def lua55_v2r_super_for_addi_iii_f_neg_def
  lua55_v2r_super_for_addi_ifi_i_pos_def lua55_v2r_super_for_addi_ifi_i_neg_def
  lua55_v2r_super_for_addi_ifi_f_pos_def lua55_v2r_super_for_addi_ifi_f_neg_def
  lua55_v2r_super_for_addi_fii_i_pos_def lua55_v2r_super_for_addi_fii_i_neg_def
  lua55_v2r_super_for_addi_fii_f_pos_def lua55_v2r_super_for_addi_fii_f_neg_def
  lua55_v2r_super_for_addi_ffi_i_pos_def lua55_v2r_super_for_addi_ffi_i_neg_def
  lua55_v2r_super_for_addi_ffi_f_pos_def lua55_v2r_super_for_addi_ffi_f_neg_def
  lua55_v2r_super_for_add_iii_i_pos_def lua55_v2r_super_for_add_iii_i_neg_def
  lua55_v2r_super_for_add_iii_f_pos_def lua55_v2r_super_for_add_iii_f_neg_def
  lua55_v2r_super_for_add_ifi_i_pos_def lua55_v2r_super_for_add_ifi_i_neg_def
  lua55_v2r_super_for_add_ifi_f_pos_def lua55_v2r_super_for_add_ifi_f_neg_def
  lua55_v2r_super_for_add_fii_i_pos_def lua55_v2r_super_for_add_fii_i_neg_def
  lua55_v2r_super_for_add_fii_f_pos_def lua55_v2r_super_for_add_fii_f_neg_def
  lua55_v2r_super_for_add_ffi_i_pos_def lua55_v2r_super_for_add_ffi_i_neg_def
  lua55_v2r_super_for_add_ffi_f_pos_def lua55_v2r_super_for_add_ffi_f_neg_def

lemma fused_bank_refines: "((l, r), q, p) \<in> set fused_bank \<Longrightarrow> residual_leaf l r q p"
  unfolding fused_bank_def
  by (auto simp: fused_leaf_defs numeric_tag_def intro!: addi_leaf_refines add_leaf_refines)

subsection \<open>Fusion\<close>

text \<open>A stencil as the straight-line body of a loop.\<close>

definition straight :: "stencil \<Rightarrow> holes \<Rightarrow> u64 \<Rightarrow> v2_state \<Rightarrow> v2_state option" where
  "straight st h f s = (case st h f s of Some (Next g, t) \<Rightarrow> if g = f then Some t else None | _ \<Rightarrow> None)"

lemma addi_body:
  assumes "V2_VALUE_DISP (h_target_disp h) f s = Some d" "V2_VALUE_DISP (h_left_disp h) f s = Some d"
    and "vals s d = Some (mk_value 3 av)"
  shows "straight lua55_v2r_addi_ii h f s = Some (s\<lparr>vals := (vals s)(d \<mapsto> mk_value 3 (v2_int_add av (h_int_imm h)))\<rparr>)"
  using assms
  by (simp add: straight_def lua55_v2r_addi_ii_def V2_ARITH_II_def guarded_operands_def V2_LEAF_GUARD_def V2_PRO_RI_def
      put_int_def wr_int_def wr_val_def rd_val_def v2_defs)

lemma add_body:
  assumes "V2_VALUE_DISP (h_target_disp h) f s = Some d" "V2_VALUE_DISP (h_left_disp h) f s = Some d"
    and "V2_VALUE_DISP (h_right_disp h) f s = Some e"
    and "vals s d = Some (mk_value 3 av)" and "vals s e = Some z" and "tag z = 3"
  shows "straight lua55_v2r_add_ii h f s = Some (s\<lparr>vals := (vals s)(d \<mapsto> mk_value 3 (v2_int_add av (payload z)))\<rparr>)"
  using assms
  by (cases "frames s f") (simp_all add: straight_def lua55_v2r_add_ii_def V2_ARITH_II_def guarded_operands_def
      V2_LEAF_GUARD_def V2_PRO_RR_def put_int_def wr_int_def wr_val_def rd_val_def v2_defs)

text \<open>A loop around a body that updates an accumulator from the index is the cycle of the fused stencil.\<close>

lemma for_run_cycle:
  assumes body: "\<And>t av z. frames t = fr \<Longrightarrow> vals t d = Some (mk_value 3 av) \<Longrightarrow> vals t (base + 32) = Some z \<Longrightarrow>
      tag z = 3 \<Longrightarrow> body t = Some (t\<lparr>vals := (vals t)(d \<mapsto> mk_value 3 (g av (payload z)))\<rparr>)"
    and ne: "d \<noteq> base" "d \<noteq> base + 16" "d \<noteq> base + 32"
    and y: "tag y = 3" and hl: "h_link h \<noteq> h_fall h"
    and "frames s = fr" and "in_control h f base x y z s" and "vals s d = Some (mk_value 3 av)" and "tag z = 3"
    and "unat (payload x) = n" and "n < 2 ^ 63"
  shows "\<exists>is. for_run lua55_v2r_forloop_int body h f base (Suc n) s = Some (is, s\<lparr>vals := (vals s)(
      base \<mapsto> x\<lparr>payload := 0\<rparr>, base + 16 \<mapsto> y,
      base + 32 \<mapsto> z\<lparr>payload := snd (int_cycle g (payload y) n av (payload z))\<rparr>,
      d \<mapsto> mk_value 3 (fst (int_cycle g (payload y) n av (payload z))))\<rparr>)"
  using assms(7-)
proof (induction n arbitrary: s x z av)
  case 0
  let ?t = "s\<lparr>vals := (vals s)(d \<mapsto> mk_value 3 (g av (payload z)))\<rparr>"
  have t: "body s = Some ?t" using body 0 by (simp add: in_control_def)
  have c: "in_control h f base x y z ?t" using 0(2) ne by (auto simp: in_control_def V2_VALUE_DISP_def)
  have p: "payload x = 0" using 0(5) by (simp add: unsigned_eq_0_iff)
  then have "lua55_v2r_forloop_int h f ?t = Some (Jump (h_fall h) f, ?t)"
    using forloop_step [OF c y] by simp
  then have run: "for_run lua55_v2r_forloop_int body h f base (Suc 0) s = Some ([payload z], ?t)"
    using t 0(2) hl by (simp add: in_control_def rd_val_def)
  have x: "x\<lparr>payload := 0\<rparr> = x" "z\<lparr>payload := payload z\<rparr> = z" using p by (cases x, cases z, simp)+
  have "(vals s)(base \<mapsto> x, base + 16 \<mapsto> y, base + 32 \<mapsto> z, d \<mapsto> v) = (vals s)(d \<mapsto> v)" for v
    using 0(2) by (auto simp: in_control_def fun_eq_iff)
  with run show ?case unfolding int_cycle.simps fst_conv snd_conv x by metis
next
  case (Suc n)
  let ?t = "s\<lparr>vals := (vals s)(d \<mapsto> mk_value 3 (g av (payload z)))\<rparr>"
  let ?x = "x\<lparr>payload := payload x - 1\<rparr>" and ?z = "z\<lparr>payload := payload z + payload y\<rparr>"
  let ?u = "?t\<lparr>vals := (vals ?t)(base \<mapsto> ?x, base + 16 \<mapsto> y, base + 32 \<mapsto> ?z)\<rparr>"
  have t: "body s = Some ?t" using body Suc.prems by (simp add: in_control_def)
  have c: "in_control h f base x y z ?t" using Suc.prems(2) ne by (auto simp: in_control_def V2_VALUE_DISP_def)
  have "0 <s payload x" using Suc.prems(5,6) positive_count [of "payload x"] by simp
  then have step: "lua55_v2r_forloop_int h f ?t = Some (Jump (h_link h) f, ?u)"
    using forloop_step [OF c y] by simp
  have u1: "frames ?u = fr" "tag ?z = 3" "n < 2 ^ 63" using Suc.prems by simp_all
  have u2: "in_control h f base ?x y ?z ?u" using c by (simp add: in_control_def V2_VALUE_DISP_def)
  have u3: "unat (payload ?x) = n"
    using Suc.prems(5) unat_minus [of 1 "payload x"] by (simp add: word_le_nat_alt)
  have u4: "vals ?u d = Some (mk_value 3 (g av (payload z)))" using ne by simp
  from Suc.IH [OF u1(1) u2 u4 u1(2) u3 u1(3)] obtain "is" where rest: "for_run lua55_v2r_forloop_int body h f base (Suc n) ?u = Some (is, ?u\<lparr>vals := (vals ?u)(
      base \<mapsto> ?x\<lparr>payload := 0\<rparr>, base + 16 \<mapsto> y,
      base + 32 \<mapsto> ?z\<lparr>payload := snd (int_cycle g (payload y) n (g av (payload z)) (payload ?z))\<rparr>,
      d \<mapsto> mk_value 3 (fst (int_cycle g (payload y) n (g av (payload z)) (payload ?z))))\<rparr>)"
    by blast
  have eq: "(vals ?u)(base \<mapsto> a, base + 16 \<mapsto> y, base + 32 \<mapsto> b, d \<mapsto> v) = (vals s)(base \<mapsto> a, base + 16 \<mapsto> y, base + 32 \<mapsto> b, d \<mapsto> v)"
    for a b v by (auto simp: fun_eq_iff)
  have "for_run lua55_v2r_forloop_int body h f base (Suc (Suc n)) s = Some (payload z # is, s\<lparr>vals := (vals ?u)(
      base \<mapsto> ?x\<lparr>payload := 0\<rparr>, base + 16 \<mapsto> y,
      base + 32 \<mapsto> ?z\<lparr>payload := snd (int_cycle g (payload y) n (g av (payload z)) (payload ?z))\<rparr>,
      d \<mapsto> mk_value 3 (fst (int_cycle g (payload y) n (g av (payload z)) (payload ?z))))\<rparr>)"
    using t Suc.prems(2) step rest
    by (subst for_run.simps) (simp add: in_control_def rd_val_def del: for_run.simps fun_upd_apply)
  then show ?case unfolding eq by (simp add: v2_int_add_def del: for_run.simps fun_upd_apply)
qed

lemma addi_cycle:
  "int_cycle (\<lambda>av iv. v2_int_add av imm) sv n av iv = (av + word_of_nat (Suc n) * imm, iv + word_of_nat n * sv)"
  by (induction n arbitrary: av iv) (simp_all add: v2_int_add_def algebra_simps)

text \<open>What the integer leaves leave behind: the four cells and the exit past the loop.\<close>

definition cycle_result :: "(u64 \<Rightarrow> u64 \<Rightarrow> u64) \<Rightarrow> nat \<Rightarrow> fused \<Rightarrow> v2_state \<Rightarrow> v2_state" where
  "cycle_result g n x s = (let c = int_cycle g (payload (v_step x)) n (payload (v_acc x)) (payload (v_init x)) in
     s\<lparr>vals := (vals s)(at_init x \<mapsto> mk_value 3 0, at_limit x \<mapsto> mk_value 3 (payload (v_step x)),
       at_step x \<mapsto> mk_value 3 (snd c), at_acc x \<mapsto> mk_value 3 (fst c))\<rparr>)"

lemma fused_stores:
  assumes "vals s d = Some (mk_value 3 av)" and "d \<noteq> a" "d \<noteq> b" "d \<noteq> c"
    and "vals s a = Some va" "vals s b = Some vb" "vals s c = Some vc"
  shows "do {s \<leftarrow> wr_int a x s; s \<leftarrow> wr_int b y s; s \<leftarrow> wr_int c z s; s \<leftarrow> wr_payload d w s; jump_to e f s} =
    Some (Jump e f, s\<lparr>vals := (vals s)(a \<mapsto> mk_value 3 x, b \<mapsto> mk_value 3 y, c \<mapsto> mk_value 3 z, d \<mapsto> mk_value 3 w)\<rparr>)"
  using assms by (simp add: wr_payload_def wr_int_def wr_val_def rd_val_def mk_value_def jump_to_def)

definition enters_int :: "bool \<Rightarrow> fused \<Rightarrow> bool" where
  "enters_int pos x \<longleftrightarrow> all_int (v_init x) (v_limit x) (v_step x) \<and> tag (v_acc x) = 3 \<and> reserved (v_acc x) = 0 \<and>
     (if pos then 0 <s payload (v_step x) else payload (v_step x) <s 0) \<and>
     \<not> for_skips pos (payload (v_init x)) (payload (v_limit x)) \<and>
     for_trips (sint (payload (v_init x))) (sint (payload (v_limit x))) (sint (payload (v_step x))) < 2 ^ 63"

definition fused_trips :: "fused \<Rightarrow> nat" where
  "fused_trips x = for_trips (sint (payload (v_init x))) (sint (payload (v_limit x))) (sint (payload (v_step x)))"

lemma enters_int_count:
  assumes "enters_int pos x"
  defines "c \<equiv> for_count pos (payload (v_init x)) (payload (v_limit x)) (payload (v_step x))"
  shows "unat c = fused_trips x" "more_trips c = fused_trips x" "last_count c = 0" "fused_trips x < 2 ^ 63"
proof -
  have "if pos then 0 < sint (payload (v_step x)) else sint (payload (v_step x)) < 0"
    using assms(1) by (auto simp: enters_int_def word_sless_alt)
  then show u: "unat c = fused_trips x"
    using for_count_trips assms(1) by (simp add: c_def enters_int_def fused_trips_def)
  show l: "fused_trips x < 2 ^ 63" using assms(1) by (simp add: enters_int_def fused_trips_def)
  have "0 <s c \<longleftrightarrow> 0 < unat c" using positive_count u l by simp
  then show "more_trips c = fused_trips x" "last_count c = 0"
    using u by (auto simp: more_trips_def last_count_def unat_eq_zero)
qed

lemma addi_int_leaf:
  assumes ops: "fused_ops h f s = Some x" and "fused_linked h" and e: "enters_int pos x"
  shows "V2_SUPER_FOR_ADDI 3 3 3 3 pos True h f s =
    Some (Jump (h_skip h) f, cycle_result (\<lambda>av iv. v2_int_add av (h_int_imm h)) (fused_trips x) x s)"
proof -
  have d: "at_acc x \<noteq> at_init x" "at_acc x \<noteq> at_limit x" "at_acc x \<noteq> at_step x"
    using fused_ops_apart [OF ops assms(2)] by auto
  have g: "addi_step 3 (h_int_imm h) = (\<lambda>av iv. v2_int_add av (h_int_imm h))"
    by (simp add: addi_step_def [abs_def] fun_eq_iff)
  have sg: "if pos then 0 <s payload (v_step x) else payload (v_step x) <s 0"
    and t: "tag (v_init x) = 3" "tag (v_limit x) = 3" "tag (v_step x) = 3" "tag (v_acc x) = 3"
    and sk: "for_skips pos (payload (v_init x)) (payload (v_limit x)) = False"
    using e by (auto simp: enters_int_def all_int_def)
  have "v_acc x = mk_value 3 (payload (v_acc x))" using e by (cases "v_acc x") (simp add: enters_int_def mk_value_def)
  then have a: "vals s (at_acc x) = Some (mk_value 3 (payload (v_acc x)))" using fused_ops_read(4) [OF ops] by simp
  show ?thesis
    unfolding V2_SUPER_FOR_ADDI_def fused_guard_eq [OF ops] Let_def case_prod_unfold cycle_result_def
    by (simp only: t g sign_facts [OF sg] sk enters_int_count [OF e] fused_stores [OF a d fused_ops_read(1-3) [OF ops]] simp_thms if_True if_False)
qed

lemma add_int_leaf:
  assumes ops: "fused_ops h f s = Some x" and "fused_linked h" and e: "enters_int pos x"
  shows "V2_SUPER_FOR_ADD 3 3 3 3 pos True h f s =
    Some (Jump (h_skip h) f, cycle_result v2_int_add (fused_trips x) x s)"
proof -
  have d: "at_acc x \<noteq> at_init x" "at_acc x \<noteq> at_limit x" "at_acc x \<noteq> at_step x"
    using fused_ops_apart [OF ops assms(2)] by auto
  have g: "add_step 3 = v2_int_add" by (simp add: add_step_def [abs_def] fun_eq_iff)
  have sg: "if pos then 0 <s payload (v_step x) else payload (v_step x) <s 0"
    and t: "tag (v_init x) = 3" "tag (v_limit x) = 3" "tag (v_step x) = 3" "tag (v_acc x) = 3"
    and sk: "for_skips pos (payload (v_init x)) (payload (v_limit x)) = False"
    using e by (auto simp: enters_int_def all_int_def)
  have "v_acc x = mk_value 3 (payload (v_acc x))" using e by (cases "v_acc x") (simp add: enters_int_def mk_value_def)
  then have a: "vals s (at_acc x) = Some (mk_value 3 (payload (v_acc x)))" using fused_ops_read(4) [OF ops] by simp
  show ?thesis
    unfolding V2_SUPER_FOR_ADD_def fused_guard_eq [OF ops] Let_def case_prod_unfold cycle_result_def
    by (simp only: t g sign_facts [OF sg] sk enters_int_count [OF e] fused_stores [OF a d fused_ops_read(1-3) [OF ops]] simp_thms if_True if_False)
qed

text \<open>The three stencils of the same loop, on the cells of the fused one.\<close>

lemma unfused_cycle:
  assumes x: "fused_ops hf f s = Some x" "fused_linked hf" "enters_int pos x"
    and cells: "at_init x = base" "at_limit x = base + 16" "at_step x = base + 32"
    and base: "V2_VALUE_DISP (h_base_disp h) f s = Some base" and hl: "h_link h \<noteq> h_fall h"
    and body: "\<And>t av z. frames t = frames s \<Longrightarrow> vals t (at_acc x) = Some (mk_value 3 av) \<Longrightarrow>
      vals t (base + 32) = Some z \<Longrightarrow> tag z = 3 \<Longrightarrow>
      body t = Some (t\<lparr>vals := (vals t)(at_acc x \<mapsto> mk_value 3 (g av (payload z)))\<rparr>)"
  shows "\<exists>s1 is. V2_FORPREP_INT pos h f s = Some (Jump (h_body h) f, s1) \<and>
    for_run lua55_v2r_forloop_int body h f base (Suc (fused_trips x)) s1 = Some (is, cycle_result g (fused_trips x) x s)"
proof -
  let ?i = "payload (v_init x)" and ?l = "payload (v_limit x)" and ?s = "payload (v_step x)" and ?a = "payload (v_acc x)"
  let ?c = "for_count pos ?i ?l ?s"
  let ?s1 = "s\<lparr>vals := (vals s)(base \<mapsto> mk_value 3 ?c, base + 16 \<mapsto> mk_value 3 ?s, base + 32 \<mapsto> mk_value 3 ?i)\<rparr>"
  have ne: "at_acc x \<noteq> base" "at_acc x \<noteq> base + 16" "at_acc x \<noteq> base + 32"
    using fused_ops_apart [OF x(1,2)] cells by auto
  have c0: "in_control h f base (v_init x) (v_limit x) (v_step x) s"
    using fused_ops_read [OF x(1)] base cells by (simp add: in_control_def)
  have prep: "V2_FORPREP_INT pos h f s = Some (Jump (h_body h) f, ?s1)"
    using forprep_enters [OF c0] x(3) by (simp add: enters_int_def)
  have "v_acc x = mk_value 3 ?a" using x(3) by (cases "v_acc x") (simp add: enters_int_def mk_value_def)
  then have a: "vals ?s1 (at_acc x) = Some (mk_value 3 ?a)" using fused_ops_read(4) [OF x(1)] ne by simp
  have c1: "in_control h f base (mk_value 3 ?c) (mk_value 3 ?s) (mk_value 3 ?i) ?s1"
    using base by (simp add: in_control_def V2_VALUE_DISP_def)
  have f1: "frames ?s1 = frames s" by simp
  have v: "(mk_value 3 p)\<lparr>payload := q\<rparr> = mk_value 3 q" "payload (mk_value 3 p) = p" "tag (mk_value 3 p) = 3" for p q
    by (simp_all add: mk_value_def)
  have m: "(vals ?s1)(base \<mapsto> p, base + 16 \<mapsto> q, base + 32 \<mapsto> r, at_acc x \<mapsto> w) =
      (vals s)(base \<mapsto> p, base + 16 \<mapsto> q, base + 32 \<mapsto> r, at_acc x \<mapsto> w)" for p q r w
    by (auto simp: fun_eq_iff)
  have k: "?s1\<lparr>vals := w\<rparr> = s\<lparr>vals := w\<rparr>" for w by simp
  have n: "unat (payload (mk_value 3 ?c)) = fused_trips x" using enters_int_count(1) [OF x(3)] by (simp add: v)
  from for_run_cycle [where fr = "frames s" and d = "at_acc x" and base = base and body = body and g = g,
      OF body ne v(3) hl f1 c1 a v(3) n enters_int_count(4) [OF x(3)]]
  have "\<exists>is. for_run lua55_v2r_forloop_int body h f base (Suc (fused_trips x)) ?s1 =
      Some (is, cycle_result g (fused_trips x) x s)"
    unfolding v m k cycle_result_def Let_def cells .
  with prep show ?thesis by blast
qed

text \<open>
  C5. Fusing a loop around \<open>acc := acc + imm\<close> is sound. On integer cells, with a step of the leaf's
  sign and a first index within the limit, \<open>FORPREP\<close>, the \<open>ADDI\<close> leaf and \<open>FORLOOP\<close> run to the end of the
  loop and leave exactly the state that the fused stencil leaves in one go; the accumulator
  has then grown by \<open>imm\<close> once per iteration, wrapping around.
\<close>

theorem fused_addi_is_the_loop:
  assumes "fused_ops hf f s = Some x" "fused_linked hf" "enters_int pos x"
    and "at_init x = base" "at_limit x = base + 16" "at_step x = base + 32"
    and "V2_VALUE_DISP (h_base_disp h) f s = Some base" and "h_link h \<noteq> h_fall h"
    and "V2_VALUE_DISP (h_target_disp hb) f s = Some (at_acc x)" "V2_VALUE_DISP (h_left_disp hb) f s = Some (at_acc x)"
    and "h_int_imm hb = h_int_imm hf"
  shows "\<exists>s1 is t. V2_FORPREP_INT pos h f s = Some (Jump (h_body h) f, s1) \<and>
    for_run lua55_v2r_forloop_int (straight lua55_v2r_addi_ii hb f) h f base (Suc (fused_trips x)) s1 = Some (is, t) \<and>
    V2_SUPER_FOR_ADDI LUA55_VALUE_INTEGER LUA55_VALUE_INTEGER LUA55_VALUE_INTEGER LUA55_VALUE_INTEGER pos True hf f s =
      Some (Jump (h_skip hf) f, t) \<and>
    vals t (at_acc x) = Some (mk_value 3 (payload (v_acc x) + word_of_nat (Suc (fused_trips x)) * h_int_imm hf))"
proof -
  let ?g = "\<lambda>av iv. v2_int_add av (h_int_imm hf)"
  have "straight lua55_v2r_addi_ii hb f t = Some (t\<lparr>vals := (vals t)(at_acc x \<mapsto> mk_value 3 (?g av (payload z)))\<rparr>)"
    if "frames t = frames s" "vals t (at_acc x) = Some (mk_value 3 av)" for t av z
    using addi_body [of hb f t "at_acc x" av] that assms(9-11) by (simp add: V2_VALUE_DISP_def)
  from unfused_cycle [OF assms(1-8), where g = ?g, OF this] addi_int_leaf [OF assms(1-3)]
  show ?thesis by (simp only: cycle_result_def Let_def addi_cycle) fastforce
qed

definition fused_example :: v2_state where
  "fused_example = blank_state\<lparr>frames := [0x100 \<mapsto> blank_frame\<lparr>frame_values := 0x1000\<rparr>],
     vals := [0x1000 \<mapsto> mk_value 3 1, 0x1010 \<mapsto> mk_value 3 10, 0x1020 \<mapsto> mk_value 3 4, 0x1030 \<mapsto> mk_value 3 100]\<rparr>"

definition fused_example_ops :: fused where
  "fused_example_ops = \<lparr>at_init = 0x1000, at_limit = 0x1010, at_step = 0x1020, at_acc = 0x1030,
     v_init = mk_value 3 1, v_limit = mk_value 3 10, v_step = mk_value 3 4, v_acc = mk_value 3 100\<rparr>"

definition fused_example_holes :: holes where
  "fused_example_holes = blank_holes\<lparr>h_target := 3, h_skip := 0x50, h_mismatch_exit := 0x60, h_int_imm := 7,
     h_target_disp := 48, h_left_disp := 48, h_right_disp := 32, h_link := 0x40, h_fall := 0x50\<rparr>"

lemma fused_example_facts:
  "fused_ops fused_example_holes 0x100 fused_example = Some fused_example_ops"
  "fused_linked fused_example_holes" "enters_int True fused_example_ops" "fused_trips fused_example_ops = 2"
  by (simp_all add: fused_ops_def fused_example_def fused_example_ops_def fused_example_holes_def V2_VALUE_def slot_addr_def rd_val_def
      fused_linked_def enters_int_def all_int_def for_skips_def word_sless_alt for_trips_def fused_trips_def mk_value_def)

theorem fused_addi_is_the_loop_witness:
  "\<exists>s1 is t. lua55_v2r_forprep_int_pos fused_example_holes 0x100 fused_example = Some (Jump 0 0x100, s1) \<and>
    for_run lua55_v2r_forloop_int (straight lua55_v2r_addi_ii fused_example_holes 0x100) fused_example_holes 0x100 0x1000 3 s1 =
      Some (is, t) \<and>
    lua55_v2r_super_for_addi_iii_i_pos fused_example_holes 0x100 fused_example = Some (Jump 0x50 0x100, t) \<and>
    vals t 0x1030 = Some (mk_value 3 121)"
  using fused_addi_is_the_loop [where h = fused_example_holes and hb = fused_example_holes and base = "0x1000",
      OF fused_example_facts(1-3)] fused_example_facts(4)
  by (simp add: fused_example_ops_def fused_example_def fused_example_holes_def V2_VALUE_DISP_def mk_value_def
      lua55_v2r_forprep_int_pos_def lua55_v2r_super_for_addi_iii_i_pos_def numeral_3_eq_3 del: for_run.simps)

text \<open>
  Fusing a loop around \<open>acc := acc + i\<close> is sound: as for \<open>ADDI\<close>, with the \<open>ADD\<close> leaf reading the
  accumulator and the index as the body.
\<close>

theorem fused_add_is_the_loop:
  assumes "fused_ops hf f s = Some x" "fused_linked hf" "enters_int pos x"
    and "at_init x = base" "at_limit x = base + 16" "at_step x = base + 32"
    and "V2_VALUE_DISP (h_base_disp h) f s = Some base" and "h_link h \<noteq> h_fall h"
    and "V2_VALUE_DISP (h_target_disp hb) f s = Some (at_acc x)" "V2_VALUE_DISP (h_left_disp hb) f s = Some (at_acc x)"
    and "V2_VALUE_DISP (h_right_disp hb) f s = Some (base + 32)"
  shows "\<exists>s1 is t. V2_FORPREP_INT pos h f s = Some (Jump (h_body h) f, s1) \<and>
    for_run lua55_v2r_forloop_int (straight lua55_v2r_add_ii hb f) h f base (Suc (fused_trips x)) s1 = Some (is, t) \<and>
    V2_SUPER_FOR_ADD LUA55_VALUE_INTEGER LUA55_VALUE_INTEGER LUA55_VALUE_INTEGER LUA55_VALUE_INTEGER pos True hf f s =
      Some (Jump (h_skip hf) f, t)"
proof -
  have "straight lua55_v2r_add_ii hb f t = Some (t\<lparr>vals := (vals t)(at_acc x \<mapsto> mk_value 3 (v2_int_add av (payload z)))\<rparr>)"
    if "frames t = frames s" "vals t (at_acc x) = Some (mk_value 3 av)" "vals t (base + 32) = Some z" "tag z = 3" for t av z
    using add_body [of hb f t "at_acc x" "base + 32" av z] that assms(9-11) by (simp add: V2_VALUE_DISP_def)
  from unfused_cycle [OF assms(1-8), where g = v2_int_add, OF this] add_int_leaf [OF assms(1-3)]
  show ?thesis by blast
qed

text \<open>\<open>for i = 1, 10, 4 do acc = acc + i end\<close>.\<close>

theorem fused_add_is_the_loop_witness:
  "\<exists>s1 is t. lua55_v2r_forprep_int_pos fused_example_holes 0x100 fused_example = Some (Jump 0 0x100, s1) \<and>
    for_run lua55_v2r_forloop_int (straight lua55_v2r_add_ii fused_example_holes 0x100) fused_example_holes 0x100 0x1000 3 s1 =
      Some (is, t) \<and>
    lua55_v2r_super_for_add_iii_i_pos fused_example_holes 0x100 fused_example = Some (Jump 0x50 0x100, t)"
  using fused_add_is_the_loop [where h = fused_example_holes and hb = fused_example_holes and base = "0x1000",
      OF fused_example_facts(1-3)] fused_example_facts(4)
  by (simp add: fused_example_ops_def fused_example_def fused_example_holes_def V2_VALUE_DISP_def mk_value_def
      lua55_v2r_forprep_int_pos_def lua55_v2r_super_for_add_iii_i_pos_def numeral_3_eq_3 del: for_run.simps)

end
