(* ===== verification/Fused_Tables.thy ===== *)
theory Fused_Tables
  imports Table_Residuals Fused_Loops
begin

text \<open>
  The fused table operations: a field or an element that grows by a constant (\<open>super_field_addi\<close>,
  \<open>super_table_addi\<close>), a whole numeric loop that stores one constant (\<open>super_for_settable\<close>), and the dictionary
  accumulation \<open>t[r.k] = t[r.k] + x\<close> (\<open>super_accumulate_field\<close>). The learners reject a table they cannot
  handle; the leaves publish a mismatch.
\<close>

subsection \<open>Guards\<close>

definition V2_SUPER_GUARD :: "lua_value \<Rightarrow> u32 \<Rightarrow> stencil \<Rightarrow> stencil" where
  "V2_SUPER_GUARD v expected k h f s = (if tag v \<noteq> expected then mismatch expected (tag v) h f s else k h f s)"

text \<open>The table behind a receiver whose tag is known.\<close>

definition super_table :: "lua_value \<Rightarrow> (u64 \<Rightarrow> stencil) \<Rightarrow> stencil" where
  "super_table receiver k h f s =
     (let table = payload receiver in
      if table = 0 then mismatch LUA55_OBJECT_TABLE 0 h f s
      else do {
        hd \<leftarrow> headers s table;
        if kind hd \<noteq> LUA55_OBJECT_TABLE then mismatch LUA55_OBJECT_TABLE (kind hd) h f s
        else do {
          tb \<leftarrow> tables s table;
          if table_heap tb \<noteq> heap_ptr (inv s) \<or> metatable_reference tb \<noteq> 0
          then mismatch LUA55_OBJECT_TABLE (kind hd) h f s
          else k table h f s}})"

definition rd_at :: "u32 \<Rightarrow> u64 \<Rightarrow> v2_state \<Rightarrow> lua_value option" where
  "rd_at reg f s = do {a \<leftarrow> V2_VALUE reg f s; rd_val a s}"

definition wr_at :: "u32 \<Rightarrow> lua_value \<Rightarrow> u64 \<Rightarrow> v2_state \<Rightarrow> v2_state option" where
  "wr_at reg v f s = do {a \<leftarrow> V2_VALUE reg f s; wr_val a v s}"

subsection \<open>Adding a constant to a cell\<close>

definition is_numeric :: "u32 \<Rightarrow> bool" where
  "is_numeric t \<longleftrightarrow> t = LUA55_VALUE_INTEGER \<or> t = LUA55_VALUE_FLOAT"

text \<open>The cell grows in place, then the register gets a copy of it.\<close>

definition addi_cell :: "u64 \<Rightarrow> bool \<Rightarrow> stencil" where
  "addi_cell cell is_int h f s = do {
     v \<leftarrow> rd_val cell s;
     s \<leftarrow> wr_payload cell (if is_int then v2_int_add (payload v) (h_int_imm h)
       else dbl_add (payload v) (c_double (h_int_imm h))) s;
     v \<leftarrow> rd_val cell s;
     s \<leftarrow> wr_at (h_target h) v f s;
     LUA55_RESIDUAL_NEXT f s}"

definition lua55_v2l_super_field_addi :: stencil where
  "lua55_v2l_super_field_addi h f s = do {
     receiver \<leftarrow> rd_at (h_receiver h) f s;
     with_table receiver (\<lambda>table h f s. do {
       (cell, s) \<leftarrow> v2_find_field table (h_key_ref h) False s;
       if cell = 0 then reject_exit LUA55_V2_REJECT_UNSUPPORTED_METAMETHOD h f s
       else do {
         v \<leftarrow> rd_val cell s;
         if \<not> is_numeric (tag v) then reject_exit LUA55_V2_REJECT_UNSUPPORTED_METAMETHOD h f s
         else do {
           s \<leftarrow> v2_learn_key_tag (h_occ_slot h) (tag v) s;
           addi_cell cell (tag v = LUA55_VALUE_INTEGER) h f s}}}) h f s}"

text \<open>The cell of a leaf: it exists and has the tag the leaf was selected for.\<close>

definition super_cell :: "u64 \<Rightarrow> u32 \<Rightarrow> (u64 \<Rightarrow> stencil) \<Rightarrow> stencil" where
  "super_cell cell vt k h f s =
     (if cell = 0 then mismatch vt LUA55_VALUE_NIL h f s
      else do {v \<leftarrow> rd_val cell s; V2_SUPER_GUARD v vt (k cell) h f s})"

definition V2_SUPER_FIELD_ADDI :: "u32 \<Rightarrow> bool \<Rightarrow> stencil" where
  "V2_SUPER_FIELD_ADDI vt is_int h f s = do {
     receiver \<leftarrow> rd_at (h_receiver h) f s;
     V2_SUPER_GUARD receiver LUA55_VALUE_TABLE (super_table receiver (\<lambda>table h f s. do {
       (cell, s) \<leftarrow> v2_find_field table (h_key_ref h) False s;
       super_cell cell vt (\<lambda>cell. addi_cell cell is_int) h f s})) h f s}"

definition lua55_v2r_super_field_addi_int :: stencil where
  "lua55_v2r_super_field_addi_int = V2_SUPER_FIELD_ADDI LUA55_VALUE_INTEGER True"

definition lua55_v2r_super_field_addi_flt :: stencil where
  "lua55_v2r_super_field_addi_flt = V2_SUPER_FIELD_ADDI LUA55_VALUE_FLOAT False"

definition lua55_v2l_super_table_addi :: stencil where
  "lua55_v2l_super_table_addi h f s = do {
     receiver \<leftarrow> rd_at (h_receiver h) f s;
     with_table receiver (\<lambda>table h f s. do {
       key \<leftarrow> rd_at (h_key_reg h) f s;
       if tag key \<noteq> LUA55_VALUE_INTEGER \<and> \<not> v2_is_string_tag (tag key)
       then reject_exit LUA55_V2_REJECT_UNSUPPORTED_METAMETHOD h f s
       else do {
         (cell, s) \<leftarrow> (if tag key = LUA55_VALUE_INTEGER
           then do {cell \<leftarrow> v2_array_slot table (payload key) s; Some (cell, s)}
           else v2_find_field table (payload key) False s);
         let key_shape = (if tag key = LUA55_VALUE_INTEGER then tag key else LUA55_VALUE_SHORT_STRING);
         if cell = 0 then reject_exit LUA55_V2_REJECT_UNSUPPORTED_METAMETHOD h f s
         else do {
           v \<leftarrow> rd_val cell s;
           if \<not> is_numeric (tag v) then reject_exit LUA55_V2_REJECT_UNSUPPORTED_METAMETHOD h f s
           else do {
             s \<leftarrow> v2_learn_pair (h_occ_slot h) key_shape (tag v) s;
             addi_cell cell (tag v = LUA55_VALUE_INTEGER) h f s}}}}) h f s}"

definition V2_SUPER_TABLE_ADDI_INTKEY :: "u32 \<Rightarrow> bool \<Rightarrow> stencil" where
  "V2_SUPER_TABLE_ADDI_INTKEY vt is_int h f s = do {
     receiver \<leftarrow> rd_at (h_receiver h) f s;
     V2_SUPER_GUARD receiver LUA55_VALUE_TABLE (\<lambda>h f s. do {
       key \<leftarrow> rd_at (h_key_reg h) f s;
       V2_SUPER_GUARD key LUA55_VALUE_INTEGER (super_table receiver (\<lambda>table h f s. do {
         cell \<leftarrow> v2_array_slot table (payload key) s;
         super_cell cell vt (\<lambda>cell. addi_cell cell is_int) h f s})) h f s}) h f s}"

definition V2_SUPER_TABLE_ADDI_STRKEY :: "u32 \<Rightarrow> bool \<Rightarrow> stencil" where
  "V2_SUPER_TABLE_ADDI_STRKEY vt is_int h f s = do {
     receiver \<leftarrow> rd_at (h_receiver h) f s;
     V2_SUPER_GUARD receiver LUA55_VALUE_TABLE (\<lambda>h f s. do {
       key \<leftarrow> rd_at (h_key_reg h) f s;
       if \<not> v2_is_string_tag (tag key) then mismatch LUA55_VALUE_SHORT_STRING (tag key) h f s
       else super_table receiver (\<lambda>table h f s. do {
         (cell, s) \<leftarrow> v2_find_field table (payload key) False s;
         super_cell cell vt (\<lambda>cell. addi_cell cell is_int) h f s}) h f s}) h f s}"

definition lua55_v2r_super_table_addi_int_int :: stencil where
  "lua55_v2r_super_table_addi_int_int = V2_SUPER_TABLE_ADDI_INTKEY LUA55_VALUE_INTEGER True"

definition lua55_v2r_super_table_addi_int_flt :: stencil where
  "lua55_v2r_super_table_addi_int_flt = V2_SUPER_TABLE_ADDI_INTKEY LUA55_VALUE_FLOAT False"

definition lua55_v2r_super_table_addi_str_int :: stencil where
  "lua55_v2r_super_table_addi_str_int = V2_SUPER_TABLE_ADDI_STRKEY LUA55_VALUE_INTEGER True"

definition lua55_v2r_super_table_addi_str_flt :: stencil where
  "lua55_v2r_super_table_addi_str_flt = V2_SUPER_TABLE_ADDI_STRKEY LUA55_VALUE_FLOAT False"

subsection \<open>The loop that stores a constant\<close>

text \<open>
  One trip: the element of the index, grown when it is outside the array part. \<open>Inl\<close> is the reject of
  an index below 1 or of a full heap.
\<close>

definition settable_trip :: "(u64 \<Rightarrow> u64 \<Rightarrow> v2_state \<Rightarrow> v2_state option) \<Rightarrow> u64 \<Rightarrow> u64 \<Rightarrow> v2_state \<Rightarrow> (v2_state + v2_state) option" where
  "settable_trip put table iv s = do {
     cell \<leftarrow> v2_array_slot table iv s;
     if cell \<noteq> 0 then do {s \<leftarrow> put cell iv s; Some (Inr s)}
     else if 1 \<le>s iv then do {
       (ok, s) \<leftarrow> v2_grow_array table iv s;
       if ok then do {
         cell \<leftarrow> v2_array_slot table iv s;
         s \<leftarrow> put cell iv s;
         Some (Inr s)}
       else Some (Inl s)}
     else Some (Inl s)}"

text \<open>The first trip and \<open>n\<close> more; the last index with the state.\<close>

primrec settable_cycle ::
    "(u64 \<Rightarrow> u64 \<Rightarrow> v2_state \<Rightarrow> v2_state option) \<Rightarrow> u64 \<Rightarrow> u64 \<Rightarrow> nat \<Rightarrow> u64 \<Rightarrow> v2_state \<Rightarrow> (v2_state + u64 \<times> v2_state) option" where
  "settable_cycle put table sv 0 iv s = do {
     r \<leftarrow> settable_trip put table iv s;
     case r of Inl s \<Rightarrow> Some (Inl s) | Inr s \<Rightarrow> Some (Inr (iv, s))}"
| "settable_cycle put table sv (Suc n) iv s = do {
     r \<leftarrow> settable_trip put table iv s;
     case r of Inl s \<Rightarrow> Some (Inl s) | Inr s \<Rightarrow> settable_cycle put table sv n (v2_int_add iv sv) s}"

text \<open>The control cells after the loop, and the way out past it.\<close>

definition settable_finish :: "u64 \<Rightarrow> u64 \<Rightarrow> u64 \<Rightarrow> u64 \<Rightarrow> u64 \<Rightarrow> u64 \<Rightarrow> stencil" where
  "settable_finish init limit step count sv iv h f s = do {
     s \<leftarrow> wr_int init count s;
     s \<leftarrow> wr_int limit sv s;
     s \<leftarrow> wr_int step iv s;
     jump_to (h_skip h) f s}"

definition settable_loop :: "(u64 \<Rightarrow> u64 \<Rightarrow> v2_state \<Rightarrow> v2_state option) \<Rightarrow> bool \<Rightarrow> u64 \<Rightarrow> u64 \<Rightarrow> u64 \<Rightarrow> u64 \<Rightarrow>
    u64 \<Rightarrow> u64 \<Rightarrow> u64 \<Rightarrow> stencil" where
  "settable_loop put pos table init limit step iv lv sv h f s =
     (if for_skips pos iv lv then jump_to (h_skip h) f s
      else do {
        let count = for_count pos iv lv sv;
        r \<leftarrow> settable_cycle put table sv (more_trips count) iv s;
        case r of Inl s \<Rightarrow> reject_exit LUA55_V2_REJECT_INVALID_OBJECT h f s
        | Inr (iv, s) \<Rightarrow> settable_finish init limit step (last_count count) sv iv h f s})"

definition lua55_v2l_super_for_settable :: stencil where
  "lua55_v2l_super_for_settable h f s = do {
     a \<leftarrow> V2_VALUE (h_base_index h) f s;
     b \<leftarrow> V2_VALUE (h_base_index h + 1) f s;
     c \<leftarrow> V2_VALUE (h_base_index h + 2) f s;
     init \<leftarrow> rd_val a s;
     limit \<leftarrow> rd_val b s;
     step \<leftarrow> rd_val c s;
     s \<leftarrow> v2_learn_pair (h_occ_slot h) (if all_int init limit step then LUA55_VALUE_INTEGER else LUA55_VALUE_FLOAT)
       (step_sign step) s;
     if \<not> all_int init limit step then reject_exit LUA55_V2_REJECT_UNSUPPORTED_OPCODE h f s
     else if payload step = 0 then reject_exit LUA55_V2_REJECT_STEP_ZERO h f s
     else do {
       receiver \<leftarrow> rd_at (h_receiver h) f s;
       with_table receiver (\<lambda>table. settable_loop (\<lambda>cell iv s. do {
           s \<leftarrow> v2_learn_write_site table True iv s;
           wr_val cell (V2_VALUE_CONST_CELL h) s})
         (0 <s payload step) table a b c (payload init) (payload limit) (payload step)) h f s}}"

definition V2_SUPER_FOR_SETTABLE :: "bool \<Rightarrow> store \<Rightarrow> stencil" where
  "V2_SUPER_FOR_SETTABLE pos store h f s = do {
     a \<leftarrow> V2_VALUE (h_base_index h) f s;
     b \<leftarrow> V2_VALUE (h_base_index h + 1) f s;
     c \<leftarrow> V2_VALUE (h_base_index h + 2) f s;
     init \<leftarrow> rd_val a s;
     V2_LEAF_GUARD init LUA55_VALUE_INTEGER (\<lambda>h f s. do {
     limit \<leftarrow> rd_val b s;
     V2_LEAF_GUARD limit LUA55_VALUE_INTEGER (\<lambda>h f s. do {
     step \<leftarrow> rd_val c s;
     V2_LEAF_GUARD step LUA55_VALUE_INTEGER (\<lambda>h f s.
       let sv = payload step in
       if (if pos then sv \<le>s 0 else 0 \<le>s sv) then mismatch (sign_code pos) (sign_code (0 <s sv)) h f s
       else if sv = 0 then reject_exit LUA55_V2_REJECT_STEP_ZERO h f s
       else do {
         receiver \<leftarrow> rd_at (h_receiver h) f s;
         V2_SUPER_GUARD receiver LUA55_VALUE_TABLE (super_table receiver (\<lambda>table h f.
           settable_loop (\<lambda>cell iv. store table cell h f) pos table a b c (payload init) (payload limit) sv h f)) h f s})
       h f s}) h f s}) h f s}"

definition lua55_v2r_super_for_settable_nil_pos :: stencil where
  "lua55_v2r_super_for_settable_nil_pos = V2_SUPER_FOR_SETTABLE True V2_STORE_NIL"

definition lua55_v2r_super_for_settable_nil_neg :: stencil where
  "lua55_v2r_super_for_settable_nil_neg = V2_SUPER_FOR_SETTABLE False V2_STORE_NIL"

definition lua55_v2r_super_for_settable_false_pos :: stencil where
  "lua55_v2r_super_for_settable_false_pos = V2_SUPER_FOR_SETTABLE True V2_STORE_FALSE"

definition lua55_v2r_super_for_settable_false_neg :: stencil where
  "lua55_v2r_super_for_settable_false_neg = V2_SUPER_FOR_SETTABLE False V2_STORE_FALSE"

definition lua55_v2r_super_for_settable_true_pos :: stencil where
  "lua55_v2r_super_for_settable_true_pos = V2_SUPER_FOR_SETTABLE True V2_STORE_TRUE"

definition lua55_v2r_super_for_settable_true_neg :: stencil where
  "lua55_v2r_super_for_settable_true_neg = V2_SUPER_FOR_SETTABLE False V2_STORE_TRUE"

definition lua55_v2r_super_for_settable_int_pos :: stencil where
  "lua55_v2r_super_for_settable_int_pos = V2_SUPER_FOR_SETTABLE True V2_STORE_INT"

definition lua55_v2r_super_for_settable_int_neg :: stencil where
  "lua55_v2r_super_for_settable_int_neg = V2_SUPER_FOR_SETTABLE False V2_STORE_INT"

definition lua55_v2r_super_for_settable_flt_pos :: stencil where
  "lua55_v2r_super_for_settable_flt_pos = V2_SUPER_FOR_SETTABLE True V2_STORE_FLT"

definition lua55_v2r_super_for_settable_flt_neg :: stencil where
  "lua55_v2r_super_for_settable_flt_neg = V2_SUPER_FOR_SETTABLE False V2_STORE_FLT"

definition lua55_v2r_super_for_settable_str_pos :: stencil where
  "lua55_v2r_super_for_settable_str_pos = V2_SUPER_FOR_SETTABLE True V2_STORE_STR"

definition lua55_v2r_super_for_settable_str_neg :: stencil where
  "lua55_v2r_super_for_settable_str_neg = V2_SUPER_FOR_SETTABLE False V2_STORE_STR"

subsection \<open>Dictionary accumulation\<close>

definition v2_learn_accum :: "u32 \<Rightarrow> u32 \<Rightarrow> u32 \<Rightarrow> u32 \<Rightarrow> v2_state \<Rightarrow> v2_state option" where
  "v2_learn_accum occ_slot kt acc_tag src_tag = learn_at occ_slot (\<lambda>sl.
     if seen sl = 0 then sl\<lparr>key_tag := kt, value_tag := acc_tag, max_array_index := ucast src_tag, seen := 1\<rparr>
     else if key_tag sl \<noteq> kt \<or> value_tag sl \<noteq> acc_tag \<or> max_array_index sl \<noteq> ucast src_tag
     then sl\<lparr>key_tag := CONFLICT\<rparr> else sl)"

text \<open>The cell of the accumulator for the value of the key.\<close>

definition accum_cell :: "u64 \<Rightarrow> lua_value \<Rightarrow> v2_state \<Rightarrow> (u64 \<times> v2_state) option" where
  "accum_cell table key s =
     (if tag key = LUA55_VALUE_INTEGER then do {cell \<leftarrow> v2_array_slot table (payload key) s; Some (cell, s)}
      else v2_find_field table (payload key) False s)"

text \<open>The registers that the five instructions would have written.\<close>

definition accum_finish :: "u64 \<Rightarrow> u64 \<Rightarrow> stencil" where
  "accum_finish key_cell cell h f s = do {
     v \<leftarrow> rd_val key_cell s;
     s \<leftarrow> wr_at (h_key_reg h) v f s;
     v \<leftarrow> rd_val key_cell s;
     s \<leftarrow> wr_at (h_accum_key2 h) v f s;
     v \<leftarrow> rd_val cell s;
     s \<leftarrow> wr_at (h_target h) v f s;
     LUA55_RESIDUAL_NEXT f s}"

definition accum_learn_add :: "u64 \<Rightarrow> u64 \<Rightarrow> v2_state \<Rightarrow> v2_state option" where
  "accum_learn_add cell source s = do {
     a \<leftarrow> rd_val cell s;
     b \<leftarrow> rd_val source s;
     if tag a = LUA55_VALUE_INTEGER then
       (if tag b = LUA55_VALUE_INTEGER then wr_payload cell (v2_int_add (payload a) (payload b)) s
        else wr_flt cell (dbl_add (c_double (payload a)) (payload b)) s)
     else wr_payload cell (dbl_add (payload a)
       (if tag b = LUA55_VALUE_INTEGER then c_double (payload b) else payload b)) s}"

definition V2_ACCUM_LEARN :: "bool \<Rightarrow> stencil" where
  "V2_ACCUM_LEARN src_field h f s = do {
     fr \<leftarrow> rd_at (h_field_receiver h) f s;
     with_table fr (\<lambda>ftable h f s. do {
       (key_cell, s) \<leftarrow> v2_find_field ftable (h_key_ref h) False s;
       if key_cell = 0 then reject_exit LUA55_V2_REJECT_UNSUPPORTED_METAMETHOD h f s
       else do {
         tr \<leftarrow> rd_at (h_receiver h) f s;
         with_table tr (\<lambda>table h f s. do {
           key \<leftarrow> rd_val key_cell s;
           if tag key \<noteq> LUA55_VALUE_INTEGER \<and> \<not> v2_is_string_tag (tag key)
           then reject_exit LUA55_V2_REJECT_UNSUPPORTED_METAMETHOD h f s
           else do {
             (cell, s) \<leftarrow> accum_cell table key s;
             if cell = 0 then reject_exit LUA55_V2_REJECT_UNSUPPORTED_METAMETHOD h f s
             else do {
               acc \<leftarrow> rd_val cell s;
               if \<not> is_numeric (tag acc) then reject_exit LUA55_V2_REJECT_UNSUPPORTED_METAMETHOD h f s
               else do {
                 (source, s) \<leftarrow> (if src_field then v2_find_field ftable (h_source_key_ref h) False s
                   else do {a \<leftarrow> V2_VALUE (h_source h) f s; Some (a, s)});
                 if src_field \<and> source = 0 then reject_exit LUA55_V2_REJECT_UNSUPPORTED_METAMETHOD h f s
                 else do {
                   src \<leftarrow> rd_val source s;
                   if \<not> is_numeric (tag src) then reject_exit LUA55_V2_REJECT_UNSUPPORTED_METAMETHOD h f s
                   else do {
                     s \<leftarrow> (if src_field then wr_at (h_source h) src f s else Some s);
                     acc \<leftarrow> rd_val cell s;
                     src \<leftarrow> rd_val source s;
                     s \<leftarrow> v2_learn_accum (h_occ_slot h)
                       (if tag key = LUA55_VALUE_INTEGER then tag key else LUA55_VALUE_SHORT_STRING) (tag acc) (tag src) s;
                     s \<leftarrow> accum_learn_add cell source s;
                     accum_finish key_cell cell h f s}}}}}}) h f s}}) h f s}"

definition lua55_v2l_super_accumulate_field :: stencil where
  "lua55_v2l_super_accumulate_field = V2_ACCUM_LEARN False"

definition lua55_v2l_super_accumulate_field_field :: stencil where
  "lua55_v2l_super_accumulate_field_field = V2_ACCUM_LEARN True"

definition num_tag :: "bool \<Rightarrow> u32" where
  "num_tag is_int = (if is_int then LUA55_VALUE_INTEGER else LUA55_VALUE_FLOAT)"

definition accum_add :: "bool \<Rightarrow> bool \<Rightarrow> u64 \<Rightarrow> u64 \<Rightarrow> v2_state \<Rightarrow> v2_state option" where
  "accum_add acc_is_int src_is_int cell source s = do {
     a \<leftarrow> rd_val cell s;
     b \<leftarrow> rd_val source s;
     if acc_is_int \<and> src_is_int then wr_payload cell (v2_int_add (payload a) (payload b)) s
     else wr_flt cell (dbl_add (if acc_is_int then c_double (payload a) else payload a)
       (if src_is_int then c_double (payload b) else payload b)) s}"

definition V2_ACCUM_FIELD :: "bool \<Rightarrow> bool \<Rightarrow> bool \<Rightarrow> bool \<Rightarrow> stencil" where
  "V2_ACCUM_FIELD key_is_int acc_is_int src_is_int src_field h f s = do {
     fr \<leftarrow> rd_at (h_field_receiver h) f s;
     V2_SUPER_GUARD fr LUA55_VALUE_TABLE (super_table fr (\<lambda>ftable h f s. do {
       (key_cell, s) \<leftarrow> v2_find_field ftable (h_key_ref h) False s;
       if key_cell = 0 then mismatch LUA55_VALUE_INTEGER LUA55_VALUE_NIL h f s
       else do {
         key \<leftarrow> rd_val key_cell s;
         if key_is_int \<and> tag key \<noteq> LUA55_VALUE_INTEGER then mismatch LUA55_VALUE_INTEGER (tag key) h f s
         else if \<not> key_is_int \<and> \<not> v2_is_string_tag (tag key) then mismatch LUA55_VALUE_SHORT_STRING (tag key) h f s
         else do {
           tr \<leftarrow> rd_at (h_receiver h) f s;
           V2_SUPER_GUARD tr LUA55_VALUE_TABLE (super_table tr (\<lambda>table h f s. do {
             (cell, s) \<leftarrow> (if key_is_int then do {cell \<leftarrow> v2_array_slot table (payload key) s; Some (cell, s)}
               else v2_find_field table (payload key) False s);
             super_cell cell (num_tag acc_is_int) (\<lambda>cell h f s. do {
               (source, s) \<leftarrow> (if src_field then v2_find_field ftable (h_source_key_ref h) False s
                 else do {a \<leftarrow> V2_VALUE (h_source h) f s; Some (a, s)});
               if src_field \<and> source = 0 then mismatch (num_tag src_is_int) LUA55_VALUE_NIL h f s
               else do {
                 src \<leftarrow> rd_val source s;
                 V2_SUPER_GUARD src (num_tag src_is_int) (\<lambda>h f s. do {
                   s \<leftarrow> (if src_field then wr_at (h_source h) src f s else Some s);
                   s \<leftarrow> accum_add acc_is_int src_is_int cell source s;
                   accum_finish key_cell cell h f s}) h f s}}) h f s})) h f s}}})) h f s}"

definition lua55_v2r_super_accumulate_field_r_int_int_int :: stencil where
  "lua55_v2r_super_accumulate_field_r_int_int_int = V2_ACCUM_FIELD True True True False"

definition lua55_v2r_super_accumulate_field_r_int_int_flt :: stencil where
  "lua55_v2r_super_accumulate_field_r_int_int_flt = V2_ACCUM_FIELD True True False False"

definition lua55_v2r_super_accumulate_field_r_int_flt_int :: stencil where
  "lua55_v2r_super_accumulate_field_r_int_flt_int = V2_ACCUM_FIELD True False True False"

definition lua55_v2r_super_accumulate_field_r_int_flt_flt :: stencil where
  "lua55_v2r_super_accumulate_field_r_int_flt_flt = V2_ACCUM_FIELD True False False False"

definition lua55_v2r_super_accumulate_field_r_str_int_int :: stencil where
  "lua55_v2r_super_accumulate_field_r_str_int_int = V2_ACCUM_FIELD False True True False"

definition lua55_v2r_super_accumulate_field_r_str_int_flt :: stencil where
  "lua55_v2r_super_accumulate_field_r_str_int_flt = V2_ACCUM_FIELD False True False False"

definition lua55_v2r_super_accumulate_field_r_str_flt_int :: stencil where
  "lua55_v2r_super_accumulate_field_r_str_flt_int = V2_ACCUM_FIELD False False True False"

definition lua55_v2r_super_accumulate_field_r_str_flt_flt :: stencil where
  "lua55_v2r_super_accumulate_field_r_str_flt_flt = V2_ACCUM_FIELD False False False False"

definition lua55_v2r_super_accumulate_field_f_int_int_int :: stencil where
  "lua55_v2r_super_accumulate_field_f_int_int_int = V2_ACCUM_FIELD True True True True"

definition lua55_v2r_super_accumulate_field_f_int_int_flt :: stencil where
  "lua55_v2r_super_accumulate_field_f_int_int_flt = V2_ACCUM_FIELD True True False True"

definition lua55_v2r_super_accumulate_field_f_int_flt_int :: stencil where
  "lua55_v2r_super_accumulate_field_f_int_flt_int = V2_ACCUM_FIELD True False True True"

definition lua55_v2r_super_accumulate_field_f_int_flt_flt :: stencil where
  "lua55_v2r_super_accumulate_field_f_int_flt_flt = V2_ACCUM_FIELD True False False True"

definition lua55_v2r_super_accumulate_field_f_str_int_int :: stencil where
  "lua55_v2r_super_accumulate_field_f_str_int_int = V2_ACCUM_FIELD False True True True"

definition lua55_v2r_super_accumulate_field_f_str_int_flt :: stencil where
  "lua55_v2r_super_accumulate_field_f_str_int_flt = V2_ACCUM_FIELD False True False True"

definition lua55_v2r_super_accumulate_field_f_str_flt_int :: stencil where
  "lua55_v2r_super_accumulate_field_f_str_flt_int = V2_ACCUM_FIELD False False True True"

definition lua55_v2r_super_accumulate_field_f_str_flt_flt :: stencil where
  "lua55_v2r_super_accumulate_field_f_str_flt_flt = V2_ACCUM_FIELD False False False True"

subsection \<open>The storing loop is a run of array stores\<close>

text \<open>The indices of the first trip and \<open>n\<close> more.\<close>

definition trips :: "u64 \<Rightarrow> u64 \<Rightarrow> nat \<Rightarrow> u64 list" where
  "trips iv sv n = map (\<lambda>k. iv + word_of_nat k * sv) [0..<Suc n]"

lemma trips_0: "trips iv sv 0 = [iv]"
  by (simp add: trips_def)

lemma trips_Suc: "trips iv sv (Suc n) = iv # trips (v2_int_add iv sv) sv n"
proof -
  have "trips iv sv (Suc n) = iv # map (\<lambda>k. iv + word_of_nat (Suc k) * sv) [0..<Suc n]"
    unfolding trips_def by (simp only: upt_conv_Cons [OF zero_less_Suc] list.map map_Suc_upt [symmetric] map_map o_def) simp
  then show ?thesis by (simp add: trips_def v2_int_add_def algebra_simps)
qed

lemma table_set_scalar: "tag v < LUA55_VALUE_SHORT_STRING \<Longrightarrow> v2_table_set table cell v s = wr_val cell v s"
  by (cases "wr_val cell v s") (auto simp: v2_table_set_def)

lemma trip_stores:
  assumes "array_ok table s" and k: "array_key iv" and c: "tag c < LUA55_VALUE_SHORT_STRING"
  shows "settable_trip (\<lambda>cell iv. wr_val cell c) table iv s =
    map_option (\<lambda>(stored, t). if stored then Inr t else Inl t) (array_store table iv c s)"
proof -
  from assms(1) obtain tb hp where th: "tables s table = Some tb" "heaps s (heap_ptr (inv s)) = Some hp"
    by (auto simp: array_ok_def)
  show ?thesis
  proof (cases rule: array_room [OF assms(1) th k, case_names f i m])
    case f
    then show ?thesis using array_key_signed [OF k] by (simp add: settable_trip_def array_store_def)
  next
    case (i a)
    then show ?thesis using c
      by (cases "wr_val a c s") (simp_all add: settable_trip_def array_store_def table_set_scalar)
  next
    case (m t a)
    then show ?thesis using c array_key_signed [OF k]
      by (cases "wr_val a c t") (simp_all add: settable_trip_def array_store_def table_set_scalar)
  qed
qed

lemma cycle_stores:
  assumes "array_ok table s" and "\<forall>k\<in>set (trips iv sv n). array_key k" and "tag c < LUA55_VALUE_SHORT_STRING"
  shows "settable_cycle (\<lambda>cell iv. wr_val cell c) table sv n iv s =
    map_option (\<lambda>(m, t). if m = Suc n then Inr (iv + word_of_nat n * sv, t) else Inl t)
      (store_all (array_store table) (map (\<lambda>k. (k, c)) (trips iv sv n)) s)"
  using assms
proof (induction n arbitrary: iv s)
  case 0
  then obtain b t where b: "array_store table iv c s = Some (b, t)"
    using array.store_returns [of table s iv c] by (auto simp: trips_0)
  then show ?case using trip_stores [OF 0(1) _ 0(3), of iv] 0(2) by (cases b) (simp_all add: trips_0)
next
  case (Suc n)
  have k: "array_key iv" "\<forall>k\<in>set (trips (v2_int_add iv sv) sv n). array_key k"
    using Suc.prems(2) by (simp_all add: trips_Suc)
  obtain b t where b: "array_store table iv c s = Some (b, t)" "array_ok table t"
    using array.store_returns [OF Suc.prems(1) k(1)] by blast
  have i: "v2_int_add iv sv + word_of_nat n * sv = iv + word_of_nat (Suc n) * sv"
    by (simp add: v2_int_add_def algebra_simps)
  show ?case
  proof (cases b)
    case False
    then show ?thesis using b trip_stores [OF Suc.prems(1) k(1) Suc.prems(3)] by (simp add: trips_Suc)
  next
    case True
    then have "settable_cycle (\<lambda>cell iv. wr_val cell c) table sv (Suc n) iv s =
        settable_cycle (\<lambda>cell iv. wr_val cell c) table sv n (v2_int_add iv sv) t"
      using b trip_stores [OF Suc.prems(1) k(1) Suc.prems(3)] by simp
    also have "\<dots> = map_option (\<lambda>(m, t). if m = Suc n then Inr (iv + word_of_nat (Suc n) * sv, t) else Inl t)
        (store_all (array_store table) (map (\<lambda>k. (k, c)) (trips (v2_int_add iv sv) sv n)) t)"
      unfolding i [symmetric] by (rule Suc.IH [OF b(2) k(2) Suc.prems(3)])
    finally show ?thesis using True b
      by (cases "store_all (array_store table) (map (\<lambda>k. (k, c)) (trips (v2_int_add iv sv) sv n)) t")
        (auto simp: trips_Suc)
  qed
qed

text \<open>The control cells and the receiver of the loop.\<close>

definition settable_shape :: "bool \<Rightarrow> holes \<Rightarrow> u64 \<Rightarrow> v2_state \<Rightarrow> u64 \<times> u64 \<times> u64 \<Rightarrow> u64 \<Rightarrow> u64 \<Rightarrow> u64 \<Rightarrow> u64 \<Rightarrow> bool" where
  "settable_shape pos h f s abc iv lv sv table \<longleftrightarrow> (case abc of (a, b, c) \<Rightarrow>
     V2_VALUE (h_base_index h) f s = Some a \<and> V2_VALUE (h_base_index h + 1) f s = Some b \<and>
     V2_VALUE (h_base_index h + 2) f s = Some c \<and>
     vals s a = Some (mk_value LUA55_VALUE_INTEGER iv) \<and> vals s b = Some (mk_value LUA55_VALUE_INTEGER lv) \<and>
     vals s c = Some (mk_value LUA55_VALUE_INTEGER sv) \<and>
     (if pos then 0 <s sv else sv <s 0) \<and> \<not> for_skips pos iv lv \<and>
     rd_at (h_receiver h) f s = Some (mk_value LUA55_VALUE_TABLE table) \<and> table \<noteq> 0 \<and>
     (\<exists>hd tb. headers s table = Some hd \<and> kind hd = LUA55_OBJECT_TABLE \<and> tables s table = Some tb \<and> metatable_reference tb = 0))"

lemma fused_count:
  assumes "if pos then 0 <s sv else sv <s 0" and "\<not> for_skips pos iv lv"
    and "for_trips (sint iv) (sint lv) (sint sv) < 2 ^ 63"
  shows "more_trips (for_count pos iv lv sv) = for_trips (sint iv) (sint lv) (sint sv)" "last_count (for_count pos iv lv sv) = 0"
proof -
  let ?c = "for_count pos iv lv sv"
  have u: "unat ?c = for_trips (sint iv) (sint lv) (sint sv)"
    using for_count_trips [of pos sv iv lv] assms(1,2) by (auto simp: word_sless_alt split: if_splits)
  have "0 <s ?c \<longleftrightarrow> 0 < unat ?c" using positive_count u assms(3) by simp
  then show "more_trips ?c = for_trips (sint iv) (sint lv) (sint sv)" "last_count ?c = 0"
    using u by (auto simp: more_trips_def last_count_def unat_eq_zero)
qed

text \<open>Storing the control cells leaves the array as it is.\<close>

lemma finish_cells:
  assumes "\<forall>x\<in>{a, b, c}. off_array table t x \<and> vals t x \<noteq> None"
  shows "settable_finish a b c count sv iv h f t = Some (Jump (h_skip h) f, t\<lparr>vals := (vals t)(a \<mapsto> mk_value LUA55_VALUE_INTEGER count,
      b \<mapsto> mk_value LUA55_VALUE_INTEGER sv, c \<mapsto> mk_value LUA55_VALUE_INTEGER iv)\<rparr>)"
    and "array_map table (t\<lparr>vals := (vals t)(a \<mapsto> mk_value LUA55_VALUE_INTEGER count,
      b \<mapsto> mk_value LUA55_VALUE_INTEGER sv, c \<mapsto> mk_value LUA55_VALUE_INTEGER iv)\<rparr>) = array_map table t"
proof -
  show "settable_finish a b c count sv iv h f t = Some (Jump (h_skip h) f, t\<lparr>vals := (vals t)(a \<mapsto> mk_value LUA55_VALUE_INTEGER count,
      b \<mapsto> mk_value LUA55_VALUE_INTEGER sv, c \<mapsto> mk_value LUA55_VALUE_INTEGER iv)\<rparr>)"
    using assms by (auto simp: settable_finish_def wr_int_def wr_val_def jump_to_def)
  let ?a = "t\<lparr>vals := (vals t)(a \<mapsto> mk_value LUA55_VALUE_INTEGER count)\<rparr>"
  let ?b = "?a\<lparr>vals := (vals ?a)(b \<mapsto> mk_value LUA55_VALUE_INTEGER sv)\<rparr>"
  have "array_map table (?b\<lparr>vals := (vals ?b)(c \<mapsto> mk_value LUA55_VALUE_INTEGER iv)\<rparr>) = array_map table ?b"
    using assms by (intro array_map_off) simp
  also have "\<dots> = array_map table ?a" using assms by (intro array_map_off) simp
  also have "\<dots> = array_map table t" using assms by (intro array_map_off) simp
  finally show "array_map table (t\<lparr>vals := (vals t)(a \<mapsto> mk_value LUA55_VALUE_INTEGER count,
      b \<mapsto> mk_value LUA55_VALUE_INTEGER sv, c \<mapsto> mk_value LUA55_VALUE_INTEGER iv)\<rparr>) = array_map table t" by simp
qed

text \<open>
  C28. The fused loop \<open>for i = a, b, c do t[i] = k end\<close> with a constant that is not an object (no
  string), over indices from 1 to \<open>2 ^ 31\<close>, its control cells outside the array and the free
  memory. Its leaf stores into the array part of the table exactly as the write of one element per
  index would, in order: for the indices from the first to the last that does not pass the limit,
  as long as the heap has room. Having stored them all it leaves past the loop, with the count 0,
  the step and the last index in the three control cells and no other change, and the array reads
  as the old one with all the elements. Otherwise the heap is full for the next index, it rejects,
  and the array reads as the old one with the elements stored so far.
\<close>

theorem fused_settable_stores:
  assumes shape: "settable_shape pos h f s (a, b, c) iv lv sv table" and ok: "array_ok table s"
    and n: "n = for_trips (sint iv) (sint lv) (sint sv)" "n < 2 ^ 63"
    and keys: "\<forall>k\<in>set (trips iv sv n). 1 \<le> unat k \<and> unat k \<le> 2 ^ 31"
    and store: "\<And>cell u. store table cell h f u = wr_val cell v u" "tag v < LUA55_VALUE_SHORT_STRING"
    and off: "off_array table s a" "off_array table s b" "off_array table s c"
  shows "\<exists>m t. store_all (array_store table) (map (\<lambda>k. (k, v)) (trips iv sv n)) s = Some (m, t) \<and>
    (if m = Suc n
     then \<exists>u. V2_SUPER_FOR_SETTABLE pos store h f s = Some (Jump (h_skip h) f, u) \<and>
       u = t\<lparr>vals := (vals t)(a \<mapsto> mk_value LUA55_VALUE_INTEGER 0, b \<mapsto> mk_value LUA55_VALUE_INTEGER sv,
         c \<mapsto> mk_value LUA55_VALUE_INTEGER (iv + word_of_nat n * sv))\<rparr> \<and>
       array_map table u = fold (\<lambda>k m. m(k := v)) (trips iv sv n) (array_map table s)
     else V2_SUPER_FOR_SETTABLE pos store h f s = reject_exit LUA55_V2_REJECT_INVALID_OBJECT h f t \<and>
       m \<le> n \<and> array_full table (trips iv sv n ! m) t \<and>
       array_map table t = fold (\<lambda>k m. m(k := v)) (take m (trips iv sv n)) (array_map table s))"
proof -
  let ?kvs = "map (\<lambda>k. (k, v)) (trips iv sv n)"
  have len: "length (trips iv sv n) = Suc n" by (simp add: trips_def)
  have ks: "\<forall>(k, v)\<in>set ?kvs. array_key k" "\<forall>k\<in>set (trips iv sv n). array_key k" using keys by (auto simp: array_key_def)
  from array.store_all_spec [OF ok ks(1)] obtain m t where
    t: "store_all (array_store table) ?kvs s = Some (m, t)" "m \<le> Suc n" "array_map table t = fold upd_binding (take m ?kvs) (array_map table s)"
      "m < Suc n \<longrightarrow> array_full table (fst (?kvs ! m)) t" by (auto simp: len)
  have fold: "fold upd_binding (map (\<lambda>k. (k, v)) xs) M = fold (\<lambda>k m. m(k := v)) xs M" for xs and M :: "u64 \<Rightarrow> lua_value"
    by (induction xs arbitrary: M) simp_all
  have map: "array_map table t = fold (\<lambda>k m. m(k := v)) (take m (trips iv sv n)) (array_map table s)"
    using t(3) by (simp add: take_map fold)
  have sg: "if pos then 0 <s sv else sv <s 0" "\<not> for_skips pos iv lv"
    using shape by (simp_all add: settable_shape_def)
  then have nz: "sv \<noteq> 0" "\<not> (if pos then sv \<le>s 0 else 0 \<le>s sv)"
    by (auto simp: word_sless_alt word_sle_eq split: if_splits)
  have cnt: "more_trips (for_count pos iv lv sv) = n" "last_count (for_count pos iv lv sv) = 0"
    using fused_count [OF sg] n by simp_all
  have put: "(\<lambda>cell i. store table cell h f) = (\<lambda>cell (i :: u64). wr_val cell v)" using store(1) by (simp add: fun_eq_iff)
  have loop: "settable_loop (\<lambda>cell i. store table cell h f) pos table a b c iv lv sv h f s =
      (if m = Suc n then settable_finish a b c 0 sv (iv + word_of_nat n * sv) h f t
       else reject_exit LUA55_V2_REJECT_INVALID_OBJECT h f t)"
    using sg(2) cnt t(1) cycle_stores [OF ok ks(2) store(2)] unfolding put by (simp add: settable_loop_def)
  obtain hd tb where hd: "headers s table = Some hd" "kind hd = LUA55_OBJECT_TABLE" "tables s table = Some tb" "metatable_reference tb = 0"
    using shape by (auto simp: settable_shape_def)
  moreover have "table_heap tb = heap_ptr (inv s)" using ok hd(3) by (auto simp: array_ok_def)
  ultimately have run: "V2_SUPER_FOR_SETTABLE pos store h f s = settable_loop (\<lambda>cell i. store table cell h f) pos table a b c iv lv sv h f s"
    using shape nz
    by (simp add: V2_SUPER_FOR_SETTABLE_def settable_shape_def V2_LEAF_GUARD_def V2_SUPER_GUARD_def super_table_def rd_val_def
        mk_value_def)
  have "vals s a \<noteq> None" "vals s b \<noteq> None" "vals s c \<noteq> None" using shape by (simp_all add: settable_shape_def)
  then have "\<forall>x\<in>{a, b, c}. off_array table t x \<and> vals t x \<noteq> None"
    using store_all_keeps [OF ok ks(1) t(1)] off by simp
  note fin = finish_cells [OF this, of 0 sv "iv + word_of_nat n * sv"]
  show ?thesis
  proof (cases "m = Suc n")
    case True
    then show ?thesis using t(1) run loop fin map len by simp
  next
    case False
    then show ?thesis using t(1,2,4) run loop map len by simp
  qed
qed

text \<open>The loop \<open>for i = 1, 3, 2 do t[i] = true end\<close>.\<close>

definition settable_example :: v2_state where
  "settable_example = array_example\<lparr>
     vals := (vals array_example)(0x520 \<mapsto> mk_value 3 1, 0x530 \<mapsto> mk_value 3 3, 0x540 \<mapsto> mk_value 3 2)\<rparr>"

lemma settable_example_facts:
  "settable_shape True (blank_holes\<lparr>h_base_index := 2, h_skip := 0x99\<rparr>) 0x100 settable_example (0x520, 0x530, 0x540) 1 3 2 0x800"
  "array_ok 0x800 settable_example"
  "off_array 0x800 settable_example 0x520" "off_array 0x800 settable_example 0x530" "off_array 0x800 settable_example 0x540"
  by (simp_all add: off_array_def settable_shape_def settable_example_def array_example_def field_example_def heap_example_def
      V2_VALUE_def slot_addr_def rd_at_def rd_val_def for_skips_def word_sless_alt array_ok_def array_mapped_def aa_def
      heap_fine_def settled_def mk_value_def)

text \<open>The first element is inside the array; behind it the heap still has room for the second.\<close>

definition settable_middle :: v2_state where
  "settable_middle = settable_example\<lparr>vals := (vals settable_example)(0x840 \<mapsto> mk_value 2 0)\<rparr>"

lemma settable_middle_facts:
  "array_store 0x800 1 (mk_value 2 0) settable_example = Some (True, settable_middle)"
  "array_ok 0x800 settable_middle" "\<not> array_full 0x800 3 settable_middle"
  by (simp_all add: settable_middle_def array_store_def v2_array_slot_def word_sless_alt v2_table_set_def wr_val_def array_full_def settable_example_def
      array_example_def field_example_def heap_example_def array_ok_def array_mapped_def aa_def heap_fine_def settled_def mk_value_def)

theorem fused_settable_stores_witness:
  "\<exists>t u. store_all (array_store 0x800) [(1, mk_value 2 0), (3, mk_value 2 0)] settable_example = Some (2, t) \<and>
    lua55_v2r_super_for_settable_true_pos (blank_holes\<lparr>h_base_index := 2, h_skip := 0x99\<rparr>) 0x100 settable_example = Some (Jump 0x99 0x100, u) \<and>
    u = t\<lparr>vals := (vals t)(0x520 \<mapsto> mk_value 3 0, 0x530 \<mapsto> mk_value 3 2, 0x540 \<mapsto> mk_value 3 3)\<rparr> \<and>
    array_map 0x800 u = (array_map 0x800 settable_example)(1 := mk_value 2 0, 3 := mk_value 2 0)"
proof -
  let ?h = "blank_holes\<lparr>h_base_index := 2, h_skip := 0x99\<rparr>" and ?st = "store_all (array_store 0x800)"
  have tr: "trips 1 2 1 = [1, 3]" by (simp add: trips_def)
  have n: "1 = for_trips (sint (1 :: u64)) (sint (3 :: u64)) (sint (2 :: u64))" "(1 :: nat) < 2 ^ 63" by (simp_all add: for_trips_def)
  have k: "\<forall>k\<in>set (trips 1 2 1). 1 \<le> unat k \<and> unat k \<le> 2 ^ 31" unfolding tr by simp
  have st: "V2_STORE_TRUE table cell h f u = wr_val cell (mk_value 2 0) u" "tag (mk_value 2 0) < LUA55_VALUE_SHORT_STRING" for table cell h f u
    by (simp_all add: V2_STORE_TRUE_def mk_value_def)
  from fused_settable_stores [where store = V2_STORE_TRUE, OF settable_example_facts(1,2) n k st settable_example_facts(3-5), unfolded tr]
  obtain m t where m: "?st [(1, mk_value 2 0), (3, mk_value 2 0)] settable_example = Some (m, t)"
    and ends: "m \<noteq> 2 \<Longrightarrow> m \<le> 1 \<and> array_full 0x800 ([1, 3] ! m) t"
      "m = 2 \<Longrightarrow> \<exists>u. V2_SUPER_FOR_SETTABLE True V2_STORE_TRUE ?h 0x100 settable_example = Some (Jump 0x99 0x100, u) \<and>
        u = t\<lparr>vals := (vals t)(0x520 \<mapsto> mk_value 3 0, 0x530 \<mapsto> mk_value 3 2, 0x540 \<mapsto> mk_value 3 3)\<rparr> \<and>
        array_map 0x800 u = (array_map 0x800 settable_example)(1 := mk_value 2 0, 3 := mk_value 2 0)"
    by (auto simp: Suc_1 split: if_splits)
  from m settable_middle_facts(1) obtain m' where m': "m = Suc m'" "?st [(3, mk_value 2 0)] settable_middle = Some (m', t)"
    by (auto simp: bind_eq_Some_conv)
  have "m = 2"
  proof (rule ccontr)
    assume "m \<noteq> 2"
    with ends(1) m'(1) have z: "m' = 0" "array_full 0x800 3 t" by auto
    with m'(2) have "t = settable_middle"
      by (intro array.store_all_none [OF settable_middle_facts(2), of "[(3, mk_value 2 0)]"]) (simp_all add: array_key_def)
    with z(2) settable_middle_facts(3) show False by simp
  qed
  with m ends(2) show ?thesis unfolding lua55_v2r_super_for_settable_true_pos_def by blast
qed

subsection \<open>The fused field update is the three instructions\<close>

lemma scan_fields_cong: "gfields t = gfields s \<Longrightarrow> scan_fields fv key i n vac t = scan_fields fv key i n vac s"
  by (induction n arbitrary: i vac) (simp_all add: Let_def cong: if_cong)

lemma find_field_found:
  assumes "v2_find_field table key False s = Some (cell, u)" and "cell \<noteq> 0"
    and "tables t = tables s" and "gfields t = gfields s"
  shows "u = s" "v2_find_field table key create t = Some (cell, t)"
proof -
  from assms(1,2) obtain tb found vac where t: "tables s table = Some tb"
      "scan_fields (field_values tb) key 0 (unat (field_capacity tb)) 0 s = Some (found, vac)" "found \<noteq> 0"
      "cell = found + OFFSET_FIELD_VALUE" "u = s"
    by (subst (asm) v2_find_field.simps) (auto simp: bind_eq_Some_conv split: if_splits)
  then show "u = s" "v2_find_field table key create t = Some (cell, t)"
    using assms(3,4) scan_fields_cong [OF assms(4)] by (auto simp: v2_find_field.simps [of table key create t])
qed

lemma learn_table_vals: "v2_learn_table r (s\<lparr>vals := m\<rparr>) = v2_learn_table r s"
  by (simp add: v2_learn_table_def Let_def cong: if_cong)

lemma learn_off [simp]:
  assumes "learning (inv s) = 0"
  shows "learn_at i g s = Some s"
  using assms by (simp add: learn_at_def)

text \<open>The sum that \<open>ADDI\<close> stores.\<close>

definition addi_value :: "lua_value \<Rightarrow> u64 \<Rightarrow> lua_value" where
  "addi_value v imm = mk_value (tag v) (if tag v = LUA55_VALUE_INTEGER then v2_int_add (payload v) imm
     else dbl_add (payload v) (c_double imm))"

text \<open>
  An occurrence of \<open>t.k = t.k + imm\<close> in which the receiver \<open>r\<close>, the temporary at \<open>tgt\<close> and the field at \<open>cell\<close>
  are where the fused and the plain holes say.
\<close>

definition addi_occurrence ::
    "holes \<Rightarrow> holes \<Rightarrow> holes \<Rightarrow> holes \<Rightarrow> u64 \<Rightarrow> v2_state \<Rightarrow> u64 \<Rightarrow> u64 \<Rightarrow> lua_value \<Rightarrow> bool" where
  "addi_occurrence hf hg ha hs f s tgt cell v \<longleftrightarrow> learning (inv s) = 0 \<and>
     h_key_ref hg = h_key_ref hf \<and> h_key_ref hs = h_key_ref hf \<and> h_int_imm ha = h_int_imm hf \<and>
     (\<exists>rc r table. V2_VALUE (h_target hf) f s = Some tgt \<and> V2_VALUE (h_receiver hf) f s = Some rc \<and>
       V2_VALUE_DISP (h_target_disp hg) f s = Some tgt \<and> V2_VALUE_DISP (h_left_disp ha) f s = Some tgt \<and>
       V2_VALUE_DISP (h_target_disp ha) f s = Some tgt \<and> V2_VALUE_DISP (h_source_disp hs) f s = Some tgt \<and>
       V2_VALUE_DISP (h_receiver_disp hg) f s = Some rc \<and> V2_VALUE_DISP (h_receiver_disp hs) f s = Some rc \<and>
       vals s rc = Some r \<and> v2_learn_table r s = Some table \<and> table \<noteq> 0 \<and>
       v2_find_field table (h_key_ref hf) False s = Some (cell, s) \<and> cell \<noteq> 0 \<and>
       vals s tgt \<noteq> None \<and> tgt \<noteq> rc \<and> tgt \<noteq> cell) \<and>
     vals s cell = Some v \<and> is_numeric (tag v) \<and> reserved v = 0"

lemma payload_value: "reserved v = 0 \<Longrightarrow> v\<lparr>payload := p\<rparr> = mk_value (tag v) p"
  by (cases v) (simp add: mk_value_def)

lemma rd_reg_at: "V2_VALUE_DISP d f s = Some a \<Longrightarrow> rd_reg d f s = vals s a"
  by (simp add: rd_reg_def rd_val_def)

lemma disp_vals: "V2_VALUE_DISP d f (s\<lparr>vals := m\<rparr>) = V2_VALUE_DISP d f s"
  by (simp add: V2_VALUE_DISP_def)

lemma addi_cell_adds:
  assumes "vals s cell = Some v" "reserved v = 0" "is_numeric (tag v)" "V2_VALUE (h_target h) f s = Some tgt" "vals s tgt \<noteq> None"
  shows "addi_cell cell (tag v = LUA55_VALUE_INTEGER) h f s = Some (Next f,
    s\<lparr>vals := (vals s)(cell \<mapsto> addi_value v (h_int_imm h), tgt \<mapsto> addi_value v (h_int_imm h))\<rparr>)"
  using assms
  by (auto simp: addi_cell_def wr_payload_def rd_val_def wr_val_def wr_at_def V2_VALUE_def bind_eq_Some_conv addi_value_def payload_value
      LUA55_RESIDUAL_NEXT_def)

lemma addi_adds:
  assumes "learning (inv s) = 0" "V2_VALUE_DISP (h_left_disp h) f s = Some tgt" "V2_VALUE_DISP (h_target_disp h) f s = Some tgt"
    "vals s tgt = Some v" "is_numeric (tag v)"
  shows "lua55_v2l_addi h f s = Some (Next f, s\<lparr>vals := (vals s)(tgt \<mapsto> addi_value v (h_int_imm h))\<rparr>)"
  using assms
  by (auto simp: lua55_v2l_addi_def V2_BIN_def learn_operands_def V2_PRO_RI_def v2_learn_pair_def rd_val_def put_int_def put_flt_def
      wr_int_def wr_flt_def wr_val_def mk_value_def is_numeric_def addi_value_def LUA55_RESIDUAL_NEXT_def)

text \<open>
  C29. The fused update of a field. For a field that holds a number, \<open>super_field_addi\<close> and its leaves leave
  the very state that \<open>GETFIELD\<close>, \<open>ADDI\<close> and \<open>SETFIELD\<close> leave one after the other: the field and the temporary
  register hold the sum, and nothing else has changed.
\<close>

theorem fused_field_addi:
  assumes "addi_occurrence hf hg ha hs f s tgt cell v"
    and t: "t = s\<lparr>vals := (vals s)(cell \<mapsto> addi_value v (h_int_imm hf), tgt \<mapsto> addi_value v (h_int_imm hf))\<rparr>"
  shows "(\<exists>s1 s2. lua55_v2_getfield hg f s = Some (Next f, s1) \<and> lua55_v2l_addi ha f s1 = Some (Next f, s2) \<and>
      lua55_v2l_setfield hs f s2 = Some (Next f, t)) \<and>
    lua55_v2l_super_field_addi hf f s = Some (Next f, t) \<and>
    V2_SUPER_FIELD_ADDI (tag v) (tag v = LUA55_VALUE_INTEGER) hf f s = Some (Next f, t)"
proof -
  obtain rc r table where o: "learning (inv s) = 0" "h_key_ref hg = h_key_ref hf" "h_key_ref hs = h_key_ref hf" "h_int_imm ha = h_int_imm hf"
      "V2_VALUE (h_target hf) f s = Some tgt" "V2_VALUE (h_receiver hf) f s = Some rc"
      "V2_VALUE_DISP (h_target_disp hg) f s = Some tgt" "V2_VALUE_DISP (h_left_disp ha) f s = Some tgt"
      "V2_VALUE_DISP (h_target_disp ha) f s = Some tgt" "V2_VALUE_DISP (h_source_disp hs) f s = Some tgt"
      "V2_VALUE_DISP (h_receiver_disp hg) f s = Some rc" "V2_VALUE_DISP (h_receiver_disp hs) f s = Some rc"
      "vals s rc = Some r" "v2_learn_table r s = Some table" "table \<noteq> 0"
      "v2_find_field table (h_key_ref hf) False s = Some (cell, s)" "cell \<noteq> 0"
      "vals s tgt \<noteq> None" "tgt \<noteq> rc" "tgt \<noteq> cell" "vals s cell = Some v" "is_numeric (tag v)" "reserved v = 0"
    using assms(1) unfolding addi_occurrence_def by blast
  let ?w = "addi_value v (h_int_imm hf)"
  let ?s1 = "s\<lparr>vals := (vals s)(tgt \<mapsto> v)\<rparr>" and ?s2 = "s\<lparr>vals := (vals s)(tgt \<mapsto> ?w)\<rparr>"
  obtain tb where tb: "tables s table = Some tb" "headers s table \<noteq> None"
    using o(14,15) by (auto simp: v2_learn_table_def Let_def bind_eq_Some_conv split: if_splits)
  have ff: "v2_find_field table (h_key_ref hf) create u = Some (cell, u)" if "tables u = tables s" "gfields u = gfields s" for create u
    using find_field_found(2) [OF o(16,17) that] .
  have get: "lua55_v2_getfield hg f s = Some (Next f, ?s1)"
    using o tb ff [of s False]
    by (simp add: lua55_v2_getfield_def rd_reg_at with_table_def load_field_def v2_learn_field_location_def load_cell_def
        rd_val_def wr_val_def LUA55_RESIDUAL_NEXT_def)
  have add: "lua55_v2l_addi ha f ?s1 = Some (Next f, ?s2)"
    using addi_adds [of ?s1 ha f tgt v] o by (simp add: disp_vals)
  have tw: "\<not> LUA55_VALUE_SHORT_STRING \<le> tag ?w" using o(22) by (auto simp: addi_value_def is_numeric_def mk_value_def)
  have set: "lua55_v2l_setfield hs f ?s2 = Some (Next f, t)"
    using o tb ff [of ?s2 True] tw t
    by (auto simp: lua55_v2l_setfield_def V2_TABLE_WRITE_def rd_reg_at disp_vals with_table_def learn_table_vals setfield_body_def
        v2_learn_field_location_def v2_learn_write_site_def store_cell_def v2_table_set_def wr_val_def LUA55_RESIDUAL_NEXT_def
        fun_upd_twist)
  have cell: "addi_cell cell (tag v = LUA55_VALUE_INTEGER) hf f s = Some (Next f, t)"
    using addi_cell_adds [OF o(21,23,22,5,18)] t by simp
  have fused: "lua55_v2l_super_field_addi hf f s = Some (Next f, t)"
    using o ff [of s False] cell
    by (simp add: lua55_v2l_super_field_addi_def rd_at_def rd_val_def with_table_def v2_learn_key_tag_def)
  have "tag r = LUA55_VALUE_TABLE" "super_table r k hf f s = k table hf f s" for k
    using o(14,15) by (auto simp: v2_learn_table_def super_table_def Let_def bind_eq_Some_conv split: if_splits)
  then have "V2_SUPER_FIELD_ADDI (tag v) (tag v = LUA55_VALUE_INTEGER) hf f s = Some (Next f, t)"
    using o ff [of s False] cell
    by (simp add: V2_SUPER_FIELD_ADDI_def rd_at_def rd_val_def V2_SUPER_GUARD_def super_cell_def)
  then show ?thesis using get add set fused by blast
qed

text \<open>The field with the key \<open>0x66\<close> holds 1; register 1 is the temporary.\<close>

theorem fused_field_addi_witness:
  "\<exists>t. lua55_v2r_super_field_addi_int (blank_holes\<lparr>h_target := 1, h_key_ref := 0x66, h_int_imm := 5\<rparr>) 0x100 field_example =
      Some (Next 0x100, t) \<and> vals t 0x908 = Some (mk_value 3 6) \<and> vals t 0x510 = Some (mk_value 3 6)"
proof -
  let ?hf = "blank_holes\<lparr>h_target := 1, h_key_ref := 0x66, h_int_imm := 5\<rparr>"
  let ?hg = "blank_holes\<lparr>h_target_disp := 16, h_key_ref := 0x66\<rparr>"
  let ?ha = "blank_holes\<lparr>h_target_disp := 16, h_left_disp := 16, h_int_imm := 5\<rparr>"
  let ?hs = "blank_holes\<lparr>h_source_disp := 16, h_key_ref := 0x66\<rparr>"
  have "v2_find_field 0x800 0x66 False field_example = Some (0x908, field_example)"
    by (subst v2_find_field.simps) (simp add: field_example_def field_addr_def Let_def)
  then have "addi_occurrence ?hf ?hg ?ha ?hs 0x100 field_example 0x510 0x908 (mk_value 3 1)"
    unfolding addi_occurrence_def
    by (auto simp: field_example_def V2_VALUE_def V2_VALUE_DISP_def slot_addr_def v2_learn_table_def mk_value_def is_numeric_def)
  from fused_field_addi [OF this refl] show ?thesis
    by (auto simp: lua55_v2r_super_field_addi_int_def addi_value_def mk_value_def v2_int_add_def)
qed

end
