(* ===== verification/Calls.thy ===== *)
theory Calls
  imports Specialization
begin

text \<open>
  Calls between native functions: \<open>CALL\<close>, \<open>TAILCALL\<close> and the returns, their learners and their
  residual leaves, the staged call (prepare, one fragment per argument, finish) and the generic-for
  call. A frame is carved from the frame arena at \<open>frame_next\<close>: the header of 120 bytes, then the
  values, the varargs and the to-be-closed nodes. Guest code never returns in C: a call jumps to
  the entry of the callee with the new frame, a return jumps to the return link.

  The fields of the caller are read once: the new frame lies past the caller's. A function
  descriptor is an entry of the invocation's table, indexed by the closure's prototype.
\<close>

subsection \<open>Callees\<close>

datatype callee = Native u64 function_descriptor | Builtin | Other

definition classify :: "lua_value \<Rightarrow> v2_state \<Rightarrow> callee option" where
  "classify v s =
     (if tag v \<noteq> LUA55_VALUE_CLOSURE \<or> payload v = 0 then Some Other
      else do {
        hd \<leftarrow> headers s (payload v);
        if kind hd = LUA55_OBJECT_BUILTIN then Some Builtin
        else if kind hd = LUA55_OBJECT_CLOSURE then do {
          closure \<leftarrow> closures s (payload v);
          if proto_index closure < function_count (inv s) then do {
            desc \<leftarrow> function_table (inv s) (proto_index closure);
            Some (if desc_entry desc \<noteq> 0 then Native (payload v) desc else Other)}
          else Some Other}
        else Some Other})"

fun callee_fact :: "callee \<Rightarrow> u32 \<times> u32" where
  "callee_fact (Native closure desc) = (1, is_vararg desc)"
| "callee_fact Builtin = (2, 0)"
| "callee_fact Other = (3, 0)"

subsection \<open>Argument counts and frame sizes\<close>

definition rd_top :: "u64 \<Rightarrow> v2_state \<Rightarrow> u32 option" where
  "rd_top f s = tops s (f + OFFSET_FRAME_TOP)"

definition V2_CALL_NARGS_OPEN :: "u32 \<Rightarrow> u64 \<Rightarrow> v2_state \<Rightarrow> u32 option" where
  "V2_CALL_NARGS_OPEN A f s = do {
     tp \<leftarrow> rd_top f s;
     Some (if A + 1 < tp then tp - (A + 1) else 0)}"

definition V2_CALL_NARGS_GENERIC :: "u32 \<Rightarrow> u32 \<Rightarrow> u64 \<Rightarrow> v2_state \<Rightarrow> u32 option" where
  "V2_CALL_NARGS_GENERIC A B f s = (if 0xFFFFFF \<le> B - 1 then V2_CALL_NARGS_OPEN A f s else Some (B - 1))"

definition fixed_args :: "function_descriptor \<Rightarrow> u32 \<Rightarrow> u32" where
  "fixed_args desc nargs = (if nargs < numparams desc then nargs else numparams desc)"

definition extra_args :: "bool \<Rightarrow> function_descriptor \<Rightarrow> u32 \<Rightarrow> u32" where
  "extra_args is_varg desc nargs = (if is_varg \<and> numparams desc < nargs then nargs - numparams desc else 0)"

definition frame_bytes :: "function_descriptor \<Rightarrow> u32 \<Rightarrow> u64" where
  "frame_bytes desc varargs =
     (SIZEOF_FRAME + ucast (desc_value_capacity desc) * SIZEOF_VALUE + ucast varargs * SIZEOF_VALUE
       + ucast (desc_tbc_capacity desc) * SIZEOF_TBC + 15) AND NOT 15"

definition call_overflow :: "u32 \<Rightarrow> u64 \<Rightarrow> u64 \<Rightarrow> stencil" where
  "call_overflow k need avail h f s = LUA55_CPS_HOST_EXIT h f (upd_outcome (\<lambda>r. r\<lparr>discriminant := k,
     overflow := (overflow r)\<lparr>required := need, available := avail, overflow_pc := h_pc h\<rparr>\<rparr>) s)"

subsection \<open>Entering a callee\<close>

definition min_top :: "u32 \<Rightarrow> function_descriptor \<Rightarrow> u32" where
  "min_top nargs desc = (if nargs < desc_value_capacity desc then nargs else desc_value_capacity desc)"

definition put_frame :: "u64 \<Rightarrow> u32 \<Rightarrow> native_frame \<Rightarrow> v2_state \<Rightarrow> v2_state" where
  "put_frame cf v fr s = s\<lparr>frames := (frames s)(cf \<mapsto> fr), tops := (tops s)(cf + OFFSET_FRAME_TOP \<mapsto> v)\<rparr>"

definition new_frame :: "u64 \<Rightarrow> function_descriptor \<Rightarrow> u32 \<Rightarrow> u64 \<Rightarrow> u64 \<Rightarrow> u64 \<Rightarrow> result_sink \<Rightarrow> native_frame" where
  "new_frame closure desc varargs cf f cont sink = \<lparr>
     caller = f, return_entry = cont, return_subject = f, frame_sink = sink,
     upvalues = closure + SIZEOF_CLOSURE, open_upvalues = 0,
     tbc_nodes = slot_addr (slot_addr (cf + SIZEOF_FRAME) (desc_value_capacity desc)) varargs,
     frame_values = cf + SIZEOF_FRAME, value_count = maxstacksize desc,
     value_capacity = desc_value_capacity desc, vararg_count = varargs,
     tbc_count = 0, tbc_capacity = desc_tbc_capacity desc\<rparr>"

text \<open>
  The arguments of a call, from \<open>src\<close> at index \<open>j\<close> on, into the values at \<open>dst\<close>: the fixed
  ones, nil for the parameters left over, the others into the slice past the values.
\<close>

definition pass_args :: "u64 \<Rightarrow> u64 \<Rightarrow> u32 \<Rightarrow> function_descriptor \<Rightarrow> u32 \<Rightarrow> u32 \<Rightarrow> v2_state \<Rightarrow> v2_state option" where
  "pass_args dst src j desc nargs varargs s = do {
     let fixed = fixed_args desc nargs;
     s \<leftarrow> copy_span dst 0 src j (unat fixed) s;
     s \<leftarrow> nil_span dst fixed (unat (numparams desc - fixed)) s;
     copy_span (slot_addr dst (desc_value_capacity desc)) 0 src (j + fixed) (unat varargs) s}"

definition enter_native ::
    "u64 \<Rightarrow> function_descriptor \<Rightarrow> bool \<Rightarrow> u32 \<Rightarrow> u64 \<Rightarrow> u32 \<Rightarrow> result_sink \<Rightarrow> stencil" where
  "enter_native closure desc is_varg nargs src j sink h f s = do {
     fr \<leftarrow> frames s f;
     let varargs = extra_args is_varg desc nargs;
     if value_capacity fr < h_a h + 1 + nargs
     then call_overflow LUA55_V2_OUTCOME_VALUE_OVERFLOW (ucast (h_a h + 1 + nargs)) (ucast (value_capacity fr)) h f s
     else do {
       let cf = frame_next (inv s);
       let bytes = frame_bytes desc varargs;
       if frame_end (inv s) < cf + bytes
       then call_overflow LUA55_V2_OUTCOME_STACK_OVERFLOW bytes (frame_end (inv s) - cf) h f s
       else do {
         let s = upd_inv (\<lambda>i. i\<lparr>frame_next := cf + bytes\<rparr>) s;
         let s = put_frame cf (min_top nargs desc) (new_frame closure desc varargs cf f (h_continuation h) sink) s;
         s \<leftarrow> pass_args (cf + SIZEOF_FRAME) src j desc nargs varargs s;
         Some (Jump (desc_entry desc) cf, upd_inv (\<lambda>i. i\<lparr>current_frame := cf\<rparr>) s)}}}"

definition call_sink :: "u64 \<Rightarrow> u32 \<Rightarrow> u32 \<Rightarrow> u64 \<Rightarrow> native_frame \<Rightarrow> result_sink" where
  "call_sink dst base count f fr = \<lparr>sink_values = dst, sink_top = f + OFFSET_FRAME_TOP, sink_base = base,
     sink_count = count, sink_capacity = value_capacity fr\<rparr>"

definition host_call_exit :: "u32 \<Rightarrow> u32 \<Rightarrow> u32 \<Rightarrow> (host_call_payload \<Rightarrow> host_call_payload) \<Rightarrow> stencil" where
  "host_call_exit a b c mark h f s = LUA55_CPS_HOST_EXIT h f (upd_outcome (\<lambda>r. r\<lparr>
     discriminant := LUA55_V2_OUTCOME_HOST_CALL,
     host_call := mark ((host_call r)\<lparr>hc_resume_entry := h_continuation h, hc_a := a, hc_b := b, hc_c := c,
       hc_pc := h_pc h, hc_host_id := 0\<rparr>)\<rparr>) s)"

definition lua55_v2l_call :: stencil where
  "lua55_v2l_call h f s = do {
     fr \<leftarrow> frames s f;
     v \<leftarrow> rd_val (slot_addr (frame_values fr) (h_a h)) s;
     callee \<leftarrow> classify v s;
     s \<leftarrow> (case callee_fact callee of (klass, varg) \<Rightarrow> v2_learn_callee (h_occ_slot h) klass varg s);
     case callee of
       Native closure desc \<Rightarrow> do {
         nargs \<leftarrow> V2_CALL_NARGS_GENERIC (h_a h) (h_b h) f s;
         enter_native closure desc (is_vararg desc \<noteq> 0) nargs (frame_values fr) (h_a h + 1)
           (call_sink (slot_addr (frame_values fr) (h_a h)) (h_a h) (h_c h - 1) f fr) h f s}
     | Builtin \<Rightarrow> host_call_exit (h_a h) (h_b h) (h_c h) id h f s
     | Other \<Rightarrow> reject_exit LUA55_V2_REJECT_UNSUPPORTED_CALLEE h f s}"

subsection \<open>Tail calls\<close>

definition reuse_frame :: "u64 \<Rightarrow> u64 \<Rightarrow> u32 \<Rightarrow> u32 \<Rightarrow> u32 \<Rightarrow> u32 \<Rightarrow> native_frame \<Rightarrow> native_frame" where
  "reuse_frame ups dst maxstack cap varargs tbc fr = fr\<lparr>upvalues := ups, value_count := maxstack,
     value_capacity := cap, vararg_count := varargs, tbc_count := 0, tbc_capacity := tbc,
     tbc_nodes := slot_addr (slot_addr dst cap) varargs, open_upvalues := 0\<rparr>"

text \<open>The two bounds of a tail call, then \<open>k\<close> with the number of varargs and the new end of the frame.\<close>

definition tail_bounds :: "function_descriptor \<Rightarrow> bool \<Rightarrow> u32 \<Rightarrow> (u32 \<Rightarrow> u64 \<Rightarrow> stencil) \<Rightarrow> stencil" where
  "tail_bounds desc is_varg nargs k h f s = do {
     fr \<leftarrow> frames s f;
     let varargs = extra_args is_varg desc nargs;
     if value_capacity fr < h_a h + 1 + nargs
     then call_overflow LUA55_V2_OUTCOME_VALUE_OVERFLOW (ucast (h_a h + 1 + nargs)) (ucast (value_capacity fr)) h f s
     else do {
       let bytes = frame_bytes desc varargs;
       if frame_end (inv s) < f + bytes
       then call_overflow LUA55_V2_OUTCOME_STACK_OVERFLOW bytes (frame_end (inv s) - f) h f s
       else k varargs (f + bytes) h f s}}"

definition tail_native :: "u64 \<Rightarrow> function_descriptor \<Rightarrow> bool \<Rightarrow> u32 \<Rightarrow> u64 \<Rightarrow> u32 \<Rightarrow> stencil" where
  "tail_native closure desc is_varg nargs src j = tail_bounds desc is_varg nargs (\<lambda>varargs new_end h f s. do {
     s \<leftarrow> lua55_cps_close_open_upvalues f s;
     fr \<leftarrow> frames s f;
     let dst = frame_values fr;
     s \<leftarrow> pass_args dst src j desc nargs varargs s;
     s \<leftarrow> upd_frame f (reuse_frame (closure + SIZEOF_CLOSURE) dst (maxstacksize desc) (desc_value_capacity desc)
       varargs (desc_tbc_capacity desc)) s;
     let s = s\<lparr>tops := (tops s)(f + OFFSET_FRAME_TOP \<mapsto> min_top nargs desc)\<rparr>;
     Some (Jump (desc_entry desc) f, upd_inv (\<lambda>i. i\<lparr>frame_next := new_end, current_frame := f\<rparr>) s)})"

definition host_tail_exit :: stencil where
  "host_tail_exit h f s = LUA55_CPS_HOST_EXIT h f (upd_outcome (\<lambda>r. r\<lparr>
     discriminant := LUA55_V2_OUTCOME_HOST_TAIL_CALL,
     host_tail_call := (host_tail_call r)\<lparr>ht_tail_return_entry := h_tail_return h, ht_a := h_a h, ht_b := h_b h,
       ht_pc := h_pc h, ht_host_id := 0\<rparr>\<rparr>) s)"

definition lua55_v2l_tailcall :: stencil where
  "lua55_v2l_tailcall h f s = do {
     fr \<leftarrow> frames s f;
     v \<leftarrow> rd_val (slot_addr (frame_values fr) (h_a h)) s;
     callee \<leftarrow> classify v s;
     s \<leftarrow> (case callee_fact callee of (klass, varg) \<Rightarrow> v2_learn_callee (h_occ_slot h) klass varg s);
     case callee of
       Native closure desc \<Rightarrow> do {
         nargs \<leftarrow> V2_CALL_NARGS_GENERIC (h_a h) (h_b h) f s;
         tail_native closure desc (is_vararg desc \<noteq> 0) nargs (frame_values fr) (h_a h + 1) h f s}
     | Builtin \<Rightarrow> host_tail_exit h f s
     | Other \<Rightarrow> reject_exit LUA55_V2_REJECT_UNSUPPORTED_CALLEE h f s}"

subsection \<open>Returns\<close>

definition wr_top_at :: "u64 \<Rightarrow> u32 \<Rightarrow> v2_state \<Rightarrow> v2_state option" where
  "wr_top_at a v s = (if tops s a = None then None else Some (s\<lparr>tops := (tops s)(a \<mapsto> v)\<rparr>))"

text \<open>
  Counts are \<open>int32_t\<close>. \<open>sink_takes\<close> is the number of results that reach the sink, \<open>sink_fills\<close> the
  number of slots it fills.
\<close>

definition sink_takes :: "result_sink \<Rightarrow> u32 \<Rightarrow> u32" where
  "sink_takes sink nres = (if 0 \<le>s sink_count sink then (if sink_count sink <s nres then sink_count sink else nres) else nres)"

definition sink_fills :: "result_sink \<Rightarrow> u32 \<Rightarrow> u32" where
  "sink_fills sink nres = (if 0 \<le>s sink_count sink then sink_count sink else sink_takes sink nres)"

definition publish_results :: "u32 \<Rightarrow> result_sink \<Rightarrow> u64 \<Rightarrow> u32 \<Rightarrow> v2_state \<Rightarrow> v2_state option" where
  "publish_results nres sink src j s = do {
     let count = sink_takes sink nres;
     s \<leftarrow> copy_span (sink_values sink) 0 src j (unat count) s;
     s \<leftarrow> (if 0 \<le>s sink_count sink
           then nil_span (sink_values sink) count (unat (sink_count sink - count)) s else Some s);
     wr_top_at (sink_top sink) (sink_base sink + sink_fills sink nres) s}"

definition leave_frame :: "u32 \<Rightarrow> stencil" where
  "leave_frame fills h f s = do {
     s \<leftarrow> lua55_cps_close_open_upvalues f s;
     let s = upd_outcome (\<lambda>r. r\<lparr>discriminant := LUA55_V2_OUTCOME_RETURNED, out_result_count := fills\<rparr>) s;
     fr \<leftarrow> frames s f;
     let s = (if current_frame (inv s) = f
       then upd_inv (\<lambda>i. i\<lparr>frame_next := f, current_frame := caller fr\<rparr>) s else s);
     Some (Jump (return_entry fr) (return_subject fr), s)}"

definition return_body :: "u32 \<Rightarrow> stencil" where
  "return_body n h f s = do {
     fr \<leftarrow> frames s f;
     let nres = (if n <s 0 then 0 else n);
     let sink = frame_sink fr;
     let fills = sink_fills sink nres;
     if sink_values sink \<noteq> 0 \<and> sink_capacity sink < sink_base sink + fills
     then call_overflow LUA55_V2_OUTCOME_VALUE_OVERFLOW (ucast (sink_base sink + fills)) (ucast (sink_capacity sink)) h f s
     else do {
       s \<leftarrow> (if sink_values sink \<noteq> 0 then publish_results nres sink (frame_values fr) (h_a h) s else Some s);
       leave_frame fills h f s}}"

definition V2_RETURN_IMPL :: "bool \<Rightarrow> u32 \<Rightarrow> stencil" where
  "V2_RETURN_IMPL b_mode fixed = return_body (if b_mode then fixed else 0)"

definition lua55_cps_return0 :: stencil where
  "lua55_cps_return0 = V2_RETURN_IMPL True 0"

definition lua55_cps_return1 :: stencil where
  "lua55_cps_return1 = V2_RETURN_IMPL True 1"

definition V2_RETURN_B :: stencil where
  "V2_RETURN_B h f s =
     (if h_b h = 0 then do {tp \<leftarrow> rd_top f s; return_body (tp - h_a h) h f s}
      else return_body (h_b h - 1) h f s)"

definition lua55_cps_return :: stencil where
  "lua55_cps_return = V2_RETURN_B"

definition lua55_cps_host_tail_return :: stencil where
  "lua55_cps_host_tail_return h f s = do {tp \<leftarrow> rd_top f s; return_body (tp - h_a h) h f s}"

subsection \<open>Leaves\<close>

definition V2_CALL_GUARD_NATIVE_CELL ::
    "u32 \<Rightarrow> lua_value \<Rightarrow> (u64 \<Rightarrow> function_descriptor \<Rightarrow> stencil) \<Rightarrow> stencil" where
  "V2_CALL_GUARD_NATIVE_CELL is_varg v k h f s =
     (if tag v \<noteq> LUA55_VALUE_CLOSURE then mismatch LUA55_VALUE_CLOSURE (tag v) h f s
      else if payload v = 0 then mismatch LUA55_OBJECT_CLOSURE 0 h f s
      else do {
        hd \<leftarrow> headers s (payload v);
        if kind hd \<noteq> LUA55_OBJECT_CLOSURE then mismatch LUA55_OBJECT_CLOSURE (kind hd) h f s
        else do {
          closure \<leftarrow> closures s (payload v);
          if function_count (inv s) \<le> proto_index closure then mismatch 0 0 h f s
          else do {
            desc \<leftarrow> function_table (inv s) (proto_index closure);
            if desc_entry desc = 0 then mismatch 0 0 h f s
            else if is_vararg desc \<noteq> is_varg then mismatch is_varg (is_vararg desc) h f s
            else k (payload v) desc h f s}}})"

definition V2_CALL_GUARD_BUILTIN_CELL :: "lua_value \<Rightarrow> stencil \<Rightarrow> stencil" where
  "V2_CALL_GUARD_BUILTIN_CELL v k h f s =
     (if tag v \<noteq> LUA55_VALUE_CLOSURE then mismatch LUA55_VALUE_CLOSURE (tag v) h f s
      else if payload v = 0 then mismatch LUA55_OBJECT_BUILTIN 0 h f s
      else do {
        hd \<leftarrow> headers s (payload v);
        if kind hd \<noteq> LUA55_OBJECT_BUILTIN then mismatch LUA55_OBJECT_BUILTIN (kind hd) h f s
        else k h f s})"

definition V2_CALL_BASE_GENERIC :: "holes \<Rightarrow> u64 \<Rightarrow> v2_state \<Rightarrow> u64 option" where
  "V2_CALL_BASE_GENERIC h = V2_VALUE (h_a h)"

definition V2_CALL_BASE_DIRECT :: "holes \<Rightarrow> u64 \<Rightarrow> v2_state \<Rightarrow> u64 option" where
  "V2_CALL_BASE_DIRECT h = V2_VALUE_DISP (h_base_disp h)"

definition V2_CALL_NATIVE_LEAF ::
    "u32 \<Rightarrow> (stencil \<Rightarrow> stencil) \<Rightarrow> (holes \<Rightarrow> u64 \<Rightarrow> v2_state \<Rightarrow> u32 option) \<Rightarrow>
     (holes \<Rightarrow> u64 \<Rightarrow> v2_state \<Rightarrow> u64 option) \<Rightarrow> stencil" where
  "V2_CALL_NATIVE_LEAF is_varg prelude nargs_setup base_setup = prelude (\<lambda>h f s. do {
     callee \<leftarrow> base_setup h f s;
     v \<leftarrow> rd_val callee s;
     V2_CALL_GUARD_NATIVE_CELL is_varg v (\<lambda>closure desc h f s. do {
       nargs \<leftarrow> nargs_setup h f s;
       fr \<leftarrow> frames s f;
       enter_native closure desc (is_varg \<noteq> 0) nargs callee 1
         (call_sink callee (h_a h) (h_c h - 1) f fr) h f s}) h f s})"

definition V2_NO_CALL_PRELUDE :: "stencil \<Rightarrow> stencil" where
  "V2_NO_CALL_PRELUDE k = k"

definition lua55_v2r_call_native_fixed_open :: stencil where
  "lua55_v2r_call_native_fixed_open =
     V2_CALL_NATIVE_LEAF 0 V2_NO_CALL_PRELUDE (\<lambda>h. V2_CALL_NARGS_OPEN (h_a h)) V2_CALL_BASE_DIRECT"

definition lua55_v2r_call_native_vararg_open :: stencil where
  "lua55_v2r_call_native_vararg_open =
     V2_CALL_NATIVE_LEAF 1 V2_NO_CALL_PRELUDE (\<lambda>h. V2_CALL_NARGS_OPEN (h_a h)) V2_CALL_BASE_DIRECT"

text \<open>
  The staged call. \<open>prepare\<close> checks the callee and the bounds and fills in the new frame, one
  \<open>arg_slot\<close> fragment per argument copies it, \<open>finish\<close> fills the parameters left over, moves the
  arena pointer and jumps.
\<close>

definition V2_CALL_FIXED_PREPARE :: "u32 \<Rightarrow> stencil" where
  "V2_CALL_FIXED_PREPARE is_varg h f s = do {
     callee \<leftarrow> V2_VALUE_DISP (h_base_disp h) f s;
     v \<leftarrow> rd_val callee s;
     V2_CALL_GUARD_NATIVE_CELL is_varg v (\<lambda>closure desc h f s. do {
       fr \<leftarrow> frames s f;
       let nargs = h_arg_count h;
       let varargs = extra_args (is_varg \<noteq> 0) desc nargs;
       if value_capacity fr < h_a h + 1 + nargs
       then call_overflow LUA55_V2_OUTCOME_VALUE_OVERFLOW (ucast (h_a h + 1 + nargs)) (ucast (value_capacity fr)) h f s
       else do {
         let cf = frame_next (inv s);
         let bytes = frame_bytes desc varargs;
         if frame_end (inv s) < cf + bytes
         then call_overflow LUA55_V2_OUTCOME_STACK_OVERFLOW bytes (frame_end (inv s) - cf) h f s
         else do {
           let s = put_frame cf (min_top nargs desc) (new_frame closure desc varargs cf f (h_continuation h)
             (call_sink callee (h_a h) (h_result_count h) f fr)) s;
           LUA55_RESIDUAL_NEXT f (upd_inv (\<lambda>i. i\<lparr>prep_call := \<lparr>pc_callee = cf, pc_entry = desc_entry desc,
             pc_next_frame = cf + bytes, pc_nparams = numparams desc, pc_nargs = nargs\<rparr>\<rparr>) s)}}}) h f s}"

definition lua55_v2r_call_native_fixed_prepare :: stencil where
  "lua55_v2r_call_native_fixed_prepare = V2_CALL_FIXED_PREPARE 0"

definition lua55_v2r_call_native_vararg_prepare :: stencil where
  "lua55_v2r_call_native_vararg_prepare = V2_CALL_FIXED_PREPARE 1"

definition lua55_v2r_call_fixed_arg_slot :: stencil where
  "lua55_v2r_call_fixed_arg_slot h f s = do {
     source \<leftarrow> V2_VALUE_DISP (h_source_disp h) f s;
     let prep = prep_call (inv s);
     cfr \<leftarrow> frames s (pc_callee prep);
     s \<leftarrow> (if h_span h < pc_nparams prep then do {
             v \<leftarrow> rd_val source s;
             wr_val (V2_VALUE_BASE_DISP (frame_values cfr) (h_target_disp h)) v s}
           else if 0 < vararg_count cfr then do {
             v \<leftarrow> rd_val source s;
             wr_val (slot_addr (slot_addr (frame_values cfr) (value_capacity cfr)) (h_span h - pc_nparams prep)) v s}
           else Some s);
     LUA55_RESIDUAL_NEXT f s}"

definition lua55_v2r_call_fixed_finish :: stencil where
  "lua55_v2r_call_fixed_finish h f s = do {
     let prep = prep_call (inv s);
     cfr \<leftarrow> frames s (pc_callee prep);
     s \<leftarrow> nil_span (frame_values cfr) (pc_nargs prep)
       (if pc_nargs prep < pc_nparams prep then unat (pc_nparams prep - pc_nargs prep) else 0) s;
     Some (Jump (pc_entry prep) (pc_callee prep),
       upd_inv (\<lambda>i. i\<lparr>frame_next := pc_next_frame prep, current_frame := pc_callee prep\<rparr>) s)}"

definition lua55_v2r_call_native_fixed_arg1 :: stencil where
  "lua55_v2r_call_native_fixed_arg1 h f s = do {
     callee \<leftarrow> V2_VALUE_DISP (h_base_disp h) f s;
     argument \<leftarrow> V2_VALUE_DISP (h_source_disp h) f s;
     v \<leftarrow> rd_val callee s;
     V2_CALL_GUARD_NATIVE_CELL 0 v (\<lambda>closure desc h f s. do {
       fr \<leftarrow> frames s f;
       if value_capacity fr < h_a h + 2
       then call_overflow LUA55_V2_OUTCOME_VALUE_OVERFLOW (ucast (h_a h + 2)) (ucast (value_capacity fr)) h f s
       else do {
         let cf = frame_next (inv s);
         let bytes = frame_bytes desc 0;
         if frame_end (inv s) < cf + bytes
         then call_overflow LUA55_V2_OUTCOME_STACK_OVERFLOW bytes (frame_end (inv s) - cf) h f s
         else do {
           let s = put_frame cf 1 (new_frame closure desc 0 cf f (h_continuation h)
             (call_sink callee (h_a h) (h_result_count h) f fr)) s;
           s \<leftarrow> (if 0 < numparams desc then do {a \<leftarrow> rd_val argument s; wr_val (cf + SIZEOF_FRAME) a s} else Some s);
           s \<leftarrow> nil_span (cf + SIZEOF_FRAME) 1 (unat (numparams desc) - 1) s;
           Some (Jump (desc_entry desc) cf, upd_inv (\<lambda>i. i\<lparr>frame_next := cf + bytes, current_frame := cf\<rparr>) s)}}}) h f s}"

definition lua55_v2r_call_host :: stencil where
  "lua55_v2r_call_host h f s = do {
     callee \<leftarrow> V2_VALUE_DISP (h_base_disp h) f s;
     v \<leftarrow> rd_val callee s;
     V2_CALL_GUARD_BUILTIN_CELL v (\<lambda>h. host_call_exit (h_a h) (h_b h) (h_c h) (\<lambda>p. p\<lparr>hc_reserved := 0\<rparr>) h) h f s}"

definition V2_TAILCALL_NATIVE_LEAF :: "u32 \<Rightarrow> (holes \<Rightarrow> u64 \<Rightarrow> v2_state \<Rightarrow> u32 option) \<Rightarrow> stencil" where
  "V2_TAILCALL_NATIVE_LEAF is_varg nargs_setup h f s = do {
     callee \<leftarrow> V2_VALUE_DISP (h_base_disp h) f s;
     v \<leftarrow> rd_val callee s;
     V2_CALL_GUARD_NATIVE_CELL is_varg v (\<lambda>closure desc h f s. do {
       nargs \<leftarrow> nargs_setup h f s;
       tail_native closure desc (is_varg \<noteq> 0) nargs callee 1 h f s}) h f s}"

definition lua55_v2r_tailcall_native_fixed_open :: stencil where
  "lua55_v2r_tailcall_native_fixed_open = V2_TAILCALL_NATIVE_LEAF 0 (\<lambda>h. V2_CALL_NARGS_OPEN (h_a h))"

definition lua55_v2r_tailcall_native_vararg_open :: stencil where
  "lua55_v2r_tailcall_native_vararg_open = V2_TAILCALL_NATIVE_LEAF 1 (\<lambda>h. V2_CALL_NARGS_OPEN (h_a h))"

definition V2_TAIL_FIXED_PREPARE :: "u32 \<Rightarrow> stencil" where
  "V2_TAIL_FIXED_PREPARE is_varg h f s = do {
     callee \<leftarrow> V2_VALUE_DISP (h_base_disp h) f s;
     v \<leftarrow> rd_val callee s;
     V2_CALL_GUARD_NATIVE_CELL is_varg v (\<lambda>closure desc h.
       tail_bounds desc (is_varg \<noteq> 0) (h_arg_count h) (\<lambda>varargs new_end h f s. do {
         s \<leftarrow> lua55_cps_close_open_upvalues f s;
         LUA55_RESIDUAL_NEXT f (upd_inv (\<lambda>i. i\<lparr>prep_tail_call := \<lparr>pt_entry = desc_entry desc,
           pt_upvalues = closure + SIZEOF_CLOSURE, pt_frame_end = new_end, pt_nparams = numparams desc,
           pt_nargs = h_arg_count h, pt_vararg_count = varargs, pt_maxstack = maxstacksize desc,
           pt_value_capacity = desc_value_capacity desc, pt_tbc_capacity = desc_tbc_capacity desc\<rparr>\<rparr>) s)}) h) h f s}"

definition lua55_v2r_tailcall_native_fixed_prepare :: stencil where
  "lua55_v2r_tailcall_native_fixed_prepare = V2_TAIL_FIXED_PREPARE 0"

definition lua55_v2r_tailcall_native_vararg_prepare :: stencil where
  "lua55_v2r_tailcall_native_vararg_prepare = V2_TAIL_FIXED_PREPARE 1"

definition lua55_v2r_tailcall_fixed_arg_slot :: stencil where
  "lua55_v2r_tailcall_fixed_arg_slot h f s = do {
     source \<leftarrow> V2_VALUE_DISP (h_source_disp h) f s;
     let prep = prep_tail_call (inv s);
     fr \<leftarrow> frames s f;
     s \<leftarrow> (if h_span h < pt_nparams prep then do {
             v \<leftarrow> rd_val source s;
             wr_val (V2_VALUE_BASE_DISP (frame_values fr) (h_target_disp h)) v s}
           else if 0 < pt_vararg_count prep then do {
             v \<leftarrow> rd_val source s;
             wr_val (slot_addr (slot_addr (frame_values fr) (pt_value_capacity prep)) (h_span h - pt_nparams prep)) v s}
           else Some s);
     LUA55_RESIDUAL_NEXT f s}"

definition lua55_v2r_tailcall_fixed_finish :: stencil where
  "lua55_v2r_tailcall_fixed_finish h f s = do {
     let prep = prep_tail_call (inv s);
     fr \<leftarrow> frames s f;
     s \<leftarrow> nil_span (frame_values fr) (pt_nargs prep)
       (if pt_nargs prep < pt_nparams prep then unat (pt_nparams prep - pt_nargs prep) else 0) s;
     s \<leftarrow> upd_frame f (reuse_frame (pt_upvalues prep) (frame_values fr) (pt_maxstack prep) (pt_value_capacity prep)
       (pt_vararg_count prep) (pt_tbc_capacity prep)) s;
     let s = s\<lparr>tops := (tops s)(f + OFFSET_FRAME_TOP \<mapsto>
       (if pt_nargs prep < pt_value_capacity prep then pt_nargs prep else pt_value_capacity prep))\<rparr>;
     Some (Jump (pt_entry prep) f, upd_inv (\<lambda>i. i\<lparr>frame_next := pt_frame_end prep, current_frame := f\<rparr>) s)}"

definition lua55_v2r_tailcall_host :: stencil where
  "lua55_v2r_tailcall_host h f s = do {
     callee \<leftarrow> V2_VALUE_DISP (h_base_disp h) f s;
     v \<leftarrow> rd_val callee s;
     V2_CALL_GUARD_BUILTIN_CELL v host_tail_exit h f s}"

subsection \<open>The generic-for call\<close>

text \<open>The new frame of an iterator, called with the state at \<open>st\<close> and the control at \<open>ctl\<close>.\<close>

definition enter_iterator :: "u64 \<Rightarrow> function_descriptor \<Rightarrow> u64 \<Rightarrow> u64 \<Rightarrow> u64 \<Rightarrow> stencil" where
  "enter_iterator closure desc st ctl dst h f s = do {
     fr \<leftarrow> frames s f;
     if value_capacity fr < h_a h + 3 + h_c h
     then call_overflow LUA55_V2_OUTCOME_VALUE_OVERFLOW (ucast (h_a h + 3 + h_c h)) (ucast (value_capacity fr)) h f s
     else do {
       let cf = frame_next (inv s);
       let bytes = frame_bytes desc 0;
       if frame_end (inv s) < cf + bytes
       then call_overflow LUA55_V2_OUTCOME_STACK_OVERFLOW bytes (frame_end (inv s) - cf) h f s
       else do {
         let s = upd_inv (\<lambda>i. i\<lparr>frame_next := cf + bytes\<rparr>) s;
         let s = put_frame cf (min_top 2 desc) (new_frame closure desc 0 cf f (h_continuation h)
           (call_sink dst (h_a h + 3) (h_c h) f fr)) s;
         a \<leftarrow> rd_val st s;
         s \<leftarrow> wr_val (slot_addr (cf + SIZEOF_FRAME) 0) a s;
         b \<leftarrow> rd_val ctl s;
         s \<leftarrow> wr_val (slot_addr (cf + SIZEOF_FRAME) 1) b s;
         s \<leftarrow> nil_span (cf + SIZEOF_FRAME) 2 (unat (numparams desc) - 2) s;
         Some (Jump (desc_entry desc) cf, upd_inv (\<lambda>i. i\<lparr>current_frame := cf\<rparr>) s)}}}"

definition lua55_v2r_tforcall_native :: stencil where
  "lua55_v2r_tforcall_native h f s = do {
     callee \<leftarrow> V2_VALUE_DISP (h_base_disp h) f s;
     v \<leftarrow> rd_val callee s;
     V2_CALL_GUARD_NATIVE_CELL 0 v (\<lambda>closure desc.
       enter_iterator closure desc (slot_addr callee 1) (slot_addr callee 3) (slot_addr callee 3)) h f s}"

definition lua55_v2r_tforcall_host :: stencil where
  "lua55_v2r_tforcall_host h f s = do {
     callee \<leftarrow> V2_VALUE_DISP (h_base_disp h) f s;
     v \<leftarrow> rd_val callee s;
     V2_CALL_GUARD_BUILTIN_CELL v (\<lambda>h. host_call_exit (h_a h) 3 (h_c h) (\<lambda>p. p\<lparr>hc_reserved := 1\<rparr>) h) h f s}"

end
