(* ===== verification/Call_Protocol.thy ===== *)
theory Call_Protocol
  imports Calls
begin

text \<open>
  What calls and returns guarantee: the open-call leaves meet the contract with the learner, a call
  hands the arguments to a new frame within the arena, and a return hands the results back,
  pops the frame and goes on at the continuation of the call.
\<close>

subsection \<open>Frames and spans\<close>

lemma copy_span_vals: "copy_span dst i src j n s = Some t \<Longrightarrow> \<exists>m. t = s\<lparr>vals := m\<rparr>"
proof (induction n arbitrary: i j s)
  case 0
  then have "t = s\<lparr>vals := vals s\<rparr>" by simp
  then show ?case by blast
next
  case (Suc n)
  then obtain v u where "copy_span dst (i + 1) src (j + 1) n u = Some t" "u = s\<lparr>vals := (vals s)(slot_addr dst i \<mapsto> v)\<rparr>"
    by (auto simp: bind_eq_Some_conv wr_val_Some)
  with Suc.IH [of "i + 1" "j + 1" u] show ?case by auto
qed

lemma nil_span_vals: "nil_span base i n s = Some t \<Longrightarrow> \<exists>m. t = s\<lparr>vals := m\<rparr>"
proof (induction n arbitrary: i s)
  case 0
  then have "t = s\<lparr>vals := vals s\<rparr>" by simp
  then show ?case by blast
next
  case (Suc n)
  then obtain v u where "nil_span base (i + 1) n u = Some t" "u = s\<lparr>vals := (vals s)(slot_addr base i \<mapsto> v)\<rparr>"
    by (auto simp: bind_eq_Some_conv wr_tag_def wr_val_Some)
  with Suc.IH [of "i + 1" u] show ?case by auto
qed

lemma pass_args_vals:
  assumes "pass_args dst src j desc nargs varargs s = Some t"
  shows "\<exists>m. t = s\<lparr>vals := m\<rparr>"
proof -
  obtain u v where "copy_span dst 0 src j (unat (fixed_args desc nargs)) s = Some u"
    "nil_span dst (fixed_args desc nargs) (unat (numparams desc - fixed_args desc nargs)) u = Some v"
    "copy_span (slot_addr dst (desc_value_capacity desc)) 0 src (j + fixed_args desc nargs) (unat varargs) v = Some t"
    using assms by (auto simp: pass_args_def bind_eq_Some_conv Let_def)
  from copy_span_vals [OF this(1)] nil_span_vals [OF this(2)] copy_span_vals [OF this(3)] show ?thesis by auto
qed

lemma copy_span_blind [v2_blind]: "blind (copy_span dst i src j n)"
proof (induction n arbitrary: i j)
  case 0
  show ?case using blind_Some by (simp add: fun_eq_iff [symmetric] blind_def)
next
  case (Suc n)
  show ?case unfolding copy_span.simps(2) [abs_def]
    by (intro blind_read v2_blind Suc.IH) (simp add: rd_val_def)
qed

lemma nil_span_blind [v2_blind]: "blind (nil_span base i n)"
proof (induction n arbitrary: i)
  case 0
  show ?case by (simp add: blind_def)
next
  case (Suc n)
  show ?case unfolding nil_span.simps(2) [abs_def] by (intro v2_blind Suc.IH)
qed

lemma pass_args_blind [v2_blind]: "blind (pass_args dst src j desc nargs varargs)"
  unfolding pass_args_def [abs_def] Let_def by (intro v2_blind)

lemma frame_bytes_value:
  "unat (frame_bytes desc varargs) = (135 + 16 * unat (desc_value_capacity desc) + 16 * unat varargs
     + 24 * unat (desc_tbc_capacity desc)) div 16 * 16"
proof -
  let ?n = "120 + 16 * unat (desc_value_capacity desc) + 16 * unat varargs + 24 * unat (desc_tbc_capacity desc)"
  let ?w = "SIZEOF_FRAME + ucast (desc_value_capacity desc) * SIZEOF_VALUE + ucast varargs * SIZEOF_VALUE
       + ucast (desc_tbc_capacity desc) * SIZEOF_TBC"
  have b: "?n + 15 < 2 ^ 64"
    using unat32_less [of "desc_value_capacity desc"] unat32_less [of varargs] unat32_less [of "desc_tbc_capacity desc"] by simp
  have "?w = word_of_nat ?n" by (simp add: algebra_simps)
  then have n: "unat ?w = ?n" using b by (simp only: unat_of_nat64)
  then show ?thesis
    unfolding frame_bytes_def using align_up [of ?w] b by (simp add: add.commute)
qed

lemma frame_bytes_bounds:
  "120 + 16 * unat (desc_value_capacity desc) + 16 * unat varargs + 24 * unat (desc_tbc_capacity desc)
     \<le> unat (frame_bytes desc varargs)" "frame_bytes desc varargs \<noteq> 0"
proof -
  show "120 + 16 * unat (desc_value_capacity desc) + 16 * unat varargs + 24 * unat (desc_tbc_capacity desc)
     \<le> unat (frame_bytes desc varargs)"
    unfolding frame_bytes_value by linarith
  then show "frame_bytes desc varargs \<noteq> 0" by auto
qed

subsection \<open>The open-call leaves meet the contract\<close>

definition call_ops :: "holes \<Rightarrow> u64 \<Rightarrow> v2_state \<Rightarrow> callee option" where
  "call_ops h f s = do {fr \<leftarrow> frames s f; v \<leftarrow> rd_val (slot_addr (frame_values fr) (h_a h)) s; classify v s}"

definition call_work :: "callee \<Rightarrow> stencil" where
  "call_work c h f s = (case c of
     Native closure desc \<Rightarrow> do {
       nargs \<leftarrow> V2_CALL_NARGS_GENERIC (h_a h) (h_b h) f s;
       fr \<leftarrow> frames s f;
       enter_native closure desc (is_vararg desc \<noteq> 0) nargs (frame_values fr) (h_a h + 1)
         (call_sink (slot_addr (frame_values fr) (h_a h)) (h_a h) (h_c h - 1) f fr) h f s}
   | Builtin \<Rightarrow> host_call_exit (h_a h) (h_b h) (h_c h) id h f s
   | Other \<Rightarrow> reject_exit LUA55_V2_REJECT_UNSUPPORTED_CALLEE h f s)"

definition open_call :: "holes \<Rightarrow> bool" where
  "open_call h \<longleftrightarrow> h_b h = 0 \<and> h_a h < 0xFFFFFFFF \<and> scast (h_base_disp h) = (16 * ucast (h_a h) :: u64)"

definition native_of :: "u32 \<Rightarrow> holes \<Rightarrow> callee \<Rightarrow> bool" where
  "native_of va h c \<longleftrightarrow> (case c of Native closure desc \<Rightarrow> is_vararg desc = va | _ \<Rightarrow> False)"

lemma inv_forget [simp]:
  "function_count (inv (forget s)) = function_count (inv s)" "function_table (inv (forget s)) = function_table (inv s)"
  "frame_next (inv (forget s)) = frame_next (inv s)" "frame_end (inv (forget s)) = frame_end (inv s)"
  "current_frame (inv (forget s)) = current_frame (inv s)"
  by (simp_all add: forget_def)

lemma upd_inv_forget:
  "upd_inv (\<lambda>i. i\<lparr>frame_next := n\<rparr>) (forget s) = forget (upd_inv (\<lambda>i. i\<lparr>frame_next := n\<rparr>) s)"
  "upd_inv (\<lambda>i. i\<lparr>current_frame := n\<rparr>) (forget s) = forget (upd_inv (\<lambda>i. i\<lparr>current_frame := n\<rparr>) s)"
  "put_frame cf v fr (forget s) = forget (put_frame cf v fr s)"
  by (simp_all add: forget_def upd_inv_def put_frame_def)

lemma learning_ok_frame [simp]:
  "learning_ok (upd_inv (\<lambda>i. i\<lparr>frame_next := n\<rparr>) s) = learning_ok s"
  "learning_ok (upd_inv (\<lambda>i. i\<lparr>current_frame := n\<rparr>) s) = learning_ok s"
  "learning_ok (put_frame cf v fr s) = learning_ok s"
  by (simp_all add: learning_ok_def upd_inv_def put_frame_def)

lemma classify_forget [simp]: "classify v (forget s) = classify v s"
  by (simp add: classify_def cong: if_cong)

lemma call_ops_forget: "call_ops h f (forget s) = call_ops h f s"
  by (simp add: call_ops_def rd_val_def)

lemma learn_at_only: "learn_at i g s = Some u \<Longrightarrow> \<exists>m. u = s\<lparr>slots := m\<rparr>"
  by (auto simp: learn_at_def bind_eq_Some_conv intro: exI [of _ "slots s"] split: if_splits)

lemma call_learner:
  assumes "call_ops h f s = Some c"
  shows "lua55_v2l_call h f s = do {s \<leftarrow> learn_at (h_occ_slot h) (observe_pair (callee_fact c)) s; call_work c h f s}"
proof -
  obtain fr v where o: "frames s f = Some fr" "rd_val (slot_addr (frame_values fr) (h_a h)) s = Some v" "classify v s = Some c"
    using assms by (auto simp: call_ops_def bind_eq_Some_conv)
  obtain k va where k: "callee_fact c = (k, va)" by force
  show ?thesis
  proof (cases "learn_at (h_occ_slot h) (observe_pair (k, va)) s")
    case None
    then show ?thesis using o k by (simp add: lua55_v2l_call_def v2_learn_callee_def)
  next
    case (Some u)
    then have "frames u f = Some fr" using o learn_at_only by fastforce
    then show ?thesis using o k Some
      by (cases c) (simp_all add: lua55_v2l_call_def v2_learn_callee_def call_work_def)
  qed
qed

lemma guard_native:
  assumes "classify v s = Some c"
  shows "native_of va h c \<Longrightarrow> V2_CALL_GUARD_NATIVE_CELL va v k h f s =
      (case c of Native closure desc \<Rightarrow> k closure desc h f s | _ \<Rightarrow> None)"
    and "\<not> native_of va h c \<Longrightarrow> \<exists>e ob. V2_CALL_GUARD_NATIVE_CELL va v k h f s = mismatch e ob h f s"
  using assms
  by (auto simp: classify_def V2_CALL_GUARD_NATIVE_CELL_def native_of_def bind_eq_Some_conv refused split: if_splits callee.splits)

lemma guard_native_undefined:
  "classify v s = None \<Longrightarrow> V2_CALL_GUARD_NATIVE_CELL va v k h f s = Some r \<Longrightarrow> mismatch_exit h f s r"
  by (auto simp: classify_def V2_CALL_GUARD_NATIVE_CELL_def bind_eq_None_conv bind_eq_Some_conv
      split: if_splits intro: mismatch_is_exit)

lemma copy_span_shift:
  assumes "\<And>k. k < n \<Longrightarrow> slot_addr src (j + word_of_nat k) = slot_addr src' (j' + word_of_nat k)"
  shows "copy_span dst i src j n s = copy_span dst i src' j' n s"
  using assms
proof (induction n arbitrary: i j j' s)
  case (Suc n)
  have "slot_addr src j = slot_addr src' j'" using Suc.prems [of 0] by simp
  moreover have "copy_span dst (i + 1) src (j + 1) n t = copy_span dst (i + 1) src' (j' + 1) n t" for t
    using Suc.prems [of "Suc _"] by (intro Suc.IH) (simp add: add.assoc)
  ultimately show ?case by simp
qed simp

lemma copy_span_snoc:
  "copy_span dst i src j (Suc n) s = do {
     s \<leftarrow> copy_span dst i src j n s;
     v \<leftarrow> rd_val (slot_addr src (j + word_of_nat n)) s;
     wr_val (slot_addr dst (i + word_of_nat n)) v s}"
proof (induction n arbitrary: i j s)
  case 0
  show ?case by (cases "rd_val (slot_addr src j) s"; simp)
next
  case (Suc n)
  have "copy_span dst i src j (Suc (Suc n)) s = do {
     v \<leftarrow> rd_val (slot_addr src j) s; s \<leftarrow> wr_val (slot_addr dst i) v s; s \<leftarrow> copy_span dst (i + 1) src (j + 1) n s;
     v \<leftarrow> rd_val (slot_addr src (j + 1 + word_of_nat n)) s; wr_val (slot_addr dst (i + 1 + word_of_nat n)) v s}"
    by (subst copy_span.simps(2)) (simp only: ext [of "copy_span _ _ _ _ _", OF Suc.IH])
  then show ?case by (simp add: add.assoc del: copy_span.simps add: copy_span.simps(2) [of dst i src j n])
qed

lemma slot_addr_shift:
  assumes "unat a + unat b < 2 ^ 32"
  shows "slot_addr (slot_addr base a) b = slot_addr base (a + b)"
proof -
  have "unat (a + b) = unat a + unat b" using assms by (rule unat_plus32)
  then show ?thesis by (simp add: slot_addr_nat distrib_left)
qed

lemma call_overflow_forgetful [v2_blind]: "forgetful (call_overflow k need avail h f)"
  by (simp add: forgetful_def call_overflow_def v2_defs)

lemma host_call_forgetful [v2_blind]: "forgetful (host_call_exit a b c m h f)"
  by (simp add: forgetful_def host_call_exit_def v2_defs)

lemma pass_args_forget:
  "pass_args dst src j desc nargs varargs (forget s) = map_option forget (pass_args dst src j desc nargs varargs s)"
  "pass_args dst src j desc nargs varargs s = Some t \<Longrightarrow> learning_ok s \<Longrightarrow> learning_ok t"
  using pass_args_blind [of dst src j desc nargs varargs] by (simp_all add: blind_def)

lemma enter_native_forgetful: "forgetful (enter_native closure desc va nargs src j sink h f)"
  unfolding forgetful_def
proof (intro allI conjI impI)
  fix s :: v2_state
  let ?cf = "frame_next (inv s)" and ?v = "extra_args va desc nargs"
  let ?s = "put_frame ?cf (min_top nargs desc) (new_frame closure desc ?v ?cf f (h_continuation h) sink)
    (upd_inv (\<lambda>i. i\<lparr>frame_next := ?cf + frame_bytes desc ?v\<rparr>) s)"
  show "enter_native closure desc va nargs src j sink h f (forget s) =
      map_option (map_prod id forget) (enter_native closure desc va nargs src j sink h f s)"
    using call_overflow_forgetful
    by (cases "frames s f"; cases "pass_args (?cf + SIZEOF_FRAME) src j desc nargs ?v ?s")
      (simp_all add: enter_native_def Let_def upd_inv_forget pass_args_forget forgetful_def)
  fix c u
  assume "enter_native closure desc va nargs src j sink h f s = Some (c, u)" "learning_ok s"
  then show "learning_ok u"
    using call_overflow_forgetful
    by (auto simp: enter_native_def Let_def bind_eq_Some_conv forgetful_def dest!: pass_args_forget(2) split: if_splits)
qed

lemma nargs_forget [simp]: "V2_CALL_NARGS_GENERIC A B f (forget s) = V2_CALL_NARGS_GENERIC A B f s"
  by (simp add: V2_CALL_NARGS_GENERIC_def V2_CALL_NARGS_OPEN_def rd_top_def)

lemma call_work_forgetful: "forgetful (call_work c h f)"
  unfolding call_work_def [abs_def]
  by (cases c) (simp_all, intro forgetful_read enter_native_forgetful v2_blind, simp_all add: v2_blind)

lemma enter_native_advances:
  assumes "enter_native closure desc va nargs src j sink h f s = Some (c, t)"
  shows "(\<exists>a. c = Host_exit a f) \<or> frame_next (inv t) \<noteq> frame_next (inv s)"
proof -
  have "frame_next (inv t) \<noteq> frame_next (inv s)" if "c = Jump e cf" for e cf
    using assms that frame_bytes_bounds(2) [of desc "extra_args va desc nargs"]
    by (auto simp: enter_native_def Let_def bind_eq_Some_conv call_overflow_def LUA55_CPS_HOST_EXIT_def upd_inv_def
        put_frame_def dest!: pass_args_vals split: if_splits)
  moreover have "(\<exists>a. c = Host_exit a f) \<or> (\<exists>e cf. c = Jump e cf)"
    using assms by (auto simp: enter_native_def Let_def bind_eq_Some_conv call_overflow_def LUA55_CPS_HOST_EXIT_def
        split: if_splits)
  ultimately show ?thesis by blast
qed

lemma mismatch_frame_next: "mismatch_exit h f s (c, t) \<Longrightarrow> frame_next (inv t) = frame_next (inv s) \<and> (\<exists>e. c = Jump e f)"
  by (auto simp: mismatch_exit_def mismatch_def V2_SPEC_MISMATCH_def V2_SPECIALIZATION_MISMATCH_EXIT_def upd_inv_def)

lemma call_work_stays:
  assumes "call_work c h f s = Some r"
  shows "\<not> mismatch_exit h f s r"
proof
  assume m: "mismatch_exit h f s r"
  obtain k t where r: "r = (k, t)" by force
  note f = mismatch_frame_next [OF m [unfolded r]]
  show False
  proof (cases c)
    case (Native closure desc)
    then obtain nargs src j sink where "enter_native closure desc (is_vararg desc \<noteq> 0) nargs src j sink h f s = Some (k, t)"
      using assms r by (auto simp: call_work_def bind_eq_Some_conv)
    from enter_native_advances [OF this] f show False by auto
  qed (use assms r f in \<open>auto simp: call_work_def host_call_exit_def v2_defs\<close>)
qed

lemma open_nargs_room:
  assumes "V2_CALL_NARGS_OPEN A f s = Some nargs" and "A < 0xFFFFFFFF"
  shows "unat A + 1 + unat nargs < 2 ^ 32 \<or> nargs = 0"
proof -
  have a: "unat (A + 1) = unat A + 1" using assms(2) by (simp add: unat_plus32 word_less_nat_alt)
  obtain tp where tp: "nargs = (if A + 1 < tp then tp - (A + 1) else 0)"
    using assms(1) by (auto simp: V2_CALL_NARGS_OPEN_def bind_eq_Some_conv)
  show ?thesis
  proof (cases "A + 1 < tp")
    case True
    then have "unat nargs = unat tp - (unat A + 1)" "unat A + 1 < unat tp"
      using tp a by (simp_all add: unat_minus word_less_nat_alt word_le_nat_alt)
    then show ?thesis using unat32_less [of tp] by simp
  qed (simp add: tp)
qed

lemma pass_args_shift:
  assumes "unat A + 1 + unat nargs < 2 ^ 32 \<or> nargs = 0"
  shows "pass_args dst (slot_addr base A) 1 desc nargs (extra_args va desc nargs) s =
    pass_args dst base (A + 1) desc nargs (extra_args va desc nargs) s"
proof -
  have shift: "slot_addr (slot_addr base A) (1 + word_of_nat k) = slot_addr base (A + 1 + word_of_nat k)" if "k < unat nargs" for k
  proof -
    have "unat (1 + word_of_nat k :: u32) = 1 + k"
      using that assms unat32_less [of nargs] by (subst unat_plus32) (auto simp: unat_of_nat32)
    then have "unat A + unat (1 + word_of_nat k :: u32) < 2 ^ 32" using that assms by auto
    from slot_addr_shift [OF this] show ?thesis by (simp add: add.assoc)
  qed
  have fx: "unat (fixed_args desc nargs) \<le> unat nargs" by (simp add: fixed_args_def word_less_nat_alt)
  have ex: "unat (fixed_args desc nargs) + unat (extra_args va desc nargs) \<le> unat nargs"
    by (auto simp: fixed_args_def extra_args_def word_less_nat_alt unat_minus word_le_nat_alt)
  have "copy_span dst 0 (slot_addr base A) 1 (unat (fixed_args desc nargs)) t =
      copy_span dst 0 base (A + 1) (unat (fixed_args desc nargs)) t" for t
    using shift fx by (intro copy_span_shift) simp
  moreover have "copy_span d 0 (slot_addr base A) (1 + fixed_args desc nargs) (unat (extra_args va desc nargs)) =
      copy_span d 0 base (A + 1 + fixed_args desc nargs) (unat (extra_args va desc nargs))" for d
  proof (rule ext, rule copy_span_shift)
    fix k assume "k < unat (extra_args va desc nargs)"
    then show "slot_addr (slot_addr base A) (1 + fixed_args desc nargs + word_of_nat k) =
        slot_addr base (A + 1 + fixed_args desc nargs + word_of_nat k)"
      using shift [of "unat (fixed_args desc nargs) + k"] ex by (simp add: add.assoc)
  qed
  ultimately show ?thesis by (simp add: pass_args_def Let_def)
qed

lemma open_leaf_works:
  assumes p: "open_call h" and c: "call_ops h f s = Some c" and ok: "native_of va h c"
  shows "V2_CALL_NATIVE_LEAF va V2_NO_CALL_PRELUDE (\<lambda>h. V2_CALL_NARGS_OPEN (h_a h)) V2_CALL_BASE_DIRECT h f s =
    call_work c h f s"
proof -
  obtain fr v where o: "frames s f = Some fr" "rd_val (slot_addr (frame_values fr) (h_a h)) s = Some v" "classify v s = Some c"
    using c by (auto simp: call_ops_def bind_eq_Some_conv)
  obtain closure desc where n: "c = Native closure desc" "is_vararg desc = va"
    using ok by (cases c) (auto simp: native_of_def)
  have b: "V2_CALL_BASE_DIRECT h f s = Some (slot_addr (frame_values fr) (h_a h))"
    using o(1) p by (simp add: V2_CALL_BASE_DIRECT_def V2_VALUE_DISP_def open_call_def slot_addr_def)
  have g: "V2_CALL_NARGS_GENERIC (h_a h) (h_b h) f s = V2_CALL_NARGS_OPEN (h_a h) f s"
    using p by (simp add: V2_CALL_NARGS_GENERIC_def open_call_def)
  show ?thesis
  proof (cases "V2_CALL_NARGS_OPEN (h_a h) f s")
    case None
    then show ?thesis using b o n g guard_native(1) [OF o(3) ok]
      by (simp add: V2_CALL_NATIVE_LEAF_def V2_NO_CALL_PRELUDE_def call_work_def)
  next
    case (Some nargs)
    have "h_a h < 0xFFFFFFFF" using p by (simp add: open_call_def)
    note pass_args_shift [OF open_nargs_room [OF Some this]]
    then show ?thesis using b o n g Some guard_native(1) [OF o(3) ok]
      by (simp add: V2_CALL_NATIVE_LEAF_def V2_NO_CALL_PRELUDE_def call_work_def enter_native_def Let_def cong: if_cong)
  qed
qed

lemma open_leaf_refines:
  "residual_leaf lua55_v2l_call
    (V2_CALL_NATIVE_LEAF va V2_NO_CALL_PRELUDE (\<lambda>h. V2_CALL_NARGS_OPEN (h_a h)) V2_CALL_BASE_DIRECT)
    (accepted call_ops (native_of va)) open_call"
proof (rule observed_refines_ok [where slot = h_occ_slot and obs = "\<lambda>c. observe_pair (callee_fact c)" and lbody = call_work])
  fix h f s c r
  let ?leaf = "V2_CALL_NATIVE_LEAF va V2_NO_CALL_PRELUDE (\<lambda>h. V2_CALL_NARGS_OPEN (h_a h)) V2_CALL_BASE_DIRECT"
  assume p: "open_call h"
  then have b: "V2_CALL_BASE_DIRECT h f s = do {fr \<leftarrow> frames s f; Some (slot_addr (frame_values fr) (h_a h))}"
    by (cases "frames s f") (simp_all add: V2_CALL_BASE_DIRECT_def V2_VALUE_DISP_def open_call_def slot_addr_def)
  show "\<exists>e ob. ?leaf h f s = mismatch e ob h f s" if "call_ops h f s = Some c" "\<not> native_of va h c"
    using that b guard_native(2)
    by (auto simp: call_ops_def V2_CALL_NATIVE_LEAF_def V2_NO_CALL_PRELUDE_def bind_eq_Some_conv)
  show "mismatch_exit h f s r" if "call_ops h f s = None" "?leaf h f s = Some r"
    using that b
    by (auto simp: call_ops_def V2_CALL_NATIVE_LEAF_def V2_NO_CALL_PRELUDE_def bind_eq_Some_conv bind_eq_None_conv
        intro: guard_native_undefined)
next
  fix h f s
  assume "call_ops h f s = None"
  then show "lua55_v2l_call h f s = None"
    by (auto simp: call_ops_def lua55_v2l_call_def bind_eq_None_conv)
qed (simp_all add: call_learner call_ops_forget open_leaf_works call_work_forgetful call_work_stays)

definition call_bank :: "((stencil \<times> stencil) \<times> (holes \<Rightarrow> u64 \<Rightarrow> v2_state \<Rightarrow> bool) \<times> (holes \<Rightarrow> bool)) list" where
  "call_bank = [
     ((lua55_v2l_call, lua55_v2r_call_native_fixed_open), accepted call_ops (native_of 0), open_call),
     ((lua55_v2l_call, lua55_v2r_call_native_vararg_open), accepted call_ops (native_of 1), open_call)]"

lemma call_bank_refines: "((l, r), q, p) \<in> set call_bank \<Longrightarrow> residual_leaf l r q p"
  using open_leaf_refines [of 0] open_leaf_refines [of 1]
  by (auto simp: call_bank_def lua55_v2r_call_native_fixed_open_def lua55_v2r_call_native_vararg_open_def)

subsection \<open>What the callee receives\<close>

lemma in_span: "a \<in> set (span base i n) \<longleftrightarrow> (\<exists>k<n. a = slot_addr base (i + word_of_nat k))"
  by (auto simp: span_def)

lemma slot_in_span: "k < n \<Longrightarrow> slot_addr base (i + word_of_nat k) \<in> set (span base i n)"
  by (auto simp: in_span)

lemma span_part:
  assumes "m + n \<le> l"
  shows "set (span base (i + word_of_nat m) n) \<subseteq> set (span base i l)"
proof
  fix a assume "a \<in> set (span base (i + word_of_nat m) n)"
  then obtain k where "k < n" "a = slot_addr base (i + word_of_nat (m + k))" by (auto simp: in_span add.assoc)
  then show "a \<in> set (span base i l)" using assms unfolding in_span by (metis add_less_cancel_left order_less_le_trans)
qed

lemma mapped_subset: "mapped xs s \<Longrightarrow> set ys \<subseteq> set xs \<Longrightarrow> mapped ys s"
  by (auto simp: mapped_def)

lemma mapped_vals: "mapped xs (s\<lparr>vals := m\<rparr>) \<longleftrightarrow> (\<forall>a\<in>set xs. m a \<noteq> None)"
  by (simp add: mapped_def)

text \<open>A step that writes only inside \<open>xs\<close> and leaves it mapped.\<close>

lemma span_apart:
  assumes "unat i + n \<le> unat j" and "unat j + l \<le> 2 ^ 32" 
  shows "set (span base i n) \<inter> set (span base j l) = {}"
proof -
  have False if "k < n" "k' < l" "i + word_of_nat k = j + word_of_nat k'" for k k'
  proof -
    have "unat (i + word_of_nat k) = unat i + k" "unat (j + word_of_nat k') = unat j + k'"
      using that(1,2) assms by (simp_all add: unat_plus32 unat_of_nat32)
    then show False using that assms by simp
  qed
  then show ?thesis by (auto simp: in_span)
qed

text \<open>Copy \<open>c\<close> values to the front of a run of \<open>n\<close> and set the others to nil.\<close>

lemma copy_nil_spec:
  assumes md: "mapped (span dst 0 n) s" and ms: "mapped (span src j c) s"
    and ap: "set (span dst 0 n) \<inter> set (span src j c) = {}" and c: "c \<le> n" and n: "n < 2 ^ 32"
  shows "\<exists>m. copy_span dst 0 src j c s \<bind> nil_span dst (word_of_nat c) (n - c) = Some (s\<lparr>vals := m\<rparr>) \<and>
    (\<forall>k<n. m (slot_addr dst (word_of_nat k)) = (if k < c then vals s (slot_addr src (j + word_of_nat k))
       else map_option (SET_TAG LUA55_VALUE_NIL) (vals s (slot_addr dst (word_of_nat k))))) \<and>
    (\<forall>a. a \<notin> set (span dst 0 n) \<longrightarrow> m a = vals s a)"
proof -
  let ?A = "span dst 0 c" and ?B = "span dst (word_of_nat c) (n - c)"
  have sub: "set ?A \<subseteq> set (span dst 0 n)" "set ?B \<subseteq> set (span dst 0 n)"
    using span_part [of 0 c n dst 0] span_part [of c "n - c" n dst 0] c by simp_all
  have u: "unat (word_of_nat c :: u32) = c" using c n by (simp add: unat_of_nat32)
  have apart: "set ?A \<inter> set ?B = {}" using c n u by (intro span_apart) simp_all
  obtain m1 where m1: "copy_span dst 0 src j c s = Some (s\<lparr>vals := m1\<rparr>)"
      "\<forall>k<c. m1 (slot_addr dst (0 + word_of_nat k)) = vals s (slot_addr src (j + word_of_nat k))"
      "\<forall>a. a \<notin> set ?A \<longrightarrow> m1 a = vals s a"
    using copy_span_spec [of dst 0 c s src j] mapped_subset [OF md sub(1)] ms ap sub(1) c n by fastforce
  have "m1 a \<noteq> None" if "a \<in> set ?B" for a
  proof -
    have "a \<notin> set ?A" "a \<in> set (span dst 0 n)" using that apart sub(2) by blast+
    then show ?thesis using m1(3) md by (auto simp: mapped_def)
  qed
  then have "mapped ?B (s\<lparr>vals := m1\<rparr>)" by (simp add: mapped_vals)
  from nil_span_spec [OF this] have
    run: "copy_span dst 0 src j c s \<bind> nil_span dst (word_of_nat c) (n - c) = Some (s\<lparr>vals := (\<lambda>a.
      if a \<in> set ?B then map_option (SET_TAG LUA55_VALUE_NIL) (m1 a) else m1 a)\<rparr>)"
    by (simp add: m1(1) cong: if_cong)
  have at: "(if x \<in> set ?B then map_option (SET_TAG LUA55_VALUE_NIL) (m1 x) else m1 x) =
      (if k < c then vals s (slot_addr src (j + word_of_nat k)) else map_option (SET_TAG LUA55_VALUE_NIL) (vals s x))"
    if k: "k < n" and x: "x = slot_addr dst (word_of_nat k)" for k x
  proof (cases "k < c")
    case True
    then have "x \<in> set ?A" using x slot_in_span [of k c dst 0] by simp
    then have "x \<notin> set ?B" using apart by blast
    then show ?thesis using True m1(2) x by simp
  next
    case False
    then have "slot_addr dst (word_of_nat c + word_of_nat (k - c)) \<in> set ?B"
      using k by (intro slot_in_span) simp
    then have b: "x \<in> set ?B" using False x by (simp flip: of_nat_add)
    then have "x \<notin> set ?A" using apart by blast
    then show ?thesis using False b m1(3) by simp
  qed
  have "a \<notin> set ?A \<and> a \<notin> set ?B" if "a \<notin> set (span dst 0 n)" for a using that sub by blast
  then show ?thesis using run at m1(3) by (intro exI conjI) auto
qed

definition call_room :: "u64 \<Rightarrow> u64 \<Rightarrow> u32 \<Rightarrow> function_descriptor \<Rightarrow> u32 \<Rightarrow> u32 \<Rightarrow> v2_state \<Rightarrow> bool" where
  "call_room dst src j desc nargs varargs s \<longleftrightarrow> numparams desc \<le> desc_value_capacity desc \<and>
     unat (desc_value_capacity desc) + unat varargs < 2 ^ 32 \<and>
     mapped (span dst 0 (unat (desc_value_capacity desc) + unat varargs)) s \<and> mapped (span src j (unat nargs)) s \<and>
     set (span dst 0 (unat (desc_value_capacity desc) + unat varargs)) \<inter> set (span src j (unat nargs)) = {}"

definition passed :: "u64 \<Rightarrow> u64 \<Rightarrow> u32 \<Rightarrow> function_descriptor \<Rightarrow> u32 \<Rightarrow> u32 \<Rightarrow> (u64 \<rightharpoonup> lua_value) \<Rightarrow> (u64 \<rightharpoonup> lua_value) \<Rightarrow> bool" where
  "passed dst src j desc nargs varargs v m \<longleftrightarrow>
    (\<forall>k<unat (numparams desc). m (slot_addr dst (word_of_nat k)) =
       (if k < unat nargs then v (slot_addr src (j + word_of_nat k))
        else map_option (SET_TAG LUA55_VALUE_NIL) (v (slot_addr dst (word_of_nat k))))) \<and>
    (\<forall>k<unat varargs. m (slot_addr dst (desc_value_capacity desc + word_of_nat k)) =
       v (slot_addr src (j + numparams desc + word_of_nat k))) \<and>
    (\<forall>a. a \<notin> set (span dst 0 (unat (desc_value_capacity desc) + unat varargs)) \<longrightarrow> m a = v a)"

lemma pass_fixed:
  assumes room: "call_room dst src j desc nargs varargs s"
  obtains m where "copy_span dst 0 src j (unat (fixed_args desc nargs)) s \<bind>
      nil_span dst (fixed_args desc nargs) (unat (numparams desc - fixed_args desc nargs)) = Some (s\<lparr>vals := m\<rparr>)"
    "\<And>k. k < unat (numparams desc) \<Longrightarrow> m (slot_addr dst (word_of_nat k)) =
       (if k < unat nargs then vals s (slot_addr src (j + word_of_nat k))
        else map_option (SET_TAG LUA55_VALUE_NIL) (vals s (slot_addr dst (word_of_nat k))))"
    "\<And>a. a \<notin> set (span dst 0 (unat (numparams desc))) \<Longrightarrow> m a = vals s a"
proof -
  let ?cap = "desc_value_capacity desc" and ?np = "numparams desc" and ?fx = "fixed_args desc nargs"
  let ?all = "span dst 0 (unat ?cap + unat varargs)"
  have md: "mapped ?all s" and np: "unat ?np \<le> unat ?cap"
    and ms: "mapped (span src j (unat nargs)) s" and ap: "set ?all \<inter> set (span src j (unat nargs)) = {}"
    using room by (simp_all add: call_room_def word_le_nat_alt)
  have fx: "unat ?fx = min (unat nargs) (unat ?np)" by (simp add: fixed_args_def word_less_nat_alt)
  have npf: "unat (?np - ?fx) = unat ?np - unat ?fx"
    by (rule unat_minus) (simp add: word_le_nat_alt fx)
  have sub: "set (span dst 0 (unat ?np)) \<subseteq> set ?all" "set (span src j (unat ?fx)) \<subseteq> set (span src j (unat nargs))"
    using span_part [of 0 "unat ?np" "unat ?cap + unat varargs" dst 0] np span_part [of 0 "unat ?fx" "unat nargs" src j] fx
    by simp_all
  have "set (span dst 0 (unat ?np)) \<inter> set (span src j (unat ?fx)) = {}" using ap sub by blast
  from copy_nil_spec [OF mapped_subset [OF md sub(1)] mapped_subset [OF ms sub(2)] this _ unat32_less, unfolded of_nat_unat ucast_id] fx
  obtain m where "copy_span dst 0 src j (unat ?fx) s \<bind> nil_span dst ?fx (unat (?np - ?fx)) = Some (s\<lparr>vals := m\<rparr>)"
      "\<forall>k<unat ?np. m (slot_addr dst (word_of_nat k)) = (if k < unat ?fx then vals s (slot_addr src (j + word_of_nat k))
         else map_option (SET_TAG LUA55_VALUE_NIL) (vals s (slot_addr dst (word_of_nat k))))"
      "\<forall>a. a \<notin> set (span dst 0 (unat ?np)) \<longrightarrow> m a = vals s a"
    unfolding npf by (metis min.cobounded2)
  then show thesis using that [of m] fx by simp
qed

lemma pass_extra:
  assumes room: "call_room dst src j desc nargs varargs s" and va: "varargs = extra_args va desc nargs"
    and same: "\<And>a. a \<notin> set (span dst 0 (unat (numparams desc))) \<Longrightarrow> m a = vals s a"
  obtains m' where "copy_span (slot_addr dst (desc_value_capacity desc)) 0 src (j + fixed_args desc nargs) (unat varargs) (s\<lparr>vals := m\<rparr>) =
      Some (s\<lparr>vals := m'\<rparr>)"
    "\<And>k. k < unat varargs \<Longrightarrow> m' (slot_addr dst (desc_value_capacity desc + word_of_nat k)) =
       vals s (slot_addr src (j + numparams desc + word_of_nat k))"
    "\<And>a. a \<notin> set (span dst (desc_value_capacity desc) (unat varargs)) \<Longrightarrow> m' a = m a"
proof -
  let ?cap = "desc_value_capacity desc" and ?np = "numparams desc" and ?fx = "fixed_args desc nargs"
  let ?all = "span dst 0 (unat ?cap + unat varargs)" and ?D = "span dst ?cap (unat varargs)"
  have np: "unat ?np \<le> unat ?cap" and room32: "unat ?cap + unat varargs < 2 ^ 32" and md: "mapped ?all s"
    and ms: "mapped (span src j (unat nargs)) s" and ap: "set ?all \<inter> set (span src j (unat nargs)) = {}"
    using room by (simp_all add: call_room_def word_le_nat_alt)
  have ex: "unat ?fx + unat varargs \<le> unat nargs" "0 < unat varargs \<Longrightarrow> ?fx = ?np"
    unfolding va by (auto simp: fixed_args_def extra_args_def word_less_nat_alt unat_minus word_le_nat_alt split: if_splits)
  have sub: "set (span dst 0 (unat ?np)) \<subseteq> set ?all" "set ?D \<subseteq> set ?all"
    using span_part [of 0 "unat ?np" "unat ?cap + unat varargs" dst 0] np
      span_part [of "unat ?cap" "unat varargs" "unat ?cap + unat varargs" dst 0] by simp_all
  have src: "set (span src (j + ?fx) (unat varargs)) \<subseteq> set (span src j (unat nargs))"
    using span_part [OF ex(1), of src j] by simp
  have apart: "set (span dst 0 (unat ?np)) \<inter> set ?D = {}" using np room32 by (intro span_apart) simp_all
  have out: "m a = vals s a" if "a \<in> set ?D \<union> set (span src j (unat nargs))" for a
    using that same apart ap sub(1) by blast
  have slice: "slot_addr (slot_addr dst ?cap) (0 + word_of_nat k) = slot_addr dst (?cap + word_of_nat k)" if "k < unat varargs" for k
    using slot_addr_shift [of ?cap "word_of_nat k" dst] that room32 by (simp add: unat_of_nat32)
  have eD: "span (slot_addr dst ?cap) 0 (unat varargs) = ?D" using slice by (auto simp: span_def)
  have "mapped ?D (s\<lparr>vals := m\<rparr>)" "mapped (span src (j + ?fx) (unat varargs)) (s\<lparr>vals := m\<rparr>)"
      "set ?D \<inter> set (span src (j + ?fx) (unat varargs)) = {}"
    using out md ms sub(2) src ap by (auto simp: mapped_def)
  then obtain m' where m': "copy_span (slot_addr dst ?cap) 0 src (j + ?fx) (unat varargs) (s\<lparr>vals := m\<rparr>) = Some (s\<lparr>vals := m'\<rparr>)"
      "\<forall>k<unat varargs. m' (slot_addr (slot_addr dst ?cap) (0 + word_of_nat k)) = m (slot_addr src (j + ?fx + word_of_nat k))"
      "\<forall>a. a \<notin> set ?D \<longrightarrow> m' a = m a"
    using copy_span_spec [of "slot_addr dst ?cap" 0 "unat varargs" "s\<lparr>vals := m\<rparr>" src "j + ?fx"]
      unat32_less [of varargs] unfolding eD by auto
  have "m' (slot_addr dst (?cap + word_of_nat k)) = vals s (slot_addr src (j + ?np + word_of_nat k))" if "k < unat varargs" for k
  proof -
    have "?fx = ?np" using that ex(2) by simp
    moreover have "m (slot_addr src (j + ?fx + word_of_nat k)) = vals s (slot_addr src (j + ?fx + word_of_nat k))"
      using out slot_in_span [OF that, of src "j + ?fx"] src by blast
    ultimately show ?thesis using m'(2) slice [OF that] that by metis
  qed
  with m' show thesis by (intro that [of m']) simp_all
qed

lemma pass_args_spec:
  assumes room: "call_room dst src j desc nargs varargs s" and va: "varargs = extra_args va desc nargs"
  shows "\<exists>m. pass_args dst src j desc nargs varargs s = Some (s\<lparr>vals := m\<rparr>) \<and> passed dst src j desc nargs varargs (vals s) m"
proof -
  let ?cap = "desc_value_capacity desc" and ?np = "numparams desc" and ?fx = "fixed_args desc nargs"
  let ?all = "span dst 0 (unat ?cap + unat varargs)" and ?D = "span dst ?cap (unat varargs)"
  have np: "unat ?np \<le> unat ?cap" "unat ?cap + unat varargs < 2 ^ 32"
    using room by (simp_all add: call_room_def word_le_nat_alt)
  have sub: "set (span dst 0 (unat ?np)) \<subseteq> set ?all" "set ?D \<subseteq> set ?all"
    using span_part [of 0 "unat ?np" "unat ?cap + unat varargs" dst 0] np
      span_part [of "unat ?cap" "unat varargs" "unat ?cap + unat varargs" dst 0] by simp_all
  obtain m where m: "copy_span dst 0 src j (unat ?fx) s \<bind> nil_span dst ?fx (unat (?np - ?fx)) = Some (s\<lparr>vals := m\<rparr>)"
      "\<And>k. k < unat ?np \<Longrightarrow> m (slot_addr dst (word_of_nat k)) = (if k < unat nargs then vals s (slot_addr src (j + word_of_nat k))
         else map_option (SET_TAG LUA55_VALUE_NIL) (vals s (slot_addr dst (word_of_nat k))))"
      "\<And>a. a \<notin> set (span dst 0 (unat ?np)) \<Longrightarrow> m a = vals s a"
    by (rule pass_fixed [OF room]) (rule that)
  obtain m' where m': "copy_span (slot_addr dst ?cap) 0 src (j + ?fx) (unat varargs) (s\<lparr>vals := m\<rparr>) = Some (s\<lparr>vals := m'\<rparr>)"
      "\<And>k. k < unat varargs \<Longrightarrow> m' (slot_addr dst (?cap + word_of_nat k)) = vals s (slot_addr src (j + ?np + word_of_nat k))"
      "\<And>a. a \<notin> set ?D \<Longrightarrow> m' a = m a"
    by (rule pass_extra [OF room va, of m]) (use m(3) that in blast)+
  have "m' (slot_addr dst (word_of_nat k)) = m (slot_addr dst (word_of_nat k))" if "k < unat ?np" for k
    using m'(3) span_apart [of 0 "unat ?np" ?cap "unat varargs" dst] np slot_in_span [OF that, of dst 0] by auto
  moreover have "m' a = vals s a" if "a \<notin> set ?all" for a
  proof -
    have "a \<notin> set (span dst 0 (unat ?np))" "a \<notin> set ?D" using that sub by blast+
    then show ?thesis using m(3) m'(3) by simp
  qed
  ultimately have "passed dst src j desc nargs varargs (vals s) m'" using m(2) m'(2) by (auto simp: passed_def)
  moreover have "pass_args dst src j desc nargs varargs s = Some (s\<lparr>vals := m'\<rparr>)"
    using m(1) m'(1) by (auto simp: pass_args_def Let_def bind_eq_Some_conv)
  ultimately show ?thesis by blast
qed

text \<open>
  A frame \<open>f\<close> about to call the native function \<open>desc\<close> with \<open>nargs\<close> arguments: the arguments lie
  within its values, the arena has room for the new frame, and the values of the new frame
  are mapped and apart from the arguments.
\<close>

definition can_call :: "holes \<Rightarrow> u64 \<Rightarrow> native_frame \<Rightarrow> u64 \<Rightarrow> function_descriptor \<Rightarrow> u32 \<Rightarrow> v2_state \<Rightarrow> bool" where
  "can_call h f fr closure desc nargs s \<longleftrightarrow>
     (let cf = frame_next (inv s); varargs = extra_args (is_vararg desc \<noteq> 0) desc nargs in
      learning_ok s \<and> frames s f = Some fr \<and> call_ops h f s = Some (Native closure desc) \<and>
      V2_CALL_NARGS_GENERIC (h_a h) (h_b h) f s = Some nargs \<and>
      h_a h + 1 + nargs \<le> value_capacity fr \<and>
      unat cf + unat (frame_bytes desc varargs) \<le> unat (frame_end (inv s)) \<and>
      call_room (cf + SIZEOF_FRAME) (frame_values fr) (h_a h + 1) desc nargs varargs s)"

definition callee_frame :: "holes \<Rightarrow> u64 \<Rightarrow> native_frame \<Rightarrow> u64 \<Rightarrow> function_descriptor \<Rightarrow> u32 \<Rightarrow> v2_state \<Rightarrow> native_frame" where
  "callee_frame h f fr closure desc nargs s =
     new_frame closure desc (extra_args (is_vararg desc \<noteq> 0) desc nargs) (frame_next (inv s)) f (h_continuation h)
       (call_sink (slot_addr (frame_values fr) (h_a h)) (h_a h) (h_c h - 1) f fr)"

lemma nargs_slots [simp]: "V2_CALL_NARGS_GENERIC A B f (s\<lparr>slots := m\<rparr>) = V2_CALL_NARGS_GENERIC A B f s"
  by (simp add: V2_CALL_NARGS_GENERIC_def V2_CALL_NARGS_OPEN_def rd_top_def)

lemma call_room_cong: "vals t = vals s \<Longrightarrow> call_room dst src j desc nargs varargs t = call_room dst src j desc nargs varargs s"
  by (simp add: call_room_def mapped_def)

lemma learn_at_slot: "learn_at i g s = Some t \<Longrightarrow> j \<noteq> i \<Longrightarrow> slots t j = slots s j"
  by (auto simp: learn_at_def bind_eq_Some_conv split: if_splits)

text \<open>The state in which a native callee starts.\<close>

lemma call_enters_state:
  assumes "can_call h f fr closure desc nargs s"
  defines "cf \<equiv> frame_next (inv s)" and "varargs \<equiv> extra_args (is_vararg desc \<noteq> 0) desc nargs"
  obtains m v where "lua55_v2l_call h f s = Some (Jump (desc_entry desc) cf, s\<lparr>slots := m, vals := v,
      frames := (frames s)(cf \<mapsto> callee_frame h f fr closure desc nargs s),
      tops := (tops s)(cf + OFFSET_FRAME_TOP \<mapsto> min_top nargs desc),
      inv := (inv s)\<lparr>frame_next := cf + frame_bytes desc varargs, current_frame := cf\<rparr>\<rparr>)"
    "\<forall>i. i \<noteq> h_occ_slot h \<longrightarrow> m i = slots s i"
    "unat (cf + frame_bytes desc varargs) = unat cf + unat (frame_bytes desc varargs)"
    "cf + frame_bytes desc varargs \<le> frame_end (inv s)"
    "passed (cf + SIZEOF_FRAME) (frame_values fr) (h_a h + 1) desc nargs varargs (vals s) v"
proof -
  have c: "learning_ok s" "frames s f = Some fr" "call_ops h f s = Some (Native closure desc)"
      "V2_CALL_NARGS_GENERIC (h_a h) (h_b h) f s = Some nargs" "h_a h + 1 + nargs \<le> value_capacity fr"
      "unat cf + unat (frame_bytes desc varargs) \<le> unat (frame_end (inv s))"
      "call_room (cf + SIZEOF_FRAME) (frame_values fr) (h_a h + 1) desc nargs varargs s"
    using assms(1) by (simp_all add: can_call_def cf_def varargs_def Let_def)
  have e: "unat (cf + frame_bytes desc varargs) = unat cf + unat (frame_bytes desc varargs)"
    using c(6) unat64_less [of "frame_end (inv s)"] by (intro unat_plus64) linarith
  obtain m where m: "learn_at (h_occ_slot h) (observe_pair (callee_fact (Native closure desc))) s = Some (s\<lparr>slots := m\<rparr>)"
    using learn_at_cases [OF c(1)] by blast
  let ?u = "put_frame cf (min_top nargs desc) (callee_frame h f fr closure desc nargs s)
    (upd_inv (\<lambda>i. i\<lparr>frame_next := cf + frame_bytes desc varargs\<rparr>) (s\<lparr>slots := m\<rparr>))"
  have "vals ?u = vals s" by (simp add: put_frame_def upd_inv_def)
  then obtain v where v: "pass_args (cf + SIZEOF_FRAME) (frame_values fr) (h_a h + 1) desc nargs varargs ?u = Some (?u\<lparr>vals := v\<rparr>)"
      "passed (cf + SIZEOF_FRAME) (frame_values fr) (h_a h + 1) desc nargs varargs (vals s) v"
    using pass_args_spec [of _ _ _ _ _ _ ?u, OF _ varargs_def [THEN meta_eq_to_obj_eq]] c(7) call_room_cong [of ?u s] by metis
  let ?t = "upd_inv (\<lambda>i. i\<lparr>current_frame := cf\<rparr>) (?u\<lparr>vals := v\<rparr>)"
  have le: "\<not> value_capacity fr < h_a h + 1 + nargs" "\<not> frame_end (inv s) < cf + frame_bytes desc varargs"
    using c(5,6) e by (simp_all add: word_less_nat_alt word_le_nat_alt)
  then have "call_work (Native closure desc) h f (s\<lparr>slots := m\<rparr>) = Some (Jump (desc_entry desc) cf, ?t)"
    using c(2,4) v(1)
    by (simp add: call_work_def enter_native_def Let_def cf_def varargs_def callee_frame_def)
  then have run: "lua55_v2l_call h f s = Some (Jump (desc_entry desc) cf, ?t)"
    using call_learner [OF c(3)] m by simp
  show thesis
    by (rule that [where m = m and v = v, OF _ _ e _ v(2)])
      (use run le learn_at_slot [OF m] in \<open>simp_all add: upd_inv_def put_frame_def not_less\<close>)
qed

lemma call_enters:
  assumes "can_call h f fr closure desc nargs s"
  defines "cf \<equiv> frame_next (inv s)" and "varargs \<equiv> extra_args (is_vararg desc \<noteq> 0) desc nargs"
  shows "\<exists>t. lua55_v2l_call h f s = Some (Jump (desc_entry desc) cf, t) \<and>
    frames t = (frames s)(cf \<mapsto> callee_frame h f fr closure desc nargs s) \<and>
    tops t = (tops s)(cf + OFFSET_FRAME_TOP \<mapsto> min_top nargs desc) \<and> current_frame (inv t) = cf \<and>
    passed (cf + SIZEOF_FRAME) (frame_values fr) (h_a h + 1) desc nargs varargs (vals s) (vals t)"
  unfolding cf_def varargs_def by (rule call_enters_state [OF assms(1)]) auto

subsection \<open>What the caller receives\<close>

lemma nonneg_sint32: "0 \<le>s (a :: u32) \<Longrightarrow> sint a = int (unat a)"
proof -
  assume "0 \<le>s a"
  then have p: "0 \<le> sint a" by (simp add: word_sle_eq)
  have "sint a < 2 ^ 32" using sint_lt [of a] by simp
  moreover have "uint a = sint a mod 2 ^ 32" using uint_word_of_int [of "sint a", where 'a = 32] by simp
  ultimately show ?thesis using p by simp
qed

lemma nonneg_sless32: "0 \<le>s (a :: u32) \<Longrightarrow> 0 \<le>s b \<Longrightarrow> a <s b \<longleftrightarrow> unat a < unat b"
  by (simp only: word_sless_alt nonneg_sint32 of_nat_less_iff)

lemma sink_takes_fills:
  assumes "0 \<le>s n"
  shows "unat (sink_takes sink n) \<le> unat (sink_fills sink n)" "unat (sink_takes sink n) \<le> unat n"
    "0 \<le>s sink_count sink \<Longrightarrow> sink_fills sink n = sink_count sink"
    "0 \<le>s sink_count sink \<Longrightarrow> unat (sink_takes sink n) = min (unat (sink_count sink)) (unat n)"
    "\<not> 0 \<le>s sink_count sink \<Longrightarrow> sink_takes sink n = n \<and> sink_fills sink n = n"
  using assms nonneg_sless32 [of "sink_count sink" n] by (auto simp: sink_takes_def sink_fills_def)

definition sink_room :: "result_sink \<Rightarrow> u32 \<Rightarrow> u64 \<Rightarrow> u32 \<Rightarrow> v2_state \<Rightarrow> bool" where
  "sink_room sink n src j s \<longleftrightarrow> mapped (span (sink_values sink) 0 (unat (sink_fills sink n))) s \<and>
     mapped (span src j (unat n)) s \<and> tops s (sink_top sink) \<noteq> None \<and>
     set (span (sink_values sink) 0 (unat (sink_fills sink n))) \<inter> set (span src j (unat n)) = {}"

definition delivered :: "result_sink \<Rightarrow> u32 \<Rightarrow> u64 \<Rightarrow> u32 \<Rightarrow> (u64 \<rightharpoonup> lua_value) \<Rightarrow> (u64 \<rightharpoonup> lua_value) \<Rightarrow> bool" where
  "delivered sink n src j v m \<longleftrightarrow>
    (\<forall>k<unat (sink_fills sink n). m (slot_addr (sink_values sink) (word_of_nat k)) =
       (if k < unat n then v (slot_addr src (j + word_of_nat k))
        else map_option (SET_TAG LUA55_VALUE_NIL) (v (slot_addr (sink_values sink) (word_of_nat k))))) \<and>
    (\<forall>a. a \<notin> set (span (sink_values sink) 0 (unat (sink_fills sink n))) \<longrightarrow> m a = v a)"

lemma publish_results_spec:
  assumes room: "sink_room sink n src j s" and n: "0 \<le>s n"
  shows "\<exists>m. publish_results n sink src j s =
      Some (s\<lparr>vals := m, tops := (tops s)(sink_top sink \<mapsto> sink_base sink + sink_fills sink n)\<rparr>) \<and>
    delivered sink n src j (vals s) m"
proof -
  let ?t = "sink_takes sink n" and ?f = "sink_fills sink n" and ?d = "sink_values sink"
  note tf = sink_takes_fills [OF n, of sink]
  have sub: "set (span src j (unat ?t)) \<subseteq> set (span src j (unat n))"
    using span_part [of 0 "unat ?t" "unat n" src j] tf(2) by simp
  have "mapped (span src j (unat ?t)) s" "set (span ?d 0 (unat ?f)) \<inter> set (span src j (unat ?t)) = {}"
    using room mapped_subset [OF _ sub] sub by (auto simp: sink_room_def)
  from copy_nil_spec [OF _ this tf(1) unat32_less, unfolded of_nat_unat ucast_id] room
  obtain m where m: "copy_span ?d 0 src j (unat ?t) s \<bind> nil_span ?d ?t (unat ?f - unat ?t) = Some (s\<lparr>vals := m\<rparr>)"
      "\<forall>k<unat ?f. m (slot_addr ?d (word_of_nat k)) = (if k < unat ?t then vals s (slot_addr src (j + word_of_nat k))
         else map_option (SET_TAG LUA55_VALUE_NIL) (vals s (slot_addr ?d (word_of_nat k))))"
      "\<forall>a. a \<notin> set (span ?d 0 (unat ?f)) \<longrightarrow> m a = vals s a"
    by (auto simp: sink_room_def)
  have k: "k < unat ?t \<longleftrightarrow> k < unat n" if "k < unat ?f" for k
    using that tf(3-5) by (cases "0 \<le>s sink_count sink") auto
  have d: "unat (?f - ?t) = unat ?f - unat ?t" using tf(1) by (intro unat_minus) (simp add: word_le_nat_alt)
  have "publish_results n sink src j s =
      (copy_span ?d 0 src j (unat ?t) s \<bind> nil_span ?d ?t (unat ?f - unat ?t)) \<bind> wr_top_at (sink_top sink) (sink_base sink + ?f)"
  proof (cases "0 \<le>s sink_count sink")
    case True
    then show ?thesis using d tf(3) by (simp add: publish_results_def Let_def)
  next
    case False
    then show ?thesis using tf(5)
      by (cases "copy_span ?d 0 src j (unat ?t) s") (simp_all add: publish_results_def Let_def)
  qed
  moreover have "delivered sink n src j (vals s) m" using m(2,3) k by (auto simp: delivered_def)
  ultimately show ?thesis using m(1) room by (auto simp: wr_top_at_def sink_room_def)
qed

lemma close_nothing: "frames s f = Some fr \<Longrightarrow> open_upvalues fr = 0 \<Longrightarrow> lua55_cps_close_open_upvalues f s = Some s"
  by (cases fr) (auto simp: lua55_cps_close_open_upvalues_def close_chain.simps [of 0] upd_frame_def fun_upd_idem)

text \<open>Return from a frame that holds no open upvalue.\<close>

lemma return_delivers:
  assumes fr: "frames s f = Some fr" "open_upvalues fr = 0" "current_frame (inv s) = f" and n: "0 \<le>s n"
    and sink: "sink_values (frame_sink fr) \<noteq> 0"
      "sink_base (frame_sink fr) + sink_fills (frame_sink fr) n \<le> sink_capacity (frame_sink fr)"
      "sink_room (frame_sink fr) n (frame_values fr) (h_a h) s"
  shows "\<exists>t. return_body n h f s = Some (Jump (return_entry fr) (return_subject fr), t) \<and>
    frame_next (inv t) = f \<and> current_frame (inv t) = caller fr \<and>
    discriminant (outcome (inv t)) = LUA55_V2_OUTCOME_RETURNED \<and>
    tops t (sink_top (frame_sink fr)) = Some (sink_base (frame_sink fr) + sink_fills (frame_sink fr) n) \<and>
    frames t = frames s \<and> delivered (frame_sink fr) n (frame_values fr) (h_a h) (vals s) (vals t)"
proof -
  let ?sk = "frame_sink fr"
  obtain m where m: "publish_results n ?sk (frame_values fr) (h_a h) s =
      Some (s\<lparr>vals := m, tops := (tops s)(sink_top ?sk \<mapsto> sink_base ?sk + sink_fills ?sk n)\<rparr>)" (is "_ = Some ?u")
      "delivered ?sk n (frame_values fr) (h_a h) (vals s) m"
    using publish_results_spec [OF sink(3) n] by blast
  have "\<not> sink_capacity ?sk < sink_base ?sk + sink_fills ?sk n" using sink(2) by simp
  moreover have "\<not> n <s 0" using n by (simp add: word_sle_eq word_sless_alt)
  ultimately have "return_body n h f s = leave_frame (sink_fills ?sk n) h f ?u"
    using fr sink(1) m(1) by (simp add: return_body_def Let_def)
  moreover have "lua55_cps_close_open_upvalues f ?u = Some ?u" using fr by (intro close_nothing) simp_all
  ultimately show ?thesis using fr m(2) by (simp add: leave_frame_def Let_def upd_outcome_def upd_inv_def)
qed

text \<open>
  C7. \<open>CALL\<close> of a native function. It jumps to the entry of the callee with a new frame at the old
  end of the arena. The frame returns to the patched continuation with the caller as its
  subject; its sink delivers the wanted number of results into the caller's registers from the
  callee's on; its values lie behind it, then the varargs, then the markers of to-be-closed
  values; no upvalue is open. The new end is the old one plus the size of all that, rounded up to
  a multiple of 16, and stays within the arena. The parameters hold the arguments, nil where
  there are fewer, the arguments past them are in the vararg slice of a vararg function, and the
  top is the number of arguments cut to the capacity. Nothing else changes, but what the
  occurrence's own learning slot has seen.
\<close>

theorem call_enters_callee:
  assumes "can_call h f fr closure desc nargs s"
  defines "cf \<equiv> frame_next (inv s)"
    and "varargs \<equiv> (if is_vararg desc \<noteq> 0 \<and> numparams desc < nargs then nargs - numparams desc else 0)"
  shows "\<exists>m v e. lua55_v2l_call h f s = Some (Jump (desc_entry desc) cf, s\<lparr>slots := m, vals := v,
       frames := (frames s)(cf \<mapsto> \<lparr>caller = f, return_entry = h_continuation h, return_subject = f,
         frame_sink = \<lparr>sink_values = slot_addr (frame_values fr) (h_a h), sink_top = f + OFFSET_FRAME_TOP, sink_base = h_a h,
           sink_count = h_c h - 1, sink_capacity = value_capacity fr\<rparr>,
         upvalues = closure + SIZEOF_CLOSURE, open_upvalues = 0,
         tbc_nodes = slot_addr (slot_addr (cf + SIZEOF_FRAME) (desc_value_capacity desc)) varargs,
         frame_values = cf + SIZEOF_FRAME, value_count = maxstacksize desc, value_capacity = desc_value_capacity desc,
         vararg_count = varargs, tbc_count = 0, tbc_capacity = desc_tbc_capacity desc\<rparr>),
       tops := (tops s)(cf + OFFSET_FRAME_TOP \<mapsto> min nargs (desc_value_capacity desc)),
       inv := (inv s)\<lparr>frame_next := e, current_frame := cf\<rparr>\<rparr>) \<and>
    (\<forall>i. i \<noteq> h_occ_slot h \<longrightarrow> m i = slots s i) \<and>
    unat e = unat cf + (120 + 16 * unat (desc_value_capacity desc) + 16 * unat varargs + 24 * unat (desc_tbc_capacity desc) + 15) div 16 * 16 \<and>
    e \<le> frame_end (inv s) \<and>
    passed (cf + SIZEOF_FRAME) (frame_values fr) (h_a h + 1) desc nargs varargs (vals s) v"
proof -
  have va: "extra_args (is_vararg desc \<noteq> 0) desc nargs = varargs" by (simp add: extra_args_def varargs_def)
  have fr: "callee_frame h f fr closure desc nargs s = \<lparr>caller = f, return_entry = h_continuation h, return_subject = f,
         frame_sink = \<lparr>sink_values = slot_addr (frame_values fr) (h_a h), sink_top = f + OFFSET_FRAME_TOP, sink_base = h_a h,
           sink_count = h_c h - 1, sink_capacity = value_capacity fr\<rparr>,
         upvalues = closure + SIZEOF_CLOSURE, open_upvalues = 0,
         tbc_nodes = slot_addr (slot_addr (cf + SIZEOF_FRAME) (desc_value_capacity desc)) varargs,
         frame_values = cf + SIZEOF_FRAME, value_count = maxstacksize desc, value_capacity = desc_value_capacity desc,
         vararg_count = varargs, tbc_count = 0, tbc_capacity = desc_tbc_capacity desc\<rparr>"
    by (simp add: callee_frame_def new_frame_def call_sink_def va cf_def)
  have top: "min_top nargs desc = min nargs (desc_value_capacity desc)" by (auto simp: min_top_def min_def)
  show ?thesis
    by (rule call_enters_state [OF assms(1), unfolded va fr top, folded cf_def])
      (intro exI conjI, assumption+, simp add: frame_bytes_value)
qed

text \<open>
  A vararg function of one parameter, called with two arguments from a frame whose registers
  hold the closure, 5 and 6.
\<close>

definition call_desc :: function_descriptor where
  "call_desc = \<lparr>desc_entry = 0x9000, maxstacksize = 3, numparams = 1, is_vararg = 1, desc_upvalue_count = 0,
     desc_tbc_capacity = 0, desc_value_capacity = 3\<rparr>"

definition call_caller :: native_frame where
  "call_caller = blank_frame\<lparr>frame_values := 0x1000, value_capacity := 4\<rparr>"

definition call_example :: v2_state where
  "call_example = blank_state\<lparr>frames := [0x100 \<mapsto> call_caller], tops := [0x168 \<mapsto> 0],
     vals := [0x1000 \<mapsto> mk_value 8 0x800, 0x1010 \<mapsto> mk_value 3 5, 0x1020 \<mapsto> mk_value 3 6,
       0x2078 \<mapsto> mk_value 0 0, 0x2088 \<mapsto> mk_value 0 0, 0x2098 \<mapsto> mk_value 0 0, 0x20A8 \<mapsto> mk_value 0 0],
     headers := [0x800 \<mapsto> \<lparr>kind = 4, generation = 0\<rparr>], closures := [0x800 \<mapsto> \<lparr>proto_index = 0, upvalue_count = 0\<rparr>],
     inv := blank_invocation\<lparr>frame_next := 0x2000, frame_end := 0x3000, current_frame := 0x100,
       function_count := 1, function_table := [0 \<mapsto> call_desc]\<rparr>\<rparr>"

definition call_holes :: holes where
  "call_holes = blank_holes\<lparr>h_a := 0, h_b := 3, h_c := 2, h_continuation := 0x77\<rparr>"

lemma call_example_facts:
  "can_call call_holes 0x100 call_caller 0x800 call_desc 2 call_example"
  "extra_args True call_desc 2 = 1" "frame_next (inv call_example) = 0x2000" "is_vararg call_desc = 1"
proof -
  have sp: "span 0x2078 0 4 = [0x2078, 0x2088, 0x2098, 0x20A8]" "span 0x1000 1 2 = [0x1010, 0x1020]"
    by (simp_all add: span_def slot_addr_def upt_rec)
  show e: "extra_args True call_desc 2 = 1" by (simp add: extra_args_def call_desc_def)
  have b: "unat (frame_bytes call_desc 1) = 192" by (simp add: frame_bytes_value call_desc_def)
  have r: "call_room 0x2078 0x1000 1 call_desc 2 1 call_example"
    unfolding call_room_def by (simp add: call_desc_def sp) (simp add: call_example_def mapped_def)
  show "can_call call_holes 0x100 call_caller 0x800 call_desc 2 call_example"
    using e b r
    by (simp add: can_call_def call_example_def call_holes_def call_caller_def learning_ok_def call_ops_def rd_val_def
        slot_addr_def classify_def mk_value_def V2_CALL_NARGS_GENERIC_def call_desc_def)
qed (simp_all add: call_example_def call_desc_def)

theorem call_enters_callee_witness:
  "\<exists>t. lua55_v2l_call call_holes 0x100 call_example = Some (Jump 0x9000 0x2000, t) \<and>
    frame_next (inv t) = 0x20C0 \<and> caller (the (frames t 0x2000)) = 0x100 \<and> vararg_count (the (frames t 0x2000)) = 1 \<and>
    tables t = tables call_example \<and> outcome (inv t) = outcome (inv call_example) \<and>
    passed 0x2078 0x1000 1 call_desc 2 1 (vals call_example) (vals t)"
proof -
  have d: "desc_entry call_desc = 0x9000" "frame_values call_caller = 0x1000" "h_a call_holes = 0" "numparams call_desc = 1"
      "desc_value_capacity call_desc = 3" "desc_tbc_capacity call_desc = 0"
    by (simp_all add: call_desc_def call_caller_def call_holes_def)
  from call_enters_callee [OF call_example_facts(1)] obtain m v e fr where
    t: "lua55_v2l_call call_holes 0x100 call_example = Some (Jump 0x9000 0x2000, call_example\<lparr>slots := m, vals := v,
        frames := (frames call_example)(0x2000 \<mapsto> fr), tops := (tops call_example)(0x2068 \<mapsto> 2),
        inv := (inv call_example)\<lparr>frame_next := e, current_frame := 0x2000\<rparr>\<rparr>)"
      "unat e = 0x20C0" "passed 0x2078 0x1000 1 call_desc 2 1 (vals call_example) v" "caller fr = 0x100" "vararg_count fr = 1"
    by (auto simp: d call_example_facts(3,4))
  then have "e = 0x20C0" by (intro word_unat_eq_iff [THEN iffD2]) simp
  with t show ?thesis by simp
qed

text \<open>
  C8. A call comes back. After \<open>CALL\<close> of a native function, let the callee run to any state in
  which its frame is the current one, is as \<open>CALL\<close> made it and holds \<open>n\<close> results. \<open>RETURN\<close> then jumps
  to the patched continuation with the caller as its subject; the arena and the current
  frame are as before the call; the wanted results, nil where there are fewer, replace the
  callee in the caller's registers, all results when none are wanted in particular, and the top
  of the caller is past the last of them.
\<close>

theorem call_comes_back:
  assumes call: "can_call h f fr closure desc nargs s" and sink: "slot_addr (frame_values fr) (h_a h) \<noteq> 0"
    and run: "lua55_v2l_call h f s = Some (Jump (desc_entry desc) cf, t)"
    and callee: "frames u cf = frames t cf" "current_frame (inv u) = cf"
    and ret: "h_b hr = n + 1" "0 \<le>s n"
    and wanted: "w = (if 0 \<le>s h_c h - 1 then h_c h - 1 else n)" "h_a h + w \<le> value_capacity fr"
    and room: "sink_room (call_sink (slot_addr (frame_values fr) (h_a h)) (h_a h) (h_c h - 1) f fr) n
      (cf + SIZEOF_FRAME) (h_a hr) u"
  shows "\<exists>v. lua55_cps_return hr cf u = Some (Jump (h_continuation h) f, v) \<and>
    frame_next (inv v) = frame_next (inv s) \<and> current_frame (inv v) = f \<and>
    discriminant (outcome (inv v)) = LUA55_V2_OUTCOME_RETURNED \<and>
    rd_top f v = Some (h_a h + w) \<and>
    (\<forall>k<unat w. vals v (slot_addr (slot_addr (frame_values fr) (h_a h)) (word_of_nat k)) =
       (if k < unat n then vals u (slot_addr (cf + SIZEOF_FRAME) (h_a hr + word_of_nat k))
        else map_option (SET_TAG LUA55_VALUE_NIL)
          (vals u (slot_addr (slot_addr (frame_values fr) (h_a h)) (word_of_nat k)))))"
proof -
  let ?sk = "call_sink (slot_addr (frame_values fr) (h_a h)) (h_a h) (h_c h - 1) f fr"
  let ?cfr = "callee_frame h f fr closure desc nargs s"
  obtain t' where t': "lua55_v2l_call h f s = Some (Jump (desc_entry desc) (frame_next (inv s)), t')"
      "frames t' = (frames s)(frame_next (inv s) \<mapsto> ?cfr)"
    using call_enters [OF call] by blast
  then have cf: "cf = frame_next (inv s)" "frames u cf = Some ?cfr" using run callee(1) by auto
  have f: "frame_sink ?cfr = ?sk" "frame_values ?cfr = cf + SIZEOF_FRAME" "open_upvalues ?cfr = 0" "caller ?cfr = f"
      "return_entry ?cfr = h_continuation h" "return_subject ?cfr = f"
    by (simp_all add: callee_frame_def new_frame_def cf(1))
  have k: "sink_values ?sk = slot_addr (frame_values fr) (h_a h)" "sink_base ?sk = h_a h"
      "sink_capacity ?sk = value_capacity fr" "sink_top ?sk = f + OFFSET_FRAME_TOP" "sink_count ?sk = h_c h - 1"
    by (simp_all add: call_sink_def)
  have w: "sink_fills ?sk n = w"
    using sink_takes_fills(3,5) [OF ret(2), of ?sk] wanted(1) by (simp add: k)
  have "h_b hr \<noteq> 0" using ret by (auto simp: eq_neg_iff_add_eq_0 [symmetric] word_sle_eq)
  then have b: "lua55_cps_return hr cf u = return_body n hr cf u"
    using ret(1) by (simp add: lua55_cps_return_def V2_RETURN_B_def)
  show ?thesis
    using return_delivers [OF cf(2) f(3) callee(2) ret(2), of hr] sink wanted(2) room
    unfolding f k w b rd_top_def cf(1) [symmetric] delivered_def by auto
qed

text \<open>The callee returns its parameter at once.\<close>

theorem call_comes_back_witness:
  "\<exists>t v. lua55_v2l_call call_holes 0x100 call_example = Some (Jump 0x9000 0x2000, t) \<and>
    lua55_cps_return (blank_holes\<lparr>h_b := 2\<rparr>) 0x2000 t = Some (Jump 0x77 0x100, v) \<and>
    frame_next (inv v) = 0x2000 \<and> current_frame (inv v) = 0x100 \<and> vals v 0x1000 = Some (mk_value 3 5)"
proof -
  let ?hr = "blank_holes\<lparr>h_b := 2\<rparr>"
  have d: "desc_entry call_desc = 0x9000" "frame_values call_caller = 0x1000" "h_a call_holes = 0" "h_c call_holes = 2"
      "h_continuation call_holes = 0x77" "value_capacity call_caller = 4" "numparams call_desc = 1" "desc_value_capacity call_desc = 3"
    by (simp_all add: call_desc_def call_caller_def call_holes_def)
  obtain t where t: "lua55_v2l_call call_holes 0x100 call_example = Some (Jump (desc_entry call_desc) 0x2000, t)"
      "frames t 0x2000 = frames t 0x2000" "current_frame (inv t) = 0x2000" "tops t = (tops call_example)(0x2068 \<mapsto> min_top 2 call_desc)"
      "passed 0x2078 0x1000 1 call_desc 2 1 (vals call_example) (vals t)"
    using call_enters [OF call_example_facts(1)] call_example_facts(2-4) d by auto
  have sp: "span 0x2078 0 4 = [0x2078, 0x2088, 0x2098, 0x20A8]" "span 0x1000 0 1 = [0x1000]" "span 0x2078 0 1 = [0x2078]"
    by (simp_all add: span_def slot_addr_def upt_rec)
  have v: "vals t 0x1000 = Some (mk_value 8 0x800)" "vals t 0x2078 = Some (mk_value 3 5)" "tops t 0x168 = Some 0"
    using t(4,5) d sp by (auto simp: passed_def slot_addr_def call_example_def)
  have r: "sink_room (call_sink (slot_addr 0x1000 0) 0 1 0x100 call_caller) 1 0x2078 0 t"
    using v sp by (simp add: sink_room_def call_sink_def sink_fills_def slot_addr_def mapped_def word_sle_eq)
  show ?thesis
    using call_comes_back [OF call_example_facts(1) _ t(1) t(2,3), of ?hr 1 1] r t(1) v call_example_facts(3)
    by (auto simp: d slot_addr_def word_sle_eq)
qed

text \<open>
  The marker of a host call. \<open>CALL\<close> of a host function leaves the marker of the last host call as
  it was while it is learned; its leaf clears it, and the generic-for call sets it. A
  learned \<open>CALL\<close> after a generic-for call therefore still carries the marker.
\<close>

theorem host_call_marker:
  assumes "learning_ok s" and "call_ops h f s = Some Builtin" and "scast (h_base_disp h) = (16 * ucast (h_a h) :: u64)"
  shows "(\<exists>t. lua55_v2l_call h f s = Some (Host_exit (h_host_exit h) f, t) \<and>
      discriminant (outcome (inv t)) = LUA55_V2_OUTCOME_HOST_CALL \<and>
      hc_reserved (host_call (outcome (inv t))) = hc_reserved (host_call (outcome (inv s)))) \<and>
    (\<exists>t. lua55_v2r_call_host h f s = Some (Host_exit (h_host_exit h) f, t) \<and>
      discriminant (outcome (inv t)) = LUA55_V2_OUTCOME_HOST_CALL \<and> hc_reserved (host_call (outcome (inv t))) = 0) \<and>
    (\<exists>t. lua55_v2r_tforcall_host h f s = Some (Host_exit (h_host_exit h) f, t) \<and>
      discriminant (outcome (inv t)) = LUA55_V2_OUTCOME_HOST_CALL \<and> hc_reserved (host_call (outcome (inv t))) = 1)"
proof -
  obtain fr v where o: "frames s f = Some fr" "rd_val (slot_addr (frame_values fr) (h_a h)) s = Some v" "classify v s = Some Builtin"
    using assms(2) by (auto simp: call_ops_def bind_eq_Some_conv)
  then obtain hd where b: "tag v = 8" "payload v \<noteq> 0" "headers s (payload v) = Some hd" "kind hd = 5"
    by (auto simp: classify_def bind_eq_Some_conv split: if_splits)
  have base: "V2_VALUE_DISP (h_base_disp h) f s = Some (slot_addr (frame_values fr) (h_a h))"
    using o(1) assms(3) by (simp add: V2_VALUE_DISP_def slot_addr_def)
  obtain m where m: "learn_at (h_occ_slot h) (observe_pair (callee_fact Builtin)) s = Some (s\<lparr>slots := m\<rparr>)"
    using learn_at_cases [OF assms(1)] by blast
  have "\<exists>t. lua55_v2l_call h f s = Some (Host_exit (h_host_exit h) f, t) \<and>
      discriminant (outcome (inv t)) = LUA55_V2_OUTCOME_HOST_CALL \<and>
      hc_reserved (host_call (outcome (inv t))) = hc_reserved (host_call (outcome (inv s)))"
    using call_learner [OF assms(2)] m
    by (simp add: call_work_def host_call_exit_def LUA55_CPS_HOST_EXIT_def upd_outcome_def upd_inv_def)
  moreover have "V2_CALL_GUARD_BUILTIN_CELL v k h f s = k h f s" for k
    using b by (simp add: V2_CALL_GUARD_BUILTIN_CELL_def)
  ultimately show ?thesis
    using base o(2)
    by (simp add: lua55_v2r_call_host_def lua55_v2r_tforcall_host_def host_call_exit_def LUA55_CPS_HOST_EXIT_def
        upd_outcome_def upd_inv_def)
qed

theorem host_call_marker_witness:
  "\<exists>t. lua55_v2l_call blank_holes 0x100 (upd_outcome (\<lambda>r. r\<lparr>host_call := blank_host_call\<lparr>hc_reserved := 1\<rparr>\<rparr>)
      (call_example\<lparr>headers := [0x800 \<mapsto> \<lparr>kind = 5, generation = 0\<rparr>]\<rparr>)) = Some (Host_exit 0 0x100, t) \<and>
    hc_reserved (host_call (outcome (inv t))) = 1"
  using host_call_marker [where h = blank_holes and f = "0x100" and s = "upd_outcome
      (\<lambda>r. r\<lparr>host_call := blank_host_call\<lparr>hc_reserved := 1\<rparr>\<rparr>) (call_example\<lparr>headers := [0x800 \<mapsto> \<lparr>kind = 5, generation = 0\<rparr>]\<rparr>)"]
  by (auto simp: learning_ok_def call_ops_def call_example_def call_caller_def upd_outcome_def upd_inv_def rd_val_def
      classify_def mk_value_def slot_addr_def)

subsection \<open>Copies within one frame\<close>

text \<open>
  A tail call copies its arguments within the frame that it reuses, from low to high indices.
  \<open>reg_at b k\<close> is register \<open>k\<close>. A copy towards lower registers delivers the old values; a copy towards
  higher ones by a distance \<open>d\<close> repeats the first \<open>d\<close> of them.
\<close>

definition reg_at :: "u64 \<Rightarrow> nat \<Rightarrow> u64" where
  "reg_at b k = slot_addr b (word_of_nat k)"

lemma reg_at_eq: "i < 2 ^ 32 \<Longrightarrow> j < 2 ^ 32 \<Longrightarrow> reg_at b i = reg_at b j \<longleftrightarrow> i = j"
  unfolding reg_at_def by (metis slot_addr_inj unat_of_nat32)

lemma reg_at_shift: "i + k < 2 ^ 32 \<Longrightarrow> slot_addr (reg_at b i) (word_of_nat k) = reg_at b (i + k)"
  unfolding reg_at_def by (subst slot_addr_shift) (simp_all add: unat_of_nat32)

lemma copy_down:
  assumes "0 < q" and "q + n < 2 ^ 32" and "\<forall>x<q + n. vals s (reg_at b x) \<noteq> None"
  shows "\<exists>m. copy_span b 0 b (word_of_nat q) n s = Some (s\<lparr>vals := m\<rparr>) \<and>
    (\<forall>x<2 ^ 32. m (reg_at b x) = (if x < n then vals s (reg_at b (q + x)) else vals s (reg_at b x)))"
  using assms
proof (induction n)
  case (Suc n)
  then obtain m where m: "copy_span b 0 b (word_of_nat q) n s = Some (s\<lparr>vals := m\<rparr>)"
      "\<forall>x<2 ^ 32. m (reg_at b x) = (if x < n then vals s (reg_at b (q + x)) else vals s (reg_at b x))" by auto
  have e: "slot_addr b (word_of_nat q + word_of_nat n) = reg_at b (q + n)" "slot_addr b (0 + word_of_nat n) = reg_at b n"
    by (simp_all add: reg_at_def)
  have "m (reg_at b (q + n)) = vals s (reg_at b (q + n))" "m (reg_at b n) = vals s (reg_at b n)"
    using m(2) Suc.prems(2) by simp_all
  moreover have "vals s (reg_at b (q + n)) \<noteq> None" "vals s (reg_at b n) \<noteq> None" using Suc.prems by auto
  ultimately have "copy_span b 0 b (word_of_nat q) (Suc n) s = Some (s\<lparr>vals := m(reg_at b n := vals s (reg_at b (q + n)))\<rparr>)"
    unfolding copy_span_snoc e using m(1) by (auto simp: rd_val_def wr_val_def)
  moreover have "reg_at b x = reg_at b n \<longleftrightarrow> x = n" if "x < 2 ^ 32" for x using that Suc.prems(2) by (intro reg_at_eq) auto
  ultimately show ?case using m(2) by (auto simp: less_Suc_eq)
qed (auto intro!: exI [of _ "vals s"])

lemma copy_up:
  assumes "0 < d" and "p + d + n < 2 ^ 32" and "\<forall>x<p + d + n. vals s (reg_at b x) \<noteq> None"
  shows "\<exists>m. copy_span (reg_at b (p + d)) 0 b (word_of_nat p) n s = Some (s\<lparr>vals := m\<rparr>) \<and>
    (\<forall>x<2 ^ 32. m (reg_at b x) = (if p + d \<le> x \<and> x < p + d + n then vals s (reg_at b (p + (x - p - d) mod d)) else vals s (reg_at b x)))"
  using assms
proof (induction n)
  case (Suc n)
  then obtain m where m: "copy_span (reg_at b (p + d)) 0 b (word_of_nat p) n s = Some (s\<lparr>vals := m\<rparr>)"
      "\<forall>x<2 ^ 32. m (reg_at b x) = (if p + d \<le> x \<and> x < p + d + n then vals s (reg_at b (p + (x - p - d) mod d)) else vals s (reg_at b x))"
    by auto
  have e: "slot_addr b (word_of_nat p + word_of_nat n) = reg_at b (p + n)" "slot_addr (reg_at b (p + d)) (0 + word_of_nat n) = reg_at b (p + d + n)"
    using Suc.prems(2) by (simp_all add: reg_at_def [of b "p + n"] reg_at_shift)
  have src: "m (reg_at b (p + n)) = vals s (reg_at b (p + n mod d))"
  proof (cases "n < d")
    case True
    then show ?thesis using m(2) Suc.prems(2) by simp
  next
    case False
    then have "p + n - p - d = n - d" "(n - d) mod d = n mod d" by (simp_all add: le_mod_geq)
    then show ?thesis using m(2) [rule_format, of "p + n"] Suc.prems(1,2) False by simp
  qed
  have "n mod d < d" using Suc.prems(1) by simp
  then have "vals s (reg_at b (p + n mod d)) \<noteq> None" "m (reg_at b (p + d + n)) \<noteq> None"
    using Suc.prems(2,3) m(2) by auto
  then have "copy_span (reg_at b (p + d)) 0 b (word_of_nat p) (Suc n) s =
      Some (s\<lparr>vals := m(reg_at b (p + d + n) := vals s (reg_at b (p + n mod d)))\<rparr>)"
    unfolding copy_span_snoc e using m(1) src by (auto simp: rd_val_def wr_val_def)
  moreover have "reg_at b x = reg_at b (p + d + n) \<longleftrightarrow> x = p + d + n" if "x < 2 ^ 32" for x
    using that Suc.prems(2) by (intro reg_at_eq) auto
  ultimately show ?case using m(2) by (auto simp: less_Suc_eq)
qed (auto intro!: exI [of _ "vals s"])

text \<open>
  A frame about to replace itself by a vararg function: more arguments than parameters, within
  its values; the arena has room; no upvalue is open; the registers that the call reads and
  writes are mapped.
\<close>

definition can_tailcall :: "holes \<Rightarrow> u64 \<Rightarrow> native_frame \<Rightarrow> u64 \<Rightarrow> function_descriptor \<Rightarrow> u32 \<Rightarrow> v2_state \<Rightarrow> bool" where
  "can_tailcall h f fr closure desc nargs s \<longleftrightarrow>
     learning_ok s \<and> frames s f = Some fr \<and> open_upvalues fr = 0 \<and> call_ops h f s = Some (Native closure desc) \<and>
     V2_CALL_NARGS_GENERIC (h_a h) (h_b h) f s = Some nargs \<and> is_vararg desc \<noteq> 0 \<and> numparams desc < nargs \<and>
     h_a h + 1 + nargs \<le> value_capacity fr \<and> f + frame_bytes desc (nargs - numparams desc) \<le> frame_end (inv s) \<and>
     unat (h_a h) + 1 + unat nargs < 2 ^ 32 \<and> unat (desc_value_capacity desc) + unat nargs < 2 ^ 32 \<and>
     (\<forall>x<max (unat (h_a h) + 1 + unat nargs) (unat (desc_value_capacity desc) + unat nargs - unat (numparams desc)).
        vals s (reg_at (frame_values fr) x) \<noteq> None)"

lemma tail_pass:
  assumes can: "can_tailcall h f fr closure desc nargs s"
    and d: "unat (desc_value_capacity desc) = unat (h_a h) + 1 + unat (numparams desc) + d" "0 < d"
  shows "\<exists>v. pass_args (frame_values fr) (frame_values fr) (h_a h + 1) desc nargs (nargs - numparams desc) s = Some (s\<lparr>vals := v\<rparr>) \<and>
    (\<forall>k<unat (numparams desc). v (reg_at (frame_values fr) k) = vals s (reg_at (frame_values fr) (unat (h_a h) + 1 + k))) \<and>
    (\<forall>k<unat (nargs - numparams desc). v (reg_at (frame_values fr) (unat (desc_value_capacity desc) + k)) =
       vals s (reg_at (frame_values fr) (unat (h_a h) + 1 + unat (numparams desc) + k mod d)))"
proof -
  let ?b = "frame_values fr" and ?A = "unat (h_a h)" and ?np = "unat (numparams desc)" and ?n = "unat (nargs - numparams desc)"
  have lt: "?np < unat nargs" using can by (simp add: can_tailcall_def word_less_nat_alt)
  then have n: "?n = unat nargs - ?np" by (intro unat_minus) (simp add: word_le_nat_alt)
  have b: "?A + 1 + ?np + d + ?n < 2 ^ 32" "?A + 1 + ?np < 2 ^ 32" and
    mp: "\<forall>x<?A + 1 + ?np + d + ?n. vals s (reg_at ?b x) \<noteq> None"
    using can d(1) lt n by (auto simp: can_tailcall_def)
  have "\<forall>x<?A + 1 + ?np. vals s (reg_at ?b x) \<noteq> None" using mp by simp
  from copy_down [OF _ b(2) this] obtain m where
    m: "copy_span ?b 0 ?b (word_of_nat (?A + 1)) ?np s = Some (s\<lparr>vals := m\<rparr>)"
      "\<forall>x<2 ^ 32. m (reg_at ?b x) = (if x < ?np then vals s (reg_at ?b (?A + 1 + x)) else vals s (reg_at ?b x))" by auto
  have "\<forall>x<?A + 1 + ?np + d + ?n. vals (s\<lparr>vals := m\<rparr>) (reg_at ?b x) \<noteq> None" using m(2) mp b(1) by simp
  from copy_up [OF d(2) b(1) this] obtain v where
    v: "copy_span (reg_at ?b (?A + 1 + ?np + d)) 0 ?b (word_of_nat (?A + 1 + ?np)) ?n (s\<lparr>vals := m\<rparr>) = Some (s\<lparr>vals := v\<rparr>)"
      "\<forall>x<2 ^ 32. v (reg_at ?b x) = (if ?A + 1 + ?np + d \<le> x \<and> x < ?A + 1 + ?np + d + ?n
         then m (reg_at ?b (?A + 1 + ?np + (x - (?A + 1 + ?np) - d) mod d)) else m (reg_at ?b x))" by auto
  have w: "word_of_nat (?A + 1) = h_a h + 1" "word_of_nat (?A + 1 + ?np) = h_a h + 1 + numparams desc"
    "reg_at ?b (?A + 1 + ?np + d) = slot_addr ?b (desc_value_capacity desc)" "fixed_args desc nargs = numparams desc"
    using can unfolding d(1) [symmetric] by (auto simp: reg_at_def fixed_args_def can_tailcall_def)
  have "pass_args ?b ?b (h_a h + 1) desc nargs (nargs - numparams desc) s = Some (s\<lparr>vals := v\<rparr>)"
    using m(1) v(1) unfolding w by (simp add: pass_args_def w(4))
  moreover have "v (reg_at ?b k) = vals s (reg_at ?b (?A + 1 + k))" if "k < ?np" for k
    using v(2) m(2) that b(1) by simp
  moreover have "v (reg_at ?b (?A + 1 + ?np + d + k)) = vals s (reg_at ?b (?A + 1 + ?np + k mod d))" if k: "k < ?n" for k
  proof -
    have "k mod d < d" using d(2) by simp
    then have "m (reg_at ?b (?A + 1 + ?np + k mod d)) = vals s (reg_at ?b (?A + 1 + ?np + k mod d))" using m(2) b(1) by simp
    moreover have "?A + 1 + ?np + d + k - (?A + 1 + ?np) - d = k" by simp
    ultimately show ?thesis using v(2) [rule_format, of "?A + 1 + ?np + d + k"] b(1) k by simp
  qed
  ultimately show ?thesis using d(1) by auto
qed

text \<open>
  C39. \<open>TAILCALL\<close> of a vararg function with more arguments than parameters, whose capacity lies \<open>d\<close>
  registers past the first extra argument (\<open>d > 0\<close>). The parameters receive their arguments. The
  varargs are copied upwards over themselves: vararg \<open>k\<close> receives the extra argument \<open>k mod d\<close>, so with
  more than \<open>d\<close> of them those past the first \<open>d\<close> are lost and the first \<open>d\<close> repeated.
\<close>

theorem tailcall_varargs_repeat:
  assumes can: "can_tailcall h f fr closure desc nargs s"
    and d: "unat (desc_value_capacity desc) = unat (h_a h) + 1 + unat (numparams desc) + d" "0 < d"
  shows "\<exists>t cfr. lua55_v2l_tailcall h f s = Some (Jump (desc_entry desc) f, t) \<and> frames t f = Some cfr \<and>
    vararg_count cfr = nargs - numparams desc \<and> value_capacity cfr = desc_value_capacity desc \<and> frame_values cfr = frame_values fr \<and>
    (\<forall>k<unat (numparams desc). vals t (reg_at (frame_values fr) k) = vals s (reg_at (frame_values fr) (unat (h_a h) + 1 + k))) \<and>
    (\<forall>k<unat (nargs - numparams desc). vals t (reg_at (frame_values fr) (unat (desc_value_capacity desc) + k)) =
       vals s (reg_at (frame_values fr) (unat (h_a h) + 1 + unat (numparams desc) + k mod d)))"
proof -
  have c: "learning_ok s" "frames s f = Some fr" "open_upvalues fr = 0" "call_ops h f s = Some (Native closure desc)"
      "V2_CALL_NARGS_GENERIC (h_a h) (h_b h) f s = Some nargs" "is_vararg desc \<noteq> 0" "numparams desc < nargs"
      "h_a h + 1 + nargs \<le> value_capacity fr" "f + frame_bytes desc (nargs - numparams desc) \<le> frame_end (inv s)"
    using can by (auto simp: can_tailcall_def)
  obtain w where w: "rd_val (slot_addr (frame_values fr) (h_a h)) s = Some w" "classify w s = Some (Native closure desc)"
    using c(2,4) by (auto simp: call_ops_def bind_eq_Some_conv)
  obtain k va where k: "callee_fact (Native closure desc) = (k, va)" by force
  obtain m where m: "v2_learn_callee (h_occ_slot h) k va s = Some (s\<lparr>slots := m\<rparr>)" "learning_ok (s\<lparr>slots := m\<rparr>)"
    unfolding v2_learn_callee_def using learn_at_cases [OF c(1)] by blast
  let ?s = "s\<lparr>slots := m\<rparr>"
  have "call_ops h f ?s = call_ops h f s"
    by (simp add: call_ops_def classify_def rd_val_def cong: if_cong)
  then have "can_tailcall h f fr closure desc nargs ?s"
    using can m(2) by (simp add: can_tailcall_def)
  then obtain v where v: "pass_args (frame_values fr) (frame_values fr) (h_a h + 1) desc nargs (nargs - numparams desc) ?s = Some (?s\<lparr>vals := v\<rparr>)"
      "\<forall>k<unat (numparams desc). v (reg_at (frame_values fr) k) = vals s (reg_at (frame_values fr) (unat (h_a h) + 1 + k))"
      "\<forall>k<unat (nargs - numparams desc). v (reg_at (frame_values fr) (unat (desc_value_capacity desc) + k)) =
        vals s (reg_at (frame_values fr) (unat (h_a h) + 1 + unat (numparams desc) + k mod d))"
    using tail_pass [OF _ d, of f fr closure nargs ?s] by auto
  have "lua55_v2l_tailcall h f s = tail_native closure desc True nargs (frame_values fr) (h_a h + 1) h f ?s"
    using c(2,5,6) w k m(1) by (simp add: lua55_v2l_tailcall_def)
  moreover have "lua55_cps_close_open_upvalues f ?s = Some ?s" using c(2,3) by (intro close_nothing) simp_all
  moreover have "extra_args True desc nargs = nargs - numparams desc" using c(7) by (simp add: extra_args_def)
  ultimately show ?thesis
    using c(2,8,9) v
    by (simp add: tail_native_def tail_bounds_def Let_def upd_frame_def upd_inv_def reuse_frame_def linorder_not_less [symmetric])
qed

text \<open>
  A vararg function without parameters and with two registers, called in the tail from register 0
  with 1, 2 and 3: it receives 1, 1 and 1.
\<close>

definition tail_desc :: function_descriptor where
  "tail_desc = call_desc\<lparr>numparams := 0, maxstacksize := 2, desc_value_capacity := 2\<rparr>"

definition tail_example :: v2_state where
  "tail_example = call_example\<lparr>frames := [0x100 \<mapsto> call_caller\<lparr>value_capacity := 5\<rparr>],
     vals := [0x1000 \<mapsto> mk_value 8 0x800, 0x1010 \<mapsto> mk_value 3 1, 0x1020 \<mapsto> mk_value 3 2, 0x1030 \<mapsto> mk_value 3 3,
       0x1040 \<mapsto> mk_value 0 0],
     inv := (inv call_example)\<lparr>function_table := [0 \<mapsto> tail_desc]\<rparr>\<rparr>"

lemma tail_example_facts:
  "can_tailcall (blank_holes\<lparr>h_b := 4\<rparr>) 0x100 (call_caller\<lparr>value_capacity := 5\<rparr>) 0x800 tail_desc 3 tail_example"
proof -
  have b: "frame_bytes tail_desc 3 = 0xD0"
    by (rule word_unat_eq_iff [THEN iffD2]) (simp add: frame_bytes_value tail_desc_def call_desc_def)
  have "x < 5 \<longleftrightarrow> x \<in> {0, 1, 2, 3, 4}" for x :: nat by auto
  then have "\<forall>x<5. vals tail_example (reg_at 0x1000 x) \<noteq> None" by (simp add: reg_at_def slot_addr_def tail_example_def)
  then show ?thesis
    using b by (simp add: can_tailcall_def learning_ok_def call_ops_def rd_val_def slot_addr_def classify_def V2_CALL_NARGS_GENERIC_def)
      (simp add: tail_example_def call_example_def call_caller_def tail_desc_def call_desc_def mk_value_def)
qed

theorem tailcall_varargs_repeat_witness:
  "\<exists>t cfr. lua55_v2l_tailcall (blank_holes\<lparr>h_b := 4\<rparr>) 0x100 tail_example = Some (Jump 0x9000 0x100, t) \<and> frames t 0x100 = Some cfr \<and>
    vararg_count cfr = 3 \<and> (\<forall>k<3. vals t (reg_at 0x1000 (2 + k)) = Some (mk_value 3 1))"
proof -
  have d: "unat (desc_value_capacity tail_desc) = unat (h_a (blank_holes\<lparr>h_b := 4\<rparr>)) + 1 + unat (numparams tail_desc) + 1" "(0 :: nat) < 1"
    "desc_value_capacity tail_desc = 2" "numparams tail_desc = 0" "desc_entry tail_desc = 0x9000" "frame_values call_caller = 0x1000"
    by (simp_all add: tail_desc_def call_desc_def call_caller_def)
  have "vals tail_example (reg_at 0x1000 1) = Some (mk_value 3 1)" by (simp add: reg_at_def slot_addr_def tail_example_def)
  then show ?thesis using tailcall_varargs_repeat [OF tail_example_facts d(1,2)] d(3-6) by auto
qed

end
