(* ===== verification/Super_Calls.thy ===== *)
theory Super_Calls
  imports Fused_Tables Call_Protocol
begin

text \<open>
  The fused calls: a fetch of the callee (a global, or a method with its receiver) and of one argument,
  and the call itself, in one leaf for each class of callee. What runs before the call is a prelude of
  the call leaf.
\<close>

subsection \<open>Preludes\<close>

definition V2_SUPER_GLOBAL_FETCH :: "stencil \<Rightarrow> stencil" where
  "V2_SUPER_GLOBAL_FETCH k h f s = do {
     global_env \<leftarrow> rd_upval_at (h_upvalue h) f s;
     V2_SUPER_GUARD global_env LUA55_VALUE_TABLE (super_table global_env (\<lambda>table h f s. do {
       (cell, s) \<leftarrow> v2_find_field table (h_key_ref h) False s;
       a \<leftarrow> V2_VALUE (h_a h) f s;
       s \<leftarrow> (if cell = 0 then wr_tag a LUA55_VALUE_NIL s else do {v \<leftarrow> rd_val cell s; wr_val a v s});
       k h f s})) h f s}"

text \<open>The constant argument: the register after the callee.\<close>

definition super_argument :: "store \<Rightarrow> stencil \<Rightarrow> stencil" where
  "super_argument store k = V2_SUPER_GLOBAL_FETCH (\<lambda>h f s. do {
     a \<leftarrow> V2_VALUE (h_a h + 1) f s;
     s \<leftarrow> store 0 a h f s;
     k h f s})"

definition V2_SUPER_GLOBAL_NIL :: "stencil \<Rightarrow> stencil" where
  "V2_SUPER_GLOBAL_NIL = super_argument V2_STORE_NIL"

definition V2_SUPER_GLOBAL_FALSE :: "stencil \<Rightarrow> stencil" where
  "V2_SUPER_GLOBAL_FALSE = super_argument V2_STORE_FALSE"

definition V2_SUPER_GLOBAL_TRUE :: "stencil \<Rightarrow> stencil" where
  "V2_SUPER_GLOBAL_TRUE = super_argument V2_STORE_TRUE"

definition V2_SUPER_GLOBAL_INT :: "stencil \<Rightarrow> stencil" where
  "V2_SUPER_GLOBAL_INT = super_argument V2_STORE_INT"

definition V2_SUPER_GLOBAL_FLT :: "stencil \<Rightarrow> stencil" where
  "V2_SUPER_GLOBAL_FLT = super_argument V2_STORE_FLT"

definition V2_SUPER_GLOBAL_STR :: "stencil \<Rightarrow> stencil" where
  "V2_SUPER_GLOBAL_STR = super_argument V2_STORE_STR"

definition V2_SUPER_GLOBAL_MOVE :: "stencil \<Rightarrow> stencil" where
  "V2_SUPER_GLOBAL_MOVE k = V2_SUPER_GLOBAL_FETCH (\<lambda>h f s. do {
     v \<leftarrow> rd_at (h_source h) f s;
     s \<leftarrow> wr_at (h_a h + 1) v f s;
     k h f s})"

definition V2_SUPER_METHOD :: "stencil \<Rightarrow> stencil" where
  "V2_SUPER_METHOD k h f s = do {
     object \<leftarrow> rd_at (h_receiver h) f s;
     V2_SUPER_GUARD object LUA55_VALUE_TABLE (super_table object (\<lambda>table h f s. do {
       (cell, s) \<leftarrow> v2_find_field table (h_key_ref h) False s;
       v \<leftarrow> rd_at (h_receiver h) f s;
       s \<leftarrow> wr_at (h_a h + 1) v f s;
       a \<leftarrow> V2_VALUE (h_a h) f s;
       s \<leftarrow> (if cell = 0 then wr_tag a LUA55_VALUE_NIL s else do {v \<leftarrow> rd_val cell s; wr_val a v s});
       k h f s})) h f s}"

subsection \<open>Leaves\<close>

definition V2_SUPER_NATIVE_PAIR :: "u32 \<Rightarrow> (stencil \<Rightarrow> stencil) \<Rightarrow> stencil" where
  "V2_SUPER_NATIVE_PAIR is_varg prelude =
     V2_CALL_NATIVE_LEAF is_varg prelude (\<lambda>h. V2_CALL_NARGS_GENERIC (h_a h) (h_b h)) V2_CALL_BASE_GENERIC"

definition V2_SUPER_CALL_HOST :: "(stencil \<Rightarrow> stencil) \<Rightarrow> stencil" where
  "V2_SUPER_CALL_HOST prelude = prelude (\<lambda>h f s. do {
     v \<leftarrow> rd_at (h_a h) f s;
     V2_CALL_GUARD_BUILTIN_CELL v (\<lambda>h. host_call_exit (h_a h) (h_b h) (h_c h) (\<lambda>p. p\<lparr>hc_reserved := 0\<rparr>) h) h f s})"

definition lua55_v2r_super_global_nil_native_fixed :: stencil where
  "lua55_v2r_super_global_nil_native_fixed = V2_SUPER_NATIVE_PAIR 0 V2_SUPER_GLOBAL_NIL"

definition lua55_v2r_super_global_nil_native_vararg :: stencil where
  "lua55_v2r_super_global_nil_native_vararg = V2_SUPER_NATIVE_PAIR 1 V2_SUPER_GLOBAL_NIL"

definition lua55_v2r_super_global_nil_host :: stencil where
  "lua55_v2r_super_global_nil_host = V2_SUPER_CALL_HOST V2_SUPER_GLOBAL_NIL"

definition lua55_v2r_super_global_false_native_fixed :: stencil where
  "lua55_v2r_super_global_false_native_fixed = V2_SUPER_NATIVE_PAIR 0 V2_SUPER_GLOBAL_FALSE"

definition lua55_v2r_super_global_false_native_vararg :: stencil where
  "lua55_v2r_super_global_false_native_vararg = V2_SUPER_NATIVE_PAIR 1 V2_SUPER_GLOBAL_FALSE"

definition lua55_v2r_super_global_false_host :: stencil where
  "lua55_v2r_super_global_false_host = V2_SUPER_CALL_HOST V2_SUPER_GLOBAL_FALSE"

definition lua55_v2r_super_global_true_native_fixed :: stencil where
  "lua55_v2r_super_global_true_native_fixed = V2_SUPER_NATIVE_PAIR 0 V2_SUPER_GLOBAL_TRUE"

definition lua55_v2r_super_global_true_native_vararg :: stencil where
  "lua55_v2r_super_global_true_native_vararg = V2_SUPER_NATIVE_PAIR 1 V2_SUPER_GLOBAL_TRUE"

definition lua55_v2r_super_global_true_host :: stencil where
  "lua55_v2r_super_global_true_host = V2_SUPER_CALL_HOST V2_SUPER_GLOBAL_TRUE"

definition lua55_v2r_super_global_int_native_fixed :: stencil where
  "lua55_v2r_super_global_int_native_fixed = V2_SUPER_NATIVE_PAIR 0 V2_SUPER_GLOBAL_INT"

definition lua55_v2r_super_global_int_native_vararg :: stencil where
  "lua55_v2r_super_global_int_native_vararg = V2_SUPER_NATIVE_PAIR 1 V2_SUPER_GLOBAL_INT"

definition lua55_v2r_super_global_int_host :: stencil where
  "lua55_v2r_super_global_int_host = V2_SUPER_CALL_HOST V2_SUPER_GLOBAL_INT"

definition lua55_v2r_super_global_flt_native_fixed :: stencil where
  "lua55_v2r_super_global_flt_native_fixed = V2_SUPER_NATIVE_PAIR 0 V2_SUPER_GLOBAL_FLT"

definition lua55_v2r_super_global_flt_native_vararg :: stencil where
  "lua55_v2r_super_global_flt_native_vararg = V2_SUPER_NATIVE_PAIR 1 V2_SUPER_GLOBAL_FLT"

definition lua55_v2r_super_global_flt_host :: stencil where
  "lua55_v2r_super_global_flt_host = V2_SUPER_CALL_HOST V2_SUPER_GLOBAL_FLT"

definition lua55_v2r_super_global_str_native_fixed :: stencil where
  "lua55_v2r_super_global_str_native_fixed = V2_SUPER_NATIVE_PAIR 0 V2_SUPER_GLOBAL_STR"

definition lua55_v2r_super_global_str_native_vararg :: stencil where
  "lua55_v2r_super_global_str_native_vararg = V2_SUPER_NATIVE_PAIR 1 V2_SUPER_GLOBAL_STR"

definition lua55_v2r_super_global_str_host :: stencil where
  "lua55_v2r_super_global_str_host = V2_SUPER_CALL_HOST V2_SUPER_GLOBAL_STR"

definition lua55_v2r_super_global_move_native_fixed :: stencil where
  "lua55_v2r_super_global_move_native_fixed = V2_SUPER_NATIVE_PAIR 0 V2_SUPER_GLOBAL_MOVE"

definition lua55_v2r_super_global_move_native_vararg :: stencil where
  "lua55_v2r_super_global_move_native_vararg = V2_SUPER_NATIVE_PAIR 1 V2_SUPER_GLOBAL_MOVE"

definition lua55_v2r_super_global_move_host :: stencil where
  "lua55_v2r_super_global_move_host = V2_SUPER_CALL_HOST V2_SUPER_GLOBAL_MOVE"

definition lua55_v2r_super_method_native_fixed :: stencil where
  "lua55_v2r_super_method_native_fixed = V2_SUPER_NATIVE_PAIR 0 V2_SUPER_METHOD"

definition lua55_v2r_super_method_native_vararg :: stencil where
  "lua55_v2r_super_method_native_vararg = V2_SUPER_NATIVE_PAIR 1 V2_SUPER_METHOD"

definition lua55_v2r_super_method_host :: stencil where
  "lua55_v2r_super_method_host = V2_SUPER_CALL_HOST V2_SUPER_METHOD"

subsection \<open>A fused global call is its three instructions\<close>

text \<open>
  An occurrence of a call of a global with a constant argument: the environment holds the global at
  \<open>cell\<close>, and the holes \<open>hg\<close> and \<open>hk\<close> of the plain \<open>GETTABUP\<close> and \<open>LOADK\<close> name the registers of the fused leaf.
\<close>

definition global_occurrence :: "holes \<Rightarrow> holes \<Rightarrow> holes \<Rightarrow> u64 \<Rightarrow> v2_state \<Rightarrow> bool" where
  "global_occurrence h hg hk f s \<longleftrightarrow> learning (inv s) = 0 \<and> h_upvalue hg = h_upvalue h \<and> h_key_ref hg = h_key_ref h \<and>
     (\<exists>env table cell a b. rd_upval_at (h_upvalue h) f s = Some env \<and> v2_learn_table env s = Some table \<and> table \<noteq> 0 \<and>
       v2_find_field table (h_key_ref h) False s = Some (cell, s) \<and> cell \<noteq> 0 \<and> vals s cell \<noteq> None \<and>
       V2_VALUE (h_a h) f s = Some a \<and> V2_VALUE_DISP (h_target_disp hg) f s = Some a \<and> vals s a \<noteq> None \<and>
       V2_VALUE (h_a h + 1) f s = Some b \<and> V2_VALUE_DISP (h_target_disp hk) f s = Some b \<and> vals s b \<noteq> None)"

lemma super_table_learned:
  assumes "v2_learn_table r s = Some table" and "table \<noteq> 0"
  shows "tag r = LUA55_VALUE_TABLE" "super_table r k h f s = k table h f s" "tables s table \<noteq> None"
  using assms by (auto simp: v2_learn_table_def super_table_def Let_def bind_eq_Some_conv split: if_splits)

lemma super_global_call:
  assumes g: "global_occurrence h hg hk f s"
    and store: "\<And>cell u. store 0 cell h f u = wr_val cell v u" "\<And>cell u. store 0 cell hk f u = wr_val cell v u"
  shows "\<exists>s1 s2. lua55_v2_gettabup hg f s = Some (Next f, s1) \<and> V2_LOADK_LEAF store hk f s1 = Some (Next f, s2) \<and>
    V2_SUPER_NATIVE_PAIR va (super_argument store) h f s = V2_SUPER_NATIVE_PAIR va V2_NO_CALL_PRELUDE h f s2 \<and>
    V2_SUPER_CALL_HOST (super_argument store) h f s = V2_SUPER_CALL_HOST V2_NO_CALL_PRELUDE h f s2"
proof -
  obtain env table cell a b w where o: "learning (inv s) = 0" "h_upvalue hg = h_upvalue h" "h_key_ref hg = h_key_ref h"
      "rd_upval_at (h_upvalue h) f s = Some env" "v2_learn_table env s = Some table" "table \<noteq> 0"
      "v2_find_field table (h_key_ref h) False s = Some (cell, s)" "cell \<noteq> 0" "vals s cell = Some w"
      "V2_VALUE (h_a h) f s = Some a" "V2_VALUE_DISP (h_target_disp hg) f s = Some a" "vals s a \<noteq> None"
      "V2_VALUE (h_a h + 1) f s = Some b" "V2_VALUE_DISP (h_target_disp hk) f s = Some b" "vals s b \<noteq> None"
    using g unfolding global_occurrence_def by blast
  note st = super_table_learned [OF o(5,6)]
  let ?s1 = "s\<lparr>vals := (vals s)(a \<mapsto> w)\<rparr>" and ?s2 = "s\<lparr>vals := (vals s)(a \<mapsto> w, b \<mapsto> v)\<rparr>"
  obtain tb where tb: "tables s table = Some tb" using st(3) by blast
  have get: "lua55_v2_gettabup hg f s = Some (Next f, ?s1)"
    using o tb by (simp add: lua55_v2_gettabup_def with_table_def load_field_def v2_learn_field_location_def load_cell_def
        rd_val_def wr_val_def LUA55_RESIDUAL_NEXT_def)
  have ldk: "V2_LOADK_LEAF store hk f ?s1 = Some (Next f, ?s2)"
    using o store(2) by (auto simp: V2_LOADK_LEAF_def disp_vals wr_val_def LUA55_RESIDUAL_NEXT_def)
  have "V2_VALUE (h_a h + 1) f ?s1 = Some b" using o(13) by (simp add: V2_VALUE_def)
  then have pre: "super_argument store k h f s = k h f ?s2" for k
    using o st store(1)
    by (auto simp: super_argument_def V2_SUPER_GLOBAL_FETCH_def V2_SUPER_GUARD_def rd_val_def wr_val_def)
  show ?thesis
    using get ldk pre by (auto simp: V2_SUPER_NATIVE_PAIR_def V2_CALL_NATIVE_LEAF_def V2_SUPER_CALL_HOST_def V2_NO_CALL_PRELUDE_def)
qed

end
