(* ===== verification/Varargs.thy ===== *)
theory Varargs
  imports Call_Protocol Strings
begin

text \<open>
  \<open>VARARG\<close> and \<open>GETVARG\<close> (opcodes 80 and 81) and the unrolled \<open>LOADNIL\<close> leaves. The varargs of a frame lie
  past its values, at \<open>values + value_capacity\<close>.
\<close>

subsection \<open>Learners\<close>

definition vararg_slice :: "native_frame \<Rightarrow> u64" where
  "vararg_slice fr = slot_addr (frame_values fr) (value_capacity fr)"

text \<open>\<open>wanted\<close> is an \<open>int32_t\<close>; -1 asks for all.\<close>

definition vararg_body :: "u32 \<Rightarrow> bool \<Rightarrow> stencil" where
  "vararg_body wanted all_args h f s = do {
     target \<leftarrow> V2_VALUE_DISP (h_target_disp h) f s;
     fr \<leftarrow> frames s f;
     let nargs = vararg_count fr;
     let touse = (if all_args then nargs else if nargs > wanted then wanted else nargs);
     s \<leftarrow> copy_span target 0 (vararg_slice fr) 0 (unat touse) s;
     s \<leftarrow> (if all_args then Some s else nil_span target touse (unat wanted - unat touse) s);
     s \<leftarrow> wr_top_at (f + OFFSET_FRAME_TOP) (h_target h + (if all_args then touse else wanted)) s;
     LUA55_RESIDUAL_NEXT f s}"

definition lua55_v2_vararg :: stencil where
  "lua55_v2_vararg h = vararg_body (h_wanted h) (h_wanted h = - 1) h"

text \<open>\<open>str != 0 && str->length == 1 && str->bytes[0] == 'n'\<close>.\<close>

definition is_n_key :: "u64 \<Rightarrow> v2_state \<Rightarrow> bool option" where
  "is_n_key r s =
     (if r = 0 then Some False
      else do {
        str \<leftarrow> strings s r;
        if str_length str \<noteq> 1 then Some False
        else do {
          b \<leftarrow> rd_byte (str_bytes str) s;
          Some (b = 0x6E)}})"

definition put_nil :: "u64 \<Rightarrow> stencil" where
  "put_nil target h f s = do {
     s \<leftarrow> wr_val target (mk_value LUA55_VALUE_NIL 0) s;
     LUA55_RESIDUAL_NEXT f s}"

definition getvarg_int :: "u64 \<Rightarrow> u64 \<Rightarrow> stencil" where
  "getvarg_int target n h f s = do {
     fr \<leftarrow> frames s f;
     if 1 \<le>s n \<and> n \<le> ucast (vararg_count fr) then do {
       v \<leftarrow> rd_val (vararg_slice fr + SIZEOF_VALUE * (n - 1)) s;
       s \<leftarrow> wr_val target v s;
       LUA55_RESIDUAL_NEXT f s}
     else put_nil target h f s}"

definition getvarg_n :: "u64 \<Rightarrow> stencil" where
  "getvarg_n target h f s = do {
     fr \<leftarrow> frames s f;
     s \<leftarrow> wr_int target (ucast (vararg_count fr)) s;
     LUA55_RESIDUAL_NEXT f s}"

definition lua55_v2l_getvarg :: stencil where
  "lua55_v2l_getvarg h f s = do {
     target \<leftarrow> V2_VALUE_DISP (h_target_disp h) f s;
     a \<leftarrow> V2_VALUE_DISP (h_key_disp h) f s;
     key \<leftarrow> rd_val a s;
     n_key \<leftarrow> (if v2_is_string_tag (tag key) then is_n_key (payload key) s else Some False);
     s \<leftarrow> v2_learn_key_tag (h_occ_slot h) (if v2_is_string_tag (tag key) \<and> \<not> n_key then 0 else tag key) s;
     if tag key = LUA55_VALUE_INTEGER then getvarg_int target (payload key) h f s
     else if n_key then getvarg_n target h f s
     else put_nil target h f s}"

subsection \<open>Leaves\<close>

definition lua55_v2r_getvarg_int :: stencil where
  "lua55_v2r_getvarg_int h f s = do {
     target \<leftarrow> V2_VALUE_DISP (h_target_disp h) f s;
     a \<leftarrow> V2_VALUE_DISP (h_key_disp h) f s;
     key \<leftarrow> rd_val a s;
     if tag key \<noteq> LUA55_VALUE_INTEGER then mismatch LUA55_VALUE_INTEGER (tag key) h f s
     else getvarg_int target (payload key) h f s}"

definition lua55_v2r_getvarg_n :: stencil where
  "lua55_v2r_getvarg_n h f s = do {
     target \<leftarrow> V2_VALUE_DISP (h_target_disp h) f s;
     a \<leftarrow> V2_VALUE_DISP (h_key_disp h) f s;
     key \<leftarrow> rd_val a s;
     if \<not> v2_is_string_tag (tag key) then mismatch LUA55_VALUE_SHORT_STRING (tag key) h f s
     else do {
       n_key \<leftarrow> is_n_key (payload key) s;
       if \<not> n_key then mismatch LUA55_VALUE_SHORT_STRING LUA55_VALUE_INTEGER h f s
       else getvarg_n target h f s}}"

definition lua55_v2r_getvarg_mx :: stencil where
  "lua55_v2r_getvarg_mx h f s = do {
     target \<leftarrow> V2_VALUE_DISP (h_target_disp h) f s;
     a \<leftarrow> V2_VALUE_DISP (h_key_disp h) f s;
     key \<leftarrow> rd_val a s;
     if tag key = LUA55_VALUE_INTEGER then mismatch LUA55_VALUE_NIL (tag key) h f s
     else do {
       n_key \<leftarrow> (if v2_is_string_tag (tag key) then is_n_key (payload key) s else Some False);
       if n_key then mismatch LUA55_VALUE_NIL (tag key) h f s
       else put_nil target h f s}}"

definition V2_VARARG_SPLIT :: "u32 \<Rightarrow> bool \<Rightarrow> stencil" where
  "V2_VARARG_SPLIT wanted is_all = vararg_body wanted is_all"

definition lua55_v2r_vararg_all :: stencil where
  "lua55_v2r_vararg_all = V2_VARARG_SPLIT (- 1) True"

definition lua55_v2r_vararg_fixed_slot :: stencil where
  "lua55_v2r_vararg_fixed_slot h f s = do {
     target \<leftarrow> V2_VALUE_DISP (h_target_disp h) f s;
     fr \<leftarrow> frames s f;
     if h_span h < vararg_count fr then do {
       v \<leftarrow> rd_val (slot_addr (vararg_slice fr) (h_span h)) s;
       s \<leftarrow> wr_val target v s;
       LUA55_RESIDUAL_NEXT f s}
     else put_nil target h f s}"

definition lua55_v2r_vararg_fixed_finish :: stencil where
  "lua55_v2r_vararg_fixed_finish h f s = do {
     s \<leftarrow> wr_top_at (f + OFFSET_FRAME_TOP) (h_top_index h) s;
     LUA55_RESIDUAL_NEXT f s}"

definition V2_LOADNIL_UNROLL :: "nat \<Rightarrow> stencil" where
  "V2_LOADNIL_UNROLL n h f s = do {
     target \<leftarrow> V2_VALUE_DISP (h_target_disp h) f s;
     s \<leftarrow> nil_span target 0 n s;
     LUA55_RESIDUAL_NEXT f s}"

definition lua55_v2r_loadnil_1 :: stencil where
  "lua55_v2r_loadnil_1 = V2_LOADNIL_UNROLL 1"

definition lua55_v2r_loadnil_2 :: stencil where
  "lua55_v2r_loadnil_2 = V2_LOADNIL_UNROLL 2"

definition lua55_v2r_loadnil_3 :: stencil where
  "lua55_v2r_loadnil_3 = V2_LOADNIL_UNROLL 3"

definition lua55_v2r_loadnil_4 :: stencil where
  "lua55_v2r_loadnil_4 = V2_LOADNIL_UNROLL 4"

definition lua55_v2r_loadnil_5 :: stencil where
  "lua55_v2r_loadnil_5 = V2_LOADNIL_UNROLL 5"

definition lua55_v2r_loadnil_6 :: stencil where
  "lua55_v2r_loadnil_6 = V2_LOADNIL_UNROLL 6"

definition lua55_v2r_loadnil_7 :: stencil where
  "lua55_v2r_loadnil_7 = V2_LOADNIL_UNROLL 7"

definition lua55_v2r_loadnil_8 :: stencil where
  "lua55_v2r_loadnil_8 = V2_LOADNIL_UNROLL 8"

subsection \<open>What VARARG delivers\<close>

definition wanted_args :: "holes \<Rightarrow> native_frame \<Rightarrow> u32" where
  "wanted_args h fr = (if h_wanted h = - 1 then vararg_count fr else h_wanted h)"

text \<open>
  C24. \<open>VARARG\<close> delivers. When the wanted registers and the varargs lie apart, the instruction fills exactly
  the wanted registers (all varargs when none are wanted in particular) with the varargs in order, nil
  where there are fewer, puts the top past the last, and changes no other value.
\<close>

theorem vararg_delivers:
  assumes fr: "frames s f = Some fr" and n: "n = wanted_args h fr"
    and t: "target = frame_values fr + scast (h_target_disp h)"
    and room: "mapped (span target 0 (unat n)) s" "mapped (span (vararg_slice fr) 0 (unat (vararg_count fr))) s"
      "set (span target 0 (unat n)) \<inter> set (span (vararg_slice fr) 0 (unat (vararg_count fr))) = {}"
    and tp: "tops s (f + OFFSET_FRAME_TOP) \<noteq> None"
  shows "\<exists>m. lua55_v2_vararg h f s = Some (Next f, s\<lparr>vals := m, tops := (tops s)(f + OFFSET_FRAME_TOP \<mapsto> h_target h + n)\<rparr>) \<and>
    (\<forall>k<unat n. m (slot_addr target (word_of_nat k)) =
       (if k < unat (vararg_count fr) then vals s (slot_addr (vararg_slice fr) (word_of_nat k))
        else map_option (SET_TAG LUA55_VALUE_NIL) (vals s (slot_addr target (word_of_nat k))))) \<and>
    (\<forall>a. a \<notin> set (span target 0 (unat n)) \<longrightarrow> m a = vals s a)"
proof -
  let ?na = "vararg_count fr" and ?sl = "vararg_slice fr"
  let ?all = "h_wanted h = - 1"
  let ?u = "if ?all then ?na else if ?na > h_wanted h then h_wanted h else ?na"
  have u: "unat ?u = min (unat ?na) (unat n)" using n by (auto simp: wanted_args_def word_less_nat_alt)
  have sub: "set (span ?sl 0 (unat ?u)) \<subseteq> set (span ?sl 0 (unat ?na))"
    using span_part [of 0 "unat ?u" "unat ?na" ?sl 0] u by simp
  have "mapped (span ?sl 0 (unat ?u)) s" "set (span target 0 (unat n)) \<inter> set (span ?sl 0 (unat ?u)) = {}" "unat ?u \<le> unat n"
    using room mapped_subset [OF room(2) sub] sub u by auto
  from copy_nil_spec [OF room(1) this unat32_less, unfolded of_nat_unat ucast_id] obtain m where
    m: "copy_span target 0 ?sl 0 (unat ?u) s \<bind> nil_span target ?u (unat n - unat ?u) = Some (s\<lparr>vals := m\<rparr>)"
      "\<forall>k<unat n. m (slot_addr target (word_of_nat k)) = (if k < unat ?u then vals s (slot_addr ?sl (0 + word_of_nat k))
         else map_option (SET_TAG LUA55_VALUE_NIL) (vals s (slot_addr target (word_of_nat k))))"
      "\<forall>a. a \<notin> set (span target 0 (unat n)) \<longrightarrow> m a = vals s a" by blast
  have "lua55_v2_vararg h f s = (copy_span target 0 ?sl 0 (unat ?u) s \<bind> nil_span target ?u (unat n - unat ?u))
      \<bind> (\<lambda>s. wr_top_at (f + OFFSET_FRAME_TOP) (h_target h + n) s \<bind> LUA55_RESIDUAL_NEXT f)"
    using fr t n unfolding wanted_args_def
    by (cases "copy_span target 0 ?sl 0 (unat ?u) s")
      (simp_all add: lua55_v2_vararg_def vararg_body_def V2_VALUE_DISP_def Let_def)
  then have "lua55_v2_vararg h f s = Some (Next f, s\<lparr>vals := m, tops := (tops s)(f + OFFSET_FRAME_TOP \<mapsto> h_target h + n)\<rparr>)"
    using m(1) tp by (simp add: wr_top_at_def LUA55_RESIDUAL_NEXT_def)
  then show ?thesis using m(2,3) u by (intro exI [of _ m]) auto
qed

text \<open>A frame of two registers with the varargs 1, 2 and 3 past them.\<close>

definition vararg_example :: v2_state where
  "vararg_example = blank_state\<lparr>
     frames := [0x100 \<mapsto> blank_frame\<lparr>frame_values := 0x1000, value_capacity := 2, vararg_count := 3\<rparr>],
     tops := [0x168 \<mapsto> 0],
     vals := [0x1000 \<mapsto> mk_value 2 0, 0x1010 \<mapsto> mk_value 2 0, 0x1020 \<mapsto> mk_value 3 1, 0x1030 \<mapsto> mk_value 3 2,
       0x1040 \<mapsto> mk_value 3 3]\<rparr>"

theorem vararg_delivers_witness:
  "\<exists>t. lua55_v2_vararg (blank_holes\<lparr>h_wanted := 2\<rparr>) 0x100 vararg_example = Some (Next 0x100, t) \<and>
     vals t 0x1000 = Some (mk_value 3 1) \<and> vals t 0x1010 = Some (mk_value 3 2) \<and> tops t 0x168 = Some 2"
proof -
  let ?fr = "blank_frame\<lparr>frame_values := 0x1000, value_capacity := 2, vararg_count := 3\<rparr>"
  have sl: "vararg_slice ?fr = 0x1020" by (simp add: vararg_slice_def slot_addr_def)
  have sp: "span 0x1000 0 2 = [0x1000, 0x1010]" "span 0x1020 0 3 = [0x1020, 0x1030, 0x1040]"
    by (simp_all add: span_def slot_addr_def upt_rec)
  have fr: "frames vararg_example 0x100 = Some ?fr" by (simp add: vararg_example_def)
  have m: "mapped [0x1000, 0x1010] vararg_example" "mapped [0x1020, 0x1030, 0x1040] vararg_example" "tops vararg_example 0x168 \<noteq> None"
      "vals vararg_example 0x1020 = Some (mk_value 3 1)" "vals vararg_example 0x1030 = Some (mk_value 3 2)"
    by (simp_all add: vararg_example_def mapped_def)
  have i: "slot_addr 0x1000 0 = 0x1000" "slot_addr 0x1000 1 = 0x1010" "slot_addr 0x1020 0 = 0x1020" "slot_addr 0x1020 1 = 0x1030"
    by (simp_all add: slot_addr_def)
  obtain w where w: "lua55_v2_vararg (blank_holes\<lparr>h_wanted := 2\<rparr>) 0x100 vararg_example =
      Some (Next 0x100, vararg_example\<lparr>vals := w, tops := (tops vararg_example)(0x168 \<mapsto> 2)\<rparr>)"
      "\<forall>k<2. w (slot_addr 0x1000 (word_of_nat k)) = vals vararg_example (slot_addr 0x1020 (word_of_nat k))"
    using vararg_delivers [OF fr refl refl, of "blank_holes\<lparr>h_wanted := 2\<rparr>"] m sp sl
    by (auto simp: wanted_args_def split: if_splits)
  then show ?thesis using m(4,5) i spec [OF w(2), of 0] spec [OF w(2), of 1] by auto
qed

lemma copy_three:
  "copy_span dst 0 src 0 3 s = do {
     v \<leftarrow> rd_val (slot_addr src 0) s; s \<leftarrow> wr_val (slot_addr dst 0) v s;
     v \<leftarrow> rd_val (slot_addr src 1) s; s \<leftarrow> wr_val (slot_addr dst 1) v s;
     v \<leftarrow> rd_val (slot_addr src 2) s; wr_val (slot_addr dst 2) v s}"
  by (simp add: numeral_3_eq_3)

text \<open>
  \<open>VARARG\<close> has no bound. Asked for all varargs with less room below the capacity than there are
  varargs, it writes over the vararg slice of its own frame: a second \<open>VARARG\<close> of the same frame
  gives 2, 3 and 3 where the first gave 1, 2 and 3. No overflow is published.
\<close>

theorem vararg_overruns_slice:
  "\<exists>t u. lua55_v2_vararg (blank_holes\<lparr>h_target := 1, h_target_disp := 16, h_wanted := - 1\<rparr>) 0x100 vararg_example = Some (Next 0x100, t) \<and>
     map (vals t) [0x1010, 0x1020, 0x1030] = map (Some \<circ> mk_value 3) [1, 2, 3] \<and>
     lua55_v2_vararg (blank_holes\<lparr>h_target := 1, h_target_disp := 16, h_wanted := - 1\<rparr>) 0x100 t = Some (Next 0x100, u) \<and>
     map (vals u) [0x1010, 0x1020, 0x1030] = map (Some \<circ> mk_value 3) [2, 3, 3] \<and> inv u = inv vararg_example"
  by (simp add: lua55_v2_vararg_def vararg_body_def V2_VALUE_DISP_def vararg_example_def vararg_slice_def slot_addr_def
      rd_val_def wr_val_def wr_top_at_def LUA55_RESIDUAL_NEXT_def copy_three Let_def)

end
