(* ===== verification/Generic_For.thy ===== *)
theory Generic_For
  imports Call_Protocol
begin

text \<open>
  The generic \<open>for\<close> (\<open>TFORPREP\<close>, \<open>TFORCALL\<close>, \<open>TFORLOOP\<close>, opcodes 75 to 77), \<open>CLOSE\<close> and \<open>TBC\<close> (54 and 55) and \<open>ERRNNIL\<close>
  (82). The registers of a loop are the iterator at \<open>A\<close>, the state at \<open>A + 1\<close>, the closing value at
  \<open>A + 2\<close> and the control at \<open>A + 3\<close>, with the other variables after it.
\<close>

subsection \<open>Definitions\<close>

definition lua55_v2_tforprep :: stencil where
  "lua55_v2_tforprep h f s = do {
     base \<leftarrow> V2_VALUE_DISP (h_base_disp h) f s;
     temp \<leftarrow> rd_val (slot_addr base 3) s;
     v \<leftarrow> rd_val (slot_addr base 2) s;
     s \<leftarrow> wr_val (slot_addr base 3) v s;
     s \<leftarrow> wr_val (slot_addr base 2) temp s;
     closing \<leftarrow> rd_val (slot_addr base 2) s;
     if tag closing \<noteq> LUA55_VALUE_NIL then reject_exit LUA55_V2_REJECT_UNSUPPORTED_METAMETHOD h f s
     else Some (Jump (h_taken h) f, s)}"

text \<open>
  The last test on the kind of the object, behind the branch of a native function, reads through
  the reference without a null check.
\<close>

definition lua55_v2l_tforcall :: stencil where
  "lua55_v2l_tforcall h f s = do {
     fr \<leftarrow> frames s f;
     let fv = frame_values fr;
     v \<leftarrow> rd_val (slot_addr fv (h_a h)) s;
     callee \<leftarrow> classify v s;
     s \<leftarrow> (case callee_fact callee of (klass, varg) \<Rightarrow> v2_learn_callee (h_occ_slot h) klass varg s);
     case callee of
       Native closure desc \<Rightarrow> enter_iterator closure desc (slot_addr fv (h_a h + 1)) (slot_addr fv (h_a h + 3))
         (slot_addr (slot_addr fv (h_a h)) 3) h f s
     | Builtin \<Rightarrow> host_call_exit (h_a h) 3 (h_c h) (\<lambda>p. p\<lparr>hc_reserved := 1\<rparr>) h f s
     | Other \<Rightarrow> if tag v = LUA55_VALUE_CLOSURE \<and> payload v = 0 then None
         else reject_exit LUA55_V2_REJECT_UNSUPPORTED_CALLEE h f s}"

definition lua55_v2_tforloop :: stencil where
  "lua55_v2_tforloop h f s = do {
     base \<leftarrow> V2_VALUE_DISP (h_base_disp h) f s;
     control \<leftarrow> rd_val (slot_addr base 3) s;
     if tag control \<noteq> LUA55_VALUE_NIL then Some (Jump (h_body h) f, s) else LUA55_RESIDUAL_NEXT f s}"

text \<open>What \<open>cellp\<close> points to: the head of the chain in the frame, or the link of a cell.\<close>

datatype link = Head u64 | Link u64

fun rd_link :: "link \<Rightarrow> v2_state \<Rightarrow> u64 option" where
  "rd_link (Head f) s = map_option open_upvalues (frames s f)"
| "rd_link (Link c) s = map_option next_open (cells s c)"

definition upd_cell :: "u64 \<Rightarrow> (upvalue_cell \<Rightarrow> upvalue_cell) \<Rightarrow> v2_state \<Rightarrow> v2_state option" where
  "upd_cell c g s = do {
     cell \<leftarrow> cells s c;
     Some (s\<lparr>cells := (cells s)(c \<mapsto> g cell)\<rparr>)}"

fun wr_link :: "link \<Rightarrow> u64 \<Rightarrow> v2_state \<Rightarrow> v2_state option" where
  "wr_link (Head f) x s = upd_frame f (\<lambda>fr. fr\<lparr>open_upvalues := x\<rparr>) s"
| "wr_link (Link c) x s = upd_cell c (\<lambda>cell. cell\<lparr>next_open := x\<rparr>) s"

partial_function (option) close_from :: "link \<Rightarrow> u64 \<Rightarrow> v2_state \<Rightarrow> v2_state option" where
  "close_from cellp base s = do {
     c \<leftarrow> rd_link cellp s;
     if c = 0 then Some s
     else do {
       cell \<leftarrow> cells s c;
       if base \<le> open_slot cell then do {
         v \<leftarrow> rd_val (open_slot cell) s;
         s \<leftarrow> wr_val (c + OFFSET_CELL_CLOSED) v s;
         s \<leftarrow> upd_cell c (\<lambda>cell. cell\<lparr>open_slot := 0, cell_state := LUA55_UPVALUE_CLOSED,
           cell_generation := cell_generation cell + 1\<rparr>) s;
         n \<leftarrow> rd_link (Link c) s;
         s \<leftarrow> wr_link cellp n s;
         s \<leftarrow> upd_cell c (\<lambda>cell. cell\<lparr>next_open := 0\<rparr>) s;
         close_from cellp base s}
       else close_from (Link c) base s}}"

definition lua55_v2_close :: stencil where
  "lua55_v2_close h f s = do {
     base \<leftarrow> V2_VALUE_DISP (h_base_disp h) f s;
     s \<leftarrow> close_from (Head f) base s;
     LUA55_RESIDUAL_NEXT f s}"

definition lua55_v2_tbc :: stencil where
  "lua55_v2_tbc h f s = do {
     a \<leftarrow> V2_VALUE_DISP (h_base_disp h) f s;
     v \<leftarrow> rd_val a s;
     if tag v \<noteq> LUA55_VALUE_NIL \<and> tag v \<noteq> LUA55_VALUE_FALSE
     then reject_exit LUA55_V2_REJECT_UNSUPPORTED_METAMETHOD h f s
     else LUA55_RESIDUAL_NEXT f s}"

definition lua55_v2_errnnil :: stencil where
  "lua55_v2_errnnil h f s = do {
     a \<leftarrow> V2_VALUE_DISP (h_base_disp h) f s;
     v \<leftarrow> rd_val a s;
     if tag v \<noteq> LUA55_VALUE_NIL
     then LUA55_CPS_HOST_EXIT h f (upd_outcome (\<lambda>r. r\<lparr>discriminant := LUA55_V2_OUTCOME_GUEST_ERROR,
       guest_error := \<lparr>error_kind = 1, error_pc = h_pc h, error_value = v\<rparr>\<rparr>) s)
     else LUA55_RESIDUAL_NEXT f s}"

subsection \<open>Closing down to a register\<close>

definition opens_at :: "v2_state \<Rightarrow> u64 \<Rightarrow> u64 \<Rightarrow> bool" where
  "opens_at s base x \<longleftrightarrow> (case cells s x of None \<Rightarrow> False | Some cell \<Rightarrow> base \<le> open_slot cell)"

abbreviation (input) unlinked :: "upvalue_cell option \<Rightarrow> upvalue_cell option" where
  "unlinked \<equiv> map_option (\<lambda>cell. cell\<lparr>next_open := 0\<rparr>)"

abbreviation (input) headless :: "native_frame option \<Rightarrow> native_frame option" where
  "headless \<equiv> map_option (\<lambda>fr. fr\<lparr>open_upvalues := 0\<rparr>)"

definition outside :: "link \<Rightarrow> u64 list \<Rightarrow> bool" where
  "outside l xs \<longleftrightarrow> (\<forall>x\<in>set xs. l \<noteq> Link x)"

text \<open>
  What the walk from \<open>l\<close> over the chain \<open>xs\<close> leaves: the cells on a register at or above \<open>base\<close> are closed, with
  their values; the others are chained from \<open>l\<close> in the same order.
\<close>

definition closed_from :: "link \<Rightarrow> u64 \<Rightarrow> u64 list \<Rightarrow> v2_state \<Rightarrow> v2_state \<Rightarrow> bool" where
  "closed_from l base xs s t \<longleftrightarrow>
     (\<exists>m k g. t = s\<lparr>vals := m, cells := k, frames := g\<rparr>) \<and>
     (\<exists>c. rd_link l t = Some c \<and> open_chain t c (filter (\<lambda>x. \<not> opens_at s base x) xs)) \<and>
     (\<forall>x. x \<in> set xs \<and> opens_at s base x \<longrightarrow> cells t x = map_option closed_cell (cells s x) \<and>
        vals t (x + OFFSET_CELL_CLOSED) = (case cells s x of None \<Rightarrow> None | Some cell \<Rightarrow> vals s (open_slot cell))) \<and>
     (\<forall>x. \<not> (x \<in> set xs \<and> opens_at s base x) \<longrightarrow> unlinked (cells t x) = unlinked (cells s x)) \<and>
     (\<forall>x. x \<notin> set xs \<and> l \<noteq> Link x \<longrightarrow> cells t x = cells s x) \<and>
     (\<forall>a. a \<notin> (\<lambda>x. x + OFFSET_CELL_CLOSED) ` set xs \<longrightarrow> vals t a = vals s a) \<and>
     (\<forall>a. vals s a \<noteq> None \<longrightarrow> vals t a \<noteq> None) \<and>
     (\<forall>g. headless (frames t g) = headless (frames s g) \<and> (l \<noteq> Head g \<longrightarrow> frames t g = frames s g))"

lemma wr_link_spec:
  assumes "rd_link l s = Some c"
  shows "\<exists>k g. wr_link l x s = Some (s\<lparr>cells := k, frames := g\<rparr>) \<and> rd_link l (s\<lparr>cells := k, frames := g\<rparr>) = Some x \<and>
    (\<forall>y. unlinked (k y) = unlinked (cells s y) \<and> (l \<noteq> Link y \<longrightarrow> k y = cells s y)) \<and>
    (\<forall>y. headless (g y) = headless (frames s y) \<and> (l \<noteq> Head y \<longrightarrow> g y = frames s y))"
proof (cases l)
  case (Head f)
  with assms obtain fr where "frames s f = Some fr" by auto
  then show ?thesis using Head
    by (intro exI [of _ "cells s"] exI [of _ "(frames s)(f \<mapsto> fr\<lparr>open_upvalues := x\<rparr>)"]) (auto simp: upd_frame_def)
next
  case (Link p)
  with assms obtain cell where "cells s p = Some cell" by auto
  then show ?thesis using Link
    by (intro exI [of _ "(cells s)(p \<mapsto> cell\<lparr>next_open := x\<rparr>)"] exI [of _ "frames s"]) (auto simp: upd_cell_def)
qed

text \<open>One round of the walk that closes a cell.\<close>

lemma close_round:
  assumes c: "rd_link l s = Some x" "x \<noteq> 0" "cells s x = Some cell" "base \<le> open_slot cell"
    and v: "vals s (open_slot cell) = Some v" "vals s (x + OFFSET_CELL_CLOSED) \<noteq> None" and l: "l \<noteq> Link x"
  shows "\<exists>k g. (let u = s\<lparr>vals := (vals s)(x + OFFSET_CELL_CLOSED \<mapsto> v), cells := k(x \<mapsto> closed_cell cell), frames := g\<rparr> in
    close_from l base s = close_from l base u \<and> rd_link l u = Some (next_open cell)) \<and>
    (\<forall>y. y \<noteq> x \<longrightarrow> unlinked (k y) = unlinked (cells s y) \<and> (l \<noteq> Link y \<longrightarrow> k y = cells s y)) \<and>
    (\<forall>y. headless (g y) = headless (frames s y) \<and> (l \<noteq> Head y \<longrightarrow> g y = frames s y))"
proof -
  let ?c1 = "cell\<lparr>open_slot := 0, cell_state := LUA55_UPVALUE_CLOSED, cell_generation := cell_generation cell + 1\<rparr>"
  let ?s1 = "s\<lparr>vals := (vals s)(x + OFFSET_CELL_CLOSED \<mapsto> v), cells := (cells s)(x \<mapsto> ?c1)\<rparr>"
  have "rd_link l ?s1 = Some x" using c(1) l by (cases l) auto
  from wr_link_spec [OF this, of "next_open cell"] obtain k g where
    w: "wr_link l (next_open cell) ?s1 = Some (?s1\<lparr>cells := k, frames := g\<rparr>)" (is "_ = Some ?s2")
      "rd_link l (?s1\<lparr>cells := k, frames := g\<rparr>) = Some (next_open cell)"
      "\<forall>y. unlinked (k y) = unlinked (cells ?s1 y) \<and> (l \<noteq> Link y \<longrightarrow> k y = cells ?s1 y)"
      "\<forall>y. headless (g y) = headless (frames ?s1 y) \<and> (l \<noteq> Head y \<longrightarrow> g y = frames ?s1 y)" by blast
  have k: "k x = Some ?c1" using w(3) l by simp
  let ?u = "s\<lparr>vals := (vals s)(x + OFFSET_CELL_CLOSED \<mapsto> v), cells := k(x \<mapsto> closed_cell cell), frames := g\<rparr>"
  have u: "?s2\<lparr>cells := k(x \<mapsto> closed_cell cell)\<rparr> = ?u" by simp
  have "close_from l base s = close_from l base ?u"
    using c v k w(1) unfolding u [symmetric]
    by (subst close_from.simps) (auto simp: rd_val_def wr_val_defined upd_cell_def closed_cell_def)
  moreover have "rd_link l ?u = Some (next_open cell)"
    using w(2) l by (cases l) auto
  ultimately show ?thesis using w(3,4) by (intro exI [of _ k] exI [of _ g]) (auto simp: Let_def)
qed

lemma slots_apart_sub:
  "slots_apart s (x # xs) \<Longrightarrow> \<forall>y\<in>set xs. cells t y = cells s y \<Longrightarrow> slots_apart t xs"
  by (auto simp: slots_apart_def)

lemma closed_from_skip:
  assumes cl: "closed_from (Link x) base xs s t" and x: "cells s x = Some cell" "x \<noteq> 0" "\<not> base \<le> open_slot cell" "x \<notin> set xs"
    and o: "cell_state cell = LUA55_UPVALUE_OPEN" "vals s (open_slot cell) \<noteq> None" "vals s (x + OFFSET_CELL_CLOSED) \<noteq> None"
    and l: "outside l (x # xs)" "rd_link l s = Some x"
  shows "closed_from l base (x # xs) s t"
proof -
  have nx: "\<not> opens_at s base x" using x(1,3) by (simp add: opens_at_def)
  have "unlinked (cells t x) = unlinked (cells s x)" using cl nx by (auto simp: closed_from_def)
  then obtain cx where cx: "cells t x = Some cx" "cx\<lparr>next_open := 0\<rparr> = cell\<lparr>next_open := 0\<rparr>"
    using x(1) by (auto simp: map_option_case split: option.splits)
  have same: "cell_state cx = cell_state cell" "open_slot cx = open_slot cell"
    using cx(2) by (metis upvalue_cell.select_convs(1,3) upvalue_cell.surjective upvalue_cell.update_convs(2))+
  have m: "\<forall>a. vals s a \<noteq> None \<longrightarrow> vals t a \<noteq> None" using cl unfolding closed_from_def by blast
  have "rd_link l t = rd_link l s"
  proof (cases l)
    case (Link p)
    then have "p \<notin> set xs" "Link x \<noteq> Link p" using l(1) by (auto simp: outside_def)
    then have "cells t p = cells s p" using cl unfolding closed_from_def by metis
    then show ?thesis using Link by simp
  next
    case (Head g)
    then have "frames t g = frames s g" using cl unfolding closed_from_def by (metis link.distinct(1))
    then show ?thesis using Head by simp
  qed
  moreover have "open_chain t x (x # filter (\<lambda>x. \<not> opens_at s base x) xs)"
    using cl cx(1) same o m x(2) by (auto simp: closed_from_def)
  ultimately have "\<exists>c. rd_link l t = Some c \<and> open_chain t c (filter (\<lambda>x. \<not> opens_at s base x) (x # xs))"
    using l(2) nx by simp
  moreover have "cells t y = cells s y" if "y \<notin> set (x # xs)" for y
    using that cl unfolding closed_from_def by auto
  ultimately show ?thesis using cl nx unfolding closed_from_def by auto
qed

lemma closed_from_close:
  assumes cl: "closed_from l base xs u t" and x: "cells s x = Some cell" "base \<le> open_slot cell" "x \<notin> set xs"
    and u: "u = s\<lparr>vals := (vals s)(x + OFFSET_CELL_CLOSED \<mapsto> v), cells := k(x \<mapsto> closed_cell cell), frames := g\<rparr>"
      "vals s (open_slot cell) = Some v"
    and k: "\<forall>y. y \<noteq> x \<longrightarrow> unlinked (k y) = unlinked (cells s y) \<and> (l \<noteq> Link y \<longrightarrow> k y = cells s y)"
      "\<forall>y. headless (g y) = headless (frames s y) \<and> (l \<noteq> Head y \<longrightarrow> g y = frames s y)"
    and l: "outside l (x # xs)" and sa: "slots_apart s (x # xs)"
  shows "closed_from l base (x # xs) s t"
proof -
  have ox: "opens_at s base x" using x by (simp add: opens_at_def)
  have kx: "cells u y = cells s y" if "y \<in> set xs" for y using that k(1) l x(3) u(1) by (auto simp: outside_def)
  then have oy: "opens_at u base y = opens_at s base y" if "y \<in> set xs" for y using that by (simp add: opens_at_def)
  have fl: "filter (\<lambda>y. \<not> opens_at s base y) (x # xs) = filter (\<lambda>y. \<not> opens_at u base y) xs"
    using ox oy by (simp cong: filter_cong)
  have nx: "x + OFFSET_CELL_CLOSED \<notin> (\<lambda>x. x + OFFSET_CELL_CLOSED) ` set xs" using x(3) by auto
  have sy: "open_slot cy \<noteq> x + OFFSET_CELL_CLOSED" if "y \<in> set xs" "cells s y = Some cy" for y cy
    using sa that by (force simp: slots_apart_def)
  have tx: "cells t x = Some (closed_cell cell)" "vals t (x + OFFSET_CELL_CLOSED) = Some v"
    using cl x(3) l nx u(1) by (auto simp: closed_from_def outside_def)
  have ty: "cells t y = map_option closed_cell (cells s y) \<and>
      vals t (y + OFFSET_CELL_CLOSED) = (case cells s y of None \<Rightarrow> None | Some cy \<Rightarrow> vals s (open_slot cy))"
    if "y \<in> set xs" "opens_at s base y" for y
  proof -
    have "vals u (open_slot cy) = vals s (open_slot cy)" if "cells s y = Some cy" for cy
      using sy [OF \<open>y \<in> set xs\<close> that] u(1) by simp
    then show ?thesis using cl that oy [OF that(1)] kx [OF that(1)] unfolding closed_from_def
      by (cases "cells s y") auto
  qed
  have ul: "unlinked (cells t y) = unlinked (cells s y)" if "\<not> (y \<in> set (x # xs) \<and> opens_at s base y)" for y
  proof -
    have "y \<noteq> x" using that ox by auto
    moreover have "\<not> (y \<in> set xs \<and> opens_at u base y)" using that oy by auto
    then have "unlinked (cells t y) = unlinked (cells u y)" using cl unfolding closed_from_def by blast
    ultimately show ?thesis using k(1) u(1) by simp
  qed
  have out: "cells t y = cells s y" if "y \<notin> set (x # xs)" "l \<noteq> Link y" for y
    using that cl k(1) u(1) unfolding closed_from_def by auto
  have va: "vals t a = vals s a" if "a \<notin> (\<lambda>x. x + OFFSET_CELL_CLOSED) ` set (x # xs)" for a
    using that cl u(1) unfolding closed_from_def by auto
  have vm: "vals t a \<noteq> None" if "vals s a \<noteq> None" for a
    using that cl u(1) unfolding closed_from_def by auto
  have fr: "headless (frames t y) = headless (frames s y) \<and> (l \<noteq> Head y \<longrightarrow> frames t y = frames s y)" for y
    using cl k(2) u(1) unfolding closed_from_def by auto
  have st: "\<exists>m k g. t = s\<lparr>vals := m, cells := k, frames := g\<rparr>"
    using cl u(1) unfolding closed_from_def by auto
  have ch: "\<exists>c. rd_link l t = Some c \<and> open_chain t c (filter (\<lambda>y. \<not> opens_at s base y) (x # xs))"
    using cl unfolding fl closed_from_def by blast
  show ?thesis unfolding closed_from_def
  proof (intro conjI)
    show "\<forall>y. y \<in> set (x # xs) \<and> opens_at s base y \<longrightarrow> cells t y = map_option closed_cell (cells s y) \<and>
        vals t (y + OFFSET_CELL_CLOSED) = (case cells s y of None \<Rightarrow> None | Some cell \<Rightarrow> vals s (open_slot cell))"
      using ty tx x(1) u(2) by auto
  qed (use st ch ul out va vm fr in blast)+
qed

lemma close_from_spec:
  assumes "rd_link l s = Some c" and "open_chain s c xs" and "distinct xs" and "outside l xs" and "slots_apart s xs"
  shows "\<exists>t. close_from l base s = Some t \<and> closed_from l base xs s t"
  using assms
proof (induction xs arbitrary: l c s)
  case Nil
  then have "close_from l base s = Some s" by (subst close_from.simps) simp
  moreover have "\<exists>m k g. s = s\<lparr>vals := m, cells := k, frames := g\<rparr>"
    by (intro exI [of _ "vals s"] exI [of _ "cells s"] exI [of _ "frames s"]) simp
  ultimately show ?case using Nil unfolding closed_from_def by (intro exI [of _ s] conjI) auto
next
  case (Cons x xs)
  then obtain cell v where x: "c = x" "x \<noteq> 0" "cells s x = Some cell" "cell_state cell = LUA55_UPVALUE_OPEN"
      "vals s (open_slot cell) = Some v" "vals s (x + OFFSET_CELL_CLOSED) \<noteq> None" "open_chain s (next_open cell) xs"
    by (auto split: option.splits)
  have d: "x \<notin> set xs" "distinct xs" "l \<noteq> Link x" using Cons.prems(3,4) by (auto simp: outside_def)
  show ?case
  proof (cases "base \<le> open_slot cell")
    case True
    from close_round [OF _ x(2,3) True x(5,6) d(3)] Cons.prems(1) x(1) obtain k g u where
      u: "u = s\<lparr>vals := (vals s)(x + OFFSET_CELL_CLOSED \<mapsto> v), cells := k(x \<mapsto> closed_cell cell), frames := g\<rparr>"
        "close_from l base s = close_from l base u" "rd_link l u = Some (next_open cell)"
      and k: "\<forall>y. y \<noteq> x \<longrightarrow> unlinked (k y) = unlinked (cells s y) \<and> (l \<noteq> Link y \<longrightarrow> k y = cells s y)"
        "\<forall>y. headless (g y) = headless (frames s y) \<and> (l \<noteq> Head y \<longrightarrow> g y = frames s y)"
      by (auto simp: Let_def)
    have same: "\<forall>y\<in>set xs. cells u y = cells s y"
      using u(1) k(1) d(1) Cons.prems(4) by (auto simp: outside_def)
    have "open_chain u (next_open cell) xs" by (rule open_chain_frame [OF same _ x(7)]) (simp add: u(1))
    moreover have "outside l xs" using Cons.prems(4) by (simp add: outside_def)
    ultimately obtain t where "close_from l base u = Some t" "closed_from l base xs u t"
      using Cons.IH [OF u(3) _ d(2) _ slots_apart_sub [OF Cons.prems(5) same]] by blast
    then show ?thesis using u closed_from_close [OF _ x(3) True d(1) u(1) x(5) k Cons.prems(4,5)] by auto
  next
    case False
    have "outside (Link x) xs" using d(1) by (auto simp: outside_def)
    moreover have "slots_apart s xs" using slots_apart_sub [OF Cons.prems(5)] by blast
    ultimately obtain t where t: "close_from (Link x) base s = Some t" "closed_from (Link x) base xs s t"
      using Cons.IH [of "Link x" s "next_open cell"] x(3,7) d(2) by auto
    have "close_from l base s = close_from (Link x) base s"
      using Cons.prems(1) x(1-3) False by (subst close_from.simps) simp
    then show ?thesis
      using t closed_from_skip [OF t(2) x(3,2) False d(1) x(4) _ x(6) Cons.prems(4)] x(1,5) Cons.prems(1) by auto
  qed
qed

text \<open>
  C22. \<open>CLOSE\<close> from a register on. For a finite chain of open cells the walk ends. Exactly the cells that are
  open on that register or a later one are closed, each with the value its closure saw; the
  other cells stay open on their registers, and the frame chains exactly those, in the old
  order. No register changes.
\<close>

theorem close_keeps_lower_cells:
  assumes "frames s f = Some fr" and "open_chain s (open_upvalues fr) xs" and "distinct xs" and "slots_apart s xs"
    and base_def: "base = frame_values fr + scast (h_base_disp h)"
  shows "\<exists>t fr'. lua55_v2_close h f s = Some (Next f, t) \<and> frames t f = Some fr' \<and>
    fr'\<lparr>open_upvalues := 0\<rparr> = fr\<lparr>open_upvalues := 0\<rparr> \<and>
    open_chain t (open_upvalues fr') (filter (\<lambda>x. \<not> opens_at s base x) xs) \<and>
    (\<forall>x\<in>set xs. if opens_at s base x
       then cells t x = map_option closed_cell (cells s x) \<and> rd_upvalue x t = rd_upvalue x s
       else map_option open_slot (cells t x) = map_option open_slot (cells s x)) \<and>
    (\<forall>x. x \<notin> set xs \<longrightarrow> cells t x = cells s x) \<and>
    (\<forall>a. a \<notin> (\<lambda>x. x + OFFSET_CELL_CLOSED) ` set xs \<longrightarrow> vals t a = vals s a)"
proof -
  have "rd_link (Head f) s = Some (open_upvalues fr)" "outside (Head f) xs" using assms(1) by (simp_all add: outside_def)
  from close_from_spec [OF this(1) assms(2,3) this(2) assms(4), of base] obtain t where
    t: "close_from (Head f) base s = Some t" and cl: "closed_from (Head f) base xs s t" by blast
  from cl have "headless (frames t f) = headless (frames s f)" unfolding closed_from_def by blast
  then obtain fr' where fr': "frames t f = Some fr'" "fr'\<lparr>open_upvalues := 0\<rparr> = fr\<lparr>open_upvalues := 0\<rparr>"
    using assms(1) by auto
  have "lua55_v2_close h f s = Some (Next f, t)"
    using assms(1) t by (simp add: lua55_v2_close_def V2_VALUE_DISP_def base_def LUA55_RESIDUAL_NEXT_def)
  moreover have "open_chain t (open_upvalues fr') (filter (\<lambda>x. \<not> opens_at s base x) xs)"
    using cl fr'(1) unfolding closed_from_def by auto
  moreover have "cells t x = map_option closed_cell (cells s x) \<and> rd_upvalue x t = rd_upvalue x s"
    if "x \<in> set xs" "opens_at s base x" for x
  proof -
    from that(2) obtain cell where c: "cells s x = Some cell" by (auto simp: opens_at_def split: option.splits)
    then have "cells t x = Some (closed_cell cell)" "vals t (x + OFFSET_CELL_CLOSED) = vals s (open_slot cell)"
      using cl that unfolding closed_from_def by (metis option.map(2), metis option.simps(5))
    then show ?thesis using c chain_open [OF assms(2) that(1) c]
      by (simp add: rd_upvalue_def cell_location_def rd_val_def closed_cell_def)
  qed
  moreover have "map_option open_slot (cells t x) = map_option open_slot (cells s x)" if "\<not> opens_at s base x" for x
  proof -
    have "unlinked (cells t x) = unlinked (cells s x)" using cl that unfolding closed_from_def by blast
    then have "map_option open_slot (unlinked (cells t x)) = map_option open_slot (unlinked (cells s x))" by simp
    then show ?thesis by (simp add: option.map_comp o_def)
  qed
  ultimately show ?thesis using cl fr' unfolding closed_from_def by (intro exI [of _ t] exI [of _ fr']) auto
qed

theorem close_keeps_lower_cells_witness:
  "\<exists>t fr'. lua55_v2_close (blank_holes\<lparr>h_base_disp := 16\<rparr>) 0x100 upvalue_example = Some (Next 0x100, t) \<and>
     frames t 0x100 = Some fr' \<and> open_chain t (open_upvalues fr') [0x2000] \<and>
     rd_upvalue 0x3000 t = Some (mk_value 2 0)"
proof -
  let ?fr = "blank_frame\<lparr>open_upvalues := 0x2000, frame_values := 0x1000, upvalues := 0x500\<rparr>"
  have 1: "frames upvalue_example 0x100 = Some ?fr" by (simp add: upvalue_example_def)
  have 2: "open_chain upvalue_example (open_upvalues ?fr) [0x2000, 0x3000]" by (simp add: upvalue_example_def)
  have 3: "slots_apart upvalue_example [0x2000, 0x3000]" by (simp add: upvalue_example_def slots_apart_def)
  have 4: "\<not> opens_at upvalue_example 0x1010 0x2000" "opens_at upvalue_example 0x1010 0x3000"
    by (simp_all add: opens_at_def upvalue_example_def)
  have 5: "rd_upvalue 0x3000 upvalue_example = Some (mk_value 2 0)"
    by (simp add: upvalue_example_def rd_upvalue_def cell_location_def rd_val_def)
  show ?thesis
    using close_keeps_lower_cells [OF 1 2 _ 3, of "0x1010" "blank_holes\<lparr>h_base_disp := 16\<rparr>"] 4 5 by auto
qed

subsection \<open>One round of a generic loop\<close>

text \<open>
  A loop about to call a native iterator: the results fit in the caller, the arena has room for the
  new frame, whose values are mapped and apart from the state and the control.
\<close>

definition can_iterate :: "holes \<Rightarrow> u64 \<Rightarrow> native_frame \<Rightarrow> u64 \<Rightarrow> function_descriptor \<Rightarrow> v2_state \<Rightarrow> bool" where
  "can_iterate h f fr closure desc s \<longleftrightarrow>
     (let cf = frame_next (inv s); new = span (cf + SIZEOF_FRAME) 0 (max 2 (unat (numparams desc)));
          st = slot_addr (frame_values fr) (h_a h + 1); ctl = slot_addr (frame_values fr) (h_a h + 3) in
      learning_ok s \<and> frames s f = Some fr \<and> call_ops h f s = Some (Native closure desc) \<and>
      h_a h + 3 + h_c h \<le> value_capacity fr \<and>
      unat cf + unat (frame_bytes desc 0) \<le> unat (frame_end (inv s)) \<and>
      mapped new s \<and> mapped [st, ctl] s \<and> st \<notin> set new \<and> ctl \<notin> set new)"

definition iterator_frame :: "holes \<Rightarrow> u64 \<Rightarrow> native_frame \<Rightarrow> u64 \<Rightarrow> function_descriptor \<Rightarrow> v2_state \<Rightarrow> native_frame" where
  "iterator_frame h f fr closure desc s = new_frame closure desc 0 (frame_next (inv s)) f (h_continuation h)
     (call_sink (slot_addr (slot_addr (frame_values fr) (h_a h)) 3) (h_a h + 3) (h_c h) f fr)"

text \<open>The parameters of the iterator: the state, the control, nil for the others.\<close>

definition iterated :: "u64 \<Rightarrow> u64 \<Rightarrow> u64 \<Rightarrow> nat \<Rightarrow> (u64 \<rightharpoonup> lua_value) \<Rightarrow> (u64 \<rightharpoonup> lua_value) \<Rightarrow> bool" where
  "iterated dst st ctl np v m \<longleftrightarrow> m (slot_addr dst 0) = v st \<and> m (slot_addr dst 1) = v ctl \<and>
     (\<forall>k. 2 \<le> k \<and> k < np \<longrightarrow> m (slot_addr dst (word_of_nat k)) =
        map_option (SET_TAG LUA55_VALUE_NIL) (v (slot_addr dst (word_of_nat k)))) \<and>
     (\<forall>a. a \<notin> set (span dst 0 (max 2 np)) \<longrightarrow> m a = v a)"

lemma pass_iterated:
  assumes new: "mapped (span dst 0 (max 2 np)) s" and np: "np < 2 ^ 32"
    and v: "vals s st = Some a" "vals s ctl = Some b" and ap: "ctl \<noteq> slot_addr dst 0"
  shows "\<exists>m. (do {
      a \<leftarrow> rd_val st s; s \<leftarrow> wr_val (slot_addr dst 0) a s; b \<leftarrow> rd_val ctl s; s \<leftarrow> wr_val (slot_addr dst 1) b s;
      nil_span dst 2 (np - 2) s}) = Some (s\<lparr>vals := m\<rparr>) \<and> iterated dst st ctl np (vals s) m"
proof -
  let ?n = "max 2 np" and ?r = "span dst 2 (np - 2)"
  have sp: "set ?r \<subseteq> set (span dst 0 ?n)" using span_part [of 2 "np - 2" ?n dst 0] by simp
  have two: "span dst 0 2 = [slot_addr dst 0, slot_addr dst 1]" by (simp add: span_def upt_rec)
  have sub2: "set (span dst 0 2) \<subseteq> set (span dst 0 ?n)" using span_part [of 0 2 ?n dst 0] by simp
  have m01: "vals s (slot_addr dst 0) \<noteq> None" "vals s (slot_addr dst 1) \<noteq> None"
    using mapped_subset [OF new sub2] by (simp_all add: two)
  have ap2: "slot_addr dst 0 \<notin> set ?r" "slot_addr dst 1 \<notin> set ?r"
    using span_apart [of 0 2 2 "np - 2" dst] np unfolding two by simp_all
  let ?u = "s\<lparr>vals := (vals s)(slot_addr dst 0 \<mapsto> a, slot_addr dst 1 \<mapsto> b)\<rparr>"
  have "mapped ?r ?u" using mapped_subset [OF new sp] by (auto simp: mapped_def)
  note run = nil_span_spec [OF this]
  let ?m = "\<lambda>x. if x \<in> set ?r then map_option (SET_TAG LUA55_VALUE_NIL) (vals ?u x) else vals ?u x"
  have inr: "slot_addr dst (word_of_nat k) \<in> set ?r \<and> slot_addr dst (word_of_nat k) \<noteq> slot_addr dst 0 \<and>
      slot_addr dst (word_of_nat k) \<noteq> slot_addr dst 1" if "2 \<le> k" "k < np" for k
  proof -
    have "slot_addr dst (2 + word_of_nat (k - 2)) \<in> set ?r" using that by (intro slot_in_span) simp
    moreover have "2 + word_of_nat (k - 2) = (word_of_nat k :: u32)"
      using that(1) of_nat_add [of 2 "k - 2", where 'a = u32] by simp
    ultimately show ?thesis using ap2 by metis
  qed
  have "iterated dst st ctl np (vals s) ?m" unfolding iterated_def
  proof (intro conjI allI impI)
    show "?m x = vals s x" if "x \<notin> set (span dst 0 ?n)" for x
      using that sp sub2 unfolding two by auto
  qed (use ap2 v inr in \<open>auto\<close>)
  moreover have "vals s st = Some a" by (rule v)
  ultimately show ?thesis using v m01 ap run
    by (intro exI [of _ ?m]) (simp add: rd_val_def wr_val_defined)
qed

lemma iterator_enters:
  assumes "can_iterate h f fr closure desc s"
  defines "cf \<equiv> frame_next (inv s)"
  shows "\<exists>t. lua55_v2l_tforcall h f s = Some (Jump (desc_entry desc) cf, t) \<and>
    frames t = (frames s)(cf \<mapsto> iterator_frame h f fr closure desc s) \<and>
    tops t = (tops s)(cf + OFFSET_FRAME_TOP \<mapsto> min_top 2 desc) \<and>
    current_frame (inv t) = cf \<and> frame_next (inv t) = cf + frame_bytes desc 0 \<and> frame_next (inv t) \<le> frame_end (inv t) \<and>
    iterated (cf + SIZEOF_FRAME) (slot_addr (frame_values fr) (h_a h + 1)) (slot_addr (frame_values fr) (h_a h + 3))
      (unat (numparams desc)) (vals s) (vals t)"
proof -
  let ?dst = "cf + SIZEOF_FRAME" and ?np = "unat (numparams desc)" and ?fv = "frame_values fr"
  let ?st = "slot_addr ?fv (h_a h + 1)" and ?ctl = "slot_addr ?fv (h_a h + 3)"
  have c: "learning_ok s" "frames s f = Some fr" "call_ops h f s = Some (Native closure desc)"
      "h_a h + 3 + h_c h \<le> value_capacity fr" "unat cf + unat (frame_bytes desc 0) \<le> unat (frame_end (inv s))"
      "mapped (span ?dst 0 (max 2 ?np)) s" "mapped [?st, ?ctl] s" "?ctl \<notin> set (span ?dst 0 (max 2 ?np))"
    using assms(1) by (simp_all add: can_iterate_def cf_def Let_def)
  obtain v where v: "rd_val (slot_addr ?fv (h_a h)) s = Some v" "classify v s = Some (Native closure desc)"
    using c(2,3) by (auto simp: call_ops_def bind_eq_Some_conv)
  have e: "unat (cf + frame_bytes desc 0) = unat cf + unat (frame_bytes desc 0)"
    using c(5) unat64_less [of "frame_end (inv s)"] by (intro unat_plus64) linarith
  obtain m where m: "learn_at (h_occ_slot h) (observe_pair (1, is_vararg desc)) s = Some (s\<lparr>slots := m\<rparr>)"
    using learn_at_cases [OF c(1)] by blast
  let ?u = "put_frame cf (min_top 2 desc) (iterator_frame h f fr closure desc s)
    (upd_inv (\<lambda>i. i\<lparr>frame_next := cf + frame_bytes desc 0\<rparr>) (s\<lparr>slots := m\<rparr>))"
  have uv: "vals ?u = vals s" by (simp add: put_frame_def upd_inv_def)
  have "slot_addr ?dst 0 \<in> set (span ?dst 0 (max 2 ?np))" using slot_in_span [of 0 "max 2 ?np" ?dst 0] by simp
  then have ne: "?ctl \<noteq> slot_addr ?dst 0" using c(8) by metis
  have "mapped (span ?dst 0 (max 2 ?np)) ?u" using c(6) uv by (simp add: mapped_def)
  moreover obtain a b where "vals ?u ?st = Some a" "vals ?u ?ctl = Some b" using c(7) uv by auto
  ultimately obtain w where w: "(do {
      a \<leftarrow> rd_val ?st ?u; s \<leftarrow> wr_val (slot_addr ?dst 0) a ?u; b \<leftarrow> rd_val ?ctl s; s \<leftarrow> wr_val (slot_addr ?dst 1) b s;
      nil_span ?dst 2 (?np - 2) s}) = Some (?u\<lparr>vals := w\<rparr>)" "iterated ?dst ?st ?ctl ?np (vals ?u) w"
    using pass_iterated [where s = ?u, OF _ unat32_less _ _ ne] by blast
  let ?t = "upd_inv (\<lambda>i. i\<lparr>current_frame := cf\<rparr>) (?u\<lparr>vals := w\<rparr>)"
  have "\<not> value_capacity fr < h_a h + 3 + h_c h" "\<not> frame_end (inv s) < cf + frame_bytes desc 0"
    using c(4,5) e by (simp_all add: word_less_nat_alt word_le_nat_alt)
  then have "enter_iterator closure desc ?st ?ctl (slot_addr (slot_addr ?fv (h_a h)) 3) h f (s\<lparr>slots := m\<rparr>) = (do {
      a \<leftarrow> rd_val ?st ?u; s \<leftarrow> wr_val (slot_addr ?dst 0) a ?u; b \<leftarrow> rd_val ?ctl s; s \<leftarrow> wr_val (slot_addr ?dst 1) b s;
      nil_span ?dst 2 (?np - 2) s}) \<bind> (\<lambda>s. Some (Jump (desc_entry desc) cf, upd_inv (\<lambda>i. i\<lparr>current_frame := cf\<rparr>) s))"
    using c(2) by (simp add: enter_iterator_def Let_def cf_def iterator_frame_def)
  then have "lua55_v2l_tforcall h f s = Some (Jump (desc_entry desc) cf, ?t)"
    using c(2) v m w(1) by (simp add: lua55_v2l_tforcall_def Let_def v2_learn_callee_def)
  moreover have "cf + frame_bytes desc 0 \<le> frame_end (inv s)" using c(5) e by (simp add: word_le_nat_alt)
  ultimately show ?thesis using w(2) uv by (auto simp: upd_inv_def put_frame_def)
qed

lemma tforloop_decides:
  assumes "frames v f = Some fr" and "scast (h_base_disp hl) = (16 * ucast (h_a h) :: u64)"
    and "vals v (slot_addr (slot_addr (frame_values fr) (h_a h)) 3) = Some c"
  shows "lua55_v2_tforloop hl f v = Some (if tag c \<noteq> LUA55_VALUE_NIL then Jump (h_body hl) f else Next f, v)"
  using assms by (simp add: lua55_v2_tforloop_def V2_VALUE_DISP_def slot_addr_def rd_val_def LUA55_RESIDUAL_NEXT_def)

text \<open>The first loop variable after the return.\<close>

lemma first_delivered:
  assumes d: "delivered sink n src j v m" and room: "sink_room sink n src j u" "vals u = v"
    and c: "sink_fills sink n \<noteq> 0"
  shows "\<exists>c. m (slot_addr (sink_values sink) 0) = Some c \<and>
    (tag c \<noteq> LUA55_VALUE_NIL \<longleftrightarrow> n \<noteq> 0 \<and> map_option tag (v (slot_addr src j)) \<noteq> Some LUA55_VALUE_NIL)"
proof -
  have pos: "0 < unat (sink_fills sink n)" using c by (simp add: unat_gt_0)
  have "m (slot_addr (sink_values sink) (word_of_nat 0)) = (if 0 < unat n then v (slot_addr src (j + word_of_nat 0))
      else map_option (SET_TAG LUA55_VALUE_NIL) (v (slot_addr (sink_values sink) (word_of_nat 0))))"
    using d pos unfolding delivered_def by blast
  then have d0: "m (slot_addr (sink_values sink) 0) = (if n \<noteq> 0 then v (slot_addr src j)
      else map_option (SET_TAG LUA55_VALUE_NIL) (v (slot_addr (sink_values sink) 0)))"
    by (simp add: unat_gt_0)
  have "v (slot_addr (sink_values sink) 0) \<noteq> None"
    using room slot_in_span [OF pos, of "sink_values sink" 0] by (auto simp: sink_room_def mapped_def)
  moreover have "n \<noteq> 0 \<Longrightarrow> v (slot_addr src j) \<noteq> None"
    using room slot_in_span [of 0 "unat n" src j] by (auto simp: sink_room_def mapped_def unat_gt_0)
  ultimately show ?thesis using d0 by (auto simp: SET_TAG_def)
qed

text \<open>
  C23. One round of a generic \<open>for\<close>. \<open>TFORCALL\<close> enters a native iterator with the state and the control as its
  first two parameters and nil for the others. Let the iterator run to any state in which its
  frame is the current one, is as the call made it and holds \<open>n\<close> results; \<open>RETURN\<close> then jumps to the
  continuation with the arena as it was before the round, the first \<open>C\<close> results (nil where there are
  fewer) in the loop variables, and \<open>TFORLOOP\<close> goes on with the body exactly when the first of
  them is there and not nil.
\<close>

theorem generic_for_round:
  assumes call: "can_iterate h f fr closure desc s" and cf: "cf = frame_next (inv s)"
    and dst: "dst = slot_addr (slot_addr (frame_values fr) (h_a h)) 3" "dst \<noteq> 0"
    and run: "lua55_v2l_tforcall h f s = Some (Jump (desc_entry desc) cf, t)"
    and callee: "frames u cf = frames t cf" "frames u f = Some fr" "current_frame (inv u) = cf"
    and ret: "h_b hr = n + 1" "0 \<le>s n"
    and wanted: "0 \<le>s h_c h" "h_c h \<noteq> 0"
    and room: "sink_room (call_sink dst (h_a h + 3) (h_c h) f fr) n (cf + SIZEOF_FRAME) (h_a hr) u"
    and loop: "scast (h_base_disp hl) = (16 * ucast (h_a h) :: u64)"
  shows "iterated (cf + SIZEOF_FRAME) (slot_addr (frame_values fr) (h_a h + 1)) (slot_addr (frame_values fr) (h_a h + 3))
      (unat (numparams desc)) (vals s) (vals t) \<and>
    (\<exists>v. lua55_cps_return hr cf u = Some (Jump (h_continuation h) f, v) \<and>
      frame_next (inv v) = frame_next (inv s) \<and> current_frame (inv v) = f \<and>
      (\<forall>k<unat (h_c h). vals v (slot_addr dst (word_of_nat k)) =
         (if k < unat n then vals u (slot_addr (cf + SIZEOF_FRAME) (h_a hr + word_of_nat k))
          else map_option (SET_TAG LUA55_VALUE_NIL) (vals u (slot_addr dst (word_of_nat k))))) \<and>
      lua55_v2_tforloop hl f v = Some
        (if n \<noteq> 0 \<and> map_option tag (vals u (slot_addr (cf + SIZEOF_FRAME) (h_a hr))) \<noteq> Some LUA55_VALUE_NIL
         then Jump (h_body hl) f else Next f, v))"
proof -
  let ?sk = "call_sink dst (h_a h + 3) (h_c h) f fr"
  let ?cfr = "iterator_frame h f fr closure desc s"
  obtain t' where t': "lua55_v2l_tforcall h f s = Some (Jump (desc_entry desc) cf, t')"
      "frames t' = (frames s)(cf \<mapsto> ?cfr)"
      "iterated (cf + SIZEOF_FRAME) (slot_addr (frame_values fr) (h_a h + 1)) (slot_addr (frame_values fr) (h_a h + 3))
        (unat (numparams desc)) (vals s) (vals t')"
    using iterator_enters [OF call] cf by blast
  have tt: "t' = t" using t'(1) run by simp
  have ucf: "frames u cf = Some ?cfr" using t'(2) callee(1) tt by simp
  have f: "frame_sink ?cfr = ?sk" "frame_values ?cfr = cf + SIZEOF_FRAME" "open_upvalues ?cfr = 0" "caller ?cfr = f"
      "return_entry ?cfr = h_continuation h" "return_subject ?cfr = f"
    by (simp_all add: iterator_frame_def new_frame_def cf dst(1))
  have k: "sink_values ?sk = dst" "sink_base ?sk = h_a h + 3" "sink_capacity ?sk = value_capacity fr"
      "sink_count ?sk = h_c h" by (simp_all add: call_sink_def)
  have w: "sink_fills ?sk n = h_c h" using sink_takes_fills(3) [OF ret(2), of ?sk] wanted(1) by (simp add: k)
  have "h_b hr \<noteq> 0" using ret by (auto simp: eq_neg_iff_add_eq_0 [symmetric] word_sle_eq)
  then have b: "lua55_cps_return hr cf u = return_body n hr cf u"
    using ret(1) by (simp add: lua55_cps_return_def V2_RETURN_B_def)
  have cap: "h_a h + 3 + h_c h \<le> value_capacity fr" using call by (simp add: can_iterate_def Let_def)
  obtain v where v: "lua55_cps_return hr cf u = Some (Jump (h_continuation h) f, v)" "frame_next (inv v) = cf"
      "current_frame (inv v) = f" "frames v = frames u" and d: "delivered ?sk n (cf + SIZEOF_FRAME) (h_a hr) (vals u) (vals v)"
    using return_delivers [OF ucf f(3) callee(3) ret(2), of hr] dst(2) cap room
    unfolding f k w b by auto
  have d': "vals v (slot_addr dst (word_of_nat k)) =
      (if k < unat n then vals u (slot_addr (cf + SIZEOF_FRAME) (h_a hr + word_of_nat k))
       else map_option (SET_TAG LUA55_VALUE_NIL) (vals u (slot_addr dst (word_of_nat k))))" if "k < unat (h_c h)" for k
    using d that unfolding delivered_def k w by blast
  obtain c where c: "vals v (slot_addr dst 0) = Some c" "tag c \<noteq> LUA55_VALUE_NIL \<longleftrightarrow> n \<noteq> 0 \<and>
      map_option tag (vals u (slot_addr (cf + SIZEOF_FRAME) (h_a hr))) \<noteq> Some LUA55_VALUE_NIL"
    using first_delivered [OF d room refl] wanted(2) unfolding k w by blast
  have "slot_addr (slot_addr (frame_values fr) (h_a h)) 3 = slot_addr dst 0" using dst(1) by (simp add: slot_addr_def)
  then have "lua55_v2_tforloop hl f v = Some
        (if n \<noteq> 0 \<and> map_option tag (vals u (slot_addr (cf + SIZEOF_FRAME) (h_a hr))) \<noteq> Some LUA55_VALUE_NIL
         then Jump (h_body hl) f else Next f, v)"
    using tforloop_decides [of v f fr hl h c] v(4) callee(2) loop c by simp
  then show ?thesis using t'(3) tt v(1-3) d' cf by auto
qed

text \<open>A loop of one variable over an iterator of one parameter that returns its parameter.\<close>

definition iter_desc :: function_descriptor where
  "iter_desc = call_desc\<lparr>is_vararg := 0\<rparr>"

definition iter_example :: v2_state where
  "iter_example = call_example\<lparr>frames := [0x100 \<mapsto> call_caller],
     vals := (vals call_example)(0x1030 \<mapsto> mk_value 0 0),
     inv := (inv call_example)\<lparr>function_table := [0 \<mapsto> iter_desc]\<rparr>\<rparr>"

definition iter_holes :: holes where
  "iter_holes = blank_holes\<lparr>h_c := 1, h_continuation := 0x77, h_body := 0x99\<rparr>"

lemma iter_example_facts:
  "can_iterate iter_holes 0x100 call_caller 0x800 iter_desc iter_example"
  "frame_next (inv iter_example) = 0x2000"
proof -
  have sp: "span 0x2078 0 2 = [0x2078, 0x2088]" by (simp add: span_def slot_addr_def upt_rec)
  have b: "unat (frame_bytes iter_desc 0) = 176" by (simp add: frame_bytes_value iter_desc_def call_desc_def)
  show "can_iterate iter_holes 0x100 call_caller 0x800 iter_desc iter_example"
    using b sp
    by (simp add: can_iterate_def iter_example_def call_example_def iter_holes_def call_caller_def learning_ok_def call_ops_def
        rd_val_def slot_addr_def classify_def mk_value_def iter_desc_def call_desc_def word_le_nat_alt mapped_def)
qed (simp add: iter_example_def call_example_def)

theorem generic_for_round_witness:
  "\<exists>t v. lua55_v2l_tforcall iter_holes 0x100 iter_example = Some (Jump 0x9000 0x2000, t) \<and>
    lua55_cps_return (blank_holes\<lparr>h_b := 2\<rparr>) 0x2000 t = Some (Jump 0x77 0x100, v) \<and>
    lua55_v2_tforloop iter_holes 0x100 v = Some (Jump 0x99 0x100, v)"
proof -
  let ?hr = "blank_holes\<lparr>h_b := 2\<rparr>"
  have d: "desc_entry iter_desc = 0x9000" "frame_values call_caller = 0x1000" "h_a iter_holes = 0" "h_c iter_holes = 1"
      "h_continuation iter_holes = 0x77" "numparams iter_desc = 1" "h_body iter_holes = 0x99" "h_base_disp iter_holes = 0"
    by (simp_all add: iter_desc_def call_desc_def call_caller_def iter_holes_def)
  obtain t where t: "lua55_v2l_tforcall iter_holes 0x100 iter_example = Some (Jump (desc_entry iter_desc) 0x2000, t)"
      "frames t = (frames iter_example)(0x2000 \<mapsto> iterator_frame iter_holes 0x100 call_caller 0x800 iter_desc iter_example)"
      "current_frame (inv t) = 0x2000" "tops t = (tops iter_example)(0x2068 \<mapsto> min_top 2 iter_desc)"
      "iterated 0x2078 (slot_addr 0x1000 1) (slot_addr 0x1000 3) 1 (vals iter_example) (vals t)"
    using iterator_enters [OF iter_example_facts(1)] iter_example_facts(2) d by auto
  have sp: "span 0x2078 0 2 = [0x2078, 0x2088]" "span 0x1030 0 1 = [0x1030]" "span 0x2078 0 1 = [0x2078]"
    by (simp_all add: span_def slot_addr_def upt_rec)
  have v: "vals t 0x1030 = Some (mk_value 0 0)" "vals t 0x2078 = Some (mk_value 3 5)" "tops t 0x168 = Some 0"
      "frames t 0x100 = Some call_caller"
    using t(2,4,5) sp by (auto simp: iterated_def slot_addr_def iter_example_def call_example_def)
  have r: "sink_room (call_sink 0x1030 3 1 0x100 call_caller) 1 0x2078 0 t"
    using v sp by (simp add: sink_room_def call_sink_def sink_fills_def mapped_def word_sle_eq)
  show ?thesis
    using generic_for_round [OF iter_example_facts(1) _ _ _ t(1) refl v(4) t(3), of "0x1030" ?hr 1 iter_holes] r t(1) v(2)
      iter_example_facts(2)
    by (auto simp: d slot_addr_def word_sle_eq mk_value_def)
qed

end
