(* ===== verification/Retained_Leaves.thy ===== *)
theory Retained_Leaves
  imports Table_Residuals Varargs Generic_For
begin

text \<open>
  Further leaves that meet the contract of \<open>Specialization\<close>: the constant loads and unrolled \<open>LOADNIL\<close> of
  \<open>opcode_v2_core_stencils.c\<close>, \<open>VARARG\<close> of all varargs, \<open>GETVARG\<close> by key and the generic-for call.
\<close>

subsection \<open>Leaves that do what the generic stencil does\<close>

text \<open>
  Where nothing is learned, a leaf differs from the generic stencil only in what is patched into
  it: under the right holes the two are the same function.
\<close>

lemma same_stencil_leaf:
  assumes "\<And>h f s. patched h \<Longrightarrow> leaf h f s = generic h f s" and "\<And>h f. forgetful (generic h f)"
    and "\<And>h f s r. generic h f s = Some r \<Longrightarrow> fst r = Next f"
  shows "residual_leaf generic leaf (\<lambda>h f s. True) patched"
proof (rule leaf_by_shape)
  fix h f s
  assume p: "patched h"
  have "sheds (generic h f) (generic h f) s" by (rule sheds_forgetful) (rule assms(2))
  then show "sheds (generic h f) (leaf h f) s" using assms(1) [OF p] by (simp add: sheds_def)
  fix r
  assume "leaf h f (forget s) = Some r"
  then show "fst r \<noteq> Jump (h_mismatch_exit h) f" using assms(1) [OF p] assms(3) by fastforce
qed simp

lemma loadk_leaf:
  assumes "\<And>h f cell s. patched h \<Longrightarrow> store 0 cell h f s = wr_ref cell (h_const_tag h)
    (if h_const_tag h = LUA55_VALUE_INTEGER then h_const_int h else if h_const_tag h = LUA55_VALUE_FLOAT then h_const_flt h
     else h_const_ref h) s"
  shows "residual_leaf lua55_v2_loadk (V2_LOADK_LEAF store) (\<lambda>h f s. True) patched"
proof (rule same_stencil_leaf)
  fix h f s r
  show "V2_LOADK_LEAF store h f s = lua55_v2_loadk h f s" if "patched h"
    using assms [OF that] by (simp add: V2_LOADK_LEAF_def lua55_v2_loadk_def V2_LOADK_BODY_def Let_def cong: if_cong)
  show "forgetful (lua55_v2_loadk h f)"
    unfolding lua55_v2_loadk_def V2_LOADK_BODY_def [abs_def] Let_def by (intro forgetful_read v2_blind) simp
  show "fst r = Next f" if "lua55_v2_loadk h f s = Some r"
    using that by (auto simp: lua55_v2_loadk_def V2_LOADK_BODY_def Let_def LUA55_RESIDUAL_NEXT_def bind_eq_Some_conv)
qed

text \<open>The displacement patched into a leaf is that of the register patched into the generic stencil.\<close>

definition nil_holes :: "nat \<Rightarrow> holes \<Rightarrow> bool" where
  "nil_holes n h \<longleftrightarrow> unat (h_span h) = n \<and> scast (h_target_disp h) = (16 * ucast (h_target h) :: u64)"

lemma loadnil_leaf: "residual_leaf lua55_v2_loadnil (V2_LOADNIL_UNROLL n) (\<lambda>h f s. True) (nil_holes n)"
proof (rule same_stencil_leaf)
  fix h f s r
  show "V2_LOADNIL_UNROLL n h f s = lua55_v2_loadnil h f s" if "nil_holes n h"
    using that by (simp add: V2_LOADNIL_UNROLL_def lua55_v2_loadnil_def nil_holes_def V2_VALUE_def V2_VALUE_DISP_def slot_addr_def)
  show "forgetful (lua55_v2_loadnil h f)"
    unfolding lua55_v2_loadnil_def [abs_def] V2_VALUE_def by (intro forgetful_read v2_blind) simp
  show "fst r = Next f" if "lua55_v2_loadnil h f s = Some r"
    using that by (auto simp: lua55_v2_loadnil_def LUA55_RESIDUAL_NEXT_def bind_eq_Some_conv)
qed

lemma wr_top_blind [v2_blind]: "blind (wr_top_at a v)"
  by (simp add: blind_def wr_top_at_def forget_def learning_ok_def)

lemma vararg_all_leaf:
  "residual_leaf lua55_v2_vararg lua55_v2r_vararg_all (\<lambda>h f s. True) (\<lambda>h. h_wanted h = - 1)"
proof (rule same_stencil_leaf)
  fix h f s r
  show "lua55_v2r_vararg_all h f s = lua55_v2_vararg h f s" if "h_wanted h = - 1"
    using that by (simp add: lua55_v2r_vararg_all_def V2_VARARG_SPLIT_def lua55_v2_vararg_def)
  show "forgetful (lua55_v2_vararg h f)"
    unfolding lua55_v2_vararg_def vararg_body_def [abs_def] Let_def by (intro forgetful_read v2_blind) simp_all
  show "fst r = Next f" if "lua55_v2_vararg h f s = Some r"
    using that by (auto simp: lua55_v2_vararg_def vararg_body_def Let_def LUA55_RESIDUAL_NEXT_def bind_eq_Some_conv)
qed

subsection \<open>\<open>GETVARG\<close> by key\<close>

definition getvarg_ops :: "holes \<Rightarrow> u64 \<Rightarrow> v2_state \<Rightarrow> (u64 \<times> lua_value \<times> bool) option" where
  "getvarg_ops h f s = do {
     target \<leftarrow> V2_VALUE_DISP (h_target_disp h) f s;
     a \<leftarrow> V2_VALUE_DISP (h_key_disp h) f s;
     key \<leftarrow> rd_val a s;
     n_key \<leftarrow> (if v2_is_string_tag (tag key) then is_n_key (payload key) s else Some False);
     Some (target, key, n_key)}"

definition getvarg_work :: "u64 \<times> lua_value \<times> bool \<Rightarrow> stencil" where
  "getvarg_work x h f s = (case x of (target, key, n_key) \<Rightarrow>
     if tag key = LUA55_VALUE_INTEGER then getvarg_int target (payload key) h f s
     else if n_key then getvarg_n target h f s else put_nil target h f s)"

lemma n_key_forget: "is_n_key r (forget s) = is_n_key r s"
  by (simp add: is_n_key_def rd_byte_def cong: if_cong)

lemma getvarg_ops_forget: "getvarg_ops h f (forget s) = getvarg_ops h f s"
  by (simp add: getvarg_ops_def n_key_forget rd_val_def cong: if_cong)

lemma n_key_string: "getvarg_ops h f s = Some (target, key, True) \<Longrightarrow> v2_is_string_tag (tag key)"
  by (auto simp: getvarg_ops_def bind_eq_Some_conv split: if_splits)

lemma getvarg_work_forgetful: "forgetful (getvarg_work x h f)"
  by (cases x) (auto simp: getvarg_work_def [abs_def] getvarg_int_def [abs_def] getvarg_n_def [abs_def] put_nil_def [abs_def]
      rd_val_def intro!: forgetful_read v2_blind)

lemma getvarg_work_next: "getvarg_work x h f s = Some r \<Longrightarrow> fst r = Next f"
  by (auto simp: getvarg_work_def getvarg_int_def getvarg_n_def put_nil_def LUA55_RESIDUAL_NEXT_def bind_eq_Some_conv
      split: prod.splits if_splits)

lemma getvarg_leaf:
  assumes works: "\<And>h f s x. getvarg_ops h f s = Some x \<Longrightarrow> ok h x \<Longrightarrow> leaf h f s = getvarg_work x h f s"
    and refuses: "\<And>h f s x. getvarg_ops h f s = Some x \<Longrightarrow> \<not> ok h x \<Longrightarrow> \<exists>e ob. leaf h f s = mismatch e ob h f s"
    and undef: "\<And>h f s r. getvarg_ops h f s = None \<Longrightarrow> leaf h f s = Some r \<Longrightarrow> mismatch_exit h f s r"
  shows "residual_leaf lua55_v2l_getvarg leaf (accepted getvarg_ops ok) any_holes"
proof (rule observed_refines [where slot = h_occ_slot and lbody = getvarg_work and
      obs = "\<lambda>(target, key, n_key). observe_tag (if v2_is_string_tag (tag key) \<and> \<not> n_key then 0 else tag key)"])
  fix h f s
  show "lua55_v2l_getvarg h f s = do {x \<leftarrow> getvarg_ops h f s;
      s \<leftarrow> learn_at (h_occ_slot h) (case x of (target, key, n_key) \<Rightarrow>
        observe_tag (if v2_is_string_tag (tag key) \<and> \<not> n_key then 0 else tag key)) s; getvarg_work x h f s}"
    by (simp add: lua55_v2l_getvarg_def getvarg_ops_def v2_learn_key_tag_def getvarg_work_def)
next
  fix h f s x r
  assume "getvarg_work x h f s = Some r"
  then show "\<not> mismatch_exit h f s r" by (intro not_mismatch) (simp add: getvarg_work_next)
qed (use works refuses undef in \<open>auto simp: getvarg_ops_forget getvarg_work_forgetful\<close>)

lemma getvarg_leaves:
  "residual_leaf lua55_v2l_getvarg lua55_v2r_getvarg_int
    (accepted getvarg_ops (\<lambda>h (target, key, n_key). tag key = LUA55_VALUE_INTEGER)) any_holes"
  "residual_leaf lua55_v2l_getvarg lua55_v2r_getvarg_n (accepted getvarg_ops (\<lambda>h (target, key, n_key). n_key)) any_holes"
  "residual_leaf lua55_v2l_getvarg lua55_v2r_getvarg_mx
    (accepted getvarg_ops (\<lambda>h (target, key, n_key). tag key \<noteq> LUA55_VALUE_INTEGER \<and> \<not> n_key)) any_holes"
  by (rule getvarg_leaf;
      auto simp: lua55_v2r_getvarg_int_def lua55_v2r_getvarg_n_def lua55_v2r_getvarg_mx_def getvarg_ops_def getvarg_work_def
        bind_eq_Some_conv bind_eq_None_conv refused dest: mismatch_is_exit split: if_splits)+

subsection \<open>The call of a generic \<open>for\<close>\<close>

definition tforcall_work :: "callee \<Rightarrow> stencil" where
  "tforcall_work c h f s = (case c of
     Native closure desc \<Rightarrow> do {
       fr \<leftarrow> frames s f;
       enter_iterator closure desc (slot_addr (frame_values fr) (h_a h + 1)) (slot_addr (frame_values fr) (h_a h + 3))
         (slot_addr (slot_addr (frame_values fr) (h_a h)) 3) h f s}
   | Builtin \<Rightarrow> host_call_exit (h_a h) 3 (h_c h) (\<lambda>p. p\<lparr>hc_reserved := 1\<rparr>) h f s
   | Other \<Rightarrow> None)"

definition tforcall_holes :: "holes \<Rightarrow> bool" where
  "tforcall_holes h \<longleftrightarrow> unat (h_a h) + 3 < 2 ^ 32 \<and> scast (h_base_disp h) = (16 * ucast (h_a h) :: u64)"

lemma tforcall_learner:
  assumes "call_ops h f s = Some c" and "c \<noteq> Other"
  shows "lua55_v2l_tforcall h f s = do {s \<leftarrow> learn_at (h_occ_slot h) (observe_pair (callee_fact c)) s; tforcall_work c h f s}"
proof -
  obtain fr v where o: "frames s f = Some fr" "rd_val (slot_addr (frame_values fr) (h_a h)) s = Some v" "classify v s = Some c"
    using assms by (auto simp: call_ops_def bind_eq_Some_conv)
  obtain k va where k: "callee_fact c = (k, va)" by force
  show ?thesis
  proof (cases "learn_at (h_occ_slot h) (observe_pair (k, va)) s")
    case None
    then show ?thesis using o k by (simp add: lua55_v2l_tforcall_def v2_learn_callee_def)
  next
    case (Some u)
    then have "frames u f = Some fr" using o learn_at_only by fastforce
    then show ?thesis using o k Some assms(2)
      by (cases c) (simp_all add: lua55_v2l_tforcall_def v2_learn_callee_def tforcall_work_def Let_def)
  qed
qed

lemma enter_iterator_forgetful: "forgetful (enter_iterator closure desc st ctl dst h f)"
proof -
  have args: "blind (\<lambda>s. do {
      a \<leftarrow> rd_val st s; s \<leftarrow> wr_val (slot_addr (cf + SIZEOF_FRAME) 0) a s;
      b \<leftarrow> rd_val ctl s; s \<leftarrow> wr_val (slot_addr (cf + SIZEOF_FRAME) 1) b s;
      nil_span (cf + SIZEOF_FRAME) 2 (unat (numparams desc) - 2) s})" (is "blind (?args cf)") for cf
    by (intro blind_read v2_blind) (simp_all add: rd_val_def)
  have frame: "blind (\<lambda>s. Some (put_frame cf (min_top 2 desc) (new_frame closure desc 0 cf f (h_continuation h)
      (call_sink dst (h_a h + 3) (h_c h) f fr)) (upd_inv (\<lambda>i. i\<lparr>frame_next := cf + frame_bytes desc 0\<rparr>) s)))" (is "blind (?frame cf fr)") for cf fr
    by (simp add: blind_def upd_inv_forget)
  have go: "forgetful (\<lambda>s. Some (Jump (desc_entry desc) cf, upd_inv (\<lambda>i. i\<lparr>current_frame := cf\<rparr>) s))" for cf
    by (simp add: forgetful_def upd_inv_forget)
  have e: "enter_iterator closure desc st ctl dst h f = (\<lambda>s. do {
      fr \<leftarrow> frames s f;
      cf \<leftarrow> Some (frame_next (inv s));
      e \<leftarrow> Some (frame_end (inv s));
      if value_capacity fr < h_a h + 3 + h_c h
      then call_overflow LUA55_V2_OUTCOME_VALUE_OVERFLOW (ucast (h_a h + 3 + h_c h)) (ucast (value_capacity fr)) h f s
      else if e < cf + frame_bytes desc 0
      then call_overflow LUA55_V2_OUTCOME_STACK_OVERFLOW (frame_bytes desc 0) (e - cf) h f s
      else do {
        s \<leftarrow> ?frame cf fr s;
        s \<leftarrow> ?args cf s;
        Some (Jump (desc_entry desc) cf, upd_inv (\<lambda>i. i\<lparr>current_frame := cf\<rparr>) s)}})"
    by (rule ext) (simp add: enter_iterator_def Let_def cong: if_cong)
  show ?thesis
    unfolding e by (intro forgetful_read forgetful_if forgetful_seq call_overflow_forgetful frame args go) simp_all
qed

lemma enter_iterator_advances:
  assumes "enter_iterator closure desc st ctl dst h f s = Some (c, t)"
  shows "(\<exists>a. c = Host_exit a f) \<or> frame_next (inv t) \<noteq> frame_next (inv s)"
proof -
  have "frame_next (inv t) \<noteq> frame_next (inv s)" if "c = Jump e cf" for e cf
    using assms that frame_bytes_bounds(2) [of desc 0]
    by (auto simp: enter_iterator_def Let_def bind_eq_Some_conv call_overflow_def LUA55_CPS_HOST_EXIT_def upd_inv_def
        put_frame_def wr_val_def dest!: nil_span_vals split: if_splits)
  moreover have "(\<exists>a. c = Host_exit a f) \<or> (\<exists>e cf. c = Jump e cf)"
    using assms by (auto simp: enter_iterator_def Let_def bind_eq_Some_conv call_overflow_def LUA55_CPS_HOST_EXIT_def
        split: if_splits)
  ultimately show ?thesis by blast
qed

lemma tforcall_work_forgetful: "forgetful (tforcall_work c h f)"
proof (cases c)
  case (Native closure desc)
  then show ?thesis
    unfolding tforcall_work_def [abs_def] by simp (intro forgetful_read enter_iterator_forgetful, simp)
next
  case Builtin
  then show ?thesis using host_call_forgetful by (simp add: tforcall_work_def [abs_def])
next
  case Other
  then show ?thesis by (simp add: tforcall_work_def [abs_def] forgetful_def)
qed

lemma tforcall_work_stays:
  assumes "tforcall_work c h f s = Some r"
  shows "\<not> mismatch_exit h f s r"
proof
  assume m: "mismatch_exit h f s r"
  obtain k t where r: "r = (k, t)" by force
  note f = mismatch_frame_next [OF m [unfolded r]]
  show False
  proof (cases c)
    case (Native closure desc)
    then obtain st ctl dst where "enter_iterator closure desc st ctl dst h f s = Some (k, t)"
      using assms r by (auto simp: tforcall_work_def bind_eq_Some_conv)
    from enter_iterator_advances [OF this] f show False by auto
  qed (use assms r f in \<open>auto simp: tforcall_work_def host_call_exit_def v2_defs\<close>)
qed

lemma guard_builtin:
  assumes "classify v s = Some c"
  shows "c = Builtin \<Longrightarrow> V2_CALL_GUARD_BUILTIN_CELL v k h f s = k h f s"
    and "c \<noteq> Builtin \<Longrightarrow> \<exists>e ob. V2_CALL_GUARD_BUILTIN_CELL v k h f s = mismatch e ob h f s"
  using assms
  by (auto simp: classify_def V2_CALL_GUARD_BUILTIN_CELL_def bind_eq_Some_conv refused split: if_splits)

lemma guard_builtin_undefined:
  "classify v s = None \<Longrightarrow> V2_CALL_GUARD_BUILTIN_CELL v k h f s = Some r \<Longrightarrow> mismatch_exit h f s r"
  by (auto simp: classify_def V2_CALL_GUARD_BUILTIN_CELL_def bind_eq_None_conv bind_eq_Some_conv
      split: if_splits intro: mismatch_is_exit)

lemma tforcall_leaf:
  assumes some: "\<And>h c. ok h c \<Longrightarrow> c \<noteq> Other"
    and works: "\<And>h f s x. tforcall_holes h \<Longrightarrow> call_ops h f s = Some x \<Longrightarrow> ok h x \<Longrightarrow> leaf h f s = tforcall_work x h f s"
    and refuses: "\<And>h f s x. tforcall_holes h \<Longrightarrow> call_ops h f s = Some x \<Longrightarrow> \<not> ok h x \<Longrightarrow> \<exists>e ob. leaf h f s = mismatch e ob h f s"
    and undef: "\<And>h f s r. tforcall_holes h \<Longrightarrow> call_ops h f s = None \<Longrightarrow> leaf h f s = Some r \<Longrightarrow> mismatch_exit h f s r"
  shows "residual_leaf lua55_v2l_tforcall leaf (accepted call_ops ok) tforcall_holes"
proof (rule observed_refines_ok [where slot = h_occ_slot and obs = "\<lambda>c. observe_pair (callee_fact c)" and lbody = tforcall_work])
  fix h f s
  assume "call_ops h f s = None"
  then show "lua55_v2l_tforcall h f s = None"
    by (auto simp: call_ops_def lua55_v2l_tforcall_def Let_def bind_eq_None_conv)
qed (use works refuses undef in
    \<open>auto simp: some tforcall_learner call_ops_forget tforcall_work_forgetful dest: tforcall_work_stays\<close>)

lemma tforcall_leaves:
  "residual_leaf lua55_v2l_tforcall lua55_v2r_tforcall_native (accepted call_ops (native_of 0)) tforcall_holes"
  "residual_leaf lua55_v2l_tforcall lua55_v2r_tforcall_host (accepted call_ops (\<lambda>h c. c = Builtin)) tforcall_holes"
proof -
  have b: "V2_VALUE_DISP (h_base_disp h) f s = do {fr \<leftarrow> frames s f; Some (slot_addr (frame_values fr) (h_a h))}"
    if "tforcall_holes h" for h f s
    using that by (simp add: V2_VALUE_DISP_def tforcall_holes_def slot_addr_def)
  have sh: "slot_addr (slot_addr base (h_a h)) 1 = slot_addr base (h_a h + 1)" "slot_addr (slot_addr base (h_a h)) 3 = slot_addr base (h_a h + 3)"
    if "tforcall_holes h" for h base
    using that by (auto simp: tforcall_holes_def intro!: slot_addr_shift)
  show "residual_leaf lua55_v2l_tforcall lua55_v2r_tforcall_native (accepted call_ops (native_of 0)) tforcall_holes"
  proof (rule tforcall_leaf)
    fix h f s x
    assume p: "tforcall_holes h" and x: "call_ops h f s = Some x"
    show "lua55_v2r_tforcall_native h f s = tforcall_work x h f s" if "native_of 0 h x"
      using x b [OF p] sh [OF p] guard_native(1) that
      by (cases x) (auto simp: call_ops_def lua55_v2r_tforcall_native_def tforcall_work_def native_of_def bind_eq_Some_conv)
    show "\<exists>e ob. lua55_v2r_tforcall_native h f s = mismatch e ob h f s" if "\<not> native_of 0 h x"
      using x b [OF p] guard_native(2) [OF _ that]
      by (auto simp: call_ops_def lua55_v2r_tforcall_native_def bind_eq_Some_conv)
  next
    fix h f s r
    assume "tforcall_holes h" "call_ops h f s = None" "lua55_v2r_tforcall_native h f s = Some r"
    then show "mismatch_exit h f s r"
      by (auto simp: b call_ops_def lua55_v2r_tforcall_native_def bind_eq_Some_conv bind_eq_None_conv intro: guard_native_undefined)
  qed (auto simp: native_of_def)
  show "residual_leaf lua55_v2l_tforcall lua55_v2r_tforcall_host (accepted call_ops (\<lambda>h c. c = Builtin)) tforcall_holes"
  proof (rule tforcall_leaf)
    fix h f s x
    assume p: "tforcall_holes h" and x: "call_ops h f s = Some x"
    show "lua55_v2r_tforcall_host h f s = tforcall_work x h f s" if "x = Builtin"
      using x b [OF p] guard_builtin(1) that
      by (auto simp: call_ops_def lua55_v2r_tforcall_host_def tforcall_work_def bind_eq_Some_conv)
    show "\<exists>e ob. lua55_v2r_tforcall_host h f s = mismatch e ob h f s" if "x \<noteq> Builtin"
      using x b [OF p] guard_builtin(2) [OF _ that]
      by (auto simp: call_ops_def lua55_v2r_tforcall_host_def bind_eq_Some_conv)
  next
    fix h f s r
    assume "tforcall_holes h" "call_ops h f s = None" "lua55_v2r_tforcall_host h f s = Some r"
    then show "mismatch_exit h f s r"
      by (auto simp: b call_ops_def lua55_v2r_tforcall_host_def bind_eq_Some_conv bind_eq_None_conv intro: guard_builtin_undefined)
  qed auto
qed

subsection \<open>The bank of these leaves\<close>

definition generic_bank :: "((stencil \<times> stencil) \<times> (holes \<Rightarrow> u64 \<Rightarrow> v2_state \<Rightarrow> bool) \<times> (holes \<Rightarrow> bool)) list" where
  "generic_bank = [
     ((lua55_v2_loadk, lua55_v2r_loadk_nil), (\<lambda>h f s. True), const_hole LUA55_VALUE_NIL True),
     ((lua55_v2_loadk, lua55_v2r_loadk_false), (\<lambda>h f s. True), const_hole LUA55_VALUE_FALSE True),
     ((lua55_v2_loadk, lua55_v2r_loadk_true), (\<lambda>h f s. True), const_hole LUA55_VALUE_TRUE True),
     ((lua55_v2_loadk, lua55_v2r_loadk_int), (\<lambda>h f s. True), const_int),
     ((lua55_v2_loadk, lua55_v2r_loadk_flt), (\<lambda>h f s. True), const_flt),
     ((lua55_v2_loadk, lua55_v2r_loadk_str), (\<lambda>h f s. True), (\<lambda>h. v2_is_string_tag (h_const_tag h))),
     ((lua55_v2_loadnil, lua55_v2r_loadnil_1), (\<lambda>h f s. True), nil_holes 1),
     ((lua55_v2_loadnil, lua55_v2r_loadnil_2), (\<lambda>h f s. True), nil_holes 2),
     ((lua55_v2_loadnil, lua55_v2r_loadnil_3), (\<lambda>h f s. True), nil_holes 3),
     ((lua55_v2_loadnil, lua55_v2r_loadnil_4), (\<lambda>h f s. True), nil_holes 4),
     ((lua55_v2_loadnil, lua55_v2r_loadnil_5), (\<lambda>h f s. True), nil_holes 5),
     ((lua55_v2_loadnil, lua55_v2r_loadnil_6), (\<lambda>h f s. True), nil_holes 6),
     ((lua55_v2_loadnil, lua55_v2r_loadnil_7), (\<lambda>h f s. True), nil_holes 7),
     ((lua55_v2_loadnil, lua55_v2r_loadnil_8), (\<lambda>h f s. True), nil_holes 8),
     ((lua55_v2_vararg, lua55_v2r_vararg_all), (\<lambda>h f s. True), (\<lambda>h. h_wanted h = - 1)),
     ((lua55_v2l_getvarg, lua55_v2r_getvarg_int), accepted getvarg_ops (\<lambda>h (target, key, n_key). tag key = LUA55_VALUE_INTEGER), any_holes),
     ((lua55_v2l_getvarg, lua55_v2r_getvarg_n), accepted getvarg_ops (\<lambda>h (target, key, n_key). n_key), any_holes),
     ((lua55_v2l_getvarg, lua55_v2r_getvarg_mx),
       accepted getvarg_ops (\<lambda>h (target, key, n_key). tag key \<noteq> LUA55_VALUE_INTEGER \<and> \<not> n_key), any_holes),
     ((lua55_v2l_tforcall, lua55_v2r_tforcall_native), accepted call_ops (native_of 0), tforcall_holes),
     ((lua55_v2l_tforcall, lua55_v2r_tforcall_host), accepted call_ops (\<lambda>h c. c = Builtin), tforcall_holes)]"

lemma loadk_leaves:
  "residual_leaf lua55_v2_loadk lua55_v2r_loadk_nil (\<lambda>h f s. True) (const_hole LUA55_VALUE_NIL True)"
  "residual_leaf lua55_v2_loadk lua55_v2r_loadk_false (\<lambda>h f s. True) (const_hole LUA55_VALUE_FALSE True)"
  "residual_leaf lua55_v2_loadk lua55_v2r_loadk_true (\<lambda>h f s. True) (const_hole LUA55_VALUE_TRUE True)"
  "residual_leaf lua55_v2_loadk lua55_v2r_loadk_int (\<lambda>h f s. True) const_int"
  "residual_leaf lua55_v2_loadk lua55_v2r_loadk_flt (\<lambda>h f s. True) const_flt"
  "residual_leaf lua55_v2_loadk lua55_v2r_loadk_str (\<lambda>h f s. True) (\<lambda>h. v2_is_string_tag (h_const_tag h))"
  unfolding lua55_v2r_loadk_nil_def lua55_v2r_loadk_false_def lua55_v2r_loadk_true_def lua55_v2r_loadk_int_def
    lua55_v2r_loadk_flt_def lua55_v2r_loadk_str_def
  by (rule loadk_leaf; auto simp: const_hole_def wr_ref_def v2_is_string_tag_def V2_STORE_NIL_def V2_STORE_FALSE_def
      V2_STORE_TRUE_def V2_STORE_INT_def V2_STORE_FLT_def V2_STORE_STR_def)+

lemma generic_bank_refines: "((l, r), q, p) \<in> set generic_bank \<Longrightarrow> residual_leaf l r q p"
  unfolding generic_bank_def
  by (auto simp: loadk_leaves loadnil_leaf vararg_all_leaf getvarg_leaves tforcall_leaves lua55_v2r_loadnil_1_def
      lua55_v2r_loadnil_2_def lua55_v2r_loadnil_3_def lua55_v2r_loadnil_4_def lua55_v2r_loadnil_5_def lua55_v2r_loadnil_6_def
      lua55_v2r_loadnil_7_def lua55_v2r_loadnil_8_def simp del: One_nat_def)

end
