(* ===== verification/Concat.thy ===== *)
theory Concat
  imports Table_Map
begin

text \<open>
  \<open>CONCAT\<close> (opcode 53): the learner, which measures its operands, allocates the result and writes the
  bytes, and the fragments the retained image strings together for one learned operand
  vector: a measuring fragment per operand, the allocation, a writing fragment per operand
  and the end. Numbers are formatted by the two patched routines, into buffers of 24 and 32 bytes.

  The fragments communicate through \<open>prepared_concat\<close> of the invocation.
\<close>

subsection \<open>Formatting and bytes\<close>

text \<open>A routine that writes past its buffer is undefined behaviour.\<close>

definition v2_itoa_fn_get :: "holes \<Rightarrow> u64 \<Rightarrow> u8 list option" where
  "v2_itoa_fn_get h x = (if length (h_itoa h x) \<le> 24 then Some (h_itoa h x) else None)"

definition v2_dtoa_fn :: "holes \<Rightarrow> dbl \<Rightarrow> u8 list option" where
  "v2_dtoa_fn h x = (if length (h_dtoa h x) \<le> 32 then Some (h_dtoa h x) else None)"

abbreviation (input) V2_MINSTR :: u64 where "V2_MINSTR \<equiv> 40"

text \<open>\<open>for (j = 0; j < m; j++) out[j] = (uint8_t)buf[j]\<close>.\<close>

primrec put_bytes :: "u64 \<Rightarrow> u8 list \<Rightarrow> v2_state \<Rightarrow> v2_state" where
  "put_bytes out [] s = s"
| "put_bytes out (b # bs) s = put_bytes (out + 1) bs (s\<lparr>bytes := (bytes s)(out \<mapsto> b)\<rparr>)"

text \<open>\<open>for (; n > 0; j++, n--) out[j] = src[j]\<close>, both in guest memory.\<close>

primrec copy_bytes :: "u64 \<Rightarrow> u64 \<Rightarrow> u32 \<Rightarrow> nat \<Rightarrow> v2_state \<Rightarrow> v2_state option" where
  "copy_bytes out src j 0 s = Some s"
| "copy_bytes out src j (Suc n) s = do {
     b \<leftarrow> rd_byte (src + ucast j) s;
     copy_bytes out src (j + 1) n (s\<lparr>bytes := (bytes s)(out + ucast j \<mapsto> b)\<rparr>)}"

subsection \<open>Measuring\<close>

text \<open>
  The measuring loop over the \<open>n\<close> registers from \<open>i\<close> on: \<open>Inl\<close> is the reject of an operand that
  cannot be concatenated.
\<close>

primrec measure_loop :: "holes \<Rightarrow> u64 \<Rightarrow> u32 \<Rightarrow> nat \<Rightarrow> u64 \<Rightarrow> v2_state \<Rightarrow> (u32 + u64) option" where
  "measure_loop h fv i 0 tot s = Some (Inr tot)"
| "measure_loop h fv i (Suc n) tot s = do {
     v \<leftarrow> rd_val (slot_addr fv i) s;
     if v2_is_string_tag (tag v) then
       (if payload v = 0 then Some (Inl LUA55_V2_REJECT_INVALID_OBJECT)
        else do {
          str \<leftarrow> strings s (payload v);
          measure_loop h fv (i + 1) n (tot + ucast (str_length str)) s})
     else if tag v = LUA55_VALUE_INTEGER then do {
       buf \<leftarrow> v2_itoa_fn_get h (payload v);
       measure_loop h fv (i + 1) n (tot + word_of_nat (length buf)) s}
     else if tag v = LUA55_VALUE_FLOAT then do {
       buf \<leftarrow> v2_dtoa_fn h (payload v);
       measure_loop h fv (i + 1) n (tot + word_of_nat (length buf)) s}
     else Some (Inl LUA55_V2_REJECT_UNSUPPORTED_METAMETHOD)}"

subsection \<open>Allocating\<close>

definition string_tag_of :: "u64 \<Rightarrow> u32" where
  "string_tag_of tot = (if tot \<le> V2_MINSTR then LUA55_VALUE_SHORT_STRING else LUA55_VALUE_LONG_STRING)"

definition new_string :: "u64 \<Rightarrow> u64 \<Rightarrow> u64 \<Rightarrow> v2_state \<Rightarrow> v2_state option" where
  "new_string heap at tot s = do {
     hp \<leftarrow> heaps s heap;
     Some (s\<lparr>
       headers := (headers s)(at \<mapsto> \<lparr>
         kind = (if tot \<le> V2_MINSTR then LUA55_OBJECT_SHORT_STRING else LUA55_OBJECT_LONG_STRING),
         generation = object_count hp + 1\<rparr>),
       strings := (strings s)(at \<mapsto> \<lparr>str_length = ucast tot, str_hash = 0, str_bytes = at + SIZEOF_STRING\<rparr>),
       heaps := (heaps s)(heap \<mapsto> hp\<lparr>object_count := object_count hp + 1\<rparr>)\<rparr>)}"

text \<open>The two checks on the heap, the allocation and the header; \<open>k\<close> goes on with the string.\<close>

definition V2_CONCAT_ALLOC :: "u64 \<Rightarrow> (u64 \<Rightarrow> stencil) \<Rightarrow> stencil" where
  "V2_CONCAT_ALLOC tot k h f s = do {
     let heap = heap_ptr (inv s);
     (at, s) \<leftarrow> v2_heap_bump heap (SIZEOF_STRING + (if tot > 0 then tot else 1)) s;
     if at = 0 then overflow_exit LUA55_V2_OUTCOME_HEAP_OVERFLOW 0 0 h f s
     else do {
       s \<leftarrow> new_string heap at tot s;
       k at h f s}}"

definition with_region :: "stencil \<Rightarrow> stencil" where
  "with_region k h f s =
     (if heap_ptr (inv s) = 0 then reject_exit LUA55_V2_REJECT_INVALID_OBJECT h f s
      else do {
        hp \<leftarrow> heaps s (heap_ptr (inv s));
        if table_region hp = 0 then reject_exit LUA55_V2_REJECT_INVALID_OBJECT h f s else k h f s})"

subsection \<open>Writing\<close>

text \<open>The writing loop; it gives the address after the last byte written.\<close>

primrec write_loop :: "holes \<Rightarrow> u64 \<Rightarrow> u32 \<Rightarrow> nat \<Rightarrow> u64 \<Rightarrow> v2_state \<Rightarrow> (u64 \<times> v2_state) option" where
  "write_loop h fv i 0 out s = Some (out, s)"
| "write_loop h fv i (Suc n) out s = do {
     v \<leftarrow> rd_val (slot_addr fv i) s;
     if v2_is_string_tag (tag v) then do {
       str \<leftarrow> strings s (payload v);
       s \<leftarrow> copy_bytes out (str_bytes str) 0 (unat (str_length str)) s;
       write_loop h fv (i + 1) n (out + ucast (str_length str)) s}
     else do {
       buf \<leftarrow> (if tag v = LUA55_VALUE_INTEGER then v2_itoa_fn_get h (payload v) else v2_dtoa_fn h (payload v));
       write_loop h fv (i + 1) n (out + word_of_nat (length buf)) (put_bytes out buf s)}}"

text \<open>The tag of the \<open>k\<close>-th operand, 0 past the last.\<close>

definition concat_tag :: "u32 \<Rightarrow> holes \<Rightarrow> u64 \<Rightarrow> v2_state \<Rightarrow> u32 option" where
  "concat_tag k h f s =
     (if k + 1 \<le> h_setlist_count h then do {
        a \<leftarrow> V2_VALUE (h_setlist_base h + k) f s;
        v \<leftarrow> rd_val a s;
        Some (tag v)}
      else Some 0)"

definition concat_body :: stencil where
  "concat_body = with_region (\<lambda>h f s. do {
     fr \<leftarrow> frames s f;
     let fv = frame_values fr;
     let n = unat (h_setlist_count h);
     m \<leftarrow> measure_loop h fv (h_setlist_base h) n 0 s;
     case m of
       Inl k \<Rightarrow> reject_exit k h f s
     | Inr tot \<Rightarrow> V2_CONCAT_ALLOC tot (\<lambda>at h f s. do {
         (out, s) \<leftarrow> write_loop h fv (h_setlist_base h) n (at + SIZEOF_STRING) s;
         s \<leftarrow> wr_ref (slot_addr fv (h_target h)) (string_tag_of tot) at s;
         LUA55_RESIDUAL_NEXT f s}) h f s})"

definition lua55_v2l_concat :: stencil where
  "lua55_v2l_concat h f s = do {
     t0 \<leftarrow> concat_tag 0 h f s;
     t1 \<leftarrow> concat_tag 1 h f s;
     t2 \<leftarrow> concat_tag 2 h f s;
     t3 \<leftarrow> concat_tag 3 h f s;
     t4 \<leftarrow> concat_tag 4 h f s;
     s \<leftarrow> v2_learn_concat (h_occ_slot h) (h_setlist_count h) t0 t1 t2 t3 t4 s;
     concat_body h f s}"

subsection \<open>The fragments\<close>

definition V2_CONCAT_FRAGMENT_NEXT :: stencil where
  "V2_CONCAT_FRAGMENT_NEXT h f s = Some (Jump (h_fragment_next h) f, s)"

definition upd_concat :: "(prepared_concat \<Rightarrow> prepared_concat) \<Rightarrow> v2_state \<Rightarrow> v2_state" where
  "upd_concat g = upd_inv (\<lambda>i. i\<lparr>prep_concat := g (prep_concat i)\<rparr>)"

definition add_total :: "u64 \<Rightarrow> v2_state \<Rightarrow> v2_state" where
  "add_total n = upd_concat (\<lambda>p. p\<lparr>cc_total := cc_total p + n\<rparr>)"

definition V2_CONCAT_MEASURE_FRAGMENT :: "u32 \<Rightarrow> (holes \<Rightarrow> u64 \<Rightarrow> u8 list option) \<Rightarrow> stencil" where
  "V2_CONCAT_MEASURE_FRAGMENT expected fmt h f s = do {
     v \<leftarrow> rd_reg (h_source_disp h) f s;
     if tag v \<noteq> expected then mismatch expected (tag v) h f s
     else do {
       buffer \<leftarrow> fmt h (payload v);
       V2_CONCAT_FRAGMENT_NEXT h f (add_total (word_of_nat (length buffer)) s)}}"

definition lua55_v2r_concat_measure_str :: stencil where
  "lua55_v2r_concat_measure_str h f s = do {
     v \<leftarrow> rd_reg (h_source_disp h) f s;
     if \<not> v2_is_string_tag (tag v) then mismatch LUA55_VALUE_SHORT_STRING (tag v) h f s
     else do {
       str \<leftarrow> strings s (payload v);
       V2_CONCAT_FRAGMENT_NEXT h f (add_total (ucast (str_length str)) s)}}"

definition lua55_v2r_concat_measure_int :: stencil where
  "lua55_v2r_concat_measure_int = V2_CONCAT_MEASURE_FRAGMENT LUA55_VALUE_INTEGER v2_itoa_fn_get"

definition lua55_v2r_concat_measure_flt :: stencil where
  "lua55_v2r_concat_measure_flt = V2_CONCAT_MEASURE_FRAGMENT LUA55_VALUE_FLOAT v2_dtoa_fn"

definition lua55_v2r_concat_allocate :: stencil where
  "lua55_v2r_concat_allocate = with_region (\<lambda>h f s.
     V2_CONCAT_ALLOC (cc_total (prep_concat (inv s))) (\<lambda>at h f s.
       V2_CONCAT_FRAGMENT_NEXT h f (upd_concat (\<lambda>p. p\<lparr>cc_string := at, cc_out := at + SIZEOF_STRING\<rparr>) s)) h f s)"

definition V2_CONCAT_WRITE_FRAGMENT :: "u32 \<Rightarrow> (holes \<Rightarrow> u64 \<Rightarrow> u8 list option) \<Rightarrow> stencil" where
  "V2_CONCAT_WRITE_FRAGMENT expected fmt h f s = do {
     v \<leftarrow> rd_reg (h_source_disp h) f s;
     if tag v \<noteq> expected then mismatch expected (tag v) h f s
     else do {
       buffer \<leftarrow> fmt h (payload v);
       let out = cc_out (prep_concat (inv s));
       V2_CONCAT_FRAGMENT_NEXT h f
         (upd_concat (\<lambda>p. p\<lparr>cc_out := out + word_of_nat (length buffer)\<rparr>) (put_bytes out buffer s))}}"

definition lua55_v2r_concat_write_str :: stencil where
  "lua55_v2r_concat_write_str h f s = do {
     v \<leftarrow> rd_reg (h_source_disp h) f s;
     if \<not> v2_is_string_tag (tag v) then mismatch LUA55_VALUE_SHORT_STRING (tag v) h f s
     else do {
       str \<leftarrow> strings s (payload v);
       let out = cc_out (prep_concat (inv s));
       s \<leftarrow> copy_bytes out (str_bytes str) 0 (unat (str_length str)) s;
       V2_CONCAT_FRAGMENT_NEXT h f (upd_concat (\<lambda>p. p\<lparr>cc_out := out + ucast (str_length str)\<rparr>) s)}}"

definition lua55_v2r_concat_write_int :: stencil where
  "lua55_v2r_concat_write_int = V2_CONCAT_WRITE_FRAGMENT LUA55_VALUE_INTEGER v2_itoa_fn_get"

definition lua55_v2r_concat_write_flt :: stencil where
  "lua55_v2r_concat_write_flt = V2_CONCAT_WRITE_FRAGMENT LUA55_VALUE_FLOAT v2_dtoa_fn"

definition lua55_v2r_concat_finish :: stencil where
  "lua55_v2r_concat_finish h f s = do {
     target \<leftarrow> V2_VALUE_DISP (h_target_disp h) f s;
     let prep = prep_concat (inv s);
     s \<leftarrow> wr_ref target (string_tag_of (cc_total prep)) (cc_string prep) s;
     LUA55_RESIDUAL_NEXT f (upd_concat (\<lambda>p. \<lparr>cc_total = 0, cc_string = 0, cc_out = 0\<rparr>) s)}"

subsection \<open>What the byte loops do\<close>

lemma put_bytes_frame [simp]:
  "vals (put_bytes out bs s) = vals s" "frames (put_bytes out bs s) = frames s" "strings (put_bytes out bs s) = strings s"
  "headers (put_bytes out bs s) = headers s" "heaps (put_bytes out bs s) = heaps s" "inv (put_bytes out bs s) = inv s"
  "tables (put_bytes out bs s) = tables s"
  by (induction bs arbitrary: out s) simp_all

lemma put_bytes_append:
  "put_bytes out (xs @ ys) s = put_bytes (out + word_of_nat (length xs)) ys (put_bytes out xs s)"
  by (induction xs arbitrary: out s) (simp_all add: algebra_simps)

lemma put_bytes_read:
  assumes "length bs \<le> 2 ^ 64"
  shows "bytes (put_bytes out bs s) a = (if unat (a - out) < length bs then Some (bs ! unat (a - out)) else bytes s a)"
  using assms
proof (induction bs arbitrary: out s)
  case (Cons b bs)
  have IH: "bytes (put_bytes (out + 1) bs u) a =
      (if unat (a - (out + 1)) < length bs then Some (bs ! unat (a - (out + 1))) else bytes u a)" for u
    by (rule Cons.IH) (use Cons.prems in simp)
  show ?case
  proof (cases "a = out")
    case True
    have "unat (- 1 :: u64) = 2 ^ 64 - 1" by (simp add: unsigned_minus_1_eq_mask mask_eq_exp_minus_1)
    then have "\<not> unat (a - (out + 1)) < length bs" using Cons.prems True by simp
    with True IH show ?thesis by simp
  next
    case False
    then have n: "a - out \<noteq> 0" by simp
    then have p: "0 < unat (a - out)" by (simp add: unat_gt_0)
    have e: "a - (out + 1) = a - out - 1" by simp
    have u: "unat (a - out) = Suc (unat (a - (out + 1)))" unfolding e using unat_minus_one [OF n] p by linarith
    show ?thesis using IH False by (simp add: u)
  qed
qed simp

lemma bytes_at_cong:
  "(\<And>k. k < n \<Longrightarrow> bytes t (p + ucast (i + word_of_nat k)) = bytes s (p + ucast (i + word_of_nat k))) \<Longrightarrow>
    bytes_at p i n t = bytes_at p i n s"
  unfolding bytes_at_def by (rule arg_cong [where f = those]) simp

text \<open>The bytes of a run that lie below an address.\<close>

definition run_below :: "u64 \<Rightarrow> u32 \<Rightarrow> nat \<Rightarrow> nat \<Rightarrow> bool" where
  "run_below p i n top_addr \<longleftrightarrow> (\<forall>k<n. unat (p + ucast (i + word_of_nat k)) < top_addr)"

lemma run_below_Suc:
  "run_below p i (Suc n) m \<Longrightarrow> unat (p + ucast i) < m \<and> run_below p (i + 1) n m"
  unfolding run_below_def
proof (intro conjI allI impI)
  assume a: "\<forall>k<Suc n. unat (p + ucast (i + word_of_nat k)) < m"
  from a [rule_format, of 0] show "unat (p + ucast i) < m" by simp
  fix k
  assume "k < n"
  with a [rule_format, of "Suc k"] show "unat (p + ucast (i + 1 + word_of_nat k)) < m" by (simp add: add.assoc)
qed

lemma ucast_Suc: "unat (j :: u32) + 1 < 2 ^ 32 \<Longrightarrow> ucast (j + 1) = (ucast j + 1 :: u64)"
  by (rule word_unat_eq_iff [THEN iffD2]) (simp add: unat_plus32 unat_plus64)

lemma copy_bytes_spec:
  assumes "bytes_at src j n s = Some xs" and "unat j + n < 2 ^ 32" and "unat (out + ucast j) + n \<le> 2 ^ 64"
    and "run_below src j n (unat (out + ucast j))"
  shows "copy_bytes out src j n s = Some (put_bytes (out + ucast j) xs s)"
  using assms
proof (induction n arbitrary: j s xs)
  case (Suc n)
  let ?a = "out + ucast j" and ?t = "\<lambda>b. s\<lparr>bytes := (bytes s)(out + ucast j \<mapsto> b)\<rparr>"
  from Suc.prems(1) obtain b ys where b: "rd_byte (src + ucast j) s = Some b" "bytes_at src (j + 1) n s = Some ys" "xs = b # ys"
    by (auto simp: bytes_at_Suc bind_eq_Some_conv)
  from run_below_Suc [OF Suc.prems(4)] have rb: "run_below src (j + 1) n (unat ?a)" by blast
  have e: "out + ucast (j + 1) = ?a + 1" using ucast_Suc [of j] Suc.prems(2) by simp
  show ?case
  proof (cases n)
    case 0
    with b show ?thesis by simp
  next
    case (Suc m)
    have ua: "unat (?a + 1) = unat ?a + 1" using Suc.prems(3) Suc by (subst unat_plus64) simp_all
    have "bytes_at src (j + 1) n (?t b) = Some ys"
      using b(2) rb by (subst bytes_at_cong [of n _ _ _ s]) (auto simp: run_below_def)
    moreover have "unat (j + 1) + n < 2 ^ 32" using Suc.prems(2) Suc by (subst unat_plus32) simp_all
    moreover have "unat (out + ucast (j + 1)) + n \<le> 2 ^ 64" using Suc.prems(3) by (simp add: e ua)
    moreover have "run_below src (j + 1) n (unat (out + ucast (j + 1)))" using rb by (auto simp: e ua run_below_def)
    ultimately have "copy_bytes out src (j + 1) n (?t b) = Some (put_bytes (?a + 1) ys (?t b))"
      using Suc.IH [of "j + 1" "?t b" ys] by (simp add: e)
    with b show ?thesis by simp
  qed
qed simp

subsection \<open>Measuring and writing\<close>

text \<open>The bytes an operand contributes, and those of the \<open>n\<close> operands from register \<open>i\<close> on.\<close>

definition piece :: "holes \<Rightarrow> lua_value \<Rightarrow> v2_state \<Rightarrow> u8 list option" where
  "piece h v s =
     (if v2_is_string_tag (tag v) then (if payload v = 0 then None else guest_bytes (payload v) s)
      else if tag v = LUA55_VALUE_INTEGER then v2_itoa_fn_get h (payload v)
      else if tag v = LUA55_VALUE_FLOAT then v2_dtoa_fn h (payload v)
      else None)"

primrec pieces :: "holes \<Rightarrow> u64 \<Rightarrow> u32 \<Rightarrow> nat \<Rightarrow> v2_state \<Rightarrow> u8 list list option" where
  "pieces h fv i 0 s = Some []"
| "pieces h fv i (Suc n) s = do {
     v \<leftarrow> rd_val (slot_addr fv i) s;
     p \<leftarrow> piece h v s;
     ps \<leftarrow> pieces h fv (i + 1) n s;
     Some (p # ps)}"

lemma guest_bytes_length: "guest_bytes r s = Some bs \<Longrightarrow> strings s r = Some str \<Longrightarrow> length bs = unat (str_length str)"
  by (auto simp: guest_bytes_def dest: bytes_at_length)

lemma measure_loop_spec:
  "pieces h fv i n s = Some ps \<Longrightarrow> measure_loop h fv i n tot s = Some (Inr (tot + word_of_nat (length (concat ps))))"
proof (induction n arbitrary: i tot ps)
  case (Suc n)
  then obtain v p qs where v: "rd_val (slot_addr fv i) s = Some v" "piece h v s = Some p" "pieces h fv (i + 1) n s = Some qs"
      "ps = p # qs"
    by (auto simp: bind_eq_Some_conv)
  note IH = Suc.IH [OF v(3)]
  have "word_of_nat (length p) = (ucast (str_length str) :: u64)" if "v2_is_string_tag (tag v)" "strings s (payload v) = Some str" for str
    using that v(2) guest_bytes_length [of "payload v" s p str] by (simp add: piece_def split: if_splits)
  with v IH show ?case
    by (auto simp: piece_def guest_bytes_def add.assoc bind_eq_Some_conv split: if_splits)
qed simp

text \<open>The string operands and their bytes lie below an address.\<close>

definition strings_below :: "u64 \<Rightarrow> u32 \<Rightarrow> nat \<Rightarrow> nat \<Rightarrow> v2_state \<Rightarrow> bool" where
  "strings_below fv i n m s \<longleftrightarrow> (\<forall>k<n. \<forall>v str. vals s (slot_addr fv (i + word_of_nat k)) = Some v \<longrightarrow>
     v2_is_string_tag (tag v) \<longrightarrow> strings s (payload v) = Some str \<longrightarrow>
     unat (payload v) < m \<and> run_below (str_bytes str) 0 (unat (str_length str)) m)"

lemma strings_below_Suc:
  assumes "strings_below fv i (Suc n) m s"
  shows "vals s (slot_addr fv i) = Some v \<Longrightarrow> v2_is_string_tag (tag v) \<Longrightarrow> strings s (payload v) = Some str \<Longrightarrow>
      unat (payload v) < m \<and> run_below (str_bytes str) 0 (unat (str_length str)) m"
    and "m \<le> m' \<Longrightarrow> strings_below fv (i + 1) n m' s"
  using assms unfolding strings_below_def
proof -
  assume a: "\<forall>k<Suc n. \<forall>v str. vals s (slot_addr fv (i + word_of_nat k)) = Some v \<longrightarrow>
     v2_is_string_tag (tag v) \<longrightarrow> strings s (payload v) = Some str \<longrightarrow>
     unat (payload v) < m \<and> run_below (str_bytes str) 0 (unat (str_length str)) m"
  from a [rule_format, of 0] show "vals s (slot_addr fv i) = Some v \<Longrightarrow> v2_is_string_tag (tag v) \<Longrightarrow>
      strings s (payload v) = Some str \<Longrightarrow> unat (payload v) < m \<and> run_below (str_bytes str) 0 (unat (str_length str)) m" by simp
  assume "m \<le> m'"
  with a show "\<forall>k<n. \<forall>v str. vals s (slot_addr fv (i + 1 + word_of_nat k)) = Some v \<longrightarrow>
     v2_is_string_tag (tag v) \<longrightarrow> strings s (payload v) = Some str \<longrightarrow>
     unat (payload v) < m' \<and> run_below (str_bytes str) 0 (unat (str_length str)) m'"
    using a [rule_format, of "Suc _"] by (fastforce simp: add.assoc run_below_def)
qed

lemma below_not_in: "unat (a :: u64) < unat out \<Longrightarrow> unat out + n \<le> 2 ^ 64 \<Longrightarrow> \<not> unat (a - out) < n"
proof
  assume b: "unat a < unat out" "unat out + n \<le> 2 ^ 64" "unat (a - out) < n"
  then have "unat (out + (a - out)) = unat out + unat (a - out)" by (subst unat_plus64) simp_all
  with b(1) show False by simp
qed

lemma run_below_put:
  assumes "run_below p i n (unat out)" and "unat out + length bs \<le> 2 ^ 64"
  shows "bytes_at p i n (put_bytes out bs s) = bytes_at p i n s"
proof (rule bytes_at_cong)
  fix k
  assume "k < n"
  then have "\<not> unat (p + ucast (i + word_of_nat k) - out) < length bs"
    using assms by (intro below_not_in) (auto simp: run_below_def)
  then show "bytes (put_bytes out bs s) (p + ucast (i + word_of_nat k)) = bytes s (p + ucast (i + word_of_nat k))"
    using assms(2) by (subst put_bytes_read) simp_all
qed

lemma pieces_put:
  assumes "strings_below fv i n (unat out) s" and "unat out + length bs \<le> 2 ^ 64"
  shows "pieces h fv i n (put_bytes out bs s) = pieces h fv i n s"
  using assms(1)
proof (induction n arbitrary: i)
  case (Suc n)
  have "piece h v (put_bytes out bs s) = piece h v s" if "rd_val (slot_addr fv i) s = Some v" for v
    using strings_below_Suc(1) [OF Suc.prems] that run_below_put [OF _ assms(2), of _ 0]
    by (auto simp: piece_def guest_bytes_def rd_val_def intro!: Option.bind_cong)
  with Suc.IH [OF strings_below_Suc(2) [OF Suc.prems order.refl]] show ?case
    by (auto simp: rd_val_def intro!: Option.bind_cong)
qed simp

lemma write_loop_spec:
  assumes "pieces h fv i n s = Some ps" and "strings_below fv i n (unat out) s" and "unat out + length (concat ps) < 2 ^ 64"
  shows "write_loop h fv i n out s = Some (out + word_of_nat (length (concat ps)), put_bytes out (concat ps) s)"
  using assms
proof (induction n arbitrary: i out s ps)
  case (Suc n)
  from Suc.prems(1) obtain v p qs where v: "rd_val (slot_addr fv i) s = Some v" "piece h v s = Some p"
      "pieces h fv (i + 1) n s = Some qs" "ps = p # qs"
    by (auto simp: bind_eq_Some_conv)
  let ?out = "out + word_of_nat (length p)" and ?t = "put_bytes out p s"
  have lp: "unat out + length p < 2 ^ 64" using Suc.prems(3) v(4) by simp
  then have uo: "unat ?out = unat out + length p" by (subst unat_plus64) (simp_all add: unat_of_nat64)
  note sb = strings_below_Suc [OF Suc.prems(2)]
  have "pieces h fv (i + 1) n ?t = Some qs"
    using pieces_put [OF sb(2) [OF order.refl], of p h] v(3) lp by simp
  moreover have "strings_below fv (i + 1) n (unat ?out) ?t"
    using sb(2) [of "unat ?out"] uo by (simp add: strings_below_def)
  moreover have "unat ?out + length (concat qs) < 2 ^ 64" using Suc.prems(3) v(4) uo by simp
  ultimately have IH: "write_loop h fv (i + 1) n ?out ?t =
      Some (?out + word_of_nat (length (concat qs)), put_bytes ?out (concat qs) ?t)"
    by (rule Suc.IH)
  show ?case
  proof (cases "v2_is_string_tag (tag v)")
    case True
    with v(2) obtain str where str: "strings s (payload v) = Some str" "bytes_at (str_bytes str) 0 (unat (str_length str)) s = Some p"
      by (auto simp: piece_def guest_bytes_def bind_eq_Some_conv split: if_splits)
    have l: "length p = unat (str_length str)" using bytes_at_length [OF str(2)] .
    have "copy_bytes out (str_bytes str) 0 (unat (str_length str)) s = Some ?t"
      using copy_bytes_spec [OF str(2), of out] sb(1) [OF v(1) [unfolded rd_val_def] True str(1)] lp l unat32_less [of "str_length str"]
      by simp
    moreover have "word_of_nat (length p) = (ucast (str_length str) :: u64)" using l by simp
    ultimately show ?thesis using IH v(1,4) True str(1) by (simp add: put_bytes_append add.assoc)
  next
    case False
    with v IH show ?thesis
      by (auto simp: piece_def put_bytes_append add.assoc split: if_splits)
  qed
qed simp

lemma put_bytes_at:
  assumes "unat out + length bs < 2 ^ 64" and "length bs < 2 ^ 32"
  shows "bytes_at out 0 (length bs) (put_bytes out bs s) = Some bs"
proof -
  have "bytes (put_bytes out bs s) (out + ucast (word_of_nat k :: u32)) = Some (bs ! k)" if "k < length bs" for k
    using that assms by (subst put_bytes_read) (simp_all add: unat_of_nat32)
  then have "map (\<lambda>k. bytes (put_bytes out bs s) (out + ucast (0 + word_of_nat k :: u32))) [0..<length bs] = map Some bs"
    by (intro nth_equalityI) simp_all
  moreover have "those (map Some xs) = Some xs" for xs :: "u8 list" by (induction xs) simp_all
  ultimately show ?thesis unfolding bytes_at_def by simp
qed

subsection \<open>The opcode\<close>

lemma pieces_mapped:
  "pieces h fv i n s = Some ps \<Longrightarrow> k < n \<Longrightarrow> vals s (slot_addr fv (i + word_of_nat k)) \<noteq> None"
proof (induction n arbitrary: i k ps)
  case (Suc n)
  from Suc.prems(1) obtain qs where "vals s (slot_addr fv i) \<noteq> None" "pieces h fv (i + 1) n s = Some qs"
    by (auto simp: bind_eq_Some_conv rd_val_def)
  with Suc.IH [of "i + 1" qs] Suc.prems(2) show ?case by (cases k) (auto simp: add.assoc)
qed simp

lemma concat_tag_defined:
  assumes "frames s f = Some fr" and "pieces h (frame_values fr) (h_setlist_base h) (unat (h_setlist_count h)) s = Some ps"
    and "unat k < 10"
  shows "\<exists>t. concat_tag k h f s = Some t"
proof (cases "k + 1 \<le> h_setlist_count h")
  case True
  have "unat (k + 1) = unat k + 1" using assms(3) by (subst unat_plus32) simp_all
  with True have "unat k < unat (h_setlist_count h)" by (simp add: word_le_nat_alt)
  from pieces_mapped [OF assms(2) this] show ?thesis
    using assms(1) True by (auto simp: concat_tag_def V2_VALUE_def rd_val_def)
qed (simp add: concat_tag_def)

text \<open>The learner, once its operands can be read.\<close>

lemma concat_learner:
  assumes "learning_ok s" and "frames s f = Some fr"
    and "pieces h (frame_values fr) (h_setlist_base h) (unat (h_setlist_count h)) s = Some ps"
  obtains m where "lua55_v2l_concat h f s = concat_body h f (s\<lparr>slots := m\<rparr>)"
proof -
  have "unat (k :: u32) < 10 \<Longrightarrow> \<exists>t. concat_tag k h f s = Some t" for k
    by (rule concat_tag_defined [OF assms(2,3)])
  then obtain t where t: "unat k < 10 \<Longrightarrow> concat_tag k h f s = Some (t k)" for k by metis
  obtain m where "v2_learn_concat (h_occ_slot h) (h_setlist_count h) (t 0) (t 1) (t 2) (t 3) (t 4) s = Some (s\<lparr>slots := m\<rparr>)"
    using learn_at_cases [OF assms(1)] unfolding v2_learn_concat_def by metis
  then show thesis using that [of m] t by (simp add: lua55_v2l_concat_def)
qed

text \<open>A new string past the operands does not change them.\<close>

lemma pieces_new:
  assumes "pieces h fv i n s = Some ps" and "strings_below fv i n m s" and "m \<le> unat at" and "vals u = vals s"
    and "bytes u = bytes s" and "strings u = (strings s)(at \<mapsto> new)"
  shows "pieces h fv i n u = Some ps"
  using assms(1,2)
proof (induction n arbitrary: i ps)
  case (Suc n)
  from Suc.prems(1) obtain v p qs where v: "rd_val (slot_addr fv i) s = Some v" "piece h v s = Some p"
      "pieces h fv (i + 1) n s = Some qs" "ps = p # qs"
    by (auto simp: bind_eq_Some_conv)
  have "payload v \<noteq> at" if "v2_is_string_tag (tag v)"
    using strings_below_Suc(1) [OF Suc.prems(2) v(1) [unfolded rd_val_def] that] v(2) that assms(3)
    by (force simp: piece_def guest_bytes_def bind_eq_Some_conv split: if_splits)
  then have "piece h v u = piece h v s" using assms(5,6) by (auto simp: piece_def guest_bytes_def bytes_at_def)
  with v(2) have "piece h v u = Some p" by simp
  with Suc.IH [OF v(3) strings_below_Suc(2) [OF Suc.prems(2) order.refl]] v assms(4) show ?case
    by (simp add: rd_val_def)
qed simp

lemma strings_below_new:
  assumes "strings_below fv i n m s" and "pieces h fv i n s = Some ps" and "m \<le> unat at" and "m \<le> m'" and "vals u = vals s"
    and "strings u = (strings s)(at \<mapsto> new)"
  shows "strings_below fv i n m' u"
  using assms(1,2)
proof (induction n arbitrary: i ps)
  case 0
  show ?case by (simp add: strings_below_def)
next
  case (Suc n)
  from Suc.prems(2) obtain v qs where v: "vals s (slot_addr fv i) = Some v" "piece h v s \<noteq> None" "pieces h fv (i + 1) n s = Some qs"
    by (auto simp: bind_eq_Some_conv rd_val_def)
  note IH = Suc.IH [OF strings_below_Suc(2) [OF Suc.prems(1) order.refl] v(3)]
  have hd: "unat (payload v) < m' \<and> run_below (str_bytes str) 0 (unat (str_length str)) m'"
    if "v2_is_string_tag (tag v)" "strings u (payload v) = Some str" for str
  proof -
    from v(2) that(1) obtain old where "strings s (payload v) = Some old"
      by (auto simp: piece_def guest_bytes_def bind_eq_Some_conv split: if_splits)
    with strings_below_Suc(1) [OF Suc.prems(1) v(1) that(1)] assms(3,4,6) that(2) show ?thesis
      by (fastforce simp: run_below_def split: if_splits)
  qed
  show ?case
    unfolding strings_below_def
  proof (intro allI impI)
    fix k w str
    assume k: "k < Suc n" and w: "vals u (slot_addr fv (i + word_of_nat k)) = Some w" "v2_is_string_tag (tag w)"
        "strings u (payload w) = Some str"
    show "unat (payload w) < m' \<and> run_below (str_bytes str) 0 (unat (str_length str)) m'"
    proof (cases k)
      case 0
      with w v(1) assms(5) hd show ?thesis by simp
    next
      case (Suc l)
      with IH [unfolded strings_below_def, rule_format, of l w str] k w show ?thesis by (simp add: add.assoc)
    qed
  qed
qed

text \<open>The body, with room on the heap and without.\<close>

definition concat_room :: "u8 list list \<Rightarrow> u64" where
  "concat_room ps = SIZEOF_STRING + word_of_nat (max 1 (length (concat ps)))"

lemma concat_run:
  assumes fr: "frames s f = Some fr"
    and ps: "pieces h (frame_values fr) (h_setlist_base h) (unat (h_setlist_count h)) s = Some ps" and len: "length (concat ps) < 2 ^ 32"
    and hp: "heap_ptr (inv s) \<noteq> 0" "heaps s (heap_ptr (inv s)) = Some hp" "heap_fine hp"
    and sb: "strings_below (frame_values fr) (h_setlist_base h) (unat (h_setlist_count h)) (unat (table_next hp)) s"
    and tg: "vals s (slot_addr (frame_values fr) (h_target h)) \<noteq> None"
  obtains (full) "concat_body h f s = overflow_exit LUA55_V2_OUTCOME_HEAP_OVERFLOW 0 0 h f s"
      "unat (table_region_end hp) < unat (table_next hp) + 15 + unat (concat_room ps)"
  | (joined) at t where "concat_body h f s = Some (Next f, t)" "guest_bytes at t = Some (concat ps)"
      "vals t = (vals s)(slot_addr (frame_values fr) (h_target h) \<mapsto>
        mk_value (if length (concat ps) \<le> 40 then LUA55_VALUE_SHORT_STRING else LUA55_VALUE_LONG_STRING) at)"
      "\<And>a. unat a < unat (table_next hp) \<Longrightarrow> bytes t a = bytes s a" "\<And>r. r \<noteq> at \<Longrightarrow> strings t r = strings s r"
      "unat (table_next hp) \<le> unat at"
proof -
  let ?n = "length (concat ps)" and ?fv = "frame_values fr" and ?heap = "heap_ptr (inv s)"
  let ?tot = "word_of_nat ?n :: u64"
  have ut: "unat ?tot = ?n" using len by (simp add: unat_of_nat64)
  have "(if 0 < (word_of_nat n :: u64) then word_of_nat n else 1) = (word_of_nat (max 1 n) :: u64)" if "n < 2 ^ 32" for n
    using that unat_of_nat64 [of n] by (cases n) (auto simp: word_less_nat_alt)
  from this [OF len] have sz: "SIZEOF_STRING + (if ?tot > 0 then ?tot else 1) = concat_room ps"
    by (simp only: concat_room_def)
  have ur: "unat (concat_room ps) = 24 + max 1 ?n"
    unfolding concat_room_def using len by (subst unat_plus64) (simp_all add: unat_of_nat64 max_def)
  have reg: "table_region hp \<noteq> 0" using hp(3) by (simp add: heap_fine_def)
  have body: "concat_body h f s = V2_CONCAT_ALLOC ?tot (\<lambda>at h' f s. do {
         (out, s) \<leftarrow> write_loop h' ?fv (h_setlist_base h') (unat (h_setlist_count h)) (at + SIZEOF_STRING) s;
         s \<leftarrow> wr_ref (slot_addr ?fv (h_target h')) (string_tag_of ?tot) at s;
         LUA55_RESIDUAL_NEXT f s}) h f s"
    using hp reg fr measure_loop_spec [OF ps, of 0] by (simp add: concat_body_def with_region_def Let_def)
  have small: "unat (concat_room ps) \<le> 2 ^ 40" using ur len by simp
  show thesis
  proof (cases rule: heap_fine_bump [OF hp(3,1,2) small, case_names full block])
    case full
    have "concat_body h f s = overflow_exit LUA55_V2_OUTCOME_HEAP_OVERFLOW 0 0 h f s"
      unfolding body V2_CONCAT_ALLOC_def Let_def sz full(1) by simp
    then show thesis using full(2) by (rule that(1))
  next
    case (block at hp')
    let ?out = "at + SIZEOF_STRING"
    have b: "unat at + 24 + max 1 ?n < 2 ^ 63" using block(7) hp(3) ur by (simp add: heap_fine_def)
    then have uo: "unat ?out = unat at + 24" by (subst unat_plus64) simp_all
    obtain u where u: "new_string ?heap at ?tot (s\<lparr>heaps := (heaps s)(?heap \<mapsto> hp')\<rparr>) = Some u"
        "vals u = vals s" "bytes u = bytes s" "frames u = frames s"
        "strings u = (strings s)(at \<mapsto> \<lparr>str_length = ucast ?tot, str_hash = 0, str_bytes = ?out\<rparr>)"
      by (simp add: new_string_def)
    let ?n' = "unat (h_setlist_count h)" and ?i = "h_setlist_base h"
    have le: "unat (table_next hp) \<le> unat ?out" using block(6) uo by simp
    have "write_loop h ?fv ?i ?n' ?out u = Some (?out + ?tot, put_bytes ?out (concat ps) u)"
      by (rule write_loop_spec [OF pieces_new [OF ps sb block(6) u(2,3,5)] strings_below_new [OF sb ps block(6) le u(2,5)]])
        (use b uo in simp)
    then have run: "concat_body h f s = Some (Next f, (put_bytes ?out (concat ps) u)\<lparr>vals := (vals s)(
        slot_addr ?fv (h_target h) \<mapsto> mk_value (string_tag_of ?tot) at)\<rparr>)"
      using body sz block(1,2) u(1,2) tg by (simp add: V2_CONCAT_ALLOC_def Let_def v2_defs)
    have ls: "unat (ucast ?tot :: u32) = ?n" using len by (simp add: unat_of_nat32 unsigned_ucast_eq take_bit_nat_eq_self ut)
    have "guest_bytes at ((put_bytes ?out (concat ps) u)\<lparr>vals := x\<rparr>) = Some (concat ps)" for x
      using put_bytes_at [of ?out "concat ps" u] b uo len u(5) ls by (simp add: guest_bytes_def bytes_at_def)
    moreover have "string_tag_of ?tot = (if ?n \<le> 40 then LUA55_VALUE_SHORT_STRING else LUA55_VALUE_LONG_STRING)"
      using ut by (simp add: string_tag_of_def word_le_nat_alt)
    moreover have "bytes (put_bytes ?out (concat ps) u) a = bytes s a" if "unat a < unat (table_next hp)" for a
      using below_not_in [of a ?out ?n] that le b uo u(3) by (subst put_bytes_read) simp_all
    ultimately show thesis
      using that(2) [OF run, of at] u(5) block(6) by simp
  qed
qed

text \<open>
  C21. \<open>CONCAT\<close> joins its operands. With operands that are strings or numbers, the opcode ends: either
  its target register holds a new string, short up to 40 bytes, whose bytes are those of the
  operands one after another, and no other register, no other string and no byte below the
  allocation has changed; or the heap has no room for it, the overflow is published and no
  register has changed.
\<close>

theorem concat_joins:
  assumes "learning_ok s" and "frames s f = Some fr"
    and "pieces h (frame_values fr) (h_setlist_base h) (unat (h_setlist_count h)) s = Some ps" and "length (concat ps) < 2 ^ 32"
    and "heap_ptr (inv s) \<noteq> 0" and "heaps s (heap_ptr (inv s)) = Some hp" and "heap_fine hp"
    and "strings_below (frame_values fr) (h_setlist_base h) (unat (h_setlist_count h)) (unat (table_next hp)) s"
    and "vals s (slot_addr (frame_values fr) (h_target h)) \<noteq> None"
  shows "(\<exists>at t. lua55_v2l_concat h f s = Some (Next f, t) \<and> guest_bytes at t = Some (concat ps) \<and>
      vals t = (vals s)(slot_addr (frame_values fr) (h_target h) \<mapsto>
        mk_value (if length (concat ps) \<le> 40 then LUA55_VALUE_SHORT_STRING else LUA55_VALUE_LONG_STRING) at) \<and>
      (\<forall>a. unat a < unat (table_next hp) \<longrightarrow> bytes t a = bytes s a) \<and> (\<forall>r. r \<noteq> at \<longrightarrow> strings t r = strings s r) \<and>
      unat (table_next hp) \<le> unat at) \<or>
    (\<exists>t. lua55_v2l_concat h f s = Some (Host_exit (h_host_exit h) f, t) \<and>
      discriminant (outcome (inv t)) = LUA55_V2_OUTCOME_HEAP_OVERFLOW \<and> vals t = vals s \<and>
      unat (table_region_end hp) < unat (table_next hp) + 15 + unat (concat_room ps))"
proof -
  obtain m where run: "lua55_v2l_concat h f s = concat_body h f (s\<lparr>slots := m\<rparr>)" by (rule concat_learner [OF assms(1-3)])
  let ?s = "s\<lparr>slots := m\<rparr>"
  have "pieces h fv i n ?s = pieces h fv i n s" for fv i n
    by (induction n arbitrary: i) (simp_all add: rd_val_def piece_def guest_bytes_def bytes_at_def cong: if_cong)
  then have ps: "pieces h (frame_values fr) (h_setlist_base h) (unat (h_setlist_count h)) ?s = Some ps" using assms(3) by simp
  have sb: "strings_below (frame_values fr) (h_setlist_base h) (unat (h_setlist_count h)) (unat (table_next hp)) ?s"
    using assms(8) by (simp add: strings_below_def)
  show ?thesis
  proof (cases rule: concat_run [OF _ ps assms(4) _ _ assms(7) sb, of f, case_names fr ptr hp tg full joined])
    case full
    then show ?thesis using run by (auto simp: overflow_exit_def v2_defs upd_outcome_def upd_inv_def)
  next
    case (joined at t)
    then show ?thesis using run by auto
  qed (use assms in auto)
qed

text \<open>A string of two bytes and an integer formatted as one.\<close>

definition concat_example :: v2_state where
  "concat_example = heap_example\<lparr>
     vals := [0x500 \<mapsto> mk_value 5 0x300, 0x510 \<mapsto> mk_value 3 7],
     frames := [0x100 \<mapsto> blank_frame\<lparr>frame_values := 0x500\<rparr>],
     strings := [0x300 \<mapsto> \<lparr>str_length = 2, str_hash = 0, str_bytes = 0x318\<rparr>],
     bytes := [0x318 \<mapsto> 0x61, 0x319 \<mapsto> 0x62],
     inv := blank_invocation\<lparr>heap_ptr := 0x40\<rparr>\<rparr>"

abbreviation concat_example_holes :: holes where
  "concat_example_holes \<equiv> blank_holes\<lparr>h_setlist_count := 2, h_itoa := (\<lambda>_. [0x37])\<rparr>"

theorem concat_joins_witness:
  "\<exists>at t. lua55_v2l_concat concat_example_holes 0x100 concat_example = Some (Next 0x100, t) \<and>
    guest_bytes at t = Some [0x61, 0x62, 0x37] \<and> vals t 0x500 = Some (mk_value LUA55_VALUE_SHORT_STRING at)"
proof -
  have b: "bytes_at 0x318 0 2 concat_example = Some [0x61, 0x62]"
    by (simp add: bytes_at_def upt_rec concat_example_def)
  have p: "pieces concat_example_holes 0x500 0 (Suc (Suc 0)) concat_example = Some [[0x61, 0x62], [0x37]]"
    using b by (simp add: rd_val_def slot_addr_def concat_example_def piece_def guest_bytes_def v2_is_string_tag_def
        mk_value_def v2_itoa_fn_get_def)
  let ?hp = "the (heaps heap_example 0x40)"
  have h: "heap_ptr (inv concat_example) = 0x40" "heaps concat_example 0x40 = Some ?hp" "heap_fine ?hp" "unat (table_next ?hp) = 0x1008"
      "learning_ok concat_example" "vals concat_example 0x500 = Some (mk_value 5 0x300)"
      "frames concat_example 0x100 = Some (blank_frame\<lparr>frame_values := 0x500\<rparr>)" "unat (table_region_end ?hp) = 0x1100"
    by (simp_all add: concat_example_def heap_example_def heap_fine_def learning_ok_def blank_invocation_def)
  have sb: "strings_below 0x500 0 2 0x1008 concat_example"
    by (auto simp: strings_below_def run_below_def concat_example_def slot_addr_def less_2_cases_iff mk_value_def
        v2_is_string_tag_def)
  have r: "unat (concat_room [[0x61, 0x62], [0x37]]) = 27" by (simp add: concat_room_def)
  show ?thesis
    using concat_joins [where s = concat_example and h = concat_example_holes and f = "0x100" and
        fr = "blank_frame\<lparr>frame_values := 0x500\<rparr>" and hp = ?hp and ps = "[[0x61, 0x62], [0x37]]"]
      p [folded numeral_2_eq_2] sb h r
    by (auto simp: slot_addr_def)
qed

end
