(* ===== verification/Concat_Leaves.thy ===== *)
theory Concat_Leaves
  imports Concat
begin

text \<open>
  The staged \<open>CONCAT\<close> of the retained image (\<open>concat_measure_*\<close>, \<open>concat_allocate\<close>, \<open>concat_write_*\<close>,
  \<open>concat_finish\<close> in \<open>opcode_v2_core_stencils.c\<close>) against the learner.
\<close>

subsection \<open>Chains of fragments\<close>

text \<open>A fragment either goes on to the next one or leaves the chain.\<close>

fun run_fragments :: "(stencil \<times> holes) list \<Rightarrow> (u64 \<Rightarrow> v2_state \<Rightarrow> (control \<times> v2_state) option) \<Rightarrow>
    u64 \<Rightarrow> v2_state \<Rightarrow> (control \<times> v2_state) option" where
  "run_fragments [] k f s = k f s"
| "run_fragments ((g, h) # gs) k f s = do {
     (c, s) \<leftarrow> g h f s;
     if c = Jump (h_fragment_next h) f then run_fragments gs k f s else Some (c, s)}"

text \<open>The kinds of operands a learned vector distinguishes, and the fragments selected for each.\<close>

datatype operand_kind = Op_str | Op_int | Op_flt

fun of_kind :: "operand_kind \<Rightarrow> lua_value \<Rightarrow> bool" where
  "of_kind Op_str v \<longleftrightarrow> v2_is_string_tag (tag v) \<and> payload v \<noteq> 0"
| "of_kind Op_int v \<longleftrightarrow> tag v = LUA55_VALUE_INTEGER"
| "of_kind Op_flt v \<longleftrightarrow> tag v = LUA55_VALUE_FLOAT"

fun measure_of :: "operand_kind \<Rightarrow> stencil" where
  "measure_of Op_str = lua55_v2r_concat_measure_str"
| "measure_of Op_int = lua55_v2r_concat_measure_int"
| "measure_of Op_flt = lua55_v2r_concat_measure_flt"

fun write_of :: "operand_kind \<Rightarrow> stencil" where
  "write_of Op_str = lua55_v2r_concat_write_str"
| "write_of Op_int = lua55_v2r_concat_write_int"
| "write_of Op_flt = lua55_v2r_concat_write_flt"

primrec fragments :: "(operand_kind \<Rightarrow> stencil) \<Rightarrow> (nat \<Rightarrow> holes) \<Rightarrow> nat \<Rightarrow> operand_kind list \<Rightarrow> (stencil \<times> holes) list" where
  "fragments g H j [] = []"
| "fragments g H j (k # ks) = (g k, H j) # fragments g H (Suc j) ks"

definition staged_concat :: "operand_kind list \<Rightarrow> (nat \<Rightarrow> holes) \<Rightarrow> holes \<Rightarrow> u64 \<Rightarrow> v2_state \<Rightarrow> (control \<times> v2_state) option" where
  "staged_concat ks H h =
     run_fragments (fragments measure_of H 0 ks @ (lua55_v2r_concat_allocate, h) # fragments write_of H 0 ks)
       (lua55_v2r_concat_finish h)"

definition settle_concat :: "v2_state \<Rightarrow> v2_state" where
  "settle_concat = upd_concat (\<lambda>p. \<lparr>cc_total = 0, cc_string = 0, cc_out = 0\<rparr>)"

definition operands_of :: "holes \<Rightarrow> u64 \<Rightarrow> operand_kind list \<Rightarrow> nat \<Rightarrow> v2_state \<Rightarrow> bool" where
  "operands_of h fv ks j s \<longleftrightarrow> (\<forall>i<length ks. \<exists>v. vals s (slot_addr fv (h_setlist_base h + word_of_nat (j + i))) = Some v \<and> of_kind (ks ! i) v)"

text \<open>The holes the staging step patches into the fragments of the first \<open>n\<close> operands.\<close>

definition operand_holes :: "holes \<Rightarrow> (nat \<Rightarrow> holes) \<Rightarrow> nat \<Rightarrow> bool" where
  "operand_holes h H n \<longleftrightarrow> (\<forall>j<n. h_itoa (H j) = h_itoa h \<and> h_dtoa (H j) = h_dtoa h \<and>
     scast (h_source_disp (H j)) = (16 * ucast (h_setlist_base h + word_of_nat j) :: u64))"

lemma operands_of_Cons:
  "operands_of h fv (k # ks) j s \<longleftrightarrow>
    (\<exists>v. vals s (slot_addr fv (h_setlist_base h + word_of_nat j)) = Some v \<and> of_kind k v) \<and> operands_of h fv ks (Suc j) s"
  unfolding operands_of_def by (auto simp: All_less_Suc2 length_Cons simp del: of_nat_Suc of_nat_add)

lemma kind_tags [simp]: "\<not> v2_is_string_tag LUA55_VALUE_INTEGER" "\<not> v2_is_string_tag LUA55_VALUE_FLOAT"
  by (simp_all add: v2_is_string_tag_def)

lemma operand_read:
  assumes "operand_holes h H n" and "j < n" and "frames s f = Some fr"
  shows "rd_reg (h_source_disp (H j)) f s = vals s (slot_addr (frame_values fr) (h_setlist_base h + word_of_nat j))"
  using assms by (simp add: operand_holes_def rd_reg_def V2_VALUE_DISP_def rd_val_def slot_addr_def)

lemma formatters:
  assumes "operand_holes h H n" and "j < n"
  shows "v2_itoa_fn_get (H j) = v2_itoa_fn_get h" "v2_dtoa_fn (H j) = v2_dtoa_fn h"
  using assms by (simp_all add: operand_holes_def v2_itoa_fn_get_def [abs_def] v2_dtoa_fn_def [abs_def] cong: if_cong)

subsection \<open>Measuring\<close>

lemma measure_fragments:
  assumes H: "operand_holes h H n" and fr: "frames s f = Some fr" and "operands_of h (frame_values fr) ks j s"
    and "j + length ks \<le> n"
  shows "run_fragments (fragments measure_of H j ks @ gs) k f (upd_concat (\<lambda>p. p\<lparr>cc_total := tot\<rparr>) s) = do {
    m \<leftarrow> measure_loop h (frame_values fr) (h_setlist_base h + word_of_nat j) (length ks) tot s;
    case m of Inl e \<Rightarrow> None | Inr tot \<Rightarrow> run_fragments gs k f (upd_concat (\<lambda>p. p\<lparr>cc_total := tot\<rparr>) s)}"
  using assms(3,4)
proof (induction ks arbitrary: j tot)
  case (Cons x ks)
  have j: "j < n" "Suc j + length ks \<le> n" using Cons.prems(2) by simp_all
  let ?r = "h_setlist_base h + word_of_nat j"
  obtain v where v: "vals s (slot_addr (frame_values fr) ?r) = Some v" "of_kind x v" and ops: "operands_of h (frame_values fr) ks (Suc j) s"
    using Cons.prems by (auto simp: operands_of_Cons)
  have fr': "frames (upd_concat (\<lambda>p. p\<lparr>cc_total := tot\<rparr>) s) f = Some fr" using fr by (simp add: upd_concat_def upd_inv_def)
  have rd: "rd_reg (h_source_disp (H j)) f (upd_concat (\<lambda>p. p\<lparr>cc_total := tot\<rparr>) s) = Some v"
    unfolding operand_read [OF H j(1) fr'] using v(1) by (simp add: upd_concat_def upd_inv_def)
  have add: "add_total d (upd_concat (\<lambda>p. p\<lparr>cc_total := tot\<rparr>) s) = upd_concat (\<lambda>p. p\<lparr>cc_total := tot + d\<rparr>) s" for d
    by (simp add: add_total_def upd_concat_def upd_inv_def)
  have str: "strings (upd_concat (\<lambda>p. p\<lparr>cc_total := tot\<rparr>) s) = strings s" by (simp add: upd_concat_def upd_inv_def)
  show ?case
    using v rd Cons.IH [OF ops j(2)] formatters [OF H j(1)]
    by (cases x) (auto simp: lua55_v2r_concat_measure_str_def lua55_v2r_concat_measure_int_def lua55_v2r_concat_measure_flt_def
        V2_CONCAT_MEASURE_FRAGMENT_def V2_CONCAT_FRAGMENT_NEXT_def add str rd_val_def algebra_simps split: Option.bind_split)
qed simp

subsection \<open>Writing\<close>

lemma put_bytes_inv: "put_bytes out bs (s\<lparr>inv := v\<rparr>) = (put_bytes out bs s)\<lparr>inv := v\<rparr>"
proof (induction bs arbitrary: out s)
  case (Cons b bs)
  have "put_bytes (out + 1) bs (s\<lparr>inv := v, bytes := m\<rparr>) = (put_bytes (out + 1) bs (s\<lparr>bytes := m\<rparr>))\<lparr>inv := v\<rparr>" for m
  proof -
    have "s\<lparr>inv := v, bytes := m\<rparr> = s\<lparr>bytes := m, inv := v\<rparr>" by simp
    then show ?thesis using Cons.IH [of "out + 1" "s\<lparr>bytes := m\<rparr>"] by presburger
  qed
  then show ?case by simp
qed simp

lemma copy_bytes_inv: "copy_bytes out src j n (s\<lparr>inv := v\<rparr>) = map_option (\<lambda>t. t\<lparr>inv := v\<rparr>) (copy_bytes out src j n s)"
proof (induction n arbitrary: j s)
  case (Suc n)
  have "copy_bytes out src (j + 1) n (s\<lparr>inv := v, bytes := m\<rparr>) =
      map_option (\<lambda>t. t\<lparr>inv := v\<rparr>) (copy_bytes out src (j + 1) n (s\<lparr>bytes := m\<rparr>))" for m
  proof -
    have "s\<lparr>inv := v, bytes := m\<rparr> = s\<lparr>bytes := m, inv := v\<rparr>" by simp
    then show ?thesis using Suc.IH [of "j + 1" "s\<lparr>bytes := m\<rparr>"] by presburger
  qed
  then show ?case by (auto simp: rd_byte_def split: Option.bind_split)
qed simp

lemma copy_bytes_frame:
  assumes "copy_bytes out src j n s = Some t"
  shows "vals t = vals s" "frames t = frames s" "strings t = strings s" "inv t = inv s"
  using assms by (induction n arbitrary: j s) (force simp: bind_eq_Some_conv)+

lemma write_fragments:
  assumes H: "operand_holes h H n" and "frames s f = Some fr" and "operands_of h (frame_values fr) ks j s"
    and "j + length ks \<le> n" and "cc_out (prep_concat v) = out"
  shows "run_fragments (fragments write_of H j ks @ gs) k f (s\<lparr>inv := v\<rparr>) = do {
    (out', t) \<leftarrow> write_loop h (frame_values fr) (h_setlist_base h + word_of_nat j) (length ks) out s;
    run_fragments gs k f (t\<lparr>inv := v\<lparr>prep_concat := (prep_concat v)\<lparr>cc_out := out'\<rparr>\<rparr>\<rparr>)}"
  using assms(2-5)
proof (induction ks arbitrary: j s v out)
  case Nil
  then have "v\<lparr>prep_concat := (prep_concat v)\<lparr>cc_out := out\<rparr>\<rparr> = v" by auto
  then show ?case by simp
next
  case (Cons x ks)
  have j: "j < n" "Suc j + length ks \<le> n" using Cons.prems(3) by simp_all
  let ?r = "h_setlist_base h + word_of_nat j"
  obtain w where w: "vals s (slot_addr (frame_values fr) ?r) = Some w" "of_kind x w" and ops: "operands_of h (frame_values fr) ks (Suc j) s"
    using Cons.prems by (auto simp: operands_of_Cons)
  have "frames (s\<lparr>inv := v\<rparr>) f = Some fr" using Cons.prems(1) by simp
  from operand_read [OF H j(1) this] have rd: "rd_reg (h_source_disp (H j)) f (s\<lparr>inv := v\<rparr>) = Some w" using w(1) by simp
  have IH: "run_fragments (fragments write_of H (Suc j) ks @ gs) k f (t\<lparr>inv := v\<lparr>prep_concat := (prep_concat v)\<lparr>cc_out := o'\<rparr>\<rparr>\<rparr>) = do {
      (out', t) \<leftarrow> write_loop h (frame_values fr) (?r + 1) (length ks) o' t;
      run_fragments gs k f (t\<lparr>inv := v\<lparr>prep_concat := (prep_concat v)\<lparr>cc_out := out'\<rparr>\<rparr>\<rparr>)}"
    if "vals t = vals s" "frames t = frames s" for t o'
  proof -
    have "operands_of h (frame_values fr) ks (Suc j) t" using ops that(1) by (simp add: operands_of_def)
    moreover have "frames t f = Some fr" using Cons.prems(1) that(2) by simp
    ultimately show ?thesis
      using j(2) Cons.IH [of t "Suc j" "v\<lparr>prep_concat := (prep_concat v)\<lparr>cc_out := o'\<rparr>\<rparr>" o'] by (simp add: algebra_simps)
  qed
  show ?case
  proof (cases x)
    case Op_str
    then show ?thesis
      using w rd IH [OF copy_bytes_frame(1,2)] Cons.prems(4)
      by (cases "strings s (payload w)")
        (auto simp: lua55_v2r_concat_write_str_def V2_CONCAT_FRAGMENT_NEXT_def rd_val_def copy_bytes_inv upd_concat_def upd_inv_def
          Let_def split: Option.bind_split)
  next
    case Op_int
    then show ?thesis
      using w rd IH [of "put_bytes out _ s"] Cons.prems(4) formatters [OF H j(1)]
      by (auto simp: lua55_v2r_concat_write_int_def V2_CONCAT_WRITE_FRAGMENT_def V2_CONCAT_FRAGMENT_NEXT_def rd_val_def put_bytes_inv
          upd_concat_def upd_inv_def Let_def split: Option.bind_split)
  next
    case Op_flt
    then show ?thesis
      using w rd IH [of "put_bytes out _ s"] Cons.prems(4) formatters [OF H j(1)]
      by (auto simp: lua55_v2r_concat_write_flt_def V2_CONCAT_WRITE_FRAGMENT_def V2_CONCAT_FRAGMENT_NEXT_def rd_val_def put_bytes_inv
          upd_concat_def upd_inv_def Let_def split: Option.bind_split)
  qed
qed

lemma write_loop_frame:
  "write_loop h fv i n out s = Some (out', t) \<Longrightarrow> frames t = frames s \<and> inv t = inv s"
proof (induction n arbitrary: i out s)
  case (Suc n)
  then show ?case
    by (fastforce simp: bind_eq_Some_conv copy_bytes_frame split: if_splits dest: copy_bytes_frame(2,4))
qed simp

subsection \<open>The whole chain\<close>

lemma measure_succeeds:
  "operands_of h fv ks j s \<Longrightarrow> measure_loop h fv (h_setlist_base h + word_of_nat j) (length ks) tot s \<noteq> Some (Inl e)"
proof (induction ks arbitrary: j tot)
  case (Cons x ks)
  obtain v where v: "vals s (slot_addr fv (h_setlist_base h + word_of_nat j)) = Some v" "of_kind x v"
      and ops: "operands_of h fv ks (Suc j) s"
    using Cons.prems by (auto simp: operands_of_Cons)
  have "measure_loop h fv (h_setlist_base h + word_of_nat j + 1) (length ks) tot' s \<noteq> Some (Inl e)" for tot'
    using Cons.IH [OF ops, of tot'] by (simp add: algebra_simps)
  with v show ?case by (cases x) (auto simp: rd_val_def bind_eq_Some_conv)
qed simp

lemma bump_inv: "v2_heap_bump heap n (s\<lparr>inv := v\<rparr>) = map_option (map_prod id (\<lambda>t. t\<lparr>inv := v\<rparr>)) (v2_heap_bump heap n s)"
  by (cases "heaps s heap") (auto simp: v2_heap_bump_def Let_def)

lemma new_string_inv: "new_string heap at tot (s\<lparr>inv := v\<rparr>) = map_option (\<lambda>t. t\<lparr>inv := v\<rparr>) (new_string heap at tot s)"
  by (cases "heaps s heap") (simp_all add: new_string_def)

lemma new_string_frame: "new_string heap at tot s = Some t \<Longrightarrow> frames t = frames s \<and> vals t = vals s \<and> inv t = inv s"
  by (auto simp: new_string_def bind_eq_Some_conv)

lemma bump_frame: "v2_heap_bump heap n s = Some (at, t) \<Longrightarrow> frames t = frames s \<and> vals t = vals s \<and> inv t = inv s"
  by (cases "heaps s heap") (auto simp: v2_heap_bump_def Let_def split: if_split_asm)

text \<open>Allocating, writing and ending, after \<open>tot\<close> bytes have been measured.\<close>

lemma staged_alloc:
  assumes H: "operand_holes h H (length ks)" and fr: "frames s f = Some fr" and ops: "operands_of h (frame_values fr) ks 0 s"
    and heap: "heap_ptr (inv s) \<noteq> 0" "heaps s (heap_ptr (inv s)) = Some hp" "table_region hp \<noteq> 0"
    and tgt: "scast (h_target_disp h) = (16 * ucast (h_target h) :: u64)"
  shows "map_option (map_prod id settle_concat) (run_fragments ((lua55_v2r_concat_allocate, h) # fragments write_of H 0 ks)
      (lua55_v2r_concat_finish h) f (upd_concat (\<lambda>p. p\<lparr>cc_total := tot\<rparr>) s)) =
    map_option (map_prod id settle_concat) (V2_CONCAT_ALLOC tot (\<lambda>at h f s. do {
      (out, s) \<leftarrow> write_loop h (frame_values fr) (h_setlist_base h) (length ks) (at + SIZEOF_STRING) s;
      s \<leftarrow> wr_ref (slot_addr (frame_values fr) (h_target h)) (string_tag_of tot) at s;
      LUA55_RESIDUAL_NEXT f s}) h f s)"
proof -
  let ?v = "(inv s)\<lparr>prep_concat := (prep_concat (inv s))\<lparr>cc_total := tot\<rparr>\<rparr>"
  let ?sz = "SIZEOF_STRING + (if tot > 0 then tot else 1)" and ?heap = "heap_ptr (inv s)"
  have s1: "upd_concat (\<lambda>p. p\<lparr>cc_total := tot\<rparr>) s = s\<lparr>inv := ?v\<rparr>" by (simp add: upd_concat_def upd_inv_def)
  have al: "lua55_v2r_concat_allocate h f (s\<lparr>inv := ?v\<rparr>) = V2_CONCAT_ALLOC tot (\<lambda>at h f s.
      V2_CONCAT_FRAGMENT_NEXT h f (upd_concat (\<lambda>p. p\<lparr>cc_string := at, cc_out := at + SIZEOF_STRING\<rparr>) s)) h f (s\<lparr>inv := ?v\<rparr>)"
    using heap by (simp add: lua55_v2r_concat_allocate_def with_region_def)
  show ?thesis
  proof (cases "v2_heap_bump ?heap ?sz s")
    case (Some r)
    obtain at t where r: "r = (at, t)" by (cases r)
    note bf = bump_frame [OF Some [unfolded r]]
    show ?thesis
    proof (cases "at = 0 \<or> new_string ?heap at tot t = None")
      case True
      then show ?thesis
        unfolding s1 run_fragments.simps al using Some r bf
        by (auto simp: V2_CONCAT_ALLOC_def bump_inv new_string_inv overflow_exit_def V2_PUBLISH_OVERFLOW_def LUA55_CPS_HOST_EXIT_def
            settle_concat_def upd_concat_def upd_outcome_def upd_inv_def)
    next
      case False
      then obtain u where u: "new_string ?heap at tot t = Some u" "at \<noteq> 0" by auto
      note uf = new_string_frame [OF u(1)]
      let ?w = "?v\<lparr>prep_concat := (prep_concat ?v)\<lparr>cc_string := at, cc_out := at + SIZEOF_STRING\<rparr>\<rparr>"
      have "operands_of h (frame_values fr) ks 0 u" using ops bf uf by (simp add: operands_of_def)
      from write_fragments [OF H _ this _, of f ?w "at + SIZEOF_STRING" "[]" "lua55_v2r_concat_finish h"] fr bf uf
      have wr: "run_fragments (fragments write_of H 0 ks) (lua55_v2r_concat_finish h) f (u\<lparr>inv := ?w\<rparr>) = do {
          (out', t) \<leftarrow> write_loop h (frame_values fr) (h_setlist_base h) (length ks) (at + SIZEOF_STRING) u;
          lua55_v2r_concat_finish h f (t\<lparr>inv := ?w\<lparr>prep_concat := (prep_concat ?w)\<lparr>cc_out := out'\<rparr>\<rparr>\<rparr>)}" by simp
      have fin: "map_option (map_prod id settle_concat) (lua55_v2r_concat_finish h f (t'\<lparr>inv := ?w\<lparr>prep_concat := (prep_concat ?w)\<lparr>cc_out := out'\<rparr>\<rparr>\<rparr>)) =
          map_option (map_prod id settle_concat) (do {
            s \<leftarrow> wr_ref (slot_addr (frame_values fr) (h_target h)) (string_tag_of tot) at t'; LUA55_RESIDUAL_NEXT f s})"
        if "frames t' = frames s" "inv t' = inv s" for t' out'
        using that fr tgt
        by (auto simp: lua55_v2r_concat_finish_def V2_VALUE_DISP_def slot_addr_def wr_ref_def wr_val_def LUA55_RESIDUAL_NEXT_def Let_def
            settle_concat_def upd_concat_def upd_inv_def)
      have "run_fragments ((lua55_v2r_concat_allocate, h) # fragments write_of H 0 ks) (lua55_v2r_concat_finish h) f (s\<lparr>inv := ?v\<rparr>) =
          run_fragments (fragments write_of H 0 ks) (lua55_v2r_concat_finish h) f (u\<lparr>inv := ?w\<rparr>)"
        unfolding run_fragments.simps al using Some r u bf uf
        by (simp add: V2_CONCAT_ALLOC_def bump_inv new_string_inv V2_CONCAT_FRAGMENT_NEXT_def upd_concat_def upd_inv_def)
      then show ?thesis
        unfolding s1 wr using Some r u fin bf uf write_loop_frame [of h "frame_values fr" "h_setlist_base h" "length ks" "at + SIZEOF_STRING" u]
        by (cases "write_loop h (frame_values fr) (h_setlist_base h) (length ks) (at + SIZEOF_STRING) u")
          (auto simp: V2_CONCAT_ALLOC_def)
    qed
  qed (simp add: s1 al V2_CONCAT_ALLOC_def bump_inv)
qed

lemma learner_silent:
  assumes fr: "frames s f = Some fr" and off: "learning (inv s) = 0"
    and ops: "operands_of h (frame_values fr) ks 0 s" and n: "length ks = unat (h_setlist_count h)"
  shows "lua55_v2l_concat h f s = concat_body h f s"
proof -
  have "\<exists>t. concat_tag k h f s = Some t" if "unat k < 10" for k
  proof (cases "k + 1 \<le> h_setlist_count h")
    case True
    moreover have "unat (k + 1) = Suc (unat k)" using that by (simp add: unat_word_ariths)
    ultimately have "unat k < length ks" using n by (simp add: word_le_nat_alt)
    then obtain v where "vals s (slot_addr (frame_values fr) (h_setlist_base h + k)) = Some v"
      using ops unfolding operands_of_def by force
    then show ?thesis using fr by (simp add: concat_tag_def V2_VALUE_def rd_val_def)
  qed (simp add: concat_tag_def)
  then obtain t where "unat k < 10 \<Longrightarrow> concat_tag k h f s = Some (t k)" for k by metis
  then show ?thesis
    using off by (simp add: lua55_v2l_concat_def v2_learn_concat_def learn_at_def)
qed

text \<open>
  C27. A \<open>CONCAT\<close> staged for a learned vector of operand kinds agrees with the interpreter. The retained image runs one
  measuring fragment per operand, the allocation, one writing fragment per operand and the finish, and keeps the total, the
  string and the write pointer in the invocation between them; the learner does it all in one body. On operands of the
  learned kinds, and with the running total at zero as the finish leaves it, both take the same exit with the same machine
  state up to the scratch record: the same string with the same bytes in the same place of the heap, the target register
  bound to it, or the same overflow exit of a full heap.
\<close>

theorem staged_concat_agrees:
  assumes "frames s f = Some fr" and "learning (inv s) = 0"
    and "heap_ptr (inv s) \<noteq> 0" and "heaps s (heap_ptr (inv s)) = Some hp" and "table_region hp \<noteq> 0"
    and "length ks = unat (h_setlist_count h)" and "operands_of h (frame_values fr) ks 0 s"
    and "operand_holes h H (length ks)" and "scast (h_target_disp h) = (16 * ucast (h_target h) :: u64)"
    and "cc_total (prep_concat (inv s)) = 0"
  shows "map_option (map_prod id settle_concat) (staged_concat ks H h f s) =
    map_option (map_prod id settle_concat) (lua55_v2l_concat h f s)"
proof -
  have s: "upd_concat (\<lambda>p. p\<lparr>cc_total := 0\<rparr>) s = s"
    using assms(10) by (simp add: upd_concat_def upd_inv_def)
  let ?m = "measure_loop h (frame_values fr) (h_setlist_base h) (length ks) 0 s"
  have st: "staged_concat ks H h f s = do {
      m \<leftarrow> ?m;
      case m of Inl e \<Rightarrow> None | Inr tot \<Rightarrow> run_fragments ((lua55_v2r_concat_allocate, h) # fragments write_of H 0 ks)
        (lua55_v2r_concat_finish h) f (upd_concat (\<lambda>p. p\<lparr>cc_total := tot\<rparr>) s)}"
    using measure_fragments [OF assms(8,1,7), of _ _ 0] by (simp add: s staged_concat_def del: run_fragments.simps)
  have "?m \<noteq> Some (Inl e)" for e using measure_succeeds [OF assms(7)] by simp
  moreover note staged_alloc [OF assms(8,1,7,3-5,9)]
  moreover have "lua55_v2l_concat h f s = concat_body h f s" by (rule learner_silent [OF assms(1,2,7,6)])
  ultimately show ?thesis
    unfolding st using assms(1-6)
    by (auto simp: concat_body_def with_region_def Let_def split: Option.bind_split sum.splits)
qed

theorem staged_concat_agrees_witness:
  "map_option (map_prod id settle_concat) (staged_concat [Op_str, Op_int]
      (\<lambda>j. concat_example_holes\<lparr>h_source_disp := 16 * word_of_nat j\<rparr>) concat_example_holes 0x100 concat_example) =
    map_option (map_prod id settle_concat) (lua55_v2l_concat concat_example_holes 0x100 concat_example)"
proof (rule staged_concat_agrees [where fr = "blank_frame\<lparr>frame_values := 0x500\<rparr>" and hp = "the (heaps heap_example 0x40)"])
  show "operands_of concat_example_holes (frame_values (blank_frame\<lparr>frame_values := 0x500\<rparr>)) [Op_str, Op_int] 0 concat_example"
    by (auto simp: operands_of_def less_Suc_eq concat_example_def slot_addr_def mk_value_def v2_is_string_tag_def)
  show "operand_holes concat_example_holes (\<lambda>j. concat_example_holes\<lparr>h_source_disp := 16 * word_of_nat j\<rparr>) (length [Op_str, Op_int])"
    by (auto simp: operand_holes_def less_Suc_eq)
qed (simp_all add: concat_example_def heap_example_def blank_invocation_def blank_concat_def)

end
