(* ===== verification/Return_Leaves.thy ===== *)
theory Return_Leaves
  imports Call_Protocol
begin

text \<open>
  The return leaves of the retained image: the leaf for all results up to the top, the leaf for
  exactly one result, and the staged return (a capacity check, one fragment per result, the end).
\<close>

subsection \<open>The leaves\<close>

definition V2_RETURN_SPLIT :: "(u32 \<Rightarrow> u32 \<Rightarrow> u32) \<Rightarrow> stencil" where
  "V2_RETURN_SPLIT nres_expr h f s = do {
     source \<leftarrow> V2_VALUE_DISP (h_base_disp h) f s;
     fr \<leftarrow> frames s f;
     tp \<leftarrow> rd_top f s;
     let n = nres_expr tp (h_a h);
     let nres = (if n <s 0 then 0 else n);
     let sink = frame_sink fr;
     let fills = sink_fills sink nres;
     if sink_values sink \<noteq> 0 \<and> sink_capacity sink < sink_base sink + fills
     then call_overflow LUA55_V2_OUTCOME_VALUE_OVERFLOW (ucast (sink_base sink + fills)) (ucast (sink_capacity sink)) h f s
     else do {
       s \<leftarrow> (if sink_values sink \<noteq> 0 then publish_results nres sink source 0 s else Some s);
       leave_frame fills h f s}}"

definition lua55_v2r_ret_all :: stencil where
  "lua55_v2r_ret_all = V2_RETURN_SPLIT (\<lambda>tp A. tp - A)"

definition lua55_v2r_ret_fixed_begin :: stencil where
  "lua55_v2r_ret_fixed_begin h f s = do {
     fr \<leftarrow> frames s f;
     let sink = frame_sink fr;
     let fills = sink_fills sink (h_span h);
     if sink_values sink \<noteq> 0 \<and> sink_capacity sink < sink_base sink + fills
     then call_overflow LUA55_V2_OUTCOME_VALUE_OVERFLOW (ucast (sink_base sink + fills)) (ucast (sink_capacity sink)) h f s
     else LUA55_RESIDUAL_NEXT f s}"

text \<open>What a return does when no upvalue is open.\<close>

definition leave_closed :: "u32 \<Rightarrow> stencil" where
  "leave_closed n h f s = do {
     let s = upd_outcome (\<lambda>r. r\<lparr>discriminant := LUA55_V2_OUTCOME_RETURNED, out_result_count := n\<rparr>) s;
     fr \<leftarrow> frames s f;
     let s = (if current_frame (inv s) = f
       then upd_inv (\<lambda>i. i\<lparr>frame_next := f, current_frame := caller fr\<rparr>) s else s);
     Some (Jump (return_entry fr) (return_subject fr), s)}"

definition lua55_v2r_ret_fixed_one :: stencil where
  "lua55_v2r_ret_fixed_one h f s = do {
     source \<leftarrow> V2_VALUE_DISP (h_source_disp h) f s;
     fr \<leftarrow> frames s f;
     let sink = frame_sink fr;
     if sink_values sink \<noteq> 0 \<and> sink_count sink = 1 \<and> open_upvalues fr = 0 then
       (if sink_capacity sink < sink_base sink + 1
        then call_overflow LUA55_V2_OUTCOME_VALUE_OVERFLOW (ucast (sink_base sink + 1)) (ucast (sink_capacity sink)) h f s
        else do {
          v \<leftarrow> rd_val source s;
          s \<leftarrow> wr_val (sink_values sink) v s;
          s \<leftarrow> wr_top_at (sink_top sink) (sink_base sink + 1) s;
          leave_closed 1 h f s})
     else do {
       let needed = sink_base sink + (if 0 \<le>s sink_count sink then sink_count sink else 1);
       if sink_values sink \<noteq> 0 \<and> sink_capacity sink < needed
       then call_overflow LUA55_V2_OUTCOME_VALUE_OVERFLOW (ucast needed) (ucast (sink_capacity sink)) h f s
       else do {
         s \<leftarrow> (if sink_values sink \<noteq> 0 then do {
             s \<leftarrow> (if sink_count sink \<noteq> 0 then do {v \<leftarrow> rd_val source s; wr_val (sink_values sink) v s} else Some s);
             s \<leftarrow> (if 1 <s sink_count sink then nil_span (sink_values sink) 1 (unat (sink_count sink) - 1) s else Some s);
             wr_top_at (sink_top sink) needed s}
           else Some s);
         leave_frame (if 0 \<le>s sink_count sink then sink_count sink else 1) h f s}}}"

definition lua55_v2r_ret_fixed_slot :: stencil where
  "lua55_v2r_ret_fixed_slot h f s = do {
     source \<leftarrow> V2_VALUE_DISP (h_source_disp h) f s;
     fr \<leftarrow> frames s f;
     let sink = frame_sink fr;
     s \<leftarrow> (if sink_values sink \<noteq> 0 \<and> (sink_count sink <s 0 \<or> h_span h < sink_count sink)
           then do {v \<leftarrow> rd_val source s; wr_val (slot_addr (sink_values sink) (h_span h)) v s} else Some s);
     LUA55_RESIDUAL_NEXT f s}"

definition lua55_v2r_ret_fixed_finish :: stencil where
  "lua55_v2r_ret_fixed_finish h f s = do {
     let nres = h_span h;
     fr \<leftarrow> frames s f;
     let sink = frame_sink fr;
     let fills = (if 0 \<le>s sink_count sink then sink_count sink else nres);
     s \<leftarrow> (if sink_values sink \<noteq> 0 then do {
         s \<leftarrow> (if 0 \<le>s sink_count sink \<and> nres <s sink_count sink
               then nil_span (sink_values sink) nres (nat (sint (sink_count sink) - sint nres)) s else Some s);
         wr_top_at (sink_top sink) (sink_base sink + fills) s}
       else Some s);
     leave_frame fills h f s}"

subsection \<open>The leaves return what the learner returns\<close>

lemma copy_one: "copy_span dst 0 src j 1 s = do {v \<leftarrow> rd_val (slot_addr src j) s; wr_val dst v s}"
  by (simp add: slot_addr_def)

lemma sink_zero: "slot_addr a 0 = a"
  by (simp add: slot_addr_def)

lemma leave_closed_frame:
  "frames s f = Some fr \<Longrightarrow> open_upvalues fr = 0 \<Longrightarrow> leave_closed n h f s = leave_frame n h f s"
  by (simp add: leave_closed_def leave_frame_def close_nothing Let_def upd_outcome_def upd_inv_def)

lemma publish_one:
  "publish_results 1 sink src j s = do {
     s \<leftarrow> (if sink_count sink \<noteq> 0 then do {v \<leftarrow> rd_val (slot_addr src j) s; wr_val (sink_values sink) v s} else Some s);
     s \<leftarrow> (if 1 <s sink_count sink then nil_span (sink_values sink) 1 (unat (sink_count sink) - 1) s else Some s);
     wr_top_at (sink_top sink) (sink_base sink + (if 0 \<le>s sink_count sink then sink_count sink else 1)) s}"
proof -
  have one: "0 \<le>s (1 :: u32)" by (simp add: word_sle_eq)
  note tf = sink_takes_fills [OF one, of sink]
  consider (neg) "\<not> 0 \<le>s sink_count sink" | (zero) "sink_count sink = 0" | (pos) "0 \<le>s sink_count sink" "0 < unat (sink_count sink)"
    by (auto simp: unat_gt_0)
  then show ?thesis
  proof cases
    case neg
    then have "sink_count sink \<noteq> 0" "\<not> 1 <s sink_count sink" by (auto simp: word_sle_eq word_sless_alt)
    then show ?thesis using neg tf(5)
      by (simp add: publish_results_def Let_def copy_one [unfolded One_nat_def] sink_zero del: copy_span.simps)
  next
    case zero
    then show ?thesis by (simp add: publish_results_def Let_def sink_takes_def sink_fills_def word_sless_alt word_sle_eq)
  next
    case pos
    have t: "unat (sink_takes sink 1) = 1" using tf(4) [OF pos(1)] pos(2) by simp
    then have t1: "sink_takes sink 1 = 1" by (metis unat_1 word_unat_eq_iff)
    have g: "1 <s sink_count sink \<longleftrightarrow> 1 < unat (sink_count sink)" using nonneg_sless32 [OF one pos(1)] by simp
    have u: "unat (sink_count sink - 1) = unat (sink_count sink) - 1"
      using pos(2) by (simp add: unat_minus word_le_nat_alt)
    have z: "\<not> 1 < unat (sink_count sink) \<Longrightarrow> nil_span (sink_values sink) 1 (unat (sink_count sink) - 1) s = Some s" for s by simp
    show ?thesis using pos tf(3) [OF pos(1)] t1 z
      by (cases "1 < unat (sink_count sink)")
        (auto simp: publish_results_def Let_def copy_one [unfolded One_nat_def] sink_zero g u simp del: copy_span.simps)
  qed
qed

lemma top_frames: "wr_top_at a v s = Some t \<Longrightarrow> frames t = frames s"
  by (auto simp: wr_top_at_def split: if_splits)

lemma wr_val_frames: "wr_val a v s = Some t \<Longrightarrow> frames t = frames s"
  by (auto simp: wr_val_Some)

lemma ret_one_return1:
  assumes "scast (h_source_disp h) = (16 * ucast (h_a h) :: u64)"
  shows "lua55_v2r_ret_fixed_one h f s = lua55_cps_return1 h f s"
proof (cases "frames s f")
  case None
  then show ?thesis
    by (simp add: lua55_v2r_ret_fixed_one_def lua55_cps_return1_def V2_RETURN_IMPL_def return_body_def V2_VALUE_DISP_def)
next
  case (Some fr)
  let ?sk = "frame_sink fr" and ?src = "slot_addr (frame_values fr) (h_a h)"
  have one: "0 \<le>s (1 :: u32)" "\<not> (1 :: u32) <s 0" by (simp_all add: word_sle_eq word_sless_alt)
  have src: "V2_VALUE_DISP (h_source_disp h) f s = Some ?src" using Some assms by (simp add: V2_VALUE_DISP_def slot_addr_def)
  have fills: "sink_fills ?sk 1 = (if 0 \<le>s sink_count ?sk then sink_count ?sk else 1)"
    using sink_takes_fills(3,5) [OF one(1), of ?sk] by simp
  have fast: "(do {v \<leftarrow> rd_val ?src s; s \<leftarrow> wr_val (sink_values ?sk) v s; s \<leftarrow> wr_top_at (sink_top ?sk) (sink_base ?sk + 1) s;
        leave_closed 1 h f s}) = (do {s \<leftarrow> publish_results 1 ?sk (frame_values fr) (h_a h) s; leave_frame 1 h f s})"
    if o: "open_upvalues fr = 0" and c: "sink_count ?sk = 1"
  proof -
    have "leave_closed 1 h f u = leave_frame 1 h f u" if "frames u = frames s" for u
      using leave_closed_frame [of u f fr] o that Some by simp
    then show ?thesis using c one
      by (auto simp: publish_one word_sless_alt intro!: Option.bind_cong dest!: top_frames wr_val_frames)
  qed
  show ?thesis
    using Some src fast one(2)
    by (auto simp: lua55_v2r_ret_fixed_one_def lua55_cps_return1_def V2_RETURN_IMPL_def return_body_def fills Let_def publish_one
        one(1) cong: if_cong)
qed

text \<open>The leaf for an open number of results is the return with operand 0.\<close>

lemma publish_shift:
  assumes "0 \<le>s n" and "unat A + unat n < 2 ^ 32"
  shows "publish_results n sink (slot_addr base A) 0 s = publish_results n sink base A s"
proof -
  have "copy_span dst 0 (slot_addr base A) 0 (unat (sink_takes sink n)) s = copy_span dst 0 base A (unat (sink_takes sink n)) s" for dst
  proof (rule copy_span_shift)
    fix k assume "k < unat (sink_takes sink n)"
    then have k: "k < unat n" using sink_takes_fills(2) [OF assms(1), of sink] by linarith
    then have "unat (word_of_nat k :: u32) = k" using unat32_less [of n] by (simp add: unat_of_nat32)
    then show "slot_addr (slot_addr base A) (0 + word_of_nat k) = slot_addr base (A + word_of_nat k)"
      using k assms(2) by (simp add: slot_addr_shift)
  qed
  then show ?thesis by (simp add: publish_results_def Let_def)
qed

lemma nonneg_bound: "0 \<le>s (n :: u32) \<Longrightarrow> unat n < 2 ^ 31"
proof -
  assume "0 \<le>s n"
  then have "int (unat n) < 2 ^ 31" using sint_lt [of n] nonneg_sint32 [of n] by simp
  then show ?thesis by (metis of_nat_less_iff of_nat_numeral of_nat_power)
qed

lemma open_results:
  assumes "unat A < 2 ^ 31" and "\<not> (tp - A :: u32) <s 0"
  shows "0 \<le>s tp - A" "unat A + unat (tp - A) < 2 ^ 32"
proof -
  show nn: "0 \<le>s tp - A" using assms(2) by (simp add: word_sle_eq word_sless_alt)
  show "unat A + unat (tp - A) < 2 ^ 32" using assms(1) nonneg_bound [OF nn] by simp
qed

lemma ret_all_return:
  assumes "scast (h_base_disp h) = (16 * ucast (h_a h) :: u64)" and "h_b h = 0" and "unat (h_a h) < 2 ^ 31"
  shows "lua55_v2r_ret_all h f s = lua55_cps_return h f s"
proof (cases "frames s f")
  case None
  then show ?thesis using assms(2)
    by (cases "rd_top f s") (simp_all add: lua55_v2r_ret_all_def V2_RETURN_SPLIT_def lua55_cps_return_def V2_RETURN_B_def
        return_body_def V2_VALUE_DISP_def)
next
  case (Some fr)
  let ?sk = "frame_sink fr"
  have src: "V2_VALUE_DISP (h_base_disp h) f s = Some (slot_addr (frame_values fr) (h_a h))"
    using Some assms(1) by (simp add: V2_VALUE_DISP_def slot_addr_def)
  have pub: "publish_results (if tp - h_a h <s 0 then 0 else tp - h_a h) ?sk (slot_addr (frame_values fr) (h_a h)) 0 s =
      publish_results (if tp - h_a h <s 0 then 0 else tp - h_a h) ?sk (frame_values fr) (h_a h) s" for tp
    using publish_shift [of 0 "h_a h"] open_results [OF assms(3), of tp] publish_shift [of "tp - h_a h" "h_a h"] unat32_less [of "h_a h"]
    by (auto simp: word_sle_eq)
  show ?thesis
    using Some src assms(2)
    by (simp add: lua55_v2r_ret_all_def V2_RETURN_SPLIT_def lua55_cps_return_def V2_RETURN_B_def return_body_def Let_def pub
        cong: if_cong)
qed

subsection \<open>The staged return\<close>

text \<open>The fragments of a return of \<open>n\<close> results: \<open>H k\<close> are the holes of the \<open>k\<close>-th slot fragment.\<close>

primrec ret_slots :: "(nat \<Rightarrow> holes) \<Rightarrow> nat \<Rightarrow> u64 \<Rightarrow> v2_state \<Rightarrow> v2_state option" where
  "ret_slots H 0 f s = Some s"
| "ret_slots H (Suc n) f s = do {
     s \<leftarrow> ret_slots H n f s;
     (c, s) \<leftarrow> lua55_v2r_ret_fixed_slot (H n) f s;
     if c = Next f then Some s else None}"

definition staged_return :: "holes \<Rightarrow> (nat \<Rightarrow> holes) \<Rightarrow> holes \<Rightarrow> u64 \<Rightarrow> v2_state \<Rightarrow> (control \<times> v2_state) option" where
  "staged_return hb H he f s = do {
     (c, s) \<leftarrow> lua55_v2r_ret_fixed_begin hb f s;
     if c \<noteq> Next f then Some (c, s)
     else do {
       s \<leftarrow> ret_slots H (unat (h_span hb)) f s;
       lua55_v2r_ret_fixed_finish he f s}}"

text \<open>The holes the staging step patches into the slot fragments.\<close>

definition slot_holes :: "u32 \<Rightarrow> (nat \<Rightarrow> holes) \<Rightarrow> nat \<Rightarrow> bool" where
  "slot_holes A H n \<longleftrightarrow> (\<forall>k<n. h_span (H k) = word_of_nat k \<and>
     scast (h_source_disp (H k)) = (16 * ucast (A + word_of_nat k) :: u64))"

lemma ret_slots_copy:
  assumes fr: "frames s f = Some fr" and H: "slot_holes A H n" and n: "n < 2 ^ 31"
    and sk: "sink_values (frame_sink fr) \<noteq> 0" "sink_count (frame_sink fr) = c"
  shows "ret_slots H n f s = copy_span (sink_values (frame_sink fr)) 0 (frame_values fr) A
    (if 0 \<le>s c then min n (unat c) else n) s"
  using H n
proof (induction n)
  case (Suc n)
  let ?m = "if 0 \<le>s c then min n (unat c) else n" and ?d = "sink_values (frame_sink fr)"
  have IH: "ret_slots H n f s = copy_span ?d 0 (frame_values fr) A ?m s"
    using Suc by (simp add: slot_holes_def)
  have h: "h_span (H n) = word_of_nat n" "scast (h_source_disp (H n)) = (16 * ucast (A + word_of_nat n) :: u64)"
    using Suc.prems(1) by (simp_all add: slot_holes_def)
  have u: "unat (word_of_nat n :: u32) = n" using Suc.prems(2) by (simp add: unat_of_nat32)
  have lt: "word_of_nat n < c \<longleftrightarrow> n < unat c" using u by (simp add: word_less_nat_alt)
  have neg: "c <s 0 \<longleftrightarrow> \<not> 0 \<le>s c" by (simp add: word_sle_eq word_sless_alt not_le)
  have frag: "lua55_v2r_ret_fixed_slot (H n) f t = (if 0 \<le>s c \<and> \<not> n < unat c then Some (Next f, t) else do {
      v \<leftarrow> rd_val (slot_addr (frame_values fr) (A + word_of_nat n)) t;
      t \<leftarrow> wr_val (slot_addr ?d (word_of_nat n)) v t; Some (Next f, t)})" if "frames t f = Some fr" for t
    using that sk h lt neg
    by (auto simp: lua55_v2r_ret_fixed_slot_def V2_VALUE_DISP_def slot_addr_def LUA55_RESIDUAL_NEXT_def Let_def)
  have keep: "frames t f = Some fr" if "copy_span ?d 0 (frame_values fr) A ?m s = Some t" for t
    using copy_span_vals [OF that] fr by auto
  show ?case
  proof (cases "0 \<le>s c \<and> \<not> n < unat c")
    case True
    then have "(if 0 \<le>s c then min (Suc n) (unat c) else Suc n) = ?m" by auto
    then show ?thesis using True frag keep IH by (auto intro!: Option.bind_cong simp: bind_eq_Some_conv cong: Option.bind_cong)
  next
    case False
    then have "(if 0 \<le>s c then min (Suc n) (unat c) else Suc n) = Suc n" "?m = n" by auto
    then show ?thesis
      using False frag keep IH by (auto simp: copy_span_snoc simp del: copy_span.simps intro!: Option.bind_cong)
  qed
qed simp

lemma ret_slots_nothing:
  assumes "frames s f = Some fr" and "sink_values (frame_sink fr) = 0"
  shows "ret_slots H n f s = Some s"
  using assms by (induction n) (simp_all add: lua55_v2r_ret_fixed_slot_def V2_VALUE_DISP_def LUA55_RESIDUAL_NEXT_def Let_def)

lemma leave_frame_holes: "leave_frame n h = leave_frame n h'"
  by (simp add: leave_frame_def fun_eq_iff)

lemma nat_int_diff: "nat (int a - int b) = a - b"
  by arith

lemma finish_publishes:
  assumes n: "0 \<le>s n" and fr: "frames t f = Some fr" "sink_values (frame_sink fr) \<noteq> 0" and h: "h_span he = n"
  shows "lua55_v2r_ret_fixed_finish he f t = (do {
     t \<leftarrow> (if 0 \<le>s sink_count (frame_sink fr) then nil_span (sink_values (frame_sink fr)) (sink_takes (frame_sink fr) n)
         (unat (sink_count (frame_sink fr) - sink_takes (frame_sink fr) n)) t else Some t);
     t \<leftarrow> wr_top_at (sink_top (frame_sink fr)) (sink_base (frame_sink fr) + sink_fills (frame_sink fr) n) t;
     leave_frame (sink_fills (frame_sink fr) n) he f t})"
proof -
  let ?sk = "frame_sink fr" and ?c = "sink_count (frame_sink fr)"
  note tf = sink_takes_fills [OF n, of ?sk]
  show ?thesis
  proof (cases "0 \<le>s ?c")
    case False
    then show ?thesis using tf(5) fr h by (simp add: lua55_v2r_ret_fixed_finish_def Let_def)
  next
    case True
    show ?thesis
    proof (cases "n <s ?c")
      case l: True
      then have lt: "unat n < unat ?c" using nonneg_sless32 [OF n True] by simp
      then have "unat (sink_takes ?sk n) = unat n" using tf(4) [OF True] by simp
      then have tk: "sink_takes ?sk n = n" by (simp add: word_unat_eq_iff)
      have "nat (sint ?c - sint n) = unat (?c - n)"
        using lt by (simp only: nonneg_sint32 [OF True] nonneg_sint32 [OF n] nat_int_diff) (simp add: unat_minus word_le_nat_alt)
      then show ?thesis using True l tk tf(3) [OF True] fr h by (simp add: lua55_v2r_ret_fixed_finish_def Let_def)
    next
      case l: False
      then have "unat ?c \<le> unat n" using nonneg_sless32 [OF n True] by simp
      then have "unat (sink_takes ?sk n) = unat ?c" using tf(4) [OF True] by simp
      then have tk: "sink_takes ?sk n = ?c" by (simp add: word_unat_eq_iff)
      then show ?thesis using True l tf(3) [OF True] fr h by (simp add: lua55_v2r_ret_fixed_finish_def Let_def)
    qed
  qed
qed

lemma staged_return_body:
  assumes n: "0 \<le>s h_span hb" "h_span he = h_span hb"
    and H: "slot_holes (h_a h) H (unat (h_span hb))" and hb: "h_pc hb = h_pc h" "h_host_exit hb = h_host_exit h"
  shows "staged_return hb H he f s = return_body (h_span hb) h f s"
proof -
  let ?n = "h_span hb"
  have nn: "\<not> ?n <s 0" "unat ?n < 2 ^ 31"
    using n(1) nonneg_bound [OF n(1)] by (simp_all add: word_sle_eq word_sless_alt)
  show ?thesis
  proof (cases "frames s f")
    case None
    then show ?thesis by (simp add: staged_return_def lua55_v2r_ret_fixed_begin_def return_body_def)
  next
    case (Some fr)
    let ?sk = "frame_sink fr"
    let ?over = "sink_values ?sk \<noteq> 0 \<and> sink_capacity ?sk < sink_base ?sk + sink_fills ?sk ?n"
    have b: "lua55_v2r_ret_fixed_begin hb f s = (if ?over
        then call_overflow LUA55_V2_OUTCOME_VALUE_OVERFLOW (ucast (sink_base ?sk + sink_fills ?sk ?n)) (ucast (sink_capacity ?sk)) h f s
        else Some (Next f, s))"
      using Some hb by (simp add: lua55_v2r_ret_fixed_begin_def call_overflow_def LUA55_RESIDUAL_NEXT_def LUA55_CPS_HOST_EXIT_def Let_def)
    show ?thesis
    proof (cases ?over)
      case True
      then show ?thesis using Some b nn
        by (simp add: staged_return_def return_body_def Let_def call_overflow_def LUA55_CPS_HOST_EXIT_def)
    next
      case False
      then have st: "staged_return hb H he f s = ret_slots H (unat ?n) f s \<bind> lua55_v2r_ret_fixed_finish he f"
        using b [unfolded if_not_P [OF False]] by (simp add: staged_return_def)
      show ?thesis
      proof (cases "sink_values ?sk = 0")
        case True
        then show ?thesis
          using Some nn st n(2) ret_slots_nothing [OF Some True] sink_takes_fills(3,5) [OF n(1), of ?sk] leave_frame_holes [of _ he h]
          by (simp add: return_body_def lua55_v2r_ret_fixed_finish_def Let_def)
      next
        case sv: False
        have "(if 0 \<le>s sink_count ?sk then min (unat ?n) (unat (sink_count ?sk)) else unat ?n) = unat (sink_takes ?sk ?n)"
          using sink_takes_fills(4,5) [OF n(1), of ?sk] by (auto simp: min.commute)
        then have "ret_slots H (unat ?n) f s = copy_span (sink_values ?sk) 0 (frame_values fr) (h_a h) (unat (sink_takes ?sk ?n)) s"
          using ret_slots_copy [OF Some H nn(2) sv refl] by simp
        moreover have "lua55_v2r_ret_fixed_finish he f t = (do {
           t \<leftarrow> (if 0 \<le>s sink_count ?sk then nil_span (sink_values ?sk) (sink_takes ?sk ?n)
               (unat (sink_count ?sk - sink_takes ?sk ?n)) t else Some t);
           t \<leftarrow> wr_top_at (sink_top ?sk) (sink_base ?sk + sink_fills ?sk ?n) t; leave_frame (sink_fills ?sk ?n) h f t})"
          if "copy_span (sink_values ?sk) 0 (frame_values fr) (h_a h) (unat (sink_takes ?sk ?n)) s = Some t" for t
          using finish_publishes [OF n(1) _ sv n(2), of t] copy_span_vals [OF that] Some
          by (simp add: leave_frame_holes [of _ he h]) auto
        ultimately show ?thesis using Some nn False sv st
          by (auto simp: return_body_def publish_results_def Let_def intro!: Option.bind_cong)
      qed
    qed
  qed
qed

text \<open>
  C25. The return leaves. The fragments of a staged return of \<open>n\<close> results, one per result between the
  capacity check and the end, do exactly what \<open>RETURN\<close> of \<open>n\<close> results does, in every state: the
  overflow, results past the ones the sink wants, nil for the ones missing and undefined
  behaviour included. So do the leaf for one result and the leaf for all results up to the top.
\<close>

theorem return_leaves_agree:
  assumes n: "h_b h = h_span hb + 1" "0 \<le>s h_span hb" "h_span he = h_span hb"
    and H: "slot_holes (h_a h) H (unat (h_span hb))" and hb: "h_pc hb = h_pc h" "h_host_exit hb = h_host_exit h"
    and h1: "scast (h_source_disp h1) = (16 * ucast (h_a h1) :: u64)"
    and ha: "scast (h_base_disp ha) = (16 * ucast (h_a ha) :: u64)" "h_b ha = 0" "unat (h_a ha) < 2 ^ 31"
  shows "staged_return hb H he f s = lua55_cps_return h f s \<and> lua55_v2r_ret_fixed_one h1 f s = lua55_cps_return1 h1 f s \<and>
    lua55_v2r_ret_all ha f s = lua55_cps_return ha f s"
proof -
  have "h_b h \<noteq> 0" using n by (auto simp: eq_neg_iff_add_eq_0 [symmetric] word_sle_eq)
  then have "lua55_cps_return h f s = return_body (h_span hb) h f s"
    using n(1) by (simp add: lua55_cps_return_def V2_RETURN_B_def)
  then show ?thesis
    using staged_return_body [OF n(2,3) H hb] ret_one_return1 [OF h1] ret_all_return [OF ha] by simp
qed

text \<open>A frame whose two results go to a sink that wants three.\<close>

definition return_example :: v2_state where
  "return_example = blank_state\<lparr>
     frames := [0x100 \<mapsto> blank_frame\<lparr>frame_values := 0x1000, return_entry := 0x77, return_subject := 0x40,
       frame_sink := \<lparr>sink_values = 0x2000, sink_top = 0x68, sink_base = 0, sink_count = 3, sink_capacity = 4\<rparr>\<rparr>],
     tops := [0x68 \<mapsto> 0],
     vals := [0x1000 \<mapsto> mk_value 3 1, 0x1010 \<mapsto> mk_value 3 2, 0x2000 \<mapsto> mk_value 2 0, 0x2010 \<mapsto> mk_value 2 0,
       0x2020 \<mapsto> mk_value 2 0]\<rparr>"

theorem return_leaves_agree_witness:
  "staged_return (blank_holes\<lparr>h_span := 2\<rparr>) (\<lambda>k. blank_holes\<lparr>h_span := word_of_nat k, h_source_disp := 16 * word_of_nat k\<rparr>)
     (blank_holes\<lparr>h_span := 2\<rparr>) 0x100 return_example = lua55_cps_return (blank_holes\<lparr>h_b := 3\<rparr>) 0x100 return_example"
proof -
  have "slot_holes 0 (\<lambda>k. blank_holes\<lparr>h_span := word_of_nat k, h_source_disp := 16 * word_of_nat k\<rparr>) 2"
    by (auto simp: slot_holes_def dest!: less_2_cases)
  then show ?thesis
    using return_leaves_agree [of "blank_holes\<lparr>h_b := 3\<rparr>" "blank_holes\<lparr>h_span := 2\<rparr>" "blank_holes\<lparr>h_span := 2\<rparr>"
        "\<lambda>k. blank_holes\<lparr>h_span := word_of_nat k, h_source_disp := 16 * word_of_nat k\<rparr>" blank_holes blank_holes "0x100" return_example]
    by (simp add: word_sle_eq)
qed

end
