(* ===== verification/Call_Leaves.thy ===== *)
theory Call_Leaves
  imports Return_Leaves
begin

text \<open>
  The staged native call of \<open>opcode_v2_core_stencils.c\<close> (\<open>V2_CALL_FIXED_PREPARE\<close>, one \<open>call_fixed_arg_slot\<close> per
  argument, \<open>call_fixed_finish\<close>) and the one-argument leaf, against the whole call of \<open>lua55_v2l_call\<close>.
\<close>

subsection \<open>The fragments of a call\<close>

primrec call_slots :: "(nat \<Rightarrow> holes) \<Rightarrow> nat \<Rightarrow> u64 \<Rightarrow> v2_state \<Rightarrow> v2_state option" where
  "call_slots H 0 f s = Some s"
| "call_slots H (Suc n) f s = do {
     s \<leftarrow> call_slots H n f s;
     (c, s) \<leftarrow> lua55_v2r_call_fixed_arg_slot (H n) f s;
     if c = Next f then Some s else None}"

definition staged_call :: "u32 \<Rightarrow> holes \<Rightarrow> (nat \<Rightarrow> holes) \<Rightarrow> holes \<Rightarrow> u64 \<Rightarrow> v2_state \<Rightarrow> (control \<times> v2_state) option" where
  "staged_call va hp H he f s = do {
     (c, s) \<leftarrow> V2_CALL_FIXED_PREPARE va hp f s;
     if c \<noteq> Next f then Some (c, s)
     else do {
       s \<leftarrow> call_slots H (unat (h_arg_count hp)) f s;
       lua55_v2r_call_fixed_finish he f s}}"

text \<open>The holes the staging step patches into the argument fragments.\<close>

definition arg_holes :: "u32 \<Rightarrow> (nat \<Rightarrow> holes) \<Rightarrow> nat \<Rightarrow> bool" where
  "arg_holes A H n \<longleftrightarrow> slot_holes (A + 1) H n \<and> (\<forall>k<n. scast (h_target_disp (H k)) = (16 * word_of_nat k :: u64))"

text \<open>The scratch record of the call is no part of what the program can see.\<close>

definition settle_call :: "v2_state \<Rightarrow> v2_state" where
  "settle_call = upd_inv (\<lambda>i. i\<lparr>prep_call := blank_call\<rparr>)"

lemma inv_vals: "(s :: v2_state)\<lparr>vals := m, inv := v\<rparr> = s\<lparr>inv := v, vals := m\<rparr>"
  by simp

lemma copy_span_inv: "copy_span dst i src j n (s\<lparr>inv := v\<rparr>) = map_option (\<lambda>t. t\<lparr>inv := v\<rparr>) (copy_span dst i src j n s)"
proof (induction n arbitrary: i j s)
  case (Suc n)
  have "copy_span dst (i + 1) src (j + 1) n (s\<lparr>inv := v, vals := m\<rparr>) =
      map_option (\<lambda>t. t\<lparr>inv := v\<rparr>) (copy_span dst (i + 1) src (j + 1) n (s\<lparr>vals := m\<rparr>))" for m
    using Suc.IH [of "i + 1" "j + 1" "s\<lparr>vals := m\<rparr>"] by (simp add: inv_vals)
  then show ?case by (auto simp: rd_val_def wr_val_def split: Option.bind_split)
qed simp

lemma nil_span_inv: "nil_span base i n (s\<lparr>inv := v\<rparr>) = map_option (\<lambda>t. t\<lparr>inv := v\<rparr>) (nil_span base i n s)"
proof (induction n arbitrary: i s)
  case (Suc n)
  have "nil_span base (i + 1) n (s\<lparr>inv := v, vals := m\<rparr>) =
      map_option (\<lambda>t. t\<lparr>inv := v\<rparr>) (nil_span base (i + 1) n (s\<lparr>vals := m\<rparr>))" for m
    using Suc.IH [of "i + 1" "s\<lparr>vals := m\<rparr>"] by (simp add: inv_vals)
  then show ?case by (auto simp: wr_tag_def rd_val_def wr_val_def split: Option.bind_split)
qed simp

subsection \<open>The argument fragments are the copying of the call\<close>

lemma call_slots_copy:
  assumes fr: "frames s f = Some fr" and cfr: "frames s cf = Some cfr" "pc_callee (prep_call (inv s)) = cf"
    and H: "arg_holes A H n" and n: "n < 2 ^ 32"
    and np: "np = pc_nparams (prep_call (inv s))"
  shows "call_slots H n f s = do {
     s \<leftarrow> copy_span (frame_values cfr) 0 (frame_values fr) (A + 1) (min n (unat np)) s;
     copy_span (slot_addr (frame_values cfr) (value_capacity cfr)) 0 (frame_values fr) (A + 1 + np)
       (if 0 < vararg_count cfr then n - unat np else 0) s}"
  using H n
proof (induction n)
  case (Suc n)
  let ?fv = "frame_values fr" and ?cv = "frame_values cfr" and ?sl = "slot_addr (frame_values cfr) (value_capacity cfr)"
  let ?k = "word_of_nat n :: u32"
  have h: "h_span (H n) = ?k" "scast (h_source_disp (H n)) = (16 * ucast (A + 1 + ?k) :: u64)"
      "scast (h_target_disp (H n)) = (16 * word_of_nat n :: u64)"
    using Suc.prems(1) by (auto simp: arg_holes_def slot_holes_def)
  have uk: "unat ?k = n" using Suc.prems(2) by (simp add: unat_of_nat32)
  have ck: "ucast ?k = (word_of_nat n :: u64)" by (metis of_nat_unat uk)
  have ih: "call_slots H n f s = do {
     s \<leftarrow> copy_span ?cv 0 ?fv (A + 1) (min n (unat np)) s;
     copy_span ?sl 0 ?fv (A + 1 + np) (if 0 < vararg_count cfr then n - unat np else 0) s}"
    using Suc by (simp add: arg_holes_def slot_holes_def)
  have slot: "lua55_v2r_call_fixed_arg_slot (H n) f (s\<lparr>vals := m\<rparr>) = do {
      t \<leftarrow> (if n < unat np then do {v \<leftarrow> rd_val (slot_addr ?fv (A + 1 + ?k)) (s\<lparr>vals := m\<rparr>); wr_val (slot_addr ?cv ?k) v (s\<lparr>vals := m\<rparr>)}
         else if 0 < vararg_count cfr then do {
           v \<leftarrow> rd_val (slot_addr ?fv (A + 1 + ?k)) (s\<lparr>vals := m\<rparr>); wr_val (slot_addr ?sl (?k - np)) v (s\<lparr>vals := m\<rparr>)}
         else Some (s\<lparr>vals := m\<rparr>));
      Some (Next f, t)}" for m
    using fr cfr h uk ck np
    by (simp add: lua55_v2r_call_fixed_arg_slot_def V2_VALUE_DISP_def V2_VALUE_BASE_DISP_def LUA55_RESIDUAL_NEXT_def Let_def
        slot_addr_def word_less_nat_alt cong: if_cong)
  have step: "lua55_v2r_call_fixed_arg_slot (H n) f (s\<lparr>vals := m\<rparr>) \<bind> (\<lambda>(c, s). if c = Next f then Some s else None) =
      (if n < unat np then do {v \<leftarrow> rd_val (slot_addr ?fv (A + 1 + ?k)) (s\<lparr>vals := m\<rparr>); wr_val (slot_addr ?cv ?k) v (s\<lparr>vals := m\<rparr>)}
       else if 0 < vararg_count cfr then do {
         v \<leftarrow> rd_val (slot_addr ?fv (A + 1 + ?k)) (s\<lparr>vals := m\<rparr>); wr_val (slot_addr ?sl (?k - np)) v (s\<lparr>vals := m\<rparr>)}
       else Some (s\<lparr>vals := m\<rparr>))" for m
    unfolding slot by (simp split: Option.bind_split)
  show ?case
  proof (cases "n < unat np")
    case True
    then have m: "min n (unat np) = n" "min (Suc n) (unat np) = Suc n" "n - unat np = 0" "Suc n - unat np = 0" by simp_all
    show ?thesis
      unfolding call_slots.simps ih m copy_span_snoc using step True
      by (cases "copy_span ?cv 0 ?fv (A + 1) n s") (auto dest!: copy_span_vals)
  next
    case False
    then have m: "min n (unat np) = unat np" "min (Suc n) (unat np) = unat np" "Suc n - unat np = Suc (n - unat np)" by simp_all
    have w: "word_of_nat (n - unat np) = ?k - np" using False by (simp add: of_nat_diff)
    have "copy_span ?sl 0 ?fv (A + 1 + np) (Suc (n - unat np)) t = do {
        u \<leftarrow> copy_span ?sl 0 ?fv (A + 1 + np) (n - unat np) t;
        v \<leftarrow> rd_val (slot_addr ?fv (A + 1 + ?k)) u; wr_val (slot_addr ?sl (?k - np)) v u}" for t
      unfolding copy_span_snoc w by (simp add: algebra_simps)
    then show ?thesis
      unfolding call_slots.simps ih m using step False
      by (cases "copy_span ?cv 0 ?fv (A + 1) (unat np) s"; cases "0 < vararg_count cfr";
          cases "copy_span ?sl 0 ?fv (A + 1 + np) (n - unat np) (the (copy_span ?cv 0 ?fv (A + 1) (unat np) s))")
        (auto simp del: copy_span.simps(2) dest!: copy_span_vals)
  qed
qed simp

text \<open>Missing parameters and extra arguments exclude each other, so it does not matter which comes first.\<close>

lemma pass_args_staged:
  assumes "varargs = extra_args va desc nargs"
  shows "do {
      s \<leftarrow> copy_span dst 0 src j (min (unat nargs) (unat (numparams desc))) s;
      s \<leftarrow> copy_span (slot_addr dst (desc_value_capacity desc)) 0 src (j + numparams desc)
        (if 0 < varargs then unat nargs - unat (numparams desc) else 0) s;
      nil_span dst nargs (if nargs < numparams desc then unat (numparams desc - nargs) else 0) s} =
    pass_args dst src j desc nargs varargs s"
proof (cases "nargs < numparams desc")
  case True
  then have "varargs = 0" "min (unat nargs) (unat (numparams desc)) = unat nargs"
    using assms by (auto simp: extra_args_def word_less_nat_alt)
  then show ?thesis using True by (simp add: pass_args_def fixed_args_def)
next
  case False
  then have m: "min (unat nargs) (unat (numparams desc)) = unat (numparams desc)" by (simp add: word_less_nat_alt)
  have "unat varargs = (if 0 < varargs then unat nargs - unat (numparams desc) else 0)"
    using assms unat_minus [of "numparams desc" nargs] False by (auto simp: extra_args_def not_less)
  then show ?thesis using False m by (simp add: pass_args_def fixed_args_def Let_def)
qed

lemma pass_args_inv:
  "pass_args dst src j desc nargs varargs (s\<lparr>inv := v\<rparr>) = map_option (\<lambda>t. t\<lparr>inv := v\<rparr>) (pass_args dst src j desc nargs varargs s)"
  by (cases "copy_span dst 0 src j (unat (fixed_args desc nargs)) s")
    (auto simp: pass_args_def Let_def copy_span_inv nil_span_inv split: Option.bind_split)

lemma staged_args:
  assumes fr: "frames s f = Some fr" "frames s cf = Some cfr" and prep: "prep_call (inv s) = \<lparr>pc_callee = cf,
      pc_entry = e, pc_next_frame = nf, pc_nparams = numparams desc, pc_nargs = nargs\<rparr>"
    and cfr: "value_capacity cfr = desc_value_capacity desc" "vararg_count cfr = extra_args va desc nargs"
    and H: "arg_holes A H (unat nargs)"
  shows "call_slots H (unat nargs) f s \<bind> lua55_v2r_call_fixed_finish he f = do {
    s \<leftarrow> pass_args (frame_values cfr) (frame_values fr) (A + 1) desc nargs (extra_args va desc nargs) s;
    Some (Jump e cf, upd_inv (\<lambda>i. i\<lparr>frame_next := nf, current_frame := cf\<rparr>) s)}"
proof -
  let ?copy = "do {
      t \<leftarrow> copy_span (frame_values cfr) 0 (frame_values fr) (A + 1) (min (unat nargs) (unat (numparams desc))) s;
      copy_span (slot_addr (frame_values cfr) (desc_value_capacity desc)) 0 (frame_values fr) (A + 1 + numparams desc)
        (if 0 < extra_args va desc nargs then unat nargs - unat (numparams desc) else 0) t}"
  have c: "call_slots H (unat nargs) f s = ?copy"
    by (rule call_slots_copy [OF fr(1,2) _ H unat32_less, of "numparams desc", unfolded cfr]) (simp_all only: prep prepared_call.simps)
  have fin: "lua55_v2r_call_fixed_finish he f t = do {
      t \<leftarrow> nil_span (frame_values cfr) nargs (if nargs < numparams desc then unat (numparams desc - nargs) else 0) t;
      Some (Jump e cf, upd_inv (\<lambda>i. i\<lparr>frame_next := nf, current_frame := cf\<rparr>) t)}" if "?copy = Some t" for t
  proof -
    from that obtain m where "t = s\<lparr>vals := m\<rparr>" by (auto simp: bind_eq_Some_conv dest!: copy_span_vals)
    then show ?thesis using fr(2) prep by (simp add: lua55_v2r_call_fixed_finish_def Let_def)
  qed
  have "call_slots H (unat nargs) f s \<bind> lua55_v2r_call_fixed_finish he f = ?copy \<bind> (\<lambda>t. do {
      t \<leftarrow> nil_span (frame_values cfr) nargs (if nargs < numparams desc then unat (numparams desc - nargs) else 0) t;
      Some (Jump e cf, upd_inv (\<lambda>i. i\<lparr>frame_next := nf, current_frame := cf\<rparr>) t)})"
    unfolding c using fin by (cases ?copy) (simp_all del: bind_assoc)
  then show ?thesis unfolding pass_args_staged [OF refl, symmetric] by simp
qed

lemma put_frame_inv: "put_frame cf v fr (upd_inv g s) = (put_frame cf v fr s)\<lparr>inv := g (inv s)\<rparr>"
  by (simp add: put_frame_def upd_inv_def)

lemma prepared_native:
  assumes fr: "frames s f = Some fr" and ne: "frame_next (inv s) \<noteq> f" and H: "arg_holes (h_a h) H (unat (h_arg_count hp))"
    and hp: "h_a hp = h_a h" "h_continuation hp = h_continuation h" "h_pc hp = h_pc h" "h_host_exit hp = h_host_exit h"
    and guard: "\<And>k. V2_CALL_GUARD_NATIVE_CELL va v k hp f s = k closure desc hp f s"
    and callee: "V2_VALUE_DISP (h_base_disp hp) f s = Some callee" "rd_val callee s = Some v"
  shows "map_option (map_prod id settle_call) (staged_call va hp H he f s) =
    map_option (map_prod id settle_call) (enter_native closure desc (va \<noteq> 0) (h_arg_count hp) (frame_values fr) (h_a h + 1)
      (call_sink callee (h_a h) (h_result_count hp) f fr) h f s)"
proof -
  let ?n = "h_arg_count hp" and ?cf = "frame_next (inv s)"
  let ?va = "extra_args (va \<noteq> 0) desc ?n"
  let ?bytes = "frame_bytes desc ?va"
  let ?cfr = "new_frame closure desc ?va ?cf f (h_continuation h) (call_sink callee (h_a h) (h_result_count hp) f fr)"
  let ?s = "put_frame ?cf (min_top ?n desc) ?cfr s"
  let ?p = "\<lparr>pc_callee = ?cf, pc_entry = desc_entry desc, pc_next_frame = ?cf + ?bytes, pc_nparams = numparams desc, pc_nargs = ?n\<rparr>"
  let ?v = "(inv s)\<lparr>prep_call := ?p\<rparr>"
  have over: "call_overflow k need avail hp f s = call_overflow k need avail h f s" for k need avail
    using hp by (simp add: call_overflow_def LUA55_CPS_HOST_EXIT_def)
  have args: "call_slots H (unat ?n) f (?s\<lparr>inv := ?v\<rparr>) \<bind> lua55_v2r_call_fixed_finish he f = do {
      s \<leftarrow> pass_args (?cf + SIZEOF_FRAME) (frame_values fr) (h_a h + 1) desc ?n ?va (?s\<lparr>inv := ?v\<rparr>);
      Some (Jump (desc_entry desc) ?cf, upd_inv (\<lambda>i. i\<lparr>frame_next := ?cf + ?bytes, current_frame := ?cf\<rparr>) s)}"
    using staged_args [of "?s\<lparr>inv := ?v\<rparr>" f fr ?cf ?cfr "desc_entry desc" "?cf + ?bytes" desc ?n "va \<noteq> 0" "h_a h" H he] fr ne H
    by (simp add: put_frame_def new_frame_def)
  consider (slots) "value_capacity fr < h_a h + 1 + ?n" | (stack) "\<not> value_capacity fr < h_a h + 1 + ?n" "frame_end (inv s) < ?cf + ?bytes"
    | (room) "\<not> value_capacity fr < h_a h + 1 + ?n" "\<not> frame_end (inv s) < ?cf + ?bytes" by blast
  then show ?thesis
  proof cases
    case room
    have "staged_call va hp H he f s = call_slots H (unat ?n) f (?s\<lparr>inv := ?v\<rparr>) \<bind> lua55_v2r_call_fixed_finish he f"
      using room fr callee hp
      by (simp add: staged_call_def V2_CALL_FIXED_PREPARE_def guard Let_def LUA55_RESIDUAL_NEXT_def upd_inv_def put_frame_def)
    moreover have "enter_native closure desc (va \<noteq> 0) ?n (frame_values fr) (h_a h + 1) (call_sink callee (h_a h) (h_result_count hp) f fr) h f s = do {
        s \<leftarrow> pass_args (?cf + SIZEOF_FRAME) (frame_values fr) (h_a h + 1) desc ?n ?va (?s\<lparr>inv := (inv s)\<lparr>frame_next := ?cf + ?bytes\<rparr>\<rparr>);
        Some (Jump (desc_entry desc) ?cf, upd_inv (\<lambda>i. i\<lparr>current_frame := ?cf\<rparr>) s)}"
      using room fr by (simp add: enter_native_def Let_def put_frame_inv)
    ultimately show ?thesis
      unfolding args pass_args_inv
      by (cases "pass_args (?cf + SIZEOF_FRAME) (frame_values fr) (h_a h + 1) desc ?n ?va ?s")
        (auto simp: settle_call_def upd_inv_def)
  qed (use fr callee hp over in \<open>simp_all add: staged_call_def V2_CALL_FIXED_PREPARE_def guard enter_native_def Let_def
      call_overflow_def LUA55_CPS_HOST_EXIT_def\<close>)
qed

text \<open>
  C26. The staged call. Its fragments (the checks and the new frame, one fragment per argument, the missing
  parameters and the jump) do to the machine exactly what \<open>CALL\<close> of the same native function with the
  same number of arguments does, in every state: overflows of either kind, missing parameters, extra
  arguments and undefined behaviour included. Only the scratch record of the fragments differs.
\<close>

theorem staged_call_agrees:
  assumes "call_ops h f s = Some (Native closure desc)" and "is_vararg desc = va"
    and "h_b h = h_arg_count hp + 1" "h_arg_count hp < 0xFFFFFF" and "h_result_count hp = h_c h - 1"
    and "h_a hp = h_a h" "h_continuation hp = h_continuation h" "h_pc hp = h_pc h" "h_host_exit hp = h_host_exit h"
    and "scast (h_base_disp hp) = (16 * ucast (h_a h) :: u64)" and "arg_holes (h_a h) H (unat (h_arg_count hp))"
    and "learning (inv s) = 0" and "frame_next (inv s) \<noteq> f"
  shows "map_option (map_prod id settle_call) (staged_call va hp H he f s) =
    map_option (map_prod id settle_call) (lua55_v2l_call h f s)"
proof -
  obtain fr v where o: "frames s f = Some fr" "rd_val (slot_addr (frame_values fr) (h_a h)) s = Some v"
      "classify v s = Some (Native closure desc)"
    using assms(1) by (auto simp: call_ops_def bind_eq_Some_conv)
  have g: "V2_CALL_GUARD_NATIVE_CELL va v k hp f s = k closure desc hp f s" for k
    using guard_native(1) [OF o(3), of va hp k f] assms(2) by (simp add: native_of_def)
  have b: "V2_VALUE_DISP (h_base_disp hp) f s = Some (slot_addr (frame_values fr) (h_a h))"
    using o(1) assms(10) by (simp add: V2_VALUE_DISP_def slot_addr_def)
  have "V2_CALL_NARGS_GENERIC (h_a h) (h_b h) f s = Some (h_arg_count hp)"
    using assms(3,4) leD [of "0xFFFFFF" "h_arg_count hp"] by (auto simp: V2_CALL_NARGS_GENERIC_def)
  then have "lua55_v2l_call h f s = enter_native closure desc (va \<noteq> 0) (h_arg_count hp) (frame_values fr) (h_a h + 1)
      (call_sink (slot_addr (frame_values fr) (h_a h)) (h_a h) (h_result_count hp) f fr) h f s"
    using o assms(2,5,12) by (simp add: lua55_v2l_call_def v2_learn_callee_def learn_at_def)
  then show ?thesis
    using prepared_native [OF o(1) assms(13,11,6-9) g b o(2)] by simp
qed

text \<open>The call of the example, in four fragments: two arguments for one parameter and the varargs.\<close>

definition staged_call_holes :: holes where
  "staged_call_holes = blank_holes\<lparr>h_a := 0, h_arg_count := 2, h_result_count := 1, h_continuation := 0x77\<rparr>"

theorem staged_call_agrees_witness:
  "map_option (map_prod id settle_call) (staged_call 1 staged_call_holes
      (\<lambda>k. blank_holes\<lparr>h_span := word_of_nat k, h_source_disp := 16 * (1 + word_of_nat k), h_target_disp := 16 * word_of_nat k\<rparr>)
      blank_holes 0x100 call_example) = map_option (map_prod id settle_call) (lua55_v2l_call call_holes 0x100 call_example)"
proof -
  let ?H = "\<lambda>k. blank_holes\<lparr>h_span := word_of_nat k, h_source_disp := 16 * (1 + word_of_nat k), h_target_disp := 16 * word_of_nat k\<rparr>"
  have "arg_holes 0 ?H 2" by (auto simp: arg_holes_def slot_holes_def dest!: less_2_cases)
  moreover have "call_ops call_holes 0x100 call_example = Some (Native 0x800 call_desc)"
    using call_example_facts(1) by (simp add: can_call_def Let_def)
  ultimately show ?thesis
    using staged_call_agrees [of call_holes "0x100" call_example "0x800" call_desc 1 staged_call_holes ?H blank_holes]
      call_example_facts(4)
    by (simp add: staged_call_holes_def call_holes_def call_example_def)
qed

end
