(* ===== verification/Spec2Isabelle.thy ===== *)
theory Spec2Isabelle
  imports V1_Bank Comparison Value_Types Super_Calls Retained_Leaves Concat_Leaves Call_Leaves
begin

text \<open>
  Verification of the Lua 5.5 native runner in \<open>src/experiments/copy_patch_cps/lua55_trace\<close>.

  \<^bold>\<open>The program.\<close> The runner executes Lua bytecode by copying precompiled code templates, the
  stencils of \<open>opcode_v2_core_stencils.c\<close>, into an arena, patching their holes with operands and
  addresses, and chaining them by tail calls. A first invocation runs learners (\<open>lua55_v2l_*\<close>),
  which decide on operand tags at run time and record them in one learning slot per bytecode
  occurrence; later invocations run residual leaves (\<open>lua55_v2r_*\<close>), each selected for one recorded
  shape, guarded by it, and leaving through a mismatch exit when the shape is no longer there.
  Opcodes without a type decision have one generic stencil (\<open>lua55_v2_*\<close>). Values, guest objects,
  frames and the invocation record are laid out in \<open>opcode_value_v2.h\<close> and \<open>opcode_value_tags.h\<close>.

  \<^bold>\<open>The model.\<close> A stencil is a function from the patched holes, the frame pointer and the machine
  state to an optional pair of a control transfer and a new state. The state is an explicit store:
  one partial map from 64-bit addresses per C object type, so sharing and aliasing of registers,
  cells, tables and vectors is that of the code, and an operand that is read again after a write to
  the target is read again in the model. \<open>None\<close> is undefined behaviour (a read or write of an
  address that holds no object of that type); rejects, overflows and mismatches are values,
  written to the outcome record as the code does and followed by the exit jump. Integers are words
  of the width of the source; doubles are 64-bit words with IEEE-754 arithmetic defined on them
  (round to nearest, ties to even).

  \<^bold>\<open>The theories\<close>, in the order of their imports, and the part of the code each models:
  \<^item> \<open>Prelude\<close>, \<open>Ieee_Double\<close>: words, options, spans of addresses; binary64 arithmetic.
  \<^item> \<open>Numeric\<close>: the helpers of lines 118 to 362 (\<open>v2_flt_to_int\<close>, mixed comparisons, \<open>v2_idiv\<close>, \<open>v2_mod\<close>,
    \<open>v2_shiftl\<close>, \<open>v2_fmod\<close>, \<open>v2_pow\<close>). Floor division, shifts and the mixed comparisons are proved
    against their mathematical meaning, with the exact exception at \<open>-2^63\<close>.
  \<^item> \<open>Machine\<close>: the records and tags of the two headers, the holes, the control transfers.
  \<^item> \<open>Spans\<close>, \<open>Movement\<close>: runs of registers; opcodes 0 to 10 and the closing of upvalues, proved to end
    and to keep what every cell reads.
  \<^item> \<open>Learning\<close>, \<open>Specialization\<close>: the learning slots; the contract \<open>residual_leaf\<close> between a learner and a
    leaf, as a locale, and the simulation of a learning image by the retained image.
  \<^item> \<open>Arithmetic\<close>, \<open>Unary\<close>, \<open>Comparison\<close>, \<open>Strings\<close>, \<open>Value_Types\<close>: opcodes 21 to 52 and 57 to 67; the
    leaves meet the contract, but for the power leaves of two integers, which are proved to differ
    from their learner; the table length, \<open>TEST\<close>, \<open>TESTSET\<close> and the mixed \<open>EQ\<close> leaves are modelled without
    it. Strings compare as their bytes, and the tag of an arithmetic result is determined by the
    tags of its operands.
  \<^item> \<open>Closures\<close>: the bump allocator \<open>v2_heap_bump\<close> and the \<open>CLOSURE\<close> leaves; blocks stay inside the region and
    apart, and captures of one register share one cell.
  \<^item> \<open>Tables\<close>, \<open>Table_Map\<close>, \<open>Array_Part\<close>, \<open>Table_Leaves\<close>, \<open>Table_Residuals\<close>: opcodes 11 to 20, \<open>SETLIST\<close>,
    growth of the field vector and of the array; both parts of a table are proved to implement
    finite maps under any sequence of stores (for the array, at keys from 1 to \<open>2^31\<close>), which fail only
    on a full heap, through one locale with two interpretations, and the hot and cold leaf pairs
    of \<open>SETTABLE\<close> do what the learners do, but for those that store a string constant and skip the
    barrier.
  \<^item> \<open>Loops\<close>, \<open>Fused_Loops\<close>, \<open>Fused_Tables\<close>: the numeric \<open>for\<close> loop runs its body with exactly the right
    indices, and the fused stencils leave the very state of the instructions they replace.
  \<^item> \<open>Generic_For\<close>: \<open>TFORPREP\<close>, \<open>TFORCALL\<close>, \<open>TFORLOOP\<close>, \<open>CLOSE\<close>, \<open>TBC\<close>, \<open>ERRNNIL\<close>; one round of the loop, and which
    cells \<open>CLOSE\<close> closes.
  \<^item> \<open>Calls\<close>, \<open>Call_Protocol\<close>, \<open>Call_Leaves\<close>, \<open>Return_Leaves\<close>, \<open>Super_Calls\<close>, \<open>Varargs\<close>: calls, tail calls and
    returns, whole and staged one fragment per value; the callee's frame, the way back, the
    varargs, and what a tail call loses of them when it copies them over themselves; the staged
    call and the staged return do what the whole ones do.
  \<^item> \<open>Retained_Leaves\<close>: the contract for constant loads, \<open>LOADNIL\<close>, \<open>VARARG\<close>, \<open>GETVARG\<close> and the generic-for call.
  \<^item> \<open>Concat\<close>, \<open>Concat_Leaves\<close>: \<open>CONCAT\<close>, whole and staged; the result is the concatenation of the
    operands' bytes, and the staged chain of fragments does what the learner does.
  \<^item> \<open>V1_Machine\<close>, \<open>V1_Replay\<close>, \<open>V1_Effects\<close>: the first generation of the runner (\<open>opcode_value_v1.h\<close>): its frame,
    recording slots and exits; the contract \<open>replayed_leaf\<close> between a learner and the residual that its
    quote selects, as a locale, the replay of a block, and the contract for the common shape of a
    learner, which reads, decides, records and writes.
  \<^item> \<open>V1_Numeric\<close>, \<open>V1_Arithmetic\<close>, \<open>V1_Comparison\<close>, \<open>V1_Movement\<close>, \<open>V1_Unary\<close>, \<open>V1_Loops\<close>: the learners, residuals and
    self-selecting stencils (\<open>lua55_poly_*\<close>) of \<open>opcode_arith\<close>, \<open>pow\<close>, \<open>compare\<close>, \<open>00_08\<close>, \<open>09_10\<close>, \<open>string\<close>, \<open>jmp\<close>,
    \<open>link\<close>, \<open>vararg\<close>, \<open>tfor\<close>, \<open>close\<close>, \<open>unary\<close> and \<open>for\<close>; the helpers of the two generations agree.
  \<^item> \<open>V1_Arith_Replay\<close>, \<open>V1_Compare_Replay\<close>, \<open>V1_Move_Replay\<close>, \<open>V1_Bank\<close>: every residual of the first-generation bank
    replays its learner, up to the dead payload of nil and booleans, so the residuals selected by
    the quotes of a block do what the block did. Four learners choose their quote from the operand's
    tag after they have written the target, so their rows ask for a target apart from the
    operand; what they record in place, and where else bank and learners disagree, is proved too.

  This theory collects the leaves of the second generation in one bank and proves that a retained image built from the
  bank refines the learning image.

  \<^bold>\<open>Loops and bounds.\<close> Counted loops of the code are primitive recursion on their trip count. The loops
  and the recursion without a static bound are \<open>partial_function (option)\<close>: the walks along the open
  cells (\<open>find_open\<close>, \<open>close_chain\<close>, \<open>close_from\<close>), the field search that calls itself after growing
  (\<open>v2_find_field\<close>), the doubling of a capacity (\<open>double_capacity\<close>) and the float cycle of a fused loop
  (\<open>flt_cycle\<close>). For all but the last, which Lua allows to run for ever, that they end is part of
  the theorems: for a finite chain of cells, a well-formed field vector, a request of at most
  \<open>2^31\<close> elements. No fuel occurs in a statement.

  \<^bold>\<open>Parameters.\<close> \<open>pow\<close> and the two number formatters are reached through patched pointers; they are
  fields of the holes, arbitrary functions, and no theorem assumes a law about them.

  \<^bold>\<open>Not modelled.\<close> The inline assembly that keeps holes in registers has no effect on values. Adjacent
  objects of different types never overlap in the model, so the layout arithmetic of the arena
  is visible in addresses only. The retired concat leaves inside \<open>#if 0\<close> are never compiled. The
  first-generation stencils of tables, calls, closures, iterators and \<open>CONCAT\<close> (\<open>opcode_table\<close>, \<open>generic_table\<close>,
  \<open>call\<close>, \<open>closure\<close>, \<open>iter\<close>, \<open>setlist\<close>, \<open>concat\<close>) are superseded by the V2 core, where these opcodes are modelled; the copy-and-patch prototypes, the \<open>cblock\<close> programs and the
  shadow JIT are separate experiments; \<open>mlui_amalgam.c\<close> is compiler output; \<open>lalin.c\<close> only calls a
  library. The compiler and the driver that select and patch stencils are Lua; what they
  guarantee appears as hypotheses on holes and as the bank.
\<close>

subsection \<open>The bank\<close>

text \<open>Learners with their leaves, the shape each leaf is selected for, and what its holes must satisfy.\<close>

definition bank :: "((stencil \<times> stencil) \<times> (holes \<Rightarrow> u64 \<Rightarrow> v2_state \<Rightarrow> bool) \<times> (holes \<Rightarrow> bool)) list" where
  "bank = arith_bank @ unary_bank @ cmp_bank @ loop_bank @ fused_bank @ call_bank @ table_bank @ generic_bank"

lemma bank_refines: "((l, r), q, p) \<in> set bank \<Longrightarrow> residual_leaf l r q p"
  unfolding bank_def set_append
  by (elim UnE) (rule arith_bank_refines unary_bank_refines cmp_bank_refines loop_bank_refines fused_bank_refines
      call_bank_refines table_bank_refines generic_bank_refines, assumption)+

text \<open>
  C1. Specialization is sound. For any program whose occurrences come from the bank, every
  execution of the retained image is an execution of the learning image up to the learning
  region, unless the learning image reaches an occurrence whose operands no longer have the
  recorded shape.
\<close>

theorem retained_image_refines:
  assumes "\<And>pc l r h succ. P pc = Some ((l, r), h, succ) \<Longrightarrow>
      \<exists>q p. ((l, r), q, p) \<in> set bank \<and> p h \<and> shapes pc = q h"
    and "config_ok C"
    and "image_run (retained_image P) (forget_config C) E"
  shows "(\<exists>D. image_run (learning_image P) C D \<and> E = forget_config D) \<or>
         (\<exists>D. image_run (learning_image P) C D \<and> leaf_mismatches P D \<and> \<not> shaped shapes D)"
proof -
  have sp: "specialized P shapes"
    unfolding specialized_def
  proof (intro allI impI)
    fix pc l r h succ
    assume "P pc = Some ((l, r), h, succ)"
    from assms(1) [OF this] obtain q p where "((l, r), q, p) \<in> set bank" "p h" "shapes pc = q h"
      by blast
    then show "\<exists>q p. residual_leaf l r q p \<and> p h \<and> shapes pc = q h"
      using bank_refines by blast
  qed
  from run_refines [OF assms(3) sp assms(2)] shaped_no_mismatch [OF sp] show ?thesis by blast
qed

text \<open>A one-instruction program, \<open>R0 := R0 + R1\<close>, run to its successor.\<close>

definition add_program :: program where
  "add_program = [0x40 \<mapsto> ((lua55_v2l_add, lua55_v2r_add_ii), second_right, 0x50)]"

definition add_shapes :: shapes where
  "add_shapes pc = operand_tags LUA55_VALUE_INTEGER LUA55_VALUE_INTEGER V2_PRO_RR second_right"

theorem retained_image_refines_witness:
  "\<exists>E. image_run (retained_image add_program) (At 0x40 0x100 (forget two_ints)) E \<and>
    E = At 0x50 0x100 (forget (two_ints\<lparr>vals := (vals two_ints)(0x1000 \<mapsto> mk_value 3 12)\<rparr>)) \<and>
    ((\<exists>D. image_run (learning_image add_program) (At 0x40 0x100 two_ints) D \<and> E = forget_config D) \<or>
     (\<exists>D. image_run (learning_image add_program) (At 0x40 0x100 two_ints) D \<and>
        leaf_mismatches add_program D \<and> \<not> shaped add_shapes D))"
proof -
  let ?E = "At 0x50 0x100 (forget (two_ints\<lparr>vals := (vals two_ints)(0x1000 \<mapsto> mk_value 3 12)\<rparr>))"
  have "image_step (retained_image add_program) (At 0x40 0x100 (forget two_ints)) = Some ?E"
    using add_ii.on_product(1) [OF TrueI two_ints_run(3,2,1)]
    by (simp add: retained_image_def add_program_def)
  then have run: "image_run (retained_image add_program) (forget_config (At 0x40 0x100 two_ints)) ?E"
    by (auto intro: image_run.intros)
  have "\<exists>q p. ((l, r), q, p) \<in> set bank \<and> p h \<and> add_shapes pc = q h"
    if "add_program pc = Some ((l, r), h, succ)" for pc l r h succ
    using that
    by (intro exI [of _ "operand_tags LUA55_VALUE_INTEGER LUA55_VALUE_INTEGER V2_PRO_RR"] exI [of _ any_holes])
      (auto simp: add_program_def add_shapes_def bank_def arith_bank_def split: if_splits)
  from retained_image_refines [of add_program add_shapes, OF this _ run] two_ints_run(3) run
  show ?thesis by auto
qed

end
